(* ===== verification/Prelude.thy ===== *)
theory Prelude
  imports Main
begin

text \<open>
  Shared vocabulary of the development: strings as byte lists, the decimal notation both
  languages print and parse, splitting at a separator, substrings, and the fact collections
  the component theories extend.

  A program string (an OCaml \<open>string\<close>, a Go \<open>string\<close> or \<open>[]byte\<close>) is a \<open>string\<close>,
  that is a list of 8-bit characters; its length counts bytes, as both languages do.
\<close>

named_theorems check_simps \<open>characterisations of validators\<close>
named_theorems io_unfold \<open>definitional unfoldings of the effectful operations\<close>
named_theorems trace_intros \<open>rules of the trace logic\<close>

section \<open>Characters and substrings\<close>

type_synonym bytes = string

definition CR :: char where "CR = CHR 0x0D"
definition LF :: char where "LF = CHR 0x0A"

lemma CR_neq_LF [simp]: "CR \<noteq> LF" "LF \<noteq> CR"
  by (simp_all add: CR_def LF_def)

abbreviation crlf :: string where "crlf \<equiv> [CR, LF]"

definition code :: "char \<Rightarrow> nat" where
  "code c = of_char c"

lemma code_inject [simp]: "code a = code b \<longleftrightarrow> a = b"
  by (simp add: code_def)

lemma code_bound: "code c < 256"
proof -
  have "(of_char c :: nat) mod 256 < 256" by (rule mod_less_divisor) simp
  then show ?thesis by (simp add: code_def)
qed

lemma code_Char [simp]: "code (Char b0 b1 b2 b3 b4 b5 b6 b7) = of_char (Char b0 b1 b2 b3 b4 b5 b6 b7)"
  by (simp add: code_def)

lemma code_line_break [simp]: "code CR = 13" "code LF = 10"
  by (simp_all add: CR_def LF_def)

lemma line_break_neq [simp]:
  "code c \<noteq> 13 \<Longrightarrow> c \<noteq> CR" "code c \<noteq> 10 \<Longrightarrow> c \<noteq> LF"
  by auto

text \<open>\<open>String.sub s first len\<close> and \<open>s[first:first+len]\<close>, for ranges inside the string.\<close>

definition sub :: "string \<Rightarrow> nat \<Rightarrow> nat \<Rightarrow> string" where
  "sub s first len = take len (drop first s)"

lemma length_sub: "first + len \<le> length s \<Longrightarrow> length (sub s first len) = len"
  by (simp add: sub_def)

lemma sub_append_left [simp]: "sub (a @ b) 0 (length a) = a"
  by (simp add: sub_def)

lemma sub_append_right [simp]: "sub (a @ b) (length a) (length b) = b"
  by (simp add: sub_def)

lemma sub_all [simp]: "sub s 0 (length s) = s"
  by (simp add: sub_def)

text \<open>\<open>String.index_opt\<close>: the position of the first occurrence of a character.\<close>

fun index_opt :: "string \<Rightarrow> char \<Rightarrow> nat option" where
  "index_opt [] c = None"
| "index_opt (x # xs) c = (if x = c then Some 0 else map_option Suc (index_opt xs c))"

lemma index_opt_None [simp]: "index_opt s c = None \<longleftrightarrow> c \<notin> set s"
  by (induction s) auto

lemma index_opt_absent [simp]: "c \<notin> set s \<Longrightarrow> index_opt s c = None"
  by simp

lemma index_opt_append [simp]: "c \<notin> set a \<Longrightarrow> index_opt (a @ c # b) c = Some (length a)"
  by (induction a) auto

lemma index_opt_SomeD:
  "index_opt s c = Some i \<Longrightarrow> i < length s \<and> s ! i = c \<and> c \<notin> set (take i s)"
  by (induction s arbitrary: i) (auto split: if_splits)

text \<open>ASCII lower case, as \<open>String.lowercase_ascii\<close> maps each byte.\<close>

definition lower_char :: "char \<Rightarrow> char" where
  "lower_char c = (if 65 \<le> code c \<and> code c \<le> 90 then char_of (code c + 32) else c)"

definition lowercase_ascii :: "string \<Rightarrow> string" where
  "lowercase_ascii s = map lower_char s"

lemma code_lower_char:
  "code (lower_char c) = (if 65 \<le> code c \<and> code c \<le> 90 then code c + 32 else code c)"
  by (simp add: lower_char_def code_def)

lemma lower_char_idem [simp]: "lower_char (lower_char c) = lower_char c"
  using code_lower_char [of c] by (auto simp: lower_char_def split: if_splits)

lemma lowercase_ascii_idem [simp]: "lowercase_ascii (lowercase_ascii s) = lowercase_ascii s"
  by (simp add: lowercase_ascii_def)

lemma length_lowercase_ascii [simp]: "length (lowercase_ascii s) = length s"
  by (simp add: lowercase_ascii_def)

section \<open>Splitting at a separator\<close>

text \<open>
  \<open>String.split_on_char c s\<close> of OCaml and \<open>strings.Split(s, c)\<close> of Go: always at least one
  field, empty fields kept.
\<close>

fun split_on :: "char \<Rightarrow> string \<Rightarrow> string list" where
  "split_on c [] = [[]]"
| "split_on c (x # xs) =
     (if x = c then [] # split_on c xs
      else (case split_on c xs of [] \<Rightarrow> [[x]] | w # ws \<Rightarrow> (x # w) # ws))"

fun join :: "char \<Rightarrow> string list \<Rightarrow> string" where
  "join c [] = []"
| "join c [w] = w"
| "join c (w # ws) = w @ c # join c ws"

lemma split_on_not_Nil [simp]: "split_on c s \<noteq> []"
  by (induction s) (auto split: list.splits)

lemma join_Cons_ne: "ws \<noteq> [] \<Longrightarrow> join c (w # ws) = w @ c # join c ws"
  by (cases ws) auto

lemma join_split_on [simp]: "join c (split_on c s) = s"
proof (induction s)
  case (Cons x s)
  obtain w ws where "split_on c s = w # ws" by (cases "split_on c s") auto
  with Cons show ?case by (cases ws) (auto simp: join_Cons_ne)
qed simp

lemma split_on_fields: "w \<in> set (split_on c s) \<Longrightarrow> c \<notin> set w"
  by (induction s arbitrary: w) (auto split: list.splits if_splits)

lemma split_on_plain [simp]: "c \<notin> set w \<Longrightarrow> split_on c w = [w]"
  by (induction w) auto

lemma split_on_append [simp]: "c \<notin> set w \<Longrightarrow> split_on c (w @ c # s) = w # split_on c s"
  by (induction w) auto

lemma length_split_on: "length (split_on c s) = Suc (count_list s c)"
  by (induction s) (auto split: list.splits)

section \<open>Decimal notation\<close>

definition digit :: "nat \<Rightarrow> char" where
  "digit d = char_of (48 + d)"

definition is_digit :: "char \<Rightarrow> bool" where
  "is_digit c \<longleftrightarrow> 48 \<le> code c \<and> code c \<le> 57"

definition digit_value :: "char \<Rightarrow> nat" where
  "digit_value c = code c - 48"

lemma code_digit [simp]: "d < 10 \<Longrightarrow> code (digit d) = 48 + d"
  by (simp add: digit_def code_def)

lemma is_digit_digit [simp]: "d < 10 \<Longrightarrow> is_digit (digit d)"
  by (simp add: is_digit_def)

lemma digit_value_digit [simp]: "d < 10 \<Longrightarrow> digit_value (digit d) = d"
  by (simp add: digit_value_def)

fun show_nat :: "nat \<Rightarrow> string" where
  "show_nat n = (if n < 10 then [digit n] else show_nat (n div 10) @ [digit (n mod 10)])"

declare show_nat.simps [simp del]

definition show_int :: "int \<Rightarrow> string" where
  "show_int i = (if i < 0 then CHR ''-'' # show_nat (nat (- i)) else show_nat (nat i))"

lemma show_nat_digits: "c \<in> set (show_nat n) \<Longrightarrow> is_digit c"
proof (induction n rule: show_nat.induct)
  case (1 n)
  then show ?case by (cases "n < 10") (auto simp: show_nat.simps [of n])
qed

lemma show_nat_not_Nil [simp]: "show_nat n \<noteq> []"
  by (simp add: show_nat.simps [of n])

text \<open>
  The loop both the packet reader and the codec run over a length or an id: digits only, and
  no intermediate value above \<open>limit\<close>.
\<close>

fun parse_dec :: "nat \<Rightarrow> nat \<Rightarrow> string \<Rightarrow> nat option" where
  "parse_dec limit parsed [] = Some parsed"
| "parse_dec limit parsed (c # cs) =
     (if \<not> is_digit c then None
      else if int parsed > (int limit - int (digit_value c)) div 10 then None
      else parse_dec limit (parsed * 10 + digit_value c) cs)"

definition dec_value :: "nat \<Rightarrow> string \<Rightarrow> nat" where
  "dec_value acc s = foldl (\<lambda>v c. v * 10 + digit_value c) acc s"

lemma dec_value_simps [simp]:
  "dec_value acc [] = acc"
  "dec_value acc (c # cs) = dec_value (acc * 10 + digit_value c) cs"
  "dec_value acc (cs @ [c]) = dec_value acc cs * 10 + digit_value c"
  by (simp_all add: dec_value_def)

lemma dec_value_ge: "acc \<le> dec_value acc s"
proof (induction s arbitrary: acc)
  case (Cons c s)
  show ?case using Cons [of "acc * 10 + digit_value c"] by simp
qed simp

lemma parse_dec_guard:
  "(int p > (int l - int d) div 10) \<longleftrightarrow> p * 10 + d > l"
  by linarith

text \<open>The guarded loop computes the exact value or refuses; it never wraps.\<close>

lemma parse_dec_eq:
  "acc \<le> limit \<Longrightarrow> parse_dec limit acc s =
     (if (\<forall>c \<in> set s. is_digit c) \<and> dec_value acc s \<le> limit then Some (dec_value acc s) else None)"
proof (induction s arbitrary: acc)
  case (Cons c s)
  show ?case
  proof (cases "is_digit c \<and> acc * 10 + digit_value c \<le> limit")
    case True
    with Cons.IH [of "acc * 10 + digit_value c"] show ?thesis
      by (auto simp: parse_dec_guard)
  next
    case False
    then show ?thesis
      using dec_value_ge [of "acc * 10 + digit_value c" s] by (auto simp: parse_dec_guard)
  qed
qed simp

lemma dec_value_show_nat: "dec_value 0 (show_nat n) = n"
proof (induction n rule: show_nat.induct)
  case (1 n)
  then show ?case by (cases "n < 10") (auto simp: show_nat.simps [of n])
qed

lemma parse_dec_show_nat: "n \<le> limit \<Longrightarrow> parse_dec limit 0 (show_nat n) = Some n"
  by (simp add: parse_dec_eq dec_value_show_nat) (blast dest: show_nat_digits)

lemma show_nat_inj: "show_nat m = show_nat n \<Longrightarrow> m = n"
  by (metis dec_value_show_nat)

section \<open>First failure of a scan\<close>

text \<open>
  Validators walk a string from a position and keep the first failure; the recursion
  \<open>first_error f p s\<close> is that loop.
\<close>

fun first_error :: "(nat \<Rightarrow> char \<Rightarrow> 'e option) \<Rightarrow> nat \<Rightarrow> string \<Rightarrow> 'e option" where
  "first_error f p [] = None"
| "first_error f p (c # cs) = (case f p c of Some e \<Rightarrow> Some e | None \<Rightarrow> first_error f (Suc p) cs)"

lemma first_error_None:
  "first_error f p s = None \<longleftrightarrow> (\<forall>i < length s. f (p + i) (s ! i) = None)"
proof (induction s arbitrary: p)
  case (Cons c s)
  show ?case
  proof
    assume a: "first_error f p (c # s) = None"
    show "\<forall>i < length (c # s). f (p + i) ((c # s) ! i) = None"
    proof (intro allI impI)
      fix i assume "i < length (c # s)"
      with a Cons.IH [of "Suc p"] show "f (p + i) ((c # s) ! i) = None"
        by (cases i) (auto split: option.splits)
    qed
  next
    assume a: "\<forall>i < length (c # s). f (p + i) ((c # s) ! i) = None"
    from a have "f p c = None" by (metis add_0_right length_greater_0_conv list.distinct(1) nth_Cons_0)
    moreover have "\<forall>i < length s. f (Suc p + i) (s ! i) = None"
      using a by (metis Suc_less_eq add_Suc_right add_Suc length_Cons nth_Cons_Suc)
    ultimately show "first_error f p (c # s) = None" by (simp add: Cons.IH)
  qed
qed simp

lemma first_error_const_None:
  "(\<And>p c. f p c = None \<longleftrightarrow> ok c) \<Longrightarrow> first_error f p s = None \<longleftrightarrow> (\<forall>c \<in> set s. ok c)"
  by (simp add: first_error_None all_set_conv_all_nth)

end
