(* ===== verification/GoBase.thy ===== *)
theory GoBase
  imports Prelude "HOL-Library.Word"
begin

text \<open>
  The Go side of the model: error values, the parts of the standard library the interop peer
  uses, the data it reads from the NATS packages, and the effect discipline.

  An effectful function is an \<open>io\<close>: given the clock and the state of everything outside the
  program it returns its result, the new outside state, the time it took and the calls it
  made, in order. What nats.go, the operating system and the other process do is a parameter:
  a record \<open>api\<close> of arbitrary functions on an arbitrary outside state. Time only passes
  (durations are \<open>nat\<close> nanoseconds), which is the one fact about clocks the code needs.
\<close>

section \<open>Error values\<close>

text \<open>
  \<open>Lib\<close> is an error of a package, named (sentinels such as \<open>nats.ErrNoResponders\<close>);
  \<open>New\<close> is \<open>errors.New\<close>; \<open>Errorf\<close> keeps the format string and its arguments, with
  \<open>AWrap\<close> for an argument printed by \<open>%w\<close>.
\<close>

datatype storage = FileStorage | MemoryStorage

datatype gerr =
    Lib string
  | New string
  | Errorf string "garg list"
and garg =
    AStr string
  | AInt int
  | ABool bool
  | AWrap gerr
  | AErr gerr
  | AStrs "string list"
  | AStorage storage
  | ANil

text \<open>\<open>errors.Is(err, target)\<close>: the error itself or one it wraps.\<close>

fun is_err :: "gerr \<Rightarrow> gerr \<Rightarrow> bool" and args_wrap :: "garg list \<Rightarrow> gerr \<Rightarrow> bool" where
  "is_err (Lib n) t = (Lib n = t)"
| "is_err (New s) t = (New s = t)"
| "is_err (Errorf f as) t = (Errorf f as = t \<or> args_wrap as t)"
| "args_wrap [] t = False"
| "args_wrap (AWrap e # as) t = (is_err e t \<or> args_wrap as t)"
| "args_wrap (_ # as) t = args_wrap as t"

definition ErrNotExist :: gerr where "ErrNotExist = Lib ''fs.ErrNotExist''"
definition ErrNoResponders :: gerr where "ErrNoResponders = Lib ''nats.ErrNoResponders''"
definition ErrTimeout :: gerr where "ErrTimeout = Lib ''nats.ErrTimeout''"

text \<open>\<open>fmt.Errorf("label: %w", err)\<close>.\<close>

abbreviation wrap :: "string \<Rightarrow> gerr \<Rightarrow> gerr" where
  "wrap label e \<equiv> Errorf (label @ '': %w'') [AWrap e]"

lemma is_err_refl [simp]: "is_err e e"
  by (cases e) auto

lemma is_err_wrap [simp]: "is_err (wrap label e) t \<longleftrightarrow> wrap label e = t \<or> is_err e t"
  by simp

text \<open>A function that returns only an error: \<open>None\<close> is \<open>nil\<close>.\<close>

type_synonym check = "gerr option"

text \<open>\<open>if err := c; err != nil { return err }\<close> followed by the rest.\<close>

fun andthen :: "check \<Rightarrow> check \<Rightarrow> check" where
  "andthen None c = c"
| "andthen (Some e) _ = Some e"

text \<open>\<open>if actual != expected { return err }\<close>\<close>

definition unless :: "bool \<Rightarrow> gerr \<Rightarrow> check" where
  "unless ok e = (if ok then None else Some e)"

fun checks :: "check list \<Rightarrow> check" where
  "checks [] = None"
| "checks (c # cs) = andthen c (checks cs)"

lemma andthen_None [simp]: "andthen a b = None \<longleftrightarrow> a = None \<and> b = None"
  by (cases a) auto

lemma unless_None [simp]: "unless ok e = None \<longleftrightarrow> ok"
  by (simp add: unless_def)

lemma unless_Some [simp]: "unless ok e = Some e' \<longleftrightarrow> \<not> ok \<and> e' = e"
  by (auto simp: unless_def)

lemma checks_None: "checks cs = None \<longleftrightarrow> (\<forall>c \<in> set cs. c = None)"
  by (induction cs) auto

section \<open>Standard library on strings\<close>

definition trimmable :: "char \<Rightarrow> bool" where
  "trimmable c \<longleftrightarrow> code c = 32 \<or> (9 \<le> code c \<and> code c \<le> 13)"

text \<open>\<open>strings.TrimSpace\<close> on ASCII text.\<close>

definition trim_space :: "string \<Rightarrow> string" where
  "trim_space s = rev (dropWhile trimmable (rev (dropWhile trimmable s)))"

lemma trim_space_empty: "trim_space s = [] \<longleftrightarrow> (\<forall>c \<in> set s. trimmable c)"
proof (cases "dropWhile trimmable s = []")
  case True
  then show ?thesis by (auto simp: trim_space_def dest: set_dropWhileD)
next
  case False
  then have bad: "\<not> trimmable (hd (dropWhile trimmable s))" by (rule hd_dropWhile)
  from False have "hd (dropWhile trimmable s) \<in> set (dropWhile trimmable s)" by (rule hd_in_set)
  with bad have "dropWhile trimmable (rev (dropWhile trimmable s)) \<noteq> []"
    by (auto simp: dropWhile_eq_Nil_conv)
  then have "trim_space s \<noteq> []" by (simp only: trim_space_def rev_is_Nil_conv) simp
  moreover have "\<not> (\<forall>c \<in> set s. trimmable c)"
    using False by (simp only: dropWhile_eq_Nil_conv) simp
  ultimately show ?thesis by simp
qed

fun cut_prefix :: "string \<Rightarrow> string \<Rightarrow> string option" where
  "cut_prefix s [] = Some s"
| "cut_prefix [] (p # ps) = None"
| "cut_prefix (c # s) (p # ps) = (if c = p then cut_prefix s ps else None)"

lemma cut_prefix_Some: "cut_prefix s p = Some r \<longleftrightarrow> s = p @ r"
  by (induction s p rule: cut_prefix.induct) auto

text \<open>\<open>strconv.Atoi\<close> on a 64-bit platform: an optional sign, then digits, in range.\<close>

definition int_max :: nat where "int_max = 9223372036854775807"

fun atoi :: "string \<Rightarrow> int option" where
  "atoi [] = None"
| "atoi (c # cs) =
     (if c = CHR ''-'' then
        (if cs = [] then None else map_option (\<lambda>n. - int n) (parse_dec (int_max + 1) 0 cs))
      else if c = CHR ''+'' then
        (if cs = [] then None else map_option int (parse_dec int_max 0 cs))
      else map_option int (parse_dec int_max 0 (c # cs)))"

section \<open>Data of the NATS packages the peer reads\<close>

type_synonym u64 = "64 word"
type_synonym smap = "(string \<times> string) list"

text \<open>\<open>m[key]\<close> of a \<open>map[string]string\<close>: the empty string when absent.\<close>

definition map_at :: "smap \<Rightarrow> string \<Rightarrow> string" where
  "map_at m k = (case map_of m k of None \<Rightarrow> [] | Some v \<Rightarrow> v)"

definition map_len :: "smap \<Rightarrow> nat" where
  "map_len m = length (remdups (map fst m))"

lemma map_len_card: "map_len m = card (dom (map_of m))"
  by (simp add: map_len_def dom_map_of_conv_image_fst length_remdups_card_conv)

record msg =
  msg_Subject :: string
  msg_Reply :: string
  msg_Header :: "(string \<times> string list) list"
  msg_Data :: string

definition hdr_Values :: "msg \<Rightarrow> string \<Rightarrow> string list" where
  "hdr_Values m k = (case map_of (msg_Header m) k of None \<Rightarrow> [] | Some vs \<Rightarrow> vs)"

definition hdr_Get :: "msg \<Rightarrow> string \<Rightarrow> string" where
  "hdr_Get m k = (case hdr_Values m k of [] \<Rightarrow> [] | v # _ \<Rightarrow> v)"

definition NewMsg :: "string \<Rightarrow> msg" where
  "NewMsg subject = \<lparr>msg_Subject = subject, msg_Reply = [], msg_Header = [], msg_Data = []\<rparr>"

definition hdr_Set :: "string \<Rightarrow> string \<Rightarrow> msg \<Rightarrow> msg" where
  "hdr_Set k v m = m\<lparr>msg_Header := (k, [v]) # filter (\<lambda>p. fst p \<noteq> k) (msg_Header m)\<rparr>"

definition hdr_Add :: "string \<Rightarrow> string \<Rightarrow> msg \<Rightarrow> msg" where
  "hdr_Add k v m = m\<lparr>msg_Header := (k, hdr_Values m k @ [v]) # filter (\<lambda>p. fst p \<noteq> k) (msg_Header m)\<rparr>"

lemma hdr_Values_NewMsg [simp]: "hdr_Values (NewMsg s) k = []"
  by (simp add: hdr_Values_def NewMsg_def)

lemma map_of_filter_neq: "map_of (filter (\<lambda>p. fst p \<noteq> k) xs) k' = (if k' = k then None else map_of xs k')"
  by (induction xs) auto

lemma hdr_Values_Set [simp]: "hdr_Values (hdr_Set k v m) k' = (if k' = k then [v] else hdr_Values m k')"
  by (simp add: hdr_Values_def hdr_Set_def map_of_filter_neq)

lemma hdr_Values_Add [simp]:
  "hdr_Values (hdr_Add k v m) k' = (if k' = k then hdr_Values m k @ [v] else hdr_Values m k')"
  by (simp add: hdr_Values_def hdr_Add_def map_of_filter_neq)

record metadata =
  md_Stream :: string
  md_Consumer :: string
  md_StreamSeq :: u64
  md_ConsumerSeq :: u64
  md_NumDelivered :: u64
  md_NumPending :: u64

record puback =
  pa_Stream :: string
  pa_Sequence :: u64
  pa_Duplicate :: bool

datatype ack_policy = AckNonePolicy | AckAllPolicy | AckExplicitPolicy

fun ack_number :: "ack_policy \<Rightarrow> int" where
  "ack_number AckNonePolicy = 0"
| "ack_number AckAllPolicy = 1"
| "ack_number AckExplicitPolicy = 2"

record stream_config =
  sc_Name :: string
  sc_Description :: string
  sc_Subjects :: "string list"
  sc_Storage :: storage
  sc_Replicas :: int

record replica =
  rp_Current :: bool
  rp_Offline :: bool
  rp_Lag :: u64

text \<open>Pointers that may be \<open>nil\<close> are options.\<close>

record cluster =
  cl_Leader :: string
  cl_Replicas :: "replica option list"

record stream_info =
  si_Config :: stream_config
  si_Cluster :: "cluster option"
  si_Msgs :: u64
  si_LastSeq :: u64

datatype deliver_policy = DeliverAllPolicy | DeliverLastPolicy | DeliverNewPolicy

record consumer_config =
  cc_Name :: string
  cc_Durable :: string
  cc_DeliverPolicy :: deliver_policy
  cc_FilterSubject :: string
  cc_DeliverSubject :: string
  cc_AckPolicy :: ack_policy
  cc_FlowControl :: bool
  cc_Heartbeat :: int
  cc_MaxDeliver :: int
  cc_MemoryStorage :: bool
  cc_Replicas :: int

record consumer_info =
  ci_Stream :: string
  ci_Name :: string
  ci_Config :: consumer_config
  ci_NumAckPending :: int
  ci_AckFloorStream :: u64
  ci_AckFloorConsumer :: u64
  ci_DeliveredStream :: u64
  ci_DeliveredConsumer :: u64
  ci_NumPending :: u64

record account_info =
  ai_Streams :: int
  ai_Consumers :: int

text \<open>How a JetStream subscription is bound, and what a Service is configured with.\<close>

datatype subopt = Bind string string | BindStream string | OrderedConsumer

record micro_config =
  mc_Name :: string
  mc_Version :: string
  mc_Description :: string
  mc_Metadata :: smap

datatype kv_op = KeyValuePut | KeyValueDelete | KeyValuePurge

fun kv_op_name :: "kv_op \<Rightarrow> string" where
  "kv_op_name KeyValuePut = ''KeyValuePutOp''"
| "kv_op_name KeyValueDelete = ''KeyValueDeleteOp''"
| "kv_op_name KeyValuePurge = ''KeyValuePurgeOp''"

record kv_entry =
  ke_Bucket :: string
  ke_Key :: string
  ke_Value :: string
  ke_Revision :: u64
  ke_Operation :: kv_op

text \<open>A Key-Value status and the configuration it carries; durations in nanoseconds.\<close>

record kv_status =
  ks_Bucket :: string
  ks_Values :: u64
  ks_History :: int
  ks_TTL :: int
  ks_LimitMarkerTTL :: int
  ks_BackingStore :: string
  ks_ConfigStorage :: storage
  ks_ConfigHistory :: int
  ks_ConfigReplicas :: int

record kv_config =
  kc_Bucket :: string
  kc_History :: int
  kc_Storage :: storage
  kc_Replicas :: int
  kc_LimitMarkerTTL :: int

record object_config =
  oc_Bucket :: string
  oc_Description :: string
  oc_MaxBytes :: int
  oc_Storage :: storage
  oc_Replicas :: int
  oc_Metadata :: smap

record object_link =
  ol_Bucket :: string
  ol_Name :: string

record object_opts =
  oo_Link :: "object_link option"
  oo_ChunkSize :: "32 word"

record object_info =
  oi_Bucket :: string
  oi_Name :: string
  oi_Size :: u64
  oi_Chunks :: "32 word"
  oi_Opts :: "object_opts option"
  oi_Deleted :: bool
  oi_Description :: string
  oi_Headers :: "(string \<times> string list) list"
  oi_Metadata :: smap
  oi_Digest :: string

record object_status =
  os_Bucket :: string
  os_Description :: string
  os_Storage :: storage
  os_BackingStore :: string
  os_Metadata :: smap
  os_Sealed :: bool
  os_Replicas :: int
  os_Size :: u64

record endpoint_info =
  ei_Name :: string
  ei_Subject :: string
  ei_QueueGroup :: string
  ei_Metadata :: smap

record micro_info =
  mi_Type :: string
  mi_Name :: string
  mi_ID :: string
  mi_Version :: string
  mi_Metadata :: smap
  mi_Endpoints :: "endpoint_info list"

record endpoint_stats =
  es_Name :: string
  es_Subject :: string
  es_QueueGroup :: string
  es_NumRequests :: int
  es_NumErrors :: int
  es_Data :: string

record micro_stats =
  mst_Type :: string
  mst_Name :: string
  mst_ID :: string
  mst_Version :: string
  mst_Metadata :: smap
  mst_Endpoints :: "endpoint_stats list"

end
