(* ===== verification/GoChecks.thy ===== *)
theory GoChecks
  imports GoBase
begin

text \<open>
  The peer's validators: every function of the Go sources that inspects a message, an
  acknowledgement, a status or a name and returns an error or nothing. Each is translated
  check by check, in the code's order, so the first failing test decides the error; the
  lemmas after them (collection \<open>check_simps\<close>) say exactly what each one accepts.
\<close>

section \<open>Messages\<close>

fun header_mismatch :: "string \<Rightarrow> nat \<Rightarrow> string list \<Rightarrow> string list \<Rightarrow> check" where
  "header_mismatch name index [] es = None"
| "header_mismatch name index (v # vs) [] = None"
| "header_mismatch name index (v # vs) (e # es) =
     (if v \<noteq> e then Some (Errorf ''%s header value %d was %q, expected %q''
                            [AStr name, AInt (int index), AStr v, AStr e])
      else header_mismatch name (Suc index) vs es)"

definition checkHeaderValues :: "msg \<Rightarrow> string \<Rightarrow> string list \<Rightarrow> check" where
  "checkHeaderValues message name expected =
     (let actual = hdr_Values message name in
      andthen (unless (length actual = length expected)
                 (Errorf ''%s header had %d values, expected %d''
                    [AStr name, AInt (int (length actual)), AInt (int (length expected))]))
        (header_mismatch name 0 actual expected))"

lemma header_mismatch_None:
  "length vs = length es \<Longrightarrow> header_mismatch name i vs es = None \<longleftrightarrow> vs = es"
  by (induction name i vs es rule: header_mismatch.induct) auto

lemma checkHeaderValues_None [check_simps]:
  "checkHeaderValues m name expected = None \<longleftrightarrow> hdr_Values m name = expected"
  by (auto simp: checkHeaderValues_def Let_def header_mismatch_None)

definition expectPayload :: "string \<Rightarrow> msg \<Rightarrow> string \<Rightarrow> check" where
  "expectPayload label message expected =
     unless (msg_Data message = expected)
       (Errorf ''%s payload was %q, expected %q'' [AStr label, AStr (msg_Data message), AStr expected])"

lemma expectPayload_None [check_simps]: "expectPayload l m e = None \<longleftrightarrow> msg_Data m = e"
  by (simp add: expectPayload_def)

definition validateKeyValueControl :: "string \<Rightarrow> string \<Rightarrow> msg \<Rightarrow> check" where
  "validateKeyValueControl label expected message =
     andthen (unless (msg_Data message = expected)
                (Errorf ''%s payload was %q, expected %q''
                   [AStr label, AStr (msg_Data message), AStr expected]))
       (unless (msg_Reply message \<noteq> [])
          (Errorf ''%s request had no reply subject'' [AStr label]))"

definition validateObjectControl :: "string \<Rightarrow> string \<Rightarrow> msg \<Rightarrow> check" where
  "validateObjectControl label expected message =
     andthen (unless (msg_Data message = expected)
                (Errorf ''%s payload was %q, expected %q''
                   [AStr label, AStr (msg_Data message), AStr expected]))
       (unless (msg_Reply message \<noteq> [])
          (Errorf ''%s request had no reply subject'' [AStr label]))"

lemma validateKeyValueControl_None [check_simps]:
  "validateKeyValueControl l e m = None \<longleftrightarrow> msg_Data m = e \<and> msg_Reply m \<noteq> []"
  by (simp add: validateKeyValueControl_def)

lemma validateObjectControl_None [check_simps]:
  "validateObjectControl l e m = None \<longleftrightarrow> msg_Data m = e \<and> msg_Reply m \<noteq> []"
  by (simp add: validateObjectControl_def)

section \<open>Connections and server lists\<close>

definition expectInitialConnection :: "string \<Rightarrow> string \<Rightarrow> check" where
  "expectInitialConnection connectedUrl servers =
     (let expected = trim_space (hd (split_on CHR '','' servers)) in
      if expected = [] then Some (New ''server list did not contain an initial endpoint'')
      else unless (connectedUrl = expected)
             (Errorf ''connected to %q, expected initial endpoint %q'' [AStr connectedUrl, AStr expected]))"

definition reconnectCycles :: "string \<Rightarrow> gerr + nat" where
  "reconnectCycles server =
     (let servers = split_on CHR '','' server in
      if length servers < 2 then Inl (Errorf ''reconnect mode requires at least two servers'' [])
      else if \<exists>s \<in> set servers. trim_space s = []
      then Inl (Errorf ''reconnect server list contains an empty endpoint'' [])
      else Inr (length servers - 1))"

definition roundPayload :: "nat \<Rightarrow> string" where
  "roundPayload round = ''round-'' @ show_nat round"

definition roundMarker :: "nat \<Rightarrow> string" where
  "roundMarker round = roundPayload round @ ''-flushed''"

definition roundSignal :: "string \<Rightarrow> nat \<Rightarrow> string" where
  "roundSignal signal round = signal @ ''.'' @ show_nat round"

definition serviceReconnectPayload :: "nat \<Rightarrow> string" where
  "serviceReconnectPayload round = ''go-to-ocaml-round-'' @ show_nat round"

lemma reconnectCycles_Inr:
  "reconnectCycles server = Inr n \<longleftrightarrow>
     n = count_list server CHR '','' \<and> 0 < n \<and>
     (\<forall>s \<in> set (split_on CHR '','' server). \<exists>c \<in> set s. \<not> trimmable c)"
  by (auto simp: reconnectCycles_def Let_def length_split_on trim_space_empty)

lemma roundPayload_inj: "roundPayload m = roundPayload n \<Longrightarrow> m = n"
  by (auto simp: roundPayload_def dest: show_nat_inj)

text \<open>A round's payload is never taken for a flush marker, of the same or another round.\<close>

lemma roundPayload_not_marker: "roundPayload m \<noteq> roundMarker n"
proof
  assume "roundPayload m = roundMarker n"
  then have "show_nat m = show_nat n @ ''-flushed''"
    by (simp add: roundPayload_def roundMarker_def)
  then have "CHR ''-'' \<in> set (show_nat m)" by simp
  then have "is_digit CHR ''-''" by (rule show_nat_digits)
  then show False by (simp add: is_digit_def)
qed

lemma roundSignal_inj: "roundSignal s m = roundSignal s n \<Longrightarrow> m = n"
  by (auto simp: roundSignal_def dest: show_nat_inj)

section \<open>JetStream acknowledgements and deliveries\<close>

definition expectPublishAck :: "string \<Rightarrow> puback \<Rightarrow> string \<Rightarrow> bool \<Rightarrow> u64 \<Rightarrow> check" where
  "expectPublishAck label ack stream duplicate sequence = checks [
     unless (pa_Stream ack = stream)
       (Errorf ''%s named stream %q, expected %q'' [AStr label, AStr (pa_Stream ack), AStr stream]),
     unless (pa_Duplicate ack = duplicate)
       (Errorf ''%s duplicate=%t, expected %t'' [AStr label, ABool (pa_Duplicate ack), ABool duplicate]),
     unless (pa_Sequence ack = sequence)
       (Errorf ''%s sequence=%d, expected %d''
          [AStr label, AInt (uint (pa_Sequence ack)), AInt (uint sequence)])]"

lemma expectPublishAck_None [check_simps]:
  "expectPublishAck l ack stream dup sequ = None \<longleftrightarrow>
     pa_Stream ack = stream \<and> pa_Duplicate ack = dup \<and> pa_Sequence ack = sequ"
  by (auto simp: expectPublishAck_def)

definition checkPushConsumerInfo ::
  "string \<Rightarrow> consumer_info \<Rightarrow> string \<Rightarrow> string \<Rightarrow> string \<Rightarrow> string \<Rightarrow> check" where
  "checkPushConsumerInfo label info stream name filtr delivery = checks [
     unless (ci_Stream info = stream)
       (Errorf ''%s named stream %q, expected %q'' [AStr label, AStr (ci_Stream info), AStr stream]),
     unless (ci_Name info = name)
       (Errorf ''%s named consumer %q, expected %q'' [AStr label, AStr (ci_Name info), AStr name]),
     unless (cc_FilterSubject (ci_Config info) = filtr)
       (Errorf ''%s filtered %q, expected %q''
          [AStr label, AStr (cc_FilterSubject (ci_Config info)), AStr filtr]),
     unless (cc_DeliverSubject (ci_Config info) = delivery)
       (Errorf ''%s delivered to %q, expected %q''
          [AStr label, AStr (cc_DeliverSubject (ci_Config info)), AStr delivery]),
     unless (cc_AckPolicy (ci_Config info) = AckExplicitPolicy)
       (Errorf ''%s did not use explicit acknowledgements'' [AStr label])]"

lemma checkPushConsumerInfo_None [check_simps]:
  "checkPushConsumerInfo l i stream name filtr delivery = None \<longleftrightarrow>
     ci_Stream i = stream \<and> ci_Name i = name \<and> cc_FilterSubject (ci_Config i) = filtr \<and>
     cc_DeliverSubject (ci_Config i) = delivery \<and> cc_AckPolicy (ci_Config i) = AckExplicitPolicy"
  by (auto simp: checkPushConsumerInfo_def)

definition checkRecoveredConsumer ::
  "string \<Rightarrow> consumer_info \<Rightarrow> string \<Rightarrow> string \<Rightarrow> string \<Rightarrow> string \<Rightarrow> u64 \<Rightarrow> u64 \<Rightarrow> check" where
  "checkRecoveredConsumer label info stream consumer filtr delivery streamSequence consumerSequence = checks [
     checkPushConsumerInfo label info stream consumer filtr delivery,
     unless (ci_NumAckPending info = 0)
       (Errorf ''%s retained %d pending acknowledgements'' [AStr label, AInt (ci_NumAckPending info)]),
     unless (ci_AckFloorStream info = streamSequence \<and> ci_AckFloorConsumer info = consumerSequence)
       (Errorf ''%s ack floor stream=%d consumer=%d, expected stream=%d consumer=%d''
          [AStr label, AInt (uint (ci_AckFloorStream info)), AInt (uint (ci_AckFloorConsumer info)),
           AInt (uint streamSequence), AInt (uint consumerSequence)])]"

lemma checkRecoveredConsumer_None [check_simps]:
  "checkRecoveredConsumer l i stream name filtr delivery ss cs = None \<longleftrightarrow>
     checkPushConsumerInfo l i stream name filtr delivery = None \<and> ci_NumAckPending i = 0 \<and>
     ci_AckFloorStream i = ss \<and> ci_AckFloorConsumer i = cs"
  by (auto simp: checkRecoveredConsumer_def)

definition checkOrderedConsumerInfo :: "string \<Rightarrow> consumer_info \<Rightarrow> string \<Rightarrow> string \<Rightarrow> check" where
  "checkOrderedConsumerInfo label info stream filtr = (let cfg = ci_Config info in checks [
     unless (ci_Stream info = stream)
       (Errorf ''%s named stream %q, expected %q'' [AStr label, AStr (ci_Stream info), AStr stream]),
     unless (cc_FilterSubject cfg = filtr)
       (Errorf ''%s filtered %q, expected %q'' [AStr label, AStr (cc_FilterSubject cfg), AStr filtr]),
     unless (cc_AckPolicy cfg = AckNonePolicy)
       (Errorf ''%s used ack policy %q, expected AckNone''
          [AStr label, AInt (ack_number (cc_AckPolicy cfg))]),
     unless (cc_FlowControl cfg) (Errorf ''%s did not enable flow control'' [AStr label]),
     unless (\<not> cc_Heartbeat cfg \<le> 0) (Errorf ''%s did not configure an idle heartbeat'' [AStr label]),
     unless (cc_MaxDeliver cfg = 1)
       (Errorf ''%s allowed %d deliveries, expected one'' [AStr label, AInt (cc_MaxDeliver cfg)]),
     unless (cc_MemoryStorage cfg) (Errorf ''%s did not use memory storage'' [AStr label]),
     unless (cc_Replicas cfg = 1)
       (Errorf ''%s used %d replicas, expected one'' [AStr label, AInt (cc_Replicas cfg)])])"

lemma checkOrderedConsumerInfo_None [check_simps]:
  "checkOrderedConsumerInfo l i stream filtr = None \<longleftrightarrow>
     ci_Stream i = stream \<and> cc_FilterSubject (ci_Config i) = filtr \<and>
     cc_AckPolicy (ci_Config i) = AckNonePolicy \<and> cc_FlowControl (ci_Config i) \<and>
     0 < cc_Heartbeat (ci_Config i) \<and> cc_MaxDeliver (ci_Config i) = 1 \<and>
     cc_MemoryStorage (ci_Config i) \<and> cc_Replicas (ci_Config i) = 1"
  by (auto simp: checkOrderedConsumerInfo_def Let_def)

text \<open>
  \<open>message.Metadata()\<close> belongs to nats.go: it is the parameter \<open>Metadata\<close>.
\<close>

fun with_metadata :: "string \<Rightarrow> gerr + metadata \<Rightarrow> (metadata \<Rightarrow> check) \<Rightarrow> check" where
  "with_metadata label (Inl err) k = Some (Errorf ''%s metadata: %w'' [AStr label, AWrap err])"
| "with_metadata label (Inr md) k = k md"

lemma with_metadata_None [simp]: "with_metadata l r k = None \<longleftrightarrow> (\<exists>md. r = Inr md \<and> k md = None)"
  by (cases r) auto

definition expectPushDelivery ::
  "(msg \<Rightarrow> gerr + metadata) \<Rightarrow> string \<Rightarrow> msg \<Rightarrow> string \<Rightarrow> string \<Rightarrow> string \<Rightarrow> string \<Rightarrow> string \<Rightarrow> u64 \<Rightarrow> u64 \<Rightarrow> check"
where
  "expectPushDelivery Metadata label message stream consumer payload interop trace
     streamSequence consumerSequence = checks [
     unless (msg_Data message = payload)
       (Errorf ''%s payload was %q, expected %q'' [AStr label, AStr (msg_Data message), AStr payload]),
     unless (hdr_Get message ''X-Interop'' = interop)
       (Errorf ''%s X-Interop header was %q, expected %q''
          [AStr label, AStr (hdr_Get message ''X-Interop''), AStr interop]),
     checkHeaderValues message ''X-Trace'' [trace],
     with_metadata label (Metadata message) (\<lambda>md. checks [
       unless (md_Stream md = stream \<and> md_Consumer md = consumer)
         (Errorf ''%s metadata identified stream=%q consumer=%q''
            [AStr label, AStr (md_Stream md), AStr (md_Consumer md)]),
       unless (md_StreamSeq md = streamSequence \<and> md_ConsumerSeq md = consumerSequence)
         (Errorf ''%s metadata had stream sequence=%d consumer sequence=%d''
            [AStr label, AInt (uint (md_StreamSeq md)), AInt (uint (md_ConsumerSeq md))]),
       unless (md_NumDelivered md = 1 \<and> md_NumPending md = 0)
         (Errorf ''%s metadata had delivered=%d pending=%d''
            [AStr label, AInt (uint (md_NumDelivered md)), AInt (uint (md_NumPending md))])])]"

definition labelled :: "string \<Rightarrow> check \<Rightarrow> check" where
  "labelled label c = map_option (\<lambda>e. Errorf ''%s: %w'' [AStr label, AWrap e]) c"

lemma labelled_None [simp]: "labelled l c = None \<longleftrightarrow> c = None"
  by (simp add: labelled_def)

definition expectOrderedDelivery ::
  "(msg \<Rightarrow> gerr + metadata) \<Rightarrow> string \<Rightarrow> msg \<Rightarrow> string \<Rightarrow> string \<Rightarrow> string \<Rightarrow> string \<Rightarrow> string \<Rightarrow> string \<Rightarrow> u64 \<Rightarrow> u64 \<Rightarrow> check"
where
  "expectOrderedDelivery Metadata label message streamName subject consumer payload interop trace
     streamSequence consumerSequence = checks [
     unless (msg_Data message = payload)
       (Errorf ''%s payload was %q, expected %q'' [AStr label, AStr (msg_Data message), AStr payload]),
     unless (msg_Subject message = subject)
       (Errorf ''%s subject was %q, expected %q'' [AStr label, AStr (msg_Subject message), AStr subject]),
     labelled label (checkHeaderValues message ''X-Interop'' [interop]),
     labelled label (checkHeaderValues message ''X-Trace'' [trace]),
     with_metadata label (Metadata message) (\<lambda>md. checks [
       unless (md_Stream md = streamName \<and> md_Consumer md = consumer)
         (Errorf ''%s metadata identified stream=%q consumer=%q''
            [AStr label, AStr (md_Stream md), AStr (md_Consumer md)]),
       unless (md_StreamSeq md = streamSequence \<and> md_ConsumerSeq md = consumerSequence)
         (Errorf ''%s metadata had stream sequence=%d consumer sequence=%d''
            [AStr label, AInt (uint (md_StreamSeq md)), AInt (uint (md_ConsumerSeq md))]),
       unless (md_NumDelivered md = 1)
         (Errorf ''%s metadata had delivery count %d, expected one''
            [AStr label, AInt (uint (md_NumDelivered md))])])]"

definition expectOrderedReconnectDelivery ::
  "(msg \<Rightarrow> gerr + metadata) \<Rightarrow> string \<Rightarrow> msg \<Rightarrow> string \<Rightarrow> string \<Rightarrow> string \<Rightarrow> string \<Rightarrow> string \<Rightarrow> u64 \<Rightarrow> u64 \<Rightarrow> check"
where
  "expectOrderedReconnectDelivery Metadata label message stream subject payload interop trace
     streamSequence consumerSequence = checks [
     unless (msg_Data message = payload)
       (Errorf ''%s payload was %q, expected %q'' [AStr label, AStr (msg_Data message), AStr payload]),
     unless (msg_Subject message = subject)
       (Errorf ''%s subject was %q, expected %q'' [AStr label, AStr (msg_Subject message), AStr subject]),
     labelled label (checkHeaderValues message ''X-Interop'' [interop]),
     labelled label (checkHeaderValues message ''X-Trace'' [trace]),
     with_metadata label (Metadata message) (\<lambda>md. checks [
       unless (md_Stream md = stream)
         (Errorf ''%s metadata named stream %q, expected %q''
            [AStr label, AStr (md_Stream md), AStr stream]),
       unless (md_Consumer md \<noteq> []) (Errorf ''%s metadata did not identify a consumer'' [AStr label]),
       unless (md_StreamSeq md = streamSequence)
         (Errorf ''%s metadata had stream sequence=%d, expected %d''
            [AStr label, AInt (uint (md_StreamSeq md)), AInt (uint streamSequence)]),
       (if consumerSequence = 0
        then unless (md_ConsumerSeq md \<noteq> 0) (Errorf ''%s metadata had no consumer sequence'' [AStr label])
        else unless (md_ConsumerSeq md = consumerSequence)
               (Errorf ''%s metadata had consumer sequence=%d, expected %d''
                  [AStr label, AInt (uint (md_ConsumerSeq md)), AInt (uint consumerSequence)])),
       unless (md_NumDelivered md = 1)
         (Errorf ''%s metadata had delivery count %d, expected one''
            [AStr label, AInt (uint (md_NumDelivered md))])])]"

definition expectOrderedReconnectConsumerProgress ::
  "(msg \<Rightarrow> gerr + metadata) \<Rightarrow> string \<Rightarrow> msg \<Rightarrow> string \<Rightarrow> string \<Rightarrow> string \<Rightarrow> string \<Rightarrow> string \<Rightarrow> string \<Rightarrow> u64 \<Rightarrow> u64 \<Rightarrow> check"
where
  "expectOrderedReconnectConsumerProgress Metadata label message previousConsumer stream subject
     payload interop trace streamSequence survivingConsumerSequence =
     with_metadata label (Metadata message) (\<lambda>md.
       expectOrderedReconnectDelivery Metadata label message stream subject payload interop trace
         streamSequence (if md_Consumer md = previousConsumer then survivingConsumerSequence else 1))"

lemma expectPushDelivery_None [check_simps]:
  "expectPushDelivery Metadata l m stream consumer payload interop trace ss cs = None \<longleftrightarrow>
     msg_Data m = payload \<and> hdr_Get m ''X-Interop'' = interop \<and> hdr_Values m ''X-Trace'' = [trace] \<and>
     (\<exists>md. Metadata m = Inr md \<and> md_Stream md = stream \<and> md_Consumer md = consumer \<and>
        md_StreamSeq md = ss \<and> md_ConsumerSeq md = cs \<and> md_NumDelivered md = 1 \<and> md_NumPending md = 0)"
  by (auto simp: expectPushDelivery_def check_simps)

lemma expectOrderedDelivery_None [check_simps]:
  "expectOrderedDelivery Metadata l m stream subject consumer payload interop trace ss cs = None \<longleftrightarrow>
     msg_Data m = payload \<and> msg_Subject m = subject \<and> hdr_Values m ''X-Interop'' = [interop] \<and>
     hdr_Values m ''X-Trace'' = [trace] \<and>
     (\<exists>md. Metadata m = Inr md \<and> md_Stream md = stream \<and> md_Consumer md = consumer \<and>
        md_StreamSeq md = ss \<and> md_ConsumerSeq md = cs \<and> md_NumDelivered md = 1)"
  by (auto simp: expectOrderedDelivery_def check_simps)

lemma expectOrderedReconnectDelivery_None [check_simps]:
  "expectOrderedReconnectDelivery Metadata l m stream subject payload interop trace ss cs = None \<longleftrightarrow>
     msg_Data m = payload \<and> msg_Subject m = subject \<and> hdr_Values m ''X-Interop'' = [interop] \<and>
     hdr_Values m ''X-Trace'' = [trace] \<and>
     (\<exists>md. Metadata m = Inr md \<and> md_Stream md = stream \<and> md_Consumer md \<noteq> [] \<and>
        md_StreamSeq md = ss \<and> (if cs = 0 then md_ConsumerSeq md \<noteq> 0 else md_ConsumerSeq md = cs) \<and>
        md_NumDelivered md = 1)"
  by (auto simp: expectOrderedReconnectDelivery_def check_simps)

end
