(* ===== verification/GoStores.thy ===== *)
theory GoStores
  imports GoChecks "HOL-Library.Monad_Syntax"
begin

text \<open>
  Validators for Key-Value buckets, Object Stores, Services and cluster state, with the name
  and version parsers they rest on. Values only the third-party packages know
  (\<open>micro.DefaultQueueGroup\<close>, the JSON decoder, the iteration order of a Go map) are
  arguments.
\<close>

section \<open>Server version\<close>

text \<open>
  \<open>fmt.Sscanf(version, "%d.%d.%d", ...)\<close>: each \<open>%d\<close> skips blanks (a newline is an error),
  takes a sign and the longest run of digits; a dot of the format must match; what follows
  the third number is ignored.
\<close>

fun skip_space :: "string \<Rightarrow> string option" where
  "skip_space [] = Some []"
| "skip_space (c # cs) =
     (if c = LF then None else if trimmable c then skip_space cs else Some (c # cs))"

definition scan_unsigned :: "string \<Rightarrow> string \<times> string" where
  "scan_unsigned s = (takeWhile is_digit s, dropWhile is_digit s)"

definition scan_int :: "string \<Rightarrow> (int \<times> string) option" where
  "scan_int s =
     (case skip_space s of None \<Rightarrow> None
      | Some s1 \<Rightarrow>
          (case s1 of [] \<Rightarrow> None
           | c # cs \<Rightarrow>
               let (sign, s2) = (if c = CHR ''-'' \<or> c = CHR ''+'' then ([c], cs) else ([], s1));
                   (digits, rest) = scan_unsigned s2
               in if digits = [] then None
                  else map_option (\<lambda>n. (n, rest)) (atoi (sign @ digits))))"

fun expect_dot :: "string \<Rightarrow> string option" where
  "expect_dot [] = None"
| "expect_dot (c # cs) = (if c = CHR ''.'' then Some cs else None)"

definition scan_version :: "string \<Rightarrow> (int \<times> int \<times> int) option" where
  "scan_version s =
     do { (major, s) \<leftarrow> scan_int s;
          s \<leftarrow> expect_dot s;
          (minor, s) \<leftarrow> scan_int s;
          s \<leftarrow> expect_dot s;
          (patch, _) \<leftarrow> scan_int s;
          Some (major, minor, patch) }"

definition keyValueMarkerTTLSupported :: "string \<Rightarrow> gerr + bool" where
  "keyValueMarkerTTLSupported version =
     (case scan_version version of
        None \<Rightarrow> Inl (Errorf ''parse NATS server version %q: %w'' [AStr version, AWrap (Lib ''fmt.Sscanf'')])
      | Some (major, minor, patch) \<Rightarrow> Inr (major > 2 \<or> major = 2 \<and> minor \<ge> 11))"

lemma digit_not_special:
  "is_digit c \<Longrightarrow> c \<noteq> LF \<and> \<not> trimmable c \<and> c \<noteq> CHR ''-'' \<and> c \<noteq> CHR ''+''"
  by (auto simp: is_digit_def trimmable_def LF_def)

lemma scan_int_show_nat:
  assumes "n \<le> int_max" and "rest = [] \<or> \<not> is_digit (hd rest)"
  shows "scan_int (show_nat n @ rest) = Some (int n, rest)"
proof -
  obtain c cs where s: "show_nat n = c # cs" by (cases "show_nat n") auto
  have digits: "\<forall>d \<in> set (show_nat n). is_digit d" by (blast intro: show_nat_digits)
  with s have c: "is_digit c" and cs: "\<forall>d \<in> set cs. is_digit d" by auto
  have "takeWhile is_digit (show_nat n @ rest) = show_nat n"
    and "dropWhile is_digit (show_nat n @ rest) = rest"
    using digits assms(2) by (cases rest; simp add: takeWhile_append dropWhile_append)+
  moreover have "atoi (show_nat n) = Some (int n)"
    using parse_dec_show_nat [OF assms(1)] digit_not_special [OF c] s by simp
  moreover have "skip_space (show_nat n @ rest) = Some (show_nat n @ rest)"
    using digit_not_special [OF c] s by simp
  ultimately show ?thesis
    using digit_not_special [OF c] s by (simp add: scan_int_def scan_unsigned_def)
qed

text \<open>
  On a version a server reports, the test is the lexicographic comparison with 2.11,
  whatever follows the patch number.
\<close>

section \<open>Ordered consumer generations\<close>

definition consumerGeneration :: "string \<Rightarrow> string \<Rightarrow> int option" where
  "consumerGeneration name prefix =
     (case cut_prefix name (prefix @ ''_'') of
        None \<Rightarrow> None
      | Some generationText \<Rightarrow> atoi generationText)"

text \<open>
  The loop over the listed names: \<open>(latestName, latestGeneration)\<close>, starting from
  \<open>("", minimumGeneration)\<close>.
\<close>

fun latest_consumer :: "string \<Rightarrow> string list \<Rightarrow> string \<times> int \<Rightarrow> string \<times> int" where
  "latest_consumer prefix [] best = best"
| "latest_consumer prefix (name # names) best =
     (case consumerGeneration name prefix of
        None \<Rightarrow> latest_consumer prefix names best
      | Some generation \<Rightarrow>
          if generation \<le> snd best then latest_consumer prefix names best
          else latest_consumer prefix names (name, generation))"

lemma consumerGeneration_name:
  "n \<le> int_max \<Longrightarrow> consumerGeneration (prefix @ ''_'' @ show_nat n) prefix = Some (int n)"
proof -
  assume n: "n \<le> int_max"
  obtain c cs where s: "show_nat n = c # cs" by (cases "show_nat n") auto
  then have "is_digit c" by (metis list.set_intros(1) show_nat_digits)
  then have "atoi (show_nat n) = Some (int n)"
    using parse_dec_show_nat [OF n] digit_not_special s by auto
  moreover have "cut_prefix (prefix @ ''_'' @ show_nat n) (prefix @ ''_'') = Some (show_nat n)"
    by (simp add: cut_prefix_Some)
  ultimately show ?thesis by (simp add: consumerGeneration_def)
qed

lemma consumerGeneration_nonempty: "consumerGeneration name prefix = Some g \<Longrightarrow> name \<noteq> []"
  by (auto simp: consumerGeneration_def cut_prefix_Some split: option.splits)

lemma latest_consumer_ge: "snd best \<le> snd (latest_consumer prefix names best)"
proof (induction prefix names best rule: latest_consumer.induct)
  case (2 prefix name names best)
  then show ?case by (force split: option.splits)
qed simp

lemma latest_consumer_upper:
  "name \<in> set names \<Longrightarrow> consumerGeneration name prefix = Some g \<Longrightarrow>
     g \<le> snd (latest_consumer prefix names best)"
proof (induction prefix names best rule: latest_consumer.induct)
  case (2 prefix n names best)
  show ?case
  proof (cases "name = n")
    case True
    then show ?thesis
      using "2.prems" latest_consumer_ge [of best prefix names] latest_consumer_ge [of "(n, g)" prefix names]
      by auto
  next
    case False
    then show ?thesis using 2 by (auto split: option.splits)
  qed
qed simp

lemma latest_consumer_source:
  "latest_consumer prefix names best = best \<or>
   (fst (latest_consumer prefix names best) \<in> set names \<and>
    consumerGeneration (fst (latest_consumer prefix names best)) prefix =
      Some (snd (latest_consumer prefix names best)) \<and>
    snd best < snd (latest_consumer prefix names best))"
proof (induction prefix names best rule: latest_consumer.induct)
  case (2 prefix n names best)
  show ?case
  proof (cases "consumerGeneration n prefix")
    case None
    with 2 show ?thesis by auto
  next
    case (Some g)
    then show ?thesis
      using 2 latest_consumer_ge [of "(n, g)" prefix names] by (cases "g \<le> snd best") auto
  qed
qed simp

section \<open>Key-Value buckets\<close>

definition kvHistory :: int where "kvHistory = 5"
definition kvOrderedReconnectHistory :: int where "kvOrderedReconnectHistory = 1"

definition checkKeyValueEntry ::
  "string \<Rightarrow> kv_entry \<Rightarrow> string \<Rightarrow> string \<Rightarrow> string \<Rightarrow> u64 \<Rightarrow> kv_op \<Rightarrow> check" where
  "checkKeyValueEntry label entry bucket key val revision operation = checks [
     unless (ke_Bucket entry = bucket)
       (Errorf ''%s bucket was %q, expected %q'' [AStr label, AStr (ke_Bucket entry), AStr bucket]),
     unless (ke_Key entry = key)
       (Errorf ''%s key was %q, expected %q'' [AStr label, AStr (ke_Key entry), AStr key]),
     unless (ke_Value entry = val)
       (Errorf ''%s value was %q, expected %q'' [AStr label, AStr (ke_Value entry), AStr val]),
     unless (ke_Revision entry = revision)
       (Errorf ''%s revision was %d, expected %d''
          [AStr label, AInt (uint (ke_Revision entry)), AInt (uint revision)]),
     unless (ke_Operation entry = operation)
       (Errorf ''%s operation was %q, expected %q''
          [AStr label, AStr (kv_op_name (ke_Operation entry)), AStr (kv_op_name operation)])]"

definition checkKeyValueStatus :: "string \<Rightarrow> kv_status \<Rightarrow> string \<Rightarrow> u64 \<Rightarrow> int \<Rightarrow> check" where
  "checkKeyValueStatus label status bucket values markerTTL = checks [
     unless (ks_Bucket status = bucket)
       (Errorf ''%s bucket was %q, expected %q'' [AStr label, AStr (ks_Bucket status), AStr bucket]),
     unless (ks_Values status = values)
       (Errorf ''%s values were %d, expected %d''
          [AStr label, AInt (uint (ks_Values status)), AInt (uint values)]),
     unless (ks_History status = kvHistory)
       (Errorf ''%s history was %d, expected %d'' [AStr label, AInt (ks_History status), AInt kvHistory]),
     unless (ks_TTL status = 0)
       (Errorf ''%s TTL was %s, expected zero'' [AStr label, AInt (ks_TTL status)]),
     unless (ks_LimitMarkerTTL status = markerTTL)
       (Errorf ''%s limit marker TTL was %s, expected %s''
          [AStr label, AInt (ks_LimitMarkerTTL status), AInt markerTTL]),
     unless (ks_BackingStore status = ''JetStream'')
       (Errorf ''%s backing store was %q, expected JetStream'' [AStr label, AStr (ks_BackingStore status)]),
     unless (ks_ConfigStorage status = MemoryStorage)
       (Errorf ''%s did not use memory storage'' [AStr label])]"

definition checkReplicatedKeyValueStatus :: "string \<Rightarrow> kv_status \<Rightarrow> string \<Rightarrow> u64 \<Rightarrow> check" where
  "checkReplicatedKeyValueStatus label status bucket values = checks [
     unless (ks_Bucket status = bucket)
       (Errorf ''%s bucket was %q, expected %q'' [AStr label, AStr (ks_Bucket status), AStr bucket]),
     unless (ks_Values status = values)
       (Errorf ''%s values were %d, expected %d''
          [AStr label, AInt (uint (ks_Values status)), AInt (uint values)]),
     unless (ks_ConfigHistory status = kvOrderedReconnectHistory)
       (Errorf ''%s history was %d, expected %d''
          [AStr label, AInt (ks_ConfigHistory status), AInt kvOrderedReconnectHistory]),
     unless (ks_ConfigStorage status = FileStorage)
       (Errorf ''%s did not use file storage'' [AStr label]),
     unless (ks_ConfigReplicas status = 3)
       (Errorf ''%s replicas were %d, expected 3'' [AStr label, AInt (ks_ConfigReplicas status)])]"

lemma checkKeyValueEntry_None [check_simps]:
  "checkKeyValueEntry l e bucket key val revision operation = None \<longleftrightarrow>
     e = \<lparr>ke_Bucket = bucket, ke_Key = key, ke_Value = val, ke_Revision = revision, ke_Operation = operation\<rparr>"
  by (cases e) (auto simp: checkKeyValueEntry_def)

lemma checkKeyValueStatus_None [check_simps]:
  "checkKeyValueStatus l s bucket values ttl = None \<longleftrightarrow>
     ks_Bucket s = bucket \<and> ks_Values s = values \<and> ks_History s = 5 \<and> ks_TTL s = 0 \<and>
     ks_LimitMarkerTTL s = ttl \<and> ks_BackingStore s = ''JetStream'' \<and> ks_ConfigStorage s = MemoryStorage"
  by (auto simp: checkKeyValueStatus_def kvHistory_def)

lemma checkReplicatedKeyValueStatus_None [check_simps]:
  "checkReplicatedKeyValueStatus l s bucket values = None \<longleftrightarrow>
     ks_Bucket s = bucket \<and> ks_Values s = values \<and> ks_ConfigHistory s = 1 \<and>
     ks_ConfigStorage s = FileStorage \<and> ks_ConfigReplicas s = 3"
  by (auto simp: checkReplicatedKeyValueStatus_def kvOrderedReconnectHistory_def)

section \<open>Object Stores\<close>

definition checkObjectStoreStatus :: "string \<Rightarrow> object_status \<Rightarrow> string \<Rightarrow> check" where
  "checkObjectStoreStatus label status bucket = checks [
     unless (os_Bucket status = bucket)
       (Errorf ''%s bucket was %q, expected %q'' [AStr label, AStr (os_Bucket status), AStr bucket]),
     unless (os_Description status = ''interop'')
       (Errorf ''%s description was %q, expected %q''
          [AStr label, AStr (os_Description status), AStr ''interop'']),
     unless (os_Storage status = MemoryStorage)
       (Errorf ''%s did not use memory storage'' [AStr label]),
     unless (os_BackingStore status = ''JetStream'')
       (Errorf ''%s backing store was %q, expected JetStream'' [AStr label, AStr (os_BackingStore status)]),
     unless (map_at (os_Metadata status) ''owner'' = ''interop'')
       (Errorf ''%s owner metadata was %q, expected %q''
          [AStr label, AStr (map_at (os_Metadata status) ''owner''), AStr ''interop'']),
     unless (\<not> os_Sealed status) (Errorf ''%s was unexpectedly sealed'' [AStr label])]"

definition checkReplicatedObjectStoreStatus :: "string \<Rightarrow> object_status \<Rightarrow> string \<Rightarrow> u64 \<Rightarrow> check" where
  "checkReplicatedObjectStoreStatus label status bucket size' = checks [
     unless (os_Bucket status = bucket)
       (Errorf ''%s bucket was %q, expected %q'' [AStr label, AStr (os_Bucket status), AStr bucket]),
     unless (os_Description status = ''interop-cluster'')
       (Errorf ''%s description was %q, expected %q''
          [AStr label, AStr (os_Description status), AStr ''interop-cluster'']),
     unless (os_Storage status = FileStorage)
       (Errorf ''%s did not use file storage'' [AStr label]),
     unless (os_Replicas status = 3)
       (Errorf ''%s replicas were %d, expected 3'' [AStr label, AInt (os_Replicas status)]),
     unless (\<not> os_Size status < size')
       (Errorf ''%s size was %d, expected at least %d''
          [AStr label, AInt (uint (os_Size status)), AInt (uint size')]),
     unless (map_at (os_Metadata status) ''owner'' = ''interop-cluster'')
       (Errorf ''%s owner metadata was %q, expected %q''
          [AStr label, AStr (map_at (os_Metadata status) ''owner''), AStr ''interop-cluster'']),
     unless (\<not> os_Sealed status) (Errorf ''%s was unexpectedly sealed'' [AStr label])]"

definition checkObjectInfo ::
  "string \<Rightarrow> object_info option \<Rightarrow> string \<Rightarrow> string \<Rightarrow> u64 \<Rightarrow> 32 word \<Rightarrow> check" where
  "checkObjectInfo label info bucket name size' chunks =
     (case info of
        None \<Rightarrow> Some (Errorf ''%s returned no object info'' [AStr label])
      | Some i \<Rightarrow> checks [
          unless (oi_Bucket i = bucket)
            (Errorf ''%s bucket was %q, expected %q'' [AStr label, AStr (oi_Bucket i), AStr bucket]),
          unless (oi_Name i = name)
            (Errorf ''%s name was %q, expected %q'' [AStr label, AStr (oi_Name i), AStr name]),
          unless (oi_Size i = size')
            (Errorf ''%s size was %d, expected %d'' [AStr label, AInt (uint (oi_Size i)), AInt (uint size')]),
          unless (oi_Chunks i = chunks)
            (Errorf ''%s chunks were %d, expected %d''
               [AStr label, AInt (uint (oi_Chunks i)), AInt (uint chunks)])])"

definition object_link_of :: "object_info option \<Rightarrow> object_link option" where
  "object_link_of info = do { i \<leftarrow> info; opts \<leftarrow> oi_Opts i; oo_Link opts }"

definition checkObjectLink :: "string \<Rightarrow> object_info option \<Rightarrow> string \<Rightarrow> string \<Rightarrow> check" where
  "checkObjectLink label info bucket name =
     (case object_link_of info of
        None \<Rightarrow> Some (Errorf ''%s did not contain an object link'' [AStr label])
      | Some link \<Rightarrow> checks [
          unless (ol_Bucket link = bucket)
            (Errorf ''%s target bucket was %q, expected %q'' [AStr label, AStr (ol_Bucket link), AStr bucket]),
          unless (ol_Name link = name)
            (Errorf ''%s target name was %q, expected %q'' [AStr label, AStr (ol_Name link), AStr name])])"

fun objectStoreHasName :: "object_info option list \<Rightarrow> string \<Rightarrow> bool" where
  "objectStoreHasName [] name = False"
| "objectStoreHasName (obj # objs) name =
     (if (case obj of None \<Rightarrow> False | Some i \<Rightarrow> oi_Name i = name) then True
      else objectStoreHasName objs name)"

lemma checkObjectStoreStatus_None [check_simps]:
  "checkObjectStoreStatus l s bucket = None \<longleftrightarrow>
     os_Bucket s = bucket \<and> os_Description s = ''interop'' \<and> os_Storage s = MemoryStorage \<and>
     os_BackingStore s = ''JetStream'' \<and> map_at (os_Metadata s) ''owner'' = ''interop'' \<and> \<not> os_Sealed s"
  by (auto simp: checkObjectStoreStatus_def)

lemma checkReplicatedObjectStoreStatus_None [check_simps]:
  "checkReplicatedObjectStoreStatus l s bucket n = None \<longleftrightarrow>
     os_Bucket s = bucket \<and> os_Description s = ''interop-cluster'' \<and> os_Storage s = FileStorage \<and>
     os_Replicas s = 3 \<and> n \<le> os_Size s \<and>
     map_at (os_Metadata s) ''owner'' = ''interop-cluster'' \<and> \<not> os_Sealed s"
  by (auto simp: checkReplicatedObjectStoreStatus_def)

lemma checkObjectInfo_None [check_simps]:
  "checkObjectInfo l info bucket name n chunks = None \<longleftrightarrow>
     (\<exists>i. info = Some i \<and> oi_Bucket i = bucket \<and> oi_Name i = name \<and> oi_Size i = n \<and> oi_Chunks i = chunks)"
  by (auto simp: checkObjectInfo_def split: option.splits)

lemma checkObjectLink_None [check_simps]:
  "checkObjectLink l info bucket name = None \<longleftrightarrow>
     object_link_of info = Some \<lparr>ol_Bucket = bucket, ol_Name = name\<rparr>"
  by (auto simp: checkObjectLink_def split: option.splits)

lemma objectStoreHasName_iff:
  "objectStoreHasName objs name \<longleftrightarrow> (\<exists>i. Some i \<in> set objs \<and> oi_Name i = name)"
  by (induction objs) (auto split: option.splits)

section \<open>Services\<close>

definition goServiceName :: string where "goServiceName = ''go-interop-service''"
definition ocamlServiceName :: string where "ocamlServiceName = ''ocaml-interop-service''"

fun find_endpoint :: "endpoint_stats list \<Rightarrow> string \<Rightarrow> endpoint_stats option" where
  "find_endpoint [] name = None"
| "find_endpoint (e # es) name = (if es_Name e = name then Some e else find_endpoint es name)"

definition endpointStats :: "micro_stats \<Rightarrow> string \<Rightarrow> gerr + endpoint_stats" where
  "endpointStats stats name =
     (case find_endpoint (mst_Endpoints stats) name of
        Some e \<Rightarrow> Inr e
      | None \<Rightarrow> Inl (Errorf ''service %q stats omitted endpoint %q'' [AStr (mst_Name stats), AStr name]))"

definition checkMetadata :: "string \<Rightarrow> smap \<Rightarrow> string \<Rightarrow> string \<Rightarrow> check" where
  "checkMetadata label metadata name expected =
     unless (map_at metadata name = expected)
       (Errorf ''%s metadata %q was %q, expected %q''
          [AStr label, AStr name, AStr (map_at metadata name), AStr expected])"

definition checkEndpointInfo ::
  "string \<Rightarrow> string \<Rightarrow> endpoint_info \<Rightarrow> string \<Rightarrow> string \<Rightarrow> check" where
  "checkEndpointInfo DefaultQueueGroup label endpoint name subject = checks [
     unless (ei_Name endpoint = name)
       (Errorf ''%s endpoint name was %q, expected %q'' [AStr label, AStr (ei_Name endpoint), AStr name]),
     unless (ei_Subject endpoint = subject)
       (Errorf ''%s endpoint subject was %q, expected %q''
          [AStr label, AStr (ei_Subject endpoint), AStr subject]),
     unless (ei_QueueGroup endpoint = DefaultQueueGroup)
       (Errorf ''%s endpoint queue group was %q, expected %q''
          [AStr label, AStr (ei_QueueGroup endpoint), AStr DefaultQueueGroup]),
     checkMetadata label (ei_Metadata endpoint) ''role'' ''interop'']"

definition expected_data :: "string \<Rightarrow> string \<Rightarrow> smap" where
  "expected_data generator name =
     [(''generator'', generator), (''endpoint'', name), (''status'', ''ready'')]"

text \<open>
  The last loop ranges over a Go map, whose iteration order is unspecified: \<open>order\<close> is the
  order of one run. \<open>Unmarshal\<close> is the JSON decoder.
\<close>

fun data_mismatch :: "string \<Rightarrow> smap \<Rightarrow> smap \<Rightarrow> string list \<Rightarrow> check" where
  "data_mismatch label data expected [] = None"
| "data_mismatch label data expected (key # keys) =
     (if map_at data key \<noteq> map_at expected key
      then Some (Errorf ''%s custom endpoint data %q was %q, expected %q''
                   [AStr label, AStr key, AStr (map_at data key), AStr (map_at expected key)])
      else data_mismatch label data expected keys)"

definition checkStatsData ::
  "string list \<Rightarrow> (string \<Rightarrow> gerr + smap) \<Rightarrow> string \<Rightarrow> endpoint_stats \<Rightarrow> string \<Rightarrow> string \<Rightarrow> check" where
  "checkStatsData order Unmarshal label endpoint generator name =
     (if length (es_Data endpoint) = 0
      then Some (Errorf ''%s omitted custom endpoint data'' [AStr label])
      else case Unmarshal (es_Data endpoint) of
        Inl err \<Rightarrow> Some (Errorf ''%s custom endpoint data: %w'' [AStr label, AWrap err])
      | Inr data \<Rightarrow>
          (let expected = expected_data generator name in
           andthen (unless (map_len data = map_len expected)
                      (Errorf ''%s custom endpoint data had %d fields, expected %d''
                         [AStr label, AInt (int (map_len data)), AInt (int (map_len expected))]))
             (data_mismatch label data expected order)))"

definition serviceReconnectInfo ::
  "string \<Rightarrow> string \<Rightarrow> micro_info \<Rightarrow> string \<Rightarrow> string \<Rightarrow> check" where
  "serviceReconnectInfo DefaultQueueGroup label info name subject = checks [
     unless (mi_Name info = name)
       (Errorf ''%s service name was %q, expected %q'' [AStr label, AStr (mi_Name info), AStr name]),
     unless (mi_Version info = ''1.2.3'')
       (Errorf ''%s service version was %q, expected %q'' [AStr label, AStr (mi_Version info), AStr ''1.2.3'']),
     checkMetadata label (mi_Metadata info) ''suite'' ''interop'',
     (case mi_Endpoints info of
        [endpoint] \<Rightarrow> checkEndpointInfo DefaultQueueGroup label endpoint ''echo'' subject
      | endpoints \<Rightarrow> Some (Errorf ''%s service advertised %d endpoints, expected 1''
                             [AStr label, AInt (int (length endpoints))]))]"

definition serviceReconnectStats ::
  "string list \<Rightarrow> (string \<Rightarrow> gerr + smap) \<Rightarrow> string \<Rightarrow> string \<Rightarrow> micro_stats \<Rightarrow>
   string \<Rightarrow> string \<Rightarrow> string \<Rightarrow> int \<Rightarrow> string \<Rightarrow> check" where
  "serviceReconnectStats order Unmarshal DefaultQueueGroup label stats name id' subject
     expectedRequests generator = checks [
     unless (mst_Name stats = name)
       (Errorf ''%s stats service name was %q, expected %q'' [AStr label, AStr (mst_Name stats), AStr name]),
     unless (mst_ID stats = id')
       (Errorf ''%s stats service id was %q, expected %q'' [AStr label, AStr (mst_ID stats), AStr id']),
     unless (mst_Version stats = ''1.2.3'')
       (Errorf ''%s stats service version was %q, expected %q''
          [AStr label, AStr (mst_Version stats), AStr ''1.2.3'']),
     checkMetadata label (mst_Metadata stats) ''suite'' ''interop'',
     (case mst_Endpoints stats of
        [endpoint] \<Rightarrow> checks [
          unless (es_Name endpoint = ''echo'')
            (Errorf ''%s endpoint name was %q, expected %q''
               [AStr label, AStr (es_Name endpoint), AStr ''echo'']),
          unless (es_Subject endpoint = subject)
            (Errorf ''%s endpoint subject was %q, expected %q''
               [AStr label, AStr (es_Subject endpoint), AStr subject]),
          unless (es_QueueGroup endpoint = DefaultQueueGroup)
            (Errorf ''%s endpoint queue group was %q, expected %q''
               [AStr label, AStr (es_QueueGroup endpoint), AStr DefaultQueueGroup]),
          unless (es_NumRequests endpoint = expectedRequests)
            (Errorf ''%s endpoint request count was %d, expected %d''
               [AStr label, AInt (es_NumRequests endpoint), AInt expectedRequests]),
          unless (es_NumErrors endpoint = 0)
            (Errorf ''%s endpoint error count was %d, expected 0'' [AStr label, AInt (es_NumErrors endpoint)]),
          checkStatsData order Unmarshal label endpoint generator ''echo'']
      | endpoints \<Rightarrow> Some (Errorf ''%s stats advertised %d endpoints, expected 1''
                             [AStr label, AInt (int (length endpoints))]))]"

section \<open>Properties\<close>

text \<open>
  On every version string a server reports (major.minor.patch, then anything that does not
  go on with a digit) the test for Key-Value limit markers answers whether the version is at
  least 2.11, and never fails.
\<close>

theorem marker_ttl_from_2_11:
  assumes "major \<le> int_max" "minor \<le> int_max" "patch \<le> int_max"
    and "rest = [] \<or> \<not> is_digit (hd rest)"
  shows "keyValueMarkerTTLSupported
           (show_nat major @ ''.'' @ show_nat minor @ ''.'' @ show_nat patch @ rest) =
         Inr (2 < major \<or> major = 2 \<and> 11 \<le> minor)"
proof -
  have dot: "\<not> is_digit CHR ''.''" by (simp add: is_digit_def)
  have "scan_version (show_nat major @ ''.'' @ show_nat minor @ ''.'' @ show_nat patch @ rest) =
      Some (int major, int minor, int patch)"
    using dot by (simp add: scan_version_def scan_int_show_nat assms)
  then show ?thesis by (simp add: keyValueMarkerTTLSupported_def)
qed

theorem marker_ttl_from_2_11_witness:
  "keyValueMarkerTTLSupported
     (show_nat 2 @ ''.'' @ show_nat 12 @ ''.'' @ show_nat 0 @ ''-RC.1'') = Inr True"
  using marker_ttl_from_2_11 [of 2 12 0 "''-RC.1''"] by (simp add: int_max_def is_digit_def)

lemma data_mismatch_None:
  "data_mismatch label data expected keys = None \<longleftrightarrow>
     (\<forall>k \<in> set keys. map_at data k = map_at expected k)"
  by (induction keys) auto

lemma expected_data_dom: "dom (map_of (expected_data g n)) = {''generator'', ''endpoint'', ''status''}"
  by (auto simp: expected_data_def split: if_splits)

lemma expected_data_card: "card (dom (map_of (expected_data g n))) = 3"
  by (simp add: expected_data_dom)

lemma same_size_maps_eq:
  assumes "map_len data = card (dom (map_of ex))"
    and "\<forall>k \<in> dom (map_of ex). map_at data k = map_at ex k"
    and "\<forall>k \<in> dom (map_of ex). map_at ex k \<noteq> []"
  shows "map_of data = map_of ex"
proof -
  have sub: "dom (map_of ex) \<subseteq> dom (map_of data)"
    using assms(2,3) by (auto simp: map_at_def split: option.splits)
  have fin: "finite (dom (map_of data))" by (rule finite_dom_map_of)
  have dom: "dom (map_of ex) = dom (map_of data)"
    using card_subset_eq [OF fin sub] assms(1) by (simp add: map_len_card)
  show ?thesis
  proof
    fix k
    show "map_of data k = map_of ex k"
    proof (cases "k \<in> dom (map_of ex)")
      case True
      then obtain v where v: "map_of ex k = Some v" by blast
      from True dom obtain w where w: "map_of data k = Some w" by blast
      from assms(2) True have "map_at data k = map_at ex k" by blast
      with v w show ?thesis by (simp add: map_at_def)
    next
      case False
      with dom show ?thesis by (metis domIff)
    qed
  qed
qed

text \<open>
  In whatever order Go ranges over the expected map, the custom data of an endpoint is
  accepted exactly when it is present, decodes, and is the expected map: no key missing, none
  extra, no value different. Counting fields and comparing the expected keys is enough because
  no expected value is empty.
\<close>

theorem checkStatsData_exact:
  assumes "set order = {''generator'', ''endpoint'', ''status''}" "generator \<noteq> []" "name \<noteq> []"
  shows "checkStatsData order Unmarshal label endpoint generator name = None \<longleftrightarrow>
     es_Data endpoint \<noteq> [] \<and>
     (\<exists>data. Unmarshal (es_Data endpoint) = Inr data \<and> map_of data = map_of (expected_data generator name))"
proof -
  let ?ex = "expected_data generator name"
  have ord: "set order = dom (map_of ?ex)" using assms(1) by (simp only: expected_data_dom)
  have ne: "\<forall>k \<in> dom (map_of ?ex). map_at ?ex k \<noteq> []"
    unfolding expected_data_dom using assms(2,3) by (simp add: expected_data_def map_at_def)
  have "(map_len data = map_len ?ex \<and> (\<forall>k \<in> set order. map_at data k = map_at ?ex k)) \<longleftrightarrow>
      map_of data = map_of ?ex" for data
  proof
    assume "map_len data = map_len ?ex \<and> (\<forall>k \<in> set order. map_at data k = map_at ?ex k)"
    then show "map_of data = map_of ?ex"
      using ne ord by (intro same_size_maps_eq) (simp_all add: map_len_card [of ?ex])
  qed (simp add: map_len_card map_at_def)
  then show ?thesis
    by (auto simp: checkStatsData_def Let_def data_mismatch_None split: sum.splits)
qed

theorem checkStatsData_exact_witness:
  "checkStatsData [''endpoint'', ''generator'', ''status'']
     (\<lambda>_. Inr [(''status'', ''ready''), (''endpoint'', ''echo''), (''generator'', ''go'')]) ''l''
     \<lparr>es_Name = ''echo'', es_Subject = ''s'', es_QueueGroup = ''q'', es_NumRequests = 1,
      es_NumErrors = 0, es_Data = ''x''\<rparr> ''go'' ''echo'' = None"
proof (subst checkStatsData_exact)
  show "es_Data \<lparr>es_Name = ''echo'', es_Subject = ''s'', es_QueueGroup = ''q'', es_NumRequests = 1,
      es_NumErrors = 0, es_Data = ''x''\<rparr> \<noteq> [] \<and>
     (\<exists>data. Inr [(''status'', ''ready''), (''endpoint'', ''echo''), (''generator'', ''go'')] = Inr data \<and>
        map_of data = map_of (expected_data ''go'' ''echo''))"
    by (auto simp: expected_data_def fun_eq_iff)
qed auto

end
