(* ===== verification/GoIO.thy ===== *)
theory GoIO
  imports GoStores
begin

text \<open>
  Effects of the Go peer: the outcome type, sequencing, \<open>defer\<close>, the record of outside
  operations (\<open>api\<close>), and polling loops with a deadline.
\<close>

section \<open>Outcomes and sequencing\<close>

type_synonym chan = string
type_synonym conn = nat

text \<open>
  Handles of nats.go objects: a JetStream context, a subscription, a stream or consumer of the
  newer API, a Key-Value bucket, an Object Store, a watcher, a Service. A handle is only ever
  passed back to the library.
\<close>

type_synonym jsc = nat
type_synonym subn = nat
type_synonym strm = nat
type_synonym cons = nat
type_synonym kvh = nat
type_synonym objh = nat
type_synonym wat = nat
type_synonym svc = nat

datatype natsopt =
    OName string
  | OToken string
  | ONkey string string
  | OUserCredentials string string
  | OUserInfo string string
  | ORootCAs string
  | OClientCert string string
  | ODontRandomize
  | OReconnectWait nat
  | OMaxReconnects int
  | OReconnectHandler chan
  | ODisconnectHandler chan

text \<open>
  The handshake control object; its \<open>ready\<close> channel has capacity one: whether it holds its token.
\<close>

record keyValueControl =
  kc_latest :: "msg option"
  kc_ready :: bool
  kc_complete :: bool
  kc_response :: string

text \<open>
  The calls a run records. The last argument of most is whether the call returned no error;
  for a receive it is the message, \<open>None\<close> when the timer fired first.
\<close>

datatype event =
    EConnect string "conn option"
  | EClose conn
  | ESubscribe string chan bool
  | EFlush bool
  | EPublish msg bool
  | ERequest msg "msg option"
  | ERespond msg string bool
  | EDrain bool
  | EReadFile string bool
  | EWriteFile string string bool
  | EStat string
  | EReceive chan "msg option"
  | EReceiveErr chan
  | EReceiveUnit chan bool
  | ECall string bool
  | EAcquire string "nat option"
  | ERelease string nat bool
  | EJSPublish msg "string option" "puback option"
  | EDeliver subn "msg option"
  | EAck msg bool
  | EOp string "string list" bool
  | ESelect chan chan
  | ECreateTemp string "string option"
  | EWriteString string string bool
  | ECloseFile string bool
  | ERename string string bool
  | ERemove string

text \<open>What a \<open>select\<close> over a signal channel, an error channel and a timer answers.\<close>

datatype selection = GotUnit | GotErr gerr | TimerFired

datatype ('e, 'a) outcome = Out (res: 'a) (outside: 'e) (took: nat) (calls: "event list")

type_synonym ('e, 'a) io = "nat \<Rightarrow> 'e \<Rightarrow> ('e, 'a) outcome"
type_synonym ('e, 'a) act = "'e \<Rightarrow> 'a \<times> 'e \<times> nat"

definition ret :: "'a \<Rightarrow> ('e, 'a) io" where
  "ret a t e = Out a e 0 []"

definition bnd :: "('e, 'a) io \<Rightarrow> ('a \<Rightarrow> ('e, 'b) io) \<Rightarrow> ('e, 'b) io" where
  "bnd m k t e =
     (case m t e of Out a e1 d1 l1 \<Rightarrow>
      (case k a (t + d1) e1 of Out b e2 d2 l2 \<Rightarrow> Out b e2 (d1 + d2) (l1 @ l2)))"

text \<open>A call into the outside, recorded as the event \<open>ev r\<close> of its result.\<close>

definition perform :: "('a \<Rightarrow> event) \<Rightarrow> ('e, 'a) act \<Rightarrow> ('e, 'a) io" where
  "perform ev f t e = (case f e of (r, e', d) \<Rightarrow> Out r e' d [ev r])"

definition clock :: "('e, nat) io" where
  "clock t e = Out t e 0 []"

definition sleep :: "nat \<Rightarrow> ('e, unit) io" where
  "sleep d t e = Out () e d []"

text \<open>\<open>x, err := m; if err != nil { return wrap(err) }\<close>, then the rest.\<close>

definition try_call :: "('e, gerr + 'a) io \<Rightarrow> (gerr \<Rightarrow> gerr) \<Rightarrow> ('a \<Rightarrow> ('e, gerr + 'b) io) \<Rightarrow> ('e, gerr + 'b) io" where
  "try_call m w k = bnd m (\<lambda>r. case r of Inl err \<Rightarrow> ret (Inl (w err)) | Inr a \<Rightarrow> k a)"

text \<open>The same for a call that returns only an error.\<close>

definition must :: "('e, check) io \<Rightarrow> (gerr \<Rightarrow> gerr) \<Rightarrow> ('e, gerr + 'b) io \<Rightarrow> ('e, gerr + 'b) io" where
  "must m w k = bnd m (\<lambda>r. case r of Some err \<Rightarrow> ret (Inl (w err)) | None \<Rightarrow> k)"

text \<open>A pure check: \<open>if err := c; err != nil { return err }\<close>.\<close>

definition require :: "check \<Rightarrow> ('e, gerr + 'b) io \<Rightarrow> ('e, gerr + 'b) io" where
  "require c k = (case c of Some err \<Rightarrow> ret (Inl err) | None \<Rightarrow> k)"

text \<open>\<open>defer cleanup()\<close> followed by the body: the cleanup runs on every return.\<close>

definition deferred :: "('e, unit) io \<Rightarrow> ('e, 'a) io \<Rightarrow> ('e, 'a) io" where
  "deferred cleanup body = bnd body (\<lambda>r. bnd cleanup (\<lambda>_. ret r))"

text \<open>
  \<open>done := false; defer func() { if !done { cleanup } }(); m; done = true\<close>, then the rest: the
  cleanup runs only when a step of \<open>m\<close> returns.
\<close>

definition guarded :: "('e, unit) io \<Rightarrow> ('e, gerr + 'a) io \<Rightarrow> ('a \<Rightarrow> ('e, gerr + 'b) io) \<Rightarrow> ('e, gerr + 'b) io" where
  "guarded cleanup m k =
     bnd m (\<lambda>r. case r of Inl err \<Rightarrow> bnd cleanup (\<lambda>_. ret (Inl err)) | Inr a \<Rightarrow> k a)"

text \<open>The early returns of a function whose last result is \<open>error\<close>.\<close>

definition as_check :: "('e, gerr + 'a) io \<Rightarrow> ('e, check) io" where
  "as_check m = bnd m (\<lambda>r. ret (case r of Inl err \<Rightarrow> Some err | Inr _ \<Rightarrow> None))"

lemma bnd_ret [simp]: "bnd (ret a) k = k a"
  by (intro ext) (simp add: bnd_def ret_def split: outcome.splits)

lemma ret_bnd [simp]: "bnd m ret = m"
  by (intro ext) (simp add: bnd_def ret_def split: outcome.splits)

lemma bnd_assoc: "bnd (bnd m k) h = bnd m (\<lambda>a. bnd (k a) h)"
  by (intro ext) (simp add: bnd_def add.assoc split: outcome.splits)

section \<open>The outside operations\<close>

text \<open>
  One field per call of nats.go and of the operating system. \<open>recv_msg ch t\<close> is the
  \<open>select\<close> of a receive on the channel \<open>ch\<close> against a timer of \<open>t\<close> nanoseconds; what is in
  the channels is put there by the library's callbacks, so it belongs to the outside.
\<close>

record 'e api =
  getenv :: "string \<Rightarrow> string option"
  nkey_from_seed :: "string \<Rightarrow> gerr + string"
  nkey_public_key :: "string \<Rightarrow> gerr + string"
  Metadata :: "msg \<Rightarrow> gerr + metadata"
  read_file :: "string \<Rightarrow> ('e, gerr + string) act"
  write_file :: "string \<Rightarrow> string \<Rightarrow> ('e, check) act"
  stat_file :: "string \<Rightarrow> ('e, check) act"
  connect :: "string \<Rightarrow> natsopt list \<Rightarrow> ('e, gerr + conn) act"
  close_conn :: "conn \<Rightarrow> ('e, unit) act"
  subscribe :: "conn \<Rightarrow> string \<Rightarrow> chan \<Rightarrow> ('e, check) act"
  flush :: "conn \<Rightarrow> ('e, check) act"
  drain :: "conn \<Rightarrow> ('e, check) act"
  publish_msg :: "conn \<Rightarrow> msg \<Rightarrow> ('e, check) act"
  request_msg :: "conn \<Rightarrow> msg \<Rightarrow> nat \<Rightarrow> ('e, gerr + msg) act"
  respond :: "msg \<Rightarrow> string \<Rightarrow> ('e, check) act"
  recv_msg :: "chan \<Rightarrow> nat \<Rightarrow> ('e, msg option) act"
  recv_err :: "chan \<Rightarrow> nat \<Rightarrow> ('e, check option) act"
  recv_unit :: "chan \<Rightarrow> nat \<Rightarrow> ('e, bool) act"
  js_context :: "conn \<Rightarrow> nat option \<Rightarrow> ('e, gerr + jsc) act"
  js_new :: "conn \<Rightarrow> ('e, gerr + jsc) act"
  js_add_stream :: "jsc \<Rightarrow> stream_config \<Rightarrow> ('e, gerr + stream_info) act"
  js_stream_info :: "jsc \<Rightarrow> string \<Rightarrow> nat \<Rightarrow> ('e, gerr + stream_info) act"
  js_add_consumer :: "jsc \<Rightarrow> string \<Rightarrow> consumer_config \<Rightarrow> ('e, gerr + consumer_info) act"
  js_consumer_info :: "jsc \<Rightarrow> string \<Rightarrow> string \<Rightarrow> nat option \<Rightarrow> ('e, gerr + consumer_info) act"
  js_consumer_names :: "jsc \<Rightarrow> string \<Rightarrow> nat \<Rightarrow> ('e, string list option) act"
  js_publish_msg :: "jsc \<Rightarrow> msg \<Rightarrow> string option \<Rightarrow> ('e, gerr + puback) act"
  js_get_msg :: "jsc \<Rightarrow> string \<Rightarrow> u64 \<Rightarrow> ('e, gerr + msg) act"
  js_pull_subscribe :: "jsc \<Rightarrow> string \<Rightarrow> string \<Rightarrow> subopt list \<Rightarrow> ('e, gerr + subn) act"
  js_subscribe_sync :: "jsc \<Rightarrow> string \<Rightarrow> subopt list \<Rightarrow> ('e, gerr + subn) act"
  sub_consumer_info :: "subn \<Rightarrow> ('e, gerr + consumer_info) act"
  sub_next_msg :: "subn \<Rightarrow> nat \<Rightarrow> ('e, gerr + msg) act"
  sub_fetch :: "subn \<Rightarrow> nat \<Rightarrow> nat \<Rightarrow> ('e, gerr + msg list) act"
  sub_unsubscribe :: "subn \<Rightarrow> ('e, check) act"
  msg_ack :: "msg \<Rightarrow> ('e, check) act"
  msg_ack_sync :: "msg \<Rightarrow> ('e, check) act"
  js_account_info :: "jsc \<Rightarrow> ('e, gerr + account_info) act"
  js_create_stream :: "jsc \<Rightarrow> stream_config \<Rightarrow> ('e, gerr + strm) act"
  js_stream :: "jsc \<Rightarrow> string \<Rightarrow> ('e, gerr + strm) act"
  js_stream_names :: "jsc \<Rightarrow> ('e, string list \<times> check) act"
  js_name_by_subject :: "jsc \<Rightarrow> string \<Rightarrow> ('e, gerr + string) act"
  stream_cached_info :: "strm \<Rightarrow> ('e, stream_info) act"
  stream_get_info :: "strm \<Rightarrow> ('e, gerr + stream_info) act"
  stream_set_consumer :: "strm \<Rightarrow> consumer_config \<Rightarrow> ('e, gerr + cons) act"
  stream_consumer :: "strm \<Rightarrow> string \<Rightarrow> ('e, gerr + cons) act"
  stream_consumer_names :: "strm \<Rightarrow> ('e, string list \<times> check) act"
  stream_last_msg :: "strm \<Rightarrow> string \<Rightarrow> ('e, gerr + msg) act"
  consumer_get_info :: "cons \<Rightarrow> ('e, gerr + consumer_info) act"
  consumer_fetch :: "cons \<Rightarrow> nat \<Rightarrow> nat \<Rightarrow> ('e, gerr + msg list \<times> check) act"
  server_version :: "conn \<Rightarrow> ('e, string) act"
  kv_create :: "jsc \<Rightarrow> kv_config \<Rightarrow> ('e, gerr + kvh) act"
  kv_open :: "jsc \<Rightarrow> string \<Rightarrow> ('e, gerr + kvh) act"
  kv_delete :: "jsc \<Rightarrow> string \<Rightarrow> ('e, check) act"
  kv_bucket :: "kvh \<Rightarrow> string"
  kv_get_status :: "kvh \<Rightarrow> ('e, gerr + kv_status) act"
  kv_put :: "kvh \<Rightarrow> string \<Rightarrow> string \<Rightarrow> ('e, gerr + u64) act"
  kv_get :: "kvh \<Rightarrow> string \<Rightarrow> ('e, gerr + kv_entry) act"
  kv_update :: "kvh \<Rightarrow> string \<Rightarrow> string \<Rightarrow> u64 \<Rightarrow> ('e, gerr + u64) act"
  kv_create_key :: "kvh \<Rightarrow> string \<Rightarrow> string \<Rightarrow> int \<Rightarrow> ('e, gerr + u64) act"
  kv_delete_key :: "kvh \<Rightarrow> string \<Rightarrow> u64 \<Rightarrow> ('e, check) act"
  kv_purge :: "kvh \<Rightarrow> string \<Rightarrow> u64 \<Rightarrow> int option \<Rightarrow> ('e, check) act"
  kv_history :: "kvh \<Rightarrow> string \<Rightarrow> ('e, gerr + kv_entry list) act"
  kv_watch :: "kvh \<Rightarrow> string \<Rightarrow> ('e, gerr + wat) act"
  recv_entry :: "wat \<Rightarrow> nat \<Rightarrow> ('e, kv_entry option option) act"
  watch_cancel :: "string \<Rightarrow> ('e, unit) act"
  watch_stop :: "wat \<Rightarrow> ('e, check) act"
  obj_create :: "jsc \<Rightarrow> object_config \<Rightarrow> ('e, gerr + objh) act"
  obj_open :: "jsc \<Rightarrow> string \<Rightarrow> ('e, gerr + objh) act"
  obj_delete :: "jsc \<Rightarrow> string \<Rightarrow> ('e, check) act"
  obj_is_nil :: "objh \<Rightarrow> bool"
  obj_get_status :: "objh \<Rightarrow> ('e, gerr + object_status) act"
  obj_put_string :: "objh \<Rightarrow> string \<Rightarrow> string \<Rightarrow> ('e, gerr + object_info option) act"
  obj_get_string :: "objh \<Rightarrow> string \<Rightarrow> ('e, gerr + string) act"
  obj_get_info :: "objh \<Rightarrow> string \<Rightarrow> bool \<Rightarrow> ('e, gerr + object_info option) act"
  obj_add_link :: "objh \<Rightarrow> string \<Rightarrow> object_info option \<Rightarrow> ('e, gerr + object_info option) act"
  obj_list :: "objh \<Rightarrow> ('e, gerr + object_info option list) act"
  obj_watch :: "objh \<Rightarrow> ('e, gerr + wat) act"
  recv_info :: "wat \<Rightarrow> nat \<Rightarrow> ('e, object_info option option) act"
  svc_add :: "conn \<Rightarrow> micro_config \<Rightarrow> ('e, gerr + svc) act"
  svc_add_endpoint :: "svc \<Rightarrow> string \<Rightarrow> string \<Rightarrow> smap \<Rightarrow> ('e, check) act"
  svc_stats :: "svc \<Rightarrow> ('e, micro_stats) act"
  svc_id :: "svc \<Rightarrow> string"
  svc_stop :: "svc \<Rightarrow> ('e, check) act"
  tick_or_timer :: "nat \<Rightarrow> ('e, bool) act"
  poll_err :: "chan \<Rightarrow> ('e, gerr option) act"
  req_respond :: "msg \<Rightarrow> string \<Rightarrow> smap \<Rightarrow> ('e, check) act"
  req_error :: "msg \<Rightarrow> string \<Rightarrow> string \<Rightarrow> string \<Rightarrow> smap \<Rightarrow> ('e, check) act"
  select_either :: "chan \<Rightarrow> chan \<Rightarrow> nat \<Rightarrow> ('e, selection) act"
  ControlSubject :: "string \<Rightarrow> string \<Rightarrow> string \<Rightarrow> gerr + string"
  duration_fraction :: "nat \<Rightarrow> nat \<Rightarrow> nat \<Rightarrow> nat"
  unmarshal_info :: "string \<Rightarrow> gerr + micro_info"
  unmarshal_stats :: "string \<Rightarrow> gerr + micro_stats"
  path_dir :: "string \<Rightarrow> string"
  path_base :: "string \<Rightarrow> string"
  create_temp :: "string \<Rightarrow> string \<Rightarrow> ('e, gerr + string) act"
  write_string :: "string \<Rightarrow> string \<Rightarrow> ('e, check) act"
  close_file :: "string \<Rightarrow> ('e, check) act"
  rename_file :: "string \<Rightarrow> string \<Rightarrow> ('e, check) act"
  remove_file :: "string \<Rightarrow> ('e, check) act"
  connected_url :: "conn \<Rightarrow> ('e, string) act"
  servers_known :: "conn \<Rightarrow> ('e, string list) act"
  servers_discovered :: "conn \<Rightarrow> ('e, string list) act"
  conn_status :: "conn \<Rightarrow> ('e, string) act"
  conn_last_error :: "conn \<Rightarrow> ('e, check) act"
  load_control :: "chan \<Rightarrow> ('e, keyValueControl) act"
  store_control :: "chan \<Rightarrow> keyValueControl \<Rightarrow> ('e, unit) act"

definition ok_sum :: "gerr + 'a \<Rightarrow> bool" where
  "ok_sum r = (case r of Inl _ \<Rightarrow> False | Inr _ \<Rightarrow> True)"

lemma ok_sum_simps [simp]: "ok_sum (Inl e) = False" "ok_sum (Inr a) = True"
  by (simp_all add: ok_sum_def)

definition sum_option :: "'a + 'b \<Rightarrow> 'b option" where
  "sum_option r = (case r of Inl _ \<Rightarrow> None | Inr b \<Rightarrow> Some b)"

lemma sum_option_simps [simp]: "sum_option (Inl e) = None" "sum_option (Inr a) = Some a"
  by (simp_all add: sum_option_def)

definition ReadFile :: "'e api \<Rightarrow> string \<Rightarrow> ('e, gerr + string) io" where
  "ReadFile A path = perform (\<lambda>r. EReadFile path (ok_sum r)) (read_file A path)"

definition WriteFile :: "'e api \<Rightarrow> string \<Rightarrow> string \<Rightarrow> ('e, check) io" where
  "WriteFile A path content = perform (\<lambda>r. EWriteFile path content (r = None)) (write_file A path content)"

definition Stat :: "'e api \<Rightarrow> string \<Rightarrow> ('e, check) io" where
  "Stat A path = perform (\<lambda>r. EStat path) (stat_file A path)"

definition Connect :: "'e api \<Rightarrow> string \<Rightarrow> natsopt list \<Rightarrow> ('e, gerr + conn) io" where
  "Connect A server opts = perform (\<lambda>r. EConnect server (sum_option r)) (connect A server opts)"

definition Close :: "'e api \<Rightarrow> conn \<Rightarrow> ('e, unit) io" where
  "Close A c = perform (\<lambda>_. EClose c) (close_conn A c)"

definition Subscribe :: "'e api \<Rightarrow> conn \<Rightarrow> string \<Rightarrow> chan \<Rightarrow> ('e, check) io" where
  "Subscribe A c subject ch = perform (\<lambda>r. ESubscribe subject ch (r = None)) (subscribe A c subject ch)"

definition Flush :: "'e api \<Rightarrow> conn \<Rightarrow> ('e, check) io" where
  "Flush A c = perform (\<lambda>r. EFlush (r = None)) (flush A c)"

definition Drain :: "'e api \<Rightarrow> conn \<Rightarrow> ('e, check) io" where
  "Drain A c = perform (\<lambda>r. EDrain (r = None)) (drain A c)"

definition PublishMsg :: "'e api \<Rightarrow> conn \<Rightarrow> msg \<Rightarrow> ('e, check) io" where
  "PublishMsg A c m = perform (\<lambda>r. EPublish m (r = None)) (publish_msg A c m)"

definition RequestMsg :: "'e api \<Rightarrow> conn \<Rightarrow> msg \<Rightarrow> nat \<Rightarrow> ('e, gerr + msg) io" where
  "RequestMsg A c m timeout = perform (\<lambda>r. ERequest m (sum_option r)) (request_msg A c m timeout)"

definition Respond :: "'e api \<Rightarrow> msg \<Rightarrow> string \<Rightarrow> ('e, check) io" where
  "Respond A m payload = perform (\<lambda>r. ERespond m payload (r = None)) (respond A m payload)"

definition RecvMsg :: "'e api \<Rightarrow> chan \<Rightarrow> nat \<Rightarrow> ('e, msg option) io" where
  "RecvMsg A ch timeout = perform (EReceive ch) (recv_msg A ch timeout)"

definition RecvErr :: "'e api \<Rightarrow> chan \<Rightarrow> nat \<Rightarrow> ('e, check option) io" where
  "RecvErr A ch timeout = perform (\<lambda>_. EReceiveErr ch) (recv_err A ch timeout)"

definition RecvUnit :: "'e api \<Rightarrow> chan \<Rightarrow> nat \<Rightarrow> ('e, bool) io" where
  "RecvUnit A ch timeout = perform (EReceiveUnit ch) (recv_unit A ch timeout)"

definition SelectEither :: "'e api \<Rightarrow> chan \<Rightarrow> chan \<Rightarrow> nat \<Rightarrow> ('e, selection) io" where
  "SelectEither A ready errors timeout = perform (\<lambda>_. ESelect ready errors) (select_either A ready errors timeout)"

text \<open>\<open>connection.Request(subject, data, timeout)\<close>: a message without headers.\<close>

definition Request :: "'e api \<Rightarrow> conn \<Rightarrow> string \<Rightarrow> string \<Rightarrow> nat \<Rightarrow> ('e, gerr + msg) io" where
  "Request A c subject data timeout = RequestMsg A c ((NewMsg subject)\<lparr>msg_Data := data\<rparr>) timeout"

text \<open>A temporary file is known by its name.\<close>

definition CreateTemp :: "'e api \<Rightarrow> string \<Rightarrow> string \<Rightarrow> ('e, gerr + string) io" where
  "CreateTemp A directory pattern = perform (\<lambda>r. ECreateTemp directory (sum_option r)) (create_temp A directory pattern)"

definition WriteString :: "'e api \<Rightarrow> string \<Rightarrow> string \<Rightarrow> ('e, check) io" where
  "WriteString A path content = perform (\<lambda>r. EWriteString path content (r = None)) (write_string A path content)"

definition CloseFile :: "'e api \<Rightarrow> string \<Rightarrow> ('e, check) io" where
  "CloseFile A path = perform (\<lambda>r. ECloseFile path (r = None)) (close_file A path)"

definition Rename :: "'e api \<Rightarrow> string \<Rightarrow> string \<Rightarrow> ('e, check) io" where
  "Rename A old new = perform (\<lambda>r. ERename old new (r = None)) (rename_file A old new)"

definition Remove :: "'e api \<Rightarrow> string \<Rightarrow> ('e, check) io" where
  "Remove A path = perform (\<lambda>_. ERemove path) (remove_file A path)"

text \<open>Library calls a trace records by name only.\<close>

definition call_sum :: "string \<Rightarrow> ('e, gerr + 'a) act \<Rightarrow> ('e, gerr + 'a) io" where
  "call_sum name f = perform (\<lambda>r. ECall name (ok_sum r)) f"

definition call_check :: "string \<Rightarrow> ('e, check) act \<Rightarrow> ('e, check) io" where
  "call_check name f = perform (\<lambda>r. ECall name (r = None)) f"

definition call_plain :: "string \<Rightarrow> ('e, 'a) act \<Rightarrow> ('e, 'a) io" where
  "call_plain name f = perform (\<lambda>r. ECall name True) f"

text \<open>
  A store operation with its textual arguments; a resource with the handle the call returned.
\<close>

definition op_sum :: "string \<Rightarrow> string list \<Rightarrow> ('e, gerr + 'a) act \<Rightarrow> ('e, gerr + 'a) io" where
  "op_sum name args f = perform (\<lambda>r. EOp name args (ok_sum r)) f"

definition op_check :: "string \<Rightarrow> string list \<Rightarrow> ('e, check) act \<Rightarrow> ('e, check) io" where
  "op_check name args f = perform (\<lambda>r. EOp name args (r = None)) f"

definition acquire :: "string \<Rightarrow> ('e, gerr + nat) act \<Rightarrow> ('e, gerr + nat) io" where
  "acquire name f = perform (\<lambda>r. EAcquire name (sum_option r)) f"

definition release :: "string \<Rightarrow> nat \<Rightarrow> ('e, check) act \<Rightarrow> ('e, check) io" where
  "release name h f = perform (\<lambda>r. ERelease name h (r = None)) f"

definition JSPublishMsg :: "'e api \<Rightarrow> jsc \<Rightarrow> msg \<Rightarrow> string option \<Rightarrow> ('e, gerr + puback) io" where
  "JSPublishMsg A js m id' = perform (\<lambda>r. EJSPublish m id' (sum_option r)) (js_publish_msg A js m id')"

definition NextMsg :: "'e api \<Rightarrow> subn \<Rightarrow> nat \<Rightarrow> ('e, gerr + msg) io" where
  "NextMsg A s timeout = perform (\<lambda>r. EDeliver s (sum_option r)) (sub_next_msg A s timeout)"

definition Ack :: "'e api \<Rightarrow> msg \<Rightarrow> ('e, check) io" where
  "Ack A m = perform (\<lambda>r. EAck m (r = None)) (msg_ack A m)"

definition AckSync :: "'e api \<Rightarrow> msg \<Rightarrow> ('e, check) io" where
  "AckSync A m = perform (\<lambda>r. EAck m (r = None)) (msg_ack_sync A m)"

definition Unsubscribe :: "'e api \<Rightarrow> subn \<Rightarrow> ('e, check) io" where
  "Unsubscribe A s = release ''subscription'' s (sub_unsubscribe A s)"

text \<open>A deferred call whose error is dropped.\<close>

definition ignore :: "('e, 'a) io \<Rightarrow> ('e, unit) io" where
  "ignore m = bnd m (\<lambda>_. ret ())"

section \<open>Deadlines and polling\<close>

definition second :: nat where "second = 1000000000"
definition millisecond :: nat where "millisecond = 1000000"

lemma time_units_pos [simp]: "0 < second" "0 < millisecond"
  by (simp_all add: second_def millisecond_def)

text \<open>
  One turn of a polling loop either ends the function (\<open>Finish\<close>) or goes round again,
  leaving \<open>lastError\<close> as it is (\<open>Again None\<close>) or assigning it.
\<close>

datatype 'a attempt = Finish 'a | Again check

text \<open>
  \<open>for time.Now().Before(deadline) { turn; time.Sleep(pause) }\<close>. Every turn that goes round
  sleeps, so the clock reaches the deadline: the measure is the time left. A sleep that lasts
  longer than asked is covered, since the outside may make the turn before it take longer.
\<close>

function poll :: "nat \<Rightarrow> nat \<Rightarrow> ('e, 'a attempt) io \<Rightarrow> check \<Rightarrow> ('e, check + 'a) io" where
  "poll deadline pause turn lastError t e =
     (if t < deadline \<and> 0 < pause
      then (case turn t e of Out r e1 d l \<Rightarrow>
             (case r of
                Finish a \<Rightarrow> Out (Inr a) e1 d l
              | Again upd \<Rightarrow>
                  (case poll deadline pause turn (case upd of None \<Rightarrow> lastError | Some x \<Rightarrow> Some x)
                          (t + d + pause) e1 of
                     Out r2 e2 d2 l2 \<Rightarrow> Out r2 e2 (d + pause + d2) (l @ l2))))
      else Out (Inl lastError) e 0 [])"
  by pat_completeness auto
termination
  by (relation "measure (\<lambda>(deadline, pause, turn, lastError, t, e). deadline - t)") auto

declare poll.simps [simp del]

text \<open>The value a poll returns comes from a turn that began before the deadline.\<close>

lemma poll_Inr:
  "poll deadline pause turn lastError t e = Out (Inr a) e' d l \<Longrightarrow>
   \<exists>t0 e0 d0 l0. t0 < deadline \<and> turn t0 e0 = Out (Finish a) e' d0 l0"
proof (induction deadline pause turn lastError t e arbitrary: d l rule: poll.induct)
  case (1 deadline pause turn lastError t e)
  show ?case
  proof (cases "t < deadline \<and> 0 < pause")
    case True
    obtain r e1 d1 l1 where turn: "turn t e = Out r e1 d1 l1" by (cases "turn t e")
    show ?thesis
    proof (cases r)
      case (Finish b)
      with "1.prems" True turn show ?thesis by (auto simp: poll.simps [of deadline])
    next
      case (Again upd)
      obtain r2 e2 d2 l2 where rec: "poll deadline pause turn
          (case upd of None \<Rightarrow> lastError | Some x \<Rightarrow> Some x) (t + d1 + pause) e1 = Out r2 e2 d2 l2"
        by (cases "poll deadline pause turn
          (case upd of None \<Rightarrow> lastError | Some x \<Rightarrow> Some x) (t + d1 + pause) e1")
      with "1.prems" True turn Again have "r2 = Inr a" "e2 = e'"
        by (auto simp: poll.simps [of deadline pause turn lastError t e])
      with "1.IH" [OF True turn Again] rec show ?thesis by blast
    qed
  next
    case False
    with "1.prems" show ?thesis by (subst (asm) poll.simps) simp
  qed
qed

text \<open>A poll that gives up has let the deadline pass: it never times out early.\<close>

lemma poll_Inl:
  "poll deadline pause turn lastError t e = Out (Inl x) e' d l \<Longrightarrow> 0 < pause \<Longrightarrow> deadline \<le> t + d"
proof (induction deadline pause turn lastError t e arbitrary: d l rule: poll.induct)
  case (1 deadline pause turn lastError t e)
  show ?case
  proof (cases "t < deadline \<and> 0 < pause")
    case True
    obtain r e1 d1 l1 where turn: "turn t e = Out r e1 d1 l1" by (cases "turn t e")
    show ?thesis
    proof (cases r)
      case (Finish b)
      with "1.prems" True turn show ?thesis by (auto simp: poll.simps [of deadline])
    next
      case (Again upd)
      obtain r2 e2 d2 l2 where rec: "poll deadline pause turn
          (case upd of None \<Rightarrow> lastError | Some x \<Rightarrow> Some x) (t + d1 + pause) e1 = Out r2 e2 d2 l2"
        by (cases "poll deadline pause turn
          (case upd of None \<Rightarrow> lastError | Some x \<Rightarrow> Some x) (t + d1 + pause) e1")
      with "1.prems" True turn Again have eq: "r2 = Inl x" "e2 = e'" "d = d1 + pause + d2"
        by (auto simp: poll.simps [of deadline pause turn lastError t e])
      have "deadline \<le> t + d1 + pause + d2"
        using "1.IH" [OF True turn Again] rec eq "1.prems"(2) by blast
      with eq show ?thesis by simp
    qed
  next
    case False
    with "1.prems" show ?thesis by (subst (asm) poll.simps) auto
  qed
qed

text \<open>No turn starts after the deadline, so a poll overruns it by at most one turn and one pause.\<close>

lemma poll_overrun:
  "\<forall>t e. took (turn t e) \<le> longest \<Longrightarrow>
     took (poll deadline pause turn lastError t e) \<le> (deadline - t) + longest + pause"
proof (induction deadline pause turn lastError t e rule: poll.induct)
  case (1 deadline pause turn lastError t e)
  show ?case
  proof (cases "t < deadline \<and> 0 < pause")
    case True
    obtain r e1 d1 l1 where turn: "turn t e = Out r e1 d1 l1" by (cases "turn t e")
    with "1.prems" have d1: "d1 \<le> longest" by (metis outcome.sel(3))
    show ?thesis
    proof (cases r)
      case (Finish b)
      with d1 True turn show ?thesis by (auto simp: poll.simps [of deadline])
    next
      case (Again upd)
      obtain r2 e2 d2 l2 where rec: "poll deadline pause turn
          (case upd of None \<Rightarrow> lastError | Some x \<Rightarrow> Some x) (t + d1 + pause) e1 = Out r2 e2 d2 l2"
        by (cases "poll deadline pause turn
          (case upd of None \<Rightarrow> lastError | Some x \<Rightarrow> Some x) (t + d1 + pause) e1")
      have whole: "took (poll deadline pause turn lastError t e) = d1 + pause + d2"
        using rec turn True Again by (simp add: poll.simps [of deadline pause turn lastError t e])
      show ?thesis
      proof (cases "t + d1 + pause < deadline")
        case True': True
        have "d2 \<le> deadline - (t + d1 + pause) + longest + pause"
          using "1.IH" [OF True turn Again "1.prems"] rec by simp
        with True' whole show ?thesis by simp
      next
        case False
        then have "d2 = 0" using rec by (simp add: poll.simps [of deadline pause turn _ "t + d1 + pause"])
        with whole d1 show ?thesis by simp
      qed
    qed
  next
    case False
    then show ?thesis by (subst poll.simps) auto
  qed
qed

end
