(* ===== verification/GoModes.thy ===== *)
theory GoModes
  imports GoIO
begin

text \<open>
  The command line of the interop peer: its options, their validation, authentication from
  the environment, the dispatch on \<open>-mode\<close>, and \<open>main\<close> with its exit codes.
\<close>

section \<open>Options\<close>

record options =
  op_server :: string
  op_prefix :: string
  op_stream :: string
  op_bucket :: string
  op_ready :: string
  op_signal :: string
  op_leader :: string
  op_survivor :: string
  op_changedAdvertisedURL :: string
  op_mode :: string
  op_requireReplicatedStream :: bool
  op_multiNodeLoss :: bool
  op_managementFailure :: bool

definition contains_any :: "string \<Rightarrow> string \<Rightarrow> bool" where
  "contains_any s chars \<longleftrightarrow> (\<exists>c \<in> set s. c \<in> set chars)"

definition validateOptions :: "options \<Rightarrow> check" where
  "validateOptions config =
     (if op_server config = [] \<or> op_prefix config = [] \<or> op_ready config = [] \<or>
         contains_any (op_prefix config) ('' '' @ [CR, LF])
      then Some (Errorf ''server, prefix, and ready-file are required; prefix may not contain whitespace'' [])
      else None)"

lemma validateOptions_None [check_simps]:
  "validateOptions c = None \<longleftrightarrow>
     op_server c \<noteq> [] \<and> op_prefix c \<noteq> [] \<and> op_ready c \<noteq> [] \<and>
     CHR '' '' \<notin> set (op_prefix c) \<and> CR \<notin> set (op_prefix c) \<and> LF \<notin> set (op_prefix c)"
  by (auto simp: validateOptions_def contains_any_def)

section \<open>Authentication from the environment\<close>

definition auth_options :: "'e api \<Rightarrow> ('e, gerr + natsopt list) io" where
  "auth_options A =
     (let token = getenv A ''NATS_TEST_TOKEN'';
          user = getenv A ''NATS_TEST_USER'';
          password = getenv A ''NATS_TEST_PASS'';
          nkeySeedFile = getenv A ''NATS_TEST_NKEY_SEED_FILE'';
          userJWTFile = getenv A ''NATS_TEST_USER_JWT_FILE'';
          userSeedFile = getenv A ''NATS_TEST_USER_SEED_FILE'';
          tokenSet = token \<noteq> None; userSet = user \<noteq> None; passwordSet = password \<noteq> None;
          nkeySet = nkeySeedFile \<noteq> None; userJWTSet = userJWTFile \<noteq> None;
          userSeedSet = userSeedFile \<noteq> None
      in
      if tokenSet \<and> (userSet \<or> passwordSet \<or> nkeySet \<or> userJWTSet \<or> userSeedSet) then
        ret (Inl (New ''NATS_TEST_TOKEN cannot be combined with another authentication mode''))
      else if nkeySet \<and> (userSet \<or> passwordSet \<or> userJWTSet \<or> userSeedSet) then
        ret (Inl (New ''NATS_TEST_NKEY_SEED_FILE cannot be combined with another authentication mode''))
      else if (userJWTSet \<or> userSeedSet) \<and> (userSet \<or> passwordSet \<or> nkeySet) then
        ret (Inl (New ''NATS_TEST_USER_JWT_FILE and NATS_TEST_USER_SEED_FILE cannot be combined with another authentication mode''))
      else if tokenSet then
        (if the token = [] then ret (Inl (New ''NATS_TEST_TOKEN must be non-empty''))
         else ret (Inr [OToken (the token)]))
      else if nkeySet then
        (if the nkeySeedFile = [] then ret (Inl (New ''NATS_TEST_NKEY_SEED_FILE must be non-empty''))
         else try_call (ReadFile A (the nkeySeedFile)) (wrap ''read NKey seed'') (\<lambda>seed.
           (case nkey_from_seed A (trim_space seed) of
              Inl err \<Rightarrow> ret (Inl (wrap ''parse NKey seed'' err))
            | Inr keyPair \<Rightarrow>
                (case nkey_public_key A keyPair of
                   Inl err \<Rightarrow> ret (Inl (wrap ''derive NKey public key'' err))
                 | Inr publicKey \<Rightarrow> ret (Inr [ONkey publicKey keyPair])))))
      else if userJWTSet \<or> userSeedSet then
        (if \<not> userJWTSet \<or> \<not> userSeedSet \<or> the userJWTFile = [] \<or> the userSeedFile = [] then
           ret (Inl (New ''NATS_TEST_USER_JWT_FILE and NATS_TEST_USER_SEED_FILE must both be non-empty''))
         else try_call (ReadFile A (the userJWTFile)) (wrap ''read user JWT'') (\<lambda>_.
              try_call (ReadFile A (the userSeedFile)) (wrap ''read user NKey seed'') (\<lambda>_.
              ret (Inr [OUserCredentials (the userJWTFile) (the userSeedFile)]))))
      else if userSet \<or> passwordSet then
        (if user = None \<or> the user = [] \<or> password = None \<or> the password = [] then
           ret (Inl (New ''NATS_TEST_USER and NATS_TEST_PASS must both be non-empty''))
         else ret (Inr [OUserInfo (the user) (the password)]))
      else ret (Inr []))"

text \<open>An unset variable reads as the empty string, as \<open>os.LookupEnv\<close> returns it.\<close>

definition env_value :: "string option \<Rightarrow> string" where
  "env_value v = (case v of None \<Rightarrow> [] | Some s \<Rightarrow> s)"

definition tls_options :: "'e api \<Rightarrow> gerr + natsopt list" where
  "tls_options A =
     (let ca = getenv A ''NATS_TEST_TLS_CA'';
          clientCert = getenv A ''NATS_TEST_TLS_CERT'';
          clientKey = getenv A ''NATS_TEST_TLS_KEY'' in
      if ca = Some [] then Inl (New ''NATS_TEST_TLS_CA must be non-empty'')
      else
        (let roots = (case ca of None \<Rightarrow> [] | Some caFile \<Rightarrow> [ORootCAs caFile]) in
         if clientCert \<noteq> None \<or> clientKey \<noteq> None then
           (if env_value clientCert = [] \<or> env_value clientKey = [] then
              Inl (New ''NATS_TEST_TLS_CERT and NATS_TEST_TLS_KEY must both be non-empty'')
            else Inr (roots @ [OClientCert (env_value clientCert) (env_value clientKey)]))
         else Inr roots))"

definition connectOptions :: "'e api \<Rightarrow> ('e, gerr + natsopt list) io" where
  "connectOptions A =
     try_call (auth_options A) id (\<lambda>options.
       ret (case tls_options A of Inl err \<Rightarrow> Inl err | Inr tls \<Rightarrow> Inr (options @ tls)))"

definition is_auth :: "natsopt \<Rightarrow> bool" where
  "is_auth opt = (case opt of OToken _ \<Rightarrow> True | ONkey _ _ \<Rightarrow> True | OUserCredentials _ _ \<Rightarrow> True
                   | OUserInfo _ _ \<Rightarrow> True | _ \<Rightarrow> False)"

definition is_set :: "'e api \<Rightarrow> string \<Rightarrow> bool" where
  "is_set A name \<longleftrightarrow> getenv A name \<noteq> None"

text \<open>The authentication modes the environment asks for.\<close>

definition auth_modes :: "'e api \<Rightarrow> string list" where
  "auth_modes A =
     (if is_set A ''NATS_TEST_TOKEN'' then [''token''] else []) @
     (if is_set A ''NATS_TEST_NKEY_SEED_FILE'' then [''nkey''] else []) @
     (if is_set A ''NATS_TEST_USER_JWT_FILE'' \<or> is_set A ''NATS_TEST_USER_SEED_FILE'' then [''jwt''] else []) @
     (if is_set A ''NATS_TEST_USER'' \<or> is_set A ''NATS_TEST_PASS'' then [''user''] else [])"

definition mode_of :: "natsopt \<Rightarrow> string option" where
  "mode_of opt = (case opt of OToken _ \<Rightarrow> Some ''token'' | ONkey _ _ \<Rightarrow> Some ''nkey''
     | OUserCredentials _ _ \<Rightarrow> Some ''jwt'' | OUserInfo _ _ \<Rightarrow> Some ''user'' | _ \<Rightarrow> None)"

section \<open>Modes\<close>

datatype peer =
    CorePeer | ServicePeer | ReconnectPeer | ServiceReconnectPeer | ServiceFailurePeer
  | ServiceParentClosePeer | JetStreamPeer | JetStreamAdminPeer | JetStreamPushPeer
  | JetStreamOrderedPeer | JetStreamKeyValuePeer | JetStreamObjectPeer
  | JetStreamPushReconnectPeer | JetStreamOrderedReconnectPeer
  | JetStreamKeyValueOrderedReconnectPeer | JetStreamObjectReconnectPeer

definition required :: "string \<Rightarrow> string \<Rightarrow> gerr" where
  "required flag mode = Errorf (flag @ '' is required in '' @ mode @ '' mode'') []"

text \<open>
  \<open>runMode\<close> is one \<open>switch\<close>; its cases are grouped here by the peers they start. Each answers
  with the error of the first missing option or the peer and the options it is started with;
  \<open>None\<close> when the mode belongs to another group.
\<close>

definition mode_plain :: "options \<Rightarrow> (gerr + peer \<times> options) option" where
  "mode_plain config = (let mode = op_mode config in
     if mode = ''core'' then Some (Inr (CorePeer, config))
     else if mode = ''service'' then Some (Inr (ServicePeer, config))
     else if mode = ''reconnect'' then
       Some (if op_signal config = [] then Inl (required ''signal-file'' ''reconnect'')
             else Inr (ReconnectPeer, config))
     else if mode = ''service-reconnect'' then
       Some (if op_signal config = [] then Inl (required ''signal-file'' ''service-reconnect'')
             else Inr (ServiceReconnectPeer, config))
     else if mode = ''service-failure'' then Some (Inr (ServiceFailurePeer, config))
     else if mode = ''service-parent-close'' then Some (Inr (ServiceParentClosePeer, config))
     else if mode = ''jetstream'' then
       Some (if op_stream config = [] then Inl (required ''stream'' ''jetstream'')
             else Inr (JetStreamPeer, config))
     else if mode = ''jetstream-admin'' then
       Some (if op_stream config = [] then Inl (required ''stream'' ''jetstream-admin'')
             else Inr (JetStreamAdminPeer, config))
     else if mode = ''jetstream-push'' then
       Some (if op_stream config = [] then Inl (required ''stream'' ''jetstream-push'')
             else Inr (JetStreamPushPeer, config))
     else if mode = ''jetstream-ordered'' then
       Some (if op_stream config = [] then Inl (required ''stream'' ''jetstream-ordered'')
             else Inr (JetStreamOrderedPeer, config))
     else if mode = ''jetstream-kv'' then
       Some (if op_bucket config = [] then Inl (required ''bucket'' ''jetstream-kv'')
             else Inr (JetStreamKeyValuePeer, config))
     else if mode = ''jetstream-object'' then
       Some (if op_bucket config = [] then Inl (required ''bucket'' ''jetstream-object'')
             else Inr (JetStreamObjectPeer, config))
     else if mode = ''jetstream-push-reconnect'' then
       Some (if op_signal config = [] then Inl (required ''signal-file'' ''jetstream-push-reconnect'')
             else if op_stream config = [] then Inl (required ''stream'' ''jetstream-push-reconnect'')
             else Inr (JetStreamPushReconnectPeer, config))
     else None)"

definition mode_ordered :: "options \<Rightarrow> (gerr + peer \<times> options) option" where
  "mode_ordered config = (let mode = op_mode config in
     if mode = ''jetstream-ordered-reconnect'' then
       Some (if op_signal config = [] then Inl (required ''signal-file'' ''jetstream-ordered-reconnect'')
             else if op_stream config = [] then Inl (required ''stream'' ''jetstream-ordered-reconnect'')
             else Inr (JetStreamOrderedReconnectPeer, config))
     else if mode = ''jetstream-ordered-management-failure'' then
       Some (if op_signal config = [] then Inl (required ''signal-file'' ''jetstream-ordered-management-failure'')
             else if op_stream config = [] then Inl (required ''stream'' ''jetstream-ordered-management-failure'')
             else Inr (JetStreamOrderedReconnectPeer, config\<lparr>op_managementFailure := True\<rparr>))
     else if mode = ''jetstream-ordered-changed-advertisement'' then
       Some (if op_signal config = [] then Inl (required ''signal-file'' ''jetstream-ordered-changed-advertisement'')
             else if op_stream config = [] then Inl (required ''stream'' ''jetstream-ordered-changed-advertisement'')
             else if op_changedAdvertisedURL config = [] then
               Inl (required ''changed-advertised-url'' ''jetstream-ordered-changed-advertisement'')
             else Inr (JetStreamOrderedReconnectPeer, config))
     else if mode = ''jetstream-ordered-restart'' then
       Some (if op_signal config = [] then Inl (required ''signal-file'' ''jetstream-ordered-restart'')
             else if op_stream config = [] then Inl (required ''stream'' ''jetstream-ordered-restart'')
             else Inr (JetStreamOrderedReconnectPeer, config\<lparr>op_requireReplicatedStream := True\<rparr>))
     else if mode = ''jetstream-ordered-multi-node'' then
       Some (if op_signal config = [] then Inl (required ''signal-file'' ''jetstream-ordered-multi-node'')
             else if op_stream config = [] then Inl (required ''stream'' ''jetstream-ordered-multi-node'')
             else Inr (JetStreamOrderedReconnectPeer, config\<lparr>op_multiNodeLoss := True\<rparr>))
     else if mode = ''jetstream-ordered-leader-failover'' then
       Some (if op_signal config = [] then Inl (required ''signal-file'' ''jetstream-ordered-leader-failover'')
             else if op_stream config = [] then Inl (required ''stream'' ''jetstream-ordered-leader-failover'')
             else if op_leader config = [] then Inl (required ''leader-file'' ''jetstream-ordered-leader-failover'')
             else if op_survivor config = [] then Inl (required ''survivor-file'' ''jetstream-ordered-leader-failover'')
             else Inr (JetStreamOrderedReconnectPeer, config))
     else None)"

definition mode_kv :: "options \<Rightarrow> (gerr + peer \<times> options) option" where
  "mode_kv config = (let mode = op_mode config in
     if mode = ''jetstream-kv-reconnect'' then
       Some (if op_signal config = [] then Inl (required ''signal-file'' ''jetstream-kv-reconnect'')
             else if op_bucket config = [] then Inl (required ''bucket'' ''jetstream-kv-reconnect'')
             else Inr (JetStreamKeyValueOrderedReconnectPeer, config))
     else if mode = ''jetstream-kv-restart'' then
       Some (if op_signal config = [] then Inl (required ''signal-file'' ''jetstream-kv-restart'')
             else if op_bucket config = [] then Inl (required ''bucket'' ''jetstream-kv-restart'')
             else Inr (JetStreamKeyValueOrderedReconnectPeer, config\<lparr>op_requireReplicatedStream := True\<rparr>))
     else if mode = ''jetstream-kv-multi-node'' then
       Some (if op_signal config = [] then Inl (required ''signal-file'' ''jetstream-kv-multi-node'')
             else if op_bucket config = [] then Inl (required ''bucket'' ''jetstream-kv-multi-node'')
             else Inr (JetStreamKeyValueOrderedReconnectPeer, config\<lparr>op_multiNodeLoss := True\<rparr>))
     else if mode = ''jetstream-kv-leader-failover'' then
       Some (if op_signal config = [] then Inl (required ''signal-file'' ''jetstream-kv-leader-failover'')
             else if op_bucket config = [] then Inl (required ''bucket'' ''jetstream-kv-leader-failover'')
             else if op_leader config = [] then Inl (required ''leader-file'' ''jetstream-kv-leader-failover'')
             else if op_survivor config = [] then Inl (required ''survivor-file'' ''jetstream-kv-leader-failover'')
             else Inr (JetStreamKeyValueOrderedReconnectPeer, config))
     else None)"

definition mode_object :: "options \<Rightarrow> (gerr + peer \<times> options) option" where
  "mode_object config = (let mode = op_mode config in
     if mode = ''jetstream-object-reconnect'' then
       Some (if op_signal config = [] then Inl (required ''signal-file'' ''jetstream-object-reconnect'')
             else if op_bucket config = [] then Inl (required ''bucket'' ''jetstream-object-reconnect'')
             else Inr (JetStreamObjectReconnectPeer, config))
     else if mode = ''jetstream-object-restart'' then
       Some (if op_signal config = [] then Inl (required ''signal-file'' ''jetstream-object-restart'')
             else if op_bucket config = [] then Inl (required ''bucket'' ''jetstream-object-restart'')
             else Inr (JetStreamObjectReconnectPeer, config\<lparr>op_requireReplicatedStream := True\<rparr>))
     else if mode = ''jetstream-object-multi-node'' then
       Some (if op_signal config = [] then Inl (required ''signal-file'' ''jetstream-object-multi-node'')
             else if op_bucket config = [] then Inl (required ''bucket'' ''jetstream-object-multi-node'')
             else Inr (JetStreamObjectReconnectPeer, config\<lparr>op_multiNodeLoss := True\<rparr>))
     else if mode = ''jetstream-object-leader-failover'' then
       Some (if op_signal config = [] then Inl (required ''signal-file'' ''jetstream-object-leader-failover'')
             else if op_bucket config = [] then Inl (required ''bucket'' ''jetstream-object-leader-failover'')
             else if op_leader config = [] then Inl (required ''leader-file'' ''jetstream-object-leader-failover'')
             else if op_survivor config = [] then Inl (required ''survivor-file'' ''jetstream-object-leader-failover'')
             else Inr (JetStreamObjectReconnectPeer, config))
     else None)"

definition dispatch :: "options \<Rightarrow> gerr + peer \<times> options" where
  "dispatch config =
     (case mode_plain config of Some r \<Rightarrow> r | None \<Rightarrow>
     (case mode_ordered config of Some r \<Rightarrow> r | None \<Rightarrow>
     (case mode_kv config of Some r \<Rightarrow> r | None \<Rightarrow>
     (case mode_object config of Some r \<Rightarrow> r | None \<Rightarrow>
        Inl (Errorf ''unknown mode %q'' [AStr (op_mode config)])))))"

definition runMode :: "(peer \<Rightarrow> options \<Rightarrow> ('e, check) io) \<Rightarrow> options \<Rightarrow> ('e, check) io" where
  "runMode run config =
     (case dispatch config of
        Inl err \<Rightarrow> ret (Some err)
      | Inr (p, config') \<Rightarrow> run p config')"

text \<open>\<open>main\<close> after the flags are parsed: the process exit code.\<close>

definition main :: "'e api \<Rightarrow> (peer \<Rightarrow> options \<Rightarrow> ('e, check) io) \<Rightarrow> options \<Rightarrow> ('e, nat) io" where
  "main A run config =
     (case validateOptions config of
        Some _ \<Rightarrow> ret 2
      | None \<Rightarrow>
          bnd (runMode run config) (\<lambda>r. case r of
            None \<Rightarrow> ret 0
          | Some _ \<Rightarrow>
              if op_signal config \<noteq> [] then
                bnd (WriteFile A (op_signal config @ ''.failed'') (''failed'' @ [LF])) (\<lambda>_. ret 1)
              else ret 1))"

section \<open>What the environment may ask for\<close>

text \<open>Results that do not depend on the calls made: every result of \<open>m\<close> satisfies \<open>Q\<close>.\<close>

definition yields :: "('e, 'a) io \<Rightarrow> ('a \<Rightarrow> bool) \<Rightarrow> bool" where
  "yields m Q \<longleftrightarrow> (\<forall>t e. Q (res (m t e)))"

lemma yields_ret [simp]: "yields (ret a) Q \<longleftrightarrow> Q a"
  by (simp add: yields_def ret_def)

lemma yields_try_call:
  "(\<And>err. Q (Inl (w err))) \<Longrightarrow> (\<And>a. yields (k a) Q) \<Longrightarrow> yields (try_call m w k) Q"
  by (auto simp: yields_def try_call_def bnd_def ret_def split: outcome.splits sum.splits)
     (metis outcome.sel(1))

lemma yields_if: "(b \<Longrightarrow> yields m Q) \<Longrightarrow> (\<not> b \<Longrightarrow> yields m' Q) \<Longrightarrow> yields (if b then m else m') Q"
  by simp

lemma yields_sum:
  "(\<And>x. s = Inl x \<Longrightarrow> yields (f x) Q) \<Longrightarrow> (\<And>y. s = Inr y \<Longrightarrow> yields (g y) Q) \<Longrightarrow>
   yields (case s of Inl x \<Rightarrow> f x | Inr y \<Rightarrow> g y) Q"
  by (cases s) auto

lemma length_le_1_cases:
  "length (auth_modes A) \<le> 1 \<Longrightarrow>
     (is_set A ''NATS_TEST_TOKEN'' \<longrightarrow> auth_modes A = [''token'']) \<and>
     (is_set A ''NATS_TEST_NKEY_SEED_FILE'' \<longrightarrow> auth_modes A = [''nkey'']) \<and>
     (is_set A ''NATS_TEST_USER_JWT_FILE'' \<or> is_set A ''NATS_TEST_USER_SEED_FILE'' \<longrightarrow> auth_modes A = [''jwt'']) \<and>
     (is_set A ''NATS_TEST_USER'' \<or> is_set A ''NATS_TEST_PASS'' \<longrightarrow> auth_modes A = [''user''])"
  by (simp add: auth_modes_def split: if_splits)

lemma auth_options_modes:
  assumes "length (auth_modes A) \<le> 1"
  shows "yields (auth_options A)
    (\<lambda>r. case r of Inl _ \<Rightarrow> True | Inr opts \<Rightarrow> map mode_of opts = map Some (auth_modes A))"
proof -
  note m = length_le_1_cases [OF assms, unfolded is_set_def]
  have none: "auth_modes A = []"
    if "getenv A ''NATS_TEST_TOKEN'' = None" "getenv A ''NATS_TEST_NKEY_SEED_FILE'' = None"
       "getenv A ''NATS_TEST_USER_JWT_FILE'' = None" "getenv A ''NATS_TEST_USER_SEED_FILE'' = None"
       "getenv A ''NATS_TEST_USER'' = None" "getenv A ''NATS_TEST_PASS'' = None"
    using that by (simp add: auth_modes_def is_set_def)
  show ?thesis
    unfolding auth_options_def Let_def
    by (intro yields_if yields_try_call yields_sum) (use m none in \<open>simp_all add: mode_of_def\<close>)
qed

lemma modes_count:
  "1 < length ((if a then [x] else []) @ (if b then [y] else []) @ (if c \<or> c' then [z] else []) @
               (if d \<or> d' then [w] else [])) \<Longrightarrow>
   (a \<and> (d \<or> d' \<or> b \<or> c \<or> c')) \<or> (b \<and> (d \<or> d' \<or> c \<or> c')) \<or> ((c \<or> c') \<and> (d \<or> d' \<or> b))"
  by (cases a; cases b; cases "c \<or> c'"; cases "d \<or> d'"; simp)

lemma if_chain:
  "p \<or> q \<or> r \<Longrightarrow> m = (if p then x else if q then y else if r then z else u) \<Longrightarrow> m = x \<or> m = y \<or> m = z"
  by auto

lemma auth_options_mixed:
  assumes "1 < length (auth_modes A)"
  shows "\<exists>msg. auth_options A = ret (Inl (New msg))"
  using if_chain [OF modes_count [OF assms [unfolded auth_modes_def is_set_def]]
      auth_options_def [of A, unfolded Let_def]]
  by (elim disjE) (rule exI, assumption)+

lemma tls_options_no_auth: "tls_options A = Inr opts \<Longrightarrow> filter is_auth opts = []"
  by (auto simp: tls_options_def is_auth_def Let_def split: if_splits option.splits)

section \<open>The dispatch as a table\<close>

datatype need = NSignal | NStream | NBucket | NURL | NLeader | NSurvivor

fun need_flag :: "need \<Rightarrow> string" where
  "need_flag NSignal = ''signal-file''"
| "need_flag NStream = ''stream''"
| "need_flag NBucket = ''bucket''"
| "need_flag NURL = ''changed-advertised-url''"
| "need_flag NLeader = ''leader-file''"
| "need_flag NSurvivor = ''survivor-file''"

fun need_value :: "need \<Rightarrow> options \<Rightarrow> string" where
  "need_value NSignal c = op_signal c"
| "need_value NStream c = op_stream c"
| "need_value NBucket c = op_bucket c"
| "need_value NURL c = op_changedAdvertisedURL c"
| "need_value NLeader c = op_leader c"
| "need_value NSurvivor c = op_survivor c"

text \<open>
  The reference: one row per mode, with the peer it starts, the options it needs in the order
  they are checked, and the flag it sets.
\<close>

definition mode_table :: "(string \<times> peer \<times> need list \<times> (options \<Rightarrow> options)) list" where
  "mode_table = [
    (''core'', CorePeer, [], id),
    (''service'', ServicePeer, [], id),
    (''service-failure'', ServiceFailurePeer, [], id),
    (''service-parent-close'', ServiceParentClosePeer, [], id),
    (''reconnect'', ReconnectPeer, [NSignal], id),
    (''service-reconnect'', ServiceReconnectPeer, [NSignal], id),
    (''jetstream'', JetStreamPeer, [NStream], id),
    (''jetstream-admin'', JetStreamAdminPeer, [NStream], id),
    (''jetstream-push'', JetStreamPushPeer, [NStream], id),
    (''jetstream-ordered'', JetStreamOrderedPeer, [NStream], id),
    (''jetstream-kv'', JetStreamKeyValuePeer, [NBucket], id),
    (''jetstream-object'', JetStreamObjectPeer, [NBucket], id),
    (''jetstream-push-reconnect'', JetStreamPushReconnectPeer, [NSignal, NStream], id),
    (''jetstream-ordered-reconnect'', JetStreamOrderedReconnectPeer, [NSignal, NStream], id),
    (''jetstream-ordered-management-failure'', JetStreamOrderedReconnectPeer, [NSignal, NStream],
       \<lambda>c. c\<lparr>op_managementFailure := True\<rparr>),
    (''jetstream-ordered-changed-advertisement'', JetStreamOrderedReconnectPeer, [NSignal, NStream, NURL], id),
    (''jetstream-ordered-restart'', JetStreamOrderedReconnectPeer, [NSignal, NStream],
       \<lambda>c. c\<lparr>op_requireReplicatedStream := True\<rparr>),
    (''jetstream-ordered-multi-node'', JetStreamOrderedReconnectPeer, [NSignal, NStream],
       \<lambda>c. c\<lparr>op_multiNodeLoss := True\<rparr>),
    (''jetstream-ordered-leader-failover'', JetStreamOrderedReconnectPeer,
       [NSignal, NStream, NLeader, NSurvivor], id),
    (''jetstream-kv-reconnect'', JetStreamKeyValueOrderedReconnectPeer, [NSignal, NBucket], id),
    (''jetstream-kv-restart'', JetStreamKeyValueOrderedReconnectPeer, [NSignal, NBucket],
       \<lambda>c. c\<lparr>op_requireReplicatedStream := True\<rparr>),
    (''jetstream-kv-multi-node'', JetStreamKeyValueOrderedReconnectPeer, [NSignal, NBucket],
       \<lambda>c. c\<lparr>op_multiNodeLoss := True\<rparr>),
    (''jetstream-kv-leader-failover'', JetStreamKeyValueOrderedReconnectPeer,
       [NSignal, NBucket, NLeader, NSurvivor], id),
    (''jetstream-object-reconnect'', JetStreamObjectReconnectPeer, [NSignal, NBucket], id),
    (''jetstream-object-restart'', JetStreamObjectReconnectPeer, [NSignal, NBucket],
       \<lambda>c. c\<lparr>op_requireReplicatedStream := True\<rparr>),
    (''jetstream-object-multi-node'', JetStreamObjectReconnectPeer, [NSignal, NBucket],
       \<lambda>c. c\<lparr>op_multiNodeLoss := True\<rparr>),
    (''jetstream-object-leader-failover'', JetStreamObjectReconnectPeer,
       [NSignal, NBucket, NLeader, NSurvivor], id)]"

definition table_dispatch :: "options \<Rightarrow> gerr + peer \<times> options" where
  "table_dispatch config =
     (case map_of mode_table (op_mode config) of
        None \<Rightarrow> Inl (Errorf ''unknown mode %q'' [AStr (op_mode config)])
      | Some (p, needs, upd) \<Rightarrow>
          (case find (\<lambda>n. need_value n config = []) needs of
             Some n \<Rightarrow> Inl (required (need_flag n) (op_mode config))
           | None \<Rightarrow> Inr (p, upd config)))"

lemmas mode_group_defs = mode_plain_def mode_ordered_def mode_kv_def mode_object_def

lemma dispatch_known:
  "op_mode config \<in> fst ` set mode_table \<Longrightarrow> dispatch config = table_dispatch config"
  by (simp add: mode_table_def, elim disjE)
     (simp_all add: dispatch_def table_dispatch_def mode_group_defs mode_table_def)

lemma dispatch_unknown:
  "op_mode config \<notin> fst ` set mode_table \<Longrightarrow> dispatch config = table_dispatch config"
  by (simp add: dispatch_def table_dispatch_def mode_group_defs mode_table_def)

section \<open>Properties\<close>

text \<open>
  C19: The switch of \<open>runMode\<close> is the mode table: every mode is tested against exactly its
  required options in the table's order, the first missing one is the error, the peer is
  started with the flag its mode sets, and any other mode is rejected by name.
\<close>

theorem dispatch_is_table: "dispatch config = table_dispatch config"
  using dispatch_known [of config] dispatch_unknown [of config] by blast

lemma yields_mono: "yields m P \<Longrightarrow> (\<And>r. P r \<Longrightarrow> Q r) \<Longrightarrow> yields m Q"
  by (auto simp: yields_def)

lemma yields_bnd: "yields m P \<Longrightarrow> (\<And>a. P a \<Longrightarrow> yields (k a) Q) \<Longrightarrow> yields (bnd m k) Q"
proof (unfold yields_def, intro allI)
  fix t e
  assume m: "\<forall>t e. P (res (m t e))" and k: "\<And>a. P a \<Longrightarrow> \<forall>t e. Q (res (k a t e))"
  obtain a e1 d1 l1 where o: "m t e = Out a e1 d1 l1" by (cases "m t e")
  with m have "P a" by (metis outcome.sel(1))
  with k have "Q (res (k a (t + d1) e1))" by blast
  with o show "Q (res (bnd m k t e))" by (cases "k a (t + d1) e1") (simp add: bnd_def)
qed

lemma mode_of_auth: "filter is_auth opts = opts \<longleftrightarrow> None \<notin> mode_of ` set opts"
  by (induction opts) (auto simp: is_auth_def mode_of_def split: natsopt.splits dest: filter_eq_ConsD)

lemma auth_options_sound:
  "yields (auth_options A) (\<lambda>r. case r of Inl _ \<Rightarrow> True
     | Inr opts \<Rightarrow> length (auth_modes A) \<le> 1 \<and> map mode_of opts = map Some (auth_modes A))"
proof (cases "length (auth_modes A) \<le> 1")
  case True
  show ?thesis
    by (rule yields_mono [OF auth_options_modes [OF True]]) (use True in \<open>simp split: sum.splits\<close>)
next
  case False
  then obtain m where "auth_options A = ret (Inl (New m))" using auth_options_mixed [of A] by auto
  then show ?thesis by simp
qed

text \<open>
  Whatever the environment sets and whatever the files hold, connection options are built
  only when at most one authentication mode is asked for, and they contain exactly that mode:
  no credentials are dropped, added or mixed, and the TLS options add none.
\<close>

theorem connectOptions_single_auth:
  "yields (connectOptions A) (\<lambda>r. case r of Inl _ \<Rightarrow> True
     | Inr opts \<Rightarrow> length (auth_modes A) \<le> 1 \<and>
         map mode_of (filter is_auth opts) = map Some (auth_modes A))"
proof -
  let ?Q = "\<lambda>r. case r of Inl _ \<Rightarrow> True
     | Inr opts \<Rightarrow> length (auth_modes A) \<le> 1 \<and>
         map mode_of (filter is_auth opts) = map Some (auth_modes A)"
  have step: "?Q (case tls_options A of Inl err \<Rightarrow> Inl err | Inr tls \<Rightarrow> Inr (opts @ tls))"
    if "length (auth_modes A) \<le> 1" "map mode_of opts = map Some (auth_modes A)" for opts
  proof (cases "tls_options A")
    case (Inr tls)
    have "None \<notin> set (map mode_of opts)" unfolding that(2) by auto
    then have "filter is_auth opts = opts" by (simp add: mode_of_auth)
    with Inr that tls_options_no_auth [OF Inr] show ?thesis by simp
  qed simp
  show ?thesis
    unfolding connectOptions_def try_call_def
  proof (rule yields_bnd [OF auth_options_sound])
    fix a :: "gerr + natsopt list"
    assume a: "case a of Inl _ \<Rightarrow> True
      | Inr opts \<Rightarrow> length (auth_modes A) \<le> 1 \<and> map mode_of opts = map Some (auth_modes A)"
    show "yields (case a of Inl err \<Rightarrow> ret (Inl (id err))
        | Inr opts \<Rightarrow> ret (case tls_options A of Inl err \<Rightarrow> Inl err | Inr tls \<Rightarrow> Inr (opts @ tls))) ?Q"
    proof (cases a)
      case (Inr opts)
      with a step [of opts] show ?thesis by (simp only: sum.case yields_ret)
    qed simp
  qed
qed

text \<open>The failure marker \<open>main\<close> leaves for a peer that failed.\<close>

definition failure_marker :: "options \<Rightarrow> event \<Rightarrow> bool" where
  "failure_marker config ev =
     (case ev of EWriteFile path content ok \<Rightarrow>
        path = op_signal config @ ''.failed'' \<and> content = ''failed'' @ [LF] | _ \<Rightarrow> False)"

text \<open>
  The exit code tells the harness the truth: 2 for unusable options, before any call is
  made; 0 exactly when the peer returned no error; 1 otherwise, and then, when a signal file
  is configured, the last call made is the write of the failure marker next to it.
\<close>

theorem main_exit_code:
  "res (main A run config t e) =
     (if validateOptions config \<noteq> None then 2 else if res (runMode run config t e) = None then 0 else 1) \<and>
   calls (main A run config t e) =
     (if validateOptions config \<noteq> None then []
      else calls (runMode run config t e) @
        (if res (runMode run config t e) = None \<or> op_signal config = [] then []
         else let w = write_file A (op_signal config @ ''.failed'') (''failed'' @ [LF])
                        (outside (runMode run config t e))
              in [EWriteFile (op_signal config @ ''.failed'') (''failed'' @ [LF]) (fst w = None)]))"
proof (cases "validateOptions config")
  case None
  obtain r e1 d l where "runMode run config t e = Out r e1 d l" by (cases "runMode run config t e")
  with None show ?thesis
    by (cases r) (auto simp: main_def bnd_def ret_def WriteFile_def perform_def Let_def split: prod.splits)
next
  case (Some err)
  then show ?thesis by (simp add: main_def ret_def)
qed

end
