(* ===== verification/GoRetry.thy ===== *)
theory GoRetry
  imports GoIO
begin

text \<open>
  Everything in the peer that waits: receives with a timer, polling of signal files, and the
  retry loops around JetStream, Key-Value and Object Store calls. The retry loops are \<open>poll\<close>
  with the loop body as its turn, so they all terminate and their results and timeouts are
  governed by the lemmas of the polling section.
\<close>

section \<open>Receives with a timer\<close>

definition waitTimeout :: nat where "waitTimeout = 10 * second"
definition orderedWait :: nat where "orderedWait = 30 * second"
definition orderedReconnectWait :: nat where "orderedReconnectWait = 90 * second"
definition jetStreamAttemptWait :: nat where "jetStreamAttemptWait = second"
definition jetStreamReconnectWait :: nat where "jetStreamReconnectWait = 90 * second"
definition objectReconnectWait :: nat where "objectReconnectWait = 90 * second"

abbreviation timed_out :: "string \<Rightarrow> gerr" where
  "timed_out label \<equiv> Errorf ''timed out waiting for %s'' [AStr label]"

definition wait_msg :: "'e api \<Rightarrow> nat \<Rightarrow> string \<Rightarrow> chan \<Rightarrow> ('e, gerr + msg) io" where
  "wait_msg A timeout label messages =
     bnd (RecvMsg A messages timeout) (\<lambda>r. ret (case r of
       Some message \<Rightarrow> Inr message
     | None \<Rightarrow> Inl (timed_out label)))"

definition waitMessage :: "'e api \<Rightarrow> string \<Rightarrow> chan \<Rightarrow> ('e, gerr + msg) io" where
  "waitMessage A = wait_msg A waitTimeout"

definition waitOrderedMessage :: "'e api \<Rightarrow> string \<Rightarrow> chan \<Rightarrow> ('e, gerr + msg) io" where
  "waitOrderedMessage A = wait_msg A orderedWait"

definition waitJetStreamMessage :: "'e api \<Rightarrow> string \<Rightarrow> chan \<Rightarrow> ('e, gerr + msg) io" where
  "waitJetStreamMessage A = wait_msg A jetStreamReconnectWait"

definition waitResult :: "'e api \<Rightarrow> string \<Rightarrow> chan \<Rightarrow> ('e, check) io" where
  "waitResult A label results =
     bnd (RecvErr A results waitTimeout) (\<lambda>r. ret (case r of
       Some err \<Rightarrow> err
     | None \<Rightarrow> Some (timed_out label)))"

definition waitReconnect :: "'e api \<Rightarrow> chan \<Rightarrow> ('e, check) io" where
  "waitReconnect A messages =
     bnd (RecvUnit A messages waitTimeout) (\<lambda>r. ret
       (if r then None else Some (Errorf ''timed out waiting for reconnect'' [])))"

definition waitJetStreamReconnect :: "'e api \<Rightarrow> chan \<Rightarrow> ('e, check) io" where
  "waitJetStreamReconnect A messages =
     bnd (RecvUnit A messages jetStreamReconnectWait) (\<lambda>r. ret
       (if r then None else Some (Errorf ''timed out waiting for JetStream reconnect'' [])))"

definition waitForJetStreamDisconnectSignal :: "'e api \<Rightarrow> chan \<Rightarrow> ('e, check) io" where
  "waitForJetStreamDisconnectSignal A disconnected =
     bnd (RecvUnit A disconnected orderedReconnectWait) (\<lambda>r. ret
       (if r then None else Some (Errorf ''timed out waiting for JetStream connection disconnect'' [])))"

section \<open>Signal files\<close>

definition is_not_exist :: "gerr \<Rightarrow> bool" where
  "is_not_exist err \<longleftrightarrow> err = ErrNotExist"

text \<open>
  One turn of a wait on a signal file: the failure marker is looked at first; a file that
  cannot be examined for another reason than absence is an error.
\<close>

definition signal_turn ::
  "'e api \<Rightarrow> string \<Rightarrow> gerr \<Rightarrow> (gerr \<Rightarrow> gerr) \<Rightarrow> string \<Rightarrow> (gerr \<Rightarrow> gerr) \<Rightarrow> ('e, check attempt) io" where
  "signal_turn A failurePath failed check_failure path check_signal =
     bnd (Stat A failurePath) (\<lambda>r. case r of
       None \<Rightarrow> ret (Finish (Some failed))
     | Some err \<Rightarrow>
         if \<not> is_not_exist err then ret (Finish (Some (check_failure err)))
         else bnd (Stat A path) (\<lambda>r. case r of
           None \<Rightarrow> ret (Finish None)
         | Some err \<Rightarrow>
             if \<not> is_not_exist err then ret (Finish (Some (check_signal err)))
             else ret (Again None)))"

definition await_signal ::
  "'e api \<Rightarrow> nat \<Rightarrow> string \<Rightarrow> gerr \<Rightarrow> (gerr \<Rightarrow> gerr) \<Rightarrow> string \<Rightarrow> (gerr \<Rightarrow> gerr) \<Rightarrow> gerr \<Rightarrow> ('e, check) io" where
  "await_signal A wait failurePath failed check_failure path check_signal timeout =
     bnd clock (\<lambda>now.
     bnd (poll (now + wait) (100 * millisecond)
            (signal_turn A failurePath failed check_failure path check_signal) None) (\<lambda>r. ret (case r of
       Inr result \<Rightarrow> result
     | Inl _ \<Rightarrow> Some timeout)))"

definition waitForJetStreamLeaderKillSignal :: "'e api \<Rightarrow> string \<Rightarrow> ('e, check) io" where
  "waitForJetStreamLeaderKillSignal A signal =
     (let path = signal @ ''.killed''; failurePath = signal @ ''.failed'' in
      await_signal A orderedReconnectWait failurePath
        (Errorf ''leader kill watcher failed (see %s)'' [AStr failurePath])
        (wrap ''check leader kill watcher failure'') path (wrap ''check leader kill signal'')
        (Errorf ''timed out waiting for leader kill signal %s'' [AStr path]))"

definition waitForJetStreamSignalFile :: "'e api \<Rightarrow> string \<Rightarrow> string \<Rightarrow> string \<Rightarrow> ('e, check) io" where
  "waitForJetStreamSignalFile A signal suffix label =
     (let path = signal @ suffix; failurePath = signal @ ''.failed'' in
      await_signal A orderedReconnectWait failurePath
        (Errorf ''%s failed (see %s)'' [AStr label, AStr failurePath])
        (\<lambda>err. Errorf ''check %s failure: %w'' [AStr label, AWrap err]) path
        (\<lambda>err. Errorf ''check %s signal: %w'' [AStr label, AWrap err])
        (Errorf ''timed out waiting for %s signal %s'' [AStr label, AStr path]))"

definition waitForJetStreamReconnectSignal :: "'e api \<Rightarrow> string \<Rightarrow> ('e, check) io" where
  "waitForJetStreamReconnectSignal A signal =
     (let path = signal @ ''.1''; failurePath = signal @ ''.failed'' in
      await_signal A jetStreamReconnectWait failurePath
        (Errorf ''restart watcher failed (see %s)'' [AStr failurePath])
        (wrap ''check restart watcher failure'') path (wrap ''check reconnect signal'')
        (Errorf ''timed out waiting for reconnect signal %s'' [AStr path]))"

definition waitForJetStreamMultiNodeRecoverySignal :: "'e api \<Rightarrow> string \<Rightarrow> ('e, check) io" where
  "waitForJetStreamMultiNodeRecoverySignal A signal =
     (let path = signal @ ''.multi-node-recovered''; failurePath = signal @ ''.failed'' in
      await_signal A jetStreamReconnectWait failurePath
        (Errorf ''multi-node failure watcher failed (see %s)'' [AStr failurePath])
        (wrap ''check multi-node failure watcher'') path (wrap ''check multi-node recovery signal'')
        (Errorf ''timed out waiting for multi-node recovery signal %s'' [AStr path]))"

definition survivor_turn :: "'e api \<Rightarrow> string \<Rightarrow> string \<Rightarrow> ('e, (gerr + string) attempt) io" where
  "survivor_turn A failurePath path =
     bnd (Stat A failurePath) (\<lambda>r. case r of
       None \<Rightarrow> ret (Finish (Inl (Errorf ''leader routing watcher failed (see %s)'' [AStr failurePath])))
     | Some err \<Rightarrow>
         if \<not> is_not_exist err then ret (Finish (Inl (wrap ''check leader routing watcher failure'' err)))
         else bnd (ReadFile A path) (\<lambda>r. case r of
           Inr data \<Rightarrow>
             (let endpoint = trim_space data in
              if endpoint \<noteq> [] then ret (Finish (Inr endpoint)) else ret (Again None))
         | Inl err \<Rightarrow>
             if \<not> is_not_exist err then ret (Finish (Inl (wrap ''read JetStream survivor endpoints'' err)))
             else ret (Again None)))"

definition waitForJetStreamSurvivorFile :: "'e api \<Rightarrow> string \<Rightarrow> string \<Rightarrow> ('e, gerr + string) io" where
  "waitForJetStreamSurvivorFile A signal path =
     (let failurePath = signal @ ''.failed'' in
      bnd clock (\<lambda>now.
      bnd (poll (now + orderedReconnectWait) (100 * millisecond) (survivor_turn A failurePath path) None)
        (\<lambda>r. ret (case r of
           Inr result \<Rightarrow> result
         | Inl _ \<Rightarrow> Inl (Errorf ''timed out waiting for JetStream survivor endpoints %s'' [AStr path])))))"

definition markJetStreamInteropFailure :: "'e api \<Rightarrow> string \<Rightarrow> gerr \<Rightarrow> ('e, gerr) io" where
  "markJetStreamInteropFailure A signal err =
     bnd (WriteFile A (signal @ ''.failed'') (''failed'' @ [LF])) (\<lambda>r. ret (case r of
       Some markerError \<Rightarrow> Errorf ''%w (write failure marker: %v)'' [AWrap err, AErr markerError]
     | None \<Rightarrow> err))"

section \<open>Retry loops\<close>

definition retry_pause :: nat where "retry_pause = 250 * millisecond"

text \<open>The tail every retry loop ends with: the last error wrapped, or its own message.\<close>

definition retrying ::
  "nat \<Rightarrow> ('e, 'a attempt) io \<Rightarrow> gerr \<Rightarrow> (garg \<Rightarrow> gerr) \<Rightarrow> ('e, gerr + 'a) io" where
  "retrying deadline turn no_attempt last_failure =
     bnd (poll deadline retry_pause turn None) (\<lambda>r. ret (case r of
       Inr a \<Rightarrow> Inr a
     | Inl None \<Rightarrow> Inl no_attempt
     | Inl (Some err) \<Rightarrow> Inl (last_failure (AWrap err))))"

text \<open>A turn that succeeds exactly when the call does.\<close>

definition until_ok :: "('e, gerr + 'a) io \<Rightarrow> ('e, 'a attempt) io" where
  "until_ok m = bnd m (\<lambda>r. ret (case r of Inr a \<Rightarrow> Finish a | Inl err \<Rightarrow> Again (Some err)))"

definition until_done :: "('e, check) io \<Rightarrow> ('e, unit attempt) io" where
  "until_done m = bnd m (\<lambda>r. ret (case r of None \<Rightarrow> Finish () | Some err \<Rightarrow> Again (Some err)))"

text \<open>The retry loops ask with \<open>MaxWait(jetStreamAttemptWait)\<close>.\<close>

definition StreamInfo :: "'e api \<Rightarrow> jsc \<Rightarrow> string \<Rightarrow> ('e, gerr + stream_info) io" where
  "StreamInfo A js stream = call_sum ''StreamInfo'' (js_stream_info A js stream jetStreamAttemptWait)"

definition ConsumerInfo :: "'e api \<Rightarrow> jsc \<Rightarrow> string \<Rightarrow> string \<Rightarrow> ('e, gerr + consumer_info) io" where
  "ConsumerInfo A js stream consumer =
     call_sum ''ConsumerInfo'' (js_consumer_info A js stream consumer (Some jetStreamAttemptWait))"

definition retryJetStreamStreamInfo :: "'e api \<Rightarrow> jsc \<Rightarrow> string \<Rightarrow> nat \<Rightarrow> ('e, gerr + stream_info) io" where
  "retryJetStreamStreamInfo A js stream deadline =
     retrying deadline (until_ok (StreamInfo A js stream))
       (Errorf ''JetStream stream %s did not become ready: %w'' [AStr stream, ANil])
       (\<lambda>last. Errorf ''JetStream stream %s did not become ready: %w'' [AStr stream, last])"

definition retryJetStreamConsumerInfo ::
  "'e api \<Rightarrow> jsc \<Rightarrow> string \<Rightarrow> string \<Rightarrow> nat \<Rightarrow> ('e, gerr + consumer_info) io" where
  "retryJetStreamConsumerInfo A js stream consumer deadline =
     retrying deadline (until_ok (ConsumerInfo A js stream consumer))
       (Errorf ''JetStream consumer %s did not become ready: %w'' [AStr consumer, ANil])
       (\<lambda>last. Errorf ''JetStream consumer %s did not become ready: %w'' [AStr consumer, last])"

definition retryJetStreamLeaderChange ::
  "'e api \<Rightarrow> jsc \<Rightarrow> string \<Rightarrow> string \<Rightarrow> nat \<Rightarrow> ('e, gerr + stream_info) io" where
  "retryJetStreamLeaderChange A js stream previous deadline =
     retrying deadline
       (bnd (StreamInfo A js stream) (\<lambda>r. ret (case r of
          Inl err \<Rightarrow> Again (Some err)
        | Inr info \<Rightarrow>
            if (case si_Cluster info of None \<Rightarrow> False
                | Some c \<Rightarrow> cl_Leader c \<noteq> [] \<and> cl_Leader c \<noteq> previous)
            then Finish info
            else Again (Some (Errorf ''JetStream stream %s still had leader %q'' [AStr stream, AStr previous])))))
       (Errorf ''JetStream stream %s did not report a leader'' [AStr stream])
       (\<lambda>last. Errorf ''JetStream stream %s did not elect a new leader: %w'' [AStr stream, last])"

text \<open>The replica loop: every follower present, current, online and without lag.\<close>

fun replicas_ready :: "replica option list \<Rightarrow> bool" where
  "replicas_ready [] = True"
| "replicas_ready (r # rs) =
     (case r of None \<Rightarrow> False
      | Some p \<Rightarrow> if \<not> rp_Current p \<or> rp_Offline p \<or> rp_Lag p \<noteq> 0 then False else replicas_ready rs)"

definition quorum_error :: "string \<Rightarrow> u64 \<Rightarrow> u64 \<Rightarrow> stream_info \<Rightarrow> check" where
  "quorum_error stream messages lastSequence info =
     (if si_Msgs info \<noteq> messages \<or> si_LastSeq info \<noteq> lastSequence then
        Some (Errorf ''JetStream stream %s state messages=%d last-sequence=%d, expected messages=%d last-sequence=%d''
          [AStr stream, AInt (uint (si_Msgs info)), AInt (uint (si_LastSeq info)),
           AInt (uint messages), AInt (uint lastSequence)])
      else (case si_Cluster info of
        None \<Rightarrow> Some (Errorf ''JetStream stream %s did not identify a leader'' [AStr stream])
      | Some c \<Rightarrow>
          if cl_Leader c = [] then
            Some (Errorf ''JetStream stream %s did not identify a leader'' [AStr stream])
          else if int (length (cl_Replicas c)) \<noteq> sc_Replicas (si_Config info) - 1 then
            Some (Errorf ''JetStream stream %s reported %d followers, expected %d''
              [AStr stream, AInt (int (length (cl_Replicas c))), AInt (sc_Replicas (si_Config info) - 1)])
          else if replicas_ready (cl_Replicas c) then None
          else Some (Errorf ''JetStream stream %s followers are not current'' [AStr stream])))"

definition quorum_turn :: "'e api \<Rightarrow> jsc \<Rightarrow> string \<Rightarrow> u64 \<Rightarrow> u64 \<Rightarrow> ('e, stream_info attempt) io" where
  "quorum_turn A js stream messages lastSequence =
     bnd (StreamInfo A js stream) (\<lambda>r. ret (case r of
       Inl err \<Rightarrow> Again (Some err)
     | Inr info \<Rightarrow> (case quorum_error stream messages lastSequence info of
           None \<Rightarrow> Finish info
         | Some err \<Rightarrow> Again (Some err))))"

definition retryJetStreamStreamQuorum ::
  "'e api \<Rightarrow> jsc \<Rightarrow> string \<Rightarrow> u64 \<Rightarrow> u64 \<Rightarrow> nat \<Rightarrow> ('e, gerr + stream_info) io" where
  "retryJetStreamStreamQuorum A js stream messages lastSequence deadline =
     retrying deadline (quorum_turn A js stream messages lastSequence)
       (Errorf ''JetStream stream %s did not report replication state'' [AStr stream])
       (\<lambda>last. Errorf ''JetStream stream %s did not reach replica quorum: %w'' [AStr stream, last])"

definition retryJetStreamOrderedConsumerReady :: "'e api \<Rightarrow> subn \<Rightarrow> nat \<Rightarrow> ('e, gerr + unit) io" where
  "retryJetStreamOrderedConsumerReady A s deadline =
     retrying deadline
       (bnd (call_sum ''Subscription.ConsumerInfo'' (sub_consumer_info A s)) (\<lambda>r. ret (case r of
          Inl err \<Rightarrow> Again (Some err)
        | Inr info \<Rightarrow>
            if ci_Name info \<noteq> [] then Finish ()
            else Again (Some (Errorf ''ordered consumer info did not identify a consumer'' [])))))
       (Errorf ''ordered consumer did not become ready'' [])
       (\<lambda>last. Errorf ''ordered consumer did not become ready: %w'' [last])"

text \<open>Create, and when that fails look the thing up before the next try.\<close>

definition create_or_open :: "('e, gerr + 'a) io \<Rightarrow> ('e, gerr + 'a) io \<Rightarrow> ('e, 'a attempt) io" where
  "create_or_open create lookup =
     bnd create (\<lambda>r. case r of
       Inr a \<Rightarrow> ret (Finish a)
     | Inl err \<Rightarrow> bnd lookup (\<lambda>r. ret (case r of
           Inr a \<Rightarrow> Finish a
         | Inl _ \<Rightarrow> Again (Some err))))"

definition retryAddJetStreamStream ::
  "'e api \<Rightarrow> jsc \<Rightarrow> stream_config \<Rightarrow> nat \<Rightarrow> ('e, gerr + stream_info) io" where
  "retryAddJetStreamStream A js config deadline =
     retrying deadline
       (create_or_open (call_sum ''AddStream'' (js_add_stream A js config)) (StreamInfo A js (sc_Name config)))
       (Errorf ''JetStream stream %s did not accept a create request'' [AStr (sc_Name config)])
       (\<lambda>last. Errorf ''JetStream stream %s did not become placeable: %w'' [AStr (sc_Name config), last])"

definition retryCreateReplicatedKeyValue :: "'e api \<Rightarrow> jsc \<Rightarrow> kv_config \<Rightarrow> nat \<Rightarrow> ('e, gerr + kvh) io" where
  "retryCreateReplicatedKeyValue A js config deadline =
     retrying deadline
       (create_or_open (call_sum ''CreateKeyValue'' (kv_create A js config))
          (call_sum ''KeyValue'' (kv_open A js (kc_Bucket config))))
       (Errorf ''Key-Value bucket %s did not accept a create request'' [AStr (kc_Bucket config)])
       (\<lambda>last. Errorf ''Key-Value bucket %s did not become placeable: %w'' [AStr (kc_Bucket config), last])"

definition retryDeleteKeyValue :: "'e api \<Rightarrow> jsc \<Rightarrow> string \<Rightarrow> nat \<Rightarrow> ('e, gerr + unit) io" where
  "retryDeleteKeyValue A js bucket deadline =
     retrying deadline (until_done (call_check ''DeleteKeyValue'' (kv_delete A js bucket)))
       (Errorf ''Key-Value bucket %s did not accept a delete request'' [AStr bucket])
       (\<lambda>last. Errorf ''Key-Value bucket %s did not become deletable: %w'' [AStr bucket, last])"

definition retryCreateReplicatedObjectStore :: "'e api \<Rightarrow> jsc \<Rightarrow> object_config \<Rightarrow> nat \<Rightarrow> ('e, gerr + objh) io" where
  "retryCreateReplicatedObjectStore A js config deadline =
     retrying deadline
       (create_or_open (call_sum ''CreateObjectStore'' (obj_create A js config))
          (call_sum ''ObjectStore'' (obj_open A js (oc_Bucket config))))
       (Errorf ''Object Store %s did not accept a create request'' [AStr (oc_Bucket config)])
       (\<lambda>last. Errorf ''Object Store %s did not become placeable: %w'' [AStr (oc_Bucket config), last])"

definition retryOpenObjectStore :: "'e api \<Rightarrow> jsc \<Rightarrow> string \<Rightarrow> nat \<Rightarrow> ('e, gerr + objh) io" where
  "retryOpenObjectStore A js bucket deadline =
     retrying deadline (until_ok (call_sum ''ObjectStore'' (obj_open A js bucket)))
       (Errorf ''Object Store %s did not become readable'' [AStr bucket])
       (\<lambda>last. Errorf ''Object Store %s did not become readable: %w'' [AStr bucket, last])"

definition retryDeleteObjectStore :: "'e api \<Rightarrow> jsc \<Rightarrow> string \<Rightarrow> nat \<Rightarrow> ('e, gerr + unit) io" where
  "retryDeleteObjectStore A js bucket deadline =
     retrying deadline (until_done (call_check ''DeleteObjectStore'' (obj_delete A js bucket)))
       (Errorf ''Object Store %s did not accept a delete request'' [AStr bucket])
       (\<lambda>last. Errorf ''Object Store %s did not become deletable: %w'' [AStr bucket, last])"

definition object_state_error :: "u64 \<Rightarrow> u64 \<Rightarrow> stream_info \<Rightarrow> check" where
  "object_state_error messages lastSequence info =
     (if sc_Storage (si_Config info) \<noteq> FileStorage \<or> sc_Replicas (si_Config info) \<noteq> 3 then
        Some (Errorf ''Object Store stream storage=%v replicas=%d, expected file-backed with three replicas''
          [AStorage (sc_Storage (si_Config info)), AInt (sc_Replicas (si_Config info))])
      else if (case si_Cluster info of None \<Rightarrow> True | Some c \<Rightarrow> cl_Leader c = []) then
        Some (Errorf ''Object Store stream did not report a current leader'' [])
      else if si_Msgs info \<noteq> messages \<or> si_LastSeq info \<noteq> lastSequence then
        Some (Errorf ''Object Store stream state messages=%d last-sequence=%d, expected messages=%d last-sequence=%d''
          [AInt (uint (si_Msgs info)), AInt (uint (si_LastSeq info)), AInt (uint messages), AInt (uint lastSequence)])
      else None)"

definition retryObjectStoreStreamState ::
  "'e api \<Rightarrow> jsc \<Rightarrow> string \<Rightarrow> u64 \<Rightarrow> u64 \<Rightarrow> nat \<Rightarrow> ('e, gerr + stream_info) io" where
  "retryObjectStoreStreamState A js stream messages lastSequence deadline =
     retrying deadline
       (bnd (StreamInfo A js stream) (\<lambda>r. ret (case r of
          Inl err \<Rightarrow> Again (Some err)
        | Inr info \<Rightarrow> (case object_state_error messages lastSequence info of
              None \<Rightarrow> Finish info
            | Some err \<Rightarrow> Again (Some err)))))
       (Errorf ''Object Store stream %s did not report its expected state'' [AStr stream])
       (\<lambda>last. Errorf ''Object Store stream %s did not reach its expected state: %w'' [AStr stream, last])"

definition retryObjectStoreGetString :: "'e api \<Rightarrow> objh \<Rightarrow> string \<Rightarrow> nat \<Rightarrow> ('e, gerr + string) io" where
  "retryObjectStoreGetString A store name deadline =
     retrying deadline (until_ok (call_sum ''ObjectStore.GetString'' (obj_get_string A store name)))
       (Errorf ''Object Store object %s was not readable'' [AStr name])
       (\<lambda>last. Errorf ''Object Store object %s did not become readable: %w'' [AStr name, last])"

definition generation_turn ::
  "'e api \<Rightarrow> jsc \<Rightarrow> string \<Rightarrow> string \<Rightarrow> int \<Rightarrow> ('e, consumer_info attempt) io" where
  "generation_turn A js stream prefix minimumGeneration =
     bnd (call_plain ''ConsumerNames'' (js_consumer_names A js stream jetStreamAttemptWait)) (\<lambda>r. case r of
       None \<Rightarrow> ret (Again (Some (Errorf ''list consumers for stream %s returned no channel'' [AStr stream])))
     | Some names \<Rightarrow>
         (let latestName = fst (latest_consumer prefix names ([], minimumGeneration)) in
          if latestName \<noteq> [] then until_ok (ConsumerInfo A js stream latestName)
          else ret (Again (Some (Errorf ''no consumer with prefix %q after generation %d''
                      [AStr prefix, AInt minimumGeneration])))))"

definition retryJetStreamConsumerGeneration ::
  "'e api \<Rightarrow> jsc \<Rightarrow> string \<Rightarrow> string \<Rightarrow> int \<Rightarrow> nat \<Rightarrow> ('e, gerr + consumer_info) io" where
  "retryJetStreamConsumerGeneration A js stream prefix minimumGeneration deadline =
     retrying deadline (generation_turn A js stream prefix minimumGeneration)
       (Errorf ''consumer with prefix %q after generation %d did not become ready''
          [AStr prefix, AInt minimumGeneration])
       (\<lambda>last. Errorf ''consumer with prefix %q after generation %d did not become ready: %w''
          [AStr prefix, AInt minimumGeneration, last])"

text \<open>
  \<open>waitForServiceStats\<close> looks at the clock after the attempt, so it always makes one. The
  loop reads the clock as strictly after the deadline.
\<close>

function stats_loop ::
  "nat \<Rightarrow> string \<Rightarrow> ('e, gerr + micro_stats) io \<Rightarrow> (micro_stats \<Rightarrow> bool) \<Rightarrow> ('e, gerr + micro_stats) io" where
  "stats_loop deadline label get ready t e =
     (case get t e of Out r e1 d l \<Rightarrow>
        let again = (\<lambda>lastErr.
              if t + d > deadline
              then Out (Inl (Errorf ''timed out waiting for %s: %w'' [AStr label, AWrap lastErr])) e1 d l
              else (case stats_loop deadline label get ready (t + d + 100 * millisecond) e1 of
                      Out r2 e2 d2 l2 \<Rightarrow> Out r2 e2 (d + 100 * millisecond + d2) (l @ l2)))
        in (case r of
              Inl err \<Rightarrow> again err
            | Inr stats \<Rightarrow>
                if ready stats then Out (Inr stats) e1 d l
                else again (Errorf ''%s stats have not reached the expected counters'' [AStr label])))"
  by pat_completeness auto
termination
  by (relation "measure (\<lambda>(deadline, label, get, ready, t, e). Suc deadline - t)")
     (auto simp: millisecond_def)

declare stats_loop.simps [simp del]

definition waitForServiceStats ::
  "string \<Rightarrow> ('e, gerr + micro_stats) io \<Rightarrow> (micro_stats \<Rightarrow> bool) \<Rightarrow> ('e, gerr + micro_stats) io" where
  "waitForServiceStats label get ready =
     bnd clock (\<lambda>now. stats_loop (now + waitTimeout) label get ready)"

section \<open>What a wait can answer\<close>

lemma retry_pause_pos [simp]: "0 < retry_pause"
  by (simp add: retry_pause_def)

lemma retrying_Inr:
  assumes "retrying deadline turn no_attempt last_failure t e = Out (Inr a) e' d l"
  shows "\<exists>t0 e0 d0 l0. t0 < deadline \<and> turn t0 e0 = Out (Finish a) e' d0 l0"
proof -
  obtain r e1 d1 l1 where p: "poll deadline retry_pause turn None t e = Out r e1 d1 l1"
    by (cases "poll deadline retry_pause turn None t e")
  with assms have "r = Inr a" and "e1 = e'"
    by (auto simp: retrying_def bnd_def ret_def split: sum.splits option.splits)
  with p poll_Inr show ?thesis by metis
qed

lemma retrying_Inl:
  assumes "retrying deadline turn no_attempt last_failure t e = Out (Inl err) e' d l"
  shows "deadline \<le> t + d"
proof -
  obtain r e1 d1 l1 where p: "poll deadline retry_pause turn None t e = Out r e1 d1 l1"
    by (cases "poll deadline retry_pause turn None t e")
  with assms obtain x where "r = Inl x" and "d1 = d"
    by (auto simp: retrying_def bnd_def ret_def split: sum.splits option.splits)
  with p poll_Inl [OF _ retry_pause_pos] show ?thesis by metis
qed

lemma replicas_ready_iff:
  "replicas_ready rs \<longleftrightarrow>
     (\<forall>r \<in> set rs. \<exists>p. r = Some p \<and> rp_Current p \<and> \<not> rp_Offline p \<and> rp_Lag p = 0)"
  by (induction rs) (auto split: option.splits)

lemma quorum_error_None [check_simps]:
  "quorum_error stream messages lastSequence info = None \<longleftrightarrow>
     si_Msgs info = messages \<and> si_LastSeq info = lastSequence \<and>
     (\<exists>c. si_Cluster info = Some c \<and> cl_Leader c \<noteq> [] \<and>
        int (length (cl_Replicas c)) = sc_Replicas (si_Config info) - 1 \<and>
        (\<forall>r \<in> set (cl_Replicas c).
           \<exists>p. r = Some p \<and> rp_Current p \<and> \<not> rp_Offline p \<and> rp_Lag p = 0))"
    by (cases "si_Cluster info") (auto simp: quorum_error_def replicas_ready_iff)

lemma object_state_error_None [check_simps]:
  "object_state_error messages lastSequence info = None \<longleftrightarrow>
     sc_Storage (si_Config info) = FileStorage \<and> sc_Replicas (si_Config info) = 3 \<and>
     (\<exists>c. si_Cluster info = Some c \<and> cl_Leader c \<noteq> []) \<and>
     si_Msgs info = messages \<and> si_LastSeq info = lastSequence"
    by (cases "si_Cluster info") (auto simp: object_state_error_def)

text \<open>A call that answers \<open>r\<close> in some outside state.\<close>

definition answers :: "('e, 'a) act \<Rightarrow> 'a \<Rightarrow> bool" where
  "answers f r \<longleftrightarrow> (\<exists>e e' d. f e = (r, e', d))"

lemma perform_Out: "perform ev f t e = Out r e' d l \<longleftrightarrow> f e = (r, e', d) \<and> l = [ev r]"
  by (auto simp: perform_def split: prod.splits)

lemma bnd_Out:
  "bnd m k t e = Out b e2 d l \<longleftrightarrow>
     (\<exists>a e1 d1 l1 d2 l2. m t e = Out a e1 d1 l1 \<and> k a (t + d1) e1 = Out b e2 d2 l2 \<and>
        d = d1 + d2 \<and> l = l1 @ l2)"
  by (auto simp: bnd_def split: outcome.splits)

lemma ret_Out: "ret a t e = Out b e' d l \<longleftrightarrow> b = a \<and> e' = e \<and> d = 0 \<and> l = []"
  by (auto simp: ret_def)

lemmas Out_simps = perform_Out bnd_Out ret_Out

lemma until_ok_Finish:
  assumes "until_ok m t e = Out (Finish a) e' d l"
  shows "m t e = Out (Inr a) e' d l"
proof -
  obtain r e1 d1 l1 where "m t e = Out r e1 d1 l1" by (cases "m t e")
  with assms show ?thesis by (cases r) (auto simp: until_ok_def bnd_def ret_def)
qed

lemma call_sum_answers: "call_sum name f t e = Out r e' d l \<Longrightarrow> answers f r"
  by (auto simp: call_sum_def perform_Out answers_def)

lemma call_plain_answers: "call_plain name f t e = Out r e' d l \<Longrightarrow> answers f r"
  by (auto simp: call_plain_def perform_Out answers_def)

lemma quorum_turn_Finish:
  assumes "quorum_turn A js stream messages lastSequence t e = Out (Finish info) e' d l"
  shows "answers (js_stream_info A js stream jetStreamAttemptWait) (Inr info) \<and>
     quorum_error stream messages lastSequence info = None"
proof -
  obtain r e1 d1 l1 where c: "StreamInfo A js stream t e = Out r e1 d1 l1"
    by (cases "StreamInfo A js stream t e")
  then have "answers (js_stream_info A js stream jetStreamAttemptWait) r"
    unfolding StreamInfo_def by (rule call_sum_answers)
  moreover obtain i where r: "r = Inr i"
    using assms c by (cases r) (auto simp: quorum_turn_def bnd_def ret_def)
  moreover have "quorum_error stream messages lastSequence i = None \<and> i = info"
    using assms c r
    by (cases "quorum_error stream messages lastSequence i") (auto simp: quorum_turn_def bnd_def ret_def)
  ultimately show ?thesis by blast
qed

lemma generation_turn_Finish:
  assumes "generation_turn A js stream prefix minimum t e = Out (Finish info) e' d l"
  shows "\<exists>names name generation.
    answers (js_consumer_names A js stream jetStreamAttemptWait) (Some names) \<and> name \<in> set names \<and>
    consumerGeneration name prefix = Some generation \<and> minimum < generation \<and>
    (\<forall>n \<in> set names. \<forall>g. consumerGeneration n prefix = Some g \<longrightarrow> g \<le> generation) \<and>
    answers (js_consumer_info A js stream name (Some jetStreamAttemptWait)) (Inr info)"
proof -
  obtain r e1 d1 l1 where c: "call_plain ''ConsumerNames'' (js_consumer_names A js stream jetStreamAttemptWait) t e = Out r e1 d1 l1"
    by (cases "call_plain ''ConsumerNames'' (js_consumer_names A js stream jetStreamAttemptWait) t e")
  then have r: "answers (js_consumer_names A js stream jetStreamAttemptWait) r" by (rule call_plain_answers)
  obtain names where names: "r = Some names"
    using assms c by (cases r) (auto simp: generation_turn_def bnd_def ret_def)
  let ?best = "latest_consumer prefix names ([], minimum)"
  have ne: "fst ?best \<noteq> []"
    using assms c names by (auto simp: generation_turn_def bnd_def ret_def)
  obtain r2 e2 d2 l2 where c2: "until_ok (ConsumerInfo A js stream (fst ?best)) (t + d1) e1 = Out r2 e2 d2 l2"
    by (cases "until_ok (ConsumerInfo A js stream (fst ?best)) (t + d1) e1")
  then have "r2 = Finish info"
    using assms c names ne by (simp add: generation_turn_def bnd_def)
  with c2 have "answers (js_consumer_info A js stream (fst ?best) (Some jetStreamAttemptWait)) (Inr info)"
    unfolding ConsumerInfo_def by (blast intro: call_sum_answers dest: until_ok_Finish)
  moreover from ne have "?best \<noteq> ([], minimum)" by auto
  with latest_consumer_source [of prefix names "([], minimum)"]
  have "fst ?best \<in> set names" and "consumerGeneration (fst ?best) prefix = Some (snd ?best)"
    and "minimum < snd ?best" by auto
  moreover have "\<forall>n \<in> set names. \<forall>g. consumerGeneration n prefix = Some g \<longrightarrow> g \<le> snd ?best"
    by (blast intro: latest_consumer_upper)
  ultimately show ?thesis using r names by blast
qed

lemma retrying_cases:
  "case res (retrying deadline turn no_attempt last_failure t e) of
     Inl _ \<Rightarrow> deadline \<le> t + took (retrying deadline turn no_attempt last_failure t e)
   | Inr a \<Rightarrow> \<exists>t0 e0 e1 d0 l0. t0 < deadline \<and> turn t0 e0 = Out (Finish a) e1 d0 l0"
proof -
  obtain r e' d l where o: "retrying deadline turn no_attempt last_failure t e = Out r e' d l"
    by (cases "retrying deadline turn no_attempt last_failure t e")
  show ?thesis
  proof (cases r)
    case (Inl err)
    with o have "deadline \<le> t + d" by (intro retrying_Inl) simp
    with o Inl show ?thesis by simp
  next
    case (Inr a)
    with o retrying_Inr [of deadline turn no_attempt last_failure t e a e' d l] show ?thesis by simp blast
  qed
qed

lemma retrying_took:
  assumes "\<forall>t e. took (turn t e) \<le> longest"
  shows "took (retrying deadline turn no_attempt last_failure t e) \<le> (deadline - t) + longest + retry_pause"
proof -
  obtain r e1 d l where o: "poll deadline retry_pause turn None t e = Out r e1 d l"
    by (cases "poll deadline retry_pause turn None t e")
  with poll_overrun [OF assms, of deadline retry_pause None t e]
  show ?thesis by (simp add: retrying_def bnd_def ret_def)
qed

lemma bnd_ret_took [simp]: "took (bnd m (\<lambda>a. ret (f a)) t e) = took (m t e)"
  by (cases "m t e") (simp add: bnd_def ret_def)

lemma perform_took: "took (perform ev f t e) = snd (snd (f e))"
  by (simp add: perform_def split: prod.splits)

section \<open>Properties\<close>

text \<open>
  The quorum retry answers only with a stream report the server gave in an attempt that
  began before the deadline and that shows the expected messages and last sequence, a named
  leader, the configured number of followers and every follower current, online and without
  lag; it reports an error only once the deadline has passed.
\<close>

theorem stream_quorum_sound:
  "case res (retryJetStreamStreamQuorum A js stream messages lastSequence deadline t e) of
     Inl _ \<Rightarrow> deadline \<le> t + took (retryJetStreamStreamQuorum A js stream messages lastSequence deadline t e)
   | Inr info \<Rightarrow>
       t < deadline \<and> answers (js_stream_info A js stream jetStreamAttemptWait) (Inr info) \<and>
       si_Msgs info = messages \<and> si_LastSeq info = lastSequence \<and>
       (\<exists>c. si_Cluster info = Some c \<and> cl_Leader c \<noteq> [] \<and>
          int (length (cl_Replicas c)) = sc_Replicas (si_Config info) - 1 \<and>
          list_all (\<lambda>r. \<exists>p. r = Some p \<and> rp_Current p \<and> \<not> rp_Offline p \<and> rp_Lag p = 0) (cl_Replicas c))"
proof (cases "res (retryJetStreamStreamQuorum A js stream messages lastSequence deadline t e)")
  case (Inl err)
  have "case res (retryJetStreamStreamQuorum A js stream messages lastSequence deadline t e) of
      Inl _ \<Rightarrow> deadline \<le> t + took (retryJetStreamStreamQuorum A js stream messages lastSequence deadline t e)
    | Inr a \<Rightarrow> \<exists>t0 e0 e1 d0 l0. t0 < deadline \<and>
        quorum_turn A js stream messages lastSequence t0 e0 = Out (Finish a) e1 d0 l0"
    unfolding retryJetStreamStreamQuorum_def by (rule retrying_cases)
  with Inl show ?thesis by simp
next
  case (Inr info)
  have "case res (retryJetStreamStreamQuorum A js stream messages lastSequence deadline t e) of
      Inl _ \<Rightarrow> deadline \<le> t + took (retryJetStreamStreamQuorum A js stream messages lastSequence deadline t e)
    | Inr a \<Rightarrow> \<exists>t0 e0 e1 d0 l0. t0 < deadline \<and>
        quorum_turn A js stream messages lastSequence t0 e0 = Out (Finish a) e1 d0 l0"
    unfolding retryJetStreamStreamQuorum_def by (rule retrying_cases)
  with Inr quorum_turn_Finish
  have "answers (js_stream_info A js stream jetStreamAttemptWait) (Inr info)"
    and "quorum_error stream messages lastSequence info = None" by fastforce+
  moreover have "t < deadline"
  proof (rule ccontr)
    assume "\<not> t < deadline"
    with Inr show False
      by (simp add: retryJetStreamStreamQuorum_def retrying_def bnd_def ret_def poll.simps [of deadline])
  qed
  ultimately show ?thesis
    using Inr by (simp add: quorum_error_None list_all_iff)
qed

text \<open>
  Waiting for the next ordered consumer answers with the newest one: the consumer whose
  information is returned was listed by the server, carries a generation above the one it must
  replace, and no consumer listed with it carries a later generation.
\<close>

theorem consumer_generation_newest:
  "case res (retryJetStreamConsumerGeneration A js stream prefix minimum deadline t e) of
     Inl _ \<Rightarrow> deadline \<le> t + took (retryJetStreamConsumerGeneration A js stream prefix minimum deadline t e)
   | Inr info \<Rightarrow> \<exists>names name generation.
       answers (js_consumer_names A js stream jetStreamAttemptWait) (Some names) \<and> name \<in> set names \<and>
       consumerGeneration name prefix = Some generation \<and> minimum < generation \<and>
       list_all (\<lambda>n. case consumerGeneration n prefix of None \<Rightarrow> True | Some g \<Rightarrow> g \<le> generation) names \<and>
       answers (js_consumer_info A js stream name (Some jetStreamAttemptWait)) (Inr info)"
proof -
  have "case res (retryJetStreamConsumerGeneration A js stream prefix minimum deadline t e) of
     Inl _ \<Rightarrow> deadline \<le> t + took (retryJetStreamConsumerGeneration A js stream prefix minimum deadline t e)
   | Inr a \<Rightarrow> \<exists>t0 e0 e1 d0 l0. t0 < deadline \<and>
       generation_turn A js stream prefix minimum t0 e0 = Out (Finish a) e1 d0 l0"
    unfolding retryJetStreamConsumerGeneration_def by (rule retrying_cases)
  then show ?thesis
  proof (cases "res (retryJetStreamConsumerGeneration A js stream prefix minimum deadline t e)")
    case (Inr info)
    assume "case res (retryJetStreamConsumerGeneration A js stream prefix minimum deadline t e) of
       Inl _ \<Rightarrow> deadline \<le> t + took (retryJetStreamConsumerGeneration A js stream prefix minimum deadline t e)
     | Inr a \<Rightarrow> \<exists>t0 e0 e1 d0 l0. t0 < deadline \<and>
         generation_turn A js stream prefix minimum t0 e0 = Out (Finish a) e1 d0 l0"
    with Inr obtain t0 e0 e1 d0 l0
      where "generation_turn A js stream prefix minimum t0 e0 = Out (Finish info) e1 d0 l0" by auto
    from generation_turn_Finish [OF this] obtain names name generation where
      "answers (js_consumer_names A js stream jetStreamAttemptWait) (Some names)" "name \<in> set names"
      "consumerGeneration name prefix = Some generation" "minimum < generation"
      "\<forall>n \<in> set names. \<forall>g. consumerGeneration n prefix = Some g \<longrightarrow> g \<le> generation"
      "answers (js_consumer_info A js stream name (Some jetStreamAttemptWait)) (Inr info)" by blast
    then show ?thesis
      using Inr by (auto simp: list_all_iff split: option.splits intro!: exI [of _ names])
  qed simp
qed

text \<open>The signal file was there while the failure marker was not.\<close>

definition signal_seen :: "'e api \<Rightarrow> string \<Rightarrow> string \<Rightarrow> bool" where
  "signal_seen A failurePath path \<longleftrightarrow>
     (\<exists>e0 e1 d0. stat_file A failurePath e0 = (Some ErrNotExist, e1, d0) \<and> fst (stat_file A path e1) = None)"

lemma signal_turn_None:
  assumes "signal_turn A failurePath failed check_failure path check_signal t e = Out (Finish None) e' d l"
  shows "signal_seen A failurePath path"
proof -
  obtain r1 e1 d1 where s1: "stat_file A failurePath e = (r1, e1, d1)" by (cases "stat_file A failurePath e")
  obtain r2 e2 d2 where s2: "stat_file A path e1 = (r2, e2, d2)" by (cases "stat_file A path e1")
  have "r1 = Some ErrNotExist" "r2 = None"
    using assms s1 s2
    by (auto simp: signal_turn_def Stat_def bnd_def perform_def ret_def is_not_exist_def
             split: option.splits if_splits)
  with s1 s2 have "stat_file A failurePath e = (Some ErrNotExist, e1, d1) \<and> fst (stat_file A path e1) = None"
    by simp
  then show ?thesis unfolding signal_seen_def by blast
qed

lemma signal_turn_Some:
  assumes "signal_turn A failurePath failed check_failure path check_signal t e = Out (Finish (Some err)) e' d l"
  shows "err = failed \<or> (\<exists>x. err = check_failure x) \<or> (\<exists>x. err = check_signal x)"
proof -
  obtain r1 e1 d1 where s1: "stat_file A failurePath e = (r1, e1, d1)" by (cases "stat_file A failurePath e")
  obtain r2 e2 d2 where s2: "stat_file A path e1 = (r2, e2, d2)" by (cases "stat_file A path e1")
  show ?thesis
    using assms s1 s2
    by (auto simp: signal_turn_def Stat_def bnd_def perform_def ret_def is_not_exist_def
             split: option.splits if_splits)
qed

lemma await_signal_cases:
  assumes "failed \<noteq> timeout" "\<And>x. check_failure x \<noteq> timeout" "\<And>x. check_signal x \<noteq> timeout"
  shows "case res (await_signal A wait failurePath failed check_failure path check_signal timeout t e) of
      None \<Rightarrow> signal_seen A failurePath path
    | Some err \<Rightarrow> if err = timeout
        then wait \<le> took (await_signal A wait failurePath failed check_failure path check_signal timeout t e)
        else True"
    (is "case res ?o of None \<Rightarrow> _ | Some err \<Rightarrow> _")
proof -
  let ?turn = "signal_turn A failurePath failed check_failure path check_signal"
  obtain r e1 d l where p: "poll (t + wait) (100 * millisecond) ?turn None t e = Out r e1 d l"
    by (cases "poll (t + wait) (100 * millisecond) ?turn None t e")
  then have o': "?o = Out (case r of Inr result \<Rightarrow> result | Inl _ \<Rightarrow> Some timeout) e1 d l"
    by (simp add: await_signal_def clock_def bnd_def ret_def)
  show ?thesis
  proof (cases r)
    case (Inl x)
    with poll_Inl [of "t + wait" "100 * millisecond" ?turn None t e x] p o' show ?thesis by simp
  next
    case (Inr result)
    with p obtain t0 e0 d0 l0 where turn: "?turn t0 e0 = Out (Finish result) e1 d0 l0"
      using poll_Inr by metis
    show ?thesis
    proof (cases result)
      case None
      with turn o' Inr signal_turn_None show ?thesis by fastforce
    next
      case (Some err)
      with turn signal_turn_Some have "err = failed \<or> (\<exists>x. err = check_failure x) \<or> (\<exists>x. err = check_signal x)"
        by metis
      then have "err \<noteq> timeout" using assms(1-3) by metis
      with o' Inr Some show ?thesis by simp
    qed
  qed
qed

text \<open>
  Each wait on a signal file succeeds only when the file was there while the failure
  marker of the run was not (a recorded failure is never taken for the signal), and says it
  timed out only after its whole waiting time.
\<close>

theorem signal_waits_sound:
  "(case res (waitForJetStreamLeaderKillSignal A signal t e) of
      None \<Rightarrow> signal_seen A (signal @ ''.failed'') (signal @ ''.killed'')
    | Some err \<Rightarrow> if err = Errorf ''timed out waiting for leader kill signal %s'' [AStr (signal @ ''.killed'')]
        then orderedReconnectWait \<le> took (waitForJetStreamLeaderKillSignal A signal t e) else True) \<and>
   (case res (waitForJetStreamSignalFile A signal suffix label t e) of
      None \<Rightarrow> signal_seen A (signal @ ''.failed'') (signal @ suffix)
    | Some err \<Rightarrow> if err = Errorf ''timed out waiting for %s signal %s'' [AStr label, AStr (signal @ suffix)]
        then orderedReconnectWait \<le> took (waitForJetStreamSignalFile A signal suffix label t e) else True) \<and>
   (case res (waitForJetStreamReconnectSignal A signal t e) of
      None \<Rightarrow> signal_seen A (signal @ ''.failed'') (signal @ ''.1'')
    | Some err \<Rightarrow> if err = Errorf ''timed out waiting for reconnect signal %s'' [AStr (signal @ ''.1'')]
        then jetStreamReconnectWait \<le> took (waitForJetStreamReconnectSignal A signal t e) else True) \<and>
   (case res (waitForJetStreamMultiNodeRecoverySignal A signal t e) of
      None \<Rightarrow> signal_seen A (signal @ ''.failed'') (signal @ ''.multi-node-recovered'')
    | Some err \<Rightarrow> if err = Errorf ''timed out waiting for multi-node recovery signal %s''
                          [AStr (signal @ ''.multi-node-recovered'')]
        then jetStreamReconnectWait \<le> took (waitForJetStreamMultiNodeRecoverySignal A signal t e) else True)"
  unfolding waitForJetStreamLeaderKillSignal_def waitForJetStreamSignalFile_def
    waitForJetStreamReconnectSignal_def waitForJetStreamMultiNodeRecoverySignal_def Let_def
  by (intro conjI; rule await_signal_cases; simp)

lemma stats_loop_cases:
  "case res (stats_loop deadline label get ready t e) of
     Inl _ \<Rightarrow> deadline < t + took (stats_loop deadline label get ready t e)
   | Inr stats \<Rightarrow> ready stats \<and> (\<exists>t0 e0. res (get t0 e0) = Inr stats)"
proof (induction deadline label get ready t e rule: stats_loop.induct)
  case (1 deadline label get ready t e)
  obtain r e1 d l where g: "get t e = Out r e1 d l" by (cases "get t e")
  obtain r2 e2 d2 l2 where rec:
    "stats_loop deadline label get ready (t + d + 100 * millisecond) e1 = Out r2 e2 d2 l2"
    by (cases "stats_loop deadline label get ready (t + d + 100 * millisecond) e1")
  show ?case
  proof (cases "\<exists>stats. r = Inr stats \<and> ready stats")
    case True
    then obtain stats where st: "r = Inr stats" "ready stats" by blast
    from st g have loop: "stats_loop deadline label get ready t e = Out (Inr stats) e1 d l"
      by (auto simp: stats_loop.simps [of deadline label get ready t])
    have "res (get t e) = Inr stats" using g st by simp
    with st have "ready stats \<and> (\<exists>t0 e0. res (get t0 e0) = Inr stats)" by blast
    then show ?thesis by (simp only: loop outcome.sel sum.case)
  next
    case False
    show ?thesis
    proof (cases "t + d > deadline")
      case True
      with False g show ?thesis
        by (auto simp: stats_loop.simps [of deadline label get ready t] Let_def split: sum.splits)
    next
      case going: False
      have IH: "case r2 of Inl _ \<Rightarrow> deadline < t + d + 100 * millisecond + d2
          | Inr stats \<Rightarrow> ready stats \<and> (\<exists>t0 e0. res (get t0 e0) = Inr stats)"
        using "1.IH" [OF g] going by (simp only: rec outcome.sel simp_thms)
      from False going g rec
      have "stats_loop deadline label get ready t e = Out r2 e2 (d + 100 * millisecond + d2) (l @ l2)"
        by (auto simp: stats_loop.simps [of deadline label get ready t] Let_def split: sum.splits)
      with IH show ?thesis by (cases r2) (simp_all add: add.assoc)
    qed
  qed
qed

text \<open>
  Waiting for service statistics returns only statistics the service reported and the
  caller's test accepts, and gives up only when its ten seconds are over; the service is
  asked at least once whatever the clock reads.
\<close>

theorem service_stats_sound:
  "case res (waitForServiceStats label get ready t e) of
     Inl _ \<Rightarrow> waitTimeout < took (waitForServiceStats label get ready t e)
   | Inr stats \<Rightarrow> ready stats \<and> (\<exists>t0 e0. res (get t0 e0) = Inr stats)"
  using stats_loop_cases [where deadline = "t + waitTimeout" and label = label and get = get and
      ready = ready and t = t and e = e]
  by (cases "stats_loop (t + waitTimeout) label get ready t e")
     (simp add: waitForServiceStats_def clock_def bnd_def split: sum.splits)

end
