(* ===== verification/GoControl.thy ===== *)
theory GoControl
  imports GoIO
begin

text \<open>
  The handshake control of the replicated Key-Value and Object Store peers
  (\<open>keyValueControl\<close>): one object shared by the callback of a subscription, which may run any
  number of times because the other side retries its request, and the main goroutine, which
  waits for a request, works, and answers it.

  The critical sections under the mutex are functions on the object; the goroutines interleave
  between them, so the whole is a step relation, and what it promises is proved of every
  reachable state.
\<close>

section \<open>The object and its operations\<close>

definition newKeyValueControl :: keyValueControl where
  "newKeyValueControl = \<lparr>kc_latest = None, kc_ready = False, kc_complete = False, kc_response = []\<rparr>"

text \<open>
  The critical section of \<open>receive\<close>: the cached response to replay, or the request stored for
  the waiter.
\<close>

definition receive_lock :: "msg \<Rightarrow> keyValueControl \<Rightarrow> keyValueControl \<times> string option" where
  "receive_lock message control =
     (if kc_complete control then (control, Some (kc_response control))
      else (control\<lparr>kc_latest := Some message\<rparr>, None))"

text \<open>\<open>select { case ready <- struct{}{}: default: }\<close>\<close>

definition signal_ready :: "keyValueControl \<Rightarrow> keyValueControl" where
  "signal_ready control = control\<lparr>kc_ready := True\<rparr>"

text \<open>The receive from \<open>ready\<close> in \<open>waitWithTimeout\<close>, when it can happen, and its critical section.\<close>

definition take_ready :: "keyValueControl \<Rightarrow> keyValueControl option" where
  "take_ready control = (if kc_ready control then Some (control\<lparr>kc_ready := False\<rparr>) else None)"

definition wait_lock :: "keyValueControl \<Rightarrow> keyValueControl \<times> msg option" where
  "wait_lock control = (control\<lparr>kc_latest := None\<rparr>, kc_latest control)"

definition respond_lock :: "string \<Rightarrow> keyValueControl \<Rightarrow> keyValueControl \<times> msg option" where
  "respond_lock payload control =
     (control\<lparr>kc_complete := True, kc_response := payload, kc_latest := None\<rparr>, kc_latest control)"

definition respondKeyValueControl :: "'e api \<Rightarrow> conn \<Rightarrow> string \<Rightarrow> msg \<Rightarrow> string \<Rightarrow> ('e, gerr + unit) io" where
  "respondKeyValueControl A c label message payload =
     (if msg_Reply message = [] then ret (Inl (Errorf ''%s request had no reply subject'' [AStr label]))
      else
        must (Respond A message payload) (\<lambda>err. Errorf ''respond to %s: %w'' [AStr label, AWrap err]) (
        must (Flush A c) (\<lambda>err. Errorf ''flush response to %s: %w'' [AStr label, AWrap err]) (
        ret (Inr ()))))"

definition respondObjectControl :: "'e api \<Rightarrow> conn \<Rightarrow> string \<Rightarrow> msg \<Rightarrow> string \<Rightarrow> ('e, gerr + unit) io" where
  "respondObjectControl A c label message payload =
     (if msg_Reply message = [] then ret (Inl (Errorf ''%s request had no reply subject'' [AStr label]))
      else
        must (Respond A message payload) (\<lambda>err. Errorf ''respond to %s: %w'' [AStr label, AWrap err]) (
        must (Flush A c) (\<lambda>err. Errorf ''flush response to %s: %w'' [AStr label, AWrap err]) (
        ret (Inr ()))))"

text \<open>\<open>receive\<close> and \<open>respond\<close> run without interference, as one goroutine sees them.\<close>

definition receive :: "'e api \<Rightarrow> msg \<Rightarrow> keyValueControl \<Rightarrow> ('e, keyValueControl) io" where
  "receive A message control =
     (case receive_lock message control of
        (control', Some response) \<Rightarrow>
          if msg_Reply message \<noteq> [] then bnd (Respond A message response) (\<lambda>_. ret control')
          else ret control'
      | (control', None) \<Rightarrow> ret (signal_ready control'))"

definition control_respond ::
  "'e api \<Rightarrow> conn \<Rightarrow> string \<Rightarrow> msg \<Rightarrow> string \<Rightarrow> keyValueControl \<Rightarrow> ('e, keyValueControl \<times> (gerr + unit)) io" where
  "control_respond A c label message payload control =
     (let (control', pending) = respond_lock payload control in
      bnd (try_call (respondKeyValueControl A c label message payload) id (\<lambda>_.
             (case pending of
                Some duplicate \<Rightarrow>
                  if msg_Reply duplicate \<noteq> [] then
                    must (Respond A duplicate payload)
                      (\<lambda>err. Errorf ''respond to duplicate %s: %w'' [AStr label, AWrap err]) (
                    must (Flush A c)
                      (\<lambda>err. Errorf ''flush duplicate response to %s: %w'' [AStr label, AWrap err]) (
                    ret (Inr ())))
                  else ret (Inr ())
              | None \<Rightarrow> ret (Inr ()))))
        (\<lambda>r. ret (control', r)))"

section \<open>The goroutines together\<close>

text \<open>
  Where the main goroutine is: waiting in the select, between the token and the lock, working
  on a request, answering it, answering the duplicate that arrived meanwhile, finished, or
  given up (a timeout, a rejected request, a failed send).
\<close>

datatype stage =
    Waiting
  | Woken
  | Working msg
  | Answering msg "msg option" string
  | AnsweringDuplicate "msg option" string
  | Finished string
  | GaveUp

text \<open>
  \<open>callbacks\<close> counts the callbacks between their critical section and the send on \<open>ready\<close>.
  \<open>requests\<close>, \<open>superseded\<close> and \<open>replies\<close> record what happened: the requests stored or
  replayed, in order, those overwritten by a retry before anyone looked at them, and the
  responses sent.
\<close>

record system =
  control :: keyValueControl
  stage :: stage
  callbacks :: nat
  requests :: "msg list"
  superseded :: "msg list"
  replies :: "(msg \<times> string) list"

definition init_system :: system where
  "init_system = \<lparr>control = newKeyValueControl, stage = Waiting, callbacks = 0,
     requests = [], superseded = [], replies = []\<rparr>"

inductive step :: "system \<Rightarrow> system \<Rightarrow> bool" where
  store: "receive_lock m (control s) = (c', None) \<Longrightarrow>
    step s (s\<lparr>control := c', callbacks := Suc (callbacks s), requests := requests s @ [m],
              superseded := superseded s @ (case kc_latest (control s) of None \<Rightarrow> [] | Some old \<Rightarrow> [old])\<rparr>)"
| replay: "receive_lock m (control s) = (c', Some response) \<Longrightarrow> msg_Reply m \<noteq> [] \<Longrightarrow>
    step s (s\<lparr>control := c', requests := requests s @ [m], replies := replies s @ [(m, response)]\<rparr>)"
| ignore: "receive_lock m (control s) = (c', Some response) \<Longrightarrow> msg_Reply m = [] \<Longrightarrow>
    step s (s\<lparr>control := c', requests := requests s @ [m]\<rparr>)"
| signal: "callbacks s = Suc n \<Longrightarrow>
    step s (s\<lparr>control := signal_ready (control s), callbacks := n\<rparr>)"
| wake: "stage s = Waiting \<Longrightarrow> take_ready (control s) = Some c' \<Longrightarrow>
    step s (s\<lparr>control := c', stage := Woken\<rparr>)"
| found: "stage s = Woken \<Longrightarrow> wait_lock (control s) = (c', Some m) \<Longrightarrow>
    step s (s\<lparr>control := c', stage := Working m\<rparr>)"
| nothing: "stage s = Woken \<Longrightarrow> wait_lock (control s) = (c', None) \<Longrightarrow>
    step s (s\<lparr>control := c', stage := Waiting\<rparr>)"
| timeout: "stage s = Waiting \<Longrightarrow> step s (s\<lparr>stage := GaveUp\<rparr>)"
| reject: "stage s = Working m \<Longrightarrow> step s (s\<lparr>stage := GaveUp\<rparr>)"
| respond: "stage s = Working m \<Longrightarrow> respond_lock payload (control s) = (c', pending) \<Longrightarrow>
    step s (s\<lparr>control := c', stage := Answering m pending payload\<rparr>)"
| answer: "stage s = Answering m pending payload \<Longrightarrow> msg_Reply m \<noteq> [] \<Longrightarrow>
    step s (s\<lparr>stage := AnsweringDuplicate pending payload, replies := replies s @ [(m, payload)]\<rparr>)"
| answer_fails: "stage s = Answering m pending payload \<Longrightarrow> step s (s\<lparr>stage := GaveUp\<rparr>)"
| answer_unflushed: "stage s = Answering m pending payload \<Longrightarrow> msg_Reply m \<noteq> [] \<Longrightarrow>
    step s (s\<lparr>stage := GaveUp, replies := replies s @ [(m, payload)]\<rparr>)"
| duplicate: "stage s = AnsweringDuplicate (Some m) payload \<Longrightarrow> msg_Reply m \<noteq> [] \<Longrightarrow>
    step s (s\<lparr>stage := Finished payload, replies := replies s @ [(m, payload)]\<rparr>)"
| duplicate_fails: "stage s = AnsweringDuplicate (Some m) payload \<Longrightarrow> step s (s\<lparr>stage := GaveUp\<rparr>)"
| duplicate_unflushed: "stage s = AnsweringDuplicate (Some m) payload \<Longrightarrow> msg_Reply m \<noteq> [] \<Longrightarrow>
    step s (s\<lparr>stage := GaveUp, replies := replies s @ [(m, payload)]\<rparr>)"
| no_duplicate: "stage s = AnsweringDuplicate pending payload \<Longrightarrow>
    (case pending of None \<Rightarrow> True | Some m \<Rightarrow> msg_Reply m = []) \<Longrightarrow>
    step s (s\<lparr>stage := Finished payload\<rparr>)"

inductive reach :: "system \<Rightarrow> bool" where
  reach_init: "reach init_system"
| reach_step: "reach s \<Longrightarrow> step s s' \<Longrightarrow> reach s'"

inductive_cases stepE: "step s s'"

lemmas control_defs = receive_lock_def signal_ready_def take_ready_def wait_lock_def respond_lock_def

section \<open>Invariants\<close>

definition held :: "stage \<Rightarrow> msg list" where
  "held st = (case st of Working m \<Rightarrow> [m]
     | Answering m pending payload \<Rightarrow> m # (case pending of None \<Rightarrow> [] | Some d \<Rightarrow> [d])
     | AnsweringDuplicate (Some d) payload \<Rightarrow> [d]
     | _ \<Rightarrow> [])"

definition payload_of :: "stage \<Rightarrow> string option" where
  "payload_of st = (case st of Answering m pending payload \<Rightarrow> Some payload
     | AnsweringDuplicate pending payload \<Rightarrow> Some payload
     | Finished payload \<Rightarrow> Some payload | _ \<Rightarrow> None)"

lemmas stage_views = held_def payload_of_def

text \<open>A stored request is the newest one, and a waiter that has not seen it will be woken.\<close>

definition inv_wakeup :: "system \<Rightarrow> bool" where
  "inv_wakeup s \<longleftrightarrow>
     (case kc_latest (control s) of None \<Rightarrow> True
      | Some m \<Rightarrow> requests s \<noteq> [] \<and> last (requests s) = m \<and>
          (stage s = Waiting \<longrightarrow> kc_ready (control s) \<or> 0 < callbacks s))"

text \<open>
  The response is fixed by the one completion: nothing is sent before it, the stage carries
  it, and every response sent is that one.
\<close>

definition inv_response :: "system \<Rightarrow> bool" where
  "inv_response s \<longleftrightarrow>
     (if kc_complete (control s)
      then kc_latest (control s) = None \<and> (\<forall>p \<in> set (replies s). snd p = kc_response (control s)) \<and>
           (stage s = GaveUp \<or> payload_of (stage s) = Some (kc_response (control s)))
      else replies s = [] \<and> payload_of (stage s) = None)"

text \<open>No request is forgotten, unless the peer gives up.\<close>

definition inv_answered :: "system \<Rightarrow> bool" where
  "inv_answered s \<longleftrightarrow>
     stage s = GaveUp \<or>
     (\<forall>m \<in> set (requests s). msg_Reply m \<noteq> [] \<longrightarrow>
        m \<in> fst ` set (replies s) \<or> m \<in> set (superseded s) \<or>
        kc_latest (control s) = Some m \<or> m \<in> set (held (stage s)))"

lemma step_wakeup: "step s s' \<Longrightarrow> inv_response s \<Longrightarrow> inv_wakeup s \<Longrightarrow> inv_wakeup s'"
  by (induction rule: step.induct)
     (auto simp: inv_wakeup_def inv_response_def control_defs split: option.splits if_splits)

lemma step_response: "step s s' \<Longrightarrow> inv_response s \<Longrightarrow> inv_response s'"
  by (induction rule: step.induct)
     (auto simp: inv_response_def control_defs payload_of_def split: option.splits if_splits)

lemma step_answered: "step s s' \<Longrightarrow> inv_answered s \<Longrightarrow> inv_answered s'"
  by (induction rule: step.induct)
     (auto simp: inv_answered_def control_defs held_def split: option.splits if_splits)

lemma reach_invs: "reach s \<Longrightarrow> inv_wakeup s \<and> inv_response s \<and> inv_answered s"
proof (induction rule: reach.induct)
  case reach_init
  show ?case
    by (simp add: init_system_def newKeyValueControl_def inv_wakeup_def inv_response_def inv_answered_def
        payload_of_def)
next
  case (reach_step s s')
  then show ?case by (blast intro: step_wakeup step_response step_answered)
qed

section \<open>Properties\<close>

lemma deliver_ready:
  assumes "stage s = Waiting" "kc_latest (control s) = Some m" "kc_ready (control s)"
  shows "\<exists>s'. step\<^sup>*\<^sup>* s s' \<and> stage s' = Working m"
proof -
  let ?s1 = "s\<lparr>control := (control s)\<lparr>kc_ready := False\<rparr>, stage := Woken\<rparr>"
  let ?s2 = "?s1\<lparr>control := (control ?s1)\<lparr>kc_latest := None\<rparr>, stage := Working m\<rparr>"
  have "step s ?s1" using assms by (intro wake) (simp_all add: take_ready_def)
  moreover have "step ?s1 ?s2" using assms by (intro found) (simp_all add: wait_lock_def)
  ultimately have "step\<^sup>*\<^sup>* s ?s2" by (meson r_into_rtranclp rtranclp_trans)
  then show ?thesis by (intro exI [of _ ?s2]) simp
qed

text \<open>
  C29: No wake-up is lost: whenever a request is stored while the peer waits for one, it is
  the newest request received, and the token is in the channel or a callback is about to put
  it there, so the wait can always go on to return that very request.
\<close>

theorem control_delivers:
  assumes "reach s" and "stage s = Waiting" and "kc_latest (control s) = Some m"
  shows "m = last (requests s) \<and> (kc_ready (control s) \<or> 0 < callbacks s) \<and>
     (\<exists>s'. step\<^sup>*\<^sup>* s s' \<and> stage s' = Working m)"
proof -
  from assms reach_invs [OF assms(1)]
  have m: "m = last (requests s)" and r: "kc_ready (control s) \<or> 0 < callbacks s"
    by (auto simp: inv_wakeup_def)
  have "\<exists>s'. step\<^sup>*\<^sup>* s s' \<and> stage s' = Working m"
  proof (cases "kc_ready (control s)")
    case True
    then show ?thesis using assms deliver_ready by blast
  next
    case False
    with r obtain n where n: "callbacks s = Suc n" by (auto simp: gr0_conv_Suc)
    let ?s1 = "s\<lparr>control := signal_ready (control s), callbacks := n\<rparr>"
    have "step s ?s1" using n by (rule signal)
    moreover obtain s' where "step\<^sup>*\<^sup>* ?s1 s'" "stage s' = Working m"
      using deliver_ready [of ?s1 m] assms by (auto simp: signal_ready_def)
    ultimately show ?thesis by (meson converse_rtranclp_into_rtranclp)
  qed
  with m r show ?thesis by blast
qed

definition request_from :: "string \<Rightarrow> msg" where
  "request_from reply = (NewMsg ''cleanup'')\<lparr>msg_Reply := reply\<rparr>"

definition stored_system :: system where
  "stored_system = init_system\<lparr>control := newKeyValueControl\<lparr>kc_latest := Some (request_from ''r1'')\<rparr>,
     callbacks := 1, requests := [request_from ''r1'']\<rparr>"

lemma stored_reach: "reach stored_system"
proof -
  have "step init_system stored_system"
    using store [of "request_from ''r1''" init_system "newKeyValueControl\<lparr>kc_latest := Some (request_from ''r1'')\<rparr>"]
    by (simp add: stored_system_def init_system_def newKeyValueControl_def receive_lock_def)
  with reach_init show ?thesis by (rule reach_step)
qed

theorem control_delivers_witness: "\<exists>s'. step\<^sup>*\<^sup>* stored_system s' \<and> stage s' = Working (request_from ''r1'')"
  using control_delivers [OF stored_reach, of "request_from ''r1''"]
  by (simp add: stored_system_def init_system_def)

text \<open>
  One answer per control, however the callbacks and the main goroutine interleave: nothing
  is sent before the peer has completed the phase, and every response sent, to the request it
  worked on, to a duplicate or to a late retry, is the one response it completed with.
\<close>

theorem control_single_response:
  assumes "reach s"
  shows "(kc_complete (control s) \<or> replies s = []) \<and>
     list_all (\<lambda>p. snd p = kc_response (control s)) (replies s)"
  using reach_invs [OF assms] by (auto simp: inv_response_def list_all_iff split: if_splits)

definition finished_system :: system where
  "finished_system =
     \<lparr>control = \<lparr>kc_latest = None, kc_ready = True, kc_complete = True, kc_response = ''cleaned''\<rparr>,
      stage = Finished ''cleaned'', callbacks = 0,
      requests = [request_from ''r1'', request_from ''r2'', request_from ''r3''],
      superseded = [],
      replies = [(request_from ''r1'', ''cleaned''), (request_from ''r3'', ''cleaned''),
                 (request_from ''r2'', ''cleaned'')]\<rparr>"

text \<open>A retry arrives while the peer works on the first request, another after it completed.\<close>

lemma finished_reach: "reach finished_system"
proof -
  let ?m = request_from
  have r: "msg_Reply (?m r) = r" for r by (simp add: request_from_def NewMsg_def)
  obtain s1 where s1_def: "s1 = stored_system\<lparr>control := signal_ready (control stored_system), callbacks := 0\<rparr>" by blast
  obtain s2 where s2_def: "s2 = s1\<lparr>control := (control s1)\<lparr>kc_ready := False\<rparr>, stage := Woken\<rparr>" by blast
  obtain s3 where s3_def: "s3 = s2\<lparr>control := (control s2)\<lparr>kc_latest := None\<rparr>, stage := Working (?m ''r1'')\<rparr>" by blast
  obtain s4 where s4_def: "s4 = s3\<lparr>control := (control s3)\<lparr>kc_latest := Some (?m ''r2'')\<rparr>, callbacks := 1,
     requests := [?m ''r1'', ?m ''r2'']\<rparr>" by blast
  obtain s5 where s5_def: "s5 = s4\<lparr>control := signal_ready (control s4), callbacks := 0\<rparr>" by blast
  obtain s6 where s6_def: "s6 = s5\<lparr>control := (control s5)\<lparr>kc_complete := True, kc_response := ''cleaned'', kc_latest := None\<rparr>,
     stage := Answering (?m ''r1'') (Some (?m ''r2'')) ''cleaned''\<rparr>" by blast
  obtain s7 where s7_def: "s7 = s6\<lparr>stage := AnsweringDuplicate (Some (?m ''r2'')) ''cleaned'', replies := [(?m ''r1'', ''cleaned'')]\<rparr>" by blast
  obtain s8 where s8_def: "s8 = s7\<lparr>requests := [?m ''r1'', ?m ''r2'', ?m ''r3''],
     replies := [(?m ''r1'', ''cleaned''), (?m ''r3'', ''cleaned'')]\<rparr>" by blast
  note d = stored_system_def init_system_def newKeyValueControl_def s1_def s2_def s3_def s4_def s5_def s6_def s7_def s8_def
    control_defs
  note S = reach_step
  have "reach s1" by (rule S [OF stored_reach], unfold s1_def, rule signal) (simp add: d)
  then have "reach s2" by (rule S, unfold s2_def, intro wake) (simp_all add: d)
  then have "reach s3" by (rule S, unfold s3_def, intro found) (simp_all add: d)
  moreover have "step s3 s4"
    using store [of "?m ''r2''" s3 "(control s3)\<lparr>kc_latest := Some (?m ''r2'')\<rparr>"] by (simp add: d)
  ultimately have "reach s4" by (rule S)
  then have "reach s5" by (rule S, unfold s5_def, intro signal) (simp add: d)
  moreover have "step s5 s6"
    using respond [of s5 "?m ''r1''" "''cleaned''"] by (simp add: d)
  ultimately have "reach s6" by (rule S)
  moreover have "step s6 s7"
    using answer [of s6 "?m ''r1''" "Some (?m ''r2'')" "''cleaned''"] by (simp add: d r)
  ultimately have "reach s7" by (rule S)
  moreover have "step s7 s8"
    using replay [of "?m ''r3''" s7 "control s7" "''cleaned''"] by (simp add: d r)
  ultimately have "reach s8" by (rule S)
  moreover have "step s8 finished_system"
    using duplicate [of s8 "?m ''r2''" "''cleaned''"] by (simp add: d r finished_system_def)
  ultimately show ?thesis by (rule S)
qed

theorem control_single_response_witness:
  "list_all (\<lambda>p. snd p = ''cleaned'') (replies finished_system)"
  using control_single_response [OF finished_reach] by (simp add: finished_system_def)

text \<open>
  Once the peer has answered a control phase, every request for it that can be answered
  has been, with the one response: the request it worked on, a retry that came while it
  worked, and every retry after that. The only exceptions are requests a newer retry replaced
  before anyone looked at them.
\<close>

theorem control_all_answered:
  assumes "reach s" and "stage s = Finished payload" and "m \<in> set (requests s)" and "msg_Reply m \<noteq> []"
  shows "(m, payload) \<in> set (replies s) \<or> m \<in> set (superseded s)"
proof -
  from reach_invs [OF assms(1)] assms(2)
  have c: "kc_complete (control s)" "kc_response (control s) = payload" "kc_latest (control s) = None"
    and all: "\<forall>p \<in> set (replies s). snd p = payload"
    by (auto simp: inv_response_def payload_of_def split: if_splits)
  from reach_invs [OF assms(1)] assms c
  have "m \<in> fst ` set (replies s) \<or> m \<in> set (superseded s)"
    by (auto simp: inv_answered_def held_def)
  with all show ?thesis by force
qed

theorem control_all_answered_witness:
  "(request_from ''r2'', ''cleaned'') \<in> set (replies finished_system) \<or>
   request_from ''r2'' \<in> set (superseded finished_system)"
  by (rule control_all_answered [OF finished_reach])
     (simp_all add: finished_system_def request_from_def NewMsg_def)

end
