(* ===== verification/GoTrace.thy ===== *)
theory GoTrace
  imports GoIO
begin

text \<open>
  Two ways of reading the calls a function makes. \<open>gives m a l\<close> says that some run of \<open>m\<close>
  ends with the result \<open>a\<close> after the calls \<open>l\<close>; its elimination rules take a successful run
  apart. A protocol is a monitor that reads the calls in order and may refuse one;
  \<open>wp M m Q q\<close> says that every run of \<open>m\<close>, started with the monitor in state \<open>q\<close>, makes only
  calls the monitor allows and ends with a result and monitor state satisfying \<open>Q\<close>.
\<close>

section \<open>Runs\<close>

definition gives :: "('e, 'a) io \<Rightarrow> 'a \<Rightarrow> event list \<Rightarrow> bool" where
  "gives m a l \<longleftrightarrow> (\<exists>t e e' d. m t e = Out a e' d l)"

lemma gives_run: "gives m (res (m t e)) (calls (m t e))"
  unfolding gives_def by (cases "m t e") auto

lemma gives_retD: "gives (ret a) b l \<Longrightarrow> b = a \<and> l = []"
  by (auto simp: gives_def ret_def)

lemma gives_clockD: "gives clock b l \<Longrightarrow> l = []"
  by (auto simp: gives_def clock_def)

lemma gives_performD: "gives (perform ev f) a l \<Longrightarrow> l = [ev a]"
  unfolding gives_def perform_def by (metis (no_types, lifting) case_prod_conv outcome.inject prod_cases3)

lemma gives_bndE:
  assumes "gives (bnd m k) b l"
  obtains (bnd) a l1 l2 where "gives m a l1" "gives (k a) b l2" "l = l1 @ l2"
proof -
  from assms obtain t e e' d where "bnd m k t e = Out b e' d l" by (auto simp: gives_def)
  then obtain a e1 d1 l1 d2 l2 where "m t e = Out a e1 d1 l1" "k a (t + d1) e1 = Out b e' d2 l2" "l = l1 @ l2"
    by (cases "m t e") (auto simp: bnd_def split: outcome.splits)
  then show thesis using bnd unfolding gives_def by blast
qed

lemma gives_try_callE:
  assumes "gives (try_call m w k) b l"
  obtains (fail) err where "gives m (Inl err) l" "b = Inl (w err)"
    | (ok) a l1 l2 where "gives m (Inr a) l1" "gives (k a) b l2" "l = l1 @ l2"
proof -
  from assms show thesis
    unfolding try_call_def
  proof (cases rule: gives_bndE)
    case (bnd r l1 l2)
    then show thesis using fail ok by (cases r) (auto dest!: gives_retD)
  qed
qed

lemma gives_mustE:
  assumes "gives (must m w k) b l"
  obtains (fail) err where "gives m (Some err) l" "b = Inl (w err)"
    | (ok) l1 l2 where "gives m None l1" "gives k b l2" "l = l1 @ l2"
proof -
  from assms show thesis
    unfolding must_def
  proof (cases rule: gives_bndE)
    case (bnd r l1 l2)
    then show thesis using fail ok by (cases r) (auto dest!: gives_retD)
  qed
qed

lemma gives_deferredE:
  assumes "gives (deferred cleanup body) a l"
  obtains (deferred) l1 u l2 where "gives body a l1" "gives cleanup u l2" "l = l1 @ l2"
proof -
  from assms show thesis
    unfolding deferred_def
  proof (cases rule: gives_bndE)
    case (bnd r l1 l2)
    from bnd(2) show thesis
    proof (cases rule: gives_bndE)
      case (bnd u l3 l4)
      with \<open>gives body r l1\<close> \<open>l = l1 @ l2\<close> deferred show thesis by (auto dest!: gives_retD)
    qed
  qed
qed

lemma ok_guardedE:
  assumes "gives (guarded cleanup m k) (Inr b) l"
  obtains a l1 l2 where "gives m (Inr a) l1" "gives (k a) (Inr b) l2" "l = l1 @ l2"
  using assms unfolding guarded_def
  by (elim gives_bndE) (auto split: sum.splits elim!: gives_bndE dest!: gives_retD)

lemma gives_as_checkE:
  assumes "gives (as_check m) c l"
  obtains (as_check) r where "gives m r l" "c = (case r of Inl err \<Rightarrow> Some err | Inr _ \<Rightarrow> None)"
  using assms unfolding as_check_def by (elim gives_bndE) (auto dest!: gives_retD)

text \<open>The same rules for runs that succeed, where each step has succeeded.\<close>

lemma ok_try_callE:
  assumes "gives (try_call m w k) (Inr b) l"
  obtains a l1 l2 where "gives m (Inr a) l1" "gives (k a) (Inr b) l2" "l = l1 @ l2"
  using assms by (cases rule: gives_try_callE) auto

lemma ok_mustE:
  assumes "gives (must m w k) (Inr b) l"
  obtains l1 l2 where "gives m None l1" "gives k (Inr b) l2" "l = l1 @ l2"
  using assms by (cases rule: gives_mustE) auto

lemma ok_requireE:
  assumes "gives (require c k) (Inr b) l"
  obtains "c = None" "gives k (Inr b) l"
  using assms by (cases c) (auto simp: require_def dest: gives_retD)

lemma ok_as_checkE:
  assumes "gives (as_check m) None l"
  obtains b where "gives m (Inr b) l"
  using assms by (cases rule: gives_as_checkE) (auto split: sum.splits)

lemmas okE = ok_try_callE ok_mustE ok_requireE

section \<open>Monitors\<close>

type_synonym 'q monitor = "'q \<Rightarrow> event \<Rightarrow> 'q option"

fun run_monitor :: "'q monitor \<Rightarrow> 'q \<Rightarrow> event list \<Rightarrow> 'q option" where
  "run_monitor M q [] = Some q"
| "run_monitor M q (ev # evs) = (case M q ev of None \<Rightarrow> None | Some q' \<Rightarrow> run_monitor M q' evs)"

definition wp :: "'q monitor \<Rightarrow> ('e, 'a) io \<Rightarrow> ('a \<Rightarrow> 'q \<Rightarrow> bool) \<Rightarrow> 'q \<Rightarrow> bool" where
  "wp M m Q q \<longleftrightarrow> (\<forall>a l. gives m a l \<longrightarrow> (\<exists>q'. run_monitor M q l = Some q' \<and> Q a q'))"

lemma run_monitor_append:
  "run_monitor M q (a @ b) = (case run_monitor M q a of None \<Rightarrow> None | Some q' \<Rightarrow> run_monitor M q' b)"
  by (induction a arbitrary: q) (auto split: option.splits)

lemma wp_run: "wp M m Q q \<Longrightarrow> \<exists>q'. run_monitor M q (calls (m t e)) = Some q' \<and> Q (res (m t e)) q'"
  using gives_run [of m t e] by (auto simp: wp_def)

lemma wpI: "(\<And>a l. gives m a l \<Longrightarrow> \<exists>q'. run_monitor M q l = Some q' \<and> Q a q') \<Longrightarrow> wp M m Q q"
  by (simp add: wp_def)

lemma wpD: "wp M m Q q \<Longrightarrow> gives m a l \<Longrightarrow> \<exists>q'. run_monitor M q l = Some q' \<and> Q a q'"
  by (simp add: wp_def)

lemma wp_mono: "wp M m P q \<Longrightarrow> (\<And>a q'. P a q' \<Longrightarrow> Q a q') \<Longrightarrow> wp M m Q q"
  unfolding wp_def by blast

lemma gives_ret [simp]: "gives (ret a) b l \<longleftrightarrow> b = a \<and> l = []"
  by (auto simp: gives_def ret_def)

lemma wp_ret_iff [simp]: "wp M (ret a) Q q \<longleftrightarrow> Q a q"
  by (auto simp: wp_def)

lemma wp_ret_fun: "wp M (ret a) Q = Q a"
  by (rule ext) simp

lemma wp_ret [trace_intros]: "Q a q \<Longrightarrow> wp M (ret a) Q q"
  by simp

lemma wp_clock [trace_intros]: "(\<And>now. Q now q) \<Longrightarrow> wp M clock Q q"
  by (rule wpI) (auto dest: gives_clockD)

lemma wp_perform:
  "(\<And>r. case M q (ev r) of None \<Rightarrow> False | Some q' \<Rightarrow> Q r q') \<Longrightarrow> wp M (perform ev f) Q q"
  by (rule wpI) (fastforce dest!: gives_performD split: option.splits)

lemma wp_call:
  "(\<And>r. \<exists>q'. M q (ev r) = Some q' \<and> Q r q') \<Longrightarrow> wp M (perform ev f) Q q"
  by (rule wp_perform) (metis option.simps(5))

lemma wp_bnd [trace_intros]: "wp M m (\<lambda>a. wp M (k a) Q) q \<Longrightarrow> wp M (bnd m k) Q q"
proof (rule wpI)
  fix b l
  assume w: "wp M m (\<lambda>a. wp M (k a) Q) q" and "gives (bnd m k) b l"
  from this(2) show "\<exists>q'. run_monitor M q l = Some q' \<and> Q b q'"
  proof (cases rule: gives_bndE)
    case (bnd a l1 l2)
    from wpD [OF w bnd(1)] obtain q1 where q1: "run_monitor M q l1 = Some q1" "wp M (k a) Q q1" by blast
    from wpD [OF q1(2) bnd(2)] show ?thesis using q1(1) bnd(3) by (auto simp: run_monitor_append)
  qed
qed

lemma wp_try_call [trace_intros]:
  "wp M m (\<lambda>r q'. case r of Inl err \<Rightarrow> Q (Inl (w err)) q' | Inr a \<Rightarrow> wp M (k a) Q q') q \<Longrightarrow>
   wp M (try_call m w k) Q q"
  unfolding try_call_def
  by (rule wp_bnd, erule wp_mono) (auto intro: wp_ret split: sum.splits)

lemma wp_must [trace_intros]:
  "wp M m (\<lambda>r q'. case r of Some err \<Rightarrow> Q (Inl (w err)) q' | None \<Rightarrow> wp M k Q q') q \<Longrightarrow>
   wp M (must m w k) Q q"
  unfolding must_def
  by (rule wp_bnd, erule wp_mono) (auto intro: wp_ret split: option.splits)

lemma wp_require [trace_intros]:
  "(\<And>err. c = Some err \<Longrightarrow> Q (Inl err) q) \<Longrightarrow> (c = None \<Longrightarrow> wp M k Q q) \<Longrightarrow> wp M (require c k) Q q"
  by (cases c) (auto simp: require_def intro: wp_ret)

lemma wp_deferred [trace_intros]:
  "wp M body (\<lambda>r. wp M cleanup (\<lambda>_. Q r)) q \<Longrightarrow> wp M (deferred cleanup body) Q q"
  unfolding deferred_def
  by (rule wp_bnd, erule wp_mono, rule wp_bnd, erule wp_mono) (rule wp_ret)

lemma wp_guarded [trace_intros]:
  "wp M m (\<lambda>r q'. case r of Inl err \<Rightarrow> wp M cleanup (\<lambda>_. Q (Inl err)) q' | Inr a \<Rightarrow> wp M (k a) Q q') q \<Longrightarrow>
   wp M (guarded cleanup m k) Q q"
  unfolding guarded_def
  by (rule wp_bnd, erule wp_mono) (auto intro!: wp_bnd simp: wp_ret_fun split: sum.splits)

lemma wp_as_check [trace_intros]:
  "wp M m (\<lambda>r. Q (case r of Inl err \<Rightarrow> Some err | Inr _ \<Rightarrow> None)) q \<Longrightarrow> wp M (as_check m) Q q"
  unfolding as_check_def by (rule wp_bnd, erule wp_mono) (rule wp_ret)

lemma wp_if [trace_intros]:
  "(b \<Longrightarrow> wp M m Q q) \<Longrightarrow> (\<not> b \<Longrightarrow> wp M m' Q q) \<Longrightarrow> wp M (if b then m else m') Q q"
  by simp

lemmas call_defs = ReadFile_def WriteFile_def Stat_def Connect_def Close_def Subscribe_def Flush_def
  Drain_def PublishMsg_def RequestMsg_def Request_def Respond_def RecvMsg_def RecvErr_def RecvUnit_def
  SelectEither_def CreateTemp_def WriteString_def CloseFile_def Rename_def Remove_def
  call_sum_def call_check_def call_plain_def op_sum_def op_check_def acquire_def release_def
  JSPublishMsg_def NextMsg_def Ack_def AckSync_def Unsubscribe_def ignore_def

end
