(* ===== verification/GoPeers.thy ===== *)
theory GoPeers
  imports GoModes GoRetry GoControl GoTrace
begin

text \<open>
  The peers themselves: the scripts the Go program runs against the OCaml client. Each is
  translated call by call; a deferred cleanup is \<open>deferred\<close>, a callback is a function of its
  own that the outside runs. The long scripts are cut into phases at the blank lines of the
  source, each phase ending in \<open>Inr ()\<close> or in the error the function returns.
\<close>

abbreviation data_msg :: "string \<Rightarrow> string \<Rightarrow> msg" where
  "data_msg subject data \<equiv> (NewMsg subject)\<lparr>msg_Data := data\<rparr>"

text \<open>The contents of the ready file and of a kill signal.\<close>

definition ready_content :: string where "ready_content = ''ready'' @ [LF]"
definition kill_content :: string where "kill_content = ''kill'' @ [LF]"

section \<open>Core peer\<close>

text \<open>The \<open>.go-request\<close> callback: the value it sends to \<open>goRequestResults\<close>.\<close>

definition answerGoRequest :: "'e api \<Rightarrow> conn \<Rightarrow> msg \<Rightarrow> ('e, check) io" where
  "answerGoRequest A c message =
     (if msg_Data message \<noteq> ''request-from-ocaml'' then
        ret (Some (Errorf ''OCaml request payload was %q, expected %q''
          [AStr (msg_Data message), AStr ''request-from-ocaml'']))
      else if hdr_Get message ''X-Interop'' \<noteq> ''ocaml-request'' then
        ret (Some (Errorf ''OCaml request X-Interop header was %q, expected %q''
          [AStr (hdr_Get message ''X-Interop''), AStr ''ocaml-request'']))
      else
        bnd (PublishMsg A c (hdr_Set ''X-Interop'' ''go-response''
               (data_msg (msg_Reply message) ''response-from-go'')))
          (\<lambda>r. ret (map_option (wrap ''respond to OCaml request'') r)))"

definition runPeer_setup :: "'e api \<Rightarrow> options \<Rightarrow> conn \<Rightarrow> ('e, gerr + unit) io" where
  "runPeer_setup A config c =
     must (Subscribe A c (op_prefix config @ ''.start'') ''startMessages'') (wrap ''subscribe start'') (
     must (Subscribe A c (op_prefix config @ ''.to-go'') ''toGoMessages'') (wrap ''subscribe to-go'') (
     must (Subscribe A c (op_prefix config @ ''.go-request'') ''goRequestResults'') (wrap ''subscribe go-request'') (
     must (Flush A c) (wrap ''flush subscriptions'') (
     must (WriteFile A (op_ready config) ready_content) (wrap ''write ready file'') (
     try_call (waitMessage A ''start request'' ''startMessages'') id (\<lambda>startMessage.
     must (Respond A startMessage ''started'') (wrap ''respond to start'') (
     ret (Inr ()))))))))"

definition runPeer_exchange :: "'e api \<Rightarrow> options \<Rightarrow> conn \<Rightarrow> ('e, gerr + unit) io" where
  "runPeer_exchange A config c =
     (let fromGo = hdr_Add ''X-Trace'' ''two'' (hdr_Add ''X-Trace'' ''one'' (hdr_Set ''X-Interop'' ''go''
                     (data_msg (op_prefix config @ ''.from-go'') ''from-go''))) in
      must (PublishMsg A c fromGo) (wrap ''publish from-go'') (
      must (Flush A c) (wrap ''flush from-go'') (
      try_call (waitMessage A ''OCaml publication'' ''toGoMessages'') id (\<lambda>toGo.
      require (unless (msg_Data toGo = ''to-go'')
        (Errorf ''OCaml payload was %q, expected %q'' [AStr (msg_Data toGo), AStr ''to-go''])) (
      require (unless (hdr_Get toGo ''X-Interop'' = ''ocaml'')
        (Errorf ''OCaml X-Interop header was %q'' [AStr (hdr_Get toGo ''X-Interop'')])) (
      require (checkHeaderValues toGo ''X-Trace'' [''one'', ''two'']) (
      ret (Inr ())))))))) "

definition runPeer_requests :: "'e api \<Rightarrow> options \<Rightarrow> conn \<Rightarrow> ('e, gerr + unit) io" where
  "runPeer_requests A config c =
     (let request = hdr_Set ''X-Interop'' ''go-request''
                      (data_msg (op_prefix config @ ''.ocaml-request'') ''request-from-go'');
          noResponder = data_msg (op_prefix config @ ''.no-responder'') ''missing'' in
      try_call (RequestMsg A c request waitTimeout) (wrap ''request OCaml'') (\<lambda>response.
      require (unless (msg_Data response = ''response-from-ocaml'')
        (Errorf ''OCaml response was %q, expected %q'' [AStr (msg_Data response), AStr ''response-from-ocaml''])) (
      require (unless (hdr_Get response ''X-Interop'' = ''ocaml-response'')
        (Errorf ''OCaml response X-Interop header was %q'' [AStr (hdr_Get response ''X-Interop'')])) (
      must (waitResult A ''OCaml request response'' ''goRequestResults'') id (
      bnd (RequestMsg A c noResponder waitTimeout) (\<lambda>r. case r of
        Inr _ \<Rightarrow> ret (Inl (New ''request without a responder unexpectedly succeeded''))
      | Inl err \<Rightarrow>
          if \<not> is_err err ErrNoResponders
          then ret (Inl (Errorf ''request without a responder returned %w'' [AWrap err]))
          else
            must (Flush A c) (wrap ''final flush'') (
            must (Drain A c) (wrap ''drain'') (
            ret (Inr ()))))))))) "

definition runPeer :: "'e api \<Rightarrow> options \<Rightarrow> ('e, check) io" where
  "runPeer A config = as_check (
     try_call (connectOptions A) id (\<lambda>authOptions.
     try_call (Connect A (op_server config) (OName ''ocaml-nats interop peer'' # authOptions))
       (wrap ''connect'') (\<lambda>c.
     deferred (Close A c) (
       try_call (runPeer_setup A config c) id (\<lambda>_.
       try_call (runPeer_exchange A config c) id (\<lambda>_.
       runPeer_requests A config c))))))"

section \<open>Reconnect peer\<close>

text \<open>The barrier's callback: what it offers to \<open>callbackErrors\<close> or \<open>ready\<close>.\<close>

definition barrierHandler :: "'e api \<Rightarrow> conn \<Rightarrow> nat \<Rightarrow> msg \<Rightarrow> ('e, selection) io" where
  "barrierHandler A c cycle message =
     (let expected = ''ocaml-ready-'' @ show_nat cycle;
          responsePayload = ''go-ready-'' @ show_nat cycle in
      if msg_Data message \<noteq> expected then
        ret (GotErr (Errorf ''recovery barrier payload was %q, expected %q''
          [AStr (msg_Data message), AStr expected]))
      else if msg_Reply message = [] then
        ret (GotErr (Errorf ''recovery barrier has no reply subject'' []))
      else
        bnd (PublishMsg A c (data_msg (msg_Reply message) responsePayload)) (\<lambda>r. ret (case r of
          Some err \<Rightarrow> GotErr (wrap ''publish recovery barrier response'' err)
        | None \<Rightarrow> GotUnit)))"

definition awaitRecoveryBarrierWithTimeout ::
  "'e api \<Rightarrow> conn \<Rightarrow> string \<Rightarrow> nat \<Rightarrow> nat \<Rightarrow> ('e, gerr + unit) io" where
  "awaitRecoveryBarrierWithTimeout A c prefix cycle timeout =
     (let readySubject = prefix @ ''.reconnect-ready.'' @ show_nat cycle in
      must (Subscribe A c readySubject ''barrier'')
        (\<lambda>err. Errorf ''subscribe recovery barrier %d: %w'' [AInt (int cycle), AWrap err]) (
      must (Flush A c) (\<lambda>err. Errorf ''flush recovery barrier %d: %w'' [AInt (int cycle), AWrap err]) (
      bnd (SelectEither A ''ready'' ''callbackErrors'' timeout) (\<lambda>sel. case sel of
        GotUnit \<Rightarrow>
          must (Flush A c)
            (\<lambda>err. Errorf ''flush recovery barrier response %d: %w'' [AInt (int cycle), AWrap err]) (
          ret (Inr ()))
      | GotErr err \<Rightarrow> ret (Inl err)
      | TimerFired \<Rightarrow>
          ret (Inl (Errorf ''timed out waiting for recovery barrier %d'' [AInt (int cycle)]))))))"

definition awaitRecoveryBarrier :: "'e api \<Rightarrow> conn \<Rightarrow> string \<Rightarrow> nat \<Rightarrow> ('e, gerr + unit) io" where
  "awaitRecoveryBarrier A c prefix cycle = awaitRecoveryBarrierWithTimeout A c prefix cycle waitTimeout"

definition reconnect_setup :: "'e api \<Rightarrow> options \<Rightarrow> conn \<Rightarrow> ('e, gerr + unit) io" where
  "reconnect_setup A config c =
     must (Subscribe A c (op_prefix config @ ''.start'') ''startMessages'') (wrap ''subscribe start'') (
     must (Subscribe A c (op_prefix config @ ''.to-go'') ''toGoMessages'') (wrap ''subscribe to-go'') (
     must (Flush A c) (wrap ''flush subscriptions'') (
     must (WriteFile A (op_ready config) ready_content) (wrap ''write ready file'') (
     try_call (waitMessage A ''start request'' ''startMessages'') id (\<lambda>startMessage.
     must (Respond A startMessage ''started'') (wrap ''respond to start'') (
     ret (Inr ())))))))"

text \<open>The first half of a round: one payload each way and the flush marker after it.\<close>

definition reconnect_round :: "'e api \<Rightarrow> options \<Rightarrow> conn \<Rightarrow> nat \<Rightarrow> ('e, gerr + unit) io" where
  "reconnect_round A config c round =
     (let payload = roundPayload round in
      must (PublishMsg A c (data_msg (op_prefix config @ ''.from-go'') payload))
        (\<lambda>err. Errorf ''publish %s: %w'' [AStr payload, AWrap err]) (
      must (Flush A c) (\<lambda>err. Errorf ''flush %s: %w'' [AStr payload, AWrap err]) (
      try_call (waitMessage A (''OCaml publication '' @ payload) ''toGoMessages'') id (\<lambda>toGo.
      require (expectPayload (''OCaml publication '' @ payload) toGo payload) (
      try_call (waitMessage A (''OCaml flush marker '' @ payload) ''toGoMessages'') id (\<lambda>marker.
      require (expectPayload (''OCaml flush marker '' @ payload) marker (roundMarker round)) (
      ret (Inr ()))))))))"

text \<open>The second half: have the server killed, wait for the reconnect, meet at the barrier.\<close>

definition reconnect_kill :: "'e api \<Rightarrow> options \<Rightarrow> conn \<Rightarrow> nat \<Rightarrow> ('e, gerr + unit) io" where
  "reconnect_kill A config c next_round =
     must (WriteFile A (roundSignal (op_signal config) next_round) kill_content)
       (\<lambda>err. Errorf ''write reconnect signal %d: %w'' [AInt (int next_round), AWrap err]) (
     must (waitReconnect A ''reconnected'')
       (\<lambda>err. Errorf ''reconnect %d: %w'' [AInt (int next_round), AWrap err]) (
     must (Flush A c) (\<lambda>err. Errorf ''flush after reconnect %d: %w'' [AInt (int next_round), AWrap err]) (
     awaitRecoveryBarrier A c (op_prefix config) next_round)))"

text \<open>\<open>for round := 0; round <= cycles; round++\<close>, with \<open>left = cycles - round\<close>.\<close>

fun reconnect_rounds :: "'e api \<Rightarrow> options \<Rightarrow> conn \<Rightarrow> nat \<Rightarrow> nat \<Rightarrow> ('e, gerr + unit) io" where
  "reconnect_rounds A config c 0 round = reconnect_round A config c round"
| "reconnect_rounds A config c (Suc left) round =
     try_call (reconnect_round A config c round) id (\<lambda>_.
     try_call (reconnect_kill A config c (round + 1)) id (\<lambda>_.
     reconnect_rounds A config c left (round + 1)))"

definition runReconnectPeer :: "'e api \<Rightarrow> options \<Rightarrow> ('e, check) io" where
  "runReconnectPeer A config = as_check (
     try_call (connectOptions A) id (\<lambda>authOptions.
     (case reconnectCycles (op_server config) of
        Inl err \<Rightarrow> ret (Inl err)
      | Inr cycles \<Rightarrow>
          try_call (Connect A (op_server config)
              ([OName ''ocaml-nats interop reconnect peer'', ODontRandomize, OReconnectWait (100 * millisecond),
                OMaxReconnects 20, OReconnectHandler ''reconnected''] @ authOptions))
            (wrap ''connect'') (\<lambda>c.
          deferred (Close A c) (
            try_call (reconnect_setup A config c) id (\<lambda>_.
            try_call (reconnect_rounds A config c cycles 0) id (\<lambda>_.
            must (Drain A c) (wrap ''drain'') (
            ret (Inr ())))))))))"

section \<open>Service failure peer\<close>

definition serviceFailureBurstSize :: nat where "serviceFailureBurstSize = 8"

definition failure_setup :: "'e api \<Rightarrow> options \<Rightarrow> conn \<Rightarrow> ('e, gerr + unit) io" where
  "failure_setup A config c =
     must (Subscribe A c (op_prefix config @ ''.start'') ''startMessages'') (wrap ''subscribe Service failure start'') (
     must (Subscribe A c (op_prefix config @ ''.first-started'') ''firstStartedMessages'')
       (wrap ''subscribe Service failure first-handler barrier'') (
     must (Flush A c) (wrap ''flush Service failure subscriptions'') (
     must (WriteFile A (op_ready config) ready_content) (wrap ''write ready file'') (
     try_call (waitMessage A ''Service failure start request'' ''startMessages'') id (\<lambda>startMessage.
     must (Respond A startMessage ''started'') (wrap ''respond to Service failure start'') (
     must (Flush A c) (wrap ''flush Service failure start response'') (
     ret (Inr ()))))))))"

text \<open>
  One request occupies the only handler; the burst after it overflows the pending queue of the
  limited endpoint.
\<close>

fun publish_burst :: "'e api \<Rightarrow> options \<Rightarrow> conn \<Rightarrow> nat list \<Rightarrow> ('e, gerr + unit) io" where
  "publish_burst A config c [] = ret (Inr ())"
| "publish_burst A config c (index # rest) =
     must (PublishMsg A c (data_msg (op_prefix config @ ''.ocaml.limited'') (''overflow-'' @ show_nat index)))
       (\<lambda>err. Errorf ''publish slow-consumer request %d: %w'' [AInt (int index), AWrap err]) (
     publish_burst A config c rest)"

definition failure_overflow :: "'e api \<Rightarrow> options \<Rightarrow> conn \<Rightarrow> ('e, gerr + unit) io" where
  "failure_overflow A config c =
     must (PublishMsg A c (data_msg (op_prefix config @ ''.ocaml.limited'') ''first''))
       (wrap ''publish first slow-consumer request'') (
     must (Flush A c) (wrap ''flush first slow-consumer request'') (
     try_call (waitMessage A ''OCaml first Service failure handler'' ''firstStartedMessages'') id (\<lambda>firstStarted.
     require (expectPayload ''OCaml first Service failure handler'' firstStarted ''started'') (
     must (Respond A firstStarted ''first-started'') (wrap ''respond to first-handler barrier'') (
     must (Flush A c) (wrap ''flush first-handler barrier'') (
     try_call (publish_burst A config c [1..<serviceFailureBurstSize]) id (\<lambda>_.
     must (Flush A c) (wrap ''flush slow-consumer burst'') (
     ret (Inr ())))))))))"

definition failure_finish :: "'e api \<Rightarrow> options \<Rightarrow> conn \<Rightarrow> ('e, gerr + unit) io" where
  "failure_finish A config c =
     try_call (Request A c (op_prefix config @ ''.release'') ''release'' waitTimeout)
       (wrap ''request Service failure release'') (\<lambda>releaseResponse.
     require (expectPayload ''Service failure release'' releaseResponse ''released'') (
     try_call (Request A c (op_prefix config @ ''.parent-check'') ''usable'' waitTimeout)
       (wrap ''request parent-connection check'') (\<lambda>parentResponse.
     require (expectPayload ''parent-connection check'' parentResponse ''parent-usable'') (
     try_call (Request A c (op_prefix config @ ''.done'') ''go-finished'' waitTimeout)
       (wrap ''request Service failure completion'') (\<lambda>doneResponse.
     require (expectPayload ''Service failure completion'' doneResponse ''ocaml-validated'') (
     must (Drain A c) (wrap ''drain Service failure peer'') (
     ret (Inr ()))))))))"

definition runServiceFailurePeer :: "'e api \<Rightarrow> options \<Rightarrow> ('e, check) io" where
  "runServiceFailurePeer A config = as_check (
     try_call (connectOptions A) id (\<lambda>authOptions.
     try_call (Connect A (op_server config) (OName ''ocaml-nats Service failure interop peer'' # authOptions))
       (wrap ''connect'') (\<lambda>c.
     deferred (Close A c) (
       try_call (failure_setup A config c) id (\<lambda>_.
       try_call (failure_overflow A config c) id (\<lambda>_.
       failure_finish A config c))))))"

end
