(* ===== verification/GoProtocol.thy ===== *)
theory GoProtocol
  imports GoPeers
begin

text \<open>
  What the peers owe the process that runs them and the client at the other end, as a monitor
  over their calls, and the traces of their successful runs.
\<close>

section \<open>The handshake discipline\<close>

text \<open>
  Where a peer is: not connected; connected and subscribing; announced (its ready file is
  written); drained; closed. The flag of the two middle states says that a subscription was
  made which the server may not know yet, that of the last one whether the connection was
  drained before it was closed.
\<close>

datatype handshake =
    Idle
  | Setup bool
  | Announced bool
  | Drained
  | Closed bool

text \<open>
  One connection, opened once; the ready file, written in place or renamed into place, only when
  the server has every subscription; application messages and kill signals only after that and
  with no subscription in flight (a stream may be created and filled before); nothing on the
  connection after a drain but cleanup and close; nothing at all after the close.
\<close>

definition discipline :: "handshake monitor" where
  "discipline q ev =
     (case q of
        Idle \<Rightarrow>
          (case ev of
             EReadFile path ok \<Rightarrow> Some Idle
           | EConnect server r \<Rightarrow> Some (if r = None then Idle else Setup False)
           | _ \<Rightarrow> None)
      | Setup unflushed \<Rightarrow>
          (case ev of
             ESubscribe subject ch ok \<Rightarrow> Some (Setup True)
           | EFlush ok \<Rightarrow> Some (Setup (unflushed \<and> \<not> ok))
           | EWriteFile path content ok \<Rightarrow>
               if content = ready_content \<and> \<not> unflushed then Some (Announced False) else None
           | ERename old new ok \<Rightarrow>
               if unflushed then None else Some (if ok then Announced False else q)
           | ECreateTemp directory r \<Rightarrow> Some q
           | EWriteString path content ok \<Rightarrow> Some q
           | ECloseFile path ok \<Rightarrow> Some q
           | ERemove path \<Rightarrow> Some q
           | ECall name ok \<Rightarrow> Some q
           | EOp name args ok \<Rightarrow> Some q
           | EAcquire name r \<Rightarrow> Some q
           | ERelease name h ok \<Rightarrow> Some q
           | EJSPublish m id' r \<Rightarrow> Some q
           | EClose c \<Rightarrow> Some (Closed False)
           | _ \<Rightarrow> None)
      | Announced unflushed \<Rightarrow>
          (case ev of
             ESubscribe subject ch ok \<Rightarrow> Some (Announced True)
           | EFlush ok \<Rightarrow> Some (Announced (unflushed \<and> \<not> ok))
           | EWriteFile path content ok \<Rightarrow>
               if content = kill_content \<and> \<not> unflushed then Some q else None
           | EPublish m ok \<Rightarrow> if unflushed then None else Some q
           | ERequest m r \<Rightarrow> if unflushed then None else Some q
           | ERespond m payload ok \<Rightarrow> if unflushed then None else Some q
           | EReceive ch r \<Rightarrow> if unflushed then None else Some q
           | EReceiveErr ch \<Rightarrow> if unflushed then None else Some q
           | EReceiveUnit ch r \<Rightarrow> if unflushed then None else Some q
           | ESelect a b \<Rightarrow> if unflushed then None else Some q
           | EJSPublish m id' r \<Rightarrow> if unflushed then None else Some q
           | EDeliver s r \<Rightarrow> if unflushed then None else Some q
           | EAck m ok \<Rightarrow> if unflushed then None else Some q
           | EStat path \<Rightarrow> Some q
           | ERemove path \<Rightarrow> Some q
           | ECall name ok \<Rightarrow> Some q
           | EOp name args ok \<Rightarrow> Some q
           | EAcquire name r \<Rightarrow> Some q
           | ERelease name h ok \<Rightarrow> Some q
           | EDrain ok \<Rightarrow> if unflushed then None else Some (if ok then Drained else q)
           | EClose c \<Rightarrow> Some (Closed False)
           | _ \<Rightarrow> None)
      | Drained \<Rightarrow>
          (case ev of
             ECall name ok \<Rightarrow> Some Drained
           | ERelease name h ok \<Rightarrow> Some Drained
           | EClose c \<Rightarrow> Some (Closed True)
           | _ \<Rightarrow> None)
      | Closed drained \<Rightarrow> None)"

text \<open>
  How a peer may end: never connected and with an error, or closed, and a success is reported
  only when the connection was drained first (so the ready file was written, too).
\<close>

definition proper_end :: "check \<Rightarrow> handshake \<Rightarrow> bool" where
  "proper_end r q =
     (case q of Idle \<Rightarrow> r \<noteq> None | Closed drained \<Rightarrow> drained \<or> r \<noteq> None | _ \<Rightarrow> False)"

definition disciplined :: "('e, check) io \<Rightarrow> bool" where
  "disciplined m \<longleftrightarrow>
     (\<forall>t e. case run_monitor discipline Idle (calls (m t e)) of
        None \<Rightarrow> False
      | Some q \<Rightarrow> proper_end (res (m t e)) q)"

lemma disciplinedI: "wp discipline m proper_end Idle \<Longrightarrow> disciplined m"
  unfolding disciplined_def by (metis option.simps(5) wp_run)

text \<open>The end of a phase: in the state it promises, or failed with the connection still open.\<close>

definition open_state :: "handshake \<Rightarrow> bool" where
  "open_state q = (case q of Setup _ \<Rightarrow> True | Announced _ \<Rightarrow> True | Drained \<Rightarrow> True | _ \<Rightarrow> False)"

definition phase :: "handshake \<Rightarrow> gerr + 'a \<Rightarrow> handshake \<Rightarrow> bool" where
  "phase q' r q = (case r of Inl _ \<Rightarrow> open_state q | Inr _ \<Rightarrow> q = q' \<and> open_state q)"

lemma phase_simps [simp]:
  "phase q' (Inl err) q = open_state q"
  "phase q' (Inr u) q \<longleftrightarrow> q = q' \<and> open_state q"
  by (simp_all add: phase_def)

lemma open_state_simps [simp]:
  "open_state (Setup d)" "open_state (Announced d)" "open_state Drained"
  by (simp_all add: open_state_def)

lemma content_neq [simp]: "kill_content \<noteq> ready_content"
  by (simp add: kill_content_def ready_content_def)

lemma discipline_simps [simp]:
  "discipline (Setup d) (ESubscribe subject ch ok) = Some (Setup True)"
  "discipline (Setup d) (EFlush ok) = Some (Setup (d \<and> \<not> ok))"
  "discipline (Setup False) (EWriteFile path ready_content ok) = Some (Announced False)"
  "discipline (Setup d) (ECall name ok) = Some (Setup d)"
  "discipline (Announced d) (ESubscribe subject ch ok) = Some (Announced True)"
  "discipline (Announced d) (EFlush ok) = Some (Announced (d \<and> \<not> ok))"
  "discipline (Announced False) (EWriteFile path kill_content ok) = Some (Announced False)"
  "discipline (Announced False) (EPublish m ok) = Some (Announced False)"
  "discipline (Announced False) (ERequest m r) = Some (Announced False)"
  "discipline (Announced False) (ERespond m payload ok) = Some (Announced False)"
  "discipline (Announced False) (EReceive ch rm) = Some (Announced False)"
  "discipline (Announced False) (EReceiveErr ch) = Some (Announced False)"
  "discipline (Announced False) (EReceiveUnit ch ok) = Some (Announced False)"
  "discipline (Announced False) (ESelect a b) = Some (Announced False)"
  "discipline (Announced d) (ECall name ok) = Some (Announced d)"
  "discipline (Announced False) (EDrain ok) = Some (if ok then Drained else Announced False)"
  "discipline Drained (ECall name ok) = Some Drained"
  "discipline (Setup False) (ERename old new ok) = Some (if ok then Announced False else Setup False)"
  "discipline (Setup d) (ECreateTemp directory rs) = Some (Setup d)"
  "discipline (Setup d) (EWriteString path content ok) = Some (Setup d)"
  "discipline (Setup d) (ECloseFile path ok) = Some (Setup d)"
  "discipline (Setup d) (ERemove path) = Some (Setup d)"
  "discipline (Setup d) (EOp name args ok) = Some (Setup d)"
  "discipline (Setup d) (EAcquire name rh) = Some (Setup d)"
  "discipline (Setup d) (ERelease name h ok) = Some (Setup d)"
  "discipline (Setup d) (EJSPublish m id' ra) = Some (Setup d)"
  "discipline (Announced False) (EJSPublish m id' ra) = Some (Announced False)"
  "discipline (Announced False) (EDeliver s rm) = Some (Announced False)"
  "discipline (Announced False) (EAck m ok) = Some (Announced False)"
  "discipline (Announced d) (EStat path) = Some (Announced d)"
  "discipline (Announced d) (ERemove path) = Some (Announced d)"
  "discipline (Announced d) (EOp name args ok) = Some (Announced d)"
  "discipline (Announced d) (EAcquire name rh) = Some (Announced d)"
  "discipline (Announced d) (ERelease name h ok) = Some (Announced d)"
  "discipline Drained (ERelease name h ok) = Some Drained"
  by (simp_all add: discipline_def)

text \<open>
  The rules for one call, with the successful continuation as the last premise: the state
  after the call is found first.
\<close>

lemma wp_must_call:
  assumes "M q (ev None) = Some q1"
    and "\<And>err. \<exists>q2. M q (ev (Some err)) = Some q2 \<and> Q (Inl (w err)) q2"
    and "wp M k Q q1"
  shows "wp M (must (perform ev f) w k) Q q"
proof (intro wp_must wp_call)
  fix r
  show "\<exists>q'. M q (ev r) = Some q' \<and> (case r of None \<Rightarrow> wp M k Q q' | Some err \<Rightarrow> Q (Inl (w err)) q')"
    using assms by (cases r) auto
qed

lemma wp_try_perform:
  assumes "\<And>a. M q (ev (Inr a)) = Some q1"
    and "\<And>err. \<exists>q2. M q (ev (Inl err)) = Some q2 \<and> Q (Inl (w err)) q2"
    and "\<And>a. wp M (k a) Q q1"
  shows "wp M (try_call (perform ev f) w k) Q q"
proof (intro wp_try_call wp_call)
  fix r
  show "\<exists>q'. M q (ev r) = Some q' \<and> (case r of Inl err \<Rightarrow> Q (Inl (w err)) q' | Inr a \<Rightarrow> wp M (k a) Q q')"
    using assms by (cases r) auto
qed

lemma wp_try_wait:
  assumes "\<And>m. M q (EReceive ch (Some m)) = Some q1"
    and "\<exists>q2. M q (EReceive ch None) = Some q2 \<and> Q (Inl (w (timed_out label))) q2"
    and "\<And>m. wp M (k m) Q q1"
  shows "wp M (try_call (waitMessage A label ch) w k) Q q"
  unfolding waitMessage_def wait_msg_def RecvMsg_def
proof (intro wp_try_call wp_bnd wp_call)
  fix r
  show "\<exists>q'. M q (EReceive ch r) = Some q' \<and>
      wp M (ret (case r of None \<Rightarrow> Inl (timed_out label) | Some message \<Rightarrow> Inr message))
        (\<lambda>r q'. case r of Inl err \<Rightarrow> Q (Inl (w err)) q' | Inr a \<Rightarrow> wp M (k a) Q q') q'"
    using assms by (cases r) (auto intro: wp_ret)
qed

lemma wp_bnd_call:
  assumes "\<And>r. M q (ev r) = Some q1" and "\<And>r. wp M (k r) Q q1"
  shows "wp M (bnd (perform ev f) k) Q q"
  by (intro wp_bnd wp_call) (use assms in blast)

lemma wp_must_result:
  assumes "M q (EReceiveErr ch) = Some q1" and "\<And>err. Q (Inl (w err)) q1" and "wp M k Q q1"
  shows "wp M (must (waitResult A label ch) w k) Q q"
  unfolding waitResult_def RecvErr_def
  by (intro wp_must wp_bnd wp_call wp_ret) (use assms in \<open>auto split: option.splits\<close>)

lemma wp_must_reconnect:
  assumes "\<And>r. M q (EReceiveUnit ch r) = Some q1" and "\<And>err. Q (Inl (w err)) q1" and "wp M k Q q1"
  shows "wp M (must (waitReconnect A ch) w k) Q q"
  unfolding waitReconnect_def RecvUnit_def
  by (intro wp_must wp_bnd wp_call wp_ret) (use assms in \<open>auto split: option.splits\<close>)

lemma wp_phases:
  assumes "wp discipline m (phase q1) q" and "\<And>u. wp discipline (k u) (phase q2) q1"
  shows "wp discipline (try_call m id k) (phase q2) q"
  by (rule wp_try_call, rule wp_mono [OF assms(1)]) (use assms(2) in \<open>auto split: sum.splits\<close>)

lemma wp_option [trace_intros]:
  "(s = None \<Longrightarrow> wp M f Q q) \<Longrightarrow> (\<And>y. s = Some y \<Longrightarrow> wp M (g y) Q q) \<Longrightarrow>
   wp M (case s of None \<Rightarrow> f | Some y \<Rightarrow> g y) Q q"
  by (cases s) auto

lemma wp_sum [trace_intros]:
  "(\<And>x. s = Inl x \<Longrightarrow> wp M (f x) Q q) \<Longrightarrow> (\<And>y. s = Inr y \<Longrightarrow> wp M (g y) Q q) \<Longrightarrow>
   wp M (case s of Inl x \<Rightarrow> f x | Inr y \<Rightarrow> g y) Q q"
  by (cases s) auto

lemma wp_selection [trace_intros]:
  "(s = GotUnit \<Longrightarrow> wp M f Q q) \<Longrightarrow> (\<And>x. s = GotErr x \<Longrightarrow> wp M (g x) Q q) \<Longrightarrow>
   (s = TimerFired \<Longrightarrow> wp M h Q q) \<Longrightarrow>
   wp M (case s of GotUnit \<Rightarrow> f | GotErr x \<Rightarrow> g x | TimerFired \<Rightarrow> h) Q q"
  by (cases s) auto

lemmas call_rules = wp_must_call wp_try_perform wp_try_wait wp_must_result wp_must_reconnect
  wp_bnd_call wp_require wp_if wp_sum wp_selection wp_option wp_ret

named_theorems phases \<open>the discipline of each phase\<close>

lemma runPeer_setup_phase [phases]:
  "wp discipline (runPeer_setup A config c) (phase (Announced False)) (Setup False)"
  unfolding runPeer_setup_def call_defs by (rule call_rules | simp; fail)+

lemma runPeer_exchange_phase [phases]:
  "wp discipline (runPeer_exchange A config c) (phase (Announced False)) (Announced False)"
  unfolding runPeer_exchange_def call_defs Let_def by (rule call_rules | simp; fail)+

lemma runPeer_requests_phase [phases]:
  "wp discipline (runPeer_requests A config c) (phase Drained) (Announced False)"
  unfolding runPeer_requests_def call_defs Let_def by (rule call_rules | simp; fail)+

lemma reconnect_setup_phase [phases]:
  "wp discipline (reconnect_setup A config c) (phase (Announced False)) (Setup False)"
  unfolding reconnect_setup_def call_defs by (rule call_rules | simp; fail)+

lemma reconnect_round_phase [phases]:
  "wp discipline (reconnect_round A config c n) (phase (Announced False)) (Announced False)"
  unfolding reconnect_round_def call_defs Let_def by (rule call_rules | simp; fail)+

lemma reconnect_kill_phase [phases]:
  "wp discipline (reconnect_kill A config c n) (phase (Announced False)) (Announced False)"
  unfolding reconnect_kill_def awaitRecoveryBarrier_def awaitRecoveryBarrierWithTimeout_def call_defs Let_def
  by (rule call_rules | simp; fail)+

lemma reconnect_rounds_phase [phases]:
  "wp discipline (reconnect_rounds A config c left n) (phase (Announced False)) (Announced False)"
proof (induction left arbitrary: n)
  case (Suc left)
  then show ?case by (auto intro!: wp_phases phases)
qed (simp add: phases)

lemma failure_setup_phase [phases]:
  "wp discipline (failure_setup A config c) (phase (Announced False)) (Setup False)"
  unfolding failure_setup_def call_defs by (rule call_rules | simp; fail)+

lemma publish_burst_phase [phases]:
  "wp discipline (publish_burst A config c ns) (phase (Announced False)) (Announced False)"
proof (induction ns)
  case Nil
  show ?case by (simp add: wp_ret)
next
  case (Cons n ns)
  show ?case
    unfolding publish_burst.simps call_defs by (rule wp_must_call; (simp; fail)?) (rule Cons)
qed

lemma failure_overflow_phase [phases]:
  "wp discipline (failure_overflow A config c) (phase (Announced False)) (Announced False)"
  unfolding failure_overflow_def call_defs
  by (rule call_rules | rule wp_phases [OF publish_burst_phase] | simp; fail)+

lemma failure_finish_phase [phases]:
  "wp discipline (failure_finish A config c) (phase Drained) (Announced False)"
  unfolding failure_finish_def call_defs by (rule call_rules | simp; fail)+

section \<open>Properties\<close>

lemma gives_sumE:
  assumes "gives (case s of Inl x \<Rightarrow> f x | Inr y \<Rightarrow> g y) b l"
  obtains (inl) x where "s = Inl x" "gives (f x) b l" | (inr) y where "s = Inr y" "gives (g y) b l"
  using assms by (cases s) auto

definition is_read :: "event \<Rightarrow> bool" where
  "is_read ev = (case ev of EReadFile path ok \<Rightarrow> True | _ \<Rightarrow> False)"

text \<open>Building the connection options only reads files.\<close>

definition only_reads :: "('e, 'a) io \<Rightarrow> bool" where
  "only_reads m \<longleftrightarrow> (\<forall>a l. gives m a l \<longrightarrow> list_all is_read l)"

lemma only_reads_ret: "only_reads (ret a)"
  by (simp add: only_reads_def)

lemma only_reads_ReadFile: "only_reads (ReadFile A path)"
  by (auto simp: only_reads_def ReadFile_def is_read_def dest!: gives_performD)

lemma only_reads_try_call: "only_reads m \<Longrightarrow> (\<And>a. only_reads (k a)) \<Longrightarrow> only_reads (try_call m w k)"
  unfolding only_reads_def by (fastforce elim: gives_try_callE)

lemma only_reads_if: "(b \<Longrightarrow> only_reads m) \<Longrightarrow> (\<not> b \<Longrightarrow> only_reads m') \<Longrightarrow> only_reads (if b then m else m')"
  by simp

lemma only_reads_sum:
  "(\<And>x. s = Inl x \<Longrightarrow> only_reads (f x)) \<Longrightarrow> (\<And>y. s = Inr y \<Longrightarrow> only_reads (g y)) \<Longrightarrow>
   only_reads (case s of Inl x \<Rightarrow> f x | Inr y \<Rightarrow> g y)"
  by (cases s) auto

lemma only_reads_connectOptions: "only_reads (connectOptions A)"
  unfolding connectOptions_def auth_options_def Let_def
  by (intro only_reads_try_call only_reads_if only_reads_sum only_reads_ReadFile only_reads_ret)

lemma discipline_reads: "list_all is_read l \<Longrightarrow> run_monitor discipline Idle l = Some Idle"
  by (induction l) (auto simp: is_read_def discipline_def split: event.splits)

lemma connectOptions_idle: "wp discipline (connectOptions A) (\<lambda>r q. q = Idle) Idle"
  using only_reads_connectOptions [of A] by (auto simp: wp_def only_reads_def discipline_reads)

lemma discipline_open_simps [simp]:
  "discipline Idle (EConnect server r) = Some (if r = None then Idle else Setup False)"
  "discipline (Setup d) (EClose c) = Some (Closed False)"
  "discipline (Announced d) (EClose c) = Some (Closed False)"
  "discipline Drained (EClose c) = Some (Closed True)"
  by (simp_all add: discipline_def)

text \<open>A connected script that ends drained or fails with the connection open, then the close.\<close>

lemma connected_script:
  assumes "wp discipline body (phase Drained) (Setup False)"
  shows "wp discipline (deferred (Close A c) body)
    (\<lambda>r. proper_end (case r of Inl err \<Rightarrow> Some err | Inr _ \<Rightarrow> None)) (Setup False)"
  unfolding Close_def
  by (rule wp_deferred, rule wp_mono [OF assms], rule wp_call)
     (auto simp: phase_def proper_end_def open_state_def split: sum.splits handshake.splits)

lemma connect_script:
  assumes "\<And>c. wp discipline (body c) (phase Drained) (Setup False)"
  shows "wp discipline (try_call (Connect A server opts) w (\<lambda>c. deferred (Close A c) (body c)))
    (\<lambda>r. proper_end (case r of Inl err \<Rightarrow> Some err | Inr _ \<Rightarrow> None)) Idle"
  unfolding Connect_def
  by (rule wp_try_perform, simp, simp add: proper_end_def, rule connected_script, rule assms)

lemma options_script:
  assumes "\<And>opts. wp discipline (k opts) (\<lambda>r. proper_end (case r of Inl err \<Rightarrow> Some err | Inr _ \<Rightarrow> None)) Idle"
  shows "disciplined (as_check (try_call (connectOptions A) id k))"
  by (rule disciplinedI, rule wp_as_check, rule wp_try_call, rule wp_mono [OF connectOptions_idle])
     (use assms in \<open>auto simp: proper_end_def split: sum.splits\<close>)

text \<open>
  C30: The core, reconnect and service-failure peers keep the handshake discipline whatever the
  network, the server, the file system and the other side do: the ready file is written only
  when every subscription has reached the server, nothing is sent, requested or received
  before, a kill signal is only raised after, no message is sent while a subscription is in
  flight, a connection that was opened is closed on every path, nothing is called after, and a
  peer that reports success has drained its connection.
\<close>

theorem peers_disciplined:
  "disciplined (runPeer A config) \<and> disciplined (runReconnectPeer A config) \<and>
   disciplined (runServiceFailurePeer A config)"
proof (intro conjI)
  show "disciplined (runPeer A config)"
    unfolding runPeer_def by (rule options_script connect_script wp_phases phases)+
  show "disciplined (runServiceFailurePeer A config)"
    unfolding runServiceFailurePeer_def by (rule options_script connect_script wp_phases phases)+
  have drain: "wp discipline (must (Drain A c) (wrap ''drain'') (ret (Inr ()))) (phase Drained) (Announced False)" for c
    unfolding Drain_def by (rule call_rules | simp; fail)+
  show "disciplined (runReconnectPeer A config)"
    unfolding runReconnectPeer_def
    by (rule options_script, rule wp_sum, simp add: proper_end_def) (rule connect_script wp_phases phases drain)+
qed

lemma gives_waitD: "gives (waitMessage A label ch) (Inr m) l \<Longrightarrow> l = [EReceive ch (Some m)]"
  unfolding waitMessage_def wait_msg_def RecvMsg_def
  by (elim gives_bndE) (auto dest!: gives_performD split: option.splits)

lemma gives_waitResultD: "gives (waitResult A label ch) None l \<Longrightarrow> l = [EReceiveErr ch]"
  unfolding waitResult_def RecvErr_def by (elim gives_bndE) (auto dest!: gives_performD)

lemma gives_waitReconnectD: "gives (waitReconnect A ch) None l \<Longrightarrow> l = [EReceiveUnit ch True]"
  unfolding waitReconnect_def RecvUnit_def by (elim gives_bndE) (auto dest!: gives_performD split: if_splits)

lemmas gives_calls = gives_performD gives_waitD gives_waitResultD gives_waitReconnectD

text \<open>The calls of a successful core run, given the three messages it received.\<close>

definition core_script :: "options \<Rightarrow> conn \<Rightarrow> msg \<Rightarrow> msg \<Rightarrow> msg \<Rightarrow> event list" where
  "core_script config c start toGo response =
     (let p = op_prefix config in
      [EConnect (op_server config) (Some c),
       ESubscribe (p @ ''.start'') ''startMessages'' True,
       ESubscribe (p @ ''.to-go'') ''toGoMessages'' True,
       ESubscribe (p @ ''.go-request'') ''goRequestResults'' True,
       EFlush True,
       EWriteFile (op_ready config) ready_content True,
       EReceive ''startMessages'' (Some start),
       ERespond start ''started'' True,
       EPublish (hdr_Add ''X-Trace'' ''two'' (hdr_Add ''X-Trace'' ''one'' (hdr_Set ''X-Interop'' ''go''
         (data_msg (p @ ''.from-go'') ''from-go'')))) True,
       EFlush True,
       EReceive ''toGoMessages'' (Some toGo),
       ERequest (hdr_Set ''X-Interop'' ''go-request'' (data_msg (p @ ''.ocaml-request'') ''request-from-go''))
         (Some response),
       EReceiveErr ''goRequestResults'',
       ERequest (data_msg (p @ ''.no-responder'') ''missing'') None,
       EFlush True,
       EDrain True,
       EClose c])"

lemma setup_calls:
  "gives (runPeer_setup A config c) (Inr u) l \<Longrightarrow>
   \<exists>start. l =
     [ESubscribe (op_prefix config @ ''.start'') ''startMessages'' True,
      ESubscribe (op_prefix config @ ''.to-go'') ''toGoMessages'' True,
      ESubscribe (op_prefix config @ ''.go-request'') ''goRequestResults'' True,
      EFlush True, EWriteFile (op_ready config) ready_content True,
      EReceive ''startMessages'' (Some start), ERespond start ''started'' True]"
  unfolding runPeer_setup_def call_defs by (elim okE) (auto dest!: gives_calls)

lemma exchange_calls:
  "gives (runPeer_exchange A config c) (Inr u) l \<Longrightarrow>
   \<exists>toGo. l =
     [EPublish (hdr_Add ''X-Trace'' ''two'' (hdr_Add ''X-Trace'' ''one'' (hdr_Set ''X-Interop'' ''go''
         (data_msg (op_prefix config @ ''.from-go'') ''from-go'')))) True,
      EFlush True, EReceive ''toGoMessages'' (Some toGo)] \<and>
     msg_Data toGo = ''to-go'' \<and> hdr_Get toGo ''X-Interop'' = ''ocaml'' \<and>
     hdr_Values toGo ''X-Trace'' = [''one'', ''two'']"
  unfolding runPeer_exchange_def call_defs Let_def
  by (elim okE) (auto dest!: gives_calls simp: check_simps)

lemma requests_calls:
  "gives (runPeer_requests A config c) (Inr u) l \<Longrightarrow>
   \<exists>response. l =
     [ERequest (hdr_Set ''X-Interop'' ''go-request''
         (data_msg (op_prefix config @ ''.ocaml-request'') ''request-from-go'')) (Some response),
      EReceiveErr ''goRequestResults'',
      ERequest (data_msg (op_prefix config @ ''.no-responder'') ''missing'') None,
      EFlush True, EDrain True] \<and>
     msg_Data response = ''response-from-ocaml'' \<and> hdr_Get response ''X-Interop'' = ''ocaml-response''"
  unfolding runPeer_requests_def call_defs Let_def
  by (elim okE gives_bndE gives_sumE; (simp; fail)?)
     (auto dest!: gives_calls simp: sum_option_def elim!: okE split: if_splits)

text \<open>
  C33: The core peer reports success only after the whole conversation: it made exactly the
  calls of the script, each of them succeeded, the client's publication carried the payload,
  the header and both trace values in order, the client's response carried its payload and
  header, and a request without a responder got none. The trace has the calls; which error the
  request without a responder gave is checked by the script and not kept in it.
\<close>

theorem runPeer_success:
  "case res (runPeer A config t e) of Some err \<Rightarrow> True
   | None \<Rightarrow> \<exists>reads c start toGo response.
       calls (runPeer A config t e) = reads @ core_script config c start toGo response \<and>
       list_all is_read reads \<and>
       msg_Data toGo = ''to-go'' \<and> hdr_Get toGo ''X-Interop'' = ''ocaml'' \<and>
       hdr_Values toGo ''X-Trace'' = [''one'', ''two''] \<and>
       msg_Data response = ''response-from-ocaml'' \<and> hdr_Get response ''X-Interop'' = ''ocaml-response''"
proof (cases "res (runPeer A config t e)")
  case None
  let ?l = "calls (runPeer A config t e)"
  from gives_run [of "runPeer A config" t e] None have "gives (runPeer A config) None ?l" by simp
  then obtain b where run: "gives (try_call (connectOptions A) id (\<lambda>opts.
       try_call (Connect A (op_server config) (OName ''ocaml-nats interop peer'' # opts)) (wrap ''connect'')
         (\<lambda>c. deferred (Close A c) (
           try_call (runPeer_setup A config c) id (\<lambda>_.
           try_call (runPeer_exchange A config c) id (\<lambda>_. runPeer_requests A config c)))))) (Inr b) ?l"
    unfolding runPeer_def by (rule ok_as_checkE)
  from run obtain opts reads l2 where reads: "gives (connectOptions A) (Inr opts) reads"
    and conn: "gives (try_call (Connect A (op_server config) (OName ''ocaml-nats interop peer'' # opts))
         (wrap ''connect'') (\<lambda>c. deferred (Close A c) (
           try_call (runPeer_setup A config c) id (\<lambda>_.
           try_call (runPeer_exchange A config c) id (\<lambda>_. runPeer_requests A config c))))) (Inr b) l2"
    and l: "?l = reads @ l2"
    by (rule ok_try_callE)
  from conn obtain c l3 l4 where open_call: "gives (Connect A (op_server config)
         (OName ''ocaml-nats interop peer'' # opts)) (Inr c) l3"
    and body: "gives (deferred (Close A c) (
           try_call (runPeer_setup A config c) id (\<lambda>_.
           try_call (runPeer_exchange A config c) id (\<lambda>_. runPeer_requests A config c)))) (Inr b) l4"
    and l2: "l2 = l3 @ l4"
    by (rule ok_try_callE)
  from open_call have l3: "l3 = [EConnect (op_server config) (Some c)]"
    unfolding Connect_def by (auto dest!: gives_performD)
  from body obtain l5 l6 l7 where l4: "l4 = (l5 @ l6 @ l7) @ [EClose c]"
    and s: "gives (runPeer_setup A config c) (Inr ()) l5"
    and x: "gives (runPeer_exchange A config c) (Inr ()) l6"
    and r: "gives (runPeer_requests A config c) (Inr b) l7"
    unfolding Close_def by (elim gives_deferredE ok_try_callE) (auto dest!: gives_performD)
  have "list_all is_read reads" using only_reads_connectOptions reads by (auto simp: only_reads_def)
  with setup_calls [OF s] exchange_calls [OF x] requests_calls [OF r] l l2 l3 l4 None show ?thesis
    by (fastforce simp: core_script_def Let_def)
qed simp

section \<open>The rounds of a reconnect run\<close>

text \<open>What the two sides and the process that kills servers see of a run, in order.\<close>

datatype beat =
    Sent string string
  | Got string
  | Killed string
  | Reconnected
  | Barrier

definition beat_of :: "event \<Rightarrow> beat option" where
  "beat_of ev =
     (case ev of
        EPublish m ok \<Rightarrow> Some (Sent (msg_Subject m) (msg_Data m))
      | EReceive ch (Some m) \<Rightarrow> if ch = ''toGoMessages'' then Some (Got (msg_Data m)) else None
      | EWriteFile path content ok \<Rightarrow> if content = kill_content then Some (Killed path) else None
      | EReceiveUnit ch ok \<Rightarrow> Some Reconnected
      | ESelect a b \<Rightarrow> Some Barrier
      | _ \<Rightarrow> None)"

definition conversation :: "event list \<Rightarrow> beat list" where
  "conversation l = List.map_filter beat_of l"

lemma conversation_simps [simp]:
  "conversation [] = []"
  "conversation (ev # l) = (case beat_of ev of None \<Rightarrow> conversation l | Some b \<Rightarrow> b # conversation l)"
  "conversation (l @ l') = conversation l @ conversation l'"
  by (simp_all add: conversation_def List.map_filter_def split: option.split)

lemma beat_of_simps [simp]:
  "beat_of (EPublish m ok) = Some (Sent (msg_Subject m) (msg_Data m))"
  "beat_of (EReceive ch (Some m)) = (if ch = ''toGoMessages'' then Some (Got (msg_Data m)) else None)"
  "beat_of (EWriteFile path content ok) = (if content = kill_content then Some (Killed path) else None)"
  "beat_of (EReceiveUnit ch ok) = Some Reconnected"
  "beat_of (ESelect a b) = Some Barrier"
  "beat_of (EFlush ok) = None" "beat_of (EDrain ok) = None" "beat_of (EClose c) = None"
  "beat_of (ESubscribe subject ch ok) = None" "beat_of (ERespond m payload ok) = None"
  "beat_of (EConnect server r) = None" "beat_of (EReadFile path ok) = None"
  by (simp_all add: beat_of_def)

definition round_beats :: "options \<Rightarrow> nat \<Rightarrow> beat list" where
  "round_beats config r =
     [Sent (op_prefix config @ ''.from-go'') (roundPayload r), Got (roundPayload r), Got (roundMarker r)]"

definition kill_beats :: "options \<Rightarrow> nat \<Rightarrow> beat list" where
  "kill_beats config r = [Killed (roundSignal (op_signal config) r), Reconnected, Barrier]"

lemma round_conversation:
  "gives (reconnect_round A config c r) (Inr u) l \<Longrightarrow> conversation l = round_beats config r"
  unfolding reconnect_round_def call_defs Let_def
  by (elim okE) (auto dest!: gives_calls simp: check_simps round_beats_def NewMsg_def)

lemma kill_conversation:
  "gives (reconnect_kill A config c r) (Inr u) l \<Longrightarrow> conversation l = kill_beats config r"
  unfolding reconnect_kill_def awaitRecoveryBarrier_def awaitRecoveryBarrierWithTimeout_def call_defs Let_def
  by (elim okE gives_bndE)
     (auto dest!: gives_calls simp: kill_beats_def elim!: okE split: selection.splits)

lemma rounds_conversation:
  "gives (reconnect_rounds A config c left r) (Inr u) l \<Longrightarrow>
   conversation l =
     concat (map (\<lambda>i. round_beats config i @ kill_beats config (i + 1)) [r..<r + left]) @ round_beats config (r + left)"
proof (induction left arbitrary: r l)
  case 0
  then show ?case by (simp add: round_conversation)
next
  case (Suc left)
  from Suc.prems obtain l1 l2 l3 where l: "l = l1 @ l2 @ l3"
    and "gives (reconnect_round A config c r) (Inr ()) l1"
    and "gives (reconnect_kill A config c (r + 1)) (Inr ()) l2"
    and rest: "gives (reconnect_rounds A config c left (r + 1)) (Inr u) l3"
    unfolding reconnect_rounds.simps by (elim ok_try_callE) auto
  then have "conversation l1 = round_beats config r" and "conversation l2 = kill_beats config (r + 1)"
    by (blast intro: round_conversation kill_conversation)+
  moreover have "[r..<r + Suc left] = r # [Suc r..<Suc r + left]"
    by (simp add: upt_conv_Cons)
  ultimately show ?case using Suc.IH [OF rest] l by simp
qed

lemma conversation_reads: "list_all is_read l \<Longrightarrow> conversation l = []"
  by (induction l) (auto simp: is_read_def split: event.splits)

lemma reconnect_setup_conversation:
  "gives (reconnect_setup A config c) (Inr u) l \<Longrightarrow> conversation l = []"
  unfolding reconnect_setup_def call_defs
  by (elim okE) (auto dest!: gives_calls simp: kill_content_def ready_content_def)

text \<open>
  With n servers a successful reconnect run has n rounds and n - 1 kills, in exactly this
  order: publish the round's payload, receive that payload and then its flush marker from the
  client; then, unless it was the last round, have the server killed, see the reconnect, and
  meet the client at the recovery barrier before the next round. No publication is lost,
  repeated or reordered across the reconnects.
\<close>

theorem runReconnectPeer_success:
  "case res (runReconnectPeer A config t e) of Some err \<Rightarrow> True
   | None \<Rightarrow> \<exists>cycles. reconnectCycles (op_server config) = Inr cycles \<and>
       conversation (calls (runReconnectPeer A config t e)) =
         concat (map (\<lambda>r. round_beats config r @ kill_beats config (r + 1)) [0..<cycles]) @
         round_beats config cycles"
proof (cases "res (runReconnectPeer A config t e)")
  case None
  let ?l = "calls (runReconnectPeer A config t e)"
  let ?script = "\<lambda>cycles c. deferred (Close A c) (
      try_call (reconnect_setup A config c) id (\<lambda>_.
      try_call (reconnect_rounds A config c cycles 0) id (\<lambda>_.
      must (Drain A c) (wrap ''drain'') (ret (Inr ())))))"
  from gives_run [of "runReconnectPeer A config" t e] None
  have "gives (runReconnectPeer A config) None ?l" by simp
  then obtain b where run: "gives (try_call (connectOptions A) id (\<lambda>opts.
      case reconnectCycles (op_server config) of Inl err \<Rightarrow> ret (Inl err)
      | Inr cycles \<Rightarrow> try_call (Connect A (op_server config)
          ([OName ''ocaml-nats interop reconnect peer'', ODontRandomize, OReconnectWait (100 * millisecond),
            OMaxReconnects 20, OReconnectHandler ''reconnected''] @ opts)) (wrap ''connect'')
          (?script cycles))) (Inr b) ?l"
    unfolding runReconnectPeer_def by (rule ok_as_checkE)
  from run obtain opts reads l2 where reads: "gives (connectOptions A) (Inr opts) reads"
    and rest: "gives (case reconnectCycles (op_server config) of Inl err \<Rightarrow> ret (Inl err)
      | Inr cycles \<Rightarrow> try_call (Connect A (op_server config)
          ([OName ''ocaml-nats interop reconnect peer'', ODontRandomize, OReconnectWait (100 * millisecond),
            OMaxReconnects 20, OReconnectHandler ''reconnected''] @ opts)) (wrap ''connect'')
          (?script cycles)) (Inr b) l2"
    and l: "?l = reads @ l2"
    by (rule ok_try_callE)
  from rest obtain cycles where cycles: "reconnectCycles (op_server config) = Inr cycles"
    by (cases "reconnectCycles (op_server config)") auto
  with rest obtain c l3 l4 where "gives (Connect A (op_server config)
          ([OName ''ocaml-nats interop reconnect peer'', ODontRandomize, OReconnectWait (100 * millisecond),
            OMaxReconnects 20, OReconnectHandler ''reconnected''] @ opts)) (Inr c) l3"
    and body: "gives (?script cycles c) (Inr b) l4" and l2: "l2 = l3 @ l4"
    by (auto elim: ok_try_callE)
  then have l3: "conversation l3 = []" unfolding Connect_def by (auto dest!: gives_performD)
  from body obtain l5 l6 l7 where l4: "l4 = l5 @ l6 @ l7" and s: "gives (reconnect_setup A config c) (Inr ()) l5"
    and r: "gives (reconnect_rounds A config c cycles 0) (Inr ()) l6" and l7: "conversation l7 = []"
    unfolding Close_def Drain_def by (elim gives_deferredE ok_try_callE ok_mustE) (auto dest!: gives_performD)
  have "conversation reads = []"
    using only_reads_connectOptions [of A] reads conversation_reads unfolding only_reads_def by blast
  with l l2 l3 l4 l7 reconnect_setup_conversation [OF s] rounds_conversation [OF r] cycles None
  show ?thesis by simp
qed simp

section \<open>The callbacks\<close>

text \<open>
  The two callbacks that answer the client do so exactly for the message they wait for.
  The barrier of a cycle is met only by that cycle's payload, with a reply subject, after the
  matching response was published; the core request is reported good only when its payload and
  header are right and its response went out; any other message gets no response at all.
\<close>

theorem callbacks_answer_exactly:
  "(res (barrierHandler A c cycle m t e) = GotUnit \<longleftrightarrow>
      msg_Data m = ''ocaml-ready-'' @ show_nat cycle \<and> msg_Reply m \<noteq> [] \<and>
      fst (publish_msg A c (data_msg (msg_Reply m) (''go-ready-'' @ show_nat cycle)) e) = None) \<and>
   map beat_of (calls (barrierHandler A c cycle m t e)) =
     (if msg_Data m = ''ocaml-ready-'' @ show_nat cycle \<and> msg_Reply m \<noteq> []
      then [Some (Sent (msg_Reply m) (''go-ready-'' @ show_nat cycle))] else []) \<and>
   (res (answerGoRequest A c m t e) = None \<longleftrightarrow>
      msg_Data m = ''request-from-ocaml'' \<and> hdr_Get m ''X-Interop'' = ''ocaml-request'' \<and>
      fst (publish_msg A c (hdr_Set ''X-Interop'' ''go-response''
             (data_msg (msg_Reply m) ''response-from-go'')) e) = None) \<and>
   map beat_of (calls (answerGoRequest A c m t e)) =
     (if msg_Data m = ''request-from-ocaml'' \<and> hdr_Get m ''X-Interop'' = ''ocaml-request''
      then [Some (Sent (msg_Reply m) ''response-from-go'')] else [])"
proof (intro conjI)
  let ?p = "publish_msg A c (data_msg (msg_Reply m) (''go-ready-'' @ show_nat cycle)) e"
  show "res (barrierHandler A c cycle m t e) = GotUnit \<longleftrightarrow>
      msg_Data m = ''ocaml-ready-'' @ show_nat cycle \<and> msg_Reply m \<noteq> [] \<and> fst ?p = None"
    by (cases ?p) (auto simp: barrierHandler_def bnd_def ret_def PublishMsg_def perform_def Let_def split: option.splits)
  show "map beat_of (calls (barrierHandler A c cycle m t e)) =
     (if msg_Data m = ''ocaml-ready-'' @ show_nat cycle \<and> msg_Reply m \<noteq> []
      then [Some (Sent (msg_Reply m) (''go-ready-'' @ show_nat cycle))] else [])"
    by (cases ?p) (simp add: barrierHandler_def bnd_def ret_def PublishMsg_def perform_def Let_def NewMsg_def)
  let ?q = "publish_msg A c (hdr_Set ''X-Interop'' ''go-response'' (data_msg (msg_Reply m) ''response-from-go'')) e"
  show "res (answerGoRequest A c m t e) = None \<longleftrightarrow>
      msg_Data m = ''request-from-ocaml'' \<and> hdr_Get m ''X-Interop'' = ''ocaml-request'' \<and> fst ?q = None"
    by (cases ?q) (simp add: answerGoRequest_def bnd_def ret_def PublishMsg_def perform_def)
  show "map beat_of (calls (answerGoRequest A c m t e)) =
     (if msg_Data m = ''request-from-ocaml'' \<and> hdr_Get m ''X-Interop'' = ''ocaml-request''
      then [Some (Sent (msg_Reply m) ''response-from-go'')] else [])"
    by (cases ?q) (simp add: answerGoRequest_def bnd_def ret_def PublishMsg_def perform_def hdr_Set_def NewMsg_def)
qed

end
