(* ===== verification/GoFiles.thy ===== *)
theory GoFiles
  imports GoRetry GoTrace
begin

text \<open>
  Helpers around one outside call or two: the atomic publication of a file, the requests for a
  Service's information and statistics, JetStream publications, and the scans of listed names.
\<close>

section \<open>Publishing a file\<close>

definition publishReadyFile :: "'e api \<Rightarrow> string \<Rightarrow> string \<Rightarrow> ('e, check) io" where
  "publishReadyFile A path content = as_check (
     (let directory = path_dir A path in
      try_call (CreateTemp A directory (''.'' @ path_base A path @ ''.*''))
        (wrap ''create temporary ready file'') (\<lambda>temporaryPath.
      deferred (bnd (Remove A temporaryPath) (\<lambda>_. ret ())) (
        bnd (WriteString A temporaryPath content) (\<lambda>r. case r of
          Some err \<Rightarrow>
            bnd (CloseFile A temporaryPath) (\<lambda>_. ret (Inl (wrap ''write temporary ready file'' err)))
        | None \<Rightarrow>
            must (CloseFile A temporaryPath) (wrap ''close temporary ready file'') (
            must (Rename A temporaryPath path) (wrap ''publish ready file'') (
            ret (Inr ()))))))))"

definition writeReadyFile :: "'e api \<Rightarrow> string \<Rightarrow> ('e, check) io" where
  "writeReadyFile A path =
     (if path = [] then ret (Some (New ''ready-file is required''))
      else WriteFile A path (''ready'' @ [LF]))"

definition parentCloseFile :: "'e api \<Rightarrow> gerr + string" where
  "parentCloseFile A =
     (case getenv A ''NATS_TEST_INTEROP_PARENT_CLOSE_FILE'' of
        None \<Rightarrow> Inl (New ''NATS_TEST_INTEROP_PARENT_CLOSE_FILE is required'')
      | Some path \<Rightarrow>
          if path = [] then Inl (New ''NATS_TEST_INTEROP_PARENT_CLOSE_FILE is required'') else Inr path)"

section \<open>Service requests\<close>

text \<open>\<open>InfoVerb\<close> and the response types are constants of the micro package.\<close>

definition requestServiceInfo ::
  "'e api \<Rightarrow> string \<Rightarrow> string \<Rightarrow> conn \<Rightarrow> string \<Rightarrow> ('e, gerr + micro_info) io" where
  "requestServiceInfo A InfoVerb InfoResponseType c service =
     (case ControlSubject A InfoVerb service [] of
        Inl err \<Rightarrow> ret (Inl (wrap ''service info subject'' err))
      | Inr subject \<Rightarrow>
          try_call (Request A c subject [] waitTimeout) (wrap ''request service info'') (\<lambda>response.
          (case unmarshal_info A (msg_Data response) of
             Inl err \<Rightarrow> ret (Inl (wrap ''decode service info'' err))
           | Inr info \<Rightarrow>
               if mi_Type info \<noteq> InfoResponseType
               then ret (Inl (Errorf ''service info type was %q, expected %q''
                      [AStr (mi_Type info), AStr InfoResponseType]))
               else ret (Inr info))))"

definition requestServiceStats ::
  "'e api \<Rightarrow> string \<Rightarrow> string \<Rightarrow> conn \<Rightarrow> string \<Rightarrow> string \<Rightarrow> ('e, gerr + micro_stats) io" where
  "requestServiceStats A StatsVerb StatsResponseType c service id' =
     (case ControlSubject A StatsVerb service id' of
        Inl err \<Rightarrow> ret (Inl (wrap ''service stats subject'' err))
      | Inr subject \<Rightarrow>
          try_call (Request A c subject [] waitTimeout) (wrap ''request service stats'') (\<lambda>response.
          (case unmarshal_stats A (msg_Data response) of
             Inl err \<Rightarrow> ret (Inl (wrap ''decode service stats'' err))
           | Inr stats \<Rightarrow>
               if mst_Type stats \<noteq> StatsResponseType
               then ret (Inl (Errorf ''service stats type was %q, expected %q''
                      [AStr (mst_Type stats), AStr StatsResponseType]))
               else ret (Inr stats))))"

section \<open>JetStream publications and listings\<close>

definition publishOrderedMessage ::
  "'e api \<Rightarrow> jsc \<Rightarrow> string \<Rightarrow> string \<Rightarrow> string \<Rightarrow> string \<Rightarrow> string \<Rightarrow> u64 \<Rightarrow> ('e, gerr + unit) io" where
  "publishOrderedMessage A js subject payload interop trace stream sequence =
     (let message = hdr_Add ''X-Trace'' trace (hdr_Set ''X-Interop'' interop
                      ((NewMsg subject)\<lparr>msg_Data := payload\<rparr>)) in
      try_call (JSPublishMsg A js message None)
        (\<lambda>err. Errorf ''publish %s: %w'' [AStr payload, AWrap err]) (\<lambda>ack.
      require (expectPublishAck (''publish '' @ payload) ack stream False sequence) (
      ret (Inr ()))))"

definition publishOrderedReconnectMessage ::
  "'e api \<Rightarrow> jsc \<Rightarrow> string \<Rightarrow> string \<Rightarrow> string \<Rightarrow> string \<Rightarrow> string \<Rightarrow> u64 \<Rightarrow> ('e, gerr + unit) io" where
  "publishOrderedReconnectMessage A js subject payload interop trace stream sequence =
     (let message = hdr_Set ''X-Trace'' trace (hdr_Set ''X-Interop'' interop
                      ((NewMsg subject)\<lparr>msg_Data := payload\<rparr>)) in
      try_call (JSPublishMsg A js message None)
        (\<lambda>err. Errorf ''publish %s: %w'' [AStr payload, AWrap err]) (\<lambda>ack.
      require (expectPublishAck (''publish '' @ payload) ack stream False sequence) (
      ret (Inr ()))))"

text \<open>
  The two scans read the whole channel of names before they look at the lister's error, which
  is only final then. \<open>names\<close> is what the channel delivered, \<open>err\<close> the error.
\<close>

fun name_found :: "string list \<Rightarrow> string \<Rightarrow> bool \<Rightarrow> bool" where
  "name_found [] expected found = found"
| "name_found (name # names) expected found =
     name_found names expected (if name = expected then True else found)"

definition streamNameListed :: "string list \<Rightarrow> check \<Rightarrow> string \<Rightarrow> gerr + bool" where
  "streamNameListed names err expected =
     (let found = name_found names expected False in
      case err of Some e \<Rightarrow> Inl e | None \<Rightarrow> Inr found)"

definition consumerNameListed :: "string list \<Rightarrow> check \<Rightarrow> string \<Rightarrow> gerr + bool" where
  "consumerNameListed names err expected =
     (let found = name_found names expected False in
      case err of Some e \<Rightarrow> Inl e | None \<Rightarrow> Inr found)"

lemma name_found_iff: "name_found names expected found \<longleftrightarrow> found \<or> expected \<in> set names"
  by (induction names expected found rule: name_found.induct) auto

section \<open>Properties\<close>

text \<open>
  The temporary file of a publication: not made, open with nothing in it, open with exactly
  the content, closed with the content, renamed (the publication), removed.
\<close>

datatype temp =
    NoTemp
  | EmptyTemp string
  | FilledTemp string
  | SealedTemp string
  | BrokenTemp string
  | Published string
  | Removed bool

definition publication :: "string \<Rightarrow> string \<Rightarrow> temp monitor" where
  "publication path content q ev =
     (case q of
        NoTemp \<Rightarrow> (case ev of
            ECreateTemp directory r \<Rightarrow> Some (case r of None \<Rightarrow> NoTemp | Some t \<Rightarrow> EmptyTemp t)
          | _ \<Rightarrow> None)
      | EmptyTemp t \<Rightarrow> (case ev of
            EWriteString p s ok \<Rightarrow>
              if p = t \<and> s = content then Some (if ok then FilledTemp t else BrokenTemp t) else None
          | _ \<Rightarrow> None)
      | FilledTemp t \<Rightarrow> (case ev of
            ECloseFile p ok \<Rightarrow> if p = t then Some (if ok then SealedTemp t else BrokenTemp t) else None
          | _ \<Rightarrow> None)
      | SealedTemp t \<Rightarrow> (case ev of
            ERename old new ok \<Rightarrow>
              if old = t \<and> new = path then Some (if ok then Published t else BrokenTemp t) else None
          | _ \<Rightarrow> None)
      | BrokenTemp t \<Rightarrow> (case ev of
            ECloseFile p ok \<Rightarrow> if p = t then Some (BrokenTemp t) else None
          | ERemove p \<Rightarrow> if p = t then Some (Removed False) else None
          | _ \<Rightarrow> None)
      | Published t \<Rightarrow> (case ev of
            ERemove p \<Rightarrow> if p = t then Some (Removed True) else None
          | _ \<Rightarrow> None)
      | Removed ok \<Rightarrow> None)"

definition publication_end :: "check \<Rightarrow> temp \<Rightarrow> bool" where
  "publication_end r q =
     (case q of NoTemp \<Rightarrow> r \<noteq> None | Removed published \<Rightarrow> published = (r = None) | _ \<Rightarrow> False)"

lemma publish_body:
  "wp (publication path content)
     (deferred (bnd (Remove A tp) (\<lambda>_. ret ())) (
        bnd (WriteString A tp content) (\<lambda>r. case r of
          Some err \<Rightarrow>
            bnd (CloseFile A tp) (\<lambda>_. ret (Inl (wrap ''write temporary ready file'' err)))
        | None \<Rightarrow>
            must (CloseFile A tp) (wrap ''close temporary ready file'') (
            must (Rename A tp path) (wrap ''publish ready file'') (
            ret (Inr ())))))) 
     (\<lambda>r. publication_end (case r of Inl err \<Rightarrow> Some err | Inr _ \<Rightarrow> None)) (EmptyTemp tp)"
proof (rule wp_deferred, rule wp_mono)
  show "wp (publication path content) (bnd (WriteString A tp content) (\<lambda>r. case r of
          Some err \<Rightarrow>
            bnd (CloseFile A tp) (\<lambda>_. ret (Inl (wrap ''write temporary ready file'' err)))
        | None \<Rightarrow>
            must (CloseFile A tp) (wrap ''close temporary ready file'') (
            must (Rename A tp path) (wrap ''publish ready file'') (
            ret (Inr ())))))
      (\<lambda>r q. case r of Inl err \<Rightarrow> q = BrokenTemp tp | Inr (u :: unit) \<Rightarrow> q = Published tp) (EmptyTemp tp)"
    unfolding WriteString_def CloseFile_def Rename_def
    by (intro wp_bnd wp_perform)
       (auto simp: publication_def intro!: wp_bnd wp_must wp_perform split: option.split)
next
  fix r :: "gerr + unit" and q
  assume "case r of Inl err \<Rightarrow> q = BrokenTemp tp | Inr (u :: unit) \<Rightarrow> q = Published tp"
  then show "wp (publication path content) (bnd (Remove A tp) (\<lambda>_. ret ()))
      (\<lambda>_. publication_end (case r of Inl err \<Rightarrow> Some err | Inr _ \<Rightarrow> None)) q"
    unfolding Remove_def
    by (intro wp_bnd wp_perform) (auto simp: publication_def publication_end_def split: sum.splits)
qed

text \<open>
  A ready file appears under its path only complete: the content goes to a temporary file
  of the same directory, which is renamed to the path once it was written and closed without
  error; the path itself is never opened. The temporary name is removed on every path, and
  success is reported exactly when the rename succeeded.
\<close>

theorem publishReadyFile_atomic:
  "case run_monitor (publication path content) NoTemp (calls (publishReadyFile A path content t e)) of
     None \<Rightarrow> False
   | Some q \<Rightarrow> publication_end (res (publishReadyFile A path content t e)) q"
proof -
  have "wp (publication path content) (publishReadyFile A path content) publication_end NoTemp"
    unfolding publishReadyFile_def Let_def CreateTemp_def
  proof (intro wp_as_check wp_try_call wp_call)
    fix r :: "gerr + string"
    show "\<exists>q'. publication path content NoTemp (ECreateTemp (path_dir A path) (sum_option r)) = Some q' \<and>
        (case r of
          Inl err \<Rightarrow> publication_end (case Inl (wrap ''create temporary ready file'' err) of
              Inl err \<Rightarrow> Some err | Inr (_ :: unit) \<Rightarrow> None) q'
        | Inr tp \<Rightarrow> wp (publication path content)
            (deferred (bnd (Remove A tp) (\<lambda>_. ret ())) (
              bnd (WriteString A tp content) (\<lambda>r. case r of
                Some err \<Rightarrow>
                  bnd (CloseFile A tp) (\<lambda>_. ret (Inl (wrap ''write temporary ready file'' err)))
              | None \<Rightarrow>
                  must (CloseFile A tp) (wrap ''close temporary ready file'') (
                  must (Rename A tp path) (wrap ''publish ready file'') (
                  ret (Inr ()))))))
            (\<lambda>r. publication_end (case r of Inl err \<Rightarrow> Some err | Inr _ \<Rightarrow> None)) q')"
    proof (cases r)
      case (Inr tp)
      have "publication path content NoTemp (ECreateTemp (path_dir A path) (sum_option r)) = Some (EmptyTemp tp)"
        by (simp add: Inr publication_def sum_option_def)
      with publish_body Inr show ?thesis by (simp only: sum.case) blast
    qed (simp add: publication_def sum_option_def publication_end_def)
  qed
  from wp_run [OF this, of t e] show ?thesis by auto
qed

text \<open>
  A Service's information or statistics are accepted only from a response to a request on
  the control subject that decodes and declares the expected response type.
\<close>

lemma service_requests_typed:
  "(case res (requestServiceInfo A InfoVerb InfoResponseType c service t e) of
      Inl err \<Rightarrow> True
    | Inr info \<Rightarrow> mi_Type info = InfoResponseType \<and>
        (\<exists>subject response e0. ControlSubject A InfoVerb service [] = Inr subject \<and>
           fst (request_msg A c ((NewMsg subject)\<lparr>msg_Data := []\<rparr>) waitTimeout e0) = Inr response \<and>
           unmarshal_info A (msg_Data response) = Inr info)) \<and>
   (case res (requestServiceStats A StatsVerb StatsResponseType c service id' t e) of
      Inl err \<Rightarrow> True
    | Inr stats \<Rightarrow> mst_Type stats = StatsResponseType \<and>
        (\<exists>subject response e0. ControlSubject A StatsVerb service id' = Inr subject \<and>
           fst (request_msg A c ((NewMsg subject)\<lparr>msg_Data := []\<rparr>) waitTimeout e0) = Inr response \<and>
           unmarshal_stats A (msg_Data response) = Inr stats))"
proof (intro conjI)
  let ?r = "\<lambda>subject. request_msg A c ((NewMsg subject)\<lparr>msg_Data := []\<rparr>) waitTimeout e"
  show "case res (requestServiceInfo A InfoVerb InfoResponseType c service t e) of
      Inl err \<Rightarrow> True
    | Inr info \<Rightarrow> mi_Type info = InfoResponseType \<and>
        (\<exists>subject response e0. ControlSubject A InfoVerb service [] = Inr subject \<and>
           fst (request_msg A c ((NewMsg subject)\<lparr>msg_Data := []\<rparr>) waitTimeout e0) = Inr response \<and>
           unmarshal_info A (msg_Data response) = Inr info)"
  proof (cases "ControlSubject A InfoVerb service []")
    case (Inr subject)
    obtain r e1 d where "?r subject = (r, e1, d)" by (cases "?r subject")
    with Inr show ?thesis
      by (cases r) (auto simp: requestServiceInfo_def Request_def RequestMsg_def try_call_def bnd_def
          perform_def ret_def split: sum.splits if_splits intro!: exI [of _ e])
  qed (simp add: requestServiceInfo_def ret_def)
  show "case res (requestServiceStats A StatsVerb StatsResponseType c service id' t e) of
      Inl err \<Rightarrow> True
    | Inr stats \<Rightarrow> mst_Type stats = StatsResponseType \<and>
        (\<exists>subject response e0. ControlSubject A StatsVerb service id' = Inr subject \<and>
           fst (request_msg A c ((NewMsg subject)\<lparr>msg_Data := []\<rparr>) waitTimeout e0) = Inr response \<and>
           unmarshal_stats A (msg_Data response) = Inr stats)"
  proof (cases "ControlSubject A StatsVerb service id'")
    case (Inr subject)
    obtain r e1 d where "?r subject = (r, e1, d)" by (cases "?r subject")
    with Inr show ?thesis
      by (cases r) (auto simp: requestServiceStats_def Request_def RequestMsg_def try_call_def bnd_def
          perform_def ret_def split: sum.splits if_splits intro!: exI [of _ e])
  qed (simp add: requestServiceStats_def ret_def)
qed

end
