(* ===== verification/GoJetStream.thy ===== *)
theory GoJetStream
  imports GoPeers GoFiles
begin

text \<open>
  The scripts of the JetStream peers (\<open>jetstream.go\<close>, \<open>jetstream_push.go\<close>,
  \<open>jetstream_ordered.go\<close>), cut into phases at the blank lines of the source. A resource the
  script defers the release of (a subscription) is released by \<open>deferred\<close> around what follows.
\<close>

section \<open>Shared steps\<close>

text \<open>The zero values of the two configuration structs.\<close>

definition stream_zero :: stream_config where
  "stream_zero = \<lparr>sc_Name = [], sc_Description = [], sc_Subjects = [], sc_Storage = FileStorage, sc_Replicas = 0\<rparr>"

definition consumer_zero :: consumer_config where
  "consumer_zero = \<lparr>cc_Name = [], cc_Durable = [], cc_DeliverPolicy = DeliverAllPolicy,
     cc_FilterSubject = [], cc_DeliverSubject = [], cc_AckPolicy = AckNonePolicy, cc_FlowControl = False,
     cc_Heartbeat = 0, cc_MaxDeliver = 0, cc_MemoryStorage = False, cc_Replicas = 0\<rparr>"

text \<open>\<open>if _, err := m; err == nil { return unexpected }\<close>, then the rest.\<close>

definition must_fail :: "('e, gerr + 'a) io \<Rightarrow> gerr \<Rightarrow> ('e, gerr + 'b) io \<Rightarrow> ('e, gerr + 'b) io" where
  "must_fail m unexpected k = bnd m (\<lambda>r. case r of Inr _ \<Rightarrow> ret (Inl unexpected) | Inl _ \<Rightarrow> k)"

definition JetStream :: "'e api \<Rightarrow> conn \<Rightarrow> nat option \<Rightarrow> ('e, gerr + jsc) io" where
  "JetStream A c wait = call_sum ''JetStream'' (js_context A c wait)"

definition AddStream :: "'e api \<Rightarrow> jsc \<Rightarrow> stream_config \<Rightarrow> ('e, gerr + stream_info) io" where
  "AddStream A js config = call_sum ''AddStream'' (js_add_stream A js config)"

definition AddConsumer :: "'e api \<Rightarrow> jsc \<Rightarrow> string \<Rightarrow> consumer_config \<Rightarrow> ('e, gerr + consumer_info) io" where
  "AddConsumer A js stream config = call_sum ''AddConsumer'' (js_add_consumer A js stream config)"

text \<open>\<open>jetstream.ConsumerInfo(stream, consumer)\<close> without a wait of its own.\<close>

definition ConsumerInfoNow :: "'e api \<Rightarrow> jsc \<Rightarrow> string \<Rightarrow> string \<Rightarrow> ('e, gerr + consumer_info) io" where
  "ConsumerInfoNow A js stream consumer = call_sum ''ConsumerInfo'' (js_consumer_info A js stream consumer None)"

definition GetMsg :: "'e api \<Rightarrow> jsc \<Rightarrow> string \<Rightarrow> u64 \<Rightarrow> ('e, gerr + msg) io" where
  "GetMsg A js stream sequence =
     op_sum ''GetMsg'' [stream, show_nat (unat sequence)] (js_get_msg A js stream sequence)"

definition SubscribeSync :: "'e api \<Rightarrow> jsc \<Rightarrow> string \<Rightarrow> subopt list \<Rightarrow> ('e, gerr + subn) io" where
  "SubscribeSync A js subject opts = acquire ''subscription'' (js_subscribe_sync A js subject opts)"

definition PullSubscribe :: "'e api \<Rightarrow> jsc \<Rightarrow> string \<Rightarrow> string \<Rightarrow> subopt list \<Rightarrow> ('e, gerr + subn) io" where
  "PullSubscribe A js subject durable opts =
     acquire ''subscription'' (js_pull_subscribe A js subject durable opts)"

text \<open>A fetch is recorded with its message when it delivered exactly one.\<close>

definition Fetch :: "'e api \<Rightarrow> subn \<Rightarrow> nat \<Rightarrow> nat \<Rightarrow> ('e, gerr + msg list) io" where
  "Fetch A s n wait =
     perform (\<lambda>r. EDeliver s (case r of Inr [m] \<Rightarrow> Some m | _ \<Rightarrow> None)) (sub_fetch A s n wait)"

definition created_stream :: "options \<Rightarrow> stream_info \<Rightarrow> check" where
  "created_stream config info =
     unless (sc_Name (si_Config info) = op_stream config)
       (Errorf ''created stream %q, expected %q'' [AStr (sc_Name (si_Config info)), AStr (op_stream config)])"

text \<open>The loop over a table of control subscriptions: subject, channel and name of each.\<close>

fun subscribe_controls :: "'e api \<Rightarrow> conn \<Rightarrow> (string \<times> chan \<times> string) list \<Rightarrow> ('e, gerr + unit) io \<Rightarrow> ('e, gerr + unit) io" where
  "subscribe_controls A c [] k = k"
| "subscribe_controls A c ((subj, messages, name) # controls) k =
     must (Subscribe A c subj messages) (\<lambda>err. Errorf ''subscribe %s: %w'' [AStr name, AWrap err]) (
     subscribe_controls A c controls k)"

section \<open>Pull peer\<close>

definition goConsumerName :: string where "goConsumerName = ''GO_PULL''"
definition ocamlConsumerName :: string where "ocamlConsumerName = ''OCAML_PULL''"

definition jetstream_create :: "'e api \<Rightarrow> options \<Rightarrow> conn \<Rightarrow> ('e, gerr + jsc) io" where
  "jetstream_create A config c =
     try_call (JetStream A c None) (wrap ''JetStream context'') (\<lambda>js.
     try_call (AddStream A js (stream_zero\<lparr>sc_Name := op_stream config,
         sc_Subjects := [op_prefix config @ ''.go'', op_prefix config @ ''.ocaml''],
         sc_Storage := MemoryStorage\<rparr>)) (wrap ''create stream'') (\<lambda>streamInfo.
     require (created_stream config streamInfo) (
     try_call (AddConsumer A js (op_stream config) (consumer_zero\<lparr>cc_Durable := goConsumerName,
         cc_DeliverPolicy := DeliverAllPolicy, cc_AckPolicy := AckExplicitPolicy,
         cc_FilterSubject := op_prefix config @ ''.ocaml''\<rparr>)) (wrap ''create Go consumer'') (\<lambda>_.
     try_call (AddConsumer A js (op_stream config) (consumer_zero\<lparr>cc_Durable := ocamlConsumerName,
         cc_DeliverPolicy := DeliverAllPolicy, cc_AckPolicy := AckExplicitPolicy,
         cc_FilterSubject := op_prefix config @ ''.go''\<rparr>)) (wrap ''create OCaml consumer'') (\<lambda>_.
     ret (Inr js))))))"

definition jetstream_announce :: "'e api \<Rightarrow> options \<Rightarrow> conn \<Rightarrow> ('e, gerr + unit) io" where
  "jetstream_announce A config c =
     must (Subscribe A c (op_prefix config @ ''.start'') ''startMessages'') (wrap ''subscribe start'') (
     must (Subscribe A c (op_prefix config @ ''.go-acked'') ''goAcknowledgements'')
       (wrap ''subscribe Go acknowledgement'') (
     must (Subscribe A c (op_prefix config @ ''.delete-check'') ''ordinaryDeleteChecks'')
       (wrap ''subscribe ordinary delete check'') (
     must (Subscribe A c (op_prefix config @ ''.secure-delete-check'') ''secureDeleteChecks'')
       (wrap ''subscribe secure delete check'') (
     must (Flush A c) (wrap ''flush setup'') (
     must (WriteFile A (op_ready config) ready_content) (wrap ''write ready file'') (
     try_call (waitMessage A ''start request'' ''startMessages'') id (\<lambda>startMessage.
     must (Respond A startMessage ''started'') (wrap ''respond to start'') (
     ret (Inr ())))))))))"

definition jetstream_publish :: "'e api \<Rightarrow> options \<Rightarrow> jsc \<Rightarrow> ('e, gerr + unit) io" where
  "jetstream_publish A config js =
     (let goMessage = hdr_Add ''X-Trace'' ''go'' (hdr_Set ''X-Interop'' ''go-jetstream''
                        (data_msg (op_prefix config @ ''.go'') ''from-go-jetstream'')) in
      try_call (JSPublishMsg A js goMessage (Some ''go-jetstream-message''))
        (wrap ''publish Go JetStream message'') (\<lambda>goAck.
      require (expectPublishAck ''Go publish'' goAck (op_stream config) False 1) (
      try_call (JSPublishMsg A js goMessage (Some ''go-jetstream-message''))
        (wrap ''duplicate Go JetStream message'') (\<lambda>goDuplicateAck.
      require (expectPublishAck ''duplicate Go publish'' goDuplicateAck (op_stream config) True 1) (
      try_call (waitMessage A ''OCaml JetStream acknowledgement'' ''goAcknowledgements'') id (\<lambda>acknowledgement.
      require (unless (msg_Data acknowledgement = ''go-message-acked'')
        (Errorf ''OCaml acknowledgement payload was %q, expected %q''
          [AStr (msg_Data acknowledgement), AStr ''go-message-acked''])) (
      must (Respond A acknowledgement ''acknowledged'') (wrap ''respond to OCaml acknowledgement'') (
      ret (Inr ())))))))))"

definition jetstream_deletes :: "'e api \<Rightarrow> options \<Rightarrow> jsc \<Rightarrow> ('e, gerr + unit) io" where
  "jetstream_deletes A config js =
     try_call (waitMessage A ''ordinary delete check'' ''ordinaryDeleteChecks'') id (\<lambda>ordinaryDeleteCheck.
     require (unless (msg_Data ordinaryDeleteCheck = ''check'')
       (Errorf ''ordinary delete check payload was %q, expected %q''
         [AStr (msg_Data ordinaryDeleteCheck), AStr ''check''])) (
     must_fail (GetMsg A js (op_stream config) 1)
       (Errorf ''ordinary delete left stream sequence 1 readable'' []) (
     try_call (JSPublishMsg A js (data_msg (op_prefix config @ ''.go'') ''secure-delete'') None)
       (wrap ''publish secure-delete message'') (\<lambda>secureAck.
     require (expectPublishAck ''secure-delete publish'' secureAck (op_stream config) False 2) (
     must (Respond A ordinaryDeleteCheck ''secure-ready'') (wrap ''respond to ordinary delete check'') (
     try_call (waitMessage A ''secure delete check'' ''secureDeleteChecks'') id (\<lambda>secureDeleteCheck.
     require (unless (msg_Data secureDeleteCheck = ''check'')
       (Errorf ''secure delete check payload was %q, expected %q''
         [AStr (msg_Data secureDeleteCheck), AStr ''check''])) (
     must_fail (GetMsg A js (op_stream config) 2)
       (Errorf ''secure delete left stream sequence 2 readable'' []) (
     must (Respond A secureDeleteCheck ''secure-deleted'') (wrap ''respond to secure delete check'') (
     ret (Inr ())))))))))))"

text \<open>The checks on the message the client published, and its acknowledgement.\<close>

definition check_ocaml_message :: "'e api \<Rightarrow> options \<Rightarrow> msg \<Rightarrow> check" where
  "check_ocaml_message A config m = checks [
     unless (msg_Data m = ''from-ocaml-jetstream'')
       (Errorf ''OCaml JetStream payload was %q, expected %q'' [AStr (msg_Data m), AStr ''from-ocaml-jetstream'']),
     unless (hdr_Get m ''X-Interop'' = ''ocaml-jetstream'')
       (Errorf ''OCaml JetStream X-Interop header was %q'' [AStr (hdr_Get m ''X-Interop'')]),
     checkHeaderValues m ''X-Trace'' [''ocaml''],
     (case Metadata A m of
        Inl err \<Rightarrow> Some (wrap ''OCaml JetStream metadata'' err)
      | Inr md \<Rightarrow> checks [
          unless (md_Stream md = op_stream config \<and> md_Consumer md = goConsumerName)
            (Errorf ''OCaml metadata identified stream=%q consumer=%q'' [AStr (md_Stream md), AStr (md_Consumer md)]),
          unless (md_StreamSeq md = 3 \<and> md_ConsumerSeq md = 1 \<and> md_NumPending md = 0)
            (Errorf ''OCaml metadata had stream sequence=%d consumer sequence=%d pending=%d''
               [AInt (uint (md_StreamSeq md)), AInt (uint (md_ConsumerSeq md)), AInt (uint (md_NumPending md))])])]"

definition jetstream_fetch :: "'e api \<Rightarrow> options \<Rightarrow> subn \<Rightarrow> ('e, gerr + unit) io" where
  "jetstream_fetch A config s =
     try_call (Fetch A s 1 waitTimeout) (wrap ''fetch OCaml JetStream message'') (\<lambda>messages.
     (case messages of
        [ocamlMessage] \<Rightarrow>
          require (check_ocaml_message A config ocamlMessage) (
          must (AckSync A ocamlMessage) (wrap ''acknowledge OCaml JetStream message'') (
          ret (Inr ())))
      | _ \<Rightarrow> ret (Inl (Errorf ''Go fetch returned %d messages, expected one'' [AInt (int (length messages))]))))"

definition jetstream_finish :: "'e api \<Rightarrow> options \<Rightarrow> conn \<Rightarrow> subn \<Rightarrow> ('e, gerr + unit) io" where
  "jetstream_finish A config c s =
     must (Unsubscribe A s) (wrap ''unsubscribe Go consumer'') (
     must (Flush A c) (wrap ''flush after Go acknowledgement'') (
     must (PublishMsg A c (data_msg (op_prefix config @ ''.done'') ''go-message-acked''))
       (wrap ''publish completion'') (
     must (Flush A c) (wrap ''flush completion'') (
     must (Drain A c) (wrap ''drain'') (
     ret (Inr ()))))))"

definition runJetStreamPeer :: "'e api \<Rightarrow> options \<Rightarrow> ('e, check) io" where
  "runJetStreamPeer A config = as_check (
     try_call (connectOptions A) id (\<lambda>authOptions.
     try_call (Connect A (op_server config) (OName ''ocaml-nats JetStream interop peer'' # authOptions))
       (wrap ''connect'') (\<lambda>c.
     deferred (Close A c) (
       try_call (jetstream_create A config c) id (\<lambda>js.
       try_call (PullSubscribe A js (op_prefix config @ ''.ocaml'') goConsumerName
           [Bind (op_stream config) goConsumerName]) (wrap ''bind Go consumer'') (\<lambda>s.
       deferred (ignore (Unsubscribe A s)) (
         try_call (jetstream_announce A config c) id (\<lambda>_.
         try_call (jetstream_publish A config js) id (\<lambda>_.
         try_call (jetstream_deletes A config js) id (\<lambda>_.
         try_call (jetstream_fetch A config s) id (\<lambda>_.
         jetstream_finish A config c s))))))))))) "

section \<open>Push peer\<close>

definition goPushConsumerName :: string where "goPushConsumerName = ''GO_PUSH''"
definition ocamlPushConsumerName :: string where "ocamlPushConsumerName = ''OCAML_PUSH''"

definition push_consumer :: "string \<Rightarrow> string \<Rightarrow> string \<Rightarrow> consumer_config" where
  "push_consumer durable delivery filtr = consumer_zero\<lparr>cc_Durable := durable, cc_DeliverSubject := delivery,
     cc_DeliverPolicy := DeliverAllPolicy, cc_AckPolicy := AckExplicitPolicy, cc_FilterSubject := filtr\<rparr>"

definition push_consumers :: "'e api \<Rightarrow> options \<Rightarrow> jsc \<Rightarrow> ('e, gerr + unit) io" where
  "push_consumers A config js =
     (let p = op_prefix config; stream = op_stream config in
      try_call (AddConsumer A js stream (push_consumer goPushConsumerName (p @ ''.deliver.go'') (p @ ''.ocaml'')))
        (wrap ''create Go push consumer'') (\<lambda>goConsumerInfo.
      require (checkPushConsumerInfo ''Go push consumer'' goConsumerInfo stream goPushConsumerName
        (p @ ''.ocaml'') (p @ ''.deliver.go'')) (
      try_call (AddConsumer A js stream (push_consumer ocamlPushConsumerName (p @ ''.deliver.ocaml'') (p @ ''.go'')))
        (wrap ''create OCaml push consumer'') (\<lambda>ocamlConsumerInfo.
      require (checkPushConsumerInfo ''OCaml push consumer'' ocamlConsumerInfo stream ocamlPushConsumerName
        (p @ ''.go'') (p @ ''.deliver.ocaml'')) (
      ret (Inr ()))))))"

definition push_create :: "'e api \<Rightarrow> options \<Rightarrow> conn \<Rightarrow> ('e, gerr + jsc) io" where
  "push_create A config c =
     try_call (JetStream A c None) (wrap ''JetStream context'') (\<lambda>js.
     try_call (AddStream A js (stream_zero\<lparr>sc_Name := op_stream config,
         sc_Subjects := [op_prefix config @ ''.go'', op_prefix config @ ''.ocaml''],
         sc_Storage := MemoryStorage\<rparr>)) (wrap ''create stream'') (\<lambda>streamInfo.
     require (created_stream config streamInfo) (
     try_call (push_consumers A config js) id (\<lambda>_.
     ret (Inr js)))))"

definition push_announce :: "'e api \<Rightarrow> options \<Rightarrow> conn \<Rightarrow> ('e, gerr + unit) io" where
  "push_announce A config c =
     must (Subscribe A c (op_prefix config @ ''.start'') ''startMessages'') (wrap ''subscribe start'') (
     must (Subscribe A c (op_prefix config @ ''.go-push-acked'') ''goAcknowledgements'')
       (wrap ''subscribe OCaml push acknowledgement'') (
     must (Flush A c) (wrap ''flush push setup'') (
     must (WriteFile A (op_ready config) ready_content) (wrap ''write ready file'') (
     try_call (waitMessage A ''start request'' ''startMessages'') id (\<lambda>startMessage.
     must (Respond A startMessage ''started'') (wrap ''respond to start'') (
     ret (Inr ())))))))"

text \<open>The Go message, which the client must acknowledge on its push consumer.\<close>

definition push_publish :: "'e api \<Rightarrow> options \<Rightarrow> jsc \<Rightarrow> ('e, gerr + unit) io" where
  "push_publish A config js =
     (let goMessage = hdr_Add ''X-Trace'' ''go-push'' (hdr_Set ''X-Interop'' ''go-jetstream-push''
                        (data_msg (op_prefix config @ ''.go'') ''from-go-jetstream-push'')) in
      try_call (JSPublishMsg A js goMessage None) (wrap ''publish Go JetStream push message'') (\<lambda>goAck.
      require (expectPublishAck ''Go push publish'' goAck (op_stream config) False 1) (
      try_call (waitMessage A ''OCaml push acknowledgement'' ''goAcknowledgements'') id (\<lambda>acknowledgement.
      require (unless (msg_Data acknowledgement = ''go-push-message-acked'')
        (Errorf ''OCaml push acknowledgement payload was %q, expected %q''
          [AStr (msg_Data acknowledgement), AStr ''go-push-message-acked''])) (
      try_call (ConsumerInfoNow A js (op_stream config) ocamlPushConsumerName)
        (wrap ''read OCaml push consumer after acknowledgement'') (\<lambda>ocamlConsumerInfo.
      require (unless (ci_NumAckPending ocamlConsumerInfo = 0)
        (Errorf ''OCaml push consumer retained %d pending acknowledgements''
          [AInt (ci_NumAckPending ocamlConsumerInfo)])) (
      must (Respond A acknowledgement ''acknowledged'') (wrap ''respond to OCaml push acknowledgement'') (
      ret (Inr ())))))))))"

definition push_receive :: "'e api \<Rightarrow> options \<Rightarrow> jsc \<Rightarrow> subn \<Rightarrow> ('e, gerr + unit) io" where
  "push_receive A config js s =
     try_call (NextMsg A s waitTimeout) (wrap ''receive OCaml JetStream push message'') (\<lambda>goMessage.
     require (expectPushDelivery (Metadata A) ''OCaml JetStream push message'' goMessage (op_stream config)
       goPushConsumerName ''from-ocaml-jetstream-push'' ''ocaml-jetstream-push'' ''ocaml-push'' 2 1) (
     must (AckSync A goMessage) (wrap ''acknowledge OCaml JetStream push message'') (
     try_call (ConsumerInfoNow A js (op_stream config) goPushConsumerName)
       (wrap ''read Go push consumer after acknowledgement'') (\<lambda>goConsumerInfo.
     require (unless (ci_NumAckPending goConsumerInfo = 0)
       (Errorf ''Go push consumer retained %d pending acknowledgements (delivered consumer=%d stream=%d pending=%d)''
         [AInt (ci_NumAckPending goConsumerInfo), AInt (uint (ci_DeliveredConsumer goConsumerInfo)),
          AInt (uint (ci_DeliveredStream goConsumerInfo)), AInt (uint (ci_NumPending goConsumerInfo))])) (
     ret (Inr ()))))))"

definition push_finish :: "'e api \<Rightarrow> options \<Rightarrow> conn \<Rightarrow> subn \<Rightarrow> ('e, gerr + unit) io" where
  "push_finish A config c s =
     must (Unsubscribe A s) (wrap ''unsubscribe Go push consumer'') (
     must (Flush A c) (wrap ''flush after Go push acknowledgement'') (
     must (PublishMsg A c (data_msg (op_prefix config @ ''.done'') ''go-push-message-acked''))
       (wrap ''publish push completion'') (
     must (Flush A c) (wrap ''flush push completion'') (
     must (Drain A c) (wrap ''drain'') (
     ret (Inr ()))))))"

definition runJetStreamPushPeer :: "'e api \<Rightarrow> options \<Rightarrow> ('e, check) io" where
  "runJetStreamPushPeer A config = as_check (
     try_call (connectOptions A) id (\<lambda>authOptions.
     try_call (Connect A (op_server config) (OName ''ocaml-nats JetStream push interop peer'' # authOptions))
       (wrap ''connect'') (\<lambda>c.
     deferred (Close A c) (
       try_call (push_create A config c) id (\<lambda>js.
       try_call (SubscribeSync A js (op_prefix config @ ''.ocaml'') [Bind (op_stream config) goPushConsumerName])
         (wrap ''bind Go push consumer'') (\<lambda>s.
       deferred (ignore (Unsubscribe A s)) (
         try_call (push_announce A config c) id (\<lambda>_.
         try_call (push_publish A config js) id (\<lambda>_.
         try_call (push_receive A config js s) id (\<lambda>_.
         push_finish A config c s)))))))))) "

end
