(* ===== verification/GoSteady.thy ===== *)
theory GoSteady
  imports GoJetStream
begin

text \<open>
  Computations that leave a monitor where it is, whatever they answer: a collection of rules, one
  per construct of the scripts, closes such goals from the calls a script makes.
\<close>

text \<open>A computation that leaves the monitor where it is, whatever it answers.\<close>

definition steady :: "'q monitor \<Rightarrow> 'q \<Rightarrow> ('e, 'a) io \<Rightarrow> bool" where
  "steady M q m \<longleftrightarrow> wp M m (\<lambda>_ q'. q' = q) q"

named_theorems steady_intros \<open>calls that leave a monitor where it is\<close>

lemma steady_wp: "steady M q m \<Longrightarrow> (\<And>a. Q a q) \<Longrightarrow> wp M m Q q"
  unfolding steady_def by (erule wp_mono) simp

lemma steady_ret [steady_intros]: "steady M q (ret a)"
  by (simp add: steady_def)

lemma steady_clock [steady_intros]: "steady M q clock"
  unfolding steady_def by (rule wp_clock) simp

lemma steady_perform: "(\<And>r. M q (ev r) = Some q) \<Longrightarrow> steady M q (perform ev f)"
  unfolding steady_def by (rule wp_call) simp

lemma steady_bnd [steady_intros]: "steady M q m \<Longrightarrow> (\<And>a. steady M q (k a)) \<Longrightarrow> steady M q (bnd m k)"
  unfolding steady_def by (rule wp_bnd, erule wp_mono) simp

lemma steady_if [steady_intros]: "steady M q m \<Longrightarrow> steady M q m' \<Longrightarrow> steady M q (if b then m else m')"
  by simp

lemma steady_sum [steady_intros]:
  "(\<And>x. steady M q (f x)) \<Longrightarrow> (\<And>y. steady M q (g y)) \<Longrightarrow>
   steady M q (case s of Inl x \<Rightarrow> f x | Inr y \<Rightarrow> g y)"
  by (cases s) auto

lemma steady_option [steady_intros]:
  "steady M q f \<Longrightarrow> (\<And>y. steady M q (g y)) \<Longrightarrow> steady M q (case s of None \<Rightarrow> f | Some y \<Rightarrow> g y)"
  by (cases s) auto

lemma steady_try_call [steady_intros]:
  "steady M q m \<Longrightarrow> (\<And>a. steady M q (k a)) \<Longrightarrow> steady M q (try_call m w k)"
  unfolding try_call_def by (intro steady_intros)

lemma steady_calls: "steady M q m \<Longrightarrow> run_monitor M q (calls (m t e)) = Some q"
  unfolding steady_def by (drule wp_run) auto

lemma steadyI: "(\<And>t e. run_monitor M q (calls (m t e)) = Some q) \<Longrightarrow> steady M q m"
  unfolding steady_def wp_def gives_def by (metis outcome.sel(4))

lemma steady_poll [steady_intros]: "steady M q turn \<Longrightarrow> steady M q (poll deadline pause turn lastError)"
proof (rule steadyI)
  fix t e
  assume "steady M q turn"
  then show "run_monitor M q (calls (poll deadline pause turn lastError t e)) = Some q"
  proof (induction deadline pause turn lastError t e rule: poll.induct)
    case (1 deadline pause turn lastError t e)
    obtain r e1 d l where o: "turn t e = Out r e1 d l" by (cases "turn t e")
    with steady_calls [OF "1.prems", of t e] have l: "run_monitor M q l = Some q" by simp
    show ?case
    proof (cases "t < deadline \<and> 0 < pause")
      case True
      show ?thesis
      proof (cases r)
        case (Finish a)
        with o l True show ?thesis by (simp add: poll.simps [of deadline])
      next
        case (Again upd)
        let ?loop = "poll deadline pause turn (case upd of None \<Rightarrow> lastError | Some x \<Rightarrow> Some x) (t + d + pause) e1"
        have "calls (poll deadline pause turn lastError t e) = l @ calls ?loop"
          using o Again True by (simp add: poll.simps [of deadline pause turn lastError t] split: outcome.splits)
        with l "1.IH" [OF True o Again "1.prems"] show ?thesis by (simp add: run_monitor_append)
      qed
    next
      case False
      then show ?thesis by (subst poll.simps) auto
    qed
  qed
qed

lemma steady_stats_loop [steady_intros]: "steady M q get \<Longrightarrow> steady M q (stats_loop deadline label get ready)"
proof (rule steadyI)
  fix t e
  assume "steady M q get"
  then show "run_monitor M q (calls (stats_loop deadline label get ready t e)) = Some q"
  proof (induction deadline label get ready t e rule: stats_loop.induct)
    case (1 deadline label get ready t e)
    obtain r e1 d l where o: "get t e = Out r e1 d l" by (cases "get t e")
    with steady_calls [OF "1.prems", of t e] have l: "run_monitor M q l = Some q" by simp
    let ?loop = "stats_loop deadline label get ready (t + d + 100 * millisecond) e1"
    have "calls (stats_loop deadline label get ready t e) = l \<or>
        (\<not> t + d > deadline \<and> calls (stats_loop deadline label get ready t e) = l @ calls ?loop)"
      using o by (auto simp: stats_loop.simps [of deadline label get ready t] Let_def split: sum.splits outcome.splits)
    then show ?case
    proof
      assume "\<not> t + d > deadline \<and> calls (stats_loop deadline label get ready t e) = l @ calls ?loop"
      with l "1.IH" [OF o _ "1.prems"] show ?thesis by (simp add: run_monitor_append)
    qed (use l in simp)
  qed
qed

lemma steady_retrying [steady_intros]: "steady M q turn \<Longrightarrow> steady M q (retrying deadline turn none failed)"
  unfolding retrying_def by (intro steady_intros)

lemma steady_until_ok [steady_intros]: "steady M q m \<Longrightarrow> steady M q (until_ok m)"
  unfolding until_ok_def by (intro steady_intros)

lemma steady_must [steady_intros]: "steady M q m \<Longrightarrow> steady M q k \<Longrightarrow> steady M q (must m w k)"
  unfolding must_def by (intro steady_intros)

lemma steady_require [steady_intros]: "steady M q k \<Longrightarrow> steady M q (require c k)"
  unfolding require_def by (intro steady_intros)

lemma steady_must_fail [steady_intros]: "steady M q m \<Longrightarrow> steady M q k \<Longrightarrow> steady M q (must_fail m err k)"
  unfolding must_fail_def by (intro steady_intros)

lemma steady_deferred [steady_intros]: "steady M q c \<Longrightarrow> steady M q m \<Longrightarrow> steady M q (deferred c m)"
  unfolding deferred_def by (intro steady_intros)

lemma steady_as_check [steady_intros]: "steady M q m \<Longrightarrow> steady M q (as_check m)"
  unfolding as_check_def by (intro steady_intros)

lemma steady_ignore [steady_intros]: "steady M q m \<Longrightarrow> steady M q (ignore m)"
  unfolding ignore_def by (intro steady_intros)

lemma steady_list [steady_intros]:
  "steady M q f \<Longrightarrow> (\<And>y ys. steady M q (g y ys)) \<Longrightarrow> steady M q (case xs of [] \<Rightarrow> f | y # ys \<Rightarrow> g y ys)"
  by (cases xs) auto

lemma steady_pair [steady_intros]: "(\<And>x y. steady M q (f x y)) \<Longrightarrow> steady M q (case p of (x, y) \<Rightarrow> f x y)"
  by (cases p) auto

lemma steady_selection [steady_intros]:
  "steady M q f \<Longrightarrow> (\<And>x. steady M q (g x)) \<Longrightarrow> steady M q h \<Longrightarrow>
   steady M q (case s of GotUnit \<Rightarrow> f | GotErr x \<Rightarrow> g x | TimerFired \<Rightarrow> h)"
  by (cases s) auto

lemma steady_wait_stats [steady_intros]:
  "steady M q get \<Longrightarrow> steady M q (waitForServiceStats label get ready)"
  unfolding waitForServiceStats_def by (intro steady_intros)

text \<open>A steady step of a script, then the rest.\<close>

lemma wp_try_steady:
  "steady M q m \<Longrightarrow> (\<And>err. Q (Inl (w err)) q) \<Longrightarrow> (\<And>a. wp M (k a) Q q) \<Longrightarrow> wp M (try_call m w k) Q q"
  by (rule wp_try_call, erule steady_wp) (simp split: sum.splits)

lemma wp_must_steady:
  "steady M q m \<Longrightarrow> (\<And>err. Q (Inl (w err)) q) \<Longrightarrow> wp M k Q q \<Longrightarrow> wp M (must m w k) Q q"
  by (rule wp_must, erule steady_wp) (simp split: option.splits)

lemma wp_bnd_steady: "steady M q m \<Longrightarrow> (\<And>a. wp M (k a) Q q) \<Longrightarrow> wp M (bnd m k) Q q"
  by (rule wp_bnd, erule steady_wp) simp

end
