(* ===== verification/GoOrdered.thy ===== *)
theory GoOrdered
  imports GoJetStream
begin

text \<open>
  The ordered-consumer peer (\<open>jetstream_ordered.go\<close>) and the push peer that survives a restart
  of its server (\<open>jetstream_push_reconnect.go\<close>).
\<close>

section \<open>Ordered peer\<close>

definition ErrCantAckIfConsumerAckNone :: gerr where
  "ErrCantAckIfConsumerAckNone = Lib ''nats.ErrCantAckIfConsumerAckNone''"

definition error_arg :: "check \<Rightarrow> garg" where
  "error_arg c = (case c of None \<Rightarrow> ANil | Some err \<Rightarrow> AErr err)"

definition ordered_create :: "'e api \<Rightarrow> options \<Rightarrow> conn \<Rightarrow> ('e, gerr + jsc) io" where
  "ordered_create A config c =
     try_call (JetStream A c None) (wrap ''JetStream context'') (\<lambda>js.
     try_call (AddStream A js (stream_zero\<lparr>sc_Name := op_stream config,
         sc_Subjects := [op_prefix config @ ''.match'', op_prefix config @ ''.gap''],
         sc_Storage := MemoryStorage\<rparr>)) (wrap ''create stream'') (\<lambda>streamInfo.
     require (created_stream config streamInfo) (
     ret (Inr js))))"

definition ordered_inspect :: "'e api \<Rightarrow> options \<Rightarrow> conn \<Rightarrow> subn \<Rightarrow> ('e, gerr + consumer_info) io" where
  "ordered_inspect A config c s =
     must (Flush A c) (wrap ''flush Go ordered consumer'') (
     try_call (call_sum ''Subscription.ConsumerInfo'' (sub_consumer_info A s))
       (wrap ''read Go ordered consumer info'') (\<lambda>orderedInfo.
     require (checkOrderedConsumerInfo ''Go ordered consumer'' orderedInfo (op_stream config)
       (op_prefix config @ ''.match'')) (
     ret (Inr orderedInfo))))"

definition ordered_controls :: "options \<Rightarrow> (string \<times> chan \<times> string) list" where
  "ordered_controls config =
     [(op_prefix config @ ''.start'', ''startMessages'', ''start''),
      (op_prefix config @ ''.batch2'', ''batchTwoMessages'', ''batch two''),
      (op_prefix config @ ''.ordered-closed'', ''orderedClosedMessages'', ''ordered close''),
      (op_prefix config @ ''.cleanup'', ''cleanupMessages'', ''cleanup'')]"

definition ordered_announce :: "'e api \<Rightarrow> options \<Rightarrow> conn \<Rightarrow> ('e, gerr + unit) io" where
  "ordered_announce A config c =
     subscribe_controls A c (ordered_controls config) (
     must (Flush A c) (wrap ''flush ordered setup'') (
     must (WriteFile A (op_ready config) ready_content) (wrap ''write ready file'') (
     try_call (waitOrderedMessage A ''start request'' ''startMessages'') id (\<lambda>startMessage.
     must (Respond A startMessage ''started'') (wrap ''respond to start'') (
     ret (Inr ()))))))"

definition ordered_publish :: "'e api \<Rightarrow> options \<Rightarrow> jsc \<Rightarrow> ('e, gerr + unit) io" where
  "ordered_publish A config js =
     (let matchSubject = op_prefix config @ ''.match''; gap = op_prefix config @ ''.gap'';
          stream = op_stream config in
      try_call (publishOrderedMessage A js matchSubject ''go-one'' ''go-ordered'' ''go-one'' stream 1) id (\<lambda>_.
      try_call (publishOrderedMessage A js gap ''go-gap-one'' ''go-ordered'' ''go-gap-one'' stream 2) id (\<lambda>_.
      try_call (publishOrderedMessage A js matchSubject ''go-three'' ''go-ordered'' ''go-three'' stream 3) id (\<lambda>_.
      try_call (publishOrderedMessage A js gap ''go-gap-two'' ''go-ordered'' ''go-gap-two'' stream 4) id (\<lambda>_.
      try_call (publishOrderedMessage A js matchSubject ''go-five'' ''go-ordered'' ''go-five'' stream 5) id (\<lambda>_.
      ret (Inr ())))))))"

text \<open>
  What the ordered subscription must deliver, in this order; the payload is the trace too. The
  loop over the first batch also tries to acknowledge its first message, which an ordered
  consumer must refuse.
\<close>

type_synonym expected = "string \<times> string \<times> u64 \<times> u64"

fun ordered_deliveries ::
  "'e api \<Rightarrow> options \<Rightarrow> subn \<Rightarrow> string \<Rightarrow> string \<Rightarrow> bool \<Rightarrow> expected list \<Rightarrow> ('e, gerr + unit) io" where
  "ordered_deliveries A config s consumer interop try_ack [] = ret (Inr ())"
| "ordered_deliveries A config s consumer interop try_ack ((label, payload, streamSequence, consumerSequence) # others) =
     try_call (NextMsg A s orderedWait) (\<lambda>err. Errorf ''receive %s: %w'' [AStr label, AWrap err]) (\<lambda>message.
     require (expectOrderedDelivery (Metadata A) label message (op_stream config) (op_prefix config @ ''.match'')
       consumer payload interop payload streamSequence consumerSequence) (
     (if try_ack \<and> consumerSequence = 1 then
        bnd (Ack A message) (\<lambda>r.
        require (unless (r = Some ErrCantAckIfConsumerAckNone)
          (Errorf ''Go ordered Ack returned %v, expected %v'' [error_arg r, AErr ErrCantAckIfConsumerAckNone])) (
        ordered_deliveries A config s consumer interop try_ack others))
      else ordered_deliveries A config s consumer interop try_ack others)))"

definition first_batch :: "expected list" where
  "first_batch = [(''Go ordered first'', ''go-one'', 1, 1), (''Go ordered second'', ''go-three'', 3, 2),
     (''Go ordered third'', ''go-five'', 5, 3)]"

definition second_batch :: "expected list" where
  "second_batch = [(''Go ordered fourth'', ''ocaml-six'', 6, 4), (''Go ordered fifth'', ''ocaml-eight'', 8, 5)]"

definition ordered_batch_two :: "'e api \<Rightarrow> ('e, gerr + unit) io" where
  "ordered_batch_two A =
     try_call (waitOrderedMessage A ''batch two request'' ''batchTwoMessages'') id (\<lambda>batchTwoMessage.
     require (expectPayload ''batch two request'' batchTwoMessage ''batch2'') (
     must (Respond A batchTwoMessage ''go-batch2-ready'') (wrap ''respond to batch two request'') (
     ret (Inr ()))))"

text \<open>The message that asks to close is answered once the subscription is gone.\<close>

definition ordered_close :: "'e api \<Rightarrow> subn \<Rightarrow> ('e, gerr + msg) io" where
  "ordered_close A s =
     try_call (waitOrderedMessage A ''OCaml ordered close'' ''orderedClosedMessages'') id (\<lambda>closeMessage.
     require (expectPayload ''OCaml ordered close'' closeMessage ''ocaml-ordered-closed'') (
     must (Unsubscribe A s) (wrap ''unsubscribe Go ordered consumer'') (
     ret (Inr closeMessage))))"

definition ordered_finish :: "'e api \<Rightarrow> options \<Rightarrow> conn \<Rightarrow> msg \<Rightarrow> ('e, gerr + unit) io" where
  "ordered_finish A config c closeMessage =
     must (Flush A c) (wrap ''flush Go ordered unsubscribe'') (
     must (Respond A closeMessage ''go-unsubscribe'') (wrap ''respond to OCaml ordered close'') (
     must (Flush A c) (wrap ''flush ordered close response'') (
     must (PublishMsg A c (data_msg (op_prefix config @ ''.go-done'') ''go-ordered-unsubscribed''))
       (wrap ''publish ordered completion'') (
     must (Flush A c) (wrap ''flush ordered completion'') (
     try_call (waitOrderedMessage A ''cleanup request'' ''cleanupMessages'') id (\<lambda>cleanupMessage.
     require (expectPayload ''cleanup request'' cleanupMessage ''cleanup'') (
     must (Respond A cleanupMessage ''cleaned'') (wrap ''respond to cleanup'') (
     must (Flush A c) (wrap ''flush cleanup response'') (
     must (Drain A c) (wrap ''drain'') (
     ret (Inr ())))))))))))"

definition runJetStreamOrderedPeer :: "'e api \<Rightarrow> options \<Rightarrow> ('e, check) io" where
  "runJetStreamOrderedPeer A config = as_check (
     try_call (connectOptions A) id (\<lambda>authOptions.
     try_call (Connect A (op_server config) (OName ''ocaml-nats JetStream ordered interop peer'' # authOptions))
       (wrap ''connect'') (\<lambda>c.
     deferred (Close A c) (
       try_call (ordered_create A config c) id (\<lambda>js.
       try_call (SubscribeSync A js (op_prefix config @ ''.match'') [BindStream (op_stream config), OrderedConsumer])
         (wrap ''create Go ordered consumer'') (\<lambda>s.
       guarded (ignore (Unsubscribe A s)) (
         try_call (ordered_inspect A config c s) id (\<lambda>orderedInfo.
         try_call (ordered_announce A config c) id (\<lambda>_.
         try_call (ordered_publish A config js) id (\<lambda>_.
         try_call (ordered_deliveries A config s (ci_Name orderedInfo) ''go-ordered'' True first_batch) id (\<lambda>_.
         try_call (ordered_batch_two A) id (\<lambda>_.
         try_call (ordered_deliveries A config s (ci_Name orderedInfo) ''ocaml-ordered'' False second_batch) id (\<lambda>_.
         ordered_close A s)))))))
       (ordered_finish A config c)))))))"

section \<open>Push peer across a restart\<close>

definition reconnect_options :: "string \<Rightarrow> natsopt list" where
  "reconnect_options name = [OName name, ODontRandomize, OReconnectWait (500 * millisecond), OMaxReconnects (-1),
     OReconnectHandler ''reconnected'']"

definition restart_create :: "'e api \<Rightarrow> options \<Rightarrow> conn \<Rightarrow> ('e, gerr + jsc) io" where
  "restart_create A config c =
     try_call (JetStream A c None) (wrap ''JetStream context'') (\<lambda>js.
     try_call (AddStream A js (stream_zero\<lparr>sc_Name := op_stream config,
         sc_Subjects := [op_prefix config @ ''.go'', op_prefix config @ ''.ocaml''],
         sc_Storage := FileStorage\<rparr>)) (wrap ''create stream'') (\<lambda>streamInfo.
     require (created_stream config streamInfo) (
     require (unless (sc_Storage (si_Config streamInfo) = FileStorage)
       (Errorf ''created stream was not file-backed'' [])) (
     try_call (push_consumers A config js) id (\<lambda>_.
     ret (Inr js))))))"

definition restart_announce :: "'e api \<Rightarrow> options \<Rightarrow> conn \<Rightarrow> ('e, gerr + unit) io" where
  "restart_announce A config c =
     must (Subscribe A c (op_prefix config @ ''.start'') ''startMessages'') (wrap ''subscribe start'') (
     must (Subscribe A c (op_prefix config @ ''.go-acked'') ''goAcknowledgements'')
       (wrap ''subscribe OCaml acknowledgement'') (
     must (Subscribe A c (op_prefix config @ ''.recovery-verified'') ''recoveryVerificationMessages'')
       (wrap ''subscribe recovery verification'') (
     must (Subscribe A c (op_prefix config @ ''.cleanup'') ''cleanupMessages'') (wrap ''subscribe cleanup'') (
     must (Flush A c) (wrap ''flush push setup'') (
     must (WriteFile A (op_ready config) ready_content) (wrap ''write ready file'') (
     try_call (waitJetStreamMessage A ''start request'' ''startMessages'') id (\<lambda>startMessage.
     must (Respond A startMessage ''started'') (wrap ''respond to start'') (
     ret (Inr ())))))))))"

text \<open>
  One exchange each way; the phase before the restart and the one after it differ in their
  label, payloads and sequence numbers only.
\<close>

definition restart_to_ocaml ::
  "'e api \<Rightarrow> options \<Rightarrow> jsc \<Rightarrow> string \<Rightarrow> string \<Rightarrow> string \<Rightarrow> string \<Rightarrow> u64 \<Rightarrow> ('e, gerr + unit) io" where
  "restart_to_ocaml A config js when payload trace acked sequence =
     (let message = hdr_Add ''X-Trace'' trace (hdr_Set ''X-Interop'' ''go-jetstream-push-reconnect''
                      (data_msg (op_prefix config @ ''.go'') payload)) in
      try_call (JSPublishMsg A js message None) (wrap (''publish '' @ when @ '' Go message'')) (\<lambda>ack.
      require (expectPublishAck (when @ '' Go publish'') ack (op_stream config) False sequence) (
      try_call (waitJetStreamMessage A (when @ '' OCaml acknowledgement'') ''goAcknowledgements'') id (\<lambda>acknowledgement.
      require (unless (msg_Data acknowledgement = acked)
        (Errorf (when @ '' OCaml acknowledgement was %q, expected %q'') [AStr (msg_Data acknowledgement), AStr acked])) (
      try_call (ConsumerInfoNow A js (op_stream config) ocamlPushConsumerName)
        (wrap (''read '' @ when @ '' OCaml consumer'')) (\<lambda>ocamlConsumerInfo.
      require (unless (ci_NumAckPending ocamlConsumerInfo = 0)
        (Errorf (when @ '' OCaml consumer retained %d pending acknowledgements'')
          [AInt (ci_NumAckPending ocamlConsumerInfo)])) (
      must (Respond A acknowledgement ''acknowledged'') (wrap (''respond '' @ when @ '' acknowledgement'')) (
      ret (Inr ())))))))))"

definition restart_from_ocaml ::
  "'e api \<Rightarrow> options \<Rightarrow> jsc \<Rightarrow> subn \<Rightarrow> string \<Rightarrow> string \<Rightarrow> string \<Rightarrow> u64 \<Rightarrow> u64 \<Rightarrow> ('e, gerr + unit) io" where
  "restart_from_ocaml A config js s when payload trace streamSequence consumerSequence =
     try_call (NextMsg A s jetStreamReconnectWait) (wrap (''receive '' @ when @ '' OCaml message'')) (\<lambda>message.
     require (expectPushDelivery (Metadata A) (when @ '' OCaml message'') message (op_stream config)
       goPushConsumerName payload ''ocaml-jetstream-push-reconnect'' trace streamSequence consumerSequence) (
     must (AckSync A message) (wrap (''acknowledge '' @ when @ '' OCaml message'')) (
     try_call (ConsumerInfoNow A js (op_stream config) goPushConsumerName)
       (wrap (''read '' @ when @ '' Go consumer'')) (\<lambda>goConsumerInfo.
     require (checkRecoveredConsumer (when @ '' Go consumer'') goConsumerInfo (op_stream config) goPushConsumerName
       (op_prefix config @ ''.ocaml'') (op_prefix config @ ''.deliver.go'') streamSequence consumerSequence) (
     ret (Inr ()))))))"

definition restart_told :: "'e api \<Rightarrow> conn \<Rightarrow> string \<Rightarrow> string \<Rightarrow> string \<Rightarrow> ('e, gerr + unit) io" where
  "restart_told A c subj payload when =
     must (PublishMsg A c (data_msg subj payload)) (wrap (''publish '' @ when @ '' completion'')) (
     must (Flush A c) (wrap (''flush '' @ when @ '' completion'')) (
     ret (Inr ())))"

text \<open>The phase before the restart and the exchanges after it.\<close>

definition restart_before :: "'e api \<Rightarrow> options \<Rightarrow> conn \<Rightarrow> jsc \<Rightarrow> subn \<Rightarrow> ('e, gerr + unit) io" where
  "restart_before A config c js s =
     try_call (restart_to_ocaml A config js ''baseline'' ''before-go'' ''go-before'' ''before-go-acked'' 1) id (\<lambda>_.
     try_call (restart_from_ocaml A config js s ''baseline'' ''before-ocaml'' ''ocaml-before'' 2 1) id (\<lambda>_.
     restart_told A c (op_prefix config @ ''.before-done'') ''baseline-complete'' ''baseline''))"

definition restart_after :: "'e api \<Rightarrow> options \<Rightarrow> jsc \<Rightarrow> subn \<Rightarrow> ('e, gerr + unit) io" where
  "restart_after A config js s =
     try_call (restart_to_ocaml A config js ''post-reconnect'' ''after-go'' ''go-after'' ''after-go-acked'' 3) id (\<lambda>_.
     restart_from_ocaml A config js s ''post-reconnect'' ''after-ocaml'' ''ocaml-after'' 4 2)"

text \<open>The restart: the stream and both consumers must come back as they were.\<close>

definition restart_recover :: "'e api \<Rightarrow> options \<Rightarrow> conn \<Rightarrow> jsc \<Rightarrow> ('e, gerr + unit) io" where
  "restart_recover A config c js =
     (let p = op_prefix config; stream = op_stream config in
      must (waitForJetStreamReconnectSignal A (op_signal config)) id (
      must (waitJetStreamReconnect A ''reconnected'') id (
      must (Flush A c) (wrap ''flush after reconnect'') (
      bnd clock (\<lambda>now. let recoveryDeadline = now + jetStreamReconnectWait in
      try_call (retryJetStreamStreamInfo A js stream recoveryDeadline) id (\<lambda>streamInfo.
      require (unless (sc_Storage (si_Config streamInfo) = FileStorage \<and> si_Msgs streamInfo = 2 \<and> si_LastSeq streamInfo = 2)
        (Errorf ''stream after reconnect storage=%v messages=%d last-sequence=%d''
          [AStorage (sc_Storage (si_Config streamInfo)), AInt (uint (si_Msgs streamInfo)), AInt (uint (si_LastSeq streamInfo))])) (
      try_call (retryJetStreamConsumerInfo A js stream goPushConsumerName recoveryDeadline) id (\<lambda>goConsumerInfo.
      require (checkRecoveredConsumer ''recovered Go consumer'' goConsumerInfo stream goPushConsumerName
        (p @ ''.ocaml'') (p @ ''.deliver.go'') 2 1) (
      try_call (retryJetStreamConsumerInfo A js stream ocamlPushConsumerName recoveryDeadline) id (\<lambda>ocamlConsumerInfo.
      require (checkRecoveredConsumer ''recovered OCaml consumer'' ocamlConsumerInfo stream ocamlPushConsumerName
        (p @ ''.go'') (p @ ''.deliver.ocaml'') 1 1) (
      ret (Inr ()))))))))))))"

definition restart_verify :: "'e api \<Rightarrow> options \<Rightarrow> conn \<Rightarrow> ('e, gerr + unit) io" where
  "restart_verify A config c =
     try_call (awaitRecoveryBarrierWithTimeout A c (op_prefix config) 1 jetStreamReconnectWait) id (\<lambda>_.
     try_call (waitJetStreamMessage A ''OCaml JetStream recovery verification'' ''recoveryVerificationMessages'') id
       (\<lambda>recoveryVerification.
     require (unless (msg_Data recoveryVerification = ''ocaml-recovery-verified'')
       (Errorf ''recovery verification was %q, expected %q''
         [AStr (msg_Data recoveryVerification), AStr ''ocaml-recovery-verified''])) (
     must (Respond A recoveryVerification ''go-recovery-verified'') (wrap ''respond recovery verification'') (
     ret (Inr ())))))"

definition restart_finish :: "'e api \<Rightarrow> options \<Rightarrow> conn \<Rightarrow> subn \<Rightarrow> ('e, gerr + unit) io" where
  "restart_finish A config c s =
     must (Unsubscribe A s) (wrap ''unsubscribe Go push consumer'') (
     must (Flush A c) (wrap ''flush before cleanup'') (
     try_call (restart_told A c (op_prefix config @ ''.go-done'') ''post-reconnect-complete'' ''post-reconnect'') id (\<lambda>_.
     try_call (waitJetStreamMessage A ''cleanup request'' ''cleanupMessages'') id (\<lambda>cleanup.
     require (unless (msg_Data cleanup = ''cleanup'')
       (Errorf ''cleanup request payload was %q, expected %q'' [AStr (msg_Data cleanup), AStr ''cleanup''])) (
     must (Respond A cleanup ''cleaned'') (wrap ''respond cleanup'') (
     must (Drain A c) (wrap ''drain'') (
     ret (Inr ()))))))))"

definition runJetStreamPushReconnectPeer :: "'e api \<Rightarrow> options \<Rightarrow> ('e, check) io" where
  "runJetStreamPushReconnectPeer A config = as_check (
     try_call (connectOptions A) id (\<lambda>authOptions.
     try_call (Connect A (op_server config)
         (reconnect_options ''ocaml-nats JetStream push reconnect interop peer'' @ authOptions))
       (wrap ''connect'') (\<lambda>c.
     deferred (Close A c) (
       try_call (restart_create A config c) id (\<lambda>js.
       try_call (SubscribeSync A js (op_prefix config @ ''.ocaml'') [Bind (op_stream config) goPushConsumerName])
         (wrap ''bind Go push consumer'') (\<lambda>s.
       deferred (ignore (Unsubscribe A s)) (
         try_call (restart_announce A config c) id (\<lambda>_.
         try_call (restart_before A config c js s) id (\<lambda>_.
         try_call (restart_recover A config c js) id (\<lambda>_.
         try_call (restart_verify A config c) id (\<lambda>_.
         try_call (restart_after A config js s) id (\<lambda>_.
         restart_finish A config c s))))))))))))"

end
