(* ===== verification/GoAdmin.thy ===== *)
theory GoAdmin
  imports GoJetStream
begin

text \<open>
  The administration peer (\<open>jetstream_admin.go\<close>): it fills a stream, lets the client administer
  it, and then verifies the account, the stream, the consumer and the message the consumer's
  reset delivers. A context with a timeout is made for each call; it only bounds the call.
\<close>

definition adminConsumerName :: string where "adminConsumerName = ''ADMIN_GO''"

section \<open>Verification\<close>

definition verify_account :: "'e api \<Rightarrow> jsc \<Rightarrow> ('e, gerr + unit) io" where
  "verify_account A js =
     try_call (call_sum ''AccountInfo'' (js_account_info A js)) (wrap ''account info'') (\<lambda>account.
     require (unless (1 \<le> ai_Streams account)
       (Errorf ''account info reported %d streams, expected at least one'' [AInt (ai_Streams account)])) (
     require (unless (1 \<le> ai_Consumers account)
       (Errorf ''account info reported %d consumers, expected at least one'' [AInt (ai_Consumers account)])) (
     ret (Inr ()))))"

definition verify_stream :: "'e api \<Rightarrow> options \<Rightarrow> jsc \<Rightarrow> ('e, gerr + strm) io" where
  "verify_stream A config js =
     try_call (call_sum ''Stream'' (js_stream A js (op_stream config))) (wrap ''stream lookup'') (\<lambda>stream.
     try_call (call_sum ''Stream.Info'' (stream_get_info A stream)) (wrap ''stream info'') (\<lambda>streamInfo.
     require (unless (sc_Name (si_Config streamInfo) = op_stream config)
       (Errorf ''stream info named %q, expected %q'' [AStr (sc_Name (si_Config streamInfo)), AStr (op_stream config)])) (
     require (unless (sc_Description (si_Config streamInfo) = ''updated-by-ocaml'')
       (Errorf ''stream description was %q, expected %q''
         [AStr (sc_Description (si_Config streamInfo)), AStr ''updated-by-ocaml''])) (
     ret (Inr stream)))))"

text \<open>\<open>listed, err := nameListed(...)\<close> and the two checks that follow it.\<close>

definition require_listed :: "string \<Rightarrow> gerr + bool \<Rightarrow> string \<Rightarrow> ('e, gerr + 'b) io \<Rightarrow> ('e, gerr + 'b) io" where
  "require_listed label listed name k =
     (case listed of
        Inl listErr \<Rightarrow> ret (Inl (wrap label listErr))
      | Inr found \<Rightarrow> require (unless found (Errorf (label @ '' did not include %q'') [AStr name])) k)"

definition verify_stream_names :: "'e api \<Rightarrow> options \<Rightarrow> jsc \<Rightarrow> ('e, gerr + unit) io" where
  "verify_stream_names A config js =
     bnd (call_plain ''StreamNames'' (js_stream_names A js)) (\<lambda>(names, err).
     require_listed ''stream names'' (streamNameListed names err (op_stream config)) (op_stream config) (
     try_call (call_sum ''StreamNameBySubject'' (js_name_by_subject A js (op_prefix config @ ''.ocaml'')))
       (wrap ''stream name by subject'') (\<lambda>streamBySubject.
     require (unless (streamBySubject = op_stream config)
       (Errorf ''stream name by subject returned %q, expected %q'' [AStr streamBySubject, AStr (op_stream config)])) (
     ret (Inr ())))))"

definition verify_consumer :: "'e api \<Rightarrow> strm \<Rightarrow> ('e, gerr + cons) io" where
  "verify_consumer A stream =
     try_call (call_sum ''Stream.Consumer'' (stream_consumer A stream adminConsumerName))
       (wrap ''consumer lookup'') (\<lambda>consumer.
     try_call (call_sum ''Consumer.Info'' (consumer_get_info A consumer)) (wrap ''consumer info'') (\<lambda>consumerInfo.
     require (unless (ci_Name consumerInfo = adminConsumerName)
       (Errorf ''consumer info named %q, expected %q'' [AStr (ci_Name consumerInfo), AStr adminConsumerName])) (
     require (unless (cc_MaxDeliver (ci_Config consumerInfo) = 5)
       (Errorf ''consumer max deliver was %d, expected 5'' [AInt (cc_MaxDeliver (ci_Config consumerInfo))])) (
     bnd (call_plain ''ConsumerNames'' (stream_consumer_names A stream)) (\<lambda>(names, err).
     require_listed ''consumer names'' (consumerNameListed names err adminConsumerName) adminConsumerName (
     ret (Inr consumer)))))))"

text \<open>The loop over the batch keeps its one message and refuses a second.\<close>

fun single_message :: "msg list \<Rightarrow> msg option \<Rightarrow> gerr + msg option" where
  "single_message [] message = Inr message"
| "single_message (candidate # batch) message =
     (case message of
        Some _ \<Rightarrow> Inl (Errorf ''fetch after reset returned more than one message'' [])
      | None \<Rightarrow> single_message batch (Some candidate))"

definition check_reset_message :: "'e api \<Rightarrow> msg \<Rightarrow> check" where
  "check_reset_message A m =
     (case Metadata A m of
        Inl err \<Rightarrow> Some (wrap ''metadata after reset'' err)
      | Inr md \<Rightarrow> checks [
          unless (md_StreamSeq md = 7)
            (Errorf ''reset delivered stream sequence %d, expected 7'' [AInt (uint (md_StreamSeq md))]),
          unless (msg_Data m = ''admin-message-7'')
            (Errorf ''reset delivered payload %q, expected %q'' [AStr (msg_Data m), AStr ''admin-message-7''])])"

definition FetchBatch :: "'e api \<Rightarrow> cons \<Rightarrow> nat \<Rightarrow> nat \<Rightarrow> ('e, gerr + msg list \<times> check) io" where
  "FetchBatch A consumer n wait =
     perform (\<lambda>r. EDeliver consumer (case r of Inr ([m], _) \<Rightarrow> Some m | _ \<Rightarrow> None)) (consumer_fetch A consumer n wait)"

definition verify_reset :: "'e api \<Rightarrow> cons \<Rightarrow> ('e, gerr + unit) io" where
  "verify_reset A consumer =
     try_call (FetchBatch A consumer 1 waitTimeout) (wrap ''fetch after reset'') (\<lambda>(batch, batchError).
     (case single_message batch None of
        Inl err \<Rightarrow> ret (Inl err)
      | Inr message \<Rightarrow>
          require (map_option (wrap ''fetch after reset'') batchError) (
          (case message of
             None \<Rightarrow> ret (Inl (Errorf ''fetch after reset returned no message'' []))
           | Some m \<Rightarrow>
               require (check_reset_message A m) (
               must (Ack A m) (wrap ''ack after reset'') (
               ret (Inr ())))))))"

definition verifyJetStreamAdmin :: "'e api \<Rightarrow> jsc \<Rightarrow> options \<Rightarrow> ('e, gerr + unit) io" where
  "verifyJetStreamAdmin A js config =
     try_call (verify_account A js) id (\<lambda>_.
     try_call (verify_stream A config js) id (\<lambda>stream.
     try_call (verify_stream_names A config js) id (\<lambda>_.
     try_call (verify_consumer A stream) id (\<lambda>consumer.
     verify_reset A consumer))))"

section \<open>The script\<close>

definition admin_create :: "'e api \<Rightarrow> options \<Rightarrow> conn \<Rightarrow> ('e, gerr + jsc) io" where
  "admin_create A config c =
     try_call (call_sum ''js.New'' (js_new A c)) (wrap ''JetStream context'') (\<lambda>js.
     try_call (call_sum ''CreateStream'' (js_create_stream A js (stream_zero\<lparr>sc_Name := op_stream config,
         sc_Subjects := [op_prefix config @ ''.go'', op_prefix config @ ''.ocaml''],
         sc_Storage := MemoryStorage\<rparr>))) (wrap ''create stream'') (\<lambda>stream.
     bnd (call_plain ''CachedInfo'' (stream_cached_info A stream)) (\<lambda>info.
     require (created_stream config info) (
     try_call (call_sum ''CreateOrUpdateConsumer'' (stream_set_consumer A stream (consumer_zero\<lparr>
         cc_Name := adminConsumerName, cc_Durable := adminConsumerName, cc_DeliverPolicy := DeliverAllPolicy,
         cc_AckPolicy := AckExplicitPolicy, cc_FilterSubject := op_prefix config @ ''.ocaml'',
         cc_MemoryStorage := True\<rparr>))) (wrap ''create Go consumer'') (\<lambda>_.
     ret (Inr js))))))"

fun admin_messages :: "'e api \<Rightarrow> options \<Rightarrow> jsc \<Rightarrow> nat list \<Rightarrow> ('e, gerr + unit) io" where
  "admin_messages A config js [] = ret (Inr ())"
| "admin_messages A config js (sequence # sequences) =
     try_call (JSPublishMsg A js (data_msg (op_prefix config @ ''.ocaml'') (''admin-message-'' @ show_nat sequence)) None)
       (\<lambda>err. Errorf ''publish administration message %d: %w'' [AInt (int sequence), AWrap err]) (\<lambda>_.
     admin_messages A config js sequences)"

definition admin_announce :: "'e api \<Rightarrow> options \<Rightarrow> conn \<Rightarrow> ('e, gerr + unit) io" where
  "admin_announce A config c =
     must (Subscribe A c (op_prefix config @ ''.start'') ''startMessages'') (wrap ''subscribe start'') (
     must (Subscribe A c (op_prefix config @ ''.admin-done'') ''doneMessages'')
       (wrap ''subscribe administration completion'') (
     must (Flush A c) (wrap ''flush setup'') (
     must (WriteFile A (op_ready config) ready_content) (wrap ''write ready file'') (
     try_call (waitMessage A ''administration start request'' ''startMessages'') id (\<lambda>startMessage.
     must (Respond A startMessage ''started'') (wrap ''respond to administration start'') (
     ret (Inr ())))))))"

definition admin_finish :: "'e api \<Rightarrow> options \<Rightarrow> conn \<Rightarrow> jsc \<Rightarrow> ('e, gerr + unit) io" where
  "admin_finish A config c js =
     try_call (waitMessage A ''administration completion request'' ''doneMessages'') id (\<lambda>doneMessage.
     require (unless (msg_Data doneMessage = ''done'')
       (Errorf ''administration completion payload was %q, expected %q'' [AStr (msg_Data doneMessage), AStr ''done''])) (
     try_call (verifyJetStreamAdmin A js config) id (\<lambda>_.
     must (Respond A doneMessage ''verified'') (wrap ''respond to administration completion'') (
     must (Flush A c) (wrap ''flush administration completion'') (
     must (Drain A c) (wrap ''drain'') (
     ret (Inr ())))))))"

definition runJetStreamAdminPeer :: "'e api \<Rightarrow> options \<Rightarrow> ('e, check) io" where
  "runJetStreamAdminPeer A config = as_check (
     try_call (connectOptions A) id (\<lambda>authOptions.
     try_call (Connect A (op_server config)
         (OName ''ocaml-nats JetStream administration interop peer'' # authOptions))
       (wrap ''connect'') (\<lambda>c.
     deferred (Close A c) (
       try_call (admin_create A config c) id (\<lambda>js.
       try_call (admin_messages A config js [1..<11]) id (\<lambda>_.
       try_call (admin_announce A config c) id (\<lambda>_.
       admin_finish A config c js)))))))"

end
