(* ===== verification/GoDuration.thy ===== *)
theory GoDuration
  imports GoBase
begin

text \<open>
  \<open>time.ParseDuration\<close>, which the Key-Value peer uses to read the TTL header the client wrote.
  Durations are signed 64-bit nanoseconds. The fraction of a number is scaled in floating point
  by the standard library: that product is the parameter \<open>fraction\<close> (digits, unit, scale).
\<close>

definition duration_limit :: nat where "duration_limit = 2 ^ 63"

text \<open>\<open>leadingInt\<close>: the digits at the front, or an overflow.\<close>

fun leading_int :: "nat \<Rightarrow> string \<Rightarrow> (nat \<times> string) option" where
  "leading_int x [] = Some (x, [])"
| "leading_int x (c # s) =
     (if \<not> is_digit c then Some (x, c # s)
      else if x > duration_limit div 10 then None
      else if x * 10 + digit_value c > duration_limit then None
      else leading_int (x * 10 + digit_value c) s)"

text \<open>\<open>leadingFraction\<close>: digits that no longer fit are read and dropped.\<close>

fun leading_fraction :: "nat \<Rightarrow> nat \<Rightarrow> bool \<Rightarrow> string \<Rightarrow> nat \<times> nat \<times> string" where
  "leading_fraction x scale overflow [] = (x, scale, [])"
| "leading_fraction x scale overflow (c # s) =
     (if \<not> is_digit c then (x, scale, c # s)
      else if overflow then leading_fraction x scale True s
      else if x > (duration_limit - 1) div 10 then leading_fraction x scale True s
      else if x * 10 + digit_value c > duration_limit then leading_fraction x scale True s
      else leading_fraction (x * 10 + digit_value c) (scale * 10) False s)"

text \<open>The table of units; the micro sign and the Greek letter are two bytes each.\<close>

definition unit_map :: "(string \<times> nat) list" where
  "unit_map = [(''ns'', 1), (''us'', 1000), ([CHR 0xC2, CHR 0xB5, CHR ''s''], 1000),
     ([CHR 0xCE, CHR 0xBC, CHR ''s''], 1000), (''ms'', 1000000), (''s'', 1000000000),
     (''m'', 60000000000), (''h'', 3600000000000)]"

definition unit_char :: "char \<Rightarrow> bool" where
  "unit_char c \<longleftrightarrow> c \<noteq> CHR ''.'' \<and> \<not> is_digit c"

definition invalid_duration :: "string \<Rightarrow> gerr" where
  "invalid_duration orig = New (''time: invalid duration '' @ orig)"

text \<open>
  One number with its unit, in nanoseconds, and what follows: the body of the loop.
\<close>

definition duration_term :: "(nat \<Rightarrow> nat \<Rightarrow> nat \<Rightarrow> nat) \<Rightarrow> string \<Rightarrow> string \<Rightarrow> gerr + nat \<times> string" where
  "duration_term fraction orig s =
     (if \<not> (case s of [] \<Rightarrow> False | c # _ \<Rightarrow> c = CHR ''.'' \<or> is_digit c) then Inl (invalid_duration orig)
      else case leading_int 0 s of
        None \<Rightarrow> Inl (invalid_duration orig)
      | Some (v, s1) \<Rightarrow>
          (let pre = length s \<noteq> length s1;
               dot = (case s1 of [] \<Rightarrow> False | c # _ \<Rightarrow> c = CHR ''.'');
               (f, scale, s2) = (if dot then leading_fraction 0 1 False (tl s1) else (0, 1, s1));
               post = dot \<and> length (tl s1) \<noteq> length s2;
               u = takeWhile unit_char s2;
               s3 = dropWhile unit_char s2
           in if \<not> pre \<and> \<not> post then Inl (invalid_duration orig)
              else if u = [] then Inl (New (''time: missing unit in duration '' @ orig))
              else case map_of unit_map u of
                None \<Rightarrow> Inl (New (''time: unknown unit '' @ u @ '' in duration '' @ orig))
              | Some unit \<Rightarrow>
                  if v > duration_limit div unit then Inl (invalid_duration orig)
                  else if f > 0 then
                    (if v * unit + fraction f unit scale > duration_limit then Inl (invalid_duration orig)
                     else Inr (v * unit + fraction f unit scale, s3))
                  else Inr (v * unit, s3)))"

lemma leading_int_length: "leading_int x s = Some (v, r) \<Longrightarrow> length r \<le> length s"
  by (induction x s rule: leading_int.induct) (auto split: if_splits)

lemma leading_fraction_length: "leading_fraction x sc ov s = (f, scale, r) \<Longrightarrow> length r \<le> length s"
  by (induction x sc ov s rule: leading_fraction.induct) (auto split: if_splits)

lemma dropWhile_shorter: "takeWhile P s \<noteq> [] \<Longrightarrow> length (dropWhile P s) < length s"
  by (cases s) (auto split: if_splits simp: length_dropWhile_le less_Suc_eq_le)

lemma duration_term_length:
  assumes "duration_term fraction orig s = Inr (v, s')"
  shows "length s' < length s"
proof -
  obtain n s1 where n: "leading_int 0 s = Some (n, s1)"
    using assms by (auto simp: duration_term_def split: if_splits option.splits)
  define dot where "dot = (case s1 of [] \<Rightarrow> False | c # _ \<Rightarrow> c = CHR ''.'')"
  obtain f scale s2 where f: "(if dot then leading_fraction 0 1 False (tl s1) else (0, 1, s1)) = (f, scale, s2)"
    by (cases "if dot then leading_fraction 0 1 False (tl s1) else (0, 1, s1)")
  have "takeWhile unit_char s2 \<noteq> []" and s': "s' = dropWhile unit_char s2"
    using assms n f by (auto simp: duration_term_def dot_def [symmetric] Let_def split: if_splits option.splits)
  then have "length s' < length s2" by (simp add: dropWhile_shorter)
  also have "length s2 \<le> length s1"
    using f leading_fraction_length [of 0 1 False "tl s1" f scale s2] by (cases dot) auto
  also have "length s1 \<le> length s" using n by (rule leading_int_length)
  finally show ?thesis .
qed

function duration_terms :: "(nat \<Rightarrow> nat \<Rightarrow> nat \<Rightarrow> nat) \<Rightarrow> string \<Rightarrow> nat \<Rightarrow> string \<Rightarrow> gerr + nat" where
  "duration_terms fraction orig d s =
     (if s = [] then Inr d
      else case duration_term fraction orig s of
        Inl err \<Rightarrow> Inl err
      | Inr (v, s') \<Rightarrow>
          if d + v > duration_limit then Inl (invalid_duration orig)
          else duration_terms fraction orig (d + v) s')"
  by pat_completeness auto
termination
  by (relation "measure (\<lambda>(fraction, orig, d, s). length s)") (auto dest: duration_term_length)

declare duration_terms.simps [simp del]

definition ParseDuration :: "(nat \<Rightarrow> nat \<Rightarrow> nat \<Rightarrow> nat) \<Rightarrow> string \<Rightarrow> gerr + int" where
  "ParseDuration fraction orig =
     (let signed = (case orig of [] \<Rightarrow> False | c # _ \<Rightarrow> c = CHR ''-'' \<or> c = CHR ''+'');
          neg = (signed \<and> hd orig = CHR ''-'');
          s = (if signed then tl orig else orig)
      in if s = ''0'' then Inr 0
         else if s = [] then Inl (invalid_duration orig)
         else case duration_terms fraction orig 0 s of
           Inl err \<Rightarrow> Inl err
         | Inr d \<Rightarrow>
             if neg then Inr (- int d)
             else if d > duration_limit - 1 then Inl (invalid_duration orig)
             else Inr (int d))"

section \<open>Numbers with a unit\<close>

lemma leading_int_digits:
  assumes "\<forall>c \<in> set ds. is_digit c" and "dec_value x ds \<le> duration_limit"
    and "case s of [] \<Rightarrow> True | c # _ \<Rightarrow> \<not> is_digit c"
  shows "leading_int x (ds @ s) = Some (dec_value x ds, s)"
  using assms
proof (induction ds arbitrary: x)
  case Nil
  then show ?case by (cases s) auto
next
  case (Cons d ds)
  have step: "x * 10 + digit_value d \<le> dec_value x (d # ds)"
    using dec_value_ge [of "x * 10 + digit_value d" ds] by (simp add: mult.commute)
  with Cons.prems have "x * 10 + digit_value d \<le> duration_limit" by linarith
  moreover from this have "x \<le> duration_limit div 10" by linarith
  ultimately show ?case using Cons by (auto simp: mult.commute)
qed

text \<open>A whole number of nanoseconds below the limit is read back exactly.\<close>

lemma ParseDuration_ns:
  assumes "n < duration_limit"
  shows "ParseDuration fraction (show_nat n @ ''ns'') = Inr (int n)"
proof -
  let ?s = "show_nat n @ ''ns''"
  obtain d ds where sn: "show_nat n = d # ds" by (cases "show_nat n") auto
  have dig: "\<forall>c \<in> set (show_nat n). is_digit c" by (simp add: show_nat_digits)
  with sn have d: "is_digit d" by auto
  then have dn: "d \<noteq> CHR ''-''" "d \<noteq> CHR ''+''" by (auto simp: is_digit_def)
  have nn: "\<not> is_digit CHR ''n''" by (simp add: is_digit_def)
  have li: "leading_int 0 ?s = Some (n, ''ns'')"
    using leading_int_digits [OF dig, of 0 "''ns''"] assms nn by (simp add: dec_value_show_nat)
  have uc: "unit_char CHR ''n''" "unit_char CHR ''s''"
    by (simp_all add: unit_char_def is_digit_def)
  have term1: "duration_term fraction ?s ?s = Inr (n, [])"
    using li d assms by (simp add: duration_term_def sn uc unit_map_def del: leading_int.simps)
  have "duration_terms fraction ?s 0 ?s = Inr n"
    using term1 assms by (simp add: duration_terms.simps [of fraction ?s 0 ?s] duration_terms.simps [of fraction ?s n "[]"])
  then show ?thesis
    using assms dn by (simp add: ParseDuration_def sn)
qed

end
