(* ===== verification/GoKeyValue.thy ===== *)
theory GoKeyValue
  imports GoJetStream GoDuration
begin

text \<open>
  The Key-Value peer (\<open>jetstream_kv.go\<close>): a conversation in which each side writes entries the
  other checks, revision by revision. Bucket operations run under a context of ten seconds each;
  the cancel function is always called right after, so the context only bounds the call.
\<close>

definition kvGoKey :: string where "kvGoKey = ''go.key''"
definition kvWatchOCamlKey :: string where "kvWatchOCamlKey = ''watch.ocaml''"
definition kvWatchGoKey :: string where "kvWatchGoKey = ''watch.go''"
definition kvPurgeKey :: string where "kvPurgeKey = ''purge.key''"
definition kvOCamlTTLKey :: string where "kvOCamlTTLKey = ''ttl.ocaml''"
definition kvGoTTLKey :: string where "kvGoTTLKey = ''ttl.go''"
definition kvPurgeDeletesKey :: string where "kvPurgeDeletesKey = ''purge.deletes''"

definition minute :: int where "minute = 60000000000"

definition ErrKeyNotFound :: gerr where "ErrKeyNotFound = Lib ''jetstream.ErrKeyNotFound''"

section \<open>Bucket operations\<close>

definition KVPut :: "'e api \<Rightarrow> kvh \<Rightarrow> string \<Rightarrow> string \<Rightarrow> ('e, gerr + u64) io" where
  "KVPut A kv key val = op_sum ''Put'' [key, val] (kv_put A kv key val)"

definition KVGet :: "'e api \<Rightarrow> kvh \<Rightarrow> string \<Rightarrow> ('e, gerr + kv_entry) io" where
  "KVGet A kv key = op_sum ''Get'' [key] (kv_get A kv key)"

definition KVUpdate :: "'e api \<Rightarrow> kvh \<Rightarrow> string \<Rightarrow> string \<Rightarrow> u64 \<Rightarrow> ('e, gerr + u64) io" where
  "KVUpdate A kv key val revision = op_sum ''Update'' [key, val] (kv_update A kv key val revision)"

definition KVCreate :: "'e api \<Rightarrow> kvh \<Rightarrow> string \<Rightarrow> string \<Rightarrow> int \<Rightarrow> ('e, gerr + u64) io" where
  "KVCreate A kv key val ttl = op_sum ''Create'' [key, val] (kv_create_key A kv key val ttl)"

definition KVDelete :: "'e api \<Rightarrow> kvh \<Rightarrow> string \<Rightarrow> u64 \<Rightarrow> ('e, check) io" where
  "KVDelete A kv key revision = op_check ''Delete'' [key] (kv_delete_key A kv key revision)"

definition KVPurge :: "'e api \<Rightarrow> kvh \<Rightarrow> string \<Rightarrow> u64 \<Rightarrow> int option \<Rightarrow> ('e, check) io" where
  "KVPurge A kv key revision ttl = op_check ''Purge'' [key] (kv_purge A kv key revision ttl)"

definition KVHistory :: "'e api \<Rightarrow> kvh \<Rightarrow> string \<Rightarrow> ('e, gerr + kv_entry list) io" where
  "KVHistory A kv key = op_sum ''History'' [key] (kv_history A kv key)"

text \<open>The entry a watcher delivers is recorded with its key and value.\<close>

definition waitKeyValueUpdate :: "'e api \<Rightarrow> string \<Rightarrow> wat \<Rightarrow> ('e, gerr + kv_entry) io" where
  "waitKeyValueUpdate A label watcher =
     bnd (perform (\<lambda>r. EOp ''Updates'' (case r of Some (Some entry) \<Rightarrow> [ke_Key entry, ke_Value entry] | _ \<Rightarrow> [])
            (r \<noteq> None)) (recv_entry A watcher waitTimeout)) (\<lambda>r. ret (case r of
       Some None \<Rightarrow> Inl (Errorf ''%s watcher closed before an update'' [AStr label])
     | Some (Some entry) \<Rightarrow> Inr entry
     | None \<Rightarrow> Inl (timed_out label)))"

definition checkKeyValueMessage ::
  "'e api \<Rightarrow> string \<Rightarrow> strm \<Rightarrow> string \<Rightarrow> string \<Rightarrow> int \<Rightarrow> string \<Rightarrow> ('e, gerr + unit) io" where
  "checkKeyValueMessage A label stream bucket key expectedTTL expectedOperation =
     (let subj = ''$KV.'' @ bucket @ ''.'' @ key in
      try_call (op_sum ''GetLastMsgForSubject'' [subj] (stream_last_msg A stream subj))
        (\<lambda>err. Errorf ''%s get raw message: %w'' [AStr label, AWrap err]) (\<lambda>message.
      let ttlText = hdr_Get message ''Nats-TTL'' in
      (case ParseDuration (duration_fraction A) ttlText of
         Inl err \<Rightarrow> ret (Inl (Errorf ''%s TTL header %q was not a duration: %w'' [AStr label, AStr ttlText, AWrap err]))
       | Inr ttl \<Rightarrow>
           require (unless (ttl = expectedTTL)
             (Errorf ''%s TTL header was %q, expected duration %s'' [AStr label, AStr ttlText, AInt expectedTTL])) (
           require (unless (hdr_Get message ''KV-Operation'' = expectedOperation)
             (Errorf ''%s operation header was %q, expected %q''
               [AStr label, AStr (hdr_Get message ''KV-Operation''), AStr expectedOperation])) (
           ret (Inr ()))))))"

text \<open>A lookup that must not find the key: any other error is reported, and so is an entry.\<close>

definition key_gone :: "'e api \<Rightarrow> kvh \<Rightarrow> string \<Rightarrow> string \<Rightarrow> string \<Rightarrow> ('e, gerr + 'b) io \<Rightarrow> ('e, gerr + 'b) io" where
  "key_gone A kv key visible other k =
     bnd (KVGet A kv key) (\<lambda>r. case r of
       Inr _ \<Rightarrow> ret (Inl (New visible))
     | Inl err \<Rightarrow> if is_err err ErrKeyNotFound then k else ret (Inl (Errorf other [AWrap err])))"

section \<open>Setup\<close>

definition kv_config_of :: "options \<Rightarrow> bool \<Rightarrow> kv_config" where
  "kv_config_of config markerTTLSupported = \<lparr>kc_Bucket = op_bucket config, kc_History = kvHistory,
     kc_Storage = MemoryStorage, kc_Replicas = 0, kc_LimitMarkerTTL = (if markerTTLSupported then minute else 0)\<rparr>"

definition kv_setup :: "'e api \<Rightarrow> options \<Rightarrow> conn \<Rightarrow> ('e, gerr + bool \<times> jsc \<times> kvh \<times> strm) io" where
  "kv_setup A config c =
     bnd (call_plain ''ConnectedServerVersion'' (server_version A c)) (\<lambda>version.
     (case keyValueMarkerTTLSupported version of
        Inl err \<Rightarrow> ret (Inl err)
      | Inr markerTTLSupported \<Rightarrow>
          let markerTTL = (if markerTTLSupported then minute else 0) in
          try_call (call_sum ''js.New'' (js_new A c)) (wrap ''JetStream context'') (\<lambda>js.
          try_call (op_sum ''CreateKeyValue'' [op_bucket config]
              (kv_create A js (kv_config_of config markerTTLSupported))) (wrap ''create Key-Value bucket'') (\<lambda>kv.
          require (unless (kv_bucket A kv = op_bucket config)
            (Errorf ''created Key-Value bucket %q, expected %q'' [AStr (kv_bucket A kv), AStr (op_bucket config)])) (
          try_call (call_sum ''Status'' (kv_get_status A kv)) (wrap ''initial Key-Value status'') (\<lambda>status.
          require (checkKeyValueStatus ''initial Key-Value status'' status (op_bucket config) 0 markerTTL) (
          try_call (call_sum ''Stream'' (js_stream A js (''KV_'' @ op_bucket config)))
            (wrap ''open Key-Value stream'') (\<lambda>stream.
          ret (Inr (markerTTLSupported, js, kv, stream)))))))))) "

text \<open>The fourteen subscriptions: suffix, channel and what the error is labelled with.\<close>

definition kv_subscriptions :: "(string \<times> chan \<times> string) list" where
  "kv_subscriptions =
     [(''.start'', ''startMessages'', ''subscribe Key-Value start''),
      (''.ocaml-updated'', ''ocamlUpdatedMessages'', ''subscribe Key-Value update barrier''),
      (''.ocaml-deleted'', ''ocamlDeletedMessages'', ''subscribe Key-Value delete barrier''),
      (''.go-watch-ready'', ''goWatchReadyMessages'', ''subscribe Key-Value watch barrier''),
      (''.ocaml-watch-written'', ''ocamlWatchWrittenMessages'', ''subscribe Key-Value watch update barrier''),
      (''.go-write'', ''goWriteMessages'', ''subscribe Key-Value Go write''),
      (''.ocaml-purge-ready'', ''ocamlPurgeReadyMessages'', ''subscribe Key-Value purge barrier''),
      (''.ocaml-ttl-ready'', ''ocamlTTLReadyMessages'', ''subscribe Key-Value OCaml TTL barrier''),
      (''.go-ttl-ready'', ''goTTLReadyMessages'', ''subscribe Key-Value Go TTL barrier''),
      (''.ocaml-purge-ttl-ready'', ''ocamlPurgeTTLReadyMessages'', ''subscribe Key-Value OCaml purge TTL barrier''),
      (''.go-purge-ttl'', ''goPurgeTTLMessages'', ''subscribe Key-Value Go purge TTL''),
      (''.go-purge-deletes-ready'', ''goPurgeDeletesReadyMessages'', ''subscribe Key-Value purge deletes setup''),
      (''.ocaml-purge-deletes-done'', ''ocamlPurgeDeletesDoneMessages'', ''subscribe Key-Value purge deletes completion''),
      (''.done'', ''doneMessages'', ''subscribe Key-Value completion'')]"

fun subscribe_each :: "'e api \<Rightarrow> conn \<Rightarrow> string \<Rightarrow> (string \<times> chan \<times> string) list \<Rightarrow> ('e, gerr + unit) io \<Rightarrow> ('e, gerr + unit) io" where
  "subscribe_each A c prefix [] k = k"
| "subscribe_each A c prefix ((suffix, messages, label) # subs) k =
     must (Subscribe A c (prefix @ suffix) messages) (wrap label) (subscribe_each A c prefix subs k)"

definition kv_announce :: "'e api \<Rightarrow> options \<Rightarrow> conn \<Rightarrow> bool \<Rightarrow> ('e, gerr + unit) io" where
  "kv_announce A config c markerTTLSupported =
     subscribe_each A c (op_prefix config) kv_subscriptions (
     must (Flush A c) (wrap ''flush Key-Value setup'') (
     must (publishReadyFile A (op_ready config)
         (if markerTTLSupported then ''marker-ttl'' @ [LF] else ''baseline'' @ [LF])) (wrap ''write ready file'') (
     ret (Inr ()))))"

section \<open>The conversation\<close>

definition kv_first_put :: "'e api \<Rightarrow> options \<Rightarrow> conn \<Rightarrow> kvh \<Rightarrow> ('e, gerr + u64) io" where
  "kv_first_put A config c kv =
     try_call (waitMessage A ''Key-Value start request'' ''startMessages'') id (\<lambda>startMessage.
     require (validateKeyValueControl ''Key-Value start'' ''start'' startMessage) (
     try_call (KVPut A kv kvGoKey ''from-go'') (wrap ''put Go Key-Value entry'') (\<lambda>goRevision.
     require (unless (goRevision = 1)
       (Errorf ''Go Key-Value entry revision was %d, expected 1'' [AInt (uint goRevision)])) (
     try_call (respondKeyValueControl A c ''Key-Value start'' startMessage ''started'') id (\<lambda>_.
     ret (Inr goRevision))))))"

definition kv_updated :: "'e api \<Rightarrow> options \<Rightarrow> conn \<Rightarrow> kvh \<Rightarrow> u64 \<Rightarrow> ('e, gerr + unit) io" where
  "kv_updated A config c kv goRevision =
     try_call (waitMessage A ''OCaml Key-Value update'' ''ocamlUpdatedMessages'') id (\<lambda>updatedMessage.
     require (validateKeyValueControl ''OCaml Key-Value update'' ''updated'' updatedMessage) (
     try_call (KVGet A kv kvGoKey) (wrap ''get OCaml-updated Key-Value entry'') (\<lambda>entry.
     require (checkKeyValueEntry ''OCaml-updated Key-Value entry'' entry (op_bucket config) kvGoKey ''from-ocaml'' 2 KeyValuePut) (
     must_fail (KVUpdate A kv kvGoKey ''stale'' goRevision) (New ''stale Go Key-Value update unexpectedly succeeded'') (
     try_call (KVHistory A kv kvGoKey) (wrap ''read Go Key-Value history'') (\<lambda>history.
     (case history of
        [h0, h1] \<Rightarrow>
          require (checkKeyValueEntry ''Go Key-Value history first'' h0 (op_bucket config) kvGoKey ''from-go'' 1 KeyValuePut) (
          require (checkKeyValueEntry ''Go Key-Value history second'' h1 (op_bucket config) kvGoKey ''from-ocaml'' 2 KeyValuePut) (
          respondKeyValueControl A c ''OCaml Key-Value update'' updatedMessage ''go-validated''))
      | _ \<Rightarrow> ret (Inl (Errorf ''Go Key-Value history had %d entries, expected 2'' [AInt (int (length history))])))))))))"

definition kv_deleted :: "'e api \<Rightarrow> options \<Rightarrow> conn \<Rightarrow> kvh \<Rightarrow> ('e, gerr + unit) io" where
  "kv_deleted A config c kv =
     try_call (waitMessage A ''OCaml Key-Value delete'' ''ocamlDeletedMessages'') id (\<lambda>deletedMessage.
     require (validateKeyValueControl ''OCaml Key-Value delete'' ''deleted'' deletedMessage) (
     key_gone A kv kvGoKey ''deleted Go Key-Value entry was still visible'' ''deleted Go Key-Value entry returned %w'' (
     try_call (KVHistory A kv kvGoKey) (wrap ''read deleted Go Key-Value history'') (\<lambda>history.
     (case history of
        [h0, h1, h2] \<Rightarrow>
          require (checkKeyValueEntry ''Go Key-Value delete history'' h2 (op_bucket config) kvGoKey [] 3 KeyValueDelete) (
          respondKeyValueControl A c ''OCaml Key-Value delete'' deletedMessage ''delete-validated'')
      | _ \<Rightarrow> ret (Inl (Errorf ''deleted Go Key-Value history had %d entries, expected 3'' [AInt (int (length history))])))))))"

definition kv_watched :: "'e api \<Rightarrow> options \<Rightarrow> conn \<Rightarrow> wat \<Rightarrow> ('e, gerr + unit) io" where
  "kv_watched A config c watcher =
     must (Flush A c) (wrap ''flush Go Key-Value watch'') (
     try_call (waitMessage A ''OCaml Key-Value watch readiness'' ''goWatchReadyMessages'') id (\<lambda>watchReadyMessage.
     try_call (respondKeyValueControl A c ''OCaml Key-Value watch readiness'' watchReadyMessage ''ready'') id (\<lambda>_.
     try_call (waitMessage A ''OCaml Key-Value watch update'' ''ocamlWatchWrittenMessages'') id (\<lambda>watchWrittenMessage.
     require (validateKeyValueControl ''OCaml Key-Value watch update'' ''written'' watchWrittenMessage) (
     try_call (waitKeyValueUpdate A ''OCaml Key-Value watch update'' watcher) id (\<lambda>watchEntry.
     require (checkKeyValueEntry ''OCaml Key-Value watch entry'' watchEntry (op_bucket config) kvWatchOCamlKey
       ''from-ocaml-watch'' 4 KeyValuePut) (
     try_call (respondKeyValueControl A c ''OCaml Key-Value watch update'' watchWrittenMessage ''watch-seen'') id (\<lambda>_.
     must (release ''watcher'' watcher (watch_stop A watcher)) (wrap ''stop Go Key-Value watch'') (
     ret (Inr ()))))))))))"

definition kv_go_write :: "'e api \<Rightarrow> conn \<Rightarrow> kvh \<Rightarrow> ('e, gerr + unit) io" where
  "kv_go_write A c kv =
     try_call (waitMessage A ''OCaml request for Go Key-Value write'' ''goWriteMessages'') id (\<lambda>goWriteMessage.
     require (validateKeyValueControl ''OCaml request for Go Key-Value write'' ''write'' goWriteMessage) (
     try_call (KVPut A kv kvWatchGoKey ''from-go-watch'') (wrap ''put Go watch Key-Value entry'') (\<lambda>goWatchRevision.
     require (unless (goWatchRevision = 5)
       (Errorf ''Go watch Key-Value entry revision was %d, expected 5'' [AInt (uint goWatchRevision)])) (
     respondKeyValueControl A c ''OCaml request for Go Key-Value write'' goWriteMessage ''written''))))"

definition kv_purged :: "'e api \<Rightarrow> options \<Rightarrow> conn \<Rightarrow> kvh \<Rightarrow> ('e, gerr + unit) io" where
  "kv_purged A config c kv =
     try_call (waitMessage A ''OCaml Key-Value purge setup'' ''ocamlPurgeReadyMessages'') id (\<lambda>purgeMessage.
     require (validateKeyValueControl ''OCaml Key-Value purge setup'' ''purge'' purgeMessage) (
     must (KVPurge A kv kvPurgeKey 7 None) (wrap ''purge OCaml Key-Value entry'') (
     try_call (KVHistory A kv kvPurgeKey) (wrap ''read purged Key-Value history'') (\<lambda>history.
     (case history of
        [marker] \<Rightarrow>
          require (checkKeyValueEntry ''Go Key-Value purge history'' marker (op_bucket config) kvPurgeKey [] 8 KeyValuePurge) (
          respondKeyValueControl A c ''OCaml Key-Value purge setup'' purgeMessage ''purged'')
      | _ \<Rightarrow> ret (Inl (Errorf ''purged Key-Value history had %d entries, expected 1'' [AInt (int (length history))])))))))"

text \<open>The two halves of the TTL block, run only against a server that supports marker TTLs.\<close>

definition kv_ttl_created :: "'e api \<Rightarrow> options \<Rightarrow> conn \<Rightarrow> kvh \<Rightarrow> strm \<Rightarrow> ('e, gerr + u64) io" where
  "kv_ttl_created A config c kv stream =
     try_call (waitMessage A ''OCaml Key-Value TTL setup'' ''ocamlTTLReadyMessages'') id (\<lambda>ocamlTTLMessage.
     require (validateKeyValueControl ''OCaml Key-Value TTL setup'' ''created'' ocamlTTLMessage) (
     try_call (checkKeyValueMessage A ''OCaml Key-Value TTL entry'' stream (op_bucket config) kvOCamlTTLKey minute []) id (\<lambda>_.
     try_call (respondKeyValueControl A c ''OCaml Key-Value TTL setup'' ocamlTTLMessage ''go-ttl-validated'') id (\<lambda>_.
     try_call (waitMessage A ''Go Key-Value TTL setup'' ''goTTLReadyMessages'') id (\<lambda>goTTLMessage.
     require (validateKeyValueControl ''Go Key-Value TTL setup'' ''write'' goTTLMessage) (
     try_call (KVCreate A kv kvGoTTLKey ''from-go-ttl'' minute) (wrap ''create Go TTL Key-Value entry'') (\<lambda>goTTLRevision.
     require (unless (goTTLRevision = 10)
       (Errorf ''Go TTL Key-Value entry revision was %d, expected 10'' [AInt (uint goTTLRevision)])) (
     try_call (respondKeyValueControl A c ''Go Key-Value TTL setup'' goTTLMessage ''written'') id (\<lambda>_.
     ret (Inr goTTLRevision))))))))))"

definition kv_ttl_purged :: "'e api \<Rightarrow> options \<Rightarrow> conn \<Rightarrow> kvh \<Rightarrow> strm \<Rightarrow> u64 \<Rightarrow> ('e, gerr + unit) io" where
  "kv_ttl_purged A config c kv stream goTTLRevision =
     try_call (waitMessage A ''OCaml Key-Value purge TTL'' ''ocamlPurgeTTLReadyMessages'') id (\<lambda>ocamlPurgeTTLMessage.
     require (validateKeyValueControl ''OCaml Key-Value purge TTL'' ''purged'' ocamlPurgeTTLMessage) (
     try_call (checkKeyValueMessage A ''OCaml Key-Value purge TTL marker'' stream (op_bucket config) kvOCamlTTLKey minute ''PURGE'') id (\<lambda>_.
     try_call (respondKeyValueControl A c ''OCaml Key-Value purge TTL'' ocamlPurgeTTLMessage ''go-purge-ttl-validated'') id (\<lambda>_.
     try_call (waitMessage A ''Go Key-Value purge TTL'' ''goPurgeTTLMessages'') id (\<lambda>goPurgeTTLMessage.
     require (validateKeyValueControl ''Go Key-Value purge TTL'' ''purge'' goPurgeTTLMessage) (
     must (KVPurge A kv kvGoTTLKey goTTLRevision (Some minute)) (wrap ''purge Go TTL Key-Value entry'') (
     respondKeyValueControl A c ''Go Key-Value purge TTL'' goPurgeTTLMessage ''purged'')))))))"

text \<open>The revision the next write must get: nine, or thirteen after the TTL block.\<close>

definition kv_ttl :: "'e api \<Rightarrow> options \<Rightarrow> conn \<Rightarrow> kvh \<Rightarrow> strm \<Rightarrow> bool \<Rightarrow> ('e, gerr + u64) io" where
  "kv_ttl A config c kv stream markerTTLSupported =
     (if markerTTLSupported then
        try_call (kv_ttl_created A config c kv stream) id (\<lambda>goTTLRevision.
        try_call (kv_ttl_purged A config c kv stream goTTLRevision) id (\<lambda>_.
        ret (Inr 13)))
      else ret (Inr 9))"

definition kv_purge_deletes :: "'e api \<Rightarrow> conn \<Rightarrow> kvh \<Rightarrow> u64 \<Rightarrow> ('e, gerr + unit) io" where
  "kv_purge_deletes A c kv putRevision =
     try_call (waitMessage A ''Go Key-Value purge-deletes setup'' ''goPurgeDeletesReadyMessages'') id (\<lambda>purgeDeletesMessage.
     require (validateKeyValueControl ''Go Key-Value purge-deletes setup'' ''prepare'' purgeDeletesMessage) (
     try_call (KVPut A kv kvPurgeDeletesKey ''before-purge-deletes'') (wrap ''put purge-deletes Key-Value entry'') (\<lambda>revision.
     require (unless (revision = putRevision)
       (Errorf ''purge-deletes setup revision was %d, expected %d'' [AInt (uint revision), AInt (uint putRevision)])) (
     must (KVDelete A kv kvPurgeDeletesKey revision) (wrap ''delete purge-deletes Key-Value entry'') (
     try_call (KVHistory A kv kvPurgeDeletesKey) (wrap ''read purge-deletes setup history'') (\<lambda>history.
     (case history of
        [_, marker] \<Rightarrow>
          require (unless (ke_Revision marker = putRevision + 1)
            (Errorf ''purge-deletes marker revision was %d, expected %d''
              [AInt (uint (ke_Revision marker)), AInt (uint (putRevision + 1))])) (
          respondKeyValueControl A c ''Go Key-Value purge-deletes setup'' purgeDeletesMessage ''prepared'')
      | _ \<Rightarrow> ret (Inl (Errorf ''purge-deletes setup history had %d entries, expected 2'' [AInt (int (length history))])))))))))"

definition kv_purge_deletes_done :: "'e api \<Rightarrow> conn \<Rightarrow> kvh \<Rightarrow> ('e, gerr + unit) io" where
  "kv_purge_deletes_done A c kv =
     try_call (waitMessage A ''OCaml Key-Value purge-deletes completion'' ''ocamlPurgeDeletesDoneMessages'') id (\<lambda>doneMessage.
     require (validateKeyValueControl ''OCaml Key-Value purge-deletes completion'' ''done'' doneMessage) (
     key_gone A kv kvPurgeDeletesKey ''purge-deletes marker was still visible'' ''purge-deletes marker lookup returned %w'' (
     respondKeyValueControl A c ''OCaml Key-Value purge-deletes completion'' doneMessage ''go-validated'')))"

definition kv_finish :: "'e api \<Rightarrow> options \<Rightarrow> conn \<Rightarrow> jsc \<Rightarrow> ('e, gerr + unit) io" where
  "kv_finish A config c js =
     try_call (waitMessage A ''Key-Value completion'' ''doneMessages'') id (\<lambda>doneMessage.
     require (validateKeyValueControl ''Key-Value completion'' ''done'' doneMessage) (
     must (op_check ''DeleteKeyValue'' [op_bucket config] (kv_delete A js (op_bucket config)))
       (wrap ''delete Key-Value bucket'') (
     try_call (respondKeyValueControl A c ''Key-Value completion'' doneMessage ''go-validated'') id (\<lambda>_.
     must (Flush A c) (wrap ''flush Key-Value completion'') (
     must (Drain A c) (wrap ''drain Key-Value peer'') (
     ret (Inr ())))))))"

text \<open>What follows the watch; its context is cancelled when the function returns.\<close>

definition kv_after_watch :: "'e api \<Rightarrow> options \<Rightarrow> conn \<Rightarrow> jsc \<Rightarrow> kvh \<Rightarrow> strm \<Rightarrow> bool \<Rightarrow> ('e, gerr + unit) io" where
  "kv_after_watch A config c js kv stream markerTTLSupported =
     try_call (kv_go_write A c kv) id (\<lambda>_.
     try_call (kv_purged A config c kv) id (\<lambda>_.
     try_call (kv_ttl A config c kv stream markerTTLSupported) id (\<lambda>putRevision.
     try_call (kv_purge_deletes A c kv putRevision) id (\<lambda>_.
     try_call (kv_purge_deletes_done A c kv) id (\<lambda>_.
     kv_finish A config c js)))))"

definition watchCancel :: "'e api \<Rightarrow> ('e, unit) io" where
  "watchCancel A = call_plain ''watchCancel'' (watch_cancel A ''watchContext'')"

definition kv_watch_scope :: "'e api \<Rightarrow> options \<Rightarrow> conn \<Rightarrow> jsc \<Rightarrow> kvh \<Rightarrow> strm \<Rightarrow> bool \<Rightarrow> ('e, gerr + unit) io" where
  "kv_watch_scope A config c js kv stream markerTTLSupported =
     bnd (acquire ''watcher'' (kv_watch A kv kvWatchOCamlKey)) (\<lambda>r. case r of
       Inl err \<Rightarrow> bnd (watchCancel A) (\<lambda>_. ret (Inl (wrap ''watch OCaml Key-Value entry'' err)))
     | Inr watcher \<Rightarrow>
         guarded (bnd (watchCancel A) (\<lambda>_. ignore (release ''watcher'' watcher (watch_stop A watcher))))
           (kv_watched A config c watcher)
           (\<lambda>_. deferred (watchCancel A) (kv_after_watch A config c js kv stream markerTTLSupported)))"

definition runJetStreamKeyValuePeer :: "'e api \<Rightarrow> options \<Rightarrow> ('e, check) io" where
  "runJetStreamKeyValuePeer A config = as_check (
     try_call (connectOptions A) id (\<lambda>authOptions.
     try_call (Connect A (op_server config) (OName ''ocaml-nats Key-Value interop peer'' # authOptions))
       (wrap ''connect'') (\<lambda>c.
     deferred (Close A c) (
       try_call (kv_setup A config c) id (\<lambda>(markerTTLSupported, js, kv, stream).
       try_call (kv_announce A config c markerTTLSupported) id (\<lambda>_.
       try_call (kv_first_put A config c kv) id (\<lambda>goRevision.
       try_call (kv_updated A config c kv goRevision) id (\<lambda>_.
       try_call (kv_deleted A config c kv) id (\<lambda>_.
       kv_watch_scope A config c js kv stream markerTTLSupported)))))))))"

end
