(* ===== verification/GoObject.thy ===== *)
theory GoObject
  imports GoKeyValue
begin

text \<open>
  The Object Store peer (\<open>jetstream_object.go\<close>): objects, links, a watch, deletion and sealing.
  The store it creates is deleted on every path: by the script, or by its deferred cleanup.
\<close>

definition objectGoName :: string where "objectGoName = ''go.txt''"
definition objectOCamlName :: string where "objectOCamlName = ''ocaml.txt''"
definition objectGoWatchName :: string where "objectGoWatchName = ''watch.go''"
definition objectOCamlWatchName :: string where "objectOCamlWatchName = ''watch.ocaml''"
definition objectGoLinkName :: string where "objectGoLinkName = ''go-link''"
definition objectOCamlLinkName :: string where "objectOCamlLinkName = ''ocaml-link''"

definition ErrObjectNotFound :: gerr where "ErrObjectNotFound = Lib ''jetstream.ErrObjectNotFound''"

text \<open>
  Reading a field through a \<open>nil\<close> pointer is a run-time panic: the deferred calls run and the
  program dies. It is kept apart from every error the script returns.
\<close>

definition nil_dereference :: gerr where
  "nil_dereference = Lib ''runtime error: invalid memory address or nil pointer dereference''"

section \<open>Store operations\<close>

definition PutString :: "'e api \<Rightarrow> objh \<Rightarrow> string \<Rightarrow> string \<Rightarrow> ('e, gerr + object_info option) io" where
  "PutString A store name data = op_sum ''PutString'' [name, data] (obj_put_string A store name data)"

definition GetString :: "'e api \<Rightarrow> objh \<Rightarrow> string \<Rightarrow> ('e, gerr + string) io" where
  "GetString A store name = op_sum ''GetString'' [name] (obj_get_string A store name)"

definition GetInfo :: "'e api \<Rightarrow> objh \<Rightarrow> string \<Rightarrow> ('e, gerr + object_info option) io" where
  "GetInfo A store name = op_sum ''GetInfo'' [name] (obj_get_info A store name False)"

definition GetInfoShowDeleted :: "'e api \<Rightarrow> objh \<Rightarrow> string \<Rightarrow> ('e, gerr + object_info option) io" where
  "GetInfoShowDeleted A store name = op_sum ''GetInfoShowDeleted'' [name] (obj_get_info A store name True)"

definition AddLink :: "'e api \<Rightarrow> objh \<Rightarrow> string \<Rightarrow> object_info option \<Rightarrow> ('e, gerr + object_info option) io" where
  "AddLink A store name target = op_sum ''AddLink'' [name] (obj_add_link A store name target)"

definition ObjectStatus :: "'e api \<Rightarrow> objh \<Rightarrow> ('e, gerr + object_status) io" where
  "ObjectStatus A store = call_sum ''Status'' (obj_get_status A store)"

text \<open>
  \<open>waitObjectUpdate\<close>: one timer for all the updates it reads until the expected name. The
  updates that can arrive before the timer fires are finitely many; \<open>fuel\<close> bounds how many are
  read (\<open>Inl None\<close>: the bound was reached, which no run with enough fuel sees).
\<close>

fun object_updates :: "nat \<Rightarrow> 'e api \<Rightarrow> nat \<Rightarrow> string \<Rightarrow> wat \<Rightarrow> string \<Rightarrow> ('e, check + object_info) io" where
  "object_updates 0 A deadline label watcher expectedName = ret (Inl None)"
| "object_updates (Suc fuel) A deadline label watcher expectedName =
     bnd clock (\<lambda>now.
     bnd (perform (\<lambda>r. EOp ''Updates'' (case r of Some (Some info) \<Rightarrow> [oi_Name info] | _ \<Rightarrow> []) (r \<noteq> None))
            (recv_info A watcher (deadline - now))) (\<lambda>r. case r of
       Some None \<Rightarrow> ret (Inl (Some (Errorf ''%s watcher closed before an update'' [AStr label])))
     | Some (Some info) \<Rightarrow>
         if oi_Name info = expectedName then ret (Inr info)
         else object_updates fuel A deadline label watcher expectedName
     | None \<Rightarrow> ret (Inl (Some (timed_out label)))))"

definition waitObjectUpdate :: "nat \<Rightarrow> 'e api \<Rightarrow> string \<Rightarrow> wat \<Rightarrow> string \<Rightarrow> ('e, gerr + object_info) io" where
  "waitObjectUpdate fuel A label watcher expectedName =
     bnd clock (\<lambda>now.
     bnd (object_updates fuel A (now + waitTimeout) label watcher expectedName) (\<lambda>r. ret (case r of
       Inr info \<Rightarrow> Inr info
     | Inl (Some err) \<Rightarrow> Inl err
     | Inl None \<Rightarrow> Inl (timed_out label))))"

section \<open>Setup\<close>

text \<open>A \<open>nil\<close> store is no store to delete.\<close>

definition CreateStore :: "'e api \<Rightarrow> jsc \<Rightarrow> object_config \<Rightarrow> ('e, gerr + objh) io" where
  "CreateStore A js config =
     perform (\<lambda>r. EAcquire ''store'' (case r of Inr h \<Rightarrow> if obj_is_nil A h then None else Some h | Inl _ \<Rightarrow> None))
       (obj_create A js config)"

definition object_config_of :: "options \<Rightarrow> object_config" where
  "object_config_of config = \<lparr>oc_Bucket = op_bucket config, oc_Description = ''interop'', oc_MaxBytes = 2 ^ 20,
     oc_Storage = MemoryStorage, oc_Replicas = 0, oc_Metadata = [(''owner'', ''interop'')]\<rparr>"

definition object_initial :: "'e api \<Rightarrow> options \<Rightarrow> objh \<Rightarrow> ('e, gerr + unit) io" where
  "object_initial A config store =
     try_call (ObjectStatus A store) (wrap ''initial Object Store status'') (\<lambda>status.
     require (checkObjectStoreStatus ''initial Object Store status'' status (op_bucket config)) (
     ret (Inr ())))"

definition object_subscriptions :: "(string \<times> chan \<times> string) list" where
  "object_subscriptions =
     [(''.start'', ''startMessages'', ''subscribe Object Store start''),
      (''.ocaml-written'', ''ocamlWrittenMessages'', ''subscribe Object Store write barrier''),
      (''.go-watch'', ''goWatchMessages'', ''subscribe Object Store Go watch barrier''),
      (''.ocaml-watch'', ''ocamlWatchMessages'', ''subscribe Object Store OCaml watch barrier''),
      (''.go-link'', ''goLinkMessages'', ''subscribe Object Store Go link barrier''),
      (''.ocaml-link'', ''ocamlLinkMessages'', ''subscribe Object Store OCaml link barrier''),
      (''.ocaml-delete'', ''ocamlDeleteMessages'', ''subscribe Object Store delete barrier''),
      (''.ocaml-sealed'', ''ocamlSealedMessages'', ''subscribe Object Store seal barrier''),
      (''.done'', ''doneMessages'', ''subscribe Object Store completion'')]"

definition object_announce :: "'e api \<Rightarrow> options \<Rightarrow> conn \<Rightarrow> ('e, gerr + unit) io" where
  "object_announce A config c =
     subscribe_each A c (op_prefix config) object_subscriptions (
     must (Flush A c) (wrap ''flush Object Store setup'') (
     must (WriteFile A (op_ready config) ready_content) (wrap ''write ready file'') (
     ret (Inr ()))))"

section \<open>The conversation\<close>

definition object_first_put :: "'e api \<Rightarrow> options \<Rightarrow> conn \<Rightarrow> objh \<Rightarrow> ('e, gerr + unit) io" where
  "object_first_put A config c store =
     try_call (waitMessage A ''Object Store start request'' ''startMessages'') id (\<lambda>startMessage.
     require (validateObjectControl ''Object Store start'' ''start'' startMessage) (
     try_call (PutString A store objectGoName ''from-go'') (wrap ''put Go object'') (\<lambda>goInfo.
     require (checkObjectInfo ''Go object'' goInfo (op_bucket config) objectGoName 7 1) (
     respondObjectControl A c ''Object Store start'' startMessage ''started''))))"

text \<open>The fields of the client's object; the first check has shown the pointer is not \<open>nil\<close>.\<close>

definition check_ocaml_object :: "object_info option \<Rightarrow> string \<Rightarrow> check" where
  "check_ocaml_object info bucket = checks [
     checkObjectInfo ''OCaml object'' info bucket objectOCamlName 10 5,
     (case info of None \<Rightarrow> Some nil_dereference
      | Some i \<Rightarrow> checks [
          unless (oi_Description i = ''from-ocaml'')
            (Errorf ''OCaml object description was %q, expected %q'' [AStr (oi_Description i), AStr ''from-ocaml'']),
          unless (hdr_Get ((NewMsg [])\<lparr>msg_Header := oi_Headers i\<rparr>) ''X-Object'' = ''ocaml'')
            (Errorf ''OCaml object X-Object header was %q, expected %q''
               [AStr (hdr_Get ((NewMsg [])\<lparr>msg_Header := oi_Headers i\<rparr>) ''X-Object''), AStr ''ocaml'']),
          unless (map_at (oi_Metadata i) ''origin'' = ''ocaml'')
            (Errorf ''OCaml object origin metadata was %q, expected %q'' [AStr (map_at (oi_Metadata i) ''origin''), AStr ''ocaml'']),
          unless (case oi_Opts i of None \<Rightarrow> False | Some opts \<Rightarrow> oo_ChunkSize opts = 2)
            (Errorf ''OCaml object chunk size was not 2'' [])])]"

definition object_written :: "'e api \<Rightarrow> options \<Rightarrow> conn \<Rightarrow> objh \<Rightarrow> ('e, gerr + unit) io" where
  "object_written A config c store =
     try_call (waitMessage A ''OCaml Object Store write'' ''ocamlWrittenMessages'') id (\<lambda>ocamlWrittenMessage.
     require (validateObjectControl ''OCaml Object Store write'' ''written'' ocamlWrittenMessage) (
     try_call (GetString A store objectOCamlName) (wrap ''get OCaml object'') (\<lambda>ocamlPayload.
     require (unless (ocamlPayload = ''from-ocaml'')
       (Errorf ''OCaml object payload was %q, expected %q'' [AStr ocamlPayload, AStr ''from-ocaml''])) (
     try_call (GetInfo A store objectOCamlName) (wrap ''get OCaml object info'') (\<lambda>ocamlInfo.
     require (check_ocaml_object ocamlInfo (op_bucket config)) (
     respondObjectControl A c ''OCaml Object Store write'' ocamlWrittenMessage ''go-validated''))))))"

definition object_go_watch :: "'e api \<Rightarrow> options \<Rightarrow> objh \<Rightarrow> ('e, gerr + msg) io" where
  "object_go_watch A config store =
     try_call (waitMessage A ''OCaml request for Go Object Store watch write'' ''goWatchMessages'') id (\<lambda>goWatchMessage.
     require (validateObjectControl ''OCaml request for Go Object Store watch write'' ''write'' goWatchMessage) (
     try_call (PutString A store objectGoWatchName ''from-go-watch'') (wrap ''put Go watch object'') (\<lambda>goWatchInfo.
     require (checkObjectInfo ''Go watch object'' goWatchInfo (op_bucket config) objectGoWatchName 13 1) (
     ret (Inr goWatchMessage)))))"

definition object_watched :: "nat \<Rightarrow> 'e api \<Rightarrow> options \<Rightarrow> conn \<Rightarrow> msg \<Rightarrow> wat \<Rightarrow> ('e, gerr + unit) io" where
  "object_watched fuel A config c goWatchMessage watcher =
     must (Flush A c) (wrap ''flush Object Store watch'') (
     try_call (respondObjectControl A c ''OCaml request for Go Object Store watch write'' goWatchMessage ''written'') id (\<lambda>_.
     try_call (waitMessage A ''OCaml Object Store watch update'' ''ocamlWatchMessages'') id (\<lambda>ocamlWatchMessage.
     require (validateObjectControl ''OCaml Object Store watch update'' ''written'' ocamlWatchMessage) (
     try_call (waitObjectUpdate fuel A ''OCaml Object Store watch update'' watcher objectOCamlWatchName) id (\<lambda>watchInfo.
     require (checkObjectInfo ''OCaml Object Store watch update'' (Some watchInfo) (op_bucket config) objectOCamlWatchName 16 1) (
     try_call (respondObjectControl A c ''OCaml Object Store watch update'' ocamlWatchMessage ''watch-seen'') id (\<lambda>_.
     must (release ''watcher'' watcher (watch_stop A watcher)) (wrap ''stop Go Object Store watch'') (
     ret (Inr ())))))))))"

definition object_go_link :: "'e api \<Rightarrow> options \<Rightarrow> conn \<Rightarrow> objh \<Rightarrow> ('e, gerr + unit) io" where
  "object_go_link A config c store =
     try_call (waitMessage A ''OCaml request for Go Object Store link'' ''goLinkMessages'') id (\<lambda>goLinkMessage.
     require (validateObjectControl ''OCaml request for Go Object Store link'' ''link'' goLinkMessage) (
     try_call (GetInfo A store objectGoName) (wrap ''get Go link target'') (\<lambda>goTarget.
     try_call (AddLink A store objectGoLinkName goTarget) (wrap ''add Go object link'') (\<lambda>goLinkInfo.
     require (checkObjectInfo ''Go object link'' goLinkInfo (op_bucket config) objectGoLinkName 0 0) (
     require (checkObjectLink ''Go object link'' goLinkInfo (op_bucket config) objectGoName) (
     respondObjectControl A c ''OCaml request for Go Object Store link'' goLinkMessage ''linked''))))))"

definition object_ocaml_link :: "'e api \<Rightarrow> options \<Rightarrow> conn \<Rightarrow> objh \<Rightarrow> ('e, gerr + unit) io" where
  "object_ocaml_link A config c store =
     try_call (waitMessage A ''OCaml Object Store link'' ''ocamlLinkMessages'') id (\<lambda>ocamlLinkMessage.
     require (validateObjectControl ''OCaml Object Store link'' ''linked'' ocamlLinkMessage) (
     try_call (GetString A store objectOCamlLinkName) (wrap ''get OCaml object link'') (\<lambda>ocamlLinkPayload.
     require (unless (ocamlLinkPayload = ''from-ocaml'')
       (Errorf ''OCaml object link payload was %q, expected %q'' [AStr ocamlLinkPayload, AStr ''from-ocaml''])) (
     try_call (GetInfo A store objectOCamlLinkName) (wrap ''get OCaml object link info'') (\<lambda>ocamlLinkInfo.
     require (checkObjectInfo ''OCaml object link'' ocamlLinkInfo (op_bucket config) objectOCamlLinkName 0 0) (
     require (checkObjectLink ''OCaml object link'' ocamlLinkInfo (op_bucket config) objectOCamlName) (
     respondObjectControl A c ''OCaml Object Store link'' ocamlLinkMessage ''go-validated'')))))))"

definition check_deleted_info :: "object_info option \<Rightarrow> check" where
  "check_deleted_info info =
     (case info of None \<Rightarrow> Some nil_dereference
      | Some i \<Rightarrow> checks [
          unless (oi_Deleted i) (New ''deleted Go object info was not marked deleted''),
          unless (oi_Size i = 0 \<and> oi_Chunks i = 0 \<and> oi_Digest i = [])
            (New ''deleted Go object info retained content metadata'')])"

definition check_listing :: "object_info option list \<Rightarrow> check" where
  "check_listing objects = checks [
     unless (\<not> objectStoreHasName objects objectGoName)
       (New ''deleted Go object was returned by Object Store list''),
     unless (objectStoreHasName objects objectOCamlName \<and> objectStoreHasName objects objectGoLinkName \<and>
         objectStoreHasName objects objectOCamlLinkName)
       (New ''Object Store list omitted a live object or link'')]"

definition object_deleted :: "'e api \<Rightarrow> conn \<Rightarrow> objh \<Rightarrow> ('e, gerr + unit) io" where
  "object_deleted A c store =
     try_call (waitMessage A ''OCaml Object Store delete'' ''ocamlDeleteMessages'') id (\<lambda>ocamlDeleteMessage.
     require (validateObjectControl ''OCaml Object Store delete'' ''deleted'' ocamlDeleteMessage) (
     bnd (GetInfo A store objectGoName) (\<lambda>r. case r of
       Inr _ \<Rightarrow> ret (Inl (New ''deleted Go object was still visible''))
     | Inl err \<Rightarrow>
         if \<not> is_err err ErrObjectNotFound
         then ret (Inl (Errorf ''deleted Go object returned %w'' [AWrap err]))
         else
           try_call (GetInfoShowDeleted A store objectGoName) (wrap ''get deleted Go object info'') (\<lambda>deletedInfo.
           require (check_deleted_info deletedInfo) (
           try_call (op_sum ''List'' [] (obj_list A store)) (wrap ''list Object Store after delete'') (\<lambda>objects.
           require (check_listing objects) (
           respondObjectControl A c ''OCaml Object Store delete'' ocamlDeleteMessage ''go-validated'')))))))"

definition object_sealed :: "'e api \<Rightarrow> conn \<Rightarrow> objh \<Rightarrow> ('e, gerr + unit) io" where
  "object_sealed A c store =
     try_call (waitMessage A ''OCaml Object Store seal'' ''ocamlSealedMessages'') id (\<lambda>ocamlSealedMessage.
     require (validateObjectControl ''OCaml Object Store seal'' ''sealed'' ocamlSealedMessage) (
     try_call (ObjectStatus A store) (wrap ''sealed Object Store status'') (\<lambda>status.
     require (unless (os_Sealed status) (New ''Object Store status was not sealed'')) (
     must_fail (PutString A store ''after-seal'' ''rejected'') (New ''Object Store accepted a write after sealing'') (
     respondObjectControl A c ''OCaml Object Store seal'' ocamlSealedMessage ''go-validated'')))))"

text \<open>The last request is answered once the store is deleted.\<close>

definition DeleteStore :: "'e api \<Rightarrow> options \<Rightarrow> jsc \<Rightarrow> objh \<Rightarrow> ('e, check) io" where
  "DeleteStore A config js store = release ''store'' store (obj_delete A js (op_bucket config))"

definition object_delete :: "'e api \<Rightarrow> options \<Rightarrow> jsc \<Rightarrow> objh \<Rightarrow> ('e, gerr + msg) io" where
  "object_delete A config js store =
     try_call (waitMessage A ''Object Store completion'' ''doneMessages'') id (\<lambda>doneMessage.
     require (validateObjectControl ''Object Store completion'' ''done'' doneMessage) (
     must (DeleteStore A config js store) (wrap ''delete Object Store'') (
     ret (Inr doneMessage))))"

definition object_finish :: "'e api \<Rightarrow> conn \<Rightarrow> msg \<Rightarrow> ('e, gerr + unit) io" where
  "object_finish A c doneMessage =
     try_call (respondObjectControl A c ''Object Store completion'' doneMessage ''go-validated'') id (\<lambda>_.
     must (Flush A c) (wrap ''flush Object Store completion'') (
     must (Drain A c) (wrap ''drain Object Store peer'') (
     ret (Inr ()))))"

definition object_after_watch :: "'e api \<Rightarrow> options \<Rightarrow> conn \<Rightarrow> jsc \<Rightarrow> objh \<Rightarrow> ('e, gerr + msg) io" where
  "object_after_watch A config c js store =
     try_call (object_go_link A config c store) id (\<lambda>_.
     try_call (object_ocaml_link A config c store) id (\<lambda>_.
     try_call (object_deleted A c store) id (\<lambda>_.
     try_call (object_sealed A c store) id (\<lambda>_.
     object_delete A config js store))))"

text \<open>
  The deferred calls run in reverse: on a failure after the watch was stopped, its context is
  cancelled before the store is deleted; on success the store is gone already.
\<close>

definition object_watch_scope :: "nat \<Rightarrow> 'e api \<Rightarrow> options \<Rightarrow> conn \<Rightarrow> jsc \<Rightarrow> objh \<Rightarrow> msg \<Rightarrow> ('e, gerr + unit) io" where
  "object_watch_scope fuel A config c js store goWatchMessage =
     bnd (acquire ''watcher'' (obj_watch A store)) (\<lambda>r. case r of
       Inl err \<Rightarrow> bnd (watchCancel A) (\<lambda>_.
         bnd (ignore (DeleteStore A config js store)) (\<lambda>_. ret (Inl (wrap ''watch OCaml Object Store update'' err))))
     | Inr watcher \<Rightarrow>
         guarded
           (bnd (watchCancel A) (\<lambda>_. bnd (ignore (release ''watcher'' watcher (watch_stop A watcher))) (\<lambda>_.
            ignore (DeleteStore A config js store))))
           (object_watched fuel A config c goWatchMessage watcher)
           (\<lambda>_. guarded (bnd (watchCancel A) (\<lambda>_. ignore (DeleteStore A config js store)))
                  (object_after_watch A config c js store)
                  (\<lambda>doneMessage. deferred (watchCancel A) (object_finish A c doneMessage))))"

definition object_before_watch :: "'e api \<Rightarrow> options \<Rightarrow> conn \<Rightarrow> objh \<Rightarrow> ('e, gerr + msg) io" where
  "object_before_watch A config c store =
     try_call (object_initial A config store) id (\<lambda>_.
     try_call (object_announce A config c) id (\<lambda>_.
     try_call (object_first_put A config c store) id (\<lambda>_.
     try_call (object_written A config c store) id (\<lambda>_.
     object_go_watch A config store))))"

definition runJetStreamObjectPeer :: "nat \<Rightarrow> 'e api \<Rightarrow> options \<Rightarrow> ('e, check) io" where
  "runJetStreamObjectPeer fuel A config = as_check (
     try_call (connectOptions A) id (\<lambda>authOptions.
     try_call (Connect A (op_server config) (OName ''ocaml-nats Object Store interop peer'' # authOptions))
       (wrap ''connect'') (\<lambda>c.
     deferred (Close A c) (
       try_call (call_sum ''js.New'' (js_new A c)) (wrap ''JetStream context'') (\<lambda>js.
       try_call (CreateStore A js (object_config_of config)) (wrap ''create Object Store'') (\<lambda>store.
       if obj_is_nil A store then ret (Inl (New ''create Object Store returned no store''))
       else
         guarded (ignore (DeleteStore A config js store)) (object_before_watch A config c store)
           (object_watch_scope fuel A config c js store)))))))"

end
