(* ===== verification/GoService.thy ===== *)
theory GoService
  imports GoJetStream
begin

text \<open>
  The Service peers: the one that talks to the client's service and offers its own
  (\<open>service.go\<close>), the one that does so across restarts (\<open>service_reconnect.go\<close>), and the one
  that watches a service disappear with its connection (\<open>service_parent_close.go\<close>). The
  constants of the micro package and the JSON decoder are the fields of \<open>micro_env\<close>.
\<close>

record micro_env =
  InfoVerb :: string
  InfoResponseType :: string
  StatsVerb :: string
  StatsResponseType :: string
  DefaultQueueGroup :: string
  Unmarshal :: "string \<Rightarrow> gerr + smap"
  key_order :: "string list"

section \<open>The Go service and its handlers\<close>

definition stats_handler :: "string \<Rightarrow> smap" where
  "stats_handler endpoint = expected_data ''go'' endpoint"

definition go_service :: "string \<Rightarrow> micro_config" where
  "go_service description = \<lparr>mc_Name = goServiceName, mc_Version = ''1.2.3'', mc_Description = description,
     mc_Metadata = [(''language'', ''go''), (''suite'', ''interop'')]\<rparr>"

text \<open>
  A handler answers a request; its result is what it records on \<open>callbackErrors\<close>, in order.
  Recording \<open>nil\<close> does nothing.
\<close>

definition recorded :: "check \<Rightarrow> gerr list" where
  "recorded c = (case c of None \<Rightarrow> [] | Some err \<Rightarrow> [err])"

definition MicroRespond :: "'e api \<Rightarrow> msg \<Rightarrow> string \<Rightarrow> smap \<Rightarrow> ('e, check) io" where
  "MicroRespond A request payload headers =
     perform (\<lambda>r. ERespond request payload (r = None)) (req_respond A request payload headers)"

definition MicroError :: "'e api \<Rightarrow> msg \<Rightarrow> string \<Rightarrow> string \<Rightarrow> string \<Rightarrow> smap \<Rightarrow> ('e, check) io" where
  "MicroError A request status_code description data headers =
     op_check ''Error'' [status_code, description, data] (req_error A request status_code description data headers)"

definition refuse :: "'e api \<Rightarrow> msg \<Rightarrow> gerr \<Rightarrow> string \<Rightarrow> ('e, gerr list) io" where
  "refuse A request err description =
     bnd (MicroError A request ''400'' description [] []) (\<lambda>r. ret (err # recorded r))"

definition echoHandler :: "'e api \<Rightarrow> msg \<Rightarrow> ('e, gerr list) io" where
  "echoHandler A request =
     (if msg_Data request \<noteq> ''from-ocaml'' then
        refuse A request (Errorf ''Go echo payload was %q, expected %q'' [AStr (msg_Data request), AStr ''from-ocaml''])
          ''invalid echo payload''
      else if hdr_Get request ''X-Interop'' \<noteq> ''ocaml-service'' then
        refuse A request (Errorf ''Go echo X-Interop was %q, expected %q''
          [AStr (hdr_Get request ''X-Interop''), AStr ''ocaml-service'']) ''invalid echo header''
      else bnd (MicroRespond A request ''go-service-response'' [(''X-Interop'', ''go-service-response'')])
             (\<lambda>r. ret (recorded r)))"

definition errorHandler :: "'e api \<Rightarrow> msg \<Rightarrow> ('e, gerr list) io" where
  "errorHandler A request =
     (if msg_Data request \<noteq> ''error-request'' then
        refuse A request (Errorf ''Go error payload was %q, expected %q'' [AStr (msg_Data request), AStr ''error-request''])
          ''invalid error payload''
      else bnd (MicroError A request ''422'' ''go-service-error'' ''go-service-error-payload''
                  [(''X-Interop'', ''go-service-error'')]) (\<lambda>r. ret (recorded r)))"

definition reconnectEchoHandler :: "'e api \<Rightarrow> msg \<Rightarrow> ('e, gerr list) io" where
  "reconnectEchoHandler A request =
     (let payload = msg_Data request in
      if cut_prefix payload ''ocaml-to-go-round-'' = None then
        refuse A request (Errorf ''Go reconnect echo payload was %q'' [AStr payload]) ''invalid echo payload''
      else if hdr_Get request ''X-Interop'' \<noteq> ''ocaml-service-reconnect'' then
        refuse A request (Errorf ''Go reconnect echo X-Interop was %q'' [AStr (hdr_Get request ''X-Interop'')])
          ''invalid echo header''
      else bnd (MicroRespond A request (''go-response-for-'' @ payload)
                  [(''X-Interop'', ''go-service-reconnect-response'')]) (\<lambda>r. ret (recorded r)))"

section \<open>Shared steps\<close>

definition AddService :: "'e api \<Rightarrow> conn \<Rightarrow> micro_config \<Rightarrow> ('e, gerr + svc) io" where
  "AddService A c config = acquire ''service'' (svc_add A c config)"

definition StopService :: "'e api \<Rightarrow> svc \<Rightarrow> ('e, check) io" where
  "StopService A service = release ''service'' service (svc_stop A service)"

definition AddEndpoint :: "'e api \<Rightarrow> svc \<Rightarrow> string \<Rightarrow> string \<Rightarrow> ('e, check) io" where
  "AddEndpoint A service name subj =
     op_check ''AddEndpoint'' [name, subj] (svc_add_endpoint A service name subj [(''role'', ''interop'')])"

text \<open>\<open>service.Stats()\<close>, with the \<open>nil\<close> error the caller adds.\<close>

definition own_stats :: "'e api \<Rightarrow> svc \<Rightarrow> ('e, gerr + micro_stats) io" where
  "own_stats A service = bnd (call_plain ''Stats'' (svc_stats A service)) (\<lambda>stats. ret (Inr stats))"

definition client_stats :: "'e api \<Rightarrow> micro_env \<Rightarrow> conn \<Rightarrow> string \<Rightarrow> ('e, gerr + micro_stats) io" where
  "client_stats A E c id' = requestServiceStats A (StatsVerb E) (StatsResponseType E) c ocamlServiceName id'"

definition client_info :: "'e api \<Rightarrow> micro_env \<Rightarrow> conn \<Rightarrow> ('e, gerr + micro_info) io" where
  "client_info A E c = requestServiceInfo A (InfoVerb E) (InfoResponseType E) c ocamlServiceName"

text \<open>\<open>select { case err := <-callbackErrors: return err; default: }\<close>\<close>

definition no_callback_error :: "'e api \<Rightarrow> string \<Rightarrow> ('e, gerr + 'b) io \<Rightarrow> ('e, gerr + 'b) io" where
  "no_callback_error A label k =
     bnd (call_plain ''callbackErrors'' (poll_err A ''callbackErrors'')) (\<lambda>r. require (map_option (wrap label) r) k)"

text \<open>The last barrier, then the service is stopped.\<close>

definition service_barrier :: "'e api \<Rightarrow> options \<Rightarrow> conn \<Rightarrow> string \<Rightarrow> string \<Rightarrow> ('e, gerr + unit) io" where
  "service_barrier A config c request_label payload_format =
     try_call (RequestMsg A c (data_msg (op_prefix config @ ''.done'') ''go-finished'') waitTimeout)
       (wrap request_label) (\<lambda>doneResponse.
     require (unless (msg_Data doneResponse = ''ocaml-validated'')
       (Errorf payload_format [AStr (msg_Data doneResponse), AStr ''ocaml-validated''])) (
     ret (Inr ())))"

section \<open>Service peer\<close>

definition service_announce :: "'e api \<Rightarrow> options \<Rightarrow> conn \<Rightarrow> svc \<Rightarrow> ('e, gerr + unit) io" where
  "service_announce A config c service =
     must (AddEndpoint A service ''echo'' (op_prefix config @ ''.go.echo'')) (wrap ''add Go echo endpoint'') (
     must (AddEndpoint A service ''error'' (op_prefix config @ ''.go.error'')) (wrap ''add Go error endpoint'') (
     must (Subscribe A c (op_prefix config @ ''.start'') ''startMessages'') (wrap ''subscribe service start'') (
     must (Flush A c) (wrap ''flush Go service'') (
     must (WriteFile A (op_ready config) ready_content) (wrap ''write ready file'') (
     try_call (waitMessage A ''Service start request'' ''startMessages'') id (\<lambda>startMessage.
     must (Respond A startMessage ''started'') (wrap ''respond to Service start'') (
     ret (Inr ()))))))))"

definition service_request :: "'e api \<Rightarrow> options \<Rightarrow> conn \<Rightarrow> ('e, gerr + unit) io" where
  "service_request A config c =
     (let request = hdr_Set ''X-Interop'' ''go-service-request'' (data_msg (op_prefix config @ ''.ocaml.echo'') ''from-go'') in
      try_call (RequestMsg A c request waitTimeout) (wrap ''request OCaml service'') (\<lambda>response.
      require (unless (msg_Data response = ''ocaml-service-response'')
        (Errorf ''OCaml service response was %q, expected %q'' [AStr (msg_Data response), AStr ''ocaml-service-response''])) (
      require (unless (hdr_Get response ''X-Interop'' = ''ocaml-service-response'')
        (Errorf ''OCaml service response X-Interop was %q, expected %q''
          [AStr (hdr_Get response ''X-Interop''), AStr ''ocaml-service-response''])) (
      ret (Inr ())))))"

definition check_service_info :: "micro_env \<Rightarrow> options \<Rightarrow> micro_info \<Rightarrow> check" where
  "check_service_info E config info = checks [
     unless (mi_Name info = ocamlServiceName \<and> mi_Version info = ''1.2.3'')
       (Errorf ''OCaml service identity was %q/%q, expected %q/1.2.3''
          [AStr (mi_Name info), AStr (mi_Version info), AStr ocamlServiceName]),
     checkMetadata ''OCaml service'' (mi_Metadata info) ''language'' ''ocaml'',
     checkMetadata ''OCaml service'' (mi_Metadata info) ''suite'' ''interop'',
     (case mi_Endpoints info of
        [endpoint] \<Rightarrow> checkEndpointInfo (DefaultQueueGroup E) ''OCaml service'' endpoint ''echo'' (op_prefix config @ ''.ocaml.echo'')
      | endpoints \<Rightarrow> Some (Errorf ''OCaml service advertised %d endpoints, expected 1'' [AInt (int (length endpoints))]))]"

text \<open>The two tests of \<open>waitForServiceStats\<close>.\<close>

definition client_stats_ready :: "micro_env \<Rightarrow> string \<Rightarrow> micro_stats \<Rightarrow> bool" where
  "client_stats_ready E id' stats =
     (if mst_Name stats \<noteq> ocamlServiceName \<or> mst_ID stats \<noteq> id' \<or> length (mst_Endpoints stats) \<noteq> 1 then False
      else case endpointStats stats ''echo'' of
        Inl _ \<Rightarrow> False
      | Inr endpoint \<Rightarrow> es_NumRequests endpoint \<ge> 1 \<and> es_NumErrors endpoint = 0 \<and>
          checkStatsData (key_order E) (Unmarshal E) ''OCaml echo'' endpoint ''ocaml'' ''echo'' = None)"

definition own_stats_ready :: "micro_stats \<Rightarrow> bool" where
  "own_stats_ready stats =
     (case endpointStats stats ''echo'' of
        Inl _ \<Rightarrow> False
      | Inr echo \<Rightarrow> (case endpointStats stats ''error'' of
          Inl _ \<Rightarrow> False
        | Inr errorEndpoint \<Rightarrow> es_NumRequests echo = 1 \<and> es_NumErrors echo = 0 \<and>
            es_NumRequests errorEndpoint = 1 \<and> es_NumErrors errorEndpoint = 1))"

definition service_observe :: "'e api \<Rightarrow> micro_env \<Rightarrow> options \<Rightarrow> conn \<Rightarrow> svc \<Rightarrow> ('e, gerr + unit) io" where
  "service_observe A E config c service =
     try_call (client_info A E c) id (\<lambda>ocamlInfo.
     require (check_service_info E config ocamlInfo) (
     try_call (waitForServiceStats ''OCaml service'' (client_stats A E c (mi_ID ocamlInfo))
         (client_stats_ready E (mi_ID ocamlInfo))) id (\<lambda>ocamlStats.
     (case endpointStats ocamlStats ''echo'' of
        Inl err \<Rightarrow> ret (Inl err)
      | Inr ocamlEcho \<Rightarrow>
          require (checkStatsData (key_order E) (Unmarshal E) ''OCaml echo'' ocamlEcho ''ocaml'' ''echo'') (
          must (Flush A c) (wrap ''flush Go Service interop traffic'') (
          try_call (waitForServiceStats ''Go service'' (own_stats A service) own_stats_ready) id (\<lambda>_.
          no_callback_error A ''Go Service callback'' (
          ret (Inr ())))))))))"

definition service_end :: "'e api \<Rightarrow> options \<Rightarrow> conn \<Rightarrow> svc \<Rightarrow> ('e, gerr + unit) io" where
  "service_end A config c service =
     try_call (service_barrier A config c ''request final Service barrier''
         ''final Service barrier response was %q, expected %q'') id (\<lambda>_.
     must (StopService A service) (wrap ''stop Go service'') (
     ret (Inr ())))"

definition runServicePeer :: "micro_env \<Rightarrow> 'e api \<Rightarrow> options \<Rightarrow> ('e, check) io" where
  "runServicePeer E A config = as_check (
     try_call (connectOptions A) id (\<lambda>authOptions.
     try_call (Connect A (op_server config) (OName ''ocaml-nats Service interop peer'' # authOptions))
       (wrap ''connect'') (\<lambda>c.
     deferred (Close A c) (
       try_call (AddService A c (go_service ''Go Service interop'')) (wrap ''add Go service'') (\<lambda>service.
       guarded (ignore (StopService A service)) (
         try_call (service_announce A config c service) id (\<lambda>_.
         try_call (service_request A config c) id (\<lambda>_.
         try_call (service_observe A E config c service) id (\<lambda>_.
         service_end A config c service))))
       (\<lambda>_. must (Drain A c) (wrap ''drain Go Service peer'') (ret (Inr ()))))))))"

section \<open>Service peer across restarts\<close>

definition service_reconnect_announce :: "'e api \<Rightarrow> options \<Rightarrow> conn \<Rightarrow> svc \<Rightarrow> ('e, gerr + unit) io" where
  "service_reconnect_announce A config c service =
     must (AddEndpoint A service ''echo'' (op_prefix config @ ''.go.echo'')) (wrap ''add Go reconnect echo endpoint'') (
     must (Subscribe A c (op_prefix config @ ''.start'') ''startMessages'') (wrap ''subscribe Service reconnect start'') (
     must (Subscribe A c (op_prefix config @ ''.round-ready'') ''roundReadyMessages'')
       (wrap ''subscribe Service reconnect round barrier'') (
     must (Flush A c) (wrap ''flush Go Service reconnect subscriptions'') (
     must (WriteFile A (op_ready config) ready_content) (wrap ''write ready file'') (
     try_call (waitMessage A ''Service reconnect start request'' ''startMessages'') id (\<lambda>startMessage.
     must (Respond A startMessage ''started'') (wrap ''respond to Service reconnect start'') (
     ret (Inr ()))))))))"

text \<open>Asking the client's service who it is, at the start and after every reconnect.\<close>

definition service_identity :: "'e api \<Rightarrow> micro_env \<Rightarrow> options \<Rightarrow> conn \<Rightarrow> string \<Rightarrow> ('e, gerr + micro_info) io" where
  "service_identity A E config c label =
     try_call (client_info A E c) id (\<lambda>ocamlInfo.
     require (serviceReconnectInfo (DefaultQueueGroup E) label ocamlInfo ocamlServiceName (op_prefix config @ ''.ocaml.echo'')) (
     ret (Inr ocamlInfo)))"

definition service_exchange :: "'e api \<Rightarrow> options \<Rightarrow> conn \<Rightarrow> nat \<Rightarrow> ('e, gerr + unit) io" where
  "service_exchange A config c round =
     (let payload = serviceReconnectPayload round;
          request = hdr_Set ''X-Interop'' ''go-service-reconnect'' (data_msg (op_prefix config @ ''.ocaml.echo'') payload) in
      try_call (RequestMsg A c request waitTimeout)
        (\<lambda>err. Errorf ''request OCaml Service round %d: %w'' [AInt (int round), AWrap err]) (\<lambda>response.
      require (expectPayload ''OCaml Service round response'' response (''ocaml-response-for-'' @ payload)) (
      require (unless (hdr_Get response ''X-Interop'' = ''ocaml-service-reconnect-response'')
        (Errorf ''OCaml Service round response X-Interop was %q, expected %q''
          [AStr (hdr_Get response ''X-Interop''), AStr ''ocaml-service-reconnect-response''])) (
      ret (Inr ())))))"

text \<open>\<open>service.Info().ID\<close>, the identifier the library gave the service, is the parameter \<open>svc_id\<close>.\<close>

definition service_counters :: "'e api \<Rightarrow> micro_env \<Rightarrow> options \<Rightarrow> conn \<Rightarrow> svc \<Rightarrow> micro_info \<Rightarrow> nat \<Rightarrow> ('e, gerr + unit) io" where
  "service_counters A E config c service ocamlInfo round =
     (let expectedRequests = int round + 1 in
      try_call (waitForServiceStats ''Go reconnect service'' (own_stats A service) (\<lambda>stats.
          serviceReconnectStats (key_order E) (Unmarshal E) (DefaultQueueGroup E) ''Go reconnect service'' stats
            goServiceName (svc_id A service) (op_prefix config @ ''.go.echo'') expectedRequests ''go'' = None)) id (\<lambda>_.
      try_call (waitForServiceStats ''OCaml reconnect service'' (client_stats A E c (mi_ID ocamlInfo)) (\<lambda>stats.
          serviceReconnectStats (key_order E) (Unmarshal E) (DefaultQueueGroup E) ''OCaml reconnect service'' stats
            ocamlServiceName (mi_ID ocamlInfo) (op_prefix config @ ''.ocaml.echo'') expectedRequests ''ocaml'' = None)) id (\<lambda>_.
      no_callback_error A ''Go Service reconnect callback'' (
      ret (Inr ())))))"

definition service_round_barrier :: "'e api \<Rightarrow> conn \<Rightarrow> nat \<Rightarrow> ('e, gerr + unit) io" where
  "service_round_barrier A c round =
     try_call (waitMessage A ''Service reconnect round barrier'' ''roundReadyMessages'') id (\<lambda>roundReady.
     require (expectPayload ''Service reconnect round barrier'' roundReady (''round-'' @ show_nat round)) (
     must (Respond A roundReady ''accepted'') (wrap ''respond to Service reconnect round barrier'') (
     must (Flush A c) (wrap ''flush Service reconnect round barrier'') (
     ret (Inr ())))))"

definition service_round :: "'e api \<Rightarrow> micro_env \<Rightarrow> options \<Rightarrow> conn \<Rightarrow> svc \<Rightarrow> micro_info \<Rightarrow> nat \<Rightarrow> ('e, gerr + unit) io" where
  "service_round A E config c service ocamlInfo round =
     try_call (service_exchange A config c round) id (\<lambda>_.
     try_call (service_counters A E config c service ocamlInfo round) id (\<lambda>_.
     service_round_barrier A c round))"

definition service_kill :: "'e api \<Rightarrow> options \<Rightarrow> conn \<Rightarrow> nat \<Rightarrow> ('e, gerr + unit) io" where
  "service_kill A config c next_round =
     must (WriteFile A (roundSignal (op_signal config) next_round) kill_content)
       (\<lambda>err. Errorf ''write Service reconnect signal %d: %w'' [AInt (int next_round), AWrap err]) (
     must (waitReconnect A ''reconnected'')
       (\<lambda>err. Errorf ''Service reconnect %d: %w'' [AInt (int next_round), AWrap err]) (
     must (Flush A c) (\<lambda>err. Errorf ''flush after Service reconnect %d: %w'' [AInt (int next_round), AWrap err]) (
     awaitRecoveryBarrier A c (op_prefix config) next_round)))"

text \<open>\<open>for round := 0; round <= cycles; round++\<close>, with \<open>left = cycles - round\<close>.\<close>

fun service_rounds :: "'e api \<Rightarrow> micro_env \<Rightarrow> options \<Rightarrow> conn \<Rightarrow> svc \<Rightarrow> micro_info \<Rightarrow> nat \<Rightarrow> nat \<Rightarrow> ('e, gerr + unit) io" where
  "service_rounds A E config c service ocamlInfo 0 round = service_round A E config c service ocamlInfo round"
| "service_rounds A E config c service ocamlInfo (Suc left) round =
     try_call (service_round A E config c service ocamlInfo round) id (\<lambda>_.
     try_call (service_kill A config c (round + 1)) id (\<lambda>_.
     try_call (service_identity A E config c ''OCaml after reconnect'') id (\<lambda>info.
     service_rounds A E config c service info left (round + 1))))"

definition service_reconnect_end :: "'e api \<Rightarrow> options \<Rightarrow> conn \<Rightarrow> svc \<Rightarrow> ('e, gerr + unit) io" where
  "service_reconnect_end A config c service =
     try_call (service_barrier A config c ''request Service reconnect completion''
         ''Service reconnect completion response was %q, expected %q'') id (\<lambda>_.
     must (StopService A service) (wrap ''stop Go Service reconnect service'') (
     ret (Inr ())))"

definition runServiceReconnectPeer :: "micro_env \<Rightarrow> 'e api \<Rightarrow> options \<Rightarrow> ('e, check) io" where
  "runServiceReconnectPeer E A config = as_check (
     try_call (connectOptions A) id (\<lambda>authOptions.
     (case reconnectCycles (op_server config) of
        Inl err \<Rightarrow> ret (Inl err)
      | Inr cycles \<Rightarrow>
          try_call (Connect A (op_server config)
              ([OName ''ocaml-nats Service reconnect interop peer'', ODontRandomize, OReconnectWait (100 * millisecond),
                OMaxReconnects 20, OReconnectHandler ''reconnected''] @ authOptions))
            (wrap ''connect'') (\<lambda>c.
          deferred (Close A c) (
            try_call (AddService A c (go_service ''Go Service reconnect interop'')) (wrap ''add Go reconnect service'') (\<lambda>service.
            guarded (ignore (StopService A service)) (
              try_call (service_reconnect_announce A config c service) id (\<lambda>_.
              try_call (service_identity A E config c ''OCaml'') id (\<lambda>ocamlInfo.
              try_call (service_rounds A E config c service ocamlInfo cycles 0) id (\<lambda>_.
              service_reconnect_end A config c service))))
            (\<lambda>_. must (Drain A c) (wrap ''drain Go Service reconnect peer'') (ret (Inr ())))))))))"

section \<open>Parent connection close\<close>

text \<open>
  \<open>waitForFile\<close>: the file is looked at, then a tick or the timer is awaited. \<open>fuel\<close> bounds the
  ticks: a thousand fit before the timer, and a \<open>select\<close> with both ready may prefer ticks.
\<close>

fun file_ticks :: "nat \<Rightarrow> 'e api \<Rightarrow> nat \<Rightarrow> string \<Rightarrow> ('e, check) io" where
  "file_ticks 0 A deadline path = ret (Some (timed_out path))"
| "file_ticks (Suc fuel) A deadline path =
     bnd (Stat A path) (\<lambda>r. case r of
       None \<Rightarrow> ret None
     | Some err \<Rightarrow>
         if \<not> is_err err ErrNotExist then ret (Some (Errorf ''stat %s: %w'' [AStr path, AWrap err]))
         else
           bnd clock (\<lambda>now.
           bnd (call_plain ''timer'' (tick_or_timer A (deadline - now))) (\<lambda>fired.
           if fired then ret (Some (timed_out path)) else file_ticks fuel A deadline path)))"

definition waitForFile :: "nat \<Rightarrow> 'e api \<Rightarrow> string \<Rightarrow> ('e, check) io" where
  "waitForFile fuel A path = bnd clock (\<lambda>now. file_ticks fuel A (now + waitTimeout) path)"

definition parent_announce :: "'e api \<Rightarrow> options \<Rightarrow> conn \<Rightarrow> ('e, gerr + unit) io" where
  "parent_announce A config c =
     must (Subscribe A c (op_prefix config @ ''.start'') ''startMessages'') (wrap ''subscribe Service parent-close start'') (
     must (Flush A c) (wrap ''flush Service parent-close subscriptions'') (
     must (writeReadyFile A (op_ready config)) id (
     try_call (waitMessage A ''Service parent-close start request'' ''startMessages'') id (\<lambda>startMessage.
     must (Respond A startMessage ''started'') (wrap ''respond to Service parent-close start'') (
     must (Flush A c) (wrap ''flush Service parent-close start response'') (
     ret (Inr ())))))))"

definition parent_requests :: "nat \<Rightarrow> 'e api \<Rightarrow> options \<Rightarrow> conn \<Rightarrow> string \<Rightarrow> ('e, gerr + unit) io" where
  "parent_requests fuel A config c closedFile =
     (let endpoint = op_prefix config @ ''.ocaml.echo'' in
      try_call (Request A c endpoint ''before-close'' waitTimeout) (wrap ''request Service before parent close'') (\<lambda>response.
      require (expectPayload ''Service before parent close'' response ''before-close-response'') (
      try_call (Request A c (op_prefix config @ ''.close'') ''close'' waitTimeout)
        (wrap ''request parent-close control'') (\<lambda>closeResponse.
      require (expectPayload ''parent-close control'' closeResponse ''closing'') (
      must (waitForFile fuel A closedFile) id (
      bnd (Request A c endpoint ''after-close'' waitTimeout) (\<lambda>r. case r of
        Inr _ \<Rightarrow> ret (Inl (New ''Service endpoint responded after parent connection close''))
      | Inl err \<Rightarrow>
          if \<not> is_err err ErrNoResponders \<and> \<not> is_err err ErrTimeout
          then ret (Inl (wrap ''Service endpoint after parent connection close'' err))
          else must (Drain A c) (wrap ''drain Service parent-close peer'') (ret (Inr ())))))))))"

definition runServiceParentClosePeer :: "nat \<Rightarrow> 'e api \<Rightarrow> options \<Rightarrow> ('e, check) io" where
  "runServiceParentClosePeer fuel A config = as_check (
     (case parentCloseFile A of
        Inl err \<Rightarrow> ret (Inl err)
      | Inr closedFile \<Rightarrow>
          try_call (connectOptions A) id (\<lambda>authOptions.
          try_call (Connect A (op_server config) (OName ''ocaml-nats Service parent-close interop peer'' # authOptions))
            (wrap ''connect'') (\<lambda>c.
          deferred (Close A c) (
            try_call (parent_announce A config c) id (\<lambda>_.
            parent_requests fuel A config c closedFile))))))"

end
