(* ===== verification/GoStoreProtocol.thy ===== *)
theory GoStoreProtocol
  imports GoProtocol GoSteady GoOrdered GoAdmin GoObject GoService
begin

text \<open>
  The handshake discipline of the JetStream, Key-Value, Object Store and Service peers, phase by
  phase, and that of every script.
\<close>

section \<open>Rules for the remaining constructs\<close>

lemma wp_must_fail_call:
  assumes "\<And>r. M q (ev r) = Some q1" and "Q (Inl unexpected) q1" and "wp M k Q q1"
  shows "wp M (must_fail (perform ev f) unexpected k) Q q"
  unfolding must_fail_def
  by (rule wp_bnd, rule wp_call) (use assms in \<open>auto split: sum.splits\<close>)

lemma wp_list:
  "(xs = [] \<Longrightarrow> wp M f Q q) \<Longrightarrow> (\<And>y ys. xs = y # ys \<Longrightarrow> wp M (g y ys) Q q) \<Longrightarrow>
   wp M (case xs of [] \<Rightarrow> f | y # ys \<Rightarrow> g y ys) Q q"
  by (cases xs) auto

lemma wp_pair: "(\<And>x y. p = (x, y) \<Longrightarrow> wp M (f x y) Q q) \<Longrightarrow> wp M (case p of (x, y) \<Rightarrow> f x y) Q q"
  by (cases p) auto

lemma wp_try_wait_msg:
  assumes "\<And>m. M q (EReceive ch (Some m)) = Some q1"
    and "\<exists>q2. M q (EReceive ch None) = Some q2 \<and> Q (Inl (w (timed_out label))) q2"
    and "\<And>m. wp M (k m) Q q1"
  shows "wp M (try_call (wait_msg A timeout label ch) w k) Q q"
  unfolding wait_msg_def RecvMsg_def
proof (intro wp_try_call wp_bnd wp_call)
  fix r
  show "\<exists>q'. M q (EReceive ch r) = Some q' \<and>
      wp M (ret (case r of None \<Rightarrow> Inl (timed_out label) | Some message \<Rightarrow> Inr message))
        (\<lambda>r q'. case r of Inl err \<Rightarrow> Q (Inl (w err)) q' | Inr a \<Rightarrow> wp M (k a) Q q') q'"
    using assms by (cases r) (auto intro: wp_ret)
qed

lemma wp_must_jetstream_reconnect:
  assumes "\<And>r. M q (EReceiveUnit ch r) = Some q1" and "\<And>err. Q (Inl (w err)) q1" and "wp M k Q q1"
  shows "wp M (must (waitJetStreamReconnect A ch) w k) Q q"
  unfolding waitJetStreamReconnect_def RecvUnit_def
  by (intro wp_must wp_bnd wp_call wp_ret) (use assms in \<open>auto split: option.splits\<close>)

lemma wp_guarded_phase:
  fixes m :: "('e, gerr + 'a) io" and k :: "'a \<Rightarrow> ('e, gerr + 'b) io"
  assumes "wp discipline m (phase q1) q" and "\<And>a. wp discipline (k a) (phase q2) q1"
    and "\<And>q'. open_state q' \<Longrightarrow> steady discipline q' cleanup"
  shows "wp discipline (guarded cleanup m k) (phase q2) q"
proof (rule wp_guarded, rule wp_mono [OF assms(1)])
  fix r :: "gerr + 'a" and q'
  assume p: "phase q1 r q'"
  show "case r of Inl err \<Rightarrow> wp discipline cleanup (\<lambda>_. phase q2 (Inl err)) q' | Inr a \<Rightarrow> wp discipline (k a) (phase q2) q'"
  proof (cases r)
    case (Inl err)
    with p have "open_state q'" by simp
    then show ?thesis using Inl by (auto intro: steady_wp assms(3))
  next
    case (Inr a)
    with p show ?thesis using assms(2) by simp
  qed
qed

lemma wp_deferred_phase:
  assumes "wp discipline m (phase q1) q" and "\<And>q'. open_state q' \<Longrightarrow> steady discipline q' cleanup"
  shows "wp discipline (deferred cleanup m) (phase q1) q"
proof (rule wp_deferred, rule wp_mono [OF assms(1)])
  fix r q'
  assume p: "phase q1 r q'"
  then have "open_state q'" by (cases r) auto
  from steady_wp [OF assms(2) [OF this]] p show "wp discipline cleanup (\<lambda>_. phase q1 r) q'" .
qed

lemma wp_subscribe_controls:
  assumes "\<And>d. wp discipline k (phase q1) (Setup d)"
  shows "wp discipline (subscribe_controls A c controls k) (phase q1) (Setup d)"
proof (induction controls arbitrary: d)
  case (Cons x controls)
  obtain subj ch name where x: "x = (subj, ch, name)" by (cases x)
  show ?case unfolding x subscribe_controls.simps Subscribe_def
    by (rule wp_must_call) (auto simp: Cons)
qed (simp add: assms)

lemma wp_subscribe_each:
  assumes "\<And>d. wp discipline k (phase q1) (Setup d)"
  shows "wp discipline (subscribe_each A c prefix subs k) (phase q1) (Setup d)"
proof (induction subs arbitrary: d)
  case (Cons x subs)
  obtain suffix ch label where x: "x = (suffix, ch, label)" by (cases x)
  show ?case unfolding x subscribe_each.simps Subscribe_def
    by (rule wp_must_call) (auto simp: Cons)
qed (simp add: assms)

lemmas script_calls = call_defs JetStream_def AddStream_def AddConsumer_def ConsumerInfoNow_def GetMsg_def
  SubscribeSync_def PullSubscribe_def Fetch_def
  waitOrderedMessage_def waitJetStreamMessage_def

lemmas script_rules = call_rules wp_try_wait_msg wp_must_jetstream_reconnect wp_must_fail_call wp_list wp_pair

section \<open>Discipline of the JetStream peers\<close>

lemma jetstream_create_phase [phases]:
  "wp discipline (jetstream_create A config c) (phase (Setup False)) (Setup False)"
  unfolding jetstream_create_def script_calls by (rule script_rules | simp; fail)+

lemma jetstream_announce_phase [phases]:
  "wp discipline (jetstream_announce A config c) (phase (Announced False)) (Setup False)"
  unfolding jetstream_announce_def script_calls by (rule script_rules | simp; fail)+

lemma jetstream_publish_phase [phases]:
  "wp discipline (jetstream_publish A config js) (phase (Announced False)) (Announced False)"
  unfolding jetstream_publish_def script_calls Let_def by (rule script_rules | simp; fail)+

lemma jetstream_deletes_phase [phases]:
  "wp discipline (jetstream_deletes A config js) (phase (Announced False)) (Announced False)"
  unfolding jetstream_deletes_def script_calls by (rule script_rules | simp; fail)+

lemma jetstream_fetch_phase [phases]:
  "wp discipline (jetstream_fetch A config s) (phase (Announced False)) (Announced False)"
  unfolding jetstream_fetch_def script_calls by (rule script_rules | simp; fail)+

lemma jetstream_finish_phase [phases]:
  "wp discipline (jetstream_finish A config c s) (phase Drained) (Announced False)"
  unfolding jetstream_finish_def script_calls by (rule script_rules | simp; fail)+

text \<open>What an open connection allows everywhere.\<close>

lemma discipline_open [simp]:
  "open_state q \<Longrightarrow> discipline q (ERelease name h ok) = Some q"
  "open_state q \<Longrightarrow> discipline q (ECall name ok) = Some q"
  by (auto simp: open_state_def split: handshake.splits)

lemma steady_release [steady_intros]: "open_state q \<Longrightarrow> steady discipline q (release name h f)"
  unfolding release_def by (rule steady_perform) simp

lemma steady_call_plain [steady_intros]: "open_state q \<Longrightarrow> steady discipline q (call_plain name f)"
  unfolding call_plain_def by (rule steady_perform) simp

lemma steady_call_sum [steady_intros]: "open_state q \<Longrightarrow> steady discipline q (call_sum name f)"
  unfolding call_sum_def by (rule steady_perform) simp

lemma steady_Unsubscribe [steady_intros]: "open_state q \<Longrightarrow> steady discipline q (Unsubscribe A s)"
  unfolding Unsubscribe_def by (rule steady_release)

lemma steady_Stat [steady_intros]: "steady discipline (Announced d) (Stat A path)"
  unfolding Stat_def by (rule steady_perform) simp

lemma steady_RequestMsg [steady_intros]: "steady discipline (Announced False) (RequestMsg A c m timeout)"
  unfolding RequestMsg_def by (rule steady_perform) simp

text \<open>The push peer.\<close>

lemma push_consumers_phase [phases]:
  "wp discipline (push_consumers A config js) (phase (Setup False)) (Setup False)"
  unfolding push_consumers_def script_calls Let_def by (rule script_rules | simp; fail)+

lemma push_create_phase [phases]:
  "wp discipline (push_create A config c) (phase (Setup False)) (Setup False)"
  unfolding push_create_def script_calls by (rule script_rules wp_phases [OF push_consumers_phase] | simp; fail)+

lemma push_announce_phase [phases]:
  "wp discipline (push_announce A config c) (phase (Announced False)) (Setup False)"
  unfolding push_announce_def script_calls  by (rule script_rules | simp; fail)+

lemma push_publish_phase [phases]:
  "wp discipline (push_publish A config js) (phase (Announced False)) (Announced False)"
  unfolding push_publish_def script_calls Let_def by (rule script_rules | simp; fail)+

lemma push_receive_phase [phases]:
  "wp discipline (push_receive A config js s) (phase (Announced False)) (Announced False)"
  unfolding push_receive_def script_calls  by (rule script_rules | simp; fail)+

lemma push_finish_phase [phases]:
  "wp discipline (push_finish A config c s) (phase Drained) (Announced False)"
  unfolding push_finish_def script_calls  by (rule script_rules | simp; fail)+

text \<open>The ordered peer.\<close>

lemma ordered_create_phase [phases]:
  "wp discipline (ordered_create A config c) (phase (Setup False)) (Setup False)"
  unfolding ordered_create_def script_calls  by (rule script_rules | simp; fail)+

lemma ordered_inspect_phase [phases]:
  "wp discipline (ordered_inspect A config c s) (phase (Setup False)) (Setup False)"
  unfolding ordered_inspect_def script_calls  by (rule script_rules | simp; fail)+

lemma ordered_announce_phase [phases]:
  "wp discipline (ordered_announce A config c) (phase (Announced False)) (Setup False)"
  unfolding ordered_announce_def
  by (rule wp_subscribe_controls) (unfold script_calls, (rule script_rules | simp; fail)+)

lemma publishOrderedMessage_phase [phases]:
  "wp discipline (publishOrderedMessage A js subject payload interop trace stream n) (phase (Announced False)) (Announced False)"
  unfolding publishOrderedMessage_def script_calls Let_def by (rule script_rules | simp; fail)+

lemma ordered_publish_phase [phases]:
  "wp discipline (ordered_publish A config js) (phase (Announced False)) (Announced False)"
  unfolding ordered_publish_def Let_def
  by (rule wp_phases [OF publishOrderedMessage_phase] wp_ret | simp; fail)+

lemma ordered_deliveries_phase [phases]:
  "wp discipline (ordered_deliveries A config s consumer interop try_ack xs) (phase (Announced False)) (Announced False)"
proof (induction xs)
  case (Cons x xs)
  obtain label payload n0 n1 where x: "x = (label, payload, n0, n1)" by (cases x)
  show ?case unfolding x ordered_deliveries.simps script_calls
    by (rule script_rules Cons | simp; fail)+
qed simp

lemma ordered_batch_two_phase [phases]:
  "wp discipline (ordered_batch_two A) (phase (Announced False)) (Announced False)"
  unfolding ordered_batch_two_def script_calls  by (rule script_rules | simp; fail)+

lemma ordered_close_phase [phases]:
  "wp discipline (ordered_close A s) (phase (Announced False)) (Announced False)"
  unfolding ordered_close_def script_calls  by (rule script_rules | simp; fail)+

lemma ordered_finish_phase [phases]:
  "wp discipline (ordered_finish A config c m) (phase Drained) (Announced False)"
  unfolding ordered_finish_def script_calls  by (rule script_rules | simp; fail)+

text \<open>The push peer across a restart. Waiting for the signal and retrying only look.\<close>

lemma restart_create_phase [phases]:
  "wp discipline (restart_create A config c) (phase (Setup False)) (Setup False)"
  unfolding restart_create_def script_calls by (rule script_rules wp_phases [OF push_consumers_phase] | simp; fail)+

lemma restart_announce_phase [phases]:
  "wp discipline (restart_announce A config c) (phase (Announced False)) (Setup False)"
  unfolding restart_announce_def script_calls  by (rule script_rules  | simp; fail)+

lemma restart_to_ocaml_phase [phases]:
  "wp discipline (restart_to_ocaml A config js w payload trace acked n) (phase (Announced False)) (Announced False)"
  unfolding restart_to_ocaml_def script_calls Let_def by (rule script_rules  | simp; fail)+

lemma restart_from_ocaml_phase [phases]:
  "wp discipline (restart_from_ocaml A config js s w payload trace n0 n1) (phase (Announced False)) (Announced False)"
  unfolding restart_from_ocaml_def script_calls  by (rule script_rules  | simp; fail)+

lemma restart_told_phase [phases]:
  "wp discipline (restart_told A c subj payload w) (phase (Announced False)) (Announced False)"
  unfolding restart_told_def script_calls  by (rule script_rules  | simp; fail)+

lemma restart_sections_phase [phases]:
  "wp discipline (restart_before A config c js s) (phase (Announced False)) (Announced False)"
  "wp discipline (restart_after A config js s) (phase (Announced False)) (Announced False)"
  unfolding restart_before_def restart_after_def by ((rule wp_phases, rule phases)+, rule phases)+

lemma steady_await_signal [steady_intros]:
  "steady discipline (Announced d) (await_signal A wait failurePath failed check_failure path check_signal timeout)"
  unfolding await_signal_def signal_turn_def by (intro steady_intros)

lemma steady_retries [steady_intros]:
  "steady discipline (Announced d) (waitForJetStreamReconnectSignal A signal)"
  "steady discipline (Announced d) (retryJetStreamStreamInfo A js stream deadline)"
  "steady discipline (Announced d) (retryJetStreamConsumerInfo A js stream consumer deadline)"
  unfolding waitForJetStreamReconnectSignal_def retryJetStreamStreamInfo_def retryJetStreamConsumerInfo_def
    StreamInfo_def ConsumerInfo_def Let_def
  by (intro steady_intros | simp; fail)+

lemma restart_recover_phase [phases]:
  "wp discipline (restart_recover A config c js) (phase (Announced False)) (Announced False)"
  unfolding restart_recover_def script_calls Let_def
  by (rule script_rules wp_must_steady [OF steady_retries(1)] wp_try_steady [OF steady_retries(2)]
        wp_try_steady [OF steady_retries(3)] wp_clock wp_bnd | simp; fail)+

lemma awaitRecoveryBarrierWithTimeout_phase [phases]:
  "wp discipline (awaitRecoveryBarrierWithTimeout A c prefix n timeout) (phase (Announced False)) (Announced False)"
  unfolding awaitRecoveryBarrierWithTimeout_def script_calls Let_def by (rule script_rules | simp; fail)+

lemma restart_verify_phase [phases]:
  "wp discipline (restart_verify A config c) (phase (Announced False)) (Announced False)"
  unfolding restart_verify_def script_calls  by (rule script_rules wp_phases [OF awaitRecoveryBarrierWithTimeout_phase] | simp; fail)+

lemma restart_finish_phase [phases]:
  "wp discipline (restart_finish A config c s) (phase Drained) (Announced False)"
  unfolding restart_finish_def script_calls  by (rule script_rules wp_phases [OF restart_told_phase] | simp; fail)+

section \<open>Discipline of the administration, Key-Value, Object Store and Service peers\<close>

lemma verify_account_phase [phases]:
  "wp discipline (verify_account A js) (phase (Announced False)) (Announced False)"
  unfolding verify_account_def script_calls  by (rule script_rules  | simp; fail)+

lemma verify_stream_phase [phases]:
  "wp discipline (verify_stream A config js) (phase (Announced False)) (Announced False)"
  unfolding verify_stream_def script_calls  by (rule script_rules  | simp; fail)+

lemma verify_stream_names_phase [phases]:
  "wp discipline (verify_stream_names A config js) (phase (Announced False)) (Announced False)"
  unfolding verify_stream_names_def script_calls require_listed_def by (rule script_rules  | simp; fail)+

lemma verify_consumer_phase [phases]:
  "wp discipline (verify_consumer A stream) (phase (Announced False)) (Announced False)"
  unfolding verify_consumer_def script_calls require_listed_def by (rule script_rules  | simp; fail)+

lemma verify_reset_phase [phases]:
  "wp discipline (verify_reset A consumer) (phase (Announced False)) (Announced False)"
  unfolding verify_reset_def script_calls FetchBatch_def by (rule script_rules  | simp; fail)+

lemma verifyJetStreamAdmin_phase [phases]:
  "wp discipline (verifyJetStreamAdmin A js config) (phase (Announced False)) (Announced False)"
  unfolding verifyJetStreamAdmin_def by (rule wp_phases, rule phases)+ (rule phases)

lemma admin_create_phase [phases]:
  "wp discipline (admin_create A config c) (phase (Setup False)) (Setup False)"
  unfolding admin_create_def script_calls  by (rule script_rules  | simp; fail)+

lemma admin_messages_phase [phases]:
  "wp discipline (admin_messages A config js ns) (phase (Setup False)) (Setup False)"
proof (induction ns)
  case (Cons n ns)
  then show ?case unfolding admin_messages.simps script_calls by (intro wp_try_perform) auto
qed simp

lemma admin_announce_phase [phases]:
  "wp discipline (admin_announce A config c) (phase (Announced False)) (Setup False)"
  unfolding admin_announce_def script_calls  by (rule script_rules  | simp; fail)+

lemma admin_finish_phase [phases]:
  "wp discipline (admin_finish A config c js) (phase Drained) (Announced False)"
  unfolding admin_finish_def script_calls  by (rule script_rules wp_phases [OF verifyJetStreamAdmin_phase] | simp; fail)+

text \<open>The ready file of the Key-Value peer appears by a rename.\<close>

lemma wp_remove:
  "discipline q (ERemove path) = Some q \<Longrightarrow> Q () q \<Longrightarrow>
   wp discipline (bnd (perform (\<lambda>_. ERemove path) f) (\<lambda>_. ret ())) Q q"
  by (intro wp_bnd wp_call) simp

lemma wp_must_publishReadyFile:
  assumes "wp discipline k (phase q1) (Announced False)"
  shows "wp discipline (must (publishReadyFile A path content) w k) (phase q1) (Setup False)"
proof (rule wp_must)
  have "wp discipline (publishReadyFile A path content)
     (\<lambda>r q. case r of None \<Rightarrow> q = Announced False | Some _ \<Rightarrow> open_state q) (Setup False)"
    unfolding publishReadyFile_def script_calls Let_def
    by (rule wp_as_check wp_deferred wp_remove script_rules | simp add: wp_remove; fail)+
  then show "wp discipline (publishReadyFile A path content)
     (\<lambda>r q'. case r of None \<Rightarrow> wp discipline k (phase q1) q' | Some err \<Rightarrow> phase q1 (Inl (w err)) q') (Setup False)"
    by (rule wp_mono) (use assms in \<open>auto split: option.splits\<close>)
qed

lemma kv_setup_phase [phases]:
  "wp discipline (kv_setup A config c) (phase (Setup False)) (Setup False)"
  unfolding kv_setup_def script_calls Let_def by (rule script_rules  | simp; fail)+

lemma kv_announce_phase [phases]:
  "wp discipline (kv_announce A config c ttl) (phase (Announced False)) (Setup False)"
  unfolding kv_announce_def
  by (rule wp_subscribe_each) (unfold script_calls, (rule script_rules wp_must_publishReadyFile | simp; fail)+)

lemma wp_key_gone:
  assumes "wp discipline k (phase q) (Announced False)"
  shows "wp discipline (key_gone A kv key visible other k) (phase q) (Announced False)"
  unfolding key_gone_def KVGet_def script_calls by (rule script_rules assms | simp; fail)+

lemmas store_calls = script_calls KVPut_def KVGet_def KVUpdate_def KVCreate_def KVDelete_def KVPurge_def
  KVHistory_def PutString_def GetString_def GetInfo_def GetInfoShowDeleted_def AddLink_def ObjectStatus_def
  DeleteStore_def

lemma respond_phase [phases]:
  "wp discipline (respondKeyValueControl A c label m payload) (phase (Announced False)) (Announced False)"
  "wp discipline (respondObjectControl A c label m payload) (phase (Announced False)) (Announced False)"
  unfolding respondKeyValueControl_def respondObjectControl_def store_calls by (rule script_rules | simp; fail)+

lemma wp_try_entry:
  assumes "\<And>a. wp discipline (k a) (phase q1) (Announced False)"
  shows "wp discipline (try_call (waitKeyValueUpdate A label watcher) id k) (phase q1) (Announced False)"
  unfolding waitKeyValueUpdate_def by (intro wp_try_call wp_bnd wp_call wp_ret) (auto simp: assms split: option.splits)

lemma checkKeyValueMessage_phase [phases]:
  "wp discipline (checkKeyValueMessage A label stream bucket key ttl operation) (phase (Announced False)) (Announced False)"
  unfolding checkKeyValueMessage_def store_calls Let_def by (rule script_rules | simp; fail)+

lemmas store_phases = wp_phases [OF respond_phase(1)] wp_phases [OF respond_phase(2)] respond_phase
  wp_phases [OF checkKeyValueMessage_phase] wp_try_entry wp_key_gone

lemma kv_first_put_phase [phases]:
  "wp discipline (kv_first_put A config c kv) (phase (Announced False)) (Announced False)"
  unfolding kv_first_put_def store_calls  by (rule script_rules store_phases  | simp; fail)+

lemma kv_updated_phase [phases]:
  "wp discipline (kv_updated A config c kv n) (phase (Announced False)) (Announced False)"
  unfolding kv_updated_def store_calls  by (rule script_rules store_phases  | simp; fail)+

lemma kv_deleted_phase [phases]:
  "wp discipline (kv_deleted A config c kv) (phase (Announced False)) (Announced False)"
  unfolding kv_deleted_def store_calls  by (rule script_rules store_phases  | simp; fail)+

lemma kv_watched_phase [phases]:
  "wp discipline (kv_watched A config c watcher) (phase (Announced False)) (Announced False)"
  unfolding kv_watched_def store_calls  by (rule script_rules store_phases  | simp; fail)+

lemma kv_go_write_phase [phases]:
  "wp discipline (kv_go_write A c kv) (phase (Announced False)) (Announced False)"
  unfolding kv_go_write_def store_calls  by (rule script_rules store_phases  | simp; fail)+

lemma kv_purged_phase [phases]:
  "wp discipline (kv_purged A config c kv) (phase (Announced False)) (Announced False)"
  unfolding kv_purged_def store_calls  by (rule script_rules store_phases  | simp; fail)+

lemma kv_ttl_created_phase [phases]:
  "wp discipline (kv_ttl_created A config c kv stream) (phase (Announced False)) (Announced False)"
  unfolding kv_ttl_created_def store_calls  by (rule script_rules store_phases  | simp; fail)+

lemma kv_ttl_purged_phase [phases]:
  "wp discipline (kv_ttl_purged A config c kv stream n) (phase (Announced False)) (Announced False)"
  unfolding kv_ttl_purged_def store_calls  by (rule script_rules store_phases  | simp; fail)+

lemma kv_ttl_phase [phases]:
  "wp discipline (kv_ttl A config c kv stream ttl) (phase (Announced False)) (Announced False)"
  unfolding kv_ttl_def store_calls  by (rule script_rules store_phases wp_phases [OF kv_ttl_created_phase] wp_phases [OF kv_ttl_purged_phase] | simp; fail)+

lemma kv_purge_deletes_phase [phases]:
  "wp discipline (kv_purge_deletes A c kv n) (phase (Announced False)) (Announced False)"
  unfolding kv_purge_deletes_def store_calls  by (rule script_rules store_phases  | simp; fail)+

lemma kv_purge_deletes_done_phase [phases]:
  "wp discipline (kv_purge_deletes_done A c kv) (phase (Announced False)) (Announced False)"
  unfolding kv_purge_deletes_done_def store_calls  by (rule script_rules store_phases  | simp; fail)+

lemma kv_finish_phase [phases]:
  "wp discipline (kv_finish A config c js) (phase Drained) (Announced False)"
  unfolding kv_finish_def store_calls  by (rule script_rules store_phases  | simp; fail)+

lemma kv_after_watch_phase [phases]:
  "wp discipline (kv_after_watch A config c js kv stream ttl) (phase Drained) (Announced False)"
  unfolding kv_after_watch_def by (rule wp_phases, rule phases)+ (rule phases)

lemma steady_watchCancel [steady_intros]: "open_state q \<Longrightarrow> steady discipline q (watchCancel A)"
  unfolding watchCancel_def by (rule steady_call_plain)

text \<open>Acquiring a resource, with what each answer leads to.\<close>

lemma wp_acquire:
  assumes "\<And>err. wp discipline (k (Inl err)) Q q" and "\<And>h. wp discipline (k (Inr h)) Q q"
    and "\<And>r. discipline q (EAcquire name r) = Some q"
  shows "wp discipline (bnd (acquire name f) k) Q q"
  unfolding acquire_def
proof (rule wp_bnd_call)
  fix r :: "gerr + nat"
  show "wp discipline (k r) Q q" by (cases r) (auto simp: assms)
qed (rule assms(3))

lemma kv_watch_scope_phase [phases]:
  "wp discipline (kv_watch_scope A config c js kv stream ttl) (phase Drained) (Announced False)"
  unfolding kv_watch_scope_def
  by (rule wp_acquire, simp_all only: sum.case discipline_simps)
     (rule wp_bnd_steady wp_guarded_phase [OF kv_watched_phase] wp_deferred_phase [OF kv_after_watch_phase]
        steady_intros | simp; fail)+

text \<open>The Object Store peer.\<close>

lemma steady_waitObjectUpdate:
  "steady discipline (Announced False) (waitObjectUpdate fuel A label watcher name)"
proof -
  have "steady discipline (Announced False) (object_updates fuel A deadline label watcher name)" for deadline
  proof (induction fuel)
    case (Suc fuel)
    then show ?case unfolding object_updates.simps by (intro steady_intros steady_perform) simp_all
  qed (simp add: steady_intros)
  then show ?thesis unfolding waitObjectUpdate_def by (intro steady_intros)
qed

lemma object_initial_phase [phases]:
  "wp discipline (object_initial A config store) (phase (Setup False)) (Setup False)"
  unfolding object_initial_def store_calls  by (rule script_rules store_phases  | simp; fail)+

lemma object_announce_phase [phases]:
  "wp discipline (object_announce A config c) (phase (Announced False)) (Setup False)"
  unfolding object_announce_def
  by (rule wp_subscribe_each) (unfold script_calls, (rule script_rules | simp; fail)+)

lemma object_first_put_phase [phases]:
  "wp discipline (object_first_put A config c store) (phase (Announced False)) (Announced False)"
  unfolding object_first_put_def store_calls  by (rule script_rules store_phases  | simp; fail)+

lemma object_written_phase [phases]:
  "wp discipline (object_written A config c store) (phase (Announced False)) (Announced False)"
  unfolding object_written_def store_calls  by (rule script_rules store_phases  | simp; fail)+

lemma object_go_watch_phase [phases]:
  "wp discipline (object_go_watch A config store) (phase (Announced False)) (Announced False)"
  unfolding object_go_watch_def store_calls  by (rule script_rules store_phases  | simp; fail)+

lemma object_watched_phase [phases]:
  "wp discipline (object_watched fuel A config c m watcher) (phase (Announced False)) (Announced False)"
  unfolding object_watched_def store_calls  by (rule script_rules store_phases wp_try_steady [OF steady_waitObjectUpdate] | simp; fail)+

lemma object_go_link_phase [phases]:
  "wp discipline (object_go_link A config c store) (phase (Announced False)) (Announced False)"
  unfolding object_go_link_def store_calls  by (rule script_rules store_phases  | simp; fail)+

lemma object_ocaml_link_phase [phases]:
  "wp discipline (object_ocaml_link A config c store) (phase (Announced False)) (Announced False)"
  unfolding object_ocaml_link_def store_calls  by (rule script_rules store_phases  | simp; fail)+

lemma object_deleted_phase [phases]:
  "wp discipline (object_deleted A c store) (phase (Announced False)) (Announced False)"
  unfolding object_deleted_def store_calls  by (rule script_rules store_phases  | simp; fail)+

lemma object_sealed_phase [phases]:
  "wp discipline (object_sealed A c store) (phase (Announced False)) (Announced False)"
  unfolding object_sealed_def store_calls  by (rule script_rules store_phases  | simp; fail)+

lemma object_delete_phase [phases]:
  "wp discipline (object_delete A config js store) (phase (Announced False)) (Announced False)"
  unfolding object_delete_def store_calls  by (rule script_rules store_phases  | simp; fail)+

lemma object_finish_phase [phases]:
  "wp discipline (object_finish A c m) (phase Drained) (Announced False)"
  unfolding object_finish_def store_calls  by (rule script_rules store_phases  | simp; fail)+

lemma object_sections_phase [phases]:
  "wp discipline (object_before_watch A config c store) (phase (Announced False)) (Setup False)"
  "wp discipline (object_after_watch A config c js store) (phase (Announced False)) (Announced False)"
  unfolding object_before_watch_def object_after_watch_def by ((rule wp_phases, rule phases)+, rule phases)+

lemma steady_DeleteStore [steady_intros]: "open_state q \<Longrightarrow> steady discipline q (DeleteStore A config js store)"
  unfolding DeleteStore_def by (rule steady_release)

lemma object_watch_scope_phase [phases]:
  "wp discipline (object_watch_scope fuel A config c js store m) (phase Drained) (Announced False)"
  unfolding object_watch_scope_def
  by (rule wp_acquire, simp_all only: sum.case discipline_simps)
     (rule wp_bnd_steady wp_guarded_phase [OF object_watched_phase] wp_guarded_phase [OF object_sections_phase(2)]
        wp_deferred_phase [OF object_finish_phase] steady_intros | simp; fail)+

text \<open>The Service peers.\<close>

lemma steady_service_requests [steady_intros]:
  "steady discipline (Announced False) (requestServiceInfo A verb response c name)"
  "steady discipline (Announced False) (requestServiceStats A verb response c name id')"
  unfolding requestServiceInfo_def requestServiceStats_def Request_def
  by (intro steady_intros)+

lemma steady_client [steady_intros]:
  "steady discipline (Announced False) (client_info A E c)"
  "steady discipline (Announced False) (client_stats A E c id')"
  unfolding client_info_def client_stats_def by (rule steady_intros)+

lemma steady_own_stats [steady_intros]: "open_state q \<Longrightarrow> steady discipline q (own_stats A service)"
  unfolding own_stats_def by (intro steady_intros)

lemma wp_no_callback_error:
  assumes "wp discipline k (phase q1) (Announced False)"
  shows "wp discipline (no_callback_error A label k) (phase q1) (Announced False)"
  unfolding no_callback_error_def script_calls by (rule script_rules assms | simp; fail)+

lemmas service_steps = wp_try_steady [OF steady_client(1)] wp_try_steady [OF steady_wait_stats [OF steady_client(2)]]
  wp_try_steady [OF steady_wait_stats [OF steady_own_stats]] wp_no_callback_error

lemma service_barrier_phase [phases]:
  "wp discipline (service_barrier A config c label fmt) (phase (Announced False)) (Announced False)"
  unfolding service_barrier_def StopService_def AddEndpoint_def script_calls 
  by (rule script_rules service_steps  | simp; fail)+

lemma service_announce_phase [phases]:
  "wp discipline (service_announce A config c service) (phase (Announced False)) (Setup False)"
  unfolding service_announce_def StopService_def AddEndpoint_def script_calls 
  by (rule script_rules service_steps  | simp; fail)+

lemma service_request_phase [phases]:
  "wp discipline (service_request A config c) (phase (Announced False)) (Announced False)"
  unfolding service_request_def StopService_def AddEndpoint_def script_calls Let_def
  by (rule script_rules service_steps  | simp; fail)+

lemma service_observe_phase [phases]:
  "wp discipline (service_observe A E config c service) (phase (Announced False)) (Announced False)"
  unfolding service_observe_def StopService_def AddEndpoint_def script_calls 
  by (rule script_rules service_steps  | simp; fail)+

lemma service_end_phase [phases]:
  "wp discipline (service_end A config c service) (phase (Announced False)) (Announced False)"
  unfolding service_end_def StopService_def AddEndpoint_def script_calls 
  by (rule script_rules service_steps wp_phases [OF service_barrier_phase] | simp; fail)+

lemma service_reconnect_announce_phase [phases]:
  "wp discipline (service_reconnect_announce A config c service) (phase (Announced False)) (Setup False)"
  unfolding service_reconnect_announce_def StopService_def AddEndpoint_def script_calls 
  by (rule script_rules service_steps  | simp; fail)+

lemma service_identity_phase [phases]:
  "wp discipline (service_identity A E config c label) (phase (Announced False)) (Announced False)"
  unfolding service_identity_def StopService_def AddEndpoint_def script_calls 
  by (rule script_rules service_steps  | simp; fail)+

lemma service_exchange_phase [phases]:
  "wp discipline (service_exchange A config c n) (phase (Announced False)) (Announced False)"
  unfolding service_exchange_def StopService_def AddEndpoint_def script_calls Let_def
  by (rule script_rules service_steps  | simp; fail)+

lemma service_counters_phase [phases]:
  "wp discipline (service_counters A E config c service info n) (phase (Announced False)) (Announced False)"
  unfolding service_counters_def StopService_def AddEndpoint_def script_calls Let_def
  by (rule script_rules service_steps  | simp; fail)+

lemma service_round_barrier_phase [phases]:
  "wp discipline (service_round_barrier A c n) (phase (Announced False)) (Announced False)"
  unfolding service_round_barrier_def StopService_def AddEndpoint_def script_calls 
  by (rule script_rules service_steps  | simp; fail)+

lemma service_round_phase [phases]:
  "wp discipline (service_round A E config c service info n) (phase (Announced False)) (Announced False)"
  unfolding service_round_def by (rule wp_phases, rule phases)+ (rule phases)

lemma service_kill_phase [phases]:
  "wp discipline (service_kill A config c n) (phase (Announced False)) (Announced False)"
  unfolding service_kill_def awaitRecoveryBarrier_def script_calls
  by (rule script_rules awaitRecoveryBarrierWithTimeout_phase | simp; fail)+

lemma service_rounds_phase [phases]:
  "wp discipline (service_rounds A E config c service info left n) (phase (Announced False)) (Announced False)"
proof (induction left arbitrary: info n)
  case (Suc left)
  then show ?case by (auto intro!: wp_phases [OF service_round_phase] wp_phases [OF service_kill_phase]
      wp_phases [OF service_identity_phase])
qed (simp add: service_round_phase)

lemma service_reconnect_end_phase [phases]:
  "wp discipline (service_reconnect_end A config c service) (phase (Announced False)) (Announced False)"
  unfolding service_reconnect_end_def StopService_def AddEndpoint_def script_calls 
  by (rule script_rules service_steps wp_phases [OF service_barrier_phase] | simp; fail)+

lemma steady_waitForFile [steady_intros]: "steady discipline (Announced d) (waitForFile fuel A path)"
proof -
  have "steady discipline (Announced d) (file_ticks fuel A deadline path)" for deadline
  proof (induction fuel)
    case (Suc fuel)
    then show ?case unfolding file_ticks.simps by (intro steady_intros) simp_all
  qed (simp add: steady_intros)
  then show ?thesis unfolding waitForFile_def by (intro steady_intros)
qed

lemma wp_must_writeReadyFile:
  assumes "wp discipline k (phase q1) (Announced False)"
  shows "wp discipline (must (writeReadyFile A path) w k) (phase q1) (Setup False)"
proof (rule wp_must)
  have ready: "''ready'' @ [LF] = ready_content" by (simp add: ready_content_def)
  have "wp discipline (writeReadyFile A path)
     (\<lambda>r q. case r of None \<Rightarrow> q = Announced False | Some _ \<Rightarrow> open_state q) (Setup False)"
    unfolding writeReadyFile_def script_calls ready by (intro wp_if wp_call) (auto split: option.splits)
  then show "wp discipline (writeReadyFile A path)
     (\<lambda>r q'. case r of None \<Rightarrow> wp discipline k (phase q1) q' | Some err \<Rightarrow> phase q1 (Inl (w err)) q') (Setup False)"
    by (rule wp_mono) (use assms in \<open>auto split: option.splits\<close>)
qed

lemma parent_announce_phase [phases]:
  "wp discipline (parent_announce A config c) (phase (Announced False)) (Setup False)"
  unfolding parent_announce_def StopService_def AddEndpoint_def script_calls 
  by (rule script_rules service_steps wp_must_writeReadyFile | simp; fail)+

lemma parent_requests_phase [phases]:
  "wp discipline (parent_requests fuel A config c closed) (phase Drained) (Announced False)"
  unfolding parent_requests_def StopService_def AddEndpoint_def script_calls Let_def
  by (rule script_rules service_steps wp_must_steady [OF steady_waitForFile] | simp; fail)+

section \<open>Properties\<close>

lemma wp_try_handle:
  assumes "\<And>h. wp discipline (k h) (phase q1) (Setup False)"
  shows "wp discipline (try_call (PullSubscribe A js subject durable opts) w k) (phase q1) (Setup False)"
    and "wp discipline (try_call (SubscribeSync A js subject opts) w k) (phase q1) (Setup False)"
    and "wp discipline (try_call (AddService A c service) w k) (phase q1) (Setup False)"
    and "wp discipline (try_call (CreateStore A js store) w k) (phase q1) (Setup False)"
    and "wp discipline (try_call (call_sum name f) w k) (phase q1) (Setup False)"
  unfolding PullSubscribe_def SubscribeSync_def AddService_def CreateStore_def acquire_def call_sum_def
  by (rule wp_try_perform, simp, simp, rule assms)+

lemma wp_drain_last:
  "wp discipline (must (Drain A c) w (ret (Inr ()))) (phase Drained) (Announced False)"
  unfolding Drain_def by (rule wp_must_call) auto

lemma disciplined_case:
  assumes "\<And>y. disciplined (as_check (f y))"
  shows "disciplined (as_check (case s of Inl err \<Rightarrow> ret (Inl err) | Inr y \<Rightarrow> f y))"
proof (cases s)
  case (Inl err)
  then show ?thesis by (simp, intro disciplinedI wp_as_check) (simp add: proper_end_def)
qed (simp add: assms)

text \<open>
  C31: The JetStream pull, push, ordered, push-reconnect and administration peers, the Key-Value and
  Object Store peers and the three Service peers keep the handshake discipline whatever the
  library, the server, the file system and the other side do: the ready file appears only when
  every subscription has reached the server, the conversation starts only after it, nothing is
  sent or received while a subscription is in flight, an opened connection is closed on every
  path and not used after, and success means that it was drained. The subscriptions in flight are
  those of the core client; those that JetStream makes count as calls.
\<close>

theorem store_peers_disciplined:
  "disciplined (runJetStreamPeer A config) \<and> disciplined (runJetStreamPushPeer A config) \<and>
   disciplined (runJetStreamOrderedPeer A config) \<and> disciplined (runJetStreamPushReconnectPeer A config) \<and>
   disciplined (runJetStreamAdminPeer A config) \<and> disciplined (runJetStreamKeyValuePeer A config) \<and>
   disciplined (runJetStreamObjectPeer fuel A config) \<and> disciplined (runServicePeer E A config) \<and>
   disciplined (runServiceReconnectPeer E A config) \<and> disciplined (runServiceParentClosePeer fuel A config)"
proof (intro conjI)
  show "disciplined (runJetStreamPeer A config)"
    unfolding runJetStreamPeer_def
    by (rule options_script connect_script wp_phases phases wp_try_handle wp_deferred_phase steady_intros | assumption)+
  show "disciplined (runJetStreamPushPeer A config)"
    unfolding runJetStreamPushPeer_def
    by (rule options_script connect_script wp_phases phases wp_try_handle wp_deferred_phase steady_intros | assumption)+
  show "disciplined (runJetStreamPushReconnectPeer A config)"
    unfolding runJetStreamPushReconnectPeer_def
    by (rule options_script connect_script wp_phases phases wp_try_handle wp_deferred_phase steady_intros | assumption)+
  show "disciplined (runJetStreamAdminPeer A config)"
    unfolding runJetStreamAdminPeer_def
    by (rule options_script connect_script wp_phases phases)+
  show "disciplined (runJetStreamOrderedPeer A config)"
    unfolding runJetStreamOrderedPeer_def
    by (rule options_script connect_script wp_phases phases wp_try_handle wp_guarded_phase steady_intros | assumption)+
  show "disciplined (runJetStreamKeyValuePeer A config)"
    unfolding runJetStreamKeyValuePeer_def
    by (rule options_script connect_script wp_pair wp_phases phases)+
  show "disciplined (runJetStreamObjectPeer fuel A config)"
    unfolding runJetStreamObjectPeer_def
    by (rule options_script connect_script wp_if wp_phases phases wp_try_handle wp_guarded_phase steady_intros | assumption | simp; fail)+
  show "disciplined (runServicePeer E A config)"
    unfolding runServicePeer_def StopService_def
    by (rule options_script connect_script wp_phases phases wp_try_handle wp_guarded_phase wp_drain_last steady_intros | assumption)+
  show "disciplined (runServiceReconnectPeer E A config)"
    unfolding runServiceReconnectPeer_def StopService_def
    by (rule options_script, rule wp_sum, simp add: proper_end_def)
       (rule connect_script wp_phases phases wp_try_handle wp_guarded_phase wp_drain_last steady_intros | assumption)+
  show "disciplined (runServiceParentClosePeer fuel A config)"
    unfolding runServiceParentClosePeer_def
    by (rule disciplined_case) (rule options_script connect_script wp_phases phases)+
qed

end
