(* ===== verification/GoFailover.thy ===== *)
theory GoFailover
  imports GoOrdered GoKeyValue GoControl
begin

text \<open>
  The ordered-consumer peer that survives a reconnect, the loss of several nodes or the kill of
  its stream's leader (\<open>jetstream_ordered_reconnect.go\<close>), and the steps it shares with the
  replicated Key-Value and Object Store peers. When the leader is to be killed, the peer first
  moves to a server that will survive: it closes its connection and opens another.
\<close>

section \<open>The first connection and the move to a survivor\<close>

definition first_connection ::
  "'e api \<Rightarrow> options \<Rightarrow> natsopt list \<Rightarrow> (conn \<Rightarrow> ('e, gerr + 'b) io) \<Rightarrow> ('e, gerr + 'b) io" where
  "first_connection A config opts k =
     try_call (Connect A (op_server config) opts) (wrap ''connect'') (\<lambda>c.
     bnd (call_plain ''ConnectedUrl'' (connected_url A c)) (\<lambda>url.
     (case expectInitialConnection url (op_server config) of
        Some err \<Rightarrow> bnd (Close A c) (\<lambda>_. ret (Inl err))
      | None \<Rightarrow> k c)))"

text \<open>
  A setup answers with the connection that is open when it ends; after a failed move that is
  none, and closing it does nothing.
\<close>

definition closing :: "'e api \<Rightarrow> conn option \<Rightarrow> ('e, 'a) io \<Rightarrow> ('e, 'a) io" where
  "closing A current m = (case current of None \<Rightarrow> m | Some c \<Rightarrow> deferred (Close A c) m)"

definition then_on ::
  "('e, conn option \<times> (gerr + 'a)) io \<Rightarrow> ('a \<Rightarrow> ('e, gerr + 'b) io) \<Rightarrow> ('e, conn option \<times> (gerr + 'b)) io" where
  "then_on m k = bnd m (\<lambda>(current, r). case r of
     Inl err \<Rightarrow> ret (current, Inl err)
   | Inr a \<Rightarrow> bnd (k a) (\<lambda>r. ret (current, r)))"

definition actualLeader :: "stream_info \<Rightarrow> string" where
  "actualLeader info = (case si_Cluster info of None \<Rightarrow> [] | Some cl \<Rightarrow> cl_Leader cl)"

definition still_led :: "string \<Rightarrow> stream_info \<Rightarrow> bool" where
  "still_led leaderName info = (case si_Cluster info of None \<Rightarrow> False | Some cl \<Rightarrow> cl_Leader cl = leaderName)"

definition leader_named :: "string \<Rightarrow> stream_info \<Rightarrow> gerr + string" where
  "leader_named unidentified info =
     (case si_Cluster info of
        None \<Rightarrow> Inl (Errorf unidentified [])
      | Some cl \<Rightarrow> if cl_Leader cl = [] then Inl (Errorf unidentified []) else Inr (cl_Leader cl))"

definition mark_failure :: "'e api \<Rightarrow> options \<Rightarrow> gerr \<Rightarrow> ('e, gerr + 'b) io" where
  "mark_failure A config err =
     bnd (markJetStreamInteropFailure A (op_signal config) err) (\<lambda>err. ret (Inl err))"

definition stream_info_within :: "'e api \<Rightarrow> jsc \<Rightarrow> string \<Rightarrow> nat \<Rightarrow> ('e, gerr + stream_info) io" where
  "stream_info_within A js stream wait =
     bnd clock (\<lambda>now. retryJetStreamStreamInfo A js stream (now + wait))"

text \<open>The leader's name is published, the survivors' endpoints are awaited, the peer moves there.\<close>

definition survivor_endpoint :: "'e api \<Rightarrow> options \<Rightarrow> string \<Rightarrow> string \<Rightarrow> ('e, gerr + string) io" where
  "survivor_endpoint A config what leaderName =
     must (WriteFile A (op_leader config) (leaderName @ [LF])) (wrap (''write '' @ what @ '' leader'')) (
     try_call (waitForJetStreamSurvivorFile A (op_signal config) (op_survivor config)) id (\<lambda>survivorServer.
     ret (Inr survivorServer)))"

definition leave_leader ::
  "'e api \<Rightarrow> options \<Rightarrow> string \<Rightarrow> natsopt list \<Rightarrow> conn \<Rightarrow> string \<Rightarrow> ('e, conn option \<times> (gerr + conn)) io" where
  "leave_leader A config what opts c leaderName =
     bnd (survivor_endpoint A config what leaderName) (\<lambda>r. case r of
       Inl err \<Rightarrow> ret (Some c, Inl err)
     | Inr survivorServer \<Rightarrow>
         bnd (Close A c) (\<lambda>_.
         bnd (Connect A survivorServer opts) (\<lambda>r. case r of
           Inl err \<Rightarrow> ret (None, Inl (Errorf (''connect to '' @ what @ '' survivor %q: %w'')
                        [AStr survivorServer, AWrap err]))
         | Inr c' \<Rightarrow> ret (Some c', Inr c'))))"

definition leader_confirmed ::
  "'e api \<Rightarrow> options \<Rightarrow> string \<Rightarrow> jsc \<Rightarrow> string \<Rightarrow> string \<Rightarrow> nat \<Rightarrow> ('e, gerr + unit) io" where
  "leader_confirmed A config what probe stream leaderName wait =
     try_call (stream_info_within A probe stream wait) id (\<lambda>info.
     if \<not> still_led leaderName info then
       mark_failure A config (Errorf (what @ '' leader changed during setup from %q to %q'')
         [AStr leaderName, AStr (actualLeader info)])
     else ret (Inr ()))"

section \<open>The kill of the leader, and the reconnect\<close>

text \<open>Every failure here is marked for the processes that watch; the answer carries the deadline.\<close>

definition leader_kill ::
  "'e api \<Rightarrow> options \<Rightarrow> string \<Rightarrow> jsc \<Rightarrow> string \<Rightarrow> string \<Rightarrow> nat \<Rightarrow> nat \<Rightarrow> ('e, gerr + stream_info \<times> nat) io" where
  "leader_kill A config what probe stream leaderName wait settle =
     bnd (stream_info_within A probe stream wait) (\<lambda>r. case r of
       Inl err \<Rightarrow> mark_failure A config err
     | Inr info \<Rightarrow>
         if \<not> still_led leaderName info then
           mark_failure A config (Errorf (what @ '' leader before kill was %q, expected %q'')
             [AStr (actualLeader info), AStr leaderName])
         else
           bnd (WriteFile A (op_leader config) (leaderName @ [LF])) (\<lambda>r. case r of
             Some err \<Rightarrow> mark_failure A config (wrap (''write current '' @ what @ '' leader'') err)
           | None \<Rightarrow>
           bnd (WriteFile A (op_signal config @ ''.kill-ready'') ready_content) (\<lambda>r. case r of
             Some err \<Rightarrow> mark_failure A config (wrap ''write leader kill barrier'' err)
           | None \<Rightarrow>
           must (waitForJetStreamLeaderKillSignal A (op_signal config)) id (
           bnd clock (\<lambda>now.
           bnd (retryJetStreamLeaderChange A probe stream leaderName (now + wait)) (\<lambda>r. case r of
             Inl err \<Rightarrow> mark_failure A config err
           | Inr info \<Rightarrow> bnd (sleep settle) (\<lambda>_. ret (Inr (info, now + wait)))))))))"

definition reconnect_barrier :: "'e api \<Rightarrow> options \<Rightarrow> ('e, gerr + 'b) io \<Rightarrow> ('e, gerr + 'b) io" where
  "reconnect_barrier A config k =
     (if op_requireReplicatedStream config \<or> op_multiNodeLoss config then
        must (WriteFile A (op_signal config @ ''.go-reconnected'') ready_content) (wrap ''write Go reconnect barrier'') k
      else k)"

definition multi_node_recovered :: "'e api \<Rightarrow> options \<Rightarrow> nat \<Rightarrow> nat \<Rightarrow> ('e, gerr + nat) io" where
  "multi_node_recovered A config wait deadline =
     (if op_multiNodeLoss config then
        must (waitForJetStreamMultiNodeRecoverySignal A (op_signal config)) id (
        bnd clock (\<lambda>now. ret (Inr (now + wait))))
      else ret (Inr deadline))"

section \<open>Ordered peer: setup\<close>

definition replicated :: "stream_info \<Rightarrow> bool" where
  "replicated info \<longleftrightarrow> sc_Storage (si_Config info) = FileStorage \<and> sc_Replicas (si_Config info) = 3"

definition storage_args :: "stream_info \<Rightarrow> garg list" where
  "storage_args info = [AStorage (sc_Storage (si_Config info)), AInt (sc_Replicas (si_Config info))]"

definition failover_create :: "'e api \<Rightarrow> options \<Rightarrow> jsc \<Rightarrow> ('e, gerr + unit) io" where
  "failover_create A config js =
     try_call (bnd clock (\<lambda>now. retryAddJetStreamStream A js (stream_zero\<lparr>sc_Name := op_stream config,
         sc_Subjects := [op_prefix config @ ''.match'', op_prefix config @ ''.gap''],
         sc_Storage := FileStorage, sc_Replicas := 3\<rparr>) (now + orderedReconnectWait)))
       (wrap ''create replicated stream'') (\<lambda>streamInfo.
     require (created_stream config streamInfo) (
     require (unless (replicated streamInfo)
       (Errorf ''created stream storage=%v replicas=%d, expected file-backed with three replicas''
         (storage_args streamInfo))) (
     ret (Inr ()))))"

text \<open>
  The connection, the context and, when the leader is to be killed, the probe and the leader's
  name the rest of the script works with.
\<close>

type_synonym site = "conn \<times> jsc \<times> (jsc \<times> string) option"

definition failover_leader :: "'e api \<Rightarrow> options \<Rightarrow> jsc \<Rightarrow> ('e, gerr + string) io" where
  "failover_leader A config js =
     try_call (stream_info_within A js (op_stream config) orderedReconnectWait) id (\<lambda>streamInfo.
     ret (leader_named ''created stream did not identify a JetStream leader'' streamInfo))"

definition failover_survivor :: "'e api \<Rightarrow> options \<Rightarrow> string \<Rightarrow> conn \<Rightarrow> ('e, gerr + site) io" where
  "failover_survivor A config leaderName c =
     try_call (JetStream A c (Some orderedReconnectWait)) (wrap ''JetStream survivor context'') (\<lambda>js.
     try_call (JetStream A c None) (wrap ''JetStream leader probe context'') (\<lambda>probe.
     try_call (leader_confirmed A config ''JetStream'' probe (op_stream config) leaderName orderedReconnectWait) id (\<lambda>_.
     ret (Inr (c, js, Some (probe, leaderName))))))"

definition failover_setup ::
  "'e api \<Rightarrow> options \<Rightarrow> natsopt list \<Rightarrow> conn \<Rightarrow> ('e, conn option \<times> (gerr + site)) io" where
  "failover_setup A config opts c =
     bnd (try_call (JetStream A c (Some orderedReconnectWait)) (wrap ''JetStream context'') (\<lambda>js.
          try_call (failover_create A config js) id (\<lambda>_.
          if op_leader config = [] then ret (Inr (js, None))
          else try_call (failover_leader A config js) id (\<lambda>leaderName. ret (Inr (js, Some leaderName))))))
       (\<lambda>r. case r of
          Inl err \<Rightarrow> ret (Some c, Inl err)
        | Inr (js, None) \<Rightarrow> ret (Some c, Inr (c, js, None))
        | Inr (js, Some leaderName) \<Rightarrow>
            then_on (leave_leader A config ''JetStream'' opts c leaderName) (failover_survivor A config leaderName))"

definition check_failover_consumer :: "options \<Rightarrow> consumer_info \<Rightarrow> check" where
  "check_failover_consumer config info = checks [
     unless (ci_Name info \<noteq> []) (Errorf ''Go ordered consumer info did not identify a consumer'' []),
     unless (ci_Stream info = op_stream config \<and> cc_FilterSubject (ci_Config info) = op_prefix config @ ''.match'')
       (Errorf ''Go ordered consumer was not bound to the expected stream and filter'' []),
     unless (cc_AckPolicy (ci_Config info) = AckNonePolicy \<and> cc_MemoryStorage (ci_Config info) \<and>
         cc_Replicas (ci_Config info) = 1)
       (Errorf ''Go ordered consumer did not use one-replica no-ack memory storage'' [])]"

definition failover_bind :: "'e api \<Rightarrow> options \<Rightarrow> conn \<Rightarrow> ('e, gerr + subn \<times> consumer_info) io" where
  "failover_bind A config c =
     try_call (JetStream A c (Some (5 * second))) (wrap ''ordered JetStream context'') (\<lambda>orderedJetstream.
     try_call (SubscribeSync A orderedJetstream (op_prefix config @ ''.match'') [BindStream (op_stream config), OrderedConsumer])
       (wrap ''create Go ordered consumer'') (\<lambda>s.
     must (Flush A c) (wrap ''flush ordered setup'') (
     try_call (call_sum ''Subscription.ConsumerInfo'' (sub_consumer_info A s))
       (wrap ''read Go ordered consumer info'') (\<lambda>orderedInfo.
     require (check_failover_consumer config orderedInfo) (
     ret (Inr (s, orderedInfo)))))))"

definition failover_controls :: "options \<Rightarrow> (string \<times> chan \<times> string) list" where
  "failover_controls config =
     [(op_prefix config @ ''.start'', ''startMessages'', ''start''),
      (op_prefix config @ ''.baseline'', ''baselineMessages'', ''baseline''),
      (op_prefix config @ ''.recovery-ready'', ''recoveryMessages'', ''recovery readiness''),
      (op_prefix config @ ''.close'', ''closeMessages'', ''close''),
      (op_prefix config @ ''.cleanup'', ''cleanupMessages'', ''cleanup'')]"

definition failover_announce :: "'e api \<Rightarrow> options \<Rightarrow> conn \<Rightarrow> ('e, gerr + unit) io" where
  "failover_announce A config c =
     subscribe_controls A c (failover_controls config) (
     must (Flush A c) (wrap ''flush control setup'') (
     must (WriteFile A (op_ready config) ready_content) (wrap ''write ready file'') (
     try_call (waitJetStreamMessage A ''start request'' ''startMessages'') id (\<lambda>startMessage.
     must (Respond A startMessage ''started'') (wrap ''respond to start'') (
     ret (Inr ()))))))"

section \<open>Ordered peer: before the failure\<close>

definition failover_publish :: "'e api \<Rightarrow> options \<Rightarrow> jsc \<Rightarrow> string \<Rightarrow> string \<Rightarrow> u64 \<Rightarrow> ('e, gerr + unit) io" where
  "failover_publish A config js suffix payload sequence =
     publishOrderedReconnectMessage A js (op_prefix config @ suffix) payload ''go-ordered-reconnect'' payload
       (op_stream config) sequence"

fun failover_deliveries :: "'e api \<Rightarrow> options \<Rightarrow> subn \<Rightarrow> expected list \<Rightarrow> ('e, gerr + unit) io" where
  "failover_deliveries A config s [] = ret (Inr ())"
| "failover_deliveries A config s ((label, payload, streamSequence, consumerSequence) # others) =
     try_call (NextMsg A s orderedReconnectWait) (\<lambda>err. Errorf ''receive %s: %w'' [AStr label, AWrap err]) (\<lambda>message.
     require (expectOrderedReconnectDelivery (Metadata A) label message (op_stream config)
       (op_prefix config @ ''.match'') payload ''go-ordered-reconnect'' payload streamSequence consumerSequence) (
     failover_deliveries A config s others))"

definition baseline_batch :: "expected list" where
  "baseline_batch = [(''Go ordered first'', ''go-before-one'', 1, 1), (''Go ordered second'', ''go-before-three'', 3, 2)]"

definition failover_before :: "'e api \<Rightarrow> options \<Rightarrow> jsc \<Rightarrow> subn \<Rightarrow> ('e, gerr + unit) io" where
  "failover_before A config js s =
     try_call (failover_publish A config js ''.match'' ''go-before-one'' 1) id (\<lambda>_.
     try_call (failover_publish A config js ''.gap'' ''go-gap'' 2) id (\<lambda>_.
     try_call (failover_publish A config js ''.match'' ''go-before-three'' 3) id (\<lambda>_.
     failover_deliveries A config s baseline_batch)))"

definition failover_baseline :: "'e api \<Rightarrow> options \<Rightarrow> jsc \<Rightarrow> ('e, gerr + unit) io" where
  "failover_baseline A config js =
     try_call (waitJetStreamMessage A ''baseline completion'' ''baselineMessages'') id (\<lambda>baselineMessage.
     require (unless (msg_Data baselineMessage = ''baseline-complete'')
       (Errorf ''baseline completion was %q, expected %q'' [AStr (msg_Data baselineMessage), AStr ''baseline-complete''])) (
     try_call (bnd clock (\<lambda>now. retryJetStreamStreamQuorum A js (op_stream config) 3 3 (now + orderedReconnectWait))) id (\<lambda>_.
     must (Respond A baselineMessage ''go-baseline-ready'') (wrap ''respond baseline completion'') (
     ret (Inr ())))))"

section \<open>Ordered peer: the failure\<close>

definition disconnect_barrier :: "'e api \<Rightarrow> options \<Rightarrow> ('e, gerr + unit) io" where
  "disconnect_barrier A config =
     (if op_changedAdvertisedURL config \<noteq> [] \<or> op_managementFailure config then
        must (waitForJetStreamDisconnectSignal A ''disconnected'') id (
        must (WriteFile A (op_signal config @ ''.go-disconnected'') ready_content) (wrap ''write Go disconnect barrier'') (
        ret (Inr ())))
      else ret (Inr ()))"

text \<open>A management request made while the peer is disconnected must fail.\<close>

definition management_failure :: "'e api \<Rightarrow> options \<Rightarrow> jsc \<Rightarrow> ('e, gerr + unit) io" where
  "management_failure A config js =
     (if op_managementFailure config then
        must (waitForJetStreamSignalFile A (op_signal config) ''.management-window-ready'' ''management failure window'') id (
        must_fail (call_sum ''StreamInfo'' (js_stream_info A js (op_stream config) (2 * second)))
          (Errorf ''JetStream management request unexpectedly succeeded while disconnected'' []) (
        must (WriteFile A (op_signal config @ ''.go-management-failed'') ready_content)
          (wrap ''write Go management failure barrier'') (
        must (waitForJetStreamSignalFile A (op_signal config) ''.management-recovered'' ''management recovery'') id (
        ret (Inr ())))))
      else ret (Inr ()))"

definition reconnect_report :: "'e api \<Rightarrow> conn \<Rightarrow> string \<Rightarrow> gerr \<Rightarrow> ('e, gerr + 'b) io" where
  "reconnect_report A c which err =
     bnd (call_plain ''Servers'' (servers_known A c)) (\<lambda>servers.
     bnd (call_plain ''DiscoveredServers'' (servers_discovered A c)) (\<lambda>discovered.
     bnd (call_plain ''Status'' (conn_status A c)) (\<lambda>state.
     bnd (call_plain ''ConnectedUrl'' (connected_url A c)) (\<lambda>url.
     bnd (call_plain ''LastError'' (conn_last_error A c)) (\<lambda>lastError.
     ret (Inl (Errorf (which @ '' JetStream reconnect: %w (servers=%v discovered=%v status=%v connected=%q last-error=%v)'')
       [AWrap err, AStrs servers, AStrs discovered, AStr state, AStr url, error_arg lastError])))))))"

definition reconnect_or_report :: "'e api \<Rightarrow> conn \<Rightarrow> string \<Rightarrow> ('e, gerr + 'b) io \<Rightarrow> ('e, gerr + 'b) io" where
  "reconnect_or_report A c which k =
     bnd (waitJetStreamReconnect A ''reconnected'') (\<lambda>r. case r of
       Some err \<Rightarrow> reconnect_report A c which err
     | None \<Rightarrow> k)"

text \<open>The cluster comes back under a changed address, which the client must have discovered.\<close>

definition changed_advertisement :: "'e api \<Rightarrow> options \<Rightarrow> conn \<Rightarrow> nat \<Rightarrow> ('e, gerr + nat) io" where
  "changed_advertisement A config c deadline =
     (if op_changedAdvertisedURL config = [] then ret (Inr deadline)
      else
        must (waitForJetStreamSignalFile A (op_signal config) ''.changed-replacement-ready''
          ''changed-advertisement replacement'') id (
        bnd (call_plain ''DiscoveredServers'' (servers_discovered A c)) (\<lambda>servers.
        require (unless (list_ex (\<lambda>server. server = op_changedAdvertisedURL config) servers)
          (Errorf ''discovered server list did not contain changed advertised URL %q''
            [AStr (op_changedAdvertisedURL config)])) (
        must (WriteFile A (op_signal config @ ''.go-advertised'') ready_content) (wrap ''write changed advertisement barrier'') (
        reconnect_or_report A c ''second'' (
        must (WriteFile A (op_signal config @ ''.go-second-reconnected'') ready_content)
          (wrap ''write second reconnect barrier'') (
        must (waitForJetStreamSignalFile A (op_signal config) ''.changed-recovered'' ''changed-advertisement recovery'') id (
        bnd clock (\<lambda>now. ret (Inr (now + orderedReconnectWait)))))))))))"

definition failover_reconnect :: "'e api \<Rightarrow> options \<Rightarrow> conn \<Rightarrow> ('e, gerr + nat) io" where
  "failover_reconnect A config c =
     reconnect_or_report A c ''first'' (
     bnd clock (\<lambda>now.
     reconnect_barrier A config (
     try_call (multi_node_recovered A config orderedReconnectWait (now + orderedReconnectWait)) id (\<lambda>deadline.
     changed_advertisement A config c deadline))))"

text \<open>
  The stream after the failure and the deadline of the recovery; without a leader to be killed
  the stream is asked for, with a full quorum when a node was restarted.
\<close>

definition failover_stream :: "'e api \<Rightarrow> options \<Rightarrow> site \<Rightarrow> ('e, gerr + stream_info \<times> nat) io" where
  "failover_stream A config site =
     (case site of (c, js, leader) \<Rightarrow>
       (case leader of
          Some (probe, leaderName) \<Rightarrow>
            leader_kill A config ''JetStream'' probe (op_stream config) leaderName orderedReconnectWait (3 * second)
        | None \<Rightarrow>
            try_call (failover_reconnect A config c) id (\<lambda>deadline.
            try_call (if op_requireReplicatedStream config \<or> op_multiNodeLoss config \<or> op_changedAdvertisedURL config \<noteq> []
                      then retryJetStreamStreamQuorum A js (op_stream config) 3 3 deadline
                      else retryJetStreamStreamInfo A js (op_stream config) deadline) id (\<lambda>streamInfo.
            ret (Inr (streamInfo, deadline))))))"

definition failover_recover :: "'e api \<Rightarrow> options \<Rightarrow> site \<Rightarrow> ('e, gerr + nat) io" where
  "failover_recover A config site =
     must (waitForJetStreamReconnectSignal A (op_signal config)) id (
     try_call (failover_stream A config site) id (\<lambda>(streamInfo, recoveryDeadline).
     require (unless (replicated streamInfo \<and> si_Msgs streamInfo = 3 \<and> si_LastSeq streamInfo = 3)
       (Errorf ''stream after failover storage=%v replicas=%d messages=%d last-sequence=%d''
         (storage_args streamInfo @ [AInt (uint (si_Msgs streamInfo)), AInt (uint (si_LastSeq streamInfo))]))) (
     ret (Inr recoveryDeadline))))"

section \<open>Ordered peer: after the failure\<close>

definition recovery_payload :: "options \<Rightarrow> string" where
  "recovery_payload config = (if op_leader config \<noteq> [] then ''ocaml-leader-failover'' else ''ocaml-reconnected'')"

definition failover_ready :: "'e api \<Rightarrow> options \<Rightarrow> subn \<Rightarrow> nat \<Rightarrow> ('e, gerr + unit) io" where
  "failover_ready A config s recoveryDeadline =
     try_call (waitJetStreamMessage A ''OCaml recovery readiness'' ''recoveryMessages'') id (\<lambda>recoveryMessage.
     require (unless (msg_Data recoveryMessage = recovery_payload config)
       (Errorf ''recovery readiness was %q, expected %q''
         [AStr (msg_Data recoveryMessage), AStr (recovery_payload config)])) (
     try_call (retryJetStreamOrderedConsumerReady A s recoveryDeadline) id (\<lambda>_.
     must (Respond A recoveryMessage ''go-recovery-ready'') (wrap ''respond recovery readiness'') (
     ret (Inr ())))))"

definition failover_after :: "'e api \<Rightarrow> options \<Rightarrow> jsc \<Rightarrow> subn \<Rightarrow> consumer_info \<Rightarrow> ('e, gerr + unit) io" where
  "failover_after A config js s orderedInfo =
     try_call (failover_publish A config js ''.match'' ''go-after-four'' 4) id (\<lambda>_.
     try_call (NextMsg A s orderedReconnectWait) (wrap ''receive post-failover ordered message'') (\<lambda>afterMessage.
     require (expectOrderedReconnectConsumerProgress (Metadata A) ''Go ordered post-failover'' afterMessage
       (ci_Name orderedInfo) (op_stream config) (op_prefix config @ ''.match'') ''go-after-four''
       ''go-ordered-reconnect'' ''go-after-four'' 4 3) (
     ret (Inr ()))))"

definition failover_finish :: "'e api \<Rightarrow> conn \<Rightarrow> ('e, gerr + unit) io" where
  "failover_finish A c =
     try_call (waitJetStreamMessage A ''OCaml close request'' ''closeMessages'') id (\<lambda>closeMessage.
     require (unless (msg_Data closeMessage = ''ocaml-close'')
       (Errorf ''close request was %q, expected %q'' [AStr (msg_Data closeMessage), AStr ''ocaml-close''])) (
     must (Respond A closeMessage ''go-closed'') (wrap ''respond Go ordered close'') (
     must (Flush A c) (wrap ''flush Go ordered close response'') (
     try_call (waitJetStreamMessage A ''cleanup request'' ''cleanupMessages'') id (\<lambda>cleanupMessage.
     require (unless (msg_Data cleanupMessage = ''cleanup'')
       (Errorf ''cleanup request was %q, expected %q'' [AStr (msg_Data cleanupMessage), AStr ''cleanup''])) (
     must (Respond A cleanupMessage ''cleaned'') (wrap ''respond cleanup'') (
     must (Drain A c) (wrap ''drain'') (
     ret (Inr ())))))))))"

definition failover_script :: "'e api \<Rightarrow> options \<Rightarrow> site \<Rightarrow> ('e, gerr + unit) io" where
  "failover_script A config site =
     (case site of (c, js, leader) \<Rightarrow>
       try_call (failover_bind A config c) id (\<lambda>(s, orderedInfo).
       try_call (failover_announce A config c) id (\<lambda>_.
       try_call (failover_before A config js s) id (\<lambda>_.
       try_call (failover_baseline A config js) id (\<lambda>_.
       try_call (disconnect_barrier A config) id (\<lambda>_.
       try_call (management_failure A config js) id (\<lambda>_.
       try_call (failover_recover A config site) id (\<lambda>recoveryDeadline.
       try_call (failover_ready A config s recoveryDeadline) id (\<lambda>_.
       try_call (failover_after A config js s orderedInfo) id (\<lambda>_.
       failover_finish A c))))))))))"

definition runJetStreamOrderedReconnectPeer :: "'e api \<Rightarrow> options \<Rightarrow> ('e, check) io" where
  "runJetStreamOrderedReconnectPeer A config = as_check (
     try_call (connectOptions A) id (\<lambda>authOptions.
     let opts = reconnect_options ''ocaml-nats JetStream ordered reconnect interop peer'' @
           [ODisconnectHandler ''disconnected''] @ authOptions in
     first_connection A config opts (\<lambda>c.
     bnd (failover_setup A config opts c) (\<lambda>(current, r).
     closing A current (
       case r of Inl err \<Rightarrow> ret (Inl err) | Inr site \<Rightarrow> failover_script A config site)))))"

end
