(* ===== verification/GoFailoverStores.thy ===== *)
theory GoFailoverStores
  imports GoFailover GoObject
begin

text \<open>
  The replicated Key-Value and Object Store peers across a reconnect, the loss of several nodes or
  the kill of the leader (\<open>jetstream_kv_ordered_reconnect.go\<close>, \<open>jetstream_object_reconnect.go\<close>).
  The other side may repeat its requests, so each phase has a handshake control that the
  callback of its subscription shares with the script.
\<close>

section \<open>Waiting on a control and answering\<close>

text \<open>
  The control of a subscription lives outside, where callbacks reach it; \<open>lock\<close> and \<open>unlock\<close>
  surround each critical section. How many tokens can come before the timer fires is for the
  outside to say; \<open>fuel\<close> bounds them.
\<close>

fun control_turns :: "nat \<Rightarrow> 'e api \<Rightarrow> string \<Rightarrow> nat \<Rightarrow> chan \<Rightarrow> ('e, gerr + msg) io" where
  "control_turns 0 A label deadline ch = ret (Inl (timed_out label))"
| "control_turns (Suc fuel) A label deadline ch =
     bnd clock (\<lambda>now.
     bnd (RecvUnit A ch (deadline - now)) (\<lambda>ready.
     if \<not> ready then ret (Inl (timed_out label))
     else
       bnd (call_plain ''lock'' (load_control A ch)) (\<lambda>control.
       let (control', message) = wait_lock control in
       bnd (call_plain ''unlock'' (store_control A ch control')) (\<lambda>_.
       case message of Some m \<Rightarrow> ret (Inr m) | None \<Rightarrow> control_turns fuel A label deadline ch))))"

definition waitWithTimeout :: "nat \<Rightarrow> 'e api \<Rightarrow> string \<Rightarrow> nat \<Rightarrow> chan \<Rightarrow> ('e, gerr + msg) io" where
  "waitWithTimeout fuel A label timeout ch = bnd clock (\<lambda>now. control_turns fuel A label (now + timeout) ch)"

definition control_wait :: "nat \<Rightarrow> 'e api \<Rightarrow> string \<Rightarrow> chan \<Rightarrow> ('e, gerr + msg) io" where
  "control_wait fuel A label ch = waitWithTimeout fuel A label waitTimeout ch"

text \<open>\<open>respond\<close> on the shared control: completion first, then the answer, then a duplicate's.\<close>

definition respond_duplicate :: "'e api \<Rightarrow> conn \<Rightarrow> string \<Rightarrow> string \<Rightarrow> msg option \<Rightarrow> ('e, gerr + unit) io" where
  "respond_duplicate A c label payload pending =
     (case pending of
        Some duplicate \<Rightarrow>
          if msg_Reply duplicate \<noteq> [] then
            must (Respond A duplicate payload) (\<lambda>err. Errorf ''respond to duplicate %s: %w'' [AStr label, AWrap err]) (
            must (Flush A c) (\<lambda>err. Errorf ''flush duplicate response to %s: %w'' [AStr label, AWrap err]) (
            ret (Inr ())))
          else ret (Inr ())
      | None \<Rightarrow> ret (Inr ()))"

definition control_answer :: "'e api \<Rightarrow> conn \<Rightarrow> string \<Rightarrow> msg \<Rightarrow> string \<Rightarrow> chan \<Rightarrow> ('e, gerr + unit) io" where
  "control_answer A c label message payload ch =
     bnd (call_plain ''lock'' (load_control A ch)) (\<lambda>control.
     let (control', pending) = respond_lock payload control in
     bnd (call_plain ''unlock'' (store_control A ch control')) (\<lambda>_.
     try_call (respondKeyValueControl A c label message payload) id (\<lambda>_.
     respond_duplicate A c label payload pending)))"

fun new_controls :: "'e api \<Rightarrow> (string \<times> chan \<times> string) list \<Rightarrow> ('e, gerr + unit) io \<Rightarrow> ('e, gerr + unit) io" where
  "new_controls A [] k = k"
| "new_controls A ((subj, ch, name) # controls) k =
     bnd (call_plain ''newKeyValueControl'' (store_control A ch newKeyValueControl)) (\<lambda>_. new_controls A controls k)"

definition stores_announce ::
  "'e api \<Rightarrow> options \<Rightarrow> conn \<Rightarrow> (string \<times> chan \<times> string) list \<Rightarrow> string \<Rightarrow> ('e, gerr + unit) io" where
  "stores_announce A config c controls flushed =
     new_controls A controls (
     subscribe_controls A c controls (
     must (Flush A c) (wrap flushed) (
     must (WriteFile A (op_ready config) ready_content) (wrap ''write ready file'') (
     ret (Inr ())))))"

text \<open>The deadline of the recovery when no leader is to be killed.\<close>

definition stores_reconnect :: "'e api \<Rightarrow> options \<Rightarrow> nat \<Rightarrow> ('e, gerr + nat) io" where
  "stores_reconnect A config wait =
     must (waitJetStreamReconnect A ''reconnected'') id (
     bnd clock (\<lambda>now.
     reconnect_barrier A config (multi_node_recovered A config wait (now + wait))))"

section \<open>Key-Value peer\<close>

text \<open>
  What the script works with: the connection, the contexts of the two client libraries, the
  bucket, and, when the leader is to be killed, its name.
\<close>

type_synonym kv_site = "conn \<times> jsc \<times> jsc \<times> kvh \<times> string option"

definition kv_stream :: "options \<Rightarrow> string" where
  "kv_stream config = ''KV_'' @ op_bucket config"

definition kv_open_bucket :: "'e api \<Rightarrow> options \<Rightarrow> conn \<Rightarrow> ('e, gerr + jsc \<times> kvh) io" where
  "kv_open_bucket A config c =
     try_call (call_sum ''js.New'' (js_new A c)) (wrap ''JetStream context'') (\<lambda>js.
     try_call (bnd clock (\<lambda>now. retryCreateReplicatedKeyValue A js
         \<lparr>kc_Bucket = op_bucket config, kc_History = kvOrderedReconnectHistory, kc_Storage = FileStorage, kc_Replicas = 3,
          kc_LimitMarkerTTL = 0\<rparr> (now + orderedReconnectWait)))
       (wrap ''create replicated Key-Value bucket'') (\<lambda>kv.
     require (unless (kv_bucket A kv = op_bucket config)
       (Errorf ''created Key-Value bucket %q, expected %q'' [AStr (kv_bucket A kv), AStr (op_bucket config)])) (
     try_call (call_sum ''Status'' (kv_get_status A kv)) (wrap ''initial Key-Value status'') (\<lambda>status.
     require (checkReplicatedKeyValueStatus ''initial Key-Value status'' status (op_bucket config) 0) (
     ret (Inr (js, kv)))))))"

definition kv_baseline_entry :: "'e api \<Rightarrow> options \<Rightarrow> conn \<Rightarrow> kvh \<Rightarrow> ('e, gerr + jsc) io" where
  "kv_baseline_entry A config c kv =
     try_call (JetStream A c (Some orderedReconnectWait)) (wrap ''legacy JetStream context'') (\<lambda>legacy.
     try_call (stream_info_within A legacy (kv_stream config) orderedReconnectWait) (wrap ''open Key-Value stream'') (\<lambda>streamInfo.
     require (unless (replicated streamInfo)
       (Errorf ''Key-Value stream storage=%v replicas=%d, expected file-backed with three replicas''
         (storage_args streamInfo))) (
     try_call (KVPut A kv ''watch'' ''before-failover'') (wrap ''put baseline Key-Value entry'') (\<lambda>baselineRevision.
     require (unless (baselineRevision = 1)
       (Errorf ''baseline Key-Value revision was %d, expected 1'' [AInt (uint baselineRevision)])) (
     try_call (bnd clock (\<lambda>now. retryJetStreamStreamQuorum A legacy (kv_stream config) 1 1 (now + orderedReconnectWait))) id (\<lambda>_.
     ret (Inr legacy)))))))"

definition kv_leader :: "'e api \<Rightarrow> options \<Rightarrow> jsc \<Rightarrow> ('e, gerr + string) io" where
  "kv_leader A config legacy =
     try_call (stream_info_within A legacy (kv_stream config) orderedReconnectWait) id (\<lambda>streamInfo.
     ret (leader_named ''created Key-Value stream did not identify a JetStream leader'' streamInfo))"

definition kv_survivor :: "'e api \<Rightarrow> options \<Rightarrow> string \<Rightarrow> conn \<Rightarrow> ('e, gerr + kv_site) io" where
  "kv_survivor A config leaderName c =
     try_call (call_sum ''js.New'' (js_new A c)) (wrap ''Key-Value survivor context'') (\<lambda>js.
     try_call (call_sum ''KeyValue'' (kv_open A js (op_bucket config))) (wrap ''open Key-Value bucket on survivor'') (\<lambda>kv.
     try_call (JetStream A c (Some orderedReconnectWait)) (wrap ''Key-Value survivor legacy context'') (\<lambda>legacy.
     try_call (leader_confirmed A config ''Key-Value'' legacy (kv_stream config) leaderName orderedReconnectWait) id (\<lambda>_.
     ret (Inr (c, js, legacy, kv, Some leaderName))))))"

definition kv_failover_setup ::
  "'e api \<Rightarrow> options \<Rightarrow> natsopt list \<Rightarrow> conn \<Rightarrow> ('e, conn option \<times> (gerr + kv_site)) io" where
  "kv_failover_setup A config opts c =
     bnd (try_call (kv_open_bucket A config c) id (\<lambda>(js, kv).
          try_call (kv_baseline_entry A config c kv) id (\<lambda>legacy.
          if op_leader config = [] then ret (Inr (js, legacy, kv, None))
          else try_call (kv_leader A config legacy) id (\<lambda>leaderName. ret (Inr (js, legacy, kv, Some leaderName))))))
       (\<lambda>r. case r of
          Inl err \<Rightarrow> ret (Some c, Inl err)
        | Inr (js, legacy, kv, None) \<Rightarrow> ret (Some c, Inr (c, js, legacy, kv, None))
        | Inr (js, legacy, kv, Some leaderName) \<Rightarrow>
            then_on (leave_leader A config ''Key-Value'' opts c leaderName) (kv_survivor A config leaderName))"

definition kv_controls :: "options \<Rightarrow> (string \<times> chan \<times> string) list" where
  "kv_controls config =
     [(op_prefix config @ ''.start'', ''startMessages'', ''start''),
      (op_prefix config @ ''.baseline'', ''baselineMessages'', ''baseline''),
      (op_prefix config @ ''.recovery-ready'', ''recoveryMessages'', ''recovery readiness''),
      (op_prefix config @ ''.entry-seen'', ''entrySeenMessages'', ''entry acknowledgement''),
      (op_prefix config @ ''.close'', ''closeMessages'', ''close''),
      (op_prefix config @ ''.cleanup'', ''cleanupMessages'', ''cleanup'')]"

text \<open>
  A phase that waits for a request with the expected payload and answers it at once; the labels
  of the wait, of the check and of the answer differ.
\<close>

definition control_phase ::
  "nat \<Rightarrow> 'e api \<Rightarrow> conn \<Rightarrow> chan \<Rightarrow> string \<Rightarrow> string \<Rightarrow> string \<Rightarrow> string \<Rightarrow> string \<Rightarrow> ('e, gerr + unit) io" where
  "control_phase fuel A c ch waited checked expected answered payload =
     try_call (control_wait fuel A waited ch) id (\<lambda>message.
     require (validateKeyValueControl checked expected message) (
     control_answer A c answered message payload ch))"

definition kv_start :: "nat \<Rightarrow> 'e api \<Rightarrow> conn \<Rightarrow> ('e, gerr + unit) io" where
  "kv_start fuel A c =
     control_phase fuel A c ''startMessages'' ''Key-Value start request'' ''Key-Value start'' ''start''
       ''Key-Value start'' ''started''"

definition kv_baseline :: "nat \<Rightarrow> 'e api \<Rightarrow> options \<Rightarrow> conn \<Rightarrow> jsc \<Rightarrow> kvh \<Rightarrow> ('e, gerr + int) io" where
  "kv_baseline fuel A config c legacy kv =
     try_call (control_wait fuel A ''Key-Value baseline completion'' ''baselineMessages'') id (\<lambda>baselineMessage.
     require (validateKeyValueControl ''Key-Value baseline'' ''baseline-complete'' baselineMessage) (
     bnd clock (\<lambda>now. let baselineDeadline = now + orderedReconnectWait in
     try_call (call_sum ''Status'' (kv_get_status A kv)) (wrap ''baseline Key-Value status'') (\<lambda>status.
     require (checkReplicatedKeyValueStatus ''baseline Key-Value status'' status (op_bucket config) 1) (
     try_call (retryJetStreamStreamQuorum A legacy (kv_stream config) 1 1 baselineDeadline) id (\<lambda>_.
     try_call (control_answer A c ''Key-Value baseline'' baselineMessage ''go-baseline-ready'' ''baselineMessages'') id (\<lambda>_.
     try_call (bnd clock (\<lambda>now. retryJetStreamConsumerGeneration A legacy (kv_stream config) ''kv-ordered-reconnect'' 0
         (now + orderedReconnectWait))) (wrap ''wait for initial OCaml ordered consumer'') (\<lambda>initialConsumer.
     (case consumerGeneration (ci_Name initialConsumer) ''kv-ordered-reconnect'' of
        None \<Rightarrow> ret (Inl (Errorf ''initial OCaml ordered consumer name %q did not use the expected prefix''
          [AStr (ci_Name initialConsumer)]))
      | Some initialGeneration \<Rightarrow> ret (Inr initialGeneration))))))))))"

definition kv_failover_stream :: "'e api \<Rightarrow> options \<Rightarrow> kv_site \<Rightarrow> ('e, gerr + stream_info) io" where
  "kv_failover_stream A config site =
     (case site of (c, js, legacy, kv, leader) \<Rightarrow>
       (case leader of
          Some leaderName \<Rightarrow>
            try_call (leader_kill A config ''Key-Value'' legacy (kv_stream config) leaderName orderedReconnectWait
              (3 * second)) id (\<lambda>(streamInfo, recoveryDeadline). ret (Inr streamInfo))
        | None \<Rightarrow>
            try_call (stores_reconnect A config orderedReconnectWait) id (\<lambda>recoveryDeadline.
            if op_requireReplicatedStream config \<or> op_multiNodeLoss config
            then retryJetStreamStreamQuorum A legacy (kv_stream config) 1 1 recoveryDeadline
            else retryJetStreamStreamInfo A legacy (kv_stream config) recoveryDeadline)))"

definition kv_failover :: "'e api \<Rightarrow> options \<Rightarrow> kv_site \<Rightarrow> ('e, gerr + unit) io" where
  "kv_failover A config site =
     must (waitForJetStreamReconnectSignal A (op_signal config)) id (
     try_call (kv_failover_stream A config site) id (\<lambda>streamInfo.
     require (unless (replicated streamInfo \<and> si_Msgs streamInfo = 1 \<and> si_LastSeq streamInfo = 1)
       (Errorf ''Key-Value stream after failover storage=%v replicas=%d messages=%d last-sequence=%d''
         (storage_args streamInfo @ [AInt (uint (si_Msgs streamInfo)), AInt (uint (si_LastSeq streamInfo))]))) (
     ret (Inr ()))))"

text \<open>
  The client's ordered consumer must have come back, after a reconnect as a new generation; only
  then is the entry written that the client waits for.
\<close>

definition kv_recovery :: "nat \<Rightarrow> 'e api \<Rightarrow> options \<Rightarrow> conn \<Rightarrow> jsc \<Rightarrow> kvh \<Rightarrow> int \<Rightarrow> ('e, gerr + unit) io" where
  "kv_recovery fuel A config c legacy kv initialGeneration =
     try_call (control_wait fuel A ''OCaml Key-Value recovery readiness'' ''recoveryMessages'') id (\<lambda>recoveryMessage.
     require (validateKeyValueControl ''OCaml Key-Value recovery readiness'' (recovery_payload config) recoveryMessage) (
     try_call (bnd clock (\<lambda>now. retryJetStreamConsumerGeneration A legacy (kv_stream config) ''kv-ordered-reconnect''
         (if op_leader config = [] then initialGeneration else 0) (now + orderedReconnectWait)))
       (wrap ''wait for recovered OCaml ordered consumer'') (\<lambda>_.
     try_call (KVPut A kv ''watch'' ''after-failover'') (wrap ''put post-failover Key-Value entry'') (\<lambda>recoveryRevision.
     require (unless (recoveryRevision = 2)
       (Errorf ''post-failover Key-Value revision was %d, expected 2'' [AInt (uint recoveryRevision)])) (
     control_answer A c ''Key-Value recovery readiness'' recoveryMessage ''go-recovery-ready'' ''recoveryMessages'')))))"

definition kv_closed :: "nat \<Rightarrow> 'e api \<Rightarrow> conn \<Rightarrow> ('e, gerr + unit) io" where
  "kv_closed fuel A c =
     try_call (control_phase fuel A c ''entrySeenMessages'' ''OCaml Key-Value entry acknowledgement''
       ''OCaml Key-Value entry acknowledgement'' ''ocaml-entry-seen'' ''Key-Value entry acknowledgement''
       ''go-entry-validated'') id (\<lambda>_.
     control_phase fuel A c ''closeMessages'' ''OCaml Key-Value close request'' ''OCaml Key-Value close''
       ''ocaml-close'' ''Key-Value close'' ''go-closed'')"

definition kv_cleanup :: "nat \<Rightarrow> 'e api \<Rightarrow> options \<Rightarrow> conn \<Rightarrow> jsc \<Rightarrow> ('e, gerr + unit) io" where
  "kv_cleanup fuel A config c js =
     try_call (control_wait fuel A ''Key-Value cleanup request'' ''cleanupMessages'') id (\<lambda>cleanupMessage.
     require (validateKeyValueControl ''Key-Value cleanup'' ''cleanup'' cleanupMessage) (
     try_call (bnd clock (\<lambda>now. retryDeleteKeyValue A js (op_bucket config) (now + orderedReconnectWait))) id (\<lambda>_.
     try_call (control_answer A c ''Key-Value cleanup'' cleanupMessage ''cleaned'' ''cleanupMessages'') id (\<lambda>_.
     must (Drain A c) (wrap ''drain'') (
     ret (Inr ()))))))"

definition kv_failover_script :: "nat \<Rightarrow> 'e api \<Rightarrow> options \<Rightarrow> kv_site \<Rightarrow> ('e, gerr + unit) io" where
  "kv_failover_script fuel A config site =
     (case site of (c, js, legacy, kv, leader) \<Rightarrow>
       try_call (stores_announce A config c (kv_controls config) ''flush Key-Value setup'') id (\<lambda>_.
       try_call (kv_start fuel A c) id (\<lambda>_.
       try_call (kv_baseline fuel A config c legacy kv) id (\<lambda>initialGeneration.
       try_call (kv_failover A config site) id (\<lambda>_.
       try_call (kv_recovery fuel A config c legacy kv initialGeneration) id (\<lambda>_.
       try_call (kv_closed fuel A c) id (\<lambda>_.
       kv_cleanup fuel A config c js)))))))"

definition runJetStreamKeyValueOrderedReconnectPeer :: "nat \<Rightarrow> 'e api \<Rightarrow> options \<Rightarrow> ('e, check) io" where
  "runJetStreamKeyValueOrderedReconnectPeer fuel A config = as_check (
     try_call (connectOptions A) id (\<lambda>authOptions.
     let opts = reconnect_options ''ocaml-nats Key-Value ordered reconnect interop peer'' @ authOptions in
     first_connection A config opts (\<lambda>c.
     bnd (kv_failover_setup A config opts c) (\<lambda>(current, r).
     closing A current (
       case r of Inl err \<Rightarrow> ret (Inl err) | Inr site \<Rightarrow> kv_failover_script fuel A config site)))))"

section \<open>Object Store peer\<close>

type_synonym object_site = "conn \<times> jsc \<times> jsc \<times> objh \<times> string option"

definition object_stream :: "options \<Rightarrow> string" where
  "object_stream config = ''OBJ_'' @ op_bucket config"

definition object_open :: "'e api \<Rightarrow> options \<Rightarrow> conn \<Rightarrow> ('e, gerr + jsc \<times> jsc \<times> objh \<times> stream_info) io" where
  "object_open A config c =
     try_call (call_sum ''js.New'' (js_new A c)) (wrap ''JetStream context'') (\<lambda>js.
     try_call (bnd clock (\<lambda>now. retryCreateReplicatedObjectStore A js
         \<lparr>oc_Bucket = op_bucket config, oc_Description = ''interop-cluster'', oc_MaxBytes = 2 ^ 20,
          oc_Storage = FileStorage, oc_Replicas = 3, oc_Metadata = [(''owner'', ''interop-cluster'')]\<rparr>
         (now + objectReconnectWait)))
       (wrap ''create replicated Object Store'') (\<lambda>store.
     try_call (JetStream A c (Some objectReconnectWait)) (wrap ''legacy JetStream context'') (\<lambda>legacy.
     try_call (stream_info_within A legacy (object_stream config) objectReconnectWait) (wrap ''open Object Store stream'') (\<lambda>streamInfo.
     require (unless (replicated streamInfo)
       (Errorf ''Object Store stream storage=%v replicas=%d, expected file-backed with three replicas''
         (storage_args streamInfo))) (
     ret (Inr (js, legacy, store, streamInfo)))))))"

definition object_survivor :: "'e api \<Rightarrow> options \<Rightarrow> string \<Rightarrow> conn \<Rightarrow> ('e, gerr + object_site) io" where
  "object_survivor A config leaderName c =
     try_call (call_sum ''js.New'' (js_new A c)) (wrap ''Object Store survivor context'') (\<lambda>js.
     try_call (call_sum ''ObjectStore'' (obj_open A js (op_bucket config))) (wrap ''open Object Store on survivor'') (\<lambda>store.
     try_call (JetStream A c (Some objectReconnectWait)) (wrap ''Object Store survivor legacy context'') (\<lambda>legacy.
     try_call (leader_confirmed A config ''Object Store'' legacy (object_stream config) leaderName objectReconnectWait) id (\<lambda>_.
     ret (Inr (c, js, legacy, store, Some leaderName))))))"

definition object_failover_setup ::
  "'e api \<Rightarrow> options \<Rightarrow> natsopt list \<Rightarrow> conn \<Rightarrow> ('e, conn option \<times> (gerr + object_site)) io" where
  "object_failover_setup A config opts c =
     bnd (object_open A config c) (\<lambda>r. case r of
       Inl err \<Rightarrow> ret (Some c, Inl err)
     | Inr (js, legacy, store, streamInfo) \<Rightarrow>
         if op_leader config = [] then ret (Some c, Inr (c, js, legacy, store, None))
         else (case leader_named ''created Object Store stream did not identify a JetStream leader'' streamInfo of
             Inl err \<Rightarrow> ret (Some c, Inl err)
           | Inr leaderName \<Rightarrow>
               then_on (leave_leader A config ''Object Store'' opts c leaderName) (object_survivor A config leaderName)))"

definition object_controls :: "options \<Rightarrow> (string \<times> chan \<times> string) list" where
  "object_controls config =
     [(op_prefix config @ ''.start'', ''startMessages'', ''start''),
      (op_prefix config @ ''.baseline'', ''baselineMessages'', ''baseline''),
      (op_prefix config @ ''.recovery-ready'', ''recoveryMessages'', ''recovery readiness''),
      (op_prefix config @ ''.after-seen'', ''afterMessages'', ''post-failover object''),
      (op_prefix config @ ''.cleanup'', ''cleanupMessages'', ''cleanup'')]"

definition object_start :: "nat \<Rightarrow> 'e api \<Rightarrow> options \<Rightarrow> conn \<Rightarrow> objh \<Rightarrow> ('e, gerr + unit) io" where
  "object_start fuel A config c store =
     try_call (control_wait fuel A ''Object Store start request'' ''startMessages'') id (\<lambda>startMessage.
     require (validateKeyValueControl ''Object Store start'' ''start'' startMessage) (
     try_call (PutString A store ''go-before'' ''from-go-before'') (wrap ''put pre-failover Go object'') (\<lambda>goInfo.
     require (checkObjectInfo ''pre-failover Go object'' goInfo (op_bucket config) ''go-before'' 14 1) (
     control_answer A c ''Object Store start'' startMessage ''started'' ''startMessages''))))"

definition object_baseline :: "nat \<Rightarrow> 'e api \<Rightarrow> options \<Rightarrow> conn \<Rightarrow> jsc \<Rightarrow> objh \<Rightarrow> ('e, gerr + unit) io" where
  "object_baseline fuel A config c legacy store =
     try_call (control_wait fuel A ''Object Store baseline completion'' ''baselineMessages'') id (\<lambda>baselineMessage.
     require (validateKeyValueControl ''Object Store baseline'' ''baseline-complete'' baselineMessage) (
     try_call (GetString A store ''ocaml-before'') (wrap ''get pre-failover OCaml object'') (\<lambda>ocamlPayload.
     require (unless (ocamlPayload = ''from-ocaml-before'')
       (Errorf ''pre-failover OCaml object was %q, expected %q'' [AStr ocamlPayload, AStr ''from-ocaml-before''])) (
     try_call (bnd clock (\<lambda>now. retryJetStreamStreamQuorum A legacy (object_stream config) 8 8 (now + objectReconnectWait))) id (\<lambda>_.
     try_call (ObjectStatus A store) (wrap ''baseline Object Store status'') (\<lambda>status.
     require (checkReplicatedObjectStoreStatus ''baseline Object Store status'' status (op_bucket config) 28) (
     control_answer A c ''Object Store baseline'' baselineMessage ''go-baseline-ready'' ''baselineMessages'')))))))"

definition object_reconnect :: "'e api \<Rightarrow> options \<Rightarrow> ('e, gerr + nat) io" where
  "object_reconnect A config =
     must (waitJetStreamReconnect A ''reconnected'') id (
     reconnect_barrier A config (
     try_call (multi_node_recovered A config objectReconnectWait 0) id (\<lambda>_.
     bnd clock (\<lambda>now. ret (Inr (now + objectReconnectWait))))))"

definition object_deadline :: "'e api \<Rightarrow> options \<Rightarrow> object_site \<Rightarrow> ('e, gerr + nat) io" where
  "object_deadline A config site =
     (case site of (c, js, legacy, store, leader) \<Rightarrow>
       (case leader of
          Some leaderName \<Rightarrow>
            try_call (leader_kill A config ''Object Store'' legacy (object_stream config) leaderName objectReconnectWait 0)
              id (\<lambda>(streamInfo, recoveryDeadline). ret (Inr recoveryDeadline))
        | None \<Rightarrow>
            try_call (object_reconnect A config) id (\<lambda>recoveryDeadline.
            if op_requireReplicatedStream config \<or> op_multiNodeLoss config then
              try_call (retryJetStreamStreamQuorum A legacy (object_stream config) 8 8 recoveryDeadline) id (\<lambda>_.
              ret (Inr recoveryDeadline))
            else ret (Inr recoveryDeadline))))"

text \<open>After the failure the store is opened again and must still hold what was written before.\<close>

definition object_failover :: "'e api \<Rightarrow> options \<Rightarrow> object_site \<Rightarrow> ('e, gerr + objh) io" where
  "object_failover A config site =
     (case site of (c, js, legacy, store, leader) \<Rightarrow>
       must (waitForJetStreamReconnectSignal A (op_signal config)) id (
       try_call (object_deadline A config site) id (\<lambda>recoveryDeadline.
       try_call (retryObjectStoreStreamState A legacy (object_stream config) 8 8 recoveryDeadline) id (\<lambda>_.
       try_call (bnd clock (\<lambda>now. retryOpenObjectStore A js (op_bucket config) (now + objectReconnectWait)))
         (wrap ''reopen Object Store after reconnect'') (\<lambda>reopened.
       try_call (bnd clock (\<lambda>now. retryObjectStoreGetString A reopened ''go-before'' (now + objectReconnectWait)))
         (wrap ''get replicated Go object after failover'') (\<lambda>goPayload.
       require (unless (goPayload = ''from-go-before'')
         (Errorf ''replicated Go object after failover was %q, expected %q'' [AStr goPayload, AStr ''from-go-before''])) (
       ret (Inr reopened))))))))"

definition object_recovery :: "nat \<Rightarrow> 'e api \<Rightarrow> options \<Rightarrow> conn \<Rightarrow> objh \<Rightarrow> ('e, gerr + unit) io" where
  "object_recovery fuel A config c store =
     try_call (waitWithTimeout fuel A ''OCaml Object Store recovery readiness'' objectReconnectWait ''recoveryMessages'') id (\<lambda>recoveryMessage.
     require (validateKeyValueControl ''OCaml Object Store recovery readiness'' (recovery_payload config) recoveryMessage) (
     try_call (PutString A store ''go-after'' ''from-go-after'') (wrap ''put post-failover Go object'') (\<lambda>goInfo.
     require (checkObjectInfo ''post-failover Go object'' goInfo (op_bucket config) ''go-after'' 13 1) (
     try_call (bnd clock (\<lambda>now. retryObjectStoreGetString A store ''go-after'' (now + objectReconnectWait)))
       (wrap ''read post-failover Go object'') (\<lambda>goAfterPayload.
     require (unless (goAfterPayload = ''from-go-after'')
       (Errorf ''post-failover Go object was %q, expected %q'' [AStr goAfterPayload, AStr ''from-go-after''])) (
     control_answer A c ''Object Store recovery readiness'' recoveryMessage ''go-recovery-ready'' ''recoveryMessages''))))))"

definition object_after_seen :: "nat \<Rightarrow> 'e api \<Rightarrow> conn \<Rightarrow> objh \<Rightarrow> ('e, gerr + unit) io" where
  "object_after_seen fuel A c store =
     try_call (waitWithTimeout fuel A ''OCaml post-failover Object Store object'' objectReconnectWait ''afterMessages'') id (\<lambda>afterMessage.
     require (validateKeyValueControl ''OCaml post-failover Object Store object'' ''ocaml-after-seen'' afterMessage) (
     try_call (bnd clock (\<lambda>now. retryObjectStoreGetString A store ''ocaml-after'' (now + objectReconnectWait)))
       (wrap ''get post-failover OCaml object'') (\<lambda>ocamlAfter.
     require (unless (ocamlAfter = ''from-ocaml-after'')
       (Errorf ''post-failover OCaml object was %q, expected %q'' [AStr ocamlAfter, AStr ''from-ocaml-after''])) (
     control_answer A c ''Object Store post-failover object'' afterMessage ''go-after-validated'' ''afterMessages''))))"

definition object_cleanup :: "nat \<Rightarrow> 'e api \<Rightarrow> options \<Rightarrow> conn \<Rightarrow> jsc \<Rightarrow> ('e, gerr + unit) io" where
  "object_cleanup fuel A config c js =
     try_call (control_wait fuel A ''Object Store cleanup request'' ''cleanupMessages'') id (\<lambda>cleanupMessage.
     require (validateKeyValueControl ''Object Store cleanup'' ''cleanup'' cleanupMessage) (
     try_call (bnd clock (\<lambda>now. retryDeleteObjectStore A js (op_bucket config) (now + objectReconnectWait))) id (\<lambda>_.
     try_call (control_answer A c ''Object Store cleanup'' cleanupMessage ''cleaned'' ''cleanupMessages'') id (\<lambda>_.
     must (Drain A c) (wrap ''drain'') (
     ret (Inr ()))))))"

definition object_failover_script :: "nat \<Rightarrow> 'e api \<Rightarrow> options \<Rightarrow> object_site \<Rightarrow> ('e, gerr + unit) io" where
  "object_failover_script fuel A config site =
     (case site of (c, js, legacy, store, leader) \<Rightarrow>
       try_call (stores_announce A config c (object_controls config) ''flush Object Store setup'') id (\<lambda>_.
       try_call (object_start fuel A config c store) id (\<lambda>_.
       try_call (object_baseline fuel A config c legacy store) id (\<lambda>_.
       try_call (object_failover A config site) id (\<lambda>reopened.
       try_call (object_recovery fuel A config c reopened) id (\<lambda>_.
       try_call (object_after_seen fuel A c reopened) id (\<lambda>_.
       object_cleanup fuel A config c js)))))))"

text \<open>
  \<open>defer connection.Close()\<close> evaluates its receiver when it is deferred: it closes the first
  connection, also after the peer has moved to a survivor.
\<close>

definition runJetStreamObjectReconnectPeer :: "nat \<Rightarrow> 'e api \<Rightarrow> options \<Rightarrow> ('e, check) io" where
  "runJetStreamObjectReconnectPeer fuel A config = as_check (
     try_call (connectOptions A) id (\<lambda>authOptions.
     let opts = reconnect_options ''ocaml-nats Object Store reconnect interop peer'' @ authOptions in
     first_connection A config opts (\<lambda>c.
     deferred (Close A c) (
     bnd (object_failover_setup A config opts c) (\<lambda>(current, r).
       case r of Inl err \<Rightarrow> ret (Inl err) | Inr site \<Rightarrow> object_failover_script fuel A config site)))))"

end
