(* ===== verification/GoFailoverProtocol.thy ===== *)
theory GoFailoverProtocol
  imports GoStoreProtocol GoFailoverStores
begin

text \<open>
  The discipline of the peers that move to a survivor before the leader is killed: the same
  conversation as the other peers keep, over a connection that may be exchanged before the ready
  file is written, and with the connection in use closed on every path.
\<close>

section \<open>The monitor\<close>

text \<open>
  The handshake state with the connection in use. Closing that connection before the ready file
  is written takes the peer back to the start; closing one that is not in use changes nothing.
  Before the ready file the peer may look at files and write others, afterwards it may write
  markers.
\<close>

fun plain_event :: "event \<Rightarrow> bool" where
  "plain_event (EWriteFile path content ok) = False"
| "plain_event (EStat path) = False"
| "plain_event (EReadFile path ok) = False"
| "plain_event (EConnect server r) = False"
| "plain_event (EClose c) = False"
| "plain_event ev = True"

definition failover :: "string \<Rightarrow> (handshake \<times> conn option) monitor" where
  "failover ready q ev =
     (case q of (state, current) \<Rightarrow>
       (case ev of
          EWriteFile path content ok \<Rightarrow>
            (case state of
               Setup unflushed \<Rightarrow>
                 if path \<noteq> ready then Some q else if unflushed then None else Some (Announced False, current)
             | Announced unflushed \<Rightarrow> if unflushed then None else Some q
             | _ \<Rightarrow> None)
        | EStat path \<Rightarrow> if open_state state \<and> state \<noteq> Drained then Some q else None
        | EReadFile path ok \<Rightarrow> if state = Idle \<or> open_state state \<and> state \<noteq> Drained then Some q else None
        | EConnect server r \<Rightarrow>
            if state \<noteq> Idle then None
            else Some (case r of None \<Rightarrow> q | Some c \<Rightarrow> (Setup False, Some c))
        | EClose c \<Rightarrow>
            if current \<noteq> Some c then Some q
            else (case state of
                 Setup unflushed \<Rightarrow> Some (Idle, None)
               | _ \<Rightarrow> map_option (\<lambda>state'. (state', None)) (discipline state ev))
        | _ \<Rightarrow> map_option (\<lambda>state'. (state', current)) (discipline state ev)))"

definition failover_disciplined :: "string \<Rightarrow> ('e, check) io \<Rightarrow> bool" where
  "failover_disciplined ready m \<longleftrightarrow>
     (\<forall>t e. case run_monitor (failover ready) (Idle, None) (calls (m t e)) of
        None \<Rightarrow> False
      | Some (q, current) \<Rightarrow> current = None \<and> proper_end (res (m t e)) q)"

definition ended :: "check \<Rightarrow> handshake \<times> conn option \<Rightarrow> bool" where
  "ended r q \<longleftrightarrow> snd q = None \<and> proper_end r (fst q)"

text \<open>
  The same discipline, but for one thing: at the end the connection in use may still be open, in
  the middle of the conversation after an error, or drained after a success.
\<close>

definition left_open :: "check \<Rightarrow> handshake \<times> conn option \<Rightarrow> bool" where
  "left_open r q \<longleftrightarrow> snd q \<noteq> None \<and> (fst q = Drained \<or> r \<noteq> None \<and> (case fst q of Setup _ \<Rightarrow> True | Announced _ \<Rightarrow> True | _ \<Rightarrow> False))"

definition failover_talks :: "string \<Rightarrow> ('e, check) io \<Rightarrow> bool" where
  "failover_talks ready m \<longleftrightarrow>
     (\<forall>t e. case run_monitor (failover ready) (Idle, None) (calls (m t e)) of
        None \<Rightarrow> False
      | Some q \<Rightarrow> ended (res (m t e)) q \<or> left_open (res (m t e)) q)"

lemma failover_talksI:
  assumes "wp (failover ready) m (\<lambda>r q. ended r q \<or> left_open r q) (Idle, None)"
  shows "failover_talks ready m"
  unfolding failover_talks_def
proof (intro allI)
  fix t e
  from wp_run [OF assms] obtain q where "run_monitor (failover ready) (Idle, None) (calls (m t e)) = Some q"
    and "ended (res (m t e)) q \<or> left_open (res (m t e)) q" by blast
  then show "case run_monitor (failover ready) (Idle, None) (calls (m t e)) of None \<Rightarrow> False
      | Some q \<Rightarrow> ended (res (m t e)) q \<or> left_open (res (m t e)) q" by simp
qed

lemma failover_disciplinedI:
  assumes "wp (failover ready) m ended (Idle, None)"
  shows "failover_disciplined ready m"
  unfolding failover_disciplined_def
proof (intro allI)
  fix t e
  from wp_run [OF assms] obtain q where "run_monitor (failover ready) (Idle, None) (calls (m t e)) = Some q"
    and "ended (res (m t e)) q" by blast
  then show "case run_monitor (failover ready) (Idle, None) (calls (m t e)) of None \<Rightarrow> False
      | Some (q, current) \<Rightarrow> current = None \<and> proper_end (res (m t e)) q"
    by (cases q) (simp add: ended_def)
qed

lemma failover_plain [simp]:
  "plain_event ev \<Longrightarrow> failover ready (q, current) ev = map_option (\<lambda>q'. (q', current)) (discipline q ev)"
  by (cases ev) (simp_all add: failover_def)

lemma failover_simps [simp]:
  "failover ready (Setup False, current) (EWriteFile ready content ok) = Some (Announced False, current)"
  "path \<noteq> ready \<Longrightarrow> failover ready (Setup d, current) (EWriteFile path content ok) = Some (Setup d, current)"
  "failover ready (Announced False, current) (EWriteFile path content ok) = Some (Announced False, current)"
  "failover ready (Setup d, current) (EStat path) = Some (Setup d, current)"
  "failover ready (Announced d, current) (EStat path) = Some (Announced d, current)"
  "failover ready (Setup d, current) (EReadFile path rd) = Some (Setup d, current)"
  "failover ready (Idle, current) (EReadFile path rd) = Some (Idle, current)"
  "failover ready (Idle, current) (EConnect server r) =
     Some (case r of None \<Rightarrow> (Idle, current) | Some c \<Rightarrow> (Setup False, Some c))"
  "failover ready (Setup d, Some c) (EClose c) = Some (Idle, None)"
  "failover ready (Announced d, Some c) (EClose c) = Some (Closed False, None)"
  "failover ready (Drained, Some c) (EClose c) = Some (Closed True, None)"
  by (simp_all add: failover_def discipline_def)

text \<open>The end of a phase, with connection \<open>c\<close> in use.\<close>

definition on :: "conn \<Rightarrow> handshake \<Rightarrow> gerr + 'a \<Rightarrow> handshake \<times> conn option \<Rightarrow> bool" where
  "on c q r s \<longleftrightarrow> snd s = Some c \<and> phase q r (fst s)"

lemma on_simps [simp]:
  "on c q (Inl err) (s, current) \<longleftrightarrow> current = Some c \<and> open_state s"
  "on c q (Inr a) (s, current) \<longleftrightarrow> current = Some c \<and> s = q \<and> open_state s"
  by (auto simp: on_def)

lemma on_same [simp]: "open_state q \<Longrightarrow> on c q r (q, Some c)"
  by (cases r) simp_all

lemma wp_on:
  fixes m :: "('e, gerr + 'a) io" and k :: "'a \<Rightarrow> ('e, gerr + 'b) io"
  assumes "wp M m (on c q1) q" and "\<And>u. wp M (k u) (on c q2) (q1, Some c)"
  shows "wp M (try_call m id k) (on c q2) q"
proof (rule wp_try_call, rule wp_mono [OF assms(1)])
  fix r :: "gerr + 'a" and s
  assume "on c q1 r s"
  then show "case r of Inl err \<Rightarrow> on c q2 (Inl (id err)) s | Inr a \<Rightarrow> wp M (k a) (on c q2) s"
    using assms(2) by (cases s; cases r) auto
qed

named_theorems moves \<open>phases of the peers that may move\<close>

section \<open>Steps that only look\<close>

lemma steady_looks [steady_intros]:
  "steady (failover ready) (Setup d, current) (Stat A path)"
  "steady (failover ready) (Announced d, current) (Stat A path)"
  "steady (failover ready) (Setup d, current) (ReadFile A path)"
  "open_state q \<Longrightarrow> steady (failover ready) (q, current) (call_sum name f1)"
  "open_state q \<Longrightarrow> steady (failover ready) (q, current) (call_plain name f2)"
  "open_state q \<Longrightarrow> steady (failover ready) (q, current) (call_check name f3)"
  unfolding Stat_def ReadFile_def call_sum_def call_plain_def call_check_def
  by (rule steady_perform; simp)+

lemma steady_sleep [steady_intros]: "steady M q (sleep pause)"
  by (rule steadyI) (simp add: sleep_def)

lemma steady_until_done [steady_intros]: "steady M q m \<Longrightarrow> steady M q (until_done m)"
  unfolding until_done_def by (intro steady_intros)

lemma steady_create_or_open [steady_intros]:
  "steady M q m \<Longrightarrow> steady M q m' \<Longrightarrow> steady M q (create_or_open m m')"
  unfolding create_or_open_def by (intro steady_intros)

lemma steady_failover_signal [steady_intros]:
  "steady (failover ready) (Announced d, current)
     (await_signal A wait failurePath failed check_failure path check_signal timeout)"
  unfolding await_signal_def signal_turn_def by (intro steady_intros)

lemmas signal_defs = waitForJetStreamReconnectSignal_def waitForJetStreamLeaderKillSignal_def
  waitForJetStreamSignalFile_def waitForJetStreamMultiNodeRecoverySignal_def

lemma steady_failover_signals [steady_intros]:
  "steady (failover ready) (Announced d, current) (waitForJetStreamReconnectSignal A signal)"
  "steady (failover ready) (Announced d, current) (waitForJetStreamLeaderKillSignal A signal)"
  "steady (failover ready) (Announced d, current) (waitForJetStreamSignalFile A signal suffix label)"
  "steady (failover ready) (Announced d, current) (waitForJetStreamMultiNodeRecoverySignal A signal)"
  unfolding signal_defs Let_def by (rule steady_intros)+

lemma steady_survivor [steady_intros]:
  "steady (failover ready) (Setup d, current) (waitForJetStreamSurvivorFile A signal path)"
  unfolding waitForJetStreamSurvivorFile_def survivor_turn_def Let_def by (intro steady_intros)

lemma steady_failover_retries [steady_intros]:
  assumes "open_state q"
  shows "steady (failover ready) (q, current) (retryJetStreamStreamInfo A js stream deadline)"
    and "steady (failover ready) (q, current) (retryJetStreamLeaderChange A js stream previous deadline)"
    and "steady (failover ready) (q, current) (retryJetStreamStreamQuorum A js stream n0 n1 deadline)"
    and "steady (failover ready) (q, current) (retryJetStreamOrderedConsumerReady A s deadline)"
    and "steady (failover ready) (q, current) (retryAddJetStreamStream A js config deadline)"
    and "steady (failover ready) (q, current) (retryCreateReplicatedKeyValue A js kvconfig deadline)"
    and "steady (failover ready) (q, current) (retryDeleteKeyValue A js bucket deadline)"
    and "steady (failover ready) (q, current) (retryJetStreamConsumerGeneration A js stream prefix n deadline)"
    and "steady (failover ready) (q, current) (stream_info_within A js stream wait)"
  unfolding retryJetStreamStreamInfo_def retryJetStreamLeaderChange_def retryJetStreamStreamQuorum_def
    retryJetStreamOrderedConsumerReady_def retryAddJetStreamStream_def retryCreateReplicatedKeyValue_def
    retryDeleteKeyValue_def retryJetStreamConsumerGeneration_def generation_turn_def quorum_turn_def
    StreamInfo_def ConsumerInfo_def stream_info_within_def Let_def
  by (intro steady_intros assms)+

lemma steady_object_retries [steady_intros]:
  assumes "open_state q"
  shows "steady (failover ready) (q, current) (retryCreateReplicatedObjectStore A js oconfig deadline)"
    and "steady (failover ready) (q, current) (retryOpenObjectStore A js bucket deadline)"
    and "steady (failover ready) (q, current) (retryDeleteObjectStore A js bucket deadline)"
    and "steady (failover ready) (q, current) (retryObjectStoreStreamState A js stream n0 n1 deadline)"
    and "steady (failover ready) (q, current) (retryObjectStoreGetString A store name deadline)"
  unfolding retryCreateReplicatedObjectStore_def retryOpenObjectStore_def retryDeleteObjectStore_def
    retryObjectStoreStreamState_def retryObjectStoreGetString_def StreamInfo_def
  by (intro steady_intros assms)+

lemma steady_units [steady_intros]:
  "steady (failover ready) (Announced False, current) (waitForJetStreamDisconnectSignal A ch)"
  "steady (failover ready) (Announced False, current) (waitJetStreamReconnect A ch)"
  unfolding waitForJetStreamDisconnectSignal_def waitJetStreamReconnect_def RecvUnit_def
  by (intro steady_intros steady_perform; simp)+

section \<open>Phases of the ordered peer\<close>

text \<open>Steps that only look, in front of the rest of a script.\<close>

lemma wp_bnd_clock: "(\<And>now. wp M (k now) Q q) \<Longrightarrow> wp M (bnd clock k) Q q"
  by (intro wp_bnd wp_clock)

lemmas move_rules = wp_bnd_clock
  wp_try_steady [OF steady_failover_retries(1)] wp_try_steady [OF steady_failover_retries(3)]
  wp_try_steady [OF steady_failover_retries(9)] wp_bnd_steady [OF steady_failover_retries(9)]
  wp_bnd_steady [OF steady_failover_retries(2)] wp_must_steady [OF steady_failover_signals(1)]
  wp_must_steady [OF steady_failover_signals(2)] wp_must_steady [OF steady_failover_signals(3)]
  wp_must_steady [OF steady_failover_signals(4)] wp_try_steady [OF steady_failover_retries(4)]
  wp_bnd_steady [OF steady_sleep]

lemma mark_failure_move:
  assumes "q = Setup False \<or> q = Announced False"
  shows "wp (failover ready) (mark_failure A config err) (on c q1) (q, Some c)"
  using assms unfolding mark_failure_def markJetStreamInteropFailure_def WriteFile_def failover_def
  by (intro wp_bnd wp_call wp_ret) auto

lemma steady_under_clock [steady_intros]: "(\<And>now. steady M q (m now)) \<Longrightarrow> steady M q (bnd clock m)"
  by (intro steady_intros)

lemma survivor_endpoint_move [moves]:
  "op_leader config \<noteq> op_ready config \<Longrightarrow> wp (failover (op_ready config)) (survivor_endpoint A config what leaderName) (on c (Setup False)) ((Setup False), Some c)"
  unfolding survivor_endpoint_def store_calls 
  by (rule script_rules move_rules wp_try_steady [OF steady_survivor] | simp; fail)+

lemma leader_confirmed_move [moves]:
  "wp (failover (op_ready config)) (leader_confirmed A config what probe stream leaderName wait) (on c (Setup False)) ((Setup False), Some c)"
  unfolding leader_confirmed_def store_calls 
  by (rule script_rules move_rules mark_failure_move | simp; fail)+

lemma leader_kill_move [moves]:
  "wp (failover (op_ready config)) (leader_kill A config what probe stream leaderName wait settle) (on c (Announced False)) ((Announced False), Some c)"
  unfolding leader_kill_def store_calls Let_def
  by (rule script_rules move_rules mark_failure_move | simp; fail)+

lemma failover_create_move [moves]:
  "wp (failover (op_ready config)) (failover_create A config js) (on c (Setup False)) ((Setup False), Some c)"
  unfolding failover_create_def store_calls 
  by (rule script_rules move_rules wp_try_steady [OF steady_under_clock [OF steady_failover_retries(5)]] | simp; fail)+

lemma failover_leader_move [moves]:
  "wp (failover (op_ready config)) (failover_leader A config js) (on c (Setup False)) ((Setup False), Some c)"
  unfolding failover_leader_def store_calls 
  by (rule script_rules move_rules  | simp; fail)+

lemma failover_survivor_move [moves]:
  "wp (failover (op_ready config)) (failover_survivor A config leaderName c) (on c (Setup False)) ((Setup False), Some c)"
  unfolding failover_survivor_def store_calls 
  by (rule script_rules move_rules wp_on [OF leader_confirmed_move] | simp; fail)+

text \<open>
  After a setup: failed with the connection it names still open, or with none, or in possession
  of the connection the site works on.
\<close>

definition resting :: "conn option \<Rightarrow> handshake \<times> conn option \<Rightarrow> bool" where
  "resting current s \<longleftrightarrow> snd s = current \<and> (if current = None then fst s = Idle else open_state (fst s))"

definition moved :: "('a \<Rightarrow> conn) \<Rightarrow> conn option \<times> (gerr + 'a) \<Rightarrow> handshake \<times> conn option \<Rightarrow> bool" where
  "moved conn_of p s \<longleftrightarrow>
     (case snd p of
        Inl err \<Rightarrow> resting (fst p) s
      | Inr site \<Rightarrow> fst p = Some (conn_of site) \<and> s = (Setup False, Some (conn_of site)))"

lemma moved_simps [simp]:
  "moved conn_of (current, Inl err) s = resting current s"
  "moved conn_of (current, Inr site) s \<longleftrightarrow> current = Some (conn_of site) \<and> s = (Setup False, Some (conn_of site))"
  "resting (Some c) (q, Some c) = open_state q"
  "resting None (q, None) \<longleftrightarrow> q = Idle"
  by (auto simp: moved_def resting_def)

lemma wp_leave_leader:
  assumes "op_leader config \<noteq> op_ready config"
  shows "wp (failover (op_ready config)) (leave_leader A config what opts c leaderName) (moved id) (Setup False, Some c)"
  unfolding leave_leader_def
proof (rule wp_bnd, rule wp_mono [OF survivor_endpoint_move [OF assms]])
  fix r :: "gerr + string" and s
  assume r: "on c (Setup False) r s"
  show "wp (failover (op_ready config)) (case r of
       Inl err \<Rightarrow> ret (Some c, Inl err)
     | Inr survivorServer \<Rightarrow>
         bnd (Close A c) (\<lambda>_.
         bnd (Connect A survivorServer opts) (\<lambda>r. case r of
           Inl err \<Rightarrow> ret (None, Inl (Errorf (''connect to '' @ what @ '' survivor %q: %w'')
                        [AStr survivorServer, AWrap err]))
         | Inr c' \<Rightarrow> ret (Some c', Inr c')))) (moved id) s"
  proof (cases r)
    case (Inl err)
    with r show ?thesis by (cases s) simp
  next
    case (Inr survivorServer)
    with r have s: "s = (Setup False, Some c)" by (cases s) simp
    show ?thesis
      unfolding Inr s sum.case Close_def Connect_def
      by (rule wp_bnd_call [where ?q1.0 = "(Idle, None)"], simp, rule wp_bnd, rule wp_call) (auto split: sum.splits)
  qed
qed

lemma wp_then_on:
  assumes "wp M m (moved id) q"
    and "\<And>c. wp M (k c) (\<lambda>r s. case r of Inl err \<Rightarrow> resting (Some c) s
            | Inr site \<Rightarrow> conn_of site = c \<and> s = (Setup False, Some c)) (Setup False, Some c)"
  shows "wp M (then_on m k) (moved conn_of) q"
  unfolding then_on_def
proof (rule wp_bnd, rule wp_mono [OF assms(1)])
  fix p s
  assume p: "moved id p s"
  obtain current r where p': "p = (current, r)" by (cases p)
  show "wp M (case p of (current, r) \<Rightarrow> (case r of Inl err \<Rightarrow> ret (current, Inl err)
      | Inr a \<Rightarrow> bnd (k a) (\<lambda>r. ret (current, r)))) (moved conn_of) s"
  proof (cases r)
    case (Inl err)
    with p p' show ?thesis by simp
  next
    case (Inr c)
    with p p' have s: "s = (Setup False, Some c)" and cur: "current = Some c" by simp_all
    show ?thesis
      unfolding p' Inr prod.case sum.case s cur
      by (rule wp_bnd, rule wp_mono [OF assms(2)]) (auto split: sum.splits simp: moved_def)
  qed
qed

lemma wp_first_connection:
  assumes "\<And>c. wp (failover ready) (k c) (\<lambda>r. E (case r of Inl err \<Rightarrow> Some err | Inr _ \<Rightarrow> None)) (Setup False, Some c)"
    and "\<And>r q. ended r q \<Longrightarrow> E r q"
  shows "wp (failover ready) (first_connection A config opts k)
     (\<lambda>r. E (case r of Inl err \<Rightarrow> Some err | Inr _ \<Rightarrow> None)) (Idle, None)"
  unfolding first_connection_def Connect_def call_plain_def Close_def
proof (intro wp_try_call wp_call)
  fix r
  show "\<exists>q'. failover ready (Idle, None) (EConnect (op_server config) (sum_option r)) = Some q' \<and>
     (case r of Inl err \<Rightarrow> E (case Inl (wrap ''connect'' err) of Inl err \<Rightarrow> Some err | Inr _ \<Rightarrow> None) q'
      | Inr c \<Rightarrow> wp (failover ready) (bnd (perform (\<lambda>r. ECall ''ConnectedUrl'' True) (connected_url A c)) (\<lambda>url.
          case expectInitialConnection url (op_server config) of
            None \<Rightarrow> k c | Some err \<Rightarrow> bnd (perform (\<lambda>_. EClose c) (close_conn A c)) (\<lambda>_. ret (Inl err))))
          (\<lambda>r. E (case r of Inl err \<Rightarrow> Some err | Inr _ \<Rightarrow> None)) q')"
  proof (cases r)
    case (Inl err)
    then show ?thesis by (simp add: assms(2) ended_def proper_end_def)
  next
    case (Inr c)
    have "wp (failover ready) (bnd (perform (\<lambda>r. ECall ''ConnectedUrl'' True) (connected_url A c)) (\<lambda>url.
          case expectInitialConnection url (op_server config) of
            None \<Rightarrow> k c | Some err \<Rightarrow> bnd (perform (\<lambda>_. EClose c) (close_conn A c)) (\<lambda>_. ret (Inl err))))
          (\<lambda>r. E (case r of Inl err \<Rightarrow> Some err | Inr _ \<Rightarrow> None)) (Setup False, Some c)"
      by (rule wp_bnd_call wp_option assms(1) wp_ret assms(2) | simp add: ended_def proper_end_def; fail)+
    with Inr show ?thesis by simp
  qed
qed

lemma wp_close_last:
  fixes r :: "gerr + 'a"
  assumes "on c Drained r s"
  shows "wp (failover ready) (Close A c) (\<lambda>_. ended (case r of Inl err \<Rightarrow> Some err | Inr _ \<Rightarrow> None)) s"
proof -
  obtain q where s: "s = (q, Some c)" and q: "phase Drained r q"
    using assms by (cases s) (simp add: on_def)
  have "open_state q" and "r = Inl (projl r) \<or> q = Drained" using q by (cases r; simp)+
  then show ?thesis
    unfolding s Close_def by (intro wp_call) (cases q; cases r; auto simp: ended_def proper_end_def open_state_def)
qed

lemma wp_closing:
  fixes r :: "gerr + 'a" and k :: "'a \<Rightarrow> ('e, gerr + 'b) io"
  assumes "moved conn_of (current, r) s"
    and "\<And>site. wp (failover ready) (k site) (on (conn_of site) Drained) (Setup False, Some (conn_of site))"
  shows "wp (failover ready) (closing A current (case r of Inl err \<Rightarrow> ret (Inl err) | Inr site \<Rightarrow> k site))
     (\<lambda>r. ended (case r of Inl err \<Rightarrow> Some err | Inr _ \<Rightarrow> None)) s"
proof (cases current)
  case None
  with assms(1) obtain err where "r = Inl err" and "s = (Idle, None)"
    by (cases r; cases s) (auto simp: resting_def)
  with None show ?thesis by (simp add: closing_def ended_def proper_end_def)
next
  case (Some c)
  have "wp (failover ready) (case r of Inl err \<Rightarrow> ret (Inl err) | Inr site \<Rightarrow> k site) (on c Drained) s"
    using assms Some by (cases r; cases s) (auto simp: resting_def)
  then show ?thesis
    unfolding Some closing_def option.case by (rule wp_deferred [OF wp_mono]) (rule wp_close_last)
qed

text \<open>The setup of the ordered peer.\<close>

lemma failover_first_context:
  "wp (failover (op_ready config))
     (try_call (JetStream A c (Some orderedReconnectWait)) (wrap ''JetStream context'') (\<lambda>js.
      try_call (failover_create A config js) id (\<lambda>_.
      if op_leader config = [] then ret (Inr (js, None))
      else try_call (failover_leader A config js) id (\<lambda>leaderName. ret (Inr (js, Some leaderName))))))
     (on c (Setup False)) (Setup False, Some c)"
  unfolding JetStream_def call_sum_def
  by (rule script_rules wp_on [OF failover_create_move] wp_on [OF failover_leader_move] | simp; fail)+

lemma wp_on_rests:
  fixes m :: "('e, gerr + 'a) io" and k :: "'a \<Rightarrow> ('e, gerr + 'b) io"
  assumes "wp M m (on c q1) q"
    and "\<And>u. wp M (k u) (\<lambda>r s. case r of Inl err \<Rightarrow> resting (Some c) s | Inr x \<Rightarrow> P x s) (q1, Some c)"
  shows "wp M (try_call m id k) (\<lambda>r s. case r of Inl err \<Rightarrow> resting (Some c) s | Inr x \<Rightarrow> P x s) q"
proof (rule wp_try_call, rule wp_mono [OF assms(1)])
  fix r :: "gerr + 'a" and s
  assume "on c q1 r s"
  then show "case r of
      Inl err \<Rightarrow> (case Inl (id err) of Inl err \<Rightarrow> resting (Some c) s | Inr x \<Rightarrow> P x s)
    | Inr a \<Rightarrow> wp M (k a) (\<lambda>r s. case r of Inl err \<Rightarrow> resting (Some c) s | Inr x \<Rightarrow> P x s) s"
    using assms(2) by (cases s; cases r) auto
qed

lemma failover_survivor_rests:
  "wp (failover (op_ready config)) (failover_survivor A config leaderName c)
     (\<lambda>r s. case r of Inl err \<Rightarrow> resting (Some c) s | Inr site \<Rightarrow> fst site = c \<and> s = (Setup False, Some c))
     (Setup False, Some c)"
  unfolding failover_survivor_def store_calls
  by (rule wp_try_perform wp_on_rests [OF leader_confirmed_move] wp_ret | simp; fail)+

lemma failover_setup_moved:
  assumes "op_leader config \<noteq> op_ready config"
  shows "wp (failover (op_ready config)) (failover_setup A config opts c) (moved fst) (Setup False, Some c)"
  unfolding failover_setup_def
proof (rule wp_bnd, rule wp_mono [OF failover_first_context])
  fix r :: "gerr + jsc \<times> string option" and s
  assume r: "on c (Setup False) r s"
  note left = wp_then_on [OF wp_leave_leader [OF assms] failover_survivor_rests]
  show "wp (failover (op_ready config)) (case r of
          Inl err \<Rightarrow> ret (Some c, Inl err)
        | Inr (js, None) \<Rightarrow> ret (Some c, Inr (c, js, None))
        | Inr (js, Some leaderName) \<Rightarrow>
            then_on (leave_leader A config ''JetStream'' opts c leaderName) (failover_survivor A config leaderName))
     (moved fst) s"
    using r left by (cases s) (auto split: sum.splits option.splits)
qed

text \<open>The script on its site.\<close>

lemma failover_bind_move [moves]:
  "wp (failover (op_ready config)) (failover_bind A config c) (on c (Setup False)) ((Setup False), Some c)"
  unfolding failover_bind_def store_calls 
  by (rule script_rules move_rules  | simp; fail)+

lemma subscribe_controls_move:
  assumes "\<And>d. wp M k (on c q) (Setup d, Some c)"
    and "\<And>d subj ch ok. M (Setup d, Some c) (ESubscribe subj ch ok) = Some (Setup True, Some c)"
  shows "wp M (subscribe_controls A c0 controls k) (on c q) (Setup d, Some c)"
proof (induction controls arbitrary: d)
  case (Cons x controls)
  obtain subj ch name where x: "x = (subj, ch, name)" by (cases x)
  show ?case unfolding x subscribe_controls.simps Subscribe_def
    by (rule wp_must_call) (auto simp: Cons assms(2))
qed (simp add: assms(1))

lemma failover_announce_move [moves]:
  "wp (failover (op_ready config)) (failover_announce A config c) (on c (Announced False)) (Setup False, Some c)"
  unfolding failover_announce_def
  by (rule subscribe_controls_move) (unfold script_calls, (rule script_rules | simp; fail)+)

lemma failover_publish_move [moves]:
  "wp (failover (op_ready config)) (failover_publish A config js suffix payload n) (on c (Announced False)) ((Announced False), Some c)"
  unfolding failover_publish_def store_calls publishOrderedReconnectMessage_def Let_def
  by (rule script_rules move_rules  | simp; fail)+

lemma failover_deliveries_move [moves]:
  "wp (failover (op_ready config)) (failover_deliveries A config s xs) (on c (Announced False)) (Announced False, Some c)"
proof (induction xs)
  case (Cons x xs)
  obtain label payload n0 n1 where x: "x = (label, payload, n0, n1)" by (cases x)
  show ?case unfolding x failover_deliveries.simps script_calls
    by (rule script_rules Cons | simp; fail)+
qed simp

lemma failover_before_move [moves]:
  "wp (failover (op_ready config)) (failover_before A config js s) (on c (Announced False)) (Announced False, Some c)"
  unfolding failover_before_def by (rule wp_on, rule moves)+ (rule moves)

lemma failover_baseline_move [moves]:
  "wp (failover (op_ready config)) (failover_baseline A config js) (on c (Announced False)) ((Announced False), Some c)"
  unfolding failover_baseline_def store_calls 
  by (rule script_rules move_rules wp_try_steady [OF steady_under_clock [OF steady_failover_retries(3)]] | simp; fail)+

lemma disconnect_barrier_move [moves]:
  "wp (failover (op_ready config)) (disconnect_barrier A config) (on c (Announced False)) ((Announced False), Some c)"
  unfolding disconnect_barrier_def store_calls
  by (rule script_rules move_rules wp_must_steady [OF steady_units(1)] | simp; fail)+

lemma management_failure_move [moves]:
  "wp (failover (op_ready config)) (management_failure A config js) (on c (Announced False)) ((Announced False), Some c)"
  unfolding management_failure_def store_calls 
  by (rule script_rules move_rules  | simp; fail)+

lemma wp_reconnect_or_report:
  assumes "wp (failover ready) k (on c q) (Announced False, Some c)"
  shows "wp (failover ready) (reconnect_or_report A c0 which k) (on c q) (Announced False, Some c)"
  unfolding reconnect_or_report_def reconnect_report_def script_calls
  by (rule wp_bnd_steady [OF steady_units(2)] script_rules assms | simp; fail)+

lemma wp_reconnect_barrier:
  assumes "wp (failover ready) k (on c q) (Announced False, Some c)"
  shows "wp (failover ready) (reconnect_barrier A config k) (on c q) (Announced False, Some c)"
  unfolding reconnect_barrier_def script_calls by (rule script_rules assms | simp; fail)+

lemma multi_node_recovered_move [moves]:
  "wp (failover (op_ready config)) (multi_node_recovered A config wait deadline) (on c (Announced False)) ((Announced False), Some c)"
  unfolding multi_node_recovered_def store_calls 
  by (rule script_rules move_rules  | simp; fail)+

lemma changed_advertisement_move [moves]:
  "wp (failover (op_ready config)) (changed_advertisement A config c0 deadline) (on c (Announced False)) ((Announced False), Some c)"
  unfolding changed_advertisement_def store_calls 
  by (rule script_rules move_rules wp_reconnect_or_report | simp; fail)+

lemma failover_reconnect_move [moves]:
  "wp (failover (op_ready config)) (failover_reconnect A config c0) (on c (Announced False)) ((Announced False), Some c)"
  unfolding failover_reconnect_def store_calls 
  by (rule script_rules move_rules wp_reconnect_or_report wp_reconnect_barrier wp_on [OF multi_node_recovered_move] changed_advertisement_move | simp; fail)+

lemma failover_stream_move [moves]:
  "wp (failover (op_ready config)) (failover_stream A config site) (on c (Announced False)) (Announced False, Some c)"
  unfolding failover_stream_def
  by (rule wp_pair wp_option leader_kill_move wp_on [OF failover_reconnect_move] wp_if wp_ret
        wp_try_steady [OF steady_if [OF steady_failover_retries(3) steady_failover_retries(1)]] | simp; fail)+

lemma failover_recover_move [moves]:
  "wp (failover (op_ready config)) (failover_recover A config site) (on c (Announced False)) ((Announced False), Some c)"
  unfolding failover_recover_def store_calls 
  by (rule script_rules move_rules wp_on [OF failover_stream_move] | simp; fail)+

lemma failover_ready_move [moves]:
  "wp (failover (op_ready config)) (failover_ready A config s deadline) (on c (Announced False)) ((Announced False), Some c)"
  unfolding failover_ready_def store_calls 
  by (rule script_rules move_rules  | simp; fail)+

lemma failover_after_move [moves]:
  "wp (failover (op_ready config)) (failover_after A config js s info) (on c (Announced False)) ((Announced False), Some c)"
  unfolding failover_after_def store_calls 
  by (rule script_rules move_rules wp_on [OF failover_publish_move] | simp; fail)+

lemma failover_finish_move [moves]:
  "wp (failover (op_ready config)) (failover_finish A c0) (on c Drained) ((Announced False), Some c)"
  unfolding failover_finish_def store_calls 
  by (rule script_rules move_rules  | simp; fail)+

lemma failover_script_move:
  "wp (failover (op_ready config)) (failover_script A config site) (on (fst site) Drained) (Setup False, Some (fst site))"
proof -
  obtain c js leader where site: "site = (c, js, leader)" by (cases site)
  show ?thesis
    unfolding failover_script_def site prod.case fst_conv by (rule wp_on wp_pair moves)+
qed

section \<open>Phases of the Key-Value and Object Store peers\<close>

lemma steady_control_wait [steady_intros]:
  "steady (failover ready) (Announced False, current) (waitWithTimeout fuel A label timeout ch)"
  "steady (failover ready) (Announced False, current) (control_wait fuel A label ch)"
proof -
  have "steady (failover ready) (Announced False, current) (control_turns fuel A label deadline ch)" for deadline
  proof (induction fuel)
    case (Suc fuel)
    then show ?case
      unfolding control_turns.simps RecvUnit_def Let_def
      by (intro steady_intros steady_perform) (simp_all add: steady_intros)
  qed (simp add: steady_intros)
  then show wait: "steady (failover ready) (Announced False, current) (waitWithTimeout fuel A label timeout ch)"
    for timeout unfolding waitWithTimeout_def by (intro steady_intros)
  show "steady (failover ready) (Announced False, current) (control_wait fuel A label ch)"
    unfolding control_wait_def by (rule wait)
qed

lemma respondKeyValueControl_move [moves]:
  "wp (failover ready) (respondKeyValueControl A c0 label m payload) (on c (Announced False)) (Announced False, Some c)"
  unfolding respondKeyValueControl_def store_calls by (rule script_rules | simp; fail)+

lemma respond_duplicate_move [moves]:
  "wp (failover ready) (respond_duplicate A c0 label payload pending) (on c (Announced False)) (Announced False, Some c)"
  unfolding respond_duplicate_def store_calls by (rule script_rules | simp; fail)+

lemma control_answer_move [moves]:
  "wp (failover ready) (control_answer A c0 label m payload ch) (on c (Announced False)) (Announced False, Some c)"
  unfolding control_answer_def store_calls Let_def
  by (rule script_rules wp_on [OF respondKeyValueControl_move] respond_duplicate_move | simp; fail)+

lemmas store_moves = control_answer_move wp_on [OF control_answer_move]
  wp_try_steady [OF steady_control_wait(1)] wp_try_steady [OF steady_control_wait(2)]
  wp_try_steady [OF steady_failover_retries(3)]
  wp_try_steady [OF steady_under_clock [OF steady_failover_retries(3)]]
  wp_try_steady [OF steady_under_clock [OF steady_failover_retries(6)]]
  wp_try_steady [OF steady_under_clock [OF steady_failover_retries(7)]]
  wp_try_steady [OF steady_under_clock [OF steady_failover_retries(8)]]
  wp_try_steady [OF steady_under_clock [OF steady_object_retries(1)]]
  wp_try_steady [OF steady_under_clock [OF steady_object_retries(2)]]
  wp_try_steady [OF steady_under_clock [OF steady_object_retries(3)]]
  wp_try_steady [OF steady_object_retries(4)]
  wp_try_steady [OF steady_under_clock [OF steady_object_retries(5)]]

lemma stores_announce_move [moves]:
  "wp (failover (op_ready config)) (stores_announce A config c0 controls flushed) (on c (Announced False)) (Setup False, Some c)"
proof -
  have "wp (failover (op_ready config)) (new_controls A more_controls k) (on c (Announced False)) (Setup False, Some c)"
    if "wp (failover (op_ready config)) k (on c (Announced False)) (Setup False, Some c)" for more_controls k
    using that
  proof (induction more_controls)
    case (Cons x xs)
    obtain subj ch name where x: "x = (subj, ch, name)" by (cases x)
    show ?case unfolding x new_controls.simps call_plain_def 
      by (rule wp_bnd_call [where ?q1.0 = "(Setup False, Some c)"]) (simp, rule Cons.IH [OF Cons.prems])
  qed simp
  then show ?thesis
    unfolding stores_announce_def
    by this (rule subscribe_controls_move, unfold script_calls, (rule script_rules | simp; fail)+)
qed

lemma stores_reconnect_move [moves]:
  "wp (failover (op_ready config)) (stores_reconnect A config wait) (on c (Announced False)) ((Announced False), Some c)"
  unfolding stores_reconnect_def store_calls 
  by (rule script_rules move_rules store_moves wp_must_steady [OF steady_units(2)] wp_reconnect_barrier multi_node_recovered_move | simp; fail)+

lemma kv_open_bucket_move [moves]:
  "wp (failover (op_ready config)) (kv_open_bucket A config c0) (on c (Setup False)) ((Setup False), Some c)"
  unfolding kv_open_bucket_def store_calls 
  by (rule script_rules move_rules store_moves  | simp; fail)+

lemma kv_baseline_entry_move [moves]:
  "wp (failover (op_ready config)) (kv_baseline_entry A config c0 kv) (on c (Setup False)) ((Setup False), Some c)"
  unfolding kv_baseline_entry_def store_calls 
  by (rule script_rules move_rules store_moves  | simp; fail)+

lemma kv_leader_move [moves]:
  "wp (failover (op_ready config)) (kv_leader A config legacy) (on c (Setup False)) ((Setup False), Some c)"
  unfolding kv_leader_def store_calls 
  by (rule script_rules move_rules store_moves  | simp; fail)+

lemma control_phase_move [moves]:
  "wp (failover (op_ready config)) (control_phase fuel A c0 ch waited l1 l2 answered payload) (on c (Announced False)) ((Announced False), Some c)"
  unfolding control_phase_def store_calls 
  by (rule script_rules move_rules store_moves  | simp; fail)+

lemma kv_baseline_move [moves]:
  "wp (failover (op_ready config)) (kv_baseline fuel A config c0 legacy kv) (on c (Announced False)) ((Announced False), Some c)"
  unfolding kv_baseline_def store_calls Let_def
  by (rule script_rules move_rules store_moves  | simp; fail)+

lemma kv_recovery_move [moves]:
  "wp (failover (op_ready config)) (kv_recovery fuel A config c0 legacy kv n) (on c (Announced False)) ((Announced False), Some c)"
  unfolding kv_recovery_def store_calls 
  by (rule script_rules move_rules store_moves  | simp; fail)+

lemma kv_cleanup_move [moves]:
  "wp (failover (op_ready config)) (kv_cleanup fuel A config c0 js) (on c Drained) ((Announced False), Some c)"
  unfolding kv_cleanup_def store_calls 
  by (rule script_rules move_rules store_moves  | simp; fail)+

lemma kv_failover_stream_move [moves]:
  "wp (failover (op_ready config)) (kv_failover_stream A config site) (on c (Announced False)) (Announced False, Some c)"
  unfolding kv_failover_stream_def
  by (rule wp_pair wp_option wp_on [OF leader_kill_move] wp_on [OF stores_reconnect_move] wp_ret
        steady_wp [OF steady_if [OF steady_failover_retries(3) steady_failover_retries(1)]] | simp; fail)+

lemma kv_failover_move [moves]:
  "wp (failover (op_ready config)) (kv_failover A config site) (on c (Announced False)) ((Announced False), Some c)"
  unfolding kv_failover_def store_calls 
  by (rule script_rules move_rules store_moves wp_on [OF kv_failover_stream_move] | simp; fail)+

lemma kv_phases_move [moves]:
  "wp (failover (op_ready config)) (kv_start fuel A c0) (on c (Announced False)) (Announced False, Some c)"
  "wp (failover (op_ready config)) (kv_closed fuel A c0) (on c (Announced False)) (Announced False, Some c)"
  unfolding kv_start_def kv_closed_def by (rule wp_on [OF control_phase_move] control_phase_move)+

lemma kv_script_move:
  "wp (failover (op_ready config)) (kv_failover_script fuel A config site) (on (fst site) Drained)
     (Setup False, Some (fst site))"
proof -
  obtain c js legacy kv leader where site: "site = (c, js, legacy, kv, leader)" by (cases site)
  show ?thesis
    unfolding kv_failover_script_def site prod.case fst_conv by (rule wp_on moves)+
qed

lemma kv_survivor_rests:
  "wp (failover (op_ready config)) (kv_survivor A config leaderName c)
     (\<lambda>r s. case r of Inl err \<Rightarrow> resting (Some c) s | Inr site \<Rightarrow> fst site = c \<and> s = (Setup False, Some c))
     (Setup False, Some c)"
  unfolding kv_survivor_def store_calls
  by (rule wp_try_perform wp_on_rests [OF leader_confirmed_move] wp_ret | simp; fail)+

lemma kv_first_context:
  "wp (failover (op_ready config))
     (try_call (kv_open_bucket A config c) id (\<lambda>(js, kv).
          try_call (kv_baseline_entry A config c kv) id (\<lambda>legacy.
          if op_leader config = [] then ret (Inr (js, legacy, kv, None))
          else try_call (kv_leader A config legacy) id (\<lambda>leaderName. ret (Inr (js, legacy, kv, Some leaderName))))))
     (on c (Setup False)) (Setup False, Some c)"
  by (rule script_rules wp_on [OF kv_open_bucket_move] wp_on [OF kv_baseline_entry_move] wp_on [OF kv_leader_move]
      | simp; fail)+

lemma kv_setup_moved:
  assumes "op_leader config \<noteq> op_ready config"
  shows "wp (failover (op_ready config)) (kv_failover_setup A config opts c) (moved fst) (Setup False, Some c)"
  unfolding kv_failover_setup_def
proof (rule wp_bnd, rule wp_mono [OF kv_first_context])
  fix r :: "gerr + jsc \<times> jsc \<times> kvh \<times> string option" and s
  assume r: "on c (Setup False) r s"
  note left = wp_then_on [OF wp_leave_leader [OF assms] kv_survivor_rests]
  show "wp (failover (op_ready config)) (case r of
          Inl err \<Rightarrow> ret (Some c, Inl err)
        | Inr (js, legacy, kv, None) \<Rightarrow> ret (Some c, Inr (c, js, legacy, kv, None))
        | Inr (js, legacy, kv, Some leaderName) \<Rightarrow>
            then_on (leave_leader A config ''Key-Value'' opts c leaderName) (kv_survivor A config leaderName))
     (moved fst) s"
    using r left by (cases s) (auto split: sum.splits option.splits)
qed

text \<open>The Object Store peer, whose deferred close stays with the first connection.\<close>

lemma object_open_move [moves]:
  "wp (failover (op_ready config)) (object_open A config c0) (on c (Setup False)) ((Setup False), Some c)"
  unfolding object_open_def store_calls 
  by (rule script_rules move_rules store_moves  | simp; fail)+

lemma object_start_move [moves]:
  "wp (failover (op_ready config)) (object_start fuel A config c0 store) (on c (Announced False)) ((Announced False), Some c)"
  unfolding object_start_def store_calls 
  by (rule script_rules move_rules store_moves  | simp; fail)+

lemma object_baseline_move [moves]:
  "wp (failover (op_ready config)) (object_baseline fuel A config c0 legacy store) (on c (Announced False)) ((Announced False), Some c)"
  unfolding object_baseline_def store_calls 
  by (rule script_rules move_rules store_moves  | simp; fail)+

lemma object_reconnect_move [moves]:
  "wp (failover (op_ready config)) (object_reconnect A config) (on c (Announced False)) ((Announced False), Some c)"
  unfolding object_reconnect_def store_calls 
  by (rule script_rules move_rules store_moves wp_must_steady [OF steady_units(2)] wp_reconnect_barrier wp_on [OF multi_node_recovered_move] | simp; fail)+

lemma object_deadline_move [moves]:
  "wp (failover (op_ready config)) (object_deadline A config site) (on c (Announced False)) ((Announced False), Some c)"
  unfolding object_deadline_def store_calls 
  by (rule script_rules move_rules store_moves wp_on [OF leader_kill_move] wp_on [OF object_reconnect_move] | simp; fail)+

lemma object_failover_move [moves]:
  "wp (failover (op_ready config)) (object_failover A config site) (on c (Announced False)) ((Announced False), Some c)"
  unfolding object_failover_def store_calls 
  by (rule script_rules move_rules store_moves wp_on [OF object_deadline_move] | simp; fail)+

lemma object_recovery_move [moves]:
  "wp (failover (op_ready config)) (object_recovery fuel A config c0 store) (on c (Announced False)) ((Announced False), Some c)"
  unfolding object_recovery_def store_calls 
  by (rule script_rules move_rules store_moves  | simp; fail)+

lemma object_after_seen_move [moves]:
  "wp (failover (op_ready config)) (object_after_seen fuel A c0 store) (on c (Announced False)) ((Announced False), Some c)"
  unfolding object_after_seen_def store_calls 
  by (rule script_rules move_rules store_moves  | simp; fail)+

lemma object_cleanup_move [moves]:
  "wp (failover (op_ready config)) (object_cleanup fuel A config c0 js) (on c Drained) ((Announced False), Some c)"
  unfolding object_cleanup_def store_calls 
  by (rule script_rules move_rules store_moves  | simp; fail)+

lemma object_script_move:
  "wp (failover (op_ready config)) (object_failover_script fuel A config site) (on c Drained) (Setup False, Some c)"
proof -
  obtain c' js legacy store leader where site: "site = (c', js, legacy, store, leader)" by (cases site)
  show ?thesis
    unfolding object_failover_script_def site prod.case by (rule wp_on moves)+
qed

section \<open>Properties\<close>

lemma is_readE:
  assumes "is_read ev"
  obtains path ok where "ev = EReadFile path ok"
  using assms by (cases ev) (auto simp: is_read_def)

lemma run_reads:
  assumes "\<And>path ok. M q (EReadFile path ok) = Some q"
  shows "list_all is_read l \<Longrightarrow> run_monitor M q l = Some q"
proof (induction l)
  case (Cons ev l)
  from Cons.prems have "is_read ev" and l: "list_all is_read l" by simp_all
  then obtain path ok where "ev = EReadFile path ok" by (elim is_readE)
  then have "M q ev = Some q" by (simp only: assms)
  then show ?case using Cons.IH [OF l] by (simp only: run_monitor.simps option.case)
qed simp

lemma steady_only_reads:
  assumes "only_reads m" and "\<And>path ok. M q (EReadFile path ok) = Some q"
  shows "steady M q m"
proof (rule steadyI)
  fix t e
  have "list_all is_read (calls (m t e))"
    using assms(1) [unfolded only_reads_def, rule_format, OF gives_run] .
  with run_reads [of M q "calls (m t e)"] assms(2)
  show "run_monitor M q (calls (m t e)) = Some q" by simp
qed

lemma wp_options:
  assumes "\<And>opts. wp (failover ready) (k opts) (\<lambda>r. E (case r of Inl err \<Rightarrow> Some err | Inr _ \<Rightarrow> None)) (Idle, None)"
    and "\<And>r q. ended r q \<Longrightarrow> E r q"
  shows "wp (failover ready) (as_check (try_call (connectOptions A) id k)) E (Idle, None)"
  by (rule wp_as_check, rule wp_try_steady [OF steady_only_reads [OF only_reads_connectOptions]])
     (simp_all add: assms ended_def proper_end_def)

lemma wp_failover_options:
  assumes "\<And>opts. wp (failover ready) (k opts) (\<lambda>r. ended (case r of Inl err \<Rightarrow> Some err | Inr _ \<Rightarrow> None)) (Idle, None)"
  shows "failover_disciplined ready (as_check (try_call (connectOptions A) id k))"
  by (rule failover_disciplinedI, rule wp_options [OF assms])

lemma wp_setup_closing:
  assumes "wp (failover ready) setup (moved conn_of) (Setup False, Some c)"
    and "\<And>site. wp (failover ready) (k site) (on (conn_of site) Drained) (Setup False, Some (conn_of site))"
  shows "wp (failover ready) (bnd setup (\<lambda>(current, r). closing A current (
       case r of Inl err \<Rightarrow> ret (Inl err) | Inr site \<Rightarrow> k site)))
     (\<lambda>r. ended (case r of Inl err \<Rightarrow> Some err | Inr _ \<Rightarrow> None)) (Setup False, Some c)"
  by (rule wp_bnd, rule wp_mono [OF assms(1)], rule wp_pair) (use wp_closing [OF _ assms(2)] in auto)

lemma wp_object_without_leader:
  assumes "op_leader config = []"
  shows "wp (failover (op_ready config)) (bnd (object_failover_setup A config opts c) (\<lambda>(current, r).
       case r of Inl err \<Rightarrow> ret (Inl err) | Inr site \<Rightarrow> object_failover_script fuel A config site))
     (on c Drained) (Setup False, Some c)"
  unfolding object_failover_setup_def
proof (rule wp_bnd, rule wp_bnd, rule wp_mono [OF object_open_move])
  fix r :: "gerr + jsc \<times> jsc \<times> objh \<times> stream_info" and s
  assume r: "on c (Setup False) r s"
  let ?rest = "\<lambda>(current, r). case r of Inl err \<Rightarrow> ret (Inl err) | Inr site \<Rightarrow> object_failover_script fuel A config site"
  show "wp (failover (op_ready config)) (case r of
       Inl err \<Rightarrow> ret (Some c, Inl err)
     | Inr (js, legacy, store, streamInfo) \<Rightarrow>
         if op_leader config = [] then ret (Some c, Inr (c, js, legacy, store, None))
         else (case leader_named ''created Object Store stream did not identify a JetStream leader'' streamInfo of
             Inl err \<Rightarrow> ret (Some c, Inl err)
           | Inr leaderName \<Rightarrow>
               then_on (leave_leader A config ''Object Store'' opts c leaderName) (object_survivor A config leaderName)))
     (\<lambda>p. wp (failover (op_ready config)) (?rest p) (on c Drained)) s"
    using r assms by (cases s; cases r) (auto simp: object_script_move)
qed

text \<open>The Object Store peer with a move: its deferred close finds another connection in use.\<close>

lemma object_survivor_rests:
  "wp (failover (op_ready config)) (object_survivor A config leaderName c)
     (\<lambda>r s. case r of Inl err \<Rightarrow> resting (Some c) s | Inr site \<Rightarrow> fst site = c \<and> s = (Setup False, Some c))
     (Setup False, Some c)"
  unfolding object_survivor_def store_calls
  by (rule wp_try_perform wp_on_rests [OF leader_confirmed_move] wp_ret | simp; fail)+

lemma object_setup_moved:
  assumes "op_leader config \<noteq> op_ready config"
  shows "wp (failover (op_ready config)) (object_failover_setup A config opts c) (moved fst) (Setup False, Some c)"
  unfolding object_failover_setup_def
proof (rule wp_bnd, rule wp_mono [OF object_open_move])
  fix r :: "gerr + jsc \<times> jsc \<times> objh \<times> stream_info" and s
  assume r: "on c (Setup False) r s"
  note left = wp_then_on [OF wp_leave_leader [OF assms] object_survivor_rests]
  show "wp (failover (op_ready config)) (case r of
       Inl err \<Rightarrow> ret (Some c, Inl err)
     | Inr (js, legacy, store, streamInfo) \<Rightarrow>
         if op_leader config = [] then ret (Some c, Inr (c, js, legacy, store, None))
         else (case leader_named ''created Object Store stream did not identify a JetStream leader'' streamInfo of
             Inl err \<Rightarrow> ret (Some c, Inl err)
           | Inr leaderName \<Rightarrow>
               then_on (leave_leader A config ''Object Store'' opts c leaderName) (object_survivor A config leaderName)))
     (moved fst) s"
    using r left by (cases s) (auto split: sum.splits)
qed

text \<open>At the end of its script the peer rests, on some connection, or has drained it.\<close>

definition at_rest :: "gerr + 'a \<Rightarrow> handshake \<times> conn option \<Rightarrow> bool" where
  "at_rest r s \<longleftrightarrow>
     (case snd s of None \<Rightarrow> fst s = Idle \<and> (\<exists>err. r = Inl err)
      | Some _ \<Rightarrow> open_state (fst s) \<and> (fst s = Drained \<or> (\<exists>err. r = Inl err)))"

lemma wp_object_script:
  assumes "op_leader config \<noteq> op_ready config"
  shows "wp (failover (op_ready config)) (bnd (object_failover_setup A config opts c) (\<lambda>(current, r).
       case r of Inl err \<Rightarrow> ret (Inl err) | Inr site \<Rightarrow> object_failover_script fuel A config site))
     at_rest (Setup False, Some c)"
proof (rule wp_bnd, rule wp_mono [OF object_setup_moved [OF assms]])
  fix p :: "conn option \<times> (gerr + object_site)" and s
  assume moved: "moved fst p s"
  obtain current r where p: "p = (current, r)" by (cases p)
  note m = moved [unfolded p]
  show "wp (failover (op_ready config)) (case p of (current, r) \<Rightarrow> case r of Inl err \<Rightarrow> ret (Inl err)
      | Inr site \<Rightarrow> object_failover_script fuel A config site) at_rest s"
  proof (cases r)
    case (Inl err)
    with m show ?thesis unfolding p by (cases s; cases "snd s") (auto simp: at_rest_def resting_def split: if_splits)
  next
    case (Inr site)
    obtain c' js legacy store leader where site: "site = (c', js, legacy, store, leader)" by (cases site)
    have "wp (failover (op_ready config)) (object_failover_script fuel A config site) at_rest (Setup False, Some c')"
      unfolding site by (rule wp_mono [OF object_script_move]) (auto simp: at_rest_def on_def phase_def split: sum.splits)
    with m Inr site show ?thesis by (simp add: p)
  qed
qed

lemma wp_close_first:
  fixes r :: "gerr + 'a"
  assumes "at_rest r s"
  shows "wp (failover ready) (Close A c)
    (\<lambda>_ q. ended (case r of Inl err \<Rightarrow> Some err | Inr _ \<Rightarrow> None) q \<or> left_open (case r of Inl err \<Rightarrow> Some err | Inr _ \<Rightarrow> None) q) s"
proof -
  obtain q current where s: "s = (q, current)" by (cases s)
  show ?thesis
    using assms unfolding s Close_def
    by (intro wp_call; cases q; cases r; cases "current = Some c"; cases current)
      (auto simp: at_rest_def failover_def discipline_def ended_def left_open_def proper_end_def open_state_def)
qed

text \<open>
  C32: The three peers that cross a failure keep the discipline of the others, whatever the
  cluster, the file system and the other side do: the ready file is written when every
  subscription has reached the server, the conversation and the kill barrier come after it, and a
  success means that the connection in use was drained. The ordered and the Key-Value peer also
  close the connection in use on every path, those on which they have moved to a survivor and failed
  there included. The Object Store peer does so when no leader is to be killed; when it has to move
  its deferred close stays with the first connection, so that it may end with the survivor's
  connection open, in the middle of the conversation after an error or drained after a success.
\<close>

theorem failover_peers_disciplined:
  assumes "op_leader config \<noteq> op_ready config"
  shows "failover_disciplined (op_ready config) (runJetStreamOrderedReconnectPeer A config) \<and>
     failover_disciplined (op_ready config) (runJetStreamKeyValueOrderedReconnectPeer fuel A config) \<and>
     failover_talks (op_ready config) (runJetStreamObjectReconnectPeer fuel A config) \<and>
     (op_leader config = [] \<longrightarrow>
        failover_disciplined (op_ready config) (runJetStreamObjectReconnectPeer fuel A config))"
proof (intro conjI impI)
  show "failover_disciplined (op_ready config) (runJetStreamOrderedReconnectPeer A config)"
    unfolding runJetStreamOrderedReconnectPeer_def Let_def
    by (rule wp_failover_options, rule wp_first_connection, rule wp_setup_closing)
       (rule failover_setup_moved [OF assms] failover_script_move | assumption)+
  show "failover_disciplined (op_ready config) (runJetStreamKeyValueOrderedReconnectPeer fuel A config)"
    unfolding runJetStreamKeyValueOrderedReconnectPeer_def Let_def
    by (rule wp_failover_options, rule wp_first_connection, rule wp_setup_closing)
       (rule kv_setup_moved [OF assms] kv_script_move | assumption)+
  show "failover_talks (op_ready config) (runJetStreamObjectReconnectPeer fuel A config)"
    unfolding runJetStreamObjectReconnectPeer_def Let_def
    by (intro failover_talksI wp_options wp_first_connection wp_deferred wp_mono [OF wp_object_script [OF assms]])
      (auto intro: wp_close_first)
  assume "op_leader config = []"
  note script = wp_object_without_leader [OF this]
  show "failover_disciplined (op_ready config) (runJetStreamObjectReconnectPeer fuel A config)"
    unfolding runJetStreamObjectReconnectPeer_def Let_def
    by (rule wp_failover_options, rule wp_first_connection, rule wp_deferred, rule wp_mono [OF script], rule wp_close_last)
qed

definition reconnect_demo :: options where
  "reconnect_demo = \<lparr>op_server = ''nats://a:4222,nats://b:4222'', op_prefix = ''p'', op_stream = ''S'', op_bucket = ''B'',
     op_ready = ''ready'', op_signal = ''signal'', op_leader = [], op_survivor = [], op_changedAdvertisedURL = [],
     op_mode = ''jetstream-object-reconnect'', op_requireReplicatedStream = True, op_multiNodeLoss = False,
     op_managementFailure = False\<rparr>"

text \<open>And one that has to move, since a leader is to be killed.\<close>

definition kill_demo :: options where
  "kill_demo = reconnect_demo\<lparr>op_leader := ''leader'', op_survivor := ''survivor''\<rparr>"

theorem failover_peers_disciplined_witness:
  "\<forall>A fuel. failover_disciplined ''ready'' (runJetStreamOrderedReconnectPeer A kill_demo) \<and>
     failover_disciplined ''ready'' (runJetStreamKeyValueOrderedReconnectPeer fuel A kill_demo) \<and>
     failover_talks ''ready'' (runJetStreamObjectReconnectPeer fuel A kill_demo) \<and>
     failover_disciplined ''ready'' (runJetStreamObjectReconnectPeer fuel A reconnect_demo)"
proof (intro allI)
  fix A :: "'e api" and fuel
  show "failover_disciplined ''ready'' (runJetStreamOrderedReconnectPeer A kill_demo) \<and>
     failover_disciplined ''ready'' (runJetStreamKeyValueOrderedReconnectPeer fuel A kill_demo) \<and>
     failover_talks ''ready'' (runJetStreamObjectReconnectPeer fuel A kill_demo) \<and>
     failover_disciplined ''ready'' (runJetStreamObjectReconnectPeer fuel A reconnect_demo)"
    using failover_peers_disciplined [of kill_demo A fuel] failover_peers_disciplined [of reconnect_demo A fuel]
    by (simp add: kill_demo_def reconnect_demo_def)
qed

end
