(* ===== verification/Ping_Queue.thy ===== *)
theory Ping_Queue
  imports Prelude
begin

text \<open>
  The queue of pings the server has not answered (lib/client.ml, \<open>ping_queue\<close>): two lists, and
  the contract its client relies on, first in first out.
\<close>

section \<open>The contract\<close>

locale fifo =
  fixes empty :: "'q"
    and put :: "'q \<Rightarrow> 'a \<Rightarrow> 'q"
    and next_of :: "'q \<Rightarrow> ('a \<times> 'q) option"
    and contents :: "'q \<Rightarrow> 'a list"
  assumes contents_empty: "contents empty = []"
    and contents_put: "contents (put q x) = contents q @ [x]"
    and next_None: "next_of q = None \<longleftrightarrow> contents q = []"
    and next_Some: "next_of q = Some (x, q') \<Longrightarrow> contents q = x # contents q'"
begin

lemma next_Cons: "contents q = x # xs \<Longrightarrow> \<exists>q'. next_of q = Some (x, q') \<and> contents q' = xs"
  using next_None [of q] next_Some [of q] by (cases "next_of q") auto

lemma next_Nil: "contents q = [] \<Longrightarrow> next_of q = None"
  by (simp add: next_None)

text \<open>What is put in behind \<open>n\<close> others comes out after them.\<close>

lemma put_behind: "contents (foldl put (put q x) ys) = contents q @ x # ys"
proof -
  have "contents (foldl put q' ys) = contents q' @ ys" for q'
    by (induction ys arbitrary: q') (simp_all add: contents_put)
  then show ?thesis by (simp add: contents_put)
qed

end

section \<open>The two lists\<close>

datatype ping_origin = Liveness | Flush_ping | Drain_ping | Subscription_drain int

record ping_queue =
  pq_front :: "ping_origin list"
  pq_back :: "ping_origin list"

definition empty_ping_queue :: ping_queue where
  "empty_ping_queue = \<lparr>pq_front = [], pq_back = []\<rparr>"

definition enqueue_ping :: "ping_queue \<Rightarrow> ping_origin \<Rightarrow> ping_queue" where
  "enqueue_ping queue origin = queue\<lparr>pq_back := origin # pq_back queue\<rparr>"

definition take_ping :: "ping_queue \<Rightarrow> (ping_origin \<times> ping_queue) option" where
  "take_ping queue =
     (case pq_front queue of
        origin # front' \<Rightarrow> Some (origin, queue\<lparr>pq_front := front'\<rparr>)
      | [] \<Rightarrow>
          (case rev (pq_back queue) of
             [] \<Rightarrow> None
           | origin # front' \<Rightarrow> Some (origin, \<lparr>pq_front = front', pq_back = []\<rparr>)))"

text \<open>The pings in the order they were sent.\<close>

definition pings :: "ping_queue \<Rightarrow> ping_origin list" where
  "pings queue = pq_front queue @ rev (pq_back queue)"

interpretation ping_fifo: fifo empty_ping_queue enqueue_ping take_ping pings
  by unfold_locales
    (auto simp: empty_ping_queue_def enqueue_ping_def take_ping_def pings_def split: list.splits)

end
