(* ===== verification/Subject.thy ===== *)
theory Subject
  imports Prelude
begin

text \<open>
  Subjects, subject filters and queue groups of the OCaml client (lib/subject.ml,
  lib/queue_group.ml): the validators, position by position as the code scans, and what they
  accept.
\<close>

section \<open>The validators\<close>

datatype subject_error =
    Empty
  | Empty_token nat
  | Invalid_character nat char
  | Wildcard_not_allowed nat string
  | Wildcard_must_be_token nat
  | Wildcard_not_terminal nat

definition is_forbidden_character :: "char \<Rightarrow> bool" where
  "is_forbidden_character character \<longleftrightarrow> code character \<le> 32 \<or> code character = 127"

text \<open>The body of the loop of \<open>validate_token\<close>, for a token of a subject.\<close>

definition token_failure :: "bool \<Rightarrow> bool \<Rightarrow> string \<Rightarrow> nat \<Rightarrow> char \<Rightarrow> subject_error option" where
  "token_failure filtr final token position character =
     (if is_forbidden_character character then Some (Invalid_character position character)
      else if character = CHR ''*'' \<or> character = CHR ''>'' then
        (if \<not> filtr then Some (Wildcard_not_allowed position token)
         else if length token \<noteq> 1 then Some (Wildcard_must_be_token position)
         else if character = CHR ''>'' \<and> \<not> final then Some (Wildcard_not_terminal position)
         else None)
      else None)"

definition validate_token :: "bool \<Rightarrow> bool \<Rightarrow> string \<Rightarrow> nat \<Rightarrow> nat \<Rightarrow> subject_error option" where
  "validate_token filtr final subject start stop =
     (if start = stop then Some (Empty_token start)
      else let token = sub subject start (stop - start) in
           first_error (token_failure filtr final token) start token)"

text \<open>The loop over the positions 0 to the length, with \<open>token_start\<close>.\<close>

fun validate_loop :: "bool \<Rightarrow> string \<Rightarrow> nat \<Rightarrow> nat list \<Rightarrow> subject_error option" where
  "validate_loop filtr subject token_start [] = None"
| "validate_loop filtr subject token_start (position # positions) =
     (let at_end = (position = length subject);
          at_separator = (\<not> at_end \<and> subject ! position = CHR ''.'') in
      if at_end \<or> at_separator then
        (case validate_token filtr at_end subject token_start position of
           None \<Rightarrow> validate_loop filtr subject (position + 1) positions
         | Some error \<Rightarrow> Some error)
      else validate_loop filtr subject token_start positions)"

definition validate :: "bool \<Rightarrow> string \<Rightarrow> subject_error + string" where
  "validate filtr subject =
     (if length subject = 0 then Inl Empty
      else case validate_loop filtr subject 0 [0..<Suc (length subject)] of
             Some error \<Rightarrow> Inl error
           | None \<Rightarrow> Inr subject)"

definition subject_of_string :: "string \<Rightarrow> subject_error + string" where
  "subject_of_string subject = validate False subject"

definition filter_of_string :: "string \<Rightarrow> subject_error + string" where
  "filter_of_string filtr = validate True filtr"

definition queue_group_of_string :: "string \<Rightarrow> subject_error + string" where
  "queue_group_of_string name =
     (case subject_of_string name of Inr subject \<Rightarrow> Inr subject | Inl error \<Rightarrow> Inl error)"

section \<open>The reference: one check per token\<close>

definition token_error :: "bool \<Rightarrow> bool \<Rightarrow> nat \<Rightarrow> string \<Rightarrow> subject_error option" where
  "token_error filtr final p token =
     (if token = [] then Some (Empty_token p) else first_error (token_failure filtr final token) p token)"

fun tokens_error :: "bool \<Rightarrow> nat \<Rightarrow> string list \<Rightarrow> subject_error option" where
  "tokens_error filtr p [] = None"
| "tokens_error filtr p (token # tokens) =
     (case token_error filtr (tokens = []) p token of
        Some error \<Rightarrow> Some error
      | None \<Rightarrow> tokens_error filtr (p + length token + 1) tokens)"

lemma validate_token_error:
  "validate_token filtr final (pre @ token @ rest) (length pre) (length pre + length token) =
     token_error filtr final (length pre) token"
  by (simp add: validate_token_def token_error_def sub_def)

lemma validate_loop_tokens:
  "CHR ''.'' \<notin> set token \<Longrightarrow> subject = pre @ token @ rest \<Longrightarrow>
   validate_loop filtr subject (length pre) [length (pre @ token)..<Suc (length subject)] =
     tokens_error filtr (length pre) (split_on CHR ''.'' (token @ rest))"
proof (induction rest arbitrary: pre token)
  case Nil
  then show ?case using validate_token_error [of filtr True pre token "[]"]
    by (simp split: option.splits)
next
  case (Cons c rest)
  let ?here = "length (pre @ token)"
  have here: "?here < length subject" "subject ! ?here = c"
    using Cons.prems(2) by (auto simp: nth_append)
  then have positions: "[?here..<Suc (length subject)] = ?here # [Suc ?here..<Suc (length subject)]"
    by (simp only: upt_conv_Cons [of ?here "Suc (length subject)"])
  show ?case
  proof (cases "c = CHR ''.''")
    case True
    have token: "validate_token filtr False subject (length pre) ?here = token_error filtr False (length pre) token"
      using validate_token_error [of filtr False pre token "c # rest"] Cons.prems(2) by simp
    have IH: "validate_loop filtr subject (length (pre @ token @ [c]))
        [length ((pre @ token @ [c]) @ [])..<Suc (length subject)] =
        tokens_error filtr (length (pre @ token @ [c])) (split_on CHR ''.'' ([] @ rest))"
      by (rule Cons.IH) (use Cons.prems(2) in simp_all)
    show ?thesis
      unfolding positions validate_loop.simps Let_def
      using here True token IH Cons.prems(1) by (simp split: option.split)
  next
    case False
    have IH: "validate_loop filtr subject (length pre) [length (pre @ (token @ [c]))..<Suc (length subject)] =
        tokens_error filtr (length pre) (split_on CHR ''.'' ((token @ [c]) @ rest))"
      by (rule Cons.IH) (use Cons.prems False in auto)
    show ?thesis
      unfolding positions validate_loop.simps Let_def
      using here False IH by simp
  qed
qed

text \<open>
  C37: Scanning a subject once, keeping only where the current token began, finds the same
  first failure, at the same position, as splitting it at the dots and checking each token in
  turn.
\<close>

theorem validate_by_tokens:
  "validate filtr subject =
     (if subject = [] then Inl Empty
      else case tokens_error filtr 0 (split_on CHR ''.'' subject) of
             Some error \<Rightarrow> Inl error
           | None \<Rightarrow> Inr subject)"
  using validate_loop_tokens [of "[]" subject "[]" subject filtr]
  by (simp add: validate_def del: upt_Suc validate_loop.simps)

section \<open>What is accepted\<close>

definition plain :: "char \<Rightarrow> bool" where
  "plain c \<longleftrightarrow> \<not> is_forbidden_character c \<and> c \<noteq> CHR ''*'' \<and> c \<noteq> CHR ''>''"

text \<open>The grammar: tokens of plain characters, and in a filter a lone star anywhere or a lone tail last.\<close>

definition token_ok :: "bool \<Rightarrow> bool \<Rightarrow> string \<Rightarrow> bool" where
  "token_ok filtr final token \<longleftrightarrow>
     token \<noteq> [] \<and> (list_all plain token \<or> filtr \<and> (token = ''*'' \<or> token = ''>'' \<and> final))"

fun tokens_ok :: "bool \<Rightarrow> string list \<Rightarrow> bool" where
  "tokens_ok filtr [] = True"
| "tokens_ok filtr (token # tokens) = (token_ok filtr (tokens = []) token \<and> tokens_ok filtr tokens)"

definition valid_subject :: "bool \<Rightarrow> string \<Rightarrow> bool" where
  "valid_subject filtr s \<longleftrightarrow> s \<noteq> [] \<and> tokens_ok filtr (split_on CHR ''.'' s)"

lemma token_failure_None:
  "token_failure filtr final token p c = None \<longleftrightarrow>
     plain c \<or> \<not> is_forbidden_character c \<and> filtr \<and> length token = 1 \<and>
       (c = CHR ''*'' \<or> c = CHR ''>'' \<and> final)"
  by (auto simp: token_failure_def plain_def)

lemma wildcards_allowed [simp]: "\<not> is_forbidden_character CHR ''*''" "\<not> is_forbidden_character CHR ''>''"
  by (simp_all add: is_forbidden_character_def)

lemma token_error_None: "token_error filtr final p token = None \<longleftrightarrow> token_ok filtr final token"
proof -
  have "first_error (token_failure filtr final token) p token = None \<longleftrightarrow>
      (\<forall>c \<in> set token. plain c \<or> \<not> is_forbidden_character c \<and> filtr \<and> length token = 1 \<and>
         (c = CHR ''*'' \<or> c = CHR ''>'' \<and> final))"
    by (rule first_error_const_None) (rule token_failure_None)
  then have "token_error filtr final p token = None \<longleftrightarrow> token \<noteq> [] \<and>
      (\<forall>c \<in> set token. plain c \<or> \<not> is_forbidden_character c \<and> filtr \<and> length token = 1 \<and>
         (c = CHR ''*'' \<or> c = CHR ''>'' \<and> final))"
    by (simp add: token_error_def)
  also have "\<dots> \<longleftrightarrow> token_ok filtr final token"
  proof (cases token)
    case (Cons c cs)
    show ?thesis
    proof (cases cs)
      case Nil
      with Cons show ?thesis by (auto simp: token_ok_def)
    next
      case (Cons d ds)
      with \<open>token = c # cs\<close> show ?thesis by (simp add: token_ok_def list_all_iff)
    qed
  qed (simp add: token_ok_def)
  finally show ?thesis .
qed

lemma tokens_error_None: "tokens_error filtr p tokens = None \<longleftrightarrow> tokens_ok filtr tokens"
proof (induction tokens arbitrary: p)
  case (Cons token tokens)
  show ?case
  proof (cases "token_error filtr (tokens = []) p token")
    case None
    then have "token_ok filtr (tokens = []) token" by (simp only: token_error_None)
    with None Cons show ?thesis by simp
  next
    case (Some error)
    then have "\<not> token_ok filtr (tokens = []) token" by (metis option.distinct(1) token_error_None)
    with Some show ?thesis by simp
  qed
qed simp

lemma validate_valid: "validate filtr s = Inr r \<longleftrightarrow> r = s \<and> valid_subject filtr s"
  using tokens_error_None [of filtr 0 "split_on CHR ''.'' s"] validate_loop_tokens [of "[]" s "[]" s filtr]
  by (auto simp: valid_subject_def validate_def simp del: upt_Suc validate_loop.simps split: option.splits)

lemma validate_accepts:
  "valid_subject False s \<Longrightarrow> subject_of_string s = Inr s"
  "valid_subject True s \<Longrightarrow> filter_of_string s = Inr s"
  "valid_subject False s \<Longrightarrow> queue_group_of_string s = Inr s"
  by (simp_all add: subject_of_string_def filter_of_string_def queue_group_of_string_def
      iffD2 [OF validate_valid] split: sum.split)

text \<open>
  Exactly the subjects of the grammar are accepted, unchanged: nonempty dot-separated
  tokens of characters that are neither blanks, controls nor DEL, without wildcards in a
  subject or a queue group, and in a filter with wildcards only as whole tokens, the tail
  wildcard only at the end.
\<close>

theorem subjects_accepted:
  "(subject_of_string s = Inr r \<longleftrightarrow> r = s \<and> valid_subject False s) \<and>
   (filter_of_string s = Inr r \<longleftrightarrow> r = s \<and> valid_subject True s) \<and>
   (queue_group_of_string s = Inr r \<longleftrightarrow> r = s \<and> valid_subject False s)"
proof -
  have "queue_group_of_string s = subject_of_string s"
    by (simp add: queue_group_of_string_def split: sum.split)
  then show ?thesis
    by (simp add: subject_of_string_def filter_of_string_def validate_valid)
qed

lemma plain_visible: "valid_subject filtr s \<Longrightarrow> c \<in> set s \<Longrightarrow> \<not> is_forbidden_character c"
proof -
  assume v: "valid_subject filtr s" and c: "c \<in> set s"
  have tok: "tokens_ok filtr ts \<Longrightarrow> t \<in> set ts \<Longrightarrow> d \<in> set t \<Longrightarrow> \<not> is_forbidden_character d" for ts t d
    by (induction ts) (auto simp: token_ok_def list_all_iff plain_def is_forbidden_character_def)
  have mem: "c \<in> set (join CHR ''.'' ts) \<Longrightarrow> c = CHR ''.'' \<or> (\<exists>t \<in> set ts. c \<in> set t)" for ts
    by (induction "CHR ''.''" ts rule: join.induct) auto
  have "c = CHR ''.'' \<or> (\<exists>t \<in> set (split_on CHR ''.'' s). c \<in> set t)"
    using mem [of "split_on CHR ''.'' s"] c by simp
  then show ?thesis
  proof
    assume "c = CHR ''.''"
    then show ?thesis by (simp add: is_forbidden_character_def)
  next
    assume "\<exists>t \<in> set (split_on CHR ''.'' s). c \<in> set t"
    with v tok show ?thesis by (auto simp: valid_subject_def)
  qed
qed

lemma valid_subject_nonempty: "valid_subject filtr s \<Longrightarrow> s \<noteq> []"
  by (simp add: valid_subject_def)

lemma valid_subject_no_blank:
  assumes "valid_subject filtr s"
  shows "CHR '' '' \<notin> set s" "CR \<notin> set s" "LF \<notin> set s"
  using plain_visible [OF assms, of "CHR '' ''"] plain_visible [OF assms, of CR] plain_visible [OF assms, of LF]
  by (auto simp: is_forbidden_character_def)

end
