(* ===== verification/Header.thy ===== *)
theory Header
  imports Prelude
begin

text \<open>
  Message headers of the OCaml client (lib/header.ml): a list of entries with the last one
  added first, validated entry by entry, looked up without regard to ASCII case.
\<close>

section \<open>Operations\<close>

record entry =
  e_name :: string
  e_value :: string

type_synonym header = "entry list"

datatype header_error =
    Empty_name
  | Invalid_name_character nat char
  | Invalid_value_character nat char

definition invalid_name_character :: "char \<Rightarrow> bool" where
  "invalid_name_character character \<longleftrightarrow>
     code character \<le> 32 \<or> code character = 127 \<or> character = CHR '':''"

definition invalid_value_character :: "char \<Rightarrow> bool" where
  "invalid_value_character character \<longleftrightarrow> code character < 32 \<or> code character = 127"

definition validate_name :: "string \<Rightarrow> header_error option" where
  "validate_name name =
     (if length name = 0 then Some Empty_name
      else first_error (\<lambda>position character.
             if invalid_name_character character
             then Some (Invalid_name_character position character) else None) 0 name)"

definition validate_value :: "string \<Rightarrow> header_error option" where
  "validate_value v =
     first_error (\<lambda>position character.
       if invalid_value_character character
       then Some (Invalid_value_character position character) else None) 0 v"

definition validate_entry :: "string \<Rightarrow> string \<Rightarrow> header_error option" where
  "validate_entry name v =
     (case validate_name name of Some error \<Rightarrow> Some error | None \<Rightarrow> validate_value v)"

definition header_of_list :: "(string \<times> string) list \<Rightarrow> header_error + header" where
  "header_of_list entries =
     foldl (\<lambda>result (name, v).
       case result of
         Inl _ \<Rightarrow> result
       | Inr headers \<Rightarrow>
           (case validate_entry name v of
              Some error \<Rightarrow> Inl error
            | None \<Rightarrow> Inr (\<lparr>e_name = name, e_value = v\<rparr> # headers)))
       (Inr []) entries"

definition header_add :: "string \<Rightarrow> string \<Rightarrow> header \<Rightarrow> header_error + header" where
  "header_add name v headers =
     (case validate_entry name v of
        Some error \<Rightarrow> Inl error
      | None \<Rightarrow> Inr (\<lparr>e_name = name, e_value = v\<rparr> # headers))"

definition header_to_list :: "header \<Rightarrow> (string \<times> string) list" where
  "header_to_list headers = rev (map (\<lambda>e. (e_name e, e_value e)) headers)"

fun header_equal :: "header \<Rightarrow> header \<Rightarrow> bool" where
  "header_equal [] [] = True"
| "header_equal (left # left_tail) (right # right_tail) =
     ((e_name left = e_name right \<and> e_value left = e_value right) \<and> header_equal left_tail right_tail)"
| "header_equal [] (_ # _) = False"
| "header_equal (_ # _) [] = False"

definition header_mem :: "string \<Rightarrow> header \<Rightarrow> bool" where
  "header_mem name headers =
     (let wanted = lowercase_ascii name in list_ex (\<lambda>e. wanted = lowercase_ascii (e_name e)) headers)"

definition header_find_all :: "string \<Rightarrow> header \<Rightarrow> string list" where
  "header_find_all name headers =
     (let wanted = lowercase_ascii name in
      foldl (\<lambda>values e. if wanted = lowercase_ascii (e_name e) then e_value e # values else values) [] headers)"

definition header_find :: "string \<Rightarrow> header \<Rightarrow> string option" where
  "header_find name headers = (case header_find_all name headers of [] \<Rightarrow> None | v # _ \<Rightarrow> Some v)"

section \<open>What the operations do\<close>

definition valid_name :: "string \<Rightarrow> bool" where
  "valid_name name \<longleftrightarrow> name \<noteq> [] \<and> (\<forall>c \<in> set name. \<not> invalid_name_character c)"

definition valid_value :: "string \<Rightarrow> bool" where
  "valid_value v \<longleftrightarrow> (\<forall>c \<in> set v. \<not> invalid_value_character c)"

text \<open>The invariant of the type: every entry was validated.\<close>

definition wf_header :: "header \<Rightarrow> bool" where
  "wf_header headers \<longleftrightarrow> list_all (\<lambda>e. valid_name (e_name e) \<and> valid_value (e_value e)) headers"

lemma validate_name_None: "validate_name name = None \<longleftrightarrow> valid_name name"
  by (auto simp: validate_name_def valid_name_def first_error_None all_set_conv_all_nth)

lemma validate_value_None: "validate_value v = None \<longleftrightarrow> valid_value v"
  by (auto simp: validate_value_def valid_value_def first_error_None all_set_conv_all_nth)

lemma validate_entry_None: "validate_entry name v = None \<longleftrightarrow> valid_name name \<and> valid_value v"
  using validate_name_None [of name] by (auto simp: validate_entry_def validate_value_None split: option.splits)

definition entry_of :: "string \<times> string \<Rightarrow> entry" where
  "entry_of p = \<lparr>e_name = fst p, e_value = snd p\<rparr>"

lemma header_to_list_entries: "header_to_list (rev (map entry_of ps)) = ps"
  by (simp add: header_to_list_def entry_of_def rev_map [symmetric] o_def)

lemma entries_header_to_list: "rev (map entry_of (header_to_list headers)) = headers"
  by (induction headers) (simp_all add: header_to_list_def entry_of_def)

abbreviation of_list_step :: "header_error + header \<Rightarrow> string \<times> string \<Rightarrow> header_error + header" where
  "of_list_step result p \<equiv> (case p of (name, v) \<Rightarrow>
       case result of
         Inl _ \<Rightarrow> result
       | Inr headers \<Rightarrow>
           (case validate_entry name v of
              Some error \<Rightarrow> Inl error
            | None \<Rightarrow> Inr (\<lparr>e_name = name, e_value = v\<rparr> # headers)))"

lemma of_list_fold_Inl: "foldl of_list_step (Inl error) ps = Inl error"
  by (induction ps) auto

lemma of_list_fold:
  "foldl of_list_step (Inr acc) ps =
     (case find (\<lambda>p. validate_entry (fst p) (snd p) \<noteq> None) ps of
        None \<Rightarrow> Inr (rev (map entry_of ps) @ acc)
      | Some p \<Rightarrow> Inl (the (validate_entry (fst p) (snd p))))"
proof (induction ps arbitrary: acc)
  case (Cons p ps)
  obtain name v where p: "p = (name, v)" by (cases p)
  show ?case
  proof (cases "validate_entry name v")
    case None
    with p have "foldl of_list_step (Inr acc) (p # ps) = foldl of_list_step (Inr (entry_of p # acc)) ps"
      by (simp add: entry_of_def)
    also have "\<dots> = (case find (\<lambda>p. validate_entry (fst p) (snd p) \<noteq> None) (p # ps) of
        None \<Rightarrow> Inr (rev (map entry_of (p # ps)) @ acc)
      | Some p \<Rightarrow> Inl (the (validate_entry (fst p) (snd p))))"
      using p None by (simp only: Cons.IH) (simp split: option.split)
    finally show ?thesis .
  next
    case (Some error)
    with p show ?thesis by (simp add: of_list_fold_Inl)
  qed
qed simp

lemma header_of_list_eq:
  "header_of_list ps =
     (case find (\<lambda>p. validate_entry (fst p) (snd p) \<noteq> None) ps of
        None \<Rightarrow> Inr (rev (map entry_of ps))
      | Some p \<Rightarrow> Inl (the (validate_entry (fst p) (snd p))))"
  unfolding header_of_list_def of_list_fold append_Nil2 ..

lemma wf_entries: "wf_header (rev (map entry_of ps)) \<longleftrightarrow> (\<forall>(name, v) \<in> set ps. valid_name name \<and> valid_value v)"
  by (auto simp: wf_header_def list_all_iff entry_of_def)

lemma header_of_list_to_list: "wf_header headers \<Longrightarrow> header_of_list (header_to_list headers) = Inr headers"
proof -
  assume "wf_header headers"
  then have "find (\<lambda>p. validate_entry (fst p) (snd p) \<noteq> None) (header_to_list headers) = None"
    by (auto simp: find_None_iff validate_entry_None wf_header_def list_all_iff header_to_list_def)
  then show ?thesis by (simp add: header_of_list_eq entries_header_to_list)
qed

text \<open>
  Building headers from a list and reading them back are inverse: a list whose entries
  are all valid becomes a well-formed header that lists exactly those entries in that order,
  the error is that of the first invalid entry, every well-formed header is rebuilt from its
  own listing, and adding an entry puts it at the end of the listing.
\<close>

theorem header_lists:
  "(case header_of_list ps of
      Inr headers \<Rightarrow> wf_header headers \<and> header_to_list headers = ps
    | Inl error \<Rightarrow> \<exists>before name v after. ps = before @ (name, v) # after \<and>
        list_all (\<lambda>p. valid_name (fst p) \<and> valid_value (snd p)) before \<and> validate_entry name v = Some error) \<and>
   (case header_of_list (header_to_list headers) of
      Inr headers' \<Rightarrow> headers' = headers \<and> wf_header headers | Inl _ \<Rightarrow> \<not> wf_header headers) \<and>
   (case header_add name v headers of
      Inr headers' \<Rightarrow> header_to_list headers' = header_to_list headers @ [(name, v)] \<and>
        wf_header headers' = wf_header headers
    | Inl error \<Rightarrow> validate_entry name v = Some error)"
proof (intro conjI)
  show "case header_of_list ps of
      Inr headers \<Rightarrow> wf_header headers \<and> header_to_list headers = ps
    | Inl error \<Rightarrow> \<exists>before name v after. ps = before @ (name, v) # after \<and>
        list_all (\<lambda>p. valid_name (fst p) \<and> valid_value (snd p)) before \<and> validate_entry name v = Some error"
  proof (cases "find (\<lambda>p. validate_entry (fst p) (snd p) \<noteq> None) ps")
    case None
    then have "wf_header (rev (map entry_of ps))"
      by (auto simp: wf_entries find_None_iff validate_entry_None simp del: not_None_eq)
    with None show ?thesis by (simp add: header_of_list_eq header_to_list_entries)
  next
    case (Some p)
    then obtain i where i: "i < length ps" "ps ! i = p" "validate_entry (fst p) (snd p) \<noteq> None"
      "\<forall>j < i. validate_entry (fst (ps ! j)) (snd (ps ! j)) = None"
      by (auto simp: find_Some_iff)
    have "list_all (\<lambda>p. valid_name (fst p) \<and> valid_value (snd p)) (take i ps)"
      using i(1,4) by (auto simp: list_all_length validate_entry_None [symmetric])
    moreover have "ps = take i ps @ (fst p, snd p) # drop (Suc i) ps"
      using id_take_nth_drop [OF i(1)] i(2) by simp
    moreover have "validate_entry (fst p) (snd p) = Some (the (validate_entry (fst p) (snd p)))"
      using i(3) by (simp only: not_None_eq option.collapse)
    ultimately have "\<exists>before name v after. ps = before @ (name, v) # after \<and>
        list_all (\<lambda>p. valid_name (fst p) \<and> valid_value (snd p)) before \<and>
        validate_entry name v = Some (the (validate_entry (fst p) (snd p)))"
      by blast
    with Some show ?thesis by (simp only: header_of_list_eq option.case sum.case)
  qed
  show "case header_of_list (header_to_list headers) of
      Inr headers' \<Rightarrow> headers' = headers \<and> wf_header headers | Inl _ \<Rightarrow> \<not> wf_header headers"
  proof (cases "wf_header headers")
    case False
    then have "find (\<lambda>p. validate_entry (fst p) (snd p) \<noteq> None) (header_to_list headers) \<noteq> None"
      unfolding find_None_iff wf_header_def list_all_iff header_to_list_def validate_entry_None
      by auto
    with False show ?thesis by (auto simp: header_of_list_eq)
  qed (simp add: header_of_list_to_list)
  show "case header_add name v headers of
      Inr headers' \<Rightarrow> header_to_list headers' = header_to_list headers @ [(name, v)] \<and>
        wf_header headers' = wf_header headers
    | Inl error \<Rightarrow> validate_entry name v = Some error"
    using validate_entry_None [of name v]
    by (auto simp: header_add_def header_to_list_def wf_header_def split: option.splits)
qed

lemma find_all_eq:
  "foldl (\<lambda>values e. if wanted = lowercase_ascii (e_name e) then e_value e # values else values) acc headers =
   rev (map e_value (filter (\<lambda>e. wanted = lowercase_ascii (e_name e)) headers)) @ acc"
  by (induction headers arbitrary: acc) auto

text \<open>
  Lookups see the listing: all values of a name come in the order they were added,
  whatever the case their names are written in, the first of them is the one found, and a name
  is a member exactly when it has a value; equality is equality of the entries.
\<close>

theorem header_lookup:
  "header_find_all name headers =
     map snd (filter (\<lambda>p. lowercase_ascii (fst p) = lowercase_ascii name) (header_to_list headers)) \<and>
   header_find name headers =
     map_option snd (find (\<lambda>p. lowercase_ascii (fst p) = lowercase_ascii name) (header_to_list headers)) \<and>
   header_mem name headers = (header_find name headers \<noteq> None) \<and>
   header_equal headers headers' = (headers = headers')"
proof -
  have all: "header_find_all name headers =
     map snd (filter (\<lambda>p. lowercase_ascii (fst p) = lowercase_ascii name) (header_to_list headers))"
    by (simp add: header_find_all_def Let_def find_all_eq header_to_list_def rev_filter [symmetric]
        rev_map [symmetric] filter_map o_def eq_commute)
  have first: "(case map snd (filter P xs) of [] \<Rightarrow> None | v # _ \<Rightarrow> Some v) = map_option snd (find P xs)"
    for P and xs :: "(string \<times> string) list"
    by (induction xs) auto
  have find: "header_find name headers =
     map_option snd (find (\<lambda>p. lowercase_ascii (fst p) = lowercase_ascii name) (header_to_list headers))"
    by (simp add: header_find_def all first)
  have "header_mem name headers = (header_find name headers \<noteq> None)"
  proof -
    have "header_mem name headers \<longleftrightarrow> (\<exists>p \<in> set (header_to_list headers). lowercase_ascii (fst p) = lowercase_ascii name)"
      unfolding header_mem_def Let_def list_ex_iff header_to_list_def by (auto simp: eq_commute)
    also have "\<dots> \<longleftrightarrow> header_find name headers \<noteq> None"
      unfolding find option.map_disc_iff find_None_iff by blast
    finally show ?thesis .
  qed
  moreover have "header_equal headers headers' = (headers = headers')"
    by (induction headers headers' rule: header_equal.induct) auto
  ultimately show ?thesis using all find by blast
qed

end
