(* ===== verification/Packet.thy ===== *)
theory Packet
  imports Subject Header
begin

text \<open>
  Framing of the wire protocol (lib/packet.ml): limits, the classification of a control line,
  and the incremental reader.

  The byte reader belongs to the bytesrw package: \<open>rd\<close> takes the next slice (empty at the end
  of data) and \<open>pb\<close> pushes bytes back. What the code relies on is \<open>reader_laws\<close>: slices come
  in order, only the end is empty, and pushed back bytes are read again. OCaml integers have
  63 bits; \<open>wrap63\<close> is their arithmetic.
\<close>

section \<open>Integers and limits\<close>

definition max_int :: nat where "max_int = 4611686018427387903"

definition wrap63 :: "int \<Rightarrow> int" where
  "wrap63 i = (i + 4611686018427387904) mod 9223372036854775808 - 4611686018427387904"

lemma wrap63_id: "- 4611686018427387904 \<le> i \<Longrightarrow> i \<le> int max_int \<Longrightarrow> wrap63 i = i"
  by (simp add: wrap63_def max_int_def)

record limits =
  max_line_bytes :: int
  max_header_bytes :: int
  max_payload_bytes :: int
  max_packet_bytes :: int

definition default_limits :: limits where
  "default_limits = \<lparr>max_line_bytes = 4 * 1024, max_header_bytes = 64 * 1024,
     max_payload_bytes = 1024 * 1024, max_packet_bytes = 2 * 1024 * 1024\<rparr>"

datatype framing =
    Line
  | Payload nat
  | Headers nat nat

record packet =
  pk_line :: string
  pk_body :: string
  pk_framing :: framing

datatype packet_error =
    End_of_input
  | Need_more
  | Unexpected_end
  | Invalid_limits
  | Line_too_long int
  | Packet_too_large nat int
  | Headers_too_large nat int
  | Payload_too_large nat int
  | Malformed_line
  | Invalid_length string string
  | Invalid_lengths string
  | Invalid_terminator
  | Unknown_operation string

definition valid_limits :: "limits \<Rightarrow> bool" where
  "valid_limits limits \<longleftrightarrow>
     max_line_bytes limits > 0 \<and> max_header_bytes limits > 0 \<and>
     max_payload_bytes limits \<ge> 0 \<and> max_packet_bytes limits > 0"

section \<open>The control line\<close>

fun find_crlf :: "string \<Rightarrow> nat option" where
  "find_crlf [] = None"
| "find_crlf [c] = None"
| "find_crlf (c # d # s) = (if c = CR \<and> d = LF then Some 0 else map_option Suc (find_crlf (d # s)))"

text \<open>A carriage return in the last position may be half of a line end.\<close>

fun contains_internal_line_break :: "string \<Rightarrow> bool" where
  "contains_internal_line_break [] = False"
| "contains_internal_line_break [c] = (c = LF)"
| "contains_internal_line_break (c # d # s) = (c = CR \<or> c = LF \<or> contains_internal_line_break (d # s))"

definition first_word :: "string \<Rightarrow> string" where
  "first_word line = (case index_opt line CHR '' '' of None \<Rightarrow> line | Some position \<Rightarrow> sub line 0 position)"

definition words :: "string \<Rightarrow> string list" where
  "words line = split_on CHR '' '' line"

definition parse_nonnegative :: "string \<Rightarrow> string \<Rightarrow> packet_error + nat" where
  "parse_nonnegative keyword v =
     (if length v = 0 then Inl (Invalid_length keyword v)
      else case parse_dec max_int 0 v of
             Some parsed \<Rightarrow> Inr parsed
           | None \<Rightarrow> Inl (Invalid_length keyword v))"

definition add_size :: "string \<Rightarrow> nat \<Rightarrow> nat \<Rightarrow> packet_error + nat" where
  "add_size keyword left right =
     (if int left > int max_int - int right then Inl (Invalid_length keyword ''overflow'')
      else Inr (left + right))"

definition validate_payload :: "nat \<Rightarrow> limits \<Rightarrow> packet_error option" where
  "validate_payload size' limits =
     (if int size' > max_payload_bytes limits
      then Some (Payload_too_large size' (max_payload_bytes limits)) else None)"

definition parse_payload_framing :: "string \<Rightarrow> string \<Rightarrow> limits \<Rightarrow> packet_error + framing" where
  "parse_payload_framing keyword v limits =
     (case parse_nonnegative keyword v of
        Inl error \<Rightarrow> Inl error
      | Inr bytes \<Rightarrow>
          (case validate_payload bytes limits of
             Some error \<Rightarrow> Inl error
           | None \<Rightarrow> Inr (Payload bytes)))"

definition parse_headers_framing :: "string \<Rightarrow> string \<Rightarrow> string \<Rightarrow> limits \<Rightarrow> packet_error + framing" where
  "parse_headers_framing keyword header_length total_length limits =
     (case (parse_nonnegative keyword header_length, parse_nonnegative keyword total_length) of
        (Inr header_bytes, Inr total_bytes) \<Rightarrow>
          if header_bytes > total_bytes then Inl (Invalid_lengths keyword)
          else if int header_bytes > max_header_bytes limits
          then Inl (Headers_too_large header_bytes (max_header_bytes limits))
          else
            (let payload_bytes = total_bytes - header_bytes in
             case validate_payload payload_bytes limits of
               Some error \<Rightarrow> Inl error
             | None \<Rightarrow> Inr (Headers header_bytes total_bytes))
      | (Inl error, _) \<Rightarrow> Inl error
      | (_, Inl error) \<Rightarrow> Inl error)"

definition line_keywords :: "string list" where
  "line_keywords = [''INFO'', ''CONNECT'', ''SUB'', ''UNSUB'', ''PING'', ''PONG'', ''+OK'', ''-ERR'']"

definition classify :: "string \<Rightarrow> limits \<Rightarrow> packet_error + framing" where
  "classify line limits =
     (let keyword = first_word line in
      if keyword = ''PUB'' then
        (case words line of
           [w, subject, payload_length] \<Rightarrow>
             if w = ''PUB'' then parse_payload_framing keyword payload_length limits else Inl Malformed_line
         | [w, subject, reply_to, payload_length] \<Rightarrow>
             if w = ''PUB'' then parse_payload_framing keyword payload_length limits else Inl Malformed_line
         | _ \<Rightarrow> Inl Malformed_line)
      else if keyword = ''HPUB'' then
        (case words line of
           [w, subject, header_length, total_length] \<Rightarrow>
             if w = ''HPUB'' then parse_headers_framing keyword header_length total_length limits
             else Inl Malformed_line
         | [w, subject, reply_to, header_length, total_length] \<Rightarrow>
             if w = ''HPUB'' then parse_headers_framing keyword header_length total_length limits
             else Inl Malformed_line
         | _ \<Rightarrow> Inl Malformed_line)
      else if keyword = ''MSG'' then
        (case words line of
           [w, subject, sid, payload_length] \<Rightarrow>
             if w = ''MSG'' then parse_payload_framing keyword payload_length limits else Inl Malformed_line
         | [w, subject, sid, reply_to, payload_length] \<Rightarrow>
             if w = ''MSG'' then parse_payload_framing keyword payload_length limits else Inl Malformed_line
         | _ \<Rightarrow> Inl Malformed_line)
      else if keyword = ''HMSG'' then
        (case words line of
           [w, subject, sid, header_length, total_length] \<Rightarrow>
             if w = ''HMSG'' then parse_headers_framing keyword header_length total_length limits
             else Inl Malformed_line
         | [w, subject, sid, reply_to, header_length, total_length] \<Rightarrow>
             if w = ''HMSG'' then parse_headers_framing keyword header_length total_length limits
             else Inl Malformed_line
         | _ \<Rightarrow> Inl Malformed_line)
      else if keyword \<in> set line_keywords then Inr Line
      else Inl (Unknown_operation keyword))"

definition packet_size :: "nat \<Rightarrow> framing \<Rightarrow> packet_error + nat" where
  "packet_size line_length framing =
     (case add_size ''packet'' line_length 2 of
        Inl error \<Rightarrow> Inl error
      | Inr line_bytes \<Rightarrow>
          (case framing of
             Line \<Rightarrow> Inr line_bytes
           | Payload bytes \<Rightarrow>
               (case add_size ''packet'' bytes 2 of
                  Inl error \<Rightarrow> Inl error
                | Inr body_bytes \<Rightarrow> add_size ''packet'' line_bytes body_bytes)
           | Headers header_bytes total_bytes \<Rightarrow>
               (case add_size ''packet'' total_bytes 2 of
                  Inl error \<Rightarrow> Inl error
                | Inr body_bytes \<Rightarrow> add_size ''packet'' line_bytes body_bytes)))"

definition body_length :: "framing \<Rightarrow> nat" where
  "body_length framing =
     (case framing of Line \<Rightarrow> 0 | Payload bytes \<Rightarrow> bytes | Headers header_bytes total_bytes \<Rightarrow> total_bytes)"

definition packet_to_string :: "packet \<Rightarrow> string" where
  "packet_to_string packet =
     (case pk_framing packet of
        Line \<Rightarrow> pk_line packet @ crlf
      | _ \<Rightarrow> pk_line packet @ crlf @ pk_body packet @ crlf)"

section \<open>The reader\<close>

text \<open>
  \<open>read_line\<close> and \<open>read_body\<close> with the buffer and the reader passed along; they answer with
  the buffer and reader they leave. A reader that never ends would make them run forever, so
  they are partial functions.
\<close>

partial_function (option) read_line ::
  "('r \<Rightarrow> string \<times> 'r) \<Rightarrow> bool \<Rightarrow> limits \<Rightarrow> string \<Rightarrow> 'r \<Rightarrow>
   ((packet_error + string \<times> nat) \<times> string \<times> 'r) option" where
  "read_line rd eod limits buffer reader =
     (let prefix = buffer in
      case find_crlf prefix of
        Some line_end \<Rightarrow> Some (Inr (prefix, line_end), buffer, reader)
      | None \<Rightarrow>
          if contains_internal_line_break prefix then Some (Inl Malformed_line, buffer, reader)
          else if int (length prefix) \<ge> wrap63 (max_line_bytes limits + 2)
          then Some (Inl (Line_too_long (max_line_bytes limits)), buffer, reader)
          else
            (case rd reader of (slice, reader') \<Rightarrow>
               if slice = []
               then Some (Inl (if eod then (if length prefix = 0 then End_of_input else Unexpected_end)
                               else Need_more), buffer, reader')
               else read_line rd eod limits (buffer @ slice) reader'))"

partial_function (option) read_body ::
  "('r \<Rightarrow> string \<times> 'r) \<Rightarrow> bool \<Rightarrow> nat \<Rightarrow> string \<Rightarrow> 'r \<Rightarrow> (packet_error option \<times> string \<times> 'r) option" where
  "read_body rd eod size' buffer reader =
     (if length buffer \<ge> size' then Some (None, buffer, reader)
      else
        (case rd reader of (slice, reader') \<Rightarrow>
           if slice = [] then Some (Some (if eod then Unexpected_end else Need_more), buffer, reader')
           else read_body rd eod size' (buffer @ slice) reader'))"

definition restore :: "('r \<Rightarrow> string \<Rightarrow> 'r) \<Rightarrow> 'r \<Rightarrow> string \<Rightarrow> 'r" where
  "restore pb reader s = (if length s > 0 then pb reader s else reader)"

text \<open>What follows once the line is complete: \<open>complete\<close> is the buffer at that point.\<close>

definition read_rest ::
  "('r \<Rightarrow> string \<times> 'r) \<Rightarrow> ('r \<Rightarrow> string \<Rightarrow> 'r) \<Rightarrow> bool \<Rightarrow> limits \<Rightarrow> string \<Rightarrow> nat \<Rightarrow> 'r \<Rightarrow>
   ((packet_error + packet) \<times> 'r) option" where
  "read_rest rd pb eod limits complete line_end reader =
     (if int line_end > max_line_bytes limits
      then Some (Inl (Line_too_long (max_line_bytes limits)), restore pb reader complete)
      else
        (let line = sub complete 0 line_end in
         case classify line limits of
           Inl error \<Rightarrow> Some (Inl error, restore pb reader complete)
         | Inr framing \<Rightarrow>
             (case packet_size line_end framing of
                Inl error \<Rightarrow> Some (Inl error, restore pb reader complete)
              | Inr size' \<Rightarrow>
                  if int size' > max_packet_bytes limits
                  then Some (Inl (Packet_too_large size' (max_packet_bytes limits)),
                             restore pb reader complete)
                  else
                    (case read_body rd eod size' complete reader of
                       None \<Rightarrow> None
                     | Some (Some error, buffer, reader) \<Rightarrow> Some (Inl error, restore pb reader buffer)
                     | Some (None, buffer, reader) \<Rightarrow>
                         (let complete = buffer;
                              has_body = (framing \<noteq> Line);
                              valid_terminator =
                                (\<not> has_body \<or> complete ! (size' - 2) = CR \<and> complete ! (size' - 1) = LF) in
                          if \<not> valid_terminator then Some (Inl Invalid_terminator, restore pb reader complete)
                          else
                            (let reader =
                               (if length complete > size'
                                then restore pb reader (sub complete size' (length complete - size'))
                                else reader);
                                 body_start = line_end + 2;
                                 body = sub complete body_start (body_length framing) in
                             Some (Inr \<lparr>pk_line = line, pk_body = body, pk_framing = framing\<rparr>, reader)))))))"

definition read ::
  "('r \<Rightarrow> string \<times> 'r) \<Rightarrow> ('r \<Rightarrow> string \<Rightarrow> 'r) \<Rightarrow> bool \<Rightarrow> limits \<Rightarrow> 'r \<Rightarrow>
   ((packet_error + packet) \<times> 'r) option" where
  "read rd pb eod limits reader =
     (if \<not> valid_limits limits then Some (Inl Invalid_limits, reader)
      else
        (case read_line rd eod limits [] reader of
           None \<Rightarrow> None
         | Some (Inl error, buffer, reader) \<Rightarrow> Some (Inl error, restore pb reader buffer)
         | Some (Inr (complete, line_end), buffer, reader) \<Rightarrow>
             read_rest rd pb eod limits complete line_end reader))"

section \<open>Lines\<close>

lemma find_crlf_append:
  "CR \<notin> set line \<Longrightarrow> find_crlf (line @ CR # LF # rest) = Some (length line)"
proof (induction line)
  case (Cons c line)
  then show ?case by (cases line) auto
qed simp

lemma find_crlf_SomeD: "find_crlf s = Some p \<Longrightarrow> p + 2 \<le> length s \<and> s ! p = CR \<and> s ! Suc p = LF"
proof (induction s arbitrary: p rule: find_crlf.induct)
  case (3 c d s)
  then show ?case by (cases p) (auto split: if_splits)
qed auto

lemma find_crlf_Some_split: "find_crlf s = Some p \<Longrightarrow> s = take p s @ crlf @ drop (p + 2) s"
proof -
  assume f: "find_crlf s = Some p"
  from find_crlf_SomeD [OF f] have p: "p < length s" "Suc p < length s" "s ! p = CR" "s ! Suc p = LF" by auto
  have "s = take p s @ s ! p # drop (Suc p) s" using p(1) by (rule id_take_nth_drop)
  moreover have "drop (Suc p) s = s ! Suc p # drop (Suc (Suc p)) s" using p(2) by (simp add: Cons_nth_drop_Suc)
  ultimately show ?thesis using p by simp
qed

end
