(* ===== verification/Codec.thy ===== *)
theory Codec
  imports Packet
begin

text \<open>
  Operations of the protocol and their wire form (lib/op.ml, lib/message.ml, lib/codec.ml):
  the decoder from packets, the encoder with its limits, and reading an operation from a
  reader.
\<close>

section \<open>Operations\<close>

record message =
  m_subject :: string
  m_reply_to :: "string option"
  m_headers :: header
  m_payload :: string

record status =
  st_code :: int
  st_description :: string

datatype op =
    Info string
  | Connect string
  | Pub message
  | Hpub message "status option"
  | Sub string "string option" int
  | Unsub int "int option"
  | Msg int message
  | Hmsg int message "status option"
  | Ping
  | Pong
  | Ok
  | Server_error string

datatype codec_error =
    Packet_error packet_error
  | Invalid_operation string
  | Invalid_field_count string
  | Invalid_subject subject_error
  | Invalid_header header_error
  | Invalid_header_block
  | Invalid_status
  | Invalid_sid string
  | Invalid_max_messages string
  | Invalid_value string
  | Message_has_headers
  | Invalid_codec_limits

type_synonym 'a decoded = "codec_error + 'a"

text \<open>\<open>Result.map\<close> and the sequencing of results the code writes as nested matches.\<close>

definition map_result :: "('a \<Rightarrow> 'b) \<Rightarrow> 'a decoded \<Rightarrow> 'b decoded" where
  "map_result f r = (case r of Inl error \<Rightarrow> Inl error | Inr a \<Rightarrow> Inr (f a))"

definition bind_result :: "'a decoded \<Rightarrow> ('a \<Rightarrow> 'b decoded) \<Rightarrow> 'b decoded" where
  "bind_result r k = (case r of Inl error \<Rightarrow> Inl error | Inr a \<Rightarrow> k a)"

lemma result_simps [simp]:
  "map_result f (Inr a) = Inr (f a)" "map_result f (Inl e) = Inl e"
  "bind_result (Inr a) k = k a" "bind_result (Inl e) k = Inl e"
  by (simp_all add: map_result_def bind_result_def)

section \<open>Fields\<close>

definition keyword :: "string \<Rightarrow> string" where
  "keyword line = (case index_opt line CHR '' '' of None \<Rightarrow> line | Some position \<Rightarrow> sub line 0 position)"

definition rest :: "string \<Rightarrow> string \<Rightarrow> string option" where
  "rest line kw =
     (let keyword_length = length kw in
      if length line = keyword_length then None
      else if length line > keyword_length \<and> line ! keyword_length = CHR '' ''
      then Some (sub line (keyword_length + 1) (length line - keyword_length - 1))
      else None)"

definition contains_line_break :: "string \<Rightarrow> bool" where
  "contains_line_break v \<longleftrightarrow> list_ex (\<lambda>c. c = CR \<or> c = LF) v"

definition parse_number :: "string \<Rightarrow> nat option" where
  "parse_number v = (if length v = 0 then None else parse_dec max_int 0 v)"

definition parse_sid :: "string \<Rightarrow> int decoded" where
  "parse_sid v =
     (case parse_number v of
        Some sid \<Rightarrow> if sid > 0 then Inr (int sid) else Inl (Invalid_sid v)
      | None \<Rightarrow> Inl (Invalid_sid v))"

definition parse_max_messages :: "string \<Rightarrow> int decoded" where
  "parse_max_messages v =
     (case parse_number v of Some count \<Rightarrow> Inr (int count) | None \<Rightarrow> Inl (Invalid_max_messages v))"

definition subject :: "string \<Rightarrow> string decoded" where
  "subject v = (case subject_of_string v of Inr s \<Rightarrow> Inr s | Inl error \<Rightarrow> Inl (Invalid_subject error))"

definition filter' :: "string \<Rightarrow> string decoded" where
  "filter' v = (case filter_of_string v of Inr f \<Rightarrow> Inr f | Inl error \<Rightarrow> Inl (Invalid_subject error))"

definition queue_group :: "string \<Rightarrow> string decoded" where
  "queue_group v = (case queue_group_of_string v of Inr q \<Rightarrow> Inr q | Inl error \<Rightarrow> Inl (Invalid_subject error))"

definition reply_subject :: "string option \<Rightarrow> string option decoded" where
  "reply_subject v = (case v of None \<Rightarrow> Inr None | Some s \<Rightarrow> map_result Some (subject s))"

definition optional_reply_value :: "string \<Rightarrow> string option" where
  "optional_reply_value v = (if v = [] then None else Some v)"

definition message_of :: "string \<Rightarrow> string option \<Rightarrow> header \<Rightarrow> string \<Rightarrow> message decoded" where
  "message_of subject_value reply_value headers payload =
     bind_result (subject subject_value) (\<lambda>s.
     bind_result (reply_subject reply_value) (\<lambda>r.
     Inr \<lparr>m_subject = s, m_reply_to = r, m_headers = headers, m_payload = payload\<rparr>))"

section \<open>Header blocks\<close>

definition version :: string where "version = ''NATS/1.0''"

definition find_crlf_from :: "string \<Rightarrow> nat \<Rightarrow> nat option" where
  "find_crlf_from v start = map_option (\<lambda>p. start + p) (find_crlf (drop start v))"

definition status_of :: "string \<Rightarrow> status option decoded" where
  "status_of first_line =
     (if first_line = version then Inr None
      else if take 9 first_line = version @ '' '' then
        (let tail = sub first_line 9 (length first_line - 9);
             (code_value, description) =
               (case index_opt tail CHR '' '' of
                  None \<Rightarrow> (tail, [])
                | Some separator \<Rightarrow>
                    (sub tail 0 separator, sub tail (separator + 1) (length tail - separator - 1))) in
         if length code_value = 3 then
           (case parse_number code_value of
              Some c \<Rightarrow>
                if c \<ge> 100 \<and> c \<le> 999 then
                  (if contains_line_break description then Inl Invalid_status
                   else Inr (Some \<lparr>st_code = int c, st_description = description\<rparr>))
                else Inl Invalid_status
            | None \<Rightarrow> Inl Invalid_status)
         else Inl Invalid_status)
      else Inl Invalid_status)"

definition parse_header_field :: "string \<Rightarrow> (string \<times> string) decoded" where
  "parse_header_field line =
     (case index_opt line CHR '':'' of
        None \<Rightarrow> Inl Invalid_header_block
      | Some separator \<Rightarrow>
          if separator = 0 then Inl Invalid_header_block
          else
            (let name = sub line 0 separator;
                 value_start =
                   (if separator + 1 < length line \<and> line ! (separator + 1) = CHR '' ''
                    then separator + 2 else separator + 1);
                 v = sub line value_start (length line - value_start) in
             Inr (name, v)))"

text \<open>
  The loop over the fields: \<open>None\<close> when a line is invalid, else the fields, last first, and
  the position the loop ended at.
\<close>

function header_fields ::
  "string \<Rightarrow> nat \<Rightarrow> nat \<Rightarrow> (string \<times> string) list \<Rightarrow> ((string \<times> string) list \<times> nat) option" where
  "header_fields block fields_end position acc =
     (if \<not> position < fields_end then Some (acc, position)
      else
        (case find_crlf_from block position of
           None \<Rightarrow> None
         | Some line_end \<Rightarrow>
             if line_end > fields_end then None
             else
               (let line = sub block position (line_end - position) in
                if length line = 0 then None
                else
                  (case parse_header_field line of
                     Inl _ \<Rightarrow> None
                   | Inr field \<Rightarrow> header_fields block fields_end (line_end + 2) (field # acc)))))"
  by pat_completeness auto
termination
  by (relation "measure (\<lambda>(block, fields_end, position, acc). fields_end - position)")
     (auto simp: find_crlf_from_def)

declare header_fields.simps [simp del]

definition parse_header_block :: "string \<Rightarrow> (status option \<times> header) decoded" where
  "parse_header_block block =
     (let n = length block in
      if n < 2 \<or> drop (n - 2) block \<noteq> crlf then Inl Invalid_header_block
      else
        (case find_crlf_from block 0 of
           None \<Rightarrow> Inl Invalid_header_block
         | Some first_end \<Rightarrow>
             bind_result (status_of (sub block 0 first_end)) (\<lambda>status.
               (let fields_end = n - 2 in
                case header_fields block fields_end (first_end + 2) [] of
                  None \<Rightarrow> Inl Invalid_header_block
                | Some (acc, position) \<Rightarrow>
                    if position \<noteq> fields_end then Inl Invalid_header_block
                    else
                      (case header_of_list (rev acc) of
                         Inr headers \<Rightarrow> Inr (status, headers)
                       | Inl error \<Rightarrow> Inl (Invalid_header error))))))"

section \<open>Decoding\<close>

definition payload_and_headers :: "packet \<Rightarrow> (status option \<times> header \<times> string) decoded" where
  "payload_and_headers packet =
     (case pk_framing packet of
        Headers header_bytes total_bytes \<Rightarrow>
          (let body = pk_body packet;
               header_block = sub body 0 header_bytes;
               payload = sub body header_bytes (total_bytes - header_bytes) in
           map_result (\<lambda>(status, headers). (status, headers, payload)) (parse_header_block header_block))
      | _ \<Rightarrow> Inl (Invalid_operation (keyword (pk_line packet))))"

definition expect_line :: "packet \<Rightarrow> string \<Rightarrow> unit decoded" where
  "expect_line packet expected_keyword =
     (if keyword (pk_line packet) = expected_keyword \<and> pk_framing packet = Line
      then Inr () else Inl (Invalid_operation expected_keyword))"

definition decode_text :: "packet \<Rightarrow> string \<Rightarrow> (string \<Rightarrow> op) \<Rightarrow> op decoded" where
  "decode_text packet operation mk =
     (case (expect_line packet operation, rest (pk_line packet) operation) of
        (Inr (), Some text) \<Rightarrow> Inr (mk text)
      | (Inr (), None) \<Rightarrow> Inl (Invalid_value operation)
      | (Inl error, _) \<Rightarrow> Inl error)"

definition decode_sub :: "packet \<Rightarrow> op decoded" where
  "decode_sub packet =
     bind_result (expect_line packet ''SUB'') (\<lambda>_.
       (case words (pk_line packet) of
          [w, filter_value, sid_value] \<Rightarrow>
            if w = ''SUB'' then
              bind_result (filter' filter_value) (\<lambda>f.
              bind_result (parse_sid sid_value) (\<lambda>sid. Inr (Sub f None sid)))
            else Inl (Invalid_field_count ''SUB'')
        | [w, filter_value, queue_value, sid_value] \<Rightarrow>
            if w = ''SUB'' then
              bind_result (filter' filter_value) (\<lambda>f.
              bind_result (queue_group queue_value) (\<lambda>q.
              bind_result (parse_sid sid_value) (\<lambda>sid. Inr (Sub f (Some q) sid))))
            else Inl (Invalid_field_count ''SUB'')
        | _ \<Rightarrow> Inl (Invalid_field_count ''SUB'')))"

definition decode_unsub :: "packet \<Rightarrow> op decoded" where
  "decode_unsub packet =
     bind_result (expect_line packet ''UNSUB'') (\<lambda>_.
       (case words (pk_line packet) of
          [w, sid_value] \<Rightarrow>
            if w = ''UNSUB'' then map_result (\<lambda>sid. Unsub sid None) (parse_sid sid_value)
            else Inl (Invalid_field_count ''UNSUB'')
        | [w, sid_value, max_value] \<Rightarrow>
            if w = ''UNSUB'' then
              bind_result (parse_sid sid_value) (\<lambda>sid.
              bind_result (parse_max_messages max_value) (\<lambda>m. Inr (Unsub sid (Some m))))
            else Inl (Invalid_field_count ''UNSUB'')
        | _ \<Rightarrow> Inl (Invalid_field_count ''UNSUB'')))"

definition decode_pub :: "packet \<Rightarrow> op decoded" where
  "decode_pub packet =
     (case pk_framing packet of
        Payload _ \<Rightarrow>
          (case words (pk_line packet) of
             [w, subject_value, payload_length] \<Rightarrow>
               if w = ''PUB'' then
                 bind_result (message_of subject_value None [] (pk_body packet)) (\<lambda>message.
                   (case parse_number payload_length of
                      Some _ \<Rightarrow> Inr (Pub message)
                    | None \<Rightarrow> Inl (Invalid_value ''PUB'')))
               else Inl (Invalid_field_count ''PUB'')
           | [w, subject_value, reply_value, payload_length] \<Rightarrow>
               if w = ''PUB'' then
                 map_result Pub
                   (message_of subject_value (optional_reply_value reply_value) [] (pk_body packet))
               else Inl (Invalid_field_count ''PUB'')
           | _ \<Rightarrow> Inl (Invalid_field_count ''PUB''))
      | _ \<Rightarrow> Inl (Invalid_operation ''PUB''))"

definition decode_hpub_message :: "packet \<Rightarrow> string \<Rightarrow> string option \<Rightarrow> op decoded" where
  "decode_hpub_message packet subject_value reply_value =
     bind_result (payload_and_headers packet) (\<lambda>(status, headers, payload).
       map_result (\<lambda>message. Hpub message status) (message_of subject_value reply_value headers payload))"

definition decode_hpub :: "packet \<Rightarrow> op decoded" where
  "decode_hpub packet =
     (case pk_framing packet of
        Headers _ _ \<Rightarrow>
          (case words (pk_line packet) of
             [w, subject_value, header_length, total_length] \<Rightarrow>
               if w = ''HPUB'' then decode_hpub_message packet subject_value None
               else Inl (Invalid_field_count ''HPUB'')
           | [w, subject_value, reply_value, header_length, total_length] \<Rightarrow>
               if w = ''HPUB'' then
                 decode_hpub_message packet subject_value (optional_reply_value reply_value)
               else Inl (Invalid_field_count ''HPUB'')
           | _ \<Rightarrow> Inl (Invalid_field_count ''HPUB''))
      | _ \<Rightarrow> Inl (Invalid_operation ''HPUB''))"

definition decode_msg :: "packet \<Rightarrow> op decoded" where
  "decode_msg packet =
     (case pk_framing packet of
        Payload _ \<Rightarrow>
          (case words (pk_line packet) of
             [w, subject_value, sid_value, payload_length] \<Rightarrow>
               if w = ''MSG'' then
                 bind_result (parse_sid sid_value) (\<lambda>sid.
                   map_result (Msg sid) (message_of subject_value None [] (pk_body packet)))
               else Inl (Invalid_field_count ''MSG'')
           | [w, subject_value, sid_value, reply_value, payload_length] \<Rightarrow>
               if w = ''MSG'' then
                 bind_result (parse_sid sid_value) (\<lambda>sid.
                   map_result (Msg sid)
                     (message_of subject_value (optional_reply_value reply_value) [] (pk_body packet)))
               else Inl (Invalid_field_count ''MSG'')
           | _ \<Rightarrow> Inl (Invalid_field_count ''MSG''))
      | _ \<Rightarrow> Inl (Invalid_operation ''MSG''))"

definition decode_hmsg_message :: "packet \<Rightarrow> int \<Rightarrow> string \<Rightarrow> string option \<Rightarrow> op decoded" where
  "decode_hmsg_message packet sid subject_value reply_value =
     bind_result (payload_and_headers packet) (\<lambda>(status, headers, payload).
       map_result (\<lambda>message. Hmsg sid message status) (message_of subject_value reply_value headers payload))"

definition decode_hmsg :: "packet \<Rightarrow> op decoded" where
  "decode_hmsg packet =
     (case pk_framing packet of
        Headers _ _ \<Rightarrow>
          (case words (pk_line packet) of
             [w, subject_value, sid_value, header_length, total_length] \<Rightarrow>
               if w = ''HMSG'' then
                 bind_result (parse_sid sid_value) (\<lambda>sid. decode_hmsg_message packet sid subject_value None)
               else Inl (Invalid_field_count ''HMSG'')
           | [w, subject_value, sid_value, reply_value, header_length, total_length] \<Rightarrow>
               if w = ''HMSG'' then
                 bind_result (parse_sid sid_value) (\<lambda>sid.
                   decode_hmsg_message packet sid subject_value (optional_reply_value reply_value))
               else Inl (Invalid_field_count ''HMSG'')
           | _ \<Rightarrow> Inl (Invalid_field_count ''HMSG''))
      | _ \<Rightarrow> Inl (Invalid_operation ''HMSG''))"

definition decode :: "packet \<Rightarrow> op decoded" where
  "decode packet =
     (let operation = keyword (pk_line packet) in
      if operation = ''INFO'' then decode_text packet operation Info
      else if operation = ''CONNECT'' then decode_text packet operation Connect
      else if operation = ''PING'' then map_result (\<lambda>_. Ping) (expect_line packet operation)
      else if operation = ''PONG'' then map_result (\<lambda>_. Pong) (expect_line packet operation)
      else if operation = ''+OK'' then map_result (\<lambda>_. Ok) (expect_line packet operation)
      else if operation = ''-ERR'' then decode_text packet operation Server_error
      else if operation = ''SUB'' then decode_sub packet
      else if operation = ''UNSUB'' then decode_unsub packet
      else if operation = ''PUB'' then decode_pub packet
      else if operation = ''HPUB'' then decode_hpub packet
      else if operation = ''MSG'' then decode_msg packet
      else if operation = ''HMSG'' then decode_hmsg packet
      else Inl (Invalid_operation operation))"

section \<open>Encoding\<close>

record wire_output =
  o_line :: string
  o_body :: string
  o_framing :: framing

definition header_line :: "string \<times> string \<Rightarrow> string" where
  "header_line p = fst p @ '': '' @ snd p @ crlf"

definition status_text :: "status option \<Rightarrow> string" where
  "status_text status =
     (case status of
        None \<Rightarrow> []
      | Some s \<Rightarrow> '' '' @ show_int (st_code s) @
          (if st_description s \<noteq> [] then '' '' @ st_description s else []))"

definition header_block :: "status option \<Rightarrow> header \<Rightarrow> string" where
  "header_block status headers =
     version @ status_text status @ crlf @ concat (map header_line (header_to_list headers)) @ crlf"

definition valid_status :: "status option \<Rightarrow> bool" where
  "valid_status status =
     (case status of
        None \<Rightarrow> True
      | Some s \<Rightarrow> st_code s \<ge> 100 \<and> st_code s \<le> 999 \<and> \<not> contains_line_break (st_description s))"

definition reply_suffix :: "string option \<Rightarrow> string" where
  "reply_suffix reply_to = (case reply_to of None \<Rightarrow> [] | Some r \<Rightarrow> '' '' @ r)"

definition output_size :: "wire_output \<Rightarrow> nat" where
  "output_size wire_output =
     (let line_size = length (o_line wire_output) in
      case o_framing wire_output of
        Line \<Rightarrow> line_size + 2
      | Payload bytes \<Rightarrow> line_size + 2 + bytes + 2
      | Headers _ total_bytes \<Rightarrow> line_size + 2 + total_bytes + 2)"

definition check_limits :: "limits \<Rightarrow> wire_output \<Rightarrow> codec_error option" where
  "check_limits limits wire_output =
     (if max_line_bytes limits \<le> 0 \<or> max_header_bytes limits \<le> 0 \<or> max_payload_bytes limits < 0 \<or>
         max_packet_bytes limits \<le> 0
      then Some Invalid_codec_limits
      else if int (length (o_line wire_output)) > max_line_bytes limits
      then Some (Packet_error (Line_too_long (max_line_bytes limits)))
      else
        (let (payload_length, header_length) =
               (case o_framing wire_output of
                  Line \<Rightarrow> (0, 0)
                | Payload bytes \<Rightarrow> (bytes, 0)
                | Headers header_bytes total_bytes \<Rightarrow> (total_bytes, header_bytes)) in
         if int header_length > max_header_bytes limits
         then Some (Packet_error (Headers_too_large header_length (max_header_bytes limits)))
         else if int payload_length > max_payload_bytes limits
         then Some (Packet_error (Payload_too_large payload_length (max_payload_bytes limits)))
         else
           (let expected_body_length =
                  (case o_framing wire_output of
                     Line \<Rightarrow> 0 | Payload bytes \<Rightarrow> bytes | Headers _ total_bytes \<Rightarrow> total_bytes) in
            if length (o_body wire_output) \<noteq> expected_body_length then Some Invalid_codec_limits
            else if int (output_size wire_output) > max_packet_bytes limits
            then Some (Packet_error (Packet_too_large (output_size wire_output) (max_packet_bytes limits)))
            else None)))"

definition sid_suffix :: "int option \<Rightarrow> string" where
  "sid_suffix sid = (case sid of None \<Rightarrow> [] | Some sid \<Rightarrow> '' '' @ show_int sid)"

definition make_payload_output :: "int option \<Rightarrow> string \<Rightarrow> string \<Rightarrow> string option \<Rightarrow> string \<Rightarrow> wire_output" where
  "make_payload_output sid kw subj reply_to payload =
     \<lparr>o_line = kw @ '' '' @ subj @ sid_suffix sid @ reply_suffix reply_to @ '' '' @
        show_nat (length payload),
      o_body = payload,
      o_framing = Payload (length payload)\<rparr>"

definition make_headers_output ::
  "int option \<Rightarrow> string \<Rightarrow> string \<Rightarrow> string option \<Rightarrow> status option \<Rightarrow> header \<Rightarrow> string \<Rightarrow> wire_output" where
  "make_headers_output sid kw subj reply_to status headers payload =
     (let block = header_block status headers;
          header_bytes = length block;
          total_bytes = header_bytes + length payload in
      \<lparr>o_line = kw @ '' '' @ subj @ sid_suffix sid @ reply_suffix reply_to @ '' '' @
         show_nat header_bytes @ '' '' @ show_nat total_bytes,
       o_body = block @ payload,
       o_framing = Headers header_bytes total_bytes\<rparr>)"

definition encode_output :: "limits \<Rightarrow> wire_output \<Rightarrow> string decoded" where
  "encode_output limits wire_output =
     (case check_limits limits wire_output of
        Some error \<Rightarrow> Inl error
      | None \<Rightarrow>
          (case o_framing wire_output of
             Line \<Rightarrow> Inr (o_line wire_output @ crlf)
           | _ \<Rightarrow> Inr (o_line wire_output @ crlf @ o_body wire_output @ crlf)))"

definition line_output :: "string \<Rightarrow> wire_output" where
  "line_output line = \<lparr>o_line = line, o_body = [], o_framing = Line\<rparr>"

definition operation_output :: "op \<Rightarrow> wire_output decoded" where
  "operation_output operation =
     (case operation of
        Info json \<Rightarrow>
          if length json = 0 \<or> contains_line_break json then Inl (Invalid_value ''INFO'')
          else Inr (line_output (''INFO '' @ json))
      | Connect json \<Rightarrow>
          if length json = 0 \<or> contains_line_break json then Inl (Invalid_value ''CONNECT'')
          else Inr (line_output (''CONNECT '' @ json))
      | Pub message \<Rightarrow>
          if m_headers message \<noteq> [] then Inl Message_has_headers
          else Inr (make_payload_output None ''PUB'' (m_subject message) (m_reply_to message) (m_payload message))
      | Hpub message status \<Rightarrow>
          if \<not> valid_status status then Inl Invalid_status
          else Inr (make_headers_output None ''HPUB'' (m_subject message) (m_reply_to message) status
                 (m_headers message) (m_payload message))
      | Sub subj queue sid \<Rightarrow>
          if sid \<le> 0 then Inl (Invalid_sid (show_int sid))
          else Inr (line_output (''SUB '' @ subj @
                 (case queue of None \<Rightarrow> [] | Some q \<Rightarrow> '' '' @ q) @ '' '' @ show_int sid))
      | Unsub sid max_messages \<Rightarrow>
          if sid \<le> 0 then Inl (Invalid_sid (show_int sid))
          else
            (case max_messages of
               Some m \<Rightarrow>
                 if m < 0 then Inl (Invalid_max_messages (show_int m))
                 else Inr (line_output (''UNSUB '' @ show_int sid @ '' '' @ show_int m))
             | None \<Rightarrow> Inr (line_output (''UNSUB '' @ show_int sid)))
      | Msg sid message \<Rightarrow>
          if sid \<le> 0 then Inl (Invalid_sid (show_int sid))
          else if m_headers message \<noteq> [] then Inl Message_has_headers
          else Inr (make_payload_output (Some sid) ''MSG'' (m_subject message) (m_reply_to message)
                 (m_payload message))
      | Hmsg sid message status \<Rightarrow>
          if sid \<le> 0 then Inl (Invalid_sid (show_int sid))
          else if \<not> valid_status status then Inl Invalid_status
          else Inr (make_headers_output (Some sid) ''HMSG'' (m_subject message) (m_reply_to message) status
                 (m_headers message) (m_payload message))
      | Ping \<Rightarrow> Inr (line_output ''PING'')
      | Pong \<Rightarrow> Inr (line_output ''PONG'')
      | Ok \<Rightarrow> Inr (line_output ''+OK'')
      | Server_error text \<Rightarrow>
          if length text = 0 \<or> contains_line_break text then Inl (Invalid_value ''-ERR'')
          else Inr (line_output (''-ERR '' @ text)))"

definition encode :: "limits \<Rightarrow> op \<Rightarrow> string decoded" where
  "encode limits operation = bind_result (operation_output operation) (encode_output limits)"

definition codec_read ::
  "('r \<Rightarrow> string \<times> 'r) \<Rightarrow> ('r \<Rightarrow> string \<Rightarrow> 'r) \<Rightarrow> bool \<Rightarrow> limits \<Rightarrow> 'r \<Rightarrow> (op decoded \<times> 'r) option" where
  "codec_read rd pb eod limits reader =
     (case read rd pb eod limits reader of
        None \<Rightarrow> None
      | Some (Inl error, reader') \<Rightarrow> Some (Inl (Packet_error error), reader')
      | Some (Inr packet, reader') \<Rightarrow> Some (decode packet, reader'))"

end
