(* ===== verification/PacketReader.thy ===== *)
theory PacketReader
  imports Packet
begin

text \<open>
  What the incremental packet reader guarantees: it returns, it never loses or invents a byte,
  and on well-formed lines its answer depends only on the bytes, not on how they arrive.
\<close>

section \<open>The byte reader\<close>

text \<open>
  \<open>content r\<close> is what is still to be read from \<open>r\<close>. These are the laws bytesrw documents for
  \<open>Reader.read\<close> and \<open>Reader.push_back\<close>.
\<close>

definition reader_laws ::
  "('r \<Rightarrow> string \<times> 'r) \<Rightarrow> ('r \<Rightarrow> string \<Rightarrow> 'r) \<Rightarrow> ('r \<Rightarrow> string) \<Rightarrow> bool" where
  "reader_laws rd pb content \<longleftrightarrow>
     (\<forall>r. content r = fst (rd r) @ content (snd (rd r)) \<and> (fst (rd r) = [] \<longrightarrow> content r = [])) \<and>
     (\<forall>r s. content (pb r s) = s @ content r)"

lemma laws_rd:
  assumes "reader_laws rd pb content" "rd r = (slice, r')"
  shows "content r = slice @ content r'" "slice = [] \<Longrightarrow> content r = []"
proof -
  from assms(1) have "content r = fst (rd r) @ content (snd (rd r)) \<and> (fst (rd r) = [] \<longrightarrow> content r = [])"
    unfolding reader_laws_def by blast
  note laws = this [unfolded assms(2) fst_conv snd_conv]
  show "content r = slice @ content r'" by (rule laws [THEN conjunct1])
  show "slice = [] \<Longrightarrow> content r = []" by (rule laws [THEN conjunct2, rule_format])
qed

lemma laws_restore: "reader_laws rd pb content \<Longrightarrow> content (restore pb r s) = s @ content r"
proof -
  assume "reader_laws rd pb content"
  then have "content (pb r s) = s @ content r" unfolding reader_laws_def by blast
  then show ?thesis by (simp add: restore_def)
qed

lemma laws_shorter:
  "reader_laws rd pb content \<Longrightarrow> rd r = (slice, r') \<Longrightarrow> slice \<noteq> [] \<Longrightarrow> length (content r') < length (content r)"
  using laws_rd(1) [of rd pb content r slice r'] by simp

text \<open>A reader over a list of slices, to run the model on.\<close>

definition slices_read :: "string list \<Rightarrow> string \<times> string list" where
  "slices_read slices =
     (case dropWhile (\<lambda>s. s = []) slices of [] \<Rightarrow> ([], []) | s # rest \<Rightarrow> (s, rest))"

definition slices_push :: "string list \<Rightarrow> string \<Rightarrow> string list" where
  "slices_push slices s = s # slices"

lemma concat_dropWhile_empty: "concat (dropWhile (\<lambda>s. s = []) slices) = concat slices"
  by (induction slices) auto

lemma slices_laws: "reader_laws slices_read slices_push concat"
proof -
  have "concat r = fst (slices_read r) @ concat (snd (slices_read r)) \<and>
      (fst (slices_read r) = [] \<longrightarrow> concat r = [])" for r
  proof (cases "dropWhile (\<lambda>s. s = []) r")
    case Nil
    then have "slices_read r = ([], [])" by (simp only: slices_read_def list.case)
    with concat_dropWhile_empty [of r, unfolded Nil] show ?thesis by simp
  next
    case (Cons s rest)
    then have "slices_read r = (s, rest)" by (simp only: slices_read_def list.case)
    moreover from Cons have "s \<noteq> []" by (simp only: dropWhile_eq_Cons_conv) blast
    ultimately show ?thesis using concat_dropWhile_empty [of r, unfolded Cons] by simp
  qed
  moreover have "concat (slices_push r s) = s @ concat r" for r s by (simp add: slices_push_def)
  ultimately show ?thesis unfolding reader_laws_def by blast
qed

section \<open>Prefixes of a line\<close>

lemma all_nat_Suc: "(\<forall>n :: nat. P n) \<longleftrightarrow> P 0 \<and> (\<forall>n. P (Suc n))"
proof (intro iffI conjI allI)
  fix n assume "P 0 \<and> (\<forall>n. P (Suc n))"
  then show "P n" by (cases n) auto
qed auto

lemma find_crlf_None: "find_crlf s = None \<longleftrightarrow> (\<forall>p. Suc p < length s \<longrightarrow> \<not> (s ! p = CR \<and> s ! Suc p = LF))"
proof (induction s rule: find_crlf.induct)
  case (3 c d s)
  have "(\<forall>p. Suc p < length (c # d # s) \<longrightarrow> \<not> ((c # d # s) ! p = CR \<and> (c # d # s) ! Suc p = LF)) \<longleftrightarrow>
      \<not> (c = CR \<and> d = LF) \<and> (\<forall>p. Suc p < length (d # s) \<longrightarrow> \<not> ((d # s) ! p = CR \<and> (d # s) ! Suc p = LF))"
    by (subst all_nat_Suc) simp
  then show ?case using 3 by simp
qed simp_all


lemma find_crlf_prefix: "find_crlf a = Some p \<Longrightarrow> find_crlf (a @ b) = Some p"
proof (induction a arbitrary: p rule: find_crlf.induct)
  case (3 c d s)
  show ?case
  proof (cases "c = CR \<and> d = LF")
    case False
    with "3.prems" obtain q where "p = Suc q" "find_crlf (d # s) = Some q"
      by (auto simp del: find_crlf.simps(3) simp: find_crlf.simps(3) [of c d s])
    with False "3.IH" [of q] show ?thesis by simp
  qed (use "3.prems" in simp)
qed auto

lemma find_crlf_line: "find_crlf s = Some p \<longleftrightarrow>
    Suc p < length s \<and> s ! p = CR \<and> s ! Suc p = LF \<and> (\<forall>q < p. \<not> (s ! q = CR \<and> s ! Suc q = LF))"
proof (induction s arbitrary: p rule: find_crlf.induct)
  case (3 c d s)
  show ?case
  proof (cases "c = CR \<and> d = LF")
    case True
    then show ?thesis by (cases p) auto
  next
    case False
    then have shift: "find_crlf (c # d # s) = map_option Suc (find_crlf (d # s))" by auto
    show ?thesis
    proof (cases p)
      case (Suc q)
      have "(\<forall>i < Suc q. \<not> ((c # d # s) ! i = CR \<and> (c # d # s) ! Suc i = LF)) \<longleftrightarrow>
          (\<forall>i < q. \<not> ((d # s) ! i = CR \<and> (d # s) ! Suc i = LF))"
        using False by (simp add: All_less_Suc2)
      with "3.IH" [OF False, of q] show ?thesis by (simp only: shift Suc) auto
    next
      case 0
      with False show ?thesis by (simp only: shift 0) auto
    qed
  qed
qed auto

lemma ex_nat_Suc: "(\<exists>n :: nat. P n) \<longleftrightarrow> P 0 \<or> (\<exists>n. P (Suc n))"
  using all_nat_Suc [of "\<lambda>n. \<not> P n"] by blast

lemma internal_break_iff:
  "contains_internal_line_break s \<longleftrightarrow>
     (\<exists>p. p < length s \<and> (s ! p = LF \<or> s ! p = CR \<and> Suc p < length s))"
proof (induction s rule: contains_internal_line_break.induct)
  case (3 c d s)
  have "(\<exists>p. p < length (c # d # s) \<and>
        ((c # d # s) ! p = LF \<or> (c # d # s) ! p = CR \<and> Suc p < length (c # d # s))) \<longleftrightarrow>
      c = CR \<or> c = LF \<or>
      (\<exists>p. p < length (d # s) \<and> ((d # s) ! p = LF \<or> (d # s) ! p = CR \<and> Suc p < length (d # s)))"
    by (subst ex_nat_Suc) auto
  then show ?case using 3 by simp
qed auto

text \<open>
  The bytes before the first line end hold no other carriage return or line feed; when there
  is no line end yet, they hold none that could not become one.
\<close>

definition clean :: "string \<Rightarrow> bool" where
  "clean s \<longleftrightarrow>
     (case find_crlf s of
        Some line_end \<Rightarrow> CR \<notin> set (take line_end s) \<and> LF \<notin> set (take line_end s)
      | None \<Rightarrow> \<not> contains_internal_line_break s)"

text \<open>A buffer that has no line end yet, of a clean input: it has no line break that matters.\<close>

lemma clean_buffer:
  assumes "clean (buffer @ later)" and "find_crlf buffer = None"
  shows "\<not> contains_internal_line_break buffer"
    and "find_crlf (buffer @ later) = Some e \<Longrightarrow> length buffer \<le> Suc e"
proof -
  have short: "length buffer \<le> Suc e" if "find_crlf (buffer @ later) = Some e" for e
  proof (rule ccontr)
    assume "\<not> length buffer \<le> Suc e"
    then have "Suc e < length buffer" by simp
    moreover have "(buffer @ later) ! e = CR" "(buffer @ later) ! Suc e = LF"
      using that by (simp_all add: find_crlf_line)
    ultimately show False using assms(2) by (auto simp: find_crlf_None nth_append)
  qed
  then show "find_crlf (buffer @ later) = Some e \<Longrightarrow> length buffer \<le> Suc e" .
  show "\<not> contains_internal_line_break buffer"
  proof
    assume "contains_internal_line_break buffer"
    then obtain p where p: "p < length buffer" "buffer ! p = LF \<or> buffer ! p = CR \<and> Suc p < length buffer"
      by (auto simp: internal_break_iff)
    then have whole: "(buffer @ later) ! p = LF \<or> (buffer @ later) ! p = CR \<and> Suc p < length buffer"
      by (auto simp: nth_append)
    show False
    proof (cases "find_crlf (buffer @ later)")
      case None
      with assms(1) have "\<not> contains_internal_line_break (buffer @ later)" by (simp add: clean_def)
      moreover from p(1) have "p < length (buffer @ later)" and "Suc p < length buffer \<longrightarrow> Suc p < length (buffer @ later)"
        by simp_all
      ultimately show False using whole by (simp only: internal_break_iff) blast
    next
      case (Some e)
      with short have le: "length buffer \<le> Suc e" by blast
      have e: "Suc e < length (buffer @ later)" "(buffer @ later) ! e = CR"
        using Some by (simp_all add: find_crlf_line)
      have no: "CR \<notin> set (take e (buffer @ later))" "LF \<notin> set (take e (buffer @ later))"
        using assms(1) Some by (simp_all add: clean_def)
      have "p \<noteq> e"
      proof
        assume "p = e"
        with whole e(2) le show False by simp
      qed
      with p(1) le have pe: "p < e" by simp
      then have "(buffer @ later) ! p = take e (buffer @ later) ! p" and "p < length (take e (buffer @ later))"
        using e(1) by (simp_all del: take_append)
      then have "(buffer @ later) ! p \<in> set (take e (buffer @ later))" by (simp only: nth_mem)
      with whole no show False by metis
    qed
  qed
qed


section \<open>The line loop\<close>

lemma read_line_returns:
  assumes "reader_laws rd pb content"
  shows "\<exists>answer buffer' r'. read_line rd eod limits buffer r = Some (answer, buffer', r') \<and>
     buffer' @ content r' = buffer @ content r \<and>
     (case answer of Inr (complete, line_end) \<Rightarrow> complete = buffer' \<and> find_crlf buffer' = Some line_end
      | Inl _ \<Rightarrow> True)"
proof (induction "length (content r)" arbitrary: buffer r rule: less_induct)
  case less
  show ?case
  proof (cases "find_crlf buffer")
    case (Some line_end)
    then show ?thesis by (simp add: read_line.simps [of rd eod limits buffer])
  next
    case None
    obtain slice r' where rd: "rd r = (slice, r')" by (cases "rd r")
    note laws = laws_rd [OF assms rd]
    show ?thesis
    proof (cases "contains_internal_line_break buffer \<or> int (length buffer) \<ge> wrap63 (max_line_bytes limits + 2)
        \<or> slice = []")
      case True
      with None rd laws show ?thesis by (auto simp: read_line.simps [of rd eod limits buffer])
    next
      case False
      with less.hyps [OF laws_shorter [OF assms rd], of "buffer @ slice"] laws None rd show ?thesis
        by (simp add: read_line.simps [of rd eod limits buffer])
    qed
  qed
qed

text \<open>On a clean input the answer of the line loop is fixed by the whole input.\<close>

definition line_answer :: "bool \<Rightarrow> limits \<Rightarrow> string \<Rightarrow> packet_error" where
  "line_answer eod limits s =
     (if int (length s) \<ge> max_line_bytes limits + 2 then Line_too_long (max_line_bytes limits)
      else if eod then (if s = [] then End_of_input else Unexpected_end) else Need_more)"

lemma read_line_clean:
  assumes "reader_laws rd pb content" and "0 < max_line_bytes limits" "max_line_bytes limits + 2 \<le> int max_int"
    and "clean (buffer @ content r)"
  shows "\<exists>answer buffer' r'. read_line rd eod limits buffer r = Some (answer, buffer', r') \<and>
     (case find_crlf (buffer @ content r) of
        None \<Rightarrow> answer = Inl (line_answer eod limits (buffer @ content r))
      | Some e \<Rightarrow> answer = Inr (buffer', e) \<or>
          answer = Inl (Line_too_long (max_line_bytes limits)) \<and> max_line_bytes limits < int e)"
  using assms(4)
proof (induction "length (content r)" arbitrary: buffer r rule: less_induct)
  case less
  have wrap: "wrap63 (max_line_bytes limits + 2) = max_line_bytes limits + 2"
    using assms(2,3) by (intro wrap63_id) simp_all
  show ?case
  proof (cases "find_crlf buffer")
    case (Some e)
    with find_crlf_prefix [OF Some, of "content r"] show ?thesis
      by (simp add: read_line.simps [of rd eod limits buffer])
  next
    case None
    note buffer = clean_buffer [OF less.prems None]
    obtain slice r' where rd: "rd r = (slice, r')" by (cases "rd r")
    note laws = laws_rd [OF assms(1) rd]
    show ?thesis
    proof (cases "int (length buffer) \<ge> max_line_bytes limits + 2")
      case True
      then show ?thesis
      proof (cases "find_crlf (buffer @ content r)")
        case (Some e)
        with buffer(2) True have "max_line_bytes limits < int e" by fastforce
        with Some True None buffer(1) show ?thesis by (simp add: read_line.simps [of rd eod limits buffer] wrap)
      next
        case (None)
        with True \<open>find_crlf buffer = None\<close> buffer(1) show ?thesis
          by (simp add: read_line.simps [of rd eod limits buffer] wrap line_answer_def)
      qed
    next
      case False
      show ?thesis
      proof (cases "slice = []")
        case True
        with laws have "content r = []" by blast
        with True False None buffer(1) rd show ?thesis
          by (simp add: read_line.simps [of rd eod limits buffer] wrap line_answer_def)
      next
        case going: False
        have same: "(buffer @ slice) @ content r' = buffer @ content r" using laws(1) by simp
        have "clean ((buffer @ slice) @ content r')" using less.prems same by simp
        from less.hyps [OF laws_shorter [OF assms(1) rd going] this] False None buffer(1) rd going
        show ?thesis by (simp only: same read_line.simps [of rd eod limits buffer]) (simp add: wrap)
      qed
    qed
  qed
qed

section \<open>The body loop\<close>

lemma read_body_returns:
  assumes "reader_laws rd pb content"
  shows "\<exists>answer buffer' r'. read_body rd eod size' buffer r = Some (answer, buffer', r') \<and>
     buffer' @ content r' = buffer @ content r \<and> take (length buffer) buffer' = buffer \<and>
     (case answer of
        None \<Rightarrow> size' \<le> length buffer' \<and> size' \<le> length (buffer @ content r)
      | Some error \<Rightarrow> error = (if eod then Unexpected_end else Need_more) \<and> length (buffer @ content r) < size')"
proof (induction "length (content r)" arbitrary: buffer r rule: less_induct)
  case less
  show ?case
  proof (cases "size' \<le> length buffer")
    case True
    then show ?thesis by (simp add: read_body.simps [of rd eod size' buffer])
  next
    case False
    obtain slice r' where rd: "rd r = (slice, r')" by (cases "rd r")
    note laws = laws_rd [OF assms rd]
    show ?thesis
    proof (cases "slice = []")
      case True
      with laws have "content r = []" "content r' = []" by (blast, metis append_self_conv2)
      with True False rd show ?thesis by (simp add: read_body.simps [of rd eod size' buffer])
    next
      case going: False
      from less.hyps [OF laws_shorter [OF assms rd going], of "buffer @ slice"]
      obtain answer buffer' r'' where
        step: "read_body rd eod size' (buffer @ slice) r' = Some (answer, buffer', r'')"
        and "buffer' @ content r'' = (buffer @ slice) @ content r'"
        and "take (length (buffer @ slice)) buffer' = buffer @ slice"
        and "case answer of None \<Rightarrow> size' \<le> length buffer' \<and> size' \<le> length ((buffer @ slice) @ content r')
          | Some error \<Rightarrow> error = (if eod then Unexpected_end else Need_more) \<and>
              length ((buffer @ slice) @ content r') < size'"
        by blast
      moreover from this(3) have "take (length buffer) buffer' = buffer"
        by (metis append_eq_conv_conj append_take_drop_id append.assoc)
      moreover have "read_body rd eod size' buffer r = Some (answer, buffer', r'')"
        using False going rd step by (simp add: read_body.simps [of rd eod size' buffer])
      moreover have same: "(buffer @ slice) @ content r' = buffer @ content r" using laws(1) by simp
      ultimately show ?thesis by (simp only: same) blast
    qed
  qed
qed


section \<open>The whole packet\<close>

text \<open>What the reader should answer, as a function of all bytes that arrive.\<close>

definition read_spec :: "bool \<Rightarrow> limits \<Rightarrow> string \<Rightarrow> packet_error + packet" where
  "read_spec eod limits s =
     (if \<not> valid_limits limits then Inl Invalid_limits
      else case find_crlf s of
        None \<Rightarrow> Inl (line_answer eod limits s)
      | Some line_end \<Rightarrow>
          if max_line_bytes limits < int line_end then Inl (Line_too_long (max_line_bytes limits))
          else (let line = take line_end s in
            case classify line limits of
              Inl error \<Rightarrow> Inl error
            | Inr framing \<Rightarrow>
                (case packet_size line_end framing of
                   Inl error \<Rightarrow> Inl error
                 | Inr size' \<Rightarrow>
                     if max_packet_bytes limits < int size'
                     then Inl (Packet_too_large size' (max_packet_bytes limits))
                     else if length s < size' then Inl (if eod then Unexpected_end else Need_more)
                     else if framing \<noteq> Line \<and> \<not> (s ! (size' - 2) = CR \<and> s ! (size' - 1) = LF)
                     then Inl Invalid_terminator
                     else Inr \<lparr>pk_line = line, pk_body = sub s (line_end + 2) (body_length framing),
                               pk_framing = framing\<rparr>)))"

lemma packet_size_eq:
  "packet_size e framing = Inr n \<Longrightarrow>
     n = (case framing of Line \<Rightarrow> e + 2 | _ \<Rightarrow> e + 2 + body_length framing + 2)"
  by (auto simp: packet_size_def add_size_def body_length_def split: framing.splits sum.splits if_splits)

lemma take_line: "take (length a + 2 + m) (a @ crlf @ x) = a @ crlf @ take m x"
  by (simp add: numeral_2_eq_2)

text \<open>The bytes of an accepted packet are the bytes taken from the input.\<close>

lemma packet_bytes:
  assumes "find_crlf s = Some e" "packet_size e framing = Inr n" "n \<le> length s"
    and "framing \<noteq> Line \<longrightarrow> s ! (n - 2) = CR \<and> s ! (n - 1) = LF"
  shows "packet_to_string \<lparr>pk_line = take e s, pk_body = sub s (e + 2) (body_length framing),
      pk_framing = framing\<rparr> = take n s"
proof -
  have line: "s = take e s @ crlf @ drop (e + 2) s" by (rule find_crlf_Some_split [OF assms(1)])
  have e: "length (take e s) = e" using assms(1) by (simp add: find_crlf_line)
  show ?thesis
  proof (cases "framing = Line")
    case True
    with packet_size_eq [OF assms(2)] have n: "n = e + 2" by simp
    from line have "take n s = take n (take e s @ crlf @ drop (e + 2) s)" by (rule arg_cong)
    also have "\<dots> = take e s @ crlf" using e n by simp
    finally show ?thesis using True by (simp add: packet_to_string_def)
  next
    case False
    let ?b = "body_length framing"
    from packet_size_eq [OF assms(2)] False have n: "n = e + 2 + ?b + 2" by (cases framing) auto
    have tail: "take (?b + 2) (drop (e + 2) s) = sub s (e + 2) ?b @ crlf"
    proof -
      let ?t = "drop (e + 2) s"
      have len: "?b + 2 \<le> length ?t" using assms(3) n by simp
      have "?t ! ?b = CR" "?t ! Suc ?b = LF"
        using assms(3,4) False n len by (simp_all add: add.commute add.left_commute)
      moreover have "take (Suc (Suc ?b)) ?t = take ?b ?t @ [?t ! ?b, ?t ! Suc ?b]"
        using len by (simp add: take_Suc_conv_app_nth)
      ultimately show ?thesis by (simp add: sub_def)
    qed
    have "take n s = take e s @ crlf @ take (?b + 2) (drop (e + 2) s)"
    proof -
      from line have "take n s = take n (take e s @ crlf @ drop (e + 2) s)" by (rule arg_cong)
      also have "\<dots> = take (e + 2 + (?b + 2)) (take e s @ crlf @ drop (e + 2) s)" using n by simp
      also have "\<dots> = take e s @ crlf @ take (?b + 2) (drop (e + 2) s)"
        using take_line [of "take e s" "?b + 2" "drop (e + 2) s"] unfolding e .
      finally show ?thesis .
    qed
    with tail False show ?thesis by (cases framing) (simp_all add: packet_to_string_def)
  qed
qed

lemma sub_prefix: "p + n \<le> length a \<Longrightarrow> sub (a @ b) p n = sub a p n"
  by (simp add: sub_def)

text \<open>
  Once the line is in the buffer the rest of the read is fixed: its answer is that of the
  specification on all the bytes, and no byte is lost.
\<close>

lemma read_rest_spec:
  assumes laws: "reader_laws rd pb content" and "valid_limits limits"
    and e: "find_crlf complete = Some e" and s: "s = complete @ content r"
  shows "\<exists>r'. read_rest rd pb eod limits complete e r = Some (read_spec eod limits s, r') \<and>
     (case read_spec eod limits s of
        Inl _ \<Rightarrow> content r' = s
      | Inr p \<Rightarrow> packet_to_string p @ content r' = s)"
proof -
  have es: "find_crlf s = Some e" using find_crlf_prefix [OF e] s by simp
  have line: "sub complete 0 e = take e s" using e s by (simp add: sub_def find_crlf_line)
  note restored = laws_restore [OF laws]
  show ?thesis
  proof (cases "max_line_bytes limits < int e")
    case True
    then show ?thesis using es s assms(2) by (simp add: read_rest_def read_spec_def restored)
  next
    case short: False
    show ?thesis
    proof (cases "classify (take e s) limits")
      case (Inl error)
      then show ?thesis using short es s assms(2) line by (simp add: read_rest_def read_spec_def restored)
    next
      case class': (Inr framing)
      show ?thesis
      proof (cases "packet_size e framing")
        case (Inl error)
        then show ?thesis using class' short es s assms(2) line by (simp add: read_rest_def read_spec_def restored)
      next
        case size': (Inr n)
        show ?thesis
        proof (cases "max_packet_bytes limits < int n")
          case True
          then show ?thesis
            using size' class' short es s assms(2) line by (simp add: read_rest_def read_spec_def restored)
        next
          case fits: False
          obtain answer buffer' r' where body: "read_body rd eod n complete r = Some (answer, buffer', r')"
            and whole: "buffer' @ content r' = s"
            and answer: "case answer of None \<Rightarrow> n \<le> length buffer' \<and> n \<le> length s
              | Some error \<Rightarrow> error = (if eod then Unexpected_end else Need_more) \<and> length s < n"
            using read_body_returns [OF laws, of eod n complete r] s by blast
          show ?thesis
          proof (cases answer)
            case (Some error)
            then show ?thesis
              using answer body whole size' class' short es s assms(2) line fits
              by (simp add: read_rest_def read_spec_def restored)
          next
            case None
            with answer have n: "n \<le> length buffer'" "n \<le> length s" by simp_all
            from packet_size_eq [OF size'] have n2: "2 \<le> n" and nb: "e + 2 + body_length framing \<le> n"
              by (cases framing; simp add: body_length_def)+
            have ends: "buffer' ! (n - 2) = s ! (n - 2)" "buffer' ! (n - 1) = s ! (n - 1)"
            proof -
              have "s ! i = buffer' ! i" if "i < length buffer'" for i
                unfolding whole [symmetric] using that by (simp add: nth_append)
              then show "buffer' ! (n - 2) = s ! (n - 2)" "buffer' ! (n - 1) = s ! (n - 1)"
                using n n2 by simp_all
            qed
            have body_eq: "sub buffer' (e + 2) (body_length framing) = sub s (e + 2) (body_length framing)"
              using sub_prefix [of "e + 2" "body_length framing" buffer' "content r'"] nb n whole by simp
            show ?thesis
            proof (cases "framing \<noteq> Line \<and> \<not> (s ! (n - 2) = CR \<and> s ! (n - 1) = LF)")
              case True
              then show ?thesis
                using None n body whole size' class' short es s assms(2) line fits ends
                by (simp add: read_rest_def read_spec_def restored)
            next
              case good: False
              let ?p = "\<lparr>pk_line = take e s, pk_body = sub s (e + 2) (body_length framing), pk_framing = framing\<rparr>"
              let ?r = "if length buffer' > n then restore pb r' (sub buffer' n (length buffer' - n)) else r'"
              have spec: "read_spec eod limits s = Inr ?p"
                using n size' class' short es assms(2) fits good by (simp add: read_spec_def)
              have run: "read_rest rd pb eod limits complete e r = Some (Inr ?p, ?r)"
                using None n body size' class' short line fits ends good body_eq
                by (simp add: read_rest_def)
              have bytes: "packet_to_string ?p = take n s"
                by (rule packet_bytes [OF es size' n(2)]) (use good in blast)
              have "content ?r = drop n s"
              proof (cases "length buffer' > n")
                case True
                have "content ?r = drop n buffer' @ content r'" using True by (simp add: restored sub_def)
                with n(1) whole show ?thesis by (metis append_same_eq drop_append drop0 diff_is_0_eq)
              next
                case False
                with n(1) whole show ?thesis by auto
              qed
              with bytes have "packet_to_string ?p @ content ?r = s" by simp
              with spec run show ?thesis by simp
            qed
          qed
        qed
      qed
    qed
  qed
qed


text \<open>On a clean input the whole read answers as specified and loses no byte.\<close>

lemma read_clean:
  assumes "reader_laws rd pb content" and "clean (content r)"
    and "max_line_bytes limits + 2 \<le> int max_int"
  shows "\<exists>r'. read rd pb eod limits r = Some (read_spec eod limits (content r), r') \<and>
    (case read_spec eod limits (content r) of
       Inl _ \<Rightarrow> content r' = content r
     | Inr p \<Rightarrow> packet_to_string p @ content r' = content r)"
proof (cases "valid_limits limits")
  case True
  then have pos: "0 < max_line_bytes limits" by (simp add: valid_limits_def)
  obtain answer buffer' r' where line: "read_line rd eod limits [] r = Some (answer, buffer', r')"
    and answer: "case find_crlf (content r) of
        None \<Rightarrow> answer = Inl (line_answer eod limits (content r))
      | Some e \<Rightarrow> answer = Inr (buffer', e) \<or>
          answer = Inl (Line_too_long (max_line_bytes limits)) \<and> max_line_bytes limits < int e"
    using read_line_clean [OF assms(1) pos assms(3), of "[]" r eod] assms(2) unfolding append_Nil by blast
  from read_line_returns [OF assms(1), of eod limits "[]" r] line
  have whole: "content r = buffer' @ content r'"
    and found: "case answer of Inr (complete, e) \<Rightarrow> find_crlf buffer' = Some e | Inl _ \<Rightarrow> True"
    by (auto split: sum.splits)
  show ?thesis
  proof (cases answer)
    case (Inl error)
    with answer have "read_spec eod limits (content r) = Inl error"
      using True by (auto simp: read_spec_def split: option.splits)
    with Inl line True whole show ?thesis by (simp add: read_def laws_restore [OF assms(1)])
  next
    case (Inr ce)
    with answer found obtain e where "ce = (buffer', e)" "find_crlf buffer' = Some e"
      by (auto split: option.splits)
    then show ?thesis
      using read_rest_spec [OF assms(1) True _ whole, of e eod] line Inr True by (auto simp: read_def)
  qed
qed (simp add: read_def read_spec_def)

text \<open>A printed packet within the limits is what the specification reads.\<close>

lemma read_spec_packet:
  assumes "valid_limits limits" "CR \<notin> set line" "int (length line) \<le> max_line_bytes limits"
    and "classify line limits = Inr framing" "packet_size (length line) framing = Inr n"
    and "int n \<le> max_packet_bytes limits" "length body = body_length framing"
  shows "read_spec eod limits
      (packet_to_string \<lparr>pk_line = line, pk_body = body, pk_framing = framing\<rparr> @ tail) =
    Inr \<lparr>pk_line = line, pk_body = body, pk_framing = framing\<rparr>"
proof (cases "framing = Line")
  case True
  with assms(7) have b: "body = []" by (simp add: body_length_def)
  have n: "n = length line + 2" using packet_size_eq [OF assms(5)] True by simp
  show ?thesis
    using assms True b n find_crlf_append [OF assms(2), of tail]
    by (simp add: packet_to_string_def read_spec_def body_length_def sub_def)
next
  case False
  let ?s = "line @ CR # LF # body @ CR # LF # tail"
  have n: "n = length line + 2 + length body + 2"
    using packet_size_eq [OF assms(5)] False assms(7) by (cases framing) simp_all
  have text': "packet_to_string \<lparr>pk_line = line, pk_body = body, pk_framing = framing\<rparr> @ tail = ?s"
    using False by (cases framing) (simp_all add: packet_to_string_def)
  have split: "?s = (line @ CR # LF # body) @ CR # LF # tail" by simp
  have at: "n - 2 = length (line @ CR # LF # body)" "n - 1 = Suc (length (line @ CR # LF # body))"
    using n by simp_all
  have ends: "?s ! (n - 2) = CR" "?s ! (n - 1) = LF"
    unfolding split at by (simp_all only: nth_append_length nth_append_length_plus add_Suc_right [symmetric])
      (simp add: nth_append)
  have "sub ?s (length line + 2) (body_length framing) = body"
    using assms(7) by (simp add: sub_def)
  moreover have "take (length line) ?s = line" "\<not> length ?s < n" using n by simp_all
  moreover have "find_crlf ?s = Some (length line)" by (rule find_crlf_append [OF assms(2)])
  ultimately show ?thesis
    unfolding text' read_spec_def using assms(1,3,4,5,6) False ends by simp
qed

section \<open>Properties\<close>

text \<open>
  C4: For every reader that keeps its laws the packet reader returns, and it accounts for
  every byte: after an error, a Need_more included, the reader holds exactly what it held
  before; after a packet it holds exactly the bytes that follow it, and the packet prints back
  as the bytes it was read from.
\<close>

theorem packet_read_exact:
  assumes "reader_laws rd pb content"
  shows "\<exists>answer r'. read rd pb eod limits r = Some (answer, r') \<and>
     (case answer of
        Inl error \<Rightarrow> content r' = content r
      | Inr packet \<Rightarrow> packet_to_string packet @ content r' = content r)"
proof (cases "valid_limits limits")
  case True
  obtain answer buffer' r' where line: "read_line rd eod limits [] r = Some (answer, buffer', r')"
    and whole: "buffer' @ content r' = content r"
    and answer: "case answer of Inr (complete, e) \<Rightarrow> complete = buffer' \<and> find_crlf buffer' = Some e | Inl _ \<Rightarrow> True"
    using read_line_returns [OF assms, of eod limits "[]" r] by auto
  show ?thesis
  proof (cases answer)
    case (Inl error)
    then show ?thesis using True line whole by (simp add: read_def laws_restore [OF assms])
  next
    case (Inr ce)
    then obtain e where ce: "ce = (buffer', e)" "find_crlf buffer' = Some e" using answer by (cases ce) auto
    from read_rest_spec [OF assms True ce(2) whole [symmetric], of eod] obtain r'' where
      "read_rest rd pb eod limits buffer' e r' = Some (read_spec eod limits (content r), r'')"
      "case read_spec eod limits (content r) of Inl _ \<Rightarrow> content r'' = content r
       | Inr p \<Rightarrow> packet_to_string p @ content r'' = content r" by blast
    then show ?thesis using True line Inr ce(1) by (simp add: read_def)
  qed
qed (simp add: read_def)

theorem packet_read_exact_witness:
  "\<exists>answer r'. read slices_read slices_push False default_limits [''PI'', ''NG'' @ [CR], [LF], ''PONG''] =
       Some (answer, r') \<and>
     (case answer of
        Inl error \<Rightarrow> concat r' = concat [''PI'', ''NG'' @ [CR], [LF], ''PONG'']
      | Inr packet \<Rightarrow> packet_to_string packet @ concat r' = concat [''PI'', ''NG'' @ [CR], [LF], ''PONG''])"
  by (rule packet_read_exact [OF slices_laws])

text \<open>
  C5: On an input whose control line holds no stray line break the answer depends only on the
  bytes, however they are cut into slices: it is the one the specification gives for the whole
  input.
\<close>

theorem packet_read_spec:
  assumes "reader_laws rd pb content" and "clean (content r)"
    and "max_line_bytes limits + 2 \<le> int max_int"
  shows "\<exists>r'. read rd pb eod limits r = Some (read_spec eod limits (content r), r')"
  using read_clean [OF assms] by blast

theorem packet_read_spec_witness:
  "\<exists>r'. read slices_read slices_push False default_limits [''PI'', ''NG'' @ crlf] =
     Some (read_spec False default_limits (''PING'' @ crlf), r')"
proof -
  have "clean (''PING'' @ crlf)"
    by (simp add: clean_def CR_def LF_def)
  then show ?thesis
    using packet_read_spec [OF slices_laws, of "[''PI'', ''NG'' @ crlf]" default_limits False]
    by (simp add: default_limits_def max_int_def)
qed

text \<open>
  The same bytes, another answer: a carriage return inside the control line is accepted
  when the line arrives together with its end, and rejected as malformed when the end comes in
  a later slice.
\<close>

theorem stray_return_depends_on_slices:
  "read slices_read slices_push False default_limits [''INFO a'' @ [CR] @ ''b'' @ crlf] =
     Some (Inr \<lparr>pk_line = ''INFO a'' @ [CR] @ ''b'', pk_body = [], pk_framing = Line\<rparr>, []) \<and>
   map_option fst (read slices_read slices_push False default_limits [''INFO a'' @ [CR] @ ''b'', crlf]) =
     Some (Inl Malformed_line)"
  by (simp add: read_def valid_limits_def default_limits_def read_line.simps read_body.simps read_rest_def
      slices_read_def classify_def first_word_def sub_def line_keywords_def packet_size_def add_size_def
      max_int_def wrap63_def body_length_def CR_def LF_def Let_def)

text \<open>
  The largest line limit an OCaml integer holds rejects everything: adding the two bytes
  of the line end wraps around, so every read fails as too long before it looks at a byte.
\<close>

theorem largest_line_limit_rejects_all:
  "read rd pb eod (default_limits\<lparr>max_line_bytes := int max_int\<rparr>) r =
     Some (Inl (Line_too_long (int max_int)), r)"
  by (simp add: read_def valid_limits_def default_limits_def read_line.simps restore_def max_int_def wrap63_def)

end
