(* ===== verification/Client.thy ===== *)
theory Client
  imports Ping_Queue Codec PacketReader
begin

text \<open>
  The client state machine (lib/client.ml) with the values it exchanges (lib/info.ml,
  lib/config.ml, lib/error.ml, lib/event.ml). It does no input or output: every operation maps
  a state to a new state, the bytes to send, events and deliveries.

  Two packages are parameters, collected in \<open>platform\<close>: the JSON codec (jsont), which decodes
  the INFO object and encodes the CONNECT object, and the clock arithmetic (mtime). OCaml
  integers are \<open>int\<close> with \<open>wrap63\<close> where the code adds.
\<close>

section \<open>Values\<close>

datatype info_error =
    Invalid_json string
  | Invalid_max_payload int
  | Invalid_protocol int

record server_info =
  i_server_id :: "string option"
  i_server_name :: "string option"
  i_version :: "string option"
  i_proto :: "int option"
  i_max_payload :: int
  i_headers :: bool
  i_no_responders :: bool
  i_auth_required :: bool
  i_tls_required :: bool
  i_nonce :: "string option"
  i_lame_duck_mode :: bool
  i_connect_urls :: "string list"

record info_json =
  ij_server_id :: "string option"
  ij_server_name :: "string option"
  ij_version :: "string option"
  ij_proto :: "int option"
  ij_max_payload :: int
  ij_headers :: "bool option"
  ij_no_responders :: "bool option"
  ij_auth_required :: "bool option"
  ij_tls_required :: "bool option"
  ij_nonce :: "string option"
  ij_lame_duck_mode :: "bool option"
  ij_connect_urls :: "string list option"

record config =
  c_name :: "string option"
  c_headers :: bool
  c_no_echo :: bool
  c_no_responders :: bool
  c_ping_interval :: "nat option"
  c_max_pings_without_pong :: int

datatype config_error =
    Empty_config_name
  | No_responders_without_headers
  | Invalid_ping_interval
  | Invalid_max_pings_without_pong

record credentials =
  cr_auth_token :: "string option"
  cr_user :: "string option"
  cr_pass :: "string option"
  cr_jwt :: "string option"
  cr_nkey :: "string option"
  cr_signature :: "string option"

record connect_json =
  cj_verbose :: bool
  cj_pedantic :: bool
  cj_tls_required :: bool
  cj_name :: "string option"
  cj_lang :: string
  cj_version :: string
  cj_protocol :: int
  cj_echo :: bool
  cj_headers :: bool
  cj_no_responders :: bool
  cj_auth_token :: "string option"
  cj_user :: "string option"
  cj_pass :: "string option"
  cj_jwt :: "string option"
  cj_nkey :: "string option"
  cj_signature :: "string option"

datatype client_error =
    Invalid_config config_error
  | Invalid_info info_error
  | Packet_failure packet_error
  | Codec_failure codec_error
  | Unexpected_operation op
  | Info_not_received
  | Already_connected
  | Not_connected
  | Client_draining
  | Client_closed
  | Headers_not_negotiated
  | Unknown_subscription int
  | Invalid_subscription_id int
  | Invalid_maximum int
  | Max_payload_exceeded nat int

datatype notice = Notice_ok | Notice_pong

datatype client_event =
    Info_event server_info
  | Connected_event
  | Lame_duck_event
  | Server_error_event string
  | Protocol_notice notice
  | Flush_completed
  | Draining_event
  | Closed_event

text \<open>The packages: JSON and time.\<close>

record platform =
  decode_info :: "string \<Rightarrow> string + info_json"
  encode_connect :: "connect_json \<Rightarrow> string + string"
  add_span :: "nat \<Rightarrow> nat \<Rightarrow> nat option"

definition info_of_string :: "platform \<Rightarrow> string \<Rightarrow> info_error + server_info" where
  "info_of_string pf v =
     (case decode_info pf v of
        Inl error \<Rightarrow> Inl (Invalid_json error)
      | Inr j \<Rightarrow>
          if ij_max_payload j \<le> 0 then Inl (Invalid_max_payload (ij_max_payload j))
          else
            (let info = Inr \<lparr>i_server_id = ij_server_id j, i_server_name = ij_server_name j,
                 i_version = ij_version j, i_proto = ij_proto j, i_max_payload = ij_max_payload j,
                 i_headers = (ij_headers j = Some True), i_no_responders = (ij_no_responders j = Some True),
                 i_auth_required = (ij_auth_required j = Some True),
                 i_tls_required = (ij_tls_required j = Some True), i_nonce = ij_nonce j,
                 i_lame_duck_mode = (ij_lame_duck_mode j = Some True),
                 i_connect_urls = (case ij_connect_urls j of None \<Rightarrow> [] | Some urls \<Rightarrow> urls)\<rparr> in
             case ij_proto j of
               Some v \<Rightarrow> if v < 0 then Inl (Invalid_protocol v) else info
             | None \<Rightarrow> info))"

definition config_v ::
  "string option \<Rightarrow> bool \<Rightarrow> bool \<Rightarrow> bool \<Rightarrow> nat option \<Rightarrow> int \<Rightarrow> config_error + config" where
  "config_v name headers no_echo no_responders ping_interval max_pings =
     (if name = Some [] then Inl Empty_config_name
      else if (case ping_interval of Some v \<Rightarrow> v = 0 | None \<Rightarrow> False) then Inl Invalid_ping_interval
      else if max_pings \<le> 0 then Inl Invalid_max_pings_without_pong
      else if no_responders \<and> \<not> headers then Inl No_responders_without_headers
      else Inr \<lparr>c_name = name, c_headers = headers, c_no_echo = no_echo, c_no_responders = no_responders,
        c_ping_interval = ping_interval, c_max_pings_without_pong = max_pings\<rparr>)"

section \<open>State\<close>

datatype phase = Awaiting_info | Awaiting_connect | Connected | Draining | Closed

record subscription =
  s_sid :: int
  s_subject :: string
  s_queue_group :: "string option"
  s_remaining :: "int option"
  s_delivered :: int

record client =
  k_config :: config
  k_phase :: phase
  k_info :: "server_info option"
  k_next_sid :: int
  k_subscriptions :: "subscription list"
  k_draining :: "int list"
  k_pings :: ping_queue
  k_liveness :: int
  k_next_ping :: "nat option"

datatype command =
    Do_connect credentials bool
  | Do_publish message
  | Do_subscribe string "string option"
  | Do_unsubscribe int
  | Do_auto_unsubscribe int int
  | Do_drain_subscription int
  | Do_flush
  | Do_drain
  | Do_close

record delivery =
  d_sid :: int
  d_message :: message
  d_status :: "Codec.status option"
  d_header_block :: bool

record transition =
  t_state :: client
  t_output :: "string list"
  t_events :: "client_event list"
  t_deliveries :: "delivery list"
  t_subscription_id :: "int option"

type_synonym outcome = "client_error + transition"

definition client_v :: "config \<Rightarrow> client" where
  "client_v config = \<lparr>k_config = config, k_phase = Awaiting_info, k_info = None, k_next_sid = 1,
     k_subscriptions = [], k_draining = [], k_pings = empty_ping_queue, k_liveness = 0, k_next_ping = None\<rparr>"

definition subscriptions :: "client \<Rightarrow> subscription list" where
  "subscriptions state = rev (k_subscriptions state)"

definition prepare_reconnect :: "bool \<Rightarrow> client \<Rightarrow> client" where
  "prepare_reconnect preserve_pending_pings state =
     (let pending_pings = (if preserve_pending_pings then k_pings state else empty_ping_queue) in
      state\<lparr>k_phase := Awaiting_info, k_info := None, k_draining := [], k_pings := pending_pings,
        k_liveness := 0, k_next_ping := None\<rparr>)"

definition empty_transition :: "client \<Rightarrow> transition" where
  "empty_transition state =
     \<lparr>t_state = state, t_output = [], t_events = [], t_deliveries = [], t_subscription_id = None\<rparr>"

definition closed_transition :: "client \<Rightarrow> transition" where
  "closed_transition state =
     \<lparr>t_state = state\<lparr>k_phase := Closed, k_next_ping := None\<rparr>, t_output = [],
      t_events = [Closed_event], t_deliveries = [], t_subscription_id = None\<rparr>"

definition next_ping :: "platform \<Rightarrow> config \<Rightarrow> nat \<Rightarrow> nat option" where
  "next_ping pf config now =
     (case c_ping_interval config of None \<Rightarrow> None | Some interval \<Rightarrow> add_span pf now interval)"

definition touch :: "platform \<Rightarrow> client \<Rightarrow> nat \<Rightarrow> client" where
  "touch pf state now = state\<lparr>k_next_ping := next_ping pf (k_config state) now\<rparr>"

definition encode_client :: "limits \<Rightarrow> op \<Rightarrow> client_error + string" where
  "encode_client limits operation =
     (case encode limits operation of Inr wire \<Rightarrow> Inr wire | Inl error \<Rightarrow> Inl (Codec_failure error))"

definition negotiated_limits :: "client \<Rightarrow> limits" where
  "negotiated_limits state =
     (case k_info state of
        None \<Rightarrow> default_limits
      | Some info \<Rightarrow> default_limits\<lparr>max_payload_bytes := i_max_payload info\<rparr>)"

definition encode_with_state :: "client \<Rightarrow> op \<Rightarrow> client_error + string" where
  "encode_with_state state operation = encode_client (negotiated_limits state) operation"

fun encode_loop :: "client \<Rightarrow> op list \<Rightarrow> string list \<Rightarrow> client_error + string list" where
  "encode_loop state [] reversed = Inr (rev reversed)"
| "encode_loop state (operation # tail) reversed =
     (case encode_with_state state operation of
        Inl error \<Rightarrow> Inl error
      | Inr wire \<Rightarrow> encode_loop state tail (wire # reversed))"

definition encode_all :: "client \<Rightarrow> op list \<Rightarrow> client_error + string list" where
  "encode_all state operations = encode_loop state operations []"

definition find_subscription :: "int \<Rightarrow> subscription list \<Rightarrow> subscription option" where
  "find_subscription sid subs = find (\<lambda>s. s_sid s = sid) subs"

definition remove_subscription :: "int \<Rightarrow> subscription list \<Rightarrow> subscription list" where
  "remove_subscription sid subs = filter (\<lambda>s. s_sid s \<noteq> sid) subs"

definition forget_subscription :: "client \<Rightarrow> int \<Rightarrow> client" where
  "forget_subscription state sid =
     state\<lparr>k_subscriptions := remove_subscription sid (k_subscriptions state),
       k_draining := filter (\<lambda>v. v \<noteq> sid) (k_draining state)\<rparr>"

definition require_connected :: "client \<Rightarrow> client_error option" where
  "require_connected state =
     (case k_phase state of
        Connected \<Rightarrow> None
      | Awaiting_info \<Rightarrow> Some Not_connected
      | Awaiting_connect \<Rightarrow> Some Not_connected
      | Draining \<Rightarrow> Some Client_draining
      | Closed \<Rightarrow> Some Client_closed)"

section \<open>Incoming operations\<close>

definition quote :: char where "quote = CHR 0x27"

definition server_error_message :: "string \<Rightarrow> string" where
  "server_error_message v =
     (let n = length v in
      if n \<ge> 2 \<and> v ! 0 = quote \<and> v ! (n - 1) = quote then sub v 1 (n - 2) else v)"

definition info_events :: "server_info \<Rightarrow> client_event list" where
  "info_events info =
     (if i_lame_duck_mode info then [Info_event info, Lame_duck_event] else [Info_event info])"

definition incoming_message ::
  "platform \<Rightarrow> client \<Rightarrow> nat \<Rightarrow> int \<Rightarrow> message \<Rightarrow> Codec.status option \<Rightarrow> bool \<Rightarrow> outcome" where
  "incoming_message pf state now sid message status has_block =
     (case find_subscription sid (k_subscriptions state) of
        None \<Rightarrow> Inr (empty_transition state)
      | Some subscription \<Rightarrow>
          (let delivered = wrap63 (s_delivered subscription + 1);
               subs =
                 (case s_remaining subscription of
                    None \<Rightarrow>
                      map (\<lambda>v. if s_sid v = sid then v\<lparr>s_delivered := delivered\<rparr> else v) (k_subscriptions state)
                  | Some remaining \<Rightarrow>
                      if remaining = 1 then remove_subscription sid (k_subscriptions state)
                      else
                        (let replacement =
                           subscription\<lparr>s_remaining := Some (wrap63 (remaining - 1)), s_delivered := delivered\<rparr> in
                         map (\<lambda>v. if s_sid v = sid then replacement else v) (k_subscriptions state))) in
           Inr \<lparr>t_state = touch pf (state\<lparr>k_subscriptions := subs\<rparr>) now, t_output = [], t_events = [],
             t_deliveries = [\<lparr>d_sid = sid, d_message = message, d_status = status,
               d_header_block = has_block\<rparr>],
             t_subscription_id = None\<rparr>))"

definition handle_info :: "platform \<Rightarrow> client \<Rightarrow> nat \<Rightarrow> string \<Rightarrow> phase \<Rightarrow> outcome" where
  "handle_info pf state now json phase =
     (case info_of_string pf json of
        Inl error \<Rightarrow> Inl (Invalid_info error)
      | Inr info \<Rightarrow>
          Inr \<lparr>t_state = touch pf (state\<lparr>k_phase := phase, k_info := Some info\<rparr>) now, t_output = [],
            t_events = info_events info, t_deliveries = [], t_subscription_id = None\<rparr>)"

definition handle_ping :: "platform \<Rightarrow> client \<Rightarrow> nat \<Rightarrow> outcome" where
  "handle_ping pf state now =
     (case encode_with_state state Pong of
        Inl error \<Rightarrow> Inl error
      | Inr wire \<Rightarrow> Inr ((empty_transition (touch pf state now))\<lparr>t_output := [wire]\<rparr>))"

definition pong_state :: "client \<Rightarrow> client \<times> client_event list" where
  "pong_state state =
     (case take_ping (k_pings state) of
        None \<Rightarrow> (state\<lparr>k_liveness := 0\<rparr>, [Protocol_notice Notice_pong])
      | Some (origin, pending_pings) \<Rightarrow>
          (let state = state\<lparr>k_pings := pending_pings, k_liveness := 0\<rparr> in
           case origin of
             Liveness \<Rightarrow> (state, [])
           | Flush_ping \<Rightarrow> (state, [Flush_completed])
           | Drain_ping \<Rightarrow> (state\<lparr>k_subscriptions := [], k_draining := []\<rparr>, [Flush_completed])
           | Subscription_drain sid \<Rightarrow> (forget_subscription state sid, [Flush_completed])))"

definition handle_pong :: "platform \<Rightarrow> client \<Rightarrow> nat \<Rightarrow> outcome" where
  "handle_pong pf state now =
     (case pong_state state of
        (state, events) \<Rightarrow>
          Inr \<lparr>t_state = touch pf state now, t_output = [], t_events = events, t_deliveries = [],
            t_subscription_id = None\<rparr>)"

definition handle_open :: "platform \<Rightarrow> client \<Rightarrow> nat \<Rightarrow> op \<Rightarrow> outcome" where
  "handle_open pf state now operation =
     (case operation of
        Info json \<Rightarrow> handle_info pf state now json (k_phase state)
      | Ping \<Rightarrow> handle_ping pf state now
      | Pong \<Rightarrow> handle_pong pf state now
      | Ok \<Rightarrow>
          Inr \<lparr>t_state = touch pf state now, t_output = [], t_events = [Protocol_notice Notice_ok],
            t_deliveries = [], t_subscription_id = None\<rparr>
      | Server_error message \<Rightarrow>
          Inr \<lparr>t_state = touch pf state now, t_output = [],
            t_events = [Server_error_event (server_error_message message)],
            t_deliveries = [], t_subscription_id = None\<rparr>
      | Msg sid message \<Rightarrow> incoming_message pf state now sid message None False
      | Hmsg sid message status \<Rightarrow> incoming_message pf state now sid message status True
      | _ \<Rightarrow> Inl (Unexpected_operation operation))"

definition handle_operation :: "platform \<Rightarrow> client \<Rightarrow> nat \<Rightarrow> op \<Rightarrow> outcome" where
  "handle_operation pf state now operation =
     (case k_phase state of
        Closed \<Rightarrow> Inl Client_closed
      | Awaiting_info \<Rightarrow>
          (case operation of
             Info json \<Rightarrow> handle_info pf state now json Awaiting_connect
           | Ping \<Rightarrow> handle_ping pf state now
           | _ \<Rightarrow> Inl (Unexpected_operation operation))
      | Awaiting_connect \<Rightarrow>
          (case operation of
             Info json \<Rightarrow> handle_info pf state now json (k_phase state)
           | Ping \<Rightarrow> handle_ping pf state now
           | _ \<Rightarrow> Inl (Unexpected_operation operation))
      | Connected \<Rightarrow> handle_open pf state now operation
      | Draining \<Rightarrow> handle_open pf state now operation)"

definition incoming ::
  "platform \<Rightarrow> ('r \<Rightarrow> string \<times> 'r) \<Rightarrow> ('r \<Rightarrow> string \<Rightarrow> 'r) \<Rightarrow> bool \<Rightarrow> client \<Rightarrow> nat \<Rightarrow> 'r \<Rightarrow>
   (outcome \<times> 'r) option" where
  "incoming pf rd pb eod state now reader =
     (case codec_read rd pb eod default_limits reader of
        None \<Rightarrow> None
      | Some (Inr operation, reader') \<Rightarrow> Some (handle_operation pf state now operation, reader')
      | Some (Inl error, reader') \<Rightarrow>
          Some
            (case error of
               Packet_error Need_more \<Rightarrow> Inr (empty_transition state)
             | Packet_error End_of_input \<Rightarrow> Inr (closed_transition state)
             | Packet_error error \<Rightarrow> Inl (Packet_failure error)
             | error \<Rightarrow> Inl (Codec_failure error), reader'))"

section \<open>Outgoing commands\<close>

definition replay_operations :: "subscription list \<Rightarrow> op list" where
  "replay_operations subs =
     foldl (\<lambda>operations subscription.
       let subscribe = Sub (s_subject subscription) (s_queue_group subscription) (s_sid subscription) in
       case s_remaining subscription of
         None \<Rightarrow> subscribe # operations
       | Some remaining \<Rightarrow> subscribe # Unsub (s_sid subscription) (Some remaining) # operations) [] subs"

definition connect_value :: "client \<Rightarrow> server_info \<Rightarrow> credentials \<Rightarrow> bool \<Rightarrow> connect_json" where
  "connect_value state info credentials tls_required =
     \<lparr>cj_verbose = False, cj_pedantic = False, cj_tls_required = tls_required,
      cj_name = c_name (k_config state), cj_lang = ''ocaml'', cj_version = ''0.1.0'', cj_protocol = 1,
      cj_echo = (\<not> c_no_echo (k_config state)), cj_headers = c_headers (k_config state),
      cj_no_responders = (c_no_responders (k_config state) \<and> i_headers info),
      cj_auth_token = cr_auth_token credentials, cj_user = cr_user credentials,
      cj_pass = cr_pass credentials, cj_jwt = cr_jwt credentials, cj_nkey = cr_nkey credentials,
      cj_signature = cr_signature credentials\<rparr>"

text \<open>
  \<open>assert false\<close> is \<open>None\<close>: the outgoing operations answer with an optional outcome, and
  \<open>outgoing_total\<close> shows that it is never reached from a reachable state.
\<close>

definition outgoing_connect :: "platform \<Rightarrow> client \<Rightarrow> credentials \<Rightarrow> bool \<Rightarrow> outcome option" where
  "outgoing_connect pf state credentials tls_required =
     (case k_phase state of
        Awaiting_info \<Rightarrow> Some (Inl Info_not_received)
      | Awaiting_connect \<Rightarrow>
          (case k_info state of
             None \<Rightarrow> None
           | Some info \<Rightarrow>
               Some
                 (case encode_connect pf (connect_value state info credentials tls_required) of
                    Inl error \<Rightarrow> Inl (Invalid_info (Invalid_json error))
                  | Inr json \<Rightarrow>
                      (case encode_with_state state (Connect json) of
                         Inl error \<Rightarrow> Inl error
                       | Inr wire \<Rightarrow>
                           (case encode_all state (replay_operations (k_subscriptions state)) of
                              Inl error \<Rightarrow> Inl error
                            | Inr replay \<Rightarrow>
                                Inr \<lparr>t_state = state\<lparr>k_phase := Connected\<rparr>, t_output = wire # replay,
                                  t_events = [Connected_event], t_deliveries = [],
                                  t_subscription_id = None\<rparr>))))
      | Connected \<Rightarrow> Some (Inl Already_connected)
      | Draining \<Rightarrow> Some (Inl Client_draining)
      | Closed \<Rightarrow> Some (Inl Client_closed))"

definition publish_error :: "client_error \<Rightarrow> client_error" where
  "publish_error error =
     (case error of
        Codec_failure (Packet_error (Payload_too_large size' limit)) \<Rightarrow> Max_payload_exceeded size' limit
      | _ \<Rightarrow> error)"

definition outgoing_publish :: "client \<Rightarrow> message \<Rightarrow> outcome" where
  "outgoing_publish state message =
     (case require_connected state of
        Some error \<Rightarrow> Inl error
      | None \<Rightarrow>
          (let headers = m_headers message in
           if headers \<noteq> [] \<and> (case k_info state of Some info \<Rightarrow> \<not> i_headers info | None \<Rightarrow> True)
           then Inl Headers_not_negotiated
           else
             (let operation = (if headers = [] then Pub message else Hpub message None) in
              case encode_with_state state operation of
                Inl error \<Rightarrow> Inl (publish_error error)
              | Inr wire \<Rightarrow> Inr ((empty_transition state)\<lparr>t_output := [wire]\<rparr>))))"

definition outgoing_subscribe :: "client \<Rightarrow> string \<Rightarrow> string option \<Rightarrow> outcome" where
  "outgoing_subscribe state subj queue =
     (let sid = k_next_sid state;
          subscription = \<lparr>s_sid = sid, s_subject = subj, s_queue_group = queue, s_remaining = None,
            s_delivered = 0\<rparr>;
          state = state\<lparr>k_next_sid := wrap63 (sid + 1),
            k_subscriptions := subscription # k_subscriptions state\<rparr>;
          silent = Inr \<lparr>t_state = state, t_output = [], t_events = [], t_deliveries = [],
            t_subscription_id = Some sid\<rparr> in
      case k_phase state of
        Awaiting_info \<Rightarrow> silent
      | Awaiting_connect \<Rightarrow> silent
      | Connected \<Rightarrow>
          (case encode_with_state state (Sub subj queue sid) of
             Inl error \<Rightarrow> Inl error
           | Inr wire \<Rightarrow>
               Inr \<lparr>t_state = state, t_output = [wire], t_events = [], t_deliveries = [],
                 t_subscription_id = Some sid\<rparr>)
      | Draining \<Rightarrow> Inl Client_draining
      | Closed \<Rightarrow> Inl Client_closed)"

definition unsubscribed :: "client \<Rightarrow> subscription \<Rightarrow> int \<Rightarrow> int option \<Rightarrow> subscription list \<times> int option" where
  "unsubscribed state subscription sid max_messages =
     (case max_messages of
        None \<Rightarrow> (remove_subscription sid (k_subscriptions state), None)
      | Some m \<Rightarrow>
          if s_delivered subscription \<ge> m then (remove_subscription sid (k_subscriptions state), None)
          else
            (map (\<lambda>v. if s_sid v = sid then v\<lparr>s_remaining := Some (wrap63 (m - s_delivered v))\<rparr> else v)
               (k_subscriptions state), Some m))"

definition outgoing_unsubscribe :: "client \<Rightarrow> int \<Rightarrow> int option \<Rightarrow> outcome" where
  "outgoing_unsubscribe state sid max_messages =
     (if sid \<le> 0 then Inl (Invalid_subscription_id sid)
      else
        (case find_subscription sid (k_subscriptions state) of
           None \<Rightarrow> Inl (Unknown_subscription sid)
         | Some subscription \<Rightarrow>
             (case unsubscribed state subscription sid max_messages of
                (subs, wire_max_messages) \<Rightarrow>
                  (let state = state\<lparr>k_subscriptions := subs,
                         k_draining := filter (\<lambda>v. v \<noteq> sid) (k_draining state)\<rparr> in
                   case k_phase state of
                     Awaiting_info \<Rightarrow> Inr (empty_transition state)
                   | Awaiting_connect \<Rightarrow> Inr (empty_transition state)
                   | Connected \<Rightarrow>
                       (case encode_with_state state (Unsub sid wire_max_messages) of
                          Inl error \<Rightarrow> Inl error
                        | Inr wire \<Rightarrow> Inr ((empty_transition state)\<lparr>t_output := [wire]\<rparr>))
                   | Draining \<Rightarrow> Inl Client_draining
                   | Closed \<Rightarrow> Inl Client_closed))))"

definition outgoing_drain_subscription :: "client \<Rightarrow> int \<Rightarrow> outcome" where
  "outgoing_drain_subscription state sid =
     (case require_connected state of
        Some error \<Rightarrow> Inl error
      | None \<Rightarrow>
          if sid \<le> 0 then Inl (Invalid_subscription_id sid)
          else if list_ex (\<lambda>v. v = sid) (k_draining state) then Inl Client_draining
          else
            (case find_subscription sid (k_subscriptions state) of
               None \<Rightarrow> Inl (Unknown_subscription sid)
             | Some _ \<Rightarrow>
                 (case encode_all state [Unsub sid None, Ping] of
                    Inl error \<Rightarrow> Inl error
                  | Inr wire \<Rightarrow>
                      Inr ((empty_transition
                        (state\<lparr>k_draining := sid # k_draining state,
                           k_pings := enqueue_ping (k_pings state) (Subscription_drain sid)\<rparr>))
                        \<lparr>t_output := wire\<rparr>))))"

definition outgoing_flush :: "client \<Rightarrow> outcome" where
  "outgoing_flush state =
     (if k_phase state = Closed then Inl Client_closed
      else
        (case encode_with_state state Ping of
           Inl error \<Rightarrow> Inl error
         | Inr wire \<Rightarrow>
             Inr ((empty_transition (state\<lparr>k_pings := enqueue_ping (k_pings state) Flush_ping\<rparr>))
               \<lparr>t_output := [wire]\<rparr>)))"

definition drain_operations :: "client \<Rightarrow> op list" where
  "drain_operations state =
     foldl (\<lambda>operations subscription.
       if list_ex (\<lambda>sid. sid = s_sid subscription) (k_draining state) then operations
       else Unsub (s_sid subscription) None # operations) [Ping] (k_subscriptions state)"

definition outgoing_drain :: "client \<Rightarrow> outcome" where
  "outgoing_drain state =
     (case k_phase state of
        Connected \<Rightarrow>
          (case encode_all state (drain_operations state) of
             Inl error \<Rightarrow> Inl error
           | Inr wire \<Rightarrow>
               Inr \<lparr>t_state = state\<lparr>k_phase := Draining, k_pings := enqueue_ping (k_pings state) Drain_ping\<rparr>,
                 t_output = wire, t_events = [Draining_event], t_deliveries = [],
                 t_subscription_id = None\<rparr>)
      | Awaiting_info \<Rightarrow> Inl Not_connected
      | Awaiting_connect \<Rightarrow> Inl Not_connected
      | Draining \<Rightarrow> Inl Client_draining
      | Closed \<Rightarrow> Inl Client_closed)"

definition outgoing :: "platform \<Rightarrow> client \<Rightarrow> command \<Rightarrow> outcome option" where
  "outgoing pf state command =
     (case command of
        Do_connect credentials tls_required \<Rightarrow> outgoing_connect pf state credentials tls_required
      | Do_publish message \<Rightarrow> Some (outgoing_publish state message)
      | Do_subscribe subj queue \<Rightarrow> Some (outgoing_subscribe state subj queue)
      | Do_unsubscribe sid \<Rightarrow> Some (outgoing_unsubscribe state sid None)
      | Do_auto_unsubscribe sid max_messages \<Rightarrow>
          Some (if max_messages \<le> 0 then Inl (Invalid_maximum max_messages)
                else outgoing_unsubscribe state sid (Some max_messages))
      | Do_drain_subscription sid \<Rightarrow> Some (outgoing_drain_subscription state sid)
      | Do_flush \<Rightarrow> Some (outgoing_flush state)
      | Do_drain \<Rightarrow> Some (outgoing_drain state)
      | Do_close \<Rightarrow>
          Some (if k_phase state = Closed then Inl Client_closed else Inr (closed_transition state)))"

section \<open>Time\<close>

definition timer :: "platform \<Rightarrow> client \<Rightarrow> nat \<Rightarrow> transition" where
  "timer pf state now =
     (case (k_phase state, k_next_ping state) of
        (Connected, Some deadline) \<Rightarrow>
          if now < deadline then empty_transition state
          else if k_liveness state \<ge> c_max_pings_without_pong (k_config state) then closed_transition state
          else
            (let state = state\<lparr>k_next_ping := next_ping pf (k_config state) now,
                   k_liveness := wrap63 (k_liveness state + 1),
                   k_pings := enqueue_ping (k_pings state) Liveness\<rparr> in
             case encode_with_state state Ping of
               Inl _ \<Rightarrow> closed_transition state
             | Inr wire \<Rightarrow> (empty_transition state)\<lparr>t_output := [wire]\<rparr>)
      | _ \<Rightarrow> empty_transition state)"

definition next_timeout :: "client \<Rightarrow> nat option" where
  "next_timeout state = (if k_phase state = Connected then k_next_ping state else None)"

end
