(* ===== verification/ClientTable.thy ===== *)
theory ClientTable
  imports Client
begin

text \<open>
  The contract of the client: the steps it takes, the table of subscriptions seen as a map
  from ids and what each step should do to it, the invariant of the reachable states and that
  every operation keeps it.
\<close>

section \<open>Steps\<close>

text \<open>
  Everything that can happen to a client: a command, a decoded operation at a time, the end of
  the input, a timer, and the two adapter calls. A step the client rejects leaves its caller
  with the state it had.
\<close>

datatype client_step =
    Command command
  | Incoming nat op
  | End_of_data
  | Tick nat
  | Reconnect bool
  | Forget int

definition step_outcome :: "platform \<Rightarrow> client \<Rightarrow> client_step \<Rightarrow> outcome option" where
  "step_outcome pf state s =
     (case s of
        Command c \<Rightarrow> outgoing pf state c
      | Incoming now operation \<Rightarrow> Some (handle_operation pf state now operation)
      | End_of_data \<Rightarrow> Some (Inr (closed_transition state))
      | Tick now \<Rightarrow> Some (Inr (timer pf state now))
      | Reconnect preserve \<Rightarrow> Some (Inr (empty_transition (prepare_reconnect preserve state)))
      | Forget sid \<Rightarrow> Some (Inr (empty_transition (forget_subscription state sid))))"

definition accepted :: "platform \<Rightarrow> client \<Rightarrow> client_step \<Rightarrow> bool" where
  "accepted pf state s \<longleftrightarrow> (case step_outcome pf state s of Some (Inr _) \<Rightarrow> True | _ \<Rightarrow> False)"

definition after :: "platform \<Rightarrow> client \<Rightarrow> client_step \<Rightarrow> transition" where
  "after pf state s = (case step_outcome pf state s of Some (Inr t) \<Rightarrow> t | _ \<Rightarrow> empty_transition state)"

fun run :: "platform \<Rightarrow> client \<Rightarrow> client_step list \<Rightarrow> client \<times> delivery list" where
  "run pf state [] = (state, [])"
| "run pf state (s # ss) =
     (let t = after pf state s; (state', ds) = run pf (t_state t) ss in (state', t_deliveries t @ ds))"

section \<open>The table\<close>

definition table :: "client \<Rightarrow> int \<Rightarrow> subscription option" where
  "table state sid = find_subscription sid (k_subscriptions state)"

definition deliver_table :: "int \<Rightarrow> (int \<Rightarrow> subscription option) \<Rightarrow> int \<Rightarrow> subscription option" where
  "deliver_table sid t =
     (case t sid of
        None \<Rightarrow> t
      | Some s \<Rightarrow>
          t(sid := (if s_remaining s = Some 1 then None
            else Some (s\<lparr>s_remaining := map_option (\<lambda>r. r - 1) (s_remaining s),
                         s_delivered := s_delivered s + 1\<rparr>))))"

definition limit_table :: "int \<Rightarrow> int \<Rightarrow> (int \<Rightarrow> subscription option) \<Rightarrow> int \<Rightarrow> subscription option" where
  "limit_table sid m t =
     (case t sid of
        None \<Rightarrow> t
      | Some s \<Rightarrow>
          t(sid := (if s_delivered s \<ge> m then None else Some (s\<lparr>s_remaining := Some (m - s_delivered s)\<rparr>))))"

text \<open>What each accepted step does to the table.\<close>

fun table_after :: "client \<Rightarrow> client_step \<Rightarrow> int \<Rightarrow> subscription option" where
  "table_after state (Command (Do_subscribe f q)) =
     (table state)(k_next_sid state \<mapsto> \<lparr>s_sid = k_next_sid state, s_subject = f, s_queue_group = q,
        s_remaining = None, s_delivered = 0\<rparr>)"
| "table_after state (Command (Do_unsubscribe sid)) = (table state)(sid := None)"
| "table_after state (Command (Do_auto_unsubscribe sid m)) = limit_table sid m (table state)"
| "table_after state (Incoming now (Msg sid message)) = deliver_table sid (table state)"
| "table_after state (Incoming now (Hmsg sid message status)) = deliver_table sid (table state)"
| "table_after state (Incoming now Pong) =
     (case pings (k_pings state) of
        Drain_ping # _ \<Rightarrow> (\<lambda>_. None)
      | Subscription_drain sid # _ \<Rightarrow> (table state)(sid := None)
      | _ \<Rightarrow> table state)"
| "table_after state (Forget sid) = (table state)(sid := None)"
| "table_after state _ = table state"

lemma find_remove: "find_subscription x (remove_subscription sid subs) =
    (if x = sid then None else find_subscription x subs)"
  by (induction subs) (auto simp: find_subscription_def remove_subscription_def)

lemma find_update:
  "(\<And>v. s_sid v = sid \<Longrightarrow> s_sid (g v) = sid) \<Longrightarrow>
   find_subscription x (map (\<lambda>v. if s_sid v = sid then g v else v) subs) =
     (if x = sid then map_option g (find_subscription x subs) else find_subscription x subs)"
  by (induction subs) (auto simp: find_subscription_def)

lemma find_Some: "find_subscription sid subs = Some s \<Longrightarrow> s \<in> set subs \<and> s_sid s = sid"
  by (auto simp: find_subscription_def find_Some_iff)

lemma find_None: "find_subscription sid subs = None \<longleftrightarrow> sid \<notin> s_sid ` set subs"
  by (auto simp: find_subscription_def find_None_iff)

section \<open>The invariant\<close>

text \<open>
  After at most \<open>n\<close> steps: ids were handed out below \<open>k_next_sid\<close>, newest subscription first,
  counters are below the range of the integers, and a client past INFO knows the server.
\<close>

definition wf_subscription :: "int \<Rightarrow> int \<Rightarrow> subscription \<Rightarrow> bool" where
  "wf_subscription n next s \<longleftrightarrow>
     0 < s_sid s \<and> s_sid s < next \<and> 0 \<le> s_delivered s \<and> s_delivered s \<le> n \<and>
     (case s_remaining s of None \<Rightarrow> True | Some r \<Rightarrow> 1 \<le> r \<and> r \<le> int max_int)"

definition wf_client :: "int \<Rightarrow> client \<Rightarrow> bool" where
  "wf_client n state \<longleftrightarrow>
     1 \<le> k_next_sid state \<and> k_next_sid state \<le> n + 1 \<and>
     list_all (wf_subscription n (k_next_sid state)) (k_subscriptions state) \<and>
     sorted_wrt (\<lambda>a b. s_sid a > s_sid b) (k_subscriptions state) \<and>
     distinct (k_draining state) \<and> list_all (\<lambda>v. 0 < v \<and> v < k_next_sid state) (k_draining state) \<and>
     0 < c_max_pings_without_pong (k_config state) \<and> c_max_pings_without_pong (k_config state) \<le> int max_int \<and>
     0 \<le> k_liveness state \<and> k_liveness state \<le> c_max_pings_without_pong (k_config state) \<and>
     (k_phase state \<in> {Awaiting_connect, Connected, Draining} \<longrightarrow> k_info state \<noteq> None)"

text \<open>Integers a program can pass, as the steps carry them.\<close>

definition wf_step :: "client_step \<Rightarrow> bool" where
  "wf_step s \<longleftrightarrow> (case s of Command (Do_auto_unsubscribe sid m) \<Rightarrow> m \<le> int max_int | _ \<Rightarrow> True)"

lemma wrap_small: "0 \<le> i \<Longrightarrow> i \<le> int max_int \<Longrightarrow> wrap63 i = i"
  by (rule wrap63_id) simp_all

lemma wf_subscription_mono: "wf_subscription n next s \<Longrightarrow> n \<le> n' \<Longrightarrow> next \<le> next' \<Longrightarrow> wf_subscription n' next' s"
  by (auto simp: wf_subscription_def)

lemma wf_client_Suc: "wf_client n state \<Longrightarrow> wf_client (n + 1) state"
  by (auto simp: wf_client_def list_all_iff intro: wf_subscription_mono)

text \<open>Steps that leave the subscriptions alone.\<close>

lemma wf_frame:
  assumes "wf_client n state"
    and "k_subscriptions state' = k_subscriptions state" "k_next_sid state' = k_next_sid state"
    and "k_draining state' = k_draining state \<or> k_draining state' = []"
    and "k_config state' = k_config state"
    and "0 \<le> k_liveness state'" "k_liveness state' \<le> c_max_pings_without_pong (k_config state)"
    and "k_phase state' \<in> {Awaiting_connect, Connected, Draining} \<Longrightarrow> k_info state' \<noteq> None"
  shows "wf_client n state'"
  using assms by (auto simp: wf_client_def)

lemma wf_filtered:
  assumes "wf_client n state"
  shows "wf_client n (state\<lparr>k_subscriptions := filter P (k_subscriptions state), k_draining := filter Q (k_draining state)\<rparr>)"
  using assms by (auto simp: wf_client_def list_all_iff sorted_wrt_filter)

lemma wf_mapped:
  assumes "wf_client n state" "n \<le> n'"
    and "\<And>s. s \<in> set (k_subscriptions state) \<Longrightarrow> wf_subscription n (k_next_sid state) s \<Longrightarrow>
      wf_subscription n' (k_next_sid state) (g s)"
    and "\<And>s. s_sid (g s) = s_sid s"
  shows "wf_client n' (state\<lparr>k_subscriptions := map g (k_subscriptions state), k_draining := filter Q (k_draining state)\<rparr>)"
  using assms by (auto simp: wf_client_def list_all_iff sorted_wrt_map)

section \<open>The effect of each operation\<close>

lemma transition_simps [simp]:
  "t_state (empty_transition st) = st" "t_deliveries (empty_transition st) = []"
  "t_output (empty_transition st) = []" "t_events (empty_transition st) = []"
  "t_state (closed_transition st) = st\<lparr>k_phase := Closed, k_next_ping := None\<rparr>"
  "t_deliveries (closed_transition st) = []" "t_output (closed_transition st) = []"
  by (simp_all add: empty_transition_def closed_transition_def)

lemma connect_effect:
  assumes "outgoing_connect pf state credentials tls = Some (Inr t)"
  shows "t_state t = state\<lparr>k_phase := Connected\<rparr>" "t_deliveries t = []" "k_info state \<noteq> None"
  using assms by (auto simp: outgoing_connect_def split: phase.splits option.splits sum.splits)

lemma publish_effect:
  assumes "outgoing_publish state m = Inr t"
  shows "t_state t = state" "t_deliveries t = []"
  using assms
  by (auto simp: outgoing_publish_def Let_def
      split: option.splits sum.splits if_splits)

lemma subscribe_effect:
  assumes "outgoing_subscribe state f q = Inr t"
  shows "t_state t = state\<lparr>k_next_sid := wrap63 (k_next_sid state + 1),
      k_subscriptions := \<lparr>s_sid = k_next_sid state, s_subject = f, s_queue_group = q, s_remaining = None,
        s_delivered = 0\<rparr> # k_subscriptions state\<rparr>"
    and "t_deliveries t = []" and "t_subscription_id t = Some (k_next_sid state)"
  using assms by (auto simp: outgoing_subscribe_def Let_def split: phase.splits sum.splits)

lemma unsubscribe_effect:
  assumes "outgoing_unsubscribe state sid max_messages = Inr t"
  obtains s where "0 < sid" "table state sid = Some s"
    "t_state t = state\<lparr>k_subscriptions := fst (unsubscribed state s sid max_messages),
       k_draining := filter (\<lambda>v. v \<noteq> sid) (k_draining state)\<rparr>"
    "t_deliveries t = []"
  using assms
  by (auto simp: outgoing_unsubscribe_def table_def Let_def
      split: phase.splits sum.splits if_splits option.splits prod.splits)

lemma drain_subscription_effect:
  assumes "outgoing_drain_subscription state sid = Inr t"
  shows "t_state t = state\<lparr>k_draining := sid # k_draining state,
      k_pings := enqueue_ping (k_pings state) (Subscription_drain sid)\<rparr>"
    and "t_deliveries t = []" and "0 < sid" and "sid \<notin> set (k_draining state)" and "table state sid \<noteq> None"
  using assms
  by (auto simp: outgoing_drain_subscription_def table_def list_ex_iff
      split: sum.splits if_splits option.splits)

lemma flush_effect:
  assumes "outgoing_flush state = Inr t"
  shows "t_state t = state\<lparr>k_pings := enqueue_ping (k_pings state) Flush_ping\<rparr>" "t_deliveries t = []"
  using assms by (auto simp: outgoing_flush_def split: sum.splits if_splits)

lemma drain_effect:
  assumes "outgoing_drain state = Inr t"
  shows "t_state t = state\<lparr>k_phase := Draining, k_pings := enqueue_ping (k_pings state) Drain_ping\<rparr>"
    and "t_deliveries t = []" and "k_phase state = Connected"
  using assms by (auto simp: outgoing_drain_def split: sum.splits phase.splits)

lemma timer_effect:
  obtains "t_state (timer pf state now) = state"
  | phase' ping' where "t_state (timer pf state now) = state\<lparr>k_phase := phase', k_next_ping := ping'\<rparr>"
      "phase' = Closed"
  | phase' ping' where "k_phase state = Connected" "k_liveness state < c_max_pings_without_pong (k_config state)"
      "t_state (timer pf state now) = state\<lparr>k_next_ping := ping', k_liveness := wrap63 (k_liveness state + 1),
         k_pings := enqueue_ping (k_pings state) Liveness, k_phase := phase'\<rparr>"
      "phase' = Closed \<or> phase' = Connected"
proof (cases "k_phase state = Connected \<and> k_next_ping state \<noteq> None")
  case True
  then obtain deadline where d: "k_phase state = Connected" "k_next_ping state = Some deadline" by blast
  show ?thesis
  proof (cases "now < deadline")
    case True
    with d that(1) show ?thesis by (simp add: timer_def)
  next
    case late: False
    show ?thesis
    proof (cases "k_liveness state \<ge> c_max_pings_without_pong (k_config state)")
      case True
      with late d show ?thesis by (intro that(2)) (simp_all add: timer_def)
    next
      case False
      with late d show ?thesis
        by (cases "encode_with_state (state\<lparr>k_next_ping := next_ping pf (k_config state) now,
              k_liveness := wrap63 (k_liveness state + 1),
              k_pings := enqueue_ping (k_pings state) Liveness\<rparr>) Ping")
           (auto simp: timer_def Let_def intro: that(3) [of Closed None] that(3) [of "k_phase state" "next_ping pf (k_config state) now"])
    qed
  qed
next
  case False
  with that(1) show ?thesis by (auto simp: timer_def split: phase.splits option.splits)
qed

lemma timer_deliveries [simp]: "t_deliveries (timer pf state now) = []"
  by (auto simp: timer_def Let_def split: phase.splits option.splits sum.splits)

lemma message_effect:
  obtains (unknown) "table state sid = None"
      "incoming_message pf state now sid message status block = Inr (empty_transition state)"
  | (known) s t subs where "table state sid = Some s"
      "incoming_message pf state now sid message status block = Inr t"
      "t_state t = touch pf (state\<lparr>k_subscriptions := subs\<rparr>) now"
      "subs = (if s_remaining s = Some 1 then remove_subscription sid (k_subscriptions state)
         else map (\<lambda>v. if s_sid v = sid
             then (if s_remaining s = None then v\<lparr>s_delivered := wrap63 (s_delivered s + 1)\<rparr>
                   else s\<lparr>s_remaining := map_option (\<lambda>r. wrap63 (r - 1)) (s_remaining s),
                          s_delivered := wrap63 (s_delivered s + 1)\<rparr>)
             else v) (k_subscriptions state))"
      "t_deliveries t = [\<lparr>d_sid = sid, d_message = message, d_status = status, d_header_block = block\<rparr>]"
      "t_output t = []" "t_events t = []"
proof (cases "table state sid")
  case None
  then show ?thesis by (intro unknown) (simp_all add: incoming_message_def table_def)
next
  case (Some s)
  let ?subs = "if s_remaining s = Some 1 then remove_subscription sid (k_subscriptions state)
         else map (\<lambda>v. if s_sid v = sid
             then (if s_remaining s = None then v\<lparr>s_delivered := wrap63 (s_delivered s + 1)\<rparr>
                   else s\<lparr>s_remaining := map_option (\<lambda>r. wrap63 (r - 1)) (s_remaining s),
                          s_delivered := wrap63 (s_delivered s + 1)\<rparr>)
             else v) (k_subscriptions state)"
  have "incoming_message pf state now sid message status block =
      Inr \<lparr>t_state = touch pf (state\<lparr>k_subscriptions := ?subs\<rparr>) now, t_output = [], t_events = [],
        t_deliveries = [\<lparr>d_sid = sid, d_message = message, d_status = status, d_header_block = block\<rparr>],
        t_subscription_id = None\<rparr>"
    using Some by (cases "s_remaining s") (simp_all add: incoming_message_def table_def Let_def cong: if_cong)
  from known [OF Some this] show ?thesis by simp
qed

lemma touch_simps [simp]:
  "k_config (touch pf st now) = k_config st" "k_phase (touch pf st now) = k_phase st"
  "k_info (touch pf st now) = k_info st" "k_next_sid (touch pf st now) = k_next_sid st"
  "k_subscriptions (touch pf st now) = k_subscriptions st" "k_draining (touch pf st now) = k_draining st"
  "k_pings (touch pf st now) = k_pings st" "k_liveness (touch pf st now) = k_liveness st"
  by (simp_all add: touch_def)

text \<open>A decoded operation: what it is, or that it is refused.\<close>

lemma handle_cases:
  assumes "handle_operation pf state now operation = Inr t"
  obtains (info) json info phase' where "operation = Info json" "phase' \<noteq> Awaiting_info" "phase' \<noteq> Closed"
      "t_state t = touch pf (state\<lparr>k_phase := phase', k_info := Some info\<rparr>) now" "t_deliveries t = []"
  | (ping) wire where "operation = Ping" "t = (empty_transition (touch pf state now))\<lparr>t_output := [wire]\<rparr>"
  | (pong) "operation = Pong" "k_phase state \<in> {Connected, Draining}"
      "t_state t = touch pf (fst (pong_state state)) now" "t_events t = snd (pong_state state)"
      "t_deliveries t = []" "t_output t = []"
  | (notice) "operation = Ok \<or> (\<exists>m. operation = Server_error m)" "k_phase state \<in> {Connected, Draining}"
      "t_state t = touch pf state now" "t_deliveries t = []" "t_output t = []"
  | (msg) sid message where "operation = Msg sid message" "k_phase state \<in> {Connected, Draining}"
      "incoming_message pf state now sid message None False = Inr t"
  | (hmsg) sid message status where "operation = Hmsg sid message status" "k_phase state \<in> {Connected, Draining}"
      "incoming_message pf state now sid message status True = Inr t"
proof (cases "\<exists>json. operation = Info json")
  case True
  then obtain json where json: "operation = Info json" by blast
  with assms obtain phase' where "handle_info pf state now json phase' = Inr t"
    and phase: "phase' \<noteq> Awaiting_info" "phase' \<noteq> Closed"
    by (cases "k_phase state") (auto simp: handle_operation_def handle_open_def)
  then obtain info where "t_state t = touch pf (state\<lparr>k_phase := phase', k_info := Some info\<rparr>) now" "t_deliveries t = []"
    by (auto simp: handle_info_def split: sum.splits)
  with json phase show ?thesis by (rule info)
next
  case False
  then show ?thesis
    using assms ping pong notice msg hmsg
    by (cases "k_phase state"; cases operation)
       (auto simp: handle_operation_def handle_open_def handle_ping_def handle_pong_def
         split: sum.splits prod.splits)
qed

section \<open>Every step keeps the invariant\<close>

lemma wf_touch [simp]: "wf_client n (touch pf st now) = wf_client n st"
  by (simp add: wf_client_def)

lemma newest_first_unique:
  "sorted_wrt (\<lambda>a b. s_sid a > s_sid b) subs \<Longrightarrow> v \<in> set subs \<Longrightarrow> s \<in> set subs \<Longrightarrow> s_sid v = s_sid s \<Longrightarrow> v = s"
  by (induction subs) auto

lemma table_wf:
  assumes "wf_client n state" "table state sid = Some s"
  shows "wf_subscription n (k_next_sid state) s" "s_sid s = sid" "s \<in> set (k_subscriptions state)"
  using assms find_Some [of sid "k_subscriptions state" s]
  by (auto simp: wf_client_def table_def list_all_iff)

lemma wf_message:
  assumes wf: "wf_client n state" and n: "n + 2 \<le> int max_int"
    and m: "incoming_message pf state now sid message status block = Inr t"
  shows "wf_client (n + 1) (t_state t)"
proof (cases rule: message_effect [of state sid pf now message status block])
  case unknown
  with m wf_client_Suc [OF wf] show ?thesis by auto
next
  case (known s t' subs)
  note s = table_wf [OF wf known(1)]
  let ?st = "state\<lparr>k_subscriptions := subs\<rparr>"
  have "wf_client (n + 1) ?st"
  proof (cases "s_remaining s = Some 1")
    case True
    with known(4) have "subs = filter (\<lambda>v. s_sid v \<noteq> sid) (k_subscriptions state)"
      by (simp add: remove_subscription_def)
    with wf_filtered [OF wf_client_Suc [OF wf], of "\<lambda>_. True" "\<lambda>v. s_sid v \<noteq> sid"] show ?thesis by simp
  next
    case False
    let ?g = "\<lambda>v. if s_sid v = sid
             then (if s_remaining s = None then v\<lparr>s_delivered := wrap63 (s_delivered s + 1)\<rparr>
                   else s\<lparr>s_remaining := map_option (\<lambda>r. wrap63 (r - 1)) (s_remaining s),
                          s_delivered := wrap63 (s_delivered s + 1)\<rparr>)
             else v"
    have "wf_subscription (n + 1) (k_next_sid state) (?g v)" if "wf_subscription n (k_next_sid state) v" for v
      using that s(1) n False by (auto simp: wf_subscription_def wrap_small split: option.splits)
    moreover have "s_sid (?g v) = s_sid v" for v using s(2) by simp
    ultimately have "wf_client (n + 1) (state\<lparr>k_subscriptions := map ?g (k_subscriptions state),
        k_draining := filter (\<lambda>_. True) (k_draining state)\<rparr>)"
      by (intro wf_mapped [OF wf]) simp_all
    moreover have "subs = map ?g (k_subscriptions state)" using known(4) False by simp
    ultimately show ?thesis by simp
  qed
  with known(2,3) m show ?thesis by auto
qed

lemma wf_unsubscribed:
  assumes wf: "wf_client n state" and s: "table state sid = Some s"
    and m: "case m of None \<Rightarrow> True | Some m \<Rightarrow> m \<le> int max_int"
  shows "wf_client n (state\<lparr>k_subscriptions := fst (unsubscribed state s sid m), k_draining := filter Q (k_draining state)\<rparr>)"
proof (cases "\<exists>k. m = Some k \<and> s_delivered s < k")
  case True
  then obtain k where k: "m = Some k" "s_delivered s < k" by blast
  let ?g = "\<lambda>v. if s_sid v = sid then v\<lparr>s_remaining := Some (wrap63 (k - s_delivered v))\<rparr> else v"
  have "wf_subscription n (k_next_sid state) (?g v)"
    if "v \<in> set (k_subscriptions state)" "wf_subscription n (k_next_sid state) v" for v
  proof (cases "s_sid v = sid")
    case True
    with wf that(1) table_wf(2,3) [OF wf s] have "v = s"
      by (auto simp: wf_client_def dest: newest_first_unique)
    with that(2) k m show ?thesis by (auto simp: wf_subscription_def wrap_small)
  qed (use that in simp)
  moreover have "s_sid (?g v) = s_sid v" for v by simp
  ultimately have "wf_client n (state\<lparr>k_subscriptions := map ?g (k_subscriptions state),
      k_draining := filter Q (k_draining state)\<rparr>)"
    by (intro wf_mapped [OF wf]) simp_all
  moreover have "fst (unsubscribed state s sid m) = map ?g (k_subscriptions state)"
    using k by (simp add: unsubscribed_def)
  ultimately show ?thesis by simp
next
  case False
  then have "fst (unsubscribed state s sid m) = filter (\<lambda>v. s_sid v \<noteq> sid) (k_subscriptions state)"
    by (auto simp: unsubscribed_def remove_subscription_def not_less split: option.splits)
  with wf_filtered [OF wf, of Q "\<lambda>v. s_sid v \<noteq> sid"] show ?thesis by simp
qed

lemma wf_forget: "wf_client n state \<Longrightarrow> wf_client n (forget_subscription state sid)"
  unfolding forget_subscription_def remove_subscription_def by (rule wf_filtered)

lemma wf_clear: "wf_client n state \<Longrightarrow> wf_client n (state\<lparr>k_subscriptions := [], k_draining := []\<rparr>)"
  using wf_filtered [of n state "\<lambda>_. False" "\<lambda>_. False"] by simp

lemma wf_pong: "wf_client n state \<Longrightarrow> wf_client n (fst (pong_state state))"
proof -
  assume wf: "wf_client n state"
  have "wf_client n (state\<lparr>k_pings := ps, k_liveness := 0\<rparr>)" "wf_client n (state\<lparr>k_liveness := 0\<rparr>)" for ps
    using wf by (auto simp: wf_client_def)
  note frames = this this(1) [THEN wf_forget] this(1) [THEN wf_clear]
  show ?thesis
    using frames by (simp add: pong_state_def Let_def split: option.split ping_origin.split)
qed

lemma wf_operation:
  assumes wf: "wf_client n state" and n: "n + 2 \<le> int max_int"
    and h: "handle_operation pf state now operation = Inr t"
  shows "wf_client (n + 1) (t_state t)"
  using h
proof (cases rule: handle_cases)
  case (info json info phase')
  with wf_client_Suc [OF wf] show ?thesis by (auto simp: wf_client_def)
next
  case pong
  with wf_client_Suc [OF wf_pong [OF wf]] show ?thesis by simp
next
  case (msg sid message)
  then show ?thesis using wf_message [OF wf n] by blast
next
  case (hmsg sid message status)
  then show ?thesis using wf_message [OF wf n] by blast
qed (use wf_client_Suc [OF wf] in simp_all)

lemma wf_command:
  assumes wf: "wf_client n state" and n: "n + 2 \<le> int max_int" and w: "wf_step (Command c)"
    and c: "outgoing pf state c = Some (Inr t)"
  shows "wf_client (n + 1) (t_state t)"
proof (cases c)
  case (Do_connect credentials tls)
  with c connect_effect [of pf state credentials tls t] wf_client_Suc [OF wf] show ?thesis
    by (auto simp: outgoing_def wf_client_def)
next
  case (Do_publish m)
  with c publish_effect [of state m t] wf_client_Suc [OF wf] show ?thesis by (simp add: outgoing_def)
next
  case (Do_subscribe f q)
  with c have t: "t_state t = state\<lparr>k_next_sid := wrap63 (k_next_sid state + 1),
      k_subscriptions := \<lparr>s_sid = k_next_sid state, s_subject = f, s_queue_group = q, s_remaining = None,
        s_delivered = 0\<rparr> # k_subscriptions state\<rparr>"
    using subscribe_effect [of state f q t] by (simp add: outgoing_def)
  have "wrap63 (k_next_sid state + 1) = k_next_sid state + 1"
    using wf n by (intro wrap_small) (auto simp: wf_client_def)
  with wf show ?thesis unfolding t
    by (auto simp: wf_client_def list_all_iff wf_subscription_def split: option.splits)
next
  case (Do_unsubscribe sid)
  with c have "outgoing_unsubscribe state sid None = Inr t" by (simp add: outgoing_def)
  then show ?thesis
  proof (cases rule: unsubscribe_effect)
    case (1 s)
    with wf_unsubscribed [OF wf_client_Suc [OF wf], of sid s None] show ?thesis by simp
  qed
next
  case (Do_auto_unsubscribe sid m)
  with c have "outgoing_unsubscribe state sid (Some m) = Inr t" by (simp add: outgoing_def split: if_splits)
  then show ?thesis
  proof (cases rule: unsubscribe_effect)
    case (1 s)
    with wf_unsubscribed [OF wf_client_Suc [OF wf], of sid s "Some m"] w Do_auto_unsubscribe show ?thesis
      by (simp add: wf_step_def)
  qed
next
  case (Do_drain_subscription sid)
  with c drain_subscription_effect [of state sid t] have t: "t_state t = state\<lparr>k_draining := sid # k_draining state,
      k_pings := enqueue_ping (k_pings state) (Subscription_drain sid)\<rparr>" "0 < sid" "sid \<notin> set (k_draining state)"
      and known: "table state sid \<noteq> None" by (simp_all add: outgoing_def)
  from known obtain s where "table state sid = Some s" by blast
  from table_wf [OF wf this] have "sid < k_next_sid state" by (simp add: wf_subscription_def)
  with t wf_client_Suc [OF wf] show ?thesis by (auto simp: wf_client_def)
next
  case Do_flush
  with c flush_effect [of state t] wf_client_Suc [OF wf] show ?thesis by (auto simp: outgoing_def wf_client_def)
next
  case Do_drain
  with c drain_effect [of state t] wf_client_Suc [OF wf] show ?thesis by (auto simp: outgoing_def wf_client_def)
next
  case Do_close
  with c wf_client_Suc [OF wf] show ?thesis by (auto simp: outgoing_def wf_client_def split: if_splits)
qed

lemma wf_timer:
  assumes wf: "wf_client n state"
  shows "wf_client n (t_state (timer pf state now))"
proof (cases rule: timer_effect [of pf state now])
  case (3 phase' ping')
  moreover from this wf have "wrap63 (k_liveness state + 1) = k_liveness state + 1"
    by (intro wrap_small) (auto simp: wf_client_def)
  ultimately show ?thesis using wf by (auto simp: wf_client_def)
qed (use wf in \<open>auto simp: wf_client_def\<close>)

end
