(* ===== verification/ClientSteps.thy ===== *)
theory ClientSteps
  imports ClientTable
begin

text \<open>
  The client against its contract: every accepted step changes the table of subscriptions as
  specified; what follows for deliveries, reconnects, pings and limits.
\<close>

section \<open>Reachable states\<close>

lemma after_accepted: "step_outcome pf state s = Some (Inr t) \<Longrightarrow> after pf state s = t"
  by (simp add: after_def)

lemma after_rejected: "\<not> accepted pf state s \<Longrightarrow> after pf state s = empty_transition state"
  unfolding accepted_def after_def by (simp split: option.splits sum.splits)

lemma acceptedE:
  assumes "accepted pf state s"
  obtains t where "step_outcome pf state s = Some (Inr t)" "after pf state s = t"
  using assms unfolding accepted_def by (cases "step_outcome pf state s") (auto simp: after_def split: sum.splits)

lemma wf_after:
  assumes wf: "wf_client n state" and n: "n + 2 \<le> int max_int" and w: "wf_step s"
  shows "wf_client (n + 1) (t_state (after pf state s))"
proof (cases "accepted pf state s")
  case False
  with wf_client_Suc [OF wf] show ?thesis by (simp add: after_rejected)
next
  case True
  then obtain t where t: "step_outcome pf state s = Some (Inr t)" "after pf state s = t"
    by (rule acceptedE)
  have "wf_client (n + 1) (t_state t)"
  proof (cases s)
    case (Command c)
    with t(1) w show ?thesis using wf_command [OF wf n] by (simp add: step_outcome_def)
  next
    case (Incoming now operation)
    with t(1) show ?thesis using wf_operation [OF wf n] by (simp add: step_outcome_def)
  next
    case End_of_data
    with t(1) have "t = closed_transition state" by (simp add: step_outcome_def)
    with wf_client_Suc [OF wf] show ?thesis by (simp add: wf_client_def)
  next
    case (Tick now)
    with t(1) have "t = timer pf state now" by (simp add: step_outcome_def)
    with wf_client_Suc [OF wf_timer [OF wf]] show ?thesis by simp
  next
    case (Reconnect preserve)
    with t(1) have "t = empty_transition (prepare_reconnect preserve state)" by (simp add: step_outcome_def)
    with wf_client_Suc [OF wf] show ?thesis by (simp add: prepare_reconnect_def wf_client_def)
  next
    case (Forget sid)
    with t(1) have "t = empty_transition (forget_subscription state sid)" by (simp add: step_outcome_def)
    with wf_client_Suc [OF wf_forget [OF wf]] show ?thesis by simp
  qed
  with t(2) show ?thesis by simp
qed

lemma wf_run:
  "wf_client n state \<Longrightarrow> list_all wf_step ss \<Longrightarrow> n + int (length ss) + 1 \<le> int max_int \<Longrightarrow>
     wf_client (n + int (length ss)) (fst (run pf state ss))"
proof (induction ss arbitrary: n state)
  case (Cons s ss)
  then have "wf_client (n + 1) (t_state (after pf state s))" by (intro wf_after) simp_all
  from Cons.IH [OF this] Cons.prems show ?case
    by (simp add: Let_def case_prod_unfold add.assoc)
qed simp

lemma wf_initial:
  "0 < c_max_pings_without_pong config \<Longrightarrow> c_max_pings_without_pong config \<le> int max_int \<Longrightarrow>
     wf_client 0 (client_v config)"
  by (simp add: client_v_def wf_client_def)

section \<open>Every accepted step does to the table what it should\<close>

lemma table_forget: "table (forget_subscription state sid) = (table state)(sid := None)"
  by (auto simp: table_def forget_subscription_def find_remove)

lemma table_same: "k_subscriptions state' = k_subscriptions state \<Longrightarrow> table state' = table state"
  by (auto simp: table_def)

lemma pong_cases:
  "fst (pong_state state) =
    (case pings (k_pings state) of
       [] \<Rightarrow> state\<lparr>k_liveness := 0\<rparr>
     | origin # _ \<Rightarrow>
         (let rest = state\<lparr>k_pings := snd (the (take_ping (k_pings state))), k_liveness := 0\<rparr> in
          case origin of
            Drain_ping \<Rightarrow> rest\<lparr>k_subscriptions := [], k_draining := []\<rparr>
          | Subscription_drain sid \<Rightarrow> forget_subscription rest sid
          | _ \<Rightarrow> rest))"
proof (cases "pings (k_pings state)")
  case Nil
  then have "take_ping (k_pings state) = None" by (rule ping_fifo.next_Nil)
  with Nil show ?thesis by (simp add: pong_state_def)
next
  case (Cons origin os)
  from ping_fifo.next_Cons [OF this] obtain q where "take_ping (k_pings state) = Some (origin, q)" by blast
  with Cons show ?thesis by (cases origin) (simp_all add: pong_state_def Let_def)
qed

lemma table_message:
  assumes wf: "wf_client n state" and n: "n + 2 \<le> int max_int"
    and m: "incoming_message pf state now sid message status block = Inr t"
  shows "table (t_state t) = deliver_table sid (table state)"
proof (cases rule: message_effect [of state sid pf now message status block])
  case unknown
  with m show ?thesis by (auto simp: deliver_table_def)
next
  case (known s t' subs)
  note s = table_wf [OF wf known(1)]
  have small: "wrap63 (s_delivered s + 1) = s_delivered s + 1"
    "\<And>r. s_remaining s = Some r \<Longrightarrow> wrap63 (r - 1) = r - 1"
    using s(1) n by (auto simp: wf_subscription_def intro!: wrap_small)
  have find: "find_subscription sid (k_subscriptions state) = Some s" using known(1) by (simp add: table_def)
  have "table (t_state t) x = deliver_table sid (table state) x" for x
  proof (cases "s_remaining s = Some 1")
    case True
    with known m find show ?thesis by (auto simp: table_def deliver_table_def find_remove)
  next
    case False
    have "find_subscription x subs = (if x = sid
        then Some (s\<lparr>s_remaining := map_option (\<lambda>r. r - 1) (s_remaining s), s_delivered := s_delivered s + 1\<rparr>)
        else find_subscription x (k_subscriptions state))"
      using known(4) False s(2) find small
      by (cases "s_remaining s") (simp_all add: find_update cong: if_cong)
    with known(1,2,3) False m show ?thesis by (auto simp: table_def deliver_table_def)
  qed
  then show ?thesis by blast
qed

lemma table_unsubscribe:
  assumes wf: "wf_client n state" and m: "case m of None \<Rightarrow> True | Some m \<Rightarrow> m \<le> int max_int"
    and u: "outgoing_unsubscribe state sid m = Inr t"
  shows "table (t_state t) = (case m of None \<Rightarrow> (table state)(sid := None) | Some k \<Rightarrow> limit_table sid k (table state))"
  using u
proof (cases rule: unsubscribe_effect)
  case (1 s)
  have find: "find_subscription sid (k_subscriptions state) = Some s" using 1(2) by (simp add: table_def)
  have small: "m = Some k \<Longrightarrow> \<not> k \<le> s_delivered s \<Longrightarrow> wrap63 (k - s_delivered s) = k - s_delivered s" for k
    using table_wf(1) [OF wf 1(2)] m by (auto simp: wf_subscription_def intro!: wrap_small)
  have "table (t_state t) x =
      (case m of None \<Rightarrow> (table state)(sid := None) | Some k \<Rightarrow> limit_table sid k (table state)) x" for x
  proof (cases m)
    case None
    then show ?thesis by (simp add: 1(3) table_def unsubscribed_def find_remove)
  next
    case (Some k)
    with small find show ?thesis
      by (cases "k \<le> s_delivered s")
         (simp_all add: 1(3) table_def unsubscribed_def find_remove find_update limit_table_def)
  qed
  then show ?thesis by blast
qed

lemma table_pong:
  "table (fst (pong_state state)) =
     (case pings (k_pings state) of
        Drain_ping # _ \<Rightarrow> (\<lambda>_. None)
      | Subscription_drain sid # _ \<Rightarrow> (table state)(sid := None)
      | _ \<Rightarrow> table state)"
proof (cases "pings (k_pings state)")
  case Nil
  then show ?thesis by (simp add: pong_cases table_def fun_eq_iff)
next
  case (Cons origin os)
  let ?rest = "state\<lparr>k_pings := snd (the (take_ping (k_pings state))), k_liveness := 0\<rparr>"
  have "table ?rest = table state" by (rule table_same) simp
  moreover have "table (?rest\<lparr>k_subscriptions := [], k_draining := []\<rparr>) = (\<lambda>_. None)"
    by (simp add: table_def fun_eq_iff find_subscription_def)
  ultimately show ?thesis using Cons by (cases origin) (simp_all add: pong_cases table_forget)
qed

lemma table_operation:
  assumes wf: "wf_client n state" and n: "n + 2 \<le> int max_int"
    and h: "handle_operation pf state now operation = Inr t"
  shows "table (t_state t) = table_after state (Incoming now operation)"
  using h
proof (cases rule: handle_cases)
  case (info json info phase')
  then show ?thesis by (simp add: table_def fun_eq_iff)
next
  case (ping wire)
  then show ?thesis by (simp add: table_def fun_eq_iff)
next
  case pong
  then have "table (t_state t) = table (fst (pong_state state))" by (simp add: table_def fun_eq_iff)
  with pong(1) table_pong [of state] show ?thesis by simp
next
  case notice
  then have "table (t_state t) = table state" by (simp add: table_def fun_eq_iff)
  with notice(1) show ?thesis by auto
next
  case (msg sid message)
  with table_message [OF wf n msg(3)] show ?thesis by simp
next
  case (hmsg sid message status)
  with table_message [OF wf n hmsg(3)] show ?thesis by simp
qed

lemma table_command:
  assumes wf: "wf_client n state" and w: "wf_step (Command c)" and c: "outgoing pf state c = Some (Inr t)"
  shows "table (t_state t) = table_after state (Command c)"
proof (cases c)
  case (Do_connect credentials tls)
  with c connect_effect [of pf state credentials tls t] show ?thesis
    by (simp add: outgoing_def table_def fun_eq_iff)
next
  case (Do_publish m)
  with c publish_effect [of state m t] show ?thesis by (simp add: outgoing_def)
next
  case (Do_subscribe f q)
  with c subscribe_effect [of state f q t] show ?thesis
    by (auto simp: outgoing_def table_def find_subscription_def fun_eq_iff)
next
  case (Do_unsubscribe sid)
  with c table_unsubscribe [OF wf, of None sid t] show ?thesis by (simp add: outgoing_def)
next
  case (Do_auto_unsubscribe sid m)
  with c w table_unsubscribe [OF wf, of "Some m" sid t] show ?thesis
    by (simp add: outgoing_def wf_step_def split: if_splits)
next
  case (Do_drain_subscription sid)
  with c drain_subscription_effect [of state sid t] show ?thesis
    by (simp add: outgoing_def table_def fun_eq_iff)
next
  case Do_flush
  with c flush_effect [of state t] show ?thesis by (simp add: outgoing_def table_def fun_eq_iff)
next
  case Do_drain
  with c drain_effect [of state t] show ?thesis by (simp add: outgoing_def table_def fun_eq_iff)
next
  case Do_close
  with c show ?thesis by (auto simp: outgoing_def table_def fun_eq_iff split: if_splits)
qed

lemma timer_subscriptions: "k_subscriptions (t_state (timer pf state now)) = k_subscriptions state"
  by (cases rule: timer_effect [of pf state now]) auto

lemma table_step:
  assumes wf: "wf_client n state" and n: "n + 2 \<le> int max_int" and w: "wf_step s"
  shows "table (t_state (after pf state s)) = (if accepted pf state s then table_after state s else table state)"
proof (cases "accepted pf state s")
  case False
  then show ?thesis by (simp add: after_rejected)
next
  case True
  then obtain t where t: "step_outcome pf state s = Some (Inr t)" "after pf state s = t"
    by (rule acceptedE)
  have "table (t_state t) = table_after state s"
  proof (cases s)
    case (Command c)
    with t(1) w show ?thesis using table_command [OF wf] by (simp add: step_outcome_def)
  next
    case (Incoming now operation)
    with t(1) show ?thesis using table_operation [OF wf n] by (simp add: step_outcome_def)
  next
    case End_of_data
    with t(1) have "t = closed_transition state" by (simp add: step_outcome_def)
    with End_of_data show ?thesis by (simp add: table_def fun_eq_iff)
  next
    case (Tick now)
    with t(1) have "t = timer pf state now" by (simp add: step_outcome_def)
    with Tick show ?thesis by (simp add: table_def fun_eq_iff timer_subscriptions)
  next
    case (Reconnect preserve)
    with t(1) have "t = empty_transition (prepare_reconnect preserve state)" by (simp add: step_outcome_def)
    with Reconnect show ?thesis by (simp add: table_def fun_eq_iff prepare_reconnect_def)
  next
    case (Forget sid)
    with t(1) have "t = empty_transition (forget_subscription state sid)" by (simp add: step_outcome_def)
    with Forget show ?thesis by (simp add: table_forget)
  qed
  with t(2) True show ?thesis by simp
qed

section \<open>Deliveries\<close>

lemma message_deliveries:
  assumes "incoming_message pf state now sid message status block = Inr t" "d \<in> set (t_deliveries t)"
  shows "d_sid d = sid" "t_deliveries t = [d]" "table state sid \<noteq> None"
  using assms by (cases rule: message_effect [of state sid pf now message status block]; auto)+

lemma command_deliveries: "outgoing pf state c = Some (Inr t) \<Longrightarrow> t_deliveries t = []"
proof (cases c)
  case (Do_auto_unsubscribe sid m)
  moreover assume "outgoing pf state c = Some (Inr t)"
  ultimately have "outgoing_unsubscribe state sid (Some m) = Inr t" by (simp add: outgoing_def split: if_splits)
  then show ?thesis by (rule unsubscribe_effect)
next
  case (Do_unsubscribe sid)
  moreover assume "outgoing pf state c = Some (Inr t)"
  ultimately have "outgoing_unsubscribe state sid None = Inr t" by (simp add: outgoing_def)
  then show ?thesis by (rule unsubscribe_effect)
qed (auto simp: outgoing_def connect_effect publish_effect subscribe_effect drain_subscription_effect
    flush_effect drain_effect split: if_splits)

lemma step_delivery:
  assumes d: "d \<in> set (t_deliveries (after pf state s))"
  shows "t_deliveries (after pf state s) = [d]" "accepted pf state s" "table state (d_sid d) \<noteq> None"
    "table_after state s = deliver_table (d_sid d) (table state)"
proof -
  show acc: "accepted pf state s" using d by (cases "accepted pf state s") (simp_all add: after_rejected)
  then obtain t where t: "step_outcome pf state s = Some (Inr t)" "after pf state s = t"
    by (rule acceptedE)
  have "t_deliveries t = [d] \<and> table state (d_sid d) \<noteq> None \<and> table_after state s = deliver_table (d_sid d) (table state)"
  proof (cases s)
    case (Command c)
    with t(1) have "t_deliveries t = []" using command_deliveries by (simp add: step_outcome_def)
    with t(2) d show ?thesis by simp
  next
    case (Incoming now operation)
    with t(1) have "handle_operation pf state now operation = Inr t" by (simp add: step_outcome_def)
    then show ?thesis
    proof (cases rule: handle_cases)
      case (msg sid message)
      with message_deliveries [OF msg(3)] d t(2) Incoming show ?thesis by auto
    next
      case (hmsg sid message status)
      with message_deliveries [OF hmsg(3)] d t(2) Incoming show ?thesis by auto
    qed (use d t(2) in auto)
  qed (use t d in \<open>auto simp: step_outcome_def\<close>)
  with t(2) show "t_deliveries (after pf state s) = [d]" "table state (d_sid d) \<noteq> None"
    "table_after state s = deliver_table (d_sid d) (table state)" by simp_all
qed

end
