(* ===== verification/ClientProps.thy ===== *)
theory ClientProps
  imports ClientSteps
begin

text \<open>
  Properties of the client over whole runs: the invariant, the contract of the subscription
  table, silence after an unsubscribe, the limit of an automatic unsubscribe, pings answered in
  turn, replay on reconnect.
\<close>

section \<open>Reachable states\<close>

definition admissible :: "config \<Rightarrow> client_step list \<Rightarrow> bool" where
  "admissible config ss \<longleftrightarrow>
     0 < c_max_pings_without_pong config \<and> c_max_pings_without_pong config \<le> int max_int \<and>
     list_all wf_step ss \<and> int (length ss) + 2 \<le> int max_int"

lemma reachable_wf:
  "admissible config ss \<Longrightarrow> wf_client (int (length ss)) (fst (run pf (client_v config) ss))"
  using wf_run [OF wf_initial, of config ss pf] by (simp add: admissible_def)

lemma admissible_append: "admissible config (ss @ ts) \<Longrightarrow> admissible config ss"
  by (simp add: admissible_def)

lemma run_append:
  "run pf state (ss @ ts) =
     (fst (run pf (fst (run pf state ss)) ts), snd (run pf state ss) @ snd (run pf (fst (run pf state ss)) ts))"
  by (induction ss arbitrary: state) (simp_all add: Let_def case_prod_unfold)

text \<open>
  C8: In every state a client reaches in fewer than \<open>2 ^ 62\<close> steps, whatever commands,
  operations, timers and reconnects those are: subscription ids are positive, distinct and below
  the next id, newest first; a limited subscription still expects a message; no subscription
  drains twice; at most the configured number of liveness pings is unanswered; and a client past
  INFO knows its server.
\<close>

theorem client_invariant:
  assumes "admissible config ss"
  shows "let state = fst (run pf (client_v config) ss) in
    sorted_wrt (\<lambda>newer older. s_sid newer > s_sid older) (k_subscriptions state) \<and>
    (\<forall>s \<in> set (k_subscriptions state). 0 < s_sid s \<and> s_sid s < k_next_sid state \<and> 0 \<le> s_delivered s \<and>
       (case s_remaining s of None \<Rightarrow> True | Some remaining \<Rightarrow> 1 \<le> remaining)) \<and>
    distinct (k_draining state) \<and> (\<forall>sid \<in> set (k_draining state). 0 < sid \<and> sid < k_next_sid state) \<and>
    0 \<le> k_liveness state \<and> k_liveness state \<le> c_max_pings_without_pong (k_config state) \<and>
    (k_phase state \<in> {Awaiting_connect, Connected, Draining} \<longrightarrow> k_info state \<noteq> None)"
  using reachable_wf [OF assms, of pf]
  by (auto simp: wf_client_def wf_subscription_def list_all_iff Let_def split: option.splits)

definition sample_config :: config where
  "sample_config = \<lparr>c_name = None, c_headers = True, c_no_echo = False, c_no_responders = True,
     c_ping_interval = Some 30, c_max_pings_without_pong = 2\<rparr>"

definition sample_info :: info_json where
  "sample_info = \<lparr>ij_server_id = None, ij_server_name = None, ij_version = None, ij_proto = Some 1,
     ij_max_payload = 1024, ij_headers = Some True, ij_no_responders = None, ij_auth_required = None,
     ij_tls_required = None, ij_nonce = None, ij_lame_duck_mode = None, ij_connect_urls = None\<rparr>"

definition sample_platform :: platform where
  "sample_platform = \<lparr>decode_info = (\<lambda>_. Inr sample_info), encode_connect = (\<lambda>_. Inr ''{}''),
     add_span = (\<lambda>t d. Some (t + d))\<rparr>"

definition sample_steps :: "client_step list" where
  "sample_steps = [Incoming 0 (Info ''{}''), Command (Do_subscribe ''a.*'' None),
     Command (Do_connect \<lparr>cr_auth_token = None, cr_user = None, cr_pass = None, cr_jwt = None,
       cr_nkey = None, cr_signature = None\<rparr> False)]"

lemma sample_admissible: "length ts < 10 \<Longrightarrow> list_all wf_step ts \<Longrightarrow> admissible sample_config (sample_steps @ ts)"
  by (simp add: admissible_def sample_config_def sample_steps_def max_int_def wf_step_def)

theorem client_invariant_witness:
  "let state = fst (run sample_platform (client_v sample_config) sample_steps) in
     0 \<le> k_liveness state \<and> k_liveness state \<le> c_max_pings_without_pong (k_config state)"
  using client_invariant [of sample_config sample_steps sample_platform] sample_admissible [of "[]"]
  by (simp add: Let_def)

section \<open>The table\<close>

text \<open>
  C2: The client refines its contract: in every reachable state an accepted step changes the
  table of subscriptions exactly as specified by \<open>table_after\<close>, and a rejected one leaves it.
\<close>

theorem client_refines_table:
  assumes "admissible config (ss @ [s])"
  shows "let state = fst (run pf (client_v config) ss) in
    table (t_state (after pf state s)) = (if accepted pf state s then table_after state s else table state)"
proof -
  have "int (length ss) + 2 \<le> int max_int" "wf_step s" using assms by (simp_all add: admissible_def)
  then show ?thesis
    using table_step [OF reachable_wf [OF admissible_append [OF assms]]] by (simp add: Let_def)
qed

theorem client_refines_table_witness:
  "let state = fst (run sample_platform (client_v sample_config) sample_steps); s = Command (Do_unsubscribe 1) in
     table (t_state (after sample_platform state s)) =
       (if accepted sample_platform state s then table_after state s else table state)"
  using client_refines_table [of sample_config sample_steps "Command (Do_unsubscribe 1)" sample_platform]
    sample_admissible [of "[Command (Do_unsubscribe 1)]"]
  by (simp add: wf_step_def Let_def)

section \<open>Ids are never used again\<close>

lemma next_sid_step:
  "k_next_sid (t_state (after pf state s)) =
     (if accepted pf state s \<and> (\<exists>f q. s = Command (Do_subscribe f q))
      then wrap63 (k_next_sid state + 1) else k_next_sid state)"
proof (cases "accepted pf state s")
  case True
  then obtain t where t: "step_outcome pf state s = Some (Inr t)" "after pf state s = t"
    by (rule acceptedE)
  have "k_next_sid (t_state t) = (if \<exists>f q. s = Command (Do_subscribe f q)
      then wrap63 (k_next_sid state + 1) else k_next_sid state)"
  proof (cases s)
    case (Command c)
    with t(1) have c: "outgoing pf state c = Some (Inr t)" by (simp add: step_outcome_def)
    show ?thesis
    proof (cases c)
      case (Do_auto_unsubscribe sid m)
      with c have "outgoing_unsubscribe state sid (Some m) = Inr t" by (simp add: outgoing_def split: if_splits)
      then show ?thesis by (rule unsubscribe_effect) (simp add: Command Do_auto_unsubscribe)
    next
      case (Do_unsubscribe sid)
      with c have "outgoing_unsubscribe state sid None = Inr t" by (simp add: outgoing_def)
      then show ?thesis by (rule unsubscribe_effect) (simp add: Command Do_unsubscribe)
    qed (use c Command in \<open>auto simp: outgoing_def connect_effect publish_effect subscribe_effect
        drain_subscription_effect flush_effect drain_effect split: if_splits\<close>)
  next
    case (Incoming now operation)
    with t(1) have "handle_operation pf state now operation = Inr t" by (simp add: step_outcome_def)
    then have "k_next_sid (t_state t) = k_next_sid state"
    proof (cases rule: handle_cases)
      case pong
      then show ?thesis
        by (simp add: pong_cases forget_subscription_def Let_def split: list.split ping_origin.split)
    next
      case (msg sid message)
      then show ?thesis by (cases rule: message_effect [of state sid pf now message None False]) auto
    next
      case (hmsg sid message status)
      then show ?thesis by (cases rule: message_effect [of state sid pf now message status True]) auto
    qed auto
    with Incoming show ?thesis by simp
  next
    case (Tick now)
    with t(1) have "t = timer pf state now" by (simp add: step_outcome_def)
    with Tick show ?thesis by (cases rule: timer_effect [of pf state now]) auto
  qed (use t(1) in \<open>auto simp: step_outcome_def prepare_reconnect_def forget_subscription_def\<close>)
  with t(2) True show ?thesis by simp
qed (simp add: after_rejected)

text \<open>An id that was handed out and is not in the table stays out.\<close>

lemma gone_step:
  assumes wf: "wf_client n state" and n: "n + 2 \<le> int max_int" and w: "wf_step s"
    and gone: "table state sid = None" "sid < k_next_sid state"
  shows "table (t_state (after pf state s)) sid = None" "sid < k_next_sid (t_state (after pf state s))"
    "\<forall>d \<in> set (t_deliveries (after pf state s)). d_sid d \<noteq> sid"
proof -
  have "table_after state s sid = None"
    using gone
    by (cases "(state, s)" rule: table_after.cases)
       (auto simp: deliver_table_def limit_table_def split: option.splits list.splits ping_origin.splits)
  with gone show "table (t_state (after pf state s)) sid = None" by (simp add: table_step [OF wf n w])
  have "wrap63 (k_next_sid state + 1) = k_next_sid state + 1"
    using wf n by (intro wrap_small) (auto simp: wf_client_def)
  with gone(2) show "sid < k_next_sid (t_state (after pf state s))" by (simp add: next_sid_step)
  show "\<forall>d \<in> set (t_deliveries (after pf state s)). d_sid d \<noteq> sid"
    using step_delivery(3) gone(1) by metis
qed

lemma gone_run:
  "wf_client n state \<Longrightarrow> list_all wf_step ss \<Longrightarrow> n + int (length ss) + 2 \<le> int max_int \<Longrightarrow>
   table state sid = None \<Longrightarrow> sid < k_next_sid state \<Longrightarrow>
     \<forall>d \<in> set (snd (run pf state ss)). d_sid d \<noteq> sid"
proof (induction ss arbitrary: n state)
  case (Cons s ss)
  then have s: "n + 2 \<le> int max_int" "wf_step s" "list_all wf_step ss" by simp_all
  note step = gone_step [OF Cons.prems(1) s(1,2) Cons.prems(4,5), of pf]
  have "\<forall>d \<in> set (snd (run pf (t_state (after pf state s)) ss)). d_sid d \<noteq> sid"
    by (rule Cons.IH [OF wf_after [OF Cons.prems(1) s(1,2)] s(3) _ step(1,2)]) (use Cons.prems(3) in simp)
  with step(3) show ?case by (auto simp: Let_def case_prod_unfold)
qed simp

lemma reachable_sid:
  assumes "wf_client n state" "table state sid = Some s"
  shows "sid < k_next_sid state"
  using table_wf(1,2) [OF assms] by (simp add: wf_subscription_def)

lemma unsubscribe_known:
  assumes "accepted pf state (Command (Do_unsubscribe sid))"
  obtains s where "table state sid = Some s"
proof -
  from assms obtain t where "step_outcome pf state (Command (Do_unsubscribe sid)) = Some (Inr t)" by (rule acceptedE)
  then have "outgoing_unsubscribe state sid None = Inr t" by (simp add: step_outcome_def outgoing_def)
  then show ?thesis by (rule unsubscribe_effect) (rule that)
qed

text \<open>
  C6: After an accepted unsubscribe nothing is delivered for that id any more, whatever
  messages still arrive for it and whatever is subscribed, reconnected or replayed later: ids
  are never used again.
\<close>

theorem unsubscribed_is_silent:
  assumes "admissible config (ss @ [Command (Do_unsubscribe sid)] @ ts)"
    and "state = fst (run pf (client_v config) ss)" "accepted pf state (Command (Do_unsubscribe sid))"
  shows "\<forall>d \<in> set (snd (run pf (t_state (after pf state (Command (Do_unsubscribe sid)))) ts)). d_sid d \<noteq> sid"
proof -
  let ?s = "Command (Do_unsubscribe sid)" and ?n = "int (length ss)"
  have wf: "wf_client ?n state" using reachable_wf [OF admissible_append [OF assms(1)]] assms(2) by simp
  have n: "?n + 2 \<le> int max_int" "wf_step ?s" "list_all wf_step ts" "?n + 1 + int (length ts) + 2 \<le> int max_int"
    using assms(1) by (simp_all add: admissible_def wf_step_def)
  from unsubscribe_known [OF assms(3)] obtain s where s: "table state sid = Some s" .
  have "table (t_state (after pf state ?s)) sid = None"
    using assms(3) by (simp add: table_step [OF wf n(1,2)])
  moreover have "sid < k_next_sid (t_state (after pf state ?s))"
    using reachable_sid [OF wf s] by (simp add: next_sid_step)
  ultimately show ?thesis by (rule gone_run [OF wf_after [OF wf n(1,2)] n(3,4)])
qed

definition sample_message :: message where
  "sample_message = \<lparr>m_subject = ''a.b'', m_reply_to = None, m_headers = [], m_payload = ''x''\<rparr>"

lemmas client_eval = sample_steps_def sample_platform_def sample_config_def sample_info_def sample_message_def
  after_def step_outcome_def outgoing_def handle_operation_def handle_open_def handle_info_def info_of_string_def
  outgoing_subscribe_def outgoing_connect_def outgoing_unsubscribe_def unsubscribed_def connect_value_def
  client_v_def touch_def next_ping_def find_subscription_def remove_subscription_def
  encode_all_def encode_with_state_def encode_client_def negotiated_limits_def replay_operations_def
  encode_def encode_output_def operation_output_def line_output_def check_limits_def output_size_def
  default_limits_def contains_line_break_def show_int_def show_nat.simps wrap63_def CR_def LF_def Let_def

lemma sample_state:
  "fst (run sample_platform (client_v sample_config) sample_steps) =
     \<lparr>k_config = sample_config, k_phase = Connected, k_info = Some \<lparr>i_server_id = None, i_server_name = None,
        i_version = None, i_proto = Some 1, i_max_payload = 1024, i_headers = True, i_no_responders = False,
        i_auth_required = False, i_tls_required = False, i_nonce = None, i_lame_duck_mode = False,
        i_connect_urls = []\<rparr>, k_next_sid = 2,
      k_subscriptions = [\<lparr>s_sid = 1, s_subject = ''a.*'', s_queue_group = None, s_remaining = None, s_delivered = 0\<rparr>],
      k_draining = [], k_pings = empty_ping_queue, k_liveness = 0, k_next_ping = Some 30\<rparr>"
  by (simp add: client_eval)

lemma sample_unsubscribe:
  "accepted sample_platform (fst (run sample_platform (client_v sample_config) sample_steps)) (Command (Do_unsubscribe 1))"
  unfolding sample_state accepted_def by (simp add: client_eval)

theorem unsubscribed_is_silent_witness:
  "let state = fst (run sample_platform (client_v sample_config) sample_steps);
       s = Command (Do_unsubscribe 1);
       ts = [Incoming 1 (Msg 1 sample_message), Command (Do_subscribe ''a.*'' None)] in
     \<forall>d \<in> set (snd (run sample_platform (t_state (after sample_platform state s)) ts)). d_sid d \<noteq> 1"
  using unsubscribed_is_silent [OF _ refl sample_unsubscribe,
      of "[Incoming 1 (Msg 1 sample_message), Command (Do_subscribe ''a.*'' None)]"]
    sample_admissible [of "[Command (Do_unsubscribe 1), Incoming 1 (Msg 1 sample_message),
      Command (Do_subscribe ''a.*'' None)]"]
  by (simp add: wf_step_def Let_def)

section \<open>Limited subscriptions\<close>

text \<open>At most \<open>k\<close> more messages are due to the id.\<close>

definition limited :: "int \<Rightarrow> int \<Rightarrow> client \<Rightarrow> bool" where
  "limited k sid state \<longleftrightarrow> 0 \<le> k \<and> sid < k_next_sid state \<and>
     (case table state sid of None \<Rightarrow> True | Some s \<Rightarrow> (case s_remaining s of None \<Rightarrow> False | Some r \<Rightarrow> r \<le> k))"

definition count_sid :: "int \<Rightarrow> delivery list \<Rightarrow> int" where
  "count_sid sid ds = int (length (filter (\<lambda>d. d_sid d = sid) ds))"

lemma count_sid_simps [simp]:
  "count_sid sid [] = 0" "count_sid sid (ds @ es) = count_sid sid ds + count_sid sid es"
  "count_sid sid [d] = (if d_sid d = sid then 1 else 0)"
  by (simp_all add: count_sid_def)

lemma table_after_other:
  assumes "sid < k_next_sid state" "\<And>m. s \<noteq> Command (Do_auto_unsubscribe sid m)"
  shows "table_after state s sid = table state sid \<or> table_after state s sid = None \<or>
    table_after state s sid = deliver_table sid (table state) sid"
  using assms
  by (cases "(state, s)" rule: table_after.cases)
     (auto simp: deliver_table_def limit_table_def split: option.splits list.splits ping_origin.splits)

lemma limited_step:
  assumes wf: "wf_client n state" and n: "n + 2 \<le> int max_int" and w: "wf_step s"
    and lim: "limited k sid state" and s: "\<And>m. s \<noteq> Command (Do_auto_unsubscribe sid m)"
  shows "limited (k - count_sid sid (t_deliveries (after pf state s))) sid (t_state (after pf state s))"
proof -
  let ?t = "after pf state s"
  have "wrap63 (k_next_sid state + 1) = k_next_sid state + 1"
    using wf n by (intro wrap_small) (auto simp: wf_client_def)
  with lim have next': "sid < k_next_sid (t_state ?t)" by (simp add: next_sid_step limited_def)
  have positive: "1 \<le> r" if "table state sid = Some sub" "s_remaining sub = Some r" for sub r
    using table_wf(1) [OF wf that(1)] that(2) by (simp add: wf_subscription_def)
  show ?thesis
  proof (cases "\<exists>d \<in> set (t_deliveries ?t). d_sid d = sid")
    case True
    then obtain d where d: "d \<in> set (t_deliveries ?t)" "d_sid d = sid" by blast
    note step = step_delivery [OF d(1)]
    from step(3) d(2) obtain sub where sub: "table state sid = Some sub" by auto
    with lim obtain r where r: "s_remaining sub = Some r" "r \<le> k" by (auto simp: limited_def split: option.splits)
    have "table (t_state ?t) sid = deliver_table sid (table state) sid"
      using step(2,4) d(2) by (simp add: table_step [OF wf n w])
    with sub r positive [OF sub r(1)] next' step(1) d(2) show ?thesis
      by (auto simp: limited_def deliver_table_def)
  next
    case False
    then have none: "count_sid sid (t_deliveries ?t) = 0" by (auto simp: count_sid_def filter_empty_conv)
    have "table (t_state ?t) sid \<in> {table state sid, None, deliver_table sid (table state) sid}"
      using table_after_other [of sid state s] lim s by (auto simp: table_step [OF wf n w] limited_def)
    with none next' lim positive show ?thesis
      by (auto simp: limited_def deliver_table_def split: option.splits if_splits)
  qed
qed

lemma limited_run:
  "wf_client n state \<Longrightarrow> list_all wf_step ss \<Longrightarrow> n + int (length ss) + 2 \<le> int max_int \<Longrightarrow>
   limited k sid state \<Longrightarrow> (\<And>m. Command (Do_auto_unsubscribe sid m) \<notin> set ss) \<Longrightarrow>
     count_sid sid (snd (run pf state ss)) \<le> k"
proof (induction ss arbitrary: n state k)
  case Nil
  then show ?case by (simp add: limited_def)
next
  case (Cons s ss)
  then have s: "n + 2 \<le> int max_int" "wf_step s" "list_all wf_step ss" "\<And>m. s \<noteq> Command (Do_auto_unsubscribe sid m)"
    by auto
  have "count_sid sid (snd (run pf (t_state (after pf state s)) ss)) \<le> k - count_sid sid (t_deliveries (after pf state s))"
    by (rule Cons.IH [OF wf_after [OF Cons.prems(1) s(1,2)] s(3) _
          limited_step [OF Cons.prems(1) s(1,2) Cons.prems(4) s(4), of pf]])
       (use Cons.prems(3,5) in auto)
  then show ?case by (simp add: Let_def case_prod_unfold)
qed

text \<open>
  C7: An automatic unsubscribe after \<open>m\<close> messages bounds what the subscription delivers: the
  messages it had delivered before and all it delivers later, in any run without another
  automatic unsubscribe for it and across reconnects, are at most \<open>m\<close>, or those it already had.
\<close>

theorem auto_unsubscribe_bounds:
  assumes "admissible config (ss @ [Command (Do_auto_unsubscribe sid m)] @ ts)"
    and "state = fst (run pf (client_v config) ss)" "accepted pf state (Command (Do_auto_unsubscribe sid m))"
    and "table state sid = Some s" "\<And>m'. Command (Do_auto_unsubscribe sid m') \<notin> set ts"
  shows "s_delivered s + count_sid sid
      (snd (run pf (t_state (after pf state (Command (Do_auto_unsubscribe sid m)))) ts)) \<le> max m (s_delivered s)"
proof -
  let ?s = "Command (Do_auto_unsubscribe sid m)" and ?n = "int (length ss)"
  have wf: "wf_client ?n state" using reachable_wf [OF admissible_append [OF assms(1)]] assms(2) by simp
  have n: "?n + 2 \<le> int max_int" "wf_step ?s" "list_all wf_step ts" "?n + 1 + int (length ts) + 2 \<le> int max_int"
    using assms(1) by (simp_all add: admissible_def)
  have "limited (max m (s_delivered s) - s_delivered s) sid (t_state (after pf state ?s))"
    using assms(3,4) reachable_sid [OF wf assms(4)]
    by (auto simp: limited_def table_step [OF wf n(1,2)] next_sid_step limit_table_def)
  from limited_run [OF wf_after [OF wf n(1,2)] n(3,4) this assms(5), of pf] show ?thesis by linarith
qed

lemma sample_auto_unsubscribe:
  "accepted sample_platform (fst (run sample_platform (client_v sample_config) sample_steps)) (Command (Do_auto_unsubscribe 1 1))"
  "table (fst (run sample_platform (client_v sample_config) sample_steps)) 1 =
     Some \<lparr>s_sid = 1, s_subject = ''a.*'', s_queue_group = None, s_remaining = None, s_delivered = 0\<rparr>"
  unfolding sample_state accepted_def by (simp_all add: client_eval table_def)

theorem auto_unsubscribe_bounds_witness:
  "let state = fst (run sample_platform (client_v sample_config) sample_steps);
       s = Command (Do_auto_unsubscribe 1 1);
       ts = [Incoming 1 (Msg 1 sample_message), Incoming 1 (Msg 1 sample_message)] in
     count_sid 1 (snd (run sample_platform (t_state (after sample_platform state s)) ts)) \<le> 1"
  using auto_unsubscribe_bounds [OF _ refl sample_auto_unsubscribe,
      of "[Incoming 1 (Msg 1 sample_message), Incoming 1 (Msg 1 sample_message)]"]
    sample_admissible [of "[Command (Do_auto_unsubscribe 1 1), Incoming 1 (Msg 1 sample_message),
      Incoming 1 (Msg 1 sample_message)]"]
  by (simp add: wf_step_def max_int_def Let_def)

end
