(* ===== verification/CodecProps.thy ===== *)
theory CodecProps
  imports Codec PacketReader
begin

text \<open>
  The wire form is faithful: whatever the encoder accepts, the incremental reader and the
  decoder give back, however the bytes arrive and whatever follows them.
\<close>

section \<open>Fields of a line\<close>

definition field :: "string \<Rightarrow> bool" where
  "field w \<longleftrightarrow> CHR '' '' \<notin> set w \<and> CR \<notin> set w \<and> LF \<notin> set w"

lemma split_on_join: "ws \<noteq> [] \<Longrightarrow> \<forall>w \<in> set ws. c \<notin> set w \<Longrightarrow> split_on c (join c ws) = ws"
  by (induction c ws rule: join.induct) auto

lemma words_join: "ws \<noteq> [] \<Longrightarrow> list_all field ws \<Longrightarrow> words (join CHR '' '' ws) = ws"
  unfolding words_def by (rule split_on_join) (auto simp: list_all_iff field_def)

lemma set_join: "set (join c ws) \<subseteq> insert c (\<Union>w \<in> set ws. set w)"
  by (induction c ws rule: join.induct) auto

lemma join_no_break: "list_all field ws \<Longrightarrow> CR \<notin> set (join CHR '' '' ws) \<and> LF \<notin> set (join CHR '' '' ws)"
  using set_join [of "CHR '' ''" ws] by (auto simp: list_all_iff field_def CR_def LF_def)

lemma first_word_join: "field w \<Longrightarrow> first_word (join CHR '' '' (w # ws)) = w"
proof (cases ws)
  case Nil
  moreover assume "field w"
  ultimately show ?thesis
    by (simp add: first_word_def field_def)
next
  case (Cons v vs)
  moreover assume "field w"
  ultimately show ?thesis by (simp add: first_word_def field_def sub_def)
qed

lemma keyword_first_word: "keyword line = first_word line"
  by (simp add: keyword_def first_word_def)

lemma digit_field: "\<forall>c \<in> set w. is_digit c \<Longrightarrow> field w"
  by (auto simp: field_def is_digit_def)

lemma show_nat_field [simp]: "field (show_nat n)"
  by (rule digit_field) (blast intro: show_nat_digits)

lemma show_int_pos: "0 \<le> i \<Longrightarrow> show_int i = show_nat (nat i)"
  by (simp add: show_int_def)

lemma subject_field: "valid_subject filtr s \<Longrightarrow> field s"
  by (simp add: field_def valid_subject_no_blank)

lemma parse_nonnegative_show [simp]: "n \<le> max_int \<Longrightarrow> parse_nonnegative kw (show_nat n) = Inr n"
  by (simp add: parse_nonnegative_def parse_dec_show_nat)

lemma parse_number_show [simp]: "n \<le> max_int \<Longrightarrow> parse_number (show_nat n) = Some n"
  by (simp add: parse_number_def parse_dec_show_nat)

lemma parse_sid_show: "0 < sid \<Longrightarrow> sid \<le> int max_int \<Longrightarrow> parse_sid (show_int sid) = Inr sid"
  by (simp add: parse_sid_def show_int_pos nat_le_iff)

lemma parse_max_messages_show: "0 \<le> m \<Longrightarrow> m \<le> int max_int \<Longrightarrow> parse_max_messages (show_int m) = Inr m"
  by (simp add: parse_max_messages_def show_int_pos nat_le_iff)

lemma accepted_subjects [simp]:
  "valid_subject False s \<Longrightarrow> subject s = Inr s"
  "valid_subject True s \<Longrightarrow> filter' s = Inr s"
  "valid_subject False s \<Longrightarrow> queue_group s = Inr s"
  by (simp_all add: validate_accepts subject_def filter'_def queue_group_def)

section \<open>Values the types allow\<close>

text \<open>
  Subjects, filters, queue groups and headers are abstract types whose values were validated;
  an OCaml integer is at most \<open>max_int\<close>.
\<close>

definition wf_message :: "message \<Rightarrow> bool" where
  "wf_message m \<longleftrightarrow>
     valid_subject False (m_subject m) \<and>
     (case m_reply_to m of None \<Rightarrow> True | Some r \<Rightarrow> valid_subject False r) \<and>
     wf_header (m_headers m)"

fun wf_op :: "op \<Rightarrow> bool" where
  "wf_op (Pub m) = wf_message m"
| "wf_op (Hpub m st) = wf_message m"
| "wf_op (Sub f q sid) =
     (valid_subject True f \<and> (case q of None \<Rightarrow> True | Some q \<Rightarrow> valid_subject False q) \<and> sid \<le> int max_int)"
| "wf_op (Unsub sid m) = (sid \<le> int max_int \<and> (case m of None \<Rightarrow> True | Some m \<Rightarrow> m \<le> int max_int))"
| "wf_op (Msg sid m) = (wf_message m \<and> sid \<le> int max_int)"
| "wf_op (Hmsg sid m st) = (wf_message m \<and> sid \<le> int max_int)"
| "wf_op _ = True"

definition wf_limits :: "limits \<Rightarrow> bool" where
  "wf_limits limits \<longleftrightarrow>
     max_line_bytes limits + 2 \<le> int max_int \<and> max_header_bytes limits \<le> int max_int \<and>
     max_payload_bytes limits \<le> int max_int \<and> max_packet_bytes limits \<le> int max_int"

section \<open>Header blocks\<close>

lemma find_crlf_from_line:
  "CR \<notin> set line \<Longrightarrow> find_crlf_from (pre @ line @ CR # LF # tail) (length pre) = Some (length pre + length line)"
  by (simp add: find_crlf_from_def find_crlf_append)

lemma parse_header_field_line:
  assumes "valid_name name"
  shows "parse_header_field (name @ '': '' @ v) = Inr (name, v)"
proof -
  have "CHR '':'' \<notin> set name" "name \<noteq> []"
    using assms by (auto simp: valid_name_def invalid_name_character_def)
  then have "index_opt (name @ CHR '':'' # CHR '' '' # v) CHR '':'' = Some (length name)" by simp
  moreover have "(name @ CHR '':'' # CHR '' '' # v) ! Suc (length name) = CHR '' ''"
    by (simp add: nth_append)
  ultimately show ?thesis
    using \<open>name \<noteq> []\<close> by (simp add: parse_header_field_def sub_def Let_def)
qed

lemma return_invalid: "invalid_name_character CR" "invalid_value_character CR"
  by (simp_all add: invalid_name_character_def invalid_value_character_def CR_def)

lemma header_line_clean:
  assumes "valid_name name" "valid_value v"
  shows "CR \<notin> set (name @ '': '' @ v)"
proof -
  have "CR \<notin> set name" "CR \<notin> set v"
    using assms return_invalid unfolding valid_name_def valid_value_def by blast+
  then show ?thesis by (simp add: CR_def)
qed

lemma header_fields_step:
  assumes "position < fields_end" "find_crlf_from block position = Some line_end"
    and "\<not> line_end > fields_end" "sub block position (line_end - position) = line"
    and "parse_header_field line = Inr f" "line \<noteq> []"
  shows "header_fields block fields_end position acc =
    header_fields block fields_end (line_end + 2) (f # acc)"
  using assms by (simp add: header_fields.simps [of block fields_end position acc])

lemma header_fields_lines:
  assumes "\<forall>(name, v) \<in> set ps. valid_name name \<and> valid_value v"
  shows "header_fields (pre @ concat (map header_line ps) @ crlf)
      (length pre + length (concat (map header_line ps))) (length pre) acc =
    Some (rev ps @ acc, length pre + length (concat (map header_line ps)))"
  using assms
proof (induction ps arbitrary: pre acc)
  case Nil
  show ?case by (simp add: header_fields.simps)
next
  case (Cons p ps)
  obtain name v where p: "p = (name, v)" by (cases p)
  with Cons.prems have ok: "valid_name name" "valid_value v" by auto
  let ?line = "name @ '': '' @ v"
  let ?tail = "concat (map header_line ps) @ crlf"
  let ?block = "pre @ concat (map header_line (p # ps)) @ crlf"
  let ?stop = "length pre + length (concat (map header_line (p # ps)))"
  have block: "?block = pre @ ?line @ CR # LF # ?tail" by (simp add: p header_line_def)
  have found: "find_crlf_from ?block (length pre) = Some (length pre + length ?line)"
    unfolding block by (rule find_crlf_from_line) (rule header_line_clean [OF ok])
  have before: "length pre < ?stop" "\<not> length pre + length ?line > ?stop" by (simp_all add: p header_line_def)
  have line: "sub ?block (length pre) (length pre + length ?line - length pre) = ?line"
    unfolding block by (simp add: sub_def)
  have step: "header_fields ?block ?stop (length pre) acc =
      header_fields ?block ?stop (length pre + length ?line + 2) ((name, v) # acc)"
    by (rule header_fields_step [OF before(1) found before(2) line])
       (simp_all only: parse_header_field_line [OF ok(1)], simp)
  have shape: "?block = (pre @ header_line p) @ concat (map header_line ps) @ crlf"
      "?stop = length (pre @ header_line p) + length (concat (map header_line ps))"
      "length pre + length ?line + 2 = length (pre @ header_line p)"
    by (simp_all add: p header_line_def)
  have "header_fields ?block ?stop (length pre) acc = Some (rev ps @ (name, v) # acc, ?stop)"
    unfolding step unfolding shape by (rule Cons.IH) (use Cons.prems in auto)
  then show ?case by (simp add: p)
qed

lemma show_nat_three: "100 \<le> n \<Longrightarrow> n \<le> 999 \<Longrightarrow> length (show_nat n) = 3"
proof -
  assume n: "100 \<le> n" "n \<le> 999"
  then have "\<not> n < 10" "\<not> n div 10 < 10" "n div 10 div 10 < 10" by simp_all
  then show ?thesis
    using show_nat.simps [of n] show_nat.simps [of "n div 10"] show_nat.simps [of "n div 10 div 10"] by simp
qed

lemma version_length [simp]: "length version = 8"
  by (simp add: version_def)

lemma version_clean [simp]: "CR \<notin> set version" "LF \<notin> set version"
  by (simp_all add: version_def CR_def LF_def)

lemma status_of_text:
  assumes "valid_status st"
  shows "status_of (version @ status_text st) = Inr st"
proof (cases st)
  case None
  then show ?thesis by (simp add: status_of_def status_text_def)
next
  case (Some s)
  obtain c d where s: "s = \<lparr>st_code = c, st_description = d\<rparr>" by (cases s)
  with assms Some have c: "100 \<le> c" "c \<le> 999" and d: "\<not> contains_line_break d"
    by (simp_all add: valid_status_def)
  let ?code = "show_nat (nat c)"
  have digits: "CHR '' '' \<notin> set ?code" using show_nat_field [of "nat c"] by (simp add: field_def)
  have three: "length ?code = 3" using c by (intro show_nat_three) simp_all
  have code: "100 \<le> nat c" "nat c \<le> 999" "int (nat c) = c" using c by simp_all
  have num: "parse_number ?code = Some (nat c)" using c by (intro parse_number_show) (simp add: max_int_def)
  have shown: "status_text st = CHR '' '' # ?code @ (if d \<noteq> [] then CHR '' '' # d else [])"
    using Some s c by (simp add: status_text_def show_int_pos)
  let ?tail = "?code @ (if d \<noteq> [] then CHR '' '' # d else [])"
  have "take 9 (version @ CHR '' '' # ?tail) = version @ '' ''" by simp
  moreover have "sub (version @ CHR '' '' # ?tail) 9 (length (version @ CHR '' '' # ?tail) - 9) = ?tail"
    by (simp add: sub_def)
  moreover have "version @ CHR '' '' # ?tail \<noteq> version" by simp
  ultimately have "status_of (version @ status_text st) =
      (let (code_value, description) = (?code, d) in Inr (Some \<lparr>st_code = c, st_description = d\<rparr>))"
    using digits three num d code
    unfolding shown by (cases "d = []") (simp_all add: status_of_def sub_def)
  then show ?thesis using Some s by simp
qed

lemma status_text_clean:
  assumes "valid_status st"
  shows "CR \<notin> set (status_text st)"
proof (cases st)
  case (Some s)
  with assms have "0 \<le> st_code s" "CR \<notin> set (st_description s)"
    by (auto simp: valid_status_def contains_line_break_def list_ex_iff)
  moreover have "CR \<notin> set (show_nat n)" for n using show_nat_field [of n] by (simp add: field_def)
  ultimately show ?thesis using Some by (simp add: status_text_def show_int_pos CR_def)
qed (simp add: status_text_def)

lemma parse_header_block_inverse:
  assumes "valid_status st" "wf_header headers"
  shows "parse_header_block (header_block st headers) = Inr (st, headers)"
proof -
  let ?first = "version @ status_text st"
  let ?lines = "concat (map header_line (header_to_list headers))"
  let ?block = "header_block st headers"
  have block: "?block = [] @ ?first @ CR # LF # ?lines @ crlf" by (simp add: header_block_def)
  have n: "length ?block = length ?first + 2 + length ?lines + 2" by (simp add: block)
  have "drop (length ?block - 2) ?block = crlf"
  proof -
    have "?block = (?first @ crlf @ ?lines) @ crlf" by (simp add: block)
    moreover have "length ?block - 2 = length (?first @ crlf @ ?lines)" by (simp add: n)
    ultimately show ?thesis by (metis append_eq_conv_conj)
  qed
  moreover have "find_crlf_from ?block 0 = Some (length ?first)"
    using find_crlf_from_line [of ?first "[]" "?lines @ crlf"] status_text_clean [OF assms(1)] block by simp
  moreover have "sub ?block 0 (length ?first) = ?first" by (simp add: block sub_def)
  moreover have "header_fields ?block (length ?block - 2) (length ?first + 2) [] =
      Some (rev (header_to_list headers), length ?block - 2)"
  proof -
    have valid: "\<forall>(name, v) \<in> set (header_to_list headers). valid_name name \<and> valid_value v"
      using assms(2) by (auto simp: wf_header_def list_all_iff header_to_list_def)
    have "?block = (?first @ crlf) @ ?lines @ crlf" by (simp add: block)
    then show ?thesis
      using header_fields_lines [OF valid, of "?first @ crlf" "[]"] n by (simp add: add.assoc)
  qed
  ultimately show ?thesis
    using n status_of_text [OF assms(1)] header_of_list_to_list [OF assms(2)]
    by (simp add: parse_header_block_def Let_def)
qed

section \<open>Control lines as lists of fields\<close>

fun opt_list :: "'a option \<Rightarrow> 'a list" where
  "opt_list None = []"
| "opt_list (Some x) = [x]"

lemma suffixes_join:
  "kw @ '' '' @ subj @ sid_suffix sid @ reply_suffix reply_to @ '' '' @ tail =
     join CHR '' '' (kw # subj # opt_list (map_option show_int sid) @ opt_list reply_to @ [tail])"
  by (cases sid; cases reply_to) (simp_all add: sid_suffix_def reply_suffix_def)

lemma join_last: "ws \<noteq> [] \<Longrightarrow> join CHR '' '' ws @ '' '' @ v = join CHR '' '' (ws @ [v])"
  by (induction "CHR '' ''" ws rule: join.induct) auto

lemma field_literals [simp]:
  "field ''PUB''" "field ''HPUB''" "field ''MSG''" "field ''HMSG''" "field ''SUB''" "field ''UNSUB''"
  by (simp_all add: field_def CR_def LF_def)

lemma show_int_field: "0 < sid \<Longrightarrow> field (show_int sid)"
  by (simp add: show_int_pos)

text \<open>What the decoder needs of an output: the line is clean and framed as the encoder framed it.\<close>

definition sound_output :: "limits \<Rightarrow> op \<Rightarrow> wire_output \<Rightarrow> bool" where
  "sound_output limits operation out \<longleftrightarrow>
     CR \<notin> set (o_line out) \<and> LF \<notin> set (o_line out) \<and>
     classify (o_line out) limits = Inr (o_framing out) \<and>
     decode \<lparr>pk_line = o_line out, pk_body = o_body out, pk_framing = o_framing out\<rparr> = Inr operation"

lemma message_of_parts:
  assumes "wf_message m"
  shows "message_of (m_subject m) (m_reply_to m) (m_headers m) (m_payload m) = Inr m"
    and "field (m_subject m)" and "list_all field (opt_list (m_reply_to m))"
    and "m_reply_to m \<noteq> Some []"
  using assms
  by (auto simp: wf_message_def message_of_def reply_subject_def subject_field valid_subject_nonempty
      dest: valid_subject_nonempty split: option.splits)

lemma payload_framing:
  "n \<le> max_int \<Longrightarrow> int n \<le> max_payload_bytes limits \<Longrightarrow>
     parse_payload_framing kw (show_nat n) limits = Inr (Payload n)"
  by (simp add: parse_payload_framing_def validate_payload_def)

lemma headers_framing:
  "all \<le> max_int \<Longrightarrow> head \<le> all \<Longrightarrow> int head \<le> max_header_bytes limits \<Longrightarrow>
   int all \<le> max_payload_bytes limits \<Longrightarrow>
     parse_headers_framing kw (show_nat head) (show_nat all) limits = Inr (Headers head all)"
  by (simp add: parse_headers_framing_def validate_payload_def)

lemma sound_pub:
  assumes "wf_message m" "m_headers m = []" "length (m_payload m) \<le> max_int"
    and "int (length (m_payload m)) \<le> max_payload_bytes limits"
  shows "sound_output limits (Pub m)
    (make_payload_output None ''PUB'' (m_subject m) (m_reply_to m) (m_payload m))"
proof -
  note parts = message_of_parts [OF assms(1)]
  let ?ws = "''PUB'' # m_subject m # opt_list (m_reply_to m) @ [show_nat (length (m_payload m))]"
  let ?line = "join CHR '' '' ?ws"
  have fields: "list_all field ?ws" using parts by simp
  have out: "make_payload_output None ''PUB'' (m_subject m) (m_reply_to m) (m_payload m) =
      \<lparr>o_line = ?line, o_body = m_payload m, o_framing = Payload (length (m_payload m))\<rparr>"
    using suffixes_join [of "''PUB''" _ None] by (simp add: make_payload_output_def)
  have word: "first_word ?line = ''PUB''" by (rule first_word_join) simp
  have ws: "words ?line = ?ws" by (rule words_join) (use fields in simp_all)
  have "classify ?line limits = Inr (Payload (length (m_payload m)))"
    using payload_framing [OF assms(3,4)] word ws by (cases "m_reply_to m") (simp_all add: classify_def)
  moreover have "decode \<lparr>pk_line = ?line, pk_body = m_payload m,
      pk_framing = Payload (length (m_payload m))\<rparr> = Inr (Pub m)"
    using word ws parts assms(2,3)
    by (cases "m_reply_to m")
       (simp_all add: decode_def decode_pub_def keyword_first_word optional_reply_value_def)
  ultimately show ?thesis
    using join_no_break [OF fields] unfolding out sound_output_def by simp
qed

lemma sound_msg:
  assumes "wf_message m" "m_headers m = []" "length (m_payload m) \<le> max_int"
    and "int (length (m_payload m)) \<le> max_payload_bytes limits"
    and "0 < sid" "sid \<le> int max_int"
  shows "sound_output limits (Msg sid m)
    (make_payload_output (Some sid) ''MSG'' (m_subject m) (m_reply_to m) (m_payload m))"
proof -
  note parts = message_of_parts [OF assms(1)]
  let ?ws = "''MSG'' # m_subject m # show_int sid # opt_list (m_reply_to m) @ [show_nat (length (m_payload m))]"
  let ?line = "join CHR '' '' ?ws"
  have fields: "list_all field ?ws" using parts show_int_field [OF assms(5)] by simp
  have out: "make_payload_output (Some sid) ''MSG'' (m_subject m) (m_reply_to m) (m_payload m) =
      \<lparr>o_line = ?line, o_body = m_payload m, o_framing = Payload (length (m_payload m))\<rparr>"
    using suffixes_join [of "''MSG''" _ "Some sid"] by (simp add: make_payload_output_def)
  have word: "first_word ?line = ''MSG''" by (rule first_word_join) simp
  have ws: "words ?line = ?ws" by (rule words_join) (use fields in simp_all)
  have "classify ?line limits = Inr (Payload (length (m_payload m)))"
    using payload_framing [OF assms(3,4)] word ws by (cases "m_reply_to m") (simp_all add: classify_def)
  moreover have "decode \<lparr>pk_line = ?line, pk_body = m_payload m,
      pk_framing = Payload (length (m_payload m))\<rparr> = Inr (Msg sid m)"
    using word ws parts assms(2) parse_sid_show [OF assms(5,6)]
    by (cases "m_reply_to m")
       (simp_all add: decode_def decode_msg_def keyword_first_word optional_reply_value_def)
  ultimately show ?thesis
    using join_no_break [OF fields] unfolding out sound_output_def by simp
qed

text \<open>The header forms: the block is cut off the body and parsed back.\<close>

lemma payload_and_headers_block:
  assumes "valid_status st" "wf_header headers"
  shows "payload_and_headers \<lparr>pk_line = line, pk_body = header_block st headers @ payload,
      pk_framing = Headers (length (header_block st headers)) (length (header_block st headers) + length payload)\<rparr> =
    Inr (st, headers, payload)"
  using parse_header_block_inverse [OF assms] by (simp add: payload_and_headers_def Let_def)

lemma sound_hpub:
  assumes "wf_message m" "valid_status st"
    and "length (header_block st (m_headers m)) + length (m_payload m) \<le> max_int"
    and "int (length (header_block st (m_headers m)) + length (m_payload m)) \<le> max_payload_bytes limits"
    and "int (length (header_block st (m_headers m))) \<le> max_header_bytes limits"
  shows "sound_output limits (Hpub m st)
    (make_headers_output None ''HPUB'' (m_subject m) (m_reply_to m) st (m_headers m) (m_payload m))"
proof -
  note parts = message_of_parts [OF assms(1)]
  let ?head = "length (header_block st (m_headers m))"
  let ?all = "?head + length (m_payload m)"
  let ?ws = "''HPUB'' # m_subject m # opt_list (m_reply_to m) @ [show_nat ?head, show_nat ?all]"
  let ?line = "join CHR '' '' ?ws"
  have fields: "list_all field ?ws" using parts by simp
  have out: "make_headers_output None ''HPUB'' (m_subject m) (m_reply_to m) st (m_headers m) (m_payload m) =
      \<lparr>o_line = ?line, o_body = header_block st (m_headers m) @ m_payload m, o_framing = Headers ?head ?all\<rparr>"
    using suffixes_join [of "''HPUB''" "m_subject m" None "m_reply_to m" "show_nat ?head @ '' '' @ show_nat ?all"]
    by (cases "m_reply_to m") (simp_all add: make_headers_output_def Let_def)
  have word: "first_word ?line = ''HPUB''" by (rule first_word_join) simp
  have ws: "words ?line = ?ws" by (rule words_join) (use fields in simp_all)
  have "classify ?line limits = Inr (Headers ?head ?all)"
    using headers_framing [OF assms(3) le_add1 assms(5,4)] word ws
    by (cases "m_reply_to m") (simp_all add: classify_def)
  moreover have "wf_header (m_headers m)" using assms(1) by (simp add: wf_message_def)
  note body = payload_and_headers_block [OF assms(2) this, of ?line "m_payload m"]
  have "decode \<lparr>pk_line = ?line, pk_body = header_block st (m_headers m) @ m_payload m,
      pk_framing = Headers ?head ?all\<rparr> = Inr (Hpub m st)"
    using word ws parts body
    by (cases "m_reply_to m")
       (simp_all add: decode_def decode_hpub_def decode_hpub_message_def keyword_first_word
          optional_reply_value_def)
  ultimately show ?thesis
    using join_no_break [OF fields] unfolding out sound_output_def by simp
qed

lemma sound_hmsg:
  assumes "wf_message m" "valid_status st"
    and "length (header_block st (m_headers m)) + length (m_payload m) \<le> max_int"
    and "int (length (header_block st (m_headers m)) + length (m_payload m)) \<le> max_payload_bytes limits"
    and "int (length (header_block st (m_headers m))) \<le> max_header_bytes limits"
    and "0 < sid" "sid \<le> int max_int"
  shows "sound_output limits (Hmsg sid m st)
    (make_headers_output (Some sid) ''HMSG'' (m_subject m) (m_reply_to m) st (m_headers m) (m_payload m))"
proof -
  note parts = message_of_parts [OF assms(1)]
  let ?head = "length (header_block st (m_headers m))"
  let ?all = "?head + length (m_payload m)"
  let ?ws = "''HMSG'' # m_subject m # show_int sid # opt_list (m_reply_to m) @ [show_nat ?head, show_nat ?all]"
  let ?line = "join CHR '' '' ?ws"
  have fields: "list_all field ?ws" using parts show_int_field [OF assms(6)] by simp
  have out: "make_headers_output (Some sid) ''HMSG'' (m_subject m) (m_reply_to m) st (m_headers m) (m_payload m) =
      \<lparr>o_line = ?line, o_body = header_block st (m_headers m) @ m_payload m, o_framing = Headers ?head ?all\<rparr>"
    using suffixes_join [of "''HMSG''" "m_subject m" "Some sid" "m_reply_to m" "show_nat ?head @ '' '' @ show_nat ?all"]
    by (cases "m_reply_to m") (simp_all add: make_headers_output_def Let_def)
  have word: "first_word ?line = ''HMSG''" by (rule first_word_join) simp
  have ws: "words ?line = ?ws" by (rule words_join) (use fields in simp_all)
  have "classify ?line limits = Inr (Headers ?head ?all)"
    using headers_framing [OF assms(3) le_add1 assms(5,4)] word ws
    by (cases "m_reply_to m") (simp_all add: classify_def)
  moreover have "wf_header (m_headers m)" using assms(1) by (simp add: wf_message_def)
  note body = payload_and_headers_block [OF assms(2) this, of ?line "m_payload m"]
  have "decode \<lparr>pk_line = ?line, pk_body = header_block st (m_headers m) @ m_payload m,
      pk_framing = Headers ?head ?all\<rparr> = Inr (Hmsg sid m st)"
    using word ws parts body parse_sid_show [OF assms(6,7)]
    by (cases "m_reply_to m")
       (simp_all add: decode_def decode_hmsg_def decode_hmsg_message_def keyword_first_word
          optional_reply_value_def)
  ultimately show ?thesis
    using join_no_break [OF fields] unfolding out sound_output_def by simp
qed

text \<open>Operations of one line.\<close>

lemma classify_line: "first_word line \<in> set line_keywords \<Longrightarrow> classify line limits = Inr Line"
  unfolding classify_def Let_def by (auto simp: line_keywords_def)

lemma decode_text_line:
  assumes "keyword line = operation" "rest line operation = Some t"
  shows "decode_text \<lparr>pk_line = line, pk_body = body, pk_framing = Line\<rparr> operation mk = Inr (mk t)"
  using assms unfolding decode_text_def expect_line_def by (auto split: unit.split)

lemma text_operation:
  assumes "\<not> contains_line_break t"
  shows "sound_output limits (Info t) (line_output (''INFO '' @ t))"
    and "sound_output limits (Connect t) (line_output (''CONNECT '' @ t))"
    and "sound_output limits (Server_error t) (line_output (''-ERR '' @ t))"
proof -
  have clean: "CR \<notin> set t" "LF \<notin> set t"
    using assms by (auto simp: contains_line_break_def list_ex_iff)
  then have "CR \<notin> set (''INFO '' @ t) \<and> LF \<notin> set (''INFO '' @ t)"
    "CR \<notin> set (''CONNECT '' @ t) \<and> LF \<notin> set (''CONNECT '' @ t)"
    "CR \<notin> set (''-ERR '' @ t) \<and> LF \<notin> set (''-ERR '' @ t)"
    by (simp_all add: CR_def LF_def)
  moreover have word: "first_word (''INFO '' @ t) = ''INFO''"
    "first_word (''CONNECT '' @ t) = ''CONNECT''" "first_word (''-ERR '' @ t) = ''-ERR''"
    by (simp_all add: first_word_def sub_def)
  moreover have "rest (''INFO '' @ t) ''INFO'' = Some t"
    "rest (''CONNECT '' @ t) ''CONNECT'' = Some t" "rest (''-ERR '' @ t) ''-ERR'' = Some t"
    by (simp_all add: rest_def sub_def Let_def)
  moreover have "classify (''INFO '' @ t) limits = Inr Line" "classify (''CONNECT '' @ t) limits = Inr Line"
    "classify (''-ERR '' @ t) limits = Inr Line"
    by (rule classify_line, simp only: word line_keywords_def, simp)+
  moreover have
    "decode \<lparr>pk_line = ''INFO '' @ t, pk_body = [], pk_framing = Line\<rparr> =
       decode_text \<lparr>pk_line = ''INFO '' @ t, pk_body = [], pk_framing = Line\<rparr> ''INFO'' Info"
    "decode \<lparr>pk_line = ''CONNECT '' @ t, pk_body = [], pk_framing = Line\<rparr> =
       decode_text \<lparr>pk_line = ''CONNECT '' @ t, pk_body = [], pk_framing = Line\<rparr> ''CONNECT'' Connect"
    "decode \<lparr>pk_line = ''-ERR '' @ t, pk_body = [], pk_framing = Line\<rparr> =
       decode_text \<lparr>pk_line = ''-ERR '' @ t, pk_body = [], pk_framing = Line\<rparr> ''-ERR'' Server_error"
    unfolding decode_def packet.simps keyword_first_word word by simp_all
  ultimately show "sound_output limits (Info t) (line_output (''INFO '' @ t))"
    and "sound_output limits (Connect t) (line_output (''CONNECT '' @ t))"
    and "sound_output limits (Server_error t) (line_output (''-ERR '' @ t))"
    by (simp_all only: sound_output_def line_output_def wire_output.simps decode_text_line keyword_first_word simp_thms)
qed

lemma bare_operation:
  "sound_output limits Ping (line_output ''PING'')" "sound_output limits Pong (line_output ''PONG'')"
  "sound_output limits Ok (line_output ''+OK'')"
  by (simp_all add: sound_output_def line_output_def classify_def decode_def keyword_first_word
      first_word_def expect_line_def line_keywords_def CR_def LF_def)

lemma sound_sub:
  assumes "valid_subject True f" "\<And>q. queue = Some q \<Longrightarrow> valid_subject False q"
    and "0 < sid" "sid \<le> int max_int"
  shows "sound_output limits (Sub f queue sid) (line_output (''SUB '' @ f @
    (case queue of None \<Rightarrow> [] | Some q \<Rightarrow> '' '' @ q) @ '' '' @ show_int sid))"
proof -
  let ?ws = "''SUB'' # f # opt_list queue @ [show_int sid]"
  let ?line = "join CHR '' '' ?ws"
  have fields: "list_all field ?ws"
    using assms(1,2) show_int_field [OF assms(3)] by (cases queue) (auto simp: subject_field)
  have line: "''SUB '' @ f @ (case queue of None \<Rightarrow> [] | Some q \<Rightarrow> '' '' @ q) @ '' '' @ show_int sid = ?line"
    by (cases queue) simp_all
  have word: "first_word ?line = ''SUB''" by (rule first_word_join) simp
  have ws: "words ?line = ?ws" by (rule words_join) (use fields in simp_all)
  have "classify ?line limits = Inr Line" by (rule classify_line) (simp only: word line_keywords_def, simp)
  moreover have "decode \<lparr>pk_line = ?line, pk_body = [], pk_framing = Line\<rparr> = Inr (Sub f queue sid)"
    using word ws assms(1,2) parse_sid_show [OF assms(3,4)]
    by (cases queue) (simp_all add: decode_def decode_sub_def keyword_first_word expect_line_def)
  ultimately show ?thesis
    using join_no_break [OF fields] unfolding line sound_output_def line_output_def by simp
qed

lemma sound_unsub:
  assumes "0 < sid" "sid \<le> int max_int" "\<And>m. most = Some m \<Longrightarrow> 0 \<le> m \<and> m \<le> int max_int"
  shows "sound_output limits (Unsub sid most)
    (line_output (join CHR '' '' (''UNSUB'' # show_int sid # opt_list (map_option show_int most))))"
proof -
  let ?ws = "''UNSUB'' # show_int sid # opt_list (map_option show_int most)"
  let ?line = "join CHR '' '' ?ws"
  have fields: "list_all field ?ws"
    using assms(3) show_int_field [OF assms(1)] by (cases most) (auto simp: show_int_pos)
  have word: "first_word ?line = ''UNSUB''" by (rule first_word_join) simp
  have ws: "words ?line = ?ws" by (rule words_join) (use fields in simp_all)
  have "classify ?line limits = Inr Line" by (rule classify_line) (simp only: word line_keywords_def, simp)
  moreover have "decode \<lparr>pk_line = ?line, pk_body = [], pk_framing = Line\<rparr> = Inr (Unsub sid most)"
    using word ws assms(3) parse_sid_show [OF assms(1,2)] parse_max_messages_show
    by (cases most) (simp_all add: decode_def decode_unsub_def keyword_first_word expect_line_def)
  ultimately show ?thesis
    using join_no_break [OF fields] unfolding sound_output_def line_output_def by simp
qed

section \<open>The round trip\<close>

lemma check_limits_None:
  assumes "check_limits limits out = None"
  shows "valid_limits limits" "int (length (o_line out)) \<le> max_line_bytes limits"
    and "length (o_body out) = body_length (o_framing out)"
    and "int (body_length (o_framing out)) \<le> max_payload_bytes limits"
    and "int (output_size out) \<le> max_packet_bytes limits"
    and "o_framing out = Headers head all \<Longrightarrow> int head \<le> max_header_bytes limits"
  using assms
  by (auto simp: check_limits_def valid_limits_def body_length_def Let_def
      split: if_splits framing.splits prod.splits)

lemma output_packet_size:
  "int (output_size out) \<le> int max_int \<Longrightarrow>
     packet_size (length (o_line out)) (o_framing out) = Inr (output_size out)"
  by (auto simp: output_size_def packet_size_def add_size_def Let_def split: framing.splits)

lemma operation_sound:
  assumes "wf_op operation" "operation_output operation = Inr out"
    and "check_limits limits out = None" "wf_limits limits"
  shows "sound_output limits operation out"
proof -
  note checked = check_limits_None [OF assms(3)]
  have body: "int (body_length (o_framing out)) \<le> max_payload_bytes limits" by (rule checked)
  then have small: "body_length (o_framing out) \<le> max_int" using assms(4) by (simp add: wf_limits_def)
  show ?thesis
  proof (cases operation)
    case (Pub m)
    with assms(1,2) have m: "wf_message m" "m_headers m = []"
        "out = make_payload_output None ''PUB'' (m_subject m) (m_reply_to m) (m_payload m)"
      by (simp_all add: operation_output_def split: if_splits)
    from m(3) have "o_framing out = Payload (length (m_payload m))" by (simp add: make_payload_output_def)
    with sound_pub [OF m(1,2)] m(3) body small Pub show ?thesis by (simp add: body_length_def)
  next
    case (Msg sid m)
    with assms(1,2) have m: "wf_message m" "m_headers m = []" "0 < sid" "sid \<le> int max_int"
        "out = make_payload_output (Some sid) ''MSG'' (m_subject m) (m_reply_to m) (m_payload m)"
      by (simp_all add: operation_output_def split: if_splits)
    from m(5) have "o_framing out = Payload (length (m_payload m))" by (simp add: make_payload_output_def)
    with sound_msg [OF m(1,2) _ _ m(3,4)] m(5) body small Msg show ?thesis by (simp add: body_length_def)
  next
    case (Hpub m st)
    with assms(1,2) have m: "wf_message m" "valid_status st"
        "out = make_headers_output None ''HPUB'' (m_subject m) (m_reply_to m) st (m_headers m) (m_payload m)"
      by (simp_all add: operation_output_def split: if_splits)
    let ?head = "length (header_block st (m_headers m))"
    from m(3) have "o_framing out = Headers ?head (?head + length (m_payload m))"
      by (simp add: make_headers_output_def Let_def)
    with sound_hpub [OF m(1,2) _ _ _] m(3) body small checked(6) Hpub show ?thesis by (simp add: body_length_def)
  next
    case (Hmsg sid m st)
    with assms(1,2) have m: "wf_message m" "valid_status st" "0 < sid" "sid \<le> int max_int"
        "out = make_headers_output (Some sid) ''HMSG'' (m_subject m) (m_reply_to m) st (m_headers m) (m_payload m)"
      by (simp_all add: operation_output_def split: if_splits)
    let ?head = "length (header_block st (m_headers m))"
    from m(5) have "o_framing out = Headers ?head (?head + length (m_payload m))"
      by (simp add: make_headers_output_def Let_def)
    with sound_hmsg [OF m(1,2) _ _ _ m(3,4)] m(5) body small checked(6) Hmsg show ?thesis by (simp add: body_length_def)
  next
    case (Sub f queue sid)
    with assms(1,2) have m: "valid_subject True f" "0 < sid" "sid \<le> int max_int"
        "\<And>q. queue = Some q \<Longrightarrow> valid_subject False q"
        "out = line_output (''SUB '' @ f @ (case queue of None \<Rightarrow> [] | Some q \<Rightarrow> '' '' @ q) @ '' '' @ show_int sid)"
      by (simp_all add: operation_output_def split: if_splits)
    show ?thesis unfolding Sub m(5) by (rule sound_sub [OF m(1,4,2,3)])
  next
    case (Unsub sid most)
    with assms show ?thesis
      using sound_unsub [of sid most limits]
      by (auto simp: operation_output_def split: if_splits option.splits)
  qed (use assms text_operation bare_operation in \<open>auto simp: operation_output_def split: if_splits\<close>)
qed

text \<open>The bytes of an output are the printed packet of its line, body and framing.\<close>

lemma encode_output_packet:
  assumes "encode_output limits out = Inr bytes"
  shows "check_limits limits out = None"
    and "bytes = packet_to_string
      \<lparr>pk_line = o_line out, pk_body = o_body out, pk_framing = o_framing out\<rparr>"
  using assms by (auto simp: encode_output_def packet_to_string_def split: option.splits framing.splits)

lemma encode_starts_with_line:
  "packet_to_string packet @ tail = pk_line packet @ CR # LF # (drop (length (pk_line packet) + 2) (packet_to_string packet) @ tail)"
  by (auto simp: packet_to_string_def split: framing.splits)

lemma clean_packet:
  assumes "CR \<notin> set (pk_line packet)" "LF \<notin> set (pk_line packet)"
  shows "clean (packet_to_string packet @ tail)"
  unfolding encode_starts_with_line using assms by (simp add: clean_def find_crlf_append)

lemma encode_read_one:
  assumes "wf_op operation" "wf_limits limits" "encode limits operation = Inr bytes"
    and "reader_laws rd pb content" "content r = bytes @ tail"
  shows "\<exists>r'. codec_read rd pb eod limits r = Some (Inr operation, r') \<and> content r' = tail"
proof -
  obtain out where out: "operation_output operation = Inr out" and enc: "encode_output limits out = Inr bytes"
    using assms(3) by (cases "operation_output operation") (simp_all add: encode_def)
  note fits = encode_output_packet [OF enc]
  let ?p = "\<lparr>pk_line = o_line out, pk_body = o_body out, pk_framing = o_framing out\<rparr>"
  have sound: "sound_output limits operation out"
    using operation_sound assms(1,2) out fits(1) by blast
  note sound = this [unfolded sound_output_def]
  note checked = check_limits_None [OF fits(1)]
  have size': "int (output_size out) \<le> max_packet_bytes limits" by (rule checked)
  have spec: "read_spec eod limits (bytes @ tail) = Inr ?p"
    unfolding fits(2)
    by (rule read_spec_packet [OF checked(1)])
       (use sound checked(2,3) size' output_packet_size assms(2) in \<open>auto simp: wf_limits_def\<close>)
  have "clean (content r)"
    unfolding assms(5) fits(2) by (rule clean_packet) (use sound in simp_all)
  moreover have "max_line_bytes limits + 2 \<le> int max_int" using assms(2) by (simp add: wf_limits_def)
  ultimately obtain r' where r': "read rd pb eod limits r = Some (Inr ?p, r')"
    and tail: "packet_to_string ?p @ content r' = bytes @ tail"
    using read_clean [OF assms(4), of r limits eod] spec assms(5) by auto
  then have "content r' = tail" using fits(2) by simp
  moreover have "codec_read rd pb eod limits r = Some (Inr operation, r')"
    using r' sound by (simp add: codec_read_def)
  ultimately show ?thesis by blast
qed

text \<open>Reading \<open>n\<close> operations in a row; an error ends it.\<close>

fun codec_reads ::
  "('r \<Rightarrow> string \<times> 'r) \<Rightarrow> ('r \<Rightarrow> string \<Rightarrow> 'r) \<Rightarrow> bool \<Rightarrow> limits \<Rightarrow> nat \<Rightarrow> 'r \<Rightarrow> (op list decoded \<times> 'r) option" where
  "codec_reads rd pb eod limits 0 r = Some (Inr [], r)"
| "codec_reads rd pb eod limits (Suc n) r =
     (case codec_read rd pb eod limits r of
        None \<Rightarrow> None
      | Some (Inl error, r') \<Rightarrow> Some (Inl error, r')
      | Some (Inr operation, r') \<Rightarrow>
          map_option (\<lambda>(ops, r''). (map_result (\<lambda>ops. operation # ops) ops, r''))
            (codec_reads rd pb eod limits n r'))"

lemma encode_read_many:
  assumes "wf_limits limits" "reader_laws rd pb content"
  shows "list_all wf_op ops \<Longrightarrow> map (encode limits) ops = map Inr wires \<Longrightarrow> content r = concat wires @ tail \<Longrightarrow>
    \<exists>r'. codec_reads rd pb eod limits (length ops) r = Some (Inr ops, r') \<and> content r' = tail"
proof (induction ops arbitrary: wires r)
  case (Cons operation ops)
  then obtain bytes wires' where wires: "wires = bytes # wires'" "encode limits operation = Inr bytes"
    "map (encode limits) ops = map Inr wires'" by (cases wires) auto
  with Cons.prems have "wf_op operation" "content r = bytes @ concat wires' @ tail" by simp_all
  from encode_read_one [OF this(1) assms(1) wires(2) assms(2) this(2), of eod] obtain r1 where
    one: "codec_read rd pb eod limits r = Some (Inr operation, r1)" "content r1 = concat wires' @ tail" by blast
  from Cons.IH [OF _ wires(3) one(2)] Cons.prems(1) obtain r2 where
    "codec_reads rd pb eod limits (length ops) r1 = Some (Inr ops, r2)" "content r2 = tail" by auto
  with one(1) show ?case by simp
qed simp

text \<open>
  C1: What the encoder writes the codec reads back: for every sequence of operations whose
  values the types allow and that the encoder accepts under the limits, on every reader whose
  bytes start with the encodings in order, whatever follows and however the bytes are cut,
  reading as many operations under the same limits returns exactly that sequence and leaves the
  reader right behind it.
\<close>

theorem encode_read_roundtrip:
  assumes "list_all wf_op ops" "wf_limits limits" "map (encode limits) ops = map Inr wires"
    and "reader_laws rd pb content" "content r = concat wires @ tail"
  shows "\<exists>r'. codec_reads rd pb eod limits (length ops) r = Some (Inr ops, r') \<and> content r' = tail"
  using encode_read_many [OF assms(2,4,1,3,5)] .

definition sample_operation :: op where
  "sample_operation = Hpub
     \<lparr>m_subject = ''orders.eu'', m_reply_to = Some ''inbox.1'',
      m_headers = [\<lparr>e_name = ''Trace'', e_value = ''a b''\<rparr>], m_payload = ''x'' @ crlf @ ''y''\<rparr>
     (Some \<lparr>st_code = 503, st_description = ''No Responders''\<rparr>)"

theorem encode_read_roundtrip_witness:
  "\<exists>bytes r'. encode default_limits sample_operation = Inr bytes \<and>
     codec_reads slices_read slices_push False default_limits 2 [take 7 bytes, drop 7 bytes @ ''PI'', ''NG'' @ crlf @ ''PO''] =
       Some (Inr [sample_operation, Ping], r') \<and> concat r' = ''PO''"
proof -
  have wf: "wf_op sample_operation"
    by (simp add: sample_operation_def wf_message_def valid_subject_def wf_header_def valid_name_def
        valid_value_def token_ok_def plain_def is_forbidden_character_def invalid_name_character_def
        invalid_value_character_def)
  have limits: "wf_limits default_limits"
    by (simp add: wf_limits_def default_limits_def max_int_def)
  obtain out where out: "operation_output sample_operation = Inr out"
    by (simp add: operation_output_def sample_operation_def valid_status_def contains_line_break_def
        CR_def LF_def)
  have "check_limits default_limits out = None"
    using out
    by (auto simp: operation_output_def sample_operation_def valid_status_def contains_line_break_def
        make_headers_output_def header_block_def status_text_def version_def header_line_def
        header_to_list_def check_limits_def output_size_def default_limits_def show_int_def
        show_nat.simps sid_suffix_def reply_suffix_def Let_def split: if_splits)
  with out obtain bytes where bytes: "encode default_limits sample_operation = Inr bytes"
    by (cases "o_framing out") (simp_all add: encode_def encode_output_def)
  have ping: "encode default_limits Ping = Inr (''PING'' @ crlf)"
    by (simp add: encode_def encode_output_def operation_output_def line_output_def check_limits_def
        output_size_def default_limits_def Let_def)
  have "\<exists>r'. codec_reads slices_read slices_push False default_limits (length [sample_operation, Ping])
      [take 7 bytes, drop 7 bytes @ ''PI'', ''NG'' @ crlf @ ''PO''] = Some (Inr [sample_operation, Ping], r') \<and>
      concat r' = ''PO''"
    by (rule encode_read_roundtrip [OF _ limits _ slices_laws, where wires = "[bytes, ''PING'' @ crlf]"])
       (use wf bytes ping in simp_all)
  then show ?thesis using bytes by (simp add: numeral_2_eq_2)
qed

end
