(* ===== verification/ClientWire.thy ===== *)
theory ClientWire
  imports ClientProps CodecProps
begin

text \<open>
  What the client puts on the wire: replay after a reconnect as the server reads it, the limits
  of a publish, pings in turn, and the end of a silent connection.
\<close>

section \<open>Encoding several operations\<close>

lemma encode_loop_Inr:
  "encode_loop state ops rs = Inr wires \<longleftrightarrow>
     (\<exists>ws. wires = rev rs @ ws \<and> map (encode (negotiated_limits state)) ops = map Inr ws)"
proof (induction ops arbitrary: rs)
  case (Cons operation ops)
  show ?case
  proof (cases "encode (negotiated_limits state) operation")
    case (Inl error)
    then show ?thesis by (auto simp: encode_with_state_def encode_client_def Cons_eq_map_conv)
  next
    case (Inr wire)
    then show ?thesis
      by (auto simp: encode_with_state_def encode_client_def Cons.IH Cons_eq_map_conv)
  qed
qed auto

lemma encode_all_Inr:
  "encode_all state ops = Inr wires \<longleftrightarrow> map (encode (negotiated_limits state)) ops = map Inr wires"
  by (auto simp: encode_all_def encode_loop_Inr)

section \<open>Replay\<close>

text \<open>The operations that restore a subscription.\<close>

definition restoring :: "subscription \<Rightarrow> op list" where
  "restoring s = Sub (s_subject s) (s_queue_group s) (s_sid s) #
     (case s_remaining s of None \<Rightarrow> [] | Some remaining \<Rightarrow> [Unsub (s_sid s) (Some remaining)])"

lemma replay_operations_eq: "replay_operations subs = concat (map restoring (rev subs))"
proof -
  let ?f = "\<lambda>operations subscription.
     let subscribe = Sub (s_subject subscription) (s_queue_group subscription) (s_sid subscription) in
     case s_remaining subscription of
       None \<Rightarrow> subscribe # operations
     | Some remaining \<Rightarrow> subscribe # Unsub (s_sid subscription) (Some remaining) # operations"
  have "foldl ?f ops subs = concat (map restoring (rev subs)) @ ops" for ops
    by (induction subs arbitrary: ops) (auto simp: restoring_def Let_def split: option.splits)
  then show ?thesis unfolding replay_operations_def by simp
qed

lemma connect_output:
  assumes "outgoing_connect pf state credentials tls = Some (Inr t)"
  shows "\<exists>json info. k_info state = Some info \<and>
    encode_connect pf (connect_value state info credentials tls) = Inr json \<and>
    map (encode (negotiated_limits state)) (Connect json # concat (map restoring (subscriptions state))) =
      map Inr (t_output t)"
  using assms
  by (auto simp: outgoing_connect_def encode_with_state_def encode_client_def encode_all_Inr
      replay_operations_eq subscriptions_def split: phase.splits option.splits sum.splits)

text \<open>Subjects and queue groups are values of their abstract types.\<close>

definition typed_subscription :: "subscription \<Rightarrow> bool" where
  "typed_subscription s \<longleftrightarrow> valid_subject True (s_subject s) \<and>
     (case s_queue_group s of None \<Rightarrow> True | Some q \<Rightarrow> valid_subject False q)"

lemma restoring_wf:
  assumes "wf_subscription n next s" "next \<le> int max_int" "typed_subscription s"
  shows "list_all wf_op (restoring s)"
  using assms by (auto simp: restoring_def wf_subscription_def typed_subscription_def split: option.splits)

lemma negotiated_wf:
  assumes "\<And>info. k_info state = Some info \<Longrightarrow> i_max_payload info \<le> int max_int"
  shows "wf_limits (negotiated_limits state)"
  using assms by (cases "k_info state") (auto simp: negotiated_limits_def wf_limits_def default_limits_def max_int_def)

text \<open>
  C3: Connecting, and connecting again after a reconnect, restores the server's view: whoever
  reads the bytes it sends, however they are cut, reads one CONNECT and then for every
  subscription still in the table, oldest first, its SUB with its old id and, where it is
  limited, the UNSUB with the messages that remain.
\<close>

theorem connect_replays:
  assumes "admissible config ss" and "state = fst (run pf (client_v config) ss)"
    and "outgoing_connect pf state credentials tls = Some (Inr t)"
    and "\<forall>s \<in> set (k_subscriptions state). typed_subscription s"
    and "\<And>info. k_info state = Some info \<Longrightarrow> i_max_payload info \<le> int max_int"
    and "reader_laws rd pb content" and "content r = concat (t_output t)"
  shows "\<exists>json r'. codec_reads rd pb eod (negotiated_limits state) (length (t_output t)) r =
      Some (Inr (Connect json # concat (map restoring (subscriptions state))), r') \<and> content r' = []"
proof -
  have wf: "wf_client (int (length ss)) state" using reachable_wf [OF assms(1)] assms(2) by simp
  obtain json where out: "map (encode (negotiated_limits state))
      (Connect json # concat (map restoring (subscriptions state))) = map Inr (t_output t)"
    using connect_output [OF assms(3)] by blast
  have "k_next_sid state \<le> int max_int" using wf assms(1) by (simp add: wf_client_def admissible_def)
  then have "list_all wf_op (restoring s)" if "s \<in> set (k_subscriptions state)" for s
    using restoring_wf that wf assms(4) by (auto simp: wf_client_def list_all_iff)
  then have "list_all wf_op (Connect json # concat (map restoring (subscriptions state)))"
    by (auto simp: list_all_iff subscriptions_def)
  from encode_read_many [OF negotiated_wf [OF assms(5)] assms(6) this out, of r "[]" eod] assms(7)
  have "\<exists>r'. codec_reads rd pb eod (negotiated_limits state)
      (length (Connect json # concat (map restoring (subscriptions state)))) r =
      Some (Inr (Connect json # concat (map restoring (subscriptions state))), r') \<and> content r' = []"
    by simp
  moreover have "length (Connect json # concat (map restoring (subscriptions state))) = length (t_output t)"
    using arg_cong [OF out, of length] by (simp only: length_map)
  ultimately show ?thesis by (auto simp only:)
qed

definition sample_reconnect :: "client_step list" where
  "sample_reconnect = sample_steps @ [Command (Do_auto_unsubscribe 1 5), Reconnect False, Incoming 9 (Info ''{}'')]"

definition no_credentials :: credentials where
  "no_credentials = \<lparr>cr_auth_token = None, cr_user = None, cr_pass = None, cr_jwt = None,
     cr_nkey = None, cr_signature = None\<rparr>"

lemma sample_reconnect_run:
  "k_subscriptions (fst (run sample_platform (client_v sample_config) sample_reconnect)) =
     [\<lparr>s_sid = 1, s_subject = ''a.*'', s_queue_group = None, s_remaining = Some 5, s_delivered = 0\<rparr>]"
  "k_phase (fst (run sample_platform (client_v sample_config) sample_reconnect)) = Awaiting_connect"
  "\<exists>info. k_info (fst (run sample_platform (client_v sample_config) sample_reconnect)) = Some info \<and>
     i_max_payload info = 1024"
  unfolding sample_reconnect_def run_append fst_conv sample_state
  by (simp_all add: client_eval prepare_reconnect_def)

lemma sample_connect: "encode_connect sample_platform c = Inr ''{}''"
  by (simp add: sample_platform_def)

theorem connect_replays_witness:
  "\<exists>t json r'. outgoing_connect sample_platform
       (fst (run sample_platform (client_v sample_config) sample_reconnect)) no_credentials False = Some (Inr t) \<and>
     codec_reads slices_read slices_push True
       (negotiated_limits (fst (run sample_platform (client_v sample_config) sample_reconnect)))
       (length (t_output t)) (t_output t) =
       Some (Inr [Connect json, Sub ''a.*'' None 1, Unsub 1 (Some 5)], r')"
proof -
  let ?state = "fst (run sample_platform (client_v sample_config) sample_reconnect)"
  have admissible: "admissible sample_config sample_reconnect"
    unfolding sample_reconnect_def by (rule sample_admissible) (simp_all add: wf_step_def max_int_def)
  obtain info where info: "k_info ?state = Some info" "i_max_payload info = 1024"
    using sample_reconnect_run(3) by blast
  then have limits: "negotiated_limits ?state = default_limits\<lparr>max_payload_bytes := 1024\<rparr>"
    by (simp add: negotiated_limits_def)
  obtain t where t: "outgoing_connect sample_platform ?state no_credentials False = Some (Inr t)"
    using info limits
    by (simp add: outgoing_connect_def sample_reconnect_run sample_connect encode_with_state_def
        encode_client_def encode_all_def replay_operations_def encode_def encode_output_def operation_output_def
        line_output_def check_limits_def output_size_def default_limits_def contains_line_break_def show_int_def
        show_nat.simps CR_def LF_def Let_def)
  have typed: "\<forall>s \<in> set (k_subscriptions ?state). typed_subscription s"
    by (simp add: sample_reconnect_run typed_subscription_def valid_subject_def token_ok_def plain_def
        is_forbidden_character_def)
  have "\<exists>json r'. codec_reads slices_read slices_push True (negotiated_limits ?state) (length (t_output t)) (t_output t) =
      Some (Inr (Connect json # concat (map restoring (subscriptions ?state))), r') \<and> concat r' = []"
    by (rule connect_replays [OF admissible refl t typed _ slices_laws refl])
       (use info in \<open>simp add: max_int_def\<close>)
  with t show ?thesis by (auto simp: subscriptions_def sample_reconnect_run restoring_def)
qed

section \<open>Publishing\<close>

lemma encode_Inr_limits:
  assumes "encode limits operation = Inr wire"
  obtains out where "operation_output operation = Inr out" "check_limits limits out = None"
    "length wire = output_size out"
proof -
  obtain out where out: "operation_output operation = Inr out" "encode_output limits out = Inr wire"
    using assms by (cases "operation_output operation") (simp_all add: encode_def)
  note none = encode_output_packet(1) [OF out(2)]
  have "length wire = output_size out"
    using out(2) none check_limits_None(3) [OF none]
    by (cases "o_framing out") (auto simp: encode_output_def output_size_def body_length_def Let_def)
  with out(1) none show ?thesis by (rule that)
qed

text \<open>
  A publish that is accepted leaves the state alone and sends one packet: its payload is
  within what the server announced, the whole packet within 2 MiB whatever the server announced,
  and it carries headers only if the server takes them.
\<close>

theorem publish_bounded:
  assumes "outgoing_publish state m = Inr t"
  shows "k_phase state = Connected \<and> t_state t = state \<and>
    (\<exists>wire. t_output t = [wire] \<and> length wire \<le> 2 * 1024 * 1024) \<and>
    (case k_info state of
       Some info \<Rightarrow> int (length (m_payload m)) \<le> i_max_payload info \<and> (m_headers m = [] \<or> i_headers info)
     | None \<Rightarrow> length (m_payload m) \<le> 1024 * 1024 \<and> m_headers m = [])"
proof -
  let ?op = "if m_headers m = [] then Pub m else Hpub m None"
  have phase: "k_phase state = Connected"
    using assms by (auto simp: outgoing_publish_def require_connected_def split: phase.splits)
  have headers: "m_headers m = [] \<or> (\<exists>info. k_info state = Some info \<and> i_headers info)"
    using assms by (auto simp: outgoing_publish_def Let_def split: option.splits if_splits)
  obtain wire where wire: "encode (negotiated_limits state) ?op = Inr wire" "t_output t = [wire]"
    using assms
    by (auto simp: outgoing_publish_def encode_with_state_def encode_client_def Let_def
        split: option.splits sum.splits if_splits)
  from wire(1) obtain out where out: "operation_output ?op = Inr out"
    "check_limits (negotiated_limits state) out = None" "length wire = output_size out"
    by (rule encode_Inr_limits)
  have packet: "max_packet_bytes (negotiated_limits state) = 2 * 1024 * 1024"
    by (simp add: negotiated_limits_def default_limits_def split: option.split)
  have "length (m_payload m) \<le> body_length (o_framing out)"
    using out(1)
    by (auto simp: operation_output_def make_payload_output_def make_headers_output_def body_length_def Let_def
        valid_status_def split: if_splits)
  then have "int (length (m_payload m)) \<le> max_payload_bytes (negotiated_limits state)"
    using check_limits_None(4) [OF out(2)] by linarith
  moreover have "length wire \<le> 2 * 1024 * 1024"
    using check_limits_None(5) [OF out(2)] out(3) packet by linarith
  ultimately show ?thesis
    using phase publish_effect(1) [OF assms] wire(2) headers
    by (auto simp: negotiated_limits_def default_limits_def split: option.splits)
qed

lemma sample_publish:
  "\<exists>t. outgoing_publish (fst (run sample_platform (client_v sample_config) sample_steps)) sample_message = Inr t"
  unfolding sample_state
  by (simp add: client_eval outgoing_publish_def require_connected_def make_payload_output_def
      sid_suffix_def reply_suffix_def)

theorem publish_bounded_witness:
  "\<exists>t wire. outgoing_publish (fst (run sample_platform (client_v sample_config) sample_steps)) sample_message = Inr t \<and>
     t_output t = [wire] \<and> length wire \<le> 2 * 1024 * 1024"
  using sample_publish publish_bounded by blast

section \<open>Receiving\<close>

text \<open>
  Receiving composes the reader, the codec and the state machine: when the bytes start
  with an encoded operation the client handles exactly that operation and the reader stands
  behind it; when there are no bytes the client is unchanged, or closed if the input has ended.
\<close>

theorem incoming_operation:
  assumes "reader_laws rd pb content"
  shows "(wf_op operation \<and> encode default_limits operation = Inr bytes \<and> content r = bytes @ tail \<longrightarrow>
      (\<exists>r'. incoming pf rd pb eod state now r = Some (handle_operation pf state now operation, r') \<and> content r' = tail)) \<and>
    (content r = [] \<longrightarrow>
      (\<exists>r'. incoming pf rd pb eod state now r =
        Some (Inr (if eod then closed_transition state else empty_transition state), r') \<and> content r' = []))"
proof (intro conjI impI)
  assume a: "wf_op operation \<and> encode default_limits operation = Inr bytes \<and> content r = bytes @ tail"
  have "wf_limits default_limits" by (simp add: wf_limits_def default_limits_def max_int_def)
  with encode_read_one [OF _ this _ assms, of operation bytes r tail eod] a obtain r' where
    "codec_read rd pb eod default_limits r = Some (Inr operation, r')" "content r' = tail" by blast
  then show "\<exists>r'. incoming pf rd pb eod state now r = Some (handle_operation pf state now operation, r') \<and> content r' = tail"
    by (simp add: incoming_def)
next
  assume empty: "content r = []"
  have spec: "read_spec eod default_limits [] = Inl (if eod then End_of_input else Need_more)"
    by (simp add: read_spec_def line_answer_def valid_limits_def default_limits_def)
  have "clean (content r)" by (simp add: empty clean_def)
  moreover have "max_line_bytes default_limits + 2 \<le> int max_int" by (simp add: default_limits_def max_int_def)
  ultimately obtain r' where "read rd pb eod default_limits r = Some (Inl (if eod then End_of_input else Need_more), r')"
    "content r' = []"
    using read_clean [OF assms, of r default_limits eod] spec empty by auto
  then show "\<exists>r'. incoming pf rd pb eod state now r =
      Some (Inr (if eod then closed_transition state else empty_transition state), r') \<and> content r' = []"
    by (simp add: incoming_def codec_read_def)
qed

theorem incoming_operation_witness:
  "\<exists>r'. incoming sample_platform slices_read slices_push True (client_v sample_config) 5 [] =
     Some (Inr (closed_transition (client_v sample_config)), r')"
  using incoming_operation [OF slices_laws, of Ping "[]" "[]" "[]" sample_platform True "client_v sample_config" 5]
  by auto

end
