(* ===== verification/ClientPings.thy ===== *)
theory ClientPings
  imports ClientProps
begin

text \<open>
  Pings and time: a flush completes with the PONG of its own PING, and a server that has gone
  silent is given up after the configured number of pings.
\<close>

section \<open>Pings in turn\<close>

text \<open>The accepted PONGs of a run.\<close>

definition answers :: "platform \<Rightarrow> client \<Rightarrow> client_step \<Rightarrow> bool" where
  "answers pf state s \<longleftrightarrow> accepted pf state s \<and> (case s of Incoming _ Pong \<Rightarrow> True | _ \<Rightarrow> False)"

fun pongs :: "platform \<Rightarrow> client \<Rightarrow> client_step list \<Rightarrow> nat" where
  "pongs pf state [] = 0"
| "pongs pf state (s # ss) = (if answers pf state s then 1 else 0) + pongs pf (t_state (after pf state s)) ss"

lemma pong_pings: "pings (k_pings (fst (pong_state state))) = tl (pings (k_pings state))"
proof (cases "pings (k_pings state)")
  case Nil
  then show ?thesis by (simp add: pong_cases)
next
  case (Cons origin os)
  from ping_fifo.next_Cons [OF Cons] obtain q where "take_ping (k_pings state) = Some (origin, q)" "pings q = os"
    by blast
  with Cons show ?thesis by (cases origin) (simp_all add: pong_cases forget_subscription_def Let_def)
qed

lemma handled_pings:
  assumes "handle_operation pf state now operation = Inr t"
  shows "pings (k_pings (t_state t)) = (if operation = Pong then tl (pings (k_pings state)) else pings (k_pings state))"
  using assms
proof (cases rule: handle_cases)
  case pong
  then show ?thesis by (simp add: pong_pings)
next
  case (msg sid message)
  then show ?thesis by (cases rule: message_effect [of state sid pf now message None False]) auto
next
  case (hmsg sid message status)
  then show ?thesis by (cases rule: message_effect [of state sid pf now message status True]) auto
qed auto

lemma commanded_pings:
  assumes c: "outgoing pf state c = Some (Inr t)"
  shows "\<exists>added. pings (k_pings (t_state t)) = pings (k_pings state) @ added"
proof (cases c)
  case (Do_auto_unsubscribe sid m)
  with c have "outgoing_unsubscribe state sid (Some m) = Inr t" by (simp add: outgoing_def split: if_splits)
  then show ?thesis by (rule unsubscribe_effect) simp
next
  case (Do_unsubscribe sid)
  with c have "outgoing_unsubscribe state sid None = Inr t" by (simp add: outgoing_def)
  then show ?thesis by (rule unsubscribe_effect) simp
qed (use c in \<open>auto simp: outgoing_def connect_effect publish_effect subscribe_effect
    drain_subscription_effect flush_effect drain_effect ping_fifo.contents_put split: if_splits\<close>)

lemma pings_step:
  assumes "s \<noteq> Reconnect False"
  shows "\<exists>added. pings (k_pings (t_state (after pf state s))) =
    (if answers pf state s then tl (pings (k_pings state)) else pings (k_pings state) @ added)"
proof (cases "accepted pf state s")
  case False
  then show ?thesis by (auto simp: after_rejected answers_def)
next
  case True
  then obtain t where t: "step_outcome pf state s = Some (Inr t)" "after pf state s = t"
    by (rule acceptedE)
  show ?thesis
  proof (cases s)
    case (Command c)
    with t True commanded_pings [of pf state c t] show ?thesis by (simp add: step_outcome_def answers_def)
  next
    case (Incoming now operation)
    with t True handled_pings [of pf state now operation t] show ?thesis
      by (auto simp: step_outcome_def answers_def split: op.splits)
  next
    case (Tick now)
    with t show ?thesis
      by (cases rule: timer_effect [of pf state now])
         (auto simp: step_outcome_def answers_def ping_fifo.contents_put)
  qed (use t assms in \<open>auto simp: step_outcome_def answers_def prepare_reconnect_def forget_subscription_def\<close>)
qed

lemma pings_run:
  "Reconnect False \<notin> set ss \<Longrightarrow> pongs pf state ss \<le> length (pings (k_pings state)) \<Longrightarrow>
     \<exists>added. pings (k_pings (fst (run pf state ss))) = drop (pongs pf state ss) (pings (k_pings state)) @ added"
proof (induction ss arbitrary: state)
  case (Cons s ss)
  let ?next = "t_state (after pf state s)"
  have s: "s \<noteq> Reconnect False" "Reconnect False \<notin> set ss" using Cons.prems(1) by auto
  obtain added where step: "pings (k_pings ?next) =
      (if answers pf state s then tl (pings (k_pings state)) else pings (k_pings state) @ added)"
    using pings_step [OF s(1)] by blast
  have "pongs pf ?next ss \<le> length (pings (k_pings ?next))" using Cons.prems(2) step by auto
  from Cons.IH [OF s(2) this] obtain later where
    "pings (k_pings (fst (run pf ?next ss))) = drop (pongs pf ?next ss) (pings (k_pings ?next)) @ later" by blast
  then show ?case
    using step Cons.prems(2) by (auto simp: Let_def case_prod_unfold drop_Suc)
qed simp

text \<open>
  C9: A flush is answered by its own PONG: when \<open>k\<close> pings were unanswered at the flush, the
  first \<open>k\<close> PONGs that arrive, in any run that does not drop the pings, leave it pending, and
  the next one reports it complete.
\<close>

theorem flush_completes_in_turn:
  assumes "accepted pf state (Command Do_flush)" "state' = t_state (after pf state (Command Do_flush))"
    and "Reconnect False \<notin> set ss" "pongs pf state' ss = length (pings (k_pings state))"
    and "k_phase (fst (run pf state' ss)) \<in> {Connected, Draining}"
  shows "Flush_ping \<in> set (pings (k_pings (fst (run pf state' ss)))) \<and>
    t_events (after pf (fst (run pf state' ss)) (Incoming now Pong)) = [Flush_completed]"
proof -
  obtain t where "outgoing_flush state = Inr t" "state' = t_state t"
    using assms(1,2) by (auto simp: accepted_def after_def step_outcome_def outgoing_def split: sum.splits)
  with flush_effect have flushed: "pings (k_pings state') = pings (k_pings state) @ [Flush_ping]"
    by (simp add: ping_fifo.contents_put)
  let ?s = "fst (run pf state' ss)"
  obtain added where first: "pings (k_pings ?s) = Flush_ping # added"
    using pings_run [OF assms(3), of pf state'] assms(4) flushed by auto
  from ping_fifo.next_Cons [OF this] obtain q where "take_ping (k_pings ?s) = Some (Flush_ping, q)" by blast
  then have "snd (pong_state ?s) = [Flush_completed]" by (simp add: pong_state_def Let_def)
  then have "t_events (after pf ?s (Incoming now Pong)) = [Flush_completed]"
    using assms(5)
    by (auto simp: after_def step_outcome_def handle_operation_def handle_open_def handle_pong_def case_prod_unfold)
  with first show ?thesis by simp
qed

definition sample_flushing :: client where
  "sample_flushing = t_state (after sample_platform
     (fst (run sample_platform (client_v sample_config) sample_steps)) (Tick 40))"

lemma sample_flush:
  "accepted sample_platform sample_flushing (Command Do_flush)"
  "pings (k_pings sample_flushing) = [Liveness]"
  "pongs sample_platform (t_state (after sample_platform sample_flushing (Command Do_flush))) [Incoming 41 Pong] = 1"
  "k_phase (fst (run sample_platform (t_state (after sample_platform sample_flushing (Command Do_flush))) [Incoming 41 Pong])) = Connected"
  unfolding sample_flushing_def sample_state accepted_def
  by (simp_all add: client_eval timer_def outgoing_flush_def empty_transition_def enqueue_ping_def
      empty_ping_queue_def pings_def answers_def accepted_def handle_pong_def pong_state_def take_ping_def)

theorem flush_completes_in_turn_witness:
  "t_events (after sample_platform
     (fst (run sample_platform (t_state (after sample_platform sample_flushing (Command Do_flush))) [Incoming 41 Pong]))
     (Incoming 42 Pong)) = [Flush_completed]"
  using flush_completes_in_turn [OF sample_flush(1) refl, of "[Incoming 41 Pong]" 42] sample_flush by simp

section \<open>Silence\<close>

text \<open>Timer calls, none before the deadline of the one before.\<close>

fun late :: "nat \<Rightarrow> nat \<Rightarrow> nat list \<Rightarrow> bool" where
  "late interval deadline [] = True"
| "late interval deadline (now # nows) = (deadline \<le> now \<and> late interval (now + interval) nows)"

lemma closed_ticks: "k_phase state = Closed \<Longrightarrow> k_phase (fst (run pf state (map Tick nows))) = Closed"
proof (induction nows arbitrary: state)
  case (Cons now nows)
  then have "after pf state (Tick now) = empty_transition state"
    by (simp add: after_def step_outcome_def timer_def)
  with Cons show ?case by (simp add: Let_def case_prod_unfold)
qed simp

lemma silent_run:
  assumes "c_ping_interval (k_config state) = Some interval" "\<And>t. add_span pf t interval = Some (t + interval)"
    and "k_phase state = Connected" "k_next_ping state = Some deadline" "late interval deadline nows"
    and "0 \<le> k_liveness state" "c_max_pings_without_pong (k_config state) \<le> int max_int"
    and "c_max_pings_without_pong (k_config state) < k_liveness state + int (length nows)"
    and "k_liveness state \<le> c_max_pings_without_pong (k_config state)"
  shows "k_phase (fst (run pf state (map Tick nows))) = Closed"
  using assms
proof (induction nows arbitrary: state deadline)
  case Nil
  then show ?case by simp
next
  case (Cons now nows)
  let ?next = "t_state (after pf state (Tick now))"
  have after': "after pf state (Tick now) = timer pf state now" by (simp add: after_def step_outcome_def)
  have due: "\<not> now < deadline" using Cons.prems(5) by simp
  have "k_phase (fst (run pf ?next (map Tick nows))) = Closed"
  proof (cases "k_phase ?next = Closed")
    case True
    then show ?thesis by (rule closed_ticks)
  next
    case False
    let ?sent = "state\<lparr>k_next_ping := next_ping pf (k_config state) now,
        k_liveness := wrap63 (k_liveness state + 1), k_pings := enqueue_ping (k_pings state) Liveness\<rparr>"
    have next': "?next = ?sent" "k_liveness state < c_max_pings_without_pong (k_config state)"
      using False Cons.prems(3,4) due unfolding after'
      by (auto simp: timer_def Let_def split: if_splits sum.splits)
    have "wrap63 (k_liveness state + 1) = k_liveness state + 1"
      using next'(2) Cons.prems(6,7) by (intro wrap_small) simp_all
    then show ?thesis
      unfolding next'(1)
      by (intro Cons.IH [where deadline = "now + interval"])
         (use Cons.prems next'(2) in \<open>simp_all add: next_ping_def\<close>)
  qed
  then show ?case by (simp add: Let_def case_prod_unfold)
qed

text \<open>
  C10: A silent connection ends: in a reachable connected state with pings enabled and a clock
  that does not overflow, one timer call more than the configured number of unanswered pings,
  each no earlier than its deadline and with no PONG between them, closes the client.
\<close>

theorem silent_connection_closes:
  assumes "admissible config ss" "state = fst (run pf (client_v config) ss)"
    and "k_phase state = Connected" "k_next_ping state = Some deadline"
    and "c_ping_interval (k_config state) = Some interval" "\<And>t. add_span pf t interval = Some (t + interval)"
    and "late interval deadline nows"
    and "c_max_pings_without_pong (k_config state) < int (length nows)"
  shows "k_phase (fst (run pf state (map Tick nows))) = Closed"
proof -
  have "wf_client (int (length ss)) state" using reachable_wf [OF assms(1)] assms(2) by simp
  then show ?thesis
    using assms(3-8) by (intro silent_run [where interval = interval and deadline = deadline]) (auto simp: wf_client_def)
qed

theorem silent_connection_closes_witness:
  "k_phase (fst (run sample_platform (fst (run sample_platform (client_v sample_config) sample_steps))
     (map Tick [30, 60, 95]))) = Closed"
  by (rule silent_connection_closes [OF _ refl, where config = sample_config and deadline = 30 and interval = 30])
     (use sample_admissible [of "[]"] in \<open>simp_all add: sample_state, simp_all add: sample_config_def sample_platform_def\<close>)

end
