(* ===== verification/Auth.thy ===== *)
theory Auth
  imports Client
begin

text \<open>
  Authentication (lib/auth.ml): which credentials a CONNECT carries, given what the client was
  configured with and the INFO of the server. Signing a nonce is done by a function the user
  passes; here it is part of the method.
\<close>

datatype auth_error = Auth_required | Missing_nonce | Signing string

type_synonym signer = "string \<Rightarrow> string + string"

datatype auth =
    Anonymous
  | Tls_auth
  | Token string
  | User_pass string string
  | Nkey string signer
  | Jwt string string signer

definition credentials_v ::
  "string option \<Rightarrow> string option \<Rightarrow> string option \<Rightarrow> string option \<Rightarrow> string option \<Rightarrow> string option \<Rightarrow> credentials" where
  "credentials_v auth_token user pass jwt nkey signature =
     \<lparr>cr_auth_token = auth_token, cr_user = user, cr_pass = pass, cr_jwt = jwt, cr_nkey = nkey,
      cr_signature = signature\<rparr>"

definition signed :: "signer \<Rightarrow> (string \<Rightarrow> credentials) \<Rightarrow> server_info \<Rightarrow> auth_error + credentials" where
  "signed sign mk info =
     (case i_nonce info of
        None \<Rightarrow> Inl Missing_nonce
      | Some nonce \<Rightarrow>
          (case sign nonce of
             Inr signature \<Rightarrow> Inr (mk signature)
           | Inl message \<Rightarrow> Inl (Signing message)))"

definition auth_connect :: "auth \<Rightarrow> server_info \<Rightarrow> auth_error + credentials" where
  "auth_connect auth info =
     (case auth of
        Anonymous \<Rightarrow>
          if i_auth_required info then Inl Auth_required
          else Inr (credentials_v None None None None None None)
      | Tls_auth \<Rightarrow> Inr (credentials_v None None None None None None)
      | Token v \<Rightarrow> Inr (credentials_v (Some v) None None None None None)
      | User_pass user pass \<Rightarrow> Inr (credentials_v None (Some user) (Some pass) None None None)
      | Nkey nkey sign \<Rightarrow>
          signed sign (\<lambda>signature. credentials_v None None None None (Some nkey) (Some signature)) info
      | Jwt jwt nkey sign \<Rightarrow>
          signed sign (\<lambda>signature. credentials_v None None None (Some jwt) (Some nkey) (Some signature)) info)"

text \<open>A nonce is signed afresh for every INFO, and without a nonce nothing is sent.\<close>

lemma auth_connect_signature:
  "auth_connect auth info = Inr c \<Longrightarrow> cr_signature c = Some s \<Longrightarrow>
     \<exists>nonce sign. i_nonce info = Some nonce \<and> sign nonce = Inr s \<and>
       ((\<exists>nkey. auth = Nkey nkey sign) \<or> (\<exists>jwt nkey. auth = Jwt jwt nkey sign))"
  by (auto simp: auth_connect_def signed_def credentials_v_def split: auth.splits option.splits sum.splits if_splits)

lemma auth_connect_secret_needed:
  "auth_connect auth info = Inr c \<Longrightarrow> i_auth_required info \<Longrightarrow> auth \<noteq> Anonymous"
  by (auto simp: auth_connect_def)

end
