(* ===== verification/Endpoint.thy ===== *)
theory Endpoint
  imports Prelude "HOL-Library.List_Lexorder" "HOL-Library.Char_ord"
begin

text \<open>
  Server endpoints (lib/endpoint.ml): parsing and printing of URLs, and their total order,
  which is an instance of the library's linear orders.
\<close>

section \<open>Endpoints\<close>

datatype scheme = Nats | Tls

datatype endpoint_error =
    Empty_endpoint
  | Missing_scheme
  | Unsupported_scheme string
  | Invalid_authority
  | Missing_host
  | Invalid_host string
  | Unbracketed_ipv6
  | Userinfo_not_supported
  | Invalid_port string
  | Port_out_of_range string
  | Invalid_suffix

datatype endpoint = Endpoint (ep_scheme: scheme) (ep_host: string) (ep_port: nat)

definition and_then :: "'e + 'a \<Rightarrow> ('a \<Rightarrow> 'e + 'b) \<Rightarrow> 'e + 'b" where
  "and_then v f = (case v of Inl error \<Rightarrow> Inl error | Inr v \<Rightarrow> f v)"

lemma and_then_simps [simp]: "and_then (Inl e) f = Inl e" "and_then (Inr v) f = f v"
  by (simp_all add: and_then_def)

lemma and_then_Inr: "and_then v f = Inr r \<longleftrightarrow> (\<exists>a. v = Inr a \<and> f a = Inr r)"
  by (cases v) simp_all

definition scheme_of_string :: "string \<Rightarrow> endpoint_error + scheme" where
  "scheme_of_string s =
     (if s = ''nats'' then Inr Nats else if s = ''tls'' then Inr Tls else Inl (Unsupported_scheme s))"

definition string_of_scheme :: "scheme \<Rightarrow> string" where
  "string_of_scheme s = (case s of Nats \<Rightarrow> ''nats'' | Tls \<Rightarrow> ''tls'')"

definition find_char_from :: "string \<Rightarrow> char \<Rightarrow> nat \<Rightarrow> nat option" where
  "find_char_from v character start = map_option (\<lambda>p. start + p) (index_opt (drop start v) character)"

definition is_delimiter :: "char \<Rightarrow> bool" where
  "is_delimiter c \<longleftrightarrow> c = CHR ''/'' \<or> c = CHR ''?'' \<or> c = CHR ''#''"

text \<open>The position of the first delimiter from \<open>start\<close> on, else the length.\<close>

definition authority_end :: "string \<Rightarrow> nat \<Rightarrow> nat" where
  "authority_end v start =
     (if start \<le> length v then start + length (takeWhile (\<lambda>c. \<not> is_delimiter c) (drop start v))
      else length v)"

definition invalid_host_character :: "char \<Rightarrow> bool" where
  "invalid_host_character character \<longleftrightarrow>
     code character \<le> 32 \<or> code character = 127 \<or> character = CHR ''['' \<or> character = CHR '']'' \<or>
     character = CHR ''@'' \<or> character = CHR ''/'' \<or> character = CHR ''?'' \<or> character = CHR ''#''"

definition validate_host :: "bool \<Rightarrow> string \<Rightarrow> endpoint_error + string" where
  "validate_host allow_colon host =
     (if length host = 0 \<or>
         list_ex (\<lambda>c. invalid_host_character c \<or> \<not> allow_colon \<and> c = CHR '':'') host
      then Inl (Invalid_host host)
      else Inr (lowercase_ascii host))"

fun port_loop :: "string \<Rightarrow> nat \<Rightarrow> string \<Rightarrow> endpoint_error + nat" where
  "port_loop v parsed [] = Inr parsed"
| "port_loop v parsed (c # cs) =
     (if \<not> is_digit c then Inl (Invalid_port v)
      else
        (let d = digit_value c in
         if parsed > (65535 - d) div 10 then Inl (Port_out_of_range v)
         else port_loop v (parsed * 10 + d) cs))"

definition parse_port :: "string \<Rightarrow> endpoint_error + nat" where
  "parse_port v =
     (if length v = 0 then Inl (Invalid_port v)
      else
        (case port_loop v 0 v of
           Inl error \<Rightarrow> Inl error
         | Inr parsed \<Rightarrow> if parsed = 0 then Inl (Invalid_port v) else Inr parsed))"

definition parse_authority :: "string \<Rightarrow> endpoint_error + string \<times> nat" where
  "parse_authority authority =
     (if length authority = 0 then Inl Missing_host
      else if CHR ''@'' \<in> set authority then Inl Userinfo_not_supported
      else if authority ! 0 = CHR ''['' then
        (case find_char_from authority CHR '']'' 1 of
           None \<Rightarrow> Inl (Invalid_host authority)
         | Some close \<Rightarrow>
             (let host = sub authority 1 (close - 1);
                  suffix_start = close + 1;
                  suffix = sub authority suffix_start (length authority - suffix_start) in
              and_then (validate_host True host) (\<lambda>host.
              and_then
                (if length suffix = 0 then Inr 4222
                 else if suffix ! 0 = CHR '':'' then parse_port (sub suffix 1 (length suffix - 1))
                 else Inl (Invalid_host authority)) (\<lambda>port.
              Inr (host, port)))))
      else
        (case find_char_from authority CHR '':'' 0 of
           None \<Rightarrow> and_then (validate_host False authority) (\<lambda>host. Inr (host, 4222))
         | Some colon \<Rightarrow>
             if find_char_from authority CHR '':'' (colon + 1) \<noteq> None then Inl Unbracketed_ipv6
             else
               (let host = sub authority 0 colon;
                    port = sub authority (colon + 1) (length authority - colon - 1) in
                and_then (validate_host False host) (\<lambda>host.
                and_then (parse_port port) (\<lambda>port.
                Inr (host, port))))))"

definition endpoint_of_string :: "string \<Rightarrow> endpoint_error + endpoint" where
  "endpoint_of_string v =
     (if length v = 0 then Inl Empty_endpoint
      else
        (case index_opt v CHR '':'' of
           None \<Rightarrow> Inl Missing_scheme
         | Some separator \<Rightarrow>
             and_then (scheme_of_string (lowercase_ascii (sub v 0 separator))) (\<lambda>scheme.
               (let authority_start = separator + 1 in
                if authority_start + 1 \<ge> length v \<or> v ! authority_start \<noteq> CHR ''/'' \<or>
                   v ! (authority_start + 1) \<noteq> CHR ''/''
                then Inl Invalid_authority
                else
                  (let host_start = authority_start + 2;
                       host_stop = authority_end v host_start in
                   if host_stop \<noteq> length v then Inl Invalid_suffix
                   else
                     and_then (parse_authority (sub v host_start (host_stop - host_start)))
                       (\<lambda>(host, port). Inr (Endpoint scheme host port)))))))"

definition of_connect_url :: "scheme \<Rightarrow> string \<Rightarrow> endpoint_error + endpoint" where
  "of_connect_url default_scheme v =
     (let no_scheme =
            (if authority_end v 0 \<noteq> length v then Inl Invalid_suffix
             else and_then (parse_authority v) (\<lambda>(host, port). Inr (Endpoint default_scheme host port))) in
      if length v = 0 then Inl Empty_endpoint
      else
        (case index_opt v CHR '':'' of
           Some separator \<Rightarrow>
             if separator + 2 < length v \<and> v ! (separator + 1) = CHR ''/'' \<and> v ! (separator + 2) = CHR ''/''
             then endpoint_of_string v else no_scheme
         | None \<Rightarrow> no_scheme))"

definition endpoint_to_string :: "endpoint \<Rightarrow> string" where
  "endpoint_to_string v =
     (let shown = (if CHR '':'' \<in> set (ep_host v) then ''['' @ ep_host v @ '']'' else ep_host v) in
      string_of_scheme (ep_scheme v) @ ''://'' @ shown @ '':'' @ show_nat (ep_port v))"

section \<open>The order\<close>

text \<open>\<open>String.compare\<close> and \<open>Int.compare\<close>: negative, zero or positive.\<close>

definition compare_of :: "'a :: linorder \<Rightarrow> 'a \<Rightarrow> int" where
  "compare_of l r = (if l < r then -1 else if l = r then 0 else 1)"

definition compare_scheme :: "scheme \<Rightarrow> scheme \<Rightarrow> int" where
  "compare_scheme l r =
     (case (l, r) of (Nats, Nats) \<Rightarrow> 0 | (Tls, Tls) \<Rightarrow> 0 | (Nats, Tls) \<Rightarrow> -1 | (Tls, Nats) \<Rightarrow> 1)"

definition endpoint_equal :: "endpoint \<Rightarrow> endpoint \<Rightarrow> bool" where
  "endpoint_equal l r \<longleftrightarrow> compare_scheme (ep_scheme l) (ep_scheme r) = 0 \<and> ep_host l = ep_host r \<and> ep_port l = ep_port r"

definition endpoint_compare :: "endpoint \<Rightarrow> endpoint \<Rightarrow> int" where
  "endpoint_compare l r =
     (let result = compare_scheme (ep_scheme l) (ep_scheme r) in
      if result \<noteq> 0 then result
      else
        (let result = compare_of (ep_host l) (ep_host r) in
         if result \<noteq> 0 then result else compare_of (ep_port l) (ep_port r)))"

lemma compare_scheme_0 [simp]: "compare_scheme l r = 0 \<longleftrightarrow> l = r"
  by (cases l; cases r) (simp_all add: compare_scheme_def)

lemma endpoint_equal_iff [simp]: "endpoint_equal l r \<longleftrightarrow> l = r"
  by (cases l; cases r) (simp add: endpoint_equal_def)

text \<open>The compare functions are linear orders: signs add up along chains and flip with the sides.\<close>

lemma compare_of_laws:
  "compare_of l r = 0 \<longleftrightarrow> l = r" "compare_of l r < 0 \<longleftrightarrow> l < r" "compare_of l r > 0 \<longleftrightarrow> l > r"
  "compare_of l r \<le> 0 \<longleftrightarrow> l \<le> r"
  by (auto simp: compare_of_def)

instantiation scheme :: linorder
begin

definition less_eq_scheme :: "scheme \<Rightarrow> scheme \<Rightarrow> bool" where
  "less_eq_scheme l r \<longleftrightarrow> compare_scheme l r \<le> 0"

definition less_scheme :: "scheme \<Rightarrow> scheme \<Rightarrow> bool" where
  "less_scheme l r \<longleftrightarrow> compare_scheme l r < 0"

instance
proof
  fix x y z :: scheme
  show "(x < y) = (x \<le> y \<and> \<not> y \<le> x)" "x \<le> x" "x \<le> y \<or> y \<le> x"
    by (cases x; cases y; simp add: less_eq_scheme_def less_scheme_def compare_scheme_def)+
  show "x \<le> y \<Longrightarrow> y \<le> z \<Longrightarrow> x \<le> z"
    by (cases x; cases y; cases z) (simp_all add: less_eq_scheme_def compare_scheme_def)
  show "x \<le> y \<Longrightarrow> y \<le> x \<Longrightarrow> x = y"
    by (cases x; cases y) (simp_all add: less_eq_scheme_def compare_scheme_def)
qed

end

lemma compare_scheme_of: "compare_scheme l r = compare_of l r"
  by (cases l; cases r) (simp_all add: compare_of_def less_scheme_def compare_scheme_def)

lemma endpoint_compare_le:
  "endpoint_compare l r \<le> 0 \<longleftrightarrow>
     ep_scheme l < ep_scheme r \<or> ep_scheme l = ep_scheme r \<and> (ep_host l < ep_host r \<or> ep_host l = ep_host r \<and> ep_port l \<le> ep_port r)"
  by (auto simp: endpoint_compare_def compare_scheme_of compare_of_def Let_def)

lemma endpoint_compare_less:
  "endpoint_compare l r < 0 \<longleftrightarrow>
     ep_scheme l < ep_scheme r \<or> ep_scheme l = ep_scheme r \<and> (ep_host l < ep_host r \<or> ep_host l = ep_host r \<and> ep_port l < ep_port r)"
  by (auto simp: endpoint_compare_def compare_scheme_of compare_of_def Let_def)

instantiation endpoint :: linorder
begin

definition less_eq_endpoint :: "endpoint \<Rightarrow> endpoint \<Rightarrow> bool" where
  "less_eq_endpoint l r \<longleftrightarrow> endpoint_compare l r \<le> 0"

definition less_endpoint :: "endpoint \<Rightarrow> endpoint \<Rightarrow> bool" where
  "less_endpoint l r \<longleftrightarrow> endpoint_compare l r < 0"

instance
  by standard
    (auto simp: less_eq_endpoint_def less_endpoint_def endpoint_compare_le endpoint_compare_less
       endpoint.expand)

end

section \<open>Ports\<close>

lemma port_guard: "d \<le> 9 \<Longrightarrow> parsed > (65535 - d) div 10 \<longleftrightarrow> parsed * 10 + d > (65535 :: nat)"
  by linarith

lemma digit_value_le: "is_digit c \<Longrightarrow> digit_value c \<le> 9"
  unfolding is_digit_def digit_value_def by linarith

lemma port_loop_Inr:
  "parsed \<le> 65535 \<Longrightarrow> port_loop v parsed s = Inr n \<longleftrightarrow>
     (\<forall>c \<in> set s. is_digit c) \<and> dec_value parsed s \<le> 65535 \<and> n = dec_value parsed s"
proof (induction s arbitrary: parsed)
  case (Cons c s)
  show ?case
  proof (cases "is_digit c \<and> parsed * 10 + digit_value c \<le> 65535")
    case True
    with Cons.IH [of "parsed * 10 + digit_value c"] show ?thesis
      by (simp add: port_guard digit_value_le Let_def)
  next
    case False
    then show ?thesis
      using dec_value_ge [of "parsed * 10 + digit_value c" s]
      by (auto simp: port_guard digit_value_le Let_def)
  qed
qed auto

lemma parse_port_Inr:
  "parse_port v = Inr n \<longleftrightarrow>
     v \<noteq> [] \<and> (\<forall>c \<in> set v. is_digit c) \<and> n = dec_value 0 v \<and> 1 \<le> n \<and> n \<le> 65535"
  using port_loop_Inr [of 0 v v n] port_loop_Inr [of 0 v v 0]
  by (cases "port_loop v 0 v") (auto simp: parse_port_def)

lemma parse_port_show [simp]: "1 \<le> n \<Longrightarrow> n \<le> 65535 \<Longrightarrow> parse_port (show_nat n) = Inr n"
  by (simp add: parse_port_Inr dec_value_show_nat) (blast dest: show_nat_digits)

section \<open>Printing and parsing\<close>

text \<open>The invariant of the type: a lower-case host without reserved characters, a real port.\<close>

definition wf_endpoint :: "endpoint \<Rightarrow> bool" where
  "wf_endpoint e \<longleftrightarrow>
     ep_host e \<noteq> [] \<and> list_all (\<lambda>c. \<not> invalid_host_character c) (ep_host e) \<and>
     lowercase_ascii (ep_host e) = ep_host e \<and> 1 \<le> ep_port e \<and> ep_port e \<le> 65535"

lemma lower_valid: "\<not> invalid_host_character c \<Longrightarrow> \<not> invalid_host_character (lower_char c)"
proof (cases "65 \<le> code c \<and> code c \<le> 90")
  case True
  then have "97 \<le> code (lower_char c)" "code (lower_char c) \<le> 122" by (simp_all add: code_lower_char)
  then show "\<not> invalid_host_character (lower_char c)" by (auto simp: invalid_host_character_def)
next
  case False
  then show "\<not> invalid_host_character c \<Longrightarrow> ?thesis" by (auto simp: lower_char_def)
qed

lemma validate_host_Inr:
  assumes "validate_host allow h = Inr h'"
  shows "h' \<noteq> []" "list_all (\<lambda>c. \<not> invalid_host_character c) h'" "lowercase_ascii h' = h'"
proof -
  from assms have h: "h \<noteq> []" "h' = lowercase_ascii h"
    and ok: "\<not> list_ex (\<lambda>c. invalid_host_character c \<or> \<not> allow \<and> c = CHR '':'') h"
    unfolding validate_host_def by (simp_all only: split: if_splits) simp_all
  from ok have "c \<in> set h \<Longrightarrow> \<not> invalid_host_character c" for c unfolding list_ex_iff by blast
  with h show "h' \<noteq> []" "list_all (\<lambda>c. \<not> invalid_host_character c) h'" "lowercase_ascii h' = h'"
    by (simp_all add: lowercase_ascii_def list_all_iff lower_valid)
qed

lemma parse_authority_wf:
  assumes "parse_authority a = Inr (h, p)"
  shows "wf_endpoint (Endpoint s h p)"
proof -
  have "\<exists>allow h0. validate_host allow h0 = Inr h" "p = 4222 \<or> (\<exists>v. parse_port v = Inr p)"
    using assms
    by (auto simp: parse_authority_def and_then_Inr Let_def split: if_splits option.splits)
  then show ?thesis by (auto simp: wf_endpoint_def parse_port_Inr dest: validate_host_Inr)
qed

lemma parsed_wf: "endpoint_of_string v = Inr e \<Longrightarrow> wf_endpoint e"
  by (auto simp: endpoint_of_string_def and_then_Inr Let_def parse_authority_wf split: if_splits option.splits)

lemma connect_url_wf: "of_connect_url d v = Inr e \<Longrightarrow> wf_endpoint e"
  by (auto simp: of_connect_url_def and_then_Inr Let_def parse_authority_wf dest: parsed_wf
      split: if_splits option.splits)

lemma validate_host_wf:
  "wf_endpoint e \<Longrightarrow> allow \<or> CHR '':'' \<notin> set (ep_host e) \<Longrightarrow> validate_host allow (ep_host e) = Inr (ep_host e)"
  by (auto simp: wf_endpoint_def validate_host_def list_all_iff list_ex_iff)

lemma digits_plain:
  assumes "c \<in> set (show_nat n)"
  shows "\<not> is_delimiter c" "c \<noteq> CHR '':''" "c \<noteq> CHR ''@''"
  using show_nat_digits [OF assms] by (auto simp: is_digit_def is_delimiter_def)

lemma host_plain:
  assumes "wf_endpoint e" "c \<in> set (ep_host e)"
  shows "\<not> is_delimiter c" "c \<noteq> CHR '']''" "c \<noteq> CHR ''[''" "c \<noteq> CHR ''@''"
  using assms by (auto simp: wf_endpoint_def list_all_iff invalid_host_character_def is_delimiter_def)

lemma parse_authority_shown:
  assumes "wf_endpoint e"
  shows "parse_authority
      ((if CHR '':'' \<in> set (ep_host e) then ''['' @ ep_host e @ '']'' else ep_host e) @ '':'' @ show_nat (ep_port e)) =
    Inr (ep_host e, ep_port e)"
proof -
  let ?h = "ep_host e" and ?p = "show_nat (ep_port e)"
  have port: "parse_port ?p = Inr (ep_port e)" using assms by (simp add: wf_endpoint_def)
  have at: "CHR ''@'' \<notin> set ?h" "CHR ''@'' \<notin> set ?p" "CHR '':'' \<notin> set ?p" "CHR '']'' \<notin> set ?h"
    using digits_plain host_plain [OF assms] by blast+
  show ?thesis
  proof (cases "CHR '':'' \<in> set ?h")
    case True
    have "find_char_from (''['' @ ?h @ '']'' @ '':'' @ ?p) CHR '']'' 1 = Some (Suc (length ?h))"
      using at by (simp add: find_char_from_def)
    then show ?thesis
      using True at port validate_host_wf [OF assms, of True]
      by (simp add: parse_authority_def sub_def Let_def)
  next
    case False
    then have first: "find_char_from (?h @ '':'' @ ?p) CHR '':'' 0 = Some (length ?h)"
      and second: "find_char_from (?h @ '':'' @ ?p) CHR '':'' (length ?h + 1) = None"
      using at by (simp_all add: find_char_from_def)
    have "?h \<noteq> []" using assms by (simp add: wf_endpoint_def)
    then have "(?h @ '':'' @ ?p) ! 0 \<noteq> CHR ''[''"
      using host_plain(3) [OF assms] by (cases ?h) auto
    then show ?thesis
      using False first second at port validate_host_wf [OF assms, of False]
      by (simp add: parse_authority_def sub_def Let_def)
  qed
qed

lemma authority_end_all:
  "start \<le> length v \<Longrightarrow> \<forall>c \<in> set (drop start v). \<not> is_delimiter c \<Longrightarrow> authority_end v start = length v"
  by (simp add: authority_end_def takeWhile_eq_all_conv [THEN iffD2])

lemma endpoint_of_string_shown:
  assumes "wf_endpoint e"
  shows "endpoint_of_string (endpoint_to_string e) = Inr e"
proof -
  let ?shown = "(if CHR '':'' \<in> set (ep_host e) then ''['' @ ep_host e @ '']'' else ep_host e) @ '':'' @ show_nat (ep_port e)"
  let ?s = "string_of_scheme (ep_scheme e)"
  have text': "endpoint_to_string e = ?s @ CHR '':'' # ''//'' @ ?shown"
    by (simp add: endpoint_to_string_def Let_def)
  have plain: "\<forall>c \<in> set ?shown. \<not> is_delimiter c"
    using digits_plain(1) host_plain(1) [OF assms] by (auto simp: is_delimiter_def)
  have colon: "index_opt (?s @ CHR '':'' # ''//'' @ ?shown) CHR '':'' = Some (length ?s)"
    by (rule index_opt_append) (simp add: string_of_scheme_def split: scheme.split)
  have low: "scheme_of_string (lowercase_ascii ?s) = Inr (ep_scheme e)"
    by (cases "ep_scheme e")
       (simp_all add: string_of_scheme_def scheme_of_string_def lowercase_ascii_def lower_char_def)
  have stop: "authority_end (?s @ CHR '':'' # ''//'' @ ?shown) (length ?s + 1 + 2) = length (?s @ CHR '':'' # ''//'' @ ?shown)"
    by (rule authority_end_all) (use plain in simp_all)
  have "sub (?s @ CHR '':'' # ''//'' @ ?shown) (length ?s + 1 + 2) (length (?s @ CHR '':'' # ''//'' @ ?shown) - (length ?s + 1 + 2)) = ?shown"
    by (simp add: sub_def)
  then show ?thesis
    unfolding text' endpoint_of_string_def
    using colon low stop parse_authority_shown [OF assms]
    by (simp add: Let_def nth_append)
qed

text \<open>
  C36: Parsing is onto the printed form: every endpoint the URL parsers accept, whatever case,
  brackets or missing port it was written with, prints as a URL that parses back as itself.
\<close>

theorem endpoint_roundtrip:
  assumes "endpoint_of_string s = Inr e \<or> of_connect_url d s = Inr e"
  shows "endpoint_of_string (endpoint_to_string e) = Inr e"
  using assms by (auto intro: endpoint_of_string_shown dest: parsed_wf connect_url_wf)

theorem endpoint_roundtrip_witness:
  "\<exists>e. of_connect_url Tls ''[FE80::1]:443'' = Inr e \<and> endpoint_of_string (endpoint_to_string e) = Inr e"
proof -
  have "of_connect_url Tls ''[FE80::1]:443'' = Inr (Endpoint Tls ''fe80::1'' 443)"
    by (simp add: of_connect_url_def parse_authority_def find_char_from_def sub_def validate_host_def
        invalid_host_character_def lowercase_ascii_def lower_char_def parse_port_def is_digit_def
        digit_value_def authority_end_def is_delimiter_def Let_def char_of_def bit_numeral_rec bit_0)
  then show ?thesis using endpoint_roundtrip by blast
qed

end
