(* ===== verification/Pool.thy ===== *)
theory Pool
  imports Endpoint
begin

text \<open>
  The pool of candidate servers (lib/endpoint.ml, module Pool) and the dialling that uses it
  (lib/eio/connection.ml): which endpoints are tried, in which order, and what a failure or a
  connection does to the order. The network is a parameter: \<open>connect\<close> makes one attempt in an
  outside state \<open>'w\<close>, \<open>handshake\<close> creates the connection over a flow and waits for it.
\<close>

section \<open>The pool\<close>

record pool =
  p_seeds :: "endpoint list"
  p_discovered :: "endpoint list"
  p_order :: "endpoint list"
  p_preferred :: "endpoint option"

definition contains :: "endpoint \<Rightarrow> endpoint list \<Rightarrow> bool" where
  "contains endpoint endpoints = list_ex (\<lambda>v. endpoint_equal endpoint v) endpoints"

definition deduplicate :: "endpoint list \<Rightarrow> endpoint list" where
  "deduplicate endpoints =
     rev (snd (fold (\<lambda>endpoint (seen, result).
       if \<not> contains endpoint seen then (endpoint # seen, endpoint # result) else (seen, result))
       endpoints ([], [])))"

definition base :: "pool \<Rightarrow> endpoint list" where
  "base t = deduplicate (p_seeds t @ p_discovered t)"

definition retain_preferred ::
  "endpoint list \<Rightarrow> endpoint list \<Rightarrow> endpoint option \<Rightarrow> endpoint list" where
  "retain_preferred seeds discovered preferred =
     (case preferred of
        Some endpoint \<Rightarrow>
          if \<not> contains endpoint seeds \<and> \<not> contains endpoint discovered
          then endpoint # discovered else discovered
      | None \<Rightarrow> discovered)"

definition keep_preferred :: "endpoint option \<Rightarrow> endpoint list \<Rightarrow> endpoint list" where
  "keep_preferred preferred endpoints =
     (case preferred of
        None \<Rightarrow> endpoints
      | Some preferred \<Rightarrow> preferred # filter (\<lambda>endpoint. \<not> endpoint_equal endpoint preferred) endpoints)"

definition rebuild_order :: "pool \<Rightarrow> endpoint list \<Rightarrow> endpoint option \<Rightarrow> pool" where
  "rebuild_order t discovered preferred =
     (let discovered = deduplicate (retain_preferred (p_seeds t) discovered preferred);
          base = deduplicate (p_seeds t @ discovered);
          existing = filter (\<lambda>endpoint. contains endpoint base) (p_order t);
          additions = filter (\<lambda>endpoint. \<not> contains endpoint existing) base;
          order = existing @ additions in
      \<lparr>p_seeds = p_seeds t, p_discovered = discovered, p_order = keep_preferred preferred order,
       p_preferred = preferred\<rparr>)"

definition pool_v :: "endpoint list \<Rightarrow> pool" where
  "pool_v endpoints =
     (let seeds = deduplicate endpoints in
      \<lparr>p_seeds = seeds, p_discovered = [], p_order = seeds, p_preferred = None\<rparr>)"

definition update_discovered :: "pool \<Rightarrow> endpoint list \<Rightarrow> pool" where
  "update_discovered t discovered =
     (case discovered of
        [] \<Rightarrow> t
      | _ \<Rightarrow>
          (let discovered = filter (\<lambda>endpoint. \<not> contains endpoint (p_seeds t)) (deduplicate discovered) in
           rebuild_order t discovered (p_preferred t)))"

definition connected :: "pool \<Rightarrow> endpoint \<Rightarrow> pool" where
  "connected t endpoint = rebuild_order t (p_discovered t) (Some endpoint)"

definition move_to_end :: "endpoint \<Rightarrow> endpoint list \<Rightarrow> endpoint list" where
  "move_to_end endpoint endpoints =
     (let present = contains endpoint endpoints;
          remaining = filter (\<lambda>v. \<not> endpoint_equal endpoint v) endpoints in
      if present then remaining @ [endpoint] else remaining)"

definition failed :: "pool \<Rightarrow> endpoint \<Rightarrow> pool" where
  "failed t endpoint =
     (let t = update_discovered t (p_discovered t);
          sticky = contains endpoint (base t);
          order = (if sticky then move_to_end endpoint (p_order t)
                   else filter (\<lambda>v. \<not> endpoint_equal endpoint v) (p_order t));
          preferred =
            (case p_preferred t of
               Some v \<Rightarrow> if endpoint_equal endpoint v then None else Some v
             | None \<Rightarrow> None) in
      t\<lparr>p_order := order, p_preferred := preferred\<rparr>)"

section \<open>Its invariant\<close>

lemma contains_iff [simp]: "contains e es \<longleftrightarrow> e \<in> set es"
  by (auto simp: contains_def list_ex_iff)

lemma dedupe_fold:
  "distinct seen \<Longrightarrow>
   \<exists>l. fold (\<lambda>endpoint (seen, result).
       if \<not> contains endpoint seen then (endpoint # seen, endpoint # result) else (seen, result))
       es (seen, seen) = (l, l) \<and> distinct l \<and> set l = set seen \<union> set es"
proof (induction es arbitrary: seen)
  case (Cons e es)
  show ?case
  proof (cases "e \<in> set seen")
    case True
    with Cons.IH [OF Cons.prems] show ?thesis by (simp add: insert_absorb)
  next
    case False
    with Cons.IH [of "e # seen"] Cons.prems show ?thesis by simp
  qed
qed simp

lemma deduplicate_set [simp]: "set (deduplicate es) = set es"
  and deduplicate_distinct [simp]: "distinct (deduplicate es)"
proof -
  obtain l where "fold (\<lambda>endpoint (seen, result).
      if \<not> contains endpoint seen then (endpoint # seen, endpoint # result) else (seen, result))
      es ([], []) = (l, l)" and l: "distinct l" "set l = set es"
    using dedupe_fold [OF distinct.simps(1) [THEN iffD2, OF TrueI], of es] unfolding list.set(1) Un_empty_left by blast
  then have "deduplicate es = rev l" by (simp only: deduplicate_def snd_conv)
  with l show "set (deduplicate es) = set es" "distinct (deduplicate es)" by simp_all
qed

lemma dedupe_fold_id:
  "distinct (es @ seen) \<Longrightarrow>
   fold (\<lambda>endpoint (seen, result).
       if \<not> contains endpoint seen then (endpoint # seen, endpoint # result) else (seen, result))
       es (seen, result) = (rev es @ seen, rev es @ result)"
  by (induction es arbitrary: seen result) auto

lemma deduplicate_id [simp]: "distinct es \<Longrightarrow> deduplicate es = es"
  using dedupe_fold_id [of es "[]" "[]"] by (simp add: deduplicate_def)

text \<open>
  The order lists every seed and every discovered endpoint once, and starts with the preferred
  one.
\<close>

definition wf_pool :: "pool \<Rightarrow> bool" where
  "wf_pool t \<longleftrightarrow>
     distinct (p_seeds t) \<and> distinct (p_discovered t) \<and> set (p_seeds t) \<inter> set (p_discovered t) = {} \<and>
     distinct (p_order t) \<and> set (p_order t) = set (p_seeds t) \<union> set (p_discovered t) \<and>
     (case p_preferred t of None \<Rightarrow> True | Some e \<Rightarrow> p_order t \<noteq> [] \<and> hd (p_order t) = e)"

lemma rebuild_wf:
  assumes "distinct (p_seeds t)" "distinct (p_order t)" "set (p_seeds t) \<inter> set new = {}"
  shows "wf_pool (rebuild_order t new p)"
    and "set (p_order (rebuild_order t new p)) = set (p_seeds t) \<union> set new \<union> set_option p"
    and "p_seeds (rebuild_order t new p) = p_seeds t"
  using assms
  by (auto simp: wf_pool_def rebuild_order_def retain_preferred_def keep_preferred_def Let_def
      split: option.splits)

text \<open>Rebuilding with what the pool already has changes nothing.\<close>

lemma rebuild_same:
  assumes "wf_pool t" "p_preferred t = p"
  shows "rebuild_order t (p_discovered t) p = t"
proof -
  have "filter (\<lambda>e. e \<in> set (p_seeds t) \<or> e \<in> set (p_discovered t)) (p_order t) = p_order t"
    using assms(1) by (intro filter_True) (auto simp: wf_pool_def)
  moreover have "filter (\<lambda>e. e \<notin> set (p_order t)) (deduplicate (p_seeds t @ p_discovered t)) = []"
    using assms(1) by (auto simp: wf_pool_def filter_empty_conv)
  moreover have "keep_preferred p (p_order t) = p_order t"
    using assms by (cases "p_order t") (auto simp: wf_pool_def keep_preferred_def filter_id_conv split: option.splits)
  moreover have "retain_preferred (p_seeds t) (p_discovered t) p = p_discovered t"
    using assms by (cases "p_order t") (auto simp: wf_pool_def retain_preferred_def split: option.splits)
  ultimately show ?thesis
    using assms by (cases t) (simp add: rebuild_order_def wf_pool_def Let_def)
qed

lemma update_same: "wf_pool t \<Longrightarrow> update_discovered t (p_discovered t) = t"
proof -
  assume wf: "wf_pool t"
  then have "filter (\<lambda>e. e \<notin> set (p_seeds t)) (p_discovered t) = p_discovered t"
    by (intro filter_True) (auto simp: wf_pool_def)
  with wf show ?thesis
    using rebuild_same [OF wf refl] by (auto simp: update_discovered_def wf_pool_def Let_def split: list.split)
qed

lemma pool_v_wf [simp]: "wf_pool (pool_v es)"
  by (simp add: pool_v_def wf_pool_def Let_def)

lemma update_wf: "wf_pool t \<Longrightarrow> wf_pool (update_discovered t new)"
  by (cases new) (auto simp: update_discovered_def Let_def wf_pool_def [of t] intro!: rebuild_wf(1))

lemma connected_wf: "wf_pool t \<Longrightarrow> wf_pool (connected t e)"
  unfolding connected_def by (rule rebuild_wf) (auto simp: wf_pool_def)

lemma failed_eq:
  assumes "wf_pool t"
  shows "failed t e = t\<lparr>p_order := move_to_end e (p_order t),
    p_preferred := (if p_preferred t = Some e then None else p_preferred t)\<rparr>"
proof -
  have "e \<notin> set (p_order t) \<Longrightarrow> move_to_end e (p_order t) = filter (\<lambda>v. e \<noteq> v) (p_order t)"
    by (simp add: move_to_end_def)
  moreover have "contains e (base t) \<longleftrightarrow> e \<in> set (p_order t)" using assms by (simp add: base_def wf_pool_def)
  ultimately show ?thesis
    by (auto simp: failed_def update_same [OF assms] Let_def split: option.split)
qed

lemma move_to_end_set [simp]: "set (move_to_end e es) = set es"
  by (auto simp: move_to_end_def Let_def)

lemma move_to_end_distinct: "distinct es \<Longrightarrow> distinct (move_to_end e es)"
  by (auto simp: move_to_end_def Let_def)

lemma move_to_end_hd: "distinct (e # es) \<Longrightarrow> move_to_end e (e # es) = es @ [e]"
  by (auto simp: move_to_end_def Let_def intro: filter_True)

lemma move_to_end_keeps_hd: "es \<noteq> [] \<Longrightarrow> hd es \<noteq> e \<Longrightarrow> hd (move_to_end e es) = hd es"
  by (cases es) (auto simp: move_to_end_def Let_def)

lemma failed_wf: "wf_pool t \<Longrightarrow> wf_pool (failed t e)"
  using move_to_end_set [of e "p_order t"]
  by (auto simp: failed_eq wf_pool_def move_to_end_distinct move_to_end_keeps_hd
      simp del: move_to_end_set split: option.splits if_splits)

section \<open>What a dialler relies on\<close>

text \<open>
  The interface of a pool: a list of distinct candidates, and a failure of the first one moves
  it to the end.
\<close>

locale candidate_pool =
  fixes candidates :: "'p \<Rightarrow> 'e list"
    and fail :: "'p \<Rightarrow> 'e \<Rightarrow> 'p"
    and inv :: "'p \<Rightarrow> bool"
  assumes inv_fail: "inv p \<Longrightarrow> inv (fail p e)"
    and candidates_distinct: "inv p \<Longrightarrow> distinct (candidates p)"
    and fail_first: "inv p \<Longrightarrow> candidates p = e # es \<Longrightarrow> candidates (fail p e) = es @ [e]"
begin

text \<open>Failing the first candidates one after another rotates the list.\<close>

lemma fail_many:
  "inv p \<Longrightarrow> candidates p = es @ fs \<Longrightarrow>
     inv (foldl fail p es) \<and> candidates (foldl fail p es) = fs @ es"
proof (induction es arbitrary: p fs)
  case (Cons e es)
  have "candidates (fail p e) = es @ (fs @ [e])" using fail_first [OF Cons.prems(1)] Cons.prems(2) by simp
  from Cons.IH [OF inv_fail [OF Cons.prems(1)] this] show ?case by simp
qed simp

lemma fail_all: "inv p \<Longrightarrow> candidates (foldl fail p (candidates p)) = candidates p"
  using fail_many [of p "candidates p" "[]"] by simp

end

interpretation server_pool: candidate_pool p_order failed wf_pool
proof unfold_locales
  fix p :: pool and e es
  show "wf_pool p \<Longrightarrow> wf_pool (failed p e)" by (rule failed_wf)
  show "wf_pool p \<Longrightarrow> distinct (p_order p)" by (simp add: wf_pool_def)
  assume wf: "wf_pool p" and order: "p_order p = e # es"
  then have "distinct (e # es)" by (simp add: wf_pool_def)
  from move_to_end_hd [OF this] show "p_order (failed p e) = es @ [e]"
    by (simp add: failed_eq [OF wf] order)
qed

section \<open>Properties\<close>

text \<open>The calls the connection makes on its pool.\<close>

datatype pool_call = Update "endpoint list" | Connected_to endpoint | Failed endpoint

fun apply_call :: "pool \<Rightarrow> pool_call \<Rightarrow> pool" where
  "apply_call t (Update new) = update_discovered t new"
| "apply_call t (Connected_to e) = connected t e"
| "apply_call t (Failed e) = failed t e"

lemma apply_call_wf: "wf_pool t \<Longrightarrow> wf_pool (apply_call t c)"
  by (cases c) (simp_all add: update_wf connected_wf failed_wf)

lemma pool_calls_wf: "wf_pool t \<Longrightarrow> wf_pool (foldl apply_call t cs)"
  by (induction cs arbitrary: t) (simp_all add: apply_call_wf)

lemma apply_call_seeds: "p_seeds (apply_call t c) = p_seeds t"
  by (cases c) (auto simp: update_discovered_def connected_def failed_def rebuild_order_def Let_def split: list.split)

lemma pool_calls_seeds: "p_seeds (foldl apply_call t cs) = p_seeds t"
  by (induction cs arbitrary: t) (simp_all add: apply_call_seeds)

text \<open>
  C34: After any sequence of calls the candidates are every seed and every discovered endpoint,
  each once; no seed is ever lost, no endpoint is both, and the preferred endpoint, if there is
  one, comes first.
\<close>

theorem pool_invariant:
  "let t = foldl apply_call (pool_v endpoints) cs in
     distinct (p_order t) \<and> set (p_order t) = set endpoints \<union> set (p_discovered t) \<and>
     set endpoints \<inter> set (p_discovered t) = {} \<and>
     (case p_preferred t of None \<Rightarrow> True | Some e \<Rightarrow> p_order t \<noteq> [] \<and> hd (p_order t) = e)"
proof -
  let ?t = "foldl apply_call (pool_v endpoints) cs"
  have "wf_pool ?t" by (rule pool_calls_wf) simp
  moreover have "set (p_seeds ?t) = set endpoints"
    unfolding pool_calls_seeds by (simp add: pool_v_def Let_def)
  ultimately show ?thesis unfolding wf_pool_def Let_def by simp
qed

lemma keep_preferred_hd:
  "distinct l \<Longrightarrow> (case p of None \<Rightarrow> True | Some e \<Rightarrow> l \<noteq> [] \<and> hd l = e) \<Longrightarrow> keep_preferred p l = l"
  by (cases l) (auto simp: keep_preferred_def filter_id_conv split: option.splits)

text \<open>
  A list of discovered servers replaces the old one: the candidates that are seeds, in the
  list or preferred stay in their order, the new ones come after them, the others are dropped;
  an empty list changes nothing.
\<close>

theorem update_discovered_merges:
  assumes "wf_pool t"
  shows "\<exists>added. set added = set new - set (p_order t) \<and>
    p_order (update_discovered t new) =
      (if new = [] then p_order t
       else filter (\<lambda>e. e \<in> set (p_seeds t) \<union> set new \<union> set_option (p_preferred t)) (p_order t) @ added)"
proof (cases "new = []")
  case True
  then show ?thesis by (intro exI [of _ "[]"]) (simp add: update_discovered_def)
next
  case False
  let ?disc = "filter (\<lambda>e. e \<notin> set (p_seeds t)) (deduplicate new)"
  let ?all = "deduplicate (p_seeds t @ deduplicate (retain_preferred (p_seeds t) ?disc (p_preferred t)))"
  let ?old = "filter (\<lambda>e. e \<in> set ?all) (p_order t)"
  let ?added = "filter (\<lambda>e. e \<notin> set ?old) ?all"
  have all: "set ?all = set (p_seeds t) \<union> set new \<union> set_option (p_preferred t)"
    by (auto simp: retain_preferred_def split: option.splits)
  have first: "\<And>e. p_preferred t = Some e \<Longrightarrow> \<exists>es. p_order t = e # es"
    using assms by (cases "p_order t") (auto simp: wf_pool_def)
  have upd: "p_order (update_discovered t new) = keep_preferred (p_preferred t) (?old @ ?added)"
    using False by (cases new) (simp_all add: update_discovered_def rebuild_order_def Let_def)
  have kept: "keep_preferred (p_preferred t) (?old @ ?added) = ?old @ ?added"
  proof (rule keep_preferred_hd)
    have "distinct ?old" "distinct ?added" using assms by (simp_all add: wf_pool_def)
    moreover have "set ?old \<inter> set ?added = {}" by (simp only: set_filter) blast
    ultimately show "distinct (?old @ ?added)" by (simp only: distinct_append)
    show "case p_preferred t of None \<Rightarrow> True | Some e \<Rightarrow> ?old @ ?added \<noteq> [] \<and> hd (?old @ ?added) = e"
    proof (cases "p_preferred t")
      case (Some e)
      with first obtain es where "p_order t = e # es" by blast
      with Some all show ?thesis by simp
    qed simp
  qed
  have added: "set ?added = set new - set (p_order t)"
  proof -
    have "set ?added = set ?all - set (p_order t)" by (simp only: set_filter) blast
    moreover have "set_option (p_preferred t) \<subseteq> set (p_order t)"
      using first by (cases "p_preferred t") auto
    moreover have "set (p_seeds t) \<subseteq> set (p_order t)" using assms by (simp add: wf_pool_def)
    ultimately show ?thesis unfolding all by blast
  qed
  have "?old = filter (\<lambda>e. e \<in> set (p_seeds t) \<union> set new \<union> set_option (p_preferred t)) (p_order t)"
    unfolding all ..
  with upd kept False have "p_order (update_discovered t new) =
      (if new = [] then p_order t
       else filter (\<lambda>e. e \<in> set (p_seeds t) \<union> set new \<union> set_option (p_preferred t)) (p_order t) @ ?added)"
    by (simp only: if_False)
  with added show ?thesis by blast
qed

theorem update_discovered_merges_witness:
  "\<exists>added. set added = set [Endpoint Nats ''c'' 4222] - set (p_order (pool_v [Endpoint Nats ''a'' 4222])) \<and>
    p_order (update_discovered (pool_v [Endpoint Nats ''a'' 4222]) [Endpoint Nats ''c'' 4222]) =
      filter (\<lambda>e. e \<in> set (p_seeds (pool_v [Endpoint Nats ''a'' 4222])) \<union> set [Endpoint Nats ''c'' 4222] \<union>
          set_option (p_preferred (pool_v [Endpoint Nats ''a'' 4222])))
        (p_order (pool_v [Endpoint Nats ''a'' 4222])) @ added"
  using update_discovered_merges [OF pool_v_wf, of "[Endpoint Nats ''c'' 4222]" "[Endpoint Nats ''a'' 4222]"] by simp

end
