(* ===== verification/Dial.thy ===== *)
theory Dial
  imports Pool
begin

text \<open>
  Dialling (lib/eio/connection.ml): the loop over the candidates, the dial a reconnect makes
  and the dial of the first connection. \<open>connect\<close> stands for \<open>connect_endpoint\<close>, one attempt in
  the outside state \<open>'w\<close> (resolver, sockets, TLS); \<open>handshake\<close> for creating the connection on a
  flow and awaiting its first answer, which may also update the pool.
\<close>

section \<open>Errors\<close>

text \<open>\<open>Error.t\<close> of lib/eio/error.ml; \<open>'x\<close> stands for the foreign values it carries.\<close>

datatype 'x connection_error =
    Protocol 'x
  | Auth 'x
  | Invalid_endpoints
  | Invalid_capacity string int
  | Invalid_pending_limit string int
  | Command_queue_full int
  | Invalid_chunk_size int
  | Invalid_inbox_prefix 'x
  | Invalid_reconnect_attempts int
  | Invalid_reconnect_buffer_size int
  | Invalid_retry_attempts int
  | Invalid_reconnect_delay nat nat
  | Invalid_reconnect_jitter nat
  | Invalid_timeout string
  | Tls_required
  | Tls_unexpected_input
  | Tls_failure 'x
  | Connection_reconnecting
  | Timeout
  | No_responders
  | Reconnect_buffer_exceeded int
  | Io 'x
  | Slow_consumer "int option"
  | Disconnected
  | Connection_draining
  | Connection_closed

definition initial_connect_retryable :: "'x connection_error \<Rightarrow> bool" where
  "initial_connect_retryable error =
     (case error of
        Disconnected \<Rightarrow> True | Io _ \<Rightarrow> True | Tls_failure _ \<Rightarrow> True | Timeout \<Rightarrow> True
      | Tls_required \<Rightarrow> True | Tls_unexpected_input \<Rightarrow> True | Auth _ \<Rightarrow> True
      | _ \<Rightarrow> False)"

section \<open>The loop over the candidates\<close>

definition remove_endpoint :: "endpoint \<Rightarrow> endpoint list \<Rightarrow> endpoint list" where
  "remove_endpoint endpoint endpoints = filter (\<lambda>v. \<not> endpoint_equal endpoint v) endpoints"

definition remember_error ::
  "'x connection_error option \<Rightarrow> 'x connection_error \<Rightarrow> 'x connection_error option" where
  "remember_error last_error error =
     (case error of
        Tls_required \<Rightarrow> if last_error = None then Some error else last_error
      | _ \<Rightarrow> Some error)"

text \<open>\<open>'p\<close> is the state \<open>on_failure\<close> changes. The loop does nothing once it has a result.\<close>

fun dial_loop ::
  "('e \<Rightarrow> 'w \<Rightarrow> ('x connection_error + 'flow) \<times> 'w) \<Rightarrow> ('e \<Rightarrow> 'p \<Rightarrow> 'p) \<Rightarrow> 'e list \<Rightarrow>
   'x connection_error option \<Rightarrow> 'p \<Rightarrow> 'w \<Rightarrow> ('x connection_error + 'flow \<times> 'e) \<times> 'p \<times> 'w" where
  "dial_loop connect on_failure [] last_error p w =
     (case last_error of Some error \<Rightarrow> (Inl error, p, w) | None \<Rightarrow> (Inl Invalid_endpoints, p, w))"
| "dial_loop connect on_failure (endpoint # candidates) last_error p w =
     (case connect endpoint w of
        (Inr flow, w') \<Rightarrow> (Inr (flow, endpoint), p, w')
      | (Inl error, w') \<Rightarrow>
          dial_loop connect on_failure candidates (remember_error last_error error)
            (on_failure endpoint p) w')"

definition dial_candidates ::
  "('e \<Rightarrow> 'w \<Rightarrow> ('x connection_error + 'flow) \<times> 'w) \<Rightarrow> ('e \<Rightarrow> 'p \<Rightarrow> 'p) \<Rightarrow> 'e list \<Rightarrow> 'p \<Rightarrow> 'w \<Rightarrow>
   ('x connection_error + 'flow \<times> 'e) \<times> 'p \<times> 'w" where
  "dial_candidates connect on_failure candidates p w = dial_loop connect on_failure candidates None p w"

definition make_dial ::
  "(endpoint \<Rightarrow> 'w \<Rightarrow> ('x connection_error + 'flow) \<times> 'w) \<Rightarrow> pool \<Rightarrow> 'w \<Rightarrow>
   ('x connection_error + 'flow \<times> endpoint) \<times> pool \<times> 'w" where
  "make_dial connect pool w =
     dial_candidates connect (\<lambda>endpoint pool. failed pool endpoint) (p_order pool) pool w"

text \<open>The state of the initial dial: the endpoints not tried yet, and the pool.\<close>

definition mark_failed :: "endpoint \<Rightarrow> endpoint list \<times> pool \<Rightarrow> endpoint list \<times> pool" where
  "mark_failed endpoint st = (remove_endpoint endpoint (fst st), failed (snd st) endpoint)"

definition initial_dial ::
  "(endpoint \<Rightarrow> 'w \<Rightarrow> ('x connection_error + 'flow) \<times> 'w) \<Rightarrow> endpoint list \<times> pool \<Rightarrow> 'w \<Rightarrow>
   ('x connection_error + 'flow \<times> endpoint) \<times> (endpoint list \<times> pool) \<times> 'w" where
  "initial_dial connect st w =
     (case dial_candidates connect
         mark_failed
         (fst st) st w of
        (Inl error, st', w') \<Rightarrow> (Inl error, st', w')
      | (Inr (flow, endpoint), (remaining, pool), w') \<Rightarrow>
          (Inr (flow, endpoint), (remove_endpoint endpoint remaining, pool), w'))"

text \<open>What the loop does, whatever the failure handler: a prefix of the candidates failed.\<close>

lemma dial_loop_prefix:
  assumes "\<And>e w. log (snd (connect e w)) = log w @ [e]"
    and "dial_loop connect on_failure candidates last_error p w = (result, p', w')"
  shows "case result of
      Inr (flow, e) \<Rightarrow> \<exists>before after. candidates = before @ e # after \<and>
        p' = foldl (\<lambda>p e. on_failure e p) p before \<and> log w' = log w @ before @ [e]
    | Inl _ \<Rightarrow> p' = foldl (\<lambda>p e. on_failure e p) p candidates \<and> log w' = log w @ candidates"
  using assms(2)
proof (induction candidates arbitrary: last_error p w)
  case Nil
  then show ?case by (auto split: option.splits)
next
  case (Cons e candidates)
  obtain answer w1 where first: "connect e w = (answer, w1)" by fastforce
  with assms(1) [of e w] have log1: "log w1 = log w @ [e]" by simp
  show ?case
  proof (cases answer)
    case (Inr flow)
    with Cons.prems first have "result = Inr (flow, e)" "p' = p" "w' = w1" by simp_all
    with log1 show ?thesis by (auto intro!: exI [of _ "[]"])
  next
    case (Inl error)
    with Cons.prems first have
      "dial_loop connect on_failure candidates (remember_error last_error error) (on_failure e p) w1 = (result, p', w')"
      by simp
    from Cons.IH [OF this] log1 show ?thesis
      by (cases result) (auto intro: exI [of _ "e # _"] simp: Cons_eq_append_conv)
  qed
qed

lemma remove_endpoint_eq: "remove_endpoint e es = filter (\<lambda>v. v \<noteq> e) es"
  by (auto simp: remove_endpoint_def intro: filter_cong)

section \<open>The pool's side\<close>

context candidate_pool
begin

text \<open>A dial over the candidates with failures reported to the pool rotates the pool.\<close>

lemma dial_rotates:
  assumes "\<And>e w. log (snd (connect e w)) = log w @ [e]" "inv p"
    and "dial_loop connect (\<lambda>e p. fail p e) (candidates p) last_error p w = (result, p', w')"
  shows "inv p' \<and> (case result of
      Inr (flow, e) \<Rightarrow> \<exists>before after. candidates p = before @ e # after \<and>
        candidates p' = e # after @ before \<and> log w' = log w @ before @ [e]
    | Inl _ \<Rightarrow> candidates p' = candidates p \<and> log w' = log w @ candidates p)"
proof (cases result)
  case (Inl error)
  with dial_loop_prefix [OF assms(1,3)] have "p' = foldl fail p (candidates p)" "log w' = log w @ candidates p"
    by simp_all
  with Inl show ?thesis
    using fail_all [OF assms(2)] fail_many [OF assms(2), of "candidates p" "[]"] by simp
next
  case (Inr fe)
  with dial_loop_prefix [OF assms(1,3)] obtain flow e before after where
    r: "fe = (flow, e)" "candidates p = before @ e # after" "p' = foldl fail p before"
       "log w' = log w @ before @ [e]"
    by (cases fe) auto
  from fail_many [OF assms(2) r(2)] r Inr show ?thesis by auto
qed

end

section \<open>Connecting for the first time\<close>

text \<open>The successful and the failed dial both use up endpoints, so \<open>establish\<close> ends.\<close>

lemma dial_loop_endpoint:
  "dial_loop connect on_failure candidates last_error p w = (Inr (flow, e), p', w') \<Longrightarrow> e \<in> set candidates"
  by (induction candidates arbitrary: last_error p w) (auto split: prod.splits sum.splits option.splits)

lemma foldl_remove:
  "foldl (\<lambda>st e. mark_failed e st) (es, pool) before =
     (filter (\<lambda>v. v \<notin> set before) es, foldl failed pool before)"
  by (induction before arbitrary: es pool) (auto simp: mark_failed_def remove_endpoint_eq intro: filter_cong)

lemma initial_dial_prefix:
  assumes "initial_dial connect (remaining, pool) w = (Inr (flow, e), (remaining', pool'), w')"
    and "\<And>e w. log (snd (connect e w)) = log w @ [e]"
  shows "\<exists>before after. remaining = before @ e # after \<and>
      remaining' = filter (\<lambda>v. v \<notin> set (before @ [e])) remaining \<and> log w' = log w @ before @ [e]"
proof -
  obtain st where loop: "dial_loop connect
      mark_failed
      remaining None (remaining, pool) w = (Inr (flow, e), st, w')"
    and rest: "remaining' = remove_endpoint e (fst st)"
    using assms(1) by (auto simp: initial_dial_def dial_candidates_def split: prod.splits sum.splits)
  from dial_loop_prefix [where log = log, OF assms(2) loop] obtain before after where
    "remaining = before @ e # after" "log w' = log w @ before @ [e]"
    "st = foldl (\<lambda>st e. mark_failed e st)
       (remaining, pool) before"
    by auto
  moreover from this(3) rest have "remaining' = filter (\<lambda>v. v \<notin> set (before @ [e])) remaining"
    by (simp add: foldl_remove remove_endpoint_eq) (auto intro: filter_cong)
  ultimately show ?thesis by blast
qed

lemma initial_loop_filters:
  "dial_loop connect mark_failed candidates last_error st w = (result, st', w') \<Longrightarrow>
     \<exists>P. fst st' = filter P (fst st)"
proof (induction candidates arbitrary: last_error st w)
  case Nil
  then have "st' = st" by (simp split: option.splits)
  then show ?case by (intro exI [of _ "\<lambda>_. True"]) simp
next
  case (Cons e candidates)
  obtain answer w1 where first: "connect e w = (answer, w1)" by fastforce
  show ?case
  proof (cases answer)
    case (Inr flow)
    with Cons.prems first have "st' = st" by simp
    then show ?thesis by (intro exI [of _ "\<lambda>_. True"]) simp
  next
    case (Inl error)
    with Cons.prems first have "dial_loop connect mark_failed candidates
        (remember_error last_error error) (mark_failed e st) w1 = (result, st', w')" by simp
    from Cons.IH [OF this] obtain P where "fst st' = filter P (fst (mark_failed e st))" by blast
    then show ?thesis unfolding mark_failed_def fst_conv remove_endpoint_eq filter_filter by blast
  qed
qed

lemma initial_dial_shorter:
  assumes "initial_dial connect (remaining, pool) w = (Inr (flow, e), (remaining', pool'), w')"
  shows "length remaining' < length remaining"
proof -
  obtain st where loop: "dial_loop connect
      mark_failed
      remaining None (remaining, pool) w = (Inr (flow, e), st, w')"
    and rest: "remaining' = remove_endpoint e (fst st)"
    using assms by (auto simp: initial_dial_def dial_candidates_def split: prod.splits sum.splits)
  from initial_loop_filters [OF loop] obtain P where "fst st = filter P remaining" by auto
  with rest have "remaining' = filter P (filter (\<lambda>v. v \<noteq> e) remaining)"
    by (simp only: remove_endpoint_eq filter_filter conj_commute)
  then have "length remaining' \<le> length (filter (\<lambda>v. v \<noteq> e) remaining)"
    by (simp only: length_filter_le)
  moreover have "length (filter (\<lambda>v. v \<noteq> e) remaining) < length remaining"
    using dial_loop_endpoint [OF loop] by (rule length_filter_less) simp
  ultimately show ?thesis by linarith
qed

function establish ::
  "(endpoint \<Rightarrow> 'w \<Rightarrow> ('x connection_error + 'flow) \<times> 'w) \<Rightarrow>
   ('flow \<Rightarrow> endpoint \<Rightarrow> pool \<Rightarrow> 'w \<Rightarrow> ('x connection_error + 'conn) \<times> pool \<times> 'w) \<Rightarrow>
   endpoint list \<Rightarrow> pool \<Rightarrow> 'w \<Rightarrow> ('x connection_error + 'conn) \<times> pool \<times> 'w" where
  "establish connect handshake remaining pool w =
     (case initial_dial connect (remaining, pool) w of
        (Inl error, (remaining, pool), w) \<Rightarrow> (Inl error, pool, w)
      | (Inr (flow, endpoint), (remaining, pool), w) \<Rightarrow>
          (case handshake flow endpoint (connected pool endpoint) w of
             (Inr connection, pool, w) \<Rightarrow> (Inr connection, pool, w)
           | (Inl error, pool, w) \<Rightarrow>
               if initial_connect_retryable error \<and> remaining \<noteq> []
               then establish connect handshake remaining (failed pool endpoint) w
               else (Inl error, failed pool endpoint, w)))"
  by pat_completeness auto
termination
  by (relation "measure (\<lambda>(connect, handshake, remaining, pool, w). length remaining)")
     (auto dest: initial_dial_shorter [OF sym])

declare establish.simps [simp del]

definition connect ::
  "(endpoint \<Rightarrow> 'w \<Rightarrow> ('x connection_error + 'flow) \<times> 'w) \<Rightarrow>
   ('flow \<Rightarrow> endpoint \<Rightarrow> pool \<Rightarrow> 'w \<Rightarrow> ('x connection_error + 'conn) \<times> pool \<times> 'w) \<Rightarrow>
   endpoint list \<Rightarrow> 'w \<Rightarrow> ('x connection_error + 'conn) \<times> 'w" where
  "connect connect_endpoint handshake endpoints w =
     (if endpoints = [] then (Inl Invalid_endpoints, w)
      else
        (let pool = pool_v endpoints in
         case establish connect_endpoint handshake (p_order pool) pool w of
           (result, _, w') \<Rightarrow> (result, w')))"

lemma initial_dial_error:
  assumes "initial_dial attempt (remaining, pool) w = (Inl error, st, w')"
    and "\<And>e w. log (snd (attempt e w)) = log w @ [e]"
  shows "log w' = log w @ remaining"
proof -
  have "dial_loop attempt mark_failed remaining None (remaining, pool) w = (Inl error, st, w')"
    using assms(1) by (auto simp: initial_dial_def dial_candidates_def split: prod.splits sum.splits)
  from dial_loop_prefix [where log = log, OF assms(2) this] show ?thesis by simp
qed

lemma establish_tries:
  assumes "\<And>e w. log (snd (attempt e w)) = log w @ [e]"
    and "\<And>flow e pool w. log (snd (snd (handshake flow e pool w))) = log w"
    and "distinct remaining" "establish attempt handshake remaining pool w = (result, pool', w')"
  shows "\<exists>tried. log w' = log w @ tried \<and> distinct tried \<and> set tried \<subseteq> set remaining \<and>
    (case result of Inr _ \<Rightarrow> tried \<noteq> [] | Inl error \<Rightarrow> set tried = set remaining \<or> \<not> initial_connect_retryable error)"
  using assms(3,4)
proof (induction "length remaining" arbitrary: remaining pool w rule: less_induct)
  case less
  obtain answer st w1 where dial: "initial_dial attempt (remaining, pool) w = (answer, st, w1)"
    by (metis prod.exhaust)
  obtain remaining1 pool1 where st: "st = (remaining1, pool1)" by fastforce
  show ?case
  proof (cases answer)
    case (Inl error)
    with less.prems dial st have "result = Inl error" "w' = w1"
      by (simp_all add: establish.simps [of attempt handshake remaining pool w])
    with initial_dial_error [where log = log, OF dial [unfolded Inl] assms(1)] less.prems(1) show ?thesis
      by (intro exI [of _ remaining]) simp
  next
    case (Inr fe)
    then obtain flow e where fe: "answer = Inr (flow, e)" by (cases fe) simp
    from initial_dial_prefix [where log = log, OF dial [unfolded fe st] assms(1)] obtain before after where
      before: "remaining = before @ e # after" "remaining1 = filter (\<lambda>v. v \<notin> set (before @ [e])) remaining"
      and log1: "log w1 = log w @ before @ [e]" by blast
    with less.prems(1) have after: "remaining1 = after" "distinct (before @ [e])" "distinct after"
        "set (before @ [e]) \<inter> set after = {}"
      by (auto simp: filter_empty_conv filter_id_conv)
    obtain hs pool2 w2 where hand: "handshake flow e (connected pool1 e) w1 = (hs, pool2, w2)"
      by (metis prod.exhaust)
    with assms(2) [of flow e "connected pool1 e" w1] have log2: "log w2 = log w @ before @ [e]"
      using log1 by simp
    show ?thesis
    proof (cases "\<exists>error. hs = Inl error \<and> initial_connect_retryable error \<and> remaining1 \<noteq> []")
      case True
      then obtain error where error: "hs = Inl error" "initial_connect_retryable error" "remaining1 \<noteq> []" by blast
      with less.prems(2) have again:
        "establish attempt handshake after (failed pool2 e) w2 = (result, pool', w')"
        by (simp add: establish.simps [of attempt handshake remaining pool w] dial fe st hand after(1))
      have "length after < length remaining" using before(1) by simp
      from less.hyps [OF this after(3) again] obtain tried where
        "log w' = log w2 @ tried" "distinct tried" "set tried \<subseteq> set after"
        "case result of Inr _ \<Rightarrow> tried \<noteq> [] | Inl error \<Rightarrow> set tried = set after \<or> \<not> initial_connect_retryable error"
        by blast
      with log2 after before(1) show ?thesis
        by (intro exI [of _ "before @ [e] @ tried"]) (auto split: sum.splits)
    next
      case False
      with less.prems(2) have "w' = w2"
        "result = hs \<or> (\<exists>error. hs = Inl error \<and> result = Inl error \<and> \<not> (initial_connect_retryable error \<and> remaining1 \<noteq> []))"
        by (auto simp: establish.simps [of attempt handshake remaining pool w] dial fe st hand split: sum.splits)
      with log2 after before(1) False show ?thesis
        by (intro exI [of _ "before @ [e]"]) (auto split: sum.splits)
    qed
  qed
qed

section \<open>Properties\<close>

text \<open>
  A reconnect dial tries the candidates in the pool's order, each at most once, and stops
  at the first that answers. That one then heads the order and those that failed before it
  close it, so the next dial begins where this one succeeded; when all fail every candidate was
  tried and the order is as before.
\<close>

theorem make_dial_round_robin:
  assumes "wf_pool pool" and "\<And>e w. log (snd (attempt e w)) = log w @ [e]"
  shows "case make_dial attempt pool w of
      (Inr (flow, e), pool', w') \<Rightarrow> \<exists>before after. p_order pool = before @ e # after \<and>
        p_order pool' = e # after @ before \<and> log w' = log w @ before @ [e]
    | (Inl _, pool', w') \<Rightarrow> p_order pool' = p_order pool \<and> log w' = log w @ p_order pool"
proof -
  obtain result pool' w' where
    "dial_loop attempt (\<lambda>e pool. failed pool e) (p_order pool) None pool w = (result, pool', w')"
    by (metis prod.exhaust)
  with server_pool.dial_rotates [where log = log, OF assms(2,1) this] show ?thesis
    by (auto simp: make_dial_def dial_candidates_def split: sum.splits)
qed

text \<open>An attempt that records the endpoint and answers for one of them.\<close>

definition sample_attempt :: "endpoint \<Rightarrow> endpoint list \<Rightarrow> (unit connection_error + unit) \<times> endpoint list" where
  "sample_attempt e tried = ((if ep_host e = ''b'' then Inr () else Inl Disconnected), tried @ [e])"

definition sample_endpoints :: "endpoint list" where
  "sample_endpoints = [Endpoint Nats ''a'' 4222, Endpoint Tls ''b'' 4222, Endpoint Nats ''c'' 4222]"

theorem make_dial_round_robin_witness:
  "\<exists>before after pool'. make_dial sample_attempt (pool_v sample_endpoints) [] =
       (Inr ((), Endpoint Tls ''b'' 4222), pool', before @ [Endpoint Tls ''b'' 4222]) \<and>
     p_order pool' = Endpoint Tls ''b'' 4222 # after @ before"
proof -
  have "\<And>e w. id (snd (sample_attempt e w)) = id w @ [e]" by (simp add: sample_attempt_def)
  note dialled = make_dial_round_robin [where log = id, OF pool_v_wf this, of sample_endpoints "[]"]
  obtain pool' where run: "make_dial sample_attempt (pool_v sample_endpoints) [] =
      (Inr ((), Endpoint Tls ''b'' 4222), pool', [Endpoint Nats ''a'' 4222, Endpoint Tls ''b'' 4222])"
    by (simp add: make_dial_def dial_candidates_def pool_v_def sample_endpoints_def sample_attempt_def Let_def)
  from dialled [unfolded run] show ?thesis unfolding run by auto
qed

text \<open>
  C35: Connecting for the first time tries each configured server at most once, whatever the
  attempts and handshakes answer; it reports an error only when every server was tried or when
  the error is one that a retry cannot mend.
\<close>

theorem connect_tries_each_once:
  assumes "\<And>e w. log (snd (attempt e w)) = log w @ [e]"
    and "\<And>flow e pool w. log (snd (snd (handshake flow e pool w))) = log w"
  shows "\<exists>tried. log (snd (connect attempt handshake endpoints w)) = log w @ tried \<and> distinct tried \<and>
    set tried \<subseteq> set endpoints \<and>
    (case fst (connect attempt handshake endpoints w) of
       Inr _ \<Rightarrow> tried \<noteq> []
     | Inl error \<Rightarrow> set tried = set endpoints \<or> \<not> initial_connect_retryable error)"
proof (cases "endpoints = []")
  case True
  then show ?thesis by (intro exI [of _ "[]"]) (simp add: connect_def)
next
  case False
  let ?pool = "pool_v endpoints"
  obtain result pool' w' where run: "establish attempt handshake (p_order ?pool) ?pool w = (result, pool', w')"
    by (metis prod.exhaust)
  have order: "distinct (p_order ?pool)" "set (p_order ?pool) = set endpoints"
    by (simp_all add: pool_v_def Let_def)
  have "connect attempt handshake endpoints w = (result, w')"
    using False run by (simp add: connect_def)
  with establish_tries [where log = log, OF assms order(1) run] show ?thesis
    unfolding order(2) by simp
qed

definition sample_handshake ::
  "unit \<Rightarrow> endpoint \<Rightarrow> pool \<Rightarrow> endpoint list \<Rightarrow> (unit connection_error + unit) \<times> pool \<times> endpoint list" where
  "sample_handshake flow e pool tried = (Inl Timeout, pool, tried)"

theorem connect_tries_each_once_witness:
  "\<exists>tried. snd (connect sample_attempt sample_handshake sample_endpoints []) = tried \<and> distinct tried \<and>
     set tried \<subseteq> set sample_endpoints"
proof -
  have "\<And>e w. id (snd (sample_attempt e w)) = id w @ [e]" by (simp add: sample_attempt_def)
  moreover have "\<And>flow e pool w. id (snd (snd (sample_handshake flow e pool w))) = id w"
    by (simp add: sample_handshake_def)
  ultimately show ?thesis
    using connect_tries_each_once [where log = id and attempt = sample_attempt and handshake = sample_handshake,
        of sample_endpoints "[]"] by auto
qed

end
