(* ===== verification/Connection.thy ===== *)
theory Connection
  imports Auth Dial
begin

text \<open>
  The connection around the client state machine (lib/eio/connection.ml): what it writes, when it
  upgrades to TLS, when it sends CONNECT, and what it does while it reconnects. Flows, fibers,
  promises, the application's queues and the waiters are outside, as \<open>transport\<close>; the outside
  state is \<open>'w\<close>.
\<close>

section \<open>State\<close>

datatype 'y cause = Of_client client_error | Of_auth auth_error | Of_exn 'y

type_synonym 'y conn_error = "'y cause connection_error"

record conn_config =
  cc_auth :: auth
  cc_tls :: bool
  cc_tls_required :: bool
  cc_max_attempts :: "int option"
  cc_buffer_size :: int

text \<open>\<open>cn_written\<close> keeps what was given to the flow, with whether the flow was TLS then.\<close>

record conn =
  cn_client :: client
  cn_pool :: pool
  cn_endpoint :: "endpoint option"
  cn_pending :: string
  cn_eof :: bool
  cn_reading :: bool
  cn_ready :: bool
  cn_closed :: bool
  cn_connect_sent :: bool
  cn_tls :: bool
  cn_info_ready :: bool
  cn_reconnecting :: bool
  cn_attempts :: int
  cn_retry_due :: bool
  cn_buffer :: "string list"
  cn_buffer_bytes :: int
  cn_publish_state :: "client option"
  cn_written :: "(bool \<times> string) list"

datatype 'y input = Data string | Eof | Io_failure 'y | Failure 'y

datatype 'y write_failure = Write_end_of_file | Write_io 'y | Write_other 'y

datatype connection_event = Core client_event | Reconnected | Lost_connection

text \<open>What became of a delivery: kept by a subscription, the answer to a request, or too much.\<close>

datatype 'y disposition = Kept | Answered | Overflown "'y conn_error option"

text \<open>What a completed flush was for: somebody's wait, the drain of the connection, or of one id.\<close>

datatype barrier_outcome = Barrier_passed | Connection_drained | Subscription_drained int

record ('y, 'w) transport =
  tp_write :: "string \<Rightarrow> 'w \<Rightarrow> 'y write_failure option \<times> 'w"
  tp_tls_handshake :: "'w \<Rightarrow> ('y conn_error + unit) \<times> 'w"
  tp_stopped_input :: "'w \<Rightarrow> 'y input list \<times> 'w"
  tp_event :: "connection_event \<Rightarrow> 'w \<Rightarrow> 'y conn_error option \<times> 'w"
  tp_control :: "connection_event \<Rightarrow> 'w \<Rightarrow> bool \<times> 'w"
  tp_barrier :: "'w \<Rightarrow> barrier_outcome \<times> 'w"
  tp_deliver :: "delivery \<Rightarrow> 'w \<Rightarrow> 'y disposition \<times> 'w"
  tp_dial :: "'w \<Rightarrow> ('y conn_error + endpoint) \<times> 'w"

definition protocol :: "client_error \<Rightarrow> 'y conn_error" where
  "protocol error = Protocol (Of_client error)"

definition command_error :: "client_error \<Rightarrow> 'y conn_error" where
  "command_error error =
     (case error of
        Client_closed \<Rightarrow> Connection_closed
      | Client_draining \<Rightarrow> Connection_draining
      | error \<Rightarrow> protocol error)"

section \<open>Writing\<close>

definition transport_error :: "conn \<Rightarrow> 'y \<Rightarrow> 'y conn_error" where
  "transport_error c error = (if cn_tls c then Tls_failure (Of_exn error) else Io (Of_exn error))"

fun write_outputs ::
  "('y, 'w) transport \<Rightarrow> string list \<Rightarrow> conn \<Rightarrow> 'w \<Rightarrow> 'y conn_error option \<times> conn \<times> 'w" where
  "write_outputs tp [] c w = (None, c, w)"
| "write_outputs tp (v # others) c w =
     (let c' = c\<lparr>cn_written := cn_written c @ [(cn_tls c, v)]\<rparr> in
      case tp_write tp v w of
        (None, w') \<Rightarrow> write_outputs tp others c' w'
      | (Some Write_end_of_file, w') \<Rightarrow> (Some Disconnected, c', w')
      | (Some (Write_io error), w') \<Rightarrow> (Some (Io (Of_exn error)), c', w')
      | (Some (Write_other error), w') \<Rightarrow> (Some (transport_error c' error), c', w'))"

definition unsubscribe_sid ::
  "('y, 'w) transport \<Rightarrow> int \<Rightarrow> conn \<Rightarrow> 'w \<Rightarrow> 'y conn_error option \<times> conn \<times> 'w" where
  "unsubscribe_sid tp sid c w =
     (case outgoing_unsubscribe (cn_client c) sid None of
        Inl (Unknown_subscription _) \<Rightarrow> (None, c, w)
      | Inl error \<Rightarrow> (Some (command_error error), c, w)
      | Inr transition \<Rightarrow>
          (case write_outputs tp (t_output transition) c w of
             (Some error, c', w') \<Rightarrow> (Some error, c', w')
           | (None, c', w') \<Rightarrow> (None, c'\<lparr>cn_client := t_state transition\<rparr>, w')))"

definition unsubscribe_and_forget ::
  "('y, 'w) transport \<Rightarrow> int \<Rightarrow> conn \<Rightarrow> 'w \<Rightarrow> 'y conn_error option \<times> conn \<times> 'w" where
  "unsubscribe_and_forget tp sid c w =
     (case unsubscribe_sid tp sid c w of
        (None, c', w') \<Rightarrow> (None, c', w')
      | (Some error, c', w') \<Rightarrow> (Some error, c'\<lparr>cn_client := forget_subscription (cn_client c') sid\<rparr>, w'))"

section \<open>Closing\<close>

definition finish :: "conn \<Rightarrow> conn" where
  "finish c =
     (if cn_closed c then c
      else c\<lparr>cn_closed := True, cn_reconnecting := False, cn_buffer := [], cn_buffer_bytes := 0,
             cn_publish_state := None, cn_reading := False\<rparr>)"

section \<open>Publishing while reconnecting\<close>

definition flush_reconnect_pending ::
  "('y, 'w) transport \<Rightarrow> conn \<Rightarrow> 'w \<Rightarrow> 'y conn_error option \<times> conn \<times> 'w" where
  "flush_reconnect_pending tp c w =
     (if cn_buffer c = [] then (None, c, w)
      else write_outputs tp [concat (cn_buffer c)] (c\<lparr>cn_buffer := [], cn_buffer_bytes := 0\<rparr>) w)"

definition enqueue_reconnect_output :: "string \<Rightarrow> conn \<Rightarrow> conn" where
  "enqueue_reconnect_output v c =
     c\<lparr>cn_buffer := cn_buffer c @ [v], cn_buffer_bytes := wrap63 (cn_buffer_bytes c + int (length v))\<rparr>"

text \<open>The message is encoded for the server that was lost; the limit is looked at before it is added.\<close>

definition enqueue_reconnect_publish_output ::
  "conn_config \<Rightarrow> message \<Rightarrow> conn \<Rightarrow> 'y conn_error option \<times> conn" where
  "enqueue_reconnect_publish_output cfg message c =
     (case cn_publish_state c of
        None \<Rightarrow> (Some Disconnected, c)
      | Some state \<Rightarrow>
          (case outgoing_publish state message of
             Inl error \<Rightarrow> (Some (command_error error), c)
           | Inr transition \<Rightarrow>
               if cn_buffer_bytes c \<ge> cc_buffer_size cfg then (Some (Reconnect_buffer_exceeded (cc_buffer_size cfg)), c)
               else (None, fold enqueue_reconnect_output (t_output transition) c)))"

section \<open>A transition of the client\<close>

type_synonym ('y, 'w) result = "'y conn_error option \<times> conn \<times> 'w"

definition then_ok :: "('y, 'w) result \<Rightarrow> (conn \<Rightarrow> 'w \<Rightarrow> ('y, 'w) result) \<Rightarrow> ('y, 'w) result" where
  "then_ok r f = (case r of (Some error, c, w) \<Rightarrow> (Some error, c, w) | (None, c, w) \<Rightarrow> f c w)"

text \<open>After a reconnect the application learns the new INFO and that the connection is back.\<close>

definition reconnect_core_events :: "conn \<Rightarrow> client_event list" where
  "reconnect_core_events c =
     (case k_info (cn_client c) of
        None \<Rightarrow> [Connected_event]
      | Some info \<Rightarrow>
          if i_lame_duck_mode info then [Info_event info, Lame_duck_event, Connected_event]
          else [Info_event info, Connected_event])"

fun push_controls :: "('y, 'w) transport \<Rightarrow> connection_event list \<Rightarrow> conn \<Rightarrow> 'w \<Rightarrow> ('y, 'w) result" where
  "push_controls tp [] c w = (None, c, w)"
| "push_controls tp (e # es) c w =
     (case tp_control tp e w of
        (True, w') \<Rightarrow> push_controls tp es c w'
      | (False, w') \<Rightarrow> (Some (Slow_consumer None), c, w'))"

definition default_scheme :: "conn \<Rightarrow> scheme" where
  "default_scheme c =
     (case cn_endpoint c of Some endpoint \<Rightarrow> ep_scheme endpoint | None \<Rightarrow> if cn_tls c then Tls else Nats)"

definition discovered :: "conn \<Rightarrow> server_info \<Rightarrow> endpoint list" where
  "discovered c info =
     List.map_filter (\<lambda>v. case of_connect_url (default_scheme c) v of Inr endpoint \<Rightarrow> Some endpoint | Inl _ \<Rightarrow> None)
       (i_connect_urls info)"

definition handle_event :: "('y, 'w) transport \<Rightarrow> client_event \<Rightarrow> conn \<Rightarrow> 'w \<Rightarrow> ('y, 'w) result" where
  "handle_event tp event c w =
     (case event of
        Info_event info \<Rightarrow> (None, c\<lparr>cn_pool := update_discovered (cn_pool c) (discovered c info)\<rparr>, w)
      | Connected_event \<Rightarrow>
          if cn_reconnecting c then
            then_ok (flush_reconnect_pending tp c w) (\<lambda>c w.
            then_ok (push_controls tp (map Core (reconnect_core_events c) @ [Reconnected]) c w) (\<lambda>c w.
              (None, c\<lparr>cn_reconnecting := False, cn_publish_state := None\<rparr>, w)))
          else if \<not> cn_connect_sent c then (None, c, w)
          else (None, c\<lparr>cn_ready := True\<rparr>, w)
      | Flush_completed \<Rightarrow>
          (case tp_barrier tp w of
             (Barrier_passed, w') \<Rightarrow> (None, c, w')
           | (Connection_drained, w') \<Rightarrow> (None, finish c, w')
           | (Subscription_drained sid, w') \<Rightarrow>
               (None, c\<lparr>cn_client := forget_subscription (cn_client c) sid\<rparr>, w'))
      | _ \<Rightarrow> (None, c, w))"

fun handle_events :: "('y, 'w) transport \<Rightarrow> client_event list \<Rightarrow> conn \<Rightarrow> 'w \<Rightarrow> ('y, 'w) result" where
  "handle_events tp [] c w = (None, c, w)"
| "handle_events tp (event # es) c w =
     (case tp_event tp (Core event) w of
        (Some error, w') \<Rightarrow> (Some error, c, w')
      | (None, w') \<Rightarrow> then_ok (handle_event tp event c w') (handle_events tp es))"

fun handle_deliveries :: "('y, 'w) transport \<Rightarrow> delivery list \<Rightarrow> conn \<Rightarrow> 'w \<Rightarrow> ('y, 'w) result" where
  "handle_deliveries tp [] c w = (None, c, w)"
| "handle_deliveries tp (d # ds) c w =
     (case tp_deliver tp d w of
        (Kept, w') \<Rightarrow> handle_deliveries tp ds c w'
      | (Answered, w') \<Rightarrow> then_ok (unsubscribe_and_forget tp (d_sid d) c w') (handle_deliveries tp ds)
      | (Overflown (Some error), w') \<Rightarrow> (Some error, c, w')
      | (Overflown None, w') \<Rightarrow> then_ok (unsubscribe_and_forget tp (d_sid d) c w') (handle_deliveries tp ds))"

definition is_info :: "client_event \<Rightarrow> bool" where
  "is_info event = (case event of Info_event _ \<Rightarrow> True | _ \<Rightarrow> False)"

definition apply_transition :: "('y, 'w) transport \<Rightarrow> transition \<Rightarrow> conn \<Rightarrow> 'w \<Rightarrow> ('y, 'w) result" where
  "apply_transition tp transition c w =
     then_ok (write_outputs tp (t_output transition) c w) (\<lambda>c w.
     (let c = c\<lparr>cn_client := t_state transition\<rparr>;
          c = (if cn_tls c \<and> list_ex is_info (t_events transition) then c\<lparr>cn_info_ready := True\<rparr> else c)
      in then_ok (handle_events tp (t_events transition) c w) (handle_deliveries tp (t_deliveries transition))))"

section \<open>TLS and CONNECT\<close>

fun drain_input :: "'y input list \<Rightarrow> conn \<Rightarrow> 'y conn_error option \<times> conn" where
  "drain_input [] c = (None, c)"
| "drain_input (Data bytes # items) c = drain_input items (c\<lparr>cn_pending := cn_pending c @ bytes\<rparr>)"
| "drain_input (Eof # items) c = drain_input items (c\<lparr>cn_eof := True\<rparr>)"
| "drain_input (Io_failure error # items) c = (Some (Io (Of_exn error)), c)"
| "drain_input (Failure error # items) c = (Some (transport_error c error), c)"

definition tls_required_by_server :: "conn \<Rightarrow> bool" where
  "tls_required_by_server c = (case k_info (cn_client c) of None \<Rightarrow> False | Some info \<Rightarrow> i_tls_required info)"

text \<open>Bytes that came in before the handshake are not taken for bytes of the TLS session.\<close>

definition upgrade_tls :: "conn_config \<Rightarrow> ('y, 'w) transport \<Rightarrow> conn \<Rightarrow> 'w \<Rightarrow> ('y, 'w) result" where
  "upgrade_tls cfg tp c w =
     (if \<not> cc_tls cfg then (Some Tls_required, c, w)
      else
        (let c = c\<lparr>cn_reading := False\<rparr> in
         case tp_stopped_input tp w of
           (items, w) \<Rightarrow>
             (case drain_input items c of
                (Some error, c) \<Rightarrow> (Some error, c, w)
              | (None, c) \<Rightarrow>
                  if cn_eof c then (Some Disconnected, c, w)
                  else if length (cn_pending c) > 0 then (Some Tls_unexpected_input, c, w)
                  else (case tp_tls_handshake tp w of
                      (Inl error, w) \<Rightarrow> (Some error, c, w)
                    | (Inr _, w) \<Rightarrow> (None, c\<lparr>cn_tls := True, cn_info_ready := True, cn_reading := True\<rparr>, w)))))"

text \<open>After a successful upgrade the code starts again, with TLS active: \<open>send_connect\<close>.\<close>

definition send_connect :: "conn_config \<Rightarrow> platform \<Rightarrow> ('y, 'w) transport \<Rightarrow> conn \<Rightarrow> 'w \<Rightarrow> ('y, 'w) result" where
  "send_connect cfg pf tp c w =
     (if cn_tls c \<and> \<not> cn_info_ready c then (None, c, w)
      else case k_info (cn_client c) of
        None \<Rightarrow> (Some (protocol Info_not_received), c, w)
      | Some info \<Rightarrow>
          (case auth_connect (cc_auth cfg) info of
             Inl error \<Rightarrow> (Some (Auth (Of_auth error)), c, w)
           | Inr credentials \<Rightarrow>
               (case outgoing pf (cn_client c) (Do_connect credentials (cn_tls c)) of
                  Some (Inr transition) \<Rightarrow> apply_transition tp transition (c\<lparr>cn_connect_sent := True\<rparr>) w
                | Some (Inl error) \<Rightarrow> (Some (protocol error), c, w)
                | None \<Rightarrow> (Some (protocol Info_not_received), c, w))))"

definition connect_after_info :: "conn_config \<Rightarrow> platform \<Rightarrow> ('y, 'w) transport \<Rightarrow> conn \<Rightarrow> 'w \<Rightarrow> ('y, 'w) result" where
  "connect_after_info cfg pf tp c w =
     (if k_phase (cn_client c) = Awaiting_connect \<and> \<not> cn_connect_sent c then
        (if (tls_required_by_server c \<or> cc_tls_required cfg) \<and> \<not> cn_tls c then
           then_ok (upgrade_tls cfg tp c w) (send_connect cfg pf tp)
         else send_connect cfg pf tp c w)
      else (None, c, w))"

section \<open>Incoming bytes\<close>

text \<open>A reader over a string, and how far it has come (bytesrw).\<close>

record 'r string_reader =
  sr_read :: "'r \<Rightarrow> string \<times> 'r"
  sr_push_back :: "'r \<Rightarrow> string \<Rightarrow> 'r"
  sr_of_string :: "string \<Rightarrow> 'r"
  sr_pos :: "'r \<Rightarrow> nat"

definition consume_pending :: "nat \<Rightarrow> conn \<Rightarrow> conn" where
  "consume_pending n c = (if n > 0 then c\<lparr>cn_pending := drop n (cn_pending c)\<rparr> else c)"

text \<open>What \<open>apply_incoming\<close> remembers of the state it started in.\<close>

record incoming_frame =
  if_was_established :: bool
  if_was_draining :: bool
  if_previous_state :: client

definition incoming_frame_of :: "conn \<Rightarrow> incoming_frame" where
  "incoming_frame_of c = \<lparr>if_was_established = cn_ready c,
     if_was_draining = (k_phase (cn_client c) = Draining), if_previous_state = cn_client c\<rparr>"

definition lost_while_reading :: "incoming_frame \<Rightarrow> conn \<Rightarrow> 'w \<Rightarrow> ('y, 'w) result" where
  "lost_while_reading frame c w =
     (if if_was_established frame \<and> \<not> if_was_draining frame then
        (Some Disconnected,
         if cn_publish_state c = None then c\<lparr>cn_publish_state := Some (if_previous_state frame)\<rparr> else c, w)
      else (None, finish c, w))"

text \<open>One turn of its loop: the result, and whether the loop goes on. \<open>None\<close>: the reader never returned.\<close>

definition incoming_turn ::
  "conn_config \<Rightarrow> platform \<Rightarrow> 'r string_reader \<Rightarrow> ('y, 'w) transport \<Rightarrow> nat \<Rightarrow> incoming_frame \<Rightarrow> conn \<Rightarrow> 'w \<Rightarrow>
     (('y, 'w) result \<times> bool) option" where
  "incoming_turn cfg pf sr tp now frame c w =
     (let end_of_data = cn_eof c in
      if cn_pending c = [] \<and> \<not> end_of_data then Some ((None, c, w), False)
      else case incoming pf (sr_read sr) (sr_push_back sr) end_of_data (cn_client c) now (sr_of_string sr (cn_pending c)) of
        None \<Rightarrow> None
      | Some (Inl error, _) \<Rightarrow> Some ((Some (protocol error), c, w), False)
      | Some (Inr transition, reader) \<Rightarrow>
          (let consumed = sr_pos sr reader in
           if consumed = 0 \<and> \<not> end_of_data then Some ((None, c, w), False)
           else case apply_transition tp transition c w of
             (Some error, c, w) \<Rightarrow> Some ((Some error, c, w), False)
           | (None, c, w) \<Rightarrow>
               (let c = consume_pending consumed c in
                if k_phase (cn_client c) = Closed then Some (lost_while_reading frame c w, False)
                else case connect_after_info cfg pf tp c w of
                  (Some error, c, w) \<Rightarrow> Some ((Some error, c, w), False)
                | (None, c, w) \<Rightarrow> Some ((None, c, w), end_of_data \<or> cn_pending c \<noteq> []))))"

section \<open>Reconnecting\<close>

definition reset_reconnect_attempt :: "bool \<Rightarrow> conn \<Rightarrow> conn" where
  "reset_reconnect_attempt preserve_pending_pings c =
     c\<lparr>cn_pool := (case cn_endpoint c of None \<Rightarrow> cn_pool c | Some endpoint \<Rightarrow> failed (cn_pool c) endpoint),
       cn_endpoint := None, cn_reading := False, cn_pending := [], cn_eof := False, cn_connect_sent := False,
       cn_tls := False, cn_info_ready := False, cn_retry_due := False,
       cn_client := prepare_reconnect preserve_pending_pings (cn_client c)\<rparr>"

definition reconnect_limit_reached :: "conn_config \<Rightarrow> conn \<Rightarrow> bool" where
  "reconnect_limit_reached cfg c = (case cc_max_attempts cfg of None \<Rightarrow> False | Some limit \<Rightarrow> cn_attempts c \<ge> limit)"

text \<open>How long the wait is, with its jitter, is left open.\<close>

definition schedule_reconnect :: "conn_config \<Rightarrow> 'y conn_error \<Rightarrow> conn \<Rightarrow> 'w \<Rightarrow> ('y, 'w) result" where
  "schedule_reconnect cfg error c w =
     (if reconnect_limit_reached cfg c then (Some error, c, w) else (None, c\<lparr>cn_retry_due := True\<rparr>, w))"

definition endpoint_uses_tls :: "endpoint \<Rightarrow> bool" where
  "endpoint_uses_tls endpoint = (case ep_scheme endpoint of Nats \<Rightarrow> False | Tls \<Rightarrow> True)"

definition start_reconnect_attempt :: "conn_config \<Rightarrow> ('y, 'w) transport \<Rightarrow> conn \<Rightarrow> 'w \<Rightarrow> ('y, 'w) result" where
  "start_reconnect_attempt cfg tp c w =
     (let c = c\<lparr>cn_attempts := wrap63 (cn_attempts c + 1)\<rparr> in
      case tp_dial tp w of
        (Inl error, w) \<Rightarrow> schedule_reconnect cfg error c w
      | (Inr endpoint, w) \<Rightarrow>
          (None, c\<lparr>cn_pool := connected (cn_pool c) endpoint, cn_endpoint := Some endpoint,
             cn_tls := endpoint_uses_tls endpoint, cn_info_ready := False, cn_reading := True\<rparr>, w))"

definition retry_reconnect :: "conn_config \<Rightarrow> 'y conn_error \<Rightarrow> conn \<Rightarrow> 'w \<Rightarrow> ('y, 'w) result" where
  "retry_reconnect cfg error c w = schedule_reconnect cfg error (reset_reconnect_attempt True c) w"

definition preserve_reconnect_publish_state :: "conn \<Rightarrow> conn" where
  "preserve_reconnect_publish_state c =
     (if cn_publish_state c = None then c\<lparr>cn_publish_state := Some (cn_client c)\<rparr> else c)"

text \<open>\<open>sids\<close> are the subscriptions that are not replayed.\<close>

definition recover_transport ::
  "conn_config \<Rightarrow> ('y, 'w) transport \<Rightarrow> int list \<Rightarrow> 'y conn_error \<Rightarrow> conn \<Rightarrow> 'w \<Rightarrow> ('y, 'w) result" where
  "recover_transport cfg tp sids initial_error c w =
     (let c = c\<lparr>cn_client := fold (\<lambda>sid state. forget_subscription state sid) sids (cn_client c)\<rparr>;
          c = reset_reconnect_attempt False (preserve_reconnect_publish_state c);
          c = c\<lparr>cn_attempts := 0, cn_retry_due := False\<rparr> in
      if reconnect_limit_reached cfg c then (Some initial_error, c, w)
      else then_ok (push_controls tp [Lost_connection] c w) (\<lambda>c w.
        start_reconnect_attempt cfg tp (c\<lparr>cn_reconnecting := True\<rparr>) w))"

definition may_recover :: "conn_config \<Rightarrow> conn \<Rightarrow> bool" where
  "may_recover cfg c \<longleftrightarrow>
     cn_ready c \<and> \<not> cn_closed c \<and> \<not> cn_reconnecting c \<and>
     (case cc_max_attempts cfg of None \<Rightarrow> True | Some attempts \<Rightarrow> attempts > 0) \<and>
     k_phase (cn_client c) \<noteq> Draining"

definition recoverable_transport_error :: "'y conn_error \<Rightarrow> bool" where
  "recoverable_transport_error error = (case error of Disconnected \<Rightarrow> True | Io _ \<Rightarrow> True | _ \<Rightarrow> False)"

definition reconnectable_attempt_error :: "'y conn_error \<Rightarrow> bool" where
  "reconnectable_attempt_error error =
     (case error of
        Disconnected \<Rightarrow> True | Io _ \<Rightarrow> True | Tls_failure _ \<Rightarrow> True | Timeout \<Rightarrow> True | Auth _ \<Rightarrow> True
      | _ \<Rightarrow> False)"

definition handle_transport_error ::
  "conn_config \<Rightarrow> ('y, 'w) transport \<Rightarrow> int list \<Rightarrow> 'y conn_error \<Rightarrow> conn \<Rightarrow> 'w \<Rightarrow> ('y, 'w) result" where
  "handle_transport_error cfg tp sids error c w =
     (if cn_reconnecting c \<and> reconnectable_attempt_error error then retry_reconnect cfg error c w
      else if may_recover cfg c \<and> recoverable_transport_error error then recover_transport cfg tp sids error c w
      else (Some error, c, w))"

text \<open>The owner fiber: an error that is not recovered from closes the connection.\<close>

definition settle ::
  "conn_config \<Rightarrow> ('y, 'w) transport \<Rightarrow> int list \<Rightarrow> ('y, 'w) result \<Rightarrow> conn \<times> 'w" where
  "settle cfg tp sids r =
     (case r of
        (None, c, w) \<Rightarrow> (c, w)
      | (Some error, c, w) \<Rightarrow>
          (case handle_transport_error cfg tp sids error c w of
             (None, c, w) \<Rightarrow> (c, w)
           | (Some error, c, w) \<Rightarrow> (finish c, w)))"

section \<open>Commands\<close>

datatype conn_command =
    Publish message
  | Subscribe string "string option"
  | Auto_unsubscribe int int
  | Unsubscribe int
  | Request string message
  | Cancel_request int
  | Drain_subscription int
  | Resume_subscription_drain int
  | Flush bool
  | Drain_connection bool
  | Close_connection

text \<open>A command the client refuses is answered with its error, which is no error of the connection.\<close>

definition issue ::
  "platform \<Rightarrow> ('y, 'w) transport \<Rightarrow> command \<Rightarrow> conn \<Rightarrow> 'w \<Rightarrow> ('y, 'w) result" where
  "issue pf tp command c w =
     (case outgoing pf (cn_client c) command of
        Some (Inr transition) \<Rightarrow> apply_transition tp transition c w
      | _ \<Rightarrow> (None, c, w))"

text \<open>The drain of a subscription forgets it when the client refuses or the write fails.\<close>

definition forget :: "int \<Rightarrow> conn \<Rightarrow> conn" where
  "forget sid c = c\<lparr>cn_client := forget_subscription (cn_client c) sid\<rparr>"

definition drain_subscription ::
  "('y, 'w) transport \<Rightarrow> bool \<Rightarrow> int \<Rightarrow> conn \<Rightarrow> 'w \<Rightarrow> ('y, 'w) result" where
  "drain_subscription tp resumed sid c w =
     (case outgoing_drain_subscription (cn_client c) sid of
        Inl _ \<Rightarrow> (None, forget sid c, w)
      | Inr transition \<Rightarrow>
          (case apply_transition tp (if resumed then transition\<lparr>t_output := []\<rparr> else transition) c w of
             (Some error, c, w) \<Rightarrow> (Some error, forget sid c, w)
           | (None, c, w) \<Rightarrow> (None, c, w)))"

text \<open>The publication of a request; its inbox is subscribed for one message before.\<close>

definition request_publish ::
  "conn_config \<Rightarrow> ('y, 'w) transport \<Rightarrow> int \<Rightarrow> message \<Rightarrow> conn \<Rightarrow> 'w \<Rightarrow> ('y, 'w) result" where
  "request_publish cfg tp sid message c w =
     (if cn_reconnecting c then
        (case enqueue_reconnect_publish_output cfg message c :: 'y conn_error option \<times> conn of
           (None, c) \<Rightarrow> (None, c, w)
         | (Some _, c) \<Rightarrow> (None, forget sid c, w))
      else case outgoing_publish (cn_client c) message of
        Inl _ \<Rightarrow> unsubscribe_and_forget tp sid c w
      | Inr transition \<Rightarrow>
          (case apply_transition tp transition c w of
             (None, c, w) \<Rightarrow> (None, c, w)
           | (Some error, c, w) \<Rightarrow> (Some error, forget sid c, w)))"

definition request_command ::
  "conn_config \<Rightarrow> ('y, 'w) transport \<Rightarrow> string \<Rightarrow> message \<Rightarrow> conn \<Rightarrow> 'w \<Rightarrow> ('y, 'w) result" where
  "request_command cfg tp inbox message c w =
     (case outgoing_subscribe (cn_client c) inbox None of
        Inl _ \<Rightarrow> (None, c, w)
      | Inr subscribed \<Rightarrow>
          (case t_subscription_id subscribed of
             None \<Rightarrow> (Some (protocol (Codec_failure (Invalid_operation ''request SUB did not allocate an id''))), c, w)
           | Some sid \<Rightarrow>
               then_ok (apply_transition tp subscribed c w) (\<lambda>c w.
                 case outgoing_unsubscribe (cn_client c) sid (Some 1) of
                   Inl _ \<Rightarrow> unsubscribe_and_forget tp sid c w
                 | Inr auto \<Rightarrow>
                     (case apply_transition tp auto c w of
                        (Some _, c, w) \<Rightarrow> unsubscribe_and_forget tp sid c w
                      | (None, c, w) \<Rightarrow>
                          request_publish cfg tp sid (message\<lparr>m_reply_to := Some inbox\<rparr>) c w))))"

text \<open>
  \<open>Flush\<close> and \<open>Drain_connection\<close> say whether the deadline of the wait can be represented.
\<close>

definition apply_outgoing ::
  "conn_config \<Rightarrow> platform \<Rightarrow> ('y, 'w) transport \<Rightarrow> conn_command \<Rightarrow> conn \<Rightarrow> 'w \<Rightarrow> ('y, 'w) result" where
  "apply_outgoing cfg pf tp command c w =
     (case command of
        Publish message \<Rightarrow> issue pf tp (Do_publish message) c w
      | Subscribe subj queue \<Rightarrow> issue pf tp (Do_subscribe subj queue) c w
      | Auto_unsubscribe sid max_messages \<Rightarrow> issue pf tp (Do_auto_unsubscribe sid max_messages) c w
      | Unsubscribe sid \<Rightarrow> issue pf tp (Do_unsubscribe sid) c w
      | Request inbox message \<Rightarrow> request_command cfg tp inbox message c w
      | Cancel_request sid \<Rightarrow>
          if cn_reconnecting c then (None, forget sid c, w) else unsubscribe_and_forget tp sid c w
      | Drain_subscription sid \<Rightarrow> drain_subscription tp False sid c w
      | Resume_subscription_drain sid \<Rightarrow> drain_subscription tp True sid c w
      | Flush representable \<Rightarrow>
          (case outgoing pf (cn_client c) Do_flush of
             Some (Inr transition) \<Rightarrow>
               then_ok (apply_transition tp transition c w) (\<lambda>c w.
                 (if representable then None else Some Timeout, c, w))
           | _ \<Rightarrow> (None, c, w))
      | Drain_connection representable \<Rightarrow>
          (case outgoing pf (cn_client c) Do_drain of
             Some (Inr transition) \<Rightarrow>
               then_ok (apply_transition tp transition c w) (\<lambda>c w.
                 (if representable then None else Some Timeout, c, w))
           | _ \<Rightarrow> (None, c, w))
      | Close_connection \<Rightarrow>
          (case outgoing pf (cn_client c) Do_close of
             Some (Inr transition) \<Rightarrow>
               then_ok (apply_transition tp transition c w) (\<lambda>c w. (None, finish c, w))
           | _ \<Rightarrow> (None, finish c, w)))"

definition apply_reconnect_flush :: "bool \<Rightarrow> conn \<Rightarrow> 'w \<Rightarrow> ('y, 'w) result" where
  "apply_reconnect_flush representable c w =
     (case outgoing_flush (cn_client c) of
        Inl _ \<Rightarrow> (None, c, w)
      | Inr transition \<Rightarrow>
          (if representable then None else Some Timeout,
           (fold enqueue_reconnect_output (t_output transition) c)\<lparr>cn_client := t_state transition\<rparr>, w))"

definition apply_command ::
  "conn_config \<Rightarrow> platform \<Rightarrow> ('y, 'w) transport \<Rightarrow> conn_command \<Rightarrow> conn \<Rightarrow> 'w \<Rightarrow> ('y, 'w) result" where
  "apply_command cfg pf tp command c w =
     (if \<not> cn_reconnecting c then apply_outgoing cfg pf tp command c w
      else case command of
        Publish message \<Rightarrow>
          (None, snd (enqueue_reconnect_publish_output cfg message c :: 'y conn_error option \<times> conn), w)
      | Close_connection \<Rightarrow> (None, finish c, w)
      | Drain_connection _ \<Rightarrow> (None, finish c, w)
      | Flush representable \<Rightarrow> apply_reconnect_flush representable c w
      | Drain_subscription _ \<Rightarrow> (None, c, w)
      | command \<Rightarrow> apply_outgoing cfg pf tp command c w)"

section \<open>The owner fiber\<close>

text \<open>
  The timer, when the time is neither that of a reconnect nor of a handshake: the waits that are
  over were ended outside; \<open>sids\<close> are the requests among them.
\<close>

fun expire_requests :: "('y, 'w) transport \<Rightarrow> int list \<Rightarrow> conn \<Rightarrow> 'w \<Rightarrow> ('y, 'w) result" where
  "expire_requests tp [] c w = (None, c, w)"
| "expire_requests tp (sid # sids) c w =
     (if cn_reconnecting c then expire_requests tp sids (forget sid c) w
      else then_ok (unsubscribe_and_forget tp sid c w) (expire_requests tp sids))"

definition apply_timer ::
  "platform \<Rightarrow> ('y, 'w) transport \<Rightarrow> nat \<Rightarrow> int list \<Rightarrow> conn \<Rightarrow> 'w \<Rightarrow> conn \<times> 'w" where
  "apply_timer pf tp now sids c w =
     (case then_ok (expire_requests tp sids c w) (\<lambda>c w. apply_transition tp (timer pf (cn_client c) now) c w) of
        (Some error, c, w) \<Rightarrow> (finish c, w)
      | (None, c, w) \<Rightarrow> (if k_phase (cn_client c) = Closed then finish c else c, w))"

definition reconnect_timer :: "conn_config \<Rightarrow> ('y, 'w) transport \<Rightarrow> conn \<Rightarrow> 'w \<Rightarrow> conn \<times> 'w" where
  "reconnect_timer cfg tp c w =
     (case start_reconnect_attempt cfg tp (c\<lparr>cn_retry_due := False\<rparr>) w of
        (None, c, w) \<Rightarrow> (c, w)
      | (Some error, c, w) \<Rightarrow> (finish c, w))"

definition handshake_timer :: "conn_config \<Rightarrow> conn \<Rightarrow> 'w \<Rightarrow> conn \<times> 'w" where
  "handshake_timer cfg c w =
     (if cn_reconnecting c then
        (case retry_reconnect cfg (Timeout :: unit conn_error) c w of
           (None, c, w) \<Rightarrow> (c, w)
         | (Some error, c, w) \<Rightarrow> (finish c, w))
      else (finish c, w))"

text \<open>
  The fiber waits for work, or is inside the loop over incoming bytes. The drain of a subscription
  ends when the application takes its last message, at its deadline, and whenever its waiter is
  completed otherwise: the client then forgets the subscription (\<open>on_complete\<close>).
\<close>

datatype activity = Waiting | Reading incoming_frame

inductive owner_step ::
  "conn_config \<Rightarrow> platform \<Rightarrow> 'r string_reader \<Rightarrow> ('y, 'w) transport \<Rightarrow> activity \<times> conn \<times> 'w \<Rightarrow>
     activity \<times> conn \<times> 'w \<Rightarrow> bool"
  for cfg pf sr and tp :: "('y, 'w) transport" where
  input: "\<not> cn_closed c \<Longrightarrow> cn_reading c \<or> items = [] \<Longrightarrow> drain_input (items :: 'y input list) c = (None, c') \<Longrightarrow>
    owner_step cfg pf sr tp (Waiting, c, w) (Reading (incoming_frame_of c), c', w)"
| failed_input: "\<not> cn_closed c \<Longrightarrow> cn_reading c \<Longrightarrow> drain_input items c = (Some error, c') \<Longrightarrow>
    owner_step cfg pf sr tp (Waiting, c, w) (Waiting, settle cfg tp sids (Some error, c', w))"
| turn: "incoming_turn cfg pf sr tp now frame c w = Some ((None, c', w'), True) \<Longrightarrow>
    owner_step cfg pf sr tp (Reading frame, c, w) (Reading frame, c', w')"
| last_turn: "incoming_turn cfg pf sr tp now frame c w = Some (r, False) \<Longrightarrow>
    owner_step cfg pf sr tp (Reading frame, c, w) (Waiting, settle cfg tp sids r)"
| command: "\<not> cn_closed c \<Longrightarrow>
    owner_step cfg pf sr tp (Waiting, c, w) (Waiting, settle cfg tp sids (apply_command cfg pf tp command c w))"
| timer: "\<not> cn_closed c \<Longrightarrow> owner_step cfg pf sr tp (Waiting, c, w) (Waiting, apply_timer pf tp now sids c w)"
| reconnect: "\<not> cn_closed c \<Longrightarrow> cn_retry_due c \<Longrightarrow>
    owner_step cfg pf sr tp (Waiting, c, w) (Waiting, reconnect_timer cfg tp c w)"
| handshake: "\<not> cn_closed c \<Longrightarrow> k_phase (cn_client c) \<in> {Awaiting_info, Awaiting_connect} \<Longrightarrow>
    owner_step cfg pf sr tp (Waiting, c, w) (Waiting, handshake_timer cfg c w)"
| drain_ended: "owner_step cfg pf sr tp (activity, c, w) (activity, forget sid c, w)"

definition conn_v :: "config \<Rightarrow> pool \<Rightarrow> endpoint option \<Rightarrow> bool \<Rightarrow> conn" where
  "conn_v config pool endpoint tls_active =
     \<lparr>cn_client = client_v config, cn_pool = pool, cn_endpoint = endpoint, cn_pending = [], cn_eof = False,
      cn_reading = True, cn_ready = False, cn_closed = False, cn_connect_sent = False, cn_tls = tls_active,
      cn_info_ready = False, cn_reconnecting = False, cn_attempts = 0, cn_retry_due = False, cn_buffer = [],
      cn_buffer_bytes = 0, cn_publish_state = None, cn_written = []\<rparr>"

inductive owner_reaches ::
  "conn_config \<Rightarrow> platform \<Rightarrow> 'r string_reader \<Rightarrow> ('y, 'w) transport \<Rightarrow> activity \<times> conn \<times> 'w \<Rightarrow>
     activity \<times> conn \<times> 'w \<Rightarrow> bool"
  for cfg pf sr tp where
  here: "owner_reaches cfg pf sr tp s s"
| there: "owner_reaches cfg pf sr tp s s' \<Longrightarrow> owner_step cfg pf sr tp s' s'' \<Longrightarrow> owner_reaches cfg pf sr tp s s''"

end
