(* ===== verification/ConnectionProps.thy ===== *)
theory ConnectionProps
  imports Connection ClientProps
begin

text \<open>
  What a connection writes before it has TLS. The client is \<open>open\<close> once CONNECT was sent; the
  invariant says that it is only open over TLS when the configuration asks for TLS, and that
  everything written in the clear is a PING or a PONG.
\<close>

section \<open>Steps of the client that do not connect\<close>

definition is_open :: "client \<Rightarrow> bool" where
  "is_open state \<longleftrightarrow> k_phase state = Connected \<or> k_phase state = Draining"

definition clear_lines :: "string set" where
  "clear_lines = {''PING'' @ crlf, ''PONG'' @ crlf}"

definition mild :: "client \<Rightarrow> transition \<Rightarrow> bool" where
  "mild state t \<longleftrightarrow>
     (is_open (t_state t) \<longrightarrow> is_open state) \<and> Connected_event \<notin> set (t_events t) \<and>
     (\<not> is_open state \<longrightarrow> set (t_output t) \<subseteq> clear_lines)"

lemma encode_ping_pong:
  "encode_with_state state Ping = Inr wire \<Longrightarrow> wire \<in> clear_lines"
  "encode_with_state state Pong = Inr wire \<Longrightarrow> wire \<in> clear_lines"
  by (auto simp: encode_with_state_def encode_client_def encode_def operation_output_def bind_result_def
      encode_output_def clear_lines_def line_output_def split: sum.splits if_splits option.splits)

lemma is_open_simps [simp]:
  "is_open (forget_subscription state sid) = is_open state" "is_open (touch pf state now) = is_open state"
  "is_open (prepare_reconnect b state) = False" "is_open (client_v config) = False"
  "is_open (state\<lparr>k_phase := Closed, k_next_ping := p\<rparr>) = False"
  by (simp_all add: is_open_def forget_subscription_def prepare_reconnect_def Let_def client_v_def)

lemma mild_empty [simp]: "mild state (empty_transition state)" "mild state (closed_transition state)"
  by (simp_all add: mild_def closed_transition_def is_open_def)

lemma mild_publish: "outgoing_publish state m = Inr t \<Longrightarrow> mild state t"
  by (auto simp: outgoing_publish_def Let_def mild_def is_open_def require_connected_def empty_transition_def
      split: option.splits sum.splits if_splits phase.splits)

lemma mild_subscribe: "outgoing_subscribe state f q = Inr t \<Longrightarrow> mild state t"
  by (auto simp: outgoing_subscribe_def Let_def mild_def is_open_def split: sum.splits phase.splits)

lemma mild_unsubscribe: "outgoing_unsubscribe state sid n = Inr t \<Longrightarrow> mild state t"
  by (auto simp: outgoing_unsubscribe_def Let_def mild_def is_open_def empty_transition_def
      split: sum.splits phase.splits option.splits if_splits prod.splits)

lemma mild_drain_subscription: "outgoing_drain_subscription state sid = Inr t \<Longrightarrow> mild state t"
  by (auto simp: outgoing_drain_subscription_def mild_def is_open_def empty_transition_def require_connected_def
      split: sum.splits phase.splits option.splits if_splits)

lemma mild_flush: "outgoing_flush state = Inr t \<Longrightarrow> mild state t"
  by (auto simp: outgoing_flush_def mild_def is_open_def empty_transition_def encode_ping_pong
      split: sum.splits if_splits)

lemma mild_drain: "outgoing_drain state = Inr t \<Longrightarrow> mild state t"
  by (auto simp: outgoing_drain_def mild_def is_open_def split: sum.splits phase.splits)

lemma mild_timer: "mild state (timer pf state now)"
  by (auto simp: timer_def Let_def mild_def is_open_def empty_transition_def closed_transition_def encode_ping_pong
      split: phase.splits option.splits sum.splits)

lemma mild_outgoing: "outgoing pf state c = Some (Inr t) \<Longrightarrow> (\<And>cr tls. c \<noteq> Do_connect cr tls) \<Longrightarrow> mild state t"
  by (cases c) (auto simp: outgoing_def mild_publish mild_subscribe mild_unsubscribe mild_drain_subscription
      mild_flush mild_drain split: if_splits)

lemma info_events_mild [simp]: "Connected_event \<notin> set (info_events info)"
  by (simp add: info_events_def)

lemma mild_handle: "handle_operation pf state now operation = Inr t \<Longrightarrow> mild state t"
proof (cases "k_phase state")
  assume "handle_operation pf state now operation = Inr t" "k_phase state = Awaiting_info"
  then show ?thesis
    by (cases operation)
       (auto simp: handle_operation_def handle_info_def handle_ping_def mild_def is_open_def
          encode_ping_pong empty_transition_def touch_def split: sum.splits)
next
  assume "handle_operation pf state now operation = Inr t" "k_phase state = Awaiting_connect"
  then show ?thesis
    by (cases operation)
       (auto simp: handle_operation_def handle_info_def handle_ping_def mild_def is_open_def
          encode_ping_pong empty_transition_def touch_def split: sum.splits)
next
  assume h: "handle_operation pf state now operation = Inr t"
  then have events: "Connected_event \<notin> set (t_events t)"
    by (cases operation; cases "k_phase state")
       (auto simp: handle_operation_def handle_open_def handle_info_def handle_ping_def handle_pong_def
          empty_transition_def incoming_message_def Let_def pong_state_def
          split: sum.splits option.splits prod.splits ping_origin.splits)
  { assume "k_phase state = Connected"
    with events show ?thesis by (simp add: mild_def is_open_def) }
  { assume "k_phase state = Draining"
    with events show ?thesis by (simp add: mild_def is_open_def) }
  assume "k_phase state = Closed"
  with h show ?thesis by (simp add: handle_operation_def)
qed

lemma mild_incoming: "incoming pf rd pb eod state now r = Some (Inr t, r') \<Longrightarrow> mild state t"
  by (auto simp: incoming_def mild_handle split: option.splits sum.splits codec_error.splits packet_error.splits prod.splits)


section \<open>The invariant\<close>

text \<open>While an attempt waits for its time, nothing can come in.\<close>

definition idle :: "conn \<Rightarrow> bool" where
  "idle c \<longleftrightarrow> \<not> cn_reading c \<and> cn_pending c = [] \<and> \<not> cn_eof c \<and> \<not> is_open (cn_client c)"

definition clear_ok :: "bool \<times> string \<Rightarrow> bool" where
  "clear_ok entry \<longleftrightarrow> fst entry \<or> snd entry \<in> clear_lines"

definition protected :: "conn \<Rightarrow> bool" where
  "protected c \<longleftrightarrow>
     (is_open (cn_client c) \<longrightarrow> cn_tls c) \<and> list_all clear_ok (cn_written c) \<and> (cn_retry_due c \<longrightarrow> idle c)"

text \<open>What no event, delivery or write changes.\<close>

definition steady :: "conn \<Rightarrow> conn \<Rightarrow> bool" where
  "steady c c' \<longleftrightarrow>
     cn_tls c' = cn_tls c \<and> (is_open (cn_client c') \<longrightarrow> is_open (cn_client c)) \<and> cn_retry_due c' = cn_retry_due c \<and>
     cn_pending c' = cn_pending c \<and> cn_eof c' = cn_eof c \<and> (cn_reading c' \<longrightarrow> cn_reading c)"

lemma steady_refl [simp]: "steady c c"
  by (simp add: steady_def)

lemma steady_trans: "steady c c' \<Longrightarrow> steady c' c'' \<Longrightarrow> steady c c''"
  by (auto simp: steady_def)

definition keeps :: "conn \<Rightarrow> ('y, 'w) result \<Rightarrow> bool" where
  "keeps c r \<longleftrightarrow> protected (fst (snd r)) \<and> steady c (fst (snd r))"

lemma keeps_here [simp]: "keeps c (e, c, w) \<longleftrightarrow> protected c"
  by (simp add: keeps_def)

lemma keeps_update: "protected c' \<Longrightarrow> steady c c' \<Longrightarrow> keeps c (e, c', w)"
  by (simp add: keeps_def)

lemma keeps_then:
  assumes "keeps c r" and "\<And>c' w'. protected c' \<Longrightarrow> steady c c' \<Longrightarrow> keeps c' (f c' w')"
  shows "keeps c (then_ok r f)"
proof -
  obtain e c' w' where r: "r = (e, c', w')" by (cases r) auto
  show ?thesis
  proof (cases e)
    case None
    with assms r have "keeps c' (f c' w')" by (auto simp: keeps_def)
    with assms(1) r None show ?thesis by (auto simp: then_ok_def keeps_def intro: steady_trans)
  next
    case (Some error)
    with assms(1) r show ?thesis by (simp add: then_ok_def)
  qed
qed

lemma keeps_write:
  assumes "protected c" "cn_tls c \<or> set outs \<subseteq> clear_lines"
  shows "keeps c (write_outputs tp outs c w)"
  using assms
proof (induction outs arbitrary: c w)
  case (Cons v outs)
  let ?c = "c\<lparr>cn_written := cn_written c @ [(cn_tls c, v)]\<rparr>"
  from Cons.prems have p: "protected ?c" "steady c ?c"
    by (auto simp: protected_def steady_def clear_ok_def idle_def)
  have ih: "keeps ?c (write_outputs tp outs ?c w')" for w'
    by (rule Cons.IH [OF p(1)]) (use Cons.prems(2) in auto)
  obtain r w' where t: "tp_write tp v w = (r, w')" by (cases "tp_write tp v w")
  have "keeps c (write_outputs tp outs ?c w')"
    using ih [of w'] p(2) by (auto simp: keeps_def intro: steady_trans)
  then show ?case
    using t p by (auto simp: Let_def keeps_def split: option.splits write_failure.splits)
qed simp

lemma write_outputs_client: "cn_client (fst (snd (write_outputs tp outs c w))) = cn_client c"
  by (induction tp outs c w rule: write_outputs.induct)
     (auto simp: Let_def split: option.splits prod.splits write_failure.splits)

lemma keeps_client:
  assumes "protected c" "is_open state \<Longrightarrow> is_open (cn_client c)"
  shows "protected (c\<lparr>cn_client := state\<rparr>)" "steady c (c\<lparr>cn_client := state\<rparr>)"
  using assms by (auto simp: protected_def steady_def idle_def)

lemma unsubscribe_keeps_phase: "outgoing_unsubscribe state sid n = Inr t \<Longrightarrow> k_phase (t_state t) = k_phase state"
  by (auto simp: outgoing_unsubscribe_def Let_def split: sum.splits phase.splits option.splits if_splits prod.splits)

lemma keeps_unsubscribe_sid:
  assumes "protected c"
  shows "keeps c (unsubscribe_sid tp sid c w)"
proof (cases "outgoing_unsubscribe (cn_client c) sid None")
  case (Inl error)
  with assms show ?thesis by (cases error) (simp_all add: unsubscribe_sid_def)
next
  case (Inr t)
  from mild_unsubscribe [OF Inr] assms have "cn_tls c \<or> set (t_output t) \<subseteq> clear_lines"
    by (auto simp: mild_def protected_def)
  then have k: "keeps c (write_outputs tp (t_output t) c w)" by (rule keeps_write [OF assms])
  obtain e c' w' where r: "write_outputs tp (t_output t) c w = (e, c', w')" by (cases "write_outputs tp (t_output t) c w") auto
  with write_outputs_client [of tp "t_output t" c w] have "cn_client c' = cn_client c" by simp
  with unsubscribe_keeps_phase [OF Inr] have "is_open (t_state t) = is_open (cn_client c')" by (simp add: is_open_def)
  with k r Inr show ?thesis
    using keeps_client [of c' "t_state t"]
    by (auto simp: unsubscribe_sid_def keeps_def split: option.splits intro: steady_trans)
qed

lemma keeps_forget: "protected c \<Longrightarrow> protected (forget sid c)" "protected c \<Longrightarrow> steady c (forget sid c)"
  unfolding forget_def by (rule keeps_client; simp)+

lemma keeps_unsubscribe_and_forget:
  assumes "protected c"
  shows "keeps c (unsubscribe_and_forget tp sid c w)"
proof -
  obtain e c' w' where r: "unsubscribe_sid tp sid c w = (e, c', w')" by (cases "unsubscribe_sid tp sid c w") auto
  with keeps_unsubscribe_sid [OF assms, of tp sid w] keeps_forget [of c' sid] show ?thesis
    by (auto simp: unsubscribe_and_forget_def keeps_def forget_def split: option.splits intro: steady_trans)
qed

lemma keeps_finish: "protected c \<Longrightarrow> protected (finish c)" "protected c \<Longrightarrow> steady c (finish c)"
  by (auto simp: finish_def protected_def steady_def idle_def)

lemma keeps_push_controls: "protected c \<Longrightarrow> keeps c (push_controls tp es c w)"
  by (induction tp es c w rule: push_controls.induct) (auto split: prod.splits bool.splits)

lemma keeps_flush_pending:
  assumes "protected c" "cn_tls c"
  shows "keeps c (flush_reconnect_pending tp c w)"
proof -
  let ?c = "c\<lparr>cn_buffer := [], cn_buffer_bytes := 0\<rparr>"
  have p: "protected ?c" "steady c ?c" "cn_tls ?c" using assms by (auto simp: protected_def steady_def idle_def)
  have "keeps ?c (write_outputs tp [concat (cn_buffer c)] ?c w)" using p by (intro keeps_write) simp_all
  with p assms show ?thesis by (auto simp: flush_reconnect_pending_def keeps_def intro: steady_trans)
qed

lemma keeps_ready: "protected c \<Longrightarrow> keeps c (e, c\<lparr>cn_ready := True\<rparr>, w)"
  by (intro keeps_update) (auto simp: protected_def steady_def idle_def)

lemma keeps_handle_event:
  assumes "protected c" "event = Connected_event \<Longrightarrow> cn_tls c"
  shows "keeps c (handle_event tp event c w)"
proof (cases event)
  case Connected_event
  with assms(2) have tls: "cn_tls c" by simp
  have settled: "keeps c' (None, c'\<lparr>cn_reconnecting := False, cn_publish_state := None\<rparr>, w')" if "protected c'" for c' w'
    using that by (intro keeps_update) (auto simp: protected_def steady_def idle_def)
  have "keeps c (then_ok (flush_reconnect_pending tp c w) (\<lambda>c w.
            then_ok (push_controls tp (map Core (reconnect_core_events c) @ [Reconnected]) c w) (\<lambda>c w.
              (None, c\<lparr>cn_reconnecting := False, cn_publish_state := None\<rparr>, w))))"
    using assms(1) tls by (intro keeps_then keeps_flush_pending keeps_push_controls settled) auto
  with assms(1) Connected_event show ?thesis by (simp add: handle_event_def keeps_ready)
next
  case (Info_event info)
  with assms(1) show ?thesis
    by (auto simp: handle_event_def intro!: keeps_update) (auto simp: protected_def steady_def idle_def)
next
  case Flush_completed
  with assms(1) keeps_finish [of c] keeps_forget [of c] show ?thesis
    by (auto simp: handle_event_def forget_def split: prod.splits barrier_outcome.splits intro!: keeps_update)
qed (use assms in \<open>simp_all add: handle_event_def\<close>)

lemma keeps_handle_events:
  assumes "protected c" "Connected_event \<in> set es \<Longrightarrow> cn_tls c"
  shows "keeps c (handle_events tp es c w)"
  using assms
proof (induction es arbitrary: c w)
  case (Cons event es)
  obtain r w' where t: "tp_event tp (Core event) w = (r, w')" by (cases "tp_event tp (Core event) w")
  have "keeps c (then_ok (handle_event tp event c w') (handle_events tp es))"
    using Cons.prems by (intro keeps_then keeps_handle_event Cons.IH) (auto simp: steady_def)
  with t Cons.prems show ?case by (simp split: option.splits)
qed simp

lemma keeps_handle_deliveries: "protected c \<Longrightarrow> keeps c (handle_deliveries tp ds c w)"
proof (induction ds arbitrary: c w)
  case (Cons d ds)
  obtain r w' where t: "tp_deliver tp d w = (r, w')" by (cases "tp_deliver tp d w")
  have "keeps c (then_ok (unsubscribe_and_forget tp (d_sid d) c w') (handle_deliveries tp ds))"
    using Cons.prems by (intro keeps_then keeps_unsubscribe_and_forget Cons.IH) auto
  with t Cons show ?case by (auto split: disposition.splits option.splits)
qed simp


lemma keeps_apply_transition:
  assumes "protected c" "mild (cn_client c) t"
  shows "keeps c (apply_transition tp t c w)"
proof -
  from assms have out: "cn_tls c \<or> set (t_output t) \<subseteq> clear_lines" by (auto simp: mild_def protected_def)
  obtain e c1 w1 where r: "write_outputs tp (t_output t) c w = (e, c1, w1)" by (cases "write_outputs tp (t_output t) c w") auto
  with keeps_write [OF assms(1) out, of tp w] have k1: "protected c1" "steady c c1" by (simp_all add: keeps_def)
  from r write_outputs_client [of tp "t_output t" c w] have "cn_client c1 = cn_client c" by simp
  with assms(2) have open': "is_open (t_state t) \<Longrightarrow> is_open (cn_client c1)" by (simp add: mild_def)
  let ?c2 = "c1\<lparr>cn_client := t_state t\<rparr>"
  let ?c3 = "if cn_tls ?c2 \<and> list_ex is_info (t_events t) then ?c2\<lparr>cn_info_ready := True\<rparr> else ?c2"
  from keeps_client [OF k1(1) open'] have "protected ?c2" "steady c1 ?c2" by auto
  then have k3: "protected ?c3" "steady c ?c3" using k1(2) by (auto simp: protected_def steady_def idle_def)
  have "keeps ?c3 (then_ok (handle_events tp (t_events t) ?c3 w1) (handle_deliveries tp (t_deliveries t)))"
    using k3(1) assms(2) by (intro keeps_then keeps_handle_events keeps_handle_deliveries) (auto simp: mild_def)
  then have "keeps c (then_ok (handle_events tp (t_events t) ?c3 w1) (handle_deliveries tp (t_deliveries t)))"
    using k3(2) by (auto simp: keeps_def intro: steady_trans)
  with r k1 show ?thesis
    by (cases e) (simp_all add: apply_transition_def then_ok_def keeps_def Let_def)
qed

section \<open>CONNECT\<close>

text \<open>What sending CONNECT leaves: protected, and the attempt is not waiting.\<close>

lemma connect_transition_protected:
  assumes "protected c" "cn_tls c" "\<not> cn_retry_due c" "outgoing_connect pf (cn_client c) cr tls = Some (Inr t)"
  shows "protected (fst (snd (apply_transition tp t c w)))"
proof -
  obtain e c1 w1 where r: "write_outputs tp (t_output t) c w = (e, c1, w1)" by (cases "write_outputs tp (t_output t) c w") auto
  with keeps_write [OF assms(1), of "t_output t" tp w] assms(2)
  have k1: "protected c1" "steady c c1" by (simp_all add: keeps_def)
  let ?c2 = "c1\<lparr>cn_client := t_state t\<rparr>"
  let ?c3 = "if cn_tls ?c2 \<and> list_ex is_info (t_events t) then ?c2\<lparr>cn_info_ready := True\<rparr> else ?c2"
  from k1 assms(2,3) have k3: "protected ?c3" "cn_tls ?c3" by (auto simp: protected_def steady_def)
  have "keeps ?c3 (then_ok (handle_events tp (t_events t) ?c3 w1) (handle_deliveries tp (t_deliveries t)))"
    using k3 by (intro keeps_then keeps_handle_events keeps_handle_deliveries) auto
  with r k1 show ?thesis
    by (cases e) (simp_all add: apply_transition_def then_ok_def keeps_def Let_def)
qed

lemma send_connect_protected:
  assumes "protected c" "cn_tls c" "\<not> cn_retry_due c"
  shows "protected (fst (snd (send_connect cfg pf tp c w)))"
proof -
  let ?c = "c\<lparr>cn_connect_sent := True\<rparr>"
  have p: "protected ?c" "cn_tls ?c" "\<not> cn_retry_due ?c" using assms by (auto simp: protected_def)
  have "protected (fst (snd (apply_transition tp t ?c w)))"
    if "outgoing_connect pf (cn_client c) cr tls = Some (Inr t)" for t cr tls
    using connect_transition_protected [OF p, of pf cr tls t tp w] that by simp
  with assms show ?thesis
    by (auto simp: send_connect_def outgoing_def split: option.splits sum.splits)
qed

lemma drain_input_frame:
  "drain_input items c = (e, c') \<Longrightarrow>
     c' = c\<lparr>cn_pending := cn_pending c', cn_eof := cn_eof c'\<rparr>"
proof (induction items c arbitrary: c' rule: drain_input.induct)
  case (2 bytes items c)
  then have "c' = (c\<lparr>cn_pending := cn_pending c @ bytes\<rparr>)\<lparr>cn_pending := cn_pending c', cn_eof := cn_eof c'\<rparr>"
    by simp
  then show ?case by simp
next
  case (3 items c)
  then have "c' = (c\<lparr>cn_eof := True\<rparr>)\<lparr>cn_pending := cn_pending c', cn_eof := cn_eof c'\<rparr>" by simp
  then show ?case by simp
qed simp_all

lemma drain_input_protected:
  assumes "drain_input items c = (e, c')" "protected c" "\<not> cn_retry_due c"
  shows "protected c' \<and> \<not> cn_retry_due c' \<and> cn_tls c' = cn_tls c"
proof -
  note frame = drain_input_frame [OF assms(1)]
  from arg_cong [OF frame, of cn_client] arg_cong [OF frame, of cn_tls] arg_cong [OF frame, of cn_written]
    arg_cong [OF frame, of cn_retry_due] have
    "cn_client c' = cn_client c" "cn_tls c' = cn_tls c" "cn_written c' = cn_written c" "cn_retry_due c' = cn_retry_due c"
    by simp_all
  with assms(2,3) show ?thesis by (simp add: protected_def)
qed

lemma upgrade_tls_protected:
  assumes "protected c" "\<not> cn_retry_due c" "upgrade_tls cfg tp c w = (e, c', w')"
  shows "protected c' \<and> \<not> cn_retry_due c' \<and> (e = None \<longrightarrow> cn_tls c')"
proof -
  let ?c = "c\<lparr>cn_reading := False\<rparr>"
  have p: "protected ?c" "\<not> cn_retry_due ?c" using assms(1,2) by (auto simp: protected_def)
  obtain items w1 where i: "tp_stopped_input tp w = (items, w1)" by (cases "tp_stopped_input tp w")
  obtain e1 c1 where d: "drain_input items ?c = (e1, c1)" by (cases "drain_input items ?c")
  from drain_input_protected [OF d p] have p1: "protected c1" "\<not> cn_retry_due c1" by auto
  have "protected (c1\<lparr>cn_tls := True, cn_info_ready := True, cn_reading := True\<rparr>)"
    using p1 by (auto simp: protected_def)
  with assms p1 i d show ?thesis
    by (auto simp: upgrade_tls_def Let_def split: if_splits option.splits sum.splits prod.splits)
qed

lemma connect_after_info_protected:
  assumes "cc_tls_required cfg" "protected c" "\<not> cn_retry_due c"
  shows "protected (fst (snd (connect_after_info cfg pf tp c w)))"
proof (cases "cn_tls c")
  case True
  with assms show ?thesis by (simp add: connect_after_info_def send_connect_protected)
next
  case False
  obtain e c' w' where u: "upgrade_tls cfg tp c w = (e, c', w')" by (cases "upgrade_tls cfg tp c w") auto
  note p = upgrade_tls_protected [OF assms(2,3) u]
  with send_connect_protected [of c' cfg pf tp w'] have
    "protected (fst (snd (then_ok (upgrade_tls cfg tp c w) (send_connect cfg pf tp))))"
    using u by (cases e) (auto simp: then_ok_def)
  with assms False show ?thesis by (simp add: connect_after_info_def)
qed


section \<open>One turn of the reading loop\<close>

lemma consume_protected: "protected c \<Longrightarrow> \<not> cn_retry_due c \<Longrightarrow> protected (consume_pending n c) \<and> \<not> cn_retry_due (consume_pending n c)"
  by (simp add: consume_pending_def protected_def)

lemma lost_protected: "lost_while_reading frame c w = (e, c', w') \<Longrightarrow> protected c \<Longrightarrow> protected c'"
  using keeps_finish [of c] by (auto simp: lost_while_reading_def split: if_splits) (auto simp: protected_def idle_def)

lemma incoming_turn_protected:
  assumes "cc_tls_required cfg" "protected c" "incoming_turn cfg pf sr tp now frame c w = Some ((e, c', w'), again)"
  shows "protected c'"
proof (cases "cn_pending c = [] \<and> \<not> cn_eof c")
  case True
  with assms show ?thesis by (simp add: incoming_turn_def)
next
  case False
  then have due: "\<not> cn_retry_due c" using assms(2) by (auto simp: protected_def idle_def)
  obtain outcome reader where
    i: "incoming pf (sr_read sr) (sr_push_back sr) (cn_eof c) (cn_client c) now (sr_of_string sr (cn_pending c)) = Some (outcome, reader)"
    using assms(3) False by (auto simp: incoming_turn_def Let_def split: option.splits)
  show ?thesis
  proof (cases outcome)
    case (Inl error)
    with assms(2,3) False i show ?thesis by (auto simp: incoming_turn_def Let_def)
  next
    case (Inr t)
    obtain e1 c1 w1 where a: "apply_transition tp t c w = (e1, c1, w1)" by (cases "apply_transition tp t c w") auto
    from keeps_apply_transition [OF assms(2) mild_incoming [OF i [unfolded Inr]], of tp w] a
    have p1: "protected c1" "\<not> cn_retry_due c1" using due by (auto simp: keeps_def steady_def)
    let ?c2 = "consume_pending (sr_pos sr reader) c1"
    from consume_protected [OF p1] have p2: "protected ?c2" "\<not> cn_retry_due ?c2" by auto
    note conn = connect_after_info_protected [OF assms(1) p2, of pf tp w1]
    obtain e3 c3 w3 where x: "connect_after_info cfg pf tp ?c2 w1 = (e3, c3, w3)" by (cases "connect_after_info cfg pf tp ?c2 w1") auto
    with conn have p3: "protected c3" by simp
    show ?thesis
      using assms(2,3) False i Inr a p1 p2 p3 x
      by (cases e1; cases e3) (auto simp: incoming_turn_def Let_def split: if_splits dest: lost_protected)
  qed
qed

section \<open>Reconnecting\<close>

lemma reset_protected: "protected c \<Longrightarrow> protected (reset_reconnect_attempt b c) \<and> idle (reset_reconnect_attempt b c)"
  by (simp add: reset_reconnect_attempt_def protected_def idle_def)

lemma schedule_protected: "protected c \<Longrightarrow> idle c \<Longrightarrow> protected (fst (snd (schedule_reconnect cfg error c w)))"
  by (simp add: schedule_reconnect_def protected_def idle_def)

lemma start_attempt_protected:
  assumes "protected c" "idle c"
  shows "protected (fst (snd (start_reconnect_attempt cfg tp (c\<lparr>cn_retry_due := False\<rparr>) w)))"
proof -
  let ?c = "c\<lparr>cn_retry_due := False, cn_attempts := wrap63 (cn_attempts c + 1)\<rparr>"
  have p: "protected ?c" "idle ?c" using assms by (auto simp: protected_def idle_def)
  obtain r w1 where d: "tp_dial tp w = (r, w1)" by (cases "tp_dial tp w")
  have "protected (?c\<lparr>cn_pool := pool, cn_endpoint := Some endpoint, cn_tls := b, cn_info_ready := False, cn_reading := True\<rparr>)"
    for pool endpoint b
    using p by (simp add: protected_def idle_def)
  with p d schedule_protected [OF p] show ?thesis
    by (cases r) (simp_all add: start_reconnect_attempt_def Let_def)
qed

lemma push_controls_conn: "fst (snd (push_controls tp es c w)) = c"
  by (induction tp es c w rule: push_controls.induct) (auto split: prod.splits bool.splits)

lemma fold_forget_open: "is_open (fold (\<lambda>sid state. forget_subscription state sid) sids state) = is_open state"
  by (induction sids arbitrary: state) simp_all

lemma recover_protected:
  assumes "protected c"
  shows "protected (fst (snd (recover_transport cfg tp sids error c w)))"
proof -
  let ?c1 = "c\<lparr>cn_client := fold (\<lambda>sid state. forget_subscription state sid) sids (cn_client c)\<rparr>"
  have "protected ?c1" using assms by (auto simp: protected_def idle_def fold_forget_open)
  then have "protected (preserve_reconnect_publish_state ?c1)"
    by (auto simp: preserve_reconnect_publish_state_def protected_def idle_def)
  from reset_protected [OF this, of False] have
    p: "protected (reset_reconnect_attempt False (preserve_reconnect_publish_state ?c1))"
      "idle (reset_reconnect_attempt False (preserve_reconnect_publish_state ?c1))" by auto
  let ?c2 = "(reset_reconnect_attempt False (preserve_reconnect_publish_state ?c1))\<lparr>cn_attempts := 0, cn_retry_due := False\<rparr>"
  let ?c3 = "?c2\<lparr>cn_reconnecting := True\<rparr>"
  have p2: "protected ?c2" and p3: "protected ?c3" "idle ?c3" using p by (auto simp: protected_def idle_def)
  have "?c3 = ?c3\<lparr>cn_retry_due := False\<rparr>" by simp
  with start_attempt_protected [OF p3] have s: "protected (fst (snd (start_reconnect_attempt cfg tp ?c3 w')))" for w' by metis
  obtain e c4 w4 where x: "push_controls tp [Lost_connection] ?c2 w = (e, c4, w4)" by (cases "push_controls tp [Lost_connection] ?c2 w") auto
  with push_controls_conn [of tp "[Lost_connection]" ?c2 w] have c4: "c4 = ?c2" by simp
  then have s4: "protected (fst (snd (start_reconnect_attempt cfg tp (c4\<lparr>cn_reconnecting := True\<rparr>) w4)))" using s by simp
  show ?thesis
    using p2 s4 x c4 by (cases e) (simp_all add: recover_transport_def Let_def then_ok_def)
qed

lemma retry_protected: "protected c \<Longrightarrow> protected (fst (snd (retry_reconnect cfg error c w)))"
  unfolding retry_reconnect_def using reset_protected [of c True] by (intro schedule_protected) auto

lemma settle_protected:
  assumes "protected (fst (snd r))"
  shows "protected (fst (settle cfg tp sids r))"
proof -
  obtain e c w where r: "r = (e, c, w)" by (cases r) auto
  show ?thesis
  proof (cases e)
    case None
    with assms r show ?thesis by (simp add: settle_def)
  next
    case (Some error)
    obtain e1 c1 w1 where h: "handle_transport_error cfg tp sids error c w = (e1, c1, w1)"
      by (cases "handle_transport_error cfg tp sids error c w") auto
    have "protected (fst (snd (handle_transport_error cfg tp sids error c w)))"
      using assms r by (simp add: handle_transport_error_def retry_protected recover_protected)
    with h have "protected c1" by simp
    with r Some h keeps_finish [of c1] show ?thesis by (cases e1) (simp_all add: settle_def)
  qed
qed

section \<open>Commands and timers\<close>

lemma keeps_issue: "protected c \<Longrightarrow> (\<And>cr tls. cmd \<noteq> Do_connect cr tls) \<Longrightarrow> keeps c (issue pf tp cmd c w)"
  by (auto simp: issue_def mild_outgoing intro!: keeps_apply_transition split: option.splits sum.splits)

lemma keeps_after:
  assumes "keeps c r" "\<And>c' w'. protected c' \<Longrightarrow> protected (g c') \<and> steady c' (g c')"
  shows "keeps c (case r of (Some error, c, w) \<Rightarrow> (Some error, g c, w) | (None, c, w) \<Rightarrow> (None, c, w))"
  using assms by (cases r; cases "fst r") (auto simp: keeps_def intro: steady_trans)

lemma keeps_drain_subscription:
  assumes "protected c"
  shows "keeps c (drain_subscription tp resumed sid c w)"
proof (cases "outgoing_drain_subscription (cn_client c) sid")
  case (Inl error)
  with assms keeps_forget [of c sid] show ?thesis by (simp add: drain_subscription_def keeps_update)
next
  case (Inr t)
  let ?t = "if resumed then t\<lparr>t_output := []\<rparr> else t"
  from mild_drain_subscription [OF Inr] have "mild (cn_client c) ?t" by (simp add: mild_def)
  from keeps_after [OF keeps_apply_transition [OF assms this, of tp w], of "forget sid"] keeps_forget [of _ sid] Inr
  show ?thesis by (simp add: drain_subscription_def split: prod.splits option.splits)
qed

lemma keeps_enqueue:
  assumes "enqueue_reconnect_publish_output cfg message c = (e, c')" "protected c"
  shows "protected c' \<and> steady c c'"
proof -
  have "protected (fold enqueue_reconnect_output outs c) \<and> steady c (fold enqueue_reconnect_output outs c)"
    if "protected c" for outs c
    using that
  proof (induction outs arbitrary: c)
    case (Cons v outs)
    have "protected (enqueue_reconnect_output v c)" "steady c (enqueue_reconnect_output v c)"
      using Cons.prems by (auto simp: enqueue_reconnect_output_def protected_def steady_def idle_def)
    with Cons.IH show ?case by (auto intro: steady_trans)
  qed simp
  with assms show ?thesis
    by (auto simp: enqueue_reconnect_publish_output_def split: option.splits sum.splits if_splits)
qed

lemma enqueue_protected: "protected c \<Longrightarrow> protected (snd (enqueue_reconnect_publish_output cfg message c))"
  using keeps_enqueue [of cfg message c] by (metis prod.collapse)

lemma keeps_request_publish:
  assumes "protected c"
  shows "keeps c (request_publish cfg tp sid message c w)"
proof (cases "cn_reconnecting c")
  case True
  obtain e c' where q: "(enqueue_reconnect_publish_output cfg message c :: 'a conn_error option \<times> conn) = (e, c')"
    by (cases "enqueue_reconnect_publish_output cfg message c :: 'a conn_error option \<times> conn")
  from keeps_enqueue [OF q assms] keeps_forget [of c' sid] True q show ?thesis
    by (cases e) (auto simp: request_publish_def keeps_def intro: steady_trans)
next
  case False
  show ?thesis
  proof (cases "outgoing_publish (cn_client c) message")
    case (Inl error)
    with False assms show ?thesis by (simp add: request_publish_def keeps_unsubscribe_and_forget)
  next
    case (Inr t)
    from keeps_after [OF keeps_apply_transition [OF assms mild_publish [OF Inr]], of "forget sid" tp w] keeps_forget [of _ sid]
    have k: "keeps c (case apply_transition tp t c w of (Some error, c, w) \<Rightarrow> (Some error, forget sid c, w) | (None, c, w) \<Rightarrow> (None, c, w))"
      by simp
    have "request_publish cfg tp sid message c w =
      (case apply_transition tp t c w of (Some error, c, w) \<Rightarrow> (Some error, forget sid c, w) | (None, c, w) \<Rightarrow> (None, c, w))"
      using False Inr by (auto simp: request_publish_def split: prod.splits option.splits)
    with k show ?thesis by simp
  qed
qed

lemma keeps_request_command:
  assumes "protected c"
  shows "keeps c (request_command cfg tp inbox message c w)"
proof (cases "outgoing_subscribe (cn_client c) inbox None")
  case (Inr t)
  show ?thesis
  proof (cases "t_subscription_id t")
    case None
    with Inr assms show ?thesis by (simp add: request_command_def)
  next
    case (Some sid)
    have auto: "keeps c1 (case apply_transition tp a c1 w1 of (Some _, c, w) \<Rightarrow> unsubscribe_and_forget tp sid c w
        | (None, c, w) \<Rightarrow> request_publish cfg tp sid (message\<lparr>m_reply_to := Some inbox\<rparr>) c w)"
      if p: "protected c1" and a: "outgoing_unsubscribe (cn_client c1) sid (Some 1) = Inr a" for c1 w1 a
    proof -
      obtain e2 c2 w2 where x: "apply_transition tp a c1 w1 = (e2, c2, w2)" by (cases "apply_transition tp a c1 w1") auto
      with keeps_apply_transition [OF p mild_unsubscribe [OF a], of tp w1] have k: "protected c2" "steady c1 c2"
        by (simp_all add: keeps_def)
      with keeps_unsubscribe_and_forget [OF k(1), of tp sid w2]
        keeps_request_publish [OF k(1), of cfg tp sid "message\<lparr>m_reply_to := Some inbox\<rparr>" w2] x
      show ?thesis by (cases e2) (auto simp: keeps_def intro: steady_trans)
    qed
    have "keeps c (then_ok (apply_transition tp t c w) (\<lambda>c w.
                 case outgoing_unsubscribe (cn_client c) sid (Some 1) of
                   Inl _ \<Rightarrow> unsubscribe_and_forget tp sid c w
                 | Inr auto \<Rightarrow>
                     (case apply_transition tp auto c w of
                        (Some _, c, w) \<Rightarrow> unsubscribe_and_forget tp sid c w
                      | (None, c, w) \<Rightarrow>
                          request_publish cfg tp sid (message\<lparr>m_reply_to := Some inbox\<rparr>) c w)))"
    proof (rule keeps_then [OF keeps_apply_transition [OF assms mild_subscribe [OF Inr]]])
      fix c1 w1
      assume p: "protected c1"
      show "keeps c1 (case outgoing_unsubscribe (cn_client c1) sid (Some 1) of
                   Inl _ \<Rightarrow> unsubscribe_and_forget tp sid c1 w1
                 | Inr auto \<Rightarrow>
                     (case apply_transition tp auto c1 w1 of
                        (Some _, c, w) \<Rightarrow> unsubscribe_and_forget tp sid c w
                      | (None, c, w) \<Rightarrow>
                          request_publish cfg tp sid (message\<lparr>m_reply_to := Some inbox\<rparr>) c w))"
        using p auto [OF p] by (cases "outgoing_unsubscribe (cn_client c1) sid (Some 1)")
          (simp_all add: keeps_unsubscribe_and_forget)
    qed
    with Inr Some show ?thesis by (simp add: request_command_def)
  qed
qed (use assms in \<open>simp add: request_command_def\<close>)


lemma keeps_status: "protected c \<Longrightarrow> keeps c (if b then None else Some error, c, w)"
  by simp

lemma keeps_finished: "protected c \<Longrightarrow> keeps c (e, finish c, w)"
  using keeps_finish [of c] by (intro keeps_update) auto

lemma keeps_apply_outgoing:
  assumes "protected c"
  shows "keeps c (apply_outgoing cfg pf tp command c w)"
proof (cases command)
  case (Flush b)
  have "keeps c (then_ok (apply_transition tp t c w) (\<lambda>c w. (if b then None else Some Timeout, c, w)))"
    if "outgoing pf (cn_client c) Do_flush = Some (Inr t)" for t
    using that by (intro keeps_then keeps_apply_transition assms mild_outgoing [of pf _ Do_flush]) simp_all
  with assms Flush show ?thesis by (cases b) (simp_all add: apply_outgoing_def split: option.splits sum.splits)
next
  case (Drain_connection b)
  have "keeps c (then_ok (apply_transition tp t c w) (\<lambda>c w. (if b then None else Some Timeout, c, w)))"
    if "outgoing pf (cn_client c) Do_drain = Some (Inr t)" for t
    using that by (intro keeps_then keeps_apply_transition assms mild_outgoing [of pf _ Do_drain]) simp_all
  with assms Drain_connection show ?thesis by (cases b) (simp_all add: apply_outgoing_def split: option.splits sum.splits)
next
  case Close_connection
  have "keeps c (then_ok (apply_transition tp t c w) (\<lambda>c w. (None, finish c, w)))"
    if "outgoing pf (cn_client c) Do_close = Some (Inr t)" for t
    using that by (intro keeps_then keeps_apply_transition assms mild_outgoing [of pf _ Do_close] keeps_finished) simp_all
  with assms Close_connection show ?thesis
    by (simp add: apply_outgoing_def keeps_finished split: option.splits sum.splits)
qed (use assms keeps_forget [of c] in \<open>simp_all add: apply_outgoing_def keeps_issue keeps_request_command
  keeps_unsubscribe_and_forget keeps_drain_subscription keeps_update\<close>)

lemma keeps_reconnect_flush:
  assumes "protected c"
  shows "protected (fst (snd (apply_reconnect_flush b c w)))"
proof -
  have buffered: "protected (fold enqueue_reconnect_output outs c)" "cn_client (fold enqueue_reconnect_output outs c) = cn_client c"
    if "protected c" for outs c
    using that
  proof (induction outs arbitrary: c)
    case (Cons v outs)
    { case 1
      then have "protected (enqueue_reconnect_output v c)"
        by (auto simp: enqueue_reconnect_output_def protected_def idle_def)
      with Cons.IH show ?case by simp }
    { case 2
      then have "protected (enqueue_reconnect_output v c)"
        by (auto simp: enqueue_reconnect_output_def protected_def idle_def)
      with Cons.IH(2) show ?case by (simp add: enqueue_reconnect_output_def) }
  qed simp_all
  show ?thesis
  proof (cases "outgoing_flush (cn_client c)")
    case (Inr t)
    then have "is_open (t_state t) \<Longrightarrow> is_open (cn_client c)" using mild_flush [OF Inr] by (simp add: mild_def)
    with buffered [OF assms, of "t_output t"] keeps_client(1) [of "fold enqueue_reconnect_output (t_output t) c" "t_state t"] Inr
    show ?thesis by (simp add: apply_reconnect_flush_def)
  qed (use assms in \<open>simp add: apply_reconnect_flush_def\<close>)
qed

lemma apply_command_protected:
  assumes "protected c"
  shows "protected (fst (snd (apply_command cfg pf tp command c w)))"
proof (cases "cn_reconnecting c")
  case False
  with keeps_apply_outgoing [OF assms, of cfg pf tp command w] show ?thesis by (simp add: apply_command_def keeps_def)
next
  case True
  have out: "protected (fst (snd (apply_outgoing cfg pf tp command c w)))"
    using keeps_apply_outgoing [OF assms, of cfg pf tp command w] by (simp add: keeps_def)
  show ?thesis
  proof (cases command)
    case (Publish message)
    with True assms show ?thesis by (simp add: apply_command_def enqueue_protected)
  next
    case (Flush b)
    with True assms show ?thesis by (simp add: apply_command_def keeps_reconnect_flush)
  qed (use True assms out keeps_finish [of c] in \<open>simp_all add: apply_command_def\<close>)
qed

lemma keeps_expire_requests: "protected c \<Longrightarrow> keeps c (expire_requests tp sids c w)"
proof (induction sids arbitrary: c w)
  case (Cons sid sids)
  have f: "protected (forget sid c)" "steady c (forget sid c)" using keeps_forget [OF Cons.prems] by auto
  with Cons.IH [OF f(1), of w] have "keeps c (expire_requests tp sids (forget sid c) w)"
    by (auto simp: keeps_def intro: steady_trans)
  moreover have "keeps c (then_ok (unsubscribe_and_forget tp sid c w) (expire_requests tp sids))"
    using Cons by (intro keeps_then keeps_unsubscribe_and_forget) auto
  ultimately show ?case by simp
qed simp

lemma apply_timer_protected:
  assumes "protected c"
  shows "protected (fst (apply_timer pf tp now sids c w))"
proof -
  let ?r = "then_ok (expire_requests tp sids c w) (\<lambda>c w. apply_transition tp (timer pf (cn_client c) now) c w)"
  obtain e c' w' where r: "?r = (e, c', w')" by (cases ?r) auto
  have "keeps c ?r" using assms by (intro keeps_then keeps_expire_requests keeps_apply_transition mild_timer)
  with r have "protected c'" by (simp add: keeps_def)
  with r keeps_finish [of c'] show ?thesis by (cases e) (simp_all add: apply_timer_def)
qed

lemma reconnect_timer_protected:
  assumes "protected c" "cn_retry_due c"
  shows "protected (fst (reconnect_timer cfg tp c w))"
proof -
  from assms have i: "idle c" by (simp add: protected_def)
  obtain e c' w' where r: "start_reconnect_attempt cfg tp (c\<lparr>cn_retry_due := False\<rparr>) w = (e, c', w')"
    by (cases "start_reconnect_attempt cfg tp (c\<lparr>cn_retry_due := False\<rparr>) w") auto
  with start_attempt_protected [OF assms(1) i, of cfg tp w] have "protected c'" by simp
  with r keeps_finish [of c'] show ?thesis by (cases e) (simp_all add: reconnect_timer_def)
qed

lemma handshake_timer_protected:
  assumes "protected c"
  shows "protected (fst (handshake_timer cfg c w))"
proof -
  obtain e c' w' where r: "retry_reconnect cfg (Timeout :: unit conn_error) c w = (e, c', w')"
    by (cases "retry_reconnect cfg (Timeout :: unit conn_error) c w") auto
  with retry_protected [OF assms, of cfg "Timeout :: unit conn_error" w] have "protected c'" by simp
  with r assms keeps_finish [of c'] keeps_finish [of c] show ?thesis by (cases e) (simp_all add: handshake_timer_def)
qed

section \<open>Every reachable state\<close>

lemma input_protected:
  assumes "protected c" "cn_reading c \<or> items = []" "drain_input items c = (e, c')"
  shows "protected c'"
proof (cases "items = []")
  case True
  with assms show ?thesis by simp
next
  case False
  with assms have "\<not> cn_retry_due c" by (auto simp: protected_def idle_def)
  with drain_input_protected [OF assms(3,1)] show ?thesis by simp
qed

lemma owner_step_protected:
  assumes "owner_step cfg pf sr tp s s'" "cc_tls_required cfg" "protected (fst (snd s))"
  shows "protected (fst (snd s'))"
  using assms
proof (induction rule: owner_step.induct)
  case (last_turn now frame c w r sids)
  obtain e c' w' where r: "r = (e, c', w')" by (cases r) auto
  with last_turn incoming_turn_protected [of cfg c pf sr tp now frame w e c' w' False] show ?case
    by (simp add: settle_protected)
next
  case (input c items c' w)
  from input_protected [OF _ input(2,3)] input show ?case by simp
next
  case (failed_input c items error c' sids w)
  then have "protected c'" using input_protected [of c items "Some error" c'] by simp
  then show ?case by (simp add: settle_protected)
next
  case (turn now frame c w c' w')
  with incoming_turn_protected [of cfg c pf sr tp now frame w None c' w' True] show ?case by simp
qed (simp_all add: settle_protected apply_command_protected
  apply_timer_protected reconnect_timer_protected handshake_timer_protected keeps_forget(1))

lemma owner_reaches_protected:
  assumes "owner_reaches cfg pf sr tp s s'" "cc_tls_required cfg" "protected (fst (snd s))"
  shows "protected (fst (snd s'))"
  using assms by (induction rule: owner_reaches.induct) (auto dest: owner_step_protected)

lemma initial_protected: "protected (conn_v config pool endpoint tls)"
  by (simp add: conn_v_def protected_def)

text \<open>
  C11: A connection configured to require TLS says nothing in the clear. Whatever the server sends,
  the application asks for and the network does, through any number of reconnects to any endpoints,
  everything written to a flow that is not TLS is a PING or a PONG: no credentials, no
  subscription and no message.
\<close>
theorem nothing_in_the_clear:
  assumes "cc_tls_required cfg"
    and "owner_reaches cfg pf sr tp (Waiting, conn_v config pool endpoint tls, w) (activity, c, w')"
    and "(False, line) \<in> set (cn_written c)"
  shows "line = ''PING'' @ crlf \<or> line = ''PONG'' @ crlf"
proof -
  from owner_reaches_protected [OF assms(2,1)] initial_protected have "protected c" by simp
  with assms(3) have "clear_ok (False, line)" by (auto simp: protected_def list_all_iff)
  then show ?thesis by (simp add: clear_ok_def clear_lines_def)
qed


text \<open>A flow that takes everything, and a flush asked for before the server said anything.\<close>

definition quiet_transport :: "(unit, unit) transport" where
  "quiet_transport = \<lparr>tp_write = (\<lambda>_ w. (None, w)), tp_tls_handshake = (\<lambda>w. (Inr (), w)), tp_stopped_input = (\<lambda>w. ([], w)),
     tp_event = (\<lambda>_ w. (None, w)), tp_control = (\<lambda>_ w. (True, w)), tp_barrier = (\<lambda>w. (Barrier_passed, w)),
     tp_deliver = (\<lambda>_ w. (Kept, w)), tp_dial = (\<lambda>w. (Inl Disconnected, w))\<rparr>"

definition whole_reader :: "string string_reader" where
  "whole_reader = \<lparr>sr_read = (\<lambda>s. (s, [])), sr_push_back = (\<lambda>s t. t @ s), sr_of_string = (\<lambda>s. s), sr_pos = length\<rparr>"

definition tls_only :: conn_config where
  "tls_only = \<lparr>cc_auth = Token ''secret'', cc_tls = True, cc_tls_required = True, cc_max_attempts = None, cc_buffer_size = 64\<rparr>"

definition flushed_conn :: conn where
  "flushed_conn = (conn_v sample_config (pool_v []) None False)
     \<lparr>cn_client := (client_v sample_config)\<lparr>k_pings := enqueue_ping empty_ping_queue Flush_ping\<rparr>,
      cn_written := [(False, ''PING'' @ crlf)]\<rparr>"

lemma flushed_early:
  "settle tls_only quiet_transport [] (apply_command tls_only sample_platform quiet_transport (Flush True)
     (conn_v sample_config (pool_v []) None False) ()) = (flushed_conn, ())"
proof -
  have "encode_with_state (client_v sample_config) Ping = Inr (''PING'' @ crlf)" by code_simp
  then show ?thesis
    by (simp add: apply_command_def conn_v_def apply_outgoing_def outgoing_def outgoing_flush_def client_v_def
        apply_transition_def empty_transition_def then_ok_def quiet_transport_def settle_def flushed_conn_def Let_def)
qed

theorem nothing_in_the_clear_witness:
  "owner_reaches tls_only sample_platform whole_reader quiet_transport
     (Waiting, conn_v sample_config (pool_v []) None False, ()) (Waiting, flushed_conn, ()) \<and>
   (False, ''PING'' @ crlf) \<in> set (cn_written flushed_conn) \<and>
   (''PING'' @ crlf = ''PING'' @ crlf \<or> ''PING'' @ crlf = ''PONG'' @ crlf)"
proof -
  let ?c = "conn_v sample_config (pool_v []) None False"
  have "owner_step tls_only sample_platform whole_reader quiet_transport (Waiting, ?c, ())
    (Waiting, settle tls_only quiet_transport [] (apply_command tls_only sample_platform quiet_transport (Flush True) ?c ()))"
    by (rule owner_step.command) (simp add: conn_v_def)
  then have r: "owner_reaches tls_only sample_platform whole_reader quiet_transport (Waiting, ?c, ()) (Waiting, flushed_conn, ())"
    unfolding flushed_early by (rule owner_reaches.there [OF owner_reaches.here])
  have w: "(False, ''PING'' @ crlf) \<in> set (cn_written flushed_conn)" by (simp add: flushed_conn_def)
  have "cc_tls_required tls_only" by (simp add: tls_only_def)
  from nothing_in_the_clear [OF this r w] r w show ?thesis by blast
qed

end
