(* ===== verification/Timestamp.thy ===== *)
theory Timestamp
  imports Prelude "HOL-Library.Signed_Division"
begin

text \<open>
  The time stamps of stored messages, as lib/eio/key_value.ml and lib/eio/object_store.ml print
  them: nanoseconds since 1970 become a date and a time of day by integer arithmetic on 64 bits.
  The reference is the calendar itself: the day after a date, starting from 1970-01-01.
\<close>

section \<open>Arithmetic of \<open>Int64\<close>\<close>

definition wrap64 :: "int \<Rightarrow> int" where
  "wrap64 i = (i + 2 ^ 63) mod 2 ^ 64 - 2 ^ 63"

definition add64 :: "int \<Rightarrow> int \<Rightarrow> int" where "add64 a b = wrap64 (a + b)"
definition sub64 :: "int \<Rightarrow> int \<Rightarrow> int" where "sub64 a b = wrap64 (a - b)"
definition mul64 :: "int \<Rightarrow> int \<Rightarrow> int" where "mul64 a b = wrap64 (a * b)"
definition div64 :: "int \<Rightarrow> int \<Rightarrow> int" where "div64 a b = wrap64 (a sdiv b)"
definition rem64 :: "int \<Rightarrow> int \<Rightarrow> int" where "rem64 a b = wrap64 (a smod b)"

lemma wrap64_id: "- (2 ^ 63) \<le> i \<Longrightarrow> i < 2 ^ 63 \<Longrightarrow> wrap64 i = i"
  by (simp add: wrap64_def)

lemma div64_nonneg:
  assumes "0 \<le> a" "a < 2 ^ 63" "0 < b"
  shows "div64 a b = a div b" and "rem64 a b = a mod b"
proof -
  have d: "a div b \<le> a" using assms zdiv_mono2 [of a 1 b] by simp
  have m: "a mod b \<le> a" using assms by (intro zmod_le_nonneg_dividend)
  have p: "0 \<le> a div b" "0 \<le> a mod b" using assms by (simp_all add: pos_imp_zdiv_nonneg_iff)
  have "a sdiv b = a div b"
    using assms by (cases "a = 0") (auto simp: signed_divide_int_def)
  moreover have "a smod b = a mod b"
    using assms by (cases "a = 0") (auto simp: signed_modulo_int_def)
  moreover have "wrap64 (a div b) = a div b" "wrap64 (a mod b) = a mod b"
    using d m p assms by (intro wrap64_id; linarith)+
  ultimately show "div64 a b = a div b" "rem64 a b = a mod b"
    by (simp_all add: div64_def rem64_def)
qed

section \<open>Printing\<close>

text \<open>\<open>%0<w>Ld\<close>\<close>

definition zero_padded :: "nat \<Rightarrow> int \<Rightarrow> string" where
  "zero_padded w i =
     (if i < 0 then CHR ''-'' # replicate (w - 1 - length (show_nat (nat (- i)))) CHR ''0'' @ show_nat (nat (- i))
      else replicate (w - length (show_nat (nat i))) CHR ''0'' @ show_nat (nat i))"

definition civil_of_days :: "int \<Rightarrow> int \<times> int \<times> int" where
  "civil_of_days days =
     (let z = add64 days 719468;
          era = div64 z 146097;
          doe = sub64 z (mul64 era 146097);
          yoe = div64 (sub64 (add64 (sub64 doe (div64 doe 1460)) (div64 doe 36524)) (div64 doe 146096)) 365;
          year = add64 yoe (mul64 era 400);
          doy = sub64 doe (sub64 (add64 (mul64 365 yoe) (div64 yoe 4)) (div64 yoe 100));
          month_part = div64 (add64 (mul64 5 doy) 2) 153;
          day = add64 (sub64 doy (div64 (add64 (mul64 153 month_part) 2) 5)) 1;
          month = add64 month_part (if month_part < 10 then 3 else -9);
          year = add64 year (if month \<le> 2 then 1 else 0)
      in (year, month, day))"

definition timestamp_text :: "int \<Rightarrow> string" where
  "timestamp_text v =
     (let seconds = div64 v 1000000000;
          fraction = rem64 v 1000000000;
          days = div64 seconds 86400;
          seconds_in_day = rem64 seconds 86400;
          (year, month, day) = civil_of_days days;
          hour = div64 seconds_in_day 3600;
          minute = div64 (rem64 seconds_in_day 3600) 60;
          second = rem64 seconds_in_day 60
      in zero_padded 4 year @ ''-'' @ zero_padded 2 month @ ''-'' @ zero_padded 2 day @ ''T'' @
         zero_padded 2 hour @ '':'' @ zero_padded 2 minute @ '':'' @ zero_padded 2 second @ ''.'' @
         zero_padded 9 fraction @ ''Z'')"

section \<open>The calendar\<close>

definition leap :: "int \<Rightarrow> bool" where
  "leap y \<longleftrightarrow> y mod 4 = 0 \<and> (y mod 100 \<noteq> 0 \<or> y mod 400 = 0)"

definition month_length :: "int \<Rightarrow> int \<Rightarrow> int" where
  "month_length y m = (if m = 2 then if leap y then 29 else 28
     else if m = 4 \<or> m = 6 \<or> m = 9 \<or> m = 11 then 30 else 31)"

fun next_date :: "int \<times> int \<times> int \<Rightarrow> int \<times> int \<times> int" where
  "next_date (y, m, d) =
     (if d < month_length y m then (y, m, d + 1)
      else if m < 12 then (y, m + 1, 1)
      else (y + 1, 1, 1))"

text \<open>The date \<open>n\<close> days after the first of January 1970, and the time of day.\<close>

definition date :: "nat \<Rightarrow> int \<times> int \<times> int" where
  "date n = (next_date ^^ n) (1970, 1, 1)"

definition rfc3339 :: "int \<times> int \<times> int \<Rightarrow> int \<Rightarrow> string" where
  "rfc3339 ymd ns = (case ymd of (y, m, d) \<Rightarrow>
     zero_padded 4 y @ ''-'' @ zero_padded 2 m @ ''-'' @ zero_padded 2 d @ ''T'' @
     zero_padded 2 (ns div (60 * 60 * 10 ^ 9)) @ '':'' @ zero_padded 2 (ns div (60 * 10 ^ 9) mod 60) @ '':'' @
     zero_padded 2 (ns div 10 ^ 9 mod 60) @ ''.'' @ zero_padded 9 (ns mod 10 ^ 9) @ ''Z'')"

section \<open>Years from March\<close>

text \<open>
  Within an era of 400 years that start in March, the first day of a year, the length of a year,
  and the month and day of a day of the year.
\<close>

definition year_start :: "int \<Rightarrow> int" where "year_start y = 365 * y + y div 4 - y div 100"
definition year_length :: "int \<Rightarrow> int" where "year_length y = (if leap (y + 1) then 366 else 365)"
definition spread :: "int \<Rightarrow> int" where
  "spread doe = doe - doe div 1460 + doe div 36524 - doe div 146096"

definition month_day :: "int \<Rightarrow> int \<times> int" where
  "month_day doy = (let mp = (5 * doy + 2) div 153 in
     (mp + (if mp < 10 then 3 else -9), doy - (153 * mp + 2) div 5 + 1))"

lemma spread_step: "spread d \<le> spread (d + 1)"
proof -
  have e: "x div 146096 = x div 36524 div 4" for x :: int by (simp add: zdiv_zmult2_eq [of 4, symmetric])
  have "(d + 1) div 1460 \<le> d div 1460 + 1" by linarith
  moreover have "d div 36524 \<le> (d + 1) div 36524" by (simp add: zdiv_mono1)
  then have "(d + 1) div 36524 div 4 - d div 36524 div 4 \<le> (d + 1) div 36524 - d div 36524" by linarith
  ultimately show ?thesis unfolding spread_def e by linarith
qed

lemma spread_mono: "a \<le> b \<Longrightarrow> spread a \<le> spread b"
proof (induction "nat (b - a)" arbitrary: b)
  case (Suc n)
  then have "spread a \<le> spread (b - 1)" by auto
  with spread_step [of "b - 1"] show ?case by simp
qed simp

lemma years_checked:
  "list_all (\<lambda>y. spread (year_start y) div 365 = y \<and>
     spread (year_start y + year_length y - 1) div 365 = y) [0..399]"
  by code_simp

lemma year_of_day:
  assumes "0 \<le> y" "y < 400" "0 \<le> doy" "doy < year_length y"
  shows "spread (year_start y + doy) div 365 = y"
proof -
  have c: "spread (year_start y) div 365 = y" "spread (year_start y + year_length y - 1) div 365 = y"
    using years_checked assms by (auto simp: list_all_iff)
  have "spread (year_start y) \<le> spread (year_start y + doy)" using assms by (intro spread_mono) auto
  then have "y \<le> spread (year_start y + doy) div 365" using zdiv_mono1 [of "spread (year_start y)"] c by fastforce
  moreover have "spread (year_start y + doy) \<le> spread (year_start y + year_length y - 1)"
    using assms by (intro spread_mono) auto
  then have "spread (year_start y + doy) div 365 \<le> y" using zdiv_mono1 [of "spread (year_start y + doy)"] c by fastforce
  ultimately show ?thesis by simp
qed

definition day_follows :: "int \<Rightarrow> bool" where
  "day_follows doy \<longleftrightarrow> (case month_day doy of (m, d) \<Rightarrow>
     month_day (doy + 1) = (if d < month_length 1 m then (m, d + 1) else if m < 12 then (m + 1, 1) else (1, 1)) \<and>
     1 \<le> m \<and> m \<le> 12 \<and> (m = 2 \<longrightarrow> d < 28))"

lemma days_checked: "list_all day_follows [0..363]"
  by code_simp

lemma last_days: "month_day 364 = (2, 28)" "month_day 365 = (2, 29)" "month_day 0 = (3, 1)"
  by (simp_all add: month_day_def)

text \<open>The code, where nothing wraps: an era, a year of it and a day of the year give the date.\<close>

definition march_date :: "int \<Rightarrow> int \<Rightarrow> int \<Rightarrow> int \<times> int \<times> int" where
  "march_date era y doy = (case month_day doy of (m, d) \<Rightarrow> (y + 400 * era + (if m \<le> 2 then 1 else 0), m, d))"

lemma era_split:
  assumes "0 \<le> y" "y < 400" "0 \<le> doy" "doy < year_length y"
  shows "(146097 * era + year_start y + doy) div 146097 = era"
    and "0 \<le> year_start y + doy" and "year_start y + doy < 146097"
proof -
  have e: "0 \<le> year_start y" using assms unfolding year_start_def by linarith
  have l: "year_start y + doy < 146097"
  proof (cases "y = 399")
    case True
    with assms show ?thesis by (simp add: year_start_def year_length_def split: if_splits)
  next
    case False
    then have "y \<le> 398" using assms by simp
    then have "year_start y \<le> 145730" using assms unfolding year_start_def by linarith
    moreover have "year_length y \<le> 366" by (simp add: year_length_def)
    ultimately show ?thesis using assms by linarith
  qed
  show "0 \<le> year_start y + doy" using e assms by simp
  show "year_start y + doy < 146097" by (rule l)
  show "(146097 * era + year_start y + doy) div 146097 = era"
    using e l assms by (intro int_div_pos_eq [of _ _ _ "year_start y + doy"]) auto
qed

lemma civil_of_days_march:
  assumes y: "0 \<le> y" "y < 400" and doy: "0 \<le> doy" "doy < year_length y"
    and era: "0 \<le> era" "era \<le> 10" and days: "days + 719468 = 146097 * era + year_start y + doy"
  shows "civil_of_days days = march_date era y doy"
proof -
  define doe where "doe = year_start y + doy"
  have split: "0 \<le> doe" "doe < 146097"
    using era_split [OF y doy] by (simp_all add: doe_def)
  have quot: "(146097 * era + doe) div 146097 = era"
    using era_split(1) [OF y doy, of era] by (simp add: doe_def add.assoc)
  have len: "doy \<le> 365" using doy by (simp add: year_length_def split: if_splits)
  have z: "days + 719468 = 146097 * era + doe" using days by (simp add: doe_def)
  have zb: "0 \<le> 146097 * era + doe" "146097 * era + doe < 2 ^ 30" using era split by auto
  have e1: "div64 (146097 * era + doe) 146097 = era"
    using zb quot by (simp add: div64_nonneg)
  have spread: "div64 (sub64 (add64 (sub64 doe (div64 doe 1460)) (div64 doe 36524)) (div64 doe 146096)) 365 = y"
  proof -
    have b: "0 \<le> doe div 1460" "doe div 1460 \<le> doe" "0 \<le> doe div 36524" "doe div 36524 \<le> doe"
      "0 \<le> doe div 146096" "doe div 146096 \<le> doe div 36524"
      using split by linarith+
    have "div64 (sub64 (add64 (sub64 doe (div64 doe 1460)) (div64 doe 36524)) (div64 doe 146096)) 365 = spread doe div 365"
      using split b unfolding spread_def by (simp add: div64_nonneg add64_def sub64_def wrap64_id)
    also have "\<dots> = y" unfolding doe_def by (rule year_of_day [OF y doy])
    finally show ?thesis .
  qed
  have doy': "sub64 doe (sub64 (add64 (mul64 365 y) (div64 y 4)) (div64 y 100)) = doy"
  proof -
    have b: "0 \<le> y div 4" "y div 4 \<le> y" "0 \<le> y div 100" "y div 100 \<le> y" using y by linarith+
    show ?thesis using y b doy len split
      by (simp add: div64_nonneg add64_def sub64_def mul64_def wrap64_id doe_def year_start_def)
  qed
  have mp: "div64 (add64 (mul64 5 doy) 2) 153 = (5 * doy + 2) div 153" and mpb: "0 \<le> (5 * doy + 2) div 153" "(5 * doy + 2) div 153 < 12"
    using doy len by (simp_all add: div64_nonneg add64_def mul64_def wrap64_id)
  define m where "m = (5 * doy + 2) div 153"
  have day: "add64 (sub64 doy (div64 (add64 (mul64 153 m) 2) 5)) 1 = doy - (153 * m + 2) div 5 + 1"
  proof -
    have "0 \<le> (153 * m + 2) div 5" "(153 * m + 2) div 5 \<le> 400" using mpb unfolding m_def by linarith+
    then show ?thesis using mpb doy len
      by (simp add: div64_nonneg add64_def sub64_def mul64_def wrap64_id m_def)
  qed
  have z64: "add64 days 719468 = 146097 * era + doe"
    using z zb by (simp add: add64_def wrap64_id)
  have doe64: "sub64 (146097 * era + doe) (mul64 era 146097) = doe"
    using zb era split by (simp add: sub64_def mul64_def wrap64_id)
  have year: "add64 y (mul64 era 400) = y + 400 * era"
    using era y by (simp add: add64_def mul64_def wrap64_id)
  have "add64 m (if m < 10 then 3 else -9) = m + (if m < 10 then 3 else -9)"
    "add64 (y + 400 * era) (if b then 1 else 0) = y + 400 * era + (if b then 1 else 0)" for b
    using mpb era y by (auto simp: add64_def wrap64_id m_def)
  then show ?thesis
    unfolding civil_of_days_def march_date_def month_day_def Let_def
    by (simp add: z64 e1 doe64 spread doy' year mp day flip: m_def)
qed

section \<open>Every day is the next one\<close>

lemma lengths_checked: "list_all (\<lambda>y. year_start (y + 1) = year_start y + year_length y) [0..398]"
  by code_simp

lemma year_lengths:
  "0 \<le> y \<Longrightarrow> y < 399 \<Longrightarrow> year_start (y + 1) = year_start y + year_length y"
  "year_start 399 + year_length 399 = 146097"
  using lengths_checked by (auto simp: list_all_iff) (simp add: year_start_def year_length_def leap_def)

lemma leap_era: "leap (y + 400 * era) = leap y"
proof -
  have "400 * era = 4 * (100 * era)" "400 * era = 100 * (4 * era)" by simp_all
  then have "(y + 400 * era) mod 4 = y mod 4" "(y + 400 * era) mod 100 = y mod 100" by (metis mod_mult_self2)+
  then show ?thesis by (simp add: leap_def)
qed

lemma march_next:
  assumes y: "0 \<le> y" "y < 400" and doy: "0 \<le> doy" "doy < year_length y"
  shows "next_date (march_date era y doy) =
     (if doy + 1 < year_length y then march_date era y (doy + 1) else march_date era (y + 1) 0)"
proof -
  obtain m d where md: "month_day doy = (m, d)" by force
  let ?y = "y + 400 * era + (if m \<le> 2 then 1 else 0)"
  have len: "year_length y = (if leap (y + 400 * era + 1) then 366 else 365)"
    using leap_era [of "y + 1" era] by (simp add: year_length_def algebra_simps)
  consider "doy \<le> 363" | "doy = 364" | "doy = 365" using doy len by (fastforce split: if_splits)
  then show ?thesis
  proof cases
    case 1
    then have "doy \<in> set [0..363]" using doy by simp
    with days_checked have "day_follows doy" unfolding list_all_iff by blast
    then have c: "month_day (doy + 1) = (if d < month_length 1 m then (m, d + 1) else if m < 12 then (m + 1, 1) else (1, 1))"
      "1 \<le> m" "m \<le> 12" "m = 2 \<longrightarrow> d < 28"
      by (simp_all add: day_follows_def md)
    have "month_length ?y m = month_length 1 m \<or> m = 2 \<and> d < month_length ?y m \<and> d < month_length 1 m"
      using c by (auto simp: month_length_def leap_def)
    then have nd: "next_date (?y, m, d) =
        (if d < month_length 1 m then (?y, m, d + 1) else if m < 12 then (?y, m + 1, 1) else (?y + 1, 1, 1))"
      by auto
    have feb: "m = 2 \<Longrightarrow> d < month_length 1 m" using c by (simp add: month_length_def leap_def)
    have "m = 1 \<or> m = 2 \<or> 2 < m" using c by linarith
    moreover have "doy + 1 < year_length y" using 1 len by auto
    ultimately show ?thesis using c nd feb md by (auto simp: march_date_def)
  next
    case 2
    with md last_days show ?thesis by (auto simp: march_date_def len month_length_def)
  next
    case 3
    with doy len have "leap (y + 400 * era + 1)" by (auto split: if_splits)
    with 3 md last_days show ?thesis by (auto simp: march_date_def len month_length_def)
  qed
qed

lemma march_next_era: "march_date era 400 0 = march_date (era + 1) 0 0"
  by (simp add: march_date_def last_days)

definition march_day :: "int \<Rightarrow> int \<Rightarrow> int \<Rightarrow> int \<Rightarrow> bool" where
  "march_day day era y doy \<longleftrightarrow> 0 \<le> era \<and> 0 \<le> y \<and> y < 400 \<and> 0 \<le> doy \<and> doy < year_length y \<and>
     day + 719468 = 146097 * era + year_start y + doy"

lemma date_march: "\<exists>era y doy. march_day (int n) era y doy \<and> date n = march_date era y doy"
proof (induction n)
  case 0
  have "march_day 0 4 369 306" "march_date 4 369 306 = (1970, 1, 1)"
    by (simp_all add: march_day_def march_date_def month_day_def year_start_def year_length_def leap_def)
  then show ?case by (intro exI [of _ 4] exI [of _ 369] exI [of _ 306]) (simp add: date_def)
next
  case (Suc n)
  then obtain era y doy where m: "march_day (int n) era y doy" and d: "date n = march_date era y doy" by blast
  from m have v: "0 \<le> era" "0 \<le> y" "y < 400" "0 \<le> doy" "doy < year_length y"
    and day: "int n + 719468 = 146097 * era + year_start y + doy"
    by (simp_all add: march_day_def)
  have nd: "date (Suc n) = next_date (march_date era y doy)" by (simp add: date_def flip: d)
  have pos: "0 < year_length z" for z by (simp add: year_length_def)
  consider "doy + 1 < year_length y" | "doy + 1 = year_length y" "y < 399" | "doy + 1 = year_length y" "y = 399"
    using v by linarith
  then show ?case
  proof cases
    case 1
    then have "march_day (int (Suc n)) era y (doy + 1)" using v day by (simp add: march_day_def)
    moreover have "date (Suc n) = march_date era y (doy + 1)" using nd march_next [OF v(2-5)] 1 by simp
    ultimately show ?thesis by blast
  next
    case 2
    then have "march_day (int (Suc n)) era (y + 1) 0" using v day pos year_lengths(1) [of y] by (simp add: march_day_def)
    moreover have "date (Suc n) = march_date era (y + 1) 0" using nd march_next [OF v(2-5)] 2 by simp
    ultimately show ?thesis by blast
  next
    case 3
    then have "march_day (int (Suc n)) (era + 1) 0 0"
      using v day pos year_lengths(2) by (simp add: march_day_def year_start_def)
    moreover have "date (Suc n) = march_date (era + 1) 0 0"
      using nd march_next [OF v(2-5)] 3 march_next_era by simp
    ultimately show ?thesis by blast
  qed
qed

text \<open>Every day up to the year 3886, far more than 64 bits of nanoseconds reach, is the calendar's.\<close>

lemma civil_of_days_date:
  assumes "n \<le> 700000"
  shows "civil_of_days (int n) = date n"
proof -
  obtain era y doy where m: "march_day (int n) era y doy" and d: "date n = march_date era y doy"
    using date_march by blast
  from m have v: "0 \<le> era" "0 \<le> y" "y < 400" "0 \<le> doy" "doy < year_length y"
    and day: "int n + 719468 = 146097 * era + year_start y + doy"
    by (simp_all add: march_day_def)
  have "0 \<le> year_start y" using v unfolding year_start_def by linarith
  then have "era \<le> 10" using day v assms by linarith
  then show ?thesis using civil_of_days_march [OF v(2-5) v(1) _ day] d by simp
qed

lemma timestamp_text_calendar:
  assumes v: "0 \<le> v" "v < 2 ^ 63"
  shows "timestamp_text v = rfc3339 (date (nat (v div (86400 * 10 ^ 9)))) (v mod (86400 * 10 ^ 9))"
proof -
  define s where "s = v div 1000000000"
  have s: "0 \<le> s" "s < 2 ^ 34" "div64 v 1000000000 = s" "rem64 v 1000000000 = v mod 1000000000"
    using v by (simp_all add: s_def div64_nonneg)
  have "s < 17179869184" using s(2) by simp
  then have n: "nat (s div 86400) \<le> 700000" "0 \<le> s div 86400" using s(1) by linarith+
  have day: "v div (86400 * 10 ^ 9) = s div 86400" unfolding s_def by (simp add: zdiv_zmult2_eq [of 86400, symmetric])
  have clock: "v mod (86400 * 10 ^ 9) = s mod 86400 * 1000000000 + v mod 1000000000"
    unfolding s_def using zmod_zmult2_eq [of 86400 v 1000000000] by (simp add: mult.commute)
  define r where "r = s mod 86400"
  have r: "0 \<le> r" "r < 86400" by (simp_all add: r_def)
  have f: "0 \<le> v mod 1000000000" "v mod 1000000000 < 1000000000" by simp_all
  have sec: "(r * 1000000000 + v mod 1000000000) div 1000000000 = r" "(r * 1000000000 + v mod 1000000000) mod 1000000000 = v mod 1000000000"
    by simp_all
  define ns where "ns = v mod (86400 * 10 ^ 9)"
  have ns: "ns div 10 ^ 9 = r" "ns mod 10 ^ 9 = v mod 1000000000"
    using sec clock by (simp_all add: ns_def r_def)
  have t: "ns div (60 * 60 * 10 ^ 9) = r div 3600" "ns div (60 * 10 ^ 9) mod 60 = r mod 3600 div 60"
  proof -
    have "ns div (10 ^ 9 * 3600) = r div 3600" "ns div (10 ^ 9 * 60) = r div 60"
      unfolding ns(1) [symmetric] by (rule zdiv_zmult2_eq; simp)+
    moreover have "r mod 3600 div 60 = r div 60 mod 60"
      using zmod_zmult2_eq [of 60 r 60] by simp
    ultimately show "ns div (60 * 60 * 10 ^ 9) = r div 3600" "ns div (60 * 10 ^ 9) mod 60 = r mod 3600 div 60" by simp_all
  qed
  have civil: "civil_of_days (s div 86400) = date (nat (s div 86400))"
    using civil_of_days_date [OF n(1)] n(2) by simp
  have q: "div64 s 86400 = s div 86400" "rem64 s 86400 = r" "div64 r 3600 = r div 3600" "rem64 r 3600 = r mod 3600"
    "div64 (r mod 3600) 60 = r mod 3600 div 60" "rem64 r 60 = r mod 60"
    using s(1,2) r by (simp_all add: div64_nonneg r_def)
  show ?thesis
    unfolding timestamp_text_def rfc3339_def Let_def s(3,4) q civil day ns_def [symmetric] t ns by (rule refl)
qed

end
