(* ===== verification/JetStreamApi.thy ===== *)
theory JetStreamApi
  imports Codec Dial Timestamp
begin

text \<open>
  JetStream over requests (lib/eio/jetstream.ml: publications and the reads and purges of stored
  messages; lib/eio/connection.ml: the request that is repeated while nobody answers). The
  connection below, its clock and the JSON codec are parameters.
\<close>

section \<open>Errors\<close>

record api_error =
  ae_code :: int
  ae_err_code :: "int option"
  ae_description :: string
  ae_metadata :: string

text \<open>The two configuration errors a stream's name can have; the others keep their foreign payload.\<close>

datatype 'x js_config_error =
    Empty_stream_name
  | Invalid_stream_name_character nat char
  | Other_config_error 'x

text \<open>
  The constructors of \<open>Error.t\<close> the operations below build or distinguish; those of consumers,
  batches and lists are one, with their foreign payload.
\<close>

datatype 'x js_error =
    Connection_error "'x connection_error"
  | Decode 'x
  | Encode 'x
  | Api api_error
  | Missing_field string
  | Invalid_subject subject_error
  | Js_invalid_config "'x js_config_error"
  | Invalid_headers header_error
  | Invalid_publish_option string string
  | Message_not_found
  | Invalid_message_header string string
  | Empty_msg_id
  | Msg_id_already_set
  | Unexpected_stream_name string string
  | Push_closed
  | Ordered_closed
  | Consumer_error 'x

section \<open>Requests that are repeated while nobody answers\<close>

text \<open>
  One request, the monotonic clock in nanoseconds and sleeping; \<open>'w\<close> is everything outside.
\<close>

record ('x, 'w) link =
  request_msg :: "nat option \<Rightarrow> message \<Rightarrow> 'w \<Rightarrow> ('x connection_error + message) \<times> 'w"
  link_now :: "'w \<Rightarrow> nat"
  sleep_until :: "nat \<Rightarrow> 'w \<Rightarrow> 'w"

definition mtime_add :: "nat \<Rightarrow> nat \<Rightarrow> nat option" where
  "mtime_add t span = (if t + span < 2 ^ 64 then Some (t + span) else None)"

definition validate_timeout :: "string \<Rightarrow> nat \<Rightarrow> 'x connection_error + nat" where
  "validate_timeout name v = (if v > 0 then Inr v else Inl (Invalid_timeout name))"

definition remaining_timeout :: "nat option \<Rightarrow> nat \<Rightarrow> 'x connection_error + nat option" where
  "remaining_timeout deadline now =
     (case deadline of
        None \<Rightarrow> Inr None
      | Some deadline \<Rightarrow> if now \<ge> deadline then Inl Timeout else Inr (Some (deadline - now)))"

definition wait_before_retry ::
  "('x, 'w) link \<Rightarrow> nat \<Rightarrow> nat option \<Rightarrow> 'w \<Rightarrow> ('x connection_error + unit) \<times> 'w" where
  "wait_before_retry t retry_wait deadline w =
     (case mtime_add (link_now t w) retry_wait of
        None \<Rightarrow> (Inl Timeout, w)
      | Some retry_deadline \<Rightarrow>
          (case deadline of
             None \<Rightarrow> (Inr (), sleep_until t retry_deadline w)
           | Some deadline \<Rightarrow>
               (let wait_until = (if retry_deadline < deadline then retry_deadline else deadline);
                    w' = sleep_until t wait_until w
                in if link_now t w' \<ge> deadline then (Inl Timeout, w') else (Inr (), w'))))"

definition should_retry :: "int option \<Rightarrow> int \<Rightarrow> bool" where
  "should_retry retry_attempts retries =
     (case retry_attempts of None \<Rightarrow> True | Some attempts \<Rightarrow> retries < attempts)"

text \<open>Without a bound on the attempts the loop may go on for ever.\<close>

partial_function (option) retry_loop ::
  "('x, 'w) link \<Rightarrow> nat \<Rightarrow> int option \<Rightarrow> nat option \<Rightarrow> message \<Rightarrow> int \<Rightarrow> 'w \<Rightarrow>
     (('x connection_error + message) \<times> 'w) option" where
  "retry_loop t retry_wait retry_attempts deadline message retries w =
     (case remaining_timeout deadline (link_now t w) of
        Inl error \<Rightarrow> Some (Inl error, w)
      | Inr timeout \<Rightarrow>
          (case request_msg t timeout message w of
             (Inl No_responders, w') \<Rightarrow>
               if \<not> should_retry retry_attempts retries then Some (Inl No_responders, w')
               else (case wait_before_retry t retry_wait deadline w' of
                   (Inl error, w'') \<Rightarrow> Some (Inl error, w'')
                 | (Inr _, w'') \<Rightarrow> retry_loop t retry_wait retry_attempts deadline message (retries + 1) w'')
           | result \<Rightarrow> Some result))"

definition request_deadline :: "nat option \<Rightarrow> nat \<Rightarrow> 'x connection_error + nat option" where
  "request_deadline timeout now =
     (case timeout of
        None \<Rightarrow> Inr None
      | Some timeout \<Rightarrow>
          (case validate_timeout ''request'' timeout of
             Inl error \<Rightarrow> Inl error
           | Inr timeout \<Rightarrow>
               (case mtime_add now timeout of None \<Rightarrow> Inl Timeout | Some deadline \<Rightarrow> Inr (Some deadline))))"

definition request_msg_retry ::
  "('x, 'w) link \<Rightarrow> nat option \<Rightarrow> nat \<Rightarrow> int option \<Rightarrow> message \<Rightarrow> 'w \<Rightarrow>
     (('x connection_error + message) \<times> 'w) option" where
  "request_msg_retry t timeout retry_wait retry_attempts message w =
     (case validate_timeout ''request retry'' retry_wait of
        Inl error \<Rightarrow> Some (Inl error, w)
      | Inr _ \<Rightarrow>
          (case retry_attempts of
             Some attempts \<Rightarrow>
               if attempts < 0 then Some (Inl (Invalid_retry_attempts attempts), w)
               else (case request_deadline timeout (link_now t w) of
                   Inl error \<Rightarrow> Some (Inl error, w)
                 | Inr deadline \<Rightarrow> retry_loop t retry_wait retry_attempts deadline message 0 w)
           | None \<Rightarrow>
               (case request_deadline timeout (link_now t w) of
                  Inl error \<Rightarrow> Some (Inl error, w)
                | Inr deadline \<Rightarrow> retry_loop t retry_wait retry_attempts deadline message 0 w)))"

section \<open>Publish options\<close>

text \<open>Times are printed by ptime, spans by mtime: \<open>schedule\<close> carries the time already printed.\<close>

datatype schedule = At string | Every nat | Cron string
datatype schedule_ttl = Duration nat | Never

record publish_retry =
  pr_wait :: nat
  pr_attempts :: "int option"

record publish_options =
  po_msg_id :: "string option"
  po_expected_stream :: "string option"
  po_expected_last_msg_id :: "string option"
  po_expected_last_sequence :: "int option"
  po_expected_last_subject_sequence :: "int option"
  po_expected_last_subject :: "string option"
  po_ttl :: "nat option"
  po_schedule :: "schedule option"
  po_schedule_target :: "string option"
  po_schedule_source :: "string option"
  po_schedule_ttl :: "schedule_ttl option"
  po_schedule_timezone :: "string option"
  po_retry :: "publish_retry option"
  po_stall_wait :: "nat option"

definition empty_options :: publish_options where
  "empty_options = \<lparr>po_msg_id = None, po_expected_stream = None, po_expected_last_msg_id = None,
     po_expected_last_sequence = None, po_expected_last_subject_sequence = None, po_expected_last_subject = None,
     po_ttl = None, po_schedule = None, po_schedule_target = None, po_schedule_source = None,
     po_schedule_ttl = None, po_schedule_timezone = None, po_retry = None, po_stall_wait = None\<rparr>"

definition invalid_option :: "string \<Rightarrow> string \<Rightarrow> 'x js_error + 'a" where
  "invalid_option field reason = Inl (Invalid_publish_option field reason)"

definition nonempty :: "string \<Rightarrow> string \<Rightarrow> 'x js_error + unit" where
  "nonempty field v = (if v = [] then invalid_option field ''must not be empty'' else Inr ())"

definition positive_span :: "string \<Rightarrow> nat \<Rightarrow> 'x js_error + unit" where
  "positive_span field v = (if v > 0 then Inr () else invalid_option field ''must be positive'')"

definition nonnegative_sequence :: "string \<Rightarrow> int \<Rightarrow> 'x js_error + unit" where
  "nonnegative_sequence field v = (if v \<ge> 0 then Inr () else invalid_option field ''must not be negative'')"

definition setting :: "'x js_error + unit \<Rightarrow> publish_options \<Rightarrow> 'x js_error + publish_options" where
  "setting validation options = (case validation of Inl error \<Rightarrow> Inl error | Inr _ \<Rightarrow> Inr options)"

definition with_msg_id where
  "with_msg_id v options = setting (nonempty ''msg_id'' v) (options\<lparr>po_msg_id := Some v\<rparr>)"
definition with_expected_stream where
  "with_expected_stream v options = setting (nonempty ''expected_stream'' v) (options\<lparr>po_expected_stream := Some v\<rparr>)"
definition with_expected_last_msg_id where
  "with_expected_last_msg_id v options =
     setting (nonempty ''expected_last_msg_id'' v) (options\<lparr>po_expected_last_msg_id := Some v\<rparr>)"
definition with_expected_last_sequence where
  "with_expected_last_sequence v options =
     setting (nonnegative_sequence ''expected_last_sequence'' v) (options\<lparr>po_expected_last_sequence := Some v\<rparr>)"
definition with_expected_last_subject_sequence where
  "with_expected_last_subject_sequence v options =
     setting (nonnegative_sequence ''expected_last_subject_sequence'' v)
       (options\<lparr>po_expected_last_subject_sequence := Some v\<rparr>)"
definition with_expected_last_sequence_for_subject where
  "with_expected_last_sequence_for_subject sequence subj options =
     setting (nonnegative_sequence ''expected_last_subject_sequence'' sequence)
       (options\<lparr>po_expected_last_subject_sequence := Some sequence, po_expected_last_subject := Some subj\<rparr>)"
definition with_ttl where
  "with_ttl v options = setting (positive_span ''ttl'' v) (options\<lparr>po_ttl := Some v\<rparr>)"
definition with_schedule where
  "with_schedule v options =
     setting (case v of
         At _ \<Rightarrow> Inr ()
       | Every span \<Rightarrow>
           if span \<ge> 10 ^ 9 then Inr () else invalid_option ''schedule'' ''repeat interval must be at least one second''
       | Cron expression \<Rightarrow> nonempty ''schedule'' expression) (options\<lparr>po_schedule := Some v\<rparr>)"
definition with_schedule_target :: "string \<Rightarrow> publish_options \<Rightarrow> 'x js_error + publish_options" where
  "with_schedule_target v options = Inr (options\<lparr>po_schedule_target := Some v\<rparr>)"
definition with_schedule_source :: "string \<Rightarrow> publish_options \<Rightarrow> 'x js_error + publish_options" where
  "with_schedule_source v options = Inr (options\<lparr>po_schedule_source := Some v\<rparr>)"
definition with_schedule_ttl where
  "with_schedule_ttl v options =
     (case v of
        Never \<Rightarrow> Inr (options\<lparr>po_schedule_ttl := Some Never\<rparr>)
      | Duration span \<Rightarrow> setting (positive_span ''schedule_ttl'' span) (options\<lparr>po_schedule_ttl := Some (Duration span)\<rparr>))"
definition with_schedule_timezone where
  "with_schedule_timezone v options =
     setting (nonempty ''schedule_timezone'' v) (options\<lparr>po_schedule_timezone := Some v\<rparr>)"
definition with_stall_wait where
  "with_stall_wait v options = setting (positive_span ''stall_wait'' v) (options\<lparr>po_stall_wait := Some v\<rparr>)"
definition with_retry where
  "with_retry wait attempts options =
     (case positive_span ''retry_wait'' wait of
        Inl error \<Rightarrow> Inl error
      | Inr _ \<Rightarrow>
          (case attempts of
             Some v \<Rightarrow> if v < 0 then invalid_option ''retry_attempts'' ''must not be negative''
                       else Inr (options\<lparr>po_retry := Some \<lparr>pr_wait = wait, pr_attempts = attempts\<rparr>\<rparr>)
           | None \<Rightarrow> Inr (options\<lparr>po_retry := Some \<lparr>pr_wait = wait, pr_attempts = attempts\<rparr>\<rparr>)))"

section \<open>Headers of a publication\<close>

definition add_publish_header :: "header \<Rightarrow> string \<Rightarrow> string \<Rightarrow> 'x js_error + header" where
  "add_publish_header headers name v =
     (if header_mem name headers then Inl (Invalid_publish_option name ''header is already present'')
      else case header_add name v headers of
        Inr headers \<Rightarrow> Inr headers
      | Inl error \<Rightarrow> Inl (Invalid_headers error))"

definition validate_publish_options :: "publish_options \<Rightarrow> 'x js_error + unit" where
  "validate_publish_options options =
     (case (po_schedule options, po_schedule_target options) of
        (Some _, None) \<Rightarrow> Inl (Invalid_publish_option ''schedule_target'' ''is required when a schedule is set'')
      | _ \<Rightarrow>
          (case (po_schedule options, po_schedule_timezone options) of
             (_, None) \<Rightarrow> Inr ()
           | (Some (Cron _), Some _) \<Rightarrow> Inr ()
           | (Some _, Some _) \<Rightarrow> Inl (Invalid_publish_option ''schedule_timezone'' ''requires a cron schedule'')
           | (None, Some _) \<Rightarrow> Inl (Invalid_publish_option ''schedule_timezone'' ''requires a schedule'')))"

definition msg_id_headers :: "string option \<Rightarrow> publish_options \<Rightarrow> header \<Rightarrow> 'x js_error + header" where
  "msg_id_headers msg_id options headers =
     (case (msg_id, po_msg_id options) of
        (Some _, Some _) \<Rightarrow> Inl (Invalid_publish_option ''msg_id'' ''specified twice'')
      | (Some v, None) \<Rightarrow>
          if v = [] then Inl Empty_msg_id
          else if header_mem ''Nats-Msg-Id'' headers then Inl Msg_id_already_set
          else add_publish_header headers ''Nats-Msg-Id'' v
      | (None, Some v) \<Rightarrow>
          if header_mem ''Nats-Msg-Id'' headers then Inl Msg_id_already_set
          else add_publish_header headers ''Nats-Msg-Id'' v
      | (None, None) \<Rightarrow> Inr headers)"

definition schedule_string :: "(nat \<Rightarrow> string) \<Rightarrow> schedule \<Rightarrow> string" where
  "schedule_string span_string schedule =
     (case schedule of
        At time \<Rightarrow> ''@at '' @ time
      | Every span \<Rightarrow> ''@every '' @ span_string span
      | Cron expression \<Rightarrow> expression)"

text \<open>The options in the order their headers are added.\<close>

definition option_headers :: "(nat \<Rightarrow> string) \<Rightarrow> publish_options \<Rightarrow> (string \<times> string option) list" where
  "option_headers span_string options =
     [(''Nats-Expected-Stream'', po_expected_stream options),
      (''Nats-Expected-Last-Msg-Id'', po_expected_last_msg_id options),
      (''Nats-Expected-Last-Sequence'', map_option show_int (po_expected_last_sequence options)),
      (''Nats-Expected-Last-Subject-Sequence'', map_option show_int (po_expected_last_subject_sequence options)),
      (''Nats-Expected-Last-Subject-Sequence-Subject'', po_expected_last_subject options),
      (''Nats-TTL'', map_option span_string (po_ttl options)),
      (''Nats-Schedule'', map_option (schedule_string span_string) (po_schedule options)),
      (''Nats-Schedule-Target'', po_schedule_target options),
      (''Nats-Schedule-Source'', po_schedule_source options),
      (''Nats-Schedule-TTL'', map_option (\<lambda>v. case v of Duration span \<Rightarrow> span_string span | Never \<Rightarrow> ''never'')
         (po_schedule_ttl options)),
      (''Nats-Schedule-Time-Zone'', po_schedule_timezone options)]"

fun add_options :: "(string \<times> string option) list \<Rightarrow> header \<Rightarrow> 'x js_error + header" where
  "add_options [] headers = Inr headers"
| "add_options ((name, None) # others) headers = add_options others headers"
| "add_options ((name, Some v) # others) headers =
     (case add_publish_header headers name v of
        Inl error \<Rightarrow> Inl error
      | Inr headers \<Rightarrow> add_options others headers)"

definition apply_publish_options ::
  "(nat \<Rightarrow> string) \<Rightarrow> string option \<Rightarrow> publish_options \<Rightarrow> header \<Rightarrow> 'x js_error + header" where
  "apply_publish_options span_string msg_id options headers =
     (case (case validate_publish_options options of
              Inl error \<Rightarrow> Inl error
            | Inr _ \<Rightarrow> msg_id_headers msg_id options headers) of
        Inl error \<Rightarrow> Inl error
      | Inr headers \<Rightarrow> add_options (option_headers span_string options) headers)"

definition message_v :: "string \<Rightarrow> header \<Rightarrow> string \<Rightarrow> message" where
  "message_v subj headers payload =
     \<lparr>m_subject = subj, m_reply_to = None, m_headers = headers, m_payload = payload\<rparr>"

definition publish_message ::
  "(nat \<Rightarrow> string) \<Rightarrow> header \<Rightarrow> string option \<Rightarrow> publish_options \<Rightarrow> string \<Rightarrow> string \<Rightarrow> 'x js_error + message" where
  "publish_message span_string headers msg_id options subj payload =
     (case apply_publish_options span_string msg_id options headers of
        Inl error \<Rightarrow> Inl error
      | Inr headers \<Rightarrow> Inr (message_v subj headers payload))"

section \<open>Publishing\<close>

record publish_ack =
  pa_stream :: string
  pa_sequence :: int
  pa_duplicate :: bool
  pa_domain :: "string option"
  pa_batch :: "string option"
  pa_count :: "int option"

record publish_response =
  pb_error :: "api_error option"
  pb_stream :: "string option"
  pb_sequence :: "int option"
  pb_duplicate :: "bool option"
  pb_domain :: "string option"
  pb_batch :: "string option"
  pb_count :: "int option"

record purge_request =
  pq_filter :: "string option"
  pq_keep :: "int option"

record purge_response =
  pu_error :: "api_error option"
  pu_purged :: int

text \<open>A JetStream context: the connection, the prefix of the API, the JSON codec and mtime's printer.\<close>

record ('x, 'w) jetstream =
  js_link :: "('x, 'w) link"
  js_prefix :: string
  js_span_string :: "nat \<Rightarrow> string"
  js_decode_publish :: "string \<Rightarrow> 'x + publish_response"
  js_encode_get :: "int \<Rightarrow> 'x + string"
  js_encode_purge :: "purge_request \<Rightarrow> 'x + string"
  js_decode_purge :: "string \<Rightarrow> 'x + purge_response"

definition allowed_name_character :: "char \<Rightarrow> bool" where
  "allowed_name_character c \<longleftrightarrow> 65 \<le> code c \<and> code c \<le> 90 \<or> 97 \<le> code c \<and> code c \<le> 122 \<or>
     48 \<le> code c \<and> code c \<le> 57 \<or> c = CHR ''_'' \<or> c = CHR ''-''"

definition validate_stream_name :: "string \<Rightarrow> 'x js_config_error option" where
  "validate_stream_name name =
     (if length name = 0 then Some Empty_stream_name
      else first_error (\<lambda>position c.
        if \<not> allowed_name_character c then Some (Invalid_stream_name_character position c) else None) 0 name)"

definition stream_bind :: "string \<Rightarrow> 'x js_error + string" where
  "stream_bind name =
     (case validate_stream_name name of None \<Rightarrow> Inr name | Some error \<Rightarrow> Inl (Js_invalid_config error))"

definition api_subject :: "('x, 'w) jetstream \<Rightarrow> string list \<Rightarrow> string" where
  "api_subject js suffix = join CHR ''.'' (js_prefix js # suffix)"

definition js_request ::
  "('x, 'w) jetstream \<Rightarrow> nat option \<Rightarrow> message \<Rightarrow> 'w \<Rightarrow> ('x js_error + message) \<times> 'w" where
  "js_request js timeout message w =
     (case request_msg (js_link js) timeout message w of
        (Inr response, w') \<Rightarrow> (Inr response, w')
      | (Inl error, w') \<Rightarrow> (Inl (Connection_error error), w'))"

definition publish_ack_of_message :: "('x, 'w) jetstream \<Rightarrow> message \<Rightarrow> 'x js_error + publish_ack" where
  "publish_ack_of_message js response =
     (case js_decode_publish js (m_payload response) of
        Inl error \<Rightarrow> Inl (Decode error)
      | Inr r \<Rightarrow>
          (case pb_error r of
             Some error \<Rightarrow> Inl (Api error)
           | None \<Rightarrow>
          (case pb_stream r of
             None \<Rightarrow> Inl (Missing_field ''stream'')
           | Some stream \<Rightarrow>
          (case pb_sequence r of
             None \<Rightarrow> Inl (Missing_field ''seq'')
           | Some sequence \<Rightarrow>
               Inr \<lparr>pa_stream = stream, pa_sequence = sequence,
                 pa_duplicate = (case pb_duplicate r of None \<Rightarrow> False | Some v \<Rightarrow> v),
                 pa_domain = pb_domain r, pa_batch = pb_batch r, pa_count = pb_count r\<rparr>))))"

definition default_publish_retry :: publish_retry where
  "default_publish_retry = \<lparr>pr_wait = 250 * 10 ^ 6, pr_attempts = Some 2\<rparr>"

definition js_publish ::
  "('x, 'w) jetstream \<Rightarrow> nat option \<Rightarrow> header \<Rightarrow> string option \<Rightarrow> publish_options option \<Rightarrow> string \<Rightarrow> string \<Rightarrow>
     'w \<Rightarrow> (('x js_error + publish_ack) \<times> 'w) option" where
  "js_publish js timeout headers msg_id options subj payload w =
     (let given = (case options of None \<Rightarrow> empty_options | Some v \<Rightarrow> v) in
      case publish_message (js_span_string js) headers msg_id given subj payload of
        Inl error \<Rightarrow> Some (Inl error, w)
      | Inr message \<Rightarrow>
          (case po_stall_wait given of
             Some _ \<Rightarrow> Some (Inl (Invalid_publish_option ''stall_wait'' ''is only valid for asynchronous publishing''), w)
           | None \<Rightarrow>
               (let retry = (case po_retry given of None \<Rightarrow> default_publish_retry | Some v \<Rightarrow> v) in
                map_option (\<lambda>(r, w'). case r of
                    Inl error \<Rightarrow> (Inl (Connection_error error), w')
                  | Inr response \<Rightarrow> (publish_ack_of_message js response, w'))
                  (request_msg_retry (js_link js) timeout (pr_wait retry) (pr_attempts retry) message w))))"

section \<open>Stored messages\<close>

text \<open>\<open>Int64.of_string_opt\<close>: a sign, a base prefix, digits with underscores, and the range.\<close>

definition base_digit :: "char \<Rightarrow> nat option" where
  "base_digit c =
     (if is_digit c then Some (code c - 48)
      else if 65 \<le> code c \<and> code c \<le> 70 then Some (code c - 55)
      else if 97 \<le> code c \<and> code c \<le> 102 then Some (code c - 87)
      else None)"

fun base_digits :: "nat \<Rightarrow> nat \<Rightarrow> string \<Rightarrow> nat option" where
  "base_digits radix acc [] = Some acc"
| "base_digits radix acc (c # cs) =
     (if c = CHR ''_'' then base_digits radix acc cs
      else case base_digit c of
        None \<Rightarrow> None
      | Some d \<Rightarrow>
          if d \<ge> radix then None
          else if acc * radix + d \<ge> 2 ^ 64 then None
          else base_digits radix (acc * radix + d) cs)"

definition base_prefix :: "string \<Rightarrow> nat \<times> bool \<times> string" where
  "base_prefix s =
     (case s of
        c # b # others \<Rightarrow>
          if c \<noteq> CHR ''0'' then (10, True, s)
          else if b = CHR ''x'' \<or> b = CHR ''X'' then (16, False, others)
          else if b = CHR ''o'' \<or> b = CHR ''O'' then (8, False, others)
          else if b = CHR ''b'' \<or> b = CHR ''B'' then (2, False, others)
          else if b = CHR ''u'' \<or> b = CHR ''U'' then (10, False, others)
          else (10, True, s)
      | _ \<Rightarrow> (10, True, s))"

definition int64_of_string_opt :: "string \<Rightarrow> int option" where
  "int64_of_string_opt s =
     (let negative = (case s of [] \<Rightarrow> False | c # _ \<Rightarrow> c = CHR ''-'');
          s1 = (case s of [] \<Rightarrow> s | c # others \<Rightarrow> if c = CHR ''-'' \<or> c = CHR ''+'' then others else s);
          (radix, signed, s2) = base_prefix s1 in
      case s2 of
        [] \<Rightarrow> None
      | c # cs \<Rightarrow>
          (case base_digit c of
             None \<Rightarrow> None
           | Some d \<Rightarrow>
               if d \<ge> radix then None
               else case base_digits radix d cs of
                 None \<Rightarrow> None
               | Some v \<Rightarrow>
                   if signed \<and> (if negative then v > 2 ^ 63 else v \<ge> 2 ^ 63) then None
                   else Some (wrap64 (if negative then - int v else int v))))"

record stored =
  sm_subject :: string
  sm_sequence :: int
  sm_timestamp :: string
  sm_headers :: header
  sm_payload :: string

definition message_header :: "message \<Rightarrow> string \<Rightarrow> 'x js_error + string" where
  "message_header message name =
     (case header_find name (m_headers message) of Some v \<Rightarrow> Inr v | None \<Rightarrow> Inl (Missing_field name))"

definition message_sequence :: "string \<Rightarrow> 'x js_error + int" where
  "message_sequence v =
     (case int64_of_string_opt v of
        Some sequence \<Rightarrow> if sequence \<ge> 0 then Inr sequence else Inl (Invalid_message_header ''Nats-Sequence'' v)
      | None \<Rightarrow> Inl (Invalid_message_header ''Nats-Sequence'' v))"

definition then_result :: "'e + 'a \<Rightarrow> ('a \<Rightarrow> 'e + 'b) \<Rightarrow> 'e + 'b" where
  "then_result r f = (case r of Inl error \<Rightarrow> Inl error | Inr a \<Rightarrow> f a)"

definition stored_message :: "string \<Rightarrow> message \<Rightarrow> 'x js_error + stored" where
  "stored_message stream message =
     (if m_headers message = [] \<and> m_payload message = [] then Inl Message_not_found
      else then_result (message_header message ''Nats-Stream'') (\<lambda>response_stream.
        if response_stream \<noteq> stream then Inl (Unexpected_stream_name stream response_stream)
        else
          then_result (message_header message ''Nats-Sequence'') (\<lambda>sequence_header.
          then_result (message_sequence sequence_header) (\<lambda>sequence.
          then_result (message_header message ''Nats-Subject'') (\<lambda>subject_header.
          then_result (case subject_of_string subject_header of
              Inr subj \<Rightarrow> Inr subj | Inl error \<Rightarrow> Inl (Invalid_subject error)) (\<lambda>subj.
          then_result (message_header message ''Nats-Time-Stamp'') (\<lambda>timestamp.
          Inr \<lparr>sm_subject = subj, sm_sequence = sequence, sm_timestamp = timestamp,
            sm_headers = m_headers message, sm_payload = m_payload message\<rparr>)))))))"

definition stream_get ::
  "('x, 'w) jetstream \<Rightarrow> nat option \<Rightarrow> string \<Rightarrow> int \<Rightarrow> 'w \<Rightarrow> ('x js_error + stored) \<times> 'w" where
  "stream_get js timeout stream sequence w =
     (if sequence < 0 then (Inl (Invalid_message_header ''Nats-Sequence'' (show_int sequence)), w)
      else case js_encode_get js sequence of
        Inl error \<Rightarrow> (Inl (Encode error), w)
      | Inr payload \<Rightarrow>
          (case js_request js timeout (message_v (api_subject js [''DIRECT'', ''GET'', stream]) [] payload) w of
             (Inl error, w') \<Rightarrow> (Inl error, w')
           | (Inr message, w') \<Rightarrow> (stored_message stream message, w')))"

definition stream_get_last ::
  "('x, 'w) jetstream \<Rightarrow> nat option \<Rightarrow> string \<Rightarrow> string \<Rightarrow> 'w \<Rightarrow> ('x js_error + stored) \<times> 'w" where
  "stream_get_last js timeout stream subj w =
     (case js_request js timeout (message_v (api_subject js [''DIRECT'', ''GET'', stream, subj]) [] []) w of
        (Inl error, w') \<Rightarrow> (Inl error, w')
      | (Inr message, w') \<Rightarrow> (stored_message stream message, w'))"

definition stream_purge ::
  "('x, 'w) jetstream \<Rightarrow> nat option \<Rightarrow> string option \<Rightarrow> int option \<Rightarrow> string \<Rightarrow> 'w \<Rightarrow> ('x js_error + int) \<times> 'w" where
  "stream_purge js timeout subj keep stream w =
     (case (case keep of
              None \<Rightarrow> Inr None
            | Some v \<Rightarrow> if v \<ge> 0 then Inr (Some v) else Inl (Invalid_message_header ''keep'' (show_int v))) of
        Inl error \<Rightarrow> (Inl error, w)
      | Inr keep \<Rightarrow>
          (case js_encode_purge js \<lparr>pq_filter = subj, pq_keep = keep\<rparr> of
             Inl error \<Rightarrow> (Inl (Encode error), w)
           | Inr payload \<Rightarrow>
               (case js_request js timeout (message_v (api_subject js [''STREAM'', ''PURGE'', stream]) [] payload) w of
                  (Inl error, w') \<Rightarrow> (Inl error, w')
                | (Inr message, w') \<Rightarrow>
                    (case js_decode_purge js (m_payload message) of
                       Inl error \<Rightarrow> (Inl (Decode error), w')
                     | Inr r \<Rightarrow>
                         (case pu_error r of
                            Some error \<Rightarrow> (Inl (Api error), w')
                          | None \<Rightarrow> (Inr (pu_purged r), w'))))))"

section \<open>How often and when a request is repeated\<close>

text \<open>
  \<open>walk n w w'\<close>: from \<open>w\<close> the outside has come to \<open>w'\<close> by \<open>n\<close> requests and any number of sleeps.
  Whatever grows with requests and sleeping is such a relation; \<open>timed_walks\<close> asks it only of a
  request that is given the time left to a deadline that has not passed, and of a sleep of
  \<open>retry_wait\<close> that the deadline cuts short.
\<close>

definition sleeps_until :: "nat \<Rightarrow> nat option \<Rightarrow> nat \<Rightarrow> nat" where
  "sleeps_until retry_wait deadline now =
     (case deadline of None \<Rightarrow> now + retry_wait | Some d \<Rightarrow> min (now + retry_wait) d)"

definition timed_walks :: "('x, 'w) link \<Rightarrow> nat \<Rightarrow> nat option \<Rightarrow> (nat \<Rightarrow> 'w \<Rightarrow> 'w \<Rightarrow> bool) \<Rightarrow> bool" where
  "timed_walks t retry_wait deadline walk \<longleftrightarrow>
     (\<forall>w. walk 0 w w) \<and>
     (\<forall>n w w1 timeout m. walk n w w1 \<longrightarrow>
        remaining_timeout deadline (link_now t w1) = (Inr timeout :: unit connection_error + nat option) \<longrightarrow>
        walk (Suc n) w (snd (request_msg t timeout m w1))) \<and>
     (\<forall>n w w1. walk n w w1 \<longrightarrow> walk n w (sleep_until t (sleeps_until retry_wait deadline (link_now t w1)) w1))"

lemma remaining_timeout_Inr:
  "remaining_timeout deadline now = Inr timeout \<longleftrightarrow>
     (case deadline of None \<Rightarrow> timeout = None | Some d \<Rightarrow> now < d \<and> timeout = Some (d - now))"
  by (auto simp: remaining_timeout_def split: option.split)

lemma timed_walksD:
  "timed_walks t retry_wait deadline walk \<Longrightarrow> walk 0 w w"
  "timed_walks t retry_wait deadline walk \<Longrightarrow> walk n w w1 \<Longrightarrow>
     remaining_timeout deadline (link_now t w1) = (Inr timeout :: 'e connection_error + nat option) \<Longrightarrow>
     request_msg t timeout m w1 = (r, w2) \<Longrightarrow> walk (Suc n) w w2"
  "timed_walks t retry_wait deadline walk \<Longrightarrow> walk n w w1 \<Longrightarrow>
     walk n w (sleep_until t (sleeps_until retry_wait deadline (link_now t w1)) w1)"
  unfolding timed_walks_def remaining_timeout_Inr by (metis snd_conv)+

definition walks :: "('x, 'w) link \<Rightarrow> (nat \<Rightarrow> 'w \<Rightarrow> 'w \<Rightarrow> bool) \<Rightarrow> bool" where
  "walks t walk \<longleftrightarrow>
     (\<forall>w. walk 0 w w) \<and>
     (\<forall>n w w1 timeout m. walk n w w1 \<longrightarrow> walk (Suc n) w (snd (request_msg t timeout m w1))) \<and>
     (\<forall>n w w1 d. walk n w w1 \<longrightarrow> walk n w (sleep_until t d w1))"

lemma walks_timed: "walks t walk \<Longrightarrow> timed_walks t retry_wait deadline walk"
  by (simp add: walks_def timed_walks_def)

lemma mtime_add_Some: "mtime_add t span = Some v \<Longrightarrow> v = t + span"
  by (simp add: mtime_add_def split: if_splits)

lemma wait_before_retry_slept:
  assumes "wait_before_retry t retry_wait deadline w = (r, w')"
  shows "w' = w \<or> w' = sleep_until t (sleeps_until retry_wait deadline (link_now t w)) w"
  using assms by (auto simp: wait_before_retry_def sleeps_until_def Let_def min_def dest!: mtime_add_Some
      split: option.splits if_splits)

lemma wait_before_retry_walks:
  assumes "timed_walks t retry_wait deadline walk" "walk n w0 w" "wait_before_retry t retry_wait deadline w = (r, w')"
  shows "walk n w0 w'"
  using wait_before_retry_slept [OF assms(3)] assms(2) timed_walksD(3) [OF assms(1,2)] by auto

text \<open>The time is up: the deadline has passed, or the clock has no room for the next wait.\<close>

definition time_is_up :: "('x, 'w) link \<Rightarrow> nat \<Rightarrow> nat option \<Rightarrow> 'w \<Rightarrow> bool" where
  "time_is_up t retry_wait deadline w \<longleftrightarrow>
     mtime_add (link_now t w) retry_wait = None \<or> (\<exists>d. deadline = Some d \<and> d \<le> link_now t w)"

lemma wait_before_retry_error:
  "wait_before_retry t retry_wait deadline w = (Inl error, w') \<Longrightarrow> error = Timeout \<and> time_is_up t retry_wait deadline w'"
  by (auto simp: wait_before_retry_def time_is_up_def Let_def split: option.splits if_splits)

lemma remaining_timeout_error:
  "remaining_timeout deadline (link_now t w) = Inl error \<Longrightarrow> error = Timeout \<and> time_is_up t retry_wait deadline w"
  by (auto simp: remaining_timeout_def time_is_up_def split: option.splits if_splits)

text \<open>The last of \<open>n\<close> requests gave the answer, or time ran out.\<close>

definition retry_outcome ::
  "('x, 'w) link \<Rightarrow> nat \<Rightarrow> nat option \<Rightarrow> (nat \<Rightarrow> 'w \<Rightarrow> 'w \<Rightarrow> bool) \<Rightarrow> nat \<Rightarrow> nat \<Rightarrow> message \<Rightarrow> 'w \<Rightarrow>
     'x connection_error + message \<Rightarrow> 'w \<Rightarrow> bool" where
  "retry_outcome t retry_wait deadline walk n most message w0 r w' \<longleftrightarrow>
     n \<le> most \<and> walk n w0 w' \<and> (r = Inl No_responders \<longrightarrow> n = most) \<and>
     (r = Inl Timeout \<and> time_is_up t retry_wait deadline w' \<or> (\<exists>timeout w1. walk (n - 1) w0 w1 \<and> request_msg t timeout message w1 = (r, w')))"

lemma retry_loop_outcome:
  assumes wk: "timed_walks t retry_wait deadline walk" and "int k = attempts - retries" and "walk i w0 w"
  shows "\<exists>r w' n. retry_loop t retry_wait (Some attempts) deadline message retries w = Some (r, w') \<and>
           retry_outcome t retry_wait deadline walk n (i + Suc k) message w0 r w'"
  using assms(2,3)
proof (induction k arbitrary: retries i w)
  case (0 retries i w)
  show ?case
  proof (cases "remaining_timeout deadline (link_now t w) :: 'a connection_error + nat option")
    case (Inl error)
    from remaining_timeout_error [OF this] have "error = Timeout \<and> time_is_up t retry_wait deadline w" .
    with Inl 0 show ?thesis
      by (subst retry_loop.simps) (auto simp: retry_outcome_def intro!: exI [of _ i])
  next
    case (Inr timeout)
    obtain r w1 where q: "request_msg t timeout message w = (r, w1)" by force
    have "retry_loop t retry_wait (Some attempts) deadline message retries w = Some (r, w1)"
      using 0 Inr q by (subst retry_loop.simps) (auto simp: should_retry_def split: sum.splits connection_error.splits)
    then show ?thesis
      using 0 q timed_walksD(2) [OF wk 0(2) Inr q] by (auto simp: retry_outcome_def intro!: exI [of _ "Suc i"])
  qed
next
  case (Suc k retries i w)
  show ?case
  proof (cases "remaining_timeout deadline (link_now t w) :: 'a connection_error + nat option")
    case (Inl error)
    from remaining_timeout_error [OF this] have "error = Timeout \<and> time_is_up t retry_wait deadline w" .
    with Inl Suc.prems show ?thesis
      by (subst retry_loop.simps) (auto simp: retry_outcome_def intro!: exI [of _ i])
  next
    case (Inr timeout)
    obtain r w1 where q: "request_msg t timeout message w = (r, w1)" by force
    note walk1 = timed_walksD(2) [OF wk Suc.prems(2) Inr q]
    show ?thesis
    proof (cases "r = Inl No_responders")
      case False
      then have "retry_loop t retry_wait (Some attempts) deadline message retries w = Some (r, w1)"
        using Inr q by (subst retry_loop.simps) (auto split: sum.splits connection_error.splits)
      then show ?thesis using Suc.prems q walk1 False by (auto simp: retry_outcome_def intro!: exI [of _ "Suc i"])
    next
      case True
      obtain r2 w2 where wt: "wait_before_retry t retry_wait deadline w1 = (r2, w2)" by force
      have walk2: "walk (Suc i) w0 w2" by (rule wait_before_retry_walks [OF wk walk1 wt])
      have go: "retry_loop t retry_wait (Some attempts) deadline message retries w =
          (case r2 of Inl error \<Rightarrow> Some (Inl error, w2)
           | Inr _ \<Rightarrow> retry_loop t retry_wait (Some attempts) deadline message (retries + 1) w2)"
        using Suc.prems True Inr q wt by (subst retry_loop.simps) (simp add: should_retry_def)
      show ?thesis
      proof (cases r2)
        case (Inl error)
        with wait_before_retry_error wt have "error = Timeout \<and> time_is_up t retry_wait deadline w2" by metis
        then show ?thesis using go Inl walk2 by (auto simp: retry_outcome_def intro!: exI [of _ "Suc i"])
      next
        case (Inr u)
        obtain r3 w3 n where "retry_loop t retry_wait (Some attempts) deadline message (retries + 1) w2 = Some (r3, w3)"
          "retry_outcome t retry_wait deadline walk n (Suc i + Suc k) message w0 r3 w3"
          using Suc.IH [of "retries + 1" "Suc i" w2] Suc.prems walk2 by auto
        then show ?thesis using go Inr by auto
      qed
    qed
  qed
qed

text \<open>The deadline as the clock counts it, when there is room for it.\<close>

abbreviation deadline_of :: "('x, 'w) link \<Rightarrow> nat option \<Rightarrow> 'w \<Rightarrow> nat option" where
  "deadline_of t timeout w \<equiv> map_option (\<lambda>span. link_now t w + span) timeout"

lemma request_deadline_cases:
  "request_deadline timeout now = Inr deadline \<Longrightarrow> deadline = map_option (\<lambda>span. now + span) timeout \<and> timeout \<noteq> Some 0"
  "request_deadline timeout now = Inl error \<Longrightarrow>
     error = Timeout \<and> (\<exists>span. timeout = Some span \<and> mtime_add now span = None) \<or> (\<exists>m. error = Invalid_timeout m)"
  by (auto simp: request_deadline_def validate_timeout_def mtime_add_def split: option.splits if_splits)

lemma request_msg_retry_timed:
  assumes "timed_walks t retry_wait (deadline_of t timeout w) walk" and "0 < retry_wait" and "0 \<le> attempts"
  obtains r w' where "request_msg_retry t timeout retry_wait (Some attempts) message w = Some (r, w')"
    and "(\<exists>n. retry_outcome t retry_wait (deadline_of t timeout w) walk n (nat attempts + 1) message w r w') \<or>
         w' = w \<and> (r = Inl Timeout \<and> (\<exists>span. timeout = Some span \<and> mtime_add (link_now t w) span = None) \<or>
           (\<exists>m. r = Inl (Invalid_timeout m)))"
proof (cases "request_deadline timeout (link_now t w) :: 'a connection_error + nat option")
  case (Inl error)
  from request_deadline_cases(2) [OF this] Inl assms(2,3) show thesis
    by (intro that [of "Inl error" w]) (auto simp: request_msg_retry_def validate_timeout_def)
next
  case (Inr deadline)
  then have d: "deadline = deadline_of t timeout w" by (simp add: request_deadline_cases(1))
  obtain r w' n where "retry_loop t retry_wait (Some attempts) deadline message 0 w = Some (r, w')"
    "retry_outcome t retry_wait deadline walk n (Suc (nat attempts)) message w r w'"
    using retry_loop_outcome [OF assms(1), of "nat attempts" attempts 0 0 w w message]
      assms(3) timed_walksD(1) [OF assms(1)] unfolding d by auto
  with Inr assms(2,3) d show thesis by (intro that [of r w']) (auto simp: request_msg_retry_def validate_timeout_def)
qed

lemma request_msg_retry_outcome:
  assumes "walks t walk" and "0 < retry_wait" and "0 \<le> attempts"
  obtains r w' where "request_msg_retry t timeout retry_wait (Some attempts) message w = Some (r, w')"
    and "(\<exists>n. retry_outcome t retry_wait (deadline_of t timeout w) walk n (nat attempts + 1) message w r w') \<or>
         w' = w \<and> (r = Inl Timeout \<or> (\<exists>m. r = Inl (Invalid_timeout m)))"
  using request_msg_retry_timed [OF walks_timed [OF assms(1)] assms(2,3), where timeout = timeout and w = w and message = message]
  by metis

text \<open>
  A log of what the loop asks of the outside, and when: requests with the time each is given, and
  sleeps with the instant they are to end. A link is prompt when a request with a timeout and a
  sleep end when they should.
\<close>

datatype link_event = Asked nat "nat option" | Slept nat nat

definition asked :: "link_event \<Rightarrow> bool" where
  "asked e \<longleftrightarrow> (case e of Asked _ _ \<Rightarrow> True | _ \<Rightarrow> False)"

definition keeps_log :: "('x, 'w) link \<Rightarrow> ('w \<Rightarrow> link_event list) \<Rightarrow> bool" where
  "keeps_log t log \<longleftrightarrow>
     (\<forall>timeout m w. log (snd (request_msg t timeout m w)) = log w @ [Asked (link_now t w) timeout]) \<and>
     (\<forall>d w. log (sleep_until t d w) = log w @ [Slept (link_now t w) d])"

definition prompt :: "('x, 'w) link \<Rightarrow> bool" where
  "prompt t \<longleftrightarrow>
     (\<forall>span m w. link_now t (snd (request_msg t (Some span) m w)) \<le> link_now t w + span) \<and>
     (\<forall>d w. link_now t (sleep_until t d w) \<le> max (link_now t w) d)"

text \<open>What is right to ask for, given the time between attempts and the deadline.\<close>

definition in_time :: "nat \<Rightarrow> nat option \<Rightarrow> link_event \<Rightarrow> bool" where
  "in_time retry_wait deadline e \<longleftrightarrow>
     (case e of
        Asked now given \<Rightarrow> (case deadline of None \<Rightarrow> given = None | Some d \<Rightarrow> now < d \<and> given = Some (d - now))
      | Slept now until \<Rightarrow> until = (case deadline of None \<Rightarrow> now + retry_wait | Some d \<Rightarrow> min (now + retry_wait) d))"

definition timed_run ::
  "('x, 'w) link \<Rightarrow> ('w \<Rightarrow> link_event list) \<Rightarrow> nat \<Rightarrow> nat option \<Rightarrow> nat \<Rightarrow> 'w \<Rightarrow> 'w \<Rightarrow> bool" where
  "timed_run t log retry_wait deadline n w w' \<longleftrightarrow>
     (\<exists>es. log w' = log w @ es \<and> length (filter asked es) = n \<and> (\<forall>e \<in> set es. in_time retry_wait deadline e)) \<and>
     (prompt t \<longrightarrow> (case deadline of None \<Rightarrow> True | Some d \<Rightarrow> link_now t w' \<le> max (link_now t w) d))"

lemma timed_run_walks:
  assumes log: "keeps_log t log"
  shows "timed_walks t retry_wait deadline (timed_run t log retry_wait deadline)"
  unfolding timed_walks_def
proof (intro conjI allI impI)
  show "timed_run t log retry_wait deadline 0 w w" for w
    by (auto simp: timed_run_def split: option.split intro!: exI [of _ "[]"])
next
  fix n w w1 timeout m
  assume run: "timed_run t log retry_wait deadline n w w1"
    and left: "remaining_timeout deadline (link_now t w1) = (Inr timeout :: unit connection_error + nat option)"
  let ?w2 = "snd (request_msg t timeout m w1)"
  have e: "log ?w2 = log w1 @ [Asked (link_now t w1) timeout]" using log by (simp add: keeps_log_def)
  have "in_time retry_wait deadline (Asked (link_now t w1) timeout)"
    using left by (simp add: in_time_def remaining_timeout_Inr split: option.split)
  with run e have "\<exists>es. log ?w2 = log w @ es \<and> length (filter asked es) = Suc n \<and> (\<forall>e \<in> set es. in_time retry_wait deadline e)"
    unfolding timed_run_def by (force simp: asked_def)
  moreover have "link_now t ?w2 \<le> d" if "prompt t" "deadline = Some d" for d
  proof -
    have "link_now t w1 < d" "timeout = Some (d - link_now t w1)"
      using left that(2) by (simp_all add: remaining_timeout_Inr)
    moreover have "link_now t (snd (request_msg t (Some (d - link_now t w1)) m w1)) \<le> link_now t w1 + (d - link_now t w1)"
      using that(1) unfolding prompt_def by blast
    ultimately show ?thesis by simp
  qed
  ultimately show "timed_run t log retry_wait deadline (Suc n) w ?w2"
    by (auto simp: timed_run_def split: option.split)
next
  fix n w w1
  assume run: "timed_run t log retry_wait deadline n w w1"
  let ?d = "sleeps_until retry_wait deadline (link_now t w1)"
  have "log (sleep_until t ?d w1) = log w1 @ [Slept (link_now t w1) ?d]" using log by (simp add: keeps_log_def)
  moreover have "in_time retry_wait deadline (Slept (link_now t w1) ?d)" by (simp add: in_time_def sleeps_until_def)
  ultimately have "\<exists>es. log (sleep_until t ?d w1) = log w @ es \<and> length (filter asked es) = n \<and>
      (\<forall>e \<in> set es. in_time retry_wait deadline e)"
    using run unfolding timed_run_def by (force simp: asked_def)
  moreover have "link_now t (sleep_until t ?d w1) \<le> max (link_now t w) d" if "prompt t" "deadline = Some d" for d
  proof -
    have "link_now t (sleep_until t ?d w1) \<le> max (link_now t w1) ?d" using that(1) unfolding prompt_def by blast
    moreover have "?d \<le> d" using that(2) by (simp add: sleeps_until_def)
    moreover have "link_now t w1 \<le> max (link_now t w) d" using run that by (simp add: timed_run_def)
    ultimately show ?thesis by simp
  qed
  ultimately show "timed_run t log retry_wait deadline n w (sleep_until t ?d w1)"
    by (auto simp: timed_run_def split: option.split)
qed

text \<open>
  C24: A request with a bound on its attempts always returns, after at most one request more than
  the bound. Every request is made before the deadline and is given just the time left to it; the
  sleeps between last \<open>retry_wait\<close>, or end at the deadline; so the call returns by its deadline when
  each request and sleep ends in time. Its answer is that of the last request it made, or a timeout
  once the deadline has passed or an instant is past what the clock can tell; that nobody
  responded is reported only after every attempt was used.
\<close>

theorem request_retry_bounded:
  assumes "keeps_log t log" and "0 < retry_wait" and "0 \<le> attempts"
  shows "\<exists>r w' es. request_msg_retry t timeout retry_wait (Some attempts) message w = Some (r, w') \<and> log w' = log w @ es \<and>
     (length (filter asked es) \<le> nat attempts + 1 \<and>
      (r = Inl No_responders \<longrightarrow> length (filter asked es) = nat attempts + 1) \<and>
      (\<forall>e \<in> set es. in_time retry_wait (deadline_of t timeout w) e) \<and>
      (prompt t \<longrightarrow> (\<forall>span. timeout = Some span \<longrightarrow> link_now t w' \<le> link_now t w + span)) \<and>
      (r = Inl Timeout \<and> (time_is_up t retry_wait (deadline_of t timeout w) w' \<or>
         es = [] \<and> (\<exists>span. timeout = Some span \<and> mtime_add (link_now t w) span = None)) \<or>
       es = [] \<and> (\<exists>m. r = Inl (Invalid_timeout m)) \<or>
       (\<exists>timeout w0. request_msg t timeout message w0 = (r, w'))))"
proof -
  let ?d = "deadline_of t timeout w"
  let ?walk = "timed_run t log retry_wait ?d"
  obtain r w' where run: "request_msg_retry t timeout retry_wait (Some attempts) message w = Some (r, w')"
    and out: "(\<exists>n. retry_outcome t retry_wait ?d ?walk n (nat attempts + 1) message w r w') \<or>
      w' = w \<and> (r = Inl Timeout \<and> (\<exists>span. timeout = Some span \<and> mtime_add (link_now t w) span = None) \<or>
        (\<exists>m. r = Inl (Invalid_timeout m)))"
    using request_msg_retry_timed [OF timed_run_walks [OF assms(1)] assms(2,3)] by metis
  from out show ?thesis
  proof (elim disjE)
    assume "\<exists>n. retry_outcome t retry_wait ?d ?walk n (nat attempts + 1) message w r w'"
    then obtain n where o: "retry_outcome t retry_wait ?d ?walk n (nat attempts + 1) message w r w'" by blast
    then obtain es where es: "log w' = log w @ es" "length (filter asked es) = n" "\<forall>e \<in> set es. in_time retry_wait ?d e"
      by (auto simp: retry_outcome_def timed_run_def)
    from o have "prompt t \<longrightarrow> (\<forall>span. timeout = Some span \<longrightarrow> link_now t w' \<le> link_now t w + span)"
      by (auto simp: retry_outcome_def timed_run_def)
    with run o es show ?thesis
      by (intro exI [of _ r] exI [of _ w'] exI [of _ es]) (auto simp: retry_outcome_def)
  next
    assume "w' = w \<and> (r = Inl Timeout \<and> (\<exists>span. timeout = Some span \<and> mtime_add (link_now t w) span = None) \<or>
        (\<exists>m. r = Inl (Invalid_timeout m)))"
    with run show ?thesis by (intro exI [of _ r] exI [of _ w'] exI [of _ "[]"]) auto
  qed
qed

text \<open>
  A server that answers the third request, each after 10 ns, on a clock that sleeping moves: the
  third attempt is left with 80 of the 600 ns.
\<close>

definition demo_link :: "(unit, nat \<times> link_event list) link" where
  "demo_link = \<lparr>request_msg = (\<lambda>timeout m (now, log).
       (if length log < 4 then Inl No_responders else Inr m, now + (case timeout of Some span \<Rightarrow> min span 10 | None \<Rightarrow> 10),
        log @ [Asked now timeout])),
     link_now = fst, sleep_until = (\<lambda>d (now, log). (max now d, log @ [Slept now d]))\<rparr>"

lemma demo_link_laws: "keeps_log demo_link snd" "prompt demo_link"
  by (auto simp: keeps_log_def prompt_def demo_link_def)

theorem request_retry_bounded_witness:
  "\<exists>r w' es. request_msg_retry demo_link (Some 600) 250 (Some 2) (message_v ''s'' [] ''hi'') (0, []) = Some (r, w') \<and>
     snd w' = es \<and> length (filter asked es) \<le> 3 \<and> (\<forall>e \<in> set es. in_time 250 (Some 600) e) \<and> fst w' \<le> 600"
proof -
  from request_retry_bounded [OF demo_link_laws(1), of 250 2 "Some 600" "message_v ''s'' [] ''hi''" "(0, [])"]
  show ?thesis using demo_link_laws(2) by (auto simp: demo_link_def)
qed

lemma demo_link_run:
  "request_msg_retry demo_link (Some 600) 250 (Some 2) m (0, []) =
     Some (Inr m, (530, [Asked 0 (Some 600), Slept 10 260, Asked 260 (Some 340), Slept 270 520, Asked 520 (Some 80)]))"
  by (simp add: request_msg_retry_def validate_timeout_def request_deadline_def mtime_add_def remaining_timeout_def
      wait_before_retry_def should_retry_def demo_link_def retry_loop.simps)

section \<open>Sequence numbers as text\<close>

lemma base_digit_digit: "is_digit c \<Longrightarrow> base_digit c = Some (digit_value c) \<and> digit_value c < 10 \<and> c \<noteq> CHR ''_''"
  by (auto simp: base_digit_def digit_value_def is_digit_def)

lemma base_digits_decimal:
  "\<forall>c \<in> set cs. is_digit c \<Longrightarrow> dec_value acc cs < 2 ^ 64 \<Longrightarrow> base_digits 10 acc cs = Some (dec_value acc cs)"
proof (induction cs arbitrary: acc)
  case (Cons c cs)
  have "acc * 10 + digit_value c < 2 ^ 64"
    using Cons.prems(2) dec_value_ge [of "acc * 10 + digit_value c" cs] by simp
  with Cons base_digit_digit [of c] show ?case by simp
qed simp

lemma digit_no_prefix:
  "is_digit b \<Longrightarrow> b \<noteq> CHR ''x'' \<and> b \<noteq> CHR ''X'' \<and> b \<noteq> CHR ''o'' \<and> b \<noteq> CHR ''O'' \<and>
     b \<noteq> CHR ''b'' \<and> b \<noteq> CHR ''B'' \<and> b \<noteq> CHR ''u'' \<and> b \<noteq> CHR ''U''"
  by (intro conjI notI; simp add: is_digit_def)

lemma base_prefix_decimal:
  assumes "\<forall>c \<in> set s. is_digit c"
  shows "base_prefix s = (10, True, s)"
proof (cases "\<exists>c b others. s = c # b # others")
  case True
  then obtain c b others where s: "s = c # b # others" by blast
  with assms digit_no_prefix [of b] show ?thesis by (simp add: base_prefix_def)
next
  case False
  then show ?thesis by (auto simp: base_prefix_def split: list.split)
qed

lemma int64_of_string_show:
  assumes "0 \<le> n" "n < 2 ^ 63"
  shows "int64_of_string_opt (show_int n) = Some n"
proof -
  let ?s = "show_nat (nat n)"
  obtain c cs where s: "?s = c # cs" by (cases ?s) auto
  have dig: "\<forall>c \<in> set ?s. is_digit c" by (simp add: show_nat_digits)
  then have c: "is_digit c" and cs: "\<forall>c \<in> set cs. is_digit c" using s by auto
  then have sign: "c \<noteq> CHR ''-''" "c \<noteq> CHR ''+''" by (auto simp: is_digit_def)
  have v: "dec_value (digit_value c) cs = nat n"
    using dec_value_show_nat [of "nat n"] by (simp add: s)
  then have "base_digits 10 (digit_value c) cs = Some (nat n)"
    using assms base_digits_decimal [OF cs, of "digit_value c"] by simp
  moreover have "wrap64 n = n" using assms by (intro wrap64_id) auto
  ultimately show ?thesis
    using assms sign base_prefix_decimal [OF dig] base_digit_digit [OF c]
    by (simp add: int64_of_string_opt_def show_int_def s)
qed

lemma message_sequence_show: "0 \<le> n \<Longrightarrow> n < 2 ^ 63 \<Longrightarrow> message_sequence (show_int n) = Inr n"
  by (simp add: message_sequence_def int64_of_string_show)

end
