(* ===== verification/KeyValue.thy ===== *)
theory KeyValue
  imports JetStreamApi
begin

text \<open>
  Key-Value buckets of the OCaml client (lib/eio/key_value.ml): names and keys, the configuration,
  the headers of a write, reads, compare-and-set, filters, and what a delivered message says.
\<close>

section \<open>Configuration\<close>

datatype kv_storage = Memory | File
datatype kv_compression = Uncompressed | S2

text \<open>Placement, mirrors, sources and republishing are values of the stream configuration.\<close>

record 'x bucket_config =
  kf_bucket :: string
  kf_description :: "string option"
  kf_history :: int
  kf_ttl :: "nat option"
  kf_limit_marker_ttl :: "nat option"
  kf_max_bytes :: "int option"
  kf_max_value_size :: "int option"
  kf_storage :: kv_storage
  kf_replicas :: int
  kf_placement :: "'x option"
  kf_mirror :: "'x option"
  kf_sources :: "'x list"
  kf_republish :: "'x option"
  kf_compression :: kv_compression
  kf_metadata :: "(string \<times> string) list"

datatype bucket_error =
    Empty_bucket
  | Invalid_bucket_character nat char
  | Invalid_history int
  | Invalid_ttl
  | Invalid_limit_marker_ttl
  | Invalid_replicas int
  | Mirror_and_sources
  | Invalid_limit string int

definition letter_or_digit :: "char \<Rightarrow> bool" where
  "letter_or_digit c \<longleftrightarrow> 65 \<le> code c \<and> code c \<le> 90 \<or> 97 \<le> code c \<and> code c \<le> 122 \<or> 48 \<le> code c \<and> code c \<le> 57"

definition allowed_bucket_character :: "char \<Rightarrow> bool" where
  "allowed_bucket_character c \<longleftrightarrow> letter_or_digit c \<or> c = CHR ''_'' \<or> c = CHR ''-''"

definition validate_bucket :: "string \<Rightarrow> bucket_error option" where
  "validate_bucket bucket =
     (if length bucket = 0 then Some Empty_bucket
      else first_error (\<lambda>position c.
        if \<not> allowed_bucket_character c then Some (Invalid_bucket_character position c) else None) 0 bucket)"

definition validate_limit :: "string \<Rightarrow> int option \<Rightarrow> bucket_error option" where
  "validate_limit field v =
     (case v of None \<Rightarrow> None | Some v \<Rightarrow> if v \<ge> -1 then None else Some (Invalid_limit field v))"

definition normalize_limit :: "int option \<Rightarrow> int option" where
  "normalize_limit v = (if v = Some (-1) then None else v)"

definition normalize_span :: "nat option \<Rightarrow> nat option" where
  "normalize_span v = (if v = Some 0 then None else v)"

text \<open>\<open>Config.v\<close> on the values it is given; the spans are unsigned, so none is negative.\<close>

definition bucket_config_v :: "'x bucket_config \<Rightarrow> bucket_error + 'x bucket_config" where
  "bucket_config_v c =
     (case validate_bucket (kf_bucket c) of
        Some error \<Rightarrow> Inl error
      | None \<Rightarrow>
          if kf_history c < 1 \<or> kf_history c > 64 then Inl (Invalid_history (kf_history c))
          else if kf_replicas c < 1 \<or> kf_replicas c > 5 then Inl (Invalid_replicas (kf_replicas c))
          else if kf_mirror c \<noteq> None \<and> kf_sources c \<noteq> [] then Inl Mirror_and_sources
          else
            (case validate_limit ''max_bytes'' (kf_max_bytes c) of
               Some error \<Rightarrow> Inl error
             | None \<Rightarrow>
                 (case validate_limit ''max_value_size'' (kf_max_value_size c) of
                    Some error \<Rightarrow> Inl error
                  | None \<Rightarrow>
                      Inr (c\<lparr>kf_ttl := normalize_span (kf_ttl c),
                        kf_limit_marker_ttl := normalize_span (kf_limit_marker_ttl c),
                        kf_max_bytes := normalize_limit (kf_max_bytes c),
                        kf_max_value_size := normalize_limit (kf_max_value_size c)\<rparr>))))"

text \<open>\<open>Config.v ~bucket ()\<close>: everything else at its default.\<close>

definition default_config :: "string \<Rightarrow> 'x bucket_config" where
  "default_config bucket = \<lparr>kf_bucket = bucket, kf_description = None, kf_history = 1, kf_ttl = None,
     kf_limit_marker_ttl = None, kf_max_bytes = None, kf_max_value_size = None, kf_storage = File, kf_replicas = 1,
     kf_placement = None, kf_mirror = None, kf_sources = [], kf_republish = None, kf_compression = Uncompressed,
     kf_metadata = []\<rparr>"

section \<open>Keys\<close>

datatype key_error = Empty_key | Invalid_key_character nat char | Invalid_key_dots

definition allowed_key_character :: "char \<Rightarrow> bool" where
  "allowed_key_character c \<longleftrightarrow> letter_or_digit c \<or> c = CHR ''-'' \<or> c = CHR ''_'' \<or> c = CHR ''='' \<or>
     c = CHR ''/'' \<or> c = CHR ''.''"

fun key_loop :: "bool \<Rightarrow> nat \<Rightarrow> string \<Rightarrow> key_error option" where
  "key_loop previous_dot position [] = None"
| "key_loop previous_dot position (c # cs) =
     (if \<not> allowed_key_character c then Some (Invalid_key_character position c)
      else if c = CHR ''.'' \<and> previous_dot then Some Invalid_key_dots
      else key_loop (c = CHR ''.'') (position + 1) cs)"

definition validate_key :: "string \<Rightarrow> key_error option" where
  "validate_key v =
     (if length v = 0 then Some Empty_key
      else if v ! 0 = CHR ''.'' \<or> v ! (length v - 1) = CHR ''.'' then Some Invalid_key_dots
      else key_loop False 0 v)"

definition key_of_string :: "string \<Rightarrow> key_error + string" where
  "key_of_string v = (case validate_key v of Some error \<Rightarrow> Inl error | None \<Rightarrow> Inr v)"

section \<open>Entries and errors\<close>

datatype kv_operation = Put | Delete | Purge

record stored_entry =
  en_bucket :: string
  en_key :: string
  en_value :: string
  en_revision :: int
  en_timestamp :: string
  en_operation :: kv_operation

datatype 'x kv_error =
    Kv_connection "'x connection_error"
  | Kv_jetstream "'x js_error"
  | Kv_invalid_config bucket_error
  | Invalid_key string key_error
  | Invalid_revision int
  | Invalid_key_ttl
  | Invalid_marker_ttl
  | Invalid_purge_age
  | Invalid_watch_filters
  | Kv_invalid_headers header_error
  | Kv_invalid_operation string
  | Invalid_filter string subject_error
  | Invalid_message_subject string
  | Invalid_timestamp int
  | Invalid_timestamp_text string
  | Key_not_found
  | Key_deleted stored_entry
  | Key_exists
  | Revision_mismatch int
  | Kv_closed

definition map_jetstream_error :: "'x js_error \<Rightarrow> 'x kv_error" where
  "map_jetstream_error error =
     (case error of Connection_error error \<Rightarrow> Kv_connection error | error \<Rightarrow> Kv_jetstream error)"

text \<open>A bucket: the JetStream context, the stream's name and the bucket's.\<close>

record ('x, 'w) bucket =
  bk_jetstream :: "('x, 'w) jetstream"
  bk_stream :: string
  bk_bucket :: string

definition kv_stream_name :: "string \<Rightarrow> string" where
  "kv_stream_name bucket = ''KV_'' @ bucket"

definition key_subject :: "('x, 'w) bucket \<Rightarrow> string \<Rightarrow> string" where
  "key_subject b key = ''$KV.'' @ bk_bucket b @ ''.'' @ key"

definition kv_bind :: "('x, 'w) jetstream \<Rightarrow> string \<Rightarrow> 'x kv_error + ('x, 'w) bucket" where
  "kv_bind js bucket =
     (case bucket_config_v (default_config bucket :: 'x bucket_config) of
        Inl error \<Rightarrow> Inl (Kv_invalid_config error)
      | Inr _ \<Rightarrow>
          (case stream_bind (kv_stream_name bucket) of
             Inl error \<Rightarrow> Inl (map_jetstream_error error)
           | Inr stream \<Rightarrow> Inr \<lparr>bk_jetstream = js, bk_stream = stream, bk_bucket = bucket\<rparr>))"

section \<open>Reading\<close>

definition operation_of_headers :: "header \<Rightarrow> 'x kv_error + kv_operation" where
  "operation_of_headers headers =
     (case header_find ''KV-Operation'' headers of
        None \<Rightarrow> Inr Put
      | Some v \<Rightarrow>
          if v = ''DEL'' then Inr Delete else if v = ''PURGE'' then Inr Purge else Inl (Kv_invalid_operation v))"

definition entry_of_message :: "('x, 'w) bucket \<Rightarrow> string \<Rightarrow> stored \<Rightarrow> 'x kv_error + stored_entry" where
  "entry_of_message b key m =
     (if key_subject b key \<noteq> sm_subject m then Inl Key_not_found
      else case operation_of_headers (sm_headers m) of
        Inl error \<Rightarrow> Inl error
      | Inr operation \<Rightarrow>
          Inr \<lparr>en_bucket = bk_bucket b, en_key = key, en_value = sm_payload m, en_revision = sm_sequence m,
            en_timestamp = sm_timestamp m, en_operation = operation\<rparr>)"

definition read_result ::
  "('x, 'w) bucket \<Rightarrow> string \<Rightarrow> 'x js_error + stored \<Rightarrow> 'x kv_error + stored_entry" where
  "read_result b key r =
     (case r of
        Inl Message_not_found \<Rightarrow> Inl Key_not_found
      | Inl error \<Rightarrow> Inl (map_jetstream_error error)
      | Inr m \<Rightarrow> entry_of_message b key m)"

definition read_last :: "('x, 'w) bucket \<Rightarrow> string \<Rightarrow> 'w \<Rightarrow> ('x kv_error + stored_entry) \<times> 'w" where
  "read_last b key w =
     (case stream_get_last (bk_jetstream b) None (bk_stream b) (key_subject b key) w of
        (r, w') \<Rightarrow> (read_result b key r, w'))"

definition read_revision :: "('x, 'w) bucket \<Rightarrow> string \<Rightarrow> int \<Rightarrow> 'w \<Rightarrow> ('x kv_error + stored_entry) \<times> 'w" where
  "read_revision b key revision w =
     (case stream_get (bk_jetstream b) None (bk_stream b) revision w of (r, w') \<Rightarrow> (read_result b key r, w'))"

definition visible_entry :: "stored_entry \<Rightarrow> 'x kv_error + stored_entry" where
  "visible_entry entry = (case en_operation entry of Put \<Rightarrow> Inr entry | _ \<Rightarrow> Inl (Key_deleted entry))"

definition visible_result :: "'x kv_error + stored_entry \<Rightarrow> 'x kv_error + stored_entry" where
  "visible_result r = (case r of Inr entry \<Rightarrow> visible_entry entry | Inl error \<Rightarrow> Inl error)"

definition kv_get :: "('x, 'w) bucket \<Rightarrow> string \<Rightarrow> 'w \<Rightarrow> ('x kv_error + stored_entry) \<times> 'w" where
  "kv_get b key w = (case read_last b key w of (r, w') \<Rightarrow> (visible_result r, w'))"

definition kv_get_revision :: "('x, 'w) bucket \<Rightarrow> string \<Rightarrow> int \<Rightarrow> 'w \<Rightarrow> ('x kv_error + stored_entry) \<times> 'w" where
  "kv_get_revision b key revision w =
     (if revision \<le> 0 then (Inl (Invalid_revision revision), w)
      else case read_revision b key revision w of (r, w') \<Rightarrow> (visible_result r, w'))"

section \<open>Writing\<close>

definition kv_header :: "string \<Rightarrow> string \<Rightarrow> header \<Rightarrow> 'x kv_error + header" where
  "kv_header name v headers =
     (case header_add name v headers of Inr headers \<Rightarrow> Inr headers | Inl error \<Rightarrow> Inl (Kv_invalid_headers error))"

definition expected_headers :: "int option \<Rightarrow> header \<Rightarrow> 'x kv_error + header" where
  "expected_headers expected headers =
     (case expected of
        None \<Rightarrow> Inr headers
      | Some revision \<Rightarrow>
          if revision < 0 then Inl (Invalid_revision revision)
          else kv_header ''Nats-Expected-Last-Subject-Sequence'' (show_int revision) headers)"

definition operation_headers :: "kv_operation option \<Rightarrow> header \<Rightarrow> 'x kv_error + header" where
  "operation_headers operation headers =
     (case operation of
        None \<Rightarrow> Inr headers
      | Some Put \<Rightarrow> Inr headers
      | Some Delete \<Rightarrow> kv_header ''KV-Operation'' ''DEL'' headers
      | Some Purge \<Rightarrow>
          (case kv_header ''KV-Operation'' ''PURGE'' headers of
             Inl error \<Rightarrow> Inl error
           | Inr headers \<Rightarrow> kv_header ''Nats-Rollup'' ''sub'' headers))"

text \<open>A span is an unsigned 64-bit number, printed as a signed one.\<close>

definition ttl_header_value :: "nat \<Rightarrow> string" where
  "ttl_header_value ttl = show_int (wrap64 (int ttl)) @ ''ns''"

definition ttl_headers :: "nat option \<Rightarrow> header \<Rightarrow> 'x kv_error + header" where
  "ttl_headers ttl headers =
     (case ttl of
        None \<Rightarrow> Inr headers
      | Some ttl \<Rightarrow> if ttl \<le> 0 then Inl Invalid_key_ttl else kv_header ''Nats-TTL'' (ttl_header_value ttl) headers)"

definition write_headers :: "int option \<Rightarrow> kv_operation option \<Rightarrow> nat option \<Rightarrow> 'x kv_error + header" where
  "write_headers expected operation ttl =
     then_result (expected_headers expected []) (\<lambda>headers.
     then_result (operation_headers operation headers) (\<lambda>headers.
     ttl_headers ttl headers))"

definition kv_publish ::
  "('x, 'w) bucket \<Rightarrow> string \<Rightarrow> int option \<Rightarrow> kv_operation option \<Rightarrow> nat option \<Rightarrow> string \<Rightarrow> 'w \<Rightarrow>
     (('x kv_error + int) \<times> 'w) option" where
  "kv_publish b key expected operation ttl payload w =
     (case write_headers expected operation ttl of
        Inl error \<Rightarrow> Some (Inl error, w)
      | Inr headers \<Rightarrow>
          map_option (\<lambda>(r, w'). case r of
              Inr ack \<Rightarrow> (Inr (pa_sequence ack), w')
            | Inl error \<Rightarrow> (Inl (map_jetstream_error error), w'))
            (js_publish (bk_jetstream b) None headers None None (key_subject b key) payload w))"

definition is_wrong_last_sequence :: "'x kv_error \<Rightarrow> bool" where
  "is_wrong_last_sequence error =
     (case error of
        Kv_jetstream (Api api) \<Rightarrow> ae_err_code api = Some 10071 \<or> ae_err_code api = Some 10164
      | _ \<Rightarrow> False)"

definition map_cas_error :: "int \<Rightarrow> 'x kv_error \<Rightarrow> 'x kv_error" where
  "map_cas_error expected error = (if is_wrong_last_sequence error then Revision_mismatch expected else error)"

definition cas_result :: "int option \<Rightarrow> 'x kv_error + int \<Rightarrow> 'x kv_error + int" where
  "cas_result expected r =
     (case r of
        Inr sequence \<Rightarrow> Inr sequence
      | Inl error \<Rightarrow> (case expected of Some n \<Rightarrow> Inl (map_cas_error n error) | None \<Rightarrow> Inl error))"

definition kv_put :: "('x, 'w) bucket \<Rightarrow> string \<Rightarrow> string \<Rightarrow> 'w \<Rightarrow> (('x kv_error + int) \<times> 'w) option" where
  "kv_put b key payload w = kv_publish b key None None None payload w"

definition update_with_ttl ::
  "nat option \<Rightarrow> ('x, 'w) bucket \<Rightarrow> string \<Rightarrow> int \<Rightarrow> string \<Rightarrow> 'w \<Rightarrow> (('x kv_error + int) \<times> 'w) option" where
  "update_with_ttl ttl b key revision payload w =
     (if revision \<le> 0 then Some (Inl (Invalid_revision revision), w)
      else map_option (\<lambda>(r, w'). (cas_result (Some revision) r, w'))
        (kv_publish b key (Some revision) None ttl payload w))"

definition kv_update ::
  "('x, 'w) bucket \<Rightarrow> string \<Rightarrow> int \<Rightarrow> string \<Rightarrow> 'w \<Rightarrow> (('x kv_error + int) \<times> 'w) option" where
  "kv_update b key revision payload w = update_with_ttl None b key revision payload w"

definition create_again ::
  "nat option \<Rightarrow> ('x, 'w) bucket \<Rightarrow> string \<Rightarrow> string \<Rightarrow> 'x kv_error \<Rightarrow> 'w \<Rightarrow> (('x kv_error + int) \<times> 'w) option" where
  "create_again ttl b key payload error w =
     (case read_last b key w of
        (Inr entry, w') \<Rightarrow>
          (case en_operation entry of
             Put \<Rightarrow> Some (Inl Key_exists, w')
           | _ \<Rightarrow> update_with_ttl ttl b key (en_revision entry) payload w')
      | (Inl Key_not_found, w') \<Rightarrow> Some (Inl error, w')
      | (Inl other, w') \<Rightarrow> Some (Inl other, w'))"

definition create_key ::
  "nat option \<Rightarrow> ('x, 'w) bucket \<Rightarrow> string \<Rightarrow> string \<Rightarrow> 'w \<Rightarrow> (('x kv_error + int) \<times> 'w) option" where
  "create_key ttl b key payload w =
     (case kv_publish b key (Some 0) None ttl payload w of
        None \<Rightarrow> None
      | Some (Inr sequence, w') \<Rightarrow> Some (Inr sequence, w')
      | Some (Inl error, w') \<Rightarrow>
          if is_wrong_last_sequence error then create_again ttl b key payload error w' else Some (Inl error, w'))"

definition kv_delete ::
  "int option \<Rightarrow> ('x, 'w) bucket \<Rightarrow> string \<Rightarrow> 'w \<Rightarrow> (('x kv_error + int) \<times> 'w) option" where
  "kv_delete expected b key w =
     map_option (\<lambda>(r, w'). (cas_result expected r, w')) (kv_publish b key expected (Some Delete) None [] w)"

definition kv_purge ::
  "int option \<Rightarrow> nat option \<Rightarrow> ('x, 'w) bucket \<Rightarrow> string \<Rightarrow> 'w \<Rightarrow> (('x kv_error + int) \<times> 'w) option" where
  "kv_purge expected marker_ttl b key w =
     (if marker_ttl = Some 0 then Some (Inl Invalid_marker_ttl, w)
      else map_option (\<lambda>(r, w'). (cas_result expected r, w'))
        (kv_publish b key expected (Some Purge) marker_ttl [] w))"

section \<open>Filters and deliveries\<close>

fun invalid_token :: "string list \<Rightarrow> 'x kv_error option" where
  "invalid_token [] = None"
| "invalid_token (token # tokens) =
     (if token = ''*'' \<or> token = ''>'' then invalid_token tokens
      else case key_of_string token of
        Inr _ \<Rightarrow> invalid_token tokens
      | Inl reason \<Rightarrow> Some (Invalid_key token reason))"

definition make_filter :: "('x, 'w) bucket \<Rightarrow> string option \<Rightarrow> 'x kv_error + string" where
  "make_filter b given =
     (let pattern = (case given of None \<Rightarrow> ''>'' | Some pattern \<Rightarrow> pattern) in
      case filter_of_string (''$KV.'' @ bk_bucket b @ ''.'' @ pattern) of
        Inl reason \<Rightarrow> Inl (Invalid_filter pattern reason)
      | Inr filtr \<Rightarrow>
          (case invalid_token (split_on CHR ''.'' pattern) of None \<Rightarrow> Inr filtr | Some error \<Rightarrow> Inl error))"

fun filters_of :: "('x, 'w) bucket \<Rightarrow> string list \<Rightarrow> 'x kv_error + string list" where
  "filters_of b [] = Inr []"
| "filters_of b (pattern # patterns) =
     then_result (make_filter b (Some pattern)) (\<lambda>filtr.
     then_result (filters_of b patterns) (\<lambda>filters. Inr (filtr # filters)))"

definition make_filters :: "('x, 'w) bucket \<Rightarrow> string list \<Rightarrow> 'x kv_error + string list" where
  "make_filters b patterns = filters_of b (if patterns = [] then [''>''] else patterns)"

text \<open>A message a consumer delivers (\<open>Jetstream.Msg\<close>).\<close>

record js_msg =
  jm_subject :: string
  jm_headers :: header
  jm_payload :: string
  jm_stream_sequence :: int
  jm_timestamp :: int
  jm_num_pending :: int

definition timestamp_of_nanoseconds :: "int \<Rightarrow> 'x kv_error + string" where
  "timestamp_of_nanoseconds v = (if v < 0 then Inl (Invalid_timestamp v) else Inr (timestamp_text v))"

definition key_of_delivery :: "('x, 'w) bucket \<Rightarrow> js_msg \<Rightarrow> 'x kv_error + string" where
  "key_of_delivery b m =
     (let subj = jm_subject m;
          prefix = ''$KV.'' @ bk_bucket b @ ''.'';
          prefix_length = length prefix in
      if length subj \<le> prefix_length \<or> take prefix_length subj \<noteq> prefix then Inl (Invalid_message_subject subj)
      else
        (let key = sub subj prefix_length (length subj - prefix_length) in
         case key_of_string key of Inr key \<Rightarrow> Inr key | Inl reason \<Rightarrow> Inl (Invalid_key key reason)))"

definition entry_of_delivery :: "('x, 'w) bucket \<Rightarrow> js_msg \<Rightarrow> 'x kv_error + stored_entry" where
  "entry_of_delivery b m =
     then_result (key_of_delivery b m) (\<lambda>key.
     then_result (operation_of_headers (jm_headers m)) (\<lambda>operation.
     then_result (timestamp_of_nanoseconds (jm_timestamp m)) (\<lambda>timestamp.
     Inr \<lparr>en_bucket = bk_bucket b, en_key = key, en_value = jm_payload m, en_revision = jm_stream_sequence m,
       en_timestamp = timestamp, en_operation = operation\<rparr>)))"

end
