(* ===== verification/KeyValueProps.thy ===== *)
theory KeyValueProps
  imports KeyValue GoDuration
begin

text \<open>
  What the Key-Value client promises whatever the server does: keys and subjects, the headers a
  write carries, the time stamps of deliveries, filters.
\<close>

section \<open>Accepted buckets and keys\<close>

definition valid_bucket :: "string \<Rightarrow> bool" where
  "valid_bucket bucket \<longleftrightarrow> bucket \<noteq> [] \<and> (\<forall>c \<in> set bucket. allowed_bucket_character c)"

definition valid_key :: "string \<Rightarrow> bool" where
  "valid_key key \<longleftrightarrow> (\<forall>c \<in> set key. allowed_key_character c) \<and> (\<forall>t \<in> set (split_on CHR ''.'' key). t \<noteq> [])"

lemma validate_bucket_None [check_simps]: "validate_bucket bucket = None \<longleftrightarrow> valid_bucket bucket"
proof -
  have "first_error (\<lambda>position c. if \<not> allowed_bucket_character c then Some (Invalid_bucket_character position c) else None)
      0 bucket = None \<longleftrightarrow> (\<forall>c \<in> set bucket. allowed_bucket_character c)"
    by (rule first_error_const_None) simp
  then show ?thesis by (simp add: validate_bucket_def valid_bucket_def)
qed

text \<open>No dot twice in a row, and none at the ends, is the same as no empty token.\<close>

fun no_double :: "bool \<Rightarrow> string \<Rightarrow> bool" where
  "no_double previous_dot [] = True"
| "no_double previous_dot (c # cs) = (\<not> (c = CHR ''.'' \<and> previous_dot) \<and> no_double (c = CHR ''.'') cs)"

lemma key_loop_None:
  "key_loop d p cs = None \<longleftrightarrow> (\<forall>c \<in> set cs. allowed_key_character c) \<and> no_double d cs"
  by (induction d p cs rule: key_loop.induct) auto

lemma no_double_tokens:
  "(\<forall>t \<in> set (tl (split_on CHR ''.'' cs)). t \<noteq> []) \<and> (d \<longrightarrow> hd (split_on CHR ''.'' cs) \<noteq> []) \<longleftrightarrow>
   no_double d cs \<and> (cs = [] \<longrightarrow> \<not> d) \<and> (cs \<noteq> [] \<longrightarrow> last cs \<noteq> CHR ''.'')"
proof (induction cs arbitrary: d)
  case (Cons c cs)
  obtain w ws where s: "split_on CHR ''.'' cs = w # ws" by (cases "split_on CHR ''.'' cs") auto
  show ?case using Cons.IH [of True] Cons.IH [of False] s by auto
qed simp

lemma validate_key_None [check_simps]: "validate_key key = None \<longleftrightarrow> valid_key key"
proof (cases key)
  case Nil
  then show ?thesis by (simp add: validate_key_def valid_key_def)
next
  case (Cons c cs)
  have "(\<forall>t \<in> set (split_on CHR ''.'' key). t \<noteq> []) \<longleftrightarrow> no_double True key \<and> last key \<noteq> CHR ''.''"
  proof -
    obtain w ws where s: "split_on CHR ''.'' key = w # ws" by (cases "split_on CHR ''.'' key") auto
    show ?thesis using no_double_tokens [of key True] Cons unfolding s by auto
  qed
  moreover have "key ! (length key - 1) = last key" using Cons by (simp add: last_conv_nth)
  ultimately show ?thesis
    using Cons by (auto simp: validate_key_def valid_key_def key_loop_None)
qed

lemma key_of_string_Inr: "key_of_string s = Inr key \<longleftrightarrow> key = s \<and> valid_key s"
  using validate_key_None [of s] by (auto simp: key_of_string_def split: option.splits)

lemma plain_characters:
  "allowed_bucket_character c \<Longrightarrow> plain c \<and> c \<noteq> CHR ''.''"
  "allowed_key_character c \<Longrightarrow> plain c"
  by (auto simp: allowed_bucket_character_def allowed_key_character_def letter_or_digit_def plain_def
      is_forbidden_character_def)

lemma split_on_subset: "t \<in> set (split_on c s) \<Longrightarrow> set t \<subseteq> set s"
proof (induction s arbitrary: t)
  case (Cons x s)
  obtain w ws where s: "split_on c s = w # ws" by (cases "split_on c s") auto
  then have "\<And>v. v \<in> set (w # ws) \<Longrightarrow> set v \<subseteq> set s" using Cons.IH by simp
  with Cons.prems s show ?case by (fastforce split: if_splits)
qed simp

lemma key_tokens_ok:
  assumes "valid_key key"
  shows "tokens_ok filtr (split_on CHR ''.'' key)"
proof -
  have "tokens_ok filtr ts" if "\<forall>t \<in> set ts. t \<noteq> [] \<and> list_all plain t" for ts
    using that by (induction ts) (auto simp: token_ok_def)
  moreover have "list_all plain t" if "t \<in> set (split_on CHR ''.'' key)" for t
  proof -
    have "set t \<subseteq> set key" using that by (rule split_on_subset)
    then show ?thesis using assms plain_characters by (auto simp: valid_key_def list_all_iff)
  qed
  ultimately show ?thesis using assms by (auto simp: valid_key_def)
qed

lemma split_key_subject:
  assumes "valid_bucket (bk_bucket b)"
  shows "split_on CHR ''.'' (key_subject b key) = ''$KV'' # bk_bucket b # split_on CHR ''.'' key"
proof -
  have "CHR ''.'' \<notin> set (bk_bucket b)" using assms plain_characters by (auto simp: valid_bucket_def)
  then show ?thesis
    using split_on_append [of "CHR ''.''" "''$KV''" "bk_bucket b @ ''.'' @ key"]
    by (simp add: key_subject_def)
qed

lemma bucket_token_ok: "valid_bucket bucket \<Longrightarrow> token_ok filtr final bucket"
  using plain_characters by (auto simp: valid_bucket_def token_ok_def list_all_iff)

lemma dollar_token: "token_ok filtr final ''$KV''"
  by (simp add: token_ok_def plain_def is_forbidden_character_def)

lemma key_subject_valid:
  assumes "valid_bucket (bk_bucket b)" and "valid_key key"
  shows "valid_subject filtr (key_subject b key)"
proof -
  have "tokens_ok filtr (split_on CHR ''.'' (key_subject b key))"
    unfolding split_key_subject [OF assms(1)]
    using bucket_token_ok [OF assms(1)] key_tokens_ok [OF assms(2)]
    by (simp add: dollar_token)
  then show ?thesis by (simp add: valid_subject_def key_subject_def)
qed

lemma key_of_delivery_subject:
  assumes "valid_key key" and "jm_subject m = key_subject b key"
  shows "key_of_delivery b m = Inr key"
proof -
  let ?prefix = "''$KV.'' @ bk_bucket b @ ''.''"
  have ne: "key \<noteq> []" using assms(1) by (auto simp: valid_key_def)
  have "jm_subject m = ?prefix @ key" using assms(2) by (simp add: key_subject_def)
  moreover have "sub (?prefix @ key) (length ?prefix) (length (?prefix @ key) - length ?prefix) = key"
    using sub_append_right [of ?prefix key] by simp
  ultimately show ?thesis
    using ne assms(1) key_of_string_Inr [of key key] unfolding key_of_delivery_def Let_def by (auto split: sum.splits)
qed

lemma key_of_delivery_Inr:
  assumes "key_of_delivery b m = Inr key"
  shows "valid_key key \<and> jm_subject m = key_subject b key"
proof -
  let ?prefix = "''$KV.'' @ bk_bucket b @ ''.''"
  have t: "take (length ?prefix) (jm_subject m) = ?prefix"
    and k: "key_of_string (sub (jm_subject m) (length ?prefix) (length (jm_subject m) - length ?prefix)) = Inr key"
    using assms unfolding key_of_delivery_def Let_def by (auto split: if_splits sum.splits)
  have "sub (jm_subject m) (length ?prefix) (length (jm_subject m) - length ?prefix) = drop (length ?prefix) (jm_subject m)"
    by (simp add: sub_def)
  with k have key: "key = drop (length ?prefix) (jm_subject m)" and v: "valid_key key"
    by (auto simp: key_of_string_Inr)
  have "jm_subject m = take (length ?prefix) (jm_subject m) @ key" using key by simp
  also have "\<dots> = ?prefix @ key" unfolding t ..
  finally show ?thesis using v by (simp add: key_subject_def)
qed

text \<open>
  C39: Keys and subjects correspond exactly. The subject of an accepted key of an accepted
  bucket is a valid subject, so building it never raises; the message a consumer delivers is
  read as the key whose subject it has, and as no key when its subject is not one of the
  bucket's. Different keys of one bucket have different subjects.
\<close>

theorem keys_are_subjects:
  assumes "kv_bind js bucket = Inr b"
  shows "(key_of_string s = Inr key \<longrightarrow> key = s \<and> subject_of_string (key_subject b key) = Inr (key_subject b key)) \<and>
     (key_of_delivery b m = Inr key \<longleftrightarrow> key_of_string key = Inr key \<and> jm_subject m = key_subject b key) \<and>
     (key_subject b key = key_subject b key' \<longleftrightarrow> key = key')"
proof -
  have "bk_bucket b = bucket" "valid_bucket bucket"
    using assms validate_bucket_None [of bucket]
    by (auto simp: kv_bind_def bucket_config_v_def default_config_def split: sum.splits option.splits if_splits)
  then have vb: "valid_bucket (bk_bucket b)" by simp
  have "key_of_string s = Inr key \<longrightarrow> key = s \<and> subject_of_string (key_subject b key) = Inr (key_subject b key)"
    using key_subject_valid [OF vb, of key False] validate_accepts(1) by (auto simp: key_of_string_Inr)
  moreover have "key_of_delivery b m = Inr key \<longleftrightarrow> key_of_string key = Inr key \<and> jm_subject m = key_subject b key"
    using key_of_delivery_subject [of key m b] key_of_delivery_Inr [of b m key] by (auto simp: key_of_string_Inr)
  moreover have "key_subject b key = key_subject b key' \<longleftrightarrow> key = key'" by (simp add: key_subject_def)
  ultimately show ?thesis by blast
qed

definition silent_jetstream :: "(unit, unit) jetstream" where
  "silent_jetstream = \<lparr>
     js_link = \<lparr>request_msg = (\<lambda>timeout m w. (Inl Disconnected, w)), link_now = (\<lambda>w. 0), sleep_until = (\<lambda>d w. w)\<rparr>,
     js_prefix = ''$JS.API'', js_span_string = show_nat, js_decode_publish = (\<lambda>s. Inl ()), js_encode_get = (\<lambda>n. Inl ()),
     js_encode_purge = (\<lambda>r. Inl ()), js_decode_purge = (\<lambda>s. Inl ())\<rparr>"

theorem keys_are_subjects_witness:
  "\<exists>b :: (unit, unit) bucket. kv_bind silent_jetstream ''B-1'' = Inr b \<and>
     subject_of_string (key_subject b ''a.b/c'') = Inr ''$KV.B-1.a.b/c'' \<and>
     key_of_delivery b \<lparr>jm_subject = ''$KV.B-1.a.b/c'', jm_headers = [], jm_payload = [], jm_stream_sequence = 1,
       jm_timestamp = 0, jm_num_pending = 0\<rparr> = Inr ''a.b/c''"
proof -
  have "bucket_config_v (default_config ''B-1'' :: unit bucket_config) = Inr (default_config ''B-1'')"
    by (simp add: bucket_config_v_def default_config_def validate_bucket_def validate_limit_def normalize_limit_def
        normalize_span_def allowed_bucket_character_def letter_or_digit_def)
  moreover have "stream_bind (kv_stream_name ''B-1'') = (Inr ''KV_B-1'' :: unit js_error + string)"
    by (simp add: stream_bind_def kv_stream_name_def validate_stream_name_def allowed_name_character_def)
  ultimately have b: "kv_bind silent_jetstream ''B-1'' = Inr (\<lparr>bk_jetstream = silent_jetstream, bk_stream = ''KV_B-1'', bk_bucket = ''B-1''\<rparr> :: (unit, unit) bucket)"
    by (simp add: kv_bind_def)
  have k: "key_of_string ''a.b/c'' = Inr ''a.b/c''"
    by (simp add: key_of_string_def validate_key_def allowed_key_character_def letter_or_digit_def)
  show ?thesis
    using keys_are_subjects [OF b, of "''a.b/c''" "''a.b/c''" "\<lparr>jm_subject = ''$KV.B-1.a.b/c'', jm_headers = [], jm_payload = [],
       jm_stream_sequence = 1, jm_timestamp = 0, jm_num_pending = 0\<rparr>"] b k
    by (simp add: key_subject_def)
qed

section \<open>The headers of a write\<close>

lemma header_find_simps [simp]:
  "header_find name [] = None"
  "header_find name (e # headers) =
     (case header_find name headers of
        Some v \<Rightarrow> Some v
      | None \<Rightarrow> if lowercase_ascii name = lowercase_ascii (e_name e) then Some (e_value e) else None)"
  by (auto simp: header_find_def header_find_all_def Let_def find_all_eq split: list.splits)

lemma lowercase_names:
  "lowercase_ascii ''KV-Operation'' = ''kv-operation''"
  "lowercase_ascii ''Nats-Rollup'' = ''nats-rollup''"
  "lowercase_ascii ''Nats-TTL'' = ''nats-ttl''"
  "lowercase_ascii ''Nats-Expected-Last-Subject-Sequence'' = ''nats-expected-last-subject-sequence''"
  by code_simp+

lemma header_add_valid:
  "valid_name name \<Longrightarrow> valid_value v \<Longrightarrow> header_add name v headers = Inr (\<lparr>e_name = name, e_value = v\<rparr> # headers)"
  using validate_entry_None [of name v] by (simp add: header_add_def)

lemma valid_names:
  "valid_name ''KV-Operation''" "valid_name ''Nats-Rollup''" "valid_name ''Nats-TTL''"
  "valid_name ''Nats-Expected-Last-Subject-Sequence''"
  by (simp_all add: valid_name_def invalid_name_character_def)

lemma valid_value_literals: "valid_value ''DEL''" "valid_value ''PURGE''" "valid_value ''sub''"
  by (simp_all add: valid_value_def invalid_value_character_def)

lemma valid_value_show_int: "valid_value (show_int i)" "valid_value (show_int i @ ''ns'')"
proof -
  have "\<not> invalid_value_character c" if "c \<in> set (show_nat n)" for c n
    using show_nat_digits [OF that] by (auto simp: invalid_value_character_def is_digit_def)
  then show "valid_value (show_int i)" "valid_value (show_int i @ ''ns'')"
    by (auto simp: valid_value_def show_int_def invalid_value_character_def)
qed

lemma write_headers_eq:
  "write_headers expected operation ttl =
     (if \<exists>n. expected = Some n \<and> n < 0 then Inl (Invalid_revision (the expected))
      else if ttl = Some 0 then Inl Invalid_key_ttl
      else Inr ((case ttl of None \<Rightarrow> [] | Some span \<Rightarrow> [\<lparr>e_name = ''Nats-TTL'', e_value = ttl_header_value span\<rparr>]) @
        (case operation of
           Some Delete \<Rightarrow> [\<lparr>e_name = ''KV-Operation'', e_value = ''DEL''\<rparr>]
         | Some Purge \<Rightarrow> [\<lparr>e_name = ''Nats-Rollup'', e_value = ''sub''\<rparr>, \<lparr>e_name = ''KV-Operation'', e_value = ''PURGE''\<rparr>]
         | _ \<Rightarrow> []) @
        (case expected of
           None \<Rightarrow> []
         | Some n \<Rightarrow> [\<lparr>e_name = ''Nats-Expected-Last-Subject-Sequence'', e_value = show_int n\<rparr>])))"
  by (auto simp: write_headers_def then_result_def expected_headers_def operation_headers_def ttl_headers_def kv_header_def
      header_add_valid valid_names valid_value_literals valid_value_show_int ttl_header_value_def
      split: option.splits kv_operation.splits)

text \<open>
  The headers of a write say what was asked, and the other side reads it back: the
  operation is the one a reader of the entry finds, the expected revision and the time to live
  are present exactly when given, and the Go peer's parser reads the very number of nanoseconds.
  A write is refused for a negative revision or a zero time to live and for nothing else.
\<close>

theorem write_headers_read_back:
  "case write_headers expected operation ttl of
     Inl error \<Rightarrow>
       (\<exists>n. expected = Some n \<and> n < 0 \<and> error = Invalid_revision n) \<or> (ttl = Some 0 \<and> error = Invalid_key_ttl)
   | Inr headers \<Rightarrow>
       wf_header headers \<and>
       operation_of_headers headers = Inr (case operation of None \<Rightarrow> Put | Some v \<Rightarrow> v) \<and>
       header_find ''Nats-Expected-Last-Subject-Sequence'' headers = map_option show_int expected \<and>
       header_find ''Nats-TTL'' headers = map_option ttl_header_value ttl \<and>
       (header_find ''Nats-Rollup'' headers = (if operation = Some Purge then Some ''sub'' else None)) \<and>
       (case ttl of
          None \<Rightarrow> True
        | Some span \<Rightarrow> span < 2 ^ 63 \<longrightarrow> ParseDuration fraction (ttl_header_value span) = Inr (int span))"
proof -
  have ttl_read: "ParseDuration fraction (ttl_header_value span) = Inr (int span)" if "span < 2 ^ 63" for span
  proof -
    have "wrap64 (int span) = int span" using that by (intro wrap64_id) auto
    then show ?thesis
      using ParseDuration_ns [of span fraction] that by (simp add: ttl_header_value_def show_int_def duration_limit_def)
  qed
  have wf: "valid_value (ttl_header_value span)" for span by (simp add: ttl_header_value_def valid_value_show_int)
  show ?thesis
    unfolding write_headers_eq
    by (cases expected; cases ttl; cases operation)
      (auto simp: lowercase_names operation_of_headers_def wf_header_def valid_names valid_value_literals
        valid_value_show_int wf ttl_read split: kv_operation.splits)
qed

theorem write_headers_read_back_witness:
  "\<exists>headers. write_headers (Some 3) (Some Delete) (Some 1500) = (Inr headers :: unit kv_error + header) \<and>
     operation_of_headers headers = (Inr Delete :: unit kv_error + kv_operation) \<and>
     ParseDuration (\<lambda>_ _ _. 0) (ttl_header_value 1500) = Inr 1500"
proof -
  obtain headers where h: "write_headers (Some 3) (Some Delete) (Some 1500) = (Inr headers :: unit kv_error + header)"
    by (simp add: write_headers_eq)
  show ?thesis
    using write_headers_read_back [where expected = "Some 3" and operation = "Some Delete" and ttl = "Some 1500"
        and fraction = "\<lambda>_ _ _. 0" and ?'a = unit and ?'b = unit] h by simp
qed

text \<open>A span of 292 years or more wraps to a negative number, which no server accepts.\<close>

lemma ttl_header_value_wraps: "ttl_header_value (2 ^ 63) = ''-'' @ show_nat (2 ^ 63) @ ''ns''"
  by (simp add: ttl_header_value_def wrap64_def show_int_def)

section \<open>Deliveries\<close>

text \<open>
  C38: The time stamp of a delivered entry is the calendar's: for every 64-bit number of
  nanoseconds the date printed is the one reached from 1970-01-01 by going to the next day as
  often as whole days have passed, and the time of day is what is left; a negative number is
  refused. No intermediate result of the 64-bit arithmetic wraps.
\<close>

theorem timestamps_follow_calendar:
  assumes "v < 2 ^ 63"
  shows "timestamp_of_nanoseconds v =
     (if v < 0 then Inl (Invalid_timestamp v)
      else Inr (rfc3339 (date (nat (v div (86400 * 10 ^ 9)))) (v mod (86400 * 10 ^ 9))))"
proof (cases "v < 0")
  case False
  then show ?thesis using timestamp_text_calendar [of v] assms by (simp add: timestamp_of_nanoseconds_def)
qed (simp add: timestamp_of_nanoseconds_def)

text \<open>One leap day: day 789 is the 29th of February 1972.\<close>

theorem timestamps_follow_calendar_witness:
  "timestamp_of_nanoseconds (789 * 86400 * 10 ^ 9 + 1) =
     (Inr (rfc3339 (date 789) 1) :: unit kv_error + string)"
proof -
  have "789 * 86400 * 10 ^ 9 + 1 < (2 ^ 63 :: int)" by simp
  from timestamps_follow_calendar [OF this, where ?'a = unit] show ?thesis by simp
qed

end
