(* ===== verification/KeyValueCas.thy ===== *)
theory KeyValueCas
  imports KeyValueProps "HOL-Library.Sublist"
begin

text \<open>
  Compare-and-set on a bucket other clients write to at the same time. A stream is the log of what
  its leader did, in order: a message appended, a publication refused, a subject cleared by a
  purge or by age. Others may extend the log at any moment; a direct read may be answered by a
  replica that is behind.
\<close>

section \<open>The stream, as its server documents it\<close>

datatype stream_event =
    Appended int message
  | Refused message
  | Cleared string

fun last_step :: "string \<Rightarrow> (int \<times> message) option \<Rightarrow> stream_event \<Rightarrow> (int \<times> message) option" where
  "last_step s prev (Appended n m) = (if m_subject m = s then Some (n, m) else prev)"
| "last_step s prev (Refused m) = prev"
| "last_step s prev (Cleared s') = (if s' = s then None else prev)"

definition last_on :: "string \<Rightarrow> stream_event list \<Rightarrow> (int \<times> message) option" where
  "last_on s events = foldl (last_step s) None events"

definition revision_on :: "string \<Rightarrow> stream_event list \<Rightarrow> int" where
  "revision_on s events = (case last_on s events of None \<Rightarrow> 0 | Some (n, m) \<Rightarrow> n)"

definition sequences :: "stream_event list \<Rightarrow> int list" where
  "sequences events = concat (map (\<lambda>e. case e of Appended n m \<Rightarrow> [n] | _ \<Rightarrow> []) events)"

text \<open>The header by which a publication names the revision it expects its subject to have.\<close>

definition expects :: "message \<Rightarrow> stream_event list \<Rightarrow> bool" where
  "expects m events \<longleftrightarrow>
     (case header_find ''Nats-Expected-Last-Subject-Sequence'' (m_headers m) of
        None \<Rightarrow> True
      | Some v \<Rightarrow> v = show_int (revision_on (m_subject m) events))"

text \<open>
  What an answer to a publication entails: an acknowledgement means that the message was
  appended when the revision was the expected one; the codes 10071 and 10164 that it was
  refused because it was not. Other errors and unreadable answers entail nothing.
\<close>

definition publish_answer ::
  "('x, 'w) jetstream \<Rightarrow> message \<Rightarrow> message \<Rightarrow> stream_event list \<Rightarrow> stream_event list \<Rightarrow> bool" where
  "publish_answer js m reply before after \<longleftrightarrow>
     (case js_decode_publish js (m_payload reply) of
        Inl error \<Rightarrow> True
      | Inr r \<Rightarrow>
          (case pb_error r of
             None \<Rightarrow> (case pb_sequence r of
                 None \<Rightarrow> True
               | Some n \<Rightarrow> \<exists>p q. after = p @ Appended n m # q \<and> prefix before p \<and> expects m p)
           | Some api \<Rightarrow>
               ae_err_code api \<in> {Some 10071, Some 10164} \<longrightarrow>
                 (\<exists>p q. after = p @ Refused m # q \<and> prefix before p \<and> \<not> expects m p)))"

definition get_last_message :: "('x, 'w) jetstream \<Rightarrow> string \<Rightarrow> string \<Rightarrow> message" where
  "get_last_message js stream s = message_v (api_subject js [''DIRECT'', ''GET'', stream, s]) [] []"

text \<open>
  What an answer to a direct read of a subject's last message entails: it is the last one of
  some state the stream was in, with its sequence and its operation in the headers.
\<close>

definition read_answer :: "string \<Rightarrow> string \<Rightarrow> message \<Rightarrow> stream_event list \<Rightarrow> bool" where
  "read_answer stream s reply after \<longleftrightarrow>
     m_headers reply = [] \<and> m_payload reply = [] \<or>
     (\<exists>p n m. prefix p after \<and> last_on s p = Some (n, m) \<and>
        header_find ''Nats-Sequence'' (m_headers reply) = Some (show_int n) \<and>
        header_find ''KV-Operation'' (m_headers reply) = header_find ''KV-Operation'' (m_headers m) \<and>
        m_payload reply = m_payload m)"

definition stream_server ::
  "('x, 'w) jetstream \<Rightarrow> string \<Rightarrow> (string \<Rightarrow> bool) \<Rightarrow> ('w \<Rightarrow> stream_event list) \<Rightarrow> bool" where
  "stream_server js stream captures log \<longleftrightarrow>
     (\<forall>timeout m w. prefix (log w) (log (snd (request_msg (js_link js) timeout m w)))) \<and>
     (\<forall>d w. prefix (log w) (log (sleep_until (js_link js) d w))) \<and>
     (\<forall>w. distinct (sequences (log w)) \<and> (\<forall>n \<in> set (sequences (log w)). 0 < n \<and> n < 2 ^ 63)) \<and>
     (\<forall>timeout m w reply w'. captures (m_subject m) \<longrightarrow> request_msg (js_link js) timeout m w = (Inr reply, w') \<longrightarrow>
        publish_answer js m reply (log w) (log w')) \<and>
     (\<forall>timeout s w reply w'. captures s \<longrightarrow>
        request_msg (js_link js) timeout (get_last_message js stream s) w = (Inr reply, w') \<longrightarrow>
        read_answer stream s reply (log w'))"

section \<open>Logs\<close>

lemma last_on_append:
  "last_on s (p @ q) = foldl (last_step s) (last_on s p) q"
  by (simp add: last_on_def)

lemma last_on_appended: "last_on s p = Some (n, m) \<Longrightarrow> \<exists>a b. p = a @ Appended n m # b \<and> m_subject m = s"
proof (induction p rule: rev_induct)
  case (snoc e p)
  show ?case
  proof (cases "last_on s p = Some (n, m)")
    case True
    then obtain a b where "p = a @ Appended n m # b" "m_subject m = s" using snoc.IH by blast
    then show ?thesis by (intro exI [of _ a] exI [of _ "b @ [e]"]) simp
  next
    case False
    then show ?thesis using snoc.prems by (cases e) (auto simp: last_on_def split: if_splits)
  qed
qed (simp add: last_on_def)

lemma sequences_append [simp]:
  "sequences (p @ q) = sequences p @ sequences q" "sequences (Appended n m # q) = n # sequences q" "sequences [] = []"
  by (simp_all add: sequences_def)

text \<open>Sequence numbers are given once, so a number names one message of the log.\<close>

lemma appended_unique:
  assumes "distinct (sequences log)" "log = a @ Appended n m # b" "log = a' @ Appended n m' # b'"
  shows "m = m'"
proof -
  from assms(2,3) have eq: "a @ Appended n m # b = a' @ Appended n m' # b'" by simp
  from eq consider us where "a = a' @ us" "us @ Appended n m # b = Appended n m' # b'"
    | us where "a @ us = a'" "Appended n m # b = us @ Appended n m' # b'"
    by (auto simp: append_eq_append_conv2)
  then show ?thesis
  proof cases
    case 1
    show ?thesis
    proof (cases us)
      case (Cons e es)
      then have "n \<in> set (sequences a)" using 1 by auto
      then show ?thesis using assms(1,2) by auto
    qed (use 1 in simp)
  next
    case 2
    show ?thesis
    proof (cases us)
      case (Cons e es)
      then have "n \<in> set (sequences a')" using 2 by auto
      then show ?thesis using assms(1,3) by auto
    qed (use 2 in simp)
  qed
qed

lemma last_on_same_revision:
  assumes "distinct (sequences log)" and "prefix p log" "prefix p' log"
    and "last_on s p = Some (n, m)" "last_on s p' = Some (n, m')"
  shows "m = m'"
proof -
  obtain a b where "p = a @ Appended n m # b" using last_on_appended assms(4) by blast
  then obtain b1 where l: "log = a @ Appended n m # b1" using assms(2) by (auto simp: prefix_def)
  obtain a' b' where "p' = a' @ Appended n m' # b'" using last_on_appended assms(5) by blast
  then obtain b2 where "log = a' @ Appended n m' # b2" using assms(3) by (auto simp: prefix_def)
  with l show ?thesis using appended_unique assms(1) by blast
qed

lemma show_int_inj: "0 \<le> i \<Longrightarrow> 0 \<le> j \<Longrightarrow> show_int i = show_int j \<Longrightarrow> i = j"
  using show_nat_inj [of "nat i" "nat j"] by (simp add: show_int_def)

lemma revision_on_nonneg:
  assumes "\<forall>n \<in> set (sequences p). 0 < n"
  shows "0 \<le> revision_on s p" and "revision_on s p = 0 \<longleftrightarrow> last_on s p = None"
    and "last_on s p = Some (n, m) \<Longrightarrow> revision_on s p = n"
proof -
  have "0 < n" if "last_on s p = Some (n, m)" for n m
    using last_on_appended [OF that] assms by (auto simp: sequences_def)
  then show "0 \<le> revision_on s p" "revision_on s p = 0 \<longleftrightarrow> last_on s p = None"
    "last_on s p = Some (n, m) \<Longrightarrow> revision_on s p = n"
    by (fastforce simp: revision_on_def split: option.splits)+
qed

lemma sequences_prefix: "prefix p q \<Longrightarrow> set (sequences p) \<subseteq> set (sequences q)"
  by (auto simp: prefix_def)

section \<open>What a write did\<close>

definition operation_read :: "header \<Rightarrow> kv_operation option" where
  "operation_read headers =
     (case header_find ''KV-Operation'' headers of
        None \<Rightarrow> Some Put
      | Some v \<Rightarrow> if v = ''DEL'' then Some Delete else if v = ''PURGE'' then Some Purge else None)"

lemma operation_of_headers_read: "operation_of_headers headers = Inr op \<longleftrightarrow> operation_read headers = Some op"
  by (auto simp: operation_of_headers_def operation_read_def split: option.splits)

text \<open>The message of a write: its subject, its payload and the operation it stands for.\<close>

definition writes :: "string \<Rightarrow> kv_operation \<Rightarrow> string \<Rightarrow> message \<Rightarrow> bool" where
  "writes s op payload m \<longleftrightarrow> m_subject m = s \<and> m_payload m = payload \<and> operation_read (m_headers m) = Some op"

text \<open>
  Between two states of the log, the write was appended with revision \<open>n\<close> at a moment when \<open>P\<close>
  held of the log; or it was refused at a moment when \<open>P\<close> held.
\<close>

definition appended_when ::
  "(stream_event list \<Rightarrow> bool) \<Rightarrow> string \<Rightarrow> kv_operation \<Rightarrow> string \<Rightarrow> int \<Rightarrow> stream_event list \<Rightarrow> stream_event list \<Rightarrow> bool" where
  "appended_when P s op payload n before after \<longleftrightarrow>
     (\<exists>p m q. after = p @ Appended n m # q \<and> prefix before p \<and> writes s op payload m \<and> P p)"

definition refused_when ::
  "(stream_event list \<Rightarrow> bool) \<Rightarrow> string \<Rightarrow> kv_operation \<Rightarrow> string \<Rightarrow> stream_event list \<Rightarrow> stream_event list \<Rightarrow> bool" where
  "refused_when P s op payload before after \<longleftrightarrow>
     (\<exists>p m q. after = p @ Refused m # q \<and> prefix before p \<and> writes s op payload m \<and> P p)"

lemma stream_serverD:
  assumes "stream_server js stream captures log"
  shows "prefix (log w) (log (snd (request_msg (js_link js) timeout m w)))"
    and "prefix (log w) (log (sleep_until (js_link js) d w))"
    and "distinct (sequences (log w))" and "n \<in> set (sequences (log w)) \<Longrightarrow> 0 < n \<and> n < 2 ^ 63"
    and "captures (m_subject m) \<Longrightarrow> request_msg (js_link js) timeout m w = (Inr reply, w') \<Longrightarrow>
           publish_answer js m reply (log w) (log w')"
    and "captures s \<Longrightarrow> request_msg (js_link js) timeout (get_last_message js stream s) w = (Inr reply, w') \<Longrightarrow>
           read_answer stream s reply (log w')"
  using assms unfolding stream_server_def by blast+

lemma publish_message_plain:
  "publish_message span_string headers None empty_options s payload = Inr (message_v s headers payload)"
  by (simp add: publish_message_def apply_publish_options_def validate_publish_options_def empty_options_def
      msg_id_headers_def option_headers_def)

lemma empty_options_fields: "po_stall_wait empty_options = None" "po_retry empty_options = None"
  by (simp_all add: empty_options_def)

lemma js_publish_served:
  assumes server: "stream_server js stream captures log" and "captures s"
  obtains r w' where "js_publish js None headers None None s payload w = Some (r, w')"
    and "prefix (log w) (log w')"
    and "\<And>ack. r = Inr ack \<Longrightarrow> \<exists>p q. log w' = p @ Appended (pa_sequence ack) (message_v s headers payload) # q \<and>
           prefix (log w) p \<and> expects (message_v s headers payload) p"
    and "\<And>api. r = Inl (Api api) \<Longrightarrow> ae_err_code api \<in> {Some 10071, Some 10164} \<Longrightarrow>
           \<exists>p q. log w' = p @ Refused (message_v s headers payload) # q \<and> prefix (log w) p \<and>
             \<not> expects (message_v s headers payload) p"
proof -
  let ?m = "message_v s headers payload" and ?t = "js_link js"
  let ?walk = "\<lambda>n w w'. prefix (log w) (log w')"
  have "walks ?t ?walk"
    using stream_serverD(1,2) [OF server] unfolding walks_def by (meson prefix_order.trans prefix_order.refl)
  then obtain r0 w' where req: "request_msg_retry ?t None (250 * 10 ^ 6) (Some 2) ?m w = Some (r0, w')"
    and out: "(\<exists>n. retry_outcome ?t (250 * 10 ^ 6) None ?walk n (nat 2 + 1) ?m w r0 w') \<or>
       w' = w \<and> (r0 = Inl Timeout \<or> (\<exists>m. r0 = Inl (Invalid_timeout m)))"
    using request_msg_retry_outcome [of ?t ?walk "250 * 10 ^ 6" 2 None ?m w] by auto
  define r where "r = (case r0 of Inl error \<Rightarrow> Inl (Connection_error error) | Inr reply \<Rightarrow> publish_ack_of_message js reply)"
  have pub: "js_publish js None headers None None s payload w = Some (r, w')"
    using req by (simp add: js_publish_def publish_message_plain default_publish_retry_def r_def empty_options_fields split: sum.split)
  have pre: "prefix (log w) (log w')" using out by (auto simp: retry_outcome_def)
  have ans: "\<exists>w1. prefix (log w) (log w1) \<and> publish_answer js ?m reply (log w1) (log w')" if "r0 = Inr reply" for reply
  proof -
    obtain timeout w1 where "prefix (log w) (log w1)" "request_msg ?t timeout ?m w1 = (Inr reply, w')"
      using out \<open>r0 = Inr reply\<close> by (auto simp: retry_outcome_def)
    then show ?thesis using stream_serverD(5) [OF server, of ?m timeout w1 reply w'] assms(2) by (auto simp: message_v_def)
  qed
  have acked: "\<exists>p q. log w' = p @ Appended (pa_sequence ack) ?m # q \<and> prefix (log w) p \<and> expects ?m p" if ack: "r = Inr ack" for ack
  proof -
    obtain reply where r0: "r0 = Inr reply" using ack by (auto simp: r_def split: sum.splits)
    obtain w1 where w1: "prefix (log w) (log w1)" "publish_answer js ?m reply (log w1) (log w')" using ans [OF r0] by blast
    have "publish_ack_of_message js reply = Inr ack" using ack r0 by (simp add: r_def)
    then obtain resp where "js_decode_publish js (m_payload reply) = Inr resp" "pb_error resp = None"
      "pb_sequence resp = Some (pa_sequence ack)"
      by (auto simp: publish_ack_of_message_def split: sum.splits option.splits)
    with w1 show ?thesis by (auto simp: publish_answer_def intro: prefix_order.trans)
  qed
  have refused: "\<exists>p q. log w' = p @ Refused ?m # q \<and> prefix (log w) p \<and> \<not> expects ?m p"
    if api: "r = Inl (Api api)" and code: "ae_err_code api \<in> {Some 10071, Some 10164}" for api
  proof -
    obtain reply where r0: "r0 = Inr reply" using api by (auto simp: r_def split: sum.splits)
    obtain w1 where w1: "prefix (log w) (log w1)" "publish_answer js ?m reply (log w1) (log w')" using ans [OF r0] by blast
    have "publish_ack_of_message js reply = Inl (Api api)" using api r0 by (simp add: r_def)
    then obtain resp where "js_decode_publish js (m_payload reply) = Inr resp" "pb_error resp = Some api"
      by (auto simp: publish_ack_of_message_def split: sum.splits option.splits)
    with w1 code show ?thesis by (fastforce simp: publish_answer_def intro: prefix_order.trans)
  qed
  show thesis using pub pre acked refused by (rule that)
qed

lemma operation_read_written:
  assumes "write_headers expected operation ttl = (Inr headers :: 'x kv_error + header)"
  shows "operation_read headers = Some (case operation of None \<Rightarrow> Put | Some v \<Rightarrow> v)"
    and "header_find ''Nats-Expected-Last-Subject-Sequence'' headers = map_option show_int expected"
    and "expected = Some n \<Longrightarrow> 0 \<le> n"
  using assms unfolding write_headers_eq
  by (auto simp: operation_read_def lowercase_names split: if_splits option.splits kv_operation.splits)

text \<open>Every write: what its answer says about the log.\<close>

lemma kv_publish_served:
  assumes server: "stream_server (bk_jetstream b) stream captures log" and cap: "captures (key_subject b key)"
  obtains r w' where "kv_publish b key expected operation ttl payload w = Some (r, w')"
    and "prefix (log w) (log w')"
    and "\<And>n. r = Inr n \<Longrightarrow> appended_when (\<lambda>p. \<forall>e. expected = Some e \<longrightarrow> revision_on (key_subject b key) p = e)
           (key_subject b key) (case operation of None \<Rightarrow> Put | Some v \<Rightarrow> v) payload n (log w) (log w')"
    and "\<And>error. r = Inl error \<Longrightarrow> is_wrong_last_sequence error \<Longrightarrow>
           refused_when (\<lambda>p. \<exists>e. expected = Some e \<and> revision_on (key_subject b key) p \<noteq> e)
             (key_subject b key) (case operation of None \<Rightarrow> Put | Some v \<Rightarrow> v) payload (log w) (log w')"
    and "\<And>error. r = Inl error \<Longrightarrow> (\<forall>e. error \<noteq> Revision_mismatch e) \<and> error \<noteq> Key_exists"
proof (cases "write_headers expected operation ttl :: 'a kv_error + header")
  case (Inl error)
  then have "\<not> is_wrong_last_sequence error" "(\<forall>e. error \<noteq> Revision_mismatch e) \<and> error \<noteq> Key_exists"
    by (auto simp: write_headers_eq is_wrong_last_sequence_def split: if_splits)
  with Inl show thesis by (intro that [of "Inl error" w]) (auto simp: kv_publish_def)
next
  case (Inr headers)
  let ?s = "key_subject b key" and ?js = "bk_jetstream b" and ?m = "message_v (key_subject b key) headers payload"
  let ?op = "case operation of None \<Rightarrow> Put | Some v \<Rightarrow> v"
  note hs = operation_read_written [OF Inr]
  have wr: "writes ?s ?op payload ?m" using hs(1) by (simp add: writes_def message_v_def)
  have pos: "0 \<le> revision_on ?s p" if "prefix p (log w1)" for p w1
    using sequences_prefix [OF that] stream_serverD(4) [OF server] by (intro revision_on_nonneg(1)) blast
  have exp: "expects ?m p \<longleftrightarrow> (\<forall>e. expected = Some e \<longrightarrow> revision_on ?s p = e)" if "prefix p (log w1)" for p w1
    using hs(2,3) pos [OF that] show_int_inj by (auto simp: expects_def message_v_def split: option.splits)
  obtain r0 w' where pub: "js_publish ?js None headers None None ?s payload w = Some (r0, w')"
    and pre: "prefix (log w) (log w')"
    and acked: "\<And>ack. r0 = Inr ack \<Longrightarrow> \<exists>p q. log w' = p @ Appended (pa_sequence ack) ?m # q \<and> prefix (log w) p \<and> expects ?m p"
    and refused: "\<And>api. r0 = Inl (Api api) \<Longrightarrow> ae_err_code api \<in> {Some 10071, Some 10164} \<Longrightarrow>
           \<exists>p q. log w' = p @ Refused ?m # q \<and> prefix (log w) p \<and> \<not> expects ?m p"
    using js_publish_served [OF server cap] by metis
  define r where "r = (case r0 of Inr ack \<Rightarrow> Inr (pa_sequence ack) | Inl error \<Rightarrow> Inl (map_jetstream_error error))"
  have "kv_publish b key expected operation ttl payload w = Some (r, w')"
    using pub Inr by (simp add: kv_publish_def r_def split: sum.split)
  moreover have "appended_when (\<lambda>p. \<forall>e. expected = Some e \<longrightarrow> revision_on ?s p = e) ?s ?op payload n (log w) (log w')"
    if n: "r = Inr n" for n
  proof -
    obtain ack where "r0 = Inr ack" "n = pa_sequence ack" using n by (auto simp: r_def split: sum.splits)
    then obtain p q where l: "log w' = p @ Appended n ?m # q" and pq: "prefix (log w) p" "expects ?m p" using acked by blast
    have "prefix p (log w')" using l by simp
    then show ?thesis using exp pq l wr unfolding appended_when_def by blast
  qed
  moreover have "refused_when (\<lambda>p. \<exists>e. expected = Some e \<and> revision_on ?s p \<noteq> e) ?s ?op payload (log w) (log w')"
    if e: "r = Inl error" "is_wrong_last_sequence error" for error
  proof -
    obtain api where "r0 = Inl (Api api)" "ae_err_code api \<in> {Some 10071, Some 10164}"
      using e by (auto simp: r_def map_jetstream_error_def is_wrong_last_sequence_def
          split: sum.splits js_error.splits kv_error.splits)
    then obtain p q where l: "log w' = p @ Refused ?m # q" and pq: "prefix (log w) p" "\<not> expects ?m p" using refused by blast
    have "prefix p (log w')" using l by simp
    then show ?thesis using exp pq l wr unfolding refused_when_def by blast
  qed
  moreover have "(\<forall>e. error \<noteq> Revision_mismatch e) \<and> error \<noteq> Key_exists" if "r = Inl error" for error
    using that by (auto simp: r_def map_jetstream_error_def split: sum.splits js_error.splits)
  ultimately show thesis using pre by (intro that) auto
qed

section \<open>Compare and set\<close>

text \<open>
  What the answer of a write with an expected revision entails. \<open>Revision_mismatch\<close> is the
  answer for a refusal when a revision was expected.
\<close>

definition cas_answer ::
  "string \<Rightarrow> kv_operation \<Rightarrow> string \<Rightarrow> int option \<Rightarrow> 'x kv_error + int \<Rightarrow> stream_event list \<Rightarrow> stream_event list \<Rightarrow> bool" where
  "cas_answer s op payload expected r before after \<longleftrightarrow>
     prefix before after \<and>
     (case r of
        Inr n \<Rightarrow> appended_when (\<lambda>p. \<forall>e. expected = Some e \<longrightarrow> revision_on s p = e) s op payload n before after
      | Inl (Revision_mismatch e) \<Rightarrow>
          expected = Some e \<and> refused_when (\<lambda>p. revision_on s p \<noteq> e) s op payload before after
      | Inl error \<Rightarrow> expected = None \<or> \<not> is_wrong_last_sequence error)"

lemma cas_result_answer:
  assumes "prefix before after"
    and "\<And>n. r = Inr n \<Longrightarrow> appended_when (\<lambda>p. \<forall>e. expected = Some e \<longrightarrow> revision_on s p = e) s op payload n before after"
    and "\<And>error. r = Inl error \<Longrightarrow> is_wrong_last_sequence error \<Longrightarrow>
           refused_when (\<lambda>p. \<exists>e. expected = Some e \<and> revision_on s p \<noteq> e) s op payload before after"
    and "\<And>error. r = Inl error \<Longrightarrow> \<forall>e. error \<noteq> Revision_mismatch e"
  shows "cas_answer s op payload expected (cas_result expected r) before after"
proof (cases r)
  case (Inr n)
  with assms(1,2) show ?thesis by (simp add: cas_answer_def cas_result_def)
next
  case (Inl error)
  show ?thesis
  proof (cases expected)
    case None
    with Inl assms(1,4) show ?thesis by (auto simp: cas_answer_def cas_result_def split: kv_error.splits)
  next
    case (Some e)
    show ?thesis
    proof (cases "is_wrong_last_sequence error")
      case True
      with assms(1) Inl Some show ?thesis
        using assms(3) [OF Inl True] by (auto simp: cas_answer_def cas_result_def map_cas_error_def)
    next
      case False
      with Inl Some assms(1,4) show ?thesis
        by (auto simp: cas_answer_def cas_result_def map_cas_error_def split: kv_error.splits)
    qed
  qed
qed

lemma kv_publish_cas:
  assumes "stream_server (bk_jetstream b) stream captures log" and "captures (key_subject b key)"
  shows "\<exists>r w'. kv_publish b key expected operation ttl payload w = Some (r, w') \<and>
     cas_answer (key_subject b key) (case operation of None \<Rightarrow> Put | Some v \<Rightarrow> v) payload expected (cas_result expected r)
       (log w) (log w')"
  by (rule kv_publish_served [OF assms, of expected operation ttl payload w], intro exI conjI, assumption, rule cas_result_answer)
    auto

text \<open>
  C21: Writes with an expected revision are compare-and-set, whatever other clients do at the same
  time. An update, delete or purge that answers with a revision was appended under that number
  at a moment when the key's last revision was the expected one; one that answers with a revision
  mismatch was refused at a moment when it was not. They always answer, also when requests are
  repeated because nobody responded; an answer with any other error leaves open whether the write
  was stored. A put expects nothing.
\<close>

theorem writes_compare_and_set:
  assumes "stream_server (bk_jetstream b) stream captures log" and "captures (key_subject b key)"
  shows "(\<exists>r w'. kv_update b key revision payload w = Some (r, w') \<and>
            (revision \<le> 0 \<and> r = Inl (Invalid_revision revision) \<or>
             cas_answer (key_subject b key) Put payload (Some revision) r (log w) (log w'))) \<and>
     (\<exists>r w'. kv_delete expected b key w = Some (r, w') \<and>
            cas_answer (key_subject b key) Delete [] expected r (log w) (log w')) \<and>
     (\<exists>r w'. kv_purge expected marker_ttl b key w = Some (r, w') \<and>
            (marker_ttl = Some 0 \<and> r = Inl Invalid_marker_ttl \<or>
             cas_answer (key_subject b key) Purge [] expected r (log w) (log w'))) \<and>
     (\<exists>r w'. kv_put b key payload w = Some (r, w') \<and>
            cas_answer (key_subject b key) Put payload None r (log w) (log w'))"
proof (intro conjI)
  note cas = kv_publish_cas [OF assms]
  show "\<exists>r w'. kv_update b key revision payload w = Some (r, w') \<and>
      (revision \<le> 0 \<and> r = Inl (Invalid_revision revision) \<or>
       cas_answer (key_subject b key) Put payload (Some revision) r (log w) (log w'))"
    using cas [of "Some revision" None None payload w] by (auto simp: kv_update_def update_with_ttl_def)
  show "\<exists>r w'. kv_delete expected b key w = Some (r, w') \<and>
      cas_answer (key_subject b key) Delete [] expected r (log w) (log w')"
    using cas [of expected "Some Delete" None "[]" w] by (auto simp: kv_delete_def)
  show "\<exists>r w'. kv_purge expected marker_ttl b key w = Some (r, w') \<and>
      (marker_ttl = Some 0 \<and> r = Inl Invalid_marker_ttl \<or>
       cas_answer (key_subject b key) Purge [] expected r (log w) (log w'))"
    using cas [of expected "Some Purge" marker_ttl "[]" w] by (auto simp: kv_purge_def)
  have "cas_result None r = r" for r :: "'a kv_error + int" by (auto simp: cas_result_def split: sum.split)
  then show "\<exists>r w'. kv_put b key payload w = Some (r, w') \<and>
      cas_answer (key_subject b key) Put payload None r (log w) (log w')"
    using cas [of None None None payload w] by (auto simp: kv_put_def)
qed

section \<open>Creation\<close>

lemma read_last_served:
  assumes server: "stream_server (bk_jetstream b) (bk_stream b) captures log" and cap: "captures (key_subject b key)"
    and read: "read_last b key w = (r, w')"
  shows "prefix (log w) (log w')"
    and "r = Inr entry \<Longrightarrow> \<exists>p m. prefix p (log w') \<and> last_on (key_subject b key) p = Some (en_revision entry, m) \<and>
           operation_read (m_headers m) = Some (en_operation entry)"
proof -
  let ?js = "bk_jetstream b" and ?s = "key_subject b key"
  let ?get = "get_last_message ?js (bk_stream b) ?s"
  obtain r0 w0 where q: "request_msg (js_link ?js) None ?get w = (r0, w0)" by force
  have r: "w' = w0" "r = read_result b key (case r0 of Inl error \<Rightarrow> Inl (Connection_error error)
      | Inr reply \<Rightarrow> stored_message (bk_stream b) reply)"
    using read q by (auto simp: read_last_def stream_get_last_def js_request_def get_last_message_def split: sum.splits)
  show "prefix (log w) (log w')" using stream_serverD(1) [OF server, of w None ?get] q r(1) by simp
  assume entry: "r = Inr entry"
  then obtain reply m where r0: "r0 = Inr reply" and st: "stored_message (bk_stream b) reply = (Inr m :: 'a js_error + stored)"
    and em: "entry_of_message b key m = Inr entry"
    using r(2) by (auto simp: read_result_def split: sum.splits js_error.splits)
  have ans: "read_answer (bk_stream b) ?s reply (log w')"
    using stream_serverD(6) [OF server cap, of None w reply w0] q r0 r(1) by simp
  have hd: "\<not> (m_headers reply = [] \<and> m_payload reply = [])" using st by (auto simp: stored_message_def)
  from ans hd obtain p n m0 where p: "prefix p (log w')" "last_on ?s p = Some (n, m0)"
    and sq: "header_find ''Nats-Sequence'' (m_headers reply) = Some (show_int n)"
    and op: "header_find ''KV-Operation'' (m_headers reply) = header_find ''KV-Operation'' (m_headers m0)"
    by (auto simp: read_answer_def)
  have "n \<in> set (sequences (log w'))"
    using last_on_appended [OF p(2)] sequences_prefix [OF p(1)] by auto
  then have "0 \<le> n" "n < 2 ^ 63" using stream_serverD(4) [OF server] by fastforce+
  then have ms: "message_sequence (show_int n) = (Inr n :: 'a js_error + int)" by (rule message_sequence_show)
  have "sm_sequence m = n" "sm_headers m = m_headers reply"
    using st hd sq ms by (auto simp: stored_message_def then_result_def message_header_def split: sum.splits if_splits option.splits)
  then have "en_revision entry = n" "operation_read (m_headers reply) = Some (en_operation entry)"
    using em by (auto simp: entry_of_message_def operation_of_headers_read split: if_splits sum.splits)
  with p op show "\<exists>p m. prefix p (log w') \<and> last_on ?s p = Some (en_revision entry, m) \<and>
      operation_read (m_headers m) = Some (en_operation entry)"
    by (auto simp: operation_read_def)
qed

text \<open>No entry, or one that marks a deletion.\<close>

definition absent :: "string \<Rightarrow> stream_event list \<Rightarrow> bool" where
  "absent s p \<longleftrightarrow>
     (case last_on s p of
        None \<Rightarrow> True
      | Some (n, m) \<Rightarrow> operation_read (m_headers m) = Some Delete \<or> operation_read (m_headers m) = Some Purge)"

definition present :: "string \<Rightarrow> stream_event list \<Rightarrow> bool" where
  "present s p \<longleftrightarrow> (case last_on s p of None \<Rightarrow> False | Some (n, m) \<Rightarrow> operation_read (m_headers m) = Some Put)"

lemma appended_when_weaken:
  assumes "appended_when P s op payload n before after" and "prefix before' before"
    and "\<And>p. prefix p after \<Longrightarrow> P p \<Longrightarrow> Q p"
  shows "appended_when Q s op payload n before' after"
proof -
  obtain p m q where "after = p @ Appended n m # q" "prefix before p" "writes s op payload m" "P p"
    using assms(1) by (auto simp: appended_when_def)
  moreover from this have "prefix p after" by simp
  ultimately show ?thesis
    using assms(2,3) unfolding appended_when_def by (blast intro: prefix_order.trans)
qed

lemma absent_when_unrevised:
  assumes "stream_server js stream captures log" and "prefix p (log w)" and "revision_on s p = 0"
  shows "absent s p"
proof -
  have "\<forall>n \<in> set (sequences p). 0 < n"
    using stream_serverD(4) [OF assms(1)] sequences_prefix [OF assms(2)] by blast
  then show ?thesis using revision_on_nonneg(2) assms(3) by (auto simp: absent_def)
qed

text \<open>The entry that was read marks a deletion, and its revision is still the last one.\<close>

lemma absent_when_marked:
  assumes server: "stream_server js stream captures log"
    and p: "prefix p (log w)" "revision_on s p = n" "0 < n"
    and p': "prefix p' (log w)" "last_on s p' = Some (n, m)"
    and m: "operation_read (m_headers m) = Some op" "op \<noteq> Put"
  shows "absent s p"
proof -
  obtain m1 where "last_on s p = Some (n, m1)"
    using p(2,3) by (cases "last_on s p") (auto simp: revision_on_def)
  moreover from this have "m1 = m"
    using last_on_same_revision [OF stream_serverD(3) [OF server] p(1) p'(1)] p'(2) by blast
  ultimately show ?thesis using m by (cases op) (auto simp: absent_def)
qed

lemma read_last_not_exists: "read_last b key w = (Inl error, w') \<Longrightarrow> error \<noteq> Key_exists"
  by (auto simp: read_last_def read_result_def entry_of_message_def operation_of_headers_def map_jetstream_error_def
      split: prod.splits sum.splits js_error.splits option.splits if_splits)

text \<open>The second attempt, over the marker of a deletion.\<close>

lemma update_over_marker:
  assumes server: "stream_server (bk_jetstream b) stream captures log" and cap: "captures (key_subject b key)"
    and p: "prefix p (log w)" "last_on (key_subject b key) p = Some (n, m)"
    and m: "operation_read (m_headers m) = Some op" "op \<noteq> Put"
  shows "\<exists>r w'. update_with_ttl ttl b key n payload w = Some (r, w') \<and> prefix (log w) (log w') \<and>
     (case r of
        Inr k \<Rightarrow> appended_when (absent (key_subject b key)) (key_subject b key) Put payload k (log w) (log w')
      | Inl error \<Rightarrow> error \<noteq> Key_exists)"
proof -
  let ?s = "key_subject b key"
  have "n \<in> set (sequences (log w))" using last_on_appended [OF p(2)] sequences_prefix [OF p(1)] by auto
  then have n: "0 < n" using stream_serverD(4) [OF server] by blast
  obtain r w' where pub: "kv_publish b key (Some n) None ttl payload w = Some (r, w')"
    and pre: "prefix (log w) (log w')"
    and app: "\<And>k. r = Inr k \<Longrightarrow> appended_when (\<lambda>q. revision_on ?s q = n) ?s Put payload k (log w) (log w')"
    and no_exists: "\<And>error. r = Inl error \<Longrightarrow> error \<noteq> Key_exists"
    by (rule kv_publish_served [OF server cap, of "Some n" None ttl payload w]) auto
  have upd: "update_with_ttl ttl b key n payload w = Some (cas_result (Some n) r, w')"
    using n pub by (simp add: update_with_ttl_def)
  have "prefix p (log w')" using p(1) pre by (rule prefix_order.trans)
  then have "absent ?s q" if "prefix q (log w')" "revision_on ?s q = n" for q
    using absent_when_marked [OF server that n _ p(2) m] by blast
  then have "appended_when (absent ?s) ?s Put payload k (log w) (log w')" if "r = Inr k" for k
    using appended_when_weaken [OF app [OF that]] by blast
  then show ?thesis
    using upd pre no_exists by (cases r) (auto simp: cas_result_def map_cas_error_def)
qed

lemma create_again_served:
  assumes "stream_server (bk_jetstream b) (bk_stream b) captures log" and "captures (key_subject b key)"
    and wrong: "is_wrong_last_sequence error"
  shows "\<exists>r w'. create_again ttl b key payload error w = Some (r, w') \<and> prefix (log w) (log w') \<and>
     (case r of
        Inr n \<Rightarrow> appended_when (absent (key_subject b key)) (key_subject b key) Put payload n (log w) (log w')
      | Inl error \<Rightarrow> error = Key_exists \<longrightarrow> (\<exists>p. prefix p (log w') \<and> present (key_subject b key) p))"
proof -
  let ?s = "key_subject b key"
  obtain r w1 where read: "read_last b key w = (r, w1)" by force
  note served = read_last_served [OF assms(1,2) read]
  show ?thesis
  proof (cases r)
    case (Inl e)
    then have e: "e \<noteq> Key_exists" using read read_last_not_exists [of b key w e w1] by simp
    have "error \<noteq> Key_exists" using wrong by (auto simp: is_wrong_last_sequence_def)
    then obtain e' where "create_again ttl b key payload error w = Some (Inl e', w1)" "e' \<noteq> Key_exists"
      using read Inl e by (cases e) (simp_all add: create_again_def)
    with served(1) show ?thesis by simp
  next
    case (Inr entry)
    obtain p m where p: "prefix p (log w1)" "last_on ?s p = Some (en_revision entry, m)"
      and op: "operation_read (m_headers m) = Some (en_operation entry)"
      using served(2) [OF Inr] by blast
    show ?thesis
    proof (cases "en_operation entry = Put")
      case True
      with read Inr served(1) p op show ?thesis by (auto simp: create_again_def present_def)
    next
      case False
      obtain r2 w2 where upd: "update_with_ttl ttl b key (en_revision entry) payload w1 = Some (r2, w2)"
        and pre: "prefix (log w1) (log w2)"
        and r2: "case r2 of Inr k \<Rightarrow> appended_when (absent ?s) ?s Put payload k (log w1) (log w2)
           | Inl error \<Rightarrow> error \<noteq> Key_exists"
        using update_over_marker [OF assms(1,2) p op False, of ttl payload] by (elim exE conjE) (rule that)
      have "create_again ttl b key payload error w = Some (r2, w2)"
        using read Inr upd False by (cases "en_operation entry") (simp_all add: create_again_def)
      moreover have "prefix (log w) (log w2)" using served(1) pre by (rule prefix_order.trans)
      moreover have "appended_when (absent ?s) ?s Put payload k (log w) (log w2)" if "r2 = Inr k" for k
      proof -
        have "appended_when (absent ?s) ?s Put payload k (log w1) (log w2)" using r2 that by simp
        then show ?thesis using served(1) by (rule appended_when_weaken)
      qed
      ultimately show ?thesis using r2 by (cases r2) simp_all
    qed
  qed
qed

text \<open>
  C20: Creating a key is exclusive, whatever other clients do at the same time. A creation that
  answers with a revision was appended at a moment when the key had no entry or only the marker
  of a deletion or purge, also when it was tried again over such a marker and the read that
  showed it came from a replica that was behind. One that answers that the key exists saw the
  stream in a state where it had a value.
\<close>

theorem create_is_exclusive:
  assumes "stream_server (bk_jetstream b) (bk_stream b) captures log" and "captures (key_subject b key)"
  shows "\<exists>r w'. create_key ttl b key payload w = Some (r, w') \<and> prefix (log w) (log w') \<and>
     (case r of
        Inr n \<Rightarrow> appended_when (absent (key_subject b key)) (key_subject b key) Put payload n (log w) (log w')
      | Inl error \<Rightarrow> error = Key_exists \<longrightarrow> (\<exists>p. prefix p (log w') \<and> present (key_subject b key) p))"
proof -
  let ?s = "key_subject b key"
  note server = assms(1)
  obtain r1 w1 where first: "kv_publish b key (Some 0) None ttl payload w = Some (r1, w1)"
    and pre1: "prefix (log w) (log w1)"
    and app1: "\<And>n. r1 = Inr n \<Longrightarrow> appended_when (\<lambda>p. revision_on ?s p = 0) ?s Put payload n (log w) (log w1)"
    and no_exists: "\<And>error. r1 = Inl error \<Longrightarrow> error \<noteq> Key_exists"
    by (rule kv_publish_served [OF assms, of "Some 0" None ttl payload w]) auto
  show ?thesis
  proof (cases r1)
    case (Inr n)
    then have "appended_when (absent ?s) ?s Put payload n (log w) (log w1)"
      using appended_when_weaken [OF app1 [OF Inr]] absent_when_unrevised [OF server] by blast
    with first Inr pre1 show ?thesis by (simp add: create_key_def)
  next
    case (Inl error)
    show ?thesis
    proof (cases "is_wrong_last_sequence error")
      case False
      with first Inl pre1 no_exists show ?thesis by (auto simp: create_key_def)
    next
      case True
      obtain r2 w2 where again: "create_again ttl b key payload error w1 = Some (r2, w2)"
        and pre2: "prefix (log w1) (log w2)"
        and r2: "case r2 of
            Inr n \<Rightarrow> appended_when (absent ?s) ?s Put payload n (log w1) (log w2)
          | Inl error \<Rightarrow> error = Key_exists \<longrightarrow> (\<exists>p. prefix p (log w2) \<and> present ?s p)"
        using create_again_served [OF assms True, of ttl payload w1] by (elim exE conjE) (rule that)
      have "prefix (log w) (log w2)" using pre1 pre2 by (rule prefix_order.trans)
      moreover have "create_key ttl b key payload w = Some (r2, w2)"
        using first Inl True again by (simp add: create_key_def)
      moreover have "appended_when (absent ?s) ?s Put payload n (log w) (log w2)" if "r2 = Inr n" for n
      proof -
        have "appended_when (absent ?s) ?s Put payload n (log w1) (log w2)" using r2 that by simp
        then show ?thesis using pre1 by (rule appended_when_weaken)
      qed
      ultimately show ?thesis
      proof (cases r2)
        case (Inl e)
        with r2 have "e = Key_exists \<longrightarrow> (\<exists>p. prefix p (log w2) \<and> present ?s p)" by simp
        with \<open>create_key ttl b key payload w = Some (r2, w2)\<close> \<open>prefix (log w) (log w2)\<close> Inl
        show ?thesis by (intro exI [of _ r2] exI [of _ w2]) simp
      next
        case (Inr n)
        with \<open>create_key ttl b key payload w = Some (r2, w2)\<close> \<open>prefix (log w) (log w2)\<close>
          \<open>\<And>n. r2 = Inr n \<Longrightarrow> appended_when (absent ?s) ?s Put payload n (log w) (log w2)\<close>
        show ?thesis by (intro exI [of _ r2] exI [of _ w2]) simp
      qed
    qed
  qed
qed

section \<open>A server that meets the contract\<close>

text \<open>
  The hypotheses hold of a server that keeps the log itself, numbers messages one by one, answers
  reads from the log, and stops before its numbers reach the limit.
\<close>

definition demo_ok :: "stream_event list \<Rightarrow> bool" where
  "demo_ok w \<longleftrightarrow> distinct (sequences w) \<and> (\<forall>n \<in> set (sequences w). 0 < n \<and> n < 2 ^ 63)"

definition demo_next :: "stream_event list \<Rightarrow> int" where
  "demo_next w = foldr max (sequences w) 0 + 1"

definition demo_stored_headers :: "int \<Rightarrow> string \<Rightarrow> message \<Rightarrow> header" where
  "demo_stored_headers n s m =
     [\<lparr>e_name = ''Nats-Sequence'', e_value = show_int n\<rparr>, \<lparr>e_name = ''Nats-Subject'', e_value = s\<rparr>,
      \<lparr>e_name = ''Nats-Stream'', e_value = ''KV_B''\<rparr>, \<lparr>e_name = ''Nats-Time-Stamp'', e_value = ''now''\<rparr>] @
     (case header_find ''KV-Operation'' (m_headers m) of
        None \<Rightarrow> [] | Some v \<Rightarrow> [\<lparr>e_name = ''KV-Operation'', e_value = v\<rparr>])"

definition demo_publish :: "message \<Rightarrow> stream_event list \<Rightarrow> (unit connection_error + message) \<times> stream_event list" where
  "demo_publish m w =
     (if \<not> demo_ok w \<or> 2 ^ 63 \<le> demo_next w then (Inl Disconnected, w)
      else if expects m w then (Inr (message_v ''_INBOX.1'' [] (show_int (demo_next w))), w @ [Appended (demo_next w) m])
      else (Inr (message_v ''_INBOX.1'' [] ''refused''), w @ [Refused m]))"

definition demo_read :: "string \<Rightarrow> stream_event list \<Rightarrow> (unit connection_error + message) \<times> stream_event list" where
  "demo_read s w =
     (if \<not> demo_ok w then (Inl Disconnected, w)
      else case last_on s w of
        None \<Rightarrow> (Inr (message_v ''_INBOX.1'' [] []), w)
      | Some (n, m) \<Rightarrow> (Inr (message_v ''_INBOX.1'' (demo_stored_headers n s m) (m_payload m)), w))"

definition demo_serve ::
  "nat option \<Rightarrow> message \<Rightarrow> stream_event list \<Rightarrow> (unit connection_error + message) \<times> stream_event list" where
  "demo_serve timeout m w =
     (if take 4 (m_subject m) = ''$KV.'' then demo_publish m w else demo_read (drop 24 (m_subject m)) w)"

definition demo_bucket :: "(unit, stream_event list) bucket" where
  "demo_bucket = \<lparr>bk_jetstream = \<lparr>
       js_link = \<lparr>request_msg = demo_serve, link_now = (\<lambda>w. 0), sleep_until = (\<lambda>d w. w)\<rparr>,
       js_prefix = ''$JS.API'', js_span_string = (\<lambda>n. show_nat n),
       js_decode_publish = (\<lambda>payload. Inr (if payload = ''refused''
         then \<lparr>pb_error = Some \<lparr>ae_code = 400, ae_err_code = Some 10071, ae_description = [], ae_metadata = []\<rparr>,
           pb_stream = None, pb_sequence = None, pb_duplicate = None, pb_domain = None, pb_batch = None, pb_count = None\<rparr>
         else \<lparr>pb_error = None, pb_stream = Some ''KV_B'', pb_sequence = int64_of_string_opt payload, pb_duplicate = None,
           pb_domain = None, pb_batch = None, pb_count = None\<rparr>)),
       js_encode_get = (\<lambda>n. Inr (show_int n)), js_encode_purge = (\<lambda>r. Inr []),
       js_decode_purge = (\<lambda>payload. Inr \<lparr>pu_error = None, pu_purged = 0\<rparr>)\<rparr>,
     bk_stream = ''KV_B'', bk_bucket = ''B''\<rparr>"

definition demo_log :: "stream_event list \<Rightarrow> stream_event list" where
  "demo_log w = (if demo_ok w then w else [])"

lemma demo_next_fresh: "n \<in> set (sequences w) \<Longrightarrow> n < demo_next w" "0 < demo_next w"
proof -
  have "\<forall>n \<in> set ns. n \<le> foldr max ns 0" "0 \<le> foldr max ns (0 :: int)" for ns by (induction ns) auto
  then show "n \<in> set (sequences w) \<Longrightarrow> n < demo_next w" "0 < demo_next w" by (fastforce simp: demo_next_def)+
qed

lemma demo_ok_append: "demo_ok w \<Longrightarrow> demo_next w < 2 ^ 63 \<Longrightarrow> demo_ok (w @ [Appended (demo_next w) m])"
  using demo_next_fresh(1) [of _ w] demo_next_fresh(2) [of w] by (fastforce simp: demo_ok_def)

lemma demo_ok_refused: "demo_ok (w @ [Refused m]) = demo_ok w"
  by (simp add: demo_ok_def sequences_def)

lemma demo_refused: "show_int n \<noteq> ''refused''"
proof
  assume "show_int n = ''refused''"
  then have "show_nat (nat n) = ''refused'' \<or> CHR ''-'' # show_nat (nat (- n)) = ''refused''"
    by (simp add: show_int_def split: if_splits)
  then have "show_nat (nat n) = ''refused''" by simp
  then have "is_digit CHR ''r''" using show_nat_digits [of "CHR ''r''" "nat n"] by simp
  then show False by (simp add: is_digit_def)
qed

lemma demo_reads: "get_last_message (bk_jetstream demo_bucket) ''KV_B'' s =
    message_v (''$JS.API.DIRECT.GET.KV_B.'' @ s) [] []"
  by (simp add: get_last_message_def api_subject_def demo_bucket_def)

definition demo_captures :: "string \<Rightarrow> bool" where
  "demo_captures s \<longleftrightarrow> take 4 s = ''$KV.''"

lemma demo_publish_answer:
  assumes "demo_publish m w = (Inr reply, w')"
  shows "publish_answer (bk_jetstream demo_bucket) m reply (demo_log w) (demo_log w')"
proof -
  have ok: "demo_ok w" "demo_next w < 2 ^ 63" using assms by (auto simp: demo_publish_def split: if_splits)
  show ?thesis
  proof (cases "expects m w")
    case True
    then have "reply = message_v ''_INBOX.1'' [] (show_int (demo_next w))" "demo_log w' = w @ [Appended (demo_next w) m]"
      using assms ok demo_ok_append [OF ok] by (auto simp: demo_publish_def demo_log_def split: if_splits)
    moreover have "int64_of_string_opt (show_int (demo_next w)) = Some (demo_next w)"
      using ok(2) demo_next_fresh(2) [of w] by (intro int64_of_string_show) auto
    ultimately show ?thesis
      using True ok demo_refused [of "demo_next w"]
      by (auto simp: publish_answer_def demo_bucket_def message_v_def demo_log_def)
  next
    case False
    then have "reply = message_v ''_INBOX.1'' [] ''refused''" "demo_log w' = w @ [Refused m]"
      using assms ok by (auto simp: demo_publish_def demo_log_def demo_ok_refused split: if_splits)
    then show ?thesis
      using False ok by (auto simp: publish_answer_def demo_bucket_def message_v_def demo_log_def)
  qed
qed

lemma lowercase_stored_names:
  "lowercase_ascii ''Nats-Sequence'' = ''nats-sequence''" "lowercase_ascii ''Nats-Subject'' = ''nats-subject''"
  "lowercase_ascii ''Nats-Stream'' = ''nats-stream''" "lowercase_ascii ''Nats-Time-Stamp'' = ''nats-time-stamp''"
  by code_simp+

lemma demo_read_answer:
  assumes "demo_read s w = (Inr reply, w')"
  shows "read_answer ''KV_B'' s reply (demo_log w')"
proof (cases "last_on s w")
  case None
  with assms show ?thesis by (auto simp: demo_read_def read_answer_def message_v_def split: if_splits)
next
  case (Some nm)
  obtain n m where nm: "last_on s w = Some (n, m)" using Some by force
  then have "w' = w" "demo_ok w" "reply = message_v ''_INBOX.1'' (demo_stored_headers n s m) (m_payload m)"
    using assms by (auto simp: demo_read_def split: if_splits)
  moreover have "header_find ''Nats-Sequence'' (demo_stored_headers n s m) = Some (show_int n)"
    "header_find ''KV-Operation'' (demo_stored_headers n s m) = header_find ''KV-Operation'' (m_headers m)"
    by (auto simp: demo_stored_headers_def lowercase_stored_names lowercase_names split: option.splits)
  ultimately show ?thesis
    using nm unfolding read_answer_def by (intro disjI2 exI [of _ w] exI [of _ n] exI [of _ m]) (simp add: demo_log_def message_v_def)
qed

lemma demo_server: "stream_server (bk_jetstream demo_bucket) (bk_stream demo_bucket) demo_captures demo_log"
proof -
  have serve: "request_msg (js_link (bk_jetstream demo_bucket)) = demo_serve"
    "sleep_until (js_link (bk_jetstream demo_bucket)) = (\<lambda>d w. w)" "bk_stream demo_bucket = ''KV_B''"
    by (simp_all add: demo_bucket_def)
  have grows: "prefix (demo_log w) (demo_log (snd (demo_serve timeout m w)))" for timeout m w
  proof (cases "demo_ok w")
    case True
    then show ?thesis
      using demo_ok_append [OF True]
      by (auto simp: demo_serve_def demo_publish_def demo_read_def demo_log_def demo_ok_refused split: option.splits)
  qed (simp add: demo_log_def)
  have ok: "distinct (sequences (demo_log w)) \<and> (\<forall>n \<in> set (sequences (demo_log w)). 0 < n \<and> n < 2 ^ 63)" for w
    by (auto simp: demo_log_def demo_ok_def)
  have publish: "publish_answer (bk_jetstream demo_bucket) m reply (demo_log w) (demo_log w')"
    if "demo_captures (m_subject m)" "demo_serve timeout m w = (Inr reply, w')" for timeout m w reply w'
    using that demo_publish_answer by (simp add: demo_serve_def demo_captures_def)
  have read: "read_answer ''KV_B'' s reply (demo_log w')"
    if "demo_serve timeout (message_v (''$JS.API.DIRECT.GET.KV_B.'' @ s) [] []) w = (Inr reply, w')" for timeout s w reply w'
    using that demo_read_answer by (simp add: demo_serve_def message_v_def)
  show ?thesis
    unfolding stream_server_def serve demo_reads using grows ok publish read by auto
qed

lemma demo_key: "key_subject demo_bucket ''k'' = ''$KV.B.k''" "demo_captures ''$KV.B.k''" "demo_log [] = []"
  by (simp_all add: key_subject_def demo_bucket_def demo_captures_def demo_log_def)

theorem writes_compare_and_set_witness:
  "\<exists>r w'. kv_update demo_bucket ''k'' 1 ''v'' [] = Some (r, w') \<and>
     cas_answer ''$KV.B.k'' Put ''v'' (Some 1) r [] (demo_log w')"
proof -
  have "demo_captures (key_subject demo_bucket ''k'')" by (simp add: demo_key)
  from writes_compare_and_set [OF demo_server this, of 1 "''v''" "[]"] show ?thesis by (simp add: demo_key)
qed

theorem create_is_exclusive_witness:
  "\<exists>r w'. create_key None demo_bucket ''k'' ''v'' [] = Some (r, w') \<and>
     (case r of
        Inr n \<Rightarrow> appended_when (absent ''$KV.B.k'') ''$KV.B.k'' Put ''v'' n [] (demo_log w')
      | Inl error \<Rightarrow> error = Key_exists \<longrightarrow> (\<exists>p. prefix p (demo_log w') \<and> present ''$KV.B.k'' p))"
proof -
  have "demo_captures (key_subject demo_bucket ''k'')" by (simp add: demo_key)
  from create_is_exclusive [OF demo_server this, of None "''v''" "[]"]
  show ?thesis unfolding demo_key by blast
qed

end
