(* ===== verification/KeyWatch.thy ===== *)
theory KeyWatch
  imports KeyValueProps
begin

text \<open>
  Watching a bucket (lib/eio/key_value.ml: Watch, Ordered_watch, Key_lister): the entries retained
  when the watch began, one marker that they are complete, then the live ones. The consumer below
  delivers messages one by one; it and the clock are parameters.
\<close>

section \<open>State\<close>

datatype watch_delivery = New | Last_per_subject | All
datatype watch_event = Initial_done | Entry stored_entry
datatype watch_initial = Marker | Retained | Live

record watch =
  wt_ignore_deletes :: bool
  wt_initial :: watch_initial
  wt_initial_pending :: "int option"
  wt_initial_received :: int

text \<open>\<open>v\<close>: which filters, where to resume, and what the consumer said is pending.\<close>

definition watch_patterns :: "string option \<Rightarrow> string list option \<Rightarrow> 'x kv_error + string list" where
  "watch_patterns key keys =
     (case (key, keys) of
        (Some _, Some _) \<Rightarrow> Inl Invalid_watch_filters
      | (Some key, None) \<Rightarrow> Inr [key]
      | (None, Some keys) \<Rightarrow> Inr keys
      | (None, None) \<Rightarrow> Inr [])"

definition resume_revision :: "int option \<Rightarrow> 'x kv_error + int option" where
  "resume_revision resume =
     (case resume of
        None \<Rightarrow> Inr None
      | Some revision \<Rightarrow> if revision > 0 then Inr (Some revision) else Inl (Invalid_revision revision))"

definition watch_filters ::
  "('x, 'w) bucket \<Rightarrow> string option \<Rightarrow> string list option \<Rightarrow> int option \<Rightarrow> 'x kv_error + string list \<times> int option" where
  "watch_filters b key keys resume =
     then_result (watch_patterns key keys) (\<lambda>patterns.
     then_result (make_filters b patterns) (\<lambda>filters.
     then_result (resume_revision resume) (\<lambda>resume. Inr (filters, resume))))"

definition watch_v :: "watch_delivery \<Rightarrow> int option \<Rightarrow> bool \<Rightarrow> int \<Rightarrow> watch" where
  "watch_v delivery resume ignore_deletes push_pending =
     (let initial_pending = (if delivery = New \<and> resume = None then None else Some push_pending)
      in \<lparr>wt_ignore_deletes = ignore_deletes,
          wt_initial = (if initial_pending = None \<or> initial_pending = Some 0 then Marker else Retained),
          wt_initial_pending = initial_pending, wt_initial_received = 0\<rparr>)"

text \<open>The ordered consumer may not know what is pending.\<close>

definition ordered_initial_state :: "watch_delivery \<Rightarrow> int option \<Rightarrow> int option \<Rightarrow> watch_initial" where
  "ordered_initial_state delivery resume initial_pending =
     (if delivery = New \<and> resume = None \<or> initial_pending = Some 0 then Marker else Retained)"

definition ordered_watch_v :: "watch_delivery \<Rightarrow> int option \<Rightarrow> bool \<Rightarrow> int option \<Rightarrow> watch" where
  "ordered_watch_v delivery resume ignore_deletes initial_pending =
     \<lparr>wt_ignore_deletes = ignore_deletes, wt_initial = ordered_initial_state delivery resume initial_pending,
      wt_initial_pending = initial_pending, wt_initial_received = 0\<rparr>"

section \<open>One message\<close>

definition map_watch_error :: "'x js_error \<Rightarrow> 'x kv_error" where
  "map_watch_error error =
     (case error of
        Connection_error error \<Rightarrow> Kv_connection error
      | Push_closed \<Rightarrow> Kv_closed
      | error \<Rightarrow> Kv_jetstream error)"

definition map_ordered_error :: "'x js_error \<Rightarrow> 'x kv_error" where
  "map_ordered_error error =
     (case error of
        Connection_error error \<Rightarrow> Kv_connection error
      | Ordered_closed \<Rightarrow> Kv_closed
      | error \<Rightarrow> Kv_jetstream error)"

text \<open>The count of retained entries stops at the largest \<open>int64\<close>.\<close>

definition count_received :: "watch \<Rightarrow> int" where
  "count_received v =
     (if wt_initial_received v < 2 ^ 63 - 1 then add64 (wt_initial_received v) 1 else wt_initial_received v)"

definition received_enough :: "watch \<Rightarrow> int \<Rightarrow> bool" where
  "received_enough v received =
     (case wt_initial_pending v of Some pending \<Rightarrow> received \<ge> pending | None \<Rightarrow> False)"

definition watch_entry :: "js_msg \<Rightarrow> stored_entry \<Rightarrow> watch \<Rightarrow> watch_event option \<times> watch" where
  "watch_entry m entry v =
     (let v' = (if wt_initial v = Retained then v\<lparr>wt_initial_received := count_received v\<rparr> else v);
          initial_complete = (wt_initial v = Retained \<and>
            (received_enough v (wt_initial_received v') \<or> jm_num_pending m = 0));
          v'' = (if initial_complete then v'\<lparr>wt_initial := Marker\<rparr> else v')
      in (if wt_ignore_deletes v \<and> en_operation entry \<noteq> Put then None else Some (Entry entry), v''))"

section \<open>The loop of \<open>next\<close>\<close>

text \<open>
  \<open>pull\<close> is \<open>next_message\<close>: the consumer's next message, at the latest at the deadline the caller
  has; entries that are ignored are not counted as a result, so the loop may go on.
\<close>

partial_function (option) next_until ::
  "('x, 'w) bucket \<Rightarrow> ('x js_error \<Rightarrow> 'x kv_error) \<Rightarrow> ('w \<Rightarrow> ('x js_error + js_msg) \<times> 'w) \<Rightarrow> watch \<Rightarrow> 'w \<Rightarrow>
     (('x kv_error + watch_event) \<times> watch \<times> 'w) option" where
  "next_until b map_error pull v w =
     (if wt_initial v = Marker then Some (Inr Initial_done, v\<lparr>wt_initial := Live\<rparr>, w)
      else case pull w of
        (Inl error, w') \<Rightarrow> Some (Inl (map_error error), v, w')
      | (Inr m, w') \<Rightarrow>
          (case entry_of_delivery b m of
             Inl error \<Rightarrow> Some (Inl error, v, w')
           | Inr entry \<Rightarrow>
               (case watch_entry m entry v of
                  (Some event, v') \<Rightarrow> Some (Inr event, v', w')
                | (None, v') \<Rightarrow> next_until b map_error pull v' w')))"

text \<open>\<open>next_message\<close>: a deadline that has passed is an error, what is left of it is the timeout.\<close>

definition next_message ::
  "('w \<Rightarrow> nat) \<Rightarrow> (nat option \<Rightarrow> 'w \<Rightarrow> ('x js_error + js_msg) \<times> 'w) \<Rightarrow> nat option \<Rightarrow> 'w \<Rightarrow>
     ('x js_error + js_msg) \<times> 'w" where
  "next_message now consumer_next deadline w =
     (case deadline of
        None \<Rightarrow> consumer_next None w
      | Some deadline \<Rightarrow>
          if now w \<ge> deadline then (Inl (Connection_error Timeout), w)
          else consumer_next (Some (deadline - now w)) w)"

definition next_deadline :: "string \<Rightarrow> nat \<Rightarrow> nat \<Rightarrow> 'x kv_error + nat" where
  "next_deadline what timeout now =
     (if timeout \<le> 0 then Inl (Kv_connection (Invalid_timeout what))
      else Inr (case mtime_add now timeout of Some deadline \<Rightarrow> deadline | None \<Rightarrow> 2 ^ 64 - 1))"

text \<open>\<open>iter\<close>: every event goes to \<open>f\<close>, here the end of a list, until the watch is closed.\<close>

partial_function (option) iter ::
  "('x, 'w) bucket \<Rightarrow> ('x js_error \<Rightarrow> 'x kv_error) \<Rightarrow> ('w \<Rightarrow> ('x js_error + js_msg) \<times> 'w) \<Rightarrow> watch \<Rightarrow>
     watch_event list \<Rightarrow> 'w \<Rightarrow> (('x kv_error + unit) \<times> watch_event list) option" where
  "iter b map_error pull v events w =
     (case next_until b map_error pull v w of
        None \<Rightarrow> None
      | Some (Inr event, v', w') \<Rightarrow> iter b map_error pull v' (events @ [event]) w'
      | Some (Inl error, v', w') \<Rightarrow>
          (case error of Kv_closed \<Rightarrow> Some (Inr (), events) | error \<Rightarrow> Some (Inl error, events)))"

section \<open>Listing keys\<close>

text \<open>\<open>Key_lister\<close>: the keys of the retained entries, then the end; deletions are ignored.\<close>

definition lister_next ::
  "('x, 'w) bucket \<Rightarrow> ('w \<Rightarrow> ('x js_error + js_msg) \<times> 'w) \<Rightarrow> watch \<times> bool \<Rightarrow> 'w \<Rightarrow>
     (('x kv_error + string option) \<times> (watch \<times> bool) \<times> 'w) option" where
  "lister_next b pull lister w =
     (case lister of (v, finished) \<Rightarrow>
       if finished then Some (Inr None, (v, finished), w)
       else (case next_until b map_watch_error pull v w of
           None \<Rightarrow> None
         | Some (Inl error, v', w') \<Rightarrow> Some (Inl error, (v', False), w')
         | Some (Inr Initial_done, v', w') \<Rightarrow> Some (Inr None, (v', True), w')
         | Some (Inr (Entry entry), v', w') \<Rightarrow> Some (Inr (Some (en_key entry)), (v', False), w')))"

definition lister_v :: "int \<Rightarrow> watch \<times> bool" where
  "lister_v push_pending = (watch_v Last_per_subject None True push_pending, False)"

section \<open>What a watch shows\<close>

text \<open>The consumer delivers \<open>ms\<close> and then closes.\<close>

fun delivers ::
  "('w \<Rightarrow> ('x js_error + js_msg) \<times> 'w) \<Rightarrow> 'w \<Rightarrow> js_msg list \<Rightarrow> 'x js_error \<Rightarrow> bool" where
  "delivers pull w [] closed = (fst (pull w) = Inl closed)"
| "delivers pull w (m # ms) closed = (fst (pull w) = Inr m \<and> delivers pull (snd (pull w)) ms closed)"

definition shown :: "bool \<Rightarrow> stored_entry list \<Rightarrow> watch_event list" where
  "shown ignore_deletes entries = map Entry (filter (\<lambda>e. \<not> (ignore_deletes \<and> en_operation e \<noteq> Put)) entries)"

text \<open>
  How many of the messages are the retained ones: up to the first that completes the number the
  consumer said was pending, or that says itself that none is.
\<close>

fun retained_count :: "int option \<Rightarrow> int \<Rightarrow> js_msg list \<Rightarrow> nat option" where
  "retained_count pending received [] = None"
| "retained_count pending received (m # ms) =
     (if (case pending of Some n \<Rightarrow> received + 1 \<ge> n | None \<Rightarrow> False) \<or> jm_num_pending m = 0 then Some 1
      else map_option Suc (retained_count pending (received + 1) ms))"

definition marked :: "bool \<Rightarrow> nat option \<Rightarrow> stored_entry list \<Rightarrow> watch_event list" where
  "marked ignore_deletes count entries =
     (case count of
        None \<Rightarrow> shown ignore_deletes entries
      | Some k \<Rightarrow> shown ignore_deletes (take k entries) @ Initial_done # shown ignore_deletes (drop k entries))"

definition watch_shows :: "watch \<Rightarrow> js_msg list \<Rightarrow> stored_entry list \<Rightarrow> watch_event list" where
  "watch_shows v ms entries =
     (case wt_initial v of
        Marker \<Rightarrow> marked (wt_ignore_deletes v) (Some 0) entries
      | Live \<Rightarrow> shown (wt_ignore_deletes v) entries
      | Retained \<Rightarrow>
          marked (wt_ignore_deletes v) (retained_count (wt_initial_pending v) (wt_initial_received v) ms) entries)"

lemma shown_simps [simp]:
  "shown d [] = []"
  "shown d (e # es) = (if d \<and> en_operation e \<noteq> Put then [] else [Entry e]) @ shown d es"
  by (simp_all add: shown_def)

lemma iter_marker:
  "wt_initial v = Marker \<Longrightarrow>
     iter b map_error pull v events w = iter b map_error pull (v\<lparr>wt_initial := Live\<rparr>) (events @ [Initial_done]) w"
  by (subst iter.simps) (simp add: next_until.simps)

lemma iter_closed:
  assumes "wt_initial v \<noteq> Marker" and "fst (pull w) = Inl closed" and "map_error closed = Kv_closed"
  shows "iter b map_error pull v events w = Some (Inr (), events)"
  using assms by (cases "pull w") (simp add: iter.simps [of _ _ _ v] next_until.simps [of _ _ _ v])

lemma iter_message:
  assumes "wt_initial v \<noteq> Marker" and "pull w = (Inr m, w')" and "entry_of_delivery b m = Inr entry"
    and "watch_entry m entry v = (ev, v')"
  shows "iter b map_error pull v events w =
     iter b map_error pull v' (events @ (case ev of None \<Rightarrow> [] | Some event \<Rightarrow> [event])) w'"
proof (cases ev)
  case None
  then have "next_until b map_error pull v w = next_until b map_error pull v' w'"
    using assms by (subst next_until.simps) simp
  then show ?thesis using None by (simp add: iter.simps [of _ _ _ v] iter.simps [of _ _ _ v'])
next
  case (Some event)
  then have "next_until b map_error pull v w = Some (Inr event, v', w')"
    using assms by (subst next_until.simps) simp
  then show ?thesis using Some by (simp add: iter.simps [of _ _ _ v])
qed

text \<open>A retained entry, counted: the watch after it, and what was shown.\<close>

lemma watch_entry_retained:
  assumes "wt_initial v = Retained" and "0 \<le> wt_initial_received v" "wt_initial_received v < 2 ^ 63 - 1"
  shows "watch_entry m entry v =
     (if wt_ignore_deletes v \<and> en_operation entry \<noteq> Put then None else Some (Entry entry),
      v\<lparr>wt_initial_received := wt_initial_received v + 1,
        wt_initial := (if (case wt_initial_pending v of Some n \<Rightarrow> wt_initial_received v + 1 \<ge> n | None \<Rightarrow> False) \<or>
          jm_num_pending m = 0 then Marker else Retained)\<rparr>)"
proof -
  have "count_received v = wt_initial_received v + 1"
    using assms by (simp add: count_received_def add64_def wrap64_id)
  then show ?thesis using assms by (auto simp: watch_entry_def Let_def received_enough_def split: option.splits)
qed

lemma watch_entry_live:
  "wt_initial v = Live \<Longrightarrow> watch_entry m entry v =
     (if wt_ignore_deletes v \<and> en_operation entry \<noteq> Put then None else Some (Entry entry), v)"
  by (simp add: watch_entry_def)

lemma iter_shows:
  assumes "list_all2 (\<lambda>m e. entry_of_delivery b m = Inr e) ms es" and "delivers pull w ms closed"
    and "map_error closed = Kv_closed" and "0 \<le> wt_initial_received v" "wt_initial_received v + int (length ms) < 2 ^ 63"
  shows "iter b map_error pull v events w = Some (Inr (), events @ watch_shows v ms es)"
  using assms(1,2,4,5)
proof (induction ms arbitrary: es v w events)
  case Nil
  show ?case
  proof (cases "wt_initial v = Marker")
    case True
    with Nil assms(3) show ?thesis by (simp add: iter_marker iter_closed watch_shows_def marked_def)
  next
    case False
    with Nil assms(3) show ?thesis
      by (cases "wt_initial v") (simp_all add: iter_closed watch_shows_def marked_def)
  qed
next
  case (Cons m ms)
  obtain e es' where es: "es = e # es'" "entry_of_delivery b m = Inr e"
    and es': "list_all2 (\<lambda>m e. entry_of_delivery b m = Inr e) ms es'"
    using Cons.prems(1) by (auto simp: list_all2_Cons1)
  obtain w' where pull: "pull w = (Inr m, w')" and del: "delivers pull w' ms closed"
    using Cons.prems(2) by (cases "pull w") auto
  note step = iter_message [of _ pull w m w', OF _ pull es(2)]
  have live: "iter b map_error pull v events w = Some (Inr (), events @ shown (wt_ignore_deletes v) es)"
    if v: "wt_initial v = Live" "0 \<le> wt_initial_received v" "wt_initial_received v + int (length (m # ms)) < 2 ^ 63" for v events
    using v step [of v, OF _ watch_entry_live [OF v(1)]] Cons.IH [OF es' del, of v] es
    by (auto simp: watch_shows_def)
  consider "wt_initial v = Marker" | "wt_initial v = Live" | "wt_initial v = Retained" by (cases "wt_initial v") auto
  then show ?case
  proof cases
    case 1
    then show ?thesis using Cons.prems live [of "v\<lparr>wt_initial := Live\<rparr>" "events @ [Initial_done]"]
      by (simp add: iter_marker watch_shows_def marked_def)
  next
    case 2
    with Cons.prems live show ?thesis by (simp add: watch_shows_def)
  next
    case 3
    have r: "wt_initial_received v < 2 ^ 63 - 1" using Cons.prems(3,4) by simp
    let ?done = "(case wt_initial_pending v of Some n \<Rightarrow> wt_initial_received v + 1 \<ge> n | None \<Rightarrow> False) \<or> jm_num_pending m = 0"
    let ?v = "v\<lparr>wt_initial_received := wt_initial_received v + 1, wt_initial := (if ?done then Marker else Retained)\<rparr>"
    let ?shows = "if wt_ignore_deletes v \<and> en_operation e \<noteq> Put then None else Some (Entry e)"
    have we: "watch_entry m e v = (?shows, ?v)" by (rule watch_entry_retained [OF 3 Cons.prems(3) r])
    have "iter b map_error pull v events w =
        iter b map_error pull ?v (events @ (case ?shows of None \<Rightarrow> [] | Some event \<Rightarrow> [event])) w'"
      by (rule step) (use 3 we in simp_all)
    also have "\<dots> = Some (Inr (), (events @ (case ?shows of None \<Rightarrow> [] | Some event \<Rightarrow> [event])) @ watch_shows ?v ms es')"
      using Cons.prems(3,4) by (intro Cons.IH [OF es' del]) auto
    finally have "iter b map_error pull v events w =
        Some (Inr (), events @ ((case ?shows of None \<Rightarrow> [] | Some event \<Rightarrow> [event]) @ watch_shows ?v ms es'))" by simp
    moreover have "(case ?shows of None \<Rightarrow> [] | Some event \<Rightarrow> [event]) @ watch_shows ?v ms es' = watch_shows v (m # ms) es"
      using 3 es by (cases "retained_count (wt_initial_pending v) (wt_initial_received v + 1) ms")
        (auto simp: watch_shows_def marked_def)
    ultimately show ?thesis by simp
  qed
qed

text \<open>
  C22: A watch over messages that are entries shows each of them once, in order, except deletions
  it was told to ignore, and marks once that the retained ones are complete: right after the last
  of them, also when that one is ignored, before everything when there is none or only new
  entries were asked for. It ends without an error when the consumer closes.
\<close>

theorem watch_marks_once:
  assumes "list_all2 (\<lambda>m e. entry_of_delivery b m = Inr e) ms es" and "delivers pull w ms Push_closed"
    and "int (length ms) < 2 ^ 63"
  shows "iter b map_watch_error pull (watch_v delivery resume ignore_deletes pending) [] w =
     Some (Inr (), marked ignore_deletes
       (if delivery = New \<and> resume = None \<or> pending = 0 then Some 0 else retained_count (Some pending) 0 ms) es)"
proof -
  have "iter b map_watch_error pull (watch_v delivery resume ignore_deletes pending) [] w =
      Some (Inr (), watch_shows (watch_v delivery resume ignore_deletes pending) ms es)"
    using iter_shows [OF assms(1,2), where map_error = map_watch_error
        and v = "watch_v delivery resume ignore_deletes pending" and events = "[]"] assms(3)
    by (simp add: watch_v_def map_watch_error_def)
  then show ?thesis by (auto simp: watch_shows_def watch_v_def)
qed

text \<open>A consumer that holds its messages, and two entries of a bucket, one of them a deletion.\<close>

definition list_pull :: "js_msg list \<Rightarrow> (unit js_error + js_msg) \<times> js_msg list" where
  "list_pull w = (case w of [] \<Rightarrow> (Inl Push_closed, []) | m # ms \<Rightarrow> (Inr m, ms))"

definition demo_kv :: "(unit, js_msg list) bucket" where
  "demo_kv = \<lparr>bk_jetstream = \<lparr>
       js_link = \<lparr>request_msg = (\<lambda>timeout m w. (Inl Disconnected, w)), link_now = (\<lambda>w. 0), sleep_until = (\<lambda>d w. w)\<rparr>,
       js_prefix = ''$JS.API'', js_span_string = show_nat, js_decode_publish = (\<lambda>s. Inl ()), js_encode_get = (\<lambda>n. Inl ()),
       js_encode_purge = (\<lambda>r. Inl ()), js_decode_purge = (\<lambda>s. Inl ())\<rparr>, bk_stream = ''KV_B'', bk_bucket = ''B''\<rparr>"

definition demo_message :: "string \<Rightarrow> header \<Rightarrow> int \<Rightarrow> js_msg" where
  "demo_message key headers pending = \<lparr>jm_subject = ''$KV.B.'' @ key, jm_headers = headers, jm_payload = ''v'',
     jm_stream_sequence = 1, jm_timestamp = 0, jm_num_pending = pending\<rparr>"

definition demo_deleted :: header where
  "demo_deleted = [\<lparr>e_name = ''KV-Operation'', e_value = ''DEL''\<rparr>]"

definition demo_entry :: "string \<Rightarrow> kv_operation \<Rightarrow> stored_entry" where
  "demo_entry key op = \<lparr>en_bucket = ''B'', en_key = key, en_value = ''v'', en_revision = 1,
     en_timestamp = timestamp_text 0, en_operation = op\<rparr>"

lemma demo_entries:
  "entry_of_delivery demo_kv (demo_message ''k'' [] n) = Inr (demo_entry ''k'' Put)"
  "entry_of_delivery demo_kv (demo_message ''k'' demo_deleted n) = Inr (demo_entry ''k'' Delete)"
  by (simp_all add: entry_of_delivery_def key_of_delivery_def demo_kv_def demo_message_def Let_def sub_def
      key_of_string_def validate_key_def allowed_key_character_def letter_or_digit_def then_result_def
      operation_of_headers_def demo_deleted_def lowercase_names timestamp_of_nanoseconds_def demo_entry_def)

theorem watch_marks_once_witness:
  "iter demo_kv map_watch_error list_pull (watch_v Last_per_subject None True 2) []
     [demo_message ''k'' [] 1, demo_message ''k'' demo_deleted 0, demo_message ''k'' [] 0] =
   Some (Inr (), [Entry (demo_entry ''k'' Put), Initial_done, Entry (demo_entry ''k'' Put)])"
proof -
  let ?ms = "[demo_message ''k'' [] 1, demo_message ''k'' demo_deleted 0, demo_message ''k'' [] 0]"
  let ?es = "[demo_entry ''k'' Put, demo_entry ''k'' Delete, demo_entry ''k'' Put]"
  have "list_all2 (\<lambda>m e. entry_of_delivery demo_kv m = Inr e) ?ms ?es" by (simp add: demo_entries)
  moreover have "delivers list_pull ?ms ?ms Push_closed" by (simp add: list_pull_def)
  moreover have "int (length ?ms) < 2 ^ 63" by simp
  ultimately have "iter demo_kv map_watch_error list_pull (watch_v Last_per_subject None True 2) [] ?ms =
      Some (Inr (), marked True (if Last_per_subject = New \<and> (None :: int option) = None \<or> (2 :: int) = 0 then Some 0
        else retained_count (Some 2) 0 ?ms) ?es)"
    by (rule watch_marks_once)
  then show ?thesis by (simp add: marked_def demo_message_def demo_entry_def)
qed

section \<open>Messages that are no entries\<close>















end
