(* ===== verification/KeyList.thy ===== *)
theory KeyList
  imports KeyWatch
begin

text \<open>
  Listing a bucket with a temporary consumer (lib/eio/key_value.ml: drain_messages,
  collect_messages, keys, history, purge_deletes). Creating, asking, fetching from and deleting
  the consumer are parameters.
\<close>

section \<open>The temporary consumer\<close>

record one_shot_config =
  os_filter :: string
  os_policy :: watch_delivery
  os_headers_only :: bool

record ('x, 'c, 'w) one_shot =
  os_create :: "one_shot_config \<Rightarrow> 'w \<Rightarrow> ('x js_error + 'c) \<times> 'w"
  os_num_pending :: "'c \<Rightarrow> 'w \<Rightarrow> ('x js_error + int) \<times> 'w"
  os_fetch :: "'c \<Rightarrow> nat \<Rightarrow> nat \<Rightarrow> 'w \<Rightarrow> ('x js_error + js_msg list) \<times> 'w"
  os_delete :: "'c \<Rightarrow> 'w \<Rightarrow> ('x js_error + unit) \<times> 'w"

definition one_shot_batch :: nat where "one_shot_batch = 256"
definition one_shot_expires :: nat where "one_shot_expires = 10 ^ 9"
definition max_empty_fetches :: nat where "max_empty_fetches = 3"

text \<open>
  Fetching goes on until a message or the consumer says that nothing is pending, or three
  fetches in a row bring nothing.
\<close>

partial_function (option) drain_loop ::
  "('x, 'c, 'w) one_shot \<Rightarrow> 'c \<Rightarrow> js_msg list \<Rightarrow> nat \<Rightarrow> 'w \<Rightarrow> (('x kv_error + js_msg list) \<times> 'w) option" where
  "drain_loop o1 c acc empty_fetches w =
     (case os_fetch o1 c one_shot_expires one_shot_batch w of
        (Inl error, w1) \<Rightarrow> Some (Inl (map_jetstream_error error), w1)
      | (Inr messages, w1) \<Rightarrow>
          if messages \<noteq> [] \<and> jm_num_pending (last messages) = 0 then Some (Inr (acc @ messages), w1)
          else (case os_num_pending o1 c w1 of
              (Inl error, w2) \<Rightarrow> Some (Inl (map_jetstream_error error), w2)
            | (Inr pending, w2) \<Rightarrow>
                if pending = 0 then Some (Inr (acc @ messages), w2)
                else (let empty_fetches' = (if messages = [] then empty_fetches + 1 else 0) in
                  if empty_fetches' \<ge> max_empty_fetches then Some (Inl (Kv_connection Timeout), w2)
                  else drain_loop o1 c (acc @ messages) empty_fetches' w2)))"

definition drain_messages :: "('x, 'c, 'w) one_shot \<Rightarrow> 'c \<Rightarrow> 'w \<Rightarrow> (('x kv_error + js_msg list) \<times> 'w) option" where
  "drain_messages o1 c w = drain_loop o1 c [] 0 w"

definition with_temporary_consumer ::
  "('x, 'c, 'w) one_shot \<Rightarrow> one_shot_config \<Rightarrow> ('c \<Rightarrow> 'w \<Rightarrow> (('x kv_error + 'a) \<times> 'w) option) \<Rightarrow> 'w \<Rightarrow>
     (('x kv_error + 'a) \<times> 'w) option" where
  "with_temporary_consumer o1 config f w =
     (case os_create o1 config w of
        (Inl error, w1) \<Rightarrow> Some (Inl (map_jetstream_error error), w1)
      | (Inr c, w1) \<Rightarrow>
          map_option (\<lambda>(result, w2).
            case (result, os_delete o1 c w2) of
              (Inr v, (Inr _, w3)) \<Rightarrow> (Inr v, w3)
            | (Inr _, (Inl error, w3)) \<Rightarrow> (Inl (map_jetstream_error error), w3)
            | (Inl error, (_, w3)) \<Rightarrow> (Inl error, w3)) (f c w1))"

definition collect_messages ::
  "('x, 'c, 'w) one_shot \<Rightarrow> one_shot_config \<Rightarrow> 'w \<Rightarrow> (('x kv_error + js_msg list) \<times> 'w) option" where
  "collect_messages o1 config w =
     with_temporary_consumer o1 config (\<lambda>c w.
       case os_num_pending o1 c w of
         (Inl error, w1) \<Rightarrow> Some (Inl (map_jetstream_error error), w1)
       | (Inr pending, w1) \<Rightarrow> if pending = 0 then Some (Inr [], w1) else drain_messages o1 c w1) w"

section \<open>Keys and history\<close>

fun fold_keys :: "('x, 'w) bucket \<Rightarrow> js_msg list \<Rightarrow> string set \<Rightarrow> string list \<Rightarrow> 'x kv_error + string list" where
  "fold_keys b [] seen keys = Inr keys"
| "fold_keys b (m # ms) seen keys =
     then_result (key_of_delivery b m) (\<lambda>key.
     then_result (operation_of_headers (jm_headers m)) (\<lambda>operation.
     if operation = Put \<and> key \<notin> seen then fold_keys b ms (insert key seen) (keys @ [key])
     else fold_keys b ms seen keys))"

definition kv_keys ::
  "('x, 'w) bucket \<Rightarrow> ('x, 'c, 'w) one_shot \<Rightarrow> string option \<Rightarrow> 'w \<Rightarrow> (('x kv_error + string list) \<times> 'w) option" where
  "kv_keys b o1 filtr w =
     (case make_filter b filtr of
        Inl error \<Rightarrow> Some (Inl error, w)
      | Inr filtr \<Rightarrow>
          map_option (\<lambda>(r, w'). (then_result r (\<lambda>messages. fold_keys b messages {} []), w'))
            (collect_messages o1 \<lparr>os_filter = filtr, os_policy = Last_per_subject, os_headers_only = True\<rparr> w))"

fun fold_entries :: "('x, 'w) bucket \<Rightarrow> js_msg list \<Rightarrow> 'x kv_error + stored_entry list" where
  "fold_entries b [] = Inr []"
| "fold_entries b (m # ms) =
     then_result (entry_of_delivery b m) (\<lambda>entry.
     then_result (fold_entries b ms) (\<lambda>entries. Inr (entry # entries)))"

definition kv_history ::
  "('x, 'w) bucket \<Rightarrow> ('x, 'c, 'w) one_shot \<Rightarrow> string \<Rightarrow> 'w \<Rightarrow> (('x kv_error + stored_entry list) \<times> 'w) option" where
  "kv_history b o1 key w =
     map_option (\<lambda>(r, w'). (then_result r (fold_entries b), w'))
       (collect_messages o1 \<lparr>os_filter = key_subject b key, os_policy = All, os_headers_only = False\<rparr> w)"

section \<open>Purging deletion markers\<close>

text \<open>
  \<open>before span\<close> is the current instant less a span (ptime; \<open>None\<close> when it cannot be represented),
  \<open>after\<close> parses a time stamp and compares it with an instant, \<open>None\<close> when it is no time stamp.
  A cutoff that is an error stops the purge at the first marker, not before.
\<close>

datatype purge_age = Default_age | Any_age | Older_than nat

definition purge_cutoff :: "(nat \<Rightarrow> 't option) \<Rightarrow> purge_age \<Rightarrow> 'x kv_error + 't option" where
  "purge_cutoff before age =
     (case age of
        Any_age \<Rightarrow> Inr None
      | _ \<Rightarrow>
          (let span = (case age of Default_age \<Rightarrow> 30 * 60 * 10 ^ 9 | Older_than span \<Rightarrow> span | Any_age \<Rightarrow> 0) in
           if span \<le> 0 then Inl Invalid_purge_age
           else case before span of
               None \<Rightarrow> Inl Invalid_purge_age
             | Some limit \<Rightarrow> Inr (Some limit)))"

definition marker_keep ::
  "(string \<Rightarrow> 't \<Rightarrow> bool option) \<Rightarrow> 'x kv_error + 't option \<Rightarrow> stored_entry \<Rightarrow> 'x kv_error + int option" where
  "marker_keep after cutoff entry =
     (case cutoff of
        Inl error \<Rightarrow> Inl error
      | Inr None \<Rightarrow> Inr None
      | Inr (Some limit) \<Rightarrow>
          (case after (en_timestamp entry) limit of
             None \<Rightarrow> Inl (Invalid_timestamp_text (en_timestamp entry))
           | Some True \<Rightarrow> Inr (Some 1)
           | Some False \<Rightarrow> Inr None))"

definition purge_entry ::
  "('x, 'w) bucket \<Rightarrow> (string \<Rightarrow> 't \<Rightarrow> bool option) \<Rightarrow> 'x kv_error + 't option \<Rightarrow> stored_entry \<Rightarrow> 'w \<Rightarrow>
     ('x kv_error + unit) \<times> 'w" where
  "purge_entry b after cutoff entry w =
     (if en_operation entry = Put then (Inr (), w)
      else case marker_keep after cutoff entry of
        Inl error \<Rightarrow> (Inl error, w)
      | Inr keep \<Rightarrow>
          (case stream_purge (bk_jetstream b) None (Some (key_subject b (en_key entry))) keep (bk_stream b) w of
             (Inr _, w') \<Rightarrow> (Inr (), w')
           | (Inl error, w') \<Rightarrow> (Inl (map_jetstream_error error), w')))"

fun purge_messages ::
  "('x, 'w) bucket \<Rightarrow> (string \<Rightarrow> 't \<Rightarrow> bool option) \<Rightarrow> 'x kv_error + 't option \<Rightarrow> js_msg list \<Rightarrow> 'w \<Rightarrow>
     ('x kv_error + unit) \<times> 'w" where
  "purge_messages b after cutoff [] w = (Inr (), w)"
| "purge_messages b after cutoff (m # ms) w =
     (case entry_of_delivery b m of
        Inl error \<Rightarrow> (Inl error, w)
      | Inr entry \<Rightarrow>
          (case purge_entry b after cutoff entry w of
             (Inl error, w') \<Rightarrow> (Inl error, w')
           | (Inr _, w') \<Rightarrow> purge_messages b after cutoff ms w'))"

definition purge_deletes ::
  "('x, 'w) bucket \<Rightarrow> ('x, 'c, 'w) one_shot \<Rightarrow> (nat \<Rightarrow> 't option) \<Rightarrow> (string \<Rightarrow> 't \<Rightarrow> bool option) \<Rightarrow>
     purge_age option \<Rightarrow> 'w \<Rightarrow> (('x kv_error + unit) \<times> 'w) option" where
  "purge_deletes b o1 before after older_than w =
     (let cutoff = purge_cutoff before (case older_than of None \<Rightarrow> Default_age | Some age \<Rightarrow> age) in
      case collect_messages o1 \<lparr>os_filter = ''$KV.'' @ bk_bucket b @ ''.>'', os_policy = Last_per_subject,
         os_headers_only = False\<rparr> w of
        None \<Rightarrow> None
      | Some (Inl error, w') \<Rightarrow> Some (Inl error, w')
      | Some (Inr messages, w') \<Rightarrow> Some (purge_messages b after cutoff messages w'))"

section \<open>A quiet consumer is listed whole\<close>

text \<open>
  What a listing relies on: a fetch takes messages from the front of the consumer's queue, at least
  one when there is one, and never more than asked for; both the last message taken and the
  consumer's information tell how many are left.
\<close>

definition serves :: "('x, 'c, 'w) one_shot \<Rightarrow> 'c \<Rightarrow> ('w \<Rightarrow> js_msg list) \<Rightarrow> bool" where
  "serves o1 c queue \<longleftrightarrow>
     (\<forall>w expires batch. 0 < batch \<longrightarrow>
        (\<exists>ms w'. os_fetch o1 c expires batch w = (Inr ms, w') \<and> queue w = ms @ queue w' \<and> length ms \<le> batch \<and>
          (queue w \<noteq> [] \<longrightarrow> ms \<noteq> [] \<and> jm_num_pending (last ms) = int (length (queue w'))))) \<and>
     (\<forall>w. \<exists>w'. os_num_pending o1 c w = (Inr (int (length (queue w))), w') \<and> queue w' = queue w)"

lemma serves_fetch:
  assumes "serves o1 c queue" "0 < batch"
  obtains ms w' where "os_fetch o1 c expires batch w = (Inr ms, w')" "queue w = ms @ queue w'" "length ms \<le> batch"
    "queue w \<noteq> [] \<Longrightarrow> ms \<noteq> []" "queue w \<noteq> [] \<Longrightarrow> jm_num_pending (last ms) = int (length (queue w'))"
  using assms unfolding serves_def by blast

lemma serves_pending:
  assumes "serves o1 c queue"
  obtains w' where "os_num_pending o1 c w = (Inr (int (length (queue w))), w')" "queue w' = queue w"
  using assms unfolding serves_def by blast

lemma drain_loop_whole:
  assumes "serves o1 c queue"
  shows "\<exists>w'. drain_loop o1 c acc n w = Some (Inr (acc @ queue w), w') \<and> queue w' = []"
proof (induction "length (queue w)" arbitrary: w acc n rule: less_induct)
  case less
  obtain ms w1 where f: "os_fetch o1 c one_shot_expires one_shot_batch w = (Inr ms, w1)" "queue w = ms @ queue w1"
    "queue w \<noteq> [] \<Longrightarrow> ms \<noteq> []" "queue w \<noteq> [] \<Longrightarrow> jm_num_pending (last ms) = int (length (queue w1))"
    using serves_fetch [OF assms, of one_shot_batch] unfolding one_shot_batch_def by (metis zero_less_numeral)
  obtain w2 where p: "os_num_pending o1 c w1 = (Inr (int (length (queue w1))), w2)" "queue w2 = queue w1"
    using serves_pending [OF assms] by metis
  show ?case
  proof (cases "queue w1 = []")
    case True
    with f p show ?thesis by (subst drain_loop.simps) (cases "ms = []"; simp)
  next
    case False
    with f have ne: "ms \<noteq> []" "jm_num_pending (last ms) \<noteq> 0" by auto
    with f(2) p(2) have "length (queue w2) < length (queue w)" by (cases ms) simp_all
    from less [OF this, of "acc @ ms" 0] obtain w' where
      "drain_loop o1 c (acc @ ms) 0 w2 = Some (Inr ((acc @ ms) @ queue w2), w')" "queue w' = []" by blast
    with f p ne False show ?thesis by (subst drain_loop.simps) (simp add: Let_def max_empty_fetches_def)
  qed
qed

lemma collect_messages_whole:
  assumes "serves o1 c queue" "os_create o1 config w = (Inr c, w0)" "\<And>w. fst (os_delete o1 c w) = Inr ()"
  shows "\<exists>w'. collect_messages o1 config w = Some (Inr (queue w0), w')"
proof -
  obtain w1 where p: "os_num_pending o1 c w0 = (Inr (int (length (queue w0))), w1)" "queue w1 = queue w0"
    using serves_pending [OF assms(1)] by metis
  obtain w2 where d: "drain_loop o1 c [] 0 w1 = Some (Inr (queue w0), w2)"
    using drain_loop_whole [OF assms(1), of "[]" 0 w1] p(2) by auto
  obtain u1 where e1: "os_delete o1 c w1 = (Inr (), u1)" using assms(3) [of w1] by (cases "os_delete o1 c w1") auto
  obtain u2 where e2: "os_delete o1 c w2 = (Inr (), u2)" using assms(3) [of w2] by (cases "os_delete o1 c w2") auto
  show ?thesis
    using p d e1 e2 assms(2)
    by (cases "queue w0 = []") (simp_all add: collect_messages_def with_temporary_consumer_def drain_messages_def)
qed

text \<open>The deliveries that show a key with a value.\<close>

definition shows_value :: "('x, 'w) bucket \<Rightarrow> string \<Rightarrow> js_msg \<Rightarrow> bool" where
  "shows_value b key m \<longleftrightarrow> key_of_delivery b m = Inr key \<and> operation_of_headers (jm_headers m) = (Inr Put :: 'x kv_error + _)"

definition well_formed_delivery :: "('x, 'w) bucket \<Rightarrow> js_msg \<Rightarrow> bool" where
  "well_formed_delivery b m \<longleftrightarrow>
     \<not> isl (key_of_delivery b m) \<and> \<not> isl (operation_of_headers (jm_headers m) :: 'x kv_error + _)"

lemma result_parsed:
  assumes "\<not> isl r"
  obtains a where "r = Inr a"
  using assms by (cases r) simp_all

lemma fold_keys_exact:
  assumes "\<forall>m \<in> set ms. well_formed_delivery b m" "distinct keys" "seen = set keys"
  shows "\<exists>ks. fold_keys b ms seen keys = Inr ks \<and> distinct ks \<and>
    set ks = set keys \<union> {key. \<exists>m \<in> set ms. shows_value b key m}"
  using assms
proof (induction ms arbitrary: seen keys)
  case Nil
  then show ?case by simp
next
  case (Cons m ms)
  from Cons.prems(1) obtain key operation where
    k: "key_of_delivery b m = Inr key" and o: "operation_of_headers (jm_headers m) = (Inr operation :: 'a kv_error + _)"
    by (auto simp: well_formed_delivery_def elim!: result_parsed)
  have s: "shows_value b key' m \<longleftrightarrow> key' = key \<and> operation = Put" for key'
    using k o by (auto simp: shows_value_def)
  show ?case
  proof (cases "operation = Put \<and> key \<notin> seen")
    case True
    with Cons.IH [of "keys @ [key]" "insert key seen"] Cons.prems k o s show ?thesis
      by (fastforce simp: then_result_def)
  next
    case False
    with Cons.IH [of keys seen] Cons.prems k o s show ?thesis by (fastforce simp: then_result_def)
  qed
qed

text \<open>
  C23: listing the keys of a bucket. When the temporary consumer delivers its queue faithfully and
  every message in it is a well-formed entry, the listing returns, and returns each key whose
  delivered entry is a value exactly once, and no other: deleted and purged keys are left out. That
  the queue has the last entry of every key is the policy the consumer is created with.
\<close>
theorem keys_listed_once:
  assumes "make_filter b filtr = Inr pattern"
    and "os_create o1 \<lparr>os_filter = pattern, os_policy = Last_per_subject, os_headers_only = True\<rparr> w = (Inr c, w0)"
    and "serves o1 c queue" and "\<And>w. fst (os_delete o1 c w) = Inr ()"
    and "\<forall>m \<in> set (queue w0). well_formed_delivery b m"
  shows "\<exists>keys w'. kv_keys b o1 filtr w = Some (Inr keys, w') \<and> distinct keys \<and>
    set keys = {key. \<exists>m \<in> set (queue w0). shows_value b key m}"
proof -
  obtain w' where "collect_messages o1 \<lparr>os_filter = pattern, os_policy = Last_per_subject, os_headers_only = True\<rparr> w =
      Some (Inr (queue w0), w')"
    using collect_messages_whole [OF assms(3,2,4)] by blast
  moreover obtain ks where "fold_keys b (queue w0) {} [] = Inr ks" "distinct ks"
    "set ks = {key. \<exists>m \<in> set (queue w0). shows_value b key m}"
    using fold_keys_exact [OF assms(5), of "[]" "{}"] by auto
  ultimately show ?thesis using assms(1) by (simp add: kv_keys_def then_result_def)
qed

text \<open>A consumer over a numbered queue: the world is the number of messages still queued.\<close>

definition demo_queue :: "nat \<Rightarrow> js_msg list" where
  "demo_queue w = map (\<lambda>i. demo_message (if i = 0 then ''a'' else ''b'') (if i = 0 then [] else demo_deleted) (int i)) (rev [0..<w])"

definition demo_one_shot :: "(unit, unit, nat) one_shot" where
  "demo_one_shot = \<lparr>os_create = \<lambda>_ w. (Inr (), w), os_num_pending = \<lambda>_ w. (Inr (int w), w),
     os_fetch = \<lambda>_ _ batch w. (Inr (take batch (demo_queue w)), w - batch), os_delete = \<lambda>_ w. (Inr (), w)\<rparr>"

definition demo_list_kv :: "(unit, nat) bucket" where
  "demo_list_kv = \<lparr>bk_jetstream = \<lparr>
       js_link = \<lparr>request_msg = (\<lambda>timeout m w. (Inl Disconnected, w)), link_now = (\<lambda>w. 0), sleep_until = (\<lambda>d w. w)\<rparr>,
       js_prefix = ''$JS.API'', js_span_string = show_nat, js_decode_publish = (\<lambda>s. Inl ()), js_encode_get = (\<lambda>n. Inl ()),
       js_encode_purge = (\<lambda>r. Inl ()), js_decode_purge = (\<lambda>s. Inl ())\<rparr>, bk_stream = ''KV_B'', bk_bucket = ''B''\<rparr>"

lemma demo_queue_split: "demo_queue w = take n (demo_queue w) @ demo_queue (w - n)"
proof -
  have "drop n (rev [0..<w]) = rev [0..<w - n]" by (induction w arbitrary: n) (simp_all add: drop_Cons')
  then have "drop n (demo_queue w) = demo_queue (w - n)" by (simp add: demo_queue_def drop_map)
  then show ?thesis by (metis append_take_drop_id)
qed

lemma demo_queue_length: "length (demo_queue w) = w" by (simp add: demo_queue_def)

lemma demo_queue_pending: "i < w \<Longrightarrow> jm_num_pending (demo_queue w ! i) = int (w - 1 - i)"
  by (simp add: demo_queue_def demo_message_def rev_nth)

lemma demo_queue_last:
  assumes "demo_queue w \<noteq> []" "0 < n"
  shows "jm_num_pending (last (take n (demo_queue w))) = int (w - n)"
proof -
  have "0 < w" using assms(1) by (cases w) (simp_all add: demo_queue_def)
  with assms have "last (take n (demo_queue w)) = demo_queue w ! (min w n - 1)"
    by (simp add: last_conv_nth demo_queue_length)
  moreover have "min w n - 1 < w" "w - 1 - (min w n - 1) = w - n" using \<open>0 < w\<close> assms(2) by linarith+
  ultimately show ?thesis using demo_queue_pending by presburger
qed

lemma demo_queue_taken: "demo_queue w \<noteq> [] \<Longrightarrow> 0 < n \<Longrightarrow> take n (demo_queue w) \<noteq> []"
  by simp

lemma demo_one_shot_serves: "serves demo_one_shot () demo_queue"
  unfolding serves_def demo_one_shot_def
  by (simp add: demo_queue_length demo_queue_split [symmetric] demo_queue_last del: of_nat_diff)

lemma demo_list_deliveries:
  "well_formed_delivery demo_list_kv (demo_message ''a'' [] n)"
  "well_formed_delivery demo_list_kv (demo_message ''b'' demo_deleted n)"
  "shows_value demo_list_kv key (demo_message ''a'' [] n) \<longleftrightarrow> key = ''a''"
  "\<not> shows_value demo_list_kv key (demo_message ''b'' demo_deleted n)"
  by (auto simp: well_formed_delivery_def shows_value_def key_of_delivery_def demo_list_kv_def demo_message_def Let_def
      sub_def key_of_string_def validate_key_def allowed_key_character_def letter_or_digit_def
      operation_of_headers_def demo_deleted_def lowercase_names)

text \<open>Three messages are left: the last one delivered shows \<open>a\<close>, the others delete \<open>b\<close>.\<close>

theorem keys_listed_once_witness:
  "\<exists>keys w'. kv_keys demo_list_kv demo_one_shot None 3 = Some (Inr keys, w') \<and> distinct keys \<and> set keys = {''a''}"
proof -
  have f: "make_filter demo_list_kv None = Inr ''$KV.B.>''" by code_simp
  have "\<exists>keys w'. kv_keys demo_list_kv demo_one_shot None 3 = Some (Inr keys, w') \<and> distinct keys \<and>
    set keys = {key. \<exists>m \<in> set (demo_queue 3). shows_value demo_list_kv key m}"
    by (rule keys_listed_once [OF f _ demo_one_shot_serves])
       (auto simp: demo_one_shot_def demo_queue_def demo_list_deliveries)
  moreover have "{key. \<exists>m \<in> set (demo_queue 3). shows_value demo_list_kv key m} = {''a''}"
    by (auto simp: demo_queue_def demo_list_deliveries upt_rec split: if_splits intro!: bexI)
  ultimately show ?thesis by simp
qed

end
