(* ===== verification/ServiceNames.thy ===== *)
theory ServiceNames
  imports KeyValueProps
begin

text \<open>
  Names of the Service framework (lib/eio/service.ml): identifiers, versions, configurations and
  endpoints, queue policies, groups, and the subjects on which a service answers and is
  discovered. The JSON package and the handlers a user passes are not part of it.
\<close>

section \<open>Errors\<close>

datatype service_config_error =
    Empty_service_name
  | Invalid_service_name_character nat char
  | Invalid_version string
  | Duplicate_config_metadata string

datatype service_endpoint_error =
    Empty_endpoint_name
  | Invalid_endpoint_name_character nat char
  | Duplicate_endpoint_metadata string
  | Invalid_pending_limits
  | Invalid_endpoint_pending_limit string int

datatype selector_error =
    Empty_selector
  | Invalid_selector_character nat char

datatype 'x service_error =
    Service_connection "'x connection_error"
  | Service_invalid_config service_config_error
  | Invalid_service_endpoint service_endpoint_error
  | Invalid_group_subject subject_error
  | Duplicate_endpoint string
  | Service_invalid_headers header_error
  | Invalid_service_error string string
  | Invalid_selector selector_error
  | Invalid_discovery_subject subject_error
  | Invalid_service_metadata string
  | No_reply_subject
  | Already_responded
  | No_response
  | Service_answered_error string string
  | Handler_raised
  | Service_encode 'x
  | Service_decode 'x
  | Unexpected_response_type string string
  | Unexpected_status int string
  | Service_stopped

section \<open>Identifiers\<close>

datatype identifier_error = Identifier_empty | Identifier_invalid nat char

definition identifier_character :: "char \<Rightarrow> bool" where
  "identifier_character c \<longleftrightarrow> letter_or_digit c \<or> c = CHR ''-'' \<or> c = CHR ''_''"

definition validate_identifier :: "string \<Rightarrow> identifier_error option" where
  "validate_identifier v =
     (if length v = 0 then Some Identifier_empty
      else first_error (\<lambda>position c.
        if \<not> identifier_character c then Some (Identifier_invalid position c) else None) 0 v)"

definition config_name_error :: "identifier_error \<Rightarrow> service_config_error" where
  "config_name_error error =
     (case error of
        Identifier_empty \<Rightarrow> Empty_service_name
      | Identifier_invalid position c \<Rightarrow> Invalid_service_name_character position c)"

definition endpoint_name_error :: "identifier_error \<Rightarrow> service_endpoint_error" where
  "endpoint_name_error error =
     (case error of
        Identifier_empty \<Rightarrow> Empty_endpoint_name
      | Identifier_invalid position c \<Rightarrow> Invalid_endpoint_name_character position c)"

definition selector_name_error :: "identifier_error \<Rightarrow> selector_error" where
  "selector_name_error error =
     (case error of
        Identifier_empty \<Rightarrow> Empty_selector
      | Identifier_invalid position c \<Rightarrow> Invalid_selector_character position c)"

section \<open>Versions\<close>

text \<open>
  \<open>validate_version\<close> walks an index over the string. A scanner below takes what is left of the
  string and answers whether it accepts, with what it leaves.
\<close>

definition consume_numeric :: "bool \<Rightarrow> string \<Rightarrow> bool \<times> string" where
  "consume_numeric leading_zeroes s =
     (let digits = takeWhile is_digit s; n = length digits in
      (n > 0 \<and> (leading_zeroes \<or> n = 1 \<or> s ! 0 \<noteq> CHR ''0''), dropWhile is_digit s))"

definition part_character :: "char \<Rightarrow> bool" where
  "part_character c \<longleftrightarrow> letter_or_digit c \<or> c = CHR ''-''"

definition consume_identifier :: "bool \<Rightarrow> string \<Rightarrow> bool \<times> string" where
  "consume_identifier numeric_rules s =
     (let part = takeWhile part_character s; n = length part; left = dropWhile part_character s in
      if n = 0 then (False, left)
      else if numeric_rules then
        (let numeric = list_all is_digit part in (\<not> numeric \<or> n = 1 \<or> s ! 0 \<noteq> CHR ''0'', left))
      else (True, left))"

lemma consume_identifier_shrinks: "length (snd (consume_identifier r s)) \<le> length s"
  by (simp add: consume_identifier_def Let_def length_dropWhile_le)

function more_identifiers :: "bool \<Rightarrow> bool \<Rightarrow> string \<Rightarrow> bool \<times> string" where
  "more_identifiers numeric_rules valid [] = (valid, [])"
| "more_identifiers numeric_rules valid (c # cs) =
     (if c = CHR ''.'' then
        more_identifiers numeric_rules (if fst (consume_identifier numeric_rules cs) then valid else False)
          (snd (consume_identifier numeric_rules cs))
      else (valid, c # cs))"
  by pat_completeness auto

termination
  by (relation "measure (\<lambda>(_, _, s). length s)") (simp_all add: consume_identifier_shrinks less_Suc_eq_le)

definition consume_identifiers :: "bool \<Rightarrow> string \<Rightarrow> bool \<times> string" where
  "consume_identifiers numeric_rules s =
     (case consume_identifier numeric_rules s of
        (False, left) \<Rightarrow> (False, left)
      | (True, left) \<Rightarrow> more_identifiers numeric_rules True left)"

definition at_dot :: "string \<Rightarrow> bool" where
  "at_dot s \<longleftrightarrow> (case s of [] \<Rightarrow> False | c # _ \<Rightarrow> c = CHR ''.'')"

definition validate_version :: "string \<Rightarrow> bool" where
  "validate_version v =
     (let (major, s) = consume_numeric False v;
          valid = (major \<and> at_dot s);
          s = (if valid then tl s else s);
          (minor, s) = (if valid then consume_numeric False s else (False, s));
          valid = (minor \<and> at_dot s);
          s = (if valid then tl s else s);
          (valid, s) = (if valid then consume_numeric False s else (False, s));
          (valid, s) =
            (if \<not> valid \<or> s = [] then (valid, s)
             else if hd s = CHR ''-'' then consume_identifiers True (tl s) else (True, s));
          (valid, s) =
            (if \<not> valid \<or> s = [] then (valid, s)
             else if hd s = CHR ''+'' then consume_identifiers False (tl s) else (False, s))
      in valid \<and> s = [])"

text \<open>The grammar of semantic versions 2.0.0, by its fields.\<close>

definition numeric_identifier :: "string \<Rightarrow> bool" where
  "numeric_identifier s \<longleftrightarrow> s \<noteq> [] \<and> list_all is_digit s \<and> (length s = 1 \<or> hd s \<noteq> CHR ''0'')"

definition prerelease_identifier :: "string \<Rightarrow> bool" where
  "prerelease_identifier s \<longleftrightarrow>
     s \<noteq> [] \<and> list_all part_character s \<and> (list_all is_digit s \<longrightarrow> numeric_identifier s)"

definition build_identifier :: "string \<Rightarrow> bool" where
  "build_identifier s \<longleftrightarrow> s \<noteq> [] \<and> list_all part_character s"

definition semantic_version :: "string \<Rightarrow> bool" where
  "semantic_version v \<longleftrightarrow>
     (\<exists>major minor patch prerelease build.
        numeric_identifier major \<and> numeric_identifier minor \<and> numeric_identifier patch \<and>
        (case prerelease of None \<Rightarrow> True | Some p \<Rightarrow> list_all prerelease_identifier (split_on CHR ''.'' p)) \<and>
        (case build of None \<Rightarrow> True | Some b \<Rightarrow> list_all build_identifier (split_on CHR ''.'' b)) \<and>
        v = major @ ''.'' @ minor @ ''.'' @ patch @ (case prerelease of None \<Rightarrow> [] | Some p \<Rightarrow> ''-'' @ p) @
          (case build of None \<Rightarrow> [] | Some b \<Rightarrow> ''+'' @ b))"


section \<open>The scanner accepts exactly the semantic versions\<close>

lemma dot_codes [simp]: "\<not> part_character CHR ''.''" "\<not> part_character CHR ''+''" "\<not> is_digit CHR ''.''"
    "\<not> is_digit CHR ''-''" "\<not> is_digit CHR ''+''"
  by (simp_all add: part_character_def letter_or_digit_def is_digit_def)

lemma takeWhile_prefix:
  "list_all P d \<Longrightarrow> r = [] \<or> \<not> P (hd r) \<Longrightarrow> takeWhile P (d @ r) = d \<and> dropWhile P (d @ r) = r"
  by (induction d) (cases r; auto)+

lemma dropWhile_stops: "dropWhile P s = [] \<or> \<not> P (hd (dropWhile P s))"
  by (metis hd_dropWhile)

lemma takeWhile_all: "list_all P (takeWhile P s)"
  by (auto simp: list_all_iff dest: set_takeWhileD)

lemma consume_numeric_accepts:
  "consume_numeric False s = (True, r) \<longleftrightarrow>
     (\<exists>d. numeric_identifier d \<and> s = d @ r \<and> (r = [] \<or> \<not> is_digit (hd r)))"
proof
  assume c: "consume_numeric False s = (True, r)"
  have "r = dropWhile is_digit s" using c by (simp add: consume_numeric_def Let_def)
  then have s: "s = takeWhile is_digit s @ r" by simp
  have "numeric_identifier (takeWhile is_digit s)"
    using c takeWhile_all [of is_digit s]
    by (cases s) (auto simp: consume_numeric_def numeric_identifier_def Let_def split: if_splits)
  moreover have "r = [] \<or> \<not> is_digit (hd r)" using c dropWhile_stops [of is_digit s] by (simp add: consume_numeric_def Let_def)
  ultimately show "\<exists>d. numeric_identifier d \<and> s = d @ r \<and> (r = [] \<or> \<not> is_digit (hd r))" using s by blast
next
  assume "\<exists>d. numeric_identifier d \<and> s = d @ r \<and> (r = [] \<or> \<not> is_digit (hd r))"
  then obtain d where d: "numeric_identifier d" "s = d @ r" "r = [] \<or> \<not> is_digit (hd r)" by blast
  with takeWhile_prefix [of is_digit d r] show "consume_numeric False s = (True, r)"
    by (cases d) (auto simp: consume_numeric_def numeric_identifier_def Let_def)
qed

definition identifier_of :: "bool \<Rightarrow> string \<Rightarrow> bool" where
  "identifier_of numeric_rules = (if numeric_rules then prerelease_identifier else build_identifier)"

lemma identifier_of_part: "identifier_of r d \<Longrightarrow> d \<noteq> [] \<and> list_all part_character d"
  by (auto simp: identifier_of_def prerelease_identifier_def build_identifier_def split: if_splits)

lemma consume_identifier_accepts:
  "consume_identifier n s = (True, r) \<longleftrightarrow>
     (\<exists>d. identifier_of n d \<and> s = d @ r \<and> (r = [] \<or> \<not> part_character (hd r)))"
proof
  assume c: "consume_identifier n s = (True, r)"
  let ?d = "takeWhile part_character s"
  have r: "r = dropWhile part_character s" and ne: "?d \<noteq> []"
    using c by (auto simp: consume_identifier_def Let_def split: if_splits)
  then obtain c' cs where sc: "s = c' # cs" "part_character c'" by (cases s) (auto split: if_splits)
  have "n \<Longrightarrow> list_all is_digit ?d \<Longrightarrow> length ?d = 1 \<or> hd ?d \<noteq> CHR ''0''"
    using c ne sc by (auto simp: consume_identifier_def Let_def split: if_splits)
  then have "identifier_of n ?d"
    using ne takeWhile_all [of part_character s]
    by (auto simp: identifier_of_def prerelease_identifier_def build_identifier_def numeric_identifier_def)
  moreover have "s = ?d @ r" by (simp add: r)
  ultimately show "\<exists>d. identifier_of n d \<and> s = d @ r \<and> (r = [] \<or> \<not> part_character (hd r))"
    using dropWhile_stops [of part_character s] r by blast
next
  assume "\<exists>d. identifier_of n d \<and> s = d @ r \<and> (r = [] \<or> \<not> part_character (hd r))"
  then obtain d where d: "identifier_of n d" "s = d @ r" "r = [] \<or> \<not> part_character (hd r)" by blast
  with identifier_of_part [OF d(1)] takeWhile_prefix [of part_character d r]
  show "consume_identifier n s = (True, r)"
    by (cases d) (auto simp: consume_identifier_def identifier_of_def prerelease_identifier_def
        numeric_identifier_def Let_def split: if_splits)
qed

definition identifiers_end :: "string \<Rightarrow> bool" where
  "identifiers_end r \<longleftrightarrow> r = [] \<or> \<not> part_character (hd r) \<and> hd r \<noteq> CHR ''.''"

lemma more_identifiers_false: "fst (more_identifiers n False s) = False"
  by (induction n False s rule: more_identifiers.induct) auto

lemma more_identifiers_accepts:
  "s = [] \<or> \<not> part_character (hd s) \<Longrightarrow> more_identifiers n True s = (True, r) \<longleftrightarrow>
     (\<exists>ds. list_all (identifier_of n) ds \<and> s = concat (map (Cons CHR ''.'') ds) @ r \<and> identifiers_end r)"
proof (induction n True s arbitrary: r rule: more_identifiers.induct)
  case (1 n)
  show ?case by (auto simp: identifiers_end_def)
next
  case (2 n c cs)
  show ?case
  proof (cases "c = CHR ''.''")
    case False
    have "ds = []" if "c # cs = concat (map (Cons CHR ''.'') ds) @ r" for ds
      using that False by (cases ds) auto
    moreover have "more_identifiers n True (c # cs) = (True, r) \<longleftrightarrow> r = c # cs" using False by auto
    ultimately show ?thesis using False 2(2) by (auto simp: identifiers_end_def intro!: exI [of _ "[]"])
  next
    case True
    obtain accepted left where i: "consume_identifier n cs = (accepted, left)" by (cases "consume_identifier n cs")
    show ?thesis
    proof (cases accepted)
      case False
      have "more_identifiers n True (c # cs) \<noteq> (True, r)"
        using True i False more_identifiers_false [of n left] by (cases "more_identifiers n False left") auto
      moreover have False if "list_all (identifier_of n) ds" "c # cs = concat (map (Cons CHR ''.'') ds) @ r" "identifiers_end r" for ds
      proof (cases ds)
        case Nil
        with that True show False by (auto simp: identifiers_end_def)
      next
        case (Cons d ds')
        then have "consume_identifier n cs = (True, concat (map (Cons CHR ''.'') ds') @ r)"
          using that by (subst consume_identifier_accepts) (cases ds'; auto simp: identifiers_end_def)
        with i False show False by simp
      qed
      ultimately show ?thesis by blast
    next
      case accepted: True
      then have end': "left = [] \<or> \<not> part_character (hd left)"
        using i consume_identifier_accepts [of n cs left] by auto
      have "more_identifiers n True (c # cs) = (True, r) \<longleftrightarrow>
        (\<exists>ds. list_all (identifier_of n) ds \<and> left = concat (map (Cons CHR ''.'') ds) @ r \<and> identifiers_end r)"
        using 2(1) [of r] True i accepted end' by simp
      also have "\<dots> \<longleftrightarrow> (\<exists>ds. list_all (identifier_of n) ds \<and> c # cs = concat (map (Cons CHR ''.'') ds) @ r \<and> identifiers_end r)"
      proof
        assume "\<exists>ds. list_all (identifier_of n) ds \<and> left = concat (map (Cons CHR ''.'') ds) @ r \<and> identifiers_end r"
        then obtain ds where ds: "list_all (identifier_of n) ds" "left = concat (map (Cons CHR ''.'') ds) @ r" "identifiers_end r" by blast
        from i accepted obtain d where "identifier_of n d" "cs = d @ left" using consume_identifier_accepts [of n cs left] by auto
        with ds True show "\<exists>ds. list_all (identifier_of n) ds \<and> c # cs = concat (map (Cons CHR ''.'') ds) @ r \<and> identifiers_end r"
          by (intro exI [of _ "d # ds"]) simp
      next
        assume "\<exists>ds. list_all (identifier_of n) ds \<and> c # cs = concat (map (Cons CHR ''.'') ds) @ r \<and> identifiers_end r"
        then obtain ds where ds: "list_all (identifier_of n) ds" "c # cs = concat (map (Cons CHR ''.'') ds) @ r" "identifiers_end r" by blast
        then obtain d ds' where dd: "ds = d # ds'" using True by (cases ds) (auto simp: identifiers_end_def)
        with ds have "consume_identifier n cs = (True, concat (map (Cons CHR ''.'') ds') @ r)"
          by (subst consume_identifier_accepts) (cases ds'; auto simp: identifiers_end_def)
        with i dd ds show "\<exists>ds. list_all (identifier_of n) ds \<and> left = concat (map (Cons CHR ''.'') ds) @ r \<and> identifiers_end r"
          by (intro exI [of _ ds']) simp
      qed
      finally show ?thesis .
    qed
  qed
qed


lemma join_concat: "join c (d # ds) = d @ concat (map (Cons c) ds)"
  by (induction ds arbitrary: d) simp_all

lemma split_on_concat: "c \<notin> set d \<Longrightarrow> \<forall>e \<in> set ds. c \<notin> set e \<Longrightarrow> split_on c (d @ concat (map (Cons c) ds)) = d # ds"
  by (induction ds arbitrary: d) simp_all

lemma identifier_of_no_dot: "identifier_of n d \<Longrightarrow> CHR ''.'' \<notin> set d"
  using identifier_of_part [of n d] dot_codes(1) by (auto simp: list_all_iff)

lemma consume_identifiers_accepts:
  "consume_identifiers n s = (True, r) \<longleftrightarrow>
     (\<exists>p. list_all (identifier_of n) (split_on CHR ''.'' p) \<and> s = p @ r \<and> identifiers_end r)"
proof
  assume "consume_identifiers n s = (True, r)"
  then obtain left where i: "consume_identifier n s = (True, left)" and m: "more_identifiers n True left = (True, r)"
    by (auto simp: consume_identifiers_def split: prod.splits bool.splits)
  from i obtain d where d: "identifier_of n d" "s = d @ left" "left = [] \<or> \<not> part_character (hd left)"
    using consume_identifier_accepts by blast
  from m d(3) obtain ds where ds: "list_all (identifier_of n) ds" "left = concat (map (Cons CHR ''.'') ds) @ r" "identifiers_end r"
    using more_identifiers_accepts by blast
  have "split_on CHR ''.'' (d @ concat (map (Cons CHR ''.'') ds)) = d # ds"
    using d(1) ds(1) identifier_of_no_dot by (intro split_on_concat) (auto simp: list_all_iff)
  with d ds show "\<exists>p. list_all (identifier_of n) (split_on CHR ''.'' p) \<and> s = p @ r \<and> identifiers_end r"
    by (intro exI [of _ "d @ concat (map (Cons CHR ''.'') ds)"]) simp
next
  assume "\<exists>p. list_all (identifier_of n) (split_on CHR ''.'' p) \<and> s = p @ r \<and> identifiers_end r"
  then obtain p where p: "list_all (identifier_of n) (split_on CHR ''.'' p)" "s = p @ r" "identifiers_end r" by blast
  obtain d ds where sp: "split_on CHR ''.'' p = d # ds" by (cases "split_on CHR ''.'' p") auto
  with join_split_on [of "CHR ''.''" p] have pe: "p = d @ concat (map (Cons CHR ''.'') ds)" by (simp only: join_concat)
  let ?left = "concat (map (Cons CHR ''.'') ds) @ r"
  have e: "?left = [] \<or> \<not> part_character (hd ?left)"
    using p(3) by (cases ds) (auto simp: identifiers_end_def)
  have "consume_identifier n s = (True, ?left)"
    using p sp pe e by (subst consume_identifier_accepts) auto
  moreover have "more_identifiers n True ?left = (True, r)"
    using p sp e more_identifiers_accepts [OF e, of n r] by auto
  ultimately show "consume_identifiers n s = (True, r)" by (simp add: consume_identifiers_def)
qed

definition version_tail :: "string \<Rightarrow> bool" where
  "version_tail r \<longleftrightarrow>
     r = [] \<or> (\<exists>b. r = CHR ''+'' # b \<and> consume_identifiers False b = (True, [])) \<or>
     (\<exists>t u. r = CHR ''-'' # t \<and> consume_identifiers True t = (True, u) \<and>
        (u = [] \<or> (\<exists>b. u = CHR ''+'' # b \<and> consume_identifiers False b = (True, []))))"

lemma at_dot_Cons: "at_dot s \<longleftrightarrow> (\<exists>t. s = CHR ''.'' # t)"
  by (cases s) (auto simp: at_dot_def)

lemma pair_True: "(case p of (a, b) \<Rightarrow> a \<and> b = c) \<longleftrightarrow> p = (True, c)"
  by (cases p) auto

lemma tail_scan:
  "(let (valid, s) =
        (if \<not> valid \<or> r = [] then (valid, r)
         else if hd r = CHR ''-'' then consume_identifiers True (tl r) else (True, r));
        (valid, s) =
          (if \<not> valid \<or> s = [] then (valid, s)
           else if hd s = CHR ''+'' then consume_identifiers False (tl s) else (False, s))
    in valid \<and> s = []) \<longleftrightarrow> valid \<and> version_tail r"
proof (cases "valid \<and> r \<noteq> []")
  case False
  then show ?thesis by (auto simp: version_tail_def)
next
  case True
  then obtain c cs where r: "r = c # cs" by (cases r) auto
  obtain v u where d: "consume_identifiers True cs = (v, u)" by (cases "consume_identifiers True cs")
  show ?thesis
    using True r d by (cases u) (auto simp: version_tail_def Let_def pair_True split: if_splits)
qed

lemma validate_version_chain:
  "validate_version v \<longleftrightarrow>
     (\<exists>s t r. consume_numeric False v = (True, CHR ''.'' # s) \<and> consume_numeric False s = (True, CHR ''.'' # t) \<and>
        consume_numeric False t = (True, r) \<and> version_tail r)"
proof -
  obtain a s where 1: "consume_numeric False v = (a, s)" by (cases "consume_numeric False v")
  obtain b t where 2: "consume_numeric False (tl s) = (b, t)" by (cases "consume_numeric False (tl s)")
  obtain c r where 3: "consume_numeric False (tl t) = (c, r)" by (cases "consume_numeric False (tl t)")
  show ?thesis
  proof (cases "a \<and> at_dot s \<and> b \<and> at_dot t")
    case True
    then have "validate_version v \<longleftrightarrow> c \<and> version_tail r"
      using 1 2 3 tail_scan [of c r] by (simp add: validate_version_def Let_def)
    with True 1 2 3 show ?thesis by (auto simp: at_dot_Cons)
  next
    case False
    then consider "\<not> a" | "\<not> at_dot s" | "a" "at_dot s" "\<not> b" | "a" "at_dot s" "\<not> at_dot t" by blast
    then have "\<not> validate_version v"
      using 1 2 by cases (simp_all add: validate_version_def Let_def)
    with False 1 2 3 show ?thesis by (auto simp: at_dot_Cons)
  qed
qed

lemma identifier_of_cases: "identifier_of True = prerelease_identifier" "identifier_of False = build_identifier"
  by (simp_all add: identifier_of_def)

lemma build_tail:
  "consume_identifiers False b = (True, []) \<longleftrightarrow> list_all build_identifier (split_on CHR ''.'' b)"
  by (auto simp: consume_identifiers_accepts identifiers_end_def identifier_of_cases)

lemma version_tail_fields:
  "version_tail r \<longleftrightarrow>
     (\<exists>prerelease build.
        (case prerelease of None \<Rightarrow> True | Some p \<Rightarrow> list_all prerelease_identifier (split_on CHR ''.'' p)) \<and>
        (case build of None \<Rightarrow> True | Some b \<Rightarrow> list_all build_identifier (split_on CHR ''.'' b)) \<and>
        r = (case prerelease of None \<Rightarrow> [] | Some p \<Rightarrow> ''-'' @ p) @ (case build of None \<Rightarrow> [] | Some b \<Rightarrow> ''+'' @ b))"
  (is "_ \<longleftrightarrow> ?fields")
proof
  assume "version_tail r"
  then consider "r = []" | b where "r = CHR ''+'' # b" "consume_identifiers False b = (True, [])"
    | t where "r = CHR ''-'' # t" "consume_identifiers True t = (True, [])"
    | t b where "r = CHR ''-'' # t" "consume_identifiers True t = (True, CHR ''+'' # b)" "consume_identifiers False b = (True, [])"
    unfolding version_tail_def by blast
  then show ?fields
  proof cases
    case 1
    then show ?thesis by (intro exI [of _ None]) simp
  next
    case (2 b)
    then show ?thesis by (intro exI [of _ None] exI [of _ "Some b"]) (simp add: build_tail)
  next
    case (3 t)
    then show ?thesis
      by (intro exI [of _ "Some t"] exI [of _ None]) (auto simp: consume_identifiers_accepts identifier_of_cases)
  next
    case (4 t b)
    then obtain p where "list_all prerelease_identifier (split_on CHR ''.'' p)" "t = p @ CHR ''+'' # b"
      by (auto simp: consume_identifiers_accepts identifier_of_cases)
    with 4 show ?thesis by (intro exI [of _ "Some p"] exI [of _ "Some b"]) (simp add: build_tail)
  qed
next
  assume ?fields
  then obtain pre build where f:
    "case pre of None \<Rightarrow> True | Some p \<Rightarrow> list_all prerelease_identifier (split_on CHR ''.'' p)"
    "case build of None \<Rightarrow> True | Some b \<Rightarrow> list_all build_identifier (split_on CHR ''.'' b)"
    "r = (case pre of None \<Rightarrow> [] | Some p \<Rightarrow> ''-'' @ p) @ (case build of None \<Rightarrow> [] | Some b \<Rightarrow> ''+'' @ b)"
    by blast
  let ?u = "case build of None \<Rightarrow> [] | Some b \<Rightarrow> ''+'' @ b"
  have "consume_identifiers True (p @ ?u) = (True, ?u)" if "pre = Some p" for p
    using f that by (auto simp: consume_identifiers_accepts identifier_of_cases identifiers_end_def split: option.splits)
  with f show "version_tail r"
    by (cases pre; cases build) (auto simp: version_tail_def build_tail)
qed

text \<open>
  C26: The version scanner accepts exactly the semantic versions 2.0.0: three numbers without
  leading zeros, then perhaps a dash and prerelease identifiers, then perhaps a plus and build
  identifiers, each nonempty and separated by dots, the numeric prerelease ones again without
  leading zeros.
\<close>
theorem version_is_semantic: "validate_version v \<longleftrightarrow> semantic_version v"
proof
  assume "validate_version v"
  then obtain s t r where c: "consume_numeric False v = (True, CHR ''.'' # s)" "consume_numeric False s = (True, CHR ''.'' # t)"
    "consume_numeric False t = (True, r)" "version_tail r"
    by (auto simp: validate_version_chain)
  then obtain a b d where "numeric_identifier a" "v = a @ CHR ''.'' # s" "numeric_identifier b" "s = b @ CHR ''.'' # t"
    "numeric_identifier d" "t = d @ r"
    by (auto simp: consume_numeric_accepts)
  with c(4) show "semantic_version v"
    unfolding version_tail_fields semantic_version_def by (elim exE conjE) (intro exI [of _ a] exI [of _ b] exI [of _ d]; auto)
next
  assume "semantic_version v"
  then obtain a b d pre build where n: "numeric_identifier a" "numeric_identifier b" "numeric_identifier d"
    "v = a @ ''.'' @ b @ ''.'' @ d @ (case pre of None \<Rightarrow> [] | Some p \<Rightarrow> ''-'' @ p) @ (case build of None \<Rightarrow> [] | Some b \<Rightarrow> ''+'' @ b)"
    "case pre of None \<Rightarrow> True | Some p \<Rightarrow> list_all prerelease_identifier (split_on CHR ''.'' p)"
    "case build of None \<Rightarrow> True | Some b \<Rightarrow> list_all build_identifier (split_on CHR ''.'' b)"
    unfolding semantic_version_def by blast
  let ?r = "(case pre of None \<Rightarrow> [] | Some p \<Rightarrow> ''-'' @ p) @ (case build of None \<Rightarrow> [] | Some b \<Rightarrow> ''+'' @ b)"
  have "version_tail ?r" unfolding version_tail_fields using n(5,6) by blast
  moreover have "consume_numeric False (d @ ?r) = (True, ?r)"
    using n(3) by (auto simp: consume_numeric_accepts split: option.splits)
  moreover have "consume_numeric False v = (True, CHR ''.'' # b @ ''.'' @ d @ ?r)"
    "consume_numeric False (b @ ''.'' @ d @ ?r) = (True, CHR ''.'' # d @ ?r)"
    using n(1,2,4) by (auto simp: consume_numeric_accepts)
  ultimately show "validate_version v" unfolding validate_version_chain by blast
qed

end
