(* ===== verification/Service.thy ===== *)
theory Service
  imports ServiceNames
begin

text \<open>
  The values of the Service framework (lib/eio/service.ml): configurations, endpoints, groups and
  their queue policies, the answer to a request, statistics, what a service says about itself and
  what Discovery reads from it. JSON texts are read and written by a package; its values are the
  type \<open>json\<close>, with a constructor for each that the code looks at.
\<close>

section \<open>Configurations\<close>

datatype 'j json = Json_null | Json_string string | Json_object "(string \<times> 'j json) list" | Json_other 'j

type_synonym metadata = "(string \<times> string) list"

fun duplicate_scan :: "string list \<Rightarrow> metadata \<Rightarrow> string option" where
  "duplicate_scan seen [] = None"
| "duplicate_scan seen ((name, _) # others) =
     (if name \<in> set seen then Some name else duplicate_scan (name # seen) others)"

definition duplicate_metadata :: "metadata \<Rightarrow> string option" where
  "duplicate_metadata metadata = duplicate_scan [] metadata"

datatype queue_policy = Default_queue | Queue string | Disabled

record 'j endpoint_stats =
  es_name :: string
  es_subject :: string
  es_queue :: "string option"
  es_metadata :: "metadata option"
  es_data :: "'j json option"
  es_requests :: "64 word"
  es_errors :: "64 word"
  es_last_error :: string
  es_processing_time :: "64 word"
  es_average :: "64 word"

record 'j service_stats =
  ss_name :: string
  ss_id :: string
  ss_version :: string
  ss_metadata :: metadata
  ss_started :: string
  ss_endpoints :: "'j endpoint_stats list"

text \<open>Of the error and done handlers, the service looks only at whether there is one.\<close>

record 'j service_config =
  sc_name :: string
  sc_version :: string
  sc_description :: "string option"
  sc_metadata :: metadata
  sc_queue :: queue_policy
  sc_stats_handler :: "('j endpoint_stats \<Rightarrow> 'j json option) option"
  sc_error_handler :: bool
  sc_done_handler :: bool

definition service_config_v :: "'j service_config \<Rightarrow> 'x service_error + 'j service_config" where
  "service_config_v config =
     (case validate_identifier (sc_name config) of
        Some error \<Rightarrow> Inl (Service_invalid_config (config_name_error error))
      | None \<Rightarrow>
          if \<not> validate_version (sc_version config) then
            Inl (Service_invalid_config (Invalid_version (sc_version config)))
          else case duplicate_metadata (sc_metadata config) of
            Some name \<Rightarrow> Inl (Service_invalid_config (Duplicate_config_metadata name))
          | None \<Rightarrow> Inr config)"

section \<open>Endpoints\<close>

record pending_limits =
  pl_messages :: int
  pl_bytes :: int

definition pending_limits_v :: "int \<Rightarrow> int \<Rightarrow> 'x service_error + pending_limits" where
  "pending_limits_v messages bytes =
     (let valid = (\<lambda>v. v > 0 \<or> v = -1) in
      if messages = 0 \<and> bytes = 0 then Inl (Invalid_service_endpoint Invalid_pending_limits)
      else if \<not> valid messages then
        Inl (Invalid_service_endpoint (Invalid_endpoint_pending_limit ''messages'' messages))
      else if \<not> valid bytes then
        Inl (Invalid_service_endpoint (Invalid_endpoint_pending_limit ''bytes'' bytes))
      else Inr \<lparr>pl_messages = messages, pl_bytes = bytes\<rparr>)"

text \<open>A literal raises on an invalid text: \<open>None\<close>.\<close>

definition literal :: "(string \<Rightarrow> subject_error + string) \<Rightarrow> string \<Rightarrow> string option" where
  "literal of_string v = (case of_string v of Inr s \<Rightarrow> Some s | Inl _ \<Rightarrow> None)"

record 'h endpoint_config =
  ec_name :: string
  ec_subject :: string
  ec_metadata :: "metadata option"
  ec_queue :: queue_policy
  ec_limits :: "pending_limits option"
  ec_handler :: 'h

definition endpoint_v ::
  "string \<Rightarrow> string option \<Rightarrow> metadata option \<Rightarrow> queue_policy \<Rightarrow> pending_limits option \<Rightarrow> 'h \<Rightarrow>
     ('x service_error + 'h endpoint_config) option" where
  "endpoint_v name subj metadata queue limits handler =
     (case validate_identifier name of
        Some error \<Rightarrow> Some (Inl (Invalid_service_endpoint (endpoint_name_error error)))
      | None \<Rightarrow>
          (case Option.bind metadata duplicate_metadata of
             Some name \<Rightarrow> Some (Inl (Invalid_service_endpoint (Duplicate_endpoint_metadata name)))
           | None \<Rightarrow>
               map_option (\<lambda>default_subject.
                 Inr \<lparr>ec_name = name, ec_subject = (case subj of None \<Rightarrow> default_subject | Some s \<Rightarrow> s),
                   ec_metadata = metadata, ec_queue = queue, ec_limits = limits, ec_handler = handler\<rparr>)
                 (literal filter_of_string name)))"

section \<open>Groups\<close>

datatype group = Group (g_name: string) (g_subject: string) (g_queue: queue_policy) (g_parent: "group option")

definition policy_queue :: "queue_policy \<Rightarrow> string option" where
  "policy_queue policy =
     (case policy of
        Default_queue \<Rightarrow> literal queue_group_of_string ''q''
      | Queue queue \<Rightarrow> Some queue
      | Disabled \<Rightarrow> None)"

fun effective_group_policy :: "queue_policy \<Rightarrow> group \<Rightarrow> queue_policy" where
  "effective_group_policy config_queue (Group _ _ queue parent) =
     (case queue of
        Default_queue \<Rightarrow>
          (case parent of
             Some parent \<Rightarrow> effective_group_policy config_queue parent
           | None \<Rightarrow> config_queue)
      | policy \<Rightarrow> policy)"

definition effective_endpoint_queue :: "queue_policy \<Rightarrow> 'h endpoint_config \<Rightarrow> string option" where
  "effective_endpoint_queue parent endpoint =
     policy_queue (case ec_queue endpoint of Default_queue \<Rightarrow> parent | v \<Rightarrow> v)"

definition endpoint_full_name :: "string option \<Rightarrow> string \<Rightarrow> string" where
  "endpoint_full_name prefix endpoint_name =
     (case prefix of None \<Rightarrow> endpoint_name | Some prefix \<Rightarrow> prefix @ ''.'' @ endpoint_name)"

definition append_filter :: "string option \<Rightarrow> string \<Rightarrow> subject_error + string" where
  "append_filter prefix subj =
     (case prefix of None \<Rightarrow> Inr subj | Some prefix \<Rightarrow> filter_of_string (prefix @ ''.'' @ subj))"

definition make_group ::
  "group option \<Rightarrow> string option \<Rightarrow> queue_policy \<Rightarrow> string \<Rightarrow> 'x service_error + group" where
  "make_group parent prefix queue name =
     (case subject_of_string name of
        Inl error \<Rightarrow> Inl (Invalid_group_subject error)
      | Inr name_subject \<Rightarrow>
          (let subject_string =
             (case prefix of None \<Rightarrow> name_subject | Some prefix \<Rightarrow> prefix @ ''.'' @ name_subject) in
           case subject_of_string subject_string of
             Inl error \<Rightarrow> Inl (Invalid_group_subject error)
           | Inr subj \<Rightarrow> Inr (Group name_subject subj queue parent)))"

section \<open>Answering a request\<close>

datatype response_state = Available | Sending | Responded | Aborted

record 'x request =
  rq_message :: message
  rq_state :: response_state
  rq_last_error :: "'x service_error option"
  rq_service_error :: "(string \<times> string) option"

definition request_make :: "message \<Rightarrow> 'x request" where
  "request_make message =
     \<lparr>rq_message = message, rq_state = Available, rq_last_error = None, rq_service_error = None\<rparr>"

definition request_fail :: "'x service_error \<Rightarrow> 'x request \<Rightarrow> 'x request" where
  "request_fail error v = v\<lparr>rq_last_error := Some error\<rparr>"

definition begin_response :: "'x request \<Rightarrow> ('x service_error + unit) \<times> 'x request" where
  "begin_response v =
     (case rq_state v of
        Available \<Rightarrow> (Inr (), v\<lparr>rq_state := Sending\<rparr>)
      | _ \<Rightarrow> (Inl Already_responded, v))"

definition finish_response :: "'x service_error + unit \<Rightarrow> 'x request \<Rightarrow> 'x request" where
  "finish_response result v =
     (case rq_state v of
        Sending \<Rightarrow>
          (case result of
             Inr _ \<Rightarrow> v\<lparr>rq_state := Responded\<rparr>
           | Inl error \<Rightarrow> v\<lparr>rq_state := Available, rq_last_error := Some error\<rparr>)
      | _ \<Rightarrow> v)"

definition abort_response :: "'x service_error \<Rightarrow> 'x request \<Rightarrow> 'x request" where
  "abort_response error v =
     (case rq_state v of
        Sending \<Rightarrow> v\<lparr>rq_state := Aborted, rq_last_error := Some error\<rparr>
      | _ \<Rightarrow> v)"

text \<open>Publishing answers, or the fiber is cancelled while it publishes: \<open>None\<close>.\<close>

type_synonym ('x, 'w) publisher = "message \<Rightarrow> 'w \<Rightarrow> ('x connection_error option) option \<times> 'w"

definition respond_publish ::
  "('x, 'w) publisher \<Rightarrow> header \<Rightarrow> string \<Rightarrow> 'x request \<Rightarrow> 'w \<Rightarrow> ('x service_error + unit) option \<times> 'w" where
  "respond_publish publish headers payload v w =
     (case m_reply_to (rq_message v) of
        None \<Rightarrow> (Some (Inl No_reply_subject), w)
      | Some reply \<Rightarrow>
          (case publish (message_v reply headers payload) w of
             (None, w') \<Rightarrow> (None, w')
           | (Some None, w') \<Rightarrow> (Some (Inr ()), w')
           | (Some (Some error), w') \<Rightarrow> (Some (Inl (Service_connection error)), w')))"

definition respond ::
  "('x, 'w) publisher \<Rightarrow> header \<Rightarrow> string \<Rightarrow> 'x request \<Rightarrow> 'w \<Rightarrow>
     ('x service_error + unit) option \<times> 'x request \<times> 'w" where
  "respond publish headers payload v w =
     (case begin_response v of
        (Inl error, v) \<Rightarrow> (Some (Inl error), v, w)
      | (Inr _, v) \<Rightarrow>
          (case respond_publish publish headers payload v w of
             (Some result, w) \<Rightarrow> (Some result, finish_response result v, w)
           | (None, w) \<Rightarrow> (None, abort_response (Service_connection Connection_closed) v, w)))"

definition error_headers :: "string \<Rightarrow> string \<Rightarrow> header \<Rightarrow> 'x service_error + header" where
  "error_headers error_code description headers =
     (if length error_code = 0 \<or> length description = 0 then Inl (Invalid_service_error error_code description)
      else case header_add ''Nats-Service-Error'' description headers of
        Inl error \<Rightarrow> Inl (Service_invalid_headers error)
      | Inr headers \<Rightarrow>
          (case header_add ''Nats-Service-Error-Code'' error_code headers of
             Inl error \<Rightarrow> Inl (Service_invalid_headers error)
           | Inr headers \<Rightarrow> Inr headers))"

definition respond_error ::
  "('x, 'w) publisher \<Rightarrow> string \<Rightarrow> string \<Rightarrow> header \<Rightarrow> string \<Rightarrow> 'x request \<Rightarrow> 'w \<Rightarrow>
     ('x service_error + unit) option \<times> 'x request \<times> 'w" where
  "respond_error publish error_code description headers payload v w =
     (case error_headers error_code description headers of
        Inl error \<Rightarrow> (Some (Inl error), request_fail error v, w)
      | Inr headers \<Rightarrow>
          (case respond publish headers payload v w of
             (Some (Inr _), v, w) \<Rightarrow> (Some (Inr ()), v\<lparr>rq_service_error := Some (error_code, description)\<rparr>, w)
           | (Some (Inl error), v, w) \<Rightarrow> (Some (Inl error), v, w)
           | (None, v, w) \<Rightarrow> (None, v, w)))"

definition responded :: "'x request \<Rightarrow> bool" where
  "responded v \<longleftrightarrow> rq_state v \<noteq> Available"

section \<open>The counters of an endpoint\<close>

record 'h endpoint_instance =
  ei_key :: string
  ei_name :: string
  ei_subject :: string
  ei_queue :: "string option"
  ei_metadata :: "metadata option"
  ei_handler :: 'h
  ei_sid :: nat
  ei_requests :: "64 word"
  ei_errors :: "64 word"
  ei_last_error :: string
  ei_processing_time :: "64 word"

text \<open>Errors are printed by \<open>text\<close>.\<close>

definition failure_of ::
  "('x service_error \<Rightarrow> string) \<Rightarrow> ('x service_error \<times> string) option \<Rightarrow> 'x request \<Rightarrow>
     ('x service_error \<times> string) option" where
  "failure_of text handler_error request =
     (case handler_error of
        Some failure \<Rightarrow> Some failure
      | None \<Rightarrow>
          (case rq_last_error request of
             Some error \<Rightarrow> Some (error, text error)
           | None \<Rightarrow>
               (case rq_service_error request of
                  Some (error_code, description) \<Rightarrow> Some (Service_answered_error error_code description, description)
                | None \<Rightarrow> if \<not> responded request then Some (No_response, ''no response'') else None)))"

definition record_endpoint ::
  "('x service_error \<Rightarrow> string) \<Rightarrow> ('x service_error \<times> string) option \<Rightarrow> 'x request \<Rightarrow> nat \<Rightarrow>
     'h endpoint_instance \<Rightarrow> 'h endpoint_instance" where
  "record_endpoint text handler_error request duration endpoint =
     (let endpoint = endpoint\<lparr>ei_requests := ei_requests endpoint + 1,
            ei_processing_time := ei_processing_time endpoint + word_of_nat duration\<rparr> in
      case failure_of text handler_error request of
        None \<Rightarrow> endpoint
      | Some (_, message) \<Rightarrow>
          endpoint\<lparr>ei_errors := ei_errors endpoint + 1, ei_last_error := message\<rparr>)"

definition clear_counters :: "'h endpoint_instance \<Rightarrow> 'h endpoint_instance" where
  "clear_counters endpoint =
     endpoint\<lparr>ei_requests := 0, ei_errors := 0, ei_last_error := [], ei_processing_time := 0\<rparr>"

definition average :: "64 word \<Rightarrow> 64 word \<Rightarrow> 64 word" where
  "average processing_time requests =
     (if requests = 0 then 0 else word_of_int (div64 (sint processing_time) (sint requests)))"

definition stats_endpoint :: "'h endpoint_instance \<Rightarrow> 'j endpoint_stats" where
  "stats_endpoint endpoint =
     \<lparr>es_name = ei_name endpoint, es_subject = ei_subject endpoint, es_queue = ei_queue endpoint,
      es_metadata = ei_metadata endpoint, es_data = None, es_requests = ei_requests endpoint,
      es_errors = ei_errors endpoint, es_last_error = ei_last_error endpoint,
      es_processing_time = ei_processing_time endpoint,
      es_average = average (ei_processing_time endpoint) (ei_requests endpoint)\<rparr>"

end
