(* ===== verification/ServiceRequest.thy ===== *)
theory ServiceRequest
  imports Service
begin

text \<open>
  A request that several fibers answer at once (lib/eio/service.ml, Request): \<open>respond\<close> and
  \<open>respond_error\<close> cut at the mutex, so that other fibers run between their blocks.
\<close>

section \<open>Fibers that answer\<close>

text \<open>\<open>about\<close>: the code and description of an error, for \<open>respond_error\<close>.\<close>

datatype 'x response_fiber =
    Publishing header string "(string \<times> string) option"
  | Finishing "'x service_error + unit" "(string \<times> string) option"
  | Aborting
  | Recording "string \<times> string"

definition after_finish :: "'x service_error + unit \<Rightarrow> (string \<times> string) option \<Rightarrow> 'x response_fiber list" where
  "after_finish result about =
     (case result of
        Inl _ \<Rightarrow> []
      | Inr _ \<Rightarrow> (case about of None \<Rightarrow> [] | Some v \<Rightarrow> [Recording v]))"

text \<open>
  The request, the fibers that are answering it, and the messages that were accepted for sending.
  A fiber that is cancelled while it publishes does not know whether its message was.
\<close>

inductive response_step ::
  "'x request \<times> 'x response_fiber list \<times> message list \<Rightarrow> 'x request \<times> 'x response_fiber list \<times> message list \<Rightarrow> bool" where
  begun: "begin_response v = (Inr (), v') \<Longrightarrow>
    (case about of None \<Rightarrow> True
     | Some (error_code, description) \<Rightarrow> \<exists>given. error_headers error_code description given = (Inr headers :: 'x service_error + header)) \<Longrightarrow>
    response_step (v, fibers, sent) (v', Publishing headers payload about # fibers, sent)"
| bad_error: "error_headers error_code description headers = Inl error \<Longrightarrow>
    response_step (v, fibers, sent) (request_fail error v, fibers, sent)"
| published: "m_reply_to (rq_message v) = Some reply \<Longrightarrow>
    response_step (v, before @ Publishing headers payload about # later, sent)
      (v, before @ Finishing (Inr ()) about # later, sent @ [message_v reply headers payload])"
| not_published: "m_reply_to (rq_message v) = Some reply \<Longrightarrow>
    response_step (v, before @ Publishing headers payload about # later, sent)
      (v, before @ Finishing (Inl (Service_connection error)) about # later, sent)"
| no_reply: "m_reply_to (rq_message v) = None \<Longrightarrow>
    response_step (v, before @ Publishing headers payload about # later, sent)
      (v, before @ Finishing (Inl No_reply_subject) about # later, sent)"
| cancelled: "m_reply_to (rq_message v) = Some reply \<Longrightarrow> more_sent \<in> {[], [message_v reply headers payload]} \<Longrightarrow>
    response_step (v, before @ Publishing headers payload about # later, sent)
      (v, before @ Aborting # later, sent @ more_sent)"
| finished: "response_step (v, before @ Finishing result about # later, sent)
      (finish_response result v, before @ after_finish result about @ later, sent)"
| aborted: "response_step (v, before @ Aborting # later, sent)
      (abort_response (Service_connection Connection_closed) v, before @ later, sent)"
| recorded: "response_step (v, before @ Recording about # later, sent)
      (v\<lparr>rq_service_error := Some about\<rparr>, before @ later, sent)"

inductive response_reaches :: "message \<Rightarrow> 'x request \<times> 'x response_fiber list \<times> message list \<Rightarrow> bool" for m where
  start: "response_reaches m (request_make m, [], [])"
| further: "response_reaches m s \<Longrightarrow> response_step s s' \<Longrightarrow> response_reaches m s'"

section \<open>At most one answer\<close>

fun busy :: "'x response_fiber \<Rightarrow> bool" where
  "busy (Recording _) = False"
| "busy _ = True"

text \<open>How many messages may have been sent when a fiber is where it is.\<close>

fun sent_by :: "'x response_fiber \<Rightarrow> nat set" where
  "sent_by (Publishing _ _ _) = {0}"
| "sent_by (Finishing result _) = (case result of Inl _ \<Rightarrow> {0} | Inr _ \<Rightarrow> {1})"
| "sent_by _ = {0, 1}"

text \<open>Given the state of the request and the fibers that are busy with it.\<close>

definition sent_in :: "response_state \<Rightarrow> 'x response_fiber list \<Rightarrow> nat set" where
  "sent_in state fibers =
     (case state of
        Available \<Rightarrow> (if fibers = [] then {0} else {})
      | Sending \<Rightarrow> (case fibers of [fiber] \<Rightarrow> sent_by fiber | _ \<Rightarrow> {})
      | Responded \<Rightarrow> (if fibers = [] then {1} else {})
      | Aborted \<Rightarrow> (if fibers = [] then {0, 1} else {}))"

definition answers_once :: "message \<Rightarrow> 'x request \<times> 'x response_fiber list \<times> message list \<Rightarrow> bool" where
  "answers_once m s \<longleftrightarrow>
     (case s of (v, fibers, sent) \<Rightarrow>
        rq_message v = m \<and> length sent \<in> sent_in (rq_state v) (filter busy fibers) \<and>
        (\<forall>a \<in> set sent. m_reply_to m = Some (m_subject a)))"

lemma one_busy:
  "n \<in> sent_in state (before @ fiber # later) \<Longrightarrow>
     state = Sending \<and> before = [] \<and> later = [] \<and> n \<in> sent_by fiber"
  by (cases state; cases before; cases later) (auto simp: sent_in_def split: list.splits)

lemma answering:
  "answers_once m (v, before @ fiber # later, sent) \<Longrightarrow> busy fiber \<Longrightarrow>
     rq_message v = m \<and> rq_state v = Sending \<and> filter busy before = [] \<and> filter busy later = [] \<and>
     length sent \<in> sent_by fiber \<and> (\<forall>a \<in> set sent. m_reply_to m = Some (m_subject a))"
  using one_busy [of "length sent" "rq_state v" "filter busy before" fiber "filter busy later"]
  by (auto simp: answers_once_def)

lemma answers_once_step:
  "response_step s s' \<Longrightarrow> answers_once m s \<Longrightarrow> answers_once m s'"
proof (induction rule: response_step.induct)
  case (begun v v' about headers fibers sent payload)
  then show ?case
    by (auto simp: answers_once_def begin_response_def sent_in_def split: response_state.splits if_splits)
next
  case (bad_error error_code description headers error v fibers sent)
  then show ?case by (simp add: answers_once_def request_fail_def)
next
  case (published v reply before headers payload about later sent)
  from answering [OF published(2)] published(1) show ?case
    by (auto simp: answers_once_def sent_in_def message_v_def)
next
  case (not_published v reply before headers payload about later sent error)
  from answering [OF not_published(2)]  show ?case
    by (auto simp: answers_once_def sent_in_def message_v_def)
next
  case (no_reply v before headers payload about later sent)
  from answering [OF no_reply(2)]  show ?case
    by (auto simp: answers_once_def sent_in_def message_v_def)
next
  case (cancelled v reply more_sent headers payload before about later sent)
  from answering [OF cancelled(3)] cancelled(1,2) show ?case
    by (auto simp: answers_once_def sent_in_def message_v_def)
next
  case (finished v before result about later sent)
  from answering [OF finished(1)]  show ?case
    by (cases result; cases about) (auto simp: answers_once_def sent_in_def finish_response_def after_finish_def)
next
  case (aborted v before later sent)
  from answering [OF aborted(1)]  show ?case
    by (auto simp: answers_once_def sent_in_def abort_response_def)
next
  case (recorded v before about later sent)
  then show ?case by (simp add: answers_once_def)
qed

lemma answers_once_reached: "response_reaches m s \<Longrightarrow> answers_once m s"
proof (induction rule: response_reaches.induct)
  case start
  show ?case by (simp add: answers_once_def request_make_def sent_in_def)
next
  case (further s s')
  then show ?case by (simp add: answers_once_step)
qed

text \<open>
  C13: However many fibers answer a request at the same time, at most one answer is sent, to the
  reply subject of the request: exactly one when it counts as responded, and none when it counts
  as available and nobody is answering it.
\<close>
theorem request_answered_once:
  fixes v :: "'x request"
  assumes "response_reaches m (v, fibers, sent)"
  shows "length sent \<le> 1 \<and> (rq_state v = Responded \<longrightarrow> length sent = 1) \<and>
    (rq_state v = Available \<longrightarrow> sent = []) \<and> (\<forall>a \<in> set sent. m_reply_to m = Some (m_subject a))"
proof -
  have a: "answers_once m (v, fibers, sent)" using assms by (rule answers_once_reached)
  then have n: "length sent \<in> sent_in (rq_state v) (filter busy fibers)" by (simp add: answers_once_def)
  have "length sent \<le> 1"
  proof (cases "rq_state v")
    case Sending
    with n obtain fiber :: "'x response_fiber" where "length sent \<in> sent_by fiber" by (auto simp: sent_in_def split: list.splits)
    then show ?thesis by (cases fiber) (auto split: sum.splits)
  qed (use n in \<open>auto simp: sent_in_def split: if_splits\<close>)
  with a n show ?thesis by (auto simp: answers_once_def sent_in_def split: if_splits)
qed

text \<open>Two fibers answer; the second is too late.\<close>

definition demo_request :: message where
  "demo_request = \<lparr>m_subject = ''echo'', m_reply_to = Some ''_INBOX.7'', m_headers = [], m_payload = ''hello''\<rparr>"

lemma demo_answered:
  "response_reaches demo_request ((request_make demo_request)\<lparr>rq_state := Responded\<rparr> :: unit request, [],
     [message_v ''_INBOX.7'' [] ''hello''])"
proof -
  let ?v = "(request_make demo_request)\<lparr>rq_state := Sending\<rparr> :: unit request"
  have "response_step (request_make demo_request, [], []) (?v, [Publishing [] ''hello'' None], [])"
    using response_step.begun [where v = "request_make demo_request" and v' = ?v and about = None and headers = "[]"
        and fibers = "[]" and sent = "[]" and payload = "''hello''"]
    by (simp add: begin_response_def request_make_def)
  moreover have "response_step (?v, [Publishing [] ''hello'' None], [])
      (?v, [Finishing (Inr ()) None], [message_v ''_INBOX.7'' [] ''hello''])"
    using response_step.published [of ?v "''_INBOX.7''" "[]" "[]" "''hello''" None "[]" "[]"]
    by (simp add: request_make_def demo_request_def)
  moreover have "response_step (?v, [Finishing (Inr ()) None], [message_v ''_INBOX.7'' [] ''hello''])
      ((request_make demo_request)\<lparr>rq_state := Responded\<rparr>, [], [message_v ''_INBOX.7'' [] ''hello''])"
    using response_step.finished [of ?v "[]" "Inr ()" None "[]" "[message_v ''_INBOX.7'' [] ''hello'']"]
    by (simp add: finish_response_def after_finish_def)
  ultimately show ?thesis by (blast intro: response_reaches.intros)
qed

theorem request_answered_once_witness:
  "begin_response ((request_make demo_request)\<lparr>rq_state := Responded\<rparr> :: unit request) =
     (Inl Already_responded, (request_make demo_request)\<lparr>rq_state := Responded\<rparr>) \<and>
   m_reply_to demo_request = Some (m_subject (message_v ''_INBOX.7'' [] ''hello''))"
  using request_answered_once [OF demo_answered] by (simp add: begin_response_def)

end
