(* ===== verification/ServiceDiscovery.thy ===== *)
theory ServiceDiscovery
  imports Service
begin

text \<open>
  What a service says of itself on its control subjects, and what Discovery reads from it
  (lib/eio/service.ml). The JSON package writes and reads the wire records; the state of a
  service is the record \<open>service\<close>.
\<close>

section \<open>The state of a service\<close>

datatype 'x service_state = Open | Stopping | Stopped | Failed "'x service_error"

datatype control_kind = Ping_control | Info_control | Stats_control

record control =
  ct_kind :: control_kind
  ct_sid :: nat

text \<open>\<open>sv_stop\<close>: the promise of the first stop, once there is one, and its result, once there is one.\<close>

record ('x, 'j, 'h) service =
  sv_config :: "'j service_config"
  sv_id :: string
  sv_started :: string
  sv_state :: "'x service_state"
  sv_controls :: "control list"
  sv_endpoints :: "'h endpoint_instance list"
  sv_pending :: "string list"
  sv_stop :: "('x service_error + unit) option option"

section \<open>Information and statistics\<close>

record endpoint_info =
  in_name :: string
  in_subject :: string
  in_queue :: "string option"
  in_metadata :: "metadata option"

record service_info =
  si_name :: string
  si_id :: string
  si_version :: string
  si_description :: "string option"
  si_metadata :: metadata
  si_endpoints :: "endpoint_info list"

definition info_endpoint :: "'h endpoint_instance \<Rightarrow> endpoint_info" where
  "info_endpoint endpoint =
     \<lparr>in_name = ei_name endpoint, in_subject = ei_subject endpoint, in_queue = ei_queue endpoint,
      in_metadata = ei_metadata endpoint\<rparr>"

definition info_without_lock :: "('x, 'j, 'h) service \<Rightarrow> service_info" where
  "info_without_lock service =
     \<lparr>si_name = sc_name (sv_config service), si_id = sv_id service, si_version = sc_version (sv_config service),
      si_description = sc_description (sv_config service), si_metadata = sc_metadata (sv_config service),
      si_endpoints = rev (map info_endpoint (sv_endpoints service))\<rparr>"

definition stats_without_lock :: "('x, 'j, 'h) service \<Rightarrow> 'j service_stats" where
  "stats_without_lock service =
     \<lparr>ss_name = sc_name (sv_config service), ss_id = sv_id service, ss_version = sc_version (sv_config service),
      ss_metadata = sc_metadata (sv_config service), ss_started = sv_started service,
      ss_endpoints = rev (map stats_endpoint (sv_endpoints service))\<rparr>"

definition stats_with_handler :: "('x, 'j, 'h) service \<Rightarrow> 'j service_stats \<Rightarrow> 'j service_stats" where
  "stats_with_handler service v =
     (case sc_stats_handler (sv_config service) of
        None \<Rightarrow> v
      | Some handler \<Rightarrow>
          v\<lparr>ss_endpoints := map (\<lambda>endpoint. endpoint\<lparr>es_data := handler endpoint\<rparr>) (ss_endpoints v)\<rparr>)"

section \<open>Wire records\<close>

record 'j wire_identity =
  wi_type :: string
  wi_name :: string
  wi_id :: string
  wi_version :: string
  wi_metadata :: "'j json"

record 'j wire_endpoint_info =
  we_name :: string
  we_subject :: string
  we_queue_group :: string
  we_metadata :: "'j json"

record 'j wire_info =
  wf_type :: string
  wf_name :: string
  wf_id :: string
  wf_version :: string
  wf_description :: string
  wf_metadata :: "'j json"
  wf_endpoints :: "'j wire_endpoint_info list"

record 'j wire_endpoint_stats =
  wt_name :: string
  wt_subject :: string
  wt_queue_group :: string
  wt_metadata :: "'j json"
  wt_requests :: "64 word"
  wt_errors :: "64 word"
  wt_last_error :: string
  wt_processing_time :: "64 word"
  wt_average :: "64 word"
  wt_data :: "'j json option"

record 'j wire_stats =
  ws_type :: string
  ws_name :: string
  ws_id :: string
  ws_version :: string
  ws_metadata :: "'j json"
  ws_started :: string
  ws_endpoints :: "'j wire_endpoint_stats list"

definition metadata_json :: "metadata \<Rightarrow> 'j json" where
  "metadata_json metadata = Json_object (map (\<lambda>(name, v). (name, Json_string v)) metadata)"

definition metadata_or_null :: "metadata option \<Rightarrow> 'j json" where
  "metadata_or_null metadata = (case metadata of None \<Rightarrow> Json_null | Some metadata \<Rightarrow> metadata_json metadata)"

definition queue_group_string :: "string option \<Rightarrow> string" where
  "queue_group_string queue = (case queue of None \<Rightarrow> [] | Some queue \<Rightarrow> queue)"

definition wire_endpoint_info_of_info :: "endpoint_info \<Rightarrow> 'j wire_endpoint_info" where
  "wire_endpoint_info_of_info endpoint =
     \<lparr>we_name = in_name endpoint, we_subject = in_subject endpoint,
      we_queue_group = queue_group_string (in_queue endpoint), we_metadata = metadata_or_null (in_metadata endpoint)\<rparr>"

definition wire_endpoint_stats_of_stats :: "'j endpoint_stats \<Rightarrow> 'j wire_endpoint_stats" where
  "wire_endpoint_stats_of_stats endpoint =
     \<lparr>wt_name = es_name endpoint, wt_subject = es_subject endpoint,
      wt_queue_group = queue_group_string (es_queue endpoint), wt_metadata = metadata_or_null (es_metadata endpoint),
      wt_requests = es_requests endpoint, wt_errors = es_errors endpoint, wt_last_error = es_last_error endpoint,
      wt_processing_time = es_processing_time endpoint, wt_average = es_average endpoint,
      wt_data = es_data endpoint\<rparr>"

definition ping_wire :: "('x, 'j, 'h) service \<Rightarrow> 'j wire_identity" where
  "ping_wire service =
     \<lparr>wi_type = ''io.nats.micro.v1.ping_response'', wi_name = sc_name (sv_config service), wi_id = sv_id service,
      wi_version = sc_version (sv_config service), wi_metadata = metadata_json (sc_metadata (sv_config service))\<rparr>"

definition info_wire :: "service_info \<Rightarrow> 'j wire_info" where
  "info_wire v =
     \<lparr>wf_type = ''io.nats.micro.v1.info_response'', wf_name = si_name v, wf_id = si_id v, wf_version = si_version v,
      wf_description = (case si_description v of None \<Rightarrow> [] | Some description \<Rightarrow> description),
      wf_metadata = metadata_json (si_metadata v), wf_endpoints = map wire_endpoint_info_of_info (si_endpoints v)\<rparr>"

definition stats_wire :: "'j service_stats \<Rightarrow> 'j wire_stats" where
  "stats_wire v =
     \<lparr>ws_type = ''io.nats.micro.v1.stats_response'', ws_name = ss_name v, ws_id = ss_id v, ws_version = ss_version v,
      ws_metadata = metadata_json (ss_metadata v), ws_started = ss_started v,
      ws_endpoints = map wire_endpoint_stats_of_stats (ss_endpoints v)\<rparr>"

text \<open>The JSON package: the codec of each record, which may fail.\<close>

record ('x, 'j) service_codecs =
  jc_encode_ping :: "'j wire_identity \<Rightarrow> 'x + string"
  jc_encode_info :: "'j wire_info \<Rightarrow> 'x + string"
  jc_encode_stats :: "'j wire_stats \<Rightarrow> 'x + string"
  jc_decode_ping :: "string \<Rightarrow> 'x + 'j wire_identity"
  jc_decode_info :: "string \<Rightarrow> 'x + 'j wire_info"
  jc_decode_stats :: "string \<Rightarrow> 'x + 'j wire_stats"

definition encoded :: "'x + string \<Rightarrow> 'x service_error + string" where
  "encoded r = (case r of Inr payload \<Rightarrow> Inr payload | Inl error \<Rightarrow> Inl (Service_encode error))"

definition decoded_wire :: "'x + 'a \<Rightarrow> 'x service_error + 'a" where
  "decoded_wire r = (case r of Inr v \<Rightarrow> Inr v | Inl error \<Rightarrow> Inl (Service_decode error))"

definition control_payload ::
  "('x, 'j) service_codecs \<Rightarrow> ('x, 'j, 'h) service \<Rightarrow> control_kind \<Rightarrow> 'x service_error + string" where
  "control_payload codecs service kind =
     encoded (case kind of
        Ping_control \<Rightarrow> jc_encode_ping codecs (ping_wire service)
      | Info_control \<Rightarrow> jc_encode_info codecs (info_wire (info_without_lock service))
      | Stats_control \<Rightarrow> jc_encode_stats codecs (stats_wire (stats_with_handler service (stats_without_lock service))))"

section \<open>Reading an answer\<close>

definition expect_response_type :: "string \<Rightarrow> string \<Rightarrow> 'x service_error + unit" where
  "expect_response_type expected actual =
     (if expected = actual then Inr () else Inl (Unexpected_response_type expected actual))"

fun metadata_scan :: "metadata \<Rightarrow> (string \<times> 'j json) list \<Rightarrow> 'x service_error + metadata" where
  "metadata_scan vs [] = Inr (rev vs)"
| "metadata_scan vs ((name, Json_string v) # members) =
     (if name \<in> fst ` set vs then Inl (Invalid_service_metadata name) else metadata_scan ((name, v) # vs) members)"
| "metadata_scan vs ((name, _) # members) = Inl (Invalid_service_metadata name)"

definition metadata_values :: "bool \<Rightarrow> 'j json \<Rightarrow> 'x service_error + metadata option" where
  "metadata_values allow_null v =
     (case v of
        Json_null \<Rightarrow> if allow_null then Inr None else Inl (Invalid_service_metadata ''metadata'')
      | Json_object members \<Rightarrow> then_result (metadata_scan [] members) (\<lambda>metadata. Inr (Some metadata))
      | _ \<Rightarrow> Inl (Invalid_service_metadata ''metadata''))"

definition required_metadata :: "'j json \<Rightarrow> 'x service_error + metadata" where
  "required_metadata v =
     (case metadata_values False v of
        Inl error \<Rightarrow> Inl error
      | Inr (Some metadata) \<Rightarrow> Inr metadata
      | Inr None \<Rightarrow> Inl (Invalid_service_metadata ''metadata''))"

definition discovery_filter :: "string \<Rightarrow> 'x service_error + string" where
  "discovery_filter v =
     (case filter_of_string v of Inr subj \<Rightarrow> Inr subj | Inl error \<Rightarrow> Inl (Invalid_discovery_subject error))"

definition discovery_queue_group :: "string \<Rightarrow> 'x service_error + string option" where
  "discovery_queue_group v =
     (if length v = 0 then Inr None
      else case queue_group_of_string v of
        Inr queue \<Rightarrow> Inr (Some queue)
      | Inl error \<Rightarrow> Inl (Invalid_discovery_subject error))"

definition discovery_info_endpoint :: "'j wire_endpoint_info \<Rightarrow> 'x service_error + endpoint_info" where
  "discovery_info_endpoint wire =
     then_result (discovery_filter (we_subject wire)) (\<lambda>subj.
     then_result (discovery_queue_group (we_queue_group wire)) (\<lambda>queue.
     then_result (metadata_values True (we_metadata wire)) (\<lambda>metadata.
       Inr \<lparr>in_name = we_name wire, in_subject = subj, in_queue = queue, in_metadata = metadata\<rparr>)))"

definition discovery_stats_endpoint :: "'j wire_endpoint_stats \<Rightarrow> 'x service_error + 'j endpoint_stats" where
  "discovery_stats_endpoint wire =
     then_result (discovery_filter (wt_subject wire)) (\<lambda>subj.
     then_result (discovery_queue_group (wt_queue_group wire)) (\<lambda>queue.
     then_result (metadata_values True (wt_metadata wire)) (\<lambda>metadata.
       Inr \<lparr>es_name = wt_name wire, es_subject = subj, es_queue = queue, es_metadata = metadata,
         es_data = wt_data wire, es_requests = wt_requests wire, es_errors = wt_errors wire,
         es_last_error = wt_last_error wire, es_processing_time = wt_processing_time wire,
         es_average = wt_average wire\<rparr>)))"

text \<open>The endpoints are read in order, up to the first that is refused.\<close>

fun each_result :: "('a \<Rightarrow> 'e + 'b) \<Rightarrow> 'a list \<Rightarrow> 'e + 'b list" where
  "each_result f [] = Inr []"
| "each_result f (a # as) = then_result (f a) (\<lambda>b. then_result (each_result f as) (\<lambda>bs. Inr (b # bs)))"

definition discovery_info_of_wire :: "'j wire_info \<Rightarrow> 'x service_error + service_info" where
  "discovery_info_of_wire wire =
     then_result (expect_response_type ''io.nats.micro.v1.info_response'' (wf_type wire)) (\<lambda>_.
     then_result (required_metadata (wf_metadata wire)) (\<lambda>metadata.
     then_result (each_result discovery_info_endpoint (wf_endpoints wire)) (\<lambda>endpoints.
       Inr \<lparr>si_name = wf_name wire, si_id = wf_id wire, si_version = wf_version wire,
         si_description = (if length (wf_description wire) = 0 then None else Some (wf_description wire)),
         si_metadata = metadata, si_endpoints = endpoints\<rparr>)))"

definition discovery_stats_of_wire :: "'j wire_stats \<Rightarrow> 'x service_error + 'j service_stats" where
  "discovery_stats_of_wire wire =
     then_result (expect_response_type ''io.nats.micro.v1.stats_response'' (ws_type wire)) (\<lambda>_.
     then_result (required_metadata (ws_metadata wire)) (\<lambda>metadata.
     then_result (each_result discovery_stats_endpoint (ws_endpoints wire)) (\<lambda>endpoints.
       Inr \<lparr>ss_name = ws_name wire, ss_id = ws_id wire, ss_version = ws_version wire, ss_metadata = metadata,
         ss_started = ws_started wire, ss_endpoints = endpoints\<rparr>)))"

record discovered_ping =
  dp_name :: string
  dp_id :: string
  dp_version :: string
  dp_metadata :: metadata

definition read_ping :: "('x, 'j) service_codecs \<Rightarrow> message \<Rightarrow> 'x service_error + discovered_ping" where
  "read_ping codecs m =
     then_result (decoded_wire (jc_decode_ping codecs (m_payload m))) (\<lambda>wire.
     then_result (expect_response_type ''io.nats.micro.v1.ping_response'' (wi_type wire)) (\<lambda>_.
     then_result (required_metadata (wi_metadata wire)) (\<lambda>metadata.
       Inr \<lparr>dp_name = wi_name wire, dp_id = wi_id wire, dp_version = wi_version wire, dp_metadata = metadata\<rparr>)))"

definition read_info :: "('x, 'j) service_codecs \<Rightarrow> message \<Rightarrow> 'x service_error + service_info" where
  "read_info codecs m =
     then_result (decoded_wire (jc_decode_info codecs (m_payload m))) discovery_info_of_wire"

definition read_stats :: "('x, 'j) service_codecs \<Rightarrow> message \<Rightarrow> 'x service_error + 'j service_stats" where
  "read_stats codecs m =
     then_result (decoded_wire (jc_decode_stats codecs (m_payload m))) discovery_stats_of_wire"

section \<open>Subjects\<close>

datatype target = All | Named string | Instance string string

definition validate_target :: "target \<Rightarrow> 'x service_error + unit" where
  "validate_target target =
     (let check = (\<lambda>v k. case validate_identifier v of
            Some error \<Rightarrow> Inl (Invalid_selector (selector_name_error error))
          | None \<Rightarrow> k) in
      case target of
        All \<Rightarrow> Inr ()
      | Named name \<Rightarrow> check name (Inr ())
      | Instance service ident \<Rightarrow> check service (check ident (Inr ())))"

definition discovery_subject :: "string \<Rightarrow> target \<Rightarrow> string option" where
  "discovery_subject verb target =
     literal subject_of_string
       (case target of
          All \<Rightarrow> ''$SRV.'' @ verb
        | Named name \<Rightarrow> ''$SRV.'' @ verb @ ''.'' @ name
        | Instance service ident \<Rightarrow> ''$SRV.'' @ verb @ ''.'' @ service @ ''.'' @ ident)"

definition control_verb :: "control_kind \<Rightarrow> string" where
  "control_verb kind =
     (case kind of Ping_control \<Rightarrow> ''PING'' | Info_control \<Rightarrow> ''INFO'' | Stats_control \<Rightarrow> ''STATS'')"

definition control_subject :: "control_kind \<Rightarrow> string option \<Rightarrow> string option" where
  "control_subject kind suffix =
     literal filter_of_string
       (case suffix of
          None \<Rightarrow> ''$SRV.'' @ control_verb kind
        | Some suffix \<Rightarrow> ''$SRV.'' @ control_verb kind @ ''.'' @ suffix)"

definition control_subjects :: "string \<Rightarrow> string \<Rightarrow> (control_kind \<times> string option) list" where
  "control_subjects name ident =
     concat (map (\<lambda>kind.
       [(kind, control_subject kind None), (kind, control_subject kind (Some name)),
        (kind, control_subject kind (Some (name @ ''.'' @ ident)))])
       [Ping_control, Info_control, Stats_control])"

definition nuid_alphabet :: string where
  "nuid_alphabet = ''0123456789ABCDEFGHIJKLMNOPQRSTUVWXYZabcdefghijklmnopqrstuvwxyz''"

text \<open>\<open>draw i\<close> is the number drawn for position \<open>i\<close>, below the length of the alphabet.\<close>

definition fresh_id :: "(nat \<Rightarrow> nat) \<Rightarrow> string" where
  "fresh_id draw = map (\<lambda>position. nuid_alphabet ! draw position) [0..<22]"

end
