(* ===== verification/ServiceSteps.thy ===== *)
theory ServiceSteps
  imports ServiceDiscovery
begin

text \<open>
  The life of a service (lib/eio/service.ml). Every block that the code runs under the mutex of the
  service is a function of its state; a step of the system runs one of them, or one call on a
  subscription, for some fiber that adds an endpoint, serves one, fails the service or stops it.
\<close>

section \<open>Blocks under the mutex\<close>

definition closed_error :: "'x service_state \<Rightarrow> 'x service_error option" where
  "closed_error state =
     (case state of
        Open \<Rightarrow> None
      | Stopping \<Rightarrow> Some Service_stopped
      | Stopped \<Rightarrow> Some Service_stopped
      | Failed error \<Rightarrow> Some error)"

definition all_workers :: "('x, 'j, 'h) service \<Rightarrow> nat list" where
  "all_workers service = map ct_sid (sv_controls service) @ map ei_sid (sv_endpoints service)"

definition reserve :: "string \<Rightarrow> ('x, 'j, 'h) service \<Rightarrow> 'x service_error option \<times> ('x, 'j, 'h) service" where
  "reserve key service =
     (case closed_error (sv_state service) of
        Some error \<Rightarrow> (Some error, service)
      | None \<Rightarrow>
          if key \<in> ei_key ` set (sv_endpoints service) \<or> key \<in> set (sv_pending service) then
            (Some (Duplicate_endpoint key), service)
          else (None, service\<lparr>sv_pending := key # sv_pending service\<rparr>))"

definition release :: "string \<Rightarrow> ('x, 'j, 'h) service \<Rightarrow> ('x, 'j, 'h) service" where
  "release key service = service\<lparr>sv_pending := filter (\<lambda>v. v \<noteq> key) (sv_pending service)\<rparr>"

definition make_instance ::
  "string \<Rightarrow> string \<Rightarrow> string option \<Rightarrow> 'h endpoint_config \<Rightarrow> nat \<Rightarrow> 'h endpoint_instance" where
  "make_instance key subj queue endpoint sid =
     \<lparr>ei_key = key, ei_name = ec_name endpoint, ei_subject = subj, ei_queue = queue,
      ei_metadata = ec_metadata endpoint, ei_handler = ec_handler endpoint, ei_sid = sid,
      ei_requests = 0, ei_errors = 0, ei_last_error = [], ei_processing_time = 0\<rparr>"

definition insert_endpoint ::
  "'h endpoint_instance \<Rightarrow> ('x, 'j, 'h) service \<Rightarrow> 'x service_error option \<times> ('x, 'j, 'h) service" where
  "insert_endpoint instance service =
     (let service = release (ei_key instance) service in
      case closed_error (sv_state service) of
        None \<Rightarrow> (None, service\<lparr>sv_endpoints := instance # sv_endpoints service\<rparr>)
      | Some error \<Rightarrow> (Some error, service))"

definition fail_service :: "'x service_error \<Rightarrow> ('x, 'j, 'h) service \<Rightarrow> nat list \<times> ('x, 'j, 'h) service" where
  "fail_service error service =
     (case sv_state service of
        Open \<Rightarrow> (all_workers service, service\<lparr>sv_state := Failed error\<rparr>)
      | _ \<Rightarrow> ([], service))"

definition add_group ::
  "queue_policy \<Rightarrow> group option \<Rightarrow> string \<Rightarrow> ('x, 'j, 'h) service \<Rightarrow> 'x service_error + group" where
  "add_group queue parent name service =
     (case closed_error (sv_state service) of
        None \<Rightarrow> make_group parent (map_option g_subject parent) queue name
      | Some error \<Rightarrow> Inl error)"

definition reset_stats :: "string \<Rightarrow> ('x, 'j, 'h) service \<Rightarrow> ('x, 'j, 'h) service" where
  "reset_stats started service =
     service\<lparr>sv_started := started, sv_endpoints := map clear_counters (sv_endpoints service)\<rparr>"

definition stopped :: "('x, 'j, 'h) service \<Rightarrow> bool" where
  "stopped service = (case sv_state service of Stopped \<Rightarrow> True | _ \<Rightarrow> False)"

datatype 'x stop_action = Stop_done "'x service_error + unit" | Stop_wait | Stop_start "nat list"

definition stop_action :: "('x, 'j, 'h) service \<Rightarrow> 'x stop_action \<times> ('x, 'j, 'h) service" where
  "stop_action service =
     (case sv_state service of
        Stopped \<Rightarrow> (Stop_done (Inr ()), service)
      | Failed error \<Rightarrow> (Stop_done (Inl error), service)
      | Stopping \<Rightarrow>
          (case sv_stop service of
             Some _ \<Rightarrow> (Stop_wait, service)
           | None \<Rightarrow> (Stop_done (Inl Service_stopped), service))
      | Open \<Rightarrow> (Stop_start (all_workers service), service\<lparr>sv_state := Stopping, sv_stop := Some None\<rparr>))"

definition stop_result :: "'x connection_error option \<Rightarrow> 'x service_error + unit" where
  "stop_result trouble =
     (case trouble of None \<Rightarrow> Inr () | Some error \<Rightarrow> Inl (Service_connection error))"

definition remember_first :: "'e option \<Rightarrow> 'e \<Rightarrow> 'e option" where
  "remember_first trouble error = (if trouble = None then Some error else trouble)"

definition served ::
  "('x service_error \<Rightarrow> string) \<Rightarrow> ('x service_error \<times> string) option \<Rightarrow> 'x request \<Rightarrow> nat \<Rightarrow> nat \<Rightarrow>
     ('x, 'j, 'h) service \<Rightarrow> ('x, 'j, 'h) service" where
  "served text handler_error request duration sid service =
     service\<lparr>sv_endpoints :=
       map (\<lambda>endpoint. if ei_sid endpoint = sid then record_endpoint text handler_error request duration endpoint
              else endpoint) (sv_endpoints service)\<rparr>"

definition service_v :: "'j service_config \<Rightarrow> string \<Rightarrow> string \<Rightarrow> control list \<Rightarrow> ('x, 'j, 'h) service" where
  "service_v config ident started controls =
     \<lparr>sv_config = config, sv_id = ident, sv_started = started, sv_state = Open, sv_controls = controls,
      sv_endpoints = [], sv_pending = [], sv_stop = None\<rparr>"

text \<open>The nine control subscriptions: all of them, or none is left.\<close>

fun subscribe_loop ::
  "(string option \<Rightarrow> 'w \<Rightarrow> ('x connection_error + nat) \<times> 'w) \<Rightarrow> (nat \<Rightarrow> 'w \<Rightarrow> 'w) \<Rightarrow>
     (control_kind \<times> string option) list \<Rightarrow> control list \<Rightarrow> 'w \<Rightarrow> ('x service_error + control list) \<times> 'w" where
  "subscribe_loop subscribe unsubscribe [] subscribed w = (Inr (rev subscribed), w)"
| "subscribe_loop subscribe unsubscribe ((kind, subj) # others) subscribed w =
     (case subscribe subj w of
        (Inr sid, w) \<Rightarrow>
          subscribe_loop subscribe unsubscribe others (\<lparr>ct_kind = kind, ct_sid = sid\<rparr> # subscribed) w
      | (Inl error, w) \<Rightarrow> (Inl (Service_connection error), fold unsubscribe (map ct_sid subscribed) w))"

section \<open>Fibers\<close>

text \<open>
  What a fiber has still to do. \<open>Unsubscribing\<close> keeps the error to report to the callbacks
  afterwards; the jobs of a stop keep all subscriptions of the service and the first error.
  \<open>y_left\<close> remembers what no field of the code does: the subscriptions that a cancelled fiber
  should have closed and did not.
\<close>

datatype ('x, 'h) job =
    Subscribing string string "string option" "'h endpoint_config"
  | Inserting "'h endpoint_instance"
  | Unsubscribing "nat list" "'x service_error option"
  | Draining_all "nat list" "nat list" "'x connection_error option"
  | Cleaning "nat list" "nat list" "'x connection_error option"
  | Awaiting "nat list" "'x connection_error option"
  | Calling "'x connection_error option"

datatype 'x callback_event = Error_event "'x service_error" | Done_event | Failure_event

record ('x, 'j, 'h) service_system =
  y_service :: "('x, 'j, 'h) service"
  y_open :: "nat set"
  y_left :: "nat set"
  y_running :: "nat set"
  y_next :: nat
  y_jobs :: "('x, 'h) job list"
  y_queue :: "'x callback_event list"
  y_handled :: "'x callback_event list"
  y_dispatching :: bool

definition has_callbacks :: "'j service_config \<Rightarrow> bool" where
  "has_callbacks config \<longleftrightarrow> sc_error_handler config \<or> sc_done_handler config"

definition enqueue :: "'x callback_event list \<Rightarrow> ('x, 'j, 'h) service_system \<Rightarrow> ('x, 'j, 'h) service_system" where
  "enqueue events y =
     (if has_callbacks (sv_config (y_service y)) then y\<lparr>y_queue := y_queue y @ events\<rparr> else y)"

definition finished :: "'x connection_error option \<Rightarrow> ('x, 'j, 'h) service \<Rightarrow> ('x, 'j, 'h) service" where
  "finished trouble service = service\<lparr>sv_stop := Some (Some (stop_result trouble))\<rparr>"

text \<open>
  One fiber's job: \<open>job_step y job job' y'\<close> takes it to what is left of it (\<open>None\<close>: nothing). The
  fiber can be cancelled wherever it waits outside \<open>Cancel.protect\<close>: while it subscribes, where
  \<open>Connection.subscribe\<close> closes what it opened but the name stays reserved; while it waits for the
  mutex to insert the endpoint; and at each unsubscription of a failed service or a rejected endpoint.
  \<open>stop\<close> protects all of its work, so its jobs are not cancelled.
\<close>

inductive job_step ::
  "('x, 'j, 'h) service_system \<Rightarrow> ('x, 'h) job \<Rightarrow> ('x, 'h) job option \<Rightarrow> ('x, 'j, 'h) service_system \<Rightarrow> bool" where
  subscribed: "job_step y (Subscribing key subj queue endpoint)
      (Some (Inserting (make_instance key subj queue endpoint (y_next y))))
      (y\<lparr>y_open := insert (y_next y) (y_open y), y_next := Suc (y_next y)\<rparr>)"
| not_subscribed: "job_step y (Subscribing key subj queue endpoint) None
      (y\<lparr>y_service := release key (y_service y)\<rparr>)"
| cancelled_subscribing: "job_step y (Subscribing key subj queue endpoint) None y"
| cancelled_inserting: "job_step y (Inserting instance) None (y\<lparr>y_left := insert (ei_sid instance) (y_left y)\<rparr>)"
| inserted: "insert_endpoint instance (y_service y) = (None, service) \<Longrightarrow>
    job_step y (Inserting instance) None
      (y\<lparr>y_service := service, y_running := insert (ei_sid instance) (y_running y)\<rparr>)"
| rejected: "insert_endpoint instance (y_service y) = (Some error, service) \<Longrightarrow>
    job_step y (Inserting instance) (Some (Unsubscribing [ei_sid instance] None)) (y\<lparr>y_service := service\<rparr>)"
| unsubscribe: "job_step y (Unsubscribing (sid # sids) report) (Some (Unsubscribing sids report))
      (y\<lparr>y_open := y_open y - {sid}\<rparr>)"
| cancelled_closing: "job_step y (Unsubscribing (sid # sids) report) None (y\<lparr>y_left := set (sid # sids) \<union> y_left y\<rparr>)"
| unsubscribed: "job_step y (Unsubscribing [] None) None y"
| reported: "job_step y (Unsubscribing [] (Some error)) None (enqueue [Error_event error, Failure_event] y)"
| drained: "job_step y (Draining_all (sid # sids) workers trouble) (Some (Draining_all sids workers trouble))
      (y\<lparr>y_open := y_open y - {sid}\<rparr>)"
| not_drained: "job_step y (Draining_all (sid # sids) workers trouble)
      (Some (Draining_all sids workers (remember_first trouble error))) y"
| drained_all: "job_step y (Draining_all [] workers None) (Some (Awaiting workers None)) y"
| clean: "job_step y (Draining_all [] workers (Some error)) (Some (Cleaning workers workers (Some error))) y"
| cleaning: "job_step y (Cleaning (sid # sids) workers trouble) (Some (Cleaning sids workers trouble))
      (y\<lparr>y_open := y_open y - {sid}\<rparr>)"
| cleaned: "job_step y (Cleaning [] workers trouble) (Some (Awaiting workers trouble)) y"
| awaited: "set workers \<inter> y_running y = {} \<Longrightarrow>
    job_step y (Awaiting workers trouble) (Some (Calling trouble))
      (enqueue [Done_event] (y\<lparr>y_service := (y_service y)\<lparr>sv_state := Stopped\<rparr>\<rparr>))"
| called: "has_callbacks (sv_config (y_service y)) \<Longrightarrow> Done_event \<in> set (y_handled y) \<Longrightarrow>
    job_step y (Calling trouble) None (y\<lparr>y_service := finished trouble (y_service y)\<rparr>)"
| nobody_called: "\<not> has_callbacks (sv_config (y_service y)) \<Longrightarrow>
    job_step y (Calling trouble) None (y\<lparr>y_service := finished trouble (y_service y)\<rparr>)"

text \<open>
  A step of the system. An endpoint comes from \<open>endpoint_v\<close> with a valid filter and queue group;
  \<open>prefix\<close> is the subject of its group. The connection may end a subscription, and a worker its
  loop, at any time; the fiber of the callbacks may be cancelled.
\<close>

definition proper_endpoint :: "'h endpoint_config \<Rightarrow> bool" where
  "proper_endpoint endpoint \<longleftrightarrow>
     validate_identifier (ec_name endpoint) = None \<and> valid_subject True (ec_subject endpoint) \<and>
     (case ec_metadata endpoint of None \<Rightarrow> True | Some metadata \<Rightarrow> duplicate_metadata metadata = None) \<and>
     (case ec_queue endpoint of Queue queue \<Rightarrow> valid_subject False queue | _ \<Rightarrow> True)"

definition proper_policy :: "queue_policy \<Rightarrow> bool" where
  "proper_policy policy \<longleftrightarrow> (case policy of Queue queue \<Rightarrow> valid_subject False queue | _ \<Rightarrow> True)"

inductive service_step :: "('x, 'j, 'h) service_system \<Rightarrow> ('x, 'j, 'h) service_system \<Rightarrow> bool" where
  add: "proper_endpoint endpoint \<Longrightarrow> proper_policy parent_queue \<Longrightarrow>
    append_filter prefix (ec_subject endpoint) = Inr subj \<Longrightarrow>
    reserve (endpoint_full_name prefix (ec_name endpoint)) (y_service y) = (None, service) \<Longrightarrow>
    service_step y (y\<lparr>y_service := service,
      y_jobs := Subscribing (endpoint_full_name prefix (ec_name endpoint)) subj
        (effective_endpoint_queue parent_queue endpoint) endpoint # y_jobs y\<rparr>)"
| job: "y_jobs y = before @ job # later \<Longrightarrow> job_step y job left y' \<Longrightarrow>
    service_step y (y'\<lparr>y_jobs := before @ (case left of None \<Rightarrow> [] | Some job' \<Rightarrow> [job']) @ later\<rparr>)"
| fail: "sid \<in> y_running y \<Longrightarrow> fail_service error (y_service y) = (sids, service) \<Longrightarrow> sids \<noteq> [] \<Longrightarrow>
    service_step y (y\<lparr>y_service := service, y_jobs := Unsubscribing sids (Some error) # y_jobs y\<rparr>)"
| stop: "stop_action (y_service y) = (Stop_start sids, service) \<Longrightarrow>
    service_step y (y\<lparr>y_service := service, y_jobs := Draining_all sids sids None # y_jobs y\<rparr>)"
| serve: "sid \<in> y_running y \<Longrightarrow>
    service_step y (y\<lparr>y_service := served text handler_error request duration sid (y_service y)\<rparr>)"
| reset: "service_step y (y\<lparr>y_service := reset_stats started (y_service y)\<rparr>)"
| ended: "service_step y (y\<lparr>y_running := y_running y - {sid}\<rparr>)"
| lost: "service_step y (y\<lparr>y_open := y_open y - {sid}\<rparr>)"
| callback: "y_dispatching y \<Longrightarrow> y_queue y = event # events \<Longrightarrow>
    service_step y (y\<lparr>y_queue := events, y_handled := y_handled y @ [event],
      y_dispatching := (case event of Error_event _ \<Rightarrow> True | _ \<Rightarrow> False)\<rparr>)"
| callbacks_cancelled: "service_step y (y\<lparr>y_dispatching := False\<rparr>)"

definition system_v :: "'j service_config \<Rightarrow> string \<Rightarrow> string \<Rightarrow> control list \<Rightarrow> nat \<Rightarrow> ('x, 'j, 'h) service_system" where
  "system_v config ident started controls n =
     \<lparr>y_service = service_v config ident started controls, y_open = ct_sid ` set controls, y_left = {},
      y_running = ct_sid ` set controls, y_next = n, y_jobs = [], y_queue = [], y_handled = [],
      y_dispatching = has_callbacks config\<rparr>"

text \<open>The controls were subscribed before; numbers of subscriptions are not used again.\<close>

inductive service_reaches :: "('x, 'j, 'h) service_system \<Rightarrow> bool" where
  start: "service_config_v config = (Inr config :: 'x service_error + 'j service_config) \<Longrightarrow> proper_policy (sc_queue config) \<Longrightarrow>
    map ct_kind controls = map fst (control_subjects (sc_name config) ident) \<Longrightarrow>
    distinct (map ct_sid controls) \<Longrightarrow> \<forall>sid \<in> ct_sid ` set controls. sid < n \<Longrightarrow>
    service_reaches (system_v config ident started controls n :: ('x, 'j, 'h) service_system)"
| further: "service_reaches y \<Longrightarrow> service_step y y' \<Longrightarrow> service_reaches y'"

end
