(* ===== verification/ServiceProps.thy ===== *)
theory ServiceProps
  imports ServiceSteps
begin

text \<open>
  What holds of a service at every moment, whatever the order in which its fibers run and are
  cancelled: no endpoint name is registered twice, every subscription that is open has somebody who
  will close it or was left by a cancelled fiber, a stopped service has closed those of all its
  workers and their loops have ended, and the callbacks hear of its end at most once. Then what Discovery reads is what the service is, and a request is answered once.
\<close>

section \<open>What the blocks change\<close>

lemma reserve_None:
  "reserve key service = (None, service') \<longleftrightarrow>
     sv_state service = Open \<and> key \<notin> ei_key ` set (sv_endpoints service) \<and> key \<notin> set (sv_pending service) \<and>
     service' = service\<lparr>sv_pending := key # sv_pending service\<rparr>"
  by (cases "sv_state service") (auto simp: reserve_def closed_error_def)

lemma insert_endpoint_None:
  "insert_endpoint instance service = (None, service') \<longleftrightarrow>
     sv_state service = Open \<and>
     service' = (release (ei_key instance) service)\<lparr>sv_endpoints := instance # sv_endpoints service\<rparr>"
  by (cases "sv_state service") (auto simp: insert_endpoint_def release_def Let_def closed_error_def)

lemma insert_endpoint_Some:
  "insert_endpoint instance service = (Some error, service') \<Longrightarrow>
     sv_state service \<noteq> Open \<and> service' = release (ei_key instance) service"
  by (auto simp: insert_endpoint_def release_def Let_def closed_error_def split: option.splits service_state.splits)

lemma fail_service_some:
  "fail_service error service = (sids, service') \<Longrightarrow> sids \<noteq> [] \<Longrightarrow>
     sv_state service = Open \<and> sids = all_workers service \<and> service' = service\<lparr>sv_state := Failed error\<rparr>"
  by (cases "sv_state service") (auto simp: fail_service_def)

lemma stop_action_start:
  "stop_action service = (Stop_start sids, service') \<longleftrightarrow>
     sv_state service = Open \<and> sids = all_workers service \<and>
     service' = service\<lparr>sv_state := Stopping, sv_stop := Some None\<rparr>"
  by (auto simp: stop_action_def split: service_state.splits option.splits)

lemma record_endpoint_keeps [simp]:
  "ei_sid (record_endpoint text e r d endpoint) = ei_sid endpoint"
  "ei_key (record_endpoint text e r d endpoint) = ei_key endpoint"
  "ei_name (record_endpoint text e r d endpoint) = ei_name endpoint"
  "ei_subject (record_endpoint text e r d endpoint) = ei_subject endpoint"
  "ei_queue (record_endpoint text e r d endpoint) = ei_queue endpoint"
  "ei_metadata (record_endpoint text e r d endpoint) = ei_metadata endpoint"
  by (simp_all add: record_endpoint_def Let_def split: option.split)

lemma clear_counters_keeps [simp]:
  "ei_sid (clear_counters endpoint) = ei_sid endpoint" "ei_key (clear_counters endpoint) = ei_key endpoint"
  "ei_name (clear_counters endpoint) = ei_name endpoint" "ei_subject (clear_counters endpoint) = ei_subject endpoint"
  "ei_queue (clear_counters endpoint) = ei_queue endpoint" "ei_metadata (clear_counters endpoint) = ei_metadata endpoint"
  by (simp_all add: clear_counters_def)

text \<open>\<open>same_frame\<close>: the counters may differ, nothing else that the invariants look at.\<close>

definition same_frame :: "('x, 'j, 'h) service \<Rightarrow> ('x, 'j, 'h) service \<Rightarrow> bool" where
  "same_frame s s' \<longleftrightarrow>
     sv_config s' = sv_config s \<and> sv_id s' = sv_id s \<and> sv_state s' = sv_state s \<and> sv_controls s' = sv_controls s \<and>
     sv_pending s' = sv_pending s \<and> map ei_sid (sv_endpoints s') = map ei_sid (sv_endpoints s) \<and>
     map ei_key (sv_endpoints s') = map ei_key (sv_endpoints s) \<and>
     map info_endpoint (sv_endpoints s') = map info_endpoint (sv_endpoints s)"

lemma served_frame: "same_frame s (served text e r d sid s)"
  by (auto simp: same_frame_def served_def info_endpoint_def)

lemma reset_frame: "same_frame s (reset_stats started s)"
  by (simp add: same_frame_def reset_stats_def info_endpoint_def)

lemma same_frame_workers: "same_frame s s' \<Longrightarrow> all_workers s' = all_workers s"
  by (simp add: same_frame_def all_workers_def)

lemma release_simps [simp]:
  "sv_state (release key s) = sv_state s" "all_workers (release key s) = all_workers s"
  "sv_config (release key s) = sv_config s" "sv_endpoints (release key s) = sv_endpoints s"
  "sv_controls (release key s) = sv_controls s"
  by (simp_all add: release_def all_workers_def)

lemma workers_simps [simp]:
  "all_workers (s\<lparr>sv_state := state\<rparr>) = all_workers s" "all_workers (s\<lparr>sv_stop := stop\<rparr>) = all_workers s"
  "all_workers (s\<lparr>sv_pending := pending\<rparr>) = all_workers s" "all_workers (finished trouble s) = all_workers s"
  "set (all_workers (s\<lparr>sv_endpoints := i # sv_endpoints s\<rparr>)) = insert (ei_sid i) (set (all_workers s))"
  "set (all_workers ((release key s)\<lparr>sv_endpoints := i # sv_endpoints s\<rparr>)) = insert (ei_sid i) (set (all_workers s))"
  "sv_state (finished trouble s) = sv_state s" "sv_config (finished trouble s) = sv_config s"
  "sv_endpoints (finished trouble s) = sv_endpoints s" "sv_pending (finished trouble s) = sv_pending s"
  "sv_controls (finished trouble s) = sv_controls s"
  by (simp_all add: all_workers_def finished_def release_def)

lemma enqueue_simps [simp]:
  "y_service (enqueue events y) = y_service y" "y_open (enqueue events y) = y_open y"
  "y_left (enqueue events y) = y_left y" "y_next (enqueue events y) = y_next y"
  "y_running (enqueue events y) = y_running y" "y_jobs (enqueue events y) = y_jobs y"
  "y_handled (enqueue events y) = y_handled y" "y_dispatching (enqueue events y) = y_dispatching y"
  by (simp_all add: enqueue_def)

lemmas block_effects = reserve_None insert_endpoint_None stop_action_start

section \<open>Stopping\<close>

definition stop_workers :: "('x, 'h) job \<Rightarrow> nat list option" where
  "stop_workers job =
     (case job of
        Draining_all _ workers _ \<Rightarrow> Some workers
      | Cleaning _ workers _ \<Rightarrow> Some workers
      | Awaiting workers _ \<Rightarrow> Some workers
      | _ \<Rightarrow> None)"

definition job_fits :: "('x, 'j, 'h) service \<Rightarrow> ('x, 'h) job \<Rightarrow> bool" where
  "job_fits service job \<longleftrightarrow>
     (case job of
        Draining_all sids workers _ \<Rightarrow>
          sv_state service = Stopping \<and> set workers = set (all_workers service) \<and> set sids \<subseteq> set workers
      | Cleaning _ workers _ \<Rightarrow> sv_state service = Stopping \<and> set workers = set (all_workers service)
      | Awaiting workers _ \<Rightarrow> sv_state service = Stopping \<and> set workers = set (all_workers service)
      | Calling _ \<Rightarrow> sv_state service = Stopped
      | _ \<Rightarrow> True)"

definition stops_once :: "('x, 'j, 'h) service_system \<Rightarrow> bool" where
  "stops_once y \<longleftrightarrow>
     (\<forall>job \<in> set (y_jobs y). job_fits (y_service y) job) \<and>
     length (filter (\<lambda>job. stop_workers job \<noteq> None) (y_jobs y)) \<le> 1"

lemma job_fits_frame:
  "sv_state s' = sv_state s \<Longrightarrow> set (all_workers s') = set (all_workers s) \<Longrightarrow> job_fits s' job = job_fits s job"
  by (auto simp: job_fits_def split: job.split)

lemma same_frame_once:
  assumes "same_frame (y_service y) service" and "stops_once y"
  shows "stops_once (y\<lparr>y_service := service\<rparr>)"
proof -
  have "sv_state service = sv_state (y_service y)" using assms(1) by (simp only: same_frame_def)
  moreover have "set (all_workers service) = set (all_workers (y_service y))"
    using same_frame_workers [OF assms(1)] by simp
  ultimately have "job_fits service j = job_fits (y_service y) j" for j by (rule job_fits_frame)
  with assms(2) show ?thesis by (simp add: stops_once_def)
qed

lemma job_fits_idle: "stop_workers job = None \<Longrightarrow> (\<And>trouble. job \<noteq> Calling trouble) \<Longrightarrow> job_fits s job"
  by (cases job) (auto simp: job_fits_def stop_workers_def)

lemma job_fits_Open: "sv_state s = Open \<Longrightarrow> job_fits s job \<Longrightarrow> stop_workers job = None \<and> job_fits s' job"
  by (cases job) (auto simp: job_fits_def stop_workers_def)

lemma job_fits_Stopped: "sv_state s = Stopped \<Longrightarrow> stop_workers job = None \<Longrightarrow> job_fits s job"
  by (cases job) (auto simp: job_fits_def stop_workers_def)

lemma stops_once_frame:
  assumes "stops_once y" "y_jobs y = before @ job # later"
    and "sv_state (y_service y') = sv_state (y_service y)"
    and "set (all_workers (y_service y')) = set (all_workers (y_service y))"
    and "\<And>j. left = Some j \<Longrightarrow> job_fits (y_service y) j \<and> (stop_workers j = None \<or> stop_workers job \<noteq> None)"
  shows "stops_once (y'\<lparr>y_jobs := before @ (case left of None \<Rightarrow> [] | Some j \<Rightarrow> [j]) @ later\<rparr>)"
proof -
  have "job_fits (y_service y') j = job_fits (y_service y) j" for j using assms(3,4) by (rule job_fits_frame)
  then show ?thesis using assms(1,2,5) by (auto simp: stops_once_def split: option.splits if_splits)
qed

lemma stops_once_job:
  assumes step: "job_step y job left y'" and jobs: "y_jobs y = before @ job # later" and once: "stops_once y"
  shows "stops_once (y'\<lparr>y_jobs := before @ (case left of None \<Rightarrow> [] | Some j \<Rightarrow> [j]) @ later\<rparr>)"
proof -
  have fits: "job_fits (y_service y) job" using once jobs by (auto simp: stops_once_def)
  show ?thesis
    using step
  proof cases
    case (inserted i service)
    then have "sv_state (y_service y) = Open" by (simp add: block_effects)
    then have "stop_workers j = None \<and> job_fits service j" if "j \<in> set (before @ later)" for j
      using once jobs that job_fits_Open by (auto simp: stops_once_def)
    with inserted show ?thesis by (auto simp: stops_once_def filter_empty_conv filter_False)
  next
    case (awaited workers trouble)
    then have "stop_workers j = None" if "j \<in> set (before @ later)" for j
      using once jobs that by (auto simp: stops_once_def stop_workers_def filter_empty_conv)
    with awaited show ?thesis
      by (auto simp: stops_once_def filter_empty_conv filter_False stop_workers_def intro!: job_fits_Stopped)
  next
    case (rejected i error service)
    with insert_endpoint_Some show ?thesis
      by (intro stops_once_frame [OF once jobs]) (fastforce simp: job_fits_def stop_workers_def)+
  qed (insert fits, (rule stops_once_frame [OF once jobs]; force simp: job_fits_def stop_workers_def)+)
qed

lemma stops_once_step: "service_step y y' \<Longrightarrow> stops_once y \<Longrightarrow> stops_once y'"
proof (induction rule: service_step.induct)
  case (add endpoint parent_queue prefix subj y service)
  then have "job_fits service j = job_fits (y_service y) j" for j by (intro job_fits_frame) (simp_all add: block_effects)
  with add show ?case by (auto simp: stops_once_def stop_workers_def job_fits_def [of _ "Subscribing _ _ _ _"])
next
  case (job y before job later left y')
  then show ?case by (intro stops_once_job)
next
  case (fail sid y error sids service)
  then have "sv_state (y_service y) = Open" using fail_service_some by blast
  with fail show ?case using job_fits_Open
    by (fastforce simp: stops_once_def stop_workers_def filter_False job_fits_def [of _ "Unsubscribing _ _"])
next
  case (stop y sids service)
  then have o: "sv_state (y_service y) = Open" "job_fits service (Draining_all sids sids None)"
    by (auto simp: block_effects job_fits_def)
  have "stop_workers j = None \<and> job_fits service j" if "j \<in> set (y_jobs y)" for j
    using stop.prems that job_fits_Open [OF o(1)] by (auto simp: stops_once_def)
  with o show ?case by (auto simp: stops_once_def filter_False)
next
  case (serve sid y pr he rq du)
  show ?case using served_frame serve(2) by (rule same_frame_once)
next
  case (reset y started)
  show ?case using reset_frame reset(1) by (rule same_frame_once)
qed (simp_all add: stops_once_def)

section \<open>Every open subscription has an owner\<close>

definition job_sids :: "('x, 'h) job \<Rightarrow> nat set" where
  "job_sids job =
     (case job of
        Inserting i \<Rightarrow> {ei_sid i}
      | Unsubscribing sids _ \<Rightarrow> set sids
      | Draining_all sids workers trouble \<Rightarrow> if trouble = None then set sids else set workers
      | Cleaning sids _ _ \<Rightarrow> set sids
      | _ \<Rightarrow> {})"

text \<open>An open service closes its subscriptions when it stops or fails; the others are closed by a job.\<close>

definition held :: "('x, 'j, 'h) service_system \<Rightarrow> nat set" where
  "held y =
     (if sv_state (y_service y) = Open then set (all_workers (y_service y)) else {}) \<union>
     \<Union> (job_sids ` set (y_jobs y))"

lemma held_job:
  assumes step: "job_step y job left y'" and jobs: "y_jobs y = before @ job # later" and once: "stops_once y"
    and held: "y_open y \<subseteq> held y \<union> y_left y"
  shows "y_open y' \<subseteq> y_left y' \<union> held (y'\<lparr>y_jobs := before @ (case left of None \<Rightarrow> [] | Some j \<Rightarrow> [j]) @ later\<rparr>)"
proof -
  have fits: "job_fits (y_service y) job" using once jobs by (auto simp: stops_once_def)
  have o: "y_open y \<subseteq> (if sv_state (y_service y) = Open then set (all_workers (y_service y)) else {}) \<union>
      \<Union> (job_sids ` set (before @ later)) \<union> job_sids job \<union> y_left y"
    using held jobs by (auto simp: held_def)
  show ?thesis
    using step
  proof cases
    case (rejected i error service)
    with o insert_endpoint_Some [of i "y_service y" error service] show ?thesis
      by (auto simp: held_def job_sids_def)
  qed (use o fits in \<open>auto simp: held_def job_sids_def job_fits_def block_effects remember_first_def make_instance_def split: if_splits\<close>)
qed

lemma same_frame_held: "same_frame (y_service y) service \<Longrightarrow> held (y\<lparr>y_service := service\<rparr>) = held y"
  by (simp add: held_def same_frame_workers) (simp add: same_frame_def)

lemma held_step: "service_step y y' \<Longrightarrow> stops_once y \<Longrightarrow> y_open y \<subseteq> held y \<union> y_left y \<Longrightarrow> y_open y' \<subseteq> held y' \<union> y_left y'"
proof (induction rule: service_step.induct)
  case (job y before job later left y')
  then show ?case using held_job by (simp add: Un_commute)
next
  case (fail sid y error sids service)
  from fail_service_some [OF fail(2,3)] fail(5) show ?case by (auto simp: held_def job_sids_def)
next
  case (serve sid y pr he rq du)
  then show ?case by (simp add: same_frame_held [OF served_frame])
next
  case (reset y started)
  then show ?case by (simp add: same_frame_held [OF reset_frame])
qed (auto simp: held_def job_sids_def block_effects)

section \<open>Worker loops\<close>

definition workers_known :: "('x, 'j, 'h) service_system \<Rightarrow> bool" where
  "workers_known y \<longleftrightarrow>
     y_running y \<subseteq> set (all_workers (y_service y)) \<and> (sv_state (y_service y) = Stopped \<longrightarrow> y_running y = {})"

lemma workers_known_job:
  assumes step: "job_step y job left y'" and fits: "job_fits (y_service y) job" and known: "workers_known y"
  shows "workers_known (y'\<lparr>y_jobs := jobs\<rparr>)"
  using step
proof cases
  case (rejected i error service)
  with known insert_endpoint_Some [of i "y_service y" error service] show ?thesis by (auto simp: workers_known_def)
qed (use known fits in \<open>auto simp: workers_known_def job_fits_def block_effects\<close>)

lemma same_frame_known: "same_frame (y_service y) service \<Longrightarrow> workers_known (y\<lparr>y_service := service\<rparr>) = workers_known y"
  by (simp add: workers_known_def same_frame_workers) (simp add: same_frame_def)

lemma workers_known_step: "service_step y y' \<Longrightarrow> stops_once y \<Longrightarrow> workers_known y \<Longrightarrow> workers_known y'"
proof (induction rule: service_step.induct)
  case (job y before job later left y')
  then show ?case by (intro workers_known_job) (auto simp: stops_once_def)
next
  case (fail sid y error sids service)
  from fail_service_some [OF fail(2,3)] fail(5) show ?case by (auto simp: workers_known_def)
next
  case (serve sid y pr he rq du)
  then show ?case by (simp add: same_frame_known [OF served_frame])
next
  case (reset y started)
  then show ?case by (simp add: same_frame_known [OF reset_frame])
qed (auto simp: workers_known_def block_effects)

section \<open>A stop closes the subscription of every worker\<close>

definition inserts_below :: "nat \<Rightarrow> ('x, 'h) job \<Rightarrow> bool" where
  "inserts_below n job \<longleftrightarrow> (case job of Inserting i \<Rightarrow> ei_sid i < n | _ \<Rightarrow> True)"

lemma inserts_below_mono: "inserts_below n job \<Longrightarrow> n \<le> m \<Longrightarrow> inserts_below m job"
  by (auto simp: inserts_below_def split: job.splits)

lemma inserts_below_simps [simp]:
  "inserts_below n (Inserting i) \<longleftrightarrow> ei_sid i < n" "inserts_below n (Subscribing key subj queue endpoint)"
  "inserts_below n (Unsubscribing sids report)" "inserts_below n (Draining_all sids workers trouble)"
  "inserts_below n (Cleaning sids workers trouble)" "inserts_below n (Awaiting workers trouble)"
  "inserts_below n (Calling trouble)"
  by (simp_all add: inserts_below_def)

definition numbered :: "('x, 'j, 'h) service_system \<Rightarrow> bool" where
  "numbered y \<longleftrightarrow>
     (\<forall>sid \<in> set (all_workers (y_service y)). sid < y_next y) \<and>
     (\<forall>job \<in> set (y_jobs y). inserts_below (y_next y) job)"

lemma numbered_job:
  assumes step: "job_step y job left y'" and jobs: "y_jobs y = before @ job # later" and numbered: "numbered y"
  shows "numbered (y'\<lparr>y_jobs := before @ (case left of None \<Rightarrow> [] | Some j \<Rightarrow> [j]) @ later\<rparr>)"
  using step
proof cases
  case (subscribed key subj queue endpoint)
  moreover have "inserts_below (Suc (y_next y)) j" if "inserts_below (y_next y) j" for j :: "('x, 'h) job"
    using that by (rule inserts_below_mono) simp
  ultimately show ?thesis using numbered jobs by (auto simp: numbered_def make_instance_def less_Suc_eq)
next
  case (rejected i error service)
  with numbered jobs insert_endpoint_Some [of i "y_service y" error service] show ?thesis by (simp add: numbered_def)
qed (use numbered jobs in \<open>simp_all add: numbered_def block_effects\<close>)

lemma same_frame_numbered: "same_frame (y_service y) service \<Longrightarrow> numbered (y\<lparr>y_service := service\<rparr>) = numbered y"
  by (simp add: numbered_def same_frame_workers)

lemma numbered_step: "service_step y y' \<Longrightarrow> numbered y \<Longrightarrow> numbered y'"
proof (induction rule: service_step.induct)
  case (job y before job later left y')
  then show ?case by (intro numbered_job)
next
  case (fail sid y error sids service)
  from fail_service_some [OF fail(2,3)] fail(4) show ?case by (simp add: numbered_def)
next
  case (serve sid y pr he rq du)
  then show ?case by (simp add: same_frame_numbered [OF served_frame])
next
  case (reset y started)
  then show ?case by (simp add: same_frame_numbered [OF reset_frame])
qed (auto simp: numbered_def block_effects)

text \<open>What the fiber that stops the service has still to close.\<close>

definition stop_sids :: "('x, 'h) job \<Rightarrow> nat set" where
  "stop_sids job = (if stop_workers job = None then {} else job_sids job)"

lemma stop_sids_simps [simp]:
  "stop_sids (Subscribing key subj queue endpoint) = {}" "stop_sids (Inserting i) = {}"
  "stop_sids (Unsubscribing sids report) = {}" "stop_sids (Calling trouble) = {}" "stop_sids (Awaiting workers trouble) = {}"
  "stop_sids (Draining_all sids workers trouble) = (if trouble = None then set sids else set workers)"
  "stop_sids (Cleaning sids workers trouble) = set sids"
  by (simp_all add: stop_sids_def stop_workers_def job_sids_def)

definition stop_closes :: "('x, 'j, 'h) service_system \<Rightarrow> bool" where
  "stop_closes y \<longleftrightarrow>
     (sv_state (y_service y) \<in> {Stopping, Stopped} \<longrightarrow>
        y_open y \<inter> set (all_workers (y_service y)) \<subseteq> \<Union> (stop_sids ` set (y_jobs y)))"

lemma stop_closes_job:
  assumes step: "job_step y job left y'" and jobs: "y_jobs y = before @ job # later"
    and fits: "job_fits (y_service y) job" and numbered: "numbered y" and closes: "stop_closes y"
  shows "stop_closes (y'\<lparr>y_jobs := before @ (case left of None \<Rightarrow> [] | Some j \<Rightarrow> [j]) @ later\<rparr>)"
  using step
proof cases
  case (subscribed key subj queue endpoint)
  with numbered closes jobs show ?thesis
    by (auto simp: stop_closes_def numbered_def)
next
  case (rejected i error service)
  with closes jobs insert_endpoint_Some [of i "y_service y" error service] show ?thesis
    by (auto simp: stop_closes_def)
qed (use closes fits jobs in \<open>auto simp: stop_closes_def job_fits_def block_effects remember_first_def
  split: if_splits\<close>)

lemma same_frame_closes: "same_frame (y_service y) service \<Longrightarrow> stop_closes (y\<lparr>y_service := service\<rparr>) = stop_closes y"
  by (simp add: stop_closes_def same_frame_workers) (simp add: same_frame_def)

lemma stop_closes_step:
  "service_step y y' \<Longrightarrow> stops_once y \<Longrightarrow> numbered y \<Longrightarrow> stop_closes y \<Longrightarrow> stop_closes y'"
proof (induction rule: service_step.induct)
  case (job y before job later left y')
  then show ?case by (intro stop_closes_job) (auto simp: stops_once_def)
next
  case (fail sid y error sids service)
  from fail_service_some [OF fail(2,3)] show ?case by (simp add: stop_closes_def)
next
  case (serve sid y pr he rq du)
  then show ?case by (simp add: same_frame_closes [OF served_frame])
next
  case (reset y started)
  then show ?case by (simp add: same_frame_closes [OF reset_frame])
qed (auto simp: stop_closes_def block_effects)

lemma stopped_closes:
  assumes "stop_closes y" "stops_once y" "sv_state (y_service y) = Stopped"
  shows "y_open y \<inter> set (all_workers (y_service y)) = {}"
proof -
  have "stop_sids job = {}" if "job \<in> set (y_jobs y)" for job
    using assms(2,3) that by (cases job) (auto simp: stops_once_def job_fits_def)
  with assms(1,3) show ?thesis by (auto simp: stop_closes_def)
qed

section \<open>Names of endpoints\<close>

definition job_keys :: "('x, 'h) job \<Rightarrow> string list" where
  "job_keys job = (case job of Subscribing key _ _ _ \<Rightarrow> [key] | Inserting i \<Rightarrow> [ei_key i] | _ \<Rightarrow> [])"

lemma job_keys_simps [simp]:
  "job_keys (Subscribing key subj queue endpoint) = [key]" "job_keys (Inserting i) = [ei_key i]"
  "job_keys (Unsubscribing sids report) = []" "job_keys (Draining_all sids workers trouble) = []"
  "job_keys (Cleaning sids workers trouble) = []" "job_keys (Awaiting workers trouble) = []" "job_keys (Calling trouble) = []"
  by (simp_all add: job_keys_def)

text \<open>
  The keys of the endpoints, those that fibers are adding, and those that are reserved: a cancelled
  fiber leaves its name reserved.
\<close>

definition names_ok :: "string list \<Rightarrow> string list \<Rightarrow> string list \<Rightarrow> bool" where
  "names_ok keys adding reserved \<longleftrightarrow>
     distinct keys \<and> distinct adding \<and> set adding \<subseteq> set reserved \<and> set reserved \<inter> set keys = {}"

lemma names_ok_release: "names_ok keys (as @ k # bs) reserved \<Longrightarrow> names_ok keys (as @ bs) (filter (\<lambda>v. v \<noteq> k) reserved)"
  by (auto simp: names_ok_def)

lemma names_ok_cancel: "names_ok keys (as @ k # bs) reserved \<Longrightarrow> names_ok keys (as @ bs) reserved"
  by (auto simp: names_ok_def)

lemma names_ok_insert:
  "names_ok keys (as @ k # bs) reserved \<Longrightarrow> names_ok (k # keys) (as @ bs) (filter (\<lambda>v. v \<noteq> k) reserved)"
  by (auto simp: names_ok_def)

lemma names_ok_reserve:
  "names_ok keys adding reserved \<Longrightarrow> k \<notin> set keys \<Longrightarrow> k \<notin> set reserved \<Longrightarrow> names_ok keys (k # adding) (k # reserved)"
  by (auto simp: names_ok_def)

definition names_unique :: "('x, 'j, 'h) service_system \<Rightarrow> bool" where
  "names_unique y \<longleftrightarrow>
     names_ok (map ei_key (sv_endpoints (y_service y))) (concat (map job_keys (y_jobs y))) (sv_pending (y_service y))"

lemma same_frame_unique: "same_frame (y_service y) service \<Longrightarrow> names_unique y \<Longrightarrow> names_unique (y\<lparr>y_service := service\<rparr>)"
  by (simp add: names_unique_def same_frame_def)

lemma names_unique_job:
  assumes step: "job_step y job left y'" and jobs: "y_jobs y = before @ job # later" and unique: "names_unique y"
  shows "names_unique (y'\<lparr>y_jobs := before @ (case left of None \<Rightarrow> [] | Some j \<Rightarrow> [j]) @ later\<rparr>)"
proof -
  have u: "names_ok (map ei_key (sv_endpoints (y_service y)))
      (concat (map job_keys before) @ job_keys job @ concat (map job_keys later)) (sv_pending (y_service y))"
    using unique jobs by (simp add: names_unique_def)
  show ?thesis
    using step
  proof cases
    case (not_subscribed key subj queue endpoint)
    with u show ?thesis by (simp add: names_unique_def release_def names_ok_release)
  next
    case (cancelled_subscribing key subj queue endpoint)
    with u show ?thesis by (simp add: names_unique_def names_ok_cancel)
  next
    case (cancelled_inserting i)
    with u show ?thesis by (simp add: names_unique_def names_ok_cancel)
  next
    case (inserted i service)
    with u show ?thesis by (simp add: names_unique_def release_def names_ok_insert block_effects)
  next
    case (rejected i error service)
    with u insert_endpoint_Some [of i "y_service y" error service] show ?thesis
      by (simp add: names_unique_def release_def names_ok_release)
  qed (use u in \<open>simp_all add: names_unique_def make_instance_def finished_def\<close>)
qed

lemma names_unique_step: "service_step y y' \<Longrightarrow> names_unique y \<Longrightarrow> names_unique y'"
proof (induction rule: service_step.induct)
  case (add endpoint parent_queue prefix subj y service)
  then show ?case by (auto simp: names_unique_def block_effects intro!: names_ok_reserve)
next
  case (job y before job later left y')
  then show ?case by (intro names_unique_job)
next
  case (fail sid y error sids service)
  from fail_service_some [OF fail(2,3)] fail(4) show ?case by (simp add: names_unique_def)
next
  case (serve sid y pr he rq du)
  show ?case using served_frame serve(2) by (rule same_frame_unique)
next
  case (reset y started)
  show ?case using reset_frame reset(1) by (rule same_frame_unique)
qed (auto simp: names_unique_def block_effects)

section \<open>The callbacks\<close>

definition reports :: "('x, 'h) job \<Rightarrow> 'x service_error list" where
  "reports job = (case job of Unsubscribing _ (Some error) \<Rightarrow> [error] | _ \<Rightarrow> [])"

lemma reports_simps [simp]:
  "reports (Subscribing key subj queue endpoint) = []" "reports (Inserting i) = []"
  "reports (Unsubscribing sids None) = []" "reports (Unsubscribing sids (Some error)) = [error]"
  "reports (Draining_all sids workers trouble) = []" "reports (Cleaning sids workers trouble) = []"
  "reports (Awaiting workers trouble) = []" "reports (Calling trouble) = []"
  by (simp_all add: reports_def)

text \<open>
  What the callback fiber was told so far, given what is still to be reported; a failure that a
  cancelled fiber should have reported is not heard of.
\<close>

definition told :: "'x service_state \<Rightarrow> bool \<Rightarrow> 'x service_error list \<Rightarrow> 'x callback_event list \<Rightarrow> bool" where
  "told state callbacks reporting events \<longleftrightarrow>
     (case state of
        Open \<Rightarrow> reporting = [] \<and> events = []
      | Stopping \<Rightarrow> reporting = [] \<and> events = []
      | Stopped \<Rightarrow> reporting = [] \<and> events = (if callbacks then [Done_event] else [])
      | Failed error \<Rightarrow>
          reporting = [error] \<and> events = [] \<or>
          reporting = [] \<and> events \<in> {[], if callbacks then [Error_event error, Failure_event] else []})"

definition told_once :: "('x, 'j, 'h) service_system \<Rightarrow> bool" where
  "told_once y \<longleftrightarrow>
     told (sv_state (y_service y)) (has_callbacks (sv_config (y_service y))) (concat (map reports (y_jobs y)))
       (y_handled y @ y_queue y)"

lemma same_frame_told: "same_frame (y_service y) service \<Longrightarrow> told_once y \<Longrightarrow> told_once (y\<lparr>y_service := service\<rparr>)"
  by (simp add: told_once_def same_frame_def)

lemma told_once_job:
  assumes step: "job_step y job left y'" and jobs: "y_jobs y = before @ job # later" and fits: "job_fits (y_service y) job"
    and told: "told_once y"
  shows "told_once (y'\<lparr>y_jobs := before @ (case left of None \<Rightarrow> [] | Some j \<Rightarrow> [j]) @ later\<rparr>)"
proof -
  have t: "told (sv_state (y_service y)) (has_callbacks (sv_config (y_service y)))
      (concat (map reports before) @ reports job @ concat (map reports later)) (y_handled y @ y_queue y)"
    using told jobs by (simp add: told_once_def)
  show ?thesis
    using step
  proof cases
    case (inserted i service)
    with t show ?thesis by (simp add: told_once_def block_effects)
  next
    case (rejected i error service)
    with t insert_endpoint_Some [of i "y_service y" error service] show ?thesis by (simp add: told_once_def)
  next
    case (unsubscribe sid sids report)
    with t show ?thesis by (cases report) (simp_all add: told_once_def)
  next
    case (cancelled_closing sid sids report)
    with t show ?thesis
      by (cases report) (auto simp: told_once_def told_def append_eq_Cons_conv split: service_state.splits)
  next
    case (reported error)
    with t show ?thesis
      by (auto simp: told_once_def told_def enqueue_def append_eq_Cons_conv split: service_state.splits)
  next
    case (awaited workers trouble)
    with t fits show ?thesis by (auto simp: told_once_def told_def enqueue_def job_fits_def)
  qed (use t in \<open>simp_all add: told_once_def\<close>)
qed

lemma told_once_step: "service_step y y' \<Longrightarrow> stops_once y \<Longrightarrow> told_once y \<Longrightarrow> told_once y'"
proof (induction rule: service_step.induct)
  case (job y before job later left y')
  then show ?case by (intro told_once_job) (auto simp: stops_once_def)
next
  case (fail sid y error sids service)
  from fail_service_some [OF fail(2,3)] fail(5) show ?case by (simp add: told_once_def told_def)
next
  case (serve sid y pr he rq du)
  show ?case using served_frame serve(3) by (rule same_frame_told)
next
  case (reset y started)
  show ?case using reset_frame reset(2) by (rule same_frame_told)
qed (auto simp: told_once_def told_def block_effects)

section \<open>Identifiers, filters and queue groups\<close>

lemma validate_identifier_None:
  "validate_identifier v = None \<longleftrightarrow> v \<noteq> [] \<and> list_all identifier_character v"
proof -
  have "first_error (\<lambda>position c. if \<not> identifier_character c then Some (Identifier_invalid position c) else None) 0 v = None
      \<longleftrightarrow> (\<forall>c \<in> set v. identifier_character c)"
    by (rule first_error_const_None) simp
  then show ?thesis by (auto simp: validate_identifier_def list_all_iff)
qed

lemma identifier_plain: "identifier_character c \<Longrightarrow> plain c \<and> c \<noteq> CHR ''.''"
  by (auto simp: identifier_character_def letter_or_digit_def plain_def is_forbidden_character_def)

lemma identifier_token: "validate_identifier v = None \<Longrightarrow> token_ok filtr final v \<and> CHR ''.'' \<notin> set v"
  using identifier_plain by (auto simp: validate_identifier_None token_ok_def list_all_iff)

lemma identifier_subject: "validate_identifier v = None \<Longrightarrow> valid_subject filtr v"
  using identifier_token [of v] by (simp add: valid_subject_def validate_identifier_None)

lemma duplicate_scan_None: "duplicate_scan seen m = None \<longleftrightarrow> distinct (map fst m) \<and> set (map fst m) \<inter> set seen = {}"
  by (induction seen m rule: duplicate_scan.induct) auto

lemma duplicate_metadata_None: "duplicate_metadata m = None \<longleftrightarrow> distinct (map fst m)"
  by (simp add: duplicate_metadata_def duplicate_scan_None)

lemma filter_of_string_Inr: "filter_of_string s = Inr r \<longleftrightarrow> r = s \<and> valid_subject True s"
  by (auto simp: filter_of_string_def validate_valid)

lemma literal_valid:
  "valid_subject False s \<Longrightarrow> literal subject_of_string s = Some s"
  "valid_subject True s \<Longrightarrow> literal filter_of_string s = Some s"
  "valid_subject False s \<Longrightarrow> literal queue_group_of_string s = Some s"
  by (simp_all add: literal_def validate_accepts)

lemma default_queue_valid: "policy_queue Default_queue = Some ''q''" "valid_subject False ''q''"
proof -
  show v: "valid_subject False ''q''"
    by (simp add: valid_subject_def token_ok_def plain_def is_forbidden_character_def)
  show "policy_queue Default_queue = Some ''q''" by (simp add: policy_queue_def literal_valid(3) [OF v])
qed

lemma policy_queue_valid: "proper_policy policy \<Longrightarrow> policy_queue policy = Some queue \<Longrightarrow> valid_subject False queue"
  using default_queue_valid by (cases policy) (auto simp: proper_policy_def policy_queue_def)

section \<open>The values of a service\<close>

definition proper_info :: "endpoint_info \<Rightarrow> bool" where
  "proper_info e \<longleftrightarrow>
     valid_subject True (in_subject e) \<and> (case in_queue e of None \<Rightarrow> True | Some queue \<Rightarrow> valid_subject False queue) \<and>
     (case in_metadata e of None \<Rightarrow> True | Some metadata \<Rightarrow> distinct (map fst metadata))"

definition proper_job :: "('x, 'h) job \<Rightarrow> bool" where
  "proper_job job \<longleftrightarrow>
     (case job of
        Subscribing key subj queue endpoint \<Rightarrow> proper_info (info_endpoint (make_instance key subj queue endpoint 0))
      | Inserting i \<Rightarrow> proper_info (info_endpoint i)
      | _ \<Rightarrow> True)"

definition proper :: "('x, 'j, 'h) service_system \<Rightarrow> bool" where
  "proper y \<longleftrightarrow>
     distinct (map fst (sc_metadata (sv_config (y_service y)))) \<and>
     list_all proper_info (map info_endpoint (sv_endpoints (y_service y))) \<and> list_all proper_job (y_jobs y)"

lemma info_of_instance:
  "info_endpoint (make_instance key subj queue endpoint n) =
     \<lparr>in_name = ec_name endpoint, in_subject = subj, in_queue = queue, in_metadata = ec_metadata endpoint\<rparr>"
  by (simp add: info_endpoint_def make_instance_def)

lemma proper_added:
  assumes "proper_endpoint endpoint" "proper_policy parent_queue" "append_filter prefix (ec_subject endpoint) = Inr subj"
  shows "proper_job (Subscribing key subj (effective_endpoint_queue parent_queue endpoint) endpoint)"
proof -
  have "valid_subject True subj"
    using assms(1,3) by (auto simp: append_filter_def proper_endpoint_def filter_of_string_Inr split: option.splits)
  moreover have "proper_policy (case ec_queue endpoint of Default_queue \<Rightarrow> parent_queue | v \<Rightarrow> v)"
    using assms(1,2) by (auto simp: proper_endpoint_def proper_policy_def split: queue_policy.splits)
  then have "valid_subject False queue" if "effective_endpoint_queue parent_queue endpoint = Some queue" for queue
    using that policy_queue_valid unfolding effective_endpoint_queue_def by blast
  ultimately show ?thesis
    using assms(1) by (auto simp: proper_job_def info_of_instance proper_info_def proper_endpoint_def
        duplicate_metadata_None split: option.split)
qed

lemma same_frame_proper: "same_frame (y_service y) service \<Longrightarrow> proper y \<Longrightarrow> proper (y\<lparr>y_service := service\<rparr>)"
  by (simp add: proper_def same_frame_def)

lemma proper_job_step:
  assumes step: "job_step y job left y'" and jobs: "y_jobs y = before @ job # later" and proper: "proper y"
  shows "proper (y'\<lparr>y_jobs := before @ (case left of None \<Rightarrow> [] | Some j \<Rightarrow> [j]) @ later\<rparr>)"
  using step
proof cases
  case (rejected i error service)
  with proper jobs insert_endpoint_Some [of i "y_service y" error service] show ?thesis
    by (simp add: proper_def proper_job_def)
qed (use proper jobs in \<open>simp_all add: proper_def proper_job_def block_effects info_of_instance finished_def\<close>)

lemma proper_step: "service_step y y' \<Longrightarrow> proper y \<Longrightarrow> proper y'"
proof (induction rule: service_step.induct)
  case (add endpoint parent_queue prefix subj y service)
  then show ?case using proper_added by (auto simp: proper_def block_effects)
next
  case (job y before job later left y')
  then show ?case by (intro proper_job_step)
next
  case (fail sid y error sids service)
  from fail_service_some [OF fail(2,3)] fail(4) show ?case by (simp add: proper_def proper_job_def)
next
  case (serve sid y pr he rq du)
  show ?case using served_frame serve(2) by (rule same_frame_proper)
next
  case (reset y started)
  show ?case using reset_frame reset(1) by (rule same_frame_proper)
qed (auto simp: proper_def proper_job_def block_effects)

section \<open>Every reachable moment\<close>

lemma service_config_v_Inr:
  "service_config_v config = Inr config' \<longleftrightarrow>
     config' = config \<and> validate_identifier (sc_name config) = None \<and> validate_version (sc_version config) \<and>
     distinct (map fst (sc_metadata config))"
  by (auto simp: service_config_v_def duplicate_metadata_None [symmetric] split: option.splits)

lemma start_invariants:
  "stops_once (system_v config ident started controls n)"
  "y_open (system_v config ident started controls n) \<subseteq>
     held (system_v config ident started controls n) \<union> y_left (system_v config ident started controls n)"
  "stop_closes (system_v config ident started controls n)"
  "workers_known (system_v config ident started controls n)"
  "names_unique (system_v config ident started controls n)"
  "told_once (system_v config ident started controls n)"
  by (auto simp: system_v_def service_v_def stops_once_def held_def all_workers_def workers_known_def names_unique_def
      names_ok_def told_once_def told_def stop_closes_def)

lemma service_invariants:
  assumes "service_reaches y"
  shows "stops_once y \<and> y_open y \<subseteq> held y \<union> y_left y \<and> numbered y \<and> stop_closes y \<and> workers_known y \<and>
    names_unique y \<and> told_once y \<and> proper y"
  using assms
proof induction
  case (start config controls ident n started)
  then have "proper (system_v config ident started controls n)"
    by (simp add: proper_def system_v_def service_v_def service_config_v_Inr)
  moreover have "numbered (system_v config ident started controls n)"
    using start(5) by (auto simp: numbered_def system_v_def service_v_def all_workers_def)
  ultimately show ?case by (simp add: start_invariants)
next
  case (further y y')
  from further.hyps(2) have "stops_once y'" "y_open y' \<subseteq> held y' \<union> y_left y'" "numbered y'" "stop_closes y'"
      "workers_known y'" "names_unique y'" "told_once y'" "proper y'"
    using further.IH
    by (simp_all add: stops_once_step held_step numbered_step stop_closes_step workers_known_step names_unique_step
        told_once_step proper_step)
  then show ?case by simp
qed

end
