(* ===== verification/ServiceClaims.thy ===== *)
theory ServiceClaims
  imports ServiceProps
begin

text \<open>
  The properties of a service (lib/eio/service.ml): how it ends, what Discovery reads from it and
  which requests reach it, and that a request is answered once.
\<close>

section \<open>A run: an endpoint is added, then the service is stopped\<close>

definition demo_service :: "unit service_config" where
  "demo_service = \<lparr>sc_name = ''echo'', sc_version = ''1.0.0'', sc_description = Some ''says it again'',
     sc_metadata = [(''a'', ''1'')], sc_queue = Default_queue, sc_stats_handler = None,
     sc_error_handler = False, sc_done_handler = True\<rparr>"

definition demo_controls :: "control list" where
  "demo_controls = map (\<lambda>(kind, sid). \<lparr>ct_kind = kind, ct_sid = sid\<rparr>)
     [(Ping_control, 1), (Ping_control, 2), (Ping_control, 3), (Info_control, 4), (Info_control, 5),
      (Info_control, 6), (Stats_control, 7), (Stats_control, 8), (Stats_control, 9)]"

definition demo_start :: "(unit, unit, unit) service_system" where
  "demo_start = system_v demo_service ''X'' ''now'' demo_controls 10"

definition demo_endpoint :: "unit endpoint_config" where
  "demo_endpoint = \<lparr>ec_name = ''say'', ec_subject = ''say'', ec_metadata = None, ec_queue = Disabled,
     ec_limits = None, ec_handler = ()\<rparr>"

definition demo_instance :: "unit endpoint_instance" where
  "demo_instance = make_instance ''say'' ''say'' None demo_endpoint 10"

definition demo_ready :: "(unit, unit, unit) service_system" where
  "demo_ready = demo_start\<lparr>
     y_service := (service_v demo_service ''X'' ''now'' demo_controls)\<lparr>sv_endpoints := [demo_instance]\<rparr>,
     y_open := insert 10 (ct_sid ` set demo_controls), y_running := insert 10 (ct_sid ` set demo_controls),
     y_next := Suc 10\<rparr>"

lemma demo_names:
  "validate_identifier ''echo'' = None" "validate_identifier ''say'' = None" "validate_version ''1.0.0''"
  by (simp_all add: validate_identifier_None identifier_character_def letter_or_digit_def validate_version_def Let_def
      consume_numeric_def is_digit_def at_dot_def)

lemma demo_start_reached: "service_reaches demo_start"
  unfolding demo_start_def
  by (rule service_reaches.start)
    (simp_all add: service_config_v_Inr demo_service_def demo_names proper_policy_def demo_controls_def control_subjects_def)

lemma demo_ready_reached: "service_reaches demo_ready"
proof -
  let ?y1 = "demo_start\<lparr>y_service := (service_v demo_service ''X'' ''now'' demo_controls)\<lparr>sv_pending := [''say'']\<rparr>,
    y_jobs := [Subscribing ''say'' ''say'' None demo_endpoint]\<rparr>"
  let ?y2 = "?y1\<lparr>y_open := insert 10 (ct_sid ` set demo_controls), y_next := Suc 10, y_jobs := [Inserting demo_instance]\<rparr>"
  have "service_step demo_start ?y1"
    using service_step.add [of demo_endpoint Default_queue None "''say''" demo_start
        "(service_v demo_service ''X'' ''now'' demo_controls)\<lparr>sv_pending := [''say'']\<rparr>"] identifier_subject demo_names(2)
    by (simp add: demo_endpoint_def proper_endpoint_def proper_policy_def append_filter_def endpoint_full_name_def
        reserve_None demo_start_def system_v_def service_v_def effective_endpoint_queue_def policy_queue_def)
  moreover have "service_step ?y1 ?y2"
    using service_step.job [of ?y1 "[]" "Subscribing ''say'' ''say'' None demo_endpoint" "[]", OF _ job_step.subscribed]
    by (simp add: demo_start_def system_v_def demo_instance_def)
  moreover have "service_step ?y2 demo_ready"
    using service_step.job [of ?y2 "[]" "Inserting demo_instance" "[]", OF _ job_step.inserted]
    by (simp add: demo_start_def system_v_def service_v_def demo_ready_def insert_endpoint_None release_def
        demo_instance_def make_instance_def)
  ultimately show ?thesis using demo_start_reached by (blast intro: service_reaches.further)
qed

text \<open>Then all is drained, the loops end, and the callback is told.\<close>

lemma drains:
  "service_reaches y \<Longrightarrow> y_jobs y = [Draining_all sids workers None] \<Longrightarrow>
     service_reaches (y\<lparr>y_open := y_open y - set sids, y_jobs := [Awaiting workers None]\<rparr>)"
proof (induction sids arbitrary: y)
  case Nil
  have "service_step y (y\<lparr>y_jobs := [Awaiting workers None]\<rparr>)"
    using service_step.job [of y "[]" "Draining_all [] workers None" "[]", OF _ job_step.drained_all] Nil by simp
  with Nil(1) show ?case by (auto intro: service_reaches.further)
next
  case (Cons sid sids)
  let ?y = "y\<lparr>y_open := y_open y - {sid}, y_jobs := [Draining_all sids workers None]\<rparr>"
  have "service_step y ?y"
    using service_step.job [of y "[]" "Draining_all (sid # sids) workers None" "[]", OF _ job_step.drained] Cons.prems(2)
    by simp
  with Cons.prems(1) have "service_reaches ?y" by (rule service_reaches.further)
  from Cons.IH [OF this] show ?case by (simp add: Diff_insert [symmetric] insert_commute Diff_insert2 set_diff_eq)
qed

lemma loops_end: "service_reaches y \<Longrightarrow> service_reaches (y\<lparr>y_running := y_running y - set sids\<rparr>)"
proof (induction sids arbitrary: y)
  case (Cons sid sids)
  have "service_reaches (y\<lparr>y_running := y_running y - {sid}\<rparr>)"
    using Cons.prems service_step.ended by (rule service_reaches.further)
  from Cons.IH [OF this] show ?case by (simp add: Diff_insert2 [symmetric])
qed simp

definition demo_stopped :: "(unit, unit, unit) service_system" where
  "demo_stopped = demo_ready\<lparr>y_service := (y_service demo_ready)\<lparr>sv_state := Stopped, sv_stop := Some None\<rparr>,
     y_open := {}, y_running := {}, y_jobs := [Calling None], y_handled := [Done_event], y_dispatching := False\<rparr>"

lemma demo_stopped_reached: "service_reaches demo_stopped"
proof -
  let ?all = "[1, 2, 3, 4, 5, 6, 7, 8, 9, 10] :: nat list"
  let ?stopping = "(y_service demo_ready)\<lparr>sv_state := Stopping, sv_stop := Some None\<rparr>"
  let ?y1 = "demo_ready\<lparr>y_service := ?stopping, y_jobs := [Draining_all ?all ?all None]\<rparr>"
  let ?y2 = "?y1\<lparr>y_open := {}, y_jobs := [Awaiting ?all None], y_running := {}\<rparr>"
  let ?y3 = "?y2\<lparr>y_service := ?stopping\<lparr>sv_state := Stopped\<rparr>, y_jobs := [Calling None], y_queue := [Done_event]\<rparr>"
  have "service_step demo_ready ?y1"
    using service_step.stop [of demo_ready ?all ?stopping]
    by (simp add: stop_action_start demo_ready_def demo_start_def system_v_def service_v_def all_workers_def
        demo_controls_def demo_instance_def make_instance_def)
  with demo_ready_reached have r: "service_reaches ?y1" by (rule service_reaches.further)
  have "y_jobs ?y1 = [Draining_all ?all ?all None]" by simp
  from loops_end [OF drains [OF r this], of ?all] have "service_reaches ?y2"
    by (simp add: demo_ready_def demo_controls_def)
  moreover have "service_step ?y2 ?y3"
    using service_step.job [of ?y2 "[]" "Awaiting ?all None" "[]", OF _ job_step.awaited]
    by (simp add: enqueue_def demo_ready_def demo_start_def system_v_def service_v_def has_callbacks_def demo_service_def)
  moreover have "service_step ?y3 demo_stopped"
    using service_step.callback [of ?y3 Done_event "[]"]
    by (simp add: demo_stopped_def demo_ready_def demo_start_def system_v_def service_v_def has_callbacks_def demo_service_def)
  ultimately show ?thesis by (blast intro: service_reaches.further)
qed

text \<open>
  And another end: the loop of a control ends with an error, and the fiber that fails the service is
  cancelled after it closed the first subscription.
\<close>

definition demo_failed :: "(unit, unit, unit) service_system" where
  "demo_failed = demo_ready\<lparr>y_service := (y_service demo_ready)\<lparr>sv_state := Failed Service_stopped\<rparr>,
     y_open := {2, 3, 4, 5, 6, 7, 8, 9, 10}, y_left := {2, 3, 4, 5, 6, 7, 8, 9, 10}\<rparr>"

lemma demo_failed_reached: "service_reaches demo_failed"
proof -
  let ?all = "[1, 2, 3, 4, 5, 6, 7, 8, 9, 10] :: nat list"
  let ?rest = "[2, 3, 4, 5, 6, 7, 8, 9, 10] :: nat list"
  let ?failed = "(y_service demo_ready)\<lparr>sv_state := Failed Service_stopped\<rparr>"
  let ?y1 = "demo_ready\<lparr>y_service := ?failed, y_jobs := [Unsubscribing ?all (Some Service_stopped)]\<rparr>"
  let ?y2 = "?y1\<lparr>y_open := {2, 3, 4, 5, 6, 7, 8, 9, 10}, y_jobs := [Unsubscribing ?rest (Some Service_stopped)]\<rparr>"
  have "service_step demo_ready ?y1"
    using service_step.fail [of 1 demo_ready Service_stopped ?all ?failed]
    by (simp add: fail_service_def demo_ready_def demo_start_def system_v_def service_v_def all_workers_def
        demo_controls_def demo_instance_def make_instance_def)
  moreover have "service_step ?y1 ?y2"
    using service_step.job [of ?y1 "[]" "Unsubscribing ?all (Some Service_stopped)" "[]", OF _ job_step.unsubscribe]
    by (simp add: demo_ready_def demo_controls_def insert_commute)
  moreover have "service_step ?y2 demo_failed"
    using service_step.job [of ?y2 "[]" "Unsubscribing ?rest (Some Service_stopped)" "[]", OF _ job_step.cancelled_closing]
    by (simp add: demo_failed_def demo_ready_def demo_start_def system_v_def)
  ultimately show ?thesis using demo_ready_reached by (blast intro: service_reaches.further)
qed

section \<open>The end of a service\<close>

text \<open>
  C12: Whatever the order in which endpoints are added, served, drained, failed and stopped, and
  whichever fibers are cancelled on the way, a subscription that is open belongs to a service that
  is open, or to a fiber that is about to close it, or was left by a cancelled fiber. So once the
  service is stopped or failed and no fiber is at work, only those that a cancelled fiber left are
  still open; a service that was stopped has closed those of all its controls and endpoints, whoever
  was cancelled. No two endpoints have the same name.
\<close>
theorem service_lets_go:
  assumes "service_reaches y"
  shows "y_open y \<subseteq> held y \<union> y_left y \<and>
    (sv_state (y_service y) \<noteq> Open \<and> y_jobs y = [] \<longrightarrow> y_open y \<subseteq> y_left y) \<and>
    (stopped (y_service y) \<longrightarrow> y_open y \<inter> set (all_workers (y_service y)) = {}) \<and>
    distinct (map ei_key (sv_endpoints (y_service y)))"
proof -
  have inv: "stops_once y" "y_open y \<subseteq> held y \<union> y_left y" "stop_closes y" "names_unique y"
    using service_invariants [OF assms] by simp_all
  have "y_open y \<inter> set (all_workers (y_service y)) = {}" if "stopped (y_service y)"
    using that stopped_closes [OF inv(3,1)] by (simp add: stopped_def split: service_state.splits)
  with inv show ?thesis by (auto simp: held_def names_unique_def names_ok_def)
qed

theorem service_lets_go_witness:
  "y_open demo_stopped \<inter> set (all_workers (y_service demo_stopped)) = {} \<and> 10 \<in> y_open demo_ready \<and>
   y_open demo_failed \<subseteq> y_left demo_failed \<and> 10 \<in> y_open demo_failed"
proof -
  have "stopped (y_service demo_stopped)" "sv_state (y_service demo_failed) \<noteq> Open" "y_jobs demo_failed = []"
    by (simp_all add: stopped_def demo_stopped_def demo_failed_def demo_ready_def demo_start_def system_v_def)
  with service_lets_go [OF demo_stopped_reached] service_lets_go [OF demo_failed_reached]
  show ?thesis by (simp add: demo_ready_def demo_failed_def)
qed

text \<open>
  What the cancelled fiber of a failed service left stays open: no fiber is at work, and the
  \<open>stop\<close> of the release hook of the switch only answers with the error.
\<close>
lemma failed_service_leaks:
  "service_reaches demo_failed \<and> y_jobs demo_failed = [] \<and> y_open demo_failed \<noteq> {} \<and>
   stop_action (y_service demo_failed) = (Stop_done (Inl Service_stopped), y_service demo_failed)"
  using demo_failed_reached
  by (simp add: demo_failed_def demo_ready_def demo_start_def system_v_def stop_action_def)

text \<open>
  A stop that has to tell the callbacks never returns once their fiber is cancelled, as it is when
  the switch fails before its release hook stops the service.
\<close>
lemma cancelled_callbacks_hold_stop:
  fixes y y' :: "('x, 'j, 'h) service_system"
  assumes run: "service_step\<^sup>*\<^sup>* y y'" and "\<not> y_dispatching y" "has_callbacks (sv_config (y_service y))"
    "Done_event \<notin> set (y_handled y)" "Calling trouble \<in> set (y_jobs y)"
  shows "Calling trouble \<in> set (y_jobs y')"
proof -
  define waits where "waits = (\<lambda>y :: ('x, 'j, 'h) service_system. \<not> y_dispatching y \<and>
    has_callbacks (sv_config (y_service y)) \<and> Done_event \<notin> set (y_handled y) \<and> Calling trouble \<in> set (y_jobs y))"
  have only_told: "(\<not> y_dispatching y' \<and> has_callbacks (sv_config (y_service y')) \<and> Done_event \<notin> set (y_handled y')) \<and>
      job \<noteq> Calling trouble"
    if "job_step y job left y'" "waits y" for y y' :: "('x, 'j, 'h) service_system" and job left
    using that(1)
  proof cases
    case (rejected i error service)
    with that(2) insert_endpoint_Some [of i "y_service y" error service] show ?thesis by (simp add: waits_def)
  qed (use that(2) in \<open>auto simp: waits_def block_effects\<close>)
  have step: "waits y'" if "service_step y y'" "waits y" for y y' :: "('x, 'j, 'h) service_system"
    using that
  proof (induction rule: service_step.induct)
    case (job y before job later left y')
    with \<open>job_step y job left y'\<close> show ?case using only_told by (fastforce simp: waits_def)
  next
    case (fail sid y error sids service)
    from fail_service_some [OF fail(2,3)] fail(4) show ?case by (simp add: waits_def)
  qed (auto simp: waits_def block_effects served_def reset_stats_def)
  have "waits y" using assms(2-) by (simp add: waits_def)
  with run have "waits y'" by induction (use step in blast)+
  then show "Calling trouble \<in> set (y_jobs y')" by (simp add: waits_def)
qed

text \<open>
  The done callback runs at most once, only when the service is stopped, and by then every
  worker loop has ended, so that no handler runs any more; a service that failed reports its error
  at most once and never calls it.
\<close>
theorem service_ends_once:
  assumes "service_reaches y"
  shows "(stopped (y_service y) \<longrightarrow> y_running y = {}) \<and>
    (Done_event \<in> set (y_handled y) \<longrightarrow> stopped (y_service y) \<and> y_handled y = [Done_event]) \<and>
    (Error_event error \<in> set (y_handled y) \<longrightarrow>
       sv_state (y_service y) = Failed error \<and> y_handled y \<in> {[Error_event error], [Error_event error, Failure_event]})"
proof -
  have known: "workers_known y" and told: "told_once y" using service_invariants [OF assms] by auto
  from known have "stopped (y_service y) \<longrightarrow> y_running y = {}"
    by (simp add: stopped_def workers_known_def split: service_state.split)
  then show ?thesis using told
    by (cases "sv_state (y_service y)"; cases "has_callbacks (sv_config (y_service y))")
      (auto simp: told_once_def told_def stopped_def append_eq_Cons_conv)
qed

theorem service_ends_once_witness: "y_running demo_stopped = {} \<and> stopped (y_service demo_stopped)"
  using service_ends_once [OF demo_stopped_reached, of Service_stopped]
  by (simp add: stopped_def demo_stopped_def)

section \<open>What Discovery reads\<close>

lemma metadata_scan_json:
  "distinct (map fst (rev vs @ m)) \<Longrightarrow>
     metadata_scan vs (map (\<lambda>(name, v). (name, Json_string v)) m) = Inr (rev vs @ m)"
proof (induction m arbitrary: vs)
  case (Cons p m)
  obtain name v where p: "p = (name, v)" by (cases p)
  have "name \<notin> fst ` set vs" using Cons.prems p by auto
  with Cons.IH [of "(name, v) # vs"] Cons.prems p show ?case by simp
qed simp

lemma metadata_values_json: "distinct (map fst m) \<Longrightarrow> metadata_values allow_null (metadata_json m) = Inr (Some m)"
  by (simp add: metadata_values_def metadata_json_def then_result_def metadata_scan_json)

lemma metadata_values_or_null:
  "(case m of None \<Rightarrow> True | Some m \<Rightarrow> distinct (map fst m)) \<Longrightarrow> metadata_values True (metadata_or_null m) = Inr m"
  by (cases m) (simp_all add: metadata_or_null_def metadata_values_json, simp add: metadata_values_def)

lemma required_metadata_json: "distinct (map fst m) \<Longrightarrow> required_metadata (metadata_json m) = Inr m"
  by (simp add: required_metadata_def metadata_values_json)

lemma discovery_filter_valid: "valid_subject True s \<Longrightarrow> discovery_filter s = Inr s"
  by (simp add: discovery_filter_def validate_accepts)

lemma discovery_queue_valid:
  "(case queue of None \<Rightarrow> True | Some q \<Rightarrow> valid_subject False q) \<Longrightarrow>
     discovery_queue_group (queue_group_string queue) = Inr queue"
  using valid_subject_nonempty
  by (cases queue) (auto simp: discovery_queue_group_def queue_group_string_def validate_accepts)

lemma info_endpoint_read: "proper_info e \<Longrightarrow> discovery_info_endpoint (wire_endpoint_info_of_info e) = Inr e"
  by (simp add: discovery_info_endpoint_def wire_endpoint_info_of_info_def proper_info_def discovery_filter_valid
      discovery_queue_valid metadata_values_or_null then_result_def)

definition stats_info :: "'j endpoint_stats \<Rightarrow> endpoint_info" where
  "stats_info e = \<lparr>in_name = es_name e, in_subject = es_subject e, in_queue = es_queue e, in_metadata = es_metadata e\<rparr>"

lemma stats_endpoint_read:
  "proper_info (stats_info e) \<Longrightarrow> discovery_stats_endpoint (wire_endpoint_stats_of_stats e) = Inr e"
  by (simp add: discovery_stats_endpoint_def wire_endpoint_stats_of_stats_def proper_info_def stats_info_def
      discovery_filter_valid discovery_queue_valid metadata_values_or_null then_result_def)

lemma each_result_read: "\<forall>a \<in> set as. f (g a) = Inr a \<Longrightarrow> each_result f (map g as) = Inr as"
  by (induction as) (simp_all add: then_result_def)

lemma info_read:
  assumes "proper y" and "sc_description (sv_config (y_service y)) \<noteq> Some []"
  shows "(discovery_info_of_wire (info_wire (info_without_lock (y_service y)) :: 'k wire_info) :: 'e service_error + service_info) =
    Inr (info_without_lock (y_service y))"
proof -
  let ?v = "info_without_lock (y_service y)"
  have m: "distinct (map fst (si_metadata ?v))" and e: "\<forall>e \<in> set (si_endpoints ?v). proper_info e"
    using assms(1) by (auto simp: proper_def info_without_lock_def list_all_iff)
  have "(each_result discovery_info_endpoint (map (wire_endpoint_info_of_info :: _ \<Rightarrow> 'k wire_endpoint_info) (si_endpoints ?v)) :: 'e service_error + _) =
      Inr (si_endpoints ?v)"
    using e info_endpoint_read by (intro each_result_read) blast
  with m assms(2) show ?thesis
    by (auto simp: discovery_info_of_wire_def info_wire_def expect_response_type_def then_result_def
        required_metadata_json info_without_lock_def split: option.split)
qed

lemma stats_read:
  assumes "proper y"
  shows "(discovery_stats_of_wire (stats_wire (stats_with_handler (y_service y) (stats_without_lock (y_service y))))
      :: 'e service_error + _) =
    Inr (stats_with_handler (y_service y) (stats_without_lock (y_service y)))"
proof -
  let ?v = "stats_with_handler (y_service y) (stats_without_lock (y_service y))"
  have m: "distinct (map fst (ss_metadata ?v))"
    using assms by (auto simp: proper_def stats_without_lock_def stats_with_handler_def split: option.split)
  have "map stats_info (ss_endpoints ?v) = rev (map info_endpoint (sv_endpoints (y_service y)))"
    by (simp add: stats_with_handler_def stats_without_lock_def rev_map stats_info_def info_endpoint_def
        stats_endpoint_def o_def split: option.split)
  then have "list_all proper_info (map stats_info (ss_endpoints ?v))" using assms by (simp add: proper_def list_all_iff)
  then have "\<forall>e \<in> set (ss_endpoints ?v). proper_info (stats_info e)" by (simp add: list_all_iff)
  then have "(each_result discovery_stats_endpoint (map wire_endpoint_stats_of_stats (ss_endpoints ?v)) :: 'e service_error + _) =
      Inr (ss_endpoints ?v)"
    using stats_endpoint_read by (intro each_result_read) blast
  with m show ?thesis
    by (simp add: discovery_stats_of_wire_def stats_wire_def expect_response_type_def then_result_def required_metadata_json)
qed

lemma encoded_Inr: "encoded r = Inr p \<longleftrightarrow> r = Inr p"
  by (simp add: encoded_def split: sum.split)

lemmas read_message = read_ping_def read_info_def read_stats_def message_v_def decoded_wire_def then_result_def

text \<open>
  C14: What Discovery reads from the answers of a service to PING, INFO and STATS is what the
  service is at that moment: its identity, its endpoints in the order they were added, with their
  queue groups and metadata, and their counters. The JSON package reads back what it writes; a
  description that is present but empty is the one thing that is lost.
\<close>
theorem discovery_reads_service:
  fixes codecs :: "('x, 'j) service_codecs" and y :: "('x, 'j, 'h) service_system"
  assumes "service_reaches y" and "sc_description (sv_config (y_service y)) \<noteq> Some []"
    and "\<And>w p. jc_encode_ping codecs w = Inr p \<Longrightarrow> jc_decode_ping codecs p = Inr w"
    and "\<And>w p. jc_encode_info codecs w = Inr p \<Longrightarrow> jc_decode_info codecs p = Inr w"
    and "\<And>w p. jc_encode_stats codecs w = Inr p \<Longrightarrow> jc_decode_stats codecs p = Inr w"
  shows "(control_payload codecs (y_service y) Ping_control = Inr p \<longrightarrow>
      read_ping codecs (message_v subj headers p) =
        Inr \<lparr>dp_name = sc_name (sv_config (y_service y)), dp_id = sv_id (y_service y),
          dp_version = sc_version (sv_config (y_service y)), dp_metadata = sc_metadata (sv_config (y_service y))\<rparr>) \<and>
    (control_payload codecs (y_service y) Info_control = Inr p \<longrightarrow>
      read_info codecs (message_v subj headers p) = Inr (info_without_lock (y_service y))) \<and>
    (control_payload codecs (y_service y) Stats_control = Inr p \<longrightarrow>
      read_stats codecs (message_v subj headers p) =
        Inr (stats_with_handler (y_service y) (stats_without_lock (y_service y))))"
proof -
  let ?s = "y_service y"
  have proper: "proper y" using service_invariants [OF assms(1)] by blast
  then have m: "distinct (map fst (sc_metadata (sv_config ?s)))" by (simp add: proper_def)
  show ?thesis
  proof (intro conjI impI)
    assume "control_payload codecs ?s Ping_control = Inr p"
    then have "jc_decode_ping codecs p = Inr (ping_wire ?s)"
      using assms(3) by (simp add: control_payload_def encoded_Inr)
    then show "read_ping codecs (message_v subj headers p) = Inr \<lparr>dp_name = sc_name (sv_config ?s), dp_id = sv_id ?s,
        dp_version = sc_version (sv_config ?s), dp_metadata = sc_metadata (sv_config ?s)\<rparr>"
      by (simp add: read_message ping_wire_def expect_response_type_def required_metadata_json m then_result_def)
  next
    assume "control_payload codecs ?s Info_control = Inr p"
    then have "jc_decode_info codecs p = Inr (info_wire (info_without_lock ?s))"
      using assms(4) by (simp add: control_payload_def encoded_Inr)
    then show "read_info codecs (message_v subj headers p) = Inr (info_without_lock ?s)"
      by (simp add: read_message info_read [OF proper assms(2)] then_result_def)
  next
    assume "control_payload codecs ?s Stats_control = Inr p"
    then have "jc_decode_stats codecs p = Inr (stats_wire (stats_with_handler ?s (stats_without_lock ?s)))"
      using assms(5) by (simp add: control_payload_def encoded_Inr)
    then show "read_stats codecs (message_v subj headers p) = Inr (stats_with_handler ?s (stats_without_lock ?s))"
      by (simp add: read_message stats_read [OF proper] then_result_def)
  qed
qed

definition demo_codecs :: "(unit, unit) service_codecs" where
  "demo_codecs =
     (let s = y_service demo_ready; ping = ping_wire s; info = info_wire (info_without_lock s);
         stats = stats_wire (stats_with_handler s (stats_without_lock s)) in
      \<lparr>jc_encode_ping = (\<lambda>w. if w = ping then Inr ''ping'' else Inl ()),
       jc_encode_info = (\<lambda>w. if w = info then Inr ''info'' else Inl ()),
       jc_encode_stats = (\<lambda>w. if w = stats then Inr ''stats'' else Inl ()),
       jc_decode_ping = (\<lambda>_. Inr ping), jc_decode_info = (\<lambda>_. Inr info), jc_decode_stats = (\<lambda>_. Inr stats)\<rparr>)"

theorem discovery_reads_service_witness:
  "(\<exists>v. read_ping demo_codecs (message_v ''_INBOX.1'' [] ''ping'') = Inr v \<and> dp_id v = ''X'') \<and>
   (\<exists>v. read_info demo_codecs (message_v ''_INBOX.1'' [] ''info'') = Inr v \<and> si_name v = ''echo'' \<and>
     map in_subject (si_endpoints v) = [''say'']) \<and>
   (\<exists>v. read_stats demo_codecs (message_v ''_INBOX.1'' [] ''stats'') = Inr v \<and>
     v = stats_with_handler (y_service demo_ready) (stats_without_lock (y_service demo_ready)))"
proof -
  have p: "control_payload demo_codecs (y_service demo_ready) Ping_control = Inr ''ping''"
    "control_payload demo_codecs (y_service demo_ready) Info_control = Inr ''info''"
    "control_payload demo_codecs (y_service demo_ready) Stats_control = Inr ''stats''"
    by (simp_all add: control_payload_def demo_codecs_def encoded_def Let_def)
  have d: "sc_description (sv_config (y_service demo_ready)) \<noteq> Some []"
    by (simp add: demo_ready_def service_v_def demo_service_def)
  have c: "jc_encode_ping demo_codecs w1 = Inr s1 \<Longrightarrow> jc_decode_ping demo_codecs s1 = Inr w1"
    "jc_encode_info demo_codecs w2 = Inr s2 \<Longrightarrow> jc_decode_info demo_codecs s2 = Inr w2"
    "jc_encode_stats demo_codecs w3 = Inr s3 \<Longrightarrow> jc_decode_stats demo_codecs s3 = Inr w3" for w1 w2 w3 s1 s2 s3
    by (auto simp: demo_codecs_def Let_def split: if_splits)
  note reads = discovery_reads_service [OF demo_ready_reached d c]
  have "read_ping demo_codecs (message_v ''_INBOX.1'' [] ''ping'') = Inr \<lparr>dp_name = sc_name (sv_config (y_service demo_ready)),
      dp_id = sv_id (y_service demo_ready), dp_version = sc_version (sv_config (y_service demo_ready)),
      dp_metadata = sc_metadata (sv_config (y_service demo_ready))\<rparr>"
    using reads [of "''ping''" "''_INBOX.1''" "[]"] p by blast
  moreover have "read_info demo_codecs (message_v ''_INBOX.1'' [] ''info'') = Inr (info_without_lock (y_service demo_ready))"
    using reads [of "''info''" "''_INBOX.1''" "[]"] p by blast
  moreover have "read_stats demo_codecs (message_v ''_INBOX.1'' [] ''stats'') =
      Inr (stats_with_handler (y_service demo_ready) (stats_without_lock (y_service demo_ready)))"
    using reads [of "''stats''" "''_INBOX.1''" "[]"] p by blast
  ultimately show ?thesis
    by (simp add: demo_ready_def service_v_def info_without_lock_def info_endpoint_def demo_instance_def
        make_instance_def demo_service_def)
qed

section \<open>Which services a discovery request reaches\<close>

fun srv :: "string list \<Rightarrow> string" where
  "srv [] = ''$SRV''"
| "srv (token # tokens) = srv tokens @ ''.'' @ token"

text \<open>The tokens after \<open>$SRV\<close>, last first.\<close>

definition target_tokens :: "string \<Rightarrow> target \<Rightarrow> string list" where
  "target_tokens verb target =
     (case target of All \<Rightarrow> [verb] | Named name \<Rightarrow> [name, verb] | Instance service ident \<Rightarrow> [ident, service, verb])"

lemma split_on_last: "CHR ''.'' \<notin> set t \<Longrightarrow> split_on CHR ''.'' (s @ CHR ''.'' # t) = split_on CHR ''.'' s @ [t]"
proof (induction s)
  case (Cons c s)
  obtain w ws where "split_on CHR ''.'' s = w # ws" by (cases "split_on CHR ''.'' s") auto
  with Cons show ?case by simp
qed simp

lemma split_srv: "\<forall>t \<in> set ts. CHR ''.'' \<notin> set t \<Longrightarrow> split_on CHR ''.'' (srv ts) = ''$SRV'' # rev ts"
  by (induction ts) (simp_all add: split_on_last)

lemma srv_inject:
  assumes "\<forall>t \<in> set (ts @ us). CHR ''.'' \<notin> set t" shows "srv ts = srv us \<longleftrightarrow> ts = us"
proof
  assume "srv ts = srv us"
  then have "split_on CHR ''.'' (srv ts) = split_on CHR ''.'' (srv us)" by simp
  with assms show "ts = us" by (simp add: split_srv)
qed simp

lemma srv_valid: "\<forall>t \<in> set ts. token_ok False False t \<and> CHR ''.'' \<notin> set t \<Longrightarrow> valid_subject filtr (srv ts)"
proof -
  assume t: "\<forall>t \<in> set ts. token_ok False False t \<and> CHR ''.'' \<notin> set t"
  have ok: "tokens_ok filtr us" if "\<forall>u \<in> set us. token_ok False False u" for us
    using that by (induction us) (auto simp: token_ok_def)
  have "token_ok False False ''$SRV''" by (simp add: token_ok_def plain_def is_forbidden_character_def)
  with t have "tokens_ok filtr (''$SRV'' # rev ts)" by (intro ok) auto
  moreover have "srv ts \<noteq> []" by (cases ts) simp_all
  ultimately show ?thesis using t by (simp add: valid_subject_def split_srv)
qed

lemma fresh_id_identifier:
  assumes "\<forall>i < 22. draw i < length nuid_alphabet" shows "validate_identifier (fresh_id draw) = None"
proof -
  have "list_all identifier_character nuid_alphabet"
    by (simp add: nuid_alphabet_def identifier_character_def letter_or_digit_def)
  then have "identifier_character (nuid_alphabet ! draw i)" if "i < 22" for i
    using assms that by (simp add: list_all_length)
  then show ?thesis by (auto simp: validate_identifier_None fresh_id_def list_all_iff)
qed

lemma verb_token: "token_ok False False (control_verb kind) \<and> CHR ''.'' \<notin> set (control_verb kind)"
  by (cases kind) (simp_all add: control_verb_def token_ok_def plain_def is_forbidden_character_def)

lemma verb_inject: "control_verb kind = control_verb kind' \<longleftrightarrow> kind = kind'"
  by (cases kind; cases kind') (simp_all add: control_verb_def)

lemma target_tokens_ok:
  "validate_target target = (Inr () :: 'x service_error + unit) \<Longrightarrow> t \<in> set (target_tokens (control_verb kind) target) \<Longrightarrow>
     token_ok False False t \<and> CHR ''.'' \<notin> set t"
  using verb_token identifier_token
  by (auto simp: validate_target_def target_tokens_def Let_def split: target.splits option.splits)

lemma discovery_subject_srv:
  assumes "validate_target target = (Inr () :: 'x service_error + unit)"
  shows "discovery_subject (control_verb kind) target = Some (srv (target_tokens (control_verb kind) target))"
proof -
  have "valid_subject False (srv (target_tokens (control_verb kind) target))"
    using target_tokens_ok [OF assms] by (intro srv_valid) blast
  then have "literal subject_of_string (srv (target_tokens (control_verb kind) target)) =
      Some (srv (target_tokens (control_verb kind) target))" by (rule literal_valid)
  then show ?thesis by (cases target) (simp_all add: discovery_subject_def target_tokens_def)
qed

definition own_targets :: "string \<Rightarrow> string \<Rightarrow> target list" where
  "own_targets name ident = [All, Named name, Instance name ident]"

lemma control_subjects_srv:
  assumes "validate_identifier name = None" "validate_identifier ident = None"
  shows "control_subjects name ident = concat (map (\<lambda>kind.
    map (\<lambda>target. (kind, Some (srv (target_tokens (control_verb kind) target)))) (own_targets name ident))
    [Ping_control, Info_control, Stats_control])"
proof -
  have v: "valid_subject True (srv ts)" if "set ts \<subseteq> {name, ident, control_verb kind}" for ts kind
    using that assms identifier_token verb_token by (intro srv_valid) blast
  have l: "literal filter_of_string (srv ts) = Some (srv ts)" if "set ts \<subseteq> {name, ident, control_verb kind}" for ts kind
    using v [OF that] by (rule literal_valid)
  have "control_subject kind None = Some (srv [control_verb kind])"
    "control_subject kind (Some name) = Some (srv [name, control_verb kind])"
    "control_subject kind (Some (name @ ''.'' @ ident)) = Some (srv [ident, name, control_verb kind])" for kind
    using l [of "[control_verb kind]" kind] l [of "[name, control_verb kind]" kind] l [of "[ident, name, control_verb kind]" kind]
    by (simp_all add: control_subject_def)
  then show ?thesis by (simp add: control_subjects_def own_targets_def target_tokens_def)
qed

text \<open>
  C25: A discovery request for a valid target is sent on a subject on which a service listens
  exactly when the target is everybody, the name of the service, or its name and id; the
  subscription it reaches is the one for that verb. Neither side ever builds an invalid subject.
\<close>
theorem discovery_finds_targets:
  assumes "service_config_v config = (Inr config :: 'x service_error + 'j service_config)"
    and "\<forall>i < 22. draw i < length nuid_alphabet"
    and "validate_target target = (Inr () :: 'x service_error + unit)"
  shows "\<exists>subj. discovery_subject (control_verb kind) target = Some subj \<and>
    (\<forall>kind'. (kind', Some subj) \<in> set (control_subjects (sc_name config) (fresh_id draw)) \<longleftrightarrow>
      kind' = kind \<and> target \<in> {All, Named (sc_name config), Instance (sc_name config) (fresh_id draw)})"
proof -
  let ?name = "sc_name config" and ?ident = "fresh_id draw"
  have name: "validate_identifier ?name = None" and ident: "validate_identifier ?ident = None"
    using assms(1) fresh_id_identifier [OF assms(2)] by (simp_all add: service_config_v_Inr)
  have own: "validate_target t = (Inr () :: 'x service_error + unit)" if "t \<in> set (own_targets ?name ?ident)" for t
    using that name ident by (auto simp: own_targets_def validate_target_def)
  have same: "srv (target_tokens (control_verb kind) target) = srv (target_tokens (control_verb kind') t) \<longleftrightarrow>
      kind' = kind \<and> target = t" if "t \<in> set (own_targets ?name ?ident)" for t kind'
  proof -
    have "srv (target_tokens (control_verb kind) target) = srv (target_tokens (control_verb kind') t) \<longleftrightarrow>
        target_tokens (control_verb kind) target = target_tokens (control_verb kind') t"
      using target_tokens_ok [OF assms(3)] target_tokens_ok [OF own [OF that]] by (intro srv_inject) auto
    then show ?thesis using verb_inject [of kind kind']
      by (cases target; cases t) (auto simp: target_tokens_def)
  qed
  have listed: "(kind', Some subj) \<in> set (control_subjects ?name ?ident) \<longleftrightarrow>
      (\<exists>t \<in> set (own_targets ?name ?ident). subj = srv (target_tokens (control_verb kind') t))" for kind' subj
    unfolding control_subjects_srv [OF name ident] own_targets_def by (cases kind') auto
  have "(kind', Some (srv (target_tokens (control_verb kind) target))) \<in> set (control_subjects ?name ?ident) \<longleftrightarrow>
      kind' = kind \<and> target \<in> set (own_targets ?name ?ident)" for kind'
    unfolding listed by (simp only: same cong: bex_cong) auto
  then show ?thesis using discovery_subject_srv [OF assms(3)] by (simp add: own_targets_def)
qed

theorem discovery_finds_targets_witness:
  "\<exists>subj. discovery_subject (control_verb Ping_control) (Named ''echo'') = Some subj \<and>
     (Ping_control, Some subj) \<in> set (control_subjects (sc_name demo_service) (fresh_id (\<lambda>_. 0)))"
proof -
  have "service_config_v demo_service = (Inr demo_service :: unit service_error + unit service_config)"
    by (simp add: service_config_v_Inr demo_service_def demo_names)
  moreover have "validate_target (Named ''echo'') = (Inr () :: unit service_error + unit)"
    by (simp add: validate_target_def demo_names)
  ultimately show ?thesis
    using discovery_finds_targets [of demo_service "\<lambda>_. 0" "Named ''echo''" Ping_control]
    by (auto simp: nuid_alphabet_def demo_service_def)
qed

end
