(* ===== verification/ServiceCollect.thy ===== *)
theory ServiceCollect
  imports ServiceClaims
begin

text \<open>
  Collecting the answers to a discovery request (lib/eio/service.ml, Discovery.collect): an inbox is
  subscribed, the request is published, answers are read up to the deadline, and the subscription
  is given up whatever happened. The connection is a record of its operations on a world \<open>'w\<close>,
  whose laws are hypotheses here (they are not derived from the models of the connection); that the
  fiber is cancelled in between is not modelled.
\<close>

record ('x, 'w) discovery_link =
  dl_now :: "'w \<Rightarrow> nat"
  dl_inbox :: "'w \<Rightarrow> string \<times> 'w"
  dl_subscribe :: "string \<Rightarrow> 'w \<Rightarrow> ('x connection_error + nat) \<times> 'w"
  dl_unsubscribe :: "nat \<Rightarrow> 'w \<Rightarrow> 'x connection_error option \<times> 'w"
  dl_publish :: "message \<Rightarrow> 'w \<Rightarrow> 'x connection_error option \<times> 'w"
  dl_next :: "nat \<Rightarrow> nat \<Rightarrow> 'w \<Rightarrow> ('x connection_error + message \<times> status option) \<times> 'w"

text \<open>The last instant that can be represented.\<close>

definition max_stamp :: nat where "max_stamp = 2 ^ 64 - 1"

definition collect_deadline :: "nat \<Rightarrow> nat \<Rightarrow> nat" where
  "collect_deadline current timeout = (case mtime_add current timeout of Some deadline \<Rightarrow> deadline | None \<Rightarrow> max_stamp)"

datatype ('x, 'a) answer = Collected "'x service_error + 'a list" | Next_answer "'a list"

text \<open>What a delivery does to the answers, newest first: a 503 tells that nobody is listening.\<close>

definition take_answer ::
  "(message \<Rightarrow> 'x service_error + 'a) \<Rightarrow> 'x connection_error + message \<times> status option \<Rightarrow> 'a list \<Rightarrow> ('x, 'a) answer" where
  "take_answer decode_response delivery responses =
     (case delivery of
        Inl Timeout \<Rightarrow> Collected (Inr (rev responses))
      | Inl error \<Rightarrow> Collected (Inl (Service_connection error))
      | Inr (m, Some st) \<Rightarrow>
          if st_code st = 503 then Next_answer responses
          else Collected (Inl (Unexpected_status (st_code st) (st_description st)))
      | Inr (m, None) \<Rightarrow>
          (case decode_response m of
             Inl error \<Rightarrow> Collected (Inl error)
           | Inr response \<Rightarrow> Next_answer (response # responses)))"

partial_function (option) collect_loop ::
  "('x, 'w) discovery_link \<Rightarrow> (message \<Rightarrow> 'x service_error + 'a) \<Rightarrow> nat \<Rightarrow> nat \<Rightarrow> 'a list \<Rightarrow> 'w \<Rightarrow>
     (('x service_error + 'a list) \<times> 'w) option" where
  "collect_loop link decode_response deadline sid responses w =
     (if dl_now link w \<ge> deadline then Some (Inr (rev responses), w)
      else
        (case dl_next link (deadline - dl_now link w) sid w of
           (delivery, w) \<Rightarrow>
             (case take_answer decode_response delivery responses of
                Collected r \<Rightarrow> Some (r, w)
              | Next_answer responses \<Rightarrow> collect_loop link decode_response deadline sid responses w)))"

definition collect_finish ::
  "('x, 'w) discovery_link \<Rightarrow> nat \<Rightarrow> 'x service_error + 'a list \<Rightarrow> 'w \<Rightarrow> ('x service_error + 'a list) \<times> 'w" where
  "collect_finish link sid result w =
     (case dl_unsubscribe link sid w of
        (None, w) \<Rightarrow> (result, w)
      | (Some error, w) \<Rightarrow>
          (case result of Inr _ \<Rightarrow> Inl (Service_connection error) | Inl _ \<Rightarrow> result, w))"

definition collect_responses ::
  "('x, 'w) discovery_link \<Rightarrow> (message \<Rightarrow> 'x service_error + 'a) \<Rightarrow> nat \<Rightarrow> string \<Rightarrow> string \<Rightarrow> nat \<Rightarrow> 'w \<Rightarrow>
     (('x service_error + 'a list) \<times> 'w) option" where
  "collect_responses link decode_response timeout subj inbox sid w =
     (case dl_publish link ((message_v subj [] [])\<lparr>m_reply_to := Some inbox\<rparr>) w of
        (Some error, w) \<Rightarrow> Some (Inl (Service_connection error), w)
      | (None, w) \<Rightarrow>
          collect_loop link decode_response (collect_deadline (dl_now link w) timeout) sid [] w)"

text \<open>\<open>None\<close>: it does not return, or a literal raises.\<close>

definition collect ::
  "('x, 'w) discovery_link \<Rightarrow> (message \<Rightarrow> 'x service_error + 'a) \<Rightarrow> nat \<Rightarrow> target \<Rightarrow> string \<Rightarrow> 'w \<Rightarrow>
     (('x service_error + 'a list) \<times> 'w) option" where
  "collect link decode_response timeout target verb w =
     (case validate_target target :: 'x service_error + unit of
        Inl error \<Rightarrow> Some (Inl error, w)
      | Inr _ \<Rightarrow>
          if timeout = 0 then Some (Inl (Service_connection (Invalid_timeout ''discovery'')), w)
          else
            (case dl_inbox link w of (inbox, w) \<Rightarrow>
             Option.bind (literal filter_of_string inbox) (\<lambda>filtr.
               case dl_subscribe link filtr w of
                 (Inl error, w) \<Rightarrow> Some (Inl (Service_connection error), w)
               | (Inr sid, w) \<Rightarrow>
                   Option.bind (discovery_subject verb target) (\<lambda>subj.
                     map_option (\<lambda>(result, w). collect_finish link sid result w)
                       (collect_responses link decode_response timeout subj inbox sid w)))))"

definition discovery_ping where
  "discovery_ping link codecs timeout target w = collect link (read_ping codecs) timeout target ''PING'' w"

definition discovery_info where
  "discovery_info link codecs timeout target w = collect link (read_info codecs) timeout target ''INFO'' w"

definition discovery_stats where
  "discovery_stats link codecs timeout target w = collect link (read_stats codecs) timeout target ''STATS'' w"

definition default_timeout :: nat where "default_timeout = 10 ^ 9"

section \<open>Collecting ends, and leaves no subscription\<close>

text \<open>What collecting asks of the connection and when: the request, and then reads with the time each is given.\<close>

datatype discovery_event = Published nat | Read nat nat

text \<open>
  What is asked of the connection: a subscription is in place from \<open>subscribe\<close> to
  \<open>unsubscribe\<close>, a valid inbox is made, and a read that takes a delivery takes time. There is
  no law on how many deliveries there are. \<open>opened\<close> are the subscriptions, \<open>log\<close> the events.
\<close>

definition discovery_laws ::
  "('x, 'w) discovery_link \<Rightarrow> ('w \<Rightarrow> nat set) \<Rightarrow> ('w \<Rightarrow> discovery_event list) \<Rightarrow> bool" where
  "discovery_laws link opened log \<longleftrightarrow>
     (\<forall>w. valid_subject True (fst (dl_inbox link w)) \<and> opened (snd (dl_inbox link w)) = opened w \<and>
        log (snd (dl_inbox link w)) = log w) \<and>
     (\<forall>s w. log (snd (dl_subscribe link s w)) = log w \<and>
        (case dl_subscribe link s w of
           (Inr sid, w') \<Rightarrow> sid \<notin> opened w \<and> opened w' = insert sid (opened w)
         | (Inl _, w') \<Rightarrow> opened w' = opened w)) \<and>
     (\<forall>sid w. opened (snd (dl_unsubscribe link sid w)) = opened w - {sid} \<and> log (snd (dl_unsubscribe link sid w)) = log w) \<and>
     (\<forall>m w. opened (snd (dl_publish link m w)) = opened w \<and>
        log (snd (dl_publish link m w)) = log w @ [Published (dl_now link (snd (dl_publish link m w)))]) \<and>
     (\<forall>t sid w. opened (snd (dl_next link t sid w)) = opened w \<and>
        log (snd (dl_next link t sid w)) = log w @ [Read (dl_now link w) t] \<and>
        (case dl_next link t sid w of (Inl _, w') \<Rightarrow> True | (Inr _, w') \<Rightarrow> dl_now link w < dl_now link w'))"

text \<open>
  Every read is made before the deadline, which is \<open>timeout\<close> after the request was published, and is
  given just the time left to it.
\<close>

definition reads_in_time :: "nat \<Rightarrow> discovery_event list \<Rightarrow> bool" where
  "reads_in_time deadline reads \<longleftrightarrow>
     (\<forall>e \<in> set reads. case e of Read now given \<Rightarrow> now < deadline \<and> given = deadline - now | Published _ \<Rightarrow> False)"

definition collected_in_time :: "nat \<Rightarrow> discovery_event list \<Rightarrow> bool" where
  "collected_in_time timeout es \<longleftrightarrow>
     (case es of [] \<Rightarrow> True | Published now # reads \<Rightarrow> reads_in_time (collect_deadline now timeout) reads | _ \<Rightarrow> False)"

lemma discovery_laws_next:
  assumes "discovery_laws link opened log" and "dl_next link t sid w = (delivery, w')"
  shows "opened w' = opened w" and "log w' = log w @ [Read (dl_now link w) t]"
    and "delivery = Inr d \<Longrightarrow> dl_now link w < dl_now link w'"
proof -
  have law: "opened (snd (dl_next link t sid w)) = opened w \<and>
      log (snd (dl_next link t sid w)) = log w @ [Read (dl_now link w) t] \<and>
      (case dl_next link t sid w of (Inl _, w') \<Rightarrow> True | (Inr _, w') \<Rightarrow> dl_now link w < dl_now link w')"
    using assms(1) by (simp only: discovery_laws_def)
  with assms(2) show "opened w' = opened w" and "log w' = log w @ [Read (dl_now link w) t]"
    and "delivery = Inr d \<Longrightarrow> dl_now link w < dl_now link w'"
    by auto
qed

lemma discovery_laws_publish:
  assumes "discovery_laws link opened log" and "dl_publish link m w = (e, w')"
  shows "opened w' = opened w" and "log w' = log w @ [Published (dl_now link w')]"
proof -
  have "opened (snd (dl_publish link m w)) = opened w \<and>
      log (snd (dl_publish link m w)) = log w @ [Published (dl_now link (snd (dl_publish link m w)))]"
    using assms(1) by (simp only: discovery_laws_def)
  with assms(2) show "opened w' = opened w" and "log w' = log w @ [Published (dl_now link w')]" by simp_all
qed

lemma discovery_laws_subscribe:
  assumes "discovery_laws link opened log" and "dl_subscribe link s w = (r, w')"
  shows "log w' = log w" and "case r of Inr sid \<Rightarrow> opened w' - {sid} = opened w | Inl _ \<Rightarrow> opened w' = opened w"
proof -
  have "log (snd (dl_subscribe link s w)) = log w \<and>
      (case dl_subscribe link s w of (Inr sid, w') \<Rightarrow> sid \<notin> opened w \<and> opened w' = insert sid (opened w)
       | (Inl _, w') \<Rightarrow> opened w' = opened w)"
    using assms(1) by (simp only: discovery_laws_def)
  with assms(2) show "log w' = log w" and "case r of Inr sid \<Rightarrow> opened w' - {sid} = opened w | Inl _ \<Rightarrow> opened w' = opened w"
    by (cases r; auto)+
qed

lemma collect_finish_keeps:
  assumes "discovery_laws link opened log" and "collect_finish link sid r w = (r', w')"
  shows "opened w' = opened w - {sid}" and "log w' = log w"
proof -
  have "opened (snd (dl_unsubscribe link sid w)) = opened w - {sid} \<and> log (snd (dl_unsubscribe link sid w)) = log w"
    using assms(1) by (simp only: discovery_laws_def)
  moreover have "snd (collect_finish link sid r w) = snd (dl_unsubscribe link sid w)"
    by (cases "dl_unsubscribe link sid w") (simp add: collect_finish_def split: option.split)
  ultimately show "opened w' = opened w - {sid}" and "log w' = log w" using assms(2) by simp_all
qed

lemma reads_in_time_Cons:
  "reads_in_time deadline (Read now given # es) \<longleftrightarrow> now < deadline \<and> given = deadline - now \<and> reads_in_time deadline es"
  by (auto simp: reads_in_time_def)

lemma collect_loop_returns:
  assumes laws: "discovery_laws link opened log"
  shows "\<exists>r w' reads. collect_loop link decode_response deadline sid responses w = Some (r, w') \<and> opened w' = opened w \<and>
    log w' = log w @ reads \<and> reads_in_time deadline reads"
proof (induction "deadline - dl_now link w" arbitrary: w responses rule: less_induct)
  case less
  show ?case
  proof (cases "dl_now link w \<ge> deadline")
    case True
    then show ?thesis by (subst collect_loop.simps) (simp add: reads_in_time_def)
  next
    case False
    obtain delivery w1 where n: "dl_next link (deadline - dl_now link w) sid w = (delivery, w1)"
      by (cases "dl_next link (deadline - dl_now link w) sid w")
    note law = discovery_laws_next [OF laws n]
    let ?read = "Read (dl_now link w) (deadline - dl_now link w)"
    show ?thesis
    proof (cases "take_answer decode_response delivery responses")
      case (Collected r)
      with False n law(1,2) show ?thesis
        by (subst collect_loop.simps) (auto simp: reads_in_time_def intro!: exI [of _ "[?read]"])
    next
      case (Next_answer more_responses)
      then obtain d where "delivery = Inr d"
        by (cases delivery) (auto simp: take_answer_def split: connection_error.splits)
      with law(3) False have "deadline - dl_now link w1 < deadline - dl_now link w" by fastforce
      from less [OF this] obtain r w' reads where
        "collect_loop link decode_response deadline sid more_responses w1 = Some (r, w')"
        "opened w' = opened w1" "log w' = log w1 @ reads" "reads_in_time deadline reads" by blast
      with False n law(1,2) Next_answer show ?thesis
        by (subst collect_loop.simps) (auto simp: reads_in_time_Cons intro!: exI [of _ "?read # reads"])
    qed
  qed
qed

lemma collect_responses_returns:
  assumes laws: "discovery_laws link opened log"
  obtains r w' es where "collect_responses link decode_response timeout subj inbox sid w = Some (r, w')"
    and "opened w' = opened w" and "log w' = log w @ es" and "collected_in_time timeout es"
proof -
  let ?m = "(message_v subj [] [])\<lparr>m_reply_to := Some inbox\<rparr>"
  obtain e w1 where p: "dl_publish link ?m w = (e, w1)" by (cases "dl_publish link ?m w")
  note law = discovery_laws_publish [OF laws p]
  show thesis
  proof (cases e)
    case (Some error)
    show thesis
      by (rule that [of _ w1 "[Published (dl_now link w1)]"])
        (use p law Some in \<open>simp_all add: collect_responses_def collected_in_time_def reads_in_time_def\<close>)
  next
    case None
    obtain r w2 reads where l: "collect_loop link decode_response (collect_deadline (dl_now link w1) timeout) sid [] w1 = Some (r, w2)"
      "opened w2 = opened w1" "log w2 = log w1 @ reads" "reads_in_time (collect_deadline (dl_now link w1) timeout) reads"
      using collect_loop_returns [OF laws] by blast
    show thesis
      by (rule that [of r w2 "Published (dl_now link w1) # reads"])
        (use p law None l in \<open>simp_all add: collect_responses_def collected_in_time_def\<close>)
  qed
qed

text \<open>
  C28: Collecting answers for a valid or invalid target always returns, even when answers never
  stop coming: the deadline ends it. Every read is made before the deadline, \<open>timeout\<close> after
  the request was published, and waits no longer than to it. When it returns, the subscriptions are
  those there were before: the inbox is given up after an answer, a timeout or an error of any kind.
\<close>
theorem discovery_returns:
  fixes link :: "('x, 'w) discovery_link"
  assumes laws: "discovery_laws link opened log" and "\<exists>kind. verb = control_verb kind"
  shows "\<exists>r w' es. collect link decode_response timeout target verb w = Some (r, w') \<and> opened w' = opened w \<and>
    log w' = log w @ es \<and> collected_in_time timeout es"
proof (cases "validate_target target :: 'x service_error + unit")
  case (Inl error)
  then show ?thesis by (simp add: collect_def collected_in_time_def)
next
  case valid: (Inr u)
  show ?thesis
  proof (cases "timeout = 0")
    case True
    then show ?thesis using valid by (simp add: collect_def collected_in_time_def)
  next
    case False
    obtain inbox w1 where i: "dl_inbox link w = (inbox, w1)" by (cases "dl_inbox link w")
    have "valid_subject True (fst (dl_inbox link w)) \<and> opened (snd (dl_inbox link w)) = opened w \<and>
        log (snd (dl_inbox link w)) = log w"
      using laws by (simp only: discovery_laws_def)
    with i have inbox: "literal filter_of_string inbox = Some inbox" and o1: "opened w1 = opened w" "log w1 = log w"
      by (simp_all add: literal_def validate_accepts)
    obtain r w2 where s: "dl_subscribe link inbox w1 = (r, w2)" by (cases "dl_subscribe link inbox w1")
    note sub = discovery_laws_subscribe [OF laws s]
    show ?thesis
    proof (cases r)
      case (Inl error)
      with valid False i inbox s sub o1 show ?thesis by (simp add: collect_def collected_in_time_def)
    next
      case (Inr sid)
      obtain subj where subj: "discovery_subject verb target = Some subj"
        using discovery_subject_srv [of target] valid assms(2) by fastforce
      obtain r' w3 es where c: "collect_responses link decode_response timeout subj inbox sid w2 = Some (r', w3)"
        "opened w3 = opened w2" "log w3 = log w2 @ es" "collected_in_time timeout es"
        using collect_responses_returns [OF laws] by blast
      obtain r4 w4 where f: "collect_finish link sid r' w3 = (r4, w4)" by (cases "collect_finish link sid r' w3")
      from collect_finish_keeps [OF laws f] sub o1 Inr c
      have "opened w4 = opened w" "log w4 = log w @ es" by simp_all
      with valid False i inbox s Inr subj c f show ?thesis by (simp add: collect_def)
    qed
  qed
qed

text \<open>
  A connection on which a service answers every 2 ns for ever: the world is the clock, the open
  subscriptions and the events.
\<close>

definition demo_discovery :: "(unit, nat \<times> nat set \<times> discovery_event list) discovery_link" where
  "demo_discovery =
     \<lparr>dl_now = fst, dl_inbox = (\<lambda>w. (''q'', w)),
      dl_subscribe = (\<lambda>_ (now, opened, log). if 1 \<in> opened then (Inl Connection_closed, now, opened, log)
        else (Inr 1, now, insert 1 opened, log)),
      dl_unsubscribe = (\<lambda>sid (now, opened, log). (None, now, opened - {sid}, log)),
      dl_publish = (\<lambda>_ (now, opened, log). (None, now, opened, log @ [Published now])),
      dl_next = (\<lambda>t _ (now, opened, log). (if t < 2 then Inl Timeout else Inr (message_v ''_INBOX.1'' [] ''info'', None),
        now + min t 2, opened, log @ [Read now t]))\<rparr>"

lemma demo_inbox: "valid_subject True ''q''"
  by (simp add: valid_subject_def token_ok_def plain_def is_forbidden_character_def)

lemma demo_discovery_laws: "discovery_laws demo_discovery (fst \<circ> snd) (snd \<circ> snd)"
  using demo_inbox
  by (auto simp: discovery_laws_def demo_discovery_def)

theorem discovery_returns_witness:
  "\<exists>r w' es. collect demo_discovery (read_info demo_codecs) 5 All ''INFO'' (7, {}, []) = Some (r, w') \<and>
     fst (snd w') = {} \<and> snd (snd w') = es \<and> collected_in_time 5 es"
proof -
  have "\<exists>kind. ''INFO'' = control_verb kind" by (rule exI [of _ Info_control]) (simp add: control_verb_def)
  from discovery_returns [OF demo_discovery_laws this, of "read_info demo_codecs" 5 All "(7, {}, [])"]
  show ?thesis by simp
qed

end
