(* ===== verification/ObjectStore.thy ===== *)
theory ObjectStore
  imports Service KeyList "HOL-Library.List_Lexorder" "HOL-Library.Char_ord"
begin

text \<open>
  Object Store (lib/eio/object_store.ml): objects are cut into chunks that are published on the
  subject of a fresh identifier, and described by a JSON message on the subject of their name. The
  server is reached through \<open>jetstream\<close>; the JSON codec, Base64, SHA-256, fresh inboxes and the
  push consumer that delivers chunks are the record \<open>object_env\<close>. A function answers \<open>None\<close> where
  the code does not return or a literal subject raises.
\<close>

section \<open>Configurations, names, links and metadata\<close>

text \<open>The errors of a bucket are those of a Key-Value bucket that can occur here.\<close>

record 'p store_config =
  oc_bucket :: string
  oc_description :: "string option"
  oc_ttl :: "nat option"
  oc_max_bytes :: "int option"
  oc_storage :: kv_storage
  oc_replicas :: int
  oc_placement :: "'p option"
  oc_compression :: kv_compression
  oc_metadata :: metadata

definition normalize_object_limit :: "int option \<Rightarrow> int option" where
  "normalize_object_limit v = (if v = Some 0 \<or> v = Some (-1) then None else v)"

definition object_config_v :: "'p store_config \<Rightarrow> bucket_error + 'p store_config" where
  "object_config_v c =
     (case validate_bucket (oc_bucket c) of
        Some error \<Rightarrow> Inl error
      | None \<Rightarrow>
          (case validate_limit ''max_bytes'' (oc_max_bytes c) of
             Some error \<Rightarrow> Inl error
           | None \<Rightarrow>
               if oc_replicas c < 1 \<or> oc_replicas c > 5 then Inl (Invalid_replicas (oc_replicas c))
               else Inr (c\<lparr>oc_ttl := normalize_span (oc_ttl c),
                   oc_max_bytes := normalize_object_limit (oc_max_bytes c)\<rparr>)))"

definition default_object_config :: "string \<Rightarrow> unit store_config" where
  "default_object_config bucket = \<lparr>oc_bucket = bucket, oc_description = None, oc_ttl = None, oc_max_bytes = None,
     oc_storage = File, oc_replicas = 1, oc_placement = None, oc_compression = Uncompressed, oc_metadata = []\<rparr>"

datatype object_name_error = Empty_object_name

definition object_name_of_string :: "string \<Rightarrow> object_name_error + string" where
  "object_name_of_string v = (if length v = 0 then Inl Empty_object_name else Inr v)"

record store_link =
  ol_bucket :: string
  ol_name :: "string option"

definition object_link_v :: "string \<Rightarrow> string option \<Rightarrow> bucket_error + store_link" where
  "object_link_v bucket name =
     (case object_config_v (default_object_config bucket) of
        Inl error \<Rightarrow> Inl error
      | Inr _ \<Rightarrow> Inr \<lparr>ol_bucket = bucket, ol_name = name\<rparr>)"

definition default_chunk_size :: int where "default_chunk_size = 128 * 1024"

record object_meta =
  om_name :: string
  om_description :: "string option"
  om_headers :: header
  om_metadata :: metadata
  om_chunk_size :: int

datatype object_meta_error = Invalid_object_chunk_size int

definition object_meta_v ::
  "string \<Rightarrow> string option \<Rightarrow> header option \<Rightarrow> metadata option \<Rightarrow> int option \<Rightarrow> object_meta_error + object_meta" where
  "object_meta_v name description headers metadata chunk_size =
     (let chunk_size = (case chunk_size of None \<Rightarrow> default_chunk_size | Some v \<Rightarrow> v) in
      if chunk_size \<le> 0 then Inl (Invalid_object_chunk_size chunk_size)
      else Inr \<lparr>om_name = name, om_description = description,
        om_headers = (case headers of None \<Rightarrow> [] | Some v \<Rightarrow> v),
        om_metadata = (case metadata of None \<Rightarrow> [] | Some v \<Rightarrow> v), om_chunk_size = chunk_size\<rparr>)"

record store_info =
  oi_bucket :: string
  oi_name :: string
  oi_description :: "string option"
  oi_headers :: header
  oi_metadata :: metadata
  oi_link :: "store_link option"
  oi_nuid :: string
  oi_size :: int
  oi_chunks :: int
  oi_chunk_size :: int
  oi_digest :: string
  oi_deleted :: bool
  oi_timestamp :: string

datatype 'x object_error =
    Object_connection "'x connection_error"
  | Object_jetstream "'x js_error"
  | Object_decode 'x
  | Object_encode 'x
  | Object_invalid_config bucket_error
  | Invalid_object_name string object_name_error
  | Invalid_object_meta object_meta_error
  | Object_invalid_headers header_error
  | Unexpected_bucket string string
  | Unexpected_object_name string string
  | Invalid_link_bucket bucket_error
  | Invalid_link_name string object_name_error
  | Invalid_object_metadata string
  | Invalid_metadata_subject string
  | Object_file string string
  | Object_not_found
  | Object_deleted store_info
  | Object_already_exists store_info
  | No_link_to_link
  | Link_to_bucket store_info
  | Link_to_deleted string string
  | Link_cycle "string list"
  | Link_depth_exceeded nat store_info
  | Object_closed
  | Size_mismatch int int
  | Chunk_count_mismatch int int
  | Digest_mismatch string string
  | Invalid_chunk_subject string
  | Cleanup_failed "store_info option" "'x js_error"

definition object_jetstream_error :: "'x js_error \<Rightarrow> 'x object_error" where
  "object_jetstream_error error =
     (case error of Connection_error error \<Rightarrow> Object_connection error | error \<Rightarrow> Object_jetstream error)"

section \<open>Maps with string keys\<close>

text \<open>\<open>Map.Make (String)\<close> by its bindings, in the order of the keys.\<close>

fun map_put :: "string \<Rightarrow> ('a option \<Rightarrow> 'a) \<Rightarrow> (string \<times> 'a) list \<Rightarrow> (string \<times> 'a) list" where
  "map_put k f [] = [(k, f None)]"
| "map_put k f ((k', v) # m) =
     (if k = k' then (k, f (Some v)) # m
      else if k < k' then (k, f None) # (k', v) # m
      else (k', v) # map_put k f m)"

section \<open>The metadata on the wire\<close>

record wire_options =
  wp_chunk_size :: "int option"
  wp_link :: "store_link option"

record wire_object =
  wo_name :: string
  wo_description :: "string option"
  wo_headers :: "(string \<times> string list) list option"
  wo_metadata :: "metadata option"
  wo_options :: "wire_options option"
  wo_bucket :: string
  wo_nuid :: string
  wo_size :: int
  wo_mtime :: "string option"
  wo_chunks :: int
  wo_digest :: "string option"
  wo_deleted :: bool

definition zero_mtime :: string where "zero_mtime = ''0001-01-01T00:00:00Z''"

definition headers_to_wire :: "header \<Rightarrow> (string \<times> string list) list option" where
  "headers_to_wire headers =
     (let vs = foldl (\<lambda>m (name, v). map_put name (\<lambda>old. case old of None \<Rightarrow> [v] | Some vs \<Rightarrow> v # vs) m) []
                 (header_to_list headers) in
      if vs = [] then None else Some (map (\<lambda>(name, vs). (name, rev vs)) vs))"

definition metadata_to_wire :: "metadata \<Rightarrow> metadata option" where
  "metadata_to_wire metadata =
     (let vs = foldl (\<lambda>m (name, v). map_put name (\<lambda>_. v) m) [] metadata in if vs = [] then None else Some vs)"

definition headers_of_wire :: "(string \<times> string list) list option \<Rightarrow> 'x object_error + header" where
  "headers_of_wire headers =
     (case header_of_list (case headers of None \<Rightarrow> []
         | Some vs \<Rightarrow> concat (map (\<lambda>(name, vs). map (\<lambda>v. (name, v)) vs) vs)) of
        Inr headers \<Rightarrow> Inr headers
      | Inl error \<Rightarrow> Inl (Object_invalid_headers error))"

definition metadata_of_wire :: "metadata option \<Rightarrow> metadata" where
  "metadata_of_wire metadata = (case metadata of None \<Rightarrow> [] | Some vs \<Rightarrow> vs)"

definition link_of_wire :: "store_link option \<Rightarrow> 'x object_error + store_link option" where
  "link_of_wire link =
     (case link of
        None \<Rightarrow> Inr None
      | Some link \<Rightarrow>
          (case object_config_v (default_object_config (ol_bucket link)) of
             Inl error \<Rightarrow> Inl (Invalid_link_bucket error)
           | Inr _ \<Rightarrow>
               (case ol_name link of
                  None \<Rightarrow> Inr (Some \<lparr>ol_bucket = ol_bucket link, ol_name = None\<rparr>)
                | Some name \<Rightarrow>
                    (case object_name_of_string name of
                       Inl reason \<Rightarrow> Inl (Invalid_link_name name reason)
                     | Inr name \<Rightarrow> Inr (Some \<lparr>ol_bucket = ol_bucket link, ol_name = Some name\<rparr>)))))"

definition positive_metadata_int :: "string \<Rightarrow> int option \<Rightarrow> 'x object_error + int" where
  "positive_metadata_int field v =
     (case v of
        None \<Rightarrow> Inr default_chunk_size
      | Some v \<Rightarrow> if v > 0 then Inr v else Inl (Invalid_object_metadata field))"

definition nonnegative_metadata_int64 :: "string \<Rightarrow> int \<Rightarrow> 'x object_error + int" where
  "nonnegative_metadata_int64 field v = (if v \<ge> 0 then Inr v else Inl (Invalid_object_metadata field))"

definition info_of_wire :: "string \<Rightarrow> string \<Rightarrow> string \<Rightarrow> wire_object \<Rightarrow> 'x object_error + store_info" where
  "info_of_wire bucket requested_name timestamp wire =
     (if wo_bucket wire \<noteq> bucket then Inl (Unexpected_bucket bucket (wo_bucket wire))
      else if wo_name wire \<noteq> requested_name then Inl (Unexpected_object_name requested_name (wo_name wire))
      else case object_name_of_string (wo_name wire) of
        Inl reason \<Rightarrow> Inl (Invalid_object_name (wo_name wire) reason)
      | Inr name \<Rightarrow>
          then_result (headers_of_wire (wo_headers wire)) (\<lambda>headers.
          then_result (nonnegative_metadata_int64 ''size'' (wo_size wire)) (\<lambda>bytes.
          then_result (nonnegative_metadata_int64 ''chunks'' (wo_chunks wire)) (\<lambda>chunks.
          then_result (if chunks = 0 \<or> wo_nuid wire \<noteq> [] then Inr () else Inl (Invalid_object_metadata ''nuid'')) (\<lambda>_.
          then_result (positive_metadata_int ''options.max_chunk_size'' (Option.bind (wo_options wire) wp_chunk_size)) (\<lambda>chunk_size.
          then_result (link_of_wire (Option.bind (wo_options wire) wp_link)) (\<lambda>link.
            Inr \<lparr>oi_bucket = bucket, oi_name = name, oi_description = wo_description wire, oi_headers = headers,
              oi_metadata = metadata_of_wire (wo_metadata wire), oi_link = link, oi_nuid = wo_nuid wire,
              oi_size = bytes, oi_chunks = chunks, oi_chunk_size = chunk_size,
              oi_digest = (case wo_digest wire of None \<Rightarrow> [] | Some v \<Rightarrow> v), oi_deleted = wo_deleted wire,
              oi_timestamp = timestamp\<rparr>)))))))"

definition wire_of_object ::
  "string \<Rightarrow> string \<Rightarrow> string option \<Rightarrow> header \<Rightarrow> metadata \<Rightarrow> wire_options option \<Rightarrow> string \<Rightarrow> int \<Rightarrow> int \<Rightarrow>
     string option \<Rightarrow> bool \<Rightarrow> wire_object" where
  "wire_of_object bucket name description headers metadata options nuid bytes chunks digest deleted =
     \<lparr>wo_name = name, wo_description = description, wo_headers = headers_to_wire headers,
      wo_metadata = metadata_to_wire metadata, wo_options = options, wo_bucket = bucket, wo_nuid = nuid,
      wo_size = bytes, wo_mtime = Some zero_mtime, wo_chunks = chunks, wo_digest = digest, wo_deleted = deleted\<rparr>"

definition options_of_info :: "store_info \<Rightarrow> wire_options option" where
  "options_of_info info =
     Some \<lparr>wp_chunk_size = (case oi_link info of None \<Rightarrow> Some (oi_chunk_size info) | Some _ \<Rightarrow> None),
       wp_link = oi_link info\<rparr>"

section \<open>Subjects and the environment\<close>

text \<open>Creating a push consumer covers making its configuration, whose errors are no timeouts.\<close>

record ('x, 'c, 'w) object_env =
  ov_js :: "('x, 'w) jetstream"
  ov_base64 :: "string \<Rightarrow> string"
  ov_sha256 :: "string \<Rightarrow> string"
  ov_encode :: "wire_object \<Rightarrow> 'x + string"
  ov_decode :: "string \<Rightarrow> 'x + wire_object"
  ov_inbox :: "'w \<Rightarrow> string \<times> 'w"
  ov_push_create :: "nat option \<Rightarrow> string \<Rightarrow> string \<Rightarrow> 'w \<Rightarrow> ('x js_error + 'c) \<times> 'w"
  ov_push_next :: "nat option \<Rightarrow> 'c \<Rightarrow> 'w \<Rightarrow> ('x js_error + js_msg) \<times> 'w"
  ov_push_release :: "'c \<Rightarrow> 'w \<Rightarrow> 'w"

record object_bucket =
  ob_stream :: string
  ob_bucket :: string

definition object_stream_name :: "string \<Rightarrow> string" where
  "object_stream_name bucket = ''OBJ_'' @ bucket"

definition chunk_subject :: "string \<Rightarrow> string \<Rightarrow> string" where
  "chunk_subject bucket nuid = ''$O.'' @ bucket @ ''.C.'' @ nuid"

definition metadata_subject :: "('x, 'c, 'w) object_env \<Rightarrow> string \<Rightarrow> string \<Rightarrow> string" where
  "metadata_subject e bucket name = ''$O.'' @ bucket @ ''.M.'' @ ov_base64 e name"

definition object_bind :: "string \<Rightarrow> 'x object_error + object_bucket" where
  "object_bind bucket =
     (case object_config_v (default_object_config bucket) of
        Inl error \<Rightarrow> Inl (Object_invalid_config error)
      | Inr _ \<Rightarrow>
          (case stream_bind (object_stream_name bucket) of
             Inl error \<Rightarrow> Inl (object_jetstream_error error)
           | Inr stream \<Rightarrow> Inr \<lparr>ob_stream = stream, ob_bucket = bucket\<rparr>))"

definition digest_string :: "('x, 'c, 'w) object_env \<Rightarrow> string \<Rightarrow> string" where
  "digest_string e content = ''SHA-256='' @ ov_base64 e (ov_sha256 e content)"

definition object_now :: "('x, 'c, 'w) object_env \<Rightarrow> 'w \<Rightarrow> nat" where
  "object_now e w = link_now (js_link (ov_js e)) w"

definition timeout_deadline :: "('x, 'c, 'w) object_env \<Rightarrow> nat option \<Rightarrow> 'w \<Rightarrow> nat option" where
  "timeout_deadline e timeout w =
     (case timeout of
        None \<Rightarrow> None
      | Some timeout \<Rightarrow>
          (case mtime_add (object_now e w) timeout of Some deadline \<Rightarrow> Some deadline | None \<Rightarrow> Some (2 ^ 64 - 1)))"

definition object_remaining :: "('x, 'c, 'w) object_env \<Rightarrow> nat option \<Rightarrow> 'w \<Rightarrow> 'x object_error + nat option" where
  "object_remaining e deadline w =
     (case deadline of
        None \<Rightarrow> Inr None
      | Some deadline \<Rightarrow>
          if object_now e w \<ge> deadline then Inl (Object_connection Timeout)
          else Inr (Some (deadline - object_now e w)))"

section \<open>Steps that may fail\<close>

type_synonym ('x, 'a, 'w) effect = "'w \<Rightarrow> (('x object_error + 'a) \<times> 'w) option"

definition returns :: "'a \<Rightarrow> ('x, 'a, 'w) effect" where "returns a w = Some (Inr a, w)"
definition fails :: "'x object_error \<Rightarrow> ('x, 'a, 'w) effect" where "fails error w = Some (Inl error, w)"

definition pure_result :: "'x object_error + 'a \<Rightarrow> ('x, 'a, 'w) effect" where "pure_result r w = Some (r, w)"

definition then_do :: "('x, 'a, 'w) effect \<Rightarrow> ('a \<Rightarrow> ('x, 'b, 'w) effect) \<Rightarrow> ('x, 'b, 'w) effect" where
  "then_do f g w =
     (case f w of
        None \<Rightarrow> None
      | Some (Inl error, w) \<Rightarrow> Some (Inl error, w)
      | Some (Inr a, w) \<Rightarrow> g a w)"

text \<open>What is left of the time, for the next request.\<close>

definition within :: "('x, 'c, 'w) object_env \<Rightarrow> nat option \<Rightarrow> (nat option \<Rightarrow> ('x, 'a, 'w) effect) \<Rightarrow> ('x, 'a, 'w) effect" where
  "within e deadline f w =
     (case object_remaining e deadline w of Inl error \<Rightarrow> Some (Inl error, w) | Inr timeout \<Rightarrow> f timeout w)"

definition with_literal :: "(string \<Rightarrow> subject_error + string) \<Rightarrow> string \<Rightarrow> (string \<Rightarrow> ('x, 'a, 'w) effect) \<Rightarrow> ('x, 'a, 'w) effect" where
  "with_literal of_string s f w = (case literal of_string s of None \<Rightarrow> None | Some s \<Rightarrow> f s w)"

definition object_publish ::
  "('x, 'c, 'w) object_env \<Rightarrow> nat option \<Rightarrow> header \<Rightarrow> string \<Rightarrow> string \<Rightarrow> ('x, unit, 'w) effect" where
  "object_publish e timeout headers subj payload =
     with_literal subject_of_string subj (\<lambda>subj w.
       map_option (\<lambda>(r, w). (case r of Inl error \<Rightarrow> Inl (object_jetstream_error error) | Inr _ \<Rightarrow> Inr (), w))
         (js_publish (ov_js e) timeout headers None None subj payload w))"

text \<open>The purge keeps its JetStream error.\<close>

definition purge_chunks ::
  "('x, 'c, 'w) object_env \<Rightarrow> nat option \<Rightarrow> object_bucket \<Rightarrow> string \<Rightarrow> 'w \<Rightarrow> ('x js_error option \<times> 'w) option" where
  "purge_chunks e timeout b subj w =
     (case literal filter_of_string subj of
        None \<Rightarrow> None
      | Some filtr \<Rightarrow>
          (case stream_purge (ov_js e) timeout (Some filtr) None (ob_stream b) w of
             (Inl error, w) \<Rightarrow> Some (Some error, w)
           | (Inr _, w) \<Rightarrow> Some (None, w)))"

section \<open>Reading metadata\<close>

definition decode_object ::
  "('x, 'c, 'w) object_env \<Rightarrow> object_bucket \<Rightarrow> string \<Rightarrow> stored \<Rightarrow> 'x object_error + store_info" where
  "decode_object e b requested_name m =
     (case ov_decode e (sm_payload m) of
        Inl error \<Rightarrow> Inl (Object_decode error)
      | Inr wire \<Rightarrow> info_of_wire (ob_bucket b) requested_name (sm_timestamp m) wire)"

definition read_info_raw ::
  "('x, 'c, 'w) object_env \<Rightarrow> object_bucket \<Rightarrow> string \<Rightarrow> nat option \<Rightarrow> ('x, store_info, 'w) effect" where
  "read_info_raw e b name timeout =
     with_literal subject_of_string (metadata_subject e (ob_bucket b) name) (\<lambda>subj w.
       case stream_get_last (ov_js e) timeout (ob_stream b) subj w of
         (Inl Message_not_found, w) \<Rightarrow> Some (Inl Object_not_found, w)
       | (Inl error, w) \<Rightarrow> Some (Inl (object_jetstream_error error), w)
       | (Inr m, w) \<Rightarrow> Some (decode_object e b name m, w))"

definition object_info_of ::
  "('x, 'c, 'w) object_env \<Rightarrow> nat option \<Rightarrow> bool \<Rightarrow> object_bucket \<Rightarrow> string \<Rightarrow> ('x, store_info, 'w) effect" where
  "object_info_of e timeout include_deleted b name =
     then_do (read_info_raw e b name timeout) (\<lambda>info.
       if oi_deleted info \<and> \<not> include_deleted then fails Object_not_found else returns info)"

definition new_nuid :: "('x, 'c, 'w) object_env \<Rightarrow> 'w \<Rightarrow> string \<times> 'w" where
  "new_nuid e w = (case ov_inbox e w of (inbox, w) \<Rightarrow> (ov_base64 e inbox, w))"

section \<open>Uploading\<close>

text \<open>A reader of byte slices; the empty slice is the end.\<close>

record 'r byte_reader =
  br_read :: "'r \<Rightarrow> string \<times> 'r"
  br_push_back :: "'r \<Rightarrow> string \<Rightarrow> 'r"

function fill_chunk :: "'r byte_reader \<Rightarrow> nat \<Rightarrow> string \<Rightarrow> 'r \<Rightarrow> string \<times> 'r" where
  "fill_chunk rd missing written r =
     (if missing = 0 then (written, r)
      else case br_read rd r of
        ([], r) \<Rightarrow> (written, r)
      | (c # cs, r) \<Rightarrow>
          (let slice = c # cs; n = min (length slice) missing in
           if n < length slice then (written @ take n slice, br_push_back rd r (drop n slice))
           else fill_chunk rd (missing - n) (written @ slice) r))"
  by pat_completeness auto

termination
  by (relation "measure (\<lambda>(_, missing, _, _). missing)") auto

declare fill_chunk.simps [simp del]

definition next_chunk :: "'r byte_reader \<Rightarrow> nat \<Rightarrow> 'r \<Rightarrow> string option \<times> 'r" where
  "next_chunk rd chunk_size r =
     (case fill_chunk rd chunk_size [] r of (written, r) \<Rightarrow> (if written = [] then None else Some written, r))"

record upload =
  up_size :: int
  up_chunks :: int
  up_digest :: string
  up_nuid :: string

text \<open>\<open>fed\<close> is what the digest was fed so far.\<close>

partial_function (option) upload_loop ::
  "('x, 'c, 'w) object_env \<Rightarrow> nat option \<Rightarrow> object_bucket \<Rightarrow> string \<Rightarrow> nat \<Rightarrow> 'r byte_reader \<Rightarrow> string \<Rightarrow> int \<Rightarrow> int \<Rightarrow>
     'r \<Rightarrow> 'w \<Rightarrow> (('x object_error + upload) \<times> 'w) option" where
  "upload_loop e deadline b nuid chunk_size rd fed bytes chunks r w =
     (case next_chunk rd chunk_size r of
        (None, r) \<Rightarrow>
          Some (Inr \<lparr>up_size = bytes, up_chunks = chunks, up_digest = digest_string e fed, up_nuid = nuid\<rparr>, w)
      | (Some chunk, r) \<Rightarrow>
          (case within e deadline (\<lambda>timeout. object_publish e timeout [] (chunk_subject (ob_bucket b) nuid) chunk) w of
             None \<Rightarrow> None
           | Some (Inl error, w) \<Rightarrow> Some (Inl error, w)
           | Some (Inr _, w) \<Rightarrow>
               upload_loop e deadline b nuid chunk_size rd (fed @ chunk) (wrap64 (bytes + int (length chunk)))
                 (wrap64 (chunks + 1)) r w))"

definition upload_chunks ::
  "('x, 'c, 'w) object_env \<Rightarrow> nat option \<Rightarrow> object_bucket \<Rightarrow> string \<Rightarrow> nat \<Rightarrow> 'r byte_reader \<Rightarrow> 'r \<Rightarrow> ('x, upload, 'w) effect" where
  "upload_chunks e deadline b nuid chunk_size rd r = upload_loop e deadline b nuid chunk_size rd [] 0 0 r"

definition metadata_headers :: header where
  "metadata_headers = (case header_of_list [(''Nats-Rollup'', ''sub'')] of Inr headers \<Rightarrow> headers | Inl _ \<Rightarrow> [])"

definition encode_wire :: "('x, 'c, 'w) object_env \<Rightarrow> wire_object \<Rightarrow> 'x object_error + string" where
  "encode_wire e wire = (case ov_encode e wire of Inr payload \<Rightarrow> Inr payload | Inl error \<Rightarrow> Inl (Object_encode error))"

definition publish_metadata ::
  "('x, 'c, 'w) object_env \<Rightarrow> nat option \<Rightarrow> object_bucket \<Rightarrow> string \<Rightarrow> wire_object \<Rightarrow> ('x, unit, 'w) effect" where
  "publish_metadata e deadline b name wire =
     then_do (pure_result (encode_wire e wire)) (\<lambda>payload.
     within e deadline (\<lambda>timeout.
       object_publish e timeout metadata_headers (metadata_subject e (ob_bucket b) name) payload))"

end
