(* ===== verification/ObjectContent.thy ===== *)
theory ObjectContent
  imports ObjectStore KeyWatch
begin

text \<open>
  The operations of a bucket of objects (lib/eio/object_store.ml): storing content, reading it back
  with its size, chunks and digest checked, following links, new metadata, links, deletion, watching
  and listing.
\<close>

section \<open>Storing an object\<close>

text \<open>Until the metadata is published the object does not exist.\<close>

definition wire_of_upload :: "object_bucket \<Rightarrow> object_meta \<Rightarrow> upload \<Rightarrow> wire_object" where
  "wire_of_upload b meta upload =
     wire_of_object (ob_bucket b) (om_name meta) (om_description meta) (om_headers meta) (om_metadata meta)
       (Some \<lparr>wp_chunk_size = Some (om_chunk_size meta), wp_link = None\<rparr>)
       (up_nuid upload) (up_size upload) (up_chunks upload) (Some (up_digest upload)) False"

definition store_object ::
  "('x, 'c, 'w) object_env \<Rightarrow> nat option \<Rightarrow> object_bucket \<Rightarrow> object_meta \<Rightarrow> string \<Rightarrow> 'r byte_reader \<Rightarrow> 'r \<Rightarrow>
     ('x, unit, 'w) effect" where
  "store_object e deadline b meta nuid rd r =
     then_do (upload_chunks e deadline b nuid (nat (om_chunk_size meta)) rd r) (\<lambda>upload.
       publish_metadata e deadline b (om_name meta) (wire_of_upload b meta upload))"

text \<open>The chunks of an older object, whose identifier is not empty, are purged.\<close>

definition purge_old ::
  "('x, 'c, 'w) object_env \<Rightarrow> nat option \<Rightarrow> object_bucket \<Rightarrow> string \<Rightarrow> 'w \<Rightarrow> ('x js_error option \<times> 'w) option" where
  "purge_old e deadline b subj w =
     (case object_remaining e deadline w of
        Inl _ \<Rightarrow> Some (Some (Connection_error Timeout), w)
      | Inr timeout \<Rightarrow> purge_chunks e timeout b subj w)"

definition purge_replaced ::
  "('x, 'c, 'w) object_env \<Rightarrow> nat option \<Rightarrow> object_bucket \<Rightarrow> store_info option \<Rightarrow> 'w \<Rightarrow>
     ('x js_error option \<times> 'w) option" where
  "purge_replaced e deadline b old w =
     (case old of
        None \<Rightarrow> Some (None, w)
      | Some old_info \<Rightarrow>
          if oi_nuid old_info = [] then Some (None, w)
          else purge_old e deadline b (chunk_subject (ob_bucket b) (oi_nuid old_info)) w)"

definition after_cleanup ::
  "'x object_error + store_info \<Rightarrow> 'x js_error option \<Rightarrow> 'x object_error + store_info" where
  "after_cleanup r cleanup =
     (case r of
        Inl error \<Rightarrow> Inl error
      | Inr info \<Rightarrow> (case cleanup of Some error \<Rightarrow> Inl (Cleanup_failed (Some info) error) | None \<Rightarrow> Inr info))"

definition finish_put ::
  "('x, 'c, 'w) object_env \<Rightarrow> nat option \<Rightarrow> object_bucket \<Rightarrow> string \<Rightarrow> store_info option \<Rightarrow> ('x, store_info, 'w) effect" where
  "finish_put e deadline b name old w =
     (case within e deadline (read_info_raw e b name) w of
        None \<Rightarrow> None
      | Some (r, w) \<Rightarrow> map_option (\<lambda>(cleanup, w). (after_cleanup r cleanup, w)) (purge_replaced e deadline b old w))"

definition put_new ::
  "('x, 'c, 'w) object_env \<Rightarrow> nat option \<Rightarrow> object_bucket \<Rightarrow> object_meta \<Rightarrow> 'r byte_reader \<Rightarrow> 'r \<Rightarrow>
     store_info option \<Rightarrow> ('x, store_info, 'w) effect" where
  "put_new e deadline b meta rd r old w =
     (case new_nuid e w of (nuid, w) \<Rightarrow>
       (case store_object e deadline b meta nuid rd r w of
          None \<Rightarrow> None
        | Some (Inl error, w) \<Rightarrow>
            map_option (\<lambda>(_, w). (Inl error, w)) (purge_chunks e None b (chunk_subject (ob_bucket b) nuid) w)
        | Some (Inr _, w) \<Rightarrow> finish_put e deadline b (om_name meta) old w))"

definition put ::
  "('x, 'c, 'w) object_env \<Rightarrow> nat option \<Rightarrow> object_bucket \<Rightarrow> object_meta \<Rightarrow> 'r byte_reader \<Rightarrow> 'r \<Rightarrow>
     ('x, store_info, 'w) effect" where
  "put e timeout b meta rd r w =
     (let deadline = timeout_deadline e timeout w in
      case within e deadline (read_info_raw e b (om_name meta)) w of
        None \<Rightarrow> None
      | Some (Inr info, w) \<Rightarrow> put_new e deadline b meta rd r (Some info) w
      | Some (Inl Object_not_found, w) \<Rightarrow> put_new e deadline b meta rd r None w
      | Some (Inl error, w) \<Rightarrow> Some (Inl error, w))"

text \<open>The reader of a string gives it as one slice.\<close>

definition content_reader :: "string byte_reader" where
  "content_reader = \<lparr>br_read = \<lambda>s. (s, []), br_push_back = \<lambda>s slice. slice @ s\<rparr>"

definition put_string ::
  "('x, 'c, 'w) object_env \<Rightarrow> nat option \<Rightarrow> object_bucket \<Rightarrow> object_meta \<Rightarrow> string \<Rightarrow> ('x, store_info, 'w) effect" where
  "put_string e timeout b meta payload = put e timeout b meta content_reader payload"

text \<open>
  The reader of a flow reads into a buffer of 64 KiB; the end of the file, raised or read as nothing,
  is the end. \<open>fst\<close> of its state is what was pushed back, at most one slice at a time.
\<close>

definition reader_of_flow :: "(nat \<Rightarrow> 'f \<Rightarrow> string option \<times> 'f) \<Rightarrow> (string \<times> 'f) byte_reader" where
  "reader_of_flow single_read =
     \<lparr>br_read = \<lambda>(pushed, f).
        if pushed \<noteq> [] then (pushed, ([], f))
        else (case single_read (64 * 1024) f of (None, f) \<Rightarrow> ([], ([], f)) | (Some bytes, f) \<Rightarrow> (bytes, ([], f))),
      br_push_back = \<lambda>(pushed, f) s. (s @ pushed, f)\<rparr>"

section \<open>Reading content\<close>

record transfer =
  tr_written :: string
  tr_size :: int
  tr_chunks :: int

definition no_transfer :: transfer where
  "no_transfer = \<lparr>tr_written = [], tr_size = 0, tr_chunks = 0\<rparr>"

definition verify :: "('x, 'c, 'w) object_env \<Rightarrow> store_info \<Rightarrow> transfer \<Rightarrow> 'x object_error option" where
  "verify e info t =
     (let actual_digest = digest_string e (tr_written t) in
      if tr_size t \<noteq> oi_size info then Some (Size_mismatch (oi_size info) (tr_size t))
      else if tr_chunks t \<noteq> oi_chunks info then Some (Chunk_count_mismatch (oi_chunks info) (tr_chunks t))
      else if actual_digest \<noteq> oi_digest info then Some (Digest_mismatch (oi_digest info) actual_digest)
      else None)"

definition retry_timeout :: nat where "retry_timeout = 5 * 10 ^ 9"

definition at_most_retry :: "nat option \<Rightarrow> nat option" where
  "at_most_retry timeout = map_option (\<lambda>t. if t > retry_timeout then retry_timeout else t) timeout"

definition is_timeout :: "'x object_error \<Rightarrow> bool" where
  "is_timeout error = (case error of Object_connection Timeout \<Rightarrow> True | _ \<Rightarrow> False)"

definition next_chunk_message ::
  "('x, 'c, 'w) object_env \<Rightarrow> nat option \<Rightarrow> 'c \<Rightarrow> 'w \<Rightarrow> ('x object_error + js_msg) \<times> 'w" where
  "next_chunk_message e deadline c w =
     (case object_remaining e deadline w of
        Inl error \<Rightarrow> (Inl error, w)
      | Inr timeout \<Rightarrow>
          (case ov_push_next e (at_most_retry timeout) c w of
             (Inl error, w) \<Rightarrow> (Inl (object_jetstream_error error), w)
           | (Inr m, w) \<Rightarrow> (Inr m, w)))"

text \<open>One message: where it came from, what it adds, and whether it should not have been the last.\<close>

definition take_chunk :: "object_bucket \<Rightarrow> store_info \<Rightarrow> js_msg \<Rightarrow> transfer \<Rightarrow> 'x object_error option \<times> transfer" where
  "take_chunk b info m t =
     (if jm_subject m \<noteq> chunk_subject (ob_bucket b) (oi_nuid info) then (Some (Invalid_chunk_subject (jm_subject m)), t)
      else
        let t = \<lparr>tr_written = tr_written t @ jm_payload m, tr_size = add64 (tr_size t) (int (length (jm_payload m))),
                 tr_chunks = add64 (tr_chunks t) 1\<rparr>
        in (if jm_num_pending m = 0 \<and> tr_chunks t < oi_chunks info
            then Some (Chunk_count_mismatch (oi_chunks info) (tr_chunks t)) else None, t))"

partial_function (option) read_chunks ::
  "('x, 'c, 'w) object_env \<Rightarrow> nat option \<Rightarrow> object_bucket \<Rightarrow> store_info \<Rightarrow> 'c \<Rightarrow> transfer \<Rightarrow> 'w \<Rightarrow>
     ('x object_error option \<times> transfer \<times> 'w) option" where
  "read_chunks e deadline b info c t w =
     (if tr_chunks t \<ge> oi_chunks info then Some (None, t, w)
      else case next_chunk_message e deadline c w of
        (Inl error, w) \<Rightarrow> Some (Some error, t, w)
      | (Inr m, w) \<Rightarrow>
          (case take_chunk b info m t of
             (Some error, t) \<Rightarrow> Some (Some error, t, w)
           | (None, t) \<Rightarrow> read_chunks e deadline b info c t w))"

text \<open>An attempt that timed out before its first chunk is made again.\<close>

partial_function (option) read_attempt ::
  "('x, 'c, 'w) object_env \<Rightarrow> nat option \<Rightarrow> object_bucket \<Rightarrow> store_info \<Rightarrow> string \<Rightarrow> transfer \<Rightarrow> 'w \<Rightarrow>
     ('x object_error option \<times> transfer \<times> 'w) option" where
  "read_attempt e deadline b info filtr t w =
     (case object_remaining e deadline w of
        Inl error \<Rightarrow> Some (Some error, t, w)
      | Inr timeout \<Rightarrow>
          (case ov_inbox e w of (deliver_subject, w) \<Rightarrow>
            (case ov_push_create e (at_most_retry timeout) deliver_subject filtr w of
               (Inl error, w) \<Rightarrow>
                 if is_timeout (object_jetstream_error error) \<and> tr_chunks t = 0
                 then read_attempt e deadline b info filtr t w
                 else Some (Some (object_jetstream_error error), t, w)
             | (Inr c, w) \<Rightarrow>
                 (case read_chunks e deadline b info c t w of
                    None \<Rightarrow> None
                  | Some (None, t, w) \<Rightarrow> Some (None, t, ov_push_release e c w)
                  | Some (Some error, t, w) \<Rightarrow>
                      if is_timeout error \<and> tr_chunks t = 0
                      then read_attempt e deadline b info filtr t (ov_push_release e c w)
                      else Some (Some error, t, ov_push_release e c w)))))"

text \<open>What was written stays written, whatever the answer; \<open>tr_written\<close> is given back with it.\<close>

definition get_content ::
  "('x, 'c, 'w) object_env \<Rightarrow> nat option \<Rightarrow> object_bucket \<Rightarrow> store_info \<Rightarrow> 'w \<Rightarrow>
     (('x object_error + store_info) \<times> string \<times> 'w) option" where
  "get_content e deadline b info w =
     (if oi_chunks info = 0 then
        (case verify e info no_transfer of
           Some error \<Rightarrow> Some (Inl error, [], w)
         | None \<Rightarrow> Some (Inr info, [], w))
      else case literal filter_of_string (chunk_subject (ob_bucket b) (oi_nuid info)) of
        None \<Rightarrow> None
      | Some filtr \<Rightarrow>
          (case read_attempt e deadline b info filtr no_transfer w of
             None \<Rightarrow> None
           | Some (Some error, t, w) \<Rightarrow> Some (Inl error, tr_written t, w)
           | Some (None, t, w) \<Rightarrow>
               (case verify e info t of
                  Some error \<Rightarrow> Some (Inl error, tr_written t, w)
                | None \<Rightarrow> Some (Inr info, tr_written t, w))))"

section \<open>Following links\<close>

definition identity_of :: "string \<Rightarrow> string \<Rightarrow> string" where
  "identity_of bucket name = bucket @ ''/'' @ name"

definition read_target ::
  "('x, 'c, 'w) object_env \<Rightarrow> nat option \<Rightarrow> store_link \<Rightarrow> string \<Rightarrow> ('x, object_bucket \<times> store_info, 'w) effect" where
  "read_target e deadline link name =
     then_do (pure_result (object_bind (ol_bucket link))) (\<lambda>target.
     then_do (within e deadline (read_info_raw e target name)) (\<lambda>target_info.
       if oi_deleted target_info then fails (Link_to_deleted (ol_bucket link) name)
       else returns (target, target_info)))"

function link_loop ::
  "('x, 'c, 'w) object_env \<Rightarrow> nat \<Rightarrow> nat option \<Rightarrow> nat \<Rightarrow> string list \<Rightarrow> object_bucket \<Rightarrow> store_info \<Rightarrow>
     ('x, object_bucket \<times> store_info, 'w) effect" where
  "link_loop e max_links deadline depth path b info w =
     (case oi_link info of
        None \<Rightarrow> Some (Inr (b, info), w)
      | Some link \<Rightarrow>
          (case ol_name link of
             None \<Rightarrow> Some (Inl (Link_to_bucket info), w)
           | Some name \<Rightarrow>
               if depth \<ge> max_links then Some (Inl (Link_depth_exceeded max_links info), w)
               else if identity_of (ol_bucket link) name \<in> set path
               then Some (Inl (Link_cycle (rev (identity_of (ol_bucket link) name # path))), w)
               else (case read_target e deadline link name w of
                   None \<Rightarrow> None
                 | Some (Inl error, w) \<Rightarrow> Some (Inl error, w)
                 | Some (Inr (target, target_info), w) \<Rightarrow>
                     link_loop e max_links deadline (depth + 1) (identity_of (ol_bucket link) name # path)
                       target target_info w)))"
  by pat_completeness auto

termination
  by (relation "measure (\<lambda>(_, max_links, _, depth, _). max_links - depth)") auto

declare link_loop.simps [simp del]

definition resolve_link ::
  "('x, 'c, 'w) object_env \<Rightarrow> nat \<Rightarrow> object_bucket \<Rightarrow> store_info \<Rightarrow> nat option \<Rightarrow> ('x, object_bucket \<times> store_info, 'w) effect" where
  "resolve_link e max_links b info deadline =
     link_loop e max_links deadline 0 [identity_of (oi_bucket info) (oi_name info)] b info"

section \<open>Reading an object\<close>

definition read_live ::
  "('x, 'c, 'w) object_env \<Rightarrow> nat option \<Rightarrow> bool \<Rightarrow> nat \<Rightarrow> object_bucket \<Rightarrow> string \<Rightarrow>
     ('x, object_bucket \<times> store_info, 'w) effect" where
  "read_live e deadline include_deleted max_links b name =
     then_do (within e deadline (read_info_raw e b name)) (\<lambda>info.
       if oi_deleted info then fails (if include_deleted then Object_deleted info else Object_not_found)
       else resolve_link e max_links b info deadline)"

definition get_object ::
  "('x, 'c, 'w) object_env \<Rightarrow> nat option \<Rightarrow> bool \<Rightarrow> int \<Rightarrow> object_bucket \<Rightarrow> string \<Rightarrow> 'w \<Rightarrow>
     (('x object_error + store_info) \<times> string \<times> 'w) option" where
  "get_object e timeout include_deleted max_links b name w =
     (if max_links < 0 then Some (Inl (Invalid_object_metadata ''max_links''), [], w)
      else let deadline = timeout_deadline e timeout w in
        case read_live e deadline include_deleted (nat max_links) b name w of
          None \<Rightarrow> None
        | Some (Inl error, w) \<Rightarrow> Some (Inl error, [], w)
        | Some (Inr (resolved, info), w) \<Rightarrow> get_content e deadline resolved info w)"

definition get_string ::
  "('x, 'c, 'w) object_env \<Rightarrow> nat option \<Rightarrow> bool \<Rightarrow> int \<Rightarrow> object_bucket \<Rightarrow> string \<Rightarrow> ('x, string, 'w) effect" where
  "get_string e timeout include_deleted max_links b name w =
     (case get_object e timeout include_deleted max_links b name w of
        None \<Rightarrow> None
      | Some (Inl error, _, w) \<Rightarrow> Some (Inl error, w)
      | Some (Inr _, written, w) \<Rightarrow> Some (Inr written, w))"

end
