(* ===== verification/ObjectManage.thy ===== *)
theory ObjectManage
  imports ObjectContent
begin

text \<open>
  The metadata of objects (lib/eio/object_store.ml: update, put_link, delete, info_of_delivery,
  Watch, list, put_file's configuration, manager_bucket_name). The consumer below a watch is a
  parameter.
\<close>

section \<open>New metadata\<close>

definition check_rename ::
  "('x, 'c, 'w) object_env \<Rightarrow> nat option \<Rightarrow> object_bucket \<Rightarrow> string \<Rightarrow> bool \<Rightarrow> ('x, unit, 'w) effect" where
  "check_rename e deadline b new_name same_name w =
     (if same_name then Some (Inr (), w)
      else case within e deadline (read_info_raw e b new_name) w of
        None \<Rightarrow> None
      | Some (Inr info, w) \<Rightarrow>
          if \<not> oi_deleted info then Some (Inl (Object_already_exists info), w) else Some (Inr (), w)
      | Some (Inl Object_not_found, w) \<Rightarrow> Some (Inr (), w)
      | Some (Inl error, w) \<Rightarrow> Some (Inl error, w))"

definition wire_of_update :: "object_bucket \<Rightarrow> object_meta \<Rightarrow> store_info \<Rightarrow> wire_object" where
  "wire_of_update b meta old =
     wire_of_object (ob_bucket b) (om_name meta) (om_description meta) (om_headers meta) (om_metadata meta)
       (options_of_info old) (oi_nuid old) (oi_size old) (oi_chunks old)
       (case oi_link old of Some _ \<Rightarrow> None | None \<Rightarrow> Some (oi_digest old)) False"

text \<open>The metadata message of the old name goes once the new one is stored.\<close>

definition drop_old_name ::
  "('x, 'c, 'w) object_env \<Rightarrow> nat option \<Rightarrow> object_bucket \<Rightarrow> string \<Rightarrow> bool \<Rightarrow> store_info \<Rightarrow> ('x, store_info, 'w) effect" where
  "drop_old_name e deadline b old_name same_name info w =
     (if same_name then Some (Inr info, w)
      else map_option (\<lambda>(cleanup, w). (after_cleanup (Inr info) cleanup, w))
        (purge_old e deadline b (metadata_subject e (ob_bucket b) old_name) w))"

definition update_object ::
  "('x, 'c, 'w) object_env \<Rightarrow> nat option \<Rightarrow> string option \<Rightarrow> object_bucket \<Rightarrow> object_meta \<Rightarrow> ('x, store_info, 'w) effect" where
  "update_object e timeout name b meta w =
     (let deadline = timeout_deadline e timeout w;
          old_name = (case name of None \<Rightarrow> om_name meta | Some name \<Rightarrow> name);
          new_name = om_name meta;
          same_name = (old_name = new_name)
      in then_do (within e deadline (read_info_raw e b old_name)) (\<lambda>old.
         if oi_deleted old then fails (Object_deleted old)
         else then_do (check_rename e deadline b new_name same_name) (\<lambda>_.
           then_do (publish_metadata e deadline b new_name (wire_of_update b meta old)) (\<lambda>_.
           then_do (within e deadline (read_info_raw e b new_name))
             (drop_old_name e deadline b old_name same_name)))) w)"

section \<open>Links\<close>

definition check_link_target ::
  "('x, 'c, 'w) object_env \<Rightarrow> nat option \<Rightarrow> store_link \<Rightarrow> ('x, unit, 'w) effect" where
  "check_link_target e deadline link =
     (case ol_name link of
        None \<Rightarrow> returns ()
      | Some name \<Rightarrow>
          then_do (pure_result (object_bind (ol_bucket link))) (\<lambda>target.
          then_do (within e deadline (read_info_raw e target name)) (\<lambda>info.
            if oi_deleted info then fails (Link_to_deleted (ol_bucket link) name)
            else if oi_link info \<noteq> None then fails No_link_to_link
            else returns ())))"

definition check_no_content ::
  "('x, 'c, 'w) object_env \<Rightarrow> nat option \<Rightarrow> object_bucket \<Rightarrow> string \<Rightarrow> ('x, unit, 'w) effect" where
  "check_no_content e deadline b name w =
     (case within e deadline (read_info_raw e b name) w of
        None \<Rightarrow> None
      | Some (Inl Object_not_found, w) \<Rightarrow> Some (Inr (), w)
      | Some (Inl error, w) \<Rightarrow> Some (Inl error, w)
      | Some (Inr old, w) \<Rightarrow>
          if oi_link old = None then Some (Inl (Object_already_exists old), w) else Some (Inr (), w))"

definition wire_of_link :: "object_bucket \<Rightarrow> object_meta \<Rightarrow> store_link \<Rightarrow> string \<Rightarrow> wire_object" where
  "wire_of_link b meta link nuid =
     wire_of_object (ob_bucket b) (om_name meta) (om_description meta) (om_headers meta) (om_metadata meta)
       (Some \<lparr>wp_chunk_size = None, wp_link = Some link\<rparr>) nuid 0 0 None False"

definition put_link ::
  "('x, 'c, 'w) object_env \<Rightarrow> nat option \<Rightarrow> object_bucket \<Rightarrow> object_meta \<Rightarrow> store_link \<Rightarrow> ('x, store_info, 'w) effect" where
  "put_link e timeout b meta link w =
     (let deadline = timeout_deadline e timeout w; name = om_name meta in
      then_do (check_no_content e deadline b name) (\<lambda>_.
      then_do (check_link_target e deadline link) (\<lambda>_ w.
        case new_nuid e w of (nuid, w) \<Rightarrow>
          then_do (publish_metadata e deadline b name (wire_of_link b meta link nuid)) (\<lambda>_.
            within e deadline (read_info_raw e b name)) w)) w)"

section \<open>Deletion\<close>

definition wire_of_delete :: "object_bucket \<Rightarrow> store_info \<Rightarrow> wire_object" where
  "wire_of_delete b info =
     wire_of_object (ob_bucket b) (oi_name info) (oi_description info) (oi_headers info) (oi_metadata info)
       (options_of_info info) (oi_nuid info) 0 0 None True"

definition purge_deleted ::
  "('x, 'c, 'w) object_env \<Rightarrow> nat option \<Rightarrow> object_bucket \<Rightarrow> store_info \<Rightarrow> ('x, unit, 'w) effect" where
  "purge_deleted e deadline b info w =
     (if oi_nuid info = [] then Some (Inr (), w)
      else map_option (\<lambda>(cleanup, w).
          (case cleanup of Some error \<Rightarrow> Inl (Cleanup_failed (Some info) error) | None \<Rightarrow> Inr (), w))
        (purge_old e deadline b (chunk_subject (ob_bucket b) (oi_nuid info)) w))"

definition delete_object ::
  "('x, 'c, 'w) object_env \<Rightarrow> nat option \<Rightarrow> object_bucket \<Rightarrow> string \<Rightarrow> ('x, unit, 'w) effect" where
  "delete_object e timeout b name w =
     (let deadline = timeout_deadline e timeout w in
      then_do (within e deadline (read_info_raw e b name)) (\<lambda>info.
        if oi_nuid info = [] then fails (Invalid_object_metadata ''nuid'')
        else then_do (publish_metadata e deadline b name (wire_of_delete b info)) (\<lambda>_.
          purge_deleted e deadline b info)) w)"

section \<open>Watching\<close>

definition object_timestamp :: "int \<Rightarrow> 'x object_error + string" where
  "object_timestamp v = (if v < 0 then Inl (Invalid_object_metadata ''timestamp'') else Inr (timestamp_text v))"

definition info_of_delivery ::
  "('x, 'c, 'w) object_env \<Rightarrow> object_bucket \<Rightarrow> js_msg \<Rightarrow> 'x object_error + store_info" where
  "info_of_delivery e b m =
     (case ov_decode e (jm_payload m) of
        Inl error \<Rightarrow> Inl (Object_decode error)
      | Inr wire \<Rightarrow>
          (case object_name_of_string (wo_name wire) of
             Inl reason \<Rightarrow> Inl (Invalid_object_name (wo_name wire) reason)
           | Inr name \<Rightarrow>
               if jm_subject m \<noteq> metadata_subject e (ob_bucket b) name
               then Inl (Invalid_metadata_subject (jm_subject m))
               else then_result (object_timestamp (jm_timestamp m)) (\<lambda>timestamp.
                 info_of_wire (ob_bucket b) name timestamp wire)))"

datatype object_event = Objects_initial_done | Object_info store_info

text \<open>The state of a watch is that of a Key-Value watch whose number of retained messages is known.\<close>

definition object_watch_state :: "watch_delivery \<Rightarrow> bool \<Rightarrow> int \<Rightarrow> watch" where
  "object_watch_state delivery ignore_deletes initial_pending =
     \<lparr>wt_ignore_deletes = ignore_deletes,
      wt_initial = (if delivery = New then Marker else if initial_pending = 0 then Marker else Retained),
      wt_initial_pending = Some initial_pending, wt_initial_received = 0\<rparr>"

definition metadata_filter :: "string \<Rightarrow> string" where
  "metadata_filter bucket = ''$O.'' @ bucket @ ''.M.>''"

definition watch_filter :: "('x, 'c, 'w) object_env \<Rightarrow> object_bucket \<Rightarrow> string option \<Rightarrow> string option" where
  "watch_filter e b name =
     literal filter_of_string
       (case name of None \<Rightarrow> metadata_filter (ob_bucket b) | Some name \<Rightarrow> metadata_subject e (ob_bucket b) name)"

definition map_object_watch_error :: "'x js_error \<Rightarrow> 'x object_error" where
  "map_object_watch_error error =
     (case error of
        Connection_error error \<Rightarrow> Object_connection error
      | Push_closed \<Rightarrow> Object_closed
      | error \<Rightarrow> Object_jetstream error)"

record ('x, 'c, 'w) watch_source =
  ws_create :: "watch_delivery \<Rightarrow> string \<Rightarrow> string \<Rightarrow> 'w \<Rightarrow> ('x js_error + 'c \<times> int) \<times> 'w"
  ws_close :: "'c \<Rightarrow> 'w \<Rightarrow> ('x js_error + unit) \<times> 'w"

definition object_watch_v ::
  "('x, 'c, 'w) object_env \<Rightarrow> ('x, 'c, 'w) watch_source \<Rightarrow> string option \<Rightarrow> watch_delivery \<Rightarrow> bool \<Rightarrow> object_bucket \<Rightarrow>
     ('x, 'c \<times> watch, 'w) effect" where
  "object_watch_v e src name delivery ignore_deletes b w =
     (case watch_filter e b name of
        None \<Rightarrow> None
      | Some filtr \<Rightarrow>
          (case ov_inbox e w of (deliver_subject, w) \<Rightarrow>
            (case ws_create src delivery filtr deliver_subject w of
               (Inl error, w) \<Rightarrow> Some (Inl (map_object_watch_error error), w)
             | (Inr (c, initial_pending), w) \<Rightarrow>
                 Some (Inr (c, object_watch_state delivery ignore_deletes initial_pending), w))))"

text \<open>One message of the loop: whether it shows, and the state after it.\<close>

definition watch_object :: "js_msg \<Rightarrow> store_info \<Rightarrow> watch \<Rightarrow> object_event option \<times> watch" where
  "watch_object m info v =
     (let v' = (if wt_initial v = Retained then v\<lparr>wt_initial_received := count_received v\<rparr> else v);
          initial_complete = (wt_initial v = Retained \<and>
            (received_enough v (wt_initial_received v') \<or> jm_num_pending m = 0));
          v'' = (if initial_complete then v'\<lparr>wt_initial := Marker\<rparr> else v')
      in (if wt_ignore_deletes v \<and> oi_deleted info then None else Some (Object_info info), v''))"

partial_function (option) object_next_until ::
  "('x, 'c, 'w) object_env \<Rightarrow> object_bucket \<Rightarrow> 'c \<Rightarrow> nat option \<Rightarrow> watch \<Rightarrow> 'w \<Rightarrow>
     (('x object_error + object_event) \<times> watch \<times> 'w) option" where
  "object_next_until e b c deadline v w =
     (if wt_initial v = Marker then Some (Inr Objects_initial_done, v\<lparr>wt_initial := Live\<rparr>, w)
      else case next_message (object_now e) (\<lambda>timeout. ov_push_next e timeout c) deadline w of
        (Inl error, w) \<Rightarrow> Some (Inl (map_object_watch_error error), v, w)
      | (Inr m, w) \<Rightarrow>
          (case info_of_delivery e b m of
             Inl error \<Rightarrow> Some (Inl error, v, w)
           | Inr info \<Rightarrow>
               (case watch_object m info v of
                  (Some event, v) \<Rightarrow> Some (Inr event, v, w)
                | (None, v) \<Rightarrow> object_next_until e b c deadline v w)))"

definition object_next_with_timeout ::
  "('x, 'c, 'w) object_env \<Rightarrow> object_bucket \<Rightarrow> 'c \<Rightarrow> nat \<Rightarrow> watch \<Rightarrow> 'w \<Rightarrow>
     (('x object_error + object_event) \<times> watch \<times> 'w) option" where
  "object_next_with_timeout e b c timeout v w =
     (if timeout \<le> 0 then Some (Inl (Object_connection (Invalid_timeout ''watch'')), v, w)
      else object_next_until e b c
        (Some (case mtime_add (object_now e w) timeout of Some deadline \<Rightarrow> deadline | None \<Rightarrow> 2 ^ 64 - 1)) v w)"

partial_function (option) object_iter ::
  "('x, 'c, 'w) object_env \<Rightarrow> object_bucket \<Rightarrow> 'c \<Rightarrow> watch \<Rightarrow> object_event list \<Rightarrow> 'w \<Rightarrow>
     (('x object_error + unit) \<times> object_event list \<times> 'w) option" where
  "object_iter e b c v events w =
     (case object_next_until e b c None v w of
        None \<Rightarrow> None
      | Some (Inr event, v, w) \<Rightarrow> object_iter e b c v (events @ [event]) w
      | Some (Inl error, v, w) \<Rightarrow>
          (case error of Object_closed \<Rightarrow> Some (Inr (), events, w) | error \<Rightarrow> Some (Inl error, events, w)))"

section \<open>Listing\<close>

definition list_event ::
  "('x, 'c, 'w) object_env \<Rightarrow> object_bucket \<Rightarrow> 'c \<Rightarrow> nat option \<Rightarrow> watch \<Rightarrow> 'w \<Rightarrow>
     (('x object_error + object_event) \<times> watch \<times> 'w) option" where
  "list_event e b c deadline v w =
     (case object_remaining e deadline w of
        Inl error \<Rightarrow> Some (Inl error, v, w)
      | Inr None \<Rightarrow> object_next_until e b c None v w
      | Inr (Some timeout) \<Rightarrow> object_next_with_timeout e b c timeout v w)"

partial_function (option) list_collect ::
  "('x, 'c, 'w) object_env \<Rightarrow> object_bucket \<Rightarrow> 'c \<Rightarrow> nat option \<Rightarrow> watch \<Rightarrow> store_info list \<Rightarrow> 'w \<Rightarrow>
     (('x object_error + store_info list) \<times> 'w) option" where
  "list_collect e b c deadline v infos w =
     (case list_event e b c deadline v w of
        None \<Rightarrow> None
      | Some (Inl error, v, w) \<Rightarrow> Some (Inl error, w)
      | Some (Inr Objects_initial_done, v, w) \<Rightarrow> Some (Inr infos, w)
      | Some (Inr (Object_info info), v, w) \<Rightarrow> list_collect e b c deadline v (infos @ [info]) w)"

definition list_objects ::
  "('x, 'c, 'w) object_env \<Rightarrow> ('x, 'c, 'w) watch_source \<Rightarrow> nat option \<Rightarrow> bool \<Rightarrow> object_bucket \<Rightarrow>
     ('x, store_info list, 'w) effect" where
  "list_objects e src timeout include_deleted b w =
     (let deadline = timeout_deadline e timeout w in
      case object_watch_v e src None Last_per_subject (\<not> include_deleted) b w of
        None \<Rightarrow> None
      | Some (Inl error, w) \<Rightarrow> Some (Inl error, w)
      | Some (Inr (c, v), w) \<Rightarrow>
          map_option (\<lambda>(r, w). (r, snd (ws_close src c w))) (list_collect e b c deadline v [] w))"

section \<open>The streams of buckets\<close>

definition manager_bucket_name :: "string \<Rightarrow> string \<Rightarrow> string option" where
  "manager_bucket_name prefix_name name =
     (if length name \<le> length prefix_name \<or> take (length prefix_name) name \<noteq> prefix_name then None
      else Some (drop (length prefix_name) name))"

fun manager_entries :: "(string \<times> 'i) list \<Rightarrow> bucket_error + (string \<times> 'i) list" where
  "manager_entries [] = Inr []"
| "manager_entries ((name, info) # infos) =
     (case manager_bucket_name ''OBJ_'' name of
        None \<Rightarrow> manager_entries infos
      | Some bucket \<Rightarrow>
          (case object_config_v (default_object_config bucket) of
             Inl error \<Rightarrow> Inl error
           | Inr _ \<Rightarrow> then_result (manager_entries infos) (\<lambda>entries. Inr ((bucket, info) # entries))))"

end
