(* ===== verification/ObjectClaims.thy ===== *)
theory ObjectClaims
  imports ObjectProps KeyValueCas
begin

text \<open>
  The properties of the Object Store: uploads do not depend on how content is sliced, content that is
  read has the size, chunks and digest its metadata names, what was stored can be read back, and
  links lead to objects in a bounded number of steps.
\<close>

section \<open>Transfers\<close>

text \<open>The size that is counted is the length of what was written.\<close>

definition transfer_counted :: "transfer \<Rightarrow> bool" where
  "transfer_counted t \<longleftrightarrow> tr_size t = wrap64 (int (length (tr_written t)))"

lemma transfer_counted_none [simp]: "transfer_counted no_transfer"
  by (simp add: transfer_counted_def no_transfer_def wrap64_def)

lemma take_chunk_counted:
  "take_chunk b info m t = (error, t') \<Longrightarrow> transfer_counted t \<Longrightarrow> transfer_counted t'"
  by (auto simp: take_chunk_def transfer_counted_def add64_def wrap64_add Let_def split: if_splits)

lemma read_chunks_counted:
  fixes e :: "('x, 'c, 'w) object_env"
  assumes "read_chunks e deadline b info c t w = Some y"
  shows "transfer_counted t \<Longrightarrow> transfer_counted (fst (snd y))"
  using assms
proof (induct e deadline b info c t w y rule: read_chunks.raw_induct [rotated 1, consumes 1, case_names step])
  case (step again e deadline b info c t w y)
  note IH = step(1) and run = step(2) and counted = step(3)
  obtain r w1 where nxt: "next_chunk_message e deadline c w = (r, w1)" by (cases "next_chunk_message e deadline c w")
  show ?case
  proof (cases "oi_chunks info \<le> tr_chunks t \<or> (\<exists>error. r = Inl error)")
    case True
    then show ?thesis
    proof
      assume "\<exists>error. r = Inl error"
      with nxt obtain error where "next_chunk_message e deadline c w = (Inl error, w1)" by blast
      with run counted show ?thesis by (auto split: if_splits)
    qed (use run counted in auto)
  next
    case False
    then obtain m where m: "r = Inr m" by (cases r) auto
    obtain error t1 where took: "take_chunk b info m t = (error :: 'x object_error option, t1)" by (metis surj_pair)
    note now_counted = take_chunk_counted [OF took counted]
    show ?thesis
    proof (cases error)
      case None
      then have "again e deadline b info c t1 w1 = Some y" using run False nxt m took by simp
      from IH [OF this now_counted] show ?thesis .
    next
      case (Some err)
      then show ?thesis using run False nxt m took now_counted by auto
    qed
  qed
qed

lemma read_attempt_counted:
  fixes e :: "('x, 'c, 'w) object_env"
  assumes "read_attempt e deadline b info filtr t w = Some y"
  shows "transfer_counted t \<Longrightarrow> transfer_counted (fst (snd y))"
  using assms
proof (induct e deadline b info filtr t w y rule: read_attempt.raw_induct [rotated 1, consumes 1, case_names step])
  case (step again e deadline b info filtr t w y)
  note IH = step(1) and run = step(2) and counted = step(3)
  obtain timeout where timeout: "object_remaining e deadline w = Inr timeout \<or> (\<exists>t'. y = (t', t, w))"
    using run by (cases "object_remaining e deadline w") auto
  obtain inbox w1 where inbox: "ov_inbox e w = (inbox, w1)" by (cases "ov_inbox e w")
  obtain r w2 where create: "ov_push_create e (at_most_retry timeout) inbox filtr w1 = (r, w2)"
    by (cases "ov_push_create e (at_most_retry timeout) inbox filtr w1")
  show ?case
  proof (cases "\<exists>t'. y = (t', t, w)")
    case True
    then show ?thesis using counted by auto
  next
    case False
    with timeout have remaining: "object_remaining e deadline w = Inr timeout" by blast
    show ?thesis
    proof (cases r)
      case (Inl error)
      then have "again e deadline b info filtr t w2 = Some y \<or> y = (Some (object_jetstream_error error), t, w2)"
        using run by (simp add: remaining inbox create split: if_splits)
      then show ?thesis
      proof
        assume "again e deadline b info filtr t w2 = Some y"
        from IH [OF this counted] show ?thesis .
      qed (use counted in simp)
    next
      case (Inr c)
      then obtain err t1 w3 where read: "read_chunks e deadline b info c t w2 = Some (err, t1, w3)"
        using run by (auto simp: remaining inbox create split: option.splits)
      have now_counted: "transfer_counted t1" using read_chunks_counted [OF read counted] by simp
      have "again e deadline b info filtr t1 (ov_push_release e c w3) = Some y \<or> fst (snd y) = t1"
        using run Inr by (auto simp: remaining inbox create read split: option.splits if_splits)
      then show ?thesis
      proof
        assume "again e deadline b info filtr t1 (ov_push_release e c w3) = Some y"
        from IH [OF this now_counted] show ?thesis .
      qed (use now_counted in simp)
    qed
  qed
qed

lemma verify_None:
  "verify e info t = None \<longleftrightarrow>
     tr_size t = oi_size info \<and> tr_chunks t = oi_chunks info \<and> digest_string e (tr_written t) = oi_digest info"
  by (simp add: verify_def Let_def)

lemma get_content_verified:
  assumes got: "get_content e deadline b info w = Some (Inr info', written, w')"
  shows "info' = info \<and> oi_size info = wrap64 (int (length written)) \<and> oi_digest info = digest_string e written"
proof (cases "oi_chunks info = 0")
  case True
  with got have "verify e info no_transfer = None" "info' = info" "written = []"
    by (simp_all add: get_content_def split: option.splits)
  then show ?thesis by (simp add: verify_None no_transfer_def wrap64_def)
next
  case False
  obtain filtr where filtr: "literal filter_of_string (chunk_subject (ob_bucket b) (oi_nuid info)) = Some filtr"
    using got False by (cases "literal filter_of_string (chunk_subject (ob_bucket b) (oi_nuid info))") (simp_all add: get_content_def)
  obtain err t w1 where run: "read_attempt e deadline b info filtr no_transfer w = Some (err, t, w1)"
    using got False filtr by (cases "read_attempt e deadline b info filtr no_transfer w") (auto simp: get_content_def)
  have ok: "verify e info t = None \<and> written = tr_written t \<and> info' = info"
    using got False filtr run by (simp add: get_content_def split: option.splits)
  have "transfer_counted t" using read_attempt_counted [OF run] by simp
  with ok show ?thesis by (simp add: verify_None transfer_counted_def)
qed

section \<open>Links\<close>

lemma link_loop_result:
  "link_loop e max_links deadline depth path b info w = Some (Inr (b', info'), w') \<Longrightarrow>
     \<not> oi_deleted info \<Longrightarrow> oi_link info' = None \<and> \<not> oi_deleted info'"
proof (induction e max_links deadline depth path b info w rule: link_loop.induct)
  case (1 e max_links deadline depth path b info w)
  show ?case
  proof (cases "oi_link info")
    case None
    then show ?thesis using 1(2,3) by (simp add: link_loop.simps [of e max_links deadline depth])
  next
    case (Some link)
    obtain name where name: "ol_name link = Some name" and free: "\<not> depth \<ge> max_links"
      "identity_of (ol_bucket link) name \<notin> set path"
      using 1(2) Some by (auto simp: link_loop.simps [of e max_links deadline depth] split: option.splits if_splits)
    then obtain target target_info w1 where read: "read_target e deadline link name w = Some (Inr (target, target_info), w1)"
      and rest: "link_loop e max_links deadline (depth + 1) (identity_of (ol_bucket link) name # path) target target_info w1 =
        Some (Inr (b', info'), w')"
      using 1(2) Some by (auto simp: link_loop.simps [of e max_links deadline depth] split: option.splits sum.splits)
    have "\<not> oi_deleted target_info"
      using read by (auto simp: read_target_def then_do_def pure_result_def fails_def returns_def
          split: option.splits sum.splits if_splits)
    with 1(1) [OF Some name free read refl refl refl] rest show ?thesis by blast
  qed
qed

section \<open>Reading what was stored\<close>

lemma token_ok_filter: "token_ok False final t \<Longrightarrow> token_ok True final t"
  by (auto simp: token_ok_def)

lemma subject_is_filter:
  assumes "literal subject_of_string s = Some s'"
  shows "literal filter_of_string s = Some s"
proof -
  have weaker: "tokens_ok False ts \<Longrightarrow> tokens_ok True ts" for ts
    by (induction "False" ts rule: tokens_ok.induct) (auto intro: token_ok_filter)
  have "validate False s = Inr s'" using assms by (simp add: literal_def subject_of_string_def split: sum.splits)
  then have "valid_subject True s" using weaker by (simp add: validate_valid valid_subject_def)
  then have "validate True s = Inr s" by (simp add: validate_valid)
  then show ?thesis by (simp add: literal_def filter_of_string_def)
qed

text \<open>The consumer hands over messages one by one.\<close>

fun hands_over :: "('x, 'c, 'w) object_env \<Rightarrow> 'c \<Rightarrow> js_msg list \<Rightarrow> 'w \<Rightarrow> bool" where
  "hands_over e c [] w = True"
| "hands_over e c (m # ms) w =
     (case ov_push_next e None c w of (r, w) \<Rightarrow> r = Inr m \<and> hands_over e c ms w)"

definition chunk_messages :: "object_bucket \<Rightarrow> string \<Rightarrow> string list \<Rightarrow> js_msg list \<Rightarrow> bool" where
  "chunk_messages b nuid ps ms \<longleftrightarrow>
     map jm_payload ms = ps \<and> (\<forall>m \<in> set ms. jm_subject m = chunk_subject (ob_bucket b) nuid) \<and>
     (\<forall>m \<in> set (butlast ms). jm_num_pending m \<noteq> 0)"

text \<open>A consumer on the subject of an upload delivers its pieces: the promise of a stream.\<close>

definition delivers_pieces :: "('x, 'c, 'w) object_env \<Rightarrow> object_bucket \<Rightarrow> string \<Rightarrow> string list \<Rightarrow> 'w \<Rightarrow> bool" where
  "delivers_pieces e b nuid ps w \<longleftrightarrow>
     (case ov_inbox e w of (inbox, w1) \<Rightarrow>
       (case ov_push_create e None inbox (chunk_subject (ob_bucket b) nuid) w1 of
          (Inl _, _) \<Rightarrow> False
        | (Inr c, w2) \<Rightarrow> \<exists>ms. chunk_messages b nuid ps ms \<and> hands_over e c ms w2))"

lemma next_chunk_plain: "next_chunk_message e None c w = 
    (case ov_push_next e None c w of (Inl error, w) \<Rightarrow> (Inl (object_jetstream_error error), w) | (Inr m, w) \<Rightarrow> (Inr m, w))"
  by (simp add: next_chunk_message_def object_remaining_def at_most_retry_def)

lemma read_chunks_complete:
  fixes e :: "('x, 'c, 'w) object_env"
  assumes "chunk_messages b (oi_nuid info) ps ms" and "hands_over e c ms w"
    and "0 \<le> tr_chunks t" and "tr_chunks t + int (length ps) = oi_chunks info" and "oi_chunks info < 2 ^ 63"
  shows "\<exists>t' w'. read_chunks e None b info c t w = Some (None, t', w') \<and>
     tr_written t' = tr_written t @ concat ps \<and> tr_chunks t' = oi_chunks info"
  using assms
proof (induction ps arbitrary: ms w t)
  case Nil
  then show ?case by (subst read_chunks.simps) simp
next
  case (Cons p ps)
  obtain m ms' where ms: "ms = m # ms'" and m: "jm_payload m = p" "jm_subject m = chunk_subject (ob_bucket b) (oi_nuid info)"
    using Cons.prems(1) by (cases ms) (auto simp: chunk_messages_def)
  have more: "ps \<noteq> [] \<longrightarrow> jm_num_pending m \<noteq> 0" and rest: "chunk_messages b (oi_nuid info) ps ms'"
    using Cons.prems(1) ms by (auto simp: chunk_messages_def split: if_splits)
  obtain w1 where nxt: "ov_push_next e None c w = (Inr m, w1)" and over: "hands_over e c ms' w1"
    using Cons.prems(2) ms by (auto split: prod.splits)
  let ?t = "\<lparr>tr_written = tr_written t @ p, tr_size = add64 (tr_size t) (int (length p)), tr_chunks = tr_chunks t + 1\<rparr>"
  have bound: "tr_chunks t + 1 + int (length ps) = oi_chunks info" using Cons.prems(4) by simp
  then have "add64 (tr_chunks t) 1 = tr_chunks t + 1"
    using Cons.prems(3,5) by (simp add: add64_def wrap64_id)
  then have took: "take_chunk b info m t = (None :: 'x object_error option, ?t)"
    using m more bound by (cases ps) (auto simp: take_chunk_def Let_def)
  obtain t' w' where run: "read_chunks e None b info c ?t w1 = Some (None, t', w')"
    and t': "tr_written t' = tr_written ?t @ concat ps" "tr_chunks t' = oi_chunks info"
    using Cons.IH [OF rest over, of ?t] Cons.prems(3,5) bound by auto
  have "\<not> oi_chunks info \<le> tr_chunks t" using bound by simp
  then have "read_chunks e None b info c t w = Some (None, t', w')"
    using nxt took run by (subst read_chunks.simps) (simp add: next_chunk_plain)
  with t' show ?case by (intro exI [of _ t'] exI [of _ w']) simp
qed

lemma get_content_complete:
  assumes "literal subject_of_string (chunk_subject (ob_bucket b) (oi_nuid info)) = Some s \<or> ps = []"
    and "ps \<noteq> [] \<longrightarrow> delivers_pieces e b (oi_nuid info) ps w"
    and "oi_chunks info = int (length ps)" and "oi_chunks info < 2 ^ 63"
    and "oi_size info = wrap64 (int (length (concat ps)))" and "oi_digest info = digest_string e (concat ps)"
  shows "\<exists>w'. get_content e None b info w = Some (Inr info, concat ps, w')"
proof (cases "ps = []")
  case True
  then show ?thesis
    using assms(3,5,6) by (simp add: get_content_def verify_def no_transfer_def wrap64_def)
next
  case False
  let ?s = "chunk_subject (ob_bucket b) (oi_nuid info)"
  obtain inbox w1 where inbox: "ov_inbox e w = (inbox, w1)" by (cases "ov_inbox e w")
  obtain c w2 ms where create: "ov_push_create e None inbox ?s w1 = (Inr c, w2)"
    and ms: "chunk_messages b (oi_nuid info) ps ms" "hands_over e c ms w2"
    using assms(2) False inbox by (auto simp: delivers_pieces_def split: prod.splits sum.splits)
  obtain t w3 where read: "read_chunks e None b info c no_transfer w2 = Some (None, t, w3)"
    and t: "tr_written t = concat ps" "tr_chunks t = oi_chunks info"
    using read_chunks_complete [OF ms, of no_transfer] assms(3,4) by (auto simp: no_transfer_def)
  have "transfer_counted t" using read_chunks_counted [OF read] by simp
  then have ok: "verify e info t = None" using t assms(5,6) by (simp add: verify_None transfer_counted_def)
  have "read_attempt e None b info ?s no_transfer w = Some (None, t, ov_push_release e c w3)"
    using inbox create read by (subst read_attempt.simps) (simp add: object_remaining_def at_most_retry_def)
  moreover have "literal filter_of_string ?s = Some ?s" using assms(1) False subject_is_filter by blast
  ultimately show ?thesis using assms(3) False ok t by (simp add: get_content_def)
qed

lemma publish_pieces_subject:
  assumes "publish_pieces e deadline b nuid ps w = Some (Inr (), w')" and "ps \<noteq> []"
  shows "\<exists>s. literal subject_of_string (chunk_subject (ob_bucket b) nuid) = Some s"
  using assms
  by (cases ps; cases "literal subject_of_string (chunk_subject (ob_bucket b) nuid)")
    (auto simp: then_do_def within_def object_publish_def with_literal_def split: sum.splits)

lemma length_cut_le: "length (cut n s) \<le> length s"
  by (induction n s rule: cut.induct) auto

text \<open>
  C27: An upload publishes the content in pieces of the chunk size, the last one shorter, whatever the
  slices the reader gives are, and counts its bytes and pieces and digests exactly the content: the
  upload of any reader is that of its pieces.
\<close>

theorem upload_ignores_slicing:
  assumes "byte_source rd remaining" and "0 < chunk_size"
  shows "upload_chunks e deadline b nuid chunk_size rd r =
       then_do (publish_pieces e deadline b nuid (cut chunk_size (remaining r)))
         (\<lambda>_. returns (upload_of e chunk_size nuid (remaining r))) \<and>
     concat (cut chunk_size (remaining r)) = remaining r \<and>
     length (cut chunk_size (remaining r)) = (length (remaining r) + chunk_size - 1) div chunk_size \<and>
     (\<forall>p \<in> set (cut chunk_size (remaining r)). p \<noteq> [] \<and> length p \<le> chunk_size)"
  using byte_source.upload_chunks_pieces [OF assms] concat_cut length_cut cut_pieces assms(2) by blast

text \<open>
  C15: What was uploaded can be read back. The metadata that is published after an upload, whatever
  reader it read from, reads as an object with the same name, description, header values, metadata,
  size, chunks and digest, and with a consumer that delivers the pieces, reading that object gives
  the content, byte for byte; an empty object needs no consumer.
\<close>

theorem objects_read_back:
  fixes e :: "('x, 'c, 'w) object_env"
  assumes source: "byte_source rd remaining" and "0 < om_chunk_size meta"
    and up: "upload_chunks e deadline b nuid (nat (om_chunk_size meta)) rd r w0 = Some (Inr u, w1)"
    and valid: "wf_header (om_headers meta)" "om_name meta \<noteq> []" "nuid \<noteq> []" "length (remaining r) < 2 ^ 63"
    and delivers: "remaining r \<noteq> [] \<longrightarrow> delivers_pieces e b nuid (cut (nat (om_chunk_size meta)) (remaining r)) w"
  shows "\<exists>info w'. info_of_wire (ob_bucket b) (om_name meta) timestamp (wire_of_upload b meta u) =
       (Inr info :: 'x object_error + store_info) \<and>
     describes info b meta u \<and> get_content e None b info w = Some (Inr info, remaining r, w')"
proof -
  let ?n = "nat (om_chunk_size meta)"
  let ?ps = "cut ?n (remaining r)"
  have n: "0 < ?n" using assms(2) by simp
  obtain w2 where pub: "publish_pieces e deadline b nuid ?ps w0 = Some (Inr (), w2)"
    and u: "u = upload_of e ?n nuid (remaining r)"
    using up byte_source.upload_chunks_pieces [OF source n, of e deadline b nuid r]
    by (auto simp: then_do_def returns_def split: option.splits sum.splits)
  have counts: "up_size u = int (length (remaining r))" "up_chunks u = int (length ?ps)"
    using valid(4) length_cut_le [of ?n "remaining r"] by (simp_all add: u upload_of_def wrap64_id)
  obtain info where info: "info_of_wire (ob_bucket b) (om_name meta) timestamp (wire_of_upload b meta u) =
      (Inr info :: 'x object_error + store_info)" "describes info b meta u"
    using upload_reads_back [OF valid(1,2) assms(2), of u b timestamp] counts valid(3)
    by (auto simp: u upload_of_def)
  then have same: "oi_nuid info = nuid" "oi_chunks info = int (length ?ps)" "oi_size info = int (length (remaining r))"
    "oi_digest info = digest_string e (remaining r)"
    using counts by (simp_all add: describes_def u upload_of_def)
  have "\<exists>w'. get_content e None b info w = Some (Inr info, concat ?ps, w')"
  proof (cases "?ps = []")
    case True
    have "literal subject_of_string (chunk_subject (ob_bucket b) (oi_nuid info)) = Some [] \<or> ?ps = []" using True by simp
    from get_content_complete [OF this, of e w] show ?thesis
      using True same valid(4) concat_cut [OF n, of "remaining r"] by (simp add: wrap64_id)
  next
    case False
    obtain s where "literal subject_of_string (chunk_subject (ob_bucket b) nuid) = Some s"
      using publish_pieces_subject [OF pub False] by blast
    then have "literal subject_of_string (chunk_subject (ob_bucket b) (oi_nuid info)) = Some s \<or> ?ps = []"
      by (simp add: same)
    moreover have "remaining r \<noteq> []" using False by auto
    ultimately show ?thesis
      using get_content_complete [of b info s ?ps e w] delivers same valid(4) length_cut_le [of ?n "remaining r"] concat_cut [OF n, of "remaining r"]
      by (simp add: wrap64_id)
  qed
  then show ?thesis using info concat_cut [OF n, of "remaining r"] by auto
qed

text \<open>
  C16: Whatever the server and the consumer deliver, content that is read as an object is the one the
  object's metadata names: a successful read follows links to an object that is no link and not
  deleted, and the bytes it wrote have the size and the digest of its metadata, so that they agree
  in both with the content whose upload the metadata describes.
\<close>

theorem content_is_verified:
  assumes "get_object e timeout include_deleted max_links b name w = Some (Inr info, written, w')"
  shows "oi_link info = None \<and> \<not> oi_deleted info \<and>
     oi_size info = wrap64 (int (length written)) \<and> oi_digest info = digest_string e written \<and>
     (\<forall>b' meta chunk_size nuid content. describes info b' meta (upload_of e chunk_size nuid content) \<longrightarrow>
        digest_string e written = digest_string e content \<and>
        wrap64 (int (length written)) = wrap64 (int (length content)))"
proof -
  obtain deadline target found w1 where live: "read_live e deadline include_deleted (nat max_links) b name w =
      Some (Inr (target, found), w1)"
    and content: "get_content e deadline target found w1 = Some (Inr info, written, w')"
    using assms by (auto simp: get_object_def Let_def split: if_splits option.splits sum.splits)
  then obtain first w2 where kept: "\<not> oi_deleted first" and loop: "link_loop e (nat max_links) deadline 0
      [identity_of (oi_bucket first) (oi_name first)] b first w2 = Some (Inr (target, found), w1)"
    by (auto simp: read_live_def then_do_def resolve_link_def fails_def split: option.splits sum.splits if_splits)
  note link_loop_result [OF loop kept]
  with get_content_verified [OF content] show ?thesis by (auto simp: describes_def upload_of_def)
qed

section \<open>A bucket with a link\<close>

text \<open>
  The stream answers every request; the object \<open>A\<close> is a link to \<open>o\<close>, whose content is in two chunks.
  What the consumer will deliver is the state.
\<close>

definition demo_objects_meta :: object_meta where
  "demo_objects_meta = \<lparr>om_name = ''o'', om_description = None, om_headers = [], om_metadata = [], om_chunk_size = 2\<rparr>"

definition demo_objects_bucket :: object_bucket where
  "demo_objects_bucket = \<lparr>ob_stream = ''OBJ_B'', ob_bucket = ''B''\<rparr>"

definition demo_upload :: upload where
  "demo_upload = \<lparr>up_size = 3, up_chunks = 2, up_digest = ''SHA-256=abc'', up_nuid = ''N''\<rparr>"

definition demo_object_wire :: "string \<Rightarrow> unit + wire_object" where
  "demo_object_wire name =
     (if name = ''A'' then
        Inr (wire_of_object ''B'' ''A'' None [] [] (Some \<lparr>wp_chunk_size = None,
          wp_link = Some \<lparr>ol_bucket = ''B'', ol_name = Some ''o''\<rparr>\<rparr>) ''L'' 0 0 None False)
      else Inr (wire_of_upload demo_objects_bucket demo_objects_meta demo_upload))"

definition demo_object_reply :: "message \<Rightarrow> message" where
  "demo_object_reply m =
     (if take 4 (m_subject m) = ''$JS.'' then
        message_v ''_INBOX.1'' [\<lparr>e_name = ''Nats-Stream'', e_value = ''OBJ_B''\<rparr>, \<lparr>e_name = ''Nats-Sequence'', e_value = show_int 1\<rparr>,
          \<lparr>e_name = ''Nats-Subject'', e_value = ''s''\<rparr>, \<lparr>e_name = ''Nats-Time-Stamp'', e_value = ''now''\<rparr>] [last (m_subject m)]
      else message_v ''_INBOX.1'' [] ''ok'')"

definition demo_objects :: "(unit, unit, js_msg list) object_env" where
  "demo_objects = \<lparr>ov_js = \<lparr>
       js_link = \<lparr>request_msg = (\<lambda>timeout m w. (Inr (demo_object_reply m), w)), link_now = (\<lambda>w. 0), sleep_until = (\<lambda>d w. w)\<rparr>,
       js_prefix = ''$JS.API'', js_span_string = (\<lambda>n. show_nat n),
       js_decode_publish = (\<lambda>payload. Inr \<lparr>pb_error = None, pb_stream = Some ''OBJ_B'', pb_sequence = Some 1,
         pb_duplicate = None, pb_domain = None, pb_batch = None, pb_count = None\<rparr>),
       js_encode_get = (\<lambda>n. Inr (show_int n)), js_encode_purge = (\<lambda>r. Inr []),
       js_decode_purge = (\<lambda>payload. Inr \<lparr>pu_error = None, pu_purged = 0\<rparr>)\<rparr>,
     ov_base64 = (\<lambda>s. s), ov_sha256 = (\<lambda>s. s), ov_encode = (\<lambda>wire. Inr (wo_name wire)), ov_decode = demo_object_wire,
     ov_inbox = (\<lambda>w. (''N'', w)), ov_push_create = (\<lambda>timeout inbox filtr w. (Inr (), w)),
     ov_push_next = (\<lambda>timeout c w. case w of [] \<Rightarrow> (Inl Push_closed, []) | m # ms \<Rightarrow> (Inr m, ms)),
     ov_push_release = (\<lambda>c w. w)\<rparr>"

definition demo_chunk :: "string \<Rightarrow> int \<Rightarrow> js_msg" where
  "demo_chunk payload pending = \<lparr>jm_subject = ''$O.B.C.N'', jm_headers = [], jm_payload = payload, jm_stream_sequence = 1,
     jm_timestamp = 0, jm_num_pending = pending\<rparr>"

definition demo_object_info :: store_info where
  "demo_object_info = \<lparr>oi_bucket = ''B'', oi_name = ''o'', oi_description = None, oi_headers = [], oi_metadata = [], oi_link = None,
     oi_nuid = ''N'', oi_size = 3, oi_chunks = 2, oi_chunk_size = 2, oi_digest = ''SHA-256=abc'', oi_deleted = False,
     oi_timestamp = ''now''\<rparr>"

lemma demo_object_published:
  "\<exists>ack. js_publish (ov_js demo_objects) None headers None None s payload w = Some (Inr ack, w)"
  by (simp add: js_publish_def publish_message_plain empty_options_fields default_publish_retry_def
      request_msg_retry_def validate_timeout_def request_deadline_def retry_loop.simps remaining_timeout_def
      publish_ack_of_message_def demo_objects_def)

lemma demo_uploaded: "upload_chunks demo_objects None demo_objects_bucket ''N'' 2 content_reader ''abc'' w = Some (Inr demo_upload, w)"
proof -
  have piece: "object_publish demo_objects None [] ''$O.B.C.N'' p w = Some (Inr (), w)" for p w
  proof -
    have "literal subject_of_string ''$O.B.C.N'' = Some ''$O.B.C.N''" by code_simp
    then show ?thesis using demo_object_published [of "[]" "''$O.B.C.N''" p w] by (auto simp: object_publish_def with_literal_def)
  qed
  have "cut 2 ''abc'' = [''ab'', ''c'']" by code_simp
  moreover have "upload_of demo_objects 2 ''N'' ''abc'' = demo_upload"
    by (simp add: upload_of_def demo_upload_def digest_string_def demo_objects_def wrap64_def)
  moreover have "chunk_subject (ob_bucket demo_objects_bucket) ''N'' = ''$O.B.C.N''"
    by (simp add: chunk_subject_def demo_objects_bucket_def)
  ultimately show ?thesis
    using string_source.upload_chunks_pieces [of 2 demo_objects None demo_objects_bucket "''N''" "''abc''"]
    by (simp add: then_do_def within_def object_remaining_def piece returns_def)
qed

lemma demo_stored:
  assumes "take 4 s = ''$JS.''"
  shows "stored_message ''OBJ_B'' (demo_object_reply (message_v s [] [])) = (Inr
     \<lparr>sm_subject = ''s'', sm_sequence = 1, sm_timestamp = ''now'',
      sm_headers = m_headers (demo_object_reply (message_v s [] [])), sm_payload = [last s]\<rparr> :: unit js_error + stored)"
proof -
  have "subject_of_string ''s'' = Inr ''s''" by code_simp
  moreover have "int64_of_string_opt (show_int 1) = Some 1" by (rule int64_of_string_show) simp_all
  ultimately show ?thesis
    using assms by (simp add: stored_message_def demo_object_reply_def message_v_def message_header_def then_result_def
        lowercase_stored_names message_sequence_def)
qed

lemma demo_info:
  assumes "literal subject_of_string (''$O.B.M.'' @ [c]) = Some (''$O.B.M.'' @ [c])"
    and "demo_object_wire [c] = Inr wire"
  shows "read_info_raw demo_objects demo_objects_bucket [c] None w = Some (info_of_wire ''B'' [c] ''now'' wire, w)"
proof -
  have fields: "ob_bucket demo_objects_bucket = ''B''" "ob_stream demo_objects_bucket = ''OBJ_B''"
    "ov_base64 demo_objects = (\<lambda>s. s)" "ov_decode demo_objects = demo_object_wire"
    "js_link (ov_js demo_objects) = \<lparr>request_msg = (\<lambda>timeout m w. (Inr (demo_object_reply m), w)), link_now = (\<lambda>w. 0), sleep_until = (\<lambda>d w. w)\<rparr>"
    "js_prefix (ov_js demo_objects) = ''$JS.API''"
    by (simp_all add: demo_objects_bucket_def demo_objects_def)
  have api: "api_subject (ov_js demo_objects) [''DIRECT'', ''GET'', ''OBJ_B'', ''$O.B.M.'' @ [c]] =
      ''$JS.API.DIRECT.GET.OBJ_B.$O.B.M.'' @ [c]"
    by (simp add: api_subject_def fields)
  show ?thesis
    using demo_stored [of "''$JS.API.DIRECT.GET.OBJ_B.$O.B.M.'' @ [c]"] assms
    by (simp add: read_info_raw_def metadata_subject_def fields with_literal_def stream_get_last_def api [simplified] js_request_def
        decode_object_def)
qed

lemma demo_live: "read_live demo_objects None False 10 demo_objects_bucket ''A'' w =
    Some (Inr (demo_objects_bucket, demo_object_info), w)"
proof -
  let ?link = "demo_object_info\<lparr>oi_name := ''A'', oi_link := Some \<lparr>ol_bucket = ''B'', ol_name = Some ''o''\<rparr>, oi_nuid := ''L'',
    oi_size := 0, oi_chunks := 0, oi_chunk_size := default_chunk_size, oi_digest := []\<rparr>"
  have literals: "literal subject_of_string (''$O.B.M.'' @ ''A'') = Some (''$O.B.M.'' @ ''A'')"
    "literal subject_of_string (''$O.B.M.'' @ ''o'') = Some (''$O.B.M.'' @ ''o'')"
    by code_simp+
  have wires: "demo_object_wire ''A'' = Inr (wire_of_object ''B'' ''A'' None [] [] (Some \<lparr>wp_chunk_size = None,
      wp_link = Some \<lparr>ol_bucket = ''B'', ol_name = Some ''o''\<rparr>\<rparr>) ''L'' 0 0 None False)"
    "demo_object_wire ''o'' = Inr (wire_of_upload demo_objects_bucket demo_objects_meta demo_upload)"
    by (simp_all add: demo_object_wire_def)
  have infos: "info_of_wire ''B'' ''A'' ''now'' (wire_of_object ''B'' ''A'' None [] [] (Some \<lparr>wp_chunk_size = None,
      wp_link = Some \<lparr>ol_bucket = ''B'', ol_name = Some ''o''\<rparr>\<rparr>) ''L'' 0 0 None False) = (Inr ?link :: unit object_error + store_info)"
    "info_of_wire ''B'' ''o'' ''now'' (wire_of_upload demo_objects_bucket demo_objects_meta demo_upload) =
      (Inr demo_object_info :: unit object_error + store_info)"
    by code_simp+
  have bind: "object_bind ''B'' = (Inr demo_objects_bucket :: unit object_error + object_bucket)" by code_simp
  note reads = demo_info [OF literals(1) wires(1), unfolded infos(1)] demo_info [OF literals(2) wires(2), unfolded infos(2)]
  have target: "read_target demo_objects None \<lparr>ol_bucket = ''B'', ol_name = Some ''o''\<rparr> ''o'' w = Some (Inr (demo_objects_bucket, demo_object_info), w)"
    by (simp add: read_target_def then_do_def pure_result_def bind within_def object_remaining_def reads returns_def demo_object_info_def)
  show ?thesis
    by (simp add: read_live_def then_do_def within_def object_remaining_def reads resolve_link_def demo_object_info_def
        link_loop.simps [of _ _ _ "Suc 0"] link_loop.simps [of _ _ _ 0] identity_of_def target [unfolded demo_object_info_def])
qed

lemma demo_delivers:
  "delivers_pieces demo_objects demo_objects_bucket ''N'' [''ab'', ''c''] [demo_chunk ''ab'' 1, demo_chunk ''c'' 0]"
  unfolding delivers_pieces_def
  by (auto simp: demo_objects_def demo_chunk_def chunk_messages_def chunk_subject_def demo_objects_bucket_def
      intro!: exI [of _ "[demo_chunk ''ab'' 1, demo_chunk ''c'' 0]"])

lemma demo_cut: "cut 2 ''abc'' = [''ab'', ''c'']"
  by code_simp

lemma demo_upload_of: "upload_of demo_objects 2 ''N'' ''abc'' = demo_upload"
  by (simp add: upload_of_def demo_upload_def digest_string_def demo_objects_def wrap64_def)

lemma demo_info_fields:
  "oi_nuid demo_object_info = ''N''" "oi_chunks demo_object_info = 2" "oi_size demo_object_info = 3"
  "oi_digest demo_object_info = ''SHA-256=abc''" "ob_bucket demo_objects_bucket = ''B''"
  by (simp_all add: demo_object_info_def demo_objects_bucket_def)

lemma demo_digest: "digest_string demo_objects ''abc'' = ''SHA-256=abc''"
  by (simp add: digest_string_def demo_objects_def)

theorem upload_ignores_slicing_witness:
  "upload_chunks demo_objects None demo_objects_bucket ''N'' 2 (reader_of_flow read_file) ([], ''abc'') =
     then_do (publish_pieces demo_objects None demo_objects_bucket ''N'' [''ab'', ''c'']) (\<lambda>_. returns demo_upload)"
  using upload_ignores_slicing [OF file_source.byte_source_axioms, of 2 demo_objects None demo_objects_bucket "''N''" "([], ''abc'')"]
  by (simp add: demo_cut demo_upload_of)

theorem objects_read_back_witness:
  "\<exists>info w'. info_of_wire ''B'' ''o'' ''now'' (wire_of_upload demo_objects_bucket demo_objects_meta demo_upload) =
       (Inr info :: unit object_error + store_info) \<and>
     get_content demo_objects None demo_objects_bucket info [demo_chunk ''ab'' 1, demo_chunk ''c'' 0] = Some (Inr info, ''abc'', w')"
proof -
  have fields: "om_chunk_size demo_objects_meta = 2" "om_name demo_objects_meta = ''o''" "om_headers demo_objects_meta = []"
    "ob_bucket demo_objects_bucket = ''B''"
    by (simp_all add: demo_objects_meta_def demo_objects_bucket_def)
  show ?thesis
    using objects_read_back [OF string_source.byte_source_axioms, of demo_objects_meta demo_objects None demo_objects_bucket
        "''N''" "''abc''" "[]" demo_upload "[]" "[demo_chunk ''ab'' 1, demo_chunk ''c'' 0]" "''now''"]
    by (auto simp: fields demo_uploaded wf_header_def demo_cut demo_delivers)
qed

theorem content_is_verified_witness:
  "\<exists>w'. get_object demo_objects None False 10 demo_objects_bucket ''A'' [demo_chunk ''ab'' 1, demo_chunk ''c'' 0] =
       Some (Inr demo_object_info, ''abc'', w') \<and>
     oi_link demo_object_info = None \<and> oi_digest demo_object_info = digest_string demo_objects ''abc''"
proof -
  let ?w = "[demo_chunk ''ab'' 1, demo_chunk ''c'' 0]"
  have "literal subject_of_string ''$O.B.C.N'' = Some ''$O.B.C.N''" by code_simp
  then have "\<exists>w'. get_content demo_objects None demo_objects_bucket demo_object_info ?w = Some (Inr demo_object_info, concat [''ab'', ''c''], w')"
    by (intro get_content_complete [of _ _ "''$O.B.C.N''"])
      (simp_all add: demo_info_fields demo_delivers demo_digest chunk_subject_def wrap64_def)
  then obtain w' where run: "get_object demo_objects None False 10 demo_objects_bucket ''A'' ?w = Some (Inr demo_object_info, ''abc'', w')"
    by (auto simp: get_object_def timeout_deadline_def demo_live)
  from content_is_verified [OF run] run show ?thesis by blast
qed

end
