(* ===== verification/ObjectOrder.thy ===== *)
theory ObjectOrder
  imports ObjectClaims
begin

text \<open>
  The order of the requests an operation of the Object Store makes: what is sent, what of it was
  acknowledged before what, and how many requests following links takes.
\<close>

section \<open>The requests that were made\<close>

text \<open>\<open>history\<close> is what was asked and answered so far; requests add to it and nothing else does.\<close>

type_synonym 'x exchange = "message \<times> ('x connection_error + message)"

definition records :: "('x, 'c, 'w) object_env \<Rightarrow> ('w \<Rightarrow> 'x exchange list) \<Rightarrow> bool" where
  "records e history \<longleftrightarrow>
     (\<forall>timeout m w. history (snd (request_msg (js_link (ov_js e)) timeout m w)) =
        history w @ [(m, fst (request_msg (js_link (ov_js e)) timeout m w))]) \<and>
     (\<forall>d w. history (sleep_until (js_link (ov_js e)) d w) = history w) \<and>
     (\<forall>w. history (snd (ov_inbox e w)) = history w)"

lemma recordsD:
  assumes "records e history"
  shows "request_msg (js_link (ov_js e)) timeout m w = (r, w') \<Longrightarrow> history w' = history w @ [(m, r)]"
    and "history (sleep_until (js_link (ov_js e)) d w) = history w"
    and "ov_inbox e w = (inbox, w') \<Longrightarrow> history w' = history w"
proof -
  have q: "history (snd (request_msg (js_link (ov_js e)) timeout m w)) =
      history w @ [(m, fst (request_msg (js_link (ov_js e)) timeout m w))]" for timeout m w
    using assms by (simp add: records_def)
  have inbox: "history (snd (ov_inbox e w)) = history w" for w
    using assms by (simp add: records_def)
  show "request_msg (js_link (ov_js e)) timeout m w = (r, w') \<Longrightarrow> history w' = history w @ [(m, r)]"
    using q [of timeout m w] by simp
  show "history (sleep_until (js_link (ov_js e)) d w) = history w" using assms by (simp add: records_def)
  show "ov_inbox e w = (inbox, w') \<Longrightarrow> history w' = history w" using inbox [of w] by simp
qed

definition does :: "('w \<Rightarrow> 'x exchange list) \<Rightarrow> ('w \<Rightarrow> ('r \<times> 'w) option) \<Rightarrow> ('r \<Rightarrow> 'x exchange list \<Rightarrow> bool) \<Rightarrow> bool" where
  "does history f P \<longleftrightarrow> (\<forall>w r w'. f w = Some (r, w') \<longrightarrow> (\<exists>h. history w' = history w @ h \<and> P r h))"

lemma doesI: "(\<And>w r w'. f w = Some (r, w') \<Longrightarrow> \<exists>h. history w' = history w @ h \<and> P r h) \<Longrightarrow> does history f P"
  by (simp add: does_def)

lemma doesE:
  assumes "does history f P" and "f w = Some (r, w')"
  obtains h where "history w' = history w @ h" and "P r h"
  using assms unfolding does_def by blast

lemma does_weaken: "does history f P \<Longrightarrow> (\<And>r h. P r h \<Longrightarrow> Q r h) \<Longrightarrow> does history f Q"
  unfolding does_def by blast

lemma does_then_do:
  assumes "does history f P" and "\<And>a. does history (g a) (Q a)"
  shows "does history (then_do f g) (\<lambda>r h.
     (\<exists>error. r = Inl error \<and> P (Inl error) h) \<or> (\<exists>a h1 h2. h = h1 @ h2 \<and> P (Inr a) h1 \<and> Q a r h2))"
proof (rule doesI)
  fix w r w' assume run: "then_do f g w = Some (r, w')"
  then obtain r1 w1 where f: "f w = Some (r1, w1)" by (auto simp: then_do_def split: option.splits)
  obtain h1 where h1: "history w1 = history w @ h1" "P r1 h1" by (rule doesE [OF assms(1) f])
  show "\<exists>h. history w' = history w @ h \<and> ((\<exists>error. r = Inl error \<and> P (Inl error) h) \<or>
      (\<exists>a h1 h2. h = h1 @ h2 \<and> P (Inr a) h1 \<and> Q a r h2))"
  proof (cases r1)
    case (Inl error)
    then show ?thesis using run f h1 by (auto simp: then_do_def)
  next
    case (Inr a)
    then have "g a w1 = Some (r, w')" using run f by (simp add: then_do_def)
    then obtain h2 where "history w' = history w1 @ h2" "Q a r h2" by (rule doesE [OF assms(2)])
    then show ?thesis using h1 Inr by (intro exI [of _ "h1 @ h2"]) auto
  qed
qed

lemma does_within:
  assumes "\<And>timeout. does history (f timeout) P"
  shows "does history (within e deadline f) (\<lambda>r h. r = Inl (Object_connection Timeout) \<and> h = [] \<or> P r h)"
proof (rule doesI)
  fix w r w' assume "within e deadline f w = Some (r, w')"
  then consider "r = Inl (Object_connection Timeout)" "w' = w" | timeout where "f timeout w = Some (r, w')"
    by (auto simp: within_def object_remaining_def split: sum.splits option.splits if_splits)
  then show "\<exists>h. history w' = history w @ h \<and> (r = Inl (Object_connection Timeout) \<and> h = [] \<or> P r h)"
  proof cases
    case (2 timeout)
    with assms show ?thesis by (meson doesE)
  qed simp
qed

lemma does_pure: "does history (pure_result r0) (\<lambda>r h. r = r0 \<and> h = [])"
  by (simp add: does_def pure_result_def)

section \<open>One publication\<close>

text \<open>A publication is repeated while nobody responds; it is acknowledged by its last exchange.\<close>

definition tries :: "message \<Rightarrow> 'x exchange list \<Rightarrow> bool" where
  "tries m h \<longleftrightarrow> (\<forall>x \<in> set h. fst x = m) \<and> (\<forall>x \<in> set (butlast h). snd x = Inl No_responders)"

definition acknowledged :: "('x, 'w) jetstream \<Rightarrow> message \<Rightarrow> 'x exchange list \<Rightarrow> bool" where
  "acknowledged js m h \<longleftrightarrow> tries m h \<and>
     (\<exists>reply ack. h \<noteq> [] \<and> snd (last h) = Inr reply \<and> publish_ack_of_message js reply = Inr ack)"

lemma tries_Nil [simp]: "tries m []"
  by (simp add: tries_def)

lemma tries_single [simp]: "tries m [(m, r)]"
  by (simp add: tries_def)

lemma tries_again: "tries m h \<Longrightarrow> tries m ((m, Inl No_responders) # h)"
  by (cases h) (auto simp: tries_def)

lemma wait_records:
  assumes "records e history" and "wait_before_retry (js_link (ov_js e)) retry_wait deadline w = (r, w')"
  shows "history w' = history w"
  using assms(2) recordsD(2) [OF assms(1)]
  by (auto simp: wait_before_retry_def Let_def split: option.splits if_splits)

definition exchanged :: "('w \<Rightarrow> 'x exchange list) \<Rightarrow> message \<Rightarrow> 'w \<Rightarrow> ('x connection_error + message) \<times> 'w \<Rightarrow> bool" where
  "exchanged history m w y \<longleftrightarrow>
     (\<exists>h. history (snd y) = history w @ h \<and> tries m h \<and> (\<forall>reply. fst y = Inr reply \<longrightarrow> h \<noteq> [] \<and> snd (last h) = Inr reply))"

lemma exchangedI:
  "history w' = history w @ h \<Longrightarrow> tries m h \<Longrightarrow> (\<And>reply. r = Inr reply \<Longrightarrow> h \<noteq> [] \<and> snd (last h) = Inr reply) \<Longrightarrow>
     exchanged history m w (r, w')"
  unfolding exchanged_def by auto

lemma retry_loop_tries:
  fixes e :: "('x, 'c, 'w) object_env"
  assumes rec: "records e history"
    and "retry_loop t retry_wait attempts deadline m retries w = Some y"
  shows "t = js_link (ov_js e) \<Longrightarrow> exchanged history m w y"
  using assms(2)
proof (induct t retry_wait attempts deadline m retries w y rule: retry_loop.raw_induct [rotated 1, consumes 1, case_names step])
  case (step again t retry_wait attempts deadline m retries w y)
  note IH = step(1) and run = step(2) and link = step(3)
  show ?case
  proof (cases "remaining_timeout deadline (link_now t w) :: 'x connection_error + nat option")
    case (Inl error)
    then have "y = (Inl error, w)" using run by simp
    then show ?thesis by (auto intro!: exchangedI [of _ _ _ "[]"])
  next
    case (Inr timeout)
    obtain r w1 where q: "request_msg t timeout m w = (r, w1)" by (cases "request_msg t timeout m w")
    have h1: "history w1 = history w @ [(m, r)]" using recordsD(1) [OF rec] q link by simp
    have ended: "y = (r, w1) \<Longrightarrow> ?thesis" using h1 by (auto intro!: exchangedI [of _ _ _ "[(m, r)]"])
    show ?thesis
    proof (cases "r = Inl No_responders \<and> should_retry attempts retries")
      case False
      then have "y = (r, w1)" using run Inr q by (auto split: sum.splits connection_error.splits if_splits)
      then show ?thesis by (rule ended)
    next
      case True
      obtain r2 w2 where wt: "wait_before_retry t retry_wait deadline w1 = (r2, w2)"
        by (cases "wait_before_retry t retry_wait deadline w1")
      have h2: "history w2 = history w @ [(m, Inl No_responders)]"
        using wait_records [OF rec] wt link h1 True by simp
      show ?thesis
      proof (cases r2)
        case (Inl error)
        then have "y = (Inl error, w2)" using run Inr q True wt by simp
        then show ?thesis using h2 by (auto intro!: exchangedI [of _ _ _ "[(m, Inl No_responders)]"])
      next
        case (Inr u)
        then have "again t retry_wait attempts deadline m (retries + 1) w2 = Some y"
          using run \<open>remaining_timeout deadline (link_now t w) = Inr timeout\<close> q True wt by simp
        from IH [OF this link] obtain h where "history (snd y) = history w2 @ h" "tries m h"
          "\<forall>reply. fst y = Inr reply \<longrightarrow> h \<noteq> [] \<and> snd (last h) = Inr reply"
          by (auto simp: exchanged_def)
        then show ?thesis
          unfolding exchanged_def using h2 tries_again by (intro exI [of _ "(m, Inl No_responders) # h"]) auto
      qed
    qed
  qed
qed

lemma js_publish_history:
  fixes e :: "('x, 'c, 'w) object_env"
  assumes rec: "records e history"
  shows "does history (js_publish (ov_js e) timeout headers None None s payload)
     (\<lambda>r h. tries (message_v s headers payload) h \<and> (\<forall>ack. r = Inr ack \<longrightarrow> acknowledged (ov_js e) (message_v s headers payload) h))"
proof (rule doesI)
  fix w r w'
  let ?m = "message_v s headers payload"
  assume run: "js_publish (ov_js e) timeout headers None None s payload w = Some (r, w')"
  have "js_publish (ov_js e) timeout headers None None s payload w =
      map_option (\<lambda>(r, w'). case r of Inl error \<Rightarrow> (Inl (Connection_error error), w')
          | Inr reply \<Rightarrow> (publish_ack_of_message (ov_js e) reply, w'))
        (request_msg_retry (js_link (ov_js e)) timeout (250 * 10 ^ 6) (Some 2) ?m w)"
    by (simp add: js_publish_def publish_message_plain default_publish_retry_def empty_options_fields)
  with run obtain y where y: "request_msg_retry (js_link (ov_js e)) timeout (250 * 10 ^ 6) (Some 2) ?m w = Some y"
    "(case y of (r0, w') \<Rightarrow> case r0 of Inl error \<Rightarrow> (Inl (Connection_error error), w')
          | Inr reply \<Rightarrow> (publish_ack_of_message (ov_js e) reply, w')) = (r, w')"
    by auto
  define r0 where "r0 = fst y"
  have retry: "request_msg_retry (js_link (ov_js e)) timeout (250 * 10 ^ 6) (Some 2) ?m w = Some (r0, w')"
    and r: "r = (case r0 of Inl error \<Rightarrow> Inl (Connection_error error) | Inr reply \<Rightarrow> publish_ack_of_message (ov_js e) reply)"
    using y by (auto simp: r0_def split: prod.splits sum.splits)
  have "exchanged history ?m w (r0, w')"
  proof (cases "request_deadline timeout (link_now (js_link (ov_js e)) w) :: 'x connection_error + nat option")
    case (Inl error)
    then have "r0 = Inl error \<and> w' = w" using retry by (simp add: request_msg_retry_def validate_timeout_def)
    then show ?thesis by (auto intro!: exchangedI [of _ _ _ "[]"])
  next
    case (Inr deadline)
    then have "retry_loop (js_link (ov_js e)) (250 * 10 ^ 6) (Some 2) deadline ?m 0 w = Some (r0, w')"
      using retry by (simp add: request_msg_retry_def validate_timeout_def)
    from retry_loop_tries [OF rec this refl] show ?thesis .
  qed
  then obtain h where h: "history w' = history w @ h" "tries ?m h" "\<forall>reply. r0 = Inr reply \<longrightarrow> h \<noteq> [] \<and> snd (last h) = Inr reply"
    by (auto simp: exchanged_def)
  then show "\<exists>h. history w' = history w @ h \<and> tries ?m h \<and> (\<forall>ack. r = Inr ack \<longrightarrow> acknowledged (ov_js e) ?m h)"
    using r by (intro exI [of _ h]) (auto simp: acknowledged_def split: sum.splits)
qed

section \<open>The operations\<close>

lemma literal_same:
  "literal subject_of_string s = Some s' \<Longrightarrow> s' = s" "literal filter_of_string s = Some s' \<Longrightarrow> s' = s"
  by (auto simp: literal_def subject_of_string_def filter_of_string_def validate_valid split: sum.splits)

definition asks :: "(message \<Rightarrow> bool) \<Rightarrow> 'x exchange list \<Rightarrow> bool" where
  "asks P h \<longleftrightarrow> length h \<le> 1 \<and> (\<forall>x \<in> set h. P (fst x))"

lemma asks_Nil [simp]: "asks P []"
  by (simp add: asks_def)

definition reads_info :: "('x, 'c, 'w) object_env \<Rightarrow> object_bucket \<Rightarrow> string \<Rightarrow> message \<Rightarrow> bool" where
  "reads_info e b name m \<longleftrightarrow>
     m = message_v (api_subject (ov_js e) [''DIRECT'', ''GET'', ob_stream b, metadata_subject e (ob_bucket b) name]) [] []"

definition purges :: "('x, 'c, 'w) object_env \<Rightarrow> object_bucket \<Rightarrow> string \<Rightarrow> message \<Rightarrow> bool" where
  "purges e b subj m \<longleftrightarrow>
     (\<exists>payload. js_encode_purge (ov_js e) \<lparr>pq_filter = Some subj, pq_keep = None\<rparr> = Inr payload \<and>
        m = message_v (api_subject (ov_js e) [''STREAM'', ''PURGE'', ob_stream b]) [] payload)"

lemma js_request_history:
  assumes "records e history" and "js_request (ov_js e) timeout m w = (r, w')"
  shows "\<exists>r0. history w' = history w @ [(m, r0)]"
proof -
  obtain r0 w1 where q: "request_msg (js_link (ov_js e)) timeout m w = (r0, w1)"
    by (cases "request_msg (js_link (ov_js e)) timeout m w")
  then have "w' = w1" using assms(2) by (auto simp: js_request_def split: sum.splits)
  with recordsD(1) [OF assms(1) q] show ?thesis by blast
qed

lemma read_info_history:
  assumes "records e history"
  shows "does history (read_info_raw e b name timeout) (\<lambda>r h. asks (reads_info e b name) h)"
proof (rule doesI)
  fix w r w'
  let ?s = "metadata_subject e (ob_bucket b) name"
  assume run: "read_info_raw e b name timeout w = Some (r, w')"
  then obtain s where s: "literal subject_of_string ?s = Some s"
    by (auto simp: read_info_raw_def with_literal_def split: option.splits)
  obtain r1 w1 where q: "js_request (ov_js e) timeout
      (message_v (api_subject (ov_js e) [''DIRECT'', ''GET'', ob_stream b, ?s]) [] []) w = (r1, w1)"
    by (cases "js_request (ov_js e) timeout (message_v (api_subject (ov_js e) [''DIRECT'', ''GET'', ob_stream b, ?s]) [] []) w")
  have "w' = w1"
    using run s literal_same(1) [OF s] q
    by (auto simp: read_info_raw_def with_literal_def stream_get_last_def split: sum.splits js_error.splits)
  with js_request_history [OF assms q] show "\<exists>h. history w' = history w @ h \<and> asks (reads_info e b name) h"
    by (auto simp: asks_def reads_info_def)
qed

lemma object_publish_history:
  assumes "records e history"
  shows "does history (object_publish e timeout headers subj payload)
     (\<lambda>r h. tries (message_v subj headers payload) h \<and> (r = Inr () \<longrightarrow> acknowledged (ov_js e) (message_v subj headers payload) h))"
proof (rule doesI)
  fix w r w'
  assume run: "object_publish e timeout headers subj payload w = Some (r, w')"
  then obtain s where s: "literal subject_of_string subj = Some s"
    by (auto simp: object_publish_def with_literal_def split: option.splits)
  then obtain r0 where r0: "js_publish (ov_js e) timeout headers None None subj payload w = Some (r0, w')"
    and r: "r = (case r0 of Inl error \<Rightarrow> Inl (object_jetstream_error error) | Inr _ \<Rightarrow> Inr ())"
    using run literal_same(1) [OF s] by (auto simp: object_publish_def with_literal_def)
  from js_publish_history [OF assms] r0 obtain h where "history w' = history w @ h" "tries (message_v subj headers payload) h"
    "\<forall>ack. r0 = Inr ack \<longrightarrow> acknowledged (ov_js e) (message_v subj headers payload) h"
    by (rule doesE) blast
  then show "\<exists>h. history w' = history w @ h \<and> tries (message_v subj headers payload) h \<and>
      (r = Inr () \<longrightarrow> acknowledged (ov_js e) (message_v subj headers payload) h)"
    using r by (intro exI [of _ h]) (auto split: sum.splits)
qed

lemma purge_history:
  assumes "records e history"
  shows "does history (purge_chunks e timeout b subj) (\<lambda>r h. asks (purges e b subj) h)"
proof (rule doesI)
  fix w r w'
  assume run: "purge_chunks e timeout b subj w = Some (r, w')"
  then obtain s where s: "literal filter_of_string subj = Some s"
    by (auto simp: purge_chunks_def split: option.splits)
  then have w': "w' = snd (stream_purge (ov_js e) timeout (Some subj) None (ob_stream b) w)"
    using run literal_same(2) [OF s] by (auto simp: purge_chunks_def split: prod.splits sum.splits)
  show "\<exists>h. history w' = history w @ h \<and> asks (purges e b subj) h"
  proof (cases "js_encode_purge (ov_js e) \<lparr>pq_filter = Some subj, pq_keep = None\<rparr>")
    case (Inl error)
    then show ?thesis using w' by (simp add: stream_purge_def)
  next
    case (Inr payload)
    let ?m = "message_v (api_subject (ov_js e) [''STREAM'', ''PURGE'', ob_stream b]) [] payload"
    obtain r1 w1 where q: "js_request (ov_js e) timeout ?m w = (r1, w1)" by (cases "js_request (ov_js e) timeout ?m w")
    then have "w' = w1" using w' Inr by (auto simp: stream_purge_def split: sum.splits option.splits)
    with js_request_history [OF assms q] Inr show ?thesis by (auto simp: asks_def purges_def)
  qed
qed

text \<open>The pieces were acknowledged one after the other, all of them or up to the first that was not.\<close>

inductive sent :: "('x, 'w) jetstream \<Rightarrow> (string \<Rightarrow> message) \<Rightarrow> string list \<Rightarrow> bool \<Rightarrow> 'x exchange list \<Rightarrow> bool" for js mk where
  sent_all: "sent js mk [] True []"
| sent_piece: "acknowledged js (mk p) h1 \<Longrightarrow> sent js mk ps whole h2 \<Longrightarrow> sent js mk (p # ps) whole (h1 @ h2)"
| sent_stop: "tries (mk p) h \<Longrightarrow> sent js mk (p # ps) False h"

lemma sent_none: "sent js mk (p # ps) False []"
  by (rule sent_stop [OF tries_Nil])

lemma sent_nothing: "\<exists>whole. sent js mk ps whole []"
  by (cases ps) (auto intro: sent_all sent_none)

definition chunk_message :: "object_bucket \<Rightarrow> string \<Rightarrow> string \<Rightarrow> message" where
  "chunk_message b nuid p = message_v (chunk_subject (ob_bucket b) nuid) [] p"

lemma publish_pieces_history:
  assumes "records e history"
  shows "does history (publish_pieces e deadline b nuid ps) (\<lambda>r h. sent (ov_js e) (chunk_message b nuid) ps (r = Inr ()) h)"
proof (induction ps)
  case Nil
  show ?case by (auto simp: does_def returns_def intro: sent_all)
next
  case (Cons p ps)
  note first = does_within [OF object_publish_history [OF assms, of _ "[]" "chunk_subject (ob_bucket b) nuid" p], of e deadline]
  show ?case
    unfolding publish_pieces.simps
    by (rule does_weaken [OF does_then_do [OF first Cons.IH]])
      (auto simp: chunk_message_def [symmetric] intro: sent_piece sent_stop sent_none)
qed

definition metadata_message :: "('x, 'c, 'w) object_env \<Rightarrow> object_bucket \<Rightarrow> string \<Rightarrow> wire_object \<Rightarrow> message \<Rightarrow> bool" where
  "metadata_message e b name wire m \<longleftrightarrow>
     (\<exists>payload. encode_wire e wire = (Inr payload :: 'x object_error + string) \<and>
        m = message_v (metadata_subject e (ob_bucket b) name) metadata_headers payload)"

text \<open>A publication of metadata: \<open>stored\<close> when it was acknowledged.\<close>

definition describes_object ::
  "('x, 'c, 'w) object_env \<Rightarrow> object_bucket \<Rightarrow> string \<Rightarrow> wire_object \<Rightarrow> bool \<Rightarrow> 'x exchange list \<Rightarrow> bool" where
  "describes_object e b name wire stored h \<longleftrightarrow>
     h = [] \<and> \<not> stored \<or>
     (\<exists>m. metadata_message e b name wire m \<and> tries m h \<and> (stored \<longrightarrow> acknowledged (ov_js e) m h))"

lemma publish_metadata_history:
  fixes e :: "('x, 'c, 'w) object_env"
  assumes "records e history"
  shows "does history (publish_metadata e deadline b name wire) (\<lambda>r h. describes_object e b name wire (r = Inr ()) h)"
proof (cases "encode_wire e wire :: 'x object_error + string")
  case (Inl error)
  then show ?thesis by (auto simp: does_def publish_metadata_def then_do_def pure_result_def describes_object_def)
next
  case (Inr payload)
  let ?m = "message_v (metadata_subject e (ob_bucket b) name) metadata_headers payload"
  have m: "metadata_message e b name wire ?m" using Inr by (auto simp: metadata_message_def)
  have eq: "publish_metadata e deadline b name wire =
      within e deadline (\<lambda>timeout. object_publish e timeout metadata_headers (metadata_subject e (ob_bucket b) name) payload)"
    using Inr by (auto simp: publish_metadata_def then_do_def pure_result_def fun_eq_iff)
  show ?thesis
    unfolding eq
    by (rule does_weaken [OF does_within [OF object_publish_history [OF assms]]])
      (use m in \<open>auto simp: describes_object_def\<close>)
qed

definition upload_trace ::
  "('x, 'c, 'w) object_env \<Rightarrow> object_bucket \<Rightarrow> object_meta \<Rightarrow> string \<Rightarrow> string \<Rightarrow> bool \<Rightarrow> 'x exchange list \<Rightarrow> 'x exchange list \<Rightarrow> bool" where
  "upload_trace e b meta nuid content stored h_chunks h_meta \<longleftrightarrow>
     (let n = nat (om_chunk_size meta) in
      \<exists>whole. sent (ov_js e) (chunk_message b nuid) (cut n content) whole h_chunks \<and>
        (\<not> whole \<longrightarrow> h_meta = []) \<and>
        describes_object e b (om_name meta) (wire_of_upload b meta (upload_of e n nuid content)) stored h_meta)"

lemma store_object_history:
  assumes rec: "records e history" and source: "byte_source rd remaining" and n: "0 < om_chunk_size meta"
  shows "does history (store_object e deadline b meta nuid rd r)
     (\<lambda>res h. \<exists>h_chunks h_meta. h = h_chunks @ h_meta \<and> upload_trace e b meta nuid (remaining r) (res = Inr ()) h_chunks h_meta)"
proof -
  let ?n = "nat (om_chunk_size meta)"
  have eq: "store_object e deadline b meta nuid rd r =
      then_do (publish_pieces e deadline b nuid (cut ?n (remaining r)))
        (\<lambda>_. publish_metadata e deadline b (om_name meta) (wire_of_upload b meta (upload_of e ?n nuid (remaining r))))"
    using byte_source.upload_chunks_pieces [OF source, of ?n e deadline b nuid r] n
    by (simp add: store_object_def then_do_assoc) (simp add: then_do_def returns_def fun_eq_iff split: option.splits sum.splits)
  show ?thesis
    unfolding eq
  proof (rule does_weaken [OF does_then_do [OF publish_pieces_history [OF rec] publish_metadata_history [OF rec]]])
    fix res h
    assume "(\<exists>error. res = Inl error \<and> sent (ov_js e) (chunk_message b nuid) (cut ?n (remaining r)) (Inl error = Inr ()) h) \<or>
      (\<exists>u h1 h2. h = h1 @ h2 \<and> sent (ov_js e) (chunk_message b nuid) (cut ?n (remaining r)) (Inr u = Inr ()) h1 \<and>
        describes_object e b (om_name meta) (wire_of_upload b meta (upload_of e ?n nuid (remaining r))) (res = Inr ()) h2)"
    then show "\<exists>h_chunks h_meta. h = h_chunks @ h_meta \<and> upload_trace e b meta nuid (remaining r) (res = Inr ()) h_chunks h_meta"
    proof (elim disjE exE conjE)
      fix error assume "res = Inl error" "sent (ov_js e) (chunk_message b nuid) (cut ?n (remaining r)) (Inl error = Inr ()) h"
      then show ?thesis
        by (intro exI [of _ h] exI [of _ "[]"]) (auto simp: upload_trace_def describes_object_def Let_def)
    next
      fix u h1 h2
      assume "h = h1 @ h2" "sent (ov_js e) (chunk_message b nuid) (cut ?n (remaining r)) (Inr u = Inr ()) h1"
        "describes_object e b (om_name meta) (wire_of_upload b meta (upload_of e ?n nuid (remaining r))) (res = Inr ()) h2"
      then show ?thesis
        by (intro exI [of _ h1] exI [of _ h2]) (auto simp: upload_trace_def Let_def)
    qed
  qed
qed

lemma finish_put_history:
  assumes "records e history"
  shows "does history (finish_put e deadline b name old)
     (\<lambda>r h. \<exists>h1 h2. h = h1 @ h2 \<and> asks (reads_info e b name) h1 \<and>
        asks (\<lambda>m. \<exists>old_info. old = Some old_info \<and> oi_nuid old_info \<noteq> [] \<and>
          purges e b (chunk_subject (ob_bucket b) (oi_nuid old_info)) m) h2)"
proof (rule doesI)
  fix w r w' assume run: "finish_put e deadline b name old w = Some (r, w')"
  then obtain r1 w1 where first: "within e deadline (read_info_raw e b name) w = Some (r1, w1)"
    by (auto simp: finish_put_def split: option.splits)
  with run obtain cleanup where purge: "purge_replaced e deadline b old w1 = Some (cleanup, w')"
    by (auto simp: finish_put_def)
  obtain h1 where h1: "history w1 = history w @ h1" "asks (reads_info e b name) h1"
    by (rule doesE [OF does_within [OF read_info_history [OF assms]] first]) auto
  have "\<exists>h2. history w' = history w1 @ h2 \<and> asks (\<lambda>m. \<exists>old_info. old = Some old_info \<and> oi_nuid old_info \<noteq> [] \<and>
      purges e b (chunk_subject (ob_bucket b) (oi_nuid old_info)) m) h2"
  proof (cases "w' = w1")
    case False
    then obtain old_info timeout where old: "old = Some old_info" "oi_nuid old_info \<noteq> []"
      and p: "purge_chunks e timeout b (chunk_subject (ob_bucket b) (oi_nuid old_info)) w1 = Some (cleanup, w')"
      using purge by (auto simp: purge_replaced_def purge_old_def split: option.splits if_splits sum.splits)
    show ?thesis by (rule doesE [OF purge_history [OF assms] p]) (use old in auto)
  qed simp
  then obtain h2 where "history w' = history w1 @ h2" "asks (\<lambda>m. \<exists>old_info. old = Some old_info \<and> oi_nuid old_info \<noteq> [] \<and>
      purges e b (chunk_subject (ob_bucket b) (oi_nuid old_info)) m) h2" by blast
  with h1 show "\<exists>h. history w' = history w @ h \<and> (\<exists>h1 h2. h = h1 @ h2 \<and> asks (reads_info e b name) h1 \<and>
      asks (\<lambda>m. \<exists>old_info. old = Some old_info \<and> oi_nuid old_info \<noteq> [] \<and>
        purges e b (chunk_subject (ob_bucket b) (oi_nuid old_info)) m) h2)"
    by (intro exI [of _ "h1 @ h2"]) auto
qed

text \<open>
  \<open>old\<close> is what the name stood for before. Once the new description is acknowledged (\<open>stored\<close>), it is
  read back and the old chunks go; until then nothing goes but what this upload sent itself.
\<close>

definition put_trace ::
  "('x, 'c, 'w) object_env \<Rightarrow> object_bucket \<Rightarrow> object_meta \<Rightarrow> string \<Rightarrow> store_info option \<Rightarrow> bool \<Rightarrow> 'x exchange list \<Rightarrow> bool" where
  "put_trace e b meta content old stored h \<longleftrightarrow>
     (\<exists>nuid h_chunks h_meta h_read h_purge. h = h_chunks @ h_meta @ h_read @ h_purge \<and>
        upload_trace e b meta nuid content stored h_chunks h_meta \<and>
        asks (\<lambda>m. stored \<and> reads_info e b (om_name meta) m) h_read \<and>
        asks (\<lambda>m. if stored
          then \<exists>old_info. old = Some old_info \<and> oi_nuid old_info \<noteq> [] \<and>
            purges e b (chunk_subject (ob_bucket b) (oi_nuid old_info)) m
          else purges e b (chunk_subject (ob_bucket b) nuid) m) h_purge)"

lemma put_new_history:
  assumes rec: "records e history" and source: "byte_source rd remaining" and n: "0 < om_chunk_size meta"
  shows "does history (put_new e deadline b meta rd r old)
     (\<lambda>res h. \<exists>stored. put_trace e b meta (remaining r) old stored h \<and> (\<not> stored \<longrightarrow> (\<exists>error. res = Inl error)))"
proof (rule doesI)
  fix w res w' assume run: "put_new e deadline b meta rd r old w = Some (res, w')"
  obtain inbox w1 where inbox: "ov_inbox e w = (inbox, w1)" by (cases "ov_inbox e w")
  define nuid where "nuid = ov_base64 e inbox"
  have nuid: "new_nuid e w = (nuid, w1)" using inbox by (simp add: new_nuid_def nuid_def)
  have w1: "history w1 = history w" by (rule recordsD(3) [OF rec inbox])
  obtain r2 w2 where store: "store_object e deadline b meta nuid rd r w1 = Some (r2, w2)"
    using run nuid by (auto simp: put_new_def split: option.splits)
  obtain h_chunks h_meta where h: "history w2 = history w @ h_chunks @ h_meta"
    "upload_trace e b meta nuid (remaining r) (r2 = Inr ()) h_chunks h_meta"
    by (rule doesE [OF store_object_history [OF rec source n] store]) (use w1 in auto)
  show "\<exists>h. history w' = history w @ h \<and>
      (\<exists>stored. put_trace e b meta (remaining r) old stored h \<and> (\<not> stored \<longrightarrow> (\<exists>error. res = Inl error)))"
  proof (cases r2)
    case (Inl error)
    then obtain cleanup where purge: "purge_chunks e None b (chunk_subject (ob_bucket b) nuid) w2 = Some (cleanup, w')"
      and res: "res = Inl error"
      using run nuid store by (auto simp: put_new_def)
    obtain h2 where h2: "history w' = history w2 @ h2" "asks (purges e b (chunk_subject (ob_bucket b) nuid)) h2"
      by (rule doesE [OF purge_history [OF rec] purge])
    have "put_trace e b meta (remaining r) old False (h_chunks @ h_meta @ h2)"
      unfolding put_trace_def using h(2) h2(2) Inl
      by (intro exI [of _ nuid] exI [of _ h_chunks] exI [of _ h_meta] exI [of _ "[]"] exI [of _ h2]) simp
    with h(1) h2(1) res show ?thesis by (intro exI [of _ "h_chunks @ h_meta @ h2"]) auto
  next
    case (Inr u)
    then have "finish_put e deadline b (om_name meta) old w2 = Some (res, w')"
      using run nuid store by (simp add: put_new_def)
    then obtain h1 h2 where h12: "history w' = history w2 @ h1 @ h2" "asks (reads_info e b (om_name meta)) h1"
      "asks (\<lambda>m. \<exists>old_info. old = Some old_info \<and> oi_nuid old_info \<noteq> [] \<and>
          purges e b (chunk_subject (ob_bucket b) (oi_nuid old_info)) m) h2"
      by (rule doesE [OF finish_put_history [OF rec]]) blast
    have "put_trace e b meta (remaining r) old True (h_chunks @ h_meta @ h1 @ h2)"
      unfolding put_trace_def using h(2) h12(2,3) Inr
      by (intro exI [of _ nuid] exI [of _ h_chunks] exI [of _ h_meta] exI [of _ h1] exI [of _ h2]) simp
    with h(1) h12(1) show ?thesis by (intro exI [of _ "h_chunks @ h_meta @ h1 @ h2"]) auto
  qed
qed

text \<open>
  C17: An object is stored in an order that readers can rely on. Every request of \<open>put\<close> is one of
  these, in this order: a read of what the name stands for; the pieces of the content, each
  acknowledged before the next; when all of them were, the description of exactly this upload; and
  only when that was acknowledged, a read of it and the purge of the chunks of the object it
  replaces. Until then nothing is purged but the chunks of this upload, and \<open>put\<close> answers with an
  error.
\<close>

theorem put_keeps_order:
  assumes rec: "records e history" and source: "byte_source rd remaining" and n: "0 < om_chunk_size meta"
    and run: "put e timeout b meta rd r w = Some (res, w')"
  shows "\<exists>first w1 h_read h.
     within e (timeout_deadline e timeout w) (read_info_raw e b (om_name meta)) w = Some (first, w1) \<and>
     history w' = history w @ h_read @ h \<and> asks (reads_info e b (om_name meta)) h_read \<and>
     (h = [] \<and> (\<exists>error. first = Inl error \<and> res = Inl error) \<or>
      (\<exists>stored. put_trace e b meta (remaining r) (case first of Inr info \<Rightarrow> Some info | Inl _ \<Rightarrow> None) stored h \<and>
         (first = Inl Object_not_found \<or> (\<exists>info. first = Inr info)) \<and>
         (\<not> stored \<longrightarrow> (\<exists>error. res = Inl error))))"
proof -
  let ?d = "timeout_deadline e timeout w"
  obtain first w1 where first: "within e ?d (read_info_raw e b (om_name meta)) w = Some (first, w1)"
    using run by (auto simp: put_def Let_def split: option.splits)
  obtain h_read where h_read: "history w1 = history w @ h_read" "asks (reads_info e b (om_name meta)) h_read"
    by (rule doesE [OF does_within [OF read_info_history [OF rec]] first]) auto
  define old where "old = (case first of Inr info \<Rightarrow> Some info | Inl _ \<Rightarrow> None)"
  show ?thesis
  proof (cases "first = Inl Object_not_found \<or> (\<exists>info. first = Inr info)")
    case True
    then have "put_new e ?d b meta rd r old w1 = Some (res, w')"
      using run first by (auto simp: put_def Let_def old_def)
    then obtain stored h where "history w' = history w1 @ h" "put_trace e b meta (remaining r) old stored h"
      "\<not> stored \<longrightarrow> (\<exists>error. res = Inl error)"
      by (rule doesE [OF put_new_history [OF rec source n]]) blast
    then show ?thesis
      using first h_read True unfolding old_def
      by (intro exI [of _ first] exI [of _ w1] exI [of _ h_read] exI [of _ h]) auto
  next
    case False
    then have "\<exists>error. first = Inl error \<and> res = Inl error \<and> w' = w1"
      using run first by (auto simp: put_def Let_def split: sum.splits object_error.splits)
    then show ?thesis
      using first h_read by (intro exI [of _ first] exI [of _ w1] exI [of _ h_read] exI [of _ "[]"]) auto
  qed
qed

section \<open>Following links\<close>

definition no_chain_error :: "'x object_error \<Rightarrow> bool" where
  "no_chain_error error \<longleftrightarrow> (case error of Link_cycle _ \<Rightarrow> False | Link_depth_exceeded _ _ \<Rightarrow> False | _ \<Rightarrow> True)"

lemma no_chain_jetstream: "no_chain_error (object_jetstream_error error)"
  by (simp add: no_chain_error_def object_jetstream_error_def split: js_error.splits)

lemma then_result_no_chain:
  assumes "then_result r f = Inl error" and "\<And>error. r = Inl error \<Longrightarrow> no_chain_error error"
    and "\<And>a error. f a = Inl error \<Longrightarrow> no_chain_error error"
  shows "no_chain_error error"
  using assms by (cases r) (auto simp: then_result_def)

lemma no_chain_fields:
  "headers_of_wire hs = Inl error \<Longrightarrow> no_chain_error error"
  "nonnegative_metadata_int64 field v = Inl error \<Longrightarrow> no_chain_error error"
  "positive_metadata_int field vo = Inl error \<Longrightarrow> no_chain_error error"
  "link_of_wire link = Inl error \<Longrightarrow> no_chain_error error"
  by (auto simp: no_chain_error_def headers_of_wire_def nonnegative_metadata_int64_def positive_metadata_int_def
      link_of_wire_def split: sum.splits if_splits option.splits)

lemma info_of_wire_no_chain: "info_of_wire bucket name timestamp wire = Inl error \<Longrightarrow> no_chain_error error"
  unfolding info_of_wire_def
  by (auto simp: no_chain_error_def [of "Unexpected_bucket _ _"] no_chain_error_def [of "Unexpected_object_name _ _"]
      no_chain_error_def [of "Invalid_object_name _ _"] no_chain_error_def [of "Invalid_object_metadata _"]
      split: if_splits sum.splits
      elim!: then_result_no_chain no_chain_fields)

lemma read_info_no_chain:
  "within e deadline (read_info_raw e b name) w = Some (Inl error, w') \<Longrightarrow> no_chain_error error"
  using info_of_wire_no_chain no_chain_jetstream
  by (auto simp: within_def read_info_raw_def with_literal_def object_remaining_def decode_object_def no_chain_error_def
      split: option.splits sum.splits if_splits prod.splits js_error.splits)

lemma read_target_no_chain:
  assumes "read_target e deadline link name w = Some (Inl error, w')"
  shows "no_chain_error error"
proof (cases "object_bind (ol_bucket link) :: 'a object_error + object_bucket")
  case (Inl e0)
  then have "no_chain_error e0"
    using no_chain_jetstream by (auto simp: object_bind_def no_chain_error_def split: sum.splits)
  with Inl assms show ?thesis by (simp add: read_target_def then_do_def pure_result_def)
next
  case (Inr target)
  then consider "within e deadline (read_info_raw e target name) w = Some (Inl error, w')" | "error = Link_to_deleted (ol_bucket link) name"
    using assms by (auto simp: read_target_def then_do_def pure_result_def fails_def returns_def
        split: option.splits sum.splits if_splits)
  then show ?thesis
    by cases (use read_info_no_chain in \<open>auto simp: no_chain_error_def [of "Link_to_deleted _ _"]\<close>)
qed

lemma read_target_history:
  assumes "records e history" and "read_target e deadline link name w = Some (r, w')"
  shows "\<exists>h. history w' = history w @ h \<and> length h \<le> 1"
proof (cases "object_bind (ol_bucket link) :: 'a object_error + object_bucket")
  case (Inl e0)
  then show ?thesis using assms(2) by (auto simp: read_target_def then_do_def pure_result_def)
next
  case (Inr target)
  then obtain r1 where "within e deadline (read_info_raw e target name) w = Some (r1, w')"
    using assms(2) by (auto simp: read_target_def then_do_def pure_result_def fails_def returns_def
        split: option.splits sum.splits if_splits)
  from does_within [OF read_info_history [OF assms(1)]] this show ?thesis
    by (rule doesE) (auto simp: asks_def)
qed

text \<open>What following links may end with.\<close>

definition link_outcome :: "nat \<Rightarrow> 'x object_error + object_bucket \<times> store_info \<Rightarrow> bool" where
  "link_outcome max_links r \<longleftrightarrow>
     (case r of
        Inr (b, info) \<Rightarrow> oi_link info = None \<and> \<not> oi_deleted info
      | Inl (Link_cycle ids) \<Rightarrow>
          ids \<noteq> [] \<and> distinct (butlast ids) \<and> last ids \<in> set (butlast ids) \<and> length ids \<le> max_links + 1
      | Inl (Link_depth_exceeded limit info) \<Rightarrow> limit = max_links \<and> oi_link info \<noteq> None
      | Inl _ \<Rightarrow> True)"

lemma link_outcome_error: "no_chain_error error \<Longrightarrow> link_outcome max_links (Inl error)"
  by (cases error) (simp_all add: link_outcome_def no_chain_error_def)

lemma link_loop_outcome:
  assumes "records e history"
  shows "link_loop e max_links deadline depth path b info w = Some (r, w') \<Longrightarrow>
     \<not> oi_deleted info \<Longrightarrow> distinct path \<Longrightarrow> length path = depth + 1 \<Longrightarrow> depth \<le> max_links \<Longrightarrow>
     link_outcome max_links r \<and> (\<exists>h. history w' = history w @ h \<and> length h \<le> max_links - depth)"
  using assms
proof (induction e max_links deadline depth path b info w rule: link_loop.induct)
  case (1 e max_links deadline depth path b info w)
  note unfolds = link_loop.simps [of e max_links deadline depth path b info w]
  show ?case
  proof (cases "oi_link info")
    case None
    then show ?thesis using 1(2,3) unfolds by (auto simp: link_outcome_def)
  next
    case (Some link)
    show ?thesis
    proof (cases "ol_name link")
      case None
      then show ?thesis using 1(2) Some unfolds by (auto simp: link_outcome_def)
    next
      case (Some name)
      note link = \<open>oi_link info = Some link\<close> and name = this
      let ?id = "identity_of (ol_bucket link) name"
      consider (deep) "depth \<ge> max_links" | (cycle) "\<not> depth \<ge> max_links" "?id \<in> set path"
        | (on) "\<not> depth \<ge> max_links" "?id \<notin> set path" by blast
      then show ?thesis
      proof cases
        case deep
        then show ?thesis using 1(2) link name unfolds by (auto simp: link_outcome_def)
      next
        case cycle
        then have "r = Inl (Link_cycle (rev (?id # path)))" "w' = w" using 1(2) link name unfolds by auto
        then show ?thesis using cycle 1(4,5) by (auto simp: link_outcome_def butlast_append)
      next
        case on
        then obtain r1 w1 where read: "read_target e deadline link name w = Some (r1, w1)"
          using 1(2) link name unfolds by (auto split: option.splits)
        obtain h1 where h1: "history w1 = history w @ h1" "length h1 \<le> 1"
          using read_target_history [OF 1(7) read] by blast
        show ?thesis
        proof (cases r1)
          case (Inl error)
          then have "r = Inl error" "w' = w1" using 1(2) link name unfolds on read by auto
          then show ?thesis
            using link_outcome_error [OF read_target_no_chain] read Inl h1 on by fastforce
        next
          case (Inr found)
          then obtain target target_info where found: "r1 = Inr (target, target_info)" by (cases found) auto
          have go: "link_loop e max_links deadline (depth + 1) (?id # path) target target_info w1 = Some (r, w')"
            using 1(2) link name unfolds on read found by auto
          have live: "\<not> oi_deleted target_info"
            using read found by (auto simp: read_target_def then_do_def pure_result_def fails_def returns_def
                split: option.splits sum.splits if_splits)
          from 1(1) [OF link name on] read found go live 1(4,5,7) on
          have "link_outcome max_links r \<and> (\<exists>h. history w' = history w1 @ h \<and> length h \<le> max_links - (depth + 1))"
            by simp
          then obtain h2 where "link_outcome max_links r" "history w' = history w1 @ h2" "length h2 \<le> max_links - (depth + 1)"
            by blast
          then show ?thesis using h1 on by (intro conjI exI [of _ "h1 @ h2"]) auto
        qed
      qed
    qed
  qed
qed

text \<open>Base64 of a text that is not empty is a token of a subject: this is what its alphabet is for.\<close>

definition base64_tokens :: "('x, 'c, 'w) object_env \<Rightarrow> bool" where
  "base64_tokens e \<longleftrightarrow> (\<forall>s. s \<noteq> [] \<longrightarrow> token_ok False True (ov_base64 e s) \<and> CHR ''.'' \<notin> set (ov_base64 e s))"

lemma bucket_subject_literal:
  assumes "token_ok False True t" and "CHR ''.'' \<notin> set t" and "validate_bucket bucket = None" and "k = CHR ''M'' \<or> k = CHR ''C''"
  shows "literal subject_of_string (''$O.'' @ bucket @ [CHR ''.'', k, CHR ''.''] @ t) \<noteq> None"
proof -
  let ?s = "''$O.'' @ bucket @ [CHR ''.'', k, CHR ''.''] @ t"
  have bucket: "valid_bucket bucket" using assms(3) validate_bucket_None by blast
  then have "CHR ''.'' \<notin> set bucket" using plain_characters by (auto simp: valid_bucket_def)
  then have "split_on CHR ''.'' (''$O'' @ CHR ''.'' # bucket @ CHR ''.'' # [k] @ CHR ''.'' # t) = [''$O'', bucket, [k], t]"
    using assms(2,4) by (subst split_on_append; auto)
  then have "split_on CHR ''.'' ?s = [''$O'', bucket, [k], t]" by simp
  moreover have "token_ok False False ''$O''" "token_ok False False [k]"
    using assms(4) by (auto simp: token_ok_def plain_def is_forbidden_character_def)
  ultimately have "valid_subject False ?s"
    using bucket_token_ok [OF bucket] assms(1) by (simp add: valid_subject_def)
  then have "validate False ?s = Inr ?s" by (simp add: validate_valid)
  then show ?thesis by (simp add: literal_def subject_of_string_def)
qed

lemma metadata_subject_literal:
  assumes "base64_tokens e" and "validate_bucket bucket = None" and "name \<noteq> []"
  shows "literal subject_of_string (metadata_subject e bucket name) \<noteq> None"
  using bucket_subject_literal [of "ov_base64 e name" bucket "CHR ''M''"] assms by (simp add: base64_tokens_def metadata_subject_def)

lemma object_bind_bucket:
  "object_bind bucket = Inr target \<Longrightarrow> ob_bucket target = bucket \<and> validate_bucket bucket = None"
  by (auto simp: object_bind_def object_config_v_def default_object_config_def split: sum.splits option.splits)

definition well_linked :: "store_info \<Rightarrow> bool" where
  "well_linked info \<longleftrightarrow> (\<forall>link. oi_link info = Some link \<longrightarrow> ol_name link \<noteq> Some [])"

lemma link_of_wire_named: "link_of_wire link = Inr (Some l) \<Longrightarrow> ol_name l \<noteq> Some []"
  by (auto simp: link_of_wire_def object_name_of_string_def split: option.splits sum.splits if_splits)

lemma info_of_wire_well_linked: "info_of_wire bucket name timestamp wire = Inr info \<Longrightarrow> well_linked info"
  using link_of_wire_named
  by (fastforce simp: info_of_wire_def then_result_def well_linked_def split: if_splits sum.splits)

lemma read_target_returns:
  assumes "base64_tokens e" and "name \<noteq> []"
  shows "\<exists>r w'. read_target e deadline link name w = Some (r, w') \<and> (\<forall>target info. r = Inr (target, info) \<longrightarrow> well_linked info)"
proof (cases "object_bind (ol_bucket link) :: 'a object_error + object_bucket")
  case (Inl e0)
  then show ?thesis by (simp add: read_target_def then_do_def pure_result_def)
next
  case (Inr target)
  have "literal subject_of_string (metadata_subject e (ob_bucket target) name) \<noteq> None"
    using metadata_subject_literal [OF assms(1) _ assms(2)] object_bind_bucket [OF Inr] by simp
  then obtain s where s: "literal subject_of_string (metadata_subject e (ob_bucket target) name) = Some s" by blast
  have "\<exists>r w'. within e deadline (read_info_raw e target name) w = Some (r, w') \<and> (\<forall>info. r = Inr info \<longrightarrow> well_linked info)"
    using info_of_wire_well_linked
    by (auto simp: within_def read_info_raw_def with_literal_def s decode_object_def split: sum.splits prod.splits js_error.splits)
  then obtain r1 w1 where "within e deadline (read_info_raw e target name) w = Some (r1, w1)" "\<forall>info. r1 = Inr info \<longrightarrow> well_linked info"
    by blast
  then show ?thesis
    using Inr by (cases r1) (auto simp: read_target_def then_do_def pure_result_def fails_def returns_def)
qed

lemma link_loop_returns:
  assumes "base64_tokens e"
  shows "well_linked info \<Longrightarrow> \<exists>r w'. link_loop e max_links deadline depth path b info w = Some (r, w')"
  using assms
proof (induction e max_links deadline depth path b info w rule: link_loop.induct)
  case (1 e max_links deadline depth path b info w)
  note unfolds = link_loop.simps [of e max_links deadline depth path b info w]
  show ?case
  proof (cases "\<exists>link name. oi_link info = Some link \<and> ol_name link = Some name \<and> \<not> depth \<ge> max_links \<and>
      identity_of (ol_bucket link) name \<notin> set path")
    case False
    then show ?thesis unfolding unfolds by (auto split: option.splits)
  next
    case True
    then obtain link name where on: "oi_link info = Some link" "ol_name link = Some name" "\<not> depth \<ge> max_links"
      "identity_of (ol_bucket link) name \<notin> set path" by blast
    then have "name \<noteq> []" using 1(2) by (auto simp: well_linked_def)
    then obtain r1 w1 where read: "read_target e deadline link name w = Some (r1, w1)"
      "\<forall>target info. r1 = Inr (target, info) \<longrightarrow> well_linked info"
      using read_target_returns [OF 1(3)] by blast
    show ?thesis
    proof (cases r1)
      case (Inl error)
      then show ?thesis using on read unfolds by simp
    next
      case (Inr found)
      then obtain target target_info where found: "r1 = Inr (target, target_info)" by (cases found) auto
      from 1(1) [OF on, of "(Inr (target, target_info), w1)"] read found 1(3)
      show ?thesis using on unfolds by simp
    qed
  qed
qed

text \<open>
  C18: Following links ends after at most \<open>max_links\<close> requests. It ends at an object that is neither a
  link nor deleted, or with an error; a cycle is answered with the names on the way, of which none
  repeats but the last, and the depth is exceeded only by a further link.
\<close>

theorem links_end:
  assumes "base64_tokens e" and "records e history" and "\<not> oi_deleted info" and "well_linked info"
  shows "\<exists>r w' h. resolve_link e max_links b info deadline w = Some (r, w') \<and> link_outcome max_links r \<and>
     history w' = history w @ h \<and> length h \<le> max_links"
proof -
  let ?path = "[identity_of (oi_bucket info) (oi_name info)]"
  obtain r w' where "link_loop e max_links deadline 0 ?path b info w = Some (r, w')"
    using link_loop_returns [OF assms(1,4)] by blast
  with link_loop_outcome [OF assms(2) this assms(3)] show ?thesis by (auto simp: resolve_link_def)
qed

section \<open>Storing returns\<close>

definition answers_always :: "('w \<Rightarrow> ('r \<times> 'w) option) \<Rightarrow> bool" where
  "answers_always f \<longleftrightarrow> (\<forall>w. \<exists>r w'. f w = Some (r, w'))"

lemma answers_alwaysD: "answers_always f \<Longrightarrow> \<exists>r w'. f w = Some (r, w')"
  by (simp add: answers_always_def)

lemma then_do_answers: "answers_always f \<Longrightarrow> (\<And>a. answers_always (g a)) \<Longrightarrow> answers_always (then_do f g)"
  unfolding answers_always_def then_do_def by (fastforce split: option.splits sum.splits)

lemma within_answers: "(\<And>timeout. answers_always (f timeout)) \<Longrightarrow> answers_always (within e deadline f)"
  by (simp add: answers_always_def within_def split: sum.splits)

lemma js_publish_answers: "answers_always (js_publish js timeout headers None None s payload)"
  unfolding answers_always_def
proof
  fix w
  have "walks (js_link js) (\<lambda>_ _ _. True)" by (simp add: walks_def)
  then have "\<exists>r w'. request_msg_retry (js_link js) timeout (250 * 10 ^ 6) (Some 2) (message_v s headers payload) w = Some (r, w')"
    by (rule request_msg_retry_outcome [of "js_link js" "\<lambda>_ _ _. True" "250 * 10 ^ 6" 2 timeout "message_v s headers payload" w]) auto
  then obtain r w' where "request_msg_retry (js_link js) timeout (250 * 10 ^ 6) (Some 2) (message_v s headers payload) w = Some (r, w')"
    by blast
  then show "\<exists>r w'. js_publish js timeout headers None None s payload w = Some (r, w')"
    by (cases r) (simp_all add: js_publish_def publish_message_plain default_publish_retry_def empty_options_fields)
qed

lemma object_publish_answers:
  assumes "literal subject_of_string subj \<noteq> None"
  shows "answers_always (object_publish e timeout headers subj payload)"
  using assms js_publish_answers [of "ov_js e" timeout headers subj payload] literal_same(1) [of subj]
  by (fastforce simp: answers_always_def object_publish_def with_literal_def split: option.splits)

lemma read_info_answers:
  "literal subject_of_string (metadata_subject e (ob_bucket b) name) \<noteq> None \<Longrightarrow> answers_always (read_info_raw e b name timeout)"
  by (auto simp: answers_always_def read_info_raw_def with_literal_def split: sum.splits prod.splits js_error.splits)

lemma purge_answers:
  assumes "literal subject_of_string subj \<noteq> None"
  shows "answers_always (purge_chunks e timeout b subj)"
proof -
  obtain s where "literal subject_of_string subj = Some s" using assms by blast
  then have "literal filter_of_string subj = Some subj" by (rule subject_is_filter)
  then show ?thesis by (auto simp: answers_always_def purge_chunks_def split: sum.splits prod.splits)
qed

lemma publish_metadata_answers:
  "literal subject_of_string (metadata_subject e (ob_bucket b) name) \<noteq> None \<Longrightarrow> answers_always (publish_metadata e deadline b name wire)"
  unfolding publish_metadata_def
  by (intro then_do_answers within_answers object_publish_answers) (simp_all add: answers_always_def pure_result_def)

lemma publish_pieces_answers:
  "literal subject_of_string (chunk_subject (ob_bucket b) nuid) \<noteq> None \<Longrightarrow> answers_always (publish_pieces e deadline b nuid ps)"
  by (induction ps) (auto simp: answers_always_def [of "returns ()"] returns_def intro!: then_do_answers within_answers object_publish_answers)

lemma put_returns:
  assumes source: "byte_source rd remaining" and n: "0 < om_chunk_size meta"
    and meta: "literal subject_of_string (metadata_subject e (ob_bucket b) (om_name meta)) \<noteq> None"
    and chunks: "\<And>inbox. literal subject_of_string (chunk_subject (ob_bucket b) (ov_base64 e inbox)) \<noteq> None"
    and old: "\<And>info w1. within e (timeout_deadline e timeout w) (read_info_raw e b (om_name meta)) w = Some (Inr info, w1) \<Longrightarrow>
      literal subject_of_string (chunk_subject (ob_bucket b) (oi_nuid info)) \<noteq> None"
  shows "\<exists>res w'. put e timeout b meta rd r w = Some (res, w')"
proof -
  let ?d = "timeout_deadline e timeout w" and ?n = "nat (om_chunk_size meta)"
  have reading: "answers_always (within e ?d (read_info_raw e b (om_name meta)))"
    by (intro within_answers read_info_answers meta)
  have finish: "answers_always (finish_put e ?d b (om_name meta) old)"
    if "\<And>info. old = Some info \<Longrightarrow> literal subject_of_string (chunk_subject (ob_bucket b) (oi_nuid info)) \<noteq> None" for old
    unfolding answers_always_def
  proof
    fix w
    obtain r1 w1 where "within e ?d (read_info_raw e b (om_name meta)) w = Some (r1, w1)"
      using answers_alwaysD [OF reading] by blast
    moreover have "\<exists>cleanup w2. purge_replaced e ?d b old w1 = Some (cleanup, w2)"
      using that purge_answers [of _ e _ b]
      by (auto simp: purge_replaced_def purge_old_def answers_always_def split: option.splits sum.splits)
    ultimately show "\<exists>r w'. finish_put e ?d b (om_name meta) old w = Some (r, w')" by (auto simp: finish_put_def)
  qed
  have new: "\<exists>res w'. put_new e ?d b meta rd r old w1 = Some (res, w')"
    if "\<And>info. old = Some info \<Longrightarrow> literal subject_of_string (chunk_subject (ob_bucket b) (oi_nuid info)) \<noteq> None" for old w1
  proof -
    obtain inbox w2 where inbox: "ov_inbox e w1 = (inbox, w2)" by (cases "ov_inbox e w1")
    define nuid where "nuid = ov_base64 e inbox"
    have up: "upload_chunks e ?d b nuid ?n rd r = then_do (publish_pieces e ?d b nuid (cut ?n (remaining r)))
        (\<lambda>_. returns (upload_of e ?n nuid (remaining r)))"
      using byte_source.upload_chunks_pieces [OF source, of ?n e ?d b nuid r] n by simp
    have lit: "literal subject_of_string (chunk_subject (ob_bucket b) nuid) \<noteq> None" using chunks by (simp add: nuid_def)
    have ret: "answers_always (returns a)" for a by (simp add: answers_always_def returns_def)
    have pieces: "answers_always (publish_pieces e ?d b nuid (cut ?n (remaining r)))"
      by (rule publish_pieces_answers) (rule lit)
    have described: "answers_always (publish_metadata e ?d b (om_name meta) (wire_of_upload b meta upload))" for upload
      by (rule publish_metadata_answers) (rule meta)
    have uploaded: "answers_always (upload_chunks e ?d b nuid ?n rd r)"
      unfolding up using pieces ret by (rule then_do_answers)
    have storing: "answers_always (store_object e ?d b meta nuid rd r)"
      unfolding store_object_def using uploaded described by (rule then_do_answers)
    obtain r2 w3 where store: "store_object e ?d b meta nuid rd r w2 = Some (r2, w3)"
      using answers_alwaysD [OF storing, of w2] by blast
    have nuid: "new_nuid e w1 = (nuid, w2)" using inbox by (simp add: new_nuid_def nuid_def)
    show ?thesis
    proof (cases r2)
      case (Inl error)
      obtain cleanup w4 where "purge_chunks e None b (chunk_subject (ob_bucket b) nuid) w3 = Some (cleanup, w4)"
        using answers_alwaysD [OF purge_answers [OF lit, of e None b], of w3] by blast
      with Inl store nuid show ?thesis by (simp add: put_new_def)
    next
      case (Inr u)
      with store nuid answers_alwaysD [OF finish [OF that]] show ?thesis by (simp add: put_new_def)
    qed
  qed
  obtain first w1 where first: "within e ?d (read_info_raw e b (om_name meta)) w = Some (first, w1)"
    using answers_alwaysD [OF reading] by blast
  show ?thesis
  proof (cases first)
    case (Inr info)
    then show ?thesis using first new [of "Some info" w1] old by (auto simp: put_def Let_def)
  next
    case (Inl error)
    then show ?thesis using first new [of None w1] by (cases error) (auto simp: put_def Let_def)
  qed
qed

section \<open>A bucket that keeps its history\<close>

definition demo_base64 :: "string \<Rightarrow> string" where
  "demo_base64 s = CHR ''b'' # map (\<lambda>c. if allowed_bucket_character c then c else CHR ''-'') s"

definition demo_recorded :: "(unit, unit, unit exchange list) object_env" where
  "demo_recorded = \<lparr>ov_js = \<lparr>
       js_link = \<lparr>request_msg = (\<lambda>timeout m w. (Inr (demo_object_reply m), w @ [(m, Inr (demo_object_reply m))])),
         link_now = (\<lambda>w. 0), sleep_until = (\<lambda>d w. w)\<rparr>,
       js_prefix = ''$JS.API'', js_span_string = (\<lambda>n. show_nat n),
       js_decode_publish = (\<lambda>payload. Inr \<lparr>pb_error = None, pb_stream = Some ''OBJ_B'', pb_sequence = Some 1,
         pb_duplicate = None, pb_domain = None, pb_batch = None, pb_count = None\<rparr>),
       js_encode_get = (\<lambda>n. Inr (show_int n)), js_encode_purge = (\<lambda>r. Inr []),
       js_decode_purge = (\<lambda>payload. Inr \<lparr>pu_error = None, pu_purged = 0\<rparr>)\<rparr>,
     ov_base64 = demo_base64, ov_sha256 = (\<lambda>s. s), ov_encode = (\<lambda>wire. Inr (wo_name wire)), ov_decode = demo_object_wire,
     ov_inbox = (\<lambda>w. (''N'', w)), ov_push_create = (\<lambda>timeout inbox filtr w. (Inr (), w)),
     ov_push_next = (\<lambda>timeout c w. (Inl Push_closed, w)), ov_push_release = (\<lambda>c w. w)\<rparr>"

lemma demo_records: "records demo_recorded (\<lambda>w. w)"
  by (simp add: records_def demo_recorded_def)

lemma demo_base64_token: "token_ok False final (demo_base64 s) \<and> CHR ''.'' \<notin> set (demo_base64 s)"
proof -
  have "allowed_bucket_character CHR ''b''" "allowed_bucket_character CHR ''-''"
    by (simp_all add: allowed_bucket_character_def letter_or_digit_def)
  then have allowed: "\<forall>c \<in> set (demo_base64 s). allowed_bucket_character c" unfolding demo_base64_def by auto
  have "plain c \<and> c \<noteq> CHR ''.''" if "c \<in> set (demo_base64 s)" for c
    using that allowed plain_characters(1) by blast
  moreover have "demo_base64 s \<noteq> []" by (simp add: demo_base64_def)
  ultimately show ?thesis unfolding token_ok_def list_all_iff by blast
qed

lemma demo_tokens: "base64_tokens demo_recorded"
  using demo_base64_token by (simp add: base64_tokens_def demo_recorded_def)

lemma demo_bucket_valid: "validate_bucket ''B'' = None"
  by (simp add: validate_bucket_def allowed_bucket_character_def letter_or_digit_def)

lemma demo_literals:
  "name \<noteq> [] \<Longrightarrow> literal subject_of_string (metadata_subject demo_recorded ''B'' name) \<noteq> None"
  "literal subject_of_string (chunk_subject ''B'' (demo_base64 s)) \<noteq> None"
  "literal subject_of_string (chunk_subject ''B'' ''N'') \<noteq> None"
proof -
  show "name \<noteq> [] \<Longrightarrow> literal subject_of_string (metadata_subject demo_recorded ''B'' name) \<noteq> None"
    by (rule metadata_subject_literal [OF demo_tokens demo_bucket_valid])
  show "literal subject_of_string (chunk_subject ''B'' (demo_base64 s)) \<noteq> None"
    using bucket_subject_literal [of "demo_base64 s" "''B''" "CHR ''C''"] demo_base64_token demo_bucket_valid
    by (simp add: chunk_subject_def)
  show "literal subject_of_string (chunk_subject ''B'' ''N'') \<noteq> None"
    using bucket_subject_literal [of "''N''" "''B''" "CHR ''C''"] demo_bucket_valid
    by (simp add: chunk_subject_def token_ok_def plain_def is_forbidden_character_def)
qed

lemma demo_old:
  assumes "within demo_recorded None (read_info_raw demo_recorded demo_objects_bucket ''o'') w = Some (Inr info, w1)"
  shows "oi_nuid info = ''N''"
proof -
  let ?s = "metadata_subject demo_recorded ''B'' ''o''"
  have fields: "ob_bucket demo_objects_bucket = ''B''" "ob_stream demo_objects_bucket = ''OBJ_B''"
    "ov_decode demo_recorded = demo_object_wire" "js_prefix (ov_js demo_recorded) = ''$JS.API''"
    "\<And>m w. request_msg (js_link (ov_js demo_recorded)) None m w = (Inr (demo_object_reply m), w @ [(m, Inr (demo_object_reply m))])"
    by (simp_all add: demo_objects_bucket_def demo_recorded_def)
  obtain s where "literal subject_of_string ?s = Some s" using demo_literals(1) [of "''o''"] by auto
  moreover from this have "s = ?s" by (rule literal_same)
  ultimately have s: "literal subject_of_string ?s = Some ?s" by simp
  let ?api = "api_subject (ov_js demo_recorded) [''DIRECT'', ''GET'', ''OBJ_B'', ?s]"
  have "take 4 ?api = ''$JS.''" "last ?api = CHR ''o''"
    by (simp_all add: api_subject_def fields metadata_subject_def demo_recorded_def demo_base64_def
        allowed_bucket_character_def letter_or_digit_def)
  then have "stored_message ''OBJ_B'' (demo_object_reply (message_v ?api [] [])) = (Inr
     \<lparr>sm_subject = ''s'', sm_sequence = 1, sm_timestamp = ''now'',
      sm_headers = m_headers (demo_object_reply (message_v ?api [] [])), sm_payload = ''o''\<rparr> :: unit js_error + stored)"
    using demo_stored [of ?api] by simp
  moreover have "demo_object_wire ''o'' = Inr (wire_of_upload demo_objects_bucket demo_objects_meta demo_upload)"
    by (simp add: demo_object_wire_def)
  ultimately have "info_of_wire ''B'' ''o'' ''now'' (wire_of_upload demo_objects_bucket demo_objects_meta demo_upload) =
      (Inr info :: unit object_error + store_info)"
    using assms by (simp add: within_def object_remaining_def read_info_raw_def with_literal_def fields s stream_get_last_def
        js_request_def decode_object_def)
  moreover have "info_of_wire ''B'' ''o'' ''now'' (wire_of_upload demo_objects_bucket demo_objects_meta demo_upload) =
      (Inr demo_object_info :: unit object_error + store_info)"
    by code_simp
  ultimately have "info = demo_object_info" by simp
  then show ?thesis by (simp add: demo_object_info_def)
qed

theorem put_keeps_order_witness:
  "\<exists>res w' h_read h. put demo_recorded None demo_objects_bucket demo_objects_meta content_reader ''abc'' [] = Some (res, w') \<and>
     w' = h_read @ h \<and> asks (reads_info demo_recorded demo_objects_bucket ''o'') h_read \<and>
     (h = [] \<or> (\<exists>old stored. put_trace demo_recorded demo_objects_bucket demo_objects_meta ''abc'' old stored h))"
proof -
  have fields: "om_chunk_size demo_objects_meta = 2" "om_name demo_objects_meta = ''o''" "ob_bucket demo_objects_bucket = ''B''"
    "ov_base64 demo_recorded = demo_base64"
    by (simp_all add: demo_objects_meta_def demo_objects_bucket_def demo_recorded_def)
  obtain res w' where run: "put demo_recorded None demo_objects_bucket demo_objects_meta content_reader ''abc'' [] = Some (res, w')"
    using put_returns [OF string_source.byte_source_axioms, of demo_objects_meta demo_recorded demo_objects_bucket None "[]" "''abc''"]
      demo_literals demo_old [of "[]"] by (auto simp: fields timeout_deadline_def)
  from put_keeps_order [OF demo_records string_source.byte_source_axioms _ run] run
  show ?thesis by (auto simp: fields)
qed

theorem links_end_witness:
  "\<exists>r w' h. resolve_link demo_recorded 10 demo_objects_bucket
       (demo_object_info\<lparr>oi_link := Some \<lparr>ol_bucket = ''B'', ol_name = Some ''o''\<rparr>\<rparr>) None [] = Some (r, w') \<and>
     link_outcome 10 r \<and> w' = h \<and> length h \<le> 10"
  using links_end [OF demo_tokens demo_records, of "demo_object_info\<lparr>oi_link := Some \<lparr>ol_bucket = ''B'', ol_name = Some ''o''\<rparr>\<rparr>"
      10 demo_objects_bucket None "[]"]
  by (simp add: demo_object_info_def well_linked_def)

end
