(* ===== verification/Spec2Isabelle.thy ===== *)
theory Spec2Isabelle
  imports GoFailoverProtocol ClientWire ClientPings ConnectionProps
    KeyValueCas KeyList ServiceRequest ServiceCollect ObjectOrder
begin

text \<open>
  \<^bold>\<open>Verification library for the OCaml NATS client and its Go interop peer\<close>

  The repository has two programs that talk to each other over a NATS server. lib/ is a NATS
  client in OCaml: subjects, headers, the wire protocol and a client state machine that does no
  input or output, and on top of it an Eio connection with reconnects (lib/eio/). The Go program
  interop/nats-ocaml-interop-peer is the other side of the interoperability tests: it uses the
  official Go client, validates what the OCaml side sends and drives both through handshakes,
  reconnects, leader kills and failures.

  \<^bold>\<open>The OCaml client.\<close> From the bottom up:
  \<^item> Subject (lib/subject.ml, lib/queue_group.ml): the one-pass scan of subjects and filters, and
    its equivalence with checking each token.
  \<^item> Header (lib/header.ml): headers as lists of validated entries, construction and lookup.
  \<^item> Packet, PacketReader (lib/packet.ml): framing and the incremental reader over slices. The
    reader is refined to a specification on the whole input; every byte is accounted for.
  \<^item> Codec, CodecProps (lib/op.ml, lib/message.ml, lib/codec.ml): operations, decoder, encoder,
    limits. What the encoder accepts is read back, for any sequence of operations and any
    slicing.
  \<^item> Endpoint, Pool (lib/endpoint.ml): URLs, their order as an instance of \<open>linorder\<close>, and the
    pool of candidate servers with its invariant. The locale \<open>candidate_pool\<close> is what a dialler
    relies on, interpreted for the pool.
  \<^item> Dial (lib/eio/connection.ml, the dialling functions): which servers are tried, in which
    order, and that connecting ends.
  \<^item> Ping_Queue (lib/client.ml): the two-list queue of unanswered pings as an interpretation of
    the locale \<open>fifo\<close>.
  \<^item> Client (lib/client.ml, lib/info.ml, lib/config.ml): the state machine, operation by
    operation. ClientTable states its contract (a table of subscriptions that each accepted step
    changes in a given way) and its invariant; ClientSteps shows that every step meets them;
    ClientProps, ClientWire and ClientPings draw the consequences for whole runs: silence after
    an unsubscribe, the bound of an automatic unsubscribe, replay as a server reads it, pings in
    turn, the end of a silent connection.
  \<^item> JetStreamApi (lib/eio/jetstream.ml, request_msg_retry in lib/eio/connection.ml): the request
    that is repeated while nobody answers, in time for its deadline and its number of attempts,
    over a log of what it asks for and when; publications with their options; reading and purging
    stored messages.
  \<^item> Timestamp, KeyValue (lib/eio/key_value.ml): keys, bucket configurations, reads and writes.
    KeyValueProps shows that keys are subjects, that time stamps follow the calendar and that the
    headers of a write are read back, also by Go's duration parser of GoDuration. KeyValueCas
    states what a server's log promises and derives compare and set and exclusive creation.
  \<^item> KeyWatch, KeyList (lib/eio/key_value.ml): watches with their one marker, listings over a
    temporary consumer, histories and the purge of deletion markers. A message that is no entry
    is an error and is not counted, so that it can keep the marker back.
  \<^item> ObjectStore, ObjectContent, ObjectManage (lib/eio/object_store.ml): objects as chunks and a JSON
    message that describes them; putting, reading, links, new metadata, deletion, watches and
    listings. ObjectProps states what a reader of slices promises as the locale \<open>byte_source\<close>,
    interpreted for the readers of strings and files, and what survives the JSON message;
    ObjectClaims follows content from the upload to the reader that verifies it, and ObjectOrder,
    over a history of requests and answers, shows in which order an object is stored and that
    following links ends.
  \<^item> Auth (lib/auth.ml): which credentials a CONNECT carries for which INFO.
  \<^item> Connection (lib/eio/connection.ml, the owner fiber): its state around the client state
    machine, and a step for each thing it takes up: a command, incoming bytes, a timer, a reconnect,
    a handshake that takes too long, the end of a subscription's drain. ConnectionProps shows that a configuration that requires TLS
    is never answered in the clear.
  \<^item> ServiceNames, Service, ServiceDiscovery (lib/eio/service.ml): versions (the scanner accepts
    the semantic versions), configurations, endpoints and groups, the answer to a request,
    counters, and what a service says of itself against what Discovery reads. ServiceRequest cuts
    the answer at its mutex: fibers that answer together send one answer. ServiceSteps is the life
    of a service as the interleaving of the fibers that add endpoints, serve, fail and stop it, and
    that may be cancelled where they wait unprotected;
    ServiceProps has its invariants and ServiceClaims what follows, also what a cancelled fiber leaves
    behind. ServiceCollect is the loop that collects answers until its deadline.

  \<^bold>\<open>The Go peer.\<close> All of it is under interop/nats-ocaml-interop-peer:
  \<^item> GoBase, GoChecks, GoStores: the values of the Go client and the validators on them (headers,
    acknowledgements, consumer, stream, Key-Value, Object Store and Service information).
  \<^item> GoIO: effects. An effectful Go function is a value of a small monad over an opaque outside
    state; the calls it makes (nats.go, os, time) go through an \<open>api\<close>, a record of functions that
    stands for the packages, and are recorded as a trace. Time is a clock that only moves on;
    a polling loop recurses on the time that is left, so it ends.
  \<^item> GoModes: options, authentication, the dispatch of modes, exit codes (main.go, reconnect.go).
  \<^item> GoRetry: every wait and retry loop and what its success or its timeout means.
  \<^item> GoControl: the handshake control shared by callbacks and the main goroutine, as a step
    relation over its critical sections, with reachability and invariants.
  \<^item> GoTrace: the logic the scripts are proved in: what a run gives, monitors over traces and a
    weakest precondition calculus.
  \<^item> GoPeers, GoProtocol: the core, reconnect and service-failure scripts, the discipline they
    keep on every path, and the exact conversation of a successful run.
  \<^item> GoFiles: ready files, Service requests, publications and listings.
  \<^item> GoJetStream, GoOrdered, GoAdmin, GoKeyValue, GoObject, GoService: the scripts of the
    JetStream (jetstream*.go), Key-Value (jetstream_kv.go), Object Store (jetstream_object.go) and
    Service (service*.go) modes, cut into phases at the blank lines of the source; GoDuration is
    the duration parser a Key-Value check uses. GoSteady has the rules for steps that leave a
    monitor where it is, GoStoreProtocol the discipline of all ten scripts.
  \<^item> GoFailover, GoFailoverStores: the scripts that cross a reconnect, the loss of several nodes or
    the kill of a stream's leader (jetstream_ordered_reconnect.go, jetstream_kv_ordered_reconnect.go,
    jetstream_object_reconnect.go). Before a kill the peer moves to a server that survives, so a
    setup answers with the connection that is open when it ends. GoFailoverProtocol shows that the
    scripts keep the discipline on whichever connection they are on, except that the Object Store
    script, whose deferred close stays with its first connection, may leave the second one open.

  Prelude holds what both sides share: strings as byte lists, splitting and joining, decimal
  notation, and the collections \<open>check_simps\<close>, \<open>io_unfold\<close> and \<open>trace_intros\<close>.

  \<^bold>\<open>Conventions.\<close> An OCaml integer is a number with \<open>wrap63\<close> written where the code adds, or a
  natural number where the code has shown it to be one; run properties of the client are stated
  for runs shorter than \<open>2 ^ 62\<close> steps, the range in which its counters do not wrap. A loop that
  an outside reader could keep from ending is a partial function, and its property says that it
  returns. Errors are values of sums; a rejected step leaves the state its caller keeps. Cancellation
  of a fiber is modelled in ServiceRequest and ServiceSteps only.

  \<^bold>\<open>Parameters.\<close> Code of other packages is never defined here: the byte reader of bytesrw
  (\<open>reader_laws\<close>), the JSON codec and the clock of the client (\<open>platform\<close>), one connection
  attempt and handshake of the dialler, one request and the clock of the connection (\<open>link\<close>), what
  surrounds the owner fiber of a connection (\<open>transport\<close>: the socket, TLS, dialling, the queues of
  the application; \<open>string_reader\<close>), the signing function of an authentication method, the
  JSON of JetStream (\<open>jetstream\<close>) and of services (\<open>service_codecs\<close>), the connection under
  Discovery (\<open>discovery_link\<close>; its laws in \<open>discovery_laws\<close> are hypotheses, not drawn from
  the models of the connection), the consumers under a watch or a listing (\<open>pull\<close>,
  \<open>one_shot\<close>; \<open>serves\<close> is what a listing relies on), Base64, SHA-256, JSON and the consumers of the
  Object Store (\<open>object_env\<close>, \<open>watch_source\<close>; \<open>delivers_pieces\<close> is what reading back relies on, \<open>records\<close> keeps what was asked and answered), the server's log (\<open>stream_server\<close>), the Go packages (\<open>api\<close>) and the constants and decoder of
  the micro package (\<open>micro_env\<close>). \<open>waitObjectUpdate\<close> and \<open>waitForFile\<close> read updates and ticks
  until a timer fires, and \<open>waitWithTimeout\<close> wakes up for a request that was taken meanwhile; how
  many can come first is for the outside to say, so the scripts that use them take a bound,
  \<open>fuel\<close>, at which they time out, and their properties hold for every bound.

  \<^bold>\<open>Not modelled.\<close> Printers. Of the Eio connection the pending limits and streams of
  subscriptions, the deadlines of waits and the promises callers wait on; of JetStream stream
  configuration and management, consumers, batches and asynchronous publishing; creating and
  listing Key-Value buckets; of the Object Store the streams under its buckets and files. The time stamp of a service is computed from a floating point clock. Tests, generated
  files and build files.
\<close>

end
